(* ===== verification/Remu_Prelude.thy ===== *)
theory Remu_Prelude
  imports Main "HOL-Library.Word"
begin

text \<open>
  Shared vocabulary of the development: the machine integers of the Rust sources as words of a
  fixed width, the little-endian byte splitting and joining that every core of the emulator uses,
  single-bit tests against a mask, and the collections of simplification rules the component
  theories extend. Nothing here models a particular source file.
\<close>

unbundle bit_operations_syntax

type_synonym u8 = "8 word"
type_synonym u16 = "16 word"
type_synonym u32 = "32 word"
type_synonym u64 = "64 word"

named_theorems flag_simps \<open>rules that evaluate flag updates and flag tests on a status word\<close>
named_theorems bus_defs \<open>definitions of the memory and stack plumbing of a core\<close>

subsection \<open>Little-endian halves of a 16-bit value\<close>

text \<open>
  \<open>le16 lo hi\<close> is the Rust expression \<open>lo as u16 | (hi as u16) << 8\<close>; \<open>lo8\<close> and \<open>hi8\<close> are
  \<open>v as u8\<close> and \<open>(v >> 8) as u8\<close>.
\<close>

definition le16 :: "u8 \<Rightarrow> u8 \<Rightarrow> u16" where
  "le16 lo hi = (ucast lo OR push_bit 8 (ucast hi))"

definition lo8 :: "u16 \<Rightarrow> u8" where
  "lo8 v = ucast v"

definition hi8 :: "u16 \<Rightarrow> u8" where
  "hi8 v = ucast (drop_bit 8 v)"

lemma lo8_le16 [simp]: "lo8 (le16 lo hi) = lo"
  by (rule bit_word_eqI) (auto simp: lo8_def le16_def bit_simps)

lemma hi8_le16 [simp]: "hi8 (le16 lo hi) = hi"
  by (rule bit_word_eqI) (auto simp: hi8_def le16_def bit_simps dest: bit_imp_le_length)

lemma le16_lo8_hi8 [simp]: "le16 (lo8 v) (hi8 v) = v"
  by (rule bit_word_eqI) (auto simp: lo8_def hi8_def le16_def bit_simps not_less)

lemma le16_inject: "le16 a b = le16 c d \<longleftrightarrow> a = c \<and> b = d"
  by (metis lo8_le16 hi8_le16)

lemma unat_u8_less: "unat (x :: u8) < 256"
  using unsigned_less [of x] by simp

lemma unat_u16_less: "unat (x :: u16) < 65536"
  using unsigned_less [of x] by simp

lemma unat_u32_less: "unat (x :: u32) < 4294967296"
  using unsigned_less [of x] by simp

lemma unat_le16: "unat (le16 lo hi) = unat lo + 256 * unat hi"
proof -
  have "unat (le16 lo hi) = (unat lo OR push_bit 8 (unat hi))"
    unfolding le16_def
    by (rule bit_eqI) (auto simp: bit_simps dest: bit_imp_le_length)
  also have "\<dots> = unat lo + push_bit 8 (unat hi)"
    by (rule disjunctive_add_eq_or [symmetric])
      (auto simp: bit_eq_iff bit_simps dest: bit_imp_le_length)
  finally show ?thesis
    by (simp add: push_bit_eq_mult)
qed

subsection \<open>Masks with a single bit\<close>

lemma and_single_bit_nonzero:
  fixes x :: "'a::len word"
  shows "x AND 2 ^ n \<noteq> 0 \<longleftrightarrow> bit x n"
  by (simp add: and_exp_eq_0_iff_not_bit)

lemma and_single_bit_eq:
  fixes x :: "'a::len word"
  assumes "n < LENGTH('a)"
  shows "x AND 2 ^ n = 2 ^ n \<longleftrightarrow> bit x n"
proof
  assume "x AND 2 ^ n = 2 ^ n"
  then have "bit (x AND 2 ^ n) n \<longleftrightarrow> bit (2 ^ n :: 'a word) n" by simp
  then show "bit x n" using assms by (simp add: bit_simps)
next
  assume "bit x n"
  then show "x AND 2 ^ n = 2 ^ n" by (auto intro!: bit_word_eqI simp: bit_simps)
qed

subsection \<open>Words as natural numbers\<close>

lemma bit_nat_div: "bit (w :: 'a::len word) n \<longleftrightarrow> odd (unat w div 2 ^ n)"
proof -
  have "bit w n \<longleftrightarrow> bit (unat w) n" by (simp add: bit_unsigned_iff)
  then show ?thesis by (simp add: bit_iff_odd)
qed

lemma odd_div_iff:
  fixes n m :: nat
  assumes "0 < m"
  shows "odd (n div m) \<longleftrightarrow> m \<le> n mod (2 * m)"
proof -
  have split: "n mod (2 * m) = m * (n div m mod 2) + n mod m"
    by (metis mod_mult2_eq mult.commute)
  have "n mod m < m" using assms by simp
  with assms show ?thesis
    unfolding split odd_iff_mod_2_eq_one
    by (cases "n div m mod 2 = 0") (auto simp: not_mod_2_eq_0_eq_1)
qed

lemma u8_bit7: "bit (x :: u8) 7 \<longleftrightarrow> 128 \<le> unat x"
  using unat_u8_less [of x] by (simp add: bit_nat_div odd_div_iff)

lemma u16_bit7: "bit (x :: u16) 7 \<longleftrightarrow> 128 \<le> unat x mod 256"
  by (simp add: bit_nat_div odd_div_iff)

lemma sint_u8: "sint (x :: u8) = int (unat x) - (if bit x 7 then 256 else 0)"
proof -
  have "take_bit 8 (uint x) = uint x" by (rule take_bit_int_eq_self) (simp_all add: uint_lt2p [of x, simplified])
  then show ?thesis
    by (simp add: sint_uint signed_take_bit_eq_take_bit_minus bit_unsigned_iff)
qed

lemma unat_ucast_u8: "unat (ucast (x :: u8) :: u16) = unat x"
  using unat_u8_less [of x] by (simp add: unsigned_ucast_eq take_bit_eq_mod)

lemma u8_mask_bit7: "(v :: u8) AND 0x80 \<noteq> 0 \<longleftrightarrow> bit v 7"
  using and_single_bit_nonzero [of v 7] by simp

lemma u16_mask_bit7: "(v :: u16) AND 0x80 \<noteq> 0 \<longleftrightarrow> bit v 7"
  using and_single_bit_nonzero [of v 7] by simp

lemma unat_and_FF: "unat (ucast (x AND 0xFF :: u16) :: u8) = unat x mod 256"
proof -
  have m: "(0xFF :: u16) = mask 8" by (simp add: mask_eq_exp_minus_1)
  have "ucast (x AND 0xFF) = (ucast x :: u8)"
    unfolding m by (rule bit_word_eqI) (auto simp: bit_simps)
  then show ?thesis by (simp add: unsigned_ucast_eq take_bit_eq_mod)
qed

lemma int_mod_neg: "- n \<le> x \<Longrightarrow> x < 0 \<Longrightarrow> x mod n = x + (n :: int)"
  using mod_add_self2 [of x n] mod_pos_pos_trivial [of "x + n" n] by simp

subsection \<open>All bytes\<close>

lemma byte_cases:
  assumes "list_all P [0..255]"
  shows "P (uint (op :: u8))"
proof -
  have "uint op \<in> set [0..255]" using uint_lt2p [of op] by simp
  then show ?thesis using assms by (simp only: list_all_iff)
qed

lemma byte_eq: "(op :: u8) = numeral k \<longleftrightarrow> uint op = uint (numeral k :: u8)" "(op :: u8) = 0 \<longleftrightarrow> uint op = 0"
  "(op :: u8) = 1 \<longleftrightarrow> uint op = 1"
  by (simp_all add: word_uint_eq_iff)

lemma if_Some_None: "(if p then Some x else r) = None \<longleftrightarrow> \<not> p \<and> r = None"
  by simp

subsection \<open>Words bit by bit\<close>

lemma byte_eqI:
  fixes x y :: u8
  assumes "bit x 0 = bit y 0" "bit x 1 = bit y 1" "bit x 2 = bit y 2" "bit x 3 = bit y 3"
    "bit x 4 = bit y 4" "bit x 5 = bit y 5" "bit x 6 = bit y 6" "bit x 7 = bit y 7"
  shows "x = y"
proof (rule bit_word_eqI)
  fix n assume "n < LENGTH(8)"
  then have "n = 0 \<or> n = 1 \<or> n = 2 \<or> n = 3 \<or> n = 4 \<or> n = 5 \<or> n = 6 \<or> n = 7" by auto
  then show "bit x n = bit y n" using assms by auto
qed

lemma upto_32: "[0..<32] = [0, 1, 2, 3, 4, 5, 6, 7, 8, 9, 10, 11, 12, 13, 14, 15, 16, 17, 18, 19, 20, 21, 22, 23, 24, 25, 26, 27, 28, 29,
      30, 31]"
  and upto_16: "[0..<16] = [0, 1, 2, 3, 4, 5, 6, 7, 8, 9, 10, 11, 12, 13, 14, 15]"
  by (simp_all add: upt_rec)

lemma dword_eqI:
  fixes x y :: u32
  assumes "\<forall>n \<in> set [0..<32]. bit x n = bit y n"
  shows "x = y"
  using assms by (intro bit_word_eqI) simp

lemma word16_eqI:
  fixes x y :: u16
  assumes "\<forall>n \<in> set [0..<16]. bit x n = bit y n"
  shows "x = y"
  using assms by (intro bit_word_eqI) simp

lemma byte_high_bit: "8 \<le> n \<Longrightarrow> bit (x :: u8) n \<longleftrightarrow> False"
  using bit_imp_le_length [of x n] by auto

end
