(* ===== verification/Remu_Bitflags.thy ===== *)
theory Remu_Bitflags
  imports Remu_Prelude
begin

text \<open>
  The \<open>bitflags\<close> crate, which generates the status-register types of the 6502 and x86 cores, is
  a third-party package. Its operations are a parameter of the model: a value of
  \<open>bitflags\<close> is passed to every definition that calls one of them. A flags value is represented
  by its bits (\<open>bits()\<close> and \<open>from_bits_retain\<close> are the two directions of that newtype).
  The behaviour the crate documents is \<open>bitflags_laws\<close>; a theorem that needs it has it as a
  hypothesis. \<open>bitflags_std\<close> is a concrete instance, which shows that the laws can hold; the laws
  determine the operations, so a proof under them may compute with \<open>bitflags_std\<close>.
\<close>

record 'p bitflags =
  fl_contains :: "'p \<Rightarrow> 'p \<Rightarrow> bool"
  fl_insert :: "'p \<Rightarrow> 'p \<Rightarrow> 'p"
  fl_remove :: "'p \<Rightarrow> 'p \<Rightarrow> 'p"
  fl_set :: "'p \<Rightarrow> 'p \<Rightarrow> bool \<Rightarrow> 'p"
  fl_union :: "'p \<Rightarrow> 'p \<Rightarrow> 'p"

definition bitflags_laws :: "('a::len) word bitflags \<Rightarrow> bool" where
  "bitflags_laws F \<longleftrightarrow>
     (\<forall>p f. fl_contains F p f \<longleftrightarrow> p AND f = f) \<and>
     (\<forall>p f. fl_insert F p f = p OR f) \<and>
     (\<forall>p f. fl_remove F p f = p AND NOT f) \<and>
     (\<forall>p f v. fl_set F p f v = (if v then fl_insert F p f else fl_remove F p f)) \<and>
     (\<forall>p f. fl_union F p f = p OR f)"

definition bitflags_std :: "('a::len) word bitflags" where
  "bitflags_std =
     \<lparr>fl_contains = (\<lambda>p f. p AND f = f),
      fl_insert = (\<lambda>p f. p OR f),
      fl_remove = (\<lambda>p f. p AND NOT f),
      fl_set = (\<lambda>p f v. if v then p OR f else p AND NOT f),
      fl_union = (\<lambda>p f. p OR f)\<rparr>"

lemma bitflags_std_laws [simp]: "bitflags_laws bitflags_std"
  by (simp add: bitflags_laws_def bitflags_std_def)

text \<open>The documented behaviour fixes every operation.\<close>

lemma bitflags_laws_std: "bitflags_laws F \<Longrightarrow> F = bitflags_std"
  by (cases F) (auto simp: bitflags_laws_def bitflags_std_def fun_eq_iff)

subsection \<open>Flags that are a single bit\<close>

lemma contains_single [flag_simps]:
  assumes "n < LENGTH('a::len)"
  shows "fl_contains bitflags_std (p :: 'a word) (2 ^ n) \<longleftrightarrow> bit p n"
  using assms by (simp add: bitflags_std_def and_single_bit_eq)

lemma bit_insert_single [flag_simps]:
  assumes "n < LENGTH('a::len)"
  shows "bit (fl_insert bitflags_std (p :: 'a word) (2 ^ n)) k \<longleftrightarrow> k = n \<or> bit p k"
  using assms by (auto simp: bitflags_std_def bit_simps)

lemma bit_remove_single [flag_simps]:
  assumes "n < LENGTH('a::len)"
  shows "bit (fl_remove bitflags_std (p :: 'a word) (2 ^ n)) k \<longleftrightarrow> k \<noteq> n \<and> bit p k"
  using assms by (auto simp: bitflags_std_def bit_simps dest: bit_imp_le_length)

lemma bit_set_single [flag_simps]:
  assumes "n < LENGTH('a::len)"
  shows "bit (fl_set bitflags_std (p :: 'a word) (2 ^ n) v) k \<longleftrightarrow> (if k = n then v else bit p k)"
  using assms by (auto simp: bitflags_std_def bit_simps dest: bit_imp_le_length)

lemma bit_union_single [flag_simps]:
  "bit (fl_union bitflags_std p f) k \<longleftrightarrow> bit p k \<or> bit f k"
  by (simp add: bitflags_std_def bit_simps)

end
