(* ===== verification/M6502_Registers.thy ===== *)
theory M6502_Registers
  imports Remu_Bitflags
begin

text \<open>
  \<open>src/cpu/registers.rs\<close>: the processor status register \<open>P\<close> of the 6502 and its register file.
  \<open>status_ok\<close> is the representation invariant that file documents: the flip-flop-less bits are
  kept as \<open>U\<close> set and \<open>B\<close> clear.
\<close>

type_synonym Status = u8

definition Status_C :: Status where "Status_C = 0b00000001"
definition Status_Z :: Status where "Status_Z = 0b00000010"
definition Status_I :: Status where "Status_I = 0b00000100"
definition Status_D :: Status where "Status_D = 0b00001000"
definition Status_B :: Status where "Status_B = 0b00010000"
definition Status_U :: Status where "Status_U = 0b00100000"
definition Status_V :: Status where "Status_V = 0b01000000"
definition Status_N :: Status where "Status_N = 0b10000000"

lemmas Status_defs = Status_C_def Status_Z_def Status_I_def Status_D_def
  Status_B_def Status_U_def Status_V_def Status_N_def

definition set_zn :: "u8 bitflags \<Rightarrow> Status \<Rightarrow> u8 \<Rightarrow> Status" where
  "set_zn F p value =
     (let p = fl_set F p Status_Z (value = 0)
      in fl_set F p Status_N (value AND 0x80 \<noteq> 0))"

record Registers =
  reg_a :: u8
  reg_x :: u8
  reg_y :: u8
  reg_sp :: u8
  reg_pc :: u16
  reg_p :: Status

definition Registers_new :: "u8 bitflags \<Rightarrow> Registers" where
  "Registers_new F =
     \<lparr>reg_a = 0, reg_x = 0, reg_y = 0, reg_sp = 0xFD, reg_pc = 0,
      reg_p = fl_union F Status_I Status_U\<rparr>"

text \<open>The documented in-memory form of \<open>P\<close>.\<close>

definition status_ok :: "Status \<Rightarrow> bool" where
  "status_ok p \<longleftrightarrow> bit p 5 \<and> \<not> bit p 4"

subsection \<open>The flags as bit positions\<close>

lemma Status_exp:
  "Status_C = 2 ^ 0" "Status_Z = 2 ^ 1" "Status_I = 2 ^ 2"
  "Status_D = 2 ^ 3" "Status_B = 2 ^ 4" "Status_U = 2 ^ 5"
  "Status_V = 2 ^ 6" "Status_N = 2 ^ 7"
  by (simp_all add: Status_defs)

lemma contains_Status [flag_simps]:
  "fl_contains bitflags_std p Status_C \<longleftrightarrow> bit p 0"
  "fl_contains bitflags_std p Status_Z \<longleftrightarrow> bit p 1"
  "fl_contains bitflags_std p Status_I \<longleftrightarrow> bit p 2"
  "fl_contains bitflags_std p Status_D \<longleftrightarrow> bit p 3"
  "fl_contains bitflags_std p Status_V \<longleftrightarrow> bit p 6"
  "fl_contains bitflags_std p Status_N \<longleftrightarrow> bit p 7"
  by (simp_all only: Status_exp, (rule contains_single, simp)+)

lemma bit_set_Status [flag_simps]:
  "bit (fl_set bitflags_std p Status_C v) k \<longleftrightarrow> (if k = 0 then v else bit p k)"
  "bit (fl_set bitflags_std p Status_Z v) k \<longleftrightarrow> (if k = 1 then v else bit p k)"
  "bit (fl_set bitflags_std p Status_V v) k \<longleftrightarrow> (if k = 6 then v else bit p k)"
  "bit (fl_set bitflags_std p Status_N v) k \<longleftrightarrow> (if k = 7 then v else bit p k)"
  by (simp_all only: Status_exp, (rule bit_set_single, simp)+)

lemma bit_insert_Status [flag_simps]:
  "bit (fl_insert bitflags_std p Status_C) k \<longleftrightarrow> k = 0 \<or> bit p k"
  "bit (fl_insert bitflags_std p Status_I) k \<longleftrightarrow> k = 2 \<or> bit p k"
  "bit (fl_insert bitflags_std p Status_D) k \<longleftrightarrow> k = 3 \<or> bit p k"
  by (simp_all only: Status_exp, (rule bit_insert_single, simp)+)

lemma bit_insert_Status_IU [flag_simps]:
  "bit (fl_insert bitflags_std p (fl_union bitflags_std Status_I Status_U)) k
     \<longleftrightarrow> k = 2 \<or> k = 5 \<or> bit p k"
  by (auto simp: bitflags_std_def Status_exp bit_or_iff bit_exp_iff simp del: power_numeral)

lemma bit_remove_Status [flag_simps]:
  "bit (fl_remove bitflags_std p Status_C) k \<longleftrightarrow> k \<noteq> 0 \<and> bit p k"
  "bit (fl_remove bitflags_std p Status_I) k \<longleftrightarrow> k \<noteq> 2 \<and> bit p k"
  "bit (fl_remove bitflags_std p Status_D) k \<longleftrightarrow> k \<noteq> 3 \<and> bit p k"
  "bit (fl_remove bitflags_std p Status_V) k \<longleftrightarrow> k \<noteq> 6 \<and> bit p k"
  by (simp_all only: Status_exp, (rule bit_remove_single, simp)+)

lemma bit_set_zn [flag_simps]:
  "bit (set_zn bitflags_std p v) k \<longleftrightarrow>
     (if k = 1 then v = 0 else if k = 7 then bit v 7 else bit p k)"
  by (simp add: set_zn_def Let_def flag_simps u8_mask_bit7)

lemma status_ok_new: "status_ok (reg_p (Registers_new bitflags_std))"
  by (simp add: status_ok_def Registers_new_def bitflags_std_def Status_defs)

end
