(* ===== verification/M6502_Bus.thy ===== *)
theory M6502_Bus
  imports Remu_Prelude
begin

text \<open>
  \<open>src/bus.rs\<close>, \<open>src/interrupt.rs\<close> and \<open>src/memory/mod.rs\<close>: the bus the 6502 core is generic
  over, the interrupt vectors, and the flat 64 KiB memory. The trait \<open>Bus\<close> is a record of its two
  required methods over an arbitrary bus state, passed to every operation that is generic over
  \<open>B: Bus\<close>; a read returns the byte and the new state, because a read may have side effects.

  The locale \<open>ram_bus\<close> is the contract a client of a bus relies on where it needs memory to behave
  as memory: on the addresses \<open>is_ram\<close> accepts, a read returns the last byte written and changes
  nothing. It is interpreted on the flat memory here and on the system bus in the device theory.
\<close>

record 'b Bus =
  bus_read :: "'b \<Rightarrow> u16 \<Rightarrow> u8 \<times> 'b"
  bus_write :: "'b \<Rightarrow> u16 \<Rightarrow> u8 \<Rightarrow> 'b"

definition read_u16 :: "'b Bus \<Rightarrow> 'b \<Rightarrow> u16 \<Rightarrow> u16 \<times> 'b" where
  "read_u16 B b addr =
     (let (lo, b) = bus_read B b addr;
          (hi, b) = bus_read B b (addr + 1)
      in (le16 lo hi, b))"

definition NMI_VECTOR :: u16 where "NMI_VECTOR = 0xFFFA"
definition RESET_VECTOR :: u16 where "RESET_VECTOR = 0xFFFC"
definition IRQ_VECTOR :: u16 where "IRQ_VECTOR = 0xFFFE"
definition INTERRUPT_CYCLES :: u8 where "INTERRUPT_CYCLES = 7"

lemmas vector_defs = NMI_VECTOR_def RESET_VECTOR_def IRQ_VECTOR_def

subsection \<open>Flat memory\<close>

text \<open>The array \<open>[u8; 0x10000]\<close> indexed by a \<open>u16\<close> is a total function: no index is out of range.\<close>

record FlatMemory =
  ram :: "u16 \<Rightarrow> u8"

definition FlatMemory_new :: FlatMemory where
  "FlatMemory_new = \<lparr>ram = (\<lambda>_. 0)\<rparr>"

fun load_from :: "FlatMemory \<Rightarrow> u16 \<Rightarrow> nat \<Rightarrow> u8 list \<Rightarrow> FlatMemory" where
  "load_from m addr i [] = m"
| "load_from m addr i (byte # rest) =
     load_from (m\<lparr>ram := (ram m)(addr + of_nat i := byte)\<rparr>) addr (i + 1) rest"

definition FlatMemory_load :: "FlatMemory \<Rightarrow> u16 \<Rightarrow> u8 list \<Rightarrow> FlatMemory" where
  "FlatMemory_load m addr data = load_from m addr 0 data"

definition set_reset_vector :: "FlatMemory \<Rightarrow> u16 \<Rightarrow> FlatMemory" where
  "set_reset_vector m addr = m\<lparr>ram := (ram m)(0xFFFC := lo8 addr, 0xFFFD := hi8 addr)\<rparr>"

definition FlatMemory_read :: "FlatMemory \<Rightarrow> u16 \<Rightarrow> u8 \<times> FlatMemory" where
  "FlatMemory_read m addr = (ram m addr, m)"

definition FlatMemory_write :: "FlatMemory \<Rightarrow> u16 \<Rightarrow> u8 \<Rightarrow> FlatMemory" where
  "FlatMemory_write m addr value = m\<lparr>ram := (ram m)(addr := value)\<rparr>"

definition FlatMemory_bus :: "FlatMemory Bus" where
  "FlatMemory_bus = \<lparr>bus_read = FlatMemory_read, bus_write = FlatMemory_write\<rparr>"

subsection \<open>What a client may assume of memory\<close>

locale ram_bus =
  fixes B :: "'b Bus"
    and peek :: "'b \<Rightarrow> u16 \<Rightarrow> u8"
    and is_ram :: "'b \<Rightarrow> u16 \<Rightarrow> bool"
  assumes read_ram: "is_ram b a \<Longrightarrow> bus_read B b a = (peek b a, b)"
    and peek_write: "is_ram b a \<Longrightarrow> peek (bus_write B b a v) = (peek b)(a := v)"
    and is_ram_write: "is_ram b a \<Longrightarrow> is_ram (bus_write B b a v) = is_ram b"
begin

lemma read_after_write:
  "is_ram b a \<Longrightarrow> fst (bus_read B (bus_write B b a v) a) = v"
  by (simp add: read_ram peek_write is_ram_write)

lemma read_other_after_write:
  "is_ram b a \<Longrightarrow> is_ram b a' \<Longrightarrow> a' \<noteq> a \<Longrightarrow>
     fst (bus_read B (bus_write B b a v) a') = fst (bus_read B b a')"
  by (simp add: read_ram peek_write is_ram_write)

lemma read_u16_ram:
  "is_ram b a \<Longrightarrow> is_ram b (a + 1) \<Longrightarrow> read_u16 B b a = (le16 (peek b a) (peek b (a + 1)), b)"
  by (simp add: read_u16_def read_ram)

lemmas ram_simps = read_ram peek_write is_ram_write read_u16_ram

end

text \<open>A bus that is memory everywhere.\<close>

locale full_ram_bus = ram_bus +
  assumes all_ram: "is_ram b a"
begin

lemma full_simps:
  "bus_read B b a = (peek b a, b)"
  "peek (bus_write B b a v) = (peek b)(a := v)"
  "read_u16 B b a = (le16 (peek b a) (peek b (a + 1)), b)"
  by (simp_all add: all_ram ram_simps)

end

interpretation flat: full_ram_bus FlatMemory_bus ram "\<lambda>_ _. True"
  by unfold_locales
    (simp_all add: FlatMemory_bus_def FlatMemory_read_def FlatMemory_write_def)

subsection \<open>Loading an image\<close>

lemma load_from_ram:
  assumes "i + length data \<le> 65536"
  shows "ram (load_from m addr i data) a =
    (let k = unat (a - addr) in if i \<le> k \<and> k < i + length data then data ! (k - i) else ram m a)"
  using assms
proof (induction m addr i data rule: load_from.induct)
  case (1 m addr i)
  then show ?case by (auto simp: Let_def)
next
  case (2 m addr i byte rest)
  have k: "unat (a - addr) = i \<longleftrightarrow> a = addr + of_nat i"
  proof
    assume "unat (a - addr) = i"
    then have "of_nat i = a - addr" by auto
    then show "a = addr + of_nat i" by simp
  next
    assume "a = addr + of_nat i"
    with 2(2) show "unat (a - addr) = i" by (simp add: unat_of_nat)
  qed
  show ?case
  proof (cases "a = addr + of_nat i")
    case True
    with k have "unat (a - addr) = i" by simp
    with 2 True show ?thesis by (simp add: Let_def)
  next
    case False
    with k have "unat (a - addr) \<noteq> i" by simp
    with 2 False show ?thesis
      by (auto simp: Let_def nth_Cons split: nat.splits intro: arg_cong [where f = "(!) rest"])
  qed
qed

text \<open>
  \<open>FlatMemory::load\<close> places the image at \<open>addr\<close>, wrapping at the top of the address space, and
  changes nothing else: after loading at most 64 KiB, the byte at distance \<open>k\<close> above \<open>addr\<close>
  (modulo 2^16) is the image's byte \<open>k\<close>, and every address beyond the image keeps its old byte.
\<close>

lemma FlatMemory_load_contents:
  assumes "length data \<le> 65536"
  shows "ram (FlatMemory_load m addr data) a =
    (if unat (a - addr) < length data then data ! unat (a - addr) else ram m a)"
  using load_from_ram [of 0 data m addr a] assms by (simp add: FlatMemory_load_def Let_def)

end
