(* ===== verification/M6502_Opcodes.thy ===== *)
theory M6502_Opcodes
  imports Remu_Prelude
begin

text \<open>
  \<open>src/cpu/opcodes.rs\<close> and the mode type of \<open>src/cpu/addressing.rs\<close>: the operations, the
  addressing modes, and the 256-entry decode table. The table starts with every slot an illegal
  \<open>KIL\<close> entry and is filled by assignments, so the model folds the assignments in source order over
  that default, a later one overwriting an earlier one. \<open>AND_op\<close> is the source's \<open>AND\<close>, whose name
  is taken by the bitwise operator.
\<close>

datatype AddressingMode =
    Implied | Accumulator | Immediate | ZeroPage | ZeroPageX | ZeroPageY | Absolute | AbsoluteX
  | AbsoluteY | Indirect | JsrAbsolute | IndexedIndirect | IndirectIndexed | Relative

fun mode_length :: "AddressingMode \<Rightarrow> u8" where
  "mode_length Implied = 1"
| "mode_length Accumulator = 1"
| "mode_length Immediate = 2"
| "mode_length ZeroPage = 2"
| "mode_length ZeroPageX = 2"
| "mode_length ZeroPageY = 2"
| "mode_length IndexedIndirect = 2"
| "mode_length IndirectIndexed = 2"
| "mode_length Relative = 2"
| "mode_length Absolute = 3"
| "mode_length AbsoluteX = 3"
| "mode_length AbsoluteY = 3"
| "mode_length Indirect = 3"
| "mode_length JsrAbsolute = 3"

datatype (plugins only: code size) Operation =
    ADC | AND_op | ASL | BCC | BCS | BEQ | BIT | BMI | BNE | BPL | BRK | BVC
  | BVS | CLC | CLD | CLI | CLV | CMP | CPX | CPY | DEC | DEX | DEY | EOR
  | INC | INX | INY | JMP | JSR | LDA | LDX | LDY | LSR | NOP | ORA | PHA
  | PHP | PLA | PLP | ROL | ROR | RTI | RTS | SBC | SEC | SED | SEI | STA
  | STX | STY | TAX | TAY | TSX | TXA | TXS | TYA | KIL

record OpInfo =
  op_operation :: Operation
  op_mode :: AddressingMode
  op_cycles :: u8
  op_page_penalty :: bool

definition op_length :: "OpInfo \<Rightarrow> u8" where
  "op_length i = mode_length (op_mode i)"

definition op :: "Operation \<Rightarrow> AddressingMode \<Rightarrow> u8 \<Rightarrow> bool \<Rightarrow> OpInfo" where
  "op operation mode cycles page_penalty =
     \<lparr>op_operation = operation, op_mode = mode, op_cycles = cycles, op_page_penalty = page_penalty\<rparr>"

definition opcode_entries_1 :: "(u8 \<times> OpInfo) list" where
  "opcode_entries_1 =
    [(0x69, op ADC Immediate 2 False),
     (0x65, op ADC ZeroPage 3 False),
     (0x75, op ADC ZeroPageX 4 False),
     (0x6D, op ADC Absolute 4 False),
     (0x7D, op ADC AbsoluteX 4 True),
     (0x79, op ADC AbsoluteY 4 True),
     (0x61, op ADC IndexedIndirect 6 False),
     (0x71, op ADC IndirectIndexed 5 True),
     (0x29, op AND_op Immediate 2 False),
     (0x25, op AND_op ZeroPage 3 False),
     (0x35, op AND_op ZeroPageX 4 False),
     (0x2D, op AND_op Absolute 4 False),
     (0x3D, op AND_op AbsoluteX 4 True),
     (0x39, op AND_op AbsoluteY 4 True),
     (0x21, op AND_op IndexedIndirect 6 False),
     (0x31, op AND_op IndirectIndexed 5 True),
     (0x0A, op ASL Accumulator 2 False),
     (0x06, op ASL ZeroPage 5 False),
     (0x16, op ASL ZeroPageX 6 False),
     (0x0E, op ASL Absolute 6 False),
     (0x1E, op ASL AbsoluteX 7 False),
     (0x90, op BCC Relative 2 False),
     (0xB0, op BCS Relative 2 False),
     (0xF0, op BEQ Relative 2 False),
     (0x30, op BMI Relative 2 False),
     (0xD0, op BNE Relative 2 False),
     (0x10, op BPL Relative 2 False),
     (0x50, op BVC Relative 2 False),
     (0x70, op BVS Relative 2 False),
     (0x24, op BIT ZeroPage 3 False),
     (0x2C, op BIT Absolute 4 False),
     (0x00, op BRK Implied 7 False)]"

definition opcode_entries_2 :: "(u8 \<times> OpInfo) list" where
  "opcode_entries_2 =
    [(0x18, op CLC Implied 2 False),
     (0xD8, op CLD Implied 2 False),
     (0x58, op CLI Implied 2 False),
     (0xB8, op CLV Implied 2 False),
     (0x38, op SEC Implied 2 False),
     (0xF8, op SED Implied 2 False),
     (0x78, op SEI Implied 2 False),
     (0xC9, op CMP Immediate 2 False),
     (0xC5, op CMP ZeroPage 3 False),
     (0xD5, op CMP ZeroPageX 4 False),
     (0xCD, op CMP Absolute 4 False),
     (0xDD, op CMP AbsoluteX 4 True),
     (0xD9, op CMP AbsoluteY 4 True),
     (0xC1, op CMP IndexedIndirect 6 False),
     (0xD1, op CMP IndirectIndexed 5 True),
     (0xE0, op CPX Immediate 2 False),
     (0xE4, op CPX ZeroPage 3 False),
     (0xEC, op CPX Absolute 4 False),
     (0xC0, op CPY Immediate 2 False),
     (0xC4, op CPY ZeroPage 3 False),
     (0xCC, op CPY Absolute 4 False),
     (0xC6, op DEC ZeroPage 5 False),
     (0xD6, op DEC ZeroPageX 6 False),
     (0xCE, op DEC Absolute 6 False),
     (0xDE, op DEC AbsoluteX 7 False),
     (0xCA, op DEX Implied 2 False),
     (0x88, op DEY Implied 2 False),
     (0x49, op EOR Immediate 2 False),
     (0x45, op EOR ZeroPage 3 False),
     (0x55, op EOR ZeroPageX 4 False),
     (0x4D, op EOR Absolute 4 False),
     (0x5D, op EOR AbsoluteX 4 True),
     (0x59, op EOR AbsoluteY 4 True),
     (0x41, op EOR IndexedIndirect 6 False),
     (0x51, op EOR IndirectIndexed 5 True)]"

definition opcode_entries_3 :: "(u8 \<times> OpInfo) list" where
  "opcode_entries_3 =
    [(0xE6, op INC ZeroPage 5 False),
     (0xF6, op INC ZeroPageX 6 False),
     (0xEE, op INC Absolute 6 False),
     (0xFE, op INC AbsoluteX 7 False),
     (0xE8, op INX Implied 2 False),
     (0xC8, op INY Implied 2 False),
     (0x4C, op JMP Absolute 3 False),
     (0x6C, op JMP Indirect 5 False),
     (0x20, op JSR JsrAbsolute 6 False),
     (0xA9, op LDA Immediate 2 False),
     (0xA5, op LDA ZeroPage 3 False),
     (0xB5, op LDA ZeroPageX 4 False),
     (0xAD, op LDA Absolute 4 False),
     (0xBD, op LDA AbsoluteX 4 True),
     (0xB9, op LDA AbsoluteY 4 True),
     (0xA1, op LDA IndexedIndirect 6 False),
     (0xB1, op LDA IndirectIndexed 5 True),
     (0xA2, op LDX Immediate 2 False),
     (0xA6, op LDX ZeroPage 3 False),
     (0xB6, op LDX ZeroPageY 4 False),
     (0xAE, op LDX Absolute 4 False),
     (0xBE, op LDX AbsoluteY 4 True),
     (0xA0, op LDY Immediate 2 False),
     (0xA4, op LDY ZeroPage 3 False),
     (0xB4, op LDY ZeroPageX 4 False),
     (0xAC, op LDY Absolute 4 False),
     (0xBC, op LDY AbsoluteX 4 True),
     (0x4A, op LSR Accumulator 2 False),
     (0x46, op LSR ZeroPage 5 False),
     (0x56, op LSR ZeroPageX 6 False),
     (0x4E, op LSR Absolute 6 False),
     (0x5E, op LSR AbsoluteX 7 False),
     (0xEA, op NOP Implied 2 False)]"

definition opcode_entries_4 :: "(u8 \<times> OpInfo) list" where
  "opcode_entries_4 =
    [(0x09, op ORA Immediate 2 False),
     (0x05, op ORA ZeroPage 3 False),
     (0x15, op ORA ZeroPageX 4 False),
     (0x0D, op ORA Absolute 4 False),
     (0x1D, op ORA AbsoluteX 4 True),
     (0x19, op ORA AbsoluteY 4 True),
     (0x01, op ORA IndexedIndirect 6 False),
     (0x11, op ORA IndirectIndexed 5 True),
     (0x48, op PHA Implied 3 False),
     (0x08, op PHP Implied 3 False),
     (0x68, op PLA Implied 4 False),
     (0x28, op PLP Implied 4 False),
     (0x2A, op ROL Accumulator 2 False),
     (0x26, op ROL ZeroPage 5 False),
     (0x36, op ROL ZeroPageX 6 False),
     (0x2E, op ROL Absolute 6 False),
     (0x3E, op ROL AbsoluteX 7 False),
     (0x6A, op ROR Accumulator 2 False),
     (0x66, op ROR ZeroPage 5 False),
     (0x76, op ROR ZeroPageX 6 False),
     (0x6E, op ROR Absolute 6 False),
     (0x7E, op ROR AbsoluteX 7 False),
     (0x40, op RTI Implied 6 False),
     (0x60, op RTS Implied 6 False),
     (0xE9, op SBC Immediate 2 False),
     (0xE5, op SBC ZeroPage 3 False),
     (0xF5, op SBC ZeroPageX 4 False),
     (0xED, op SBC Absolute 4 False),
     (0xFD, op SBC AbsoluteX 4 True),
     (0xF9, op SBC AbsoluteY 4 True),
     (0xE1, op SBC IndexedIndirect 6 False),
     (0xF1, op SBC IndirectIndexed 5 True),
     (0x85, op STA ZeroPage 3 False),
     (0x95, op STA ZeroPageX 4 False),
     (0x8D, op STA Absolute 4 False),
     (0x9D, op STA AbsoluteX 5 False),
     (0x99, op STA AbsoluteY 5 False),
     (0x81, op STA IndexedIndirect 6 False),
     (0x91, op STA IndirectIndexed 6 False),
     (0x86, op STX ZeroPage 3 False),
     (0x96, op STX ZeroPageY 4 False),
     (0x8E, op STX Absolute 4 False),
     (0x84, op STY ZeroPage 3 False),
     (0x94, op STY ZeroPageX 4 False),
     (0x8C, op STY Absolute 4 False),
     (0xAA, op TAX Implied 2 False),
     (0xA8, op TAY Implied 2 False),
     (0xBA, op TSX Implied 2 False),
     (0x8A, op TXA Implied 2 False),
     (0x9A, op TXS Implied 2 False),
     (0x98, op TYA Implied 2 False)]"

definition build_table :: "u8 \<Rightarrow> OpInfo" where
  "build_table =
     foldl (\<lambda>t (i, e). t(i := e)) (\<lambda>_. op KIL Implied 2 False)
       (opcode_entries_1 @ opcode_entries_2 @ opcode_entries_3 @ opcode_entries_4)"

definition OPCODES :: "u8 \<Rightarrow> OpInfo" where
  "OPCODES = build_table"

subsection \<open>Reading the table\<close>

abbreviation opcode_entries :: "(u8 \<times> OpInfo) list" where
  "opcode_entries \<equiv> opcode_entries_1 @ opcode_entries_2 @ opcode_entries_3 @ opcode_entries_4"

lemmas opcode_entries_defs =
  opcode_entries_1_def opcode_entries_2_def opcode_entries_3_def opcode_entries_4_def

lemma foldl_upd_range:
  "foldl (\<lambda>t (i, e). t(i := e)) t es x = t x \<or> (x, foldl (\<lambda>t (i, e). t(i := e)) t es x) \<in> set es"
proof (induction es arbitrary: t)
  case Nil
  then show ?case by simp
next
  case (Cons a es)
  obtain i e where "a = (i, e)" by fastforce
  with Cons [of "t(i := e)"] show ?case by (auto split: if_splits)
qed

lemma OPCODES_induct [case_names illegal entry]:
  assumes "P (op KIL Implied 2 False)" and "\<And>i e. (i, e) \<in> set opcode_entries \<Longrightarrow> P e"
  shows "P (OPCODES x)"
  using foldl_upd_range [of "\<lambda>_. op KIL Implied 2 False" opcode_entries x] assms
  unfolding OPCODES_def build_table_def by force

lemma OPCODES_all:
  assumes "P (op KIL Implied 2 False)" and "list_all (\<lambda>(i, e). P e) opcode_entries"
  shows "P (OPCODES x)"
  using assms by (induction x rule: OPCODES_induct) (auto simp: list_all_iff)

definition reads_operand :: "Operation \<Rightarrow> bool" where
  "reads_operand o' \<longleftrightarrow> o' \<in> {LDA, LDX, LDY, AND_op, ORA, EOR, BIT, ADC, SBC, CMP, CPX, CPY}"

definition changes_operand :: "Operation \<Rightarrow> bool" where
  "changes_operand o' \<longleftrightarrow> o' \<in> {STA, STX, STY, INC, DEC, ASL, LSR, ROL, ROR}"

definition is_branch :: "Operation \<Rightarrow> bool" where
  "is_branch o' \<longleftrightarrow> o' \<in> {BCC, BCS, BNE, BEQ, BPL, BMI, BVC, BVS}"

definition indexed_mode :: "AddressingMode \<Rightarrow> bool" where
  "indexed_mode m \<longleftrightarrow> m \<in> {AbsoluteX, AbsoluteY, IndirectIndexed}"

text \<open>Which modes an operation's handler can be given: those whose resolved address it may use.\<close>

definition mode_fits :: "Operation \<Rightarrow> AddressingMode \<Rightarrow> bool" where
  "mode_fits o' m \<longleftrightarrow>
     (if is_branch o' then m = Relative
      else if o' = JSR then m = JsrAbsolute
      else if o' = JMP then m = Absolute \<or> m = Indirect
      else if reads_operand o' then
        m \<notin> {Implied, Accumulator, Indirect, JsrAbsolute, Relative}
      else if o' \<in> {ASL, LSR, ROL, ROR} then
        m \<in> {Accumulator, ZeroPage, ZeroPageX, Absolute, AbsoluteX}
      else if changes_operand o' then
        m \<notin> {Implied, Accumulator, Immediate, Indirect, JsrAbsolute, Relative}
      else m = Implied)"

definition entry_ok :: "OpInfo \<Rightarrow> bool" where
  "entry_ok e \<longleftrightarrow> mode_fits (op_operation e) (op_mode e) \<and>
     (op_page_penalty e \<longleftrightarrow> reads_operand (op_operation e) \<and> indexed_mode (op_mode e)) \<and>
     2 \<le> op_cycles e \<and> op_cycles e \<le> 7 \<and>
     (op_page_penalty e \<longrightarrow> op_cycles e \<le> 5) \<and>
     (is_branch (op_operation e) \<longrightarrow> op_cycles e = 2)"

lemmas entry_simps = entry_ok_def op_def mode_fits_def reads_operand_def changes_operand_def
  is_branch_def indexed_mode_def

lemma opcode_entries_ok:
  "list_all (\<lambda>(i, e). entry_ok e) opcode_entries_1" "list_all (\<lambda>(i, e). entry_ok e) opcode_entries_2"
  "list_all (\<lambda>(i, e). entry_ok e) opcode_entries_3" "list_all (\<lambda>(i, e). entry_ok e) opcode_entries_4"
  by (simp_all add: opcode_entries_defs entry_simps)

text \<open>
  The decode table is well formed at all 256 opcodes: every entry pairs its operation with an
  addressing mode whose resolved operand the handler can use (branches are relative, operations
  that touch memory never get a mode without an address, stores are never immediate, and so on); the
  page-cross penalty is charged exactly to the reading operations in the indexed modes, never to
  stores or read-modify-write operations; and the base cost is between 2 and 7 cycles, 2 for a
  branch and at most 5 where a penalty can be added.
\<close>

lemma OPCODES_entry_ok: "entry_ok (OPCODES x)"
proof (rule OPCODES_all)
  show "entry_ok (op KIL Implied 2 False)" by (simp add: entry_simps)
  show "list_all (\<lambda>(i, e). entry_ok e) opcode_entries" by (simp add: opcode_entries_ok)
qed

end
