(* ===== verification/M6502_Cpu.thy ===== *)
theory M6502_Cpu
  imports M6502_Registers M6502_Bus M6502_Opcodes
begin

text \<open>
  \<open>src/cpu/mod.rs\<close>, \<open>src/cpu/addressing.rs\<close>, \<open>src/cpu/execute.rs\<close> and \<open>src/cpu/dispatch.rs\<close>:
  the 6502 core. A method that takes \<open>&mut self\<close> alone maps a \<open>Cpu\<close> to a \<open>Cpu\<close>; one that also
  takes \<open>bus: &mut B\<close> gets the bus's methods \<open>B\<close> and state and returns the new state beside its
  result. The status-flag operations of the \<open>bitflags\<close> crate are the parameter \<open>F\<close>. The cycle
  counter is a \<open>u64\<close> that wraps, as in a release build.
\<close>

record Cpu =
  regs :: Registers
  cycles :: u64
  halted :: bool
  nmi_pending :: bool
  prev_nmi :: bool
  irq_line :: bool

abbreviation set_a :: "u8 \<Rightarrow> Cpu \<Rightarrow> Cpu" where "set_a v c \<equiv> c\<lparr>regs := (regs c)\<lparr>reg_a := v\<rparr>\<rparr>"
abbreviation set_x :: "u8 \<Rightarrow> Cpu \<Rightarrow> Cpu" where "set_x v c \<equiv> c\<lparr>regs := (regs c)\<lparr>reg_x := v\<rparr>\<rparr>"
abbreviation set_y :: "u8 \<Rightarrow> Cpu \<Rightarrow> Cpu" where "set_y v c \<equiv> c\<lparr>regs := (regs c)\<lparr>reg_y := v\<rparr>\<rparr>"
abbreviation set_sp :: "u8 \<Rightarrow> Cpu \<Rightarrow> Cpu" where "set_sp v c \<equiv> c\<lparr>regs := (regs c)\<lparr>reg_sp := v\<rparr>\<rparr>"
abbreviation set_pc :: "u16 \<Rightarrow> Cpu \<Rightarrow> Cpu" where "set_pc v c \<equiv> c\<lparr>regs := (regs c)\<lparr>reg_pc := v\<rparr>\<rparr>"
abbreviation set_p :: "Status \<Rightarrow> Cpu \<Rightarrow> Cpu" where "set_p v c \<equiv> c\<lparr>regs := (regs c)\<lparr>reg_p := v\<rparr>\<rparr>"
abbreviation cpu_a :: "Cpu \<Rightarrow> u8" where "cpu_a c \<equiv> reg_a (regs c)"
abbreviation cpu_x :: "Cpu \<Rightarrow> u8" where "cpu_x c \<equiv> reg_x (regs c)"
abbreviation cpu_y :: "Cpu \<Rightarrow> u8" where "cpu_y c \<equiv> reg_y (regs c)"
abbreviation cpu_sp :: "Cpu \<Rightarrow> u8" where "cpu_sp c \<equiv> reg_sp (regs c)"
abbreviation cpu_pc :: "Cpu \<Rightarrow> u16" where "cpu_pc c \<equiv> reg_pc (regs c)"
abbreviation cpu_p :: "Cpu \<Rightarrow> Status" where "cpu_p c \<equiv> reg_p (regs c)"

definition Cpu_new :: "u8 bitflags \<Rightarrow> Cpu" where
  "Cpu_new F =
     \<lparr>regs = Registers_new F, cycles = 0, halted = False, nmi_pending = False, prev_nmi = True,
      irq_line = False\<rparr>"

subsection \<open>Memory access and the stack\<close>

definition tick_devices :: "Cpu \<Rightarrow> Cpu" where
  "tick_devices c = c"

definition cpu_read :: "'b Bus \<Rightarrow> Cpu \<Rightarrow> 'b \<Rightarrow> u16 \<Rightarrow> u8 \<times> Cpu \<times> 'b" where
  "cpu_read B c b addr =
     (let c = tick_devices c; (v, b) = bus_read B b addr in (v, c, b))"

definition cpu_write :: "'b Bus \<Rightarrow> Cpu \<Rightarrow> 'b \<Rightarrow> u16 \<Rightarrow> u8 \<Rightarrow> Cpu \<times> 'b" where
  "cpu_write B c b addr value =
     (let c = tick_devices c; b = bus_write B b addr value in (c, b))"

definition fetch_byte :: "'b Bus \<Rightarrow> Cpu \<Rightarrow> 'b \<Rightarrow> u8 \<times> Cpu \<times> 'b" where
  "fetch_byte B c b =
     (let (v, c, b) = cpu_read B c b (cpu_pc c);
          c = set_pc (cpu_pc c + 1) c
      in (v, c, b))"

definition fetch_word :: "'b Bus \<Rightarrow> Cpu \<Rightarrow> 'b \<Rightarrow> u16 \<times> Cpu \<times> 'b" where
  "fetch_word B c b =
     (let (lo, c, b) = fetch_byte B c b;
          (hi, c, b) = fetch_byte B c b
      in (le16 lo hi, c, b))"

definition push :: "'b Bus \<Rightarrow> Cpu \<Rightarrow> 'b \<Rightarrow> u8 \<Rightarrow> Cpu \<times> 'b" where
  "push B c b value =
     (let (c, b) = cpu_write B c b (0x0100 OR ucast (cpu_sp c)) value;
          c = set_sp (cpu_sp c - 1) c
      in (c, b))"

definition pull :: "'b Bus \<Rightarrow> Cpu \<Rightarrow> 'b \<Rightarrow> u8 \<times> Cpu \<times> 'b" where
  "pull B c b =
     (let c = set_sp (cpu_sp c + 1) c
      in cpu_read B c b (0x0100 OR ucast (cpu_sp c)))"

definition push_status :: "'b Bus \<Rightarrow> Cpu \<Rightarrow> 'b \<Rightarrow> bool \<Rightarrow> Cpu \<times> 'b" where
  "push_status B c b with_b =
     (let bits = cpu_p c OR Status_U;
          bits = (if with_b then bits OR Status_B else bits AND NOT Status_B)
      in push B c b bits)"

definition pull_status :: "'b Bus \<Rightarrow> Cpu \<Rightarrow> 'b \<Rightarrow> Cpu \<times> 'b" where
  "pull_status B c b =
     (let (v, c, b) = pull B c b
      in (set_p ((v OR Status_U) AND NOT Status_B) c, b))"

definition service_interrupt ::
  "u8 bitflags \<Rightarrow> 'b Bus \<Rightarrow> Cpu \<Rightarrow> 'b \<Rightarrow> u16 \<Rightarrow> bool \<Rightarrow> Cpu \<times> 'b" where
  "service_interrupt F B c b vector with_b =
     (let pc = cpu_pc c;
          (c, b) = push B c b (hi8 pc);
          (c, b) = push B c b (lo8 pc);
          (c, b) = push_status B c b with_b;
          c = set_p (fl_insert F (cpu_p c) Status_I) c;
          (v, b) = read_u16 B b vector
      in (set_pc v c, b))"

subsection \<open>Interrupt lines and reset\<close>

definition reset :: "u8 bitflags \<Rightarrow> 'b Bus \<Rightarrow> Cpu \<Rightarrow> 'b \<Rightarrow> Cpu \<times> 'b" where
  "reset F B c b =
     (let (v, b) = read_u16 B b RESET_VECTOR;
          c = set_pc v c;
          c = set_sp 0xFD c;
          c = set_p (fl_insert F (cpu_p c) (fl_union F Status_I Status_U)) c
      in (c\<lparr>halted := False, nmi_pending := False,
            cycles := cycles c + ucast INTERRUPT_CYCLES\<rparr>, b))"

definition set_nmi :: "Cpu \<Rightarrow> bool \<Rightarrow> Cpu" where
  "set_nmi c level =
     (let c = (if prev_nmi c \<and> \<not> level then c\<lparr>nmi_pending := True\<rparr> else c)
      in c\<lparr>prev_nmi := level\<rparr>)"

definition trigger_nmi :: "Cpu \<Rightarrow> Cpu" where
  "trigger_nmi c = c\<lparr>nmi_pending := True\<rparr>"

definition set_irq :: "Cpu \<Rightarrow> bool \<Rightarrow> Cpu" where
  "set_irq c level = c\<lparr>irq_line := level\<rparr>"

subsection \<open>Operand resolution\<close>

record Operand =
  op_addr :: u16
  op_page_crossed :: bool

definition Operand_at :: "u16 \<Rightarrow> Operand" where
  "Operand_at addr = \<lparr>op_addr = addr, op_page_crossed = False\<rparr>"

definition page_crossed :: "u16 \<Rightarrow> u16 \<Rightarrow> bool" where
  "page_crossed a b \<longleftrightarrow> a AND 0xFF00 \<noteq> b AND 0xFF00"

fun resolve :: "'b Bus \<Rightarrow> Cpu \<Rightarrow> 'b \<Rightarrow> AddressingMode \<Rightarrow> Operand \<times> Cpu \<times> 'b" where
  "resolve B c b Implied = (Operand_at 0, c, b)"
| "resolve B c b Accumulator = (Operand_at 0, c, b)"
| "resolve B c b JsrAbsolute = (Operand_at 0, c, b)"
| "resolve B c b Immediate =
     (let addr = cpu_pc c; c = set_pc (cpu_pc c + 1) c in (Operand_at addr, c, b))"
| "resolve B c b ZeroPage =
     (let (v, c, b) = fetch_byte B c b in (Operand_at (ucast v), c, b))"
| "resolve B c b ZeroPageX =
     (let (base, c, b) = fetch_byte B c b in (Operand_at (ucast (base + cpu_x c)), c, b))"
| "resolve B c b ZeroPageY =
     (let (base, c, b) = fetch_byte B c b in (Operand_at (ucast (base + cpu_y c)), c, b))"
| "resolve B c b Absolute =
     (let (v, c, b) = fetch_word B c b in (Operand_at v, c, b))"
| "resolve B c b AbsoluteX =
     (let (base, c, b) = fetch_word B c b;
          addr = base + ucast (cpu_x c)
      in (\<lparr>op_addr = addr, op_page_crossed = page_crossed base addr\<rparr>, c, b))"
| "resolve B c b AbsoluteY =
     (let (base, c, b) = fetch_word B c b;
          addr = base + ucast (cpu_y c)
      in (\<lparr>op_addr = addr, op_page_crossed = page_crossed base addr\<rparr>, c, b))"
| "resolve B c b Indirect =
     (let (ptr, c, b) = fetch_word B c b;
          (lo, c, b) = cpu_read B c b ptr;
          (hi, c, b) = cpu_read B c b ((ptr AND 0xFF00) OR ((ptr + 1) AND 0x00FF))
      in (Operand_at (le16 lo hi), c, b))"
| "resolve B c b IndexedIndirect =
     (let (base, c, b) = fetch_byte B c b;
          ptr = base + cpu_x c;
          (lo, c, b) = cpu_read B c b (ucast ptr);
          (hi, c, b) = cpu_read B c b (ucast (ptr + 1))
      in (Operand_at (le16 lo hi), c, b))"
| "resolve B c b IndirectIndexed =
     (let (base, c, b) = fetch_byte B c b;
          (lo, c, b) = cpu_read B c b (ucast base);
          (hi, c, b) = cpu_read B c b (ucast (base + 1));
          pointer = le16 lo hi;
          addr = pointer + ucast (cpu_y c)
      in (\<lparr>op_addr = addr, op_page_crossed = page_crossed pointer addr\<rparr>, c, b))"
| "resolve B c b Relative =
     (let (v, c, b) = fetch_byte B c b;
          offset = scast v;
          base = cpu_pc c;
          addr = base + offset
      in (\<lparr>op_addr = addr, op_page_crossed = page_crossed base addr\<rparr>, c, b))"

end
