(* ===== verification/M6502_Execute.thy ===== *)
theory M6502_Execute
  imports M6502_Cpu
begin

text \<open>
  \<open>src/cpu/execute.rs\<close>, \<open>src/cpu/dispatch.rs\<close> and \<open>Cpu::step\<close> of \<open>src/cpu/mod.rs\<close>: one handler
  per operation, and the instruction step. The \<open>u16\<close> sums of \<open>adc\<close> are 16-bit words; the \<open>i16\<close>
  differences of \<open>sbc\<close> stay between \<open>-512\<close> and \<open>511\<close>, so they are integers, on which \<open>AND\<close> is the
  two's-complement bitwise operation. The 256 monomorphised arms of \<open>dispatch\<close> are \<open>exec\<close> at the
  opcode.
\<close>

subsection \<open>Helpers\<close>

definition bool_word :: "bool \<Rightarrow> 'a::len word" where
  "bool_word v = (if v then 1 else 0)"

definition bit_test :: "u8 bitflags \<Rightarrow> 'b Bus \<Rightarrow> Cpu \<Rightarrow> 'b \<Rightarrow> Operand \<Rightarrow> Cpu \<times> 'b" where
  "bit_test F B c b m =
     (let (v, c, b) = cpu_read B c b (op_addr m);
          c = set_p (fl_set F (cpu_p c) Status_Z (cpu_a c AND v = 0)) c;
          c = set_p (fl_set F (cpu_p c) Status_V (v AND 0x40 \<noteq> 0)) c;
          c = set_p (fl_set F (cpu_p c) Status_N (v AND 0x80 \<noteq> 0)) c
      in (c, b))"

definition compare :: "u8 bitflags \<Rightarrow> Cpu \<Rightarrow> u8 \<Rightarrow> u8 \<Rightarrow> Cpu" where
  "compare F c reg v =
     (let r = reg - v;
          c = set_p (fl_set F (cpu_p c) Status_C (reg \<ge> v)) c
      in set_p (set_zn F (cpu_p c) r) c)"

definition adc :: "u8 bitflags \<Rightarrow> Cpu \<Rightarrow> u8 \<Rightarrow> Cpu" where
  "adc F c v =
     (let a = cpu_a c;
          cin = (bool_word (fl_contains F (cpu_p c) Status_C) :: u16)
      in if fl_contains F (cpu_p c) Status_D then
           (let binsum = (ucast a :: u16) + ucast v + cin;
                c = set_p (fl_set F (cpu_p c) Status_Z (binsum AND 0xFF = 0)) c;
                lo = (ucast (a AND 0x0F) :: u16) + ucast (v AND 0x0F) + cin;
                lo = (if lo \<ge> 0x0A then ((lo + 0x06) AND 0x0F) + 0x10 else lo);
                sum = (ucast (a AND 0xF0) :: u16) + ucast (v AND 0xF0) + lo;
                c = set_p (fl_set F (cpu_p c) Status_N (sum AND 0x80 \<noteq> 0)) c;
                c = set_p (fl_set F (cpu_p c) Status_V
                      ((ucast a XOR sum) AND (ucast v XOR sum) AND 0x80 \<noteq> 0)) c;
                sum = (if sum \<ge> 0xA0 then sum + 0x60 else sum);
                c = set_p (fl_set F (cpu_p c) Status_C (sum \<ge> 0x100)) c
            in set_a (ucast (sum AND 0xFF)) c)
         else
           (let sum = (ucast a :: u16) + ucast v + cin;
                result = (ucast (sum AND 0xFF) :: u8);
                c = set_p (fl_set F (cpu_p c) Status_C (sum > 0xFF)) c;
                c = set_p (fl_set F (cpu_p c) Status_V
                      ((ucast a XOR sum) AND (ucast v XOR sum) AND 0x80 \<noteq> 0)) c;
                c = set_a result c
            in set_p (set_zn F (cpu_p c) result) c))"

definition sbc :: "u8 bitflags \<Rightarrow> Cpu \<Rightarrow> u8 \<Rightarrow> Cpu" where
  "sbc F c v =
     (let a = cpu_a c;
          cin = (if fl_contains F (cpu_p c) Status_C then 1 else 0 :: int);
          r = uint a - uint v - (1 - cin);
          result = (word_of_int r :: u8);
          c = set_p (fl_set F (cpu_p c) Status_C (r \<ge> 0)) c;
          c = set_p (fl_set F (cpu_p c) Status_V ((a XOR v) AND (a XOR result) AND 0x80 \<noteq> 0)) c;
          c = set_p (set_zn F (cpu_p c) result) c
      in if fl_contains F (cpu_p c) Status_D then
           (let lo = uint (a AND 0x0F) - uint (v AND 0x0F) + cin - 1;
                lo = (if lo < 0 then ((lo - 0x06) AND 0x0F) - 0x10 else lo);
                hi = uint (a AND 0xF0) - uint (v AND 0xF0) + lo;
                hi = (if hi < 0 then hi - 0x60 else hi)
            in set_a (word_of_int (hi AND 0xFF)) c)
         else set_a result c)"

definition rmw ::
  "'b Bus \<Rightarrow> Cpu \<Rightarrow> 'b \<Rightarrow> Operand \<Rightarrow> (Cpu \<Rightarrow> u8 \<Rightarrow> u8 \<times> Cpu) \<Rightarrow> Cpu \<times> 'b" where
  "rmw B c b m f =
     (let (v, c, b) = cpu_read B c b (op_addr m);
          (r, c) = f c v
      in cpu_write B c b (op_addr m) r)"

definition shift ::
  "'b Bus \<Rightarrow> Cpu \<Rightarrow> 'b \<Rightarrow> AddressingMode \<Rightarrow> Operand \<Rightarrow> (Cpu \<Rightarrow> u8 \<Rightarrow> u8 \<times> Cpu) \<Rightarrow> Cpu \<times> 'b" where
  "shift B c b mode m f =
     (if mode = Accumulator then
        (let (r, c) = f c (cpu_a c) in (set_a r c, b))
      else
        (let (v, c, b) = cpu_read B c b (op_addr m);
             (r, c) = f c v
         in cpu_write B c b (op_addr m) r))"

definition asl_val :: "u8 bitflags \<Rightarrow> Cpu \<Rightarrow> u8 \<Rightarrow> u8 \<times> Cpu" where
  "asl_val F c v =
     (let c = set_p (fl_set F (cpu_p c) Status_C (v AND 0x80 \<noteq> 0)) c;
          r = push_bit 1 v
      in (r, set_p (set_zn F (cpu_p c) r) c))"

definition lsr_val :: "u8 bitflags \<Rightarrow> Cpu \<Rightarrow> u8 \<Rightarrow> u8 \<times> Cpu" where
  "lsr_val F c v =
     (let c = set_p (fl_set F (cpu_p c) Status_C (v AND 0x01 \<noteq> 0)) c;
          r = drop_bit 1 v
      in (r, set_p (set_zn F (cpu_p c) r) c))"

definition rol_val :: "u8 bitflags \<Rightarrow> Cpu \<Rightarrow> u8 \<Rightarrow> u8 \<times> Cpu" where
  "rol_val F c v =
     (let carry_in = bool_word (fl_contains F (cpu_p c) Status_C);
          c = set_p (fl_set F (cpu_p c) Status_C (v AND 0x80 \<noteq> 0)) c;
          r = push_bit 1 v OR carry_in
      in (r, set_p (set_zn F (cpu_p c) r) c))"

definition ror_val :: "u8 bitflags \<Rightarrow> Cpu \<Rightarrow> u8 \<Rightarrow> u8 \<times> Cpu" where
  "ror_val F c v =
     (let carry_in = bool_word (fl_contains F (cpu_p c) Status_C);
          c = set_p (fl_set F (cpu_p c) Status_C (v AND 0x01 \<noteq> 0)) c;
          r = drop_bit 1 v OR push_bit 7 carry_in
      in (r, set_p (set_zn F (cpu_p c) r) c))"

definition branch :: "Cpu \<Rightarrow> Operand \<Rightarrow> bool \<Rightarrow> u8 \<times> Cpu" where
  "branch c m cond =
     (if \<not> cond then (0, c)
      else (if op_page_crossed m then 2 else 1, set_pc (op_addr m) c))"

definition jsr :: "'b Bus \<Rightarrow> Cpu \<Rightarrow> 'b \<Rightarrow> Cpu \<times> 'b" where
  "jsr B c b =
     (let (lo, c, b) = fetch_byte B c b;
          ret = cpu_pc c;
          (c, b) = push B c b (hi8 ret);
          (c, b) = push B c b (lo8 ret);
          (hi, c, b) = cpu_read B c b (cpu_pc c)
      in (set_pc (push_bit 8 (ucast hi) OR ucast lo) c, b))"

definition rts :: "'b Bus \<Rightarrow> Cpu \<Rightarrow> 'b \<Rightarrow> Cpu \<times> 'b" where
  "rts B c b =
     (let (lo, c, b) = pull B c b;
          (hi, c, b) = pull B c b
      in (set_pc (le16 lo hi + 1) c, b))"

definition brk :: "u8 bitflags \<Rightarrow> 'b Bus \<Rightarrow> Cpu \<Rightarrow> 'b \<Rightarrow> Cpu \<times> 'b" where
  "brk F B c b =
     (let c = set_pc (cpu_pc c + 1) c in service_interrupt F B c b IRQ_VECTOR True)"

definition rti :: "'b Bus \<Rightarrow> Cpu \<Rightarrow> 'b \<Rightarrow> Cpu \<times> 'b" where
  "rti B c b =
     (let (c, b) = pull_status B c b;
          (lo, c, b) = pull B c b;
          (hi, c, b) = pull B c b
      in (set_pc (le16 lo hi) c, b))"

subsection \<open>The handlers\<close>

text \<open>\<open>extra\<close> cycles, the processor and the bus; every arm but the branches returns 0 extra.\<close>

definition no_extra :: "Cpu \<times> 'b \<Rightarrow> u8 \<times> Cpu \<times> 'b" where
  "no_extra r = (0, r)"

definition execute ::
  "u8 bitflags \<Rightarrow> 'b Bus \<Rightarrow> Cpu \<Rightarrow> 'b \<Rightarrow> OpInfo \<Rightarrow> Operand \<Rightarrow> u8 \<times> Cpu \<times> 'b" where
  "execute F B c b info m =
     (case op_operation info of
        LDA \<Rightarrow> (let (v, c, b) = cpu_read B c b (op_addr m); c = set_a v c
                in no_extra (set_p (set_zn F (cpu_p c) v) c, b))
      | LDX \<Rightarrow> (let (v, c, b) = cpu_read B c b (op_addr m); c = set_x v c
                in no_extra (set_p (set_zn F (cpu_p c) v) c, b))
      | LDY \<Rightarrow> (let (v, c, b) = cpu_read B c b (op_addr m); c = set_y v c
                in no_extra (set_p (set_zn F (cpu_p c) v) c, b))
      | STA \<Rightarrow> no_extra (cpu_write B c b (op_addr m) (cpu_a c))
      | STX \<Rightarrow> no_extra (cpu_write B c b (op_addr m) (cpu_x c))
      | STY \<Rightarrow> no_extra (cpu_write B c b (op_addr m) (cpu_y c))
      | TAX \<Rightarrow> (let c = set_x (cpu_a c) c in no_extra (set_p (set_zn F (cpu_p c) (cpu_x c)) c, b))
      | TAY \<Rightarrow> (let c = set_y (cpu_a c) c in no_extra (set_p (set_zn F (cpu_p c) (cpu_y c)) c, b))
      | TXA \<Rightarrow> (let c = set_a (cpu_x c) c in no_extra (set_p (set_zn F (cpu_p c) (cpu_a c)) c, b))
      | TYA \<Rightarrow> (let c = set_a (cpu_y c) c in no_extra (set_p (set_zn F (cpu_p c) (cpu_a c)) c, b))
      | TSX \<Rightarrow> (let c = set_x (cpu_sp c) c in no_extra (set_p (set_zn F (cpu_p c) (cpu_x c)) c, b))
      | TXS \<Rightarrow> no_extra (set_sp (cpu_x c) c, b)
      | PHA \<Rightarrow> no_extra (push B c b (cpu_a c))
      | PHP \<Rightarrow> no_extra (push_status B c b True)
      | PLA \<Rightarrow> (let (v, c, b) = pull B c b; c = set_a v c
                in no_extra (set_p (set_zn F (cpu_p c) v) c, b))
      | PLP \<Rightarrow> no_extra (pull_status B c b)
      | AND_op \<Rightarrow> (let (v, c, b) = cpu_read B c b (op_addr m); c = set_a (cpu_a c AND v) c
                in no_extra (set_p (set_zn F (cpu_p c) (cpu_a c)) c, b))
      | ORA \<Rightarrow> (let (v, c, b) = cpu_read B c b (op_addr m); c = set_a (cpu_a c OR v) c
                in no_extra (set_p (set_zn F (cpu_p c) (cpu_a c)) c, b))
      | EOR \<Rightarrow> (let (v, c, b) = cpu_read B c b (op_addr m); c = set_a (cpu_a c XOR v) c
                in no_extra (set_p (set_zn F (cpu_p c) (cpu_a c)) c, b))
      | BIT \<Rightarrow> no_extra (bit_test F B c b m)
      | ADC \<Rightarrow> (let (v, c, b) = cpu_read B c b (op_addr m) in no_extra (adc F c v, b))
      | SBC \<Rightarrow> (let (v, c, b) = cpu_read B c b (op_addr m) in no_extra (sbc F c v, b))
      | CMP \<Rightarrow> (let (v, c, b) = cpu_read B c b (op_addr m) in no_extra (compare F c (cpu_a c) v, b))
      | CPX \<Rightarrow> (let (v, c, b) = cpu_read B c b (op_addr m) in no_extra (compare F c (cpu_x c) v, b))
      | CPY \<Rightarrow> (let (v, c, b) = cpu_read B c b (op_addr m) in no_extra (compare F c (cpu_y c) v, b))
      | INC \<Rightarrow> no_extra (rmw B c b m
                (\<lambda>c v. let r = v + 1 in (r, set_p (set_zn F (cpu_p c) r) c)))
      | DEC \<Rightarrow> no_extra (rmw B c b m
                (\<lambda>c v. let r = v - 1 in (r, set_p (set_zn F (cpu_p c) r) c)))
      | INX \<Rightarrow> (let c = set_x (cpu_x c + 1) c in no_extra (set_p (set_zn F (cpu_p c) (cpu_x c)) c, b))
      | INY \<Rightarrow> (let c = set_y (cpu_y c + 1) c in no_extra (set_p (set_zn F (cpu_p c) (cpu_y c)) c, b))
      | DEX \<Rightarrow> (let c = set_x (cpu_x c - 1) c in no_extra (set_p (set_zn F (cpu_p c) (cpu_x c)) c, b))
      | DEY \<Rightarrow> (let c = set_y (cpu_y c - 1) c in no_extra (set_p (set_zn F (cpu_p c) (cpu_y c)) c, b))
      | ASL \<Rightarrow> no_extra (shift B c b (op_mode info) m (asl_val F))
      | LSR \<Rightarrow> no_extra (shift B c b (op_mode info) m (lsr_val F))
      | ROL \<Rightarrow> no_extra (shift B c b (op_mode info) m (rol_val F))
      | ROR \<Rightarrow> no_extra (shift B c b (op_mode info) m (ror_val F))
      | CLC \<Rightarrow> no_extra (set_p (fl_remove F (cpu_p c) Status_C) c, b)
      | SEC \<Rightarrow> no_extra (set_p (fl_insert F (cpu_p c) Status_C) c, b)
      | CLD \<Rightarrow> no_extra (set_p (fl_remove F (cpu_p c) Status_D) c, b)
      | SED \<Rightarrow> no_extra (set_p (fl_insert F (cpu_p c) Status_D) c, b)
      | CLI \<Rightarrow> no_extra (set_p (fl_remove F (cpu_p c) Status_I) c, b)
      | SEI \<Rightarrow> no_extra (set_p (fl_insert F (cpu_p c) Status_I) c, b)
      | CLV \<Rightarrow> no_extra (set_p (fl_remove F (cpu_p c) Status_V) c, b)
      | BCC \<Rightarrow> (let (n, c) = branch c m (\<not> fl_contains F (cpu_p c) Status_C) in (n, c, b))
      | BCS \<Rightarrow> (let (n, c) = branch c m (fl_contains F (cpu_p c) Status_C) in (n, c, b))
      | BNE \<Rightarrow> (let (n, c) = branch c m (\<not> fl_contains F (cpu_p c) Status_Z) in (n, c, b))
      | BEQ \<Rightarrow> (let (n, c) = branch c m (fl_contains F (cpu_p c) Status_Z) in (n, c, b))
      | BPL \<Rightarrow> (let (n, c) = branch c m (\<not> fl_contains F (cpu_p c) Status_N) in (n, c, b))
      | BMI \<Rightarrow> (let (n, c) = branch c m (fl_contains F (cpu_p c) Status_N) in (n, c, b))
      | BVC \<Rightarrow> (let (n, c) = branch c m (\<not> fl_contains F (cpu_p c) Status_V) in (n, c, b))
      | BVS \<Rightarrow> (let (n, c) = branch c m (fl_contains F (cpu_p c) Status_V) in (n, c, b))
      | JMP \<Rightarrow> no_extra (set_pc (op_addr m) c, b)
      | JSR \<Rightarrow> no_extra (jsr B c b)
      | RTS \<Rightarrow> no_extra (rts B c b)
      | BRK \<Rightarrow> no_extra (brk F B c b)
      | RTI \<Rightarrow> no_extra (rti B c b)
      | NOP \<Rightarrow> no_extra (c, b)
      | KIL \<Rightarrow> no_extra (c\<lparr>halted := True\<rparr>, b))"

subsection \<open>One step\<close>

definition exec :: "u8 bitflags \<Rightarrow> 'b Bus \<Rightarrow> u8 \<Rightarrow> Cpu \<Rightarrow> 'b \<Rightarrow> u8 \<times> Cpu \<times> 'b" where
  "exec F B opcode c b =
     (let info = OPCODES opcode;
          (operand, c, b) = resolve B c b (op_mode info);
          (extra, c, b) = execute F B c b info operand;
          cycles = op_cycles info;
          cycles = (if op_page_penalty info \<and> op_page_crossed operand then cycles + 1 else cycles)
      in (cycles + extra, c, b))"

definition dispatch :: "u8 bitflags \<Rightarrow> 'b Bus \<Rightarrow> Cpu \<Rightarrow> 'b \<Rightarrow> u8 \<Rightarrow> u8 \<times> Cpu \<times> 'b" where
  "dispatch F B c b opcode = exec F B opcode c b"

definition step :: "u8 bitflags \<Rightarrow> 'b Bus \<Rightarrow> Cpu \<Rightarrow> 'b \<Rightarrow> u8 \<times> Cpu \<times> 'b" where
  "step F B c b =
     (if halted c then (0, c, b)
      else if nmi_pending c then
        (let c = c\<lparr>nmi_pending := False\<rparr>;
             (c, b) = service_interrupt F B c b NMI_VECTOR False
         in (INTERRUPT_CYCLES, c\<lparr>cycles := cycles c + ucast INTERRUPT_CYCLES\<rparr>, b))
      else if irq_line c \<and> \<not> fl_contains F (cpu_p c) Status_I then
        (let (c, b) = service_interrupt F B c b IRQ_VECTOR False
         in (INTERRUPT_CYCLES, c\<lparr>cycles := cycles c + ucast INTERRUPT_CYCLES\<rparr>, b))
      else
        (let (opcode, c, b) = fetch_byte B c b;
             (n, c, b) = dispatch F B c b opcode
         in (n, c\<lparr>cycles := cycles c + ucast n\<rparr>, b)))"

end
