(* ===== verification/M6502_Arith.thy ===== *)
theory M6502_Arith
  imports M6502_Execute
begin

text \<open>
  What the arithmetic handlers \<open>adc\<close> and \<open>sbc\<close> of \<open>src/cpu/execute.rs\<close> compute: binary
  addition and subtraction with carry and their flags, and two-digit decimal arithmetic in decimal
  mode. The definitions name the intermediate sums of the code; each lemma reads one of them as a
  number.
\<close>

subsection \<open>Intermediate values\<close>

definition sum16 :: "u8 \<Rightarrow> u8 \<Rightarrow> bool \<Rightarrow> u16" where
  "sum16 a v cin = (ucast a :: u16) + ucast v + bool_word cin"

text \<open>Binary-coded decimal: two digits, one per nibble.\<close>

definition bcd_ok :: "u8 \<Rightarrow> bool" where
  "bcd_ok x \<longleftrightarrow> unat x div 16 \<le> 9 \<and> unat x mod 16 \<le> 9"

definition bcd :: "u8 \<Rightarrow> nat" where
  "bcd x = 10 * (unat x div 16) + unat x mod 16"

text \<open>The low digit of \<open>adc\<close>'s decimal sum, with the carry into the high digit as bit 4.\<close>

definition adj16 :: "u16 \<Rightarrow> u16" where
  "adj16 lo = (if lo \<ge> 0x0A then ((lo + 0x06) AND 0x0F) + 0x10 else lo)"

definition dec_sum16 :: "u8 \<Rightarrow> u8 \<Rightarrow> bool \<Rightarrow> u16" where
  "dec_sum16 a v cin = ucast (a AND 0xF0) + ucast (v AND 0xF0)
     + adj16 (ucast (a AND 0x0F) + ucast (v AND 0x0F) + bool_word cin)"

definition fix16 :: "u16 \<Rightarrow> u16" where
  "fix16 s = (if s \<ge> 0xA0 then s + 0x60 else s)"

text \<open>The decimal difference of \<open>sbc\<close> in integers.\<close>

definition dec_diff :: "u8 \<Rightarrow> u8 \<Rightarrow> int \<Rightarrow> int" where
  "dec_diff a v cin =
     (let lo = uint (a AND 0x0F) - uint (v AND 0x0F) + cin - 1;
          lo = (if lo < 0 then ((lo - 0x06) AND 0x0F) - 0x10 else lo);
          hi = uint (a AND 0xF0) - uint (v AND 0xF0) + lo
      in if hi < 0 then hi - 0x60 else hi)"

text \<open>A processor with a given accumulator and status register, for the examples.\<close>

definition accumulator_state :: "u8 \<Rightarrow> Status \<Rightarrow> Cpu" where
  "accumulator_state a p = set_p p (set_a a (Cpu_new bitflags_std))"

subsection \<open>The intermediate values as numbers\<close>

lemma unat_bool_word: "unat (bool_word v :: 'a::len word) = of_bool v"
  by (simp add: bool_word_def)

lemma unat_sum16: "unat (sum16 a v cin) = unat a + unat v + of_bool cin"
proof -
  have "unat a + unat v + of_bool cin < 65536"
    using unat_u8_less [of a] unat_u8_less [of v] by (cases cin) simp_all
  then show ?thesis
    by (simp add: sum16_def unat_word_ariths unat_ucast_u8 unat_bool_word)
qed

lemma sum16_overflow:
  "(ucast a XOR sum16 a v cin) AND (ucast v XOR sum16 a v cin) AND 0x80 \<noteq> 0 \<longleftrightarrow>
     sint a + sint v + of_bool cin \<notin> {-128..127}"
proof -
  have "((ucast a XOR sum16 a v cin) AND (ucast v XOR sum16 a v cin)) AND 0x80 \<noteq> 0 \<longleftrightarrow>
     bit a 7 \<noteq> bit (sum16 a v cin) 7 \<and> bit v 7 \<noteq> bit (sum16 a v cin) 7"
    unfolding u16_mask_bit7 by (simp add: bit_simps)
  moreover have "bit a 7 \<noteq> bit (sum16 a v cin) 7 \<and> bit v 7 \<noteq> bit (sum16 a v cin) 7 \<longleftrightarrow>
     sint a + sint v + of_bool cin \<notin> {-128..127}"
  proof -
    define x y z where "x = unat a" and "y = unat v" and "z = (of_bool cin :: nat)"
    have b: "x < 256" "y < 256" "z \<le> 1" by (simp_all add: x_def y_def z_def unat_u8_less)
    then have m: "(x + y + z) mod 256 = (if x + y + z < 256 then x + y + z else x + y + z - 256)"
      by (simp add: le_mod_geq)
    show ?thesis
      unfolding sint_u8 u8_bit7 u16_bit7 unat_sum16 x_def [symmetric] y_def [symmetric]
        z_def [symmetric] m
      using b by (cases cin) (auto simp: z_def)
  qed
  ultimately show ?thesis by (simp add: and.assoc)
qed

lemma mask_lo_nibble: "unat ((x :: u8) AND 0x0F) = unat x mod 16"
proof -
  have m: "(0x0F :: u8) = mask 4" by (simp add: mask_eq_exp_minus_1)
  show ?thesis
    unfolding m take_bit_eq_mask [symmetric] unsigned_take_bit_eq by (simp add: take_bit_eq_mod)
qed

lemma mask_hi_nibble: "unat ((x :: u8) AND 0xF0) = 16 * (unat x div 16)"
proof -
  have m: "(0xF0 :: u8) = NOT (mask 4)" by (simp add: mask_eq_exp_minus_1)
  have "x AND 0xF0 = push_bit 4 (drop_bit 4 x)"
    unfolding m by (rule bit_word_eqI) (auto simp: bit_simps)
  moreover have "unat (push_bit 4 (drop_bit 4 x)) = 16 * (unat x div 16)"
  proof -
    have "16 * (unat x div 16) < 256" using unat_u8_less [of x] by linarith
    then show ?thesis
      by (simp add: drop_bit_eq_div push_bit_eq_mult unat_word_ariths unat_div mult.commute)
  qed
  ultimately show ?thesis by simp
qed

lemma mask_lo_nibble_u16: "unat ((x :: u16) AND 0x0F) = unat x mod 16"
proof -
  have m: "(0x0F :: u16) = mask 4" by (simp add: mask_eq_exp_minus_1)
  show ?thesis
    unfolding m take_bit_eq_mask [symmetric] unsigned_take_bit_eq by (simp add: take_bit_eq_mod)
qed

lemma bcd_parts:
  assumes "unat x = 16 * h + l" and "h \<le> 9" and "l \<le> 9"
  shows "bcd_ok x" and "bcd x = 10 * h + l"
  using assms by (simp_all add: bcd_ok_def bcd_def)

lemma unat_adj16:
  assumes "unat lo \<le> 19"
  shows "unat (adj16 lo) = (if 10 \<le> unat lo then unat lo + 6 else unat lo)"
proof (cases "10 \<le> unat lo")
  case True
  have s: "unat (lo + 6) = unat lo + 6" using assms by (simp add: unat_word_ariths)
  have "(unat lo + 6) mod 16 = unat lo - 10" using True assms by (simp add: le_mod_geq)
  with s True assms show ?thesis
    by (simp add: adj16_def word_le_nat_alt unat_word_ariths mask_lo_nibble_u16)
next
  case False
  then show ?thesis by (simp add: adj16_def word_le_nat_alt)
qed

lemma unat_dec_sum16:
  fixes cin :: bool
  assumes "bcd_ok a" and "bcd_ok v"
  defines "l \<equiv> unat a mod 16 + unat v mod 16 + of_bool cin"
  shows "unat (dec_sum16 a v cin) =
    16 * (unat a div 16 + unat v div 16 + of_bool (10 \<le> l)) + l mod 10"
proof -
  have l: "l \<le> 19" using assms by (simp add: bcd_ok_def)
  have lo: "unat (ucast (a AND 0x0F) + ucast (v AND 0x0F) + bool_word cin :: u16) = l"
    using l by (simp add: unat_word_ariths unat_ucast_u8 unat_bool_word mask_lo_nibble l_def)
  then have adj: "unat (adj16 (ucast (a AND 0x0F) + ucast (v AND 0x0F) + bool_word cin)) =
      (if 10 \<le> l then l + 6 else l)"
    using l by (simp only: unat_adj16)
  have "l mod 10 = (if 10 \<le> l then l - 10 else l)" using l by (simp add: le_mod_geq)
  moreover have "unat a div 16 \<le> 9" "unat v div 16 \<le> 9" using assms by (simp_all add: bcd_ok_def)
  ultimately show ?thesis
    using l adj by (auto simp: dec_sum16_def unat_word_ariths unat_ucast_u8 mask_hi_nibble)
qed

lemma fix16_digits:
  assumes "unat s = 16 * h + l" and "h \<le> 19" and "l \<le> 9"
  shows "unat (fix16 s) = 16 * (if 10 \<le> h then h + 6 else h) + l"
  using assms by (auto simp: fix16_def word_le_nat_alt unat_word_ariths)

lemma u8_bit7_uint: "bit (x :: u8) 7 \<longleftrightarrow> 128 \<le> uint x"
  unfolding u8_bit7 uint_nat by linarith

lemma sint_u8_uint: "sint (x :: u8) = uint x - (if bit x 7 then 256 else 0)"
  by (simp add: sint_u8)

lemma sbc_overflow:
  fixes a v :: u8 and cin :: bool
  defines "r \<equiv> uint a - uint v - (1 - of_bool cin)"
  shows "(a XOR v) AND (a XOR word_of_int r) AND 0x80 \<noteq> 0 \<longleftrightarrow>
     sint a - sint v - (1 - of_bool cin) \<notin> {-128..127}"
proof -
  let ?r = "word_of_int r :: u8"
  define x y z where "x = uint a" and "y = uint v" and "z = (of_bool cin :: int)"
  have b: "0 \<le> x" "x < 256" "0 \<le> y" "y < 256" "0 \<le> z" "z \<le> 1"
    using uint_lt2p [of a] uint_lt2p [of v] by (simp_all add: x_def y_def z_def)
  have r: "r = x - y - (1 - z)" by (simp add: r_def x_def y_def z_def)
  have m: "r mod 256 = (if r < 0 then r + 256 else r)"
    using b by (simp add: r int_mod_neg)
  have bits: "bit a 7 \<longleftrightarrow> 128 \<le> x" "bit v 7 \<longleftrightarrow> 128 \<le> y" "bit ?r 7 \<longleftrightarrow> 128 \<le> r mod 256"
    by (simp_all add: u8_bit7_uint x_def y_def uint_word_of_int)
  have "((a XOR v) AND (a XOR ?r)) AND 0x80 \<noteq> 0 \<longleftrightarrow> bit a 7 \<noteq> bit v 7 \<and> bit a 7 \<noteq> bit ?r 7"
    unfolding u8_mask_bit7 by (simp add: bit_simps)
  also have "\<dots> \<longleftrightarrow> sint a - sint v - (1 - z) \<notin> {-128..127}"
    unfolding sint_u8_uint bits m x_def [symmetric] y_def [symmetric] using b by (auto simp: r)
  finally show ?thesis by (simp add: and.assoc z_def)
qed

lemma int_and_0F: "(x :: int) AND 0x0F = x mod 16"
  using take_bit_eq_mask [of 4 x] by (simp add: take_bit_eq_mod mask_eq_exp_minus_1)

lemma int_and_FF: "(x :: int) AND 0xFF = x mod 256"
  using take_bit_eq_mask [of 8 x] by (simp add: take_bit_eq_mod mask_eq_exp_minus_1)

lemma dec_diff_digits:
  fixes cin :: bool
  assumes "bcd_ok a" and "bcd_ok v"
  defines "l \<equiv> int (unat a mod 16) - int (unat v mod 16) - (1 - of_bool cin)"
  defines "h \<equiv> int (unat a div 16) - int (unat v div 16) - of_bool (l < 0)"
  shows "dec_diff a v (of_bool cin) mod 256 = 16 * (h mod 10) + l mod 10" and "-10 \<le> h" and "h \<le> 9"
    and "-10 \<le> l" and "l \<le> 9"
proof -
  have dig: "unat a mod 16 \<le> 9" "unat v mod 16 \<le> 9" "unat a div 16 \<le> 9" "unat v div 16 \<le> 9"
    using assms by (simp_all add: bcd_ok_def)
  then show l: "-10 \<le> l" "l \<le> 9" by (cases cin; simp add: l_def)+
  show h: "-10 \<le> h" "h \<le> 9" using dig by (cases "l < 0"; simp add: h_def)+
  have nl: "uint (x AND 0x0F) = int (unat x mod 16)" for x :: u8
    unfolding uint_nat mask_lo_nibble by simp
  have nh: "uint (x AND 0xF0) = 16 * int (unat x div 16)" for x :: u8
    unfolding uint_nat mask_hi_nibble by simp
  have lo: "(if l < 0 then ((l - 6) AND 0x0F) - 0x10 else l) = l mod 10 - 16 * of_bool (l < 0)"
  proof (cases "l < 0")
    case True
    have "(l - 6) mod 16 = l + 10" using True l by (simp add: int_mod_neg)
    moreover have "l mod 10 = l + 10" using True l by (simp add: int_mod_neg)
    ultimately show ?thesis using True by (simp add: int_and_0F)
  qed (use l in simp)
  define d where "d = 16 * h + l mod 10"
  have l10: "0 \<le> l mod 10" "l mod 10 \<le> 9" by simp_all
  have e1: "uint (a AND 0x0F) - uint (v AND 0x0F) + of_bool cin - 1 = l"
    unfolding nl l_def by simp
  have e2: "uint (a AND 0xF0) - uint (v AND 0xF0) + (l mod 10 - 16 * of_bool (l < 0)) = d"
    unfolding nh d_def h_def by simp
  have dd: "dec_diff a v (of_bool cin) = (if d < 0 then d - 0x60 else d)"
    unfolding dec_diff_def Let_def by (simp only: e1 lo e2)
  show "dec_diff a v (of_bool cin) mod 256 = 16 * (h mod 10) + l mod 10"
  proof (cases "h < 0")
    case True
    then have "h mod 10 = h + 10" using True h by (simp add: int_mod_neg)
    moreover have "d < 0" using True l10 by (simp add: d_def)
    moreover have "(d - 96) mod 256 = d - 96 + 256"
      using True h l10 by (simp add: int_mod_neg d_def)
    ultimately show ?thesis by (simp add: dd d_def)
  next
    case False
    then have hm: "h mod 10 = h" using h by simp
    have "0 \<le> d" "d < 256" using False h l10 by (simp_all add: d_def)
    then have "dec_diff a v (of_bool cin) mod 256 = d" by (simp add: dd)
    then show ?thesis by (simp add: d_def hm)
  qed
qed

lemma sbc_sets_flags:
  fixes v :: u8 and c :: Cpu
  assumes "bitflags_laws F"
  defines "r \<equiv> uint (cpu_a c) - uint v - (1 - of_bool (bit (cpu_p c) 0))"
  shows "(bit (cpu_p (sbc F c v)) 0 \<longleftrightarrow> 0 \<le> r) \<and>
    (bit (cpu_p (sbc F c v)) 1 \<longleftrightarrow> r mod 256 = 0) \<and>
    (bit (cpu_p (sbc F c v)) 7 \<longleftrightarrow> 128 \<le> r mod 256) \<and>
    (bit (cpu_p (sbc F c v)) 6 \<longleftrightarrow>
       sint (cpu_a c) - sint v - (1 - of_bool (bit (cpu_p c) 0)) \<notin> {-128..127}) \<and>
    (\<not> bit (cpu_p c) 3 \<longrightarrow> uint (cpu_a (sbc F c v)) = r mod 256)"
proof -
  from assms(1) have F: "F = bitflags_std" by (rule bitflags_laws_std)
  have u: "uint (word_of_int r :: u8) = r mod 256" by (simp add: uint_word_of_int)
  then have z: "(word_of_int r :: u8) = 0 \<longleftrightarrow> r mod 256 = 0" by (metis uint_0_iff)
  have n: "bit (word_of_int r :: u8) 7 \<longleftrightarrow> 128 \<le> r mod 256" by (simp add: u8_bit7_uint u)
  note ov = sbc_overflow [of "cpu_a c" v "bit (cpu_p c) 0", folded r_def]
  have i: "(if q then 1 else 0 :: int) = of_bool q" for q by simp
  show ?thesis
    unfolding sbc_def F Let_def flag_simps i r_def [symmetric] if_distrib [of regs] if_distrib [of reg_p]
    by (simp add: flag_simps z n u ov cong: if_cong)
qed

subsection \<open>The handlers\<close>

text \<open>
  \<open>ADC\<close> in binary mode is addition with carry: for every accumulator, operand and carry-in the
  new accumulator is the sum modulo 256, \<open>C\<close> is the carry out, \<open>Z\<close> and \<open>N\<close> describe the result, and
  \<open>V\<close> is set exactly when the sum of the two's-complement readings leaves the signed range.
\<close>

lemma adc_binary:
  fixes v :: u8
  assumes "bitflags_laws F" and "\<not> bit (cpu_p c) 3"
  defines "s \<equiv> unat (cpu_a c) + unat (v :: u8) + of_bool (bit (cpu_p c) 0)"
  shows "unat (cpu_a (adc F c v)) = s mod 256 \<and>
    (bit (cpu_p (adc F c v)) 0 \<longleftrightarrow> 256 \<le> s) \<and>
    (bit (cpu_p (adc F c v)) 1 \<longleftrightarrow> s mod 256 = 0) \<and>
    (bit (cpu_p (adc F c v)) 7 \<longleftrightarrow> 128 \<le> s mod 256) \<and>
    (bit (cpu_p (adc F c v)) 6 \<longleftrightarrow>
       sint (cpu_a c) + sint v + of_bool (bit (cpu_p c) 0) \<notin> {-128..127})"
proof -
  from assms(1) have F: "F = bitflags_std" by (rule bitflags_laws_std)
  let ?s = "sum16 (cpu_a c) v (bit (cpu_p c) 0)"
  have res: "unat (ucast (?s AND 0xFF) :: u8) = s mod 256"
    by (simp add: unat_and_FF unat_sum16 s_def)
  then have z: "(ucast (?s AND 0xFF) :: u8) = 0 \<longleftrightarrow> s mod 256 = 0"
    by (metis unat_eq_zero)
  have n: "bit (ucast (?s AND 0xFF) :: u8) 7 \<longleftrightarrow> 128 \<le> s mod 256"
    by (simp add: u8_bit7 res)
  have cy: "?s > 0xFF \<longleftrightarrow> 256 \<le> s"
    by (auto simp: word_less_nat_alt unat_sum16 s_def)
  show ?thesis
    using assms(2) res z n cy
    unfolding adc_def F Let_def sum16_def [symmetric] flag_simps
    by (simp add: flag_simps sum16_overflow del: not_le)
qed

text \<open>
  C38. \<open>ADC\<close> in decimal mode is two-digit decimal addition: for valid packed-decimal operands the
  result is valid packed decimal, its value is the decimal sum with carry modulo 100, and \<open>C\<close> is
  the decimal carry.
\<close>

theorem adc_decimal:
  fixes v :: u8
  assumes "bitflags_laws F" and "bit (cpu_p c) 3" and "bcd_ok (cpu_a c)" and "bcd_ok v"
  defines "s \<equiv> bcd (cpu_a c) + bcd v + of_bool (bit (cpu_p c) 0)"
  shows "bcd_ok (cpu_a (adc F c v)) \<and> bcd (cpu_a (adc F c v)) = s mod 100 \<and>
    (bit (cpu_p (adc F c v)) 0 \<longleftrightarrow> 100 \<le> s)"
proof -
  from assms(1) have F: "F = bitflags_std" by (rule bitflags_laws_std)
  let ?a = "cpu_a c" and ?cin = "bit (cpu_p c) 0"
  define l where "l = unat ?a mod 16 + unat v mod 16 + of_bool ?cin"
  define h where "h = unat ?a div 16 + unat v div 16 + of_bool (10 \<le> l)"
  let ?s = "fix16 (dec_sum16 ?a v ?cin)"
  have l: "l \<le> 19" and h: "h \<le> 19"
    using assms(3,4) by (simp_all add: l_def h_def bcd_ok_def)
  have l10: "l mod 10 \<le> 9" by (simp add: less_Suc_eq_le [symmetric])
  have u: "unat (dec_sum16 ?a v ?cin) = 16 * h + l mod 10"
    using assms(3,4) by (simp add: unat_dec_sum16 h_def l_def)
  have f: "unat ?s = 16 * (if 10 \<le> h then h + 6 else h) + l mod 10"
    using fix16_digits [OF u h l10] .
  have s: "s = 10 * h + l mod 10"
  proof -
    have "l = 10 * of_bool (10 \<le> l) + l mod 10" using l by (auto simp: le_mod_geq)
    then show ?thesis by (simp add: s_def bcd_def h_def l_def)
  qed
  have cy: "?s \<ge> 0x100 \<longleftrightarrow> 100 \<le> s"
    using h l10 by (auto simp: word_le_nat_alt f s)
  have r: "unat (ucast (?s AND 0xFF) :: u8) = 16 * (h mod 10) + l mod 10"
    using h l10 by (auto simp: unat_and_FF f le_mod_geq)
  have a: "cpu_a (adc F c v) = ucast (?s AND 0xFF)"
    using assms(2) unfolding adc_def F Let_def fix16_def dec_sum16_def adj16_def
    by (simp add: flag_simps)
  have p: "bit (cpu_p (adc F c v)) 0 \<longleftrightarrow> ?s \<ge> 0x100"
    using assms(2) unfolding adc_def F Let_def fix16_def dec_sum16_def adj16_def
    by (simp add: flag_simps)
  have "s mod 100 = 10 * (h mod 10) + l mod 10"
    unfolding s using h l10 by (cases "10 \<le> h") (simp_all add: le_mod_geq [of 100] le_mod_geq [of 10])
  with bcd_parts [OF r] l10 cy show ?thesis by (simp add: a p)
qed

theorem adc_decimal_witness:
  "bcd (cpu_a (adc bitflags_std (accumulator_state 0x58 0x29) 0x46)) = 5 \<and>
   bit (cpu_p (adc bitflags_std (accumulator_state 0x58 0x29) 0x46)) 0"
  using adc_decimal [of bitflags_std "accumulator_state 0x58 0x29" "0x46"]
  by (simp add: accumulator_state_def Cpu_new_def Registers_new_def bcd_ok_def bcd_def)

text \<open>
  \<open>SBC\<close> sets all its flags from the binary difference, in decimal mode as in binary mode: \<open>C\<close> is
  no-borrow, \<open>Z\<close> and \<open>N\<close> describe the difference modulo 256, \<open>V\<close> is signed overflow; and with \<open>D\<close>
  clear the accumulator is that difference modulo 256.
\<close>

lemma sbc_flags:
  fixes v :: u8 and c :: Cpu
  assumes "bitflags_laws F"
  defines "r \<equiv> uint (cpu_a c) - uint v - (1 - of_bool (bit (cpu_p c) 0))"
  shows "(bit (cpu_p (sbc F c v)) 0 \<longleftrightarrow> 0 \<le> r) \<and>
    (bit (cpu_p (sbc F c v)) 1 \<longleftrightarrow> r mod 256 = 0) \<and>
    (bit (cpu_p (sbc F c v)) 7 \<longleftrightarrow> 128 \<le> r mod 256) \<and>
    (bit (cpu_p (sbc F c v)) 6 \<longleftrightarrow>
       sint (cpu_a c) - sint v - (1 - of_bool (bit (cpu_p c) 0)) \<notin> {-128..127}) \<and>
    (\<not> bit (cpu_p c) 3 \<longrightarrow> uint (cpu_a (sbc F c v)) = r mod 256)"
  unfolding r_def by (rule sbc_sets_flags [OF assms(1)])

text \<open>
  \<open>SBC\<close> in decimal mode is two-digit decimal subtraction: for valid packed-decimal operands the
  result is valid packed decimal, its value is the decimal difference with borrow modulo 100, and
  \<open>C\<close> is set exactly when no borrow occurs.
\<close>

lemma sbc_decimal:
  fixes v :: u8
  assumes "bitflags_laws F" and "bit (cpu_p c) 3" and "bcd_ok (cpu_a c)" and "bcd_ok v"
  defines "d \<equiv> int (bcd (cpu_a c)) - int (bcd v) - (1 - of_bool (bit (cpu_p c) 0))"
  shows "bcd_ok (cpu_a (sbc F c v)) \<and> int (bcd (cpu_a (sbc F c v))) = d mod 100 \<and>
    (bit (cpu_p (sbc F c v)) 0 \<longleftrightarrow> 0 \<le> d)"
proof -
  from assms(1) have F: "F = bitflags_std" by (rule bitflags_laws_std)
  let ?a = "cpu_a c" and ?cin = "bit (cpu_p c) 0"
  define l where "l = int (unat ?a mod 16) - int (unat v mod 16) - (1 - of_bool ?cin)"
  define h where "h = int (unat ?a div 16) - int (unat v div 16) - of_bool (l < 0)"
  note dig = dec_diff_digits [OF assms(3,4), of ?cin, folded l_def, folded h_def]
  have l10: "0 \<le> l mod 10" "l mod 10 \<le> 9" and h10: "0 \<le> h mod 10" "h mod 10 \<le> 9" by simp_all
  have i: "(if q then 1 else 0 :: int) = of_bool q" for q by simp
  have "cpu_a (sbc F c v) = word_of_int (dec_diff ?a v (of_bool ?cin) AND 0xFF)"
    using assms(2) unfolding sbc_def F Let_def flag_simps i dec_diff_def
    by (simp add: flag_simps)
  then have "uint (cpu_a (sbc F c v)) = 16 * (h mod 10) + l mod 10"
    using dig(1) l10 h10 by (simp only: int_and_FF uint_word_of_int) simp
  then have r: "unat (cpu_a (sbc F c v)) = 16 * nat (h mod 10) + nat (l mod 10)"
    using l10 h10 by (simp add: unat_eq_nat_uint nat_add_distrib nat_mult_distrib)
  have lsplit: "l = l mod 10 - 10 * of_bool (l < 0)"
    using dig(4,5) by (cases "l < 0") (simp_all add: int_mod_neg)
  have d: "d = 10 * h + l mod 10"
    using lsplit by (simp add: d_def bcd_def h_def l_def)
  have "d mod 100 = 10 * (h mod 10) + l mod 10"
  proof (cases "h < 0")
    case True
    then have "h mod 10 = h + 10" using True dig by (simp add: int_mod_neg)
    moreover have "d mod 100 = d + 100"
      using True dig l10 by (simp add: int_mod_neg d)
    ultimately show ?thesis by (simp add: d)
  qed (use dig l10 in \<open>simp add: d\<close>)
  moreover have "bit (cpu_p (sbc F c v)) 0 \<longleftrightarrow> 0 \<le> uint ?a - uint v - (1 - of_bool ?cin)"
    using sbc_sets_flags [OF assms(1), of c v] by simp
  moreover have "0 \<le> uint ?a - uint v - (1 - of_bool ?cin) \<longleftrightarrow> 0 \<le> d"
  proof -
    have x: "uint x = 16 * int (unat x div 16) + int (unat x mod 16)" for x :: u8
      unfolding uint_nat by (metis mult_div_mod_eq of_nat_add of_nat_mult of_nat_numeral)
    have "uint ?a - uint v - (1 - of_bool ?cin) = 16 * (h + of_bool (l < 0)) + l"
      unfolding x [of ?a] x [of v] by (simp add: h_def l_def)
    with lsplit l10 dig(4,5) show ?thesis unfolding d by (cases "l < 0"; cases "h < 0") simp_all
  qed
  ultimately show ?thesis
    using bcd_parts [OF r] l10 h10 by (simp add: nat_le_iff)
qed


end
