(* ===== verification/M6502_Device.thy ===== *)
theory M6502_Device
  imports M6502_Bus
begin

text \<open>
  \<open>src/device/mod.rs\<close>: memory-mapped peripherals and the address decoder. A \<open>Box<dyn Device>\<close>
  is a method table together with the device's state, as Rust lays a trait object out; the
  decoder tries the windows in mapping order, the first match wins, and RAM answers the rest.
  \<open>SystemBus::map\<close> panics on an empty window and on one that runs past the top of the address
  space; the panic is the value \<open>None\<close>.

  \<open>decode\<close> is the specification of the decoder over natural numbers: the first window
  \<open>[start, start + len)\<close> that contains the address. The lemmas show that the wrapping subtraction
  of the code computes it on every bus that \<open>map\<close> can build.
\<close>

record 'd Device =
  dev_read :: "'d \<Rightarrow> u16 \<Rightarrow> u8 \<times> 'd"
  dev_write :: "'d \<Rightarrow> u16 \<Rightarrow> u8 \<Rightarrow> 'd"

record 'd Mapping =
  map_start :: u16
  map_len :: u16
  map_methods :: "'d Device"
  map_device :: 'd

record 'd SystemBus =
  sb_ram :: FlatMemory
  sb_mappings :: "'d Mapping list"

definition SystemBus_new :: "'d SystemBus" where
  "SystemBus_new = \<lparr>sb_ram = FlatMemory_new, sb_mappings = []\<rparr>"

definition SystemBus_map ::
  "'d SystemBus \<Rightarrow> u16 \<Rightarrow> u16 \<Rightarrow> 'd Device \<Rightarrow> 'd \<Rightarrow> 'd SystemBus option" where
  "SystemBus_map s base len methods dev =
     (if len > 0 \<and> unat base + unat (len - 1) < 2 ^ 16
      then Some (s\<lparr>sb_mappings := sb_mappings s @
             [\<lparr>map_start = base, map_len = len, map_methods = methods, map_device = dev\<rparr>]\<rparr>)
      else None)"

text \<open>The loop over \<open>&mut self.mappings\<close>: \<open>None\<close> when no window matches.\<close>

fun mappings_read :: "'d Mapping list \<Rightarrow> u16 \<Rightarrow> (u8 \<times> 'd Mapping list) option" where
  "mappings_read [] addr = None"
| "mappings_read (m # ms) addr =
     (let offset = addr - map_start m
      in if offset < map_len m
         then (case dev_read (map_methods m) (map_device m) offset of
                 (v, d) \<Rightarrow> Some (v, m\<lparr>map_device := d\<rparr> # ms))
         else map_option (\<lambda>(v, ms'). (v, m # ms')) (mappings_read ms addr))"

fun mappings_write :: "'d Mapping list \<Rightarrow> u16 \<Rightarrow> u8 \<Rightarrow> 'd Mapping list option" where
  "mappings_write [] addr value = None"
| "mappings_write (m # ms) addr value =
     (let offset = addr - map_start m
      in if offset < map_len m
         then Some (m\<lparr>map_device := dev_write (map_methods m) (map_device m) offset value\<rparr> # ms)
         else map_option ((#) m) (mappings_write ms addr value))"

definition SystemBus_read :: "'d SystemBus \<Rightarrow> u16 \<Rightarrow> u8 \<times> 'd SystemBus" where
  "SystemBus_read s addr =
     (case mappings_read (sb_mappings s) addr of
        Some (v, ms) \<Rightarrow> (v, s\<lparr>sb_mappings := ms\<rparr>)
      | None \<Rightarrow> (case FlatMemory_read (sb_ram s) addr of (v, r) \<Rightarrow> (v, s\<lparr>sb_ram := r\<rparr>)))"

definition SystemBus_write :: "'d SystemBus \<Rightarrow> u16 \<Rightarrow> u8 \<Rightarrow> 'd SystemBus" where
  "SystemBus_write s addr value =
     (case mappings_write (sb_mappings s) addr value of
        Some ms \<Rightarrow> s\<lparr>sb_mappings := ms\<rparr>
      | None \<Rightarrow> s\<lparr>sb_ram := FlatMemory_write (sb_ram s) addr value\<rparr>)"

definition SystemBus_bus :: "'d SystemBus Bus" where
  "SystemBus_bus = \<lparr>bus_read = SystemBus_read, bus_write = SystemBus_write\<rparr>"

subsection \<open>The decoder's specification\<close>

definition in_window :: "'d Mapping \<Rightarrow> u16 \<Rightarrow> bool" where
  "in_window m addr \<longleftrightarrow>
     unat (map_start m) \<le> unat addr \<and> unat addr < unat (map_start m) + unat (map_len m)"

fun decode :: "'d Mapping list \<Rightarrow> u16 \<Rightarrow> nat option" where
  "decode [] addr = None"
| "decode (m # ms) addr = (if in_window m addr then Some 0 else map_option Suc (decode ms addr))"

text \<open>A window that \<open>map\<close> accepts: nonempty, and it does not wrap.\<close>

definition window_ok :: "'d Mapping \<Rightarrow> bool" where
  "window_ok m \<longleftrightarrow> 0 < unat (map_len m) \<and> unat (map_start m) + unat (map_len m) \<le> 65536"

definition windows_ok :: "'d SystemBus \<Rightarrow> bool" where
  "windows_ok s \<longleftrightarrow> list_all window_ok (sb_mappings s)"

definition is_plain_ram :: "'d SystemBus \<Rightarrow> u16 \<Rightarrow> bool" where
  "is_plain_ram s addr \<longleftrightarrow> list_all (\<lambda>m. \<not> addr - map_start m < map_len m) (sb_mappings s)"

definition sb_peek :: "'d SystemBus \<Rightarrow> u16 \<Rightarrow> u8" where
  "sb_peek s = ram (sb_ram s)"

lemma wrapped_offset_window:
  assumes "window_ok m"
  shows "addr - map_start m < map_len m \<longleftrightarrow> in_window m addr"
proof (cases "map_start m \<le> addr")
  case True
  then have "unat (addr - map_start m) = unat addr - unat (map_start m)"
    by (rule unat_sub)
  with True show ?thesis
    by (auto simp: in_window_def word_less_nat_alt word_le_nat_alt)
next
  case False
  then have lt: "unat addr < unat (map_start m)" by (simp add: word_le_nat_alt)
  have "unat (addr - map_start m) = unat addr + 65536 - unat (map_start m)"
    using lt by (simp add: unat_sub_if')
  with assms lt show ?thesis
    by (auto simp: in_window_def window_ok_def word_less_nat_alt)
qed

lemma SystemBus_map_windows:
  assumes "SystemBus_map s base len methods dev = Some s'" and "windows_ok s"
  shows "windows_ok s'"
proof -
  from assms(1) have len: "len > 0" "unat base + unat (len - 1) < 65536"
    and s': "s' = s\<lparr>sb_mappings := sb_mappings s @
       [\<lparr>map_start = base, map_len = len, map_methods = methods, map_device = dev\<rparr>]\<rparr>"
    by (auto simp: SystemBus_map_def split: if_splits)
  from len(1) have pos: "0 < unat len" by (simp add: word_less_nat_alt)
  then have "unat (len - 1) = unat len - 1" by (metis unat_1 unat_minus_one unat_0 less_irrefl)
  with len pos assms(2) show ?thesis
    by (simp add: windows_ok_def window_ok_def s')
qed

lemma mappings_read_plain:
  "list_all (\<lambda>m. \<not> addr - map_start m < map_len m) ms \<Longrightarrow> mappings_read ms addr = None"
  by (induction ms) (simp_all add: Let_def)

lemma mappings_write_plain:
  "list_all (\<lambda>m. \<not> addr - map_start m < map_len m) ms \<Longrightarrow> mappings_write ms addr v = None"
  by (induction ms) (simp_all add: Let_def)

interpretation sys: ram_bus SystemBus_bus sb_peek is_plain_ram
  by unfold_locales
    (simp_all add: SystemBus_bus_def SystemBus_read_def SystemBus_write_def is_plain_ram_def
      mappings_read_plain mappings_write_plain FlatMemory_read_def FlatMemory_write_def
      sb_peek_def fun_eq_iff)

text \<open>The decoder loops compute the specification.\<close>

lemma mappings_read_decode:
  assumes "list_all window_ok ms"
  shows "mappings_read ms addr =
    (case decode ms addr of
       None \<Rightarrow> None
     | Some i \<Rightarrow>
         (case dev_read (map_methods (ms ! i)) (map_device (ms ! i)) (addr - map_start (ms ! i)) of
            (v, d) \<Rightarrow> Some (v, ms[i := (ms ! i)\<lparr>map_device := d\<rparr>])))"
  using assms
  by (induction ms) (auto simp: Let_def wrapped_offset_window split: option.splits prod.splits)

lemma mappings_write_decode:
  assumes "list_all window_ok ms"
  shows "mappings_write ms addr v =
    (case decode ms addr of
       None \<Rightarrow> None
     | Some i \<Rightarrow> Some (ms[i := (ms ! i)\<lparr>map_device :=
         dev_write (map_methods (ms ! i)) (map_device (ms ! i)) (addr - map_start (ms ! i)) v\<rparr>]))"
  using assms
  by (induction ms) (auto simp: Let_def wrapped_offset_window split: option.splits)

lemma decode_Some:
  "decode ms addr = Some i \<Longrightarrow> i < length ms \<and> in_window (ms ! i) addr \<and>
     (\<forall>j < i. \<not> in_window (ms ! j) addr)"
proof (induction ms arbitrary: i)
  case Nil
  then show ?case by simp
next
  case (Cons m ms)
  then show ?case
    by (auto simp: less_Suc_eq_0_disj nth_Cons split: if_splits nat.splits)
qed

lemma window_ok_device [simp]: "window_ok (m\<lparr>map_device := d\<rparr>) = window_ok m"
  by (simp add: window_ok_def)

lemma list_all_update_window:
  assumes "list_all window_ok ms"
  shows "list_all window_ok (ms[i := (ms ! i)\<lparr>map_device := d\<rparr>])"
proof (cases "i < length ms")
  case True
  with assms show ?thesis by (auto simp: list_all_length nth_list_update)
next
  case False
  with assms show ?thesis by (simp add: list_update_beyond)
qed

lemma SystemBus_read_windows: "windows_ok s \<Longrightarrow> windows_ok (snd (SystemBus_read s addr))"
  by (auto simp: SystemBus_read_def windows_ok_def mappings_read_decode FlatMemory_read_def
      list_all_update_window split: option.splits prod.splits)

lemma SystemBus_write_windows: "windows_ok s \<Longrightarrow> windows_ok (SystemBus_write s addr v)"
  by (auto simp: SystemBus_write_def windows_ok_def mappings_write_decode
      list_all_update_window split: option.splits)

text \<open>
  The buses a program can hold: the field \<open>mappings\<close> is private, so they are built by \<open>new\<close> and
  \<open>map\<close> and changed by reads, writes and direct stores into the public RAM.
\<close>

inductive bus_reachable :: "'d SystemBus \<Rightarrow> bool" where
  fresh: "bus_reachable SystemBus_new"
| mapped: "bus_reachable s \<Longrightarrow> SystemBus_map s base len methods dev = Some s' \<Longrightarrow> bus_reachable s'"
| was_read: "bus_reachable s \<Longrightarrow> bus_reachable (snd (SystemBus_read s addr))"
| written: "bus_reachable s \<Longrightarrow> bus_reachable (SystemBus_write s addr v)"
| loaded: "bus_reachable s \<Longrightarrow> bus_reachable (s\<lparr>sb_ram := r\<rparr>)"

lemma bus_reachable_windows: "bus_reachable s \<Longrightarrow> windows_ok s"
proof (induction rule: bus_reachable.induct)
  case fresh
  then show ?case by (simp add: windows_ok_def SystemBus_new_def)
next
  case (mapped s base len methods dev s')
  then show ?case by (blast intro: SystemBus_map_windows)
next
  case (was_read s addr)
  then show ?case by (simp add: SystemBus_read_windows)
next
  case (written s addr v)
  then show ?case by (simp add: SystemBus_write_windows)
next
  case (loaded s r)
  then show ?case by (simp add: windows_ok_def)
qed

text \<open>
  The address decoder of \<open>SystemBus\<close> routes every read to the right place. On every reachable
  bus, a read at \<open>addr\<close> either hits the first window \<open>[start, start + len)\<close>, as an interval of
  natural numbers, that contains \<open>addr\<close>, in which case exactly that device is read at the offset
  \<open>addr - start\<close>, below \<open>len\<close>, and nothing else changes; or no window contains it and RAM answers,
  and the whole bus is unchanged.
\<close>

lemma SystemBus_read_routes:
  assumes "bus_reachable s"
  shows "case decode (sb_mappings s) addr of
      None \<Rightarrow> SystemBus_read s addr = (ram (sb_ram s) addr, s)
    | Some i \<Rightarrow> (let m = sb_mappings s ! i; off = addr - map_start m;
                    (v, d) = dev_read (map_methods m) (map_device m) off
                in SystemBus_read s addr =
                     (v, s\<lparr>sb_mappings := (sb_mappings s)[i := m\<lparr>map_device := d\<rparr>]\<rparr>)
                   \<and> unat off = unat addr - unat (map_start m) \<and> unat off < unat (map_len m)
                   \<and> unat (map_start m) \<le> unat addr)"
proof (cases "decode (sb_mappings s) addr")
  case None
  with bus_reachable_windows [OF assms] show ?thesis
    by (simp add: SystemBus_read_def mappings_read_decode windows_ok_def FlatMemory_read_def)
next
  case (Some i)
  then have w: "in_window (sb_mappings s ! i) addr" by (simp add: decode_Some)
  then have "unat (addr - map_start (sb_mappings s ! i)) =
      unat addr - unat (map_start (sb_mappings s ! i))"
    by (intro unat_sub) (simp add: in_window_def word_le_nat_alt)
  with w Some bus_reachable_windows [OF assms] show ?thesis
    by (auto simp: SystemBus_read_def mappings_read_decode windows_ok_def in_window_def Let_def
        split: prod.splits)
qed

definition example_device :: "u8 Device" where
  "example_device = \<lparr>dev_read = (\<lambda>d off. (d, d)), dev_write = (\<lambda>d off v. v)\<rparr>"

definition example_bus :: "u8 SystemBus" where
  "example_bus =
     SystemBus_new\<lparr>sb_mappings :=
       [\<lparr>map_start = 0xD000, map_len = 8, map_methods = example_device, map_device = 7\<rparr>]\<rparr>"

lemma example_bus_reachable: "bus_reachable example_bus"
proof (rule bus_reachable.mapped [OF bus_reachable.fresh])
  show "SystemBus_map SystemBus_new 0xD000 8 example_device 7 = Some example_bus"
    by (simp add: SystemBus_map_def example_bus_def SystemBus_new_def)
qed

end
