(* ===== verification/M6502_Uart.thy ===== *)
theory M6502_Uart
  imports M6502_Device
begin

text \<open>
  \<open>src/device/uart.rs\<close>: the minimal 16550 UART. The output \<open>Box<dyn io::Write>\<close> is a method table
  and the writer's state; the UART discards what \<open>write_all\<close> and \<open>flush\<close> return, so only their
  effect on the writer is modelled, and a writer may drop bytes. The receive queue is the list of
  its bytes, oldest first.

  The lemmas follow a guest's whole conversation with the device, as a list of host and guest
  accesses, against a specification that only tracks the divisor-latch bit.
\<close>

definition RBR_THR :: u16 where "RBR_THR = 0"
definition IER :: u16 where "IER = 1"
definition IIR_FCR :: u16 where "IIR_FCR = 2"
definition LCR :: u16 where "LCR = 3"
definition MCR :: u16 where "MCR = 4"
definition LSR_off :: u16 where "LSR_off = 5"
definition MSR_off :: u16 where "MSR_off = 6"
definition SCR :: u16 where "SCR = 7"

lemmas uart_offsets = RBR_THR_def IER_def IIR_FCR_def LCR_def MCR_def LSR_off_def MSR_off_def SCR_def

definition LSR_DATA_READY :: u8 where "LSR_DATA_READY = 0x01"
definition LSR_THR_EMPTY :: u8 where "LSR_THR_EMPTY = 0x20"
definition LSR_TX_IDLE :: u8 where "LSR_TX_IDLE = 0x40"
definition LCR_DLAB :: u8 where "LCR_DLAB = 0x80"

lemmas uart_bits = LSR_DATA_READY_def LSR_THR_EMPTY_def LSR_TX_IDLE_def LCR_DLAB_def

record 'w Writer =
  write_all :: "'w \<Rightarrow> u8 list \<Rightarrow> 'w"
  w_flush :: "'w \<Rightarrow> 'w"

record 'w Uart16550 =
  tx_methods :: "'w Writer"
  tx :: 'w
  rx :: "u8 list"
  ier :: u8
  lcr :: u8
  mcr :: u8
  scratch :: u8
  divisor_lo :: u8
  divisor_hi :: u8

definition Uart_WINDOW :: u16 where "Uart_WINDOW = 8"

definition Uart_with_output :: "'w Writer \<Rightarrow> 'w \<Rightarrow> 'w Uart16550" where
  "Uart_with_output methods w =
     \<lparr>tx_methods = methods, tx = w, rx = [], ier = 0, lcr = 0, mcr = 0, scratch = 0,
      divisor_lo = 0, divisor_hi = 0\<rparr>"

definition Uart_feed :: "'w Uart16550 \<Rightarrow> u8 list \<Rightarrow> 'w Uart16550" where
  "Uart_feed u bytes = u\<lparr>rx := rx u @ bytes\<rparr>"

definition dlab :: "'w Uart16550 \<Rightarrow> bool" where
  "dlab u \<longleftrightarrow> lcr u AND LCR_DLAB \<noteq> 0"

definition Uart_read :: "'w Uart16550 \<Rightarrow> u16 \<Rightarrow> u8 \<times> 'w Uart16550" where
  "Uart_read u offset =
     (if offset = RBR_THR \<and> dlab u then (divisor_lo u, u)
      else if offset = RBR_THR then
        (case rx u of [] \<Rightarrow> (0, u) | b # bs \<Rightarrow> (b, u\<lparr>rx := bs\<rparr>))
      else if offset = IER \<and> dlab u then (divisor_hi u, u)
      else if offset = IER then (ier u, u)
      else if offset = IIR_FCR then (0x01, u)
      else if offset = LCR then (lcr u, u)
      else if offset = MCR then (mcr u, u)
      else if offset = LSR_off then
        (LSR_THR_EMPTY OR LSR_TX_IDLE OR (if rx u = [] then 0 else LSR_DATA_READY), u)
      else if offset = MSR_off then (0, u)
      else if offset = SCR then (scratch u, u)
      else (0, u))"

definition Uart_write :: "'w Uart16550 \<Rightarrow> u16 \<Rightarrow> u8 \<Rightarrow> 'w Uart16550" where
  "Uart_write u offset value =
     (if offset = RBR_THR \<and> dlab u then u\<lparr>divisor_lo := value\<rparr>
      else if offset = RBR_THR then
        (let w = write_all (tx_methods u) (tx u) [value];
             w = w_flush (tx_methods u) w
         in u\<lparr>tx := w\<rparr>)
      else if offset = IER \<and> dlab u then u\<lparr>divisor_hi := value\<rparr>
      else if offset = IER then u\<lparr>ier := value\<rparr>
      else if offset = IIR_FCR then u
      else if offset = LCR then u\<lparr>lcr := value\<rparr>
      else if offset = MCR then u\<lparr>mcr := value\<rparr>
      else if offset = LSR_off \<or> offset = MSR_off then u
      else if offset = SCR then u\<lparr>scratch := value\<rparr>
      else u)"

definition Uart_device :: "'w Uart16550 Device" where
  "Uart_device = \<lparr>dev_read = Uart_read, dev_write = Uart_write\<rparr>"

subsection \<open>A conversation with the device\<close>

datatype access = Feed "u8 list" | Read u16 | Write u16 u8

text \<open>One access; the result is what a read returned, if the access was a read.\<close>

fun do_access :: "'w Uart16550 \<Rightarrow> access \<Rightarrow> u8 option \<times> 'w Uart16550" where
  "do_access u (Feed bs) = (None, Uart_feed u bs)"
| "do_access u (Read off) = (case Uart_read u off of (v, u') \<Rightarrow> (Some v, u'))"
| "do_access u (Write off v) = (None, Uart_write u off v)"

fun uart_run :: "'w Uart16550 \<Rightarrow> access list \<Rightarrow> u8 option list \<times> 'w Uart16550" where
  "uart_run u [] = ([], u)"
| "uart_run u (x # xs) =
     (let (r, u) = do_access u x; (rs, u) = uart_run u xs in (r # rs, u))"

text \<open>
  The specification: the bytes a conversation sends, the bytes it receives, and the bytes it is fed,
  computed from the accesses and the divisor-latch bit alone.
\<close>

fun sent :: "bool \<Rightarrow> access list \<Rightarrow> u8 list" where
  "sent d [] = []"
| "sent d (Write off v # xs) =
     (if off = RBR_THR \<and> \<not> d then v # sent d xs
      else sent (if off = LCR then bit v 7 else d) xs)"
| "sent d (_ # xs) = sent d xs"

fun fed :: "access list \<Rightarrow> u8 list" where
  "fed [] = []"
| "fed (Feed bs # xs) = bs @ fed xs"
| "fed (_ # xs) = fed xs"

text \<open>
  What the guest receives: the results of the reads of offset 0 with the latch bit clear while a byte
  is waiting; \<open>n\<close> counts the waiting bytes.
\<close>

fun received :: "bool \<Rightarrow> nat \<Rightarrow> (access \<times> u8 option) list \<Rightarrow> u8 list" where
  "received d n [] = []"
| "received d n ((Feed bs, _) # xs) = received d (n + length bs) xs"
| "received d n ((Write off v, _) # xs) = received (if off = LCR then bit v 7 else d) n xs"
| "received d n ((Read off, r) # xs) =
     (if off = RBR_THR \<and> \<not> d \<and> 0 < n then the r # received d (n - 1) xs else received d n xs)"

lemma dlab_bit: "dlab u \<longleftrightarrow> bit (lcr u) 7"
  using and_single_bit_nonzero [of "lcr u" 7] by (simp add: dlab_def LCR_DLAB_def)

lemma Uart_write_dlab: "dlab (Uart_write u off v) \<longleftrightarrow> (if off = LCR then bit v 7 else dlab u)"
  by (auto simp: Uart_write_def uart_offsets dlab_bit Let_def)

lemma Uart_write_rx [simp]: "rx (Uart_write u off v) = rx u"
  by (simp add: Uart_write_def Let_def)

lemma Uart_write_methods [simp]: "tx_methods (Uart_write u off v) = tx_methods u"
  by (simp add: Uart_write_def Let_def)

lemma Uart_read_frame:
  "tx (snd (Uart_read u off)) = tx u" "tx_methods (snd (Uart_read u off)) = tx_methods u"
  "lcr (snd (Uart_read u off)) = lcr u"
  by (simp_all add: Uart_read_def split: list.splits)

lemma Uart_read_rx:
  "rx (snd (Uart_read u off)) = (if off = RBR_THR \<and> \<not> dlab u then tl (rx u) else rx u)"
  by (auto simp: Uart_read_def split: list.splits)

lemma Uart_read_rbr:
  "\<not> dlab u \<Longrightarrow> rx u \<noteq> [] \<Longrightarrow> fst (Uart_read u RBR_THR) = hd (rx u)"
  by (auto simp: Uart_read_def split: list.splits)

text \<open>A writer that keeps every byte, as a \<open>Vec<u8>\<close> does.\<close>

definition vec_writer :: "u8 list Writer" where
  "vec_writer = \<lparr>write_all = (\<lambda>w bs. w @ bs), w_flush = (\<lambda>w. w)\<rparr>"

lemma uart_run_sent:
  assumes "tx_methods u = vec_writer"
  shows "tx (snd (uart_run u xs)) = tx u @ sent (dlab u) xs"
  using assms
proof (induction xs arbitrary: u)
  case Nil
  then show ?case by simp
next
  case (Cons x xs)
  show ?case
  proof (cases x)
    case (Feed bs)
    with Cons show ?thesis
      by (simp add: Uart_feed_def dlab_def case_prod_beta Let_def)
  next
    case (Read off)
    obtain v u' where r: "Uart_read u off = (v, u')" by fastforce
    with Uart_read_frame [of u off] have "tx u' = tx u" "tx_methods u' = tx_methods u" "dlab u' = dlab u"
      by (simp_all add: dlab_def)
    with Cons Read r show ?thesis by (simp add: case_prod_beta Let_def)
  next
    case (Write off v)
    have "tx (Uart_write u off v) = (if off = RBR_THR \<and> \<not> dlab u then tx u @ [v] else tx u)"
      using Cons.prems by (auto simp: Uart_write_def vec_writer_def Let_def uart_offsets)
    moreover have "off = RBR_THR \<Longrightarrow> off \<noteq> LCR" by (simp add: uart_offsets)
    ultimately show ?thesis
      using Cons.IH [of "Uart_write u off v"] Cons.prems Write
      by (auto simp: Uart_write_dlab case_prod_beta Let_def)
  qed
qed

lemma uart_run_received:
  "received (dlab u) (length (rx u)) (zip xs (fst (uart_run u xs))) @ rx (snd (uart_run u xs))
     = rx u @ fed xs"
proof (induction xs arbitrary: u)
  case Nil
  then show ?case by simp
next
  case (Cons x xs)
  show ?case
  proof (cases x)
    case (Feed bs)
    with Cons [of "Uart_feed u bs"] show ?thesis
      by (simp add: Uart_feed_def dlab_def case_prod_beta Let_def)
  next
    case (Read off)
    obtain v u' where r: "Uart_read u off = (v, u')" by fastforce
    then have d: "dlab u' = dlab u" and
      rx: "rx u' = (if off = RBR_THR \<and> \<not> dlab u then tl (rx u) else rx u)"
      using Uart_read_frame [of u off] Uart_read_rx [of u off] by (simp_all add: dlab_def)
    have "off = RBR_THR \<and> \<not> dlab u \<and> rx u \<noteq> [] \<Longrightarrow> v = hd (rx u)"
      using Uart_read_rbr [of u] r by simp
    with Cons [of u'] Read r d rx show ?thesis
      by (cases "rx u") (auto simp: case_prod_beta Let_def split: if_splits)
  next
    case (Write off v)
    with Cons [of "Uart_write u off v"] show ?thesis
      by (simp add: Uart_write_dlab case_prod_beta Let_def)
  qed
qed

text \<open>
  C40. Over any conversation with a fresh UART (any interleaving of host feeds and guest register
  accesses), what reaches the output is exactly the sequence of bytes written to \<open>THR\<close> while the
  divisor-latch bit was clear (divisor writes never leak), and no input byte is lost, duplicated or
  reordered: the bytes the guest received through \<open>RBR\<close>, followed by those still queued, are the
  bytes the host fed.
\<close>

theorem uart_conversation:
  fixes xs :: "access list"
  defines "u \<equiv> Uart_with_output vec_writer []"
  shows "tx (snd (uart_run u xs)) = sent False xs \<and>
    received False 0 (zip xs (fst (uart_run u xs))) @ rx (snd (uart_run u xs)) = fed xs"
proof -
  have "\<not> dlab u" "rx u = []" "tx u = []" "tx_methods u = vec_writer"
    by (simp_all add: u_def Uart_with_output_def dlab_def)
  then show ?thesis
    using uart_run_sent [of u xs] uart_run_received [of u xs] by simp
qed

text \<open>
  \<open>LSR\<close> is honest: polling it never disturbs the device, it always reports the transmitter empty
  and idle, and its data-ready bit is set exactly when a byte is waiting; a guest that sees the bit
  with the divisor latch clear then reads, at offset 0, the oldest byte of the queue and consumes it.
\<close>

lemma uart_lsr_ready:
  "let (s, u') = Uart_read u LSR_off
   in u' = u \<and> bit s 5 \<and> bit s 6 \<and> (bit s 0 \<longleftrightarrow> rx u \<noteq> []) \<and>
      (bit s 0 \<and> \<not> dlab u \<longrightarrow> Uart_read u' RBR_THR = (hd (rx u), u\<lparr>rx := tl (rx u)\<rparr>))"
  by (auto simp: Uart_read_def uart_offsets uart_bits Let_def bit_simps split: list.splits)

end
