(* ===== verification/M6502_Props.thy ===== *)
theory M6502_Props
  imports M6502_Arith M6502_Uart
begin

text \<open>
  The 6502 core as a whole (\<open>src/cpu/mod.rs\<close>, \<open>src/cpu/addressing.rs\<close>, \<open>src/cpu/execute.rs\<close>): the
  memory plumbing solved for the state, the status-register invariant over all reachable states,
  cycle accounting, sequential flow, the stack, interrupts and subroutines as clients of the
  \<open>ram_bus\<close> contract, the effective address of every addressing mode in numbers, and where an
  instruction may write.
\<close>

subsection \<open>The plumbing, solved for the state\<close>

lemma cpu_read_eq [bus_defs]: "cpu_read B c b a = (fst (bus_read B b a), c, snd (bus_read B b a))"
  by (simp add: cpu_read_def tick_devices_def case_prod_beta)

lemma cpu_write_eq [bus_defs]: "cpu_write B c b a v = (c, bus_write B b a v)"
  by (simp add: cpu_write_def tick_devices_def)

lemma fetch_byte_eq [bus_defs]:
  "fetch_byte B c b = (fst (bus_read B b (cpu_pc c)), set_pc (cpu_pc c + 1) c, snd (bus_read B b (cpu_pc c)))"
  by (simp add: fetch_byte_def bus_defs)

lemma fetch_word_cpu: "fst (snd (fetch_word B c b)) = set_pc (cpu_pc c + 2) c"
  by (simp add: fetch_word_def bus_defs)

lemma push_eq [bus_defs]:
  "push B c b v = (set_sp (cpu_sp c - 1) c, bus_write B b (0x0100 OR ucast (cpu_sp c)) v)"
  by (simp add: push_def bus_defs)

lemma pull_eq [bus_defs]:
  "pull B c b = (fst (bus_read B b (0x0100 OR ucast (cpu_sp c + 1))), set_sp (cpu_sp c + 1) c,
     snd (bus_read B b (0x0100 OR ucast (cpu_sp c + 1))))"
  by (simp add: pull_def bus_defs)

lemma resolve_cpu:
  "fst (snd (resolve B c b m)) =
     (if m = JsrAbsolute then c else set_pc (cpu_pc c + (ucast (mode_length m) - 1)) c)"
  by (cases m) (simp_all add: bus_defs fetch_word_def Let_def case_prod_beta)

subsection \<open>The status register\<close>

lemma status_ok_flags [simp]:
  "status_ok (fl_set bitflags_std p Status_C v) = status_ok p"
  "status_ok (fl_set bitflags_std p Status_Z v) = status_ok p"
  "status_ok (fl_set bitflags_std p Status_V v) = status_ok p"
  "status_ok (fl_set bitflags_std p Status_N v) = status_ok p"
  "status_ok (fl_insert bitflags_std p Status_C) = status_ok p"
  "status_ok (fl_insert bitflags_std p Status_I) = status_ok p"
  "status_ok (fl_insert bitflags_std p Status_D) = status_ok p"
  "status_ok (fl_remove bitflags_std p Status_C) = status_ok p"
  "status_ok (fl_remove bitflags_std p Status_I) = status_ok p"
  "status_ok (fl_remove bitflags_std p Status_D) = status_ok p"
  "status_ok (fl_remove bitflags_std p Status_V) = status_ok p"
  "status_ok (set_zn bitflags_std p x) = status_ok p"
  by (simp_all add: status_ok_def flag_simps)

lemma status_ok_pulled [simp]: "status_ok ((v OR Status_U) AND NOT Status_B)"
  by (simp add: status_ok_def Status_defs bit_simps)

lemma status_ok_adc [simp]: "status_ok (cpu_p (adc bitflags_std c v)) = status_ok (cpu_p c)"
  by (simp add: adc_def Let_def)

lemma status_ok_sbc [simp]: "status_ok (cpu_p (sbc bitflags_std c v)) = status_ok (cpu_p c)"
  by (simp add: sbc_def Let_def)

lemma status_ok_service [simp]:
  "status_ok (cpu_p (fst (service_interrupt bitflags_std B c b vec w))) = status_ok (cpu_p c)"
  by (simp add: service_interrupt_def bus_defs push_status_def Let_def case_prod_beta)

lemma status_ok_execute:
  "status_ok (cpu_p c) \<Longrightarrow> status_ok (cpu_p (fst (snd (execute bitflags_std B c b info m))))"
  by (cases "op_operation info")
    (simp_all add: execute_def no_extra_def bus_defs push_status_def pull_status_def bit_test_def
      compare_def rmw_def shift_def asl_val_def lsr_val_def rol_val_def ror_val_def branch_def
      jsr_def rts_def brk_def rti_def Let_def case_prod_beta)

lemma status_ok_exec:
  "status_ok (cpu_p c) \<Longrightarrow> status_ok (cpu_p (fst (snd (exec bitflags_std B opcode c b))))"
  by (auto simp: exec_def Let_def case_prod_beta resolve_cpu intro!: status_ok_execute)

lemma status_ok_step:
  "status_ok (cpu_p c) \<Longrightarrow> status_ok (cpu_p (fst (snd (step bitflags_std B c b))))"
  by (auto simp: step_def dispatch_def bus_defs Let_def case_prod_beta intro!: status_ok_exec)

text \<open>
  The states a host can drive the processor through: from power-on, by stepping, resetting and moving
  the interrupt lines, with the bus free to change in between (other bus masters, devices).
\<close>

inductive cpu_reachable :: "u8 bitflags \<Rightarrow> 'b Bus \<Rightarrow> Cpu \<Rightarrow> bool" for F B where
  power_on: "cpu_reachable F B (Cpu_new F)"
| stepped: "cpu_reachable F B c \<Longrightarrow> step F B c b = (n, c', b') \<Longrightarrow> cpu_reachable F B c'"
| was_reset: "cpu_reachable F B c \<Longrightarrow> reset F B c b = (c', b') \<Longrightarrow> cpu_reachable F B c'"
| nmi_line: "cpu_reachable F B c \<Longrightarrow> cpu_reachable F B (set_nmi c level)"
| nmi_triggered: "cpu_reachable F B c \<Longrightarrow> cpu_reachable F B (trigger_nmi c)"
| irq_line_set: "cpu_reachable F B c \<Longrightarrow> cpu_reachable F B (set_irq c level)"

lemma reachable_status:
  assumes "cpu_reachable bitflags_std B c"
  shows "status_ok (cpu_p c)"
  using assms
proof (induction rule: cpu_reachable.induct)
  case power_on
  then show ?case by (simp add: Cpu_new_def status_ok_new)
next
  case (stepped c b n c' b')
  with status_ok_step [of c B b] show ?case by simp
next
  case (was_reset c b c' b')
  then show ?case
    by (auto simp: reset_def Let_def case_prod_beta status_ok_def flag_simps)
next
  case (nmi_line c level)
  then show ?case by (simp add: set_nmi_def Let_def)
qed (simp_all add: trigger_nmi_def set_irq_def)

text \<open>
  C39. In every state the host can drive the processor to, on any bus whatsoever (reset, steps,
  interrupts, any program), the status register is in its documented in-memory form: \<open>U\<close> set and
  \<open>B\<close> clear.
\<close>

theorem reachable_status_ok:
  assumes "bitflags_laws F" and "cpu_reachable F B c"
  shows "bit (cpu_p c) 5 \<and> \<not> bit (cpu_p c) 4"
  using assms reachable_status bitflags_laws_std unfolding status_ok_def by blast

theorem reachable_status_ok_witness:
  "bit (cpu_p (trigger_nmi (Cpu_new bitflags_std))) 5"
  using reachable_status_ok [OF bitflags_std_laws
      cpu_reachable.nmi_triggered [OF cpu_reachable.power_on, of bitflags_std FlatMemory_bus]]
  by simp

subsection \<open>Program counter\<close>

definition is_jump :: "Operation \<Rightarrow> bool" where
  "is_jump o' \<longleftrightarrow> is_branch o' \<or> o' \<in> {JMP, JSR, RTS, RTI, BRK}"

lemma adc_pc [simp]: "cpu_pc (adc F c v) = cpu_pc c" "halted (adc F c v) = halted c"
    "cycles (adc F c v) = cycles c"
  by (simp_all add: adc_def Let_def)

lemma sbc_pc [simp]: "cpu_pc (sbc F c v) = cpu_pc c" "halted (sbc F c v) = halted c"
    "cycles (sbc F c v) = cycles c"
  by (simp_all add: sbc_def Let_def)

lemmas handler_defs = no_extra_def push_status_def pull_status_def bit_test_def compare_def rmw_def
  shift_def asl_val_def lsr_val_def rol_val_def ror_val_def branch_def jsr_def rts_def brk_def
  rti_def service_interrupt_def

lemma execute_pc:
  "\<not> is_jump (op_operation info) \<Longrightarrow> cpu_pc (fst (snd (execute F B c b info m))) = cpu_pc c"
  by (cases "op_operation info")
    (simp_all add: execute_def is_jump_def is_branch_def handler_defs bus_defs Let_def case_prod_beta)

lemma execute_extra:
  "fst (execute F B c b info m) \<le> (if is_branch (op_operation info) then 2 else 0)"
  by (cases "op_operation info")
    (simp_all add: execute_def is_branch_def handler_defs bus_defs Let_def case_prod_beta)

lemma execute_cycles: "cycles (fst (snd (execute F B c b info m))) = cycles c"
  by (cases "op_operation info")
    (simp_all add: execute_def handler_defs bus_defs Let_def case_prod_beta)

lemma execute_branch_pc:
  "is_branch (op_operation info) \<Longrightarrow>
     cpu_pc (fst (snd (execute F B c b info m))) \<in> {cpu_pc c, op_addr m}"
  by (cases "op_operation info")
    (simp_all add: execute_def is_branch_def handler_defs bus_defs Let_def case_prod_beta)

lemma exec_eq:
  "exec F B opcode c b =
     (let info = OPCODES opcode; r = resolve B c b (op_mode info);
          e = execute F B (fst (snd r)) (snd (snd r)) info (fst r)
      in ((if op_page_penalty info \<and> op_page_crossed (fst r) then op_cycles info + 1
           else op_cycles info) + fst e, fst (snd e), snd (snd e)))"
  by (simp add: exec_def Let_def case_prod_beta)

lemma branch_reads_no_operand: "is_branch o' \<Longrightarrow> \<not> reads_operand o'"
  by (cases o') (simp_all add: is_branch_def reads_operand_def)

lemma exec_cycles_bound: "2 \<le> fst (exec F B opcode c b) \<and> fst (exec F B opcode c b) \<le> 7"
proof -
  define info where "info = OPCODES opcode"
  define r where "r = resolve B c b (op_mode info)"
  define e where "e = execute F B (fst (snd r)) (snd (snd r)) info (fst r)"
  have ok: "entry_ok info" by (simp add: info_def OPCODES_entry_ok)
  have x: "fst e \<le> (if is_branch (op_operation info) then 2 else 0)"
    unfolding e_def by (rule execute_extra)
  have n: "fst (exec F B opcode c b) = (if op_page_penalty info \<and> op_page_crossed (fst r)
      then op_cycles info + 1 else op_cycles info) + fst e"
    by (simp add: exec_eq Let_def info_def r_def e_def)
  show ?thesis
  proof (cases "is_branch (op_operation info)")
    case True
    with ok branch_reads_no_operand have c2: "op_cycles info = 2" and p: "\<not> op_page_penalty info"
      by (simp_all add: entry_ok_def)
    with True x have "unat (fst e) \<le> 2" by (simp add: word_le_nat_alt)
    then have "unat (2 + fst e) = 2 + unat (fst e)" by (simp add: unat_word_ariths)
    with c2 p \<open>unat (fst e) \<le> 2\<close> show ?thesis by (simp add: n word_le_nat_alt)
  next
    case False
    with x have "fst e = 0" by simp
    with ok show ?thesis
      by (auto simp: n entry_ok_def word_le_nat_alt unat_word_ariths)
  qed
qed

text \<open>
  Cycle accounting: a step adds exactly what it returns to the cycle counter; a halted processor
  returns 0 and changes nothing, neither itself nor the bus; any other step costs between 2 and 7
  cycles.
\<close>

lemma step_cycles:
  "case step F B c b of (n, c', b') \<Rightarrow>
     cycles c' = cycles c + ucast n \<and> (if halted c then n = 0 \<and> c' = c \<and> b' = b else 2 \<le> n \<and> n \<le> 7)"
proof -
  have s: "cycles (fst (service_interrupt F B c b v w)) = cycles c" for c b v w
    by (simp add: service_interrupt_def push_status_def bus_defs Let_def case_prod_beta)
  have e: "cycles (fst (snd (exec F B opcode c b))) = cycles c" for opcode c b
    by (simp add: exec_eq Let_def execute_cycles resolve_cpu)
  show ?thesis
    by (simp add: step_def dispatch_def bus_defs Let_def case_prod_beta s e INTERRUPT_CYCLES_def
        exec_cycles_bound)
qed

lemma exec_pc:
  assumes "\<not> is_jump (op_operation (OPCODES opcode))"
  shows "cpu_pc (fst (snd (exec F B opcode c b))) = cpu_pc c + (ucast (op_length (OPCODES opcode)) - 1)"
proof -
  have "op_mode (OPCODES opcode) \<noteq> JsrAbsolute"
    using OPCODES_entry_ok [of opcode] assms
    by (auto simp: entry_ok_def mode_fits_def is_jump_def split: if_splits)
  then show ?thesis
    using assms by (simp add: exec_eq Let_def execute_pc resolve_cpu op_length_def)
qed

definition idle :: "u8 bitflags \<Rightarrow> Cpu \<Rightarrow> bool" where
  "idle F c \<longleftrightarrow> \<not> halted c \<and> \<not> nmi_pending c \<and> (irq_line c \<longrightarrow> fl_contains F (cpu_p c) Status_I)"

lemma step_idle:
  "idle F c \<Longrightarrow> step F B c b =
     (let r = exec F B (fst (bus_read B b (cpu_pc c))) (set_pc (cpu_pc c + 1) c) (snd (bus_read B b (cpu_pc c)))
      in (fst r, (fst (snd r))\<lparr>cycles := cycles (fst (snd r)) + ucast (fst r)\<rparr>, snd (snd r)))"
  by (auto simp: step_def idle_def dispatch_def bus_defs Let_def case_prod_beta)

lemma step_pc_sequential:
  assumes "idle F c" and "\<not> is_jump (op_operation (OPCODES (fst (bus_read B b (cpu_pc c)))))"
  shows "cpu_pc (fst (snd (step F B c b))) =
    cpu_pc c + ucast (op_length (OPCODES (fst (bus_read B b (cpu_pc c)))))"
  using assms by (simp add: step_idle Let_def exec_pc)

abbreviation stack_addr :: "u8 \<Rightarrow> u16" where
  "stack_addr s \<equiv> 0x0100 OR ucast s"

lemma stack_addr_le16: "stack_addr s = le16 s 1"
  by (simp add: le16_def or.commute)

lemma le16_swap: "push_bit 8 (ucast hi) OR ucast lo = le16 lo hi"
  by (simp add: le16_def or.commute)

lemma stack_addr_inject [simp]: "stack_addr s = stack_addr t \<longleftrightarrow> s = t"
  by (simp add: stack_addr_le16 le16_inject)

lemma stack_addr_page: "unat (stack_addr s) = 256 + unat s"
  by (simp add: stack_addr_le16 unat_le16)

lemma status_round_trip:
  assumes "status_ok p"
  shows "(((if w then (p OR Status_U) OR Status_B else (p OR Status_U) AND NOT Status_B)
           OR Status_U) AND NOT Status_B) = p"
proof (rule bit_word_eqI)
  fix n
  assume "n < LENGTH(8)"
  then have "n < 8" by simp
  have "bit p 5" "\<not> bit p 4" using assms by (simp_all add: status_ok_def)
  then show "bit (((if w then (p OR Status_U) OR Status_B else (p OR Status_U) AND NOT Status_B)
           OR Status_U) AND NOT Status_B) n = bit p n"
    by (cases "n = 4"; cases "n = 5")
      (auto simp: Status_exp bit_or_iff bit_and_iff bit_not_iff bit_exp_iff \<open>n < 8\<close>
        simp del: power_numeral)
qed

context ram_bus
begin

lemma pull_after_push:
  assumes "is_ram b (stack_addr (cpu_sp c))"
  shows "pull B (fst (push B c b v)) (snd (push B c b v)) = (v, c, snd (push B c b v))"
  using assms by (simp add: bus_defs ram_simps)

lemma interrupt_entry:
  assumes "\<And>s. is_ram b (stack_addr s)" and "is_ram b vec" and "is_ram b (vec + 1)"
  shows "service_interrupt F B c b vec w =
    (let st = (if w then (cpu_p c OR Status_U) OR Status_B else (cpu_p c OR Status_U) AND NOT Status_B);
         b3 = bus_write B (bus_write B (bus_write B b (stack_addr (cpu_sp c)) (hi8 (cpu_pc c)))
                 (stack_addr (cpu_sp c - 1)) (lo8 (cpu_pc c))) (stack_addr (cpu_sp c - 2)) st
     in (c\<lparr>regs := (regs c)\<lparr>reg_sp := cpu_sp c - 3, reg_p := fl_insert F (cpu_p c) Status_I,
           reg_pc := le16 (peek b3 vec) (peek b3 (vec + 1))\<rparr>\<rparr>, b3))"
  using assms
  by (simp add: service_interrupt_def push_status_def bus_defs ram_simps Let_def)

lemma interrupt_return:
  assumes "\<And>s. is_ram b (stack_addr s)" and "is_ram b vec" and "is_ram b (vec + 1)"
    and "status_ok (cpu_p c)"
  shows "rti B (fst (service_interrupt F B c b vec w)) (snd (service_interrupt F B c b vec w)) =
    (c, snd (service_interrupt F B c b vec w))"
  using assms(1-3) status_round_trip [OF assms(4), of w]
  by (simp add: interrupt_entry rti_def pull_status_def bus_defs ram_simps Let_def)

lemma call_return:
  assumes "\<And>s. is_ram b (stack_addr s)" and "is_ram b (cpu_pc c)" and "is_ram b (cpu_pc c + 1)"
  shows "rts B (fst (jsr B c b)) (snd (jsr B c b)) = (set_pc (cpu_pc c + 2) c, snd (jsr B c b))"
  using assms by (simp add: jsr_def rts_def bus_defs ram_simps Let_def)

lemma call_target:
  assumes "\<And>s. is_ram b (stack_addr s)" and "is_ram b (cpu_pc c)" and "is_ram b (cpu_pc c + 1)"
  shows "cpu_pc (fst (jsr B c b)) = le16 (peek b (cpu_pc c))
     (if cpu_pc c + 1 = stack_addr (cpu_sp c) then hi8 (cpu_pc c + 1)
      else if cpu_pc c + 1 = stack_addr (cpu_sp c - 1) then lo8 (cpu_pc c + 1)
      else peek b (cpu_pc c + 1))"
  using assms by (simp add: jsr_def bus_defs ram_simps Let_def le16_swap)

end

definition system_stack_ram :: "'d SystemBus \<Rightarrow> bool" where
  "system_stack_ram b \<longleftrightarrow> (\<forall>s. is_plain_ram b (stack_addr s))"

text \<open>
  C36. Interrupts on the system bus, with the stack page and the vector in plain RAM: a latched NMI is
  serviced whatever the \<open>I\<close> flag and before an IRQ, an asserted IRQ only with \<open>I\<close> clear; the step
  takes 7 cycles, vectors through the right vector, sets \<open>I\<close> and clears the latch; and \<open>RTI\<close> from the
  handler restores every register of the interrupted program, its flags included.
\<close>

theorem interrupt_serviced:
  fixes b :: "'d SystemBus" and c :: Cpu
  assumes "bitflags_laws F" and "status_ok (cpu_p c)" and "\<not> halted c"
    and "nmi_pending c \<or> irq_line c \<and> \<not> bit (cpu_p c) 2"
    and "system_stack_ram b"
  defines "vec \<equiv> if nmi_pending c then NMI_VECTOR else IRQ_VECTOR"
  assumes "is_plain_ram b vec" and "is_plain_ram b (vec + 1)"
  shows "case step F SystemBus_bus c b of (n, c', b') \<Rightarrow>
      n = 7 \<and> cpu_pc c' = le16 (sb_peek b' vec) (sb_peek b' (vec + 1)) \<and>
      bit (cpu_p c') 2 \<and> \<not> nmi_pending c' \<and> cpu_sp c' = cpu_sp c - 3 \<and>
      (case rti SystemBus_bus c' b' of (c'', b'') \<Rightarrow> regs c'' = regs c \<and> b'' = b')"
proof -
  from assms(1) have F: "F = bitflags_std" by (rule bitflags_laws_std)
  define c1 where "c1 = c\<lparr>nmi_pending := False\<rparr>"
  have c1: "regs c1 = regs c" "\<not> nmi_pending c1" by (simp_all add: c1_def)
  have same: "\<not> nmi_pending c \<Longrightarrow> c1 = c" by (simp add: c1_def)
  have st: "step F SystemBus_bus c b =
      (let (d, b') = service_interrupt F SystemBus_bus c1 b vec False
       in (7, d\<lparr>cycles := cycles d + 7\<rparr>, b'))"
  proof (cases "nmi_pending c")
    case True
    with assms(3) show ?thesis by (simp add: step_def vec_def INTERRUPT_CYCLES_def c1_def Let_def)
  next
    case False
    with assms(3,4) same show ?thesis
      by (simp add: step_def F vec_def flag_simps INTERRUPT_CYCLES_def Let_def)
  qed
  have stk: "\<And>s. is_plain_ram b (stack_addr s)" using assms(5) by (simp add: system_stack_ram_def)
  have ok: "status_ok (cpu_p c1)" using assms(2) by (simp add: c1)
  note entry = sys.interrupt_entry [OF stk assms(7,8), of F c1 False]
  note ret = sys.interrupt_return [OF stk assms(7,8) ok, of F False]
  obtain d b' where db: "service_interrupt F SystemBus_bus c1 b vec False = (d, b')" by fastforce
  have "rti SystemBus_bus d b' = (c1, b')" using ret by (simp add: db)
  moreover have "rti SystemBus_bus (d\<lparr>cycles := x\<rparr>) b' =
      (let r = rti SystemBus_bus d b' in ((fst r)\<lparr>cycles := x\<rparr>, snd r))" for x
    by (simp add: rti_def pull_status_def bus_defs Let_def case_prod_beta)
  ultimately have "rti SystemBus_bus (d\<lparr>cycles := x\<rparr>) b' = (c1\<lparr>cycles := x\<rparr>, b')" for x
    by simp
  moreover have "cpu_pc d = le16 (sb_peek b' vec) (sb_peek b' (vec + 1))"
      "cpu_p d = fl_insert F (cpu_p c) Status_I" "cpu_sp d = cpu_sp c - 3" "\<not> nmi_pending d"
    using entry c1 by (auto simp: db Let_def)
  ultimately show ?thesis
    by (simp add: st db c1) (simp add: F flag_simps)
qed

theorem interrupt_serviced_witness:
  "fst (step bitflags_std SystemBus_bus (trigger_nmi (Cpu_new bitflags_std))
     (SystemBus_new :: unit SystemBus)) = 7"
proof -
  let ?c = "trigger_nmi (Cpu_new bitflags_std)" and ?b = "SystemBus_new :: unit SystemBus"
  have "status_ok (cpu_p ?c)"
    using status_ok_new by (simp add: trigger_nmi_def Cpu_new_def)
  then show ?thesis
    using interrupt_serviced [of bitflags_std ?c ?b]
    by (simp add: trigger_nmi_def Cpu_new_def system_stack_ram_def is_plain_ram_def SystemBus_new_def
        case_prod_beta)
qed

text \<open>
  Subroutine calls on the system bus, for every stack pointer including one that wraps: \<open>RTS\<close>
  undoes \<open>JSR\<close>, continuing behind the call with all registers as before; the call goes to its operand
  word when the operand is outside the two bytes pushed, and when the operand's high byte lies in
  the slot of the first push it takes the pushed return-address byte, the documented quirk.
\<close>

lemma subroutine_round_trip:
  fixes b :: "'d SystemBus"
  assumes "system_stack_ram b" and "is_plain_ram b (cpu_pc c)" and "is_plain_ram b (cpu_pc c + 1)"
  shows "case jsr SystemBus_bus c b of (c', b') \<Rightarrow>
    rts SystemBus_bus c' b' = (set_pc (cpu_pc c + 2) c, b') \<and>
    (cpu_pc c + 1 \<notin> {stack_addr (cpu_sp c), stack_addr (cpu_sp c - 1)} \<longrightarrow>
       cpu_pc c' = le16 (sb_peek b (cpu_pc c)) (sb_peek b (cpu_pc c + 1))) \<and>
    (cpu_pc c + 1 = stack_addr (cpu_sp c) \<longrightarrow>
       cpu_pc c' = le16 (sb_peek b (cpu_pc c)) (hi8 (cpu_pc c + 1)))"
proof -
  have stk: "\<And>s. is_plain_ram b (stack_addr s)" using assms(1) by (simp add: system_stack_ram_def)
  show ?thesis
    using sys.call_return [OF stk assms(2,3)] sys.call_target [OF stk assms(2,3)]
    by (simp add: case_prod_beta)
qed

subsection \<open>Effective addresses on flat memory\<close>

text \<open>
  The addressing modes in numbers: \<open>M\<close> is memory as a function from addresses below 65536 to byte
  values, \<open>word_at\<close> the little-endian word in the bytes at two addresses.
\<close>

definition nat_mem :: "(u16 \<Rightarrow> u8) \<Rightarrow> nat \<Rightarrow> nat" where
  "nat_mem m n = unat (m (of_nat n))"

definition word_at :: "(nat \<Rightarrow> nat) \<Rightarrow> nat \<Rightarrow> nat \<Rightarrow> nat" where
  "word_at M lo hi = M lo + 256 * M hi"

definition operand_word :: "Registers \<Rightarrow> (nat \<Rightarrow> nat) \<Rightarrow> nat" where
  "operand_word r M = word_at M (unat (reg_pc r)) ((unat (reg_pc r) + 1) mod 65536)"

fun effective_address :: "Registers \<Rightarrow> (nat \<Rightarrow> nat) \<Rightarrow> AddressingMode \<Rightarrow> nat" where
  "effective_address r M Immediate = unat (reg_pc r)"
| "effective_address r M ZeroPage = M (unat (reg_pc r))"
| "effective_address r M ZeroPageX = (M (unat (reg_pc r)) + unat (reg_x r)) mod 256"
| "effective_address r M ZeroPageY = (M (unat (reg_pc r)) + unat (reg_y r)) mod 256"
| "effective_address r M Absolute = operand_word r M"
| "effective_address r M AbsoluteX = (operand_word r M + unat (reg_x r)) mod 65536"
| "effective_address r M AbsoluteY = (operand_word r M + unat (reg_y r)) mod 65536"
| "effective_address r M Indirect =
     (let p = operand_word r M in word_at M p ((p + 1) mod 256 + 256 * (p div 256)))"
| "effective_address r M IndexedIndirect =
     (let p = (M (unat (reg_pc r)) + unat (reg_x r)) mod 256 in word_at M p ((p + 1) mod 256))"
| "effective_address r M IndirectIndexed =
     (let p = M (unat (reg_pc r)) in (word_at M p ((p + 1) mod 256) + unat (reg_y r)) mod 65536)"
| "effective_address r M Relative =
     nat ((int (unat (reg_pc r)) + 1 + sint (word_of_nat (M (unat (reg_pc r))) :: u8)) mod 65536)"
| "effective_address r M _ = 0"

text \<open>The address before indexing, whose page the penalty compares with.\<close>

fun base_address :: "Registers \<Rightarrow> (nat \<Rightarrow> nat) \<Rightarrow> AddressingMode \<Rightarrow> nat" where
  "base_address r M AbsoluteX = operand_word r M"
| "base_address r M AbsoluteY = operand_word r M"
| "base_address r M IndirectIndexed =
     (let p = M (unat (reg_pc r)) in word_at M p ((p + 1) mod 256))"
| "base_address r M Relative = (unat (reg_pc r) + 1) mod 65536"
| "base_address r M mode = effective_address r M mode"

lemma u16_and_FF: "(x :: u16) AND 0xFF = ucast (lo8 x)"
proof -
  have m: "(0xFF :: u16) = mask 8" by (simp add: mask_eq_exp_minus_1)
  show ?thesis unfolding m lo8_def by (rule bit_word_eqI) (auto simp: bit_simps)
qed

lemma u16_and_FF00: "(x :: u16) AND 0xFF00 = push_bit 8 (ucast (hi8 x))"
proof -
  have m: "(0xFF00 :: u16) = NOT (mask 8)" by (simp add: mask_eq_exp_minus_1)
  show ?thesis unfolding m hi8_def by (rule bit_word_eqI) (auto simp: bit_simps)
qed

lemma unat_lo8: "unat (lo8 x) = unat x mod 256"
  by (simp add: lo8_def unsigned_ucast_eq take_bit_eq_mod)

lemma unat_hi8: "unat (hi8 x) = unat x div 256"
  using unat_le16 [of "lo8 x" "hi8 x"] unat_u8_less [of "lo8 x"] by simp

lemma lo8_add_1: "lo8 (x + 1) = lo8 x + 1"
  by (simp add: word_unat_eq_iff unat_lo8 unat_word_ariths mod_mod_cancel mod_simps)

lemma page_wrap_address:
  "(ptr AND 0xFF00) OR ((ptr + 1) AND 0x00FF) = le16 (lo8 ptr + 1) (hi8 ptr)"
  by (simp add: u16_and_FF u16_and_FF00 le16_def or.commute lo8_add_1)

lemma page_crossed_iff: "page_crossed x y \<longleftrightarrow> unat x div 256 \<noteq> unat y div 256"
proof -
  have "page_crossed x y \<longleftrightarrow> push_bit 8 (ucast (hi8 x)) \<noteq> (push_bit 8 (ucast (hi8 y)) :: u16)"
    by (simp add: page_crossed_def u16_and_FF00)
  also have "\<dots> \<longleftrightarrow> le16 0 (hi8 x) \<noteq> le16 0 (hi8 y)" by (simp add: le16_def)
  also have "\<dots> \<longleftrightarrow> hi8 x \<noteq> hi8 y" by (simp add: le16_inject)
  also have "\<dots> \<longleftrightarrow> unat x div 256 \<noteq> unat y div 256"
    by (metis unat_hi8 word_unat_eq_iff)
  finally show ?thesis .
qed

lemma unat_mem: "unat (m w) = nat_mem m (unat w)"
  by (simp add: nat_mem_def)

lemma nat_mem_less: "nat_mem m n < 256"
  by (simp add: nat_mem_def unat_u8_less)

lemma nat_mem_div [simp]: "nat_mem m n div 256 = 0"
  by (simp add: nat_mem_less)

lemma word_nat_mem [simp]: "word_of_nat (nat_mem m (unat w)) = m w"
  by (simp add: nat_mem_def)

lemma unat_branch_target:
  "unat ((x :: u16) + 1 + scast (y :: u8)) = nat ((int (unat x) + 1 + sint y) mod 65536)"
proof -
  have eq: "x + 1 + scast y = word_of_int (uint x + 1 + sint y)" by simp
  show ?thesis unfolding eq unat_eq_nat_uint uint_word_of_int by simp
qed

lemma unat_succ_u16: "unat ((x :: u16) + 1) = Suc (unat x) mod 65536"
  by (simp add: unat_word_ariths)

lemmas resolve_nat = word_at_def operand_word_def unat_le16 unat_ucast_u8 unat_word_ariths
  page_crossed_iff page_wrap_address unat_mem

text \<open>
  C35. Operand resolution on flat memory computes the effective address each mode defines, in numbers:
  zero-page indexing and zero-page pointers wrap within the page, absolute indexing wraps at 2^16,
  \<open>JMP\<close> indirect takes its high byte from the same page, branches add the signed offset; the
  page-cross flag compares the pages before and after indexing; the program counter moves past the
  operand and memory is unchanged.
\<close>

theorem resolve_effective_address:
  assumes "m \<notin> {Implied, Accumulator, JsrAbsolute}"
  shows "case resolve FlatMemory_bus c b m of (o', c', b') \<Rightarrow>
    unat (op_addr o') = effective_address (regs c) (nat_mem (ram b)) m \<and>
    (op_page_crossed o' \<longleftrightarrow> effective_address (regs c) (nat_mem (ram b)) m div 256
       \<noteq> base_address (regs c) (nat_mem (ram b)) m div 256) \<and>
    c' = set_pc (cpu_pc c + (ucast (mode_length m) - 1)) c \<and> b' = b"
proof (cases "m = Relative")
  case True
  then show ?thesis
    by (auto simp: fetch_byte_eq flat.full_simps Let_def page_crossed_iff unat_branch_target
        unat_succ_u16)
next
  case False
  with assms show ?thesis
    by (cases m)
      (auto simp: bus_defs fetch_word_def flat.full_simps Let_def Operand_at_def resolve_nat)
qed

theorem resolve_effective_address_witness:
  "unat (op_addr (fst (resolve FlatMemory_bus (set_x 0x20 (Cpu_new bitflags_std))
     (FlatMemory_load FlatMemory_new 0 [0xF0]) ZeroPageX))) = 0x10"
  using resolve_effective_address [of ZeroPageX "set_x 0x20 (Cpu_new bitflags_std)"
      "FlatMemory_load FlatMemory_new 0 [0xF0]"]
  by (simp add: Cpu_new_def Registers_new_def FlatMemory_load_def nat_mem_def case_prod_beta
      del: resolve.simps)

subsection \<open>Where an instruction writes\<close>

lemma resolve_flat_bus: "snd (snd (resolve FlatMemory_bus c b m)) = b"
  by (cases m) (simp_all add: bus_defs fetch_word_def flat.full_simps Let_def)

definition in_stack_page :: "u16 \<Rightarrow> bool" where
  "in_stack_page a \<longleftrightarrow> (\<exists>s. a = stack_addr s)"

lemma in_stack_page_iff: "in_stack_page a \<longleftrightarrow> 256 \<le> unat a \<and> unat a < 512"
proof
  assume "in_stack_page a"
  then show "256 \<le> unat a \<and> unat a < 512"
    using unat_u8_less by (auto simp: in_stack_page_def stack_addr_page)
next
  assume "256 \<le> unat a \<and> unat a < 512"
  then have "unat (hi8 a) = 1" by (simp add: unat_hi8 Euclidean_Rings.div_eq_0_iff div_nat_eqI)
  then have "hi8 a = 1" by (simp add: word_unat_eq_iff)
  then have "a = stack_addr (lo8 a)" by (metis le16_lo8_hi8 stack_addr_le16)
  then show "in_stack_page a" by (auto simp: in_stack_page_def)
qed

lemma not_stack_page: "\<not> in_stack_page a \<Longrightarrow> a \<noteq> stack_addr s"
  by (auto simp: in_stack_page_def)

lemma ram_write: "ram (bus_write FlatMemory_bus b x v) a = (if a = x then v else ram b a)"
  by (simp add: flat.full_simps)

text \<open>A shift of the accumulator has no operand in memory.\<close>

definition writes_operand :: "OpInfo \<Rightarrow> bool" where
  "writes_operand info \<longleftrightarrow> changes_operand (op_operation info) \<and> op_mode info \<noteq> Accumulator"

lemma execute_flat_frame:
  assumes "\<not> in_stack_page a" and "entry_ok info" and "\<not> (writes_operand info \<and> a = op_addr m)"
  shows "ram (snd (snd (execute F FlatMemory_bus c b info m))) a = ram b a"
  using assms not_stack_page [OF assms(1)]
  by (cases "op_operation info";
     simp add: execute_def handler_defs bus_defs flat.full_simps writes_operand_def changes_operand_def entry_ok_def
      mode_fits_def is_branch_def reads_operand_def Let_def case_prod_beta; (elim disjE; simp)?)

text \<open>
  C37. An instruction writes only where it may: if a step on flat memory changes the byte at an
  address, that address is in the stack page, or the instruction is a store, shift, increment or
  decrement of memory and the address is its resolved operand. A shift of the accumulator writes no memory.
\<close>

theorem step_writes_confined:
  assumes "ram (snd (snd (step F FlatMemory_bus c b))) a \<noteq> ram b a"
  shows "(256 \<le> unat a \<and> unat a < 512) \<or>
    (\<not> halted c \<and> (let info = OPCODES (ram b (cpu_pc c));
       o' = fst (resolve FlatMemory_bus (set_pc (cpu_pc c + 1) c) b (op_mode info))
     in writes_operand info \<and> a = op_addr o'))"
proof (rule ccontr)
  assume neg: "\<not> ?thesis"
  then have stk: "\<not> in_stack_page a" by (simp add: in_stack_page_iff)
  have irq: "ram (snd (service_interrupt F FlatMemory_bus d b v w)) a = ram b a" for d v w
    using not_stack_page [OF stk]
    by (simp add: service_interrupt_def push_status_def bus_defs flat.full_simps Let_def case_prod_beta)
  have "ram (snd (snd (exec F FlatMemory_bus (ram b (cpu_pc c)) (set_pc (cpu_pc c + 1) c) b))) a
      = ram b a" if "\<not> halted c"
    using neg that stk unfolding exec_eq Let_def
    by (simp add: resolve_flat_bus execute_flat_frame OPCODES_entry_ok)
  with irq assms show False
    by (auto simp: step_def dispatch_def fetch_byte_eq flat.full_simps Let_def case_prod_beta
        split: if_splits)
qed

theorem step_writes_confined_witness:
  "ram (snd (snd (step bitflags_std FlatMemory_bus (set_a 0x42 (Cpu_new bitflags_std))
      (FlatMemory_load FlatMemory_new 0 [0x85, 0x10])))) 0x10 = 0x42 \<and>
   writes_operand (OPCODES 0x85)"
proof -
  let ?c = "set_a 0x42 (Cpu_new bitflags_std)" and ?b = "FlatMemory_load FlatMemory_new 0 [0x85, 0x10]"
  have op: "OPCODES 0x85 = op STA ZeroPage 3 False"
    by (simp add: OPCODES_def build_table_def opcode_entries_defs)
  have wr: "ram (snd (snd (step bitflags_std FlatMemory_bus ?c ?b))) 0x10 = 0x42"
    by (simp add: step_def Cpu_new_def Registers_new_def fetch_byte_eq flat.full_simps
        FlatMemory_load_def dispatch_def exec_eq op)
      (simp add: op_def execute_def no_extra_def bus_defs flat.full_simps Operand_at_def Let_def)
  moreover have "ram ?b 0x10 = 0" by (simp add: FlatMemory_load_def FlatMemory_new_def)
  ultimately show ?thesis
    using step_writes_confined [of bitflags_std ?c ?b "0x10"]
    by (simp add: Cpu_new_def Registers_new_def FlatMemory_load_def Let_def)
qed

subsection \<open>The NMI line\<close>

fun drive_nmi :: "Cpu \<Rightarrow> bool list \<Rightarrow> Cpu" where
  "drive_nmi c [] = c"
| "drive_nmi c (l # ls) = drive_nmi (set_nmi c l) ls"

text \<open>A high-to-low edge in the sequence of levels, from the previous level on.\<close>

fun has_falling_edge :: "bool \<Rightarrow> bool list \<Rightarrow> bool" where
  "has_falling_edge prev [] = False"
| "has_falling_edge prev (l # ls) = ((prev \<and> \<not> l) \<or> has_falling_edge l ls)"

lemma drive_nmi_pending:
  "nmi_pending (drive_nmi c ls) \<longleftrightarrow> nmi_pending c \<or> has_falling_edge (prev_nmi c) ls"
  by (induction ls arbitrary: c) (auto simp: set_nmi_def Let_def)

lemma drive_nmi_frame:
  "regs (drive_nmi c ls) = regs c" "halted (drive_nmi c ls) = halted c"
  "irq_line (drive_nmi c ls) = irq_line c"
  by (induction ls arbitrary: c) (auto simp: set_nmi_def Let_def)

text \<open>
  The NMI input is edge-triggered: after any sequence of levels on the line, the next step takes
  the NMI vector exactly when the sequence has a high-to-low edge, even with interrupts disabled, and
  clears the latch; without an edge it executes the instruction at \<open>PC\<close>.
\<close>

lemma nmi_edge_triggered:
  assumes "\<not> nmi_pending c" and "\<not> halted c" and "bitflags_laws F" and "bit (cpu_p c) 2"
  shows "(case step F FlatMemory_bus (drive_nmi c ls) b of (n, c', b') \<Rightarrow>
      if has_falling_edge (prev_nmi c) ls
      then cpu_pc c' = le16 (ram b' NMI_VECTOR) (ram b' (NMI_VECTOR + 1)) \<and> \<not> nmi_pending c'
      else step F FlatMemory_bus (drive_nmi c ls) b =
        (let r = exec F FlatMemory_bus (ram b (cpu_pc c)) (set_pc (cpu_pc c + 1) (drive_nmi c ls)) b
         in (fst r, (fst (snd r))\<lparr>cycles := cycles (fst (snd r)) + ucast (fst r)\<rparr>, snd (snd r))))"
proof (cases "has_falling_edge (prev_nmi c) ls")
  case True
  then have "nmi_pending (drive_nmi c ls)" by (simp add: drive_nmi_pending)
  then show ?thesis
    using True assms(2)
    by (simp add: step_def drive_nmi_frame service_interrupt_def push_status_def bus_defs
        flat.full_simps Let_def case_prod_beta)
next
  case False
  then have "idle F (drive_nmi c ls)"
    using assms bitflags_laws_std [OF assms(3)]
    by (simp add: idle_def drive_nmi_pending drive_nmi_frame flag_simps)
  with False show ?thesis
    by (simp add: step_idle drive_nmi_frame flat.full_simps Let_def)
qed

end
