(* ===== verification/M6502_Disasm.thy ===== *)
theory M6502_Disasm
  imports M6502_Props
begin

text \<open>
  \<open>src/cpu/disasm.rs\<close>: the disassembler over the same decode table. The mnemonic is the derived
  \<open>Debug\<close> name of the operation, and \<open>{:02X}\<close>/\<open>{:04X}\<close> are zero-padded upper-case hexadecimal.
  The theorems relate it to the interpreter: it reports the address the processor will go to next, and
  it reads exactly the bytes of the instruction.
\<close>

definition operation_name :: "Operation \<Rightarrow> string" where
  "operation_name o' =
     (case o' of
        ADC \<Rightarrow> ''ADC''
      | AND_op \<Rightarrow> ''AND''
      | ASL \<Rightarrow> ''ASL''
      | BCC \<Rightarrow> ''BCC''
      | BCS \<Rightarrow> ''BCS''
      | BEQ \<Rightarrow> ''BEQ''
      | BIT \<Rightarrow> ''BIT''
      | BMI \<Rightarrow> ''BMI''
      | BNE \<Rightarrow> ''BNE''
      | BPL \<Rightarrow> ''BPL''
      | BRK \<Rightarrow> ''BRK''
      | BVC \<Rightarrow> ''BVC''
      | BVS \<Rightarrow> ''BVS''
      | CLC \<Rightarrow> ''CLC''
      | CLD \<Rightarrow> ''CLD''
      | CLI \<Rightarrow> ''CLI''
      | CLV \<Rightarrow> ''CLV''
      | CMP \<Rightarrow> ''CMP''
      | CPX \<Rightarrow> ''CPX''
      | CPY \<Rightarrow> ''CPY''
      | DEC \<Rightarrow> ''DEC''
      | DEX \<Rightarrow> ''DEX''
      | DEY \<Rightarrow> ''DEY''
      | EOR \<Rightarrow> ''EOR''
      | INC \<Rightarrow> ''INC''
      | INX \<Rightarrow> ''INX''
      | INY \<Rightarrow> ''INY''
      | JMP \<Rightarrow> ''JMP''
      | JSR \<Rightarrow> ''JSR''
      | LDA \<Rightarrow> ''LDA''
      | LDX \<Rightarrow> ''LDX''
      | LDY \<Rightarrow> ''LDY''
      | LSR \<Rightarrow> ''LSR''
      | NOP \<Rightarrow> ''NOP''
      | ORA \<Rightarrow> ''ORA''
      | PHA \<Rightarrow> ''PHA''
      | PHP \<Rightarrow> ''PHP''
      | PLA \<Rightarrow> ''PLA''
      | PLP \<Rightarrow> ''PLP''
      | ROL \<Rightarrow> ''ROL''
      | ROR \<Rightarrow> ''ROR''
      | RTI \<Rightarrow> ''RTI''
      | RTS \<Rightarrow> ''RTS''
      | SBC \<Rightarrow> ''SBC''
      | SEC \<Rightarrow> ''SEC''
      | SED \<Rightarrow> ''SED''
      | SEI \<Rightarrow> ''SEI''
      | STA \<Rightarrow> ''STA''
      | STX \<Rightarrow> ''STX''
      | STY \<Rightarrow> ''STY''
      | TAX \<Rightarrow> ''TAX''
      | TAY \<Rightarrow> ''TAY''
      | TSX \<Rightarrow> ''TSX''
      | TXA \<Rightarrow> ''TXA''
      | TXS \<Rightarrow> ''TXS''
      | TYA \<Rightarrow> ''TYA''
      | KIL \<Rightarrow> ''KIL'')"

definition hex_digit :: "nat \<Rightarrow> char" where
  "hex_digit n = ''0123456789ABCDEF'' ! (n mod 16)"

definition hex02 :: "u8 \<Rightarrow> string" where
  "hex02 v = [hex_digit (unat v div 16), hex_digit (unat v)]"

definition hex04 :: "u16 \<Rightarrow> string" where
  "hex04 v = [hex_digit (unat v div 4096), hex_digit (unat v div 256), hex_digit (unat v div 16),
     hex_digit (unat v)]"

definition disassemble :: "'b Bus \<Rightarrow> 'b \<Rightarrow> u16 \<Rightarrow> string \<times> u16 \<times> 'b" where
  "disassemble B b addr =
     (let (opcode, b) = bus_read B b addr;
          info = OPCODES opcode;
          mnemonic = operation_name (op_operation info);
          len = op_length info;
          (b1, b) = (if len \<ge> 2 then bus_read B b (addr + 1) else (0, b));
          (b2, b) = (if len \<ge> 3 then bus_read B b (addr + 2) else (0, b));
          word = le16 b1 b2;
          operand =
            (case op_mode info of
               Implied \<Rightarrow> ''''
             | Accumulator \<Rightarrow> ''A''
             | Immediate \<Rightarrow> ''#$'' @ hex02 b1
             | ZeroPage \<Rightarrow> ''$'' @ hex02 b1
             | ZeroPageX \<Rightarrow> ''$'' @ hex02 b1 @ '',X''
             | ZeroPageY \<Rightarrow> ''$'' @ hex02 b1 @ '',Y''
             | Absolute \<Rightarrow> ''$'' @ hex04 word
             | JsrAbsolute \<Rightarrow> ''$'' @ hex04 word
             | AbsoluteX \<Rightarrow> ''$'' @ hex04 word @ '',X''
             | AbsoluteY \<Rightarrow> ''$'' @ hex04 word @ '',Y''
             | Indirect \<Rightarrow> ''($'' @ hex04 word @ '')''
             | IndexedIndirect \<Rightarrow> ''($'' @ hex02 b1 @ '',X)''
             | IndirectIndexed \<Rightarrow> ''($'' @ hex02 b1 @ ''),Y''
             | Relative \<Rightarrow> (let target = addr + 2 + scast b1 in ''$'' @ hex04 target));
          text = (if operand = '''' then hex04 addr @ ''  '' @ mnemonic
                  else hex04 addr @ ''  '' @ mnemonic @ '' '' @ operand)
      in (text, addr + ucast (op_length info), b))"

text \<open>A bus that records the addresses read through it, in order.\<close>

definition recording :: "'b Bus \<Rightarrow> ('b \<times> u16 list) Bus" where
  "recording B =
     \<lparr>bus_read = (\<lambda>(b, log) a. case bus_read B b a of (v, b') \<Rightarrow> (v, b', log @ [a])),
      bus_write = (\<lambda>(b, log) a v. (bus_write B b a v, log))\<rparr>"

lemma recording_read:
  "bus_read (recording B) (b, log) a = (fst (bus_read B b a), snd (bus_read B b a), log @ [a])"
  by (simp add: recording_def case_prod_beta)

lemma op_length_range: "op_length i = 1 \<or> op_length i = 2 \<or> op_length i = 3"
  by (cases "op_mode i") (simp_all add: op_length_def)

lemma disassemble_next:
  "fst (snd (disassemble B b addr)) = addr + ucast (op_length (OPCODES (fst (bus_read B b addr))))"
  by (simp add: disassemble_def Let_def case_prod_beta)

text \<open>
  The disassembler and the processor agree on where the next instruction starts: on any bus, for
  a processor that is about to execute an instruction (not halted, no interrupt to service), the
  address \<open>disassemble\<close> returns for the instruction at \<open>PC\<close> is the \<open>PC\<close> after the step, for every
  instruction that is not a branch, jump, call, return or software interrupt.
\<close>

lemma disassemble_next_is_pc:
  assumes "idle F c" and "\<not> is_jump (op_operation (OPCODES (fst (bus_read B b (cpu_pc c)))))"
  shows "fst (snd (disassemble B b (cpu_pc c))) = cpu_pc (fst (snd (step F B c b)))"
  using step_pc_sequential [OF assms] by (simp add: disassemble_next)

text \<open>
  The disassembler reads the instruction's own bytes, in order, and nothing else, so tracing a
  program cannot disturb a device the instruction does not touch: on any bus, the addresses it reads
  are \<open>addr\<close>, \<open>addr + 1\<close>, ... up to the instruction's length.
\<close>

lemma disassemble_reads_instruction:
  "snd (snd (snd (disassemble (recording B) (b, log) addr))) =
     log @ map (\<lambda>i. addr + of_nat i) [0..<unat (op_length (OPCODES (fst (bus_read B b addr))))]"
  using op_length_range [of "OPCODES (fst (bus_read B b addr))"]
  by (auto simp: disassemble_def recording_read Let_def case_prod_beta upt_rec word_le_nat_alt)

end
