(* ===== verification/Arm_Alu.thy ===== *)
theory Arm_Alu
  imports Remu_Prelude
begin

text \<open>
  \<open>src/arm32/alu.rs\<close>: the barrel shifter and the add and subtract rules that the ARM and Thumb
  executors share. The lemmas give each helper an arithmetic specification: the shifter against
  multiplication and division by powers of two with the last bit shifted out as the carry, the
  adder against the exact sum of the operands.
\<close>

definition LSL_ty :: u8 where "LSL_ty = 0"
definition LSR_ty :: u8 where "LSR_ty = 1"
definition ASR_ty :: u8 where "ASR_ty = 2"
definition ROR_ty :: u8 where "ROR_ty = 3"

lemmas shift_ty_defs = LSL_ty_def LSR_ty_def ASR_ty_def ROR_ty_def

text \<open>\<open>b as u32\<close>, and the arithmetic right shift \<open>((v as i32) >> n) as u32\<close>.\<close>

definition bool_u32 :: "bool \<Rightarrow> u32" where
  "bool_u32 b = (if b then 1 else 0)"

definition asr32 :: "u32 \<Rightarrow> nat \<Rightarrow> u32" where
  "asr32 v n = signed_drop_bit n v"

definition shift_imm :: "u8 \<Rightarrow> u8 \<Rightarrow> u32 \<Rightarrow> bool \<Rightarrow> u32 \<times> bool" where
  "shift_imm ty amount value carry_in =
     (let n = unat amount in
      if ty = LSL_ty then
        if amount = 0 then (value, carry_in)
        else (push_bit n value, value AND push_bit (32 - n) 1 \<noteq> 0)
      else if ty = LSR_ty then
        if amount = 0 then (0, drop_bit 31 value \<noteq> 0)
        else (drop_bit n value, value AND push_bit (n - 1) 1 \<noteq> 0)
      else if ty = ASR_ty then
        if amount = 0 then (asr32 value 31, drop_bit 31 value \<noteq> 0)
        else (asr32 value n, value AND push_bit (n - 1) 1 \<noteq> 0)
      else if ty = ROR_ty \<and> amount = 0 then
        (drop_bit 1 value OR push_bit 31 (bool_u32 carry_in), value AND 1 \<noteq> 0)
      else (word_rotr n value, value AND push_bit (n - 1) 1 \<noteq> 0))"

definition shift_reg :: "u8 \<Rightarrow> u8 \<Rightarrow> u32 \<Rightarrow> bool \<Rightarrow> u32 \<times> bool" where
  "shift_reg ty amount value carry_in =
     (if amount = 0 then (value, carry_in)
      else let n = unat amount in
        if ty = LSL_ty then
          if 1 \<le> n \<and> n \<le> 31 then (push_bit n value, value AND push_bit (32 - n) 1 \<noteq> 0)
          else if n = 32 then (0, value AND 1 \<noteq> 0)
          else (0, False)
        else if ty = LSR_ty then
          if 1 \<le> n \<and> n \<le> 31 then (drop_bit n value, value AND push_bit (n - 1) 1 \<noteq> 0)
          else if n = 32 then (0, drop_bit 31 value \<noteq> 0)
          else (0, False)
        else if ty = ASR_ty then
          if 1 \<le> n \<and> n \<le> 31 then (asr32 value n, value AND push_bit (n - 1) 1 \<noteq> 0)
          else (asr32 value 31, drop_bit 31 value \<noteq> 0)
        else
          let r = n mod 32 in
          if r = 0 then (value, drop_bit 31 value \<noteq> 0)
          else (word_rotr r value, value AND push_bit (r - 1) 1 \<noteq> 0))"

text \<open>\<open>u32::overflowing_add\<close>: the wrapped sum and whether it wrapped.\<close>

definition overflowing_add :: "u32 \<Rightarrow> u32 \<Rightarrow> u32 \<times> bool" where
  "overflowing_add a b = (a + b, a + b < a)"

definition add_with_carry :: "u32 \<Rightarrow> u32 \<Rightarrow> bool \<Rightarrow> u32 \<times> bool \<times> bool" where
  "add_with_carry a b carry =
     (let (r1, c1) = overflowing_add a b;
          (r, c2) = overflowing_add r1 (bool_u32 carry);
          v = drop_bit 31 ((a XOR r) AND (b XOR r)) \<noteq> 0
      in (r, c1 \<or> c2, v))"

definition sub_with_carry :: "u32 \<Rightarrow> u32 \<Rightarrow> bool \<Rightarrow> u32 \<times> bool \<times> bool" where
  "sub_with_carry a b carry = add_with_carry a (NOT b) carry"

text \<open>The loop \<open>for m in 1..4\<close> of \<open>mul_cycles\<close>, from \<open>m\<close> on.\<close>

fun mul_cycles_loop :: "u32 \<Rightarrow> bool \<Rightarrow> nat list \<Rightarrow> u32" where
  "mul_cycles_loop rs signed' [] = 4"
| "mul_cycles_loop rs signed' (m # ms) =
     (let rest = drop_bit (8 * m) rs;
          ones = drop_bit (8 * m) (- 1 :: u32)
      in if rest = 0 \<or> (signed' \<and> rest = ones) then of_nat m
         else mul_cycles_loop rs signed' ms)"

definition mul_cycles :: "u32 \<Rightarrow> bool \<Rightarrow> u32" where
  "mul_cycles rs signed' = mul_cycles_loop rs signed' [1, 2, 3]"

subsection \<open>The shifter\<close>

lemma and_push_bit_one:
  fixes v :: "'a::len word"
  shows "v AND push_bit n 1 \<noteq> 0 \<longleftrightarrow> bit v n"
  by (simp add: push_bit_eq_mult and_single_bit_nonzero)

lemma and_one_nonzero: "(v :: 'a::len word) AND 1 \<noteq> 0 \<longleftrightarrow> bit v 0"
  using and_push_bit_one [of v 0] by simp

lemma drop_bit_31_nonzero: "drop_bit 31 (v :: u32) \<noteq> 0 \<longleftrightarrow> bit v 31"
proof
  assume "drop_bit 31 v \<noteq> 0"
  then obtain k where "bit (drop_bit 31 v) k" by (auto simp: bit_eq_iff)
  then show "bit v 31"
    using bit_imp_le_length [of v "31 + k"] by (auto simp: bit_drop_bit_eq)
next
  assume "bit v 31"
  then have "bit (drop_bit 31 v) 0" by (simp add: bit_drop_bit_eq)
  then show "drop_bit 31 v \<noteq> 0" by auto
qed

lemmas u32_bit_tests = and_push_bit_one and_one_nonzero drop_bit_31_nonzero

text \<open>
  The architected result of a shift by \<open>n > 0\<close> places, and the last bit shifted out: on the exact
  integer for the left shift, by flooring division for the two right shifts, and as a rotation.
\<close>

definition shift_spec :: "u8 \<Rightarrow> nat \<Rightarrow> u32 \<Rightarrow> u32 \<times> bool" where
  "shift_spec ty n v =
     (if ty = LSL_ty then (word_of_int (uint v * 2 ^ n), bit (uint v * 2 ^ n) 32)
      else if ty = LSR_ty then (word_of_int (uint v div 2 ^ n), odd (uint v div 2 ^ (n - 1)))
      else if ty = ASR_ty then (word_of_int (sint v div 2 ^ n), odd (sint v div 2 ^ (n - 1)))
      else (word_rotr n v, bit v ((n - 1) mod 32)))"

lemma lsl_spec: "word_of_int (uint v * 2 ^ n) = push_bit n (v :: u32)"
  by (simp add: push_bit_eq_mult)

lemma lsr_spec: "word_of_int (uint v div 2 ^ n) = drop_bit n (v :: u32)"
  by (rule bit_word_eqI) (simp add: bit_simps flip: drop_bit_eq_div)

lemma bit_asr32: "bit (asr32 v n) k \<longleftrightarrow> k < 32 \<and> bit v (min (n + k) 31)"
proof (cases "n + k = 31")
  case True
  then show ?thesis by (auto simp: asr32_def bit_simps)
next
  case False
  then show ?thesis
    by (auto simp: asr32_def bit_simps min_def dest: bit_imp_le_length)
qed

lemma asr_spec: "word_of_int (sint v div 2 ^ n) = asr32 v n"
  by (rule bit_word_eqI)
    (auto simp: bit_asr32 bit_simps min_def not_le simp flip: drop_bit_eq_div)

lemma lsl_carry: "bit (uint (v :: u32) * 2 ^ n) 32 \<longleftrightarrow> n \<le> 32 \<and> bit v (32 - n)"
  by (auto simp: bit_simps simp flip: push_bit_eq_mult)

lemma lsr_carry: "odd (uint (v :: u32) div 2 ^ n) \<longleftrightarrow> bit v n"
  by (simp add: bit_simps flip: bit_iff_odd)

lemma asr_carry: "odd (sint (v :: u32) div 2 ^ n) \<longleftrightarrow> bit v (min n 31)"
  by (simp add: bit_simps min_def not_less flip: bit_iff_odd)

lemmas shift_spec_simps = lsl_spec lsr_spec asr_spec lsl_carry lsr_carry asr_carry

lemma u32_shift_out [simp]:
  "32 \<le> n \<Longrightarrow> push_bit n (v :: u32) = 0" "32 \<le> n \<Longrightarrow> drop_bit n (v :: u32) = 0"
  by (rule bit_word_eqI; auto simp: bit_simps dest: bit_imp_le_length)+

lemma asr32_saturates: "31 \<le> n \<Longrightarrow> asr32 v n = asr32 v 31"
  by (rule bit_word_eqI) (simp add: bit_asr32 min_def)

lemma word_rotr_0 [simp]: "word_rotr 0 (v :: u32) = v"
  by (rule bit_word_eqI) (simp add: bit_word_rotr_iff)

lemma word_rotr_mod: "word_rotr (n mod 32) (v :: u32) = word_rotr n v"
  by (rule bit_word_eqI) (simp add: bit_word_rotr_iff mod_simps)

lemma not_bit_ge_32: "32 \<le> n \<Longrightarrow> \<not> bit (v :: u32) n"
  using bit_imp_le_length [of v n] by auto

lemma shift_reg_spec:
  assumes "0 < amount" and "ty \<in> {0, 1, 2, 3}"
  shows "shift_reg ty amount v c = shift_spec ty (unat amount) v"
proof -
  define n where "n = unat amount"
  have n: "0 < n" "amount \<noteq> 0" using assms(1) by (auto simp: n_def word_less_nat_alt)
  have asr: "\<not> n \<le> 31 \<Longrightarrow> asr32 v n = asr32 v 31" by (rule asr32_saturates) simp
  have ror: "(if n mod 32 = 0 then (v, bit v 31) else (word_rotr (n mod 32) v, bit v (n mod 32 - 1)))
      = (word_rotr n v, bit v ((n - 1) mod 32))"
  proof (cases "n mod 32 = 0")
    case True
    then obtain k where k: "n = 32 * k" "0 < k" using n(1) by auto
    then obtain j where "k = Suc j" by (cases k) auto
    then have "(n - 1) mod 32 = 31" using k(1) by simp
    moreover have "word_rotr n v = v" using word_rotr_mod [of n v] True
      by (auto intro!: bit_word_eqI simp: bit_word_rotr_iff)
    ultimately show ?thesis using True by simp
  next
    case False
    then have "(n - 1) mod 32 = n mod 32 - 1"
      using n(1) by (cases n) (auto simp: mod_Suc split: if_splits)
    then show ?thesis using False by (simp add: word_rotr_mod)
  qed
  from assms(2) consider "ty = LSL_ty" | "ty = LSR_ty" | "ty = ASR_ty" | "ty = ROR_ty"
    by (auto simp: shift_ty_defs)
  then show ?thesis
  proof cases
    case 1
    show ?thesis
      unfolding shift_reg_def shift_spec_def lsl_spec lsl_carry
      using n by (auto simp: 1 and_single_bit_nonzero u32_bit_tests n_def [symmetric] Let_def)
  next
    case 2
    then show ?thesis
      using n by (auto simp: shift_reg_def shift_spec_def shift_spec_simps u32_bit_tests
          and_single_bit_nonzero n_def [symmetric] Let_def not_bit_ge_32 shift_ty_defs)
  next
    case 3
    have "min (n - 1) 31 = (if n \<le> 31 then n - 1 else 31)" by auto
    with 3 show ?thesis
      using n asr by (auto simp: shift_reg_def shift_spec_def shift_spec_simps u32_bit_tests
          and_single_bit_nonzero n_def [symmetric] Let_def shift_ty_defs)
  next
    case 4
    then show ?thesis
      using n ror by (auto simp: shift_reg_def shift_spec_def u32_bit_tests
          and_single_bit_nonzero n_def [symmetric] Let_def shift_ty_defs split: if_splits)
  qed
qed

text \<open>Rotate right with extend: one place through the carry, as a 33-bit number.\<close>

lemma rrx_spec:
  "uint (drop_bit 1 v OR push_bit 31 (bool_u32 c)) = (uint v + (if c then 2 ^ 32 else 0)) div 2"
proof -
  have "uint (drop_bit 1 v OR push_bit 31 (bool_u32 c))
      = (drop_bit 1 (uint v)) OR push_bit 31 (of_bool c)"
    by (rule bit_eqI) (auto simp: bool_u32_def bit_simps simp del: push_bit_of_1)
  also have "\<dots> = (uint v div 2) OR (if c then 2 ^ 31 else 0)"
    by (simp add: drop_bit_eq_div push_bit_eq_mult)
  also have "\<dots> = uint v div 2 + (if c then 2 ^ 31 else 0)"
  proof (rule disjunctive_add_eq_or [symmetric])
    have "\<not> bit (drop_bit 1 (uint v)) 31"
      using not_bit_ge_32 [of 32 v] by (simp add: bit_simps)
    then have "\<not> bit (uint v div 2) 31" by (simp add: drop_bit_eq_div)
    then show "(uint v div 2) AND (if c then 2 ^ 31 else 0) = 0"
      by (simp add: and_exp_eq_0_iff_not_bit del: power_numeral)
  qed
  finally show ?thesis by (auto simp: add.commute)
qed

lemma shift_imm_spec:
  assumes "ty \<in> {0, 1, 2, 3}" and "amount < 32"
  shows "shift_imm ty amount v c =
     (if ty = LSL_ty \<and> amount = 0 then (v, c)
      else if ty = ROR_ty \<and> amount = 0
        then (word_of_int ((uint v + (if c then 2 ^ 32 else 0)) div 2), odd (uint v))
      else shift_spec ty (if amount = 0 then 32 else unat amount) v)"
proof -
  have n: "unat amount < 32" using assms(2) by (simp add: word_less_nat_alt)
  have pos: "amount \<noteq> 0 \<Longrightarrow> 0 < unat amount" by (simp add: unat_gt_0)
  have rrx: "word_of_int ((uint v + (if c then 2 ^ 32 else 0)) div 2)
      = drop_bit 1 v OR push_bit 31 (bool_u32 c)"
    by (metis rrx_spec word_of_int_uint)
  have asr: "word_of_int (sint v div 4294967296) = asr32 v 31"
    using asr_spec [of v 32] by (simp add: asr32_saturates [of 32])
  have asr_c: "odd (sint v div 2147483648) \<longleftrightarrow> bit v 31"
    using asr_carry [of v 31] by simp
  have lsr: "uint v div 4294967296 = 0" and lsr_c: "odd (uint v div 2147483648) \<longleftrightarrow> bit v 31"
    using lsr_carry [of v 31] uint_lt2p [of v] by simp_all
  have odd: "odd (uint v) \<longleftrightarrow> bit v 0" by (simp add: bit_simps flip: bit_0)
  show ?thesis
    using assms(1) n pos
    by (auto simp: shift_imm_def shift_spec_def shift_ty_defs shift_spec_simps u32_bit_tests
        rrx odd asr asr_c lsr lsr_c Let_def min_def and_single_bit_nonzero push_bit_eq_mult
        simp del: One_nat_def)
qed

subsection \<open>The adder\<close>

lemma bool_u32_simps [simp]:
  "bool_u32 True = 1" "bool_u32 False = 0" "unat (bool_u32 c) = of_bool c"
  by (auto simp: bool_u32_def)

lemma u32_bit31: "bit (x :: u32) 31 \<longleftrightarrow> 2 ^ 31 \<le> unat x"
  using unat_u32_less [of x] by (simp add: bit_nat_div odd_div_iff)

lemma sint_u32: "sint (x :: u32) = int (unat x) - (if bit x 31 then 2 ^ 32 else 0)"
proof -
  have "take_bit 32 (uint x) = uint x"
    by (rule take_bit_int_eq_self) (simp_all add: uint_lt2p [of x, simplified])
  then show ?thesis
    by (simp add: sint_uint signed_take_bit_eq_take_bit_minus bit_unsigned_iff)
qed

lemma unat_add_u32:
  "unat (a + b :: u32) = (if unat a + unat b < 2 ^ 32 then unat a + unat b
     else unat a + unat b - 2 ^ 32)"
  using unat_u32_less [of a] unat_u32_less [of b]
  by (auto simp: unat_word_ariths mod_if)

lemma overflowing_add_carry: "snd (overflowing_add a b) \<longleftrightarrow> 2 ^ 32 \<le> unat a + unat b"
  using unat_u32_less [of a] unat_u32_less [of b]
  by (auto simp: overflowing_add_def word_less_nat_alt unat_add_u32)

lemma unat_not_u32: "unat (NOT b :: u32) = 2 ^ 32 - 1 - unat b"
proof -
  have "NOT b = - 1 - b" by (simp add: not_eq_complement)
  moreover have "unat (- 1 - b) = unat (- 1 :: u32) - unat b" by (rule unat_sub) simp
  moreover have "unat (- 1 :: u32) = 2 ^ 32 - 1"
    by (simp add: unsigned_minus_1_eq_mask mask_eq_exp_minus_1)
  ultimately show ?thesis by simp
qed

lemma sint_not_u32: "sint (NOT b :: u32) = - sint b - 1"
  using unat_u32_less [of b] by (auto simp: sint_u32 unat_not_u32 u32_bit31)

text \<open>The three components of the adder against the exact sums of the operands.\<close>

lemma add_with_carry_spec:
  "add_with_carry a b c =
     (word_of_nat (unat a + unat b + of_bool c),
      2 ^ 32 \<le> unat a + unat b + of_bool c,
      sint a + sint b + of_bool c \<notin> {- (2 ^ 31)..<2 ^ 31})"
proof -
  define r where "r = a + b + bool_u32 c"
  have r: "r = word_of_nat (unat a + unat b + of_bool c)"
    by (auto simp: r_def bool_u32_def)
  have ur: "unat r = (if unat a + unat b + of_bool c < 2 ^ 32 then unat a + unat b + of_bool c
      else unat a + unat b + of_bool c - 2 ^ 32)"
    using unat_u32_less [of a] unat_u32_less [of b]
    by (auto simp: r_def unat_add_u32)
  have carry: "snd (overflowing_add a b) \<or> snd (overflowing_add (a + b) (bool_u32 c))
      \<longleftrightarrow> 2 ^ 32 \<le> unat a + unat b + of_bool c"
    using unat_u32_less [of a] unat_u32_less [of b]
    by (auto simp: overflowing_add_carry unat_add_u32)
  have over: "bit ((a XOR r) AND (b XOR r)) 31
      \<longleftrightarrow> sint a + sint b + of_bool c \<notin> {- (2 ^ 31)..<2 ^ 31}"
  proof -
    define A B R where "A = unat a" and "B = unat b" and "R = unat r"
    note abr = this
    have s: "sint a = int A - (if 2 ^ 31 \<le> A then 2 ^ 32 else 0)"
      "sint b = int B - (if 2 ^ 31 \<le> B then 2 ^ 32 else 0)"
      by (simp_all add: sint_u32 u32_bit31 abr)
    have b: "bit ((a XOR r) AND (b XOR r)) 31
        \<longleftrightarrow> (2 ^ 31 \<le> A) \<noteq> (2 ^ 31 \<le> R) \<and> (2 ^ 31 \<le> B) \<noteq> (2 ^ 31 \<le> R)"
      unfolding abr u32_bit31 [symmetric] by (simp add: bit_simps)
    have "A < 2 ^ 32" "B < 2 ^ 32"
      using unat_u32_less [of a] unat_u32_less [of b] by (simp_all add: abr)
    then show ?thesis
      unfolding s b using ur unfolding abr [symmetric]
      by (cases c) (auto split: if_splits)
  qed
  have "add_with_carry a b c = (r, snd (overflowing_add a b) \<or> snd (overflowing_add (a + b) (bool_u32 c)),
      drop_bit 31 ((a XOR r) AND (b XOR r)) \<noteq> 0)"
    by (simp only: add_with_carry_def overflowing_add_def Let_def case_prod_conv snd_conv r_def)
  then show ?thesis unfolding carry drop_bit_31_nonzero over by (simp only: r)
qed

lemma sub_with_carry_spec:
  "sub_with_carry a b c =
     (word_of_int (uint a - uint b - of_bool (\<not> c)),
      unat b + of_bool (\<not> c) \<le> unat a,
      sint a - sint b - of_bool (\<not> c) \<notin> {- (2 ^ 31)..<2 ^ 31})"
proof -
  have r: "word_of_nat (unat a + unat (NOT b) + of_bool c)
      = (word_of_int (uint a - uint b - of_bool (\<not> c)) :: u32)"
    by (cases c) (simp_all add: not_eq_complement)
  have carry: "2 ^ 32 \<le> unat a + unat (NOT b) + of_bool c \<longleftrightarrow> unat b + of_bool (\<not> c) \<le> unat a"
    using unat_u32_less [of a] unat_u32_less [of b] by (cases c) (auto simp: unat_not_u32)
  show ?thesis
    unfolding sub_with_carry_def add_with_carry_spec r carry sint_not_u32
    by (cases c) (simp_all add: algebra_simps)
qed

text \<open>
  The adder of the ARM core is exact: \<open>add_with_carry\<close> returns the sum of the operands and the
  carry modulo 2^32, its carry flag says that the unsigned sum does not fit 32 bits and its overflow
  flag that the signed sum does not; \<open>sub_with_carry\<close> returns the difference less the borrow, with the
  carry flag set exactly when there is no borrow.
\<close>

lemma arm_adder_exact:
  "add_with_carry a b c =
     (word_of_nat (unat a + unat b + of_bool c),
      2 ^ 32 \<le> unat a + unat b + of_bool c,
      sint a + sint b + of_bool c \<notin> {- (2 ^ 31)..<2 ^ 31}) \<and>
   sub_with_carry a b c =
     (word_of_int (uint a - uint b - of_bool (\<not> c)),
      unat b + of_bool (\<not> c) \<le> unat a,
      sint a - sint b - of_bool (\<not> c) \<notin> {- (2 ^ 31)..<2 ^ 31})"
  by (simp only: add_with_carry_spec sub_with_carry_spec)

text \<open>
  C10. The barrel shifter is exact for every amount. By a register amount of at least one, and by
  an immediate amount where zero encodes 32, the result is the value multiplied or divided (flooring;
  signed for \<open>ASR\<close>) by the power of two, or rotated, and the carry is the last bit shifted out, also
  beyond 32 places. \<open>LSL #0\<close> and a register amount of zero keep value and carry, and \<open>ROR #0\<close> rotates
  the 33-bit number made of the carry and the value.
\<close>

theorem arm_shifter_exact:
  assumes "ty \<in> {0, 1, 2, 3}"
  shows "shift_reg ty amount v c = (if amount = 0 then (v, c) else shift_spec ty (unat amount) v) \<and>
    (amount < 32 \<longrightarrow> shift_imm ty amount v c =
     (if ty = LSL_ty \<and> amount = 0 then (v, c)
      else if ty = ROR_ty \<and> amount = 0
        then (word_of_int ((uint v + (if c then 2 ^ 32 else 0)) div 2), odd (uint v))
      else shift_spec ty (if amount = 0 then 32 else unat amount) v))"
proof (rule conjI)
  show "shift_reg ty amount v c = (if amount = 0 then (v, c) else shift_spec ty (unat amount) v)"
  proof (cases "amount = 0")
    case True
    then show ?thesis by (simp add: shift_reg_def)
  next
    case False
    then have "0 < amount" by (simp add: word_neq_0_conv)
    then show ?thesis using False shift_reg_spec [OF _ assms, of amount v c] by simp
  qed
qed (use shift_imm_spec [OF assms] in blast)

theorem arm_shifter_exact_witness:
  "shift_reg 0 33 5 True = shift_spec 0 33 5 \<and> shift_imm 2 0 5 True = shift_spec 2 32 5"
  using arm_shifter_exact [of 0 33 5 True] arm_shifter_exact [of 2 0 5 True]
  by (simp add: shift_ty_defs)

lemma mul_cycles_range: "mul_cycles rs s \<in> {1, 2, 3, 4}"
  by (simp add: mul_cycles_def Let_def)

end
