(* ===== verification/Arm_Registers.thy ===== *)
theory Arm_Registers
  imports Arm_Alu
begin

text \<open>
  \<open>src/arm32/registers.rs\<close>: the seven processor modes, the program status registers and the banked
  register file. \<open>gpr\<close> is the window of the current mode; the banks hold the inactive copies of r8
  to r14. The arrays are functions on the natural numbers: \<open>gpr\<close> on 0 to 15, \<open>usr_bank\<close> and
  \<open>fiq_bank\<close> on 0 to 6, \<open>spsr_bank\<close> on 0 to 4, \<open>exc_bank\<close> on 0 to 3 and 0 to 1. Every index the
  executor uses comes from a decoded register field, which the decoder theory bounds.

  The locale \<open>banked_file\<close> is the contract of a banked register file: which physical cell a mode sees
  under a register number, that a switch of mode loses nothing, and that a write reaches exactly one
  cell. It is interpreted on the register file of the source.
\<close>

definition reg_SP :: nat where "reg_SP = 13"
definition reg_LR :: nat where "reg_LR = 14"
definition reg_PC :: nat where "reg_PC = 15"

datatype Mode = Usr | Fiq | Irq | Svc | Abt | Und | Sys

fun mode_as_u32 :: "Mode \<Rightarrow> u32" where
  "mode_as_u32 Usr = 0x10"
| "mode_as_u32 Fiq = 0x11"
| "mode_as_u32 Irq = 0x12"
| "mode_as_u32 Svc = 0x13"
| "mode_as_u32 Abt = 0x17"
| "mode_as_u32 Und = 0x1B"
| "mode_as_u32 Sys = 0x1F"

definition mode_from_bits :: "u32 \<Rightarrow> Mode option" where
  "mode_from_bits bits =
     (let m = bits AND 0x1F in
      if m = 0x10 then Some Usr
      else if m = 0x11 then Some Fiq
      else if m = 0x12 then Some Irq
      else if m = 0x13 then Some Svc
      else if m = 0x17 then Some Abt
      else if m = 0x1B then Some Und
      else if m = 0x1F then Some Sys
      else None)"

definition has_spsr :: "Mode \<Rightarrow> bool" where
  "has_spsr m = (\<not> (m = Usr \<or> m = Sys))"

definition mode_privileged :: "Mode \<Rightarrow> bool" where
  "mode_privileged m = (m \<noteq> Usr)"

definition same_bank :: "Mode \<Rightarrow> Mode \<Rightarrow> bool" where
  "same_bank a b = (a = b \<or> (\<not> has_spsr a \<and> \<not> has_spsr b))"

fun mode_bank :: "Mode \<Rightarrow> nat option" where
  "mode_bank Fiq = Some 0"
| "mode_bank Svc = Some 1"
| "mode_bank Abt = Some 2"
| "mode_bank Irq = Some 3"
| "mode_bank Und = Some 4"
| "mode_bank Usr = None"
| "mode_bank Sys = None"

subsection \<open>Program status registers\<close>

type_synonym Psr = u32

definition psr_N :: u32 where "psr_N = push_bit 31 1"
definition psr_Z :: u32 where "psr_Z = push_bit 30 1"
definition psr_C :: u32 where "psr_C = push_bit 29 1"
definition psr_V :: u32 where "psr_V = push_bit 28 1"
definition psr_I :: u32 where "psr_I = push_bit 7 1"
definition psr_F :: u32 where "psr_F = push_bit 6 1"
definition psr_T :: u32 where "psr_T = push_bit 5 1"
definition psr_MODE :: u32 where "psr_MODE = 0x1F"

lemmas psr_bit_defs = psr_N_def psr_Z_def psr_C_def psr_V_def psr_I_def psr_F_def psr_T_def

definition psr_write :: "Psr \<Rightarrow> u32 \<Rightarrow> u32 \<Rightarrow> Psr" where
  "psr_write p value msk = ((p AND NOT msk) OR (value AND msk))"

definition psr_mode_bits :: "Psr \<Rightarrow> u32" where
  "psr_mode_bits p = p AND psr_MODE"

definition psr_mode :: "Psr \<Rightarrow> Mode" where
  "psr_mode p = (case mode_from_bits p of Some m \<Rightarrow> m | None \<Rightarrow> Usr)"

definition psr_privileged :: "Psr \<Rightarrow> bool" where
  "psr_privileged p = (psr_mode_bits p \<noteq> mode_as_u32 Usr)"

definition psr_set_mode :: "Psr \<Rightarrow> Mode \<Rightarrow> Psr" where
  "psr_set_mode p m = ((p AND NOT psr_MODE) OR mode_as_u32 m)"

definition psr_n :: "Psr \<Rightarrow> bool" where "psr_n p = (p AND psr_N \<noteq> 0)"
definition psr_z :: "Psr \<Rightarrow> bool" where "psr_z p = (p AND psr_Z \<noteq> 0)"
definition psr_c :: "Psr \<Rightarrow> bool" where "psr_c p = (p AND psr_C \<noteq> 0)"
definition psr_v :: "Psr \<Rightarrow> bool" where "psr_v p = (p AND psr_V \<noteq> 0)"
definition psr_i :: "Psr \<Rightarrow> bool" where "psr_i p = (p AND psr_I \<noteq> 0)"
definition psr_f :: "Psr \<Rightarrow> bool" where "psr_f p = (p AND psr_F \<noteq> 0)"
definition psr_t :: "Psr \<Rightarrow> bool" where "psr_t p = (p AND psr_T \<noteq> 0)"

definition psr_set :: "u32 \<Rightarrow> bool \<Rightarrow> Psr \<Rightarrow> Psr" where
  "psr_set b on p = (if on then p OR b else p AND NOT b)"

definition psr_set_nz :: "u32 \<Rightarrow> Psr \<Rightarrow> Psr" where
  "psr_set_nz v p =
     ((p AND NOT (psr_N OR psr_Z)) OR (v AND psr_N) OR (if v = 0 then psr_Z else 0))"

subsection \<open>The register file\<close>

record ArmRegisters =
  gpr :: "nat \<Rightarrow> u32"
  cpsr :: Psr
  spsr_bank :: "nat \<Rightarrow> Psr"
  usr_bank :: "nat \<Rightarrow> u32"
  fiq_bank :: "nat \<Rightarrow> u32"
  exc_bank :: "nat \<Rightarrow> nat \<Rightarrow> u32"

definition ArmRegisters_new :: ArmRegisters where
  "ArmRegisters_new =
     \<lparr>gpr = (\<lambda>_. 0),
      cpsr = mode_as_u32 Svc OR psr_I OR psr_F,
      spsr_bank = (\<lambda>_. mode_as_u32 Svc),
      usr_bank = (\<lambda>_. 0),
      fiq_bank = (\<lambda>_. 0),
      exc_bank = (\<lambda>_ _. 0)\<rparr>"

text \<open>\<open>dst[doff..doff + n].copy_from_slice(&src[soff..soff + n])\<close>.\<close>

definition copy_slice :: "(nat \<Rightarrow> u32) \<Rightarrow> nat \<Rightarrow> (nat \<Rightarrow> u32) \<Rightarrow> nat \<Rightarrow> nat \<Rightarrow> nat \<Rightarrow> u32" where
  "copy_slice dst doff src soff n i =
     (if doff \<le> i \<and> i < doff + n then src (soff + (i - doff)) else dst i)"

definition spill_window :: "Mode \<Rightarrow> ArmRegisters \<Rightarrow> ArmRegisters" where
  "spill_window old r =
     (if old = Fiq then r\<lparr>fiq_bank := copy_slice (fiq_bank r) 0 (gpr r) 8 7\<rparr>
      else let r = r\<lparr>usr_bank := copy_slice (usr_bank r) 0 (gpr r) 8 5\<rparr> in
        case mode_bank old of
          Some b \<Rightarrow> r\<lparr>exc_bank := (exc_bank r)(b - 1 := (exc_bank r (b - 1))(0 := gpr r 13, 1 := gpr r 14))\<rparr>
        | None \<Rightarrow> r\<lparr>usr_bank := copy_slice (usr_bank r) 5 (gpr r) 13 2\<rparr>)"

definition load_window :: "Mode \<Rightarrow> ArmRegisters \<Rightarrow> ArmRegisters" where
  "load_window new r =
     (if new = Fiq then r\<lparr>gpr := copy_slice (gpr r) 8 (fiq_bank r) 0 7\<rparr>
      else let r = r\<lparr>gpr := copy_slice (gpr r) 8 (usr_bank r) 0 5\<rparr>;
        (sp, lr) = (case mode_bank new of
          Some b \<Rightarrow> (exc_bank r (b - 1) 0, exc_bank r (b - 1) 1)
        | None \<Rightarrow> (usr_bank r 5, usr_bank r 6))
        in r\<lparr>gpr := (gpr r)(13 := sp, 14 := lr)\<rparr>)"

definition set_mode :: "Mode \<Rightarrow> ArmRegisters \<Rightarrow> ArmRegisters" where
  "set_mode new r =
     (let old = psr_mode (cpsr r) in
      if old = new then r\<lparr>cpsr := psr_set_mode (cpsr r) new\<rparr>
      else let r = load_window new (spill_window old r)
        in r\<lparr>cpsr := psr_set_mode (cpsr r) new\<rparr>)"

definition spsr :: "ArmRegisters \<Rightarrow> Psr" where
  "spsr r = (case mode_bank (psr_mode (cpsr r)) of Some b \<Rightarrow> spsr_bank r b | None \<Rightarrow> cpsr r)"

definition spsr_bits :: "ArmRegisters \<Rightarrow> u32" where
  "spsr_bits r = (case mode_bank (psr_mode (cpsr r)) of Some b \<Rightarrow> spsr_bank r b | None \<Rightarrow> cpsr r)"

definition spsr_banked :: "ArmRegisters \<Rightarrow> u32 option" where
  "spsr_banked r = map_option (spsr_bank r) (mode_bank (psr_mode (cpsr r)))"

definition set_spsr :: "u32 \<Rightarrow> u32 \<Rightarrow> ArmRegisters \<Rightarrow> ArmRegisters" where
  "set_spsr value msk r =
     (case mode_bank (psr_mode (cpsr r)) of
        Some b \<Rightarrow> r\<lparr>spsr_bank := (spsr_bank r)(b := psr_write (spsr_bank r b) value msk)\<rparr>
      | None \<Rightarrow> r)"

definition spsr_store :: "Psr \<Rightarrow> ArmRegisters \<Rightarrow> ArmRegisters" where
  "spsr_store p r =
     (case mode_bank (psr_mode (cpsr r)) of
        Some b \<Rightarrow> r\<lparr>spsr_bank := (spsr_bank r)(b := p)\<rparr>
      | None \<Rightarrow> r)"

definition spsr_of :: "ArmRegisters \<Rightarrow> Mode \<Rightarrow> Psr" where
  "spsr_of r mode = (case mode_bank mode of Some b \<Rightarrow> spsr_bank r b | None \<Rightarrow> cpsr r)"

definition set_spsr_of :: "Mode \<Rightarrow> Psr \<Rightarrow> ArmRegisters \<Rightarrow> ArmRegisters" where
  "set_spsr_of mode p r =
     (case mode_bank mode of Some b \<Rightarrow> r\<lparr>spsr_bank := (spsr_bank r)(b := p)\<rparr> | None \<Rightarrow> r)"

definition user_reg :: "ArmRegisters \<Rightarrow> nat \<Rightarrow> u32" where
  "user_reg r i =
     (let cur = psr_mode (cpsr r) in
      if i \<le> 7 \<or> i = 15 then gpr r i
      else if 8 \<le> i \<and> i \<le> 12 \<and> cur \<noteq> Fiq then gpr r i
      else if 8 \<le> i \<and> i \<le> 12 then usr_bank r (i - 8)
      else if \<not> has_spsr cur then gpr r i
      else usr_bank r (i - 8))"

definition set_user_reg :: "nat \<Rightarrow> u32 \<Rightarrow> ArmRegisters \<Rightarrow> ArmRegisters" where
  "set_user_reg i v r =
     (let cur = psr_mode (cpsr r);
          in_gpr = r\<lparr>gpr := (gpr r)(i := v)\<rparr>;
          in_bank = r\<lparr>usr_bank := (usr_bank r)(i - 8 := v)\<rparr> in
      if i \<le> 7 \<or> i = 15 then in_gpr
      else if 8 \<le> i \<and> i \<le> 12 \<and> cur \<noteq> Fiq then in_gpr
      else if 8 \<le> i \<and> i \<le> 12 then in_bank
      else if \<not> has_spsr cur then in_gpr
      else in_bank)"

definition set_reg_of :: "Mode \<Rightarrow> nat \<Rightarrow> u32 \<Rightarrow> ArmRegisters \<Rightarrow> ArmRegisters" where
  "set_reg_of mode i v r =
     (let cur = psr_mode (cpsr r) in
      if same_bank cur mode \<or> i < 8 \<or> i = 15 then r\<lparr>gpr := (gpr r)(i := v)\<rparr>
      else let
        fiq_banked = ((8 \<le> i \<and> i \<le> 14) \<and> (cur = Fiq) \<noteq> (mode = Fiq));
        exc_banked = (13 \<le> i \<and> i \<le> 14)
      in if \<not> fiq_banked \<and> \<not> exc_banked then r\<lparr>gpr := (gpr r)(i := v)\<rparr>
      else if mode = Fiq then r\<lparr>fiq_bank := (fiq_bank r)(i - 8 := v)\<rparr>
      else if i < 13 then r\<lparr>usr_bank := (usr_bank r)(i - 8 := v)\<rparr>
      else case mode_bank mode of
        Some b \<Rightarrow> r\<lparr>exc_bank := (exc_bank r)(b - 1 := (exc_bank r (b - 1))(i - 13 := v))\<rparr>
      | None \<Rightarrow> r\<lparr>usr_bank := (usr_bank r)(i - 8 := v)\<rparr>)"

definition reg_of :: "ArmRegisters \<Rightarrow> Mode \<Rightarrow> nat \<Rightarrow> u32" where
  "reg_of r mode i =
     (let cur = psr_mode (cpsr r) in
      if same_bank cur mode \<or> i < 8 \<or> i = 15 then gpr r i
      else let
        fiq_banked = ((8 \<le> i \<and> i \<le> 14) \<and> (cur = Fiq) \<noteq> (mode = Fiq));
        exc_banked = (13 \<le> i \<and> i \<le> 14)
      in if \<not> fiq_banked \<and> \<not> exc_banked then gpr r i
      else if mode = Fiq then fiq_bank r (i - 8)
      else if i < 13 then usr_bank r (i - 8)
      else case mode_bank mode of
        Some b \<Rightarrow> exc_bank r (b - 1) (i - 13)
      | None \<Rightarrow> usr_bank r (i - 8))"

subsection \<open>Status bits\<close>

lemma psr_flag_bits [flag_simps]:
  "psr_n p \<longleftrightarrow> bit p 31" "psr_z p \<longleftrightarrow> bit p 30" "psr_c p \<longleftrightarrow> bit p 29" "psr_v p \<longleftrightarrow> bit p 28"
  "psr_i p \<longleftrightarrow> bit p 7" "psr_f p \<longleftrightarrow> bit p 6" "psr_t p \<longleftrightarrow> bit p 5"
  by (simp_all only: psr_n_def psr_z_def psr_c_def psr_v_def psr_i_def psr_f_def psr_t_def
      psr_bit_defs and_push_bit_one)

lemma bit_psr_set:
  "k < 32 \<Longrightarrow> bit (psr_set (push_bit k 1) on p) n \<longleftrightarrow> (if n = k then on else bit p n)"
  by (auto simp: psr_set_def bit_simps dest: bit_imp_le_length)

lemma bit_psr_set_flags [flag_simps]:
  "bit (psr_set psr_N on p) n \<longleftrightarrow> (if n = 31 then on else bit p n)"
  "bit (psr_set psr_Z on p) n \<longleftrightarrow> (if n = 30 then on else bit p n)"
  "bit (psr_set psr_C on p) n \<longleftrightarrow> (if n = 29 then on else bit p n)"
  "bit (psr_set psr_V on p) n \<longleftrightarrow> (if n = 28 then on else bit p n)"
  "bit (psr_set psr_I on p) n \<longleftrightarrow> (if n = 7 then on else bit p n)"
  "bit (psr_set psr_F on p) n \<longleftrightarrow> (if n = 6 then on else bit p n)"
  "bit (psr_set psr_T on p) n \<longleftrightarrow> (if n = 5 then on else bit p n)"
  unfolding psr_bit_defs by (rule bit_psr_set, simp)+

lemma bit_push_one: "bit (push_bit k (1 :: u32)) n \<longleftrightarrow> n = k \<and> k < 32"
  by (auto simp: bit_simps)

lemma bit_psr_NZ: "bit psr_N n \<longleftrightarrow> n = 31" "bit psr_Z n \<longleftrightarrow> n = 30"
  by (simp_all only: psr_bit_defs bit_push_one) auto

lemma bit_psr_set_nz [flag_simps]:
  "bit (psr_set_nz v p) n \<longleftrightarrow> (if n = 31 then bit v 31 else if n = 30 then v = 0 else bit p n)"
  unfolding psr_set_nz_def
  by (auto simp: bit_simps bit_psr_NZ dest: bit_imp_le_length)

lemma psr_MODE_mask: "psr_MODE = mask 5"
  by (simp add: psr_MODE_def mask_eq_exp_minus_1)

lemma psr_mode_cong: "p AND psr_MODE = q AND psr_MODE \<Longrightarrow> psr_mode p = psr_mode q"
  by (simp add: psr_mode_def mode_from_bits_def psr_MODE_def)

lemma mode_bits_eqI: "(\<And>k. k < 5 \<Longrightarrow> bit p k \<longleftrightarrow> bit q k) \<Longrightarrow> p AND psr_MODE = q AND psr_MODE"
  unfolding psr_MODE_mask by (rule bit_word_eqI) (auto simp: bit_simps)

lemma psr_mode_bits_set [flag_simps]:
  "psr_set psr_N on p AND psr_MODE = p AND psr_MODE" "psr_set psr_Z on p AND psr_MODE = p AND psr_MODE"
  "psr_set psr_C on p AND psr_MODE = p AND psr_MODE" "psr_set psr_V on p AND psr_MODE = p AND psr_MODE"
  "psr_set psr_I on p AND psr_MODE = p AND psr_MODE" "psr_set psr_F on p AND psr_MODE = p AND psr_MODE"
  "psr_set psr_T on p AND psr_MODE = p AND psr_MODE" "psr_set_nz v p AND psr_MODE = p AND psr_MODE"
  by (rule mode_bits_eqI, simp add: flag_simps)+

lemma psr_mode_set [flag_simps]:
  "psr_mode (psr_set psr_N on p) = psr_mode p" "psr_mode (psr_set psr_Z on p) = psr_mode p"
  "psr_mode (psr_set psr_C on p) = psr_mode p" "psr_mode (psr_set psr_V on p) = psr_mode p"
  "psr_mode (psr_set psr_I on p) = psr_mode p" "psr_mode (psr_set psr_F on p) = psr_mode p"
  "psr_mode (psr_set psr_T on p) = psr_mode p" "psr_mode (psr_set_nz v p) = psr_mode p"
  by (rule psr_mode_cong, simp only: flag_simps)+

lemma mode_as_u32_masked [simp]: "mode_as_u32 m AND psr_MODE = mode_as_u32 m"
  by (cases m) (simp_all add: psr_MODE_def)

lemma mode_as_u32_bits: "bit (mode_as_u32 m) k \<Longrightarrow> k < 5"
  using arg_cong [OF mode_as_u32_masked [of m], of "\<lambda>w. bit w k"]
  by (auto simp: psr_MODE_mask bit_simps)

lemma psr_set_mode_masked [simp]: "psr_set_mode p m AND psr_MODE = mode_as_u32 m"
  unfolding psr_set_mode_def psr_MODE_mask
  by (rule bit_word_eqI) (auto simp: bit_simps dest: mode_as_u32_bits)

lemma mode_from_bits_inverse: "mode_from_bits p = Some m \<longleftrightarrow> p AND psr_MODE = mode_as_u32 m"
  by (cases m) (simp_all add: mode_from_bits_def psr_MODE_def Let_def)

lemma psr_mode_set_mode [simp]: "psr_mode (psr_set_mode p m) = m"
  using mode_from_bits_inverse [of "psr_set_mode p m" m] by (simp add: psr_mode_def)

lemma psr_set_mode_bits [flag_simps]: "5 \<le> k \<Longrightarrow> bit (psr_set_mode p m) k \<longleftrightarrow> bit p k"
  by (auto simp: psr_set_mode_def psr_MODE_mask bit_simps dest: mode_as_u32_bits bit_imp_le_length)

subsection \<open>Banking\<close>

text \<open>The physical register a mode sees under a number.\<close>

datatype cell = Shared nat | UserCell nat | FiqCell nat | ExcCell Mode nat

definition cell_of :: "Mode \<Rightarrow> nat \<Rightarrow> cell" where
  "cell_of m i =
     (if i < 8 \<or> i = 15 then Shared i
      else if m = Fiq then FiqCell i
      else if i < 13 \<or> \<not> has_spsr m then UserCell i
      else ExcCell m i)"

text \<open>What a physical register holds, whether it is in the window or in its bank.\<close>

fun phys :: "ArmRegisters \<Rightarrow> cell \<Rightarrow> u32" where
  "phys r (Shared i) = gpr r i"
| "phys r (UserCell i) =
     (let cur = psr_mode (cpsr r) in
      if cur = Fiq \<or> (13 \<le> i \<and> has_spsr cur) then usr_bank r (i - 8) else gpr r i)"
| "phys r (FiqCell i) = (if psr_mode (cpsr r) = Fiq then gpr r i else fiq_bank r (i - 8))"
| "phys r (ExcCell m i) =
     (if psr_mode (cpsr r) = m then gpr r i else exc_bank r (the (mode_bank m) - 1) (i - 13))"

lemma reg_of_phys: "i < 16 \<Longrightarrow> reg_of r m i = phys r (cell_of m i)"
  by (cases "psr_mode (cpsr r)"; cases m)
    (auto simp: reg_of_def cell_of_def same_bank_def has_spsr_def Let_def)

lemma user_reg_phys: "i < 16 \<Longrightarrow> user_reg r i = phys r (cell_of Usr i)"
  by (cases "psr_mode (cpsr r)")
    (auto simp: user_reg_def cell_of_def has_spsr_def Let_def)

lemma gpr_phys: "i < 16 \<Longrightarrow> gpr r i = phys r (cell_of (psr_mode (cpsr r)) i)"
  by (cases "psr_mode (cpsr r)") (auto simp: cell_of_def has_spsr_def Let_def)

text \<open>A change of mode moves values between the window and the banks and loses none.\<close>

lemma set_mode_cpsr: "cpsr (set_mode m r) = psr_set_mode (cpsr r) m"
  by (simp add: set_mode_def load_window_def spill_window_def Let_def case_prod_beta
      split: option.split)

lemma set_mode_spsr_bank [simp]: "spsr_bank (set_mode m r) = spsr_bank r"
  by (simp add: set_mode_def load_window_def spill_window_def Let_def case_prod_beta
      split: option.split)

fun valid_cell :: "cell \<Rightarrow> bool" where
  "valid_cell (Shared i) = (i < 8 \<or> i = 15)"
| "valid_cell (UserCell i) = (8 \<le> i \<and> i < 15)"
| "valid_cell (FiqCell i) = (8 \<le> i \<and> i < 15)"
| "valid_cell (ExcCell m i) = (has_spsr m \<and> m \<noteq> Fiq \<and> 13 \<le> i \<and> i < 15)"

lemma valid_cell_of [simp]: "i < 16 \<Longrightarrow> valid_cell (cell_of m i)"
  by (auto simp: cell_of_def)

fun bank_val :: "ArmRegisters \<Rightarrow> cell \<Rightarrow> u32" where
  "bank_val r (Shared i) = gpr r i"
| "bank_val r (UserCell i) = usr_bank r (i - 8)"
| "bank_val r (FiqCell i) = fiq_bank r (i - 8)"
| "bank_val r (ExcCell m i) = exc_bank r (the (mode_bank m) - 1) (i - 13)"

lemma spill_window_bank_val:
  assumes "valid_cell c"
  shows "bank_val (spill_window (psr_mode (cpsr r)) r) c = phys r c"
proof -
  have e: "x = 13 \<or> x = 14" if "13 \<le> x" "x < 15" for x :: nat using that by auto
  show ?thesis
  proof (cases c)
    case (UserCell i)
    then show ?thesis
      using assms by (cases "psr_mode (cpsr r)")
        (auto simp: spill_window_def copy_slice_def has_spsr_def Let_def)
  next
    case (ExcCell m i)
    then have "i = 13 \<or> i = 14" using assms e by simp
    with ExcCell assms show ?thesis
      by (cases "psr_mode (cpsr r)"; cases m)
        (auto simp: spill_window_def has_spsr_def Let_def)
  qed (use assms in \<open>auto simp: spill_window_def copy_slice_def Let_def split: option.split\<close>)
qed

lemma load_window_phys:
  assumes "valid_cell c" and "psr_mode p = new"
  shows "phys ((load_window new r)\<lparr>cpsr := p\<rparr>) c = bank_val r c"
proof -
  have e: "x = 13 \<or> x = 14" if "13 \<le> x" "x < 15" for x :: nat using that by auto
  show ?thesis
  proof (cases c)
    case (UserCell i)
    then show ?thesis
      using assms e [of i] by (cases new)
        (auto simp: load_window_def copy_slice_def has_spsr_def Let_def)
  next
    case (ExcCell m i)
    then have "i = 13 \<or> i = 14" using assms e by simp
    with ExcCell assms show ?thesis
      by (cases new; cases m) (auto simp: load_window_def has_spsr_def Let_def)
  qed (use assms in \<open>auto simp: load_window_def copy_slice_def Let_def split: option.split\<close>)
qed

lemma set_mode_phys: "valid_cell c \<Longrightarrow> phys (set_mode m' r) c = phys r c"
proof (cases "psr_mode (cpsr r) = m'")
  case True
  have "psr_mode (psr_set_mode (cpsr r) m') = psr_mode (cpsr r)" using True by simp
  moreover have "set_mode m' r = r\<lparr>cpsr := psr_set_mode (cpsr r) m'\<rparr>"
    using True by (simp add: set_mode_def)
  ultimately show ?thesis by (cases c) (simp_all add: Let_def)
next
  case False
  assume "valid_cell c"
  with False show ?thesis
    by (simp add: set_mode_def Let_def load_window_phys spill_window_bank_val)
qed

fun set_phys :: "cell \<Rightarrow> u32 \<Rightarrow> ArmRegisters \<Rightarrow> ArmRegisters" where
  "set_phys (Shared i) v r = r\<lparr>gpr := (gpr r)(i := v)\<rparr>"
| "set_phys (UserCell i) v r =
     (let cur = psr_mode (cpsr r) in
      if cur = Fiq \<or> (13 \<le> i \<and> has_spsr cur) then r\<lparr>usr_bank := (usr_bank r)(i - 8 := v)\<rparr>
      else r\<lparr>gpr := (gpr r)(i := v)\<rparr>)"
| "set_phys (FiqCell i) v r =
     (if psr_mode (cpsr r) = Fiq then r\<lparr>gpr := (gpr r)(i := v)\<rparr>
      else r\<lparr>fiq_bank := (fiq_bank r)(i - 8 := v)\<rparr>)"
| "set_phys (ExcCell m i) v r =
     (if psr_mode (cpsr r) = m then r\<lparr>gpr := (gpr r)(i := v)\<rparr>
      else r\<lparr>exc_bank := (exc_bank r)(the (mode_bank m) - 1 :=
        (exc_bank r (the (mode_bank m) - 1))(i - 13 := v))\<rparr>)"

lemma set_reg_of_set_phys: "i < 16 \<Longrightarrow> set_reg_of m i v r = set_phys (cell_of m i) v r"
  by (cases "psr_mode (cpsr r)"; cases m)
    (auto simp: set_reg_of_def cell_of_def same_bank_def has_spsr_def Let_def)

lemma mode_bank_inj:
  "has_spsr m \<Longrightarrow> m \<noteq> Fiq \<Longrightarrow> has_spsr m' \<Longrightarrow> m' \<noteq> Fiq \<Longrightarrow>
   the (mode_bank m) - Suc 0 = the (mode_bank m') - Suc 0 \<longleftrightarrow> m = m'"
  by (cases m; cases m') (simp_all add: has_spsr_def)

lemma phys_set_phys:
  "valid_cell c \<Longrightarrow> valid_cell c' \<Longrightarrow> phys (set_phys c v r) c' = (if c' = c then v else phys r c')"
  by (cases c; cases c') (auto simp: Let_def mode_bank_inj)

lemma set_reg_of_phys:
  "i < 16 \<Longrightarrow> j < 16 \<Longrightarrow>
   phys (set_reg_of m i v r) (cell_of m' j) =
     (if cell_of m' j = cell_of m i then v else phys r (cell_of m' j))"
  by (simp add: set_reg_of_set_phys phys_set_phys)

lemma set_reg_of_cpsr [simp]:
  "cpsr (set_reg_of m i v r) = cpsr r" "spsr_bank (set_reg_of m i v r) = spsr_bank r"
  by (simp_all add: set_reg_of_def Let_def split: option.split)

lemma set_user_reg_set_reg_of: "i < 16 \<Longrightarrow> set_user_reg i v r = set_reg_of Usr i v r"
  by (cases "psr_mode (cpsr r)")
    (auto simp: set_user_reg_def set_reg_of_def same_bank_def has_spsr_def Let_def)

subsection \<open>The contract of a banked register file\<close>

locale banked_file =
  fixes rd :: "'f \<Rightarrow> Mode \<Rightarrow> nat \<Rightarrow> u32"
    and wr :: "Mode \<Rightarrow> nat \<Rightarrow> u32 \<Rightarrow> 'f \<Rightarrow> 'f"
    and sw :: "Mode \<Rightarrow> 'f \<Rightarrow> 'f"
    and current :: "'f \<Rightarrow> Mode"
    and window :: "'f \<Rightarrow> nat \<Rightarrow> u32"
  assumes rd_cong: "i < 16 \<Longrightarrow> j < 16 \<Longrightarrow> cell_of m i = cell_of m' j \<Longrightarrow> rd f m i = rd f m' j"
    and rd_sw: "i < 16 \<Longrightarrow> rd (sw m' f) m i = rd f m i"
    and rd_wr: "i < 16 \<Longrightarrow> j < 16 \<Longrightarrow>
      rd (wr m i v f) m' j = (if cell_of m' j = cell_of m i then v else rd f m' j)"
    and current_sw: "current (sw m f) = m"
    and current_wr: "current (wr m i v f) = current f"
    and window_rd: "i < 16 \<Longrightarrow> window f i = rd f (current f) i"
begin

lemma window_sw: "i < 16 \<Longrightarrow> window (sw m f) i = rd f m i"
  by (simp add: window_rd current_sw rd_sw)

lemma sw_round_trip: "i < 16 \<Longrightarrow> window (sw (current f) (sw m f)) i = window f i"
  by (simp add: window_sw rd_sw) (simp add: window_rd)

lemma wr_commutes_sw: "i < 16 \<Longrightarrow> j < 16 \<Longrightarrow> rd (sw m' (wr m i v f)) m'' j = rd (wr m i v (sw m' f)) m'' j"
  by (simp add: rd_sw rd_wr)

end

text \<open>Operations on the file, and their effect on a file with one register per physical cell.\<close>

datatype file_op = SetMode Mode | SetReg Mode nat u32 | SetUser nat u32

fun run_file :: "file_op list \<Rightarrow> ArmRegisters \<Rightarrow> ArmRegisters" where
  "run_file [] r = r"
| "run_file (SetMode m # xs) r = run_file xs (set_mode m r)"
| "run_file (SetReg m i v # xs) r = run_file xs (set_reg_of m i v r)"
| "run_file (SetUser i v # xs) r = run_file xs (set_user_reg i v r)"

fun run_flat :: "file_op list \<Rightarrow> (cell \<Rightarrow> u32) \<Rightarrow> cell \<Rightarrow> u32" where
  "run_flat [] f = f"
| "run_flat (SetMode m # xs) f = run_flat xs f"
| "run_flat (SetReg m i v # xs) f = run_flat xs (f(cell_of m i := v))"
| "run_flat (SetUser i v # xs) f = run_flat xs (f(cell_of Usr i := v))"

fun op_ok :: "file_op \<Rightarrow> bool" where
  "op_ok (SetMode m) = True"
| "op_ok (SetReg m i v) = (i < 16)"
| "op_ok (SetUser i v) = (i < 16)"

interpretation banks: banked_file reg_of set_reg_of set_mode "\<lambda>r. psr_mode (cpsr r)" gpr
proof (unfold_locales, goal_cases)
  case (1 i j m m' f)
  then show ?case by (simp add: reg_of_phys)
next
  case (2 i m' f m)
  then show ?case by (simp add: reg_of_phys set_mode_phys)
next
  case (3 i j m v f m')
  then show ?case by (simp add: reg_of_phys set_reg_of_phys)
next
  case (6 i f)
  then show ?case by (simp only: reg_of_phys gpr_phys [symmetric])
qed (simp_all add: set_mode_cpsr)

lemma run_flat_cong: "(\<And>c. valid_cell c \<Longrightarrow> f c = g c) \<Longrightarrow> valid_cell c \<Longrightarrow> run_flat xs f c = run_flat xs g c"
proof (induction xs arbitrary: f g)
  case (Cons x xs)
  have "run_flat xs f c = run_flat xs g c" by (rule Cons.IH) (fact Cons.prems)+
  moreover have "run_flat xs (f(e := v)) c = run_flat xs (g(e := v)) c" for e v
    by (rule Cons.IH) (simp_all add: Cons.prems)
  ultimately show ?case by (cases x) simp_all
qed simp

lemma run_file_refines:
  "list_all op_ok xs \<Longrightarrow> valid_cell c \<Longrightarrow> phys (run_file xs r) c = run_flat xs (phys r) c"
proof (induction xs arbitrary: r)
  case (Cons x xs)
  let ?r' = "run_file [x] r" and ?f' = "run_flat [x] (phys r)"
  have "phys ?r' d = ?f' d" if "valid_cell d" for d
    using Cons.prems(1) that
    by (cases x) (simp_all add: set_mode_phys set_user_reg_set_reg_of set_reg_of_set_phys phys_set_phys)
  then have "run_flat xs (phys ?r') c = run_flat xs ?f' c"
    using Cons.prems(2) by (rule run_flat_cong)
  moreover have "phys (run_file xs ?r') c = run_flat xs (phys ?r') c"
    using Cons by simp
  ultimately show ?case by (cases x) simp_all
qed simp

text \<open>
  C2. Register banking refines a flat file. After any sequence of mode switches, writes to any mode's
  registers and user-bank writes, every mode sees under every register number exactly what a file with
  one register per physical cell would hold, and the window \<open>gpr\<close> is the current mode's view: a mode
  switch never loses or leaks a register.
\<close>

theorem banking_refines_flat_file:
  assumes "list_all op_ok ops" and "i < 16"
  shows "reg_of (run_file ops r) m i = run_flat ops (phys r) (cell_of m i) \<and>
    gpr (run_file ops r) i = reg_of (run_file ops r) (psr_mode (cpsr (run_file ops r))) i"
  using run_file_refines [OF assms(1) valid_cell_of [OF assms(2)]] banks.window_rd [OF assms(2)]
  by (simp add: reg_of_phys assms(2))

theorem banking_refines_flat_file_witness:
  "reg_of (run_file [SetReg Fiq 13 7, SetMode Fiq, SetMode Irq, SetUser 13 9, SetMode Usr]
     ArmRegisters_new) Fiq 13 = 7"
  using banking_refines_flat_file
    [of "[SetReg Fiq 13 7, SetMode Fiq, SetMode Irq, SetUser 13 9, SetMode Usr]" 13
      ArmRegisters_new Fiq]
  by (simp add: cell_of_def has_spsr_def)

end
