(* ===== verification/Remu_Bytes.thy ===== *)
theory Remu_Bytes
  imports Remu_Prelude
begin

text \<open>
  Integers as little-endian bytes, shared by the components that keep wide values in byte memories:
  the halves of a 32-bit value, \<open>to_le_bytes\<close>/\<open>from_le_bytes\<close> of the Rust integer types as \<open>le_bytes\<close>
  and \<open>from_le\<close> on byte lists, and Rust's slice indexing, whose out-of-range panic is \<open>None\<close>.
\<close>

subsection \<open>Halves of a 32-bit value\<close>

text \<open>\<open>lo as u32 | (hi as u32) << 16\<close>, and the two halves of a word.\<close>

definition join16 :: "u16 \<Rightarrow> u16 \<Rightarrow> u32" where
  "join16 lo hi = (ucast lo OR push_bit 16 (ucast hi))"

definition low16 :: "u32 \<Rightarrow> u16" where "low16 v = ucast v"
definition high16 :: "u32 \<Rightarrow> u16" where "high16 v = ucast (drop_bit 16 v)"

text \<open>\<open>u32::from_le_bytes\<close>.\<close>

definition u32_from_le_bytes :: "u8 \<Rightarrow> u8 \<Rightarrow> u8 \<Rightarrow> u8 \<Rightarrow> u32" where
  "u32_from_le_bytes b0 b1 b2 b3 =
     (ucast b0 OR push_bit 8 (ucast b1) OR push_bit 16 (ucast b2) OR push_bit 24 (ucast b3))"

lemma low16_join16 [simp]: "low16 (join16 lo hi) = lo"
  by (rule bit_word_eqI) (auto simp: low16_def join16_def bit_simps)

lemma high16_join16 [simp]: "high16 (join16 lo hi) = hi"
  by (rule bit_word_eqI) (auto simp: high16_def join16_def bit_simps dest: bit_imp_le_length)

lemma join16_halves [simp]: "join16 (low16 v) (high16 v) = v"
  by (rule bit_word_eqI) (auto simp: low16_def high16_def join16_def bit_simps not_less)

lemma u32_from_le_bytes_join: "u32_from_le_bytes b0 b1 b2 b3 = join16 (le16 b0 b1) (le16 b2 b3)"
  unfolding u32_from_le_bytes_def join16_def le16_def
  by (rule bit_word_eqI) (auto simp: bit_simps dest: bit_imp_le_length)

lemma byte_parts:
  "lo8 (low16 v) = ucast v" "hi8 (low16 v) = ucast (drop_bit 8 v)"
  "lo8 (high16 v) = ucast (drop_bit 16 v)" "hi8 (high16 v) = ucast (drop_bit 24 v)"
  by (rule bit_word_eqI; auto simp: lo8_def hi8_def low16_def high16_def bit_simps add.commute)+

subsection \<open>Byte lists\<close>

definition le_bytes :: "nat \<Rightarrow> 'a::len word \<Rightarrow> u8 list" where
  "le_bytes n v = map (\<lambda>i. ucast (drop_bit (8 * i) v)) [0..<n]"

fun from_le :: "u8 list \<Rightarrow> 'a::len word" where
  "from_le [] = 0"
| "from_le (b # bs) = ucast b OR push_bit 8 (from_le bs)"

lemma length_le_bytes [simp]: "length (le_bytes n v) = n"
  by (simp add: le_bytes_def)

lemma bit_from_le:
  "bit (from_le bs :: 'a::len word) k \<longleftrightarrow>
   k < LENGTH('a) \<and> k div 8 < length bs \<and> bit (bs ! (k div 8)) (k mod 8)"
proof (induction bs arbitrary: k)
  case Nil
  then show ?case by simp
next
  case (Cons b bs)
  show ?case
  proof (cases "k < 8")
    case True
    then show ?thesis by (auto simp: bit_simps)
  next
    case False
    then have k: "k div 8 = Suc ((k - 8) div 8)" "(k - 8) mod 8 = k mod 8"
      by (simp_all add: le_div_geq le_mod_geq)
    have "\<not> bit b k" using False bit_imp_le_length [of b k] by auto
    then show ?thesis using False k by (auto simp: bit_simps Cons.IH)
  qed
qed

lemma from_le_le_bytes:
  assumes "LENGTH('a) \<le> 8 * n"
  shows "from_le (le_bytes n (v :: 'a::len word)) = v"
proof (rule bit_word_eqI)
  fix k assume k: "k < LENGTH('a)"
  then have "k div 8 < n" using assms by linarith
  then show "bit (from_le (le_bytes n v) :: 'a word) k = bit v k"
    using k by (simp add: bit_from_le le_bytes_def bit_simps)
qed

lemma le_bytes_from_le:
  assumes "8 * length bs \<le> LENGTH('a)"
  shows "le_bytes (length bs) (from_le bs :: 'a::len word) = bs"
proof (rule nth_equalityI)
  show "length (le_bytes (length bs) (from_le bs :: 'a word)) = length bs" by simp
next
  fix i assume i: "i < length (le_bytes (length bs) (from_le bs :: 'a word))"
  show "le_bytes (length bs) (from_le bs :: 'a word) ! i = bs ! i"
  proof (rule bit_word_eqI)
    fix k assume "k < LENGTH(8)"
    then have k: "(8 * i + k) div 8 = i" "(8 * i + k) mod 8 = k" "8 * i + k < LENGTH('a)"
      using i assms by auto
    with i \<open>k < LENGTH(8)\<close> show "bit (le_bytes (length bs) (from_le bs :: 'a word) ! i) k = bit (bs ! i) k"
      by (simp add: le_bytes_def bit_simps bit_from_le)
  qed
qed

lemma le_bytes_4: "le_bytes 4 v = [ucast v, ucast (drop_bit 8 v), ucast (drop_bit 16 v), ucast (drop_bit 24 v)]"
  by (simp add: le_bytes_def upt_rec)

lemma from_le_4: "from_le [b0, b1, b2, b3] = u32_from_le_bytes b0 b1 b2 b3"
  unfolding u32_from_le_bytes_def
  by (rule bit_word_eqI) (auto simp: bit_simps dest: bit_imp_le_length)

subsection \<open>Alignment\<close>

lemma and_not_mask_plus: "(x AND NOT (mask n)) + (x AND mask n) = (x :: 'a::len word)"
proof -
  have "(x AND NOT (mask n)) AND (x AND mask n) = 0" by (rule bit_word_eqI) (auto simp: bit_simps)
  then have "(x AND NOT (mask n)) + (x AND mask n) = (x AND NOT (mask n)) OR (x AND mask n)"
    by (rule disjunctive_add_eq_or)
  also have "\<dots> = x" by (rule bit_word_eqI) (auto simp: bit_simps)
  finally show ?thesis .
qed

lemma unat_and_mask: "unat ((x :: 'a::len word) AND mask n) = unat x mod 2 ^ n"
  unfolding take_bit_eq_mask [symmetric] unsigned_take_bit_eq by (simp add: take_bit_eq_mod)

lemma unat_align_down: "unat ((x :: 'a::len word) AND NOT (mask n)) = unat x - unat x mod 2 ^ n"
proof -
  have "x AND NOT (mask n) = x - (x AND mask n)"
    by (subst (2) and_not_mask_plus [of x n, symmetric]) simp
  then show ?thesis by (simp add: unat_sub_if' unat_and_mask)
qed

lemma align_down_dvd: "(n - n mod d) mod d = (0 :: nat)"
  by (metis minus_mod_eq_mult_div mod_mult_self1_is_0)

subsection \<open>Slices\<close>

text \<open>\<open>b[lo..hi]\<close>; \<open>None\<close> is the panic of an out-of-range slice.\<close>

definition slice :: "'a list \<Rightarrow> nat \<Rightarrow> nat \<Rightarrow> 'a list option" where
  "slice b lo hi = (if lo \<le> hi \<and> hi \<le> length b then Some (take (hi - lo) (drop lo b)) else None)"

lemma slice_some: "lo \<le> hi \<Longrightarrow> hi \<le> length b \<Longrightarrow> slice b lo hi = Some (take (hi - lo) (drop lo b))"
  by (simp add: slice_def)

lemma length_slice: "slice b lo hi = Some s \<Longrightarrow> length s = hi - lo"
  by (auto simp: slice_def split: if_splits)

subsection \<open>Checked addition\<close>

text \<open>\<open>a + b\<close> on \<open>u32\<close>: in a build with overflow checks (\<open>chk\<close>) an overflow panics, otherwise it wraps.\<close>

definition add_u32 :: "bool \<Rightarrow> u32 \<Rightarrow> u32 \<Rightarrow> u32 option" where
  "add_u32 chk a b = (if chk \<and> 2 ^ 32 \<le> unat a + unat b then None else Some (a + b))"

lemma add_u32_some: "unat a + unat b < 2 ^ 32 \<Longrightarrow> add_u32 chk a b = Some (a + b)"
  by (simp add: add_u32_def)

lemma unat_add_no_wrap: "unat a + unat b < 2 ^ 32 \<Longrightarrow> unat (a + b :: u32) = unat a + unat b"
  by (simp add: unat_word_ariths)

end
