(* ===== verification/Arm_Bus.thy ===== *)
theory Arm_Bus
  imports Remu_Bytes
begin

text \<open>
  The memory side of \<open>src/arm32/mod.rs\<close>: the \<open>Bus\<close> trait with its byte-composed default accessors,
  and the flat power-of-two memory \<open>LinearMemory\<close> with its overridden ones. The boxed slice \<open>ram\<close> is
  a function on the indices below its length \<open>mask + 1\<close>; every index is masked, so none is out of
  range. \<open>usize\<close> is 64 bits wide and no sum here comes near that, so indices are natural numbers.

  The locale \<open>arm_memory\<close> is what the executor and the instruction cache rely on: reads return the
  bytes last written to the same cell, and the wide accessors are compositions of the byte accessors.
  Addresses may alias (\<open>cell\<close>); \<open>LinearMemory\<close> folds the address space onto its size.
\<close>

record 'b ArmBus =
  ab_read :: "'b \<Rightarrow> u32 \<Rightarrow> u8 \<times> 'b"
  ab_write :: "'b \<Rightarrow> u32 \<Rightarrow> u8 \<Rightarrow> 'b"
  ab_read16 :: "'b \<Rightarrow> u32 \<Rightarrow> u16 \<times> 'b"
  ab_read32 :: "'b \<Rightarrow> u32 \<Rightarrow> u32 \<times> 'b"
  ab_write16 :: "'b \<Rightarrow> u32 \<Rightarrow> u16 \<Rightarrow> 'b"
  ab_write32 :: "'b \<Rightarrow> u32 \<Rightarrow> u32 \<Rightarrow> 'b"

definition default_read16 :: "('b \<Rightarrow> u32 \<Rightarrow> u8 \<times> 'b) \<Rightarrow> 'b \<Rightarrow> u32 \<Rightarrow> u16 \<times> 'b" where
  "default_read16 rd b addr =
     (let (lo, b) = rd b addr; (hi, b) = rd b (addr + 1) in (le16 lo hi, b))"

definition default_read32 :: "('b \<Rightarrow> u32 \<Rightarrow> u16 \<times> 'b) \<Rightarrow> 'b \<Rightarrow> u32 \<Rightarrow> u32 \<times> 'b" where
  "default_read32 rd16 b addr =
     (let (lo, b) = rd16 b addr; (hi, b) = rd16 b (addr + 2) in (join16 lo hi, b))"

definition default_write16 :: "('b \<Rightarrow> u32 \<Rightarrow> u8 \<Rightarrow> 'b) \<Rightarrow> 'b \<Rightarrow> u32 \<Rightarrow> u16 \<Rightarrow> 'b" where
  "default_write16 wr b addr value = wr (wr b addr (lo8 value)) (addr + 1) (hi8 value)"

definition default_write32 :: "('b \<Rightarrow> u32 \<Rightarrow> u16 \<Rightarrow> 'b) \<Rightarrow> 'b \<Rightarrow> u32 \<Rightarrow> u32 \<Rightarrow> 'b" where
  "default_write32 wr16 b addr value = wr16 (wr16 b addr (low16 value)) (addr + 2) (high16 value)"

lemmas default_defs =
  default_read16_def default_read32_def default_write16_def default_write32_def

subsection \<open>Linear memory\<close>

definition DEFAULT_MEMORY :: nat where "DEFAULT_MEMORY = push_bit 20 16"

record LinearMemory =
  lm_ram :: "nat \<Rightarrow> u8"
  lm_mask :: nat

text \<open>\<open>usize::next_power_of_two\<close>.\<close>

fun next_power_of_two :: "nat \<Rightarrow> nat" where
  "next_power_of_two n = (if n \<le> 1 then 1 else 2 * next_power_of_two ((n + 1) div 2))"

declare next_power_of_two.simps [simp del]

definition LinearMemory_with_size :: "nat \<Rightarrow> LinearMemory" where
  "LinearMemory_with_size size' =
     (let size'' = next_power_of_two (max size' (push_bit 16 1))
      in \<lparr>lm_ram = (\<lambda>_. 0), lm_mask = size'' - 1\<rparr>)"

definition LinearMemory_new :: LinearMemory where
  "LinearMemory_new = LinearMemory_with_size DEFAULT_MEMORY"

fun lm_load_from :: "LinearMemory \<Rightarrow> u32 \<Rightarrow> nat \<Rightarrow> u8 list \<Rightarrow> LinearMemory" where
  "lm_load_from m addr i [] = m"
| "lm_load_from m addr i (byte # rest) =
     lm_load_from (m\<lparr>lm_ram := (lm_ram m)((unat addr + i) AND lm_mask m := byte)\<rparr>) addr (i + 1) rest"

definition LinearMemory_load :: "LinearMemory \<Rightarrow> u32 \<Rightarrow> u8 list \<Rightarrow> LinearMemory" where
  "LinearMemory_load m addr data = lm_load_from m addr 0 data"

definition lm_read :: "LinearMemory \<Rightarrow> u32 \<Rightarrow> u8 \<times> LinearMemory" where
  "lm_read m addr = (lm_ram m (unat addr AND lm_mask m), m)"

definition lm_write :: "LinearMemory \<Rightarrow> u32 \<Rightarrow> u8 \<Rightarrow> LinearMemory" where
  "lm_write m addr value = m\<lparr>lm_ram := (lm_ram m)(unat addr AND lm_mask m := value)\<rparr>"

definition lm_read16 :: "LinearMemory \<Rightarrow> u32 \<Rightarrow> u16 \<times> LinearMemory" where
  "lm_read16 m addr =
     (let a = unat addr AND lm_mask m in
      if a < lm_mask m then (le16 (lm_ram m a) (lm_ram m (a + 1)), m)
      else let (lo, m) = lm_read m addr; (hi, m) = lm_read m (addr + 1) in (le16 lo hi, m))"

definition lm_read32 :: "LinearMemory \<Rightarrow> u32 \<Rightarrow> u32 \<times> LinearMemory" where
  "lm_read32 m addr =
     (let a = unat addr AND lm_mask m in
      if a + 3 \<le> lm_mask m
      then (u32_from_le_bytes (lm_ram m a) (lm_ram m (a + 1)) (lm_ram m (a + 2)) (lm_ram m (a + 3)), m)
      else let (lo, m) = lm_read16 m addr; (hi, m) = lm_read16 m (addr + 2) in (join16 lo hi, m))"

definition lm_write16 :: "LinearMemory \<Rightarrow> u32 \<Rightarrow> u16 \<Rightarrow> LinearMemory" where
  "lm_write16 m addr value =
     (let a = unat addr AND lm_mask m in
      if a < lm_mask m
      then m\<lparr>lm_ram := (lm_ram m)(a := lo8 value, a + 1 := hi8 value)\<rparr>
      else let m = lm_write m addr (lo8 value) in lm_write m (addr + 1) (hi8 value))"

definition lm_write32 :: "LinearMemory \<Rightarrow> u32 \<Rightarrow> u32 \<Rightarrow> LinearMemory" where
  "lm_write32 m addr value =
     (let a = unat addr AND lm_mask m in
      if a + 3 \<le> lm_mask m
      then m\<lparr>lm_ram := (lm_ram m)(a := ucast value, a + 1 := ucast (drop_bit 8 value),
             a + 2 := ucast (drop_bit 16 value), a + 3 := ucast (drop_bit 24 value))\<rparr>
      else let m = lm_write16 m addr (low16 value) in lm_write16 m (addr + 2) (high16 value))"

definition LinearMemory_bus :: "LinearMemory ArmBus" where
  "LinearMemory_bus =
     \<lparr>ab_read = lm_read, ab_write = lm_write, ab_read16 = lm_read16, ab_read32 = lm_read32,
      ab_write16 = lm_write16, ab_write32 = lm_write32\<rparr>"

subsection \<open>Sizes\<close>

text \<open>A memory of \<open>2 ^ k\<close> bytes.\<close>

definition lm_size_log :: "nat \<Rightarrow> LinearMemory \<Rightarrow> bool" where
  "lm_size_log k m \<longleftrightarrow> lm_mask m = mask k"

lemma next_power_of_two_step:
  "next_power_of_two 1 = 1" "2 \<le> n \<Longrightarrow> next_power_of_two n = 2 * next_power_of_two ((n + 1) div 2)"
  by (subst next_power_of_two.simps, simp)+

lemma next_power_of_two_pow:
  "2 ^ k \<le> n \<Longrightarrow> n \<le> 2 ^ (k + 1) \<Longrightarrow>
   next_power_of_two n = (if n = 2 ^ k then 2 ^ k else 2 ^ (k + 1))"
proof (induction k arbitrary: n)
  case 0
  then have "n = 1 \<or> n = 2" by auto
  then show ?case using next_power_of_two_step(1) next_power_of_two_step(2) [of 2] by auto
next
  case (Suc k)
  define P :: nat where "P = 2 ^ k"
  have n: "2 * P \<le> n" "n \<le> 4 * P" using Suc.prems by (simp_all add: P_def)
  let ?h = "(n + 1) div 2"
  have h: "P \<le> ?h" "?h \<le> 2 * P" and eq: "?h = P \<longleftrightarrow> n = 2 * P" using n by linarith+
  have "1 \<le> P" by (simp add: P_def)
  with n have "2 \<le> n" by linarith
  then have "next_power_of_two n = 2 * next_power_of_two ?h"
    by (rule next_power_of_two_step)
  also have "\<dots> = 2 * (if ?h = P then P else 2 * P)"
    using Suc.IH [of ?h] h by (simp add: P_def)
  finally show ?case unfolding eq by (simp add: P_def)
qed

lemma LinearMemory_new_size: "lm_size_log 24 LinearMemory_new"
  using next_power_of_two_pow [of 24 "2 ^ 24"]
  by (simp add: lm_size_log_def LinearMemory_new_def LinearMemory_with_size_def DEFAULT_MEMORY_def
      push_bit_eq_mult mask_eq_exp_minus_1 Let_def)

lemma and_mask_mod: "(n :: nat) AND mask k = n mod 2 ^ k"
  by (simp flip: take_bit_eq_mask add: take_bit_eq_mod)

text \<open>The cell after an address, where it does not wrap.\<close>

lemma cell_next:
  assumes "k \<le> 32" and "unat a mod 2 ^ k + j < 2 ^ k"
  shows "unat (a + of_nat j :: u32) mod 2 ^ k = unat a mod 2 ^ k + j"
proof -
  have d: "(2::nat) ^ k dvd 2 ^ 32" using assms(1) by (rule le_imp_power_dvd)
  have "unat (a + of_nat j) = (unat a + j) mod 2 ^ 32"
    by (simp add: unat_word_ariths unat_of_nat mod_simps)
  then have "unat (a + of_nat j) mod 2 ^ k = (unat a + j) mod 2 ^ k"
    using mod_mod_cancel [OF d] by simp
  also have "\<dots> = (unat a mod 2 ^ k + j) mod 2 ^ k" by (simp add: mod_simps)
  finally show ?thesis using assms(2) by simp
qed

definition lm_cell :: "LinearMemory \<Rightarrow> u32 \<Rightarrow> nat" where
  "lm_cell m a = unat a AND lm_mask m"

definition lm_ok :: "LinearMemory \<Rightarrow> bool" where
  "lm_ok m \<longleftrightarrow> (\<exists>k \<le> 32. lm_size_log k m)"

definition lm_peek :: "LinearMemory \<Rightarrow> u32 \<Rightarrow> u8" where
  "lm_peek m a = lm_ram m (lm_cell m a)"

lemma lm_cell_next:
  assumes "lm_ok m" and "lm_cell m a + j \<le> lm_mask m"
  shows "lm_cell m (a + of_nat j) = lm_cell m a + j"
proof -
  obtain k where k: "k \<le> 32" "lm_mask m = mask k"
    using assms(1) by (auto simp: lm_ok_def lm_size_log_def)
  have "(1 :: nat) \<le> 2 ^ k" by simp
  moreover have "unat a mod 2 ^ k + j \<le> 2 ^ k - 1"
    using assms(2) unfolding lm_cell_def k(2) and_mask_mod by (simp add: mask_eq_exp_minus_1)
  ultimately have "unat a mod 2 ^ k + j < 2 ^ k" by linarith
  from cell_next [OF k(1) this] show ?thesis
    by (simp add: lm_cell_def k(2) and_mask_mod)
qed

lemma lm_ok_update [simp]: "lm_ok (m\<lparr>lm_ram := f\<rparr>) = lm_ok m"
  by (simp add: lm_ok_def lm_size_log_def)

lemma lm_cell_update [simp]: "lm_cell (m\<lparr>lm_ram := f\<rparr>) = lm_cell m"
  by (simp add: lm_cell_def fun_eq_iff)

lemma lm_read_peek: "lm_read m a = (lm_peek m a, m)"
  by (simp add: lm_read_def lm_peek_def lm_cell_def)

lemma lm_write_cell: "lm_write m a v = m\<lparr>lm_ram := (lm_ram m)(lm_cell m a := v)\<rparr>"
  by (simp add: lm_write_def lm_cell_def)

lemma lm_read16_default:
  assumes "lm_ok m"
  shows "lm_read16 m a = (le16 (lm_peek m a) (lm_peek m (a + 1)), m)"
proof (cases "lm_cell m a < lm_mask m")
  case True
  then have "lm_cell m (a + 1) = lm_cell m a + 1" using lm_cell_next [OF assms, of a 1] by simp
  with True show ?thesis by (simp add: lm_read16_def lm_peek_def Let_def flip: lm_cell_def)
next
  case False
  then show ?thesis by (simp add: lm_read16_def lm_read_peek Let_def flip: lm_cell_def)
qed

lemma lm_read32_default:
  assumes "lm_ok m"
  shows "lm_read32 m a =
    (join16 (le16 (lm_peek m a) (lm_peek m (a + 1))) (le16 (lm_peek m (a + 2)) (lm_peek m (a + 3))), m)"
proof (cases "lm_cell m a + 3 \<le> lm_mask m")
  case True
  then have "lm_cell m (a + 1) = lm_cell m a + 1" "lm_cell m (a + 2) = lm_cell m a + 2"
    "lm_cell m (a + 3) = lm_cell m a + 3"
    using lm_cell_next [OF assms, of a 1] lm_cell_next [OF assms, of a 2]
      lm_cell_next [OF assms, of a 3] by simp_all
  with True show ?thesis
    by (simp add: lm_read32_def lm_peek_def Let_def u32_from_le_bytes_join flip: lm_cell_def)
next
  case False
  then show ?thesis
    by (simp add: lm_read32_def lm_read16_default [OF assms] Let_def add.assoc flip: lm_cell_def)
qed

lemma lm_write16_default:
  assumes "lm_ok m"
  shows "lm_write16 m a v = lm_write (lm_write m a (lo8 v)) (a + 1) (hi8 v)"
proof (cases "lm_cell m a < lm_mask m")
  case True
  then have "lm_cell m (a + 1) = lm_cell m a + 1" using lm_cell_next [OF assms, of a 1] by simp
  with True show ?thesis by (simp add: lm_write16_def lm_write_cell Let_def flip: lm_cell_def)
next
  case False
  then show ?thesis by (simp add: lm_write16_def Let_def flip: lm_cell_def)
qed

lemma lm_write_ok [simp]: "lm_ok (lm_write m a v) = lm_ok m"
  by (simp add: lm_write_cell)

lemma lm_write32_default:
  assumes "lm_ok m"
  shows "lm_write32 m a v = lm_write16 (lm_write16 m a (low16 v)) (a + 2) (high16 v)"
proof (cases "lm_cell m a + 3 \<le> lm_mask m")
  case True
  then have c: "lm_cell m (a + 1) = lm_cell m a + 1" "lm_cell m (a + 2) = lm_cell m a + 2"
    "lm_cell m (a + 3) = lm_cell m a + 3"
    using lm_cell_next [OF assms, of a 1] lm_cell_next [OF assms, of a 2]
      lm_cell_next [OF assms, of a 3] by simp_all
  with True show ?thesis
    by (simp add: lm_write32_def Let_def lm_write16_default assms add.assoc byte_parts
        flip: lm_cell_def) (simp add: lm_write_cell c)
next
  case False
  then show ?thesis by (simp add: lm_write32_def Let_def flip: lm_cell_def)
qed

subsection \<open>The memory contract\<close>

locale arm_memory =
  fixes B :: "'b ArmBus"
    and inv :: "'b \<Rightarrow> bool"
    and peek :: "'b \<Rightarrow> u32 \<Rightarrow> u8"
    and cell :: "'b \<Rightarrow> u32 \<Rightarrow> nat"
  assumes inv_write: "inv b \<Longrightarrow> inv (ab_write B b a v)"
    and cell_write: "inv b \<Longrightarrow> cell (ab_write B b a v) = cell b"
    and peek_write: "inv b \<Longrightarrow>
      peek (ab_write B b a v) a' = (if cell b a' = cell b a then v else peek b a')"
    and read: "inv b \<Longrightarrow> ab_read B b a = (peek b a, b)"
    and read16: "inv b \<Longrightarrow> ab_read16 B b a = default_read16 (ab_read B) b a"
    and read32: "inv b \<Longrightarrow> ab_read32 B b a = default_read32 (ab_read16 B) b a"
    and write16: "inv b \<Longrightarrow> ab_write16 B b a w = default_write16 (ab_write B) b a w"
    and write32: "inv b \<Longrightarrow> ab_write32 B b a x = default_write32 (ab_write16 B) b a x"
begin

lemma read16_peek: "inv b \<Longrightarrow> ab_read16 B b a = (le16 (peek b a) (peek b (a + 1)), b)"
  by (simp add: read16 default_read16_def read)

lemma read32_peek: "inv b \<Longrightarrow> ab_read32 B b a =
    (join16 (le16 (peek b a) (peek b (a + 1))) (le16 (peek b (a + 2)) (peek b (a + 3))), b)"
  by (simp add: read32 default_read32_def read16_peek add.assoc)

lemma write16_inv: "inv b \<Longrightarrow> inv (ab_write16 B b a w) \<and> cell (ab_write16 B b a w) = cell b"
  by (simp add: write16 default_write16_def inv_write cell_write)

lemma write32_inv: "inv b \<Longrightarrow> inv (ab_write32 B b a x) \<and> cell (ab_write32 B b a x) = cell b"
  by (simp add: write32 default_write32_def write16_inv)

lemma write16_other:
  "inv b \<Longrightarrow> cell b c \<noteq> cell b a \<Longrightarrow> cell b c \<noteq> cell b (a + 1) \<Longrightarrow>
   peek (ab_write16 B b a w) c = peek b c"
  by (simp add: write16 default_write16_def peek_write inv_write cell_write)

lemma write32_other:
  "inv b \<Longrightarrow> \<forall>j < 4. cell b c \<noteq> cell b (a + of_nat j) \<Longrightarrow> peek (ab_write32 B b a x) c = peek b c"
  by (simp add: write32 default_write32_def write16_other write16_inv numeral_eq_Suc
      All_less_Suc add.assoc)

text \<open>A word read back from where it was written, when its four bytes are four cells.\<close>

lemma read32_write32:
  assumes "inv b"
    and "\<forall>i < 4. \<forall>j < 4. cell b (a + of_nat i) = cell b (a + of_nat j) \<longrightarrow> i = (j :: nat)"
  shows "ab_read32 B (ab_write32 B b a x) a = (x, ab_write32 B b a x)"
proof -
  have d: "cell b (a + of_nat i) = cell b (a + of_nat j) \<longleftrightarrow> i = j" if "i < 4" "j < 4" for i j :: nat
    using assms(2) that by blast
  note d' = d [of 0 1] d [of 0 2] d [of 0 3] d [of 1 2] d [of 1 3] d [of 2 3]
  show ?thesis
    using d' by (simp add: read32_peek write32_inv assms(1))
      (simp add: write32 default_write32_def write16 default_write16_def peek_write inv_write
        cell_write assms(1) add.assoc)
qed

end

interpretation lm: arm_memory LinearMemory_bus lm_ok lm_peek lm_cell
  by unfold_locales
    (simp_all add: LinearMemory_bus_def lm_read_peek lm_read16_default lm_read32_default
      lm_write16_default lm_write32_default default_defs add.assoc,
     simp_all add: lm_write_cell lm_peek_def)

text \<open>
  The wide accessors \<open>LinearMemory\<close> overrides for speed agree with the byte-composed defaults of
  the \<open>Bus\<close> trait at every address, aligned or not, at the end of the memory and at the end of the
  address space, for every memory of at most 4 GiB.
\<close>

lemma LinearMemory_overrides_default:
  assumes "lm_size_log k m" and "k \<le> 32"
  shows "lm_read16 m a = default_read16 lm_read m a \<and>
    lm_read32 m a = default_read32 lm_read16 m a \<and>
    lm_write16 m a w = default_write16 lm_write m a w \<and>
    lm_write32 m a x = default_write32 lm_write16 m a x"
proof -
  have "lm_ok m" using assms by (auto simp: lm_ok_def)
  then show ?thesis
    using lm.read16 [of m a] lm.read32 [of m a] lm.write16 [of m a w] lm.write32 [of m a x]
    by (simp add: LinearMemory_bus_def)
qed


end
