(* ===== verification/Arm_Decode.thy ===== *)
theory Arm_Decode
  imports Arm_Alu
begin

text \<open>
  \<open>src/arm32/decode.rs\<close>: the two decoders, from a 32-bit ARM word and from a 16-bit Thumb halfword
  to the shared \<open>DecodedInsn\<close>. The source fills a mutable skeleton in one \<open>match\<close>; here each arm of
  the \<open>match\<close> is a definition that returns the updated skeleton, and \<open>decode_arm\<close> and \<open>decode_thumb\<close>
  select the arm. The lemmas bound every register field and shift amount the decoders produce, which
  is why the executor never indexes outside its register file and never shifts by 32 or more.
\<close>

definition PCA :: u8 where "PCA = 16"

definition alu_AND :: u8 where "alu_AND = 0x0"
definition alu_EOR :: u8 where "alu_EOR = 0x1"
definition alu_SUB :: u8 where "alu_SUB = 0x2"
definition alu_RSB :: u8 where "alu_RSB = 0x3"
definition alu_ADD :: u8 where "alu_ADD = 0x4"
definition alu_ADC :: u8 where "alu_ADC = 0x5"
definition alu_SBC :: u8 where "alu_SBC = 0x6"
definition alu_RSC :: u8 where "alu_RSC = 0x7"
definition alu_TST :: u8 where "alu_TST = 0x8"
definition alu_TEQ :: u8 where "alu_TEQ = 0x9"
definition alu_CMP :: u8 where "alu_CMP = 0xA"
definition alu_CMN :: u8 where "alu_CMN = 0xB"
definition alu_ORR :: u8 where "alu_ORR = 0xC"
definition alu_MOV :: u8 where "alu_MOV = 0xD"
definition alu_BIC :: u8 where "alu_BIC = 0xE"
definition alu_MVN :: u8 where "alu_MVN = 0xF"

lemmas alu_op_defs = alu_AND_def alu_EOR_def alu_SUB_def alu_RSB_def alu_ADD_def alu_ADC_def
  alu_SBC_def alu_RSC_def alu_TST_def alu_TEQ_def alu_CMP_def alu_CMN_def alu_ORR_def alu_MOV_def
  alu_BIC_def alu_MVN_def

definition dp_OP :: u8 where "dp_OP = 0x0F"
definition dp_S :: u8 where "dp_S = 0x10"
definition dp_TY_SHIFT :: nat where "dp_TY_SHIFT = 5"
definition dp_TY :: u8 where "dp_TY = push_bit dp_TY_SHIFT 3"
definition dp_ROT :: u8 where "dp_ROT = 0x80"

definition xfer_BYTE :: u8 where "xfer_BYTE = 0x01"
definition xfer_PRE :: u8 where "xfer_PRE = 0x02"
definition xfer_UP :: u8 where "xfer_UP = 0x04"
definition xfer_WB :: u8 where "xfer_WB = 0x08"
definition xfer_REG :: u8 where "xfer_REG = 0x10"
definition xfer_USER :: u8 where "xfer_USER = 0x20"
definition xfer_TY_SHIFT :: nat where "xfer_TY_SHIFT = 6"

definition hw_SH :: u8 where "hw_SH = 0x03"
definition hw_H :: u8 where "hw_H = 0x01"
definition hw_SB :: u8 where "hw_SB = 0x02"
definition hw_SHW :: u8 where "hw_SHW = 0x03"
definition hw_PRE :: u8 where "hw_PRE = 0x04"
definition hw_UP :: u8 where "hw_UP = 0x08"
definition hw_WB :: u8 where "hw_WB = 0x10"
definition hw_REG :: u8 where "hw_REG = 0x20"

definition blk_PRE :: u8 where "blk_PRE = 0x01"
definition blk_UP :: u8 where "blk_UP = 0x02"
definition blk_S :: u8 where "blk_S = 0x04"
definition blk_WB :: u8 where "blk_WB = 0x08"
definition blk_EMPTY :: u8 where "blk_EMPTY = 0x10"

definition mul_ACC :: u8 where "mul_ACC = 0x01"
definition mul_SIGNED :: u8 where "mul_SIGNED = 0x02"
definition mul_S :: u8 where "mul_S = 0x10"

definition sr_SPSR :: u8 where "sr_SPSR = 0x01"
definition sr_FIELD_SHIFT :: nat where "sr_FIELD_SHIFT = 4"

definition BR_LINK :: u8 where "BR_LINK = 0x01"
definition TBL_SUFFIX :: u8 where "TBL_SUFFIX = 0x01"

lemmas aux_defs = dp_OP_def dp_S_def dp_TY_SHIFT_def dp_TY_def dp_ROT_def
  xfer_BYTE_def xfer_PRE_def xfer_UP_def xfer_WB_def xfer_REG_def xfer_USER_def xfer_TY_SHIFT_def
  hw_SH_def hw_H_def hw_SB_def hw_SHW_def hw_PRE_def hw_UP_def hw_WB_def hw_REG_def
  blk_PRE_def blk_UP_def blk_S_def blk_WB_def blk_EMPTY_def
  mul_ACC_def mul_SIGNED_def mul_S_def sr_SPSR_def sr_FIELD_SHIFT_def BR_LINK_def TBL_SUFFIX_def

datatype Op =
    DpImm | DpShImm | DpShReg | Mul | Mull | Mrs | MsrReg | MsrImm | BranchImm | Bx
  | Ldr | Str | LdrMisc | StrMisc | Ldm | Stm | Swp | Swi | Undef | ThumbBl

record DecodedInsn =
  di_op :: Op
  di_cond :: u8
  di_rd :: u8
  di_rn :: u8
  di_rm :: u8
  di_rs :: u8
  di_aux :: u8
  di_len :: u8
  di_imm :: u32

definition DecodedInsn_new :: "Op \<Rightarrow> u8 \<Rightarrow> u8 \<Rightarrow> DecodedInsn" where
  "DecodedInsn_new opr cond len =
     \<lparr>di_op = opr, di_cond = cond, di_rd = 0, di_rn = 0, di_rm = 0, di_rs = 0, di_aux = 0,
      di_len = len, di_imm = 0\<rparr>"

definition COND_AL :: u8 where "COND_AL = 14"

text \<open>\<open>((w >> n) & m) as u8\<close>, and the test \<open>w & (1 << n) != 0\<close>.\<close>

definition fld :: "nat \<Rightarrow> u32 \<Rightarrow> u32 \<Rightarrow> u8" where
  "fld n m w = ucast (drop_bit n w AND m)"

definition tst :: "nat \<Rightarrow> u32 \<Rightarrow> bool" where
  "tst n w = (w AND push_bit n 1 \<noteq> 0)"

subsection \<open>ARM\<close>

definition decode_dp_reg :: "u32 \<Rightarrow> DecodedInsn \<Rightarrow> DecodedInsn" where
  "decode_dp_reg w d =
     (let d = d\<lparr>di_rn := fld 16 0xF w, di_rd := fld 12 0xF w, di_rm := fld 0 0xF w,
                di_aux := (fld 21 0xF w OR (fld 20 1 w * dp_S) OR push_bit dp_TY_SHIFT (fld 5 3 w))\<rparr>
      in if tst 4 w then d\<lparr>di_op := DpShReg, di_rs := fld 8 0xF w\<rparr>
         else d\<lparr>di_op := DpShImm, di_rs := fld 7 0x1F w\<rparr>)"

definition decode_arm_000 :: "u32 \<Rightarrow> DecodedInsn \<Rightarrow> DecodedInsn" where
  "decode_arm_000 w d =
     (if w AND 0x0FFFFFF0 = 0x012FFF10 then d\<lparr>di_op := Bx, di_rm := fld 0 0xF w\<rparr>
      else if w AND 0x0FB00FF0 = 0x01000090 then
        d\<lparr>di_op := Swp, di_rn := fld 16 0xF w, di_rd := fld 12 0xF w, di_rm := fld 0 0xF w,
          di_aux := fld 22 1 w\<rparr>
      else if w AND 0x0FC000F0 = 0x00000090 then
        d\<lparr>di_op := Mul, di_rd := fld 16 0xF w, di_rn := fld 12 0xF w, di_rs := fld 8 0xF w,
          di_rm := fld 0 0xF w, di_aux := ((fld 21 1 w * mul_ACC) OR (fld 20 1 w * mul_S))\<rparr>
      else if w AND 0x0F8000F0 = 0x00800090 then
        d\<lparr>di_op := Mull, di_rd := fld 16 0xF w, di_rn := fld 12 0xF w, di_rs := fld 8 0xF w,
          di_rm := fld 0 0xF w,
          di_aux := ((fld 21 1 w * mul_ACC) OR (fld 22 1 w * mul_SIGNED) OR (fld 20 1 w * mul_S))\<rparr>
      else if w AND 0x0E000090 = 0x00000090 then
        let sh = fld 5 3 w; load = tst 20 w in
        if sh \<noteq> 0 \<and> (load \<or> sh = hw_H) then
          let pre = tst 24 w;
              d = d\<lparr>di_op := (if load then LdrMisc else StrMisc), di_rn := fld 16 0xF w,
                    di_rd := fld 12 0xF w,
                    di_aux := (sh OR (if pre then hw_PRE else 0)
                      OR (if tst 23 w then hw_UP else 0)
                      OR (if \<not> pre \<or> tst 21 w then hw_WB else 0))\<rparr>
          in if tst 22 w then d\<lparr>di_imm := ((drop_bit 4 w AND 0xF0) OR (w AND 0xF))\<rparr>
             else d\<lparr>di_aux := (di_aux d OR hw_REG), di_rm := fld 0 0xF w\<rparr>
        else d
      else if w AND 0x0FBF0FFF = 0x010F0000 then
        d\<lparr>di_op := Mrs, di_rd := fld 12 0xF w, di_aux := fld 22 1 w\<rparr>
      else if w AND 0x0FB0FFF0 = 0x0120F000 then
        d\<lparr>di_op := MsrReg, di_rm := fld 0 0xF w,
          di_aux := ((fld 22 1 w * sr_SPSR) OR push_bit sr_FIELD_SHIFT (fld 16 0xF w))\<rparr>
      else decode_dp_reg w d)"

definition decode_arm_001 :: "u32 \<Rightarrow> DecodedInsn \<Rightarrow> DecodedInsn" where
  "decode_arm_001 w d =
     (if w AND 0x0FB0F000 = 0x0320F000 then
        d\<lparr>di_op := MsrImm,
          di_aux := ((fld 22 1 w * sr_SPSR) OR push_bit sr_FIELD_SHIFT (fld 16 0xF w)),
          di_imm := word_rotr (unat ((drop_bit 8 w AND 0xF) * 2)) (w AND 0xFF)\<rparr>
      else
        let rot = drop_bit 8 w AND 0xF in
        d\<lparr>di_op := DpImm, di_rn := fld 16 0xF w, di_rd := fld 12 0xF w,
          di_imm := word_rotr (unat (rot * 2)) (w AND 0xFF),
          di_aux := (fld 21 0xF w OR (fld 20 1 w * dp_S) OR (if rot \<noteq> 0 then dp_ROT else 0))\<rparr>)"

definition decode_arm_01x :: "u32 \<Rightarrow> DecodedInsn \<Rightarrow> DecodedInsn" where
  "decode_arm_01x w d =
     (if tst 25 w \<and> tst 4 w then d
      else
        let load = tst 20 w; pre = tst 24 w; wbit = tst 21 w;
            d = d\<lparr>di_op := (if load then Ldr else Str), di_rn := fld 16 0xF w, di_rd := fld 12 0xF w,
                  di_aux := ((fld 22 1 w * xfer_BYTE) OR (if pre then xfer_PRE else 0)
                    OR (if tst 23 w then xfer_UP else 0)
                    OR (if \<not> pre \<or> wbit then xfer_WB else 0)
                    OR (if \<not> pre \<and> wbit then xfer_USER else 0))\<rparr>
        in if tst 25 w
           then d\<lparr>di_aux := (di_aux d OR (xfer_REG OR push_bit xfer_TY_SHIFT (fld 5 3 w))),
                  di_rm := fld 0 0xF w, di_rs := fld 7 0x1F w\<rparr>
           else d\<lparr>di_imm := w AND 0xFFF\<rparr>)"

definition decode_arm_100 :: "u32 \<Rightarrow> DecodedInsn \<Rightarrow> DecodedInsn" where
  "decode_arm_100 w d =
     (let load = tst 20 w;
          d = d\<lparr>di_op := (if load then Ldm else Stm), di_rn := fld 16 0xF w,
                di_aux := ((fld 24 1 w * blk_PRE) OR (fld 23 1 w * blk_UP) OR (fld 22 1 w * blk_S)
                  OR (fld 21 1 w * blk_WB)),
                di_imm := w AND 0xFFFF\<rparr>
      in if di_imm d = 0 then d\<lparr>di_imm := push_bit 15 1, di_aux := (di_aux d OR blk_EMPTY)\<rparr> else d)"

text \<open>\<open>(((x << l) as i32) >> r) as u32\<close>.\<close>

definition shl_sar :: "nat \<Rightarrow> nat \<Rightarrow> u32 \<Rightarrow> u32" where
  "shl_sar l r x = asr32 (push_bit l x) r"

definition decode_arm_101 :: "u32 \<Rightarrow> DecodedInsn \<Rightarrow> DecodedInsn" where
  "decode_arm_101 w d =
     d\<lparr>di_op := BranchImm, di_aux := fld 24 1 w * BR_LINK, di_imm := shl_sar 8 6 (w AND 0x00FFFFFF)\<rparr>"

definition decode_arm_111 :: "u32 \<Rightarrow> DecodedInsn \<Rightarrow> DecodedInsn" where
  "decode_arm_111 w d =
     (if tst 24 w then d\<lparr>di_op := Swi, di_imm := w AND 0x00FFFFFF\<rparr> else d)"

definition decode_arm :: "u32 \<Rightarrow> DecodedInsn" where
  "decode_arm w =
     (let cond = ucast (drop_bit 28 w);
          d = DecodedInsn_new Undef cond 4;
          grp = drop_bit 25 w AND 7
      in if grp = 0b000 then decode_arm_000 w d
         else if grp = 0b001 then decode_arm_001 w d
         else if grp = 0b010 \<or> grp = 0b011 then decode_arm_01x w d
         else if grp = 0b100 then decode_arm_100 w d
         else if grp = 0b101 then decode_arm_101 w d
         else if grp = 0b110 then d
         else decode_arm_111 w d)"

subsection \<open>Thumb\<close>

text \<open>Formats 1 to 3: moves by an immediate shift, three-operand and immediate arithmetic.\<close>

definition decode_thumb_1 :: "u32 \<Rightarrow> DecodedInsn \<Rightarrow> DecodedInsn" where
  "decode_thumb_1 w d =
     d\<lparr>di_op := DpShImm, di_rd := fld 0 7 w, di_rm := fld 3 7 w, di_rs := fld 6 0x1F w,
       di_aux := (alu_MOV OR dp_S OR push_bit dp_TY_SHIFT (fld 11 3 w))\<rparr>"

definition decode_thumb_2 :: "u32 \<Rightarrow> DecodedInsn \<Rightarrow> DecodedInsn" where
  "decode_thumb_2 w d =
     (let opr = (if tst 9 w then alu_SUB else alu_ADD);
          d = d\<lparr>di_rd := fld 0 7 w, di_rn := fld 3 7 w\<rparr>;
          d = (if tst 10 w then d\<lparr>di_op := DpImm, di_imm := drop_bit 6 w AND 7\<rparr>
               else d\<lparr>di_op := DpShImm, di_rm := fld 6 7 w\<rparr>)
      in d\<lparr>di_aux := (opr OR dp_S)\<rparr>)"

definition decode_thumb_3 :: "u32 \<Rightarrow> DecodedInsn \<Rightarrow> DecodedInsn" where
  "decode_thumb_3 w d =
     (let r = fld 8 7 w; k = drop_bit 11 w AND 3 in
      d\<lparr>di_op := DpImm, di_rd := r, di_rn := r, di_imm := w AND 0xFF,
        di_aux := (dp_S OR (if k = 0 then alu_MOV else if k = 1 then alu_CMP
          else if k = 2 then alu_ADD else alu_SUB))\<rparr>)"

text \<open>Format 4, register ALU operations, and format 5, high registers and \<open>BX\<close>.\<close>

definition decode_thumb_4 :: "u32 \<Rightarrow> DecodedInsn \<Rightarrow> DecodedInsn" where
  "decode_thumb_4 w d =
     (let rd = fld 0 7 w; rs = fld 3 7 w; k = drop_bit 6 w AND 0xF; d = d\<lparr>di_rd := rd\<rparr> in
      if k = 0x2 \<or> k = 0x3 \<or> k = 0x4 \<or> k = 0x7 then
        let ty = (if k = 0x2 then 0 else if k = 0x3 then 1 else if k = 0x4 then 2 else 3) in
        d\<lparr>di_op := DpShReg, di_rm := rd, di_rs := rs,
          di_aux := (alu_MOV OR dp_S OR push_bit dp_TY_SHIFT ty)\<rparr>
      else if k = 0x9 then d\<lparr>di_op := DpImm, di_rn := rs, di_aux := (alu_RSB OR dp_S)\<rparr>
      else if k = 0xD then d\<lparr>di_op := Mul, di_rm := rd, di_rs := rs, di_aux := mul_S\<rparr>
      else d\<lparr>di_op := DpShImm, di_rn := rd, di_rm := rs, di_aux := (ucast k OR dp_S)\<rparr>)"

definition decode_thumb_5 :: "u32 \<Rightarrow> DecodedInsn \<Rightarrow> DecodedInsn" where
  "decode_thumb_5 w d =
     (let rd_full = fld 0 7 w OR push_bit 3 (fld 7 1 w);
          rs_full = fld 3 0xF w;
          k = drop_bit 8 w AND 3
      in if k = 0 then
           d\<lparr>di_op := DpShImm, di_rd := rd_full, di_rn := rd_full, di_rm := rs_full, di_aux := alu_ADD\<rparr>
         else if k = 1 then
           d\<lparr>di_op := DpShImm, di_rn := rd_full, di_rm := rs_full, di_aux := (alu_CMP OR dp_S)\<rparr>
         else if k = 2 then
           d\<lparr>di_op := DpShImm, di_rd := rd_full, di_rm := rs_full, di_aux := alu_MOV\<rparr>
         else d\<lparr>di_op := Bx, di_rm := rs_full\<rparr>)"

text \<open>Formats 6 to 11: the loads and stores.\<close>

definition decode_thumb_6 :: "u32 \<Rightarrow> DecodedInsn \<Rightarrow> DecodedInsn" where
  "decode_thumb_6 w d =
     d\<lparr>di_op := Ldr, di_rd := fld 8 7 w, di_rn := PCA, di_imm := (w AND 0xFF) * 4,
       di_aux := (xfer_PRE OR xfer_UP)\<rparr>"

definition decode_thumb_7_8 :: "u32 \<Rightarrow> DecodedInsn \<Rightarrow> DecodedInsn" where
  "decode_thumb_7_8 w d =
     (let d = d\<lparr>di_rd := fld 0 7 w, di_rn := fld 3 7 w, di_rm := fld 6 7 w\<rparr> in
      if \<not> tst 9 w then
        let load = tst 11 w in
        d\<lparr>di_op := (if load then Ldr else Str),
          di_aux := (xfer_PRE OR xfer_UP OR xfer_REG OR (if tst 10 w then xfer_BYTE else 0))\<rparr>
      else
        let k = drop_bit 10 w AND 3;
            (opr, sh) = (if k = 0 then (StrMisc, hw_H) else if k = 1 then (LdrMisc, hw_SB)
                         else if k = 2 then (LdrMisc, hw_H) else (LdrMisc, hw_SHW))
        in d\<lparr>di_op := opr, di_aux := (sh OR hw_PRE OR hw_UP OR hw_REG)\<rparr>)"

definition decode_thumb_9 :: "u32 \<Rightarrow> DecodedInsn \<Rightarrow> DecodedInsn" where
  "decode_thumb_9 w d =
     (let byte = tst 12 w; load = tst 11 w;
          imm = drop_bit 6 w AND 0x1F;
          imm = (if \<not> byte then imm * 4 else imm)
      in d\<lparr>di_op := (if load then Ldr else Str), di_rd := fld 0 7 w, di_rn := fld 3 7 w, di_imm := imm,
           di_aux := (xfer_PRE OR xfer_UP OR (if byte then xfer_BYTE else 0))\<rparr>)"

definition decode_thumb_10 :: "u32 \<Rightarrow> DecodedInsn \<Rightarrow> DecodedInsn" where
  "decode_thumb_10 w d =
     (let load = tst 11 w in
      d\<lparr>di_op := (if load then LdrMisc else StrMisc), di_rd := fld 0 7 w, di_rn := fld 3 7 w,
        di_imm := (drop_bit 6 w AND 0x1F) * 2, di_aux := (hw_H OR hw_PRE OR hw_UP)\<rparr>)"

definition decode_thumb_11 :: "u32 \<Rightarrow> DecodedInsn \<Rightarrow> DecodedInsn" where
  "decode_thumb_11 w d =
     (let load = tst 11 w in
      d\<lparr>di_op := (if load then Ldr else Str), di_rd := fld 8 7 w, di_rn := 13,
        di_imm := (w AND 0xFF) * 4, di_aux := (xfer_PRE OR xfer_UP)\<rparr>)"

text \<open>Formats 12 and 13: address generation; 14 and 15: the block transfers.\<close>

definition decode_thumb_12 :: "u32 \<Rightarrow> DecodedInsn \<Rightarrow> DecodedInsn" where
  "decode_thumb_12 w d =
     d\<lparr>di_op := DpImm, di_rd := fld 8 7 w, di_rn := (if tst 11 w then 13 else PCA),
       di_imm := (w AND 0xFF) * 4, di_aux := alu_ADD\<rparr>"

definition decode_thumb_13_14 :: "u32 \<Rightarrow> DecodedInsn \<Rightarrow> DecodedInsn" where
  "decode_thumb_13_14 w d =
     (let k = drop_bit 8 w AND 0xF in
      if k = 0b0000 then
        d\<lparr>di_op := DpImm, di_rd := 13, di_rn := 13, di_imm := (w AND 0x7F) * 4,
          di_aux := (if tst 7 w then alu_SUB else alu_ADD)\<rparr>
      else if k = 0b0100 \<or> k = 0b0101 \<or> k = 0b1100 \<or> k = 0b1101 then
        let load = tst 11 w;
            d = d\<lparr>di_rn := 13, di_imm := w AND 0xFF\<rparr>;
            d = (if load then
                   let d = d\<lparr>di_op := Ldm, di_aux := (blk_UP OR blk_WB)\<rparr> in
                   if tst 8 w then d\<lparr>di_imm := (di_imm d OR push_bit 15 1)\<rparr> else d
                 else
                   let d = d\<lparr>di_op := Stm, di_aux := (blk_PRE OR blk_WB)\<rparr> in
                   if tst 8 w then d\<lparr>di_imm := (di_imm d OR push_bit 14 1)\<rparr> else d)
        in if di_imm d = 0 then d\<lparr>di_imm := push_bit 15 1, di_aux := (di_aux d OR blk_EMPTY)\<rparr> else d
      else d)"

definition decode_thumb_15 :: "u32 \<Rightarrow> DecodedInsn \<Rightarrow> DecodedInsn" where
  "decode_thumb_15 w d =
     (let load = tst 11 w;
          d = d\<lparr>di_op := (if load then Ldm else Stm), di_rn := fld 8 7 w, di_imm := w AND 0xFF,
                di_aux := (blk_UP OR blk_WB)\<rparr>
      in if di_imm d = 0 then d\<lparr>di_imm := push_bit 15 1, di_aux := (di_aux d OR blk_EMPTY)\<rparr> else d)"

text \<open>Formats 16 to 19: the branches.\<close>

definition decode_thumb_16_17 :: "u32 \<Rightarrow> DecodedInsn \<Rightarrow> DecodedInsn" where
  "decode_thumb_16_17 w d =
     (let cond = fld 8 0xF w in
      if cond = 0xF then d\<lparr>di_op := Swi, di_imm := w AND 0xFF\<rparr>
      else d\<lparr>di_op := BranchImm, di_cond := cond, di_imm := shl_sar 24 23 (w AND 0xFF)\<rparr>)"

definition decode_thumb_18 :: "u32 \<Rightarrow> DecodedInsn \<Rightarrow> DecodedInsn" where
  "decode_thumb_18 w d = d\<lparr>di_op := BranchImm, di_imm := shl_sar 21 20 (w AND 0x7FF)\<rparr>"

definition decode_thumb_19 :: "u32 \<Rightarrow> DecodedInsn \<Rightarrow> DecodedInsn" where
  "decode_thumb_19 w d =
     d\<lparr>di_op := ThumbBl, di_aux := (if tst 11 w then TBL_SUFFIX else 0), di_imm := w AND 0x7FF\<rparr>"

definition decode_thumb :: "u16 \<Rightarrow> DecodedInsn" where
  "decode_thumb hw =
     (let w = ucast hw;
          d = DecodedInsn_new Undef COND_AL 2;
          k = drop_bit 11 w
      in if k \<le> 0b00010 then decode_thumb_1 w d
         else if k = 0b00011 then decode_thumb_2 w d
         else if k \<le> 0b00111 then decode_thumb_3 w d
         else if k = 0b01000 then
           (if \<not> tst 10 w then decode_thumb_4 w d else decode_thumb_5 w d)
         else if k = 0b01001 then decode_thumb_6 w d
         else if k \<le> 0b01011 then decode_thumb_7_8 w d
         else if k \<le> 0b01111 then decode_thumb_9 w d
         else if k \<le> 0b10001 then decode_thumb_10 w d
         else if k \<le> 0b10011 then decode_thumb_11 w d
         else if k \<le> 0b10101 then decode_thumb_12 w d
         else if k \<le> 0b10111 then decode_thumb_13_14 w d
         else if k \<le> 0b11001 then decode_thumb_15 w d
         else if k \<le> 0b11011 then decode_thumb_16_17 w d
         else if k = 0b11100 then decode_thumb_18 w d
         else if k = 0b11110 \<or> k = 0b11111 then decode_thumb_19 w d
         else d)"

lemmas decode_arm_defs = decode_arm_000_def decode_arm_001_def decode_arm_01x_def
  decode_arm_100_def decode_arm_101_def decode_arm_111_def decode_dp_reg_def

lemmas decode_thumb_defs = decode_thumb_1_def decode_thumb_2_def decode_thumb_3_def
  decode_thumb_4_def decode_thumb_5_def decode_thumb_6_def decode_thumb_7_8_def decode_thumb_9_def
  decode_thumb_10_def decode_thumb_11_def decode_thumb_12_def decode_thumb_13_14_def
  decode_thumb_15_def decode_thumb_16_17_def decode_thumb_18_def decode_thumb_19_def

subsection \<open>Ranges of the decoded fields\<close>

lemma fld_le: "fld n m w \<le> ucast m"
  if "m \<le> 0xFF" for m :: u32
proof -
  have "drop_bit n w AND m \<le> m" by (rule word_and_le1)
  moreover have "unat (ucast m :: u8) = unat m"
    using that by (simp add: unsigned_ucast_eq word_le_nat_alt take_bit_nat_eq_self)
  moreover have "unat (fld n m w) \<le> unat (drop_bit n w AND m)"
    by (simp add: fld_def unsigned_ucast_eq take_bit_nat_less_eq_self)
  ultimately show ?thesis by (simp add: word_le_nat_alt)
qed

lemma fld_F: "fld n 0xF w < 16" and fld_7: "fld n 7 w < 8" and fld_1F: "fld n 0x1F w < 32"
  and fld_3: "fld n 3 w < 4"
  using fld_le [of "0xF" n w] fld_le [of 7 n w] fld_le [of "0x1F" n w] fld_le [of 3 n w]
  by (simp_all add: word_less_nat_alt word_le_nat_alt)

lemma fld_7_16: "fld n 7 w < 16"
  using fld_7 [of n w] by (simp add: word_less_nat_alt)

lemma fld_7_32: "fld n 7 w < 32"
  using fld_7 [of n w] by (simp add: word_less_nat_alt)

text \<open>
  What the executor needs of a decoded instruction: register numbers inside the register file
  (\<open>PCA\<close> only where it is understood), shift amounts below 32, an instruction length of 4 or 2.
\<close>

definition insn_ok :: "DecodedInsn \<Rightarrow> bool" where
  "insn_ok d \<longleftrightarrow>
     di_rd d < 16 \<and> di_rm d < 16 \<and> di_rs d < 32 \<and>
     (di_op d \<in> {DpShReg, Mul, Mull} \<longrightarrow> di_rs d < 16) \<and>
     (di_rn d < 16 \<or> di_rn d = PCA \<and> (di_op d = DpImm \<or> (di_op d = Ldr \<and> di_aux d AND xfer_WB = 0))) \<and>
     di_cond d < 16 \<and> (di_len d = 4 \<or> di_len d = 2)"

lemma fld_F_32: "fld n 0xF w < 32"
  using fld_F [of n w] by (simp add: word_less_nat_alt)

lemmas fld_ranges = fld_F fld_F_32 fld_7 fld_7_16 fld_7_32 fld_1F

lemma insn_ok_skeleton: "cond < 16 \<Longrightarrow> len = 4 \<or> len = 2 \<Longrightarrow> insn_ok (DecodedInsn_new Undef cond len)"
  by (auto simp: insn_ok_def DecodedInsn_new_def)

lemma cond_field: "(ucast (drop_bit 28 (w :: u32)) :: u8) < 16"
proof -
  have "drop_bit 28 w = drop_bit 28 w AND 0xF"
  proof -
    have m: "(0xF :: u32) = mask 4" by (simp add: mask_eq_exp_minus_1)
    show ?thesis unfolding m by (rule bit_word_eqI) (auto simp: bit_simps dest: bit_imp_le_length)
  qed
  then show ?thesis using fld_F [of 28 w] by (simp add: fld_def)
qed

lemma decode_arm_groups_ok:
  assumes "insn_ok d" and "d = DecodedInsn_new Undef c 4"
  shows "insn_ok (decode_dp_reg w d)" and "insn_ok (decode_arm_000 w d)"
    and "insn_ok (decode_arm_001 w d)" and "insn_ok (decode_arm_01x w d)"
    and "insn_ok (decode_arm_100 w d)" and "insn_ok (decode_arm_101 w d)"
    and "insn_ok (decode_arm_111 w d)"
proof -
  have c: "c < 16" using assms by (simp add: insn_ok_def DecodedInsn_new_def)
  have dp: "insn_ok (decode_dp_reg w d)"
    using c by (simp add: assms(2) decode_dp_reg_def insn_ok_def DecodedInsn_new_def fld_ranges Let_def)
  then show "insn_ok (decode_dp_reg w d)" .
  from dp c show "insn_ok (decode_arm_000 w d)"
    unfolding decode_arm_000_def
    by (simp add: insn_ok_def DecodedInsn_new_def assms(2) fld_ranges Let_def)
  from c show "insn_ok (decode_arm_001 w d)"
    by (simp add: assms(2) decode_arm_001_def insn_ok_def DecodedInsn_new_def fld_ranges Let_def)
  from c show "insn_ok (decode_arm_01x w d)"
    by (simp add: assms(2) decode_arm_01x_def insn_ok_def DecodedInsn_new_def fld_ranges Let_def)
  from c show "insn_ok (decode_arm_100 w d)"
    by (simp add: assms(2) decode_arm_100_def insn_ok_def DecodedInsn_new_def fld_ranges Let_def)
  from c show "insn_ok (decode_arm_101 w d)"
    by (simp add: assms(2) decode_arm_101_def insn_ok_def DecodedInsn_new_def fld_ranges Let_def)
  from c show "insn_ok (decode_arm_111 w d)"
    by (simp add: assms(2) decode_arm_111_def insn_ok_def DecodedInsn_new_def fld_ranges Let_def)
qed

lemma decode_arm_ok: "insn_ok (decode_arm w)"
  using insn_ok_skeleton [OF cond_field, of 4 w]
  by (simp add: decode_arm_def Let_def decode_arm_groups_ok)

lemma fld_mask_bits: "m = mask b \<Longrightarrow> bit (fld n m w) k \<Longrightarrow> k < b"
  by (auto simp: fld_def bit_simps)

lemma hi_reg_range: "fld 0 7 w OR push_bit 3 (fld 7 1 w) < 16"
proof -
  have m: "(7 :: u32) = mask 3" "(1 :: u32) = mask 1" by (simp_all add: mask_eq_exp_minus_1)
  note b = fld_mask_bits [OF m(1), of 0 w] fld_mask_bits [OF m(2), of 7 w]
  have lt: "k < 4" if k: "bit (fld 0 7 w OR push_bit 3 (fld 7 1 w)) k" for k
  proof -
    from k have "bit (fld 0 7 w) k \<or> (3 \<le> k \<and> bit (fld 7 1 w) (k - 3))"
      by (simp only: bit_or_iff bit_push_bit_iff) blast
    then show ?thesis using b(1) [of k] b(2) [of "k - 3"] by linarith
  qed
  define x where "x = fld 0 7 w OR push_bit 3 (fld 7 1 w)"
  have "bit x k \<Longrightarrow> k < 4" for k unfolding x_def by (rule lt)
  then have "x AND mask 4 = x" by (intro bit_word_eqI) (auto simp: bit_simps)
  then have "x \<le> mask 4" by (metis word_and_le1)
  then show ?thesis
    by (simp add: x_def [symmetric] mask_eq_exp_minus_1 word_le_nat_alt word_less_nat_alt)
qed

lemma decode_thumb_ok: "insn_ok (decode_thumb hw)"
proof -
  define w :: u32 where "w = ucast hw"
  define d where "d = DecodedInsn_new Undef COND_AL 2"
  have skel: "insn_ok d" by (simp add: d_def insn_ok_def DecodedInsn_new_def COND_AL_def)
  note simps = insn_ok_def DecodedInsn_new_def COND_AL_def PCA_def fld_ranges Let_def d_def
  have "insn_ok (decode_thumb_1 w d)" "insn_ok (decode_thumb_2 w d)" "insn_ok (decode_thumb_3 w d)"
    "insn_ok (decode_thumb_4 w d)" "insn_ok (decode_thumb_5 w d)" "insn_ok (decode_thumb_6 w d)"
    "insn_ok (decode_thumb_7_8 w d)" "insn_ok (decode_thumb_9 w d)" "insn_ok (decode_thumb_10 w d)"
    "insn_ok (decode_thumb_11 w d)" "insn_ok (decode_thumb_12 w d)" "insn_ok (decode_thumb_13_14 w d)"
    "insn_ok (decode_thumb_15 w d)" "insn_ok (decode_thumb_16_17 w d)" "insn_ok (decode_thumb_18 w d)"
    "insn_ok (decode_thumb_19 w d)"
    by (simp_all add: decode_thumb_defs simps hi_reg_range aux_defs alu_op_defs)
  with skel show ?thesis
    by (simp add: decode_thumb_def Let_def flip: w_def d_def)
qed

lemma decode_arm_len: "di_len (decode_arm w) = 4"
  by (simp add: decode_arm_def decode_arm_defs DecodedInsn_new_def Let_def)

lemma decode_thumb_group_len:
  "di_len (decode_thumb_1 w d) = di_len d" "di_len (decode_thumb_2 w d) = di_len d"
  "di_len (decode_thumb_3 w d) = di_len d" "di_len (decode_thumb_4 w d) = di_len d"
  "di_len (decode_thumb_5 w d) = di_len d" "di_len (decode_thumb_6 w d) = di_len d"
  "di_len (decode_thumb_7_8 w d) = di_len d" "di_len (decode_thumb_9 w d) = di_len d"
  "di_len (decode_thumb_10 w d) = di_len d" "di_len (decode_thumb_11 w d) = di_len d"
  "di_len (decode_thumb_12 w d) = di_len d" "di_len (decode_thumb_13_14 w d) = di_len d"
  "di_len (decode_thumb_15 w d) = di_len d" "di_len (decode_thumb_16_17 w d) = di_len d"
  "di_len (decode_thumb_18 w d) = di_len d" "di_len (decode_thumb_19 w d) = di_len d"
  by (simp_all add: decode_thumb_defs Let_def case_prod_beta)

lemma decode_thumb_len: "di_len (decode_thumb h) = 2"
  by (simp add: decode_thumb_def Let_def decode_thumb_group_len) (simp add: DecodedInsn_new_def)

text \<open>
  The decoders are total and their products are in range: for each of the 2^32 ARM words and 2^16
  Thumb halfwords, every register field is below 16 (or the \<open>PCA\<close> base, only on the two operations
  that read it and never with write-back), every immediate shift amount below 32, the length is the
  instruction set's. The executor therefore never indexes outside the register file.
\<close>

lemma decoders_in_range:
  "insn_ok (decode_arm w) \<and> di_len (decode_arm w) = 4 \<and>
   insn_ok (decode_thumb h) \<and> di_len (decode_thumb h) = 2"
  using decode_arm_ok decode_thumb_ok decode_arm_len decode_thumb_len by blast

subsection \<open>Branch offsets\<close>

lemma shl_sar_sext:
  assumes "l + n = 32" and "r \<le> l" and "0 < n"
  shows "shl_sar l r (w AND mask n) = word_of_int (2 ^ (l - r) * signed_take_bit (n - 1) (uint w))"
proof (rule bit_word_eqI)
  fix k
  assume k: "k < LENGTH(32)"
  have i: "(2 :: int) ^ (l - r) * signed_take_bit (n - 1) (uint w)
      = push_bit (l - r) (signed_take_bit (n - 1) (uint w))"
    by (simp add: push_bit_eq_mult mult.commute)
  define j where "j = min (r + k) 31 - l"
  have le: "l \<le> min (r + k) 31 \<longleftrightarrow> l - r \<le> k" and jn: "j < n" "j < 32"
    and j: "l - r \<le> k \<Longrightarrow> min (k - (l - r)) (n - 1) = j"
    using assms k by (auto simp: j_def)
  have "bit (shl_sar l r (w AND mask n)) k \<longleftrightarrow> l - r \<le> k \<and> bit w j"
    unfolding shl_sar_def bit_asr32
    using k jn le by (auto simp: bit_push_bit_iff bit_and_iff bit_mask_iff simp flip: j_def)
  moreover have "bit (word_of_int (push_bit (l - r) (signed_take_bit (n - 1) (uint w))) :: u32) k
      \<longleftrightarrow> l - r \<le> k \<and> bit w j"
    using k j by (auto simp: bit_simps min.commute)
  ultimately show "bit (shl_sar l r (w AND mask n)) k
      = bit (word_of_int (2 ^ (l - r) * signed_take_bit (n - 1) (uint w)) :: u32) k"
    unfolding i by simp
qed

end
