(* ===== verification/Arm_Cpu.thy ===== *)
theory Arm_Cpu
  imports Arm_Registers Arm_Bus Arm_Decode
begin

text \<open>
  The processor state of \<open>src/arm32/mod.rs\<close>, the exceptions and their entry, the interrupt lines, the
  data-access helpers every guest store goes through, and the decoded-instruction cache of
  \<open>src/arm32/icache.rs\<close>. Left out are the profile counters (present only with a build feature) and
  the probe counters of test and debug builds, which nothing else reads.

  \<open>cycles\<close> and the cache clock are 64-bit counters with wrapping addition, as in a release build.
\<close>

datatype Exception = Exc_Undefined | Exc_Swi | Exc_PrefetchAbort | Exc_DataAbort | Exc_Irq | Exc_Fiq

fun exc_vector :: "Exception \<Rightarrow> u32" where
  "exc_vector Exc_Undefined = 0x04"
| "exc_vector Exc_Swi = 0x08"
| "exc_vector Exc_PrefetchAbort = 0x0C"
| "exc_vector Exc_DataAbort = 0x10"
| "exc_vector Exc_Irq = 0x18"
| "exc_vector Exc_Fiq = 0x1C"

fun exc_mode :: "Exception \<Rightarrow> Mode" where
  "exc_mode Exc_Undefined = Und"
| "exc_mode Exc_Swi = Svc"
| "exc_mode Exc_PrefetchAbort = Abt"
| "exc_mode Exc_DataAbort = Abt"
| "exc_mode Exc_Irq = Irq"
| "exc_mode Exc_Fiq = Fiq"

datatype HostTrap = Trap_Syscall | Trap_Exception Exception

datatype RunExit = Run_Completed | Run_HostTrap | Run_Halted

record RunResult =
  rr_executed :: u64
  rr_exit :: RunExit

definition EXCEPTION_CYCLES :: u32 where "EXCEPTION_CYCLES = 3"

definition EVT_IRQ :: u8 where "EVT_IRQ = push_bit 0 1"
definition EVT_FIQ :: u8 where "EVT_FIQ = push_bit 1 1"
definition EVT_HOST_TRAP :: u8 where "EVT_HOST_TRAP = push_bit 2 1"

lemmas evt_defs = EVT_IRQ_def EVT_FIQ_def EVT_HOST_TRAP_def

subsection \<open>The decoded-instruction cache\<close>

definition ICACHE_ENTRIES :: nat where "ICACHE_ENTRIES = 16384"
definition STAMP_SLOTS :: nat where "STAMP_SLOTS = 16384"

record CacheEntry =
  e_key :: u64
  e_version :: u64
  e_insn :: DecodedInsn

record ICache =
  ic_entries :: "nat \<Rightarrow> CacheEntry"
  ic_stamps :: "nat \<Rightarrow> u64"
  ic_clock :: u64
  ic_inval :: u64

text \<open>The all-zero bit pattern of an entry: discriminant 0 is \<open>DpImm\<close>.\<close>

definition zero_entry :: CacheEntry where
  "zero_entry = \<lparr>e_key = 0, e_version = 0, e_insn = DecodedInsn_new DpImm 0 0\<rparr>"

definition ICache_new :: ICache where
  "ICache_new =
     \<lparr>ic_entries = (\<lambda>_. zero_entry), ic_stamps = (\<lambda>_. 0), ic_clock = 1, ic_inval = 1\<rparr>"

definition stamp_slot :: "u32 \<Rightarrow> nat" where
  "stamp_slot addr = unat (drop_bit 12 addr) AND (STAMP_SLOTS - 1)"

definition stamp_write :: "u32 \<Rightarrow> ICache \<Rightarrow> ICache" where
  "stamp_write addr ic =
     (let ic = ic\<lparr>ic_clock := ic_clock ic + 1\<rparr>
      in ic\<lparr>ic_stamps := (ic_stamps ic)(stamp_slot addr := ic_clock ic)\<rparr>)"

definition invalidate_all :: "ICache \<Rightarrow> ICache" where
  "invalidate_all ic =
     (let ic = ic\<lparr>ic_clock := ic_clock ic + 1\<rparr> in ic\<lparr>ic_inval := ic_clock ic\<rparr>)"

subsection \<open>The processor\<close>

record ArmCpu =
  a_regs :: ArmRegisters
  a_cycles :: u64
  a_halted :: bool
  events :: u8
  start_pc :: u32
  thumb :: bool
  icache :: ICache
  trap_swi :: bool
  trap_faults :: bool
  host_trap :: "HostTrap option"

definition ArmCpu_new :: ArmCpu where
  "ArmCpu_new =
     \<lparr>a_regs = ArmRegisters_new, a_cycles = 0, a_halted = False, events = 0, start_pc = 0,
      thumb = False, icache = ICache_new, trap_swi = False, trap_faults = False, host_trap = None\<rparr>"

text \<open>Access to the nested register file.\<close>

abbreviation a_gpr :: "ArmCpu \<Rightarrow> nat \<Rightarrow> u32" where "a_gpr c \<equiv> gpr (a_regs c)"
abbreviation a_cpsr :: "ArmCpu \<Rightarrow> Psr" where "a_cpsr c \<equiv> cpsr (a_regs c)"
abbreviation upd_regs :: "(ArmRegisters \<Rightarrow> ArmRegisters) \<Rightarrow> ArmCpu \<Rightarrow> ArmCpu" where
  "upd_regs f c \<equiv> c\<lparr>a_regs := f (a_regs c)\<rparr>"
abbreviation set_gpr :: "nat \<Rightarrow> u32 \<Rightarrow> ArmCpu \<Rightarrow> ArmCpu" where
  "set_gpr i v c \<equiv> c\<lparr>a_regs := (a_regs c)\<lparr>gpr := (a_gpr c)(i := v)\<rparr>\<rparr>"
abbreviation set_cpsr :: "Psr \<Rightarrow> ArmCpu \<Rightarrow> ArmCpu" where
  "set_cpsr p c \<equiv> c\<lparr>a_regs := (a_regs c)\<lparr>cpsr := p\<rparr>\<rparr>"

definition arm_reset :: "ArmCpu \<Rightarrow> ArmCpu" where
  "arm_reset c =
     c\<lparr>a_regs := ArmRegisters_new, a_halted := False,
       events := events c AND (EVT_IRQ OR EVT_FIQ),
       icache := invalidate_all (icache c), host_trap := None\<rparr>"

definition invalidate_icache :: "ArmCpu \<Rightarrow> ArmCpu" where
  "invalidate_icache c = c\<lparr>icache := invalidate_all (icache c)\<rparr>"

definition arm_set_irq :: "bool \<Rightarrow> ArmCpu \<Rightarrow> ArmCpu" where
  "arm_set_irq level c =
     (if level then c\<lparr>events := events c OR EVT_IRQ\<rparr>
      else c\<lparr>events := events c AND NOT EVT_IRQ\<rparr>)"

definition arm_set_fiq :: "bool \<Rightarrow> ArmCpu \<Rightarrow> ArmCpu" where
  "arm_set_fiq level c =
     (if level then c\<lparr>events := events c OR EVT_FIQ\<rparr>
      else c\<lparr>events := events c AND NOT EVT_FIQ\<rparr>)"

definition interrupt_pending :: "ArmCpu \<Rightarrow> bool" where
  "interrupt_pending c =
     ((events c AND EVT_FIQ \<noteq> 0 \<and> \<not> psr_f (a_cpsr c)) \<or>
      (events c AND EVT_IRQ \<noteq> 0 \<and> \<not> psr_i (a_cpsr c)))"

definition set_host_trap :: "HostTrap \<Rightarrow> ArmCpu \<Rightarrow> ArmCpu" where
  "set_host_trap t c = c\<lparr>host_trap := Some t, events := events c OR EVT_HOST_TRAP\<rparr>"

definition arm_raise :: "Exception \<Rightarrow> ArmCpu \<Rightarrow> ArmCpu" where
  "arm_raise e c =
     (let ret = (case e of
          Exc_Undefined \<Rightarrow> a_gpr c 15
        | Exc_Swi \<Rightarrow> a_gpr c 15
        | Exc_PrefetchAbort \<Rightarrow> start_pc c + 4
        | Exc_DataAbort \<Rightarrow> start_pc c + 8
        | Exc_Irq \<Rightarrow> a_gpr c 15 + 4
        | Exc_Fiq \<Rightarrow> a_gpr c 15 + 4);
          old = a_cpsr c;
          c = upd_regs (set_mode (exc_mode e)) c;
          c = upd_regs (spsr_store old) c;
          c = set_gpr 14 ret c;
          c = set_cpsr (psr_set psr_T False (a_cpsr c)) c;
          c = set_cpsr (psr_set psr_I True (a_cpsr c)) c;
          c = (if e = Exc_Fiq then set_cpsr (psr_set psr_F True (a_cpsr c)) c else c)
      in set_gpr 15 (exc_vector e) c)"

subsection \<open>Data access\<close>

definition arm_write8 :: "'b ArmBus \<Rightarrow> ArmCpu \<Rightarrow> 'b \<Rightarrow> u32 \<Rightarrow> u8 \<Rightarrow> ArmCpu \<times> 'b" where
  "arm_write8 B c b addr v = (c\<lparr>icache := stamp_write addr (icache c)\<rparr>, ab_write B b addr v)"

definition arm_write16 :: "'b ArmBus \<Rightarrow> ArmCpu \<Rightarrow> 'b \<Rightarrow> u32 \<Rightarrow> u16 \<Rightarrow> ArmCpu \<times> 'b" where
  "arm_write16 B c b addr v = (c\<lparr>icache := stamp_write addr (icache c)\<rparr>, ab_write16 B b addr v)"

definition arm_write32 :: "'b ArmBus \<Rightarrow> ArmCpu \<Rightarrow> 'b \<Rightarrow> u32 \<Rightarrow> u32 \<Rightarrow> ArmCpu \<times> 'b" where
  "arm_write32 B c b addr v = (c\<lparr>icache := stamp_write addr (icache c)\<rparr>, ab_write32 B b addr v)"

definition read32_rot :: "'b ArmBus \<Rightarrow> 'b \<Rightarrow> u32 \<Rightarrow> u32 \<times> 'b" where
  "read32_rot B b addr =
     (let (v, b) = ab_read32 B b (addr AND NOT 3) in (word_rotr (unat (8 * (addr AND 3))) v, b))"

definition read16_rot :: "'b ArmBus \<Rightarrow> 'b \<Rightarrow> u32 \<Rightarrow> u32 \<times> 'b" where
  "read16_rot B b addr =
     (let (h, b) = ab_read16 B b (addr AND NOT 1); v = ucast h
      in (if addr AND 1 \<noteq> 0 then word_rotr 8 v else v, b))"

end
