(* ===== verification/Arm_Execute.thy ===== *)
theory Arm_Execute
  imports Arm_Cpu
begin

text \<open>
  \<open>src/arm32/execute.rs\<close>: one executor for decoded ARM and Thumb instructions. Every handler takes
  the processor and, where it touches memory, the bus, and returns the cycles with both new states;
  \<open>Exec<u32>\<close>, a \<open>Result\<close>, is \<open>Inl\<close> of the exception or \<open>Inr\<close> of the cycles.
\<close>

definition cond_pass :: "ArmCpu \<Rightarrow> u8 \<Rightarrow> bool" where
  "cond_pass c cond =
     (let p = a_cpsr c in
      if cond = 0x0 then psr_z p
      else if cond = 0x1 then \<not> psr_z p
      else if cond = 0x2 then psr_c p
      else if cond = 0x3 then \<not> psr_c p
      else if cond = 0x4 then psr_n p
      else if cond = 0x5 then \<not> psr_n p
      else if cond = 0x6 then psr_v p
      else if cond = 0x7 then \<not> psr_v p
      else if cond = 0x8 then psr_c p \<and> \<not> psr_z p
      else if cond = 0x9 then \<not> psr_c p \<or> psr_z p
      else if cond = 0xA then psr_n p = psr_v p
      else if cond = 0xB then psr_n p \<noteq> psr_v p
      else if cond = 0xC then \<not> psr_z p \<and> psr_n p = psr_v p
      else if cond = 0xD then psr_z p \<or> psr_n p \<noteq> psr_v p
      else cond = 0xE)"

definition pc_op :: "ArmCpu \<Rightarrow> u32" where
  "pc_op c = start_pc c + (if thumb c then 4 else 8)"

definition reg_op :: "ArmCpu \<Rightarrow> u8 \<Rightarrow> u32" where
  "reg_op c i =
     (if i = 15 then pc_op c
      else if i = PCA then pc_op c AND NOT 3
      else a_gpr c (unat i))"

definition reg_op12 :: "ArmCpu \<Rightarrow> u8 \<Rightarrow> u32" where
  "reg_op12 c i = (if i = 15 then start_pc c + 12 else a_gpr c (unat i))"

definition pc_store :: "ArmCpu \<Rightarrow> u32" where
  "pc_store c = start_pc c + (if thumb c then 6 else 12)"

definition branch_to :: "u32 \<Rightarrow> ArmCpu \<Rightarrow> ArmCpu" where
  "branch_to target c = set_gpr 15 (if psr_t (a_cpsr c) then target AND NOT 1 else target) c"

definition set_reg :: "u8 \<Rightarrow> u32 \<Rightarrow> ArmCpu \<Rightarrow> ArmCpu" where
  "set_reg i v c = (if i = 15 then branch_to v c else set_gpr (unat i) v c)"

definition restore_cpsr :: "ArmCpu \<Rightarrow> ArmCpu" where
  "restore_cpsr c =
     (case spsr_banked (a_regs c) of
        None \<Rightarrow> c
      | Some bits \<Rightarrow> set_cpsr bits (upd_regs (set_mode (psr_mode bits)) c))"

subsection \<open>Data processing\<close>

text \<open>Operand 2 and the shifter carry-out.\<close>

definition dp_operand2 :: "DecodedInsn \<Rightarrow> ArmCpu \<Rightarrow> u32 \<times> bool" where
  "dp_operand2 d c =
     (let carry_in = psr_c (a_cpsr c); ty = drop_bit dp_TY_SHIFT (di_aux d AND dp_TY) in
      case di_op d of
        DpImm \<Rightarrow> (di_imm d, if di_aux d AND dp_ROT \<noteq> 0 then drop_bit 31 (di_imm d) \<noteq> 0 else carry_in)
      | DpShImm \<Rightarrow> shift_imm ty (di_rs d) (reg_op c (di_rm d)) carry_in
      | _ \<Rightarrow> shift_reg ty (ucast (reg_op c (di_rs d))) (reg_op12 c (di_rm d)) carry_in)"

text \<open>
  The \<open>match\<close> on the ALU opcode: the result, the carry and overflow it leaves in \<open>c\<close> and \<open>v\<close>, and
  whether the destination is written.
\<close>

definition dp_alu :: "u8 \<Rightarrow> u32 \<Rightarrow> u32 \<Rightarrow> bool \<Rightarrow> bool \<Rightarrow> bool \<Rightarrow> (u32 \<times> bool \<times> bool) \<times> bool" where
  "dp_alu opn rn op2 carry_in sc v =
     (if opn = alu_AND then ((rn AND op2, sc, v), True)
      else if opn = alu_EOR then ((rn XOR op2, sc, v), True)
      else if opn = alu_SUB then (sub_with_carry rn op2 True, True)
      else if opn = alu_RSB then (sub_with_carry op2 rn True, True)
      else if opn = alu_ADD then (add_with_carry rn op2 False, True)
      else if opn = alu_ADC then (add_with_carry rn op2 carry_in, True)
      else if opn = alu_SBC then (sub_with_carry rn op2 carry_in, True)
      else if opn = alu_RSC then (sub_with_carry op2 rn carry_in, True)
      else if opn = alu_TST then ((rn AND op2, sc, v), False)
      else if opn = alu_TEQ then ((rn XOR op2, sc, v), False)
      else if opn = alu_CMP then (sub_with_carry rn op2 True, False)
      else if opn = alu_CMN then (add_with_carry rn op2 False, False)
      else if opn = alu_ORR then ((rn OR op2, sc, v), True)
      else if opn = alu_MOV then ((op2, sc, v), True)
      else if opn = alu_BIC then ((rn AND NOT op2, sc, v), True)
      else ((NOT op2, sc, v), True))"

definition dp_logical :: "u8 \<Rightarrow> bool" where
  "dp_logical opn \<longleftrightarrow> opn \<in> {alu_AND, alu_EOR, alu_TST, alu_TEQ, alu_ORR, alu_MOV, alu_BIC, alu_MVN}"

definition exec_dp :: "DecodedInsn \<Rightarrow> ArmCpu \<Rightarrow> u32 \<times> ArmCpu" where
  "exec_dp d c =
     (let carry_in = psr_c (a_cpsr c);
          shreg = (di_op d = DpShReg);
          (op2, sc) = dp_operand2 d c;
          rn = (if shreg then reg_op12 c (di_rn d) else reg_op c (di_rn d));
          opn = di_aux d AND dp_OP;
          ((result, cf, vf), writes_rd) = dp_alu opn rn op2 carry_in sc (psr_v (a_cpsr c));
          s = (di_aux d AND dp_S \<noteq> 0);
          cycles = 1 + bool_u32 shreg;
          restores = (di_rd d = 15 \<and> s \<and> has_spsr (psr_mode (a_cpsr c)));
          c = (if s \<and> \<not> (restores \<and> writes_rd) then
                 let p = psr_set psr_C cf (psr_set_nz result (a_cpsr c))
                 in set_cpsr (if \<not> dp_logical opn then psr_set psr_V vf p else p) c
               else c);
          c = (if restores then restore_cpsr c else c)
      in if writes_rd then
           if di_rd d = 15 then (cycles + 2, branch_to result c)
           else (cycles, set_gpr (unat (di_rd d)) result c)
         else (cycles, c))"

subsection \<open>Multiplies\<close>

definition exec_mul :: "DecodedInsn \<Rightarrow> ArmCpu \<Rightarrow> u32 \<times> ArmCpu" where
  "exec_mul d c =
     (let rs = reg_op12 c (di_rs d);
          r = reg_op12 c (di_rm d) * rs;
          cycles = 1 + mul_cycles rs True;
          (r, cycles) = (if di_aux d AND mul_ACC \<noteq> 0 then (r + reg_op12 c (di_rn d), cycles + 1)
                         else (r, cycles));
          c = set_reg (di_rd d) r c;
          c = (if di_aux d AND mul_S \<noteq> 0 then set_cpsr (psr_set_nz r (a_cpsr c)) c else c)
      in (cycles, c))"

definition exec_mull :: "DecodedInsn \<Rightarrow> ArmCpu \<Rightarrow> u32 \<times> ArmCpu" where
  "exec_mull d c =
     (let rs = reg_op12 c (di_rs d);
          rm = reg_op12 c (di_rm d);
          signed' = (di_aux d AND mul_SIGNED \<noteq> 0);
          r = (if signed' then scast rm * scast rs else ucast rm * ucast rs :: u64);
          cycles = 2 + mul_cycles rs signed';
          (r, cycles) =
            (if di_aux d AND mul_ACC \<noteq> 0
             then (r + (push_bit 32 (ucast (reg_op12 c (di_rd d))) OR ucast (reg_op12 c (di_rn d))),
                   cycles + 1)
             else (r, cycles));
          c = set_reg (di_rn d) (ucast r) c;
          c = set_reg (di_rd d) (ucast (drop_bit 32 r)) c;
          c = (if di_aux d AND mul_S \<noteq> 0
               then set_cpsr (psr_set psr_Z (r = 0) (psr_set psr_N (drop_bit 63 r \<noteq> 0) (a_cpsr c))) c
               else c)
      in (cycles, c))"

subsection \<open>Status register transfer\<close>

fun msr_mask :: "u8 \<Rightarrow> (u8 \<times> u32) list \<Rightarrow> u32 \<Rightarrow> u32" where
  "msr_mask flds [] m = m"
| "msr_mask flds ((b, part) # rest) m =
     msr_mask flds rest (if flds AND b \<noteq> 0 then m OR part else m)"

definition exec_msr :: "u32 \<Rightarrow> u8 \<Rightarrow> ArmCpu \<Rightarrow> u32 \<times> ArmCpu" where
  "exec_msr value aux c =
     (let flds = drop_bit sr_FIELD_SHIFT aux;
          m = msr_mask flds [(1, 0x000000FF), (2, 0x0000FF00), (4, 0x00FF0000), (8, 0xFF000000)] 0
      in if aux AND sr_SPSR \<noteq> 0 then (1, upd_regs (set_spsr value m) c)
         else
           let m = (if \<not> psr_privileged (a_cpsr c) then m AND 0xFF000000 else m);
               raw = (a_cpsr c AND NOT m) OR (value AND m);
               raw = (if m AND 0xFF \<noteq> 0 then raw OR 0x10 else raw)
           in (1, set_cpsr raw (upd_regs (set_mode (psr_mode raw)) c)))"

subsection \<open>Single data transfers\<close>

definition xfer_addr :: "DecodedInsn \<Rightarrow> ArmCpu \<Rightarrow> u32 \<times> u32" where
  "xfer_addr d c =
     (let base = reg_op c (di_rn d);
          off = (if di_aux d AND xfer_REG \<noteq> 0
                 then fst (shift_imm (drop_bit xfer_TY_SHIFT (di_aux d)) (di_rs d)
                   (reg_op c (di_rm d)) (psr_c (a_cpsr c)))
                 else di_imm d);
          indexed = (if di_aux d AND xfer_UP \<noteq> 0 then base + off else base - off);
          addr = (if di_aux d AND xfer_PRE \<noteq> 0 then indexed else base)
      in (addr, indexed))"

definition xfer_writeback :: "u8 \<Rightarrow> u32 \<Rightarrow> ArmCpu \<Rightarrow> ArmCpu" where
  "xfer_writeback rn wb c =
     (if rn = 15 then set_gpr 15 (wb + 4) c else set_gpr (unat rn) wb c)"

text \<open>The tail shared by the loads: write-back first, then the destination.\<close>

definition load_tail :: "DecodedInsn \<Rightarrow> bool \<Rightarrow> u32 \<Rightarrow> u32 \<Rightarrow> ArmCpu \<Rightarrow> u32 \<times> ArmCpu" where
  "load_tail d wbit wb v c =
     (let c = (if wbit \<and> di_rn d \<noteq> PCA then xfer_writeback (di_rn d) wb c else c)
      in if di_rd d = 15 then (5, branch_to v c) else (3, set_gpr (unat (di_rd d)) v c))"

definition store_value :: "DecodedInsn \<Rightarrow> ArmCpu \<Rightarrow> u32" where
  "store_value d c = (if di_rd d = 15 then pc_store c else a_gpr c (unat (di_rd d)))"

definition exec_ldr :: "'b ArmBus \<Rightarrow> DecodedInsn \<Rightarrow> ArmCpu \<Rightarrow> 'b \<Rightarrow> u32 \<times> ArmCpu \<times> 'b" where
  "exec_ldr B d c b =
     (let (addr, wb) = xfer_addr d c;
          (v, b) = (if di_aux d AND xfer_BYTE \<noteq> 0
                    then let (x, b) = ab_read B b addr in (ucast x, b)
                    else read32_rot B b addr);
          (n, c) = load_tail d (di_aux d AND xfer_WB \<noteq> 0) wb v c
      in (n, c, b))"

definition exec_str :: "'b ArmBus \<Rightarrow> DecodedInsn \<Rightarrow> ArmCpu \<Rightarrow> 'b \<Rightarrow> u32 \<times> ArmCpu \<times> 'b" where
  "exec_str B d c b =
     (let (addr, wb) = xfer_addr d c;
          v = store_value d c;
          (c, b) = (if di_aux d AND xfer_BYTE \<noteq> 0 then arm_write8 B c b addr (ucast v)
                    else arm_write32 B c b (addr AND NOT 3) v);
          c = (if di_aux d AND xfer_WB \<noteq> 0 \<and> di_rn d \<noteq> PCA then xfer_writeback (di_rn d) wb c else c)
      in (2, c, b))"

subsection \<open>Halfword and signed transfers\<close>

definition hw_addr :: "DecodedInsn \<Rightarrow> ArmCpu \<Rightarrow> u32 \<times> u32" where
  "hw_addr d c =
     (let base = reg_op c (di_rn d);
          off = (if di_aux d AND hw_REG \<noteq> 0 then reg_op c (di_rm d) else di_imm d);
          indexed = (if di_aux d AND hw_UP \<noteq> 0 then base + off else base - off);
          addr = (if di_aux d AND hw_PRE \<noteq> 0 then indexed else base)
      in (addr, indexed))"

definition exec_ldr_misc :: "'b ArmBus \<Rightarrow> DecodedInsn \<Rightarrow> ArmCpu \<Rightarrow> 'b \<Rightarrow> u32 \<times> ArmCpu \<times> 'b" where
  "exec_ldr_misc B d c b =
     (let (addr, wb) = hw_addr d c;
          sh = di_aux d AND hw_SH;
          (v, b) =
            (if sh = hw_H then read16_rot B b addr
             else if sh = hw_SB then let (x, b) = ab_read B b addr in (scast x, b)
             else if addr AND 1 \<noteq> 0 then let (x, b) = ab_read B b addr in (scast x, b)
             else let (x, b) = ab_read16 B b addr in (scast x, b));
          (n, c) = load_tail d (di_aux d AND hw_WB \<noteq> 0) wb v c
      in (n, c, b))"

definition exec_str_misc :: "'b ArmBus \<Rightarrow> DecodedInsn \<Rightarrow> ArmCpu \<Rightarrow> 'b \<Rightarrow> u32 \<times> ArmCpu \<times> 'b" where
  "exec_str_misc B d c b =
     (let (addr, wb) = hw_addr d c;
          v = store_value d c;
          (c, b) = arm_write16 B c b (addr AND NOT 1) (ucast v);
          c = (if di_aux d AND hw_WB \<noteq> 0 \<and> di_rn d \<noteq> PCA then xfer_writeback (di_rn d) wb c else c)
      in (2, c, b))"

subsection \<open>Block transfers\<close>

text \<open>\<open>u16::count_ones\<close> and \<open>u16::trailing_zeros\<close>.\<close>

definition count_ones :: "u16 \<Rightarrow> nat" where
  "count_ones w = length (filter (bit w) [0..<16])"

definition trailing_zeros :: "u16 \<Rightarrow> nat" where
  "trailing_zeros w = length (takeWhile (\<lambda>i. \<not> bit w i) [0..<16])"

definition blk_addr :: "DecodedInsn \<Rightarrow> ArmCpu \<Rightarrow> u32 \<times> u32" where
  "blk_addr d c =
     (let base = reg_op c (di_rn d);
          bytes = (if di_aux d AND blk_EMPTY \<noteq> 0 then 0x40
                   else 4 * of_nat (count_ones (ucast (di_imm d))));
          (start, wb) =
            (if di_aux d AND blk_UP \<noteq> 0
             then (if di_aux d AND blk_PRE \<noteq> 0 then base + 4 else base, base + bytes)
             else let down = base - bytes
                  in (if di_aux d AND blk_PRE \<noteq> 0 then down else down + 4, down))
      in (start AND NOT 3, wb))"

text \<open>The loop \<open>for i in 0..16\<close> of \<open>exec_ldm\<close> over the remaining register numbers.\<close>

fun ldm_loop ::
  "'b ArmBus \<Rightarrow> bool \<Rightarrow> u16 \<Rightarrow> nat list \<Rightarrow> u32 \<Rightarrow> u32 option \<Rightarrow> ArmCpu \<Rightarrow> 'b
     \<Rightarrow> u32 option \<times> ArmCpu \<times> 'b" where
  "ldm_loop B user_bank regs [] addr pc_val c b = (pc_val, c, b)"
| "ldm_loop B user_bank regs (i # is) addr pc_val c b =
     (if regs AND push_bit i 1 = 0 then ldm_loop B user_bank regs is addr pc_val c b
      else let (v, b) = ab_read32 B b addr; addr = addr + 4 in
        if i = 15 then ldm_loop B user_bank regs is addr (Some v) c b
        else if user_bank then ldm_loop B user_bank regs is addr pc_val (upd_regs (set_user_reg i v) c) b
        else ldm_loop B user_bank regs is addr pc_val (set_gpr i v c) b)"

definition blk_writeback :: "bool \<Rightarrow> u8 \<Rightarrow> u32 \<Rightarrow> ArmCpu \<Rightarrow> ArmCpu" where
  "blk_writeback user_bank rn wb c =
     (if user_bank then upd_regs (set_user_reg (unat rn) wb) c else set_gpr (unat rn) wb c)"

definition exec_ldm :: "'b ArmBus \<Rightarrow> DecodedInsn \<Rightarrow> ArmCpu \<Rightarrow> 'b \<Rightarrow> u32 \<times> ArmCpu \<times> 'b" where
  "exec_ldm B d c b =
     (let (addr, wb) = blk_addr d c;
          regs = ucast (di_imm d);
          pc_in_list = (regs AND push_bit 15 1 \<noteq> 0);
          user_bank = (di_aux d AND blk_S \<noteq> 0 \<and> \<not> pc_in_list);
          (pc_val, c, b) = ldm_loop B user_bank regs [0..<16] addr None c b;
          c = (if di_aux d AND blk_WB \<noteq> 0 \<and> regs AND push_bit (unat (di_rn d)) 1 = 0
               then blk_writeback user_bank (di_rn d) wb c else c);
          n = of_nat (count_ones regs);
          cycles = n + 2
      in case pc_val of
           None \<Rightarrow> (cycles, c, b)
         | Some v \<Rightarrow>
             let c = (if di_aux d AND blk_S \<noteq> 0 then restore_cpsr c else c);
                 c = (if di_aux d AND blk_EMPTY \<noteq> 0 then set_gpr 15 v c else branch_to v c)
             in (cycles + 2, c, b))"

text \<open>The loop of \<open>exec_stm\<close>.\<close>

fun stm_loop ::
  "'b ArmBus \<Rightarrow> DecodedInsn \<Rightarrow> bool \<Rightarrow> u16 \<Rightarrow> nat \<Rightarrow> u32 \<Rightarrow> nat list \<Rightarrow> u32 \<Rightarrow> ArmCpu \<Rightarrow> 'b
     \<Rightarrow> ArmCpu \<times> 'b" where
  "stm_loop B d user_bank regs lowest wb [] addr c b = (c, b)"
| "stm_loop B d user_bank regs lowest wb (i # is) addr c b =
     (if regs AND push_bit i 1 = 0 then stm_loop B d user_bank regs lowest wb is addr c b
      else let
        v = (if i = unat (di_rn d) \<and> di_aux d AND blk_WB \<noteq> 0 \<and> i \<noteq> lowest then wb
             else if i = 15 then pc_store c
             else if user_bank then user_reg (a_regs c) i
             else a_gpr c i);
        (c, b) = arm_write32 B c b addr v
      in stm_loop B d user_bank regs lowest wb is (addr + 4) c b)"

definition exec_stm :: "'b ArmBus \<Rightarrow> DecodedInsn \<Rightarrow> ArmCpu \<Rightarrow> 'b \<Rightarrow> u32 \<times> ArmCpu \<times> 'b" where
  "exec_stm B d c b =
     (let (addr, wb) = blk_addr d c;
          regs = ucast (di_imm d);
          user_bank = (di_aux d AND blk_S \<noteq> 0);
          lowest = trailing_zeros regs;
          (c, b) = stm_loop B d user_bank regs lowest wb [0..<16] addr c b;
          c = (if di_aux d AND blk_WB \<noteq> 0 then blk_writeback user_bank (di_rn d) wb c else c)
      in (of_nat (count_ones regs) + 1, c, b))"

subsection \<open>Dispatch\<close>

definition exec_mrs :: "DecodedInsn \<Rightarrow> ArmCpu \<Rightarrow> u32 \<times> ArmCpu" where
  "exec_mrs d c =
     (let v = (if di_aux d AND sr_SPSR \<noteq> 0 then spsr_bits (a_regs c) else a_cpsr c)
      in (1, if di_rd d = 15 then set_gpr 15 (v - 4) c else set_gpr (unat (di_rd d)) v c))"

definition exec_branch_imm :: "DecodedInsn \<Rightarrow> ArmCpu \<Rightarrow> u32 \<times> ArmCpu" where
  "exec_branch_imm d c =
     (let target = pc_op c + di_imm d;
          c = (if di_aux d AND BR_LINK \<noteq> 0 then set_gpr 14 (start_pc c + 4) c else c)
      in (3, branch_to target c))"

definition exec_bx :: "DecodedInsn \<Rightarrow> ArmCpu \<Rightarrow> u32 \<times> ArmCpu" where
  "exec_bx d c =
     (let v = reg_op c (di_rm d);
          c = set_cpsr (psr_set psr_T (v AND 1 \<noteq> 0) (a_cpsr c)) c
      in (3, branch_to (v AND NOT 1) c))"

definition exec_swp :: "'b ArmBus \<Rightarrow> DecodedInsn \<Rightarrow> ArmCpu \<Rightarrow> 'b \<Rightarrow> u32 \<times> ArmCpu \<times> 'b" where
  "exec_swp B d c b =
     (let addr = reg_op12 c (di_rn d);
          src = reg_op12 c (di_rm d);
          (old, c, b) =
            (if di_aux d AND 1 \<noteq> 0
             then let (x, b) = ab_read B b addr; (c, b) = arm_write8 B c b addr (ucast src)
                  in (ucast x, c, b)
             else let (v, b) = read32_rot B b addr;
                      (c, b) = arm_write32 B c b (addr AND NOT 3) src
                  in (v, c, b))
      in (4, set_reg (di_rd d) old c, b))"

definition exec_swi :: "ArmCpu \<Rightarrow> u32 \<times> ArmCpu" where
  "exec_swi c = (3, if trap_swi c then set_host_trap Trap_Syscall c else arm_raise Exc_Swi c)"

definition exec_thumb_bl :: "DecodedInsn \<Rightarrow> ArmCpu \<Rightarrow> u32 \<times> ArmCpu" where
  "exec_thumb_bl d c =
     (if di_aux d AND TBL_SUFFIX = 0 then
        (1, set_gpr 14 (pc_op c + shl_sar 21 9 (di_imm d)) c)
      else
        let ret = a_gpr c 15 OR 1;
            target = a_gpr c 14 + push_bit 1 (di_imm d);
            c = set_gpr 14 ret c
        in (3, branch_to target c))"

text \<open>Handlers that leave the bus alone, and the handlers as results.\<close>

definition on_cpu :: "u32 \<times> ArmCpu \<Rightarrow> 'b \<Rightarrow> (Exception + u32) \<times> ArmCpu \<times> 'b" where
  "on_cpu r b = (Inr (fst r), snd r, b)"

definition ok_cycles :: "u32 \<times> ArmCpu \<times> 'b \<Rightarrow> (Exception + u32) \<times> ArmCpu \<times> 'b" where
  "ok_cycles r = (Inr (fst r), snd r)"

definition exec_decoded ::
  "'b ArmBus \<Rightarrow> DecodedInsn \<Rightarrow> ArmCpu \<Rightarrow> 'b \<Rightarrow> (Exception + u32) \<times> ArmCpu \<times> 'b" where
  "exec_decoded B d c b =
     (if \<not> cond_pass c (di_cond d) then (Inr 1, c, b)
      else case di_op d of
        DpImm \<Rightarrow> on_cpu (exec_dp d c) b
      | DpShImm \<Rightarrow> on_cpu (exec_dp d c) b
      | DpShReg \<Rightarrow> on_cpu (exec_dp d c) b
      | Mul \<Rightarrow> on_cpu (exec_mul d c) b
      | Mull \<Rightarrow> on_cpu (exec_mull d c) b
      | Mrs \<Rightarrow> on_cpu (exec_mrs d c) b
      | MsrReg \<Rightarrow> on_cpu (exec_msr (reg_op c (di_rm d)) (di_aux d) c) b
      | MsrImm \<Rightarrow> on_cpu (exec_msr (di_imm d) (di_aux d) c) b
      | BranchImm \<Rightarrow> on_cpu (exec_branch_imm d c) b
      | Bx \<Rightarrow> on_cpu (exec_bx d c) b
      | Ldr \<Rightarrow> ok_cycles (exec_ldr B d c b)
      | Str \<Rightarrow> ok_cycles (exec_str B d c b)
      | LdrMisc \<Rightarrow> ok_cycles (exec_ldr_misc B d c b)
      | StrMisc \<Rightarrow> ok_cycles (exec_str_misc B d c b)
      | Ldm \<Rightarrow> ok_cycles (exec_ldm B d c b)
      | Stm \<Rightarrow> ok_cycles (exec_stm B d c b)
      | Swp \<Rightarrow> ok_cycles (exec_swp B d c b)
      | Swi \<Rightarrow> on_cpu (exec_swi c) b
      | Undef \<Rightarrow> (Inl Exc_Undefined, c, b)
      | ThumbBl \<Rightarrow> on_cpu (exec_thumb_bl d c) b)"

end
