(* ===== verification/Arm_Step.thy ===== *)
theory Arm_Step
  imports Arm_Execute
begin

text \<open>
  The instruction boundary of \<open>src/arm32/mod.rs\<close>: fetch through the decoded-instruction cache, fault
  disposal, interrupt delivery, single steps and batches.
\<close>

definition cache_key :: "u32 \<Rightarrow> bool \<Rightarrow> u64" where
  "cache_key pc th = (ucast pc OR push_bit 63 (if th then 1 else 0))"

definition cache_slot :: "u32 \<Rightarrow> nat" where
  "cache_slot pc = unat (drop_bit 1 pc) AND (ICACHE_ENTRIES - 1)"

definition cache_hit :: "ICache \<Rightarrow> u32 \<Rightarrow> bool \<Rightarrow> bool" where
  "cache_hit ic pc th =
     (let e = ic_entries ic (cache_slot pc) in
      e_key e = cache_key pc th \<and>
      ic_stamps ic (stamp_slot pc) \<le> e_version e \<and>
      ic_inval ic \<le> e_version e)"

definition icache_fill :: "u64 \<Rightarrow> nat \<Rightarrow> DecodedInsn \<Rightarrow> ICache \<Rightarrow> ICache" where
  "icache_fill key slot d ic =
     ic\<lparr>ic_entries := (ic_entries ic)(slot :=
       \<lparr>e_key = key, e_version = ic_clock ic, e_insn = d\<rparr>)\<rparr>"

definition fetch_decode :: "'b ArmBus \<Rightarrow> bool \<Rightarrow> u32 \<Rightarrow> 'b \<Rightarrow> DecodedInsn \<times> 'b" where
  "fetch_decode B th pc b =
     (if th then let (h, b) = ab_read16 B b pc in (decode_thumb h, b)
      else let (w, b) = ab_read32 B b pc in (decode_arm w, b))"

definition cached_decode :: "'b ArmBus \<Rightarrow> bool \<Rightarrow> u32 \<Rightarrow> ArmCpu \<Rightarrow> 'b \<Rightarrow> DecodedInsn \<times> ArmCpu \<times> 'b" where
  "cached_decode B th pc c b =
     (if cache_hit (icache c) pc th then (e_insn (ic_entries (icache c) (cache_slot pc)), c, b)
      else let (d, b) = fetch_decode B th pc b
        in (d, c\<lparr>icache := icache_fill (cache_key pc th) (cache_slot pc) d (icache c)\<rparr>, b))"

definition fault_epilogue :: "Exception \<Rightarrow> ArmCpu \<Rightarrow> u32 \<times> ArmCpu" where
  "fault_epilogue e c =
     (EXCEPTION_CYCLES,
      if trap_faults c then set_host_trap (Trap_Exception e) (set_gpr 15 (start_pc c) c)
      else arm_raise e c)"

definition fetch_pc :: "ArmCpu \<Rightarrow> u32" where
  "fetch_pc c = a_gpr c 15 AND (if psr_t (a_cpsr c) then NOT 1 else NOT 3)"

text \<open>The part of \<open>exec_one\<close> after the decode.\<close>

definition exec_insn :: "'b ArmBus \<Rightarrow> u32 \<Rightarrow> DecodedInsn \<Rightarrow> ArmCpu \<Rightarrow> 'b \<Rightarrow> u32 \<times> ArmCpu \<times> 'b" where
  "exec_insn B pc d c b =
     (let c = set_gpr 15 (pc + ucast (di_len d)) c in
      case exec_decoded B d c b of
        (Inr n, c, b) \<Rightarrow> (n, c, b)
      | (Inl e, c, b) \<Rightarrow> let (n, c) = fault_epilogue e c in (n, c, b))"

definition exec_one :: "'b ArmBus \<Rightarrow> ArmCpu \<Rightarrow> 'b \<Rightarrow> u32 \<times> ArmCpu \<times> 'b" where
  "exec_one B c b =
     (let th = psr_t (a_cpsr c);
          pc = a_gpr c 15 AND (if th then NOT 1 else NOT 3);
          c = c\<lparr>thumb := th, start_pc := pc\<rparr>;
          (d, c, b) = cached_decode B th pc c b
      in exec_insn B pc d c b)"

definition step_fast :: "'b ArmBus \<Rightarrow> ArmCpu \<Rightarrow> 'b \<Rightarrow> u32 \<times> ArmCpu \<times> 'b" where
  "step_fast B c b =
     (let (n, c, b) = exec_one B c b in (n, c\<lparr>a_cycles := a_cycles c + ucast n\<rparr>, b))"

definition boundary_pending :: "ArmCpu \<Rightarrow> bool" where
  "boundary_pending c = (events c \<noteq> 0 \<or> a_halted c)"

definition step_slow :: "'b ArmBus \<Rightarrow> ArmCpu \<Rightarrow> 'b \<Rightarrow> u32 \<times> ArmCpu \<times> 'b" where
  "step_slow B c b =
     (let c = c\<lparr>events := events c AND NOT EVT_HOST_TRAP\<rparr> in
      if events c AND EVT_FIQ \<noteq> 0 \<and> \<not> psr_f (a_cpsr c) then
        let c = arm_raise Exc_Fiq (c\<lparr>a_halted := False\<rparr>)
        in (EXCEPTION_CYCLES, c\<lparr>a_cycles := a_cycles c + ucast EXCEPTION_CYCLES\<rparr>, b)
      else if events c AND EVT_IRQ \<noteq> 0 \<and> \<not> psr_i (a_cpsr c) then
        let c = arm_raise Exc_Irq (c\<lparr>a_halted := False\<rparr>)
        in (EXCEPTION_CYCLES, c\<lparr>a_cycles := a_cycles c + ucast EXCEPTION_CYCLES\<rparr>, b)
      else if a_halted c then (1, c\<lparr>a_cycles := a_cycles c + 1\<rparr>, b)
      else step_fast B c b)"

definition arm_step :: "'b ArmBus \<Rightarrow> ArmCpu \<Rightarrow> 'b \<Rightarrow> u32 \<times> ArmCpu \<times> 'b" where
  "arm_step B c b = (if boundary_pending c then step_slow B c b else step_fast B c b)"

definition run_boundary :: "'b ArmBus \<Rightarrow> ArmCpu \<Rightarrow> 'b \<Rightarrow> RunExit option \<times> ArmCpu \<times> 'b" where
  "run_boundary B c b =
     (if host_trap c \<noteq> None then (Some Run_HostTrap, c\<lparr>events := events c AND NOT EVT_HOST_TRAP\<rparr>, b)
      else if a_halted c \<and> \<not> interrupt_pending c then (Some Run_Halted, c, b)
      else (None, snd (step_slow B c b)))"

text \<open>The loop \<open>while executed < n\<close>, with \<open>todo = n - executed\<close>.\<close>

fun run_loop :: "'b ArmBus \<Rightarrow> nat \<Rightarrow> u64 \<Rightarrow> ArmCpu \<Rightarrow> 'b \<Rightarrow> RunResult \<times> ArmCpu \<times> 'b" where
  "run_loop B 0 executed c b = (\<lparr>rr_executed = executed, rr_exit = Run_Completed\<rparr>, c, b)"
| "run_loop B (Suc todo) executed c b =
     (if boundary_pending c then
        case run_boundary B c b of
          (Some ex, c, b) \<Rightarrow> (\<lparr>rr_executed = executed, rr_exit = ex\<rparr>, c, b)
        | (None, c, b) \<Rightarrow> run_loop B todo (executed + 1) c b
      else let (_, c, b) = step_fast B c b in run_loop B todo (executed + 1) c b)"

definition arm_run :: "'b ArmBus \<Rightarrow> u64 \<Rightarrow> ArmCpu \<Rightarrow> 'b \<Rightarrow> RunResult \<times> ArmCpu \<times> 'b" where
  "arm_run B n c b =
     (if host_trap c \<noteq> None then (\<lparr>rr_executed = 0, rr_exit = Run_HostTrap\<rparr>, c, b)
      else run_loop B (unat n) 0 c b)"

end
