(* ===== verification/Arm_Flags.thy ===== *)
theory Arm_Flags
  imports Arm_Step
begin

text \<open>
  Comparison on the ARM core: the flags the data-processing instructions leave and the condition
  fields that read them (\<open>exec_dp\<close> and \<open>cond_pass\<close> of \<open>src/arm32/execute.rs\<close>).
\<close>

text \<open>The ordering of two operands that a condition field asks for after a comparison.\<close>

fun cond_order :: "nat \<Rightarrow> u32 \<Rightarrow> u32 \<Rightarrow> bool" where
  "cond_order n a b =
     (if n = 0 then a = b
      else if n = 1 then a \<noteq> b
      else if n = 2 then unat b \<le> unat a
      else if n = 3 then unat a < unat b
      else if n = 8 then unat b < unat a
      else if n = 9 then unat a \<le> unat b
      else if n = 10 then sint b \<le> sint a
      else if n = 11 then sint a < sint b
      else if n = 12 then sint b < sint a
      else sint a \<le> sint b)"

definition order_conds :: "nat set" where
  "order_conds = {0, 1, 2, 3, 8, 9, 10, 11, 12, 13}"

text \<open>The four flags of a status register holding the outcome of \<open>a - b\<close>.\<close>

definition cmp_flags :: "Psr \<Rightarrow> u32 \<Rightarrow> u32 \<Rightarrow> bool" where
  "cmp_flags p a b \<longleftrightarrow>
     psr_n p = bit (a - b) 31 \<and> psr_z p = (a - b = 0) \<and> psr_c p = (unat b \<le> unat a) \<and>
     psr_v p = (sint a - sint b \<notin> {- (2 ^ 31)..<2 ^ 31})"

lemma n_xor_v:
  "(bit (a - b :: u32) 31 \<noteq> (sint a - sint b \<notin> {- (2 ^ 31)..<2 ^ 31})) \<longleftrightarrow> sint a < sint b"
proof -
  define A B R where "A = unat a" and "B = unat b" and "R = unat (a - b)"
  note abr = this
  have s: "sint a = int A - (if 2 ^ 31 \<le> A then 2 ^ 32 else 0)"
    "sint b = int B - (if 2 ^ 31 \<le> B then 2 ^ 32 else 0)"
    by (simp_all add: sint_u32 u32_bit31 abr)
  have R: "R = (if B \<le> A then A - B else A + 2 ^ 32 - B)"
    using unat_u32_less [of a] unat_u32_less [of b]
    by (auto simp: abr unat_sub_if' )
  have bnd: "A < 2 ^ 32" "B < 2 ^ 32"
    using unat_u32_less [of a] unat_u32_less [of b] by (simp_all add: abr)
  show ?thesis
    unfolding u32_bit31 s abr(3) [symmetric] using R bnd by (auto split: if_splits)
qed

lemma cmp_flags_conditions:
  assumes "cmp_flags (a_cpsr c) a b" and "unat cond \<in> order_conds"
  shows "cond_pass c cond = cond_order (unat cond) a b"
proof -
  have nv: "psr_n (a_cpsr c) = psr_v (a_cpsr c) \<longleftrightarrow> sint b \<le> sint a"
    using assms(1) n_xor_v [of a b] by (auto simp: cmp_flags_def)
  have z: "psr_z (a_cpsr c) \<longleftrightarrow> a = b" and cf: "psr_c (a_cpsr c) \<longleftrightarrow> unat b \<le> unat a"
    using assms(1) by (auto simp: cmp_flags_def)
  have ne: "a = b \<longleftrightarrow> unat a = unat b" by (rule word_unat_eq_iff)
  have se: "a = b \<longleftrightarrow> sint a = sint b" using signed_word_eqI [of a b] by auto
  have o: "unat b \<le> unat a \<and> a \<noteq> b \<longleftrightarrow> unat b < unat a"
    "\<not> unat b \<le> unat a \<or> a = b \<longleftrightarrow> unat a \<le> unat b"
    "a \<noteq> b \<and> sint b \<le> sint a \<longleftrightarrow> sint b < sint a"
    "a = b \<or> \<not> sint b \<le> sint a \<longleftrightarrow> sint a \<le> sint b"
    using ne se by linarith+
  have k: "cond = k \<longleftrightarrow> unat cond = unat k" for k :: u8 by (rule word_unat_eq_iff)
  have "unat cond = 0 \<or> unat cond = 1 \<or> unat cond = 2 \<or> unat cond = 3 \<or> unat cond = 8 \<or>
    unat cond = 9 \<or> unat cond = 10 \<or> unat cond = 11 \<or> unat cond = 12 \<or> unat cond = 13"
    using assms(2) by (simp add: order_conds_def)
  then show ?thesis
    by (elim disjE; simp only: cond_pass_def Let_def k nv z cf o cond_order.simps; simp add: not_le)
qed

lemma dp_sub_flags:
  assumes "op' \<in> {alu_CMP, alu_SUB}"
  shows "dp_alu op' rn op2 ci sc v = (sub_with_carry rn op2 True, op' = alu_SUB)"
  using assms by (auto simp: dp_alu_def alu_op_defs)

lemma cmp_sets_flags:
  assumes "di_aux d AND dp_OP = alu_CMP" and "di_aux d AND dp_S \<noteq> 0" and "di_rd d \<noteq> 15"
  shows "cmp_flags (a_cpsr (snd (exec_dp d c)))
     (if di_op d = DpShReg then reg_op12 c (di_rn d) else reg_op c (di_rn d)) (fst (dp_operand2 d c))"
    and "a_gpr (snd (exec_dp d c)) = a_gpr c"
proof -
  have l: "\<not> dp_logical alu_CMP" "alu_CMP \<noteq> alu_SUB" by (simp_all add: dp_logical_def alu_op_defs)
  show "cmp_flags (a_cpsr (snd (exec_dp d c)))
     (if di_op d = DpShReg then reg_op12 c (di_rn d) else reg_op c (di_rn d)) (fst (dp_operand2 d c))"
    using assms(2,3) l
    by (simp add: exec_dp_def assms(1) dp_sub_flags sub_with_carry_spec Let_def case_prod_beta
        cmp_flags_def flag_simps)
  show "a_gpr (snd (exec_dp d c)) = a_gpr c"
    using assms(2,3) l
    by (simp add: exec_dp_def assms(1) dp_sub_flags sub_with_carry_spec Let_def case_prod_beta
        )
qed

text \<open>
  C7. The flags and the condition fields together implement comparison. After a \<open>CMP\<close> of any operand
  form, a conditional instruction with \<open>EQ NE CS CC HI LS\<close> executes exactly when the operands are
  in that unsigned relation, and with \<open>GE LT GT LE\<close> in that signed relation, also where the
  subtraction overflows; the comparison leaves the registers alone.
\<close>

theorem compare_then_condition:
  assumes "di_aux d AND dp_OP = alu_CMP" and "di_aux d AND dp_S \<noteq> 0" and "di_rd d \<noteq> 15"
    and "unat cond \<in> order_conds"
  shows "cond_pass (snd (exec_dp d c)) cond =
      cond_order (unat cond)
        (if di_op d = DpShReg then reg_op12 c (di_rn d) else reg_op c (di_rn d))
        (fst (dp_operand2 d c)) \<and>
    a_gpr (snd (exec_dp d c)) = a_gpr c"
  using cmp_flags_conditions [OF cmp_sets_flags(1) [OF assms(1-3)] assms(4)]
    cmp_sets_flags(2) [OF assms(1-3)] by blast

text \<open>\<open>CMP r1, #2\<close> with \<open>r1 = -1\<close>: less as signed numbers.\<close>

theorem compare_then_condition_witness:
  "cond_pass (snd (exec_dp (decode_arm 0xE3510002) (set_gpr 1 0xFFFFFFFF ArmCpu_new))) 0xB"
proof -
  let ?d = "decode_arm 0xE3510002" and ?c = "set_gpr 1 0xFFFFFFFF ArmCpu_new"
  have d: "di_op ?d = DpImm" "di_rn ?d = 1" "di_rd ?d = 0" "di_imm ?d = 2"
    "di_aux ?d AND dp_OP = alu_CMP" "di_aux ?d AND dp_S \<noteq> 0"
    by (simp_all add: decode_arm_def decode_arm_defs fld_def tst_def aux_defs alu_op_defs
        DecodedInsn_new_def Let_def)
  have o: "unat (0xB :: u8) \<in> order_conds" by (simp add: order_conds_def)
  show ?thesis
    using compare_then_condition [OF d(5,6) _ o, of ?c] d
    by (simp add: dp_operand2_def reg_op_def PCA_def)
qed

end
