(* ===== verification/Arm_Exceptions.thy ===== *)
theory Arm_Exceptions
  imports Arm_Step
begin

text \<open>
  Exception entry (\<open>Cpu::raise\<close> of \<open>src/arm32/mod.rs\<close>) and the return from an interrupt with
  \<open>SUBS PC, LR, #4\<close>, over the physical registers of the banked file.
\<close>

subsection \<open>Registers under the operations of the boundary\<close>

lemma phys_cong:
  assumes "gpr r = gpr r'" and "usr_bank r = usr_bank r'" and "fiq_bank r = fiq_bank r'"
    and "exc_bank r = exc_bank r'" and "psr_mode (cpsr r) = psr_mode (cpsr r')"
  shows "phys r k = phys r' k"
  using assms by (cases k) (simp_all add: Let_def)

lemma set_gpr_set_phys:
  "i < 16 \<Longrightarrow> r\<lparr>gpr := (gpr r)(i := v)\<rparr> = set_phys (cell_of (psr_mode (cpsr r)) i) v r"
  by (cases "psr_mode (cpsr r)") (auto simp: cell_of_def has_spsr_def Let_def)

lemma phys_set_gpr:
  "i < 16 \<Longrightarrow> valid_cell k \<Longrightarrow>
   phys (r\<lparr>gpr := (gpr r)(i := v)\<rparr>) k =
     (if k = cell_of (psr_mode (cpsr r)) i then v else phys r k)"
  by (simp only: set_gpr_set_phys phys_set_phys valid_cell_of)

lemma phys_set_spsr_bank: "phys (r\<lparr>spsr_bank := s\<rparr>) k = phys r k"
  by (rule phys_cong) simp_all

lemma phys_set_cpsr: "psr_mode p = psr_mode (cpsr r) \<Longrightarrow> phys (r\<lparr>cpsr := p\<rparr>) k = phys r k"
  by (rule phys_cong) simp_all

lemma cell_of_15 [simp]: "cell_of m 15 = Shared 15"
  by (simp add: cell_of_def)

subsection \<open>Exception entry\<close>

text \<open>The status register an exception is entered with.\<close>

definition exc_cpsr :: "Exception \<Rightarrow> Psr \<Rightarrow> Psr" where
  "exc_cpsr e p =
     (let p = psr_set psr_I True (psr_set psr_T False (psr_set_mode p (exc_mode e)))
      in if e = Exc_Fiq then psr_set psr_F True p else p)"

lemma exc_cpsr_mode [simp]: "psr_mode (exc_cpsr e p) = exc_mode e"
  by (simp add: exc_cpsr_def Let_def flag_simps)

fun exc_return :: "Exception \<Rightarrow> ArmCpu \<Rightarrow> u32" where
  "exc_return Exc_Undefined c = a_gpr c 15"
| "exc_return Exc_Swi c = a_gpr c 15"
| "exc_return Exc_PrefetchAbort c = start_pc c + 4"
| "exc_return Exc_DataAbort c = start_pc c + 8"
| "exc_return Exc_Irq c = a_gpr c 15 + 4"
| "exc_return Exc_Fiq c = a_gpr c 15 + 4"

lemma exc_bank_some: "\<exists>k. mode_bank (exc_mode e) = Some k"
  by (cases e) simp_all

lemma arm_raise_regs:
  "a_regs (arm_raise e c) =
     (let r = spsr_store (a_cpsr c) (set_mode (exc_mode e) (a_regs c))
      in r\<lparr>gpr := (gpr r)(14 := exc_return e c, 15 := exc_vector e),
           cpsr := exc_cpsr e (a_cpsr c)\<rparr>)"
  by (cases e) (simp_all add: arm_raise_def exc_cpsr_def set_mode_cpsr spsr_store_def Let_def
      split: option.split)

lemma arm_raise_frame [simp]:
  "icache (arm_raise e c) = icache c" "events (arm_raise e c) = events c"
  "a_halted (arm_raise e c) = a_halted c" "start_pc (arm_raise e c) = start_pc c"
  "thumb (arm_raise e c) = thumb c" "trap_swi (arm_raise e c) = trap_swi c"
  "trap_faults (arm_raise e c) = trap_faults c" "host_trap (arm_raise e c) = host_trap c"
  "a_cycles (arm_raise e c) = a_cycles c"
  by (simp_all add: arm_raise_def Let_def)

lemma arm_raise_cpsr [simp]: "a_cpsr (arm_raise e c) = exc_cpsr e (a_cpsr c)"
  by (simp add: arm_raise_regs Let_def)

lemma arm_raise_gpr:
  "a_gpr (arm_raise e c) 14 = exc_return e c" "a_gpr (arm_raise e c) 15 = exc_vector e"
  by (simp_all add: arm_raise_regs Let_def)

lemma arm_raise_spsr: "spsr_banked (a_regs (arm_raise e c)) = Some (a_cpsr c)"
  using exc_bank_some [of e]
  by (auto simp: arm_raise_regs Let_def spsr_banked_def spsr_store_def set_mode_cpsr)

lemma arm_raise_phys:
  assumes "valid_cell k" and "k \<noteq> cell_of (exc_mode e) 14" and "k \<noteq> Shared 15"
  shows "phys (a_regs (arm_raise e c)) k = phys (a_regs c) k"
proof -
  define r where "r = spsr_store (a_cpsr c) (set_mode (exc_mode e) (a_regs c))"
  have m: "psr_mode (cpsr r) = exc_mode e"
    by (simp add: r_def spsr_store_def set_mode_cpsr split: option.split)
  have "phys (a_regs (arm_raise e c)) k = phys (r\<lparr>gpr := (gpr r)(14 := exc_return e c, 15 := exc_vector e)\<rparr>) k"
    by (rule phys_cong) (simp_all add: arm_raise_regs r_def [symmetric] Let_def m)
  also have "\<dots> = phys (r\<lparr>gpr := (gpr r)(14 := exc_return e c)\<rparr>) k"
    using phys_set_gpr [of 15 k "r\<lparr>gpr := (gpr r)(14 := exc_return e c)\<rparr>" "exc_vector e"] assms
    by simp
  also have "\<dots> = phys r k"
    using phys_set_gpr [of 14 k r "exc_return e c"] assms m by simp
  also have "\<dots> = phys (set_mode (exc_mode e) (a_regs c)) k"
    by (simp add: r_def spsr_store_def phys_set_spsr_bank split: option.split)
  finally show ?thesis by (simp add: set_mode_phys assms(1))
qed

text \<open>
  C5. Exception entry is precise. Raising any of the six exceptions saves the status register in the
  new mode's SPSR, puts the architected return address in its link register, enters its mode in ARM
  state with IRQ disabled (and FIQ for a FIQ) and every other status bit unchanged, jumps to the
  vector, and changes no other register of any mode.
\<close>

theorem exception_entry_precise:
  assumes "i < 15" and "cell_of m i \<noteq> cell_of (exc_mode e) 14"
  shows "(let c' = arm_raise e c in
    spsr_banked (a_regs c') = Some (a_cpsr c) \<and> a_gpr c' 14 = exc_return e c \<and>
    a_gpr c' 15 = exc_vector e \<and> psr_mode (a_cpsr c') = exc_mode e \<and>
    \<not> psr_t (a_cpsr c') \<and> psr_i (a_cpsr c') \<and>
    (psr_f (a_cpsr c') \<longleftrightarrow> e = Exc_Fiq \<or> psr_f (a_cpsr c)) \<and>
    (\<forall>k \<in> {8..<32}. bit (a_cpsr c') k = bit (a_cpsr c) k) \<and>
    reg_of (a_regs c') m i = reg_of (a_regs c) m i)"
proof -
  have "phys (a_regs (arm_raise e c)) (cell_of m i) = phys (a_regs c) (cell_of m i)"
    using assms by (intro arm_raise_phys) (auto simp: cell_of_def)
  moreover have "\<forall>k \<in> {8..<32}. bit (exc_cpsr e (a_cpsr c)) k = bit (a_cpsr c) k"
    by (auto simp: exc_cpsr_def Let_def flag_simps)
  ultimately show ?thesis
    using assms(1) by (simp add: Let_def arm_raise_spsr arm_raise_gpr reg_of_phys)
      (auto simp: exc_cpsr_def Let_def flag_simps)
qed

theorem exception_entry_precise_witness:
  "reg_of (a_regs (arm_raise Exc_Irq ArmCpu_new)) Svc 13 = reg_of (a_regs ArmCpu_new) Svc 13"
  using exception_entry_precise [of 13 Svc Exc_Irq ArmCpu_new]
  by (simp add: cell_of_def has_spsr_def Let_def)

subsection \<open>Return from an interrupt\<close>

text \<open>\<open>SUBS PC, LR, #4\<close>.\<close>

definition subs_pc_lr_4 :: DecodedInsn where
  "subs_pc_lr_4 = decode_arm 0xE25EF004"

lemma subs_pc_lr_4_fields:
  "di_op subs_pc_lr_4 = DpImm" "di_rn subs_pc_lr_4 = 14" "di_rd subs_pc_lr_4 = 15"
  "di_imm subs_pc_lr_4 = 4" "di_aux subs_pc_lr_4 AND dp_OP = alu_SUB"
  "di_aux subs_pc_lr_4 AND dp_S \<noteq> 0"
  by (simp_all add: subs_pc_lr_4_def decode_arm_def decode_arm_defs fld_def tst_def aux_defs
      alu_op_defs DecodedInsn_new_def Let_def)

lemma restore_cpsr_some:
  "spsr_banked (a_regs c) = Some p \<Longrightarrow>
   restore_cpsr c = set_cpsr p (upd_regs (set_mode (psr_mode p)) c)"
  by (simp add: restore_cpsr_def)

lemma subs_pc_lr_4_exec:
  assumes "spsr_banked (a_regs c) = Some p" and "has_spsr (psr_mode (a_cpsr c))"
  shows "snd (exec_dp subs_pc_lr_4 c) = branch_to (a_gpr c 14 - 4) (restore_cpsr c)"
  using assms(2)
  by (simp add: exec_dp_def subs_pc_lr_4_fields dp_operand2_def dp_alu_def alu_op_defs
      sub_with_carry_spec reg_op_def PCA_def Let_def case_prod_beta)

text \<open>
  C6. Interrupts are transparent. Taking an IRQ between two instructions and returning with
  \<open>SUBS PC, LR, #4\<close> restores the status register, the program counter and every register of every
  mode except the IRQ link register itself, in ARM and in Thumb state.
\<close>

theorem irq_round_trip:
  assumes "psr_t (a_cpsr c) \<longrightarrow> a_gpr c 15 AND NOT 1 = a_gpr c 15"
    and "i < 16" and "cell_of m i \<noteq> ExcCell Irq 14"
  shows "(let c' = snd (exec_dp subs_pc_lr_4 (arm_raise Exc_Irq c)) in
    a_cpsr c' = a_cpsr c \<and> a_gpr c' 15 = a_gpr c 15 \<and>
    reg_of (a_regs c') m i = reg_of (a_regs c) m i)"
proof -
  define e where "e = arm_raise Exc_Irq c"
  define r where "r = restore_cpsr e"
  have ex: "snd (exec_dp subs_pc_lr_4 e) = branch_to (a_gpr c 15) r"
    using subs_pc_lr_4_exec [of e "a_cpsr c"] arm_raise_spsr [of Exc_Irq c]
    by (simp add: e_def arm_raise_gpr has_spsr_def r_def)
  have r: "r = set_cpsr (a_cpsr c) (upd_regs (set_mode (psr_mode (a_cpsr c))) e)"
    unfolding r_def by (rule restore_cpsr_some) (simp add: e_def arm_raise_spsr)
  have b: "branch_to (a_gpr c 15) r = set_gpr 15 (a_gpr c 15) r"
    using assms(1) by (simp add: branch_to_def r)
  have "reg_of (a_regs (set_gpr 15 (a_gpr c 15) r)) m i = reg_of (a_regs c) m i"
  proof (cases "i = 15")
    case True
    then show ?thesis by (simp add: reg_of_phys)
  next
    case False
    let ?k = "cell_of m i"
    have k: "valid_cell ?k" "?k \<noteq> Shared 15" using assms(2) False by (auto simp: cell_of_def)
    have "phys (a_regs (set_gpr 15 (a_gpr c 15) r)) ?k = phys (a_regs r) ?k"
      using k phys_set_gpr [of 15 ?k "a_regs r"] by simp
    also have "\<dots> = phys (set_mode (psr_mode (a_cpsr c)) (a_regs e)) ?k"
      by (simp add: r phys_set_cpsr set_mode_cpsr)
    also have "\<dots> = phys (a_regs e) ?k" by (rule set_mode_phys) (rule k(1))
    also have "\<dots> = phys (a_regs c) ?k"
      unfolding e_def using k assms(3) by (intro arm_raise_phys) (auto simp: cell_of_def has_spsr_def)
    finally show ?thesis by (simp add: reg_of_phys assms(2))
  qed
  then show ?thesis
    unfolding e_def [symmetric] ex b Let_def by (simp add: r)
qed

theorem irq_round_trip_witness:
  "a_cpsr (snd (exec_dp subs_pc_lr_4 (arm_raise Exc_Irq ArmCpu_new))) = a_cpsr ArmCpu_new"
  using irq_round_trip [of ArmCpu_new 0 Usr]
  by (simp add: cell_of_def ArmCpu_new_def ArmRegisters_new_def Let_def)

end
