(* ===== verification/Arm_User.thy ===== *)
theory Arm_User
  imports Arm_Step
begin

text \<open>
  Confinement of User mode: what the instructions of \<open>src/arm32/execute.rs\<close> can do to the privileged
  state of the processor when executed in User mode.
\<close>

definition user_mode :: "ArmCpu \<Rightarrow> bool" where
  "user_mode c \<longleftrightarrow> psr_mode_bits (a_cpsr c) = mode_as_u32 Usr"

text \<open>
  What an unprivileged program must leave alone: the mode and interrupt-mask bits of the status
  register, the saved status registers, and the banked registers of every other mode.
\<close>

definition user_frame :: "ArmCpu \<Rightarrow> ArmCpu \<Rightarrow> bool" where
  "user_frame c c' \<longleftrightarrow>
     (\<forall>k < 8. k \<noteq> 5 \<longrightarrow> bit (a_cpsr c') k = bit (a_cpsr c) k) \<and>
     spsr_bank (a_regs c') = spsr_bank (a_regs c) \<and> fiq_bank (a_regs c') = fiq_bank (a_regs c) \<and>
     exc_bank (a_regs c') = exc_bank (a_regs c) \<and> usr_bank (a_regs c') = usr_bank (a_regs c)"

lemma user_mode_Usr:
  assumes "user_mode c"
  shows "psr_mode (a_cpsr c) = Usr" and "\<not> psr_privileged (a_cpsr c)"
proof -
  have "mode_from_bits (a_cpsr c) = Some Usr"
    using assms by (simp add: mode_from_bits_inverse user_mode_def psr_mode_bits_def)
  then show "psr_mode (a_cpsr c) = Usr" by (simp add: psr_mode_def)
  show "\<not> psr_privileged (a_cpsr c)" using assms by (simp add: psr_privileged_def user_mode_def)
qed

lemma user_frame_refl [simp]: "user_frame c c"
  by (simp add: user_frame_def)

lemma user_frame_trans: "user_frame a b \<Longrightarrow> user_frame b c \<Longrightarrow> user_frame a c"
  by (simp add: user_frame_def)

lemma user_frame_mode: "user_frame c c' \<Longrightarrow> user_mode c \<Longrightarrow> user_mode c'"
  using mode_bits_eqI [of "a_cpsr c'" "a_cpsr c"]
  by (simp add: user_frame_def user_mode_def psr_mode_bits_def)

text \<open>The single updates the handlers are made of.\<close>

lemma user_frame_set_gpr [simp]: "user_frame c (set_gpr i v c)"
  by (simp add: user_frame_def)

lemma user_frame_branch_to [simp]: "user_frame c (branch_to v c)"
  by (simp add: branch_to_def)

lemma user_frame_set_reg [simp]: "user_frame c (set_reg i v c)"
  by (simp add: set_reg_def)

lemma user_frame_writeback [simp]: "user_frame c (xfer_writeback rn wb c)"
  by (simp add: xfer_writeback_def)

lemma user_frame_icache [simp]: "user_frame c (c'\<lparr>icache := ic\<rparr>) = user_frame c c'"
  by (simp add: user_frame_def)

lemma user_frame_flags:
  "\<forall>k < 8. k \<noteq> 5 \<longrightarrow> bit p k = bit (a_cpsr c) k \<Longrightarrow> user_frame c (set_cpsr p c)"
  by (simp add: user_frame_def)

lemma restore_cpsr_user: "user_mode c \<Longrightarrow> restore_cpsr c = c"
  using user_mode_Usr(1) [of c] by (simp add: restore_cpsr_def spsr_banked_def)

lemma set_user_reg_user:
  "user_mode c \<Longrightarrow> set_user_reg i v (a_regs c) = (a_regs c)\<lparr>gpr := (a_gpr c)(i := v)\<rparr>"
  using user_mode_Usr(1) [of c] by (simp add: set_user_reg_def has_spsr_def Let_def)

lemma exec_dp_user: "user_mode c \<Longrightarrow> user_frame c (snd (exec_dp d c))"
proof -
  assume u: "user_mode c"
  have ns: "\<not> has_spsr (psr_mode (a_cpsr c))" using user_mode_Usr(1) [OF u] by (simp add: has_spsr_def)
  show ?thesis
    using ns by (auto simp: exec_dp_def Let_def case_prod_beta user_frame_def branch_to_def flag_simps)
qed

lemma exec_mul_user: "user_frame c (snd (exec_mul d c))"
  by (auto simp: exec_mul_def Let_def case_prod_beta user_frame_def set_reg_def branch_to_def
      flag_simps)

lemma exec_mull_user: "user_frame c (snd (exec_mull d c))"
  by (auto simp: exec_mull_def Let_def case_prod_beta user_frame_def set_reg_def branch_to_def
      flag_simps)

lemma msr_kept_bits: "\<not> bit m k \<Longrightarrow> k < 32 \<Longrightarrow> bit ((p AND NOT m) OR (v AND m)) k = bit (p :: u32) k"
  by (auto simp: bit_simps)

lemma top_byte_bits: "k < 24 \<Longrightarrow> \<not> bit ((x :: u32) AND 0xFF000000) k"
proof -
  have m: "(0xFF000000 :: u32) = push_bit 24 (mask 8)"
    by (simp add: mask_eq_exp_minus_1 push_bit_eq_mult)
  show "k < 24 \<Longrightarrow> ?thesis" unfolding m by (simp add: bit_simps)
qed

lemma top_byte_low: "(x AND 0xFF000000) AND 0xFF = (0 :: u32)"
proof -
  have m: "(0xFF :: u32) = mask 8" by (simp add: mask_eq_exp_minus_1)
  show ?thesis unfolding m
    by (rule bit_word_eqI) (use top_byte_bits [of _ x] in \<open>auto simp: bit_and_iff bit_mask_iff\<close>)
qed

lemma exec_msr_user: "user_mode c \<Longrightarrow> user_frame c (snd (exec_msr v aux c))"
proof -
  assume u: "user_mode c"
  note m = user_mode_Usr [OF u]
  define raw where "raw mk = (a_cpsr c AND NOT (mk AND 0xFF000000)) OR (v AND (mk AND 0xFF000000))" for mk
  have bits: "bit (raw mk) k = bit (a_cpsr c) k" if "k < 8" for mk k
    using that top_byte_bits [of k mk] unfolding raw_def by (intro msr_kept_bits) auto
  have mode: "psr_mode (raw mk) = Usr" for mk
    using psr_mode_cong [OF mode_bits_eqI, of "raw mk" "a_cpsr c"] bits m(1) by simp
  have same: "set_mode Usr (a_regs c) = (a_regs c)\<lparr>cpsr := psr_set_mode (a_cpsr c) Usr\<rparr>"
    using m(1) by (simp add: set_mode_def)
  define mk where "mk = msr_mask (drop_bit sr_FIELD_SHIFT aux)
    [(1, 0x000000FF), (2, 0x0000FF00), (4, 0x00FF0000), (8, 0xFF000000)] 0"
  have "exec_msr v aux c =
      (if aux AND sr_SPSR \<noteq> 0 then (1, upd_regs (set_spsr v mk) c)
       else (1, set_cpsr (raw mk) (upd_regs (set_mode (psr_mode (raw mk))) c)))"
    using m(2) by (simp only: exec_msr_def Let_def mk_def [symmetric] raw_def top_byte_low
        not_False_eq_True if_True simp_thms if_False)
  then show ?thesis
    using m by (simp add: mode same set_spsr_def user_frame_def bits)
qed

lemma ldm_loop_user:
  "user_mode c \<Longrightarrow> user_frame c (fst (snd (ldm_loop B ub regs is addr pv c b)))"
proof (induction "is" arbitrary: addr pv c b)
  case (Cons i "is")
  let ?v = "fst (ab_read32 B b addr)" and ?b = "snd (ab_read32 B b addr)"
  have um: "user_mode (set_gpr i ?v c)" by (rule user_frame_mode [OF user_frame_set_gpr Cons.prems])
  have "user_frame c (fst (snd (ldm_loop B ub regs is (addr + 4) pv (set_gpr i ?v c) ?b)))"
    by (rule user_frame_trans [OF user_frame_set_gpr Cons.IH [OF um]])
  then show ?case
    using Cons by (cases ub) (simp_all add: case_prod_beta Let_def set_user_reg_user)
qed simp

lemma exec_ldm_user: "user_mode c \<Longrightarrow> user_frame c (fst (snd (exec_ldm B d c b)))"
proof -
  assume u: "user_mode c"
  define r where "r = ldm_loop B (di_aux d AND blk_S \<noteq> 0 \<and> ucast (di_imm d) AND push_bit 15 1 = (0 :: u16))
    (ucast (di_imm d)) [0..<16] (fst (blk_addr d c)) None c b"
  define c1 where "c1 = fst (snd r)"
  have f1: "user_frame c c1" unfolding c1_def r_def by (rule ldm_loop_user [OF u])
  then have u1: "user_mode c1" using u by (rule user_frame_mode)
  define c2 where "c2 = (if di_aux d AND blk_WB \<noteq> 0 \<and> ucast (di_imm d) AND push_bit (unat (di_rn d)) 1 = (0 :: u16)
    then blk_writeback (di_aux d AND blk_S \<noteq> 0 \<and> ucast (di_imm d) AND push_bit 15 1 = (0 :: u16))
      (di_rn d) (snd (blk_addr d c)) c1 else c1)"
  have f2: "user_frame c c2"
    using f1 user_frame_trans [OF f1 user_frame_set_gpr]
    by (simp add: c2_def blk_writeback_def set_user_reg_user u1)
  then have u2: "user_mode c2" using u by (rule user_frame_mode)
  have "fst (snd (exec_ldm B d c b)) =
    (case fst r of None \<Rightarrow> c2
     | Some v \<Rightarrow> let c = (if di_aux d AND blk_S \<noteq> 0 then restore_cpsr c2 else c2)
         in if di_aux d AND blk_EMPTY \<noteq> 0 then set_gpr 15 v c else branch_to v c)"
    by (simp add: exec_ldm_def Let_def case_prod_beta r_def c1_def c2_def split: option.split)
  then show ?thesis
    using f2 user_frame_trans [OF f2 user_frame_set_gpr] user_frame_trans [OF f2 user_frame_branch_to]
    by (auto simp: restore_cpsr_user u2 Let_def split: option.split)
qed

lemma stm_loop_user: "user_frame c (fst (stm_loop B d ub regs low wb is addr c b))"
proof (induction "is" arbitrary: addr c b)
  case (Cons i "is")
  have "user_frame c (fst (stm_loop B d ub regs low wb is a (c\<lparr>icache := x\<rparr>) b))" for a x b
    by (rule user_frame_trans [OF _ Cons.IH]) simp
  then show ?case by (simp add: Let_def case_prod_beta arm_write32_def Cons.IH)
qed simp

lemma exec_stm_user: "user_mode c \<Longrightarrow> user_frame c (fst (snd (exec_stm B d c b)))"
proof -
  assume u: "user_mode c"
  define c1 where "c1 = fst (stm_loop B d (di_aux d AND blk_S \<noteq> 0) (ucast (di_imm d))
    (trailing_zeros (ucast (di_imm d))) (snd (blk_addr d c)) [0..<16] (fst (blk_addr d c)) c b)"
  have f1: "user_frame c c1" unfolding c1_def by (rule stm_loop_user)
  then have u1: "user_mode c1" using u by (rule user_frame_mode)
  show ?thesis
    using f1 user_frame_trans [OF f1 user_frame_set_gpr]
    by (simp add: exec_stm_def Let_def case_prod_beta c1_def [symmetric] blk_writeback_def
        set_user_reg_user u1)
qed

lemma load_tail_user: "user_frame c (snd (load_tail d w wb v c))"
  by (simp add: load_tail_def Let_def user_frame_def xfer_writeback_def branch_to_def)

text \<open>The transfers of one register, and the remaining handlers.\<close>

lemma exec_ldr_user: "user_frame c (fst (snd (exec_ldr B d c b)))"
  by (simp add: exec_ldr_def Let_def case_prod_beta load_tail_user)

lemma exec_ldr_misc_user: "user_frame c (fst (snd (exec_ldr_misc B d c b)))"
  by (simp add: exec_ldr_misc_def Let_def case_prod_beta load_tail_user)

lemmas user_frame_stores = user_frame_def arm_write8_def arm_write16_def arm_write32_def
  xfer_writeback_def

lemma exec_str_user: "user_frame c (fst (snd (exec_str B d c b)))"
  by (simp add: exec_str_def Let_def case_prod_beta user_frame_stores)

lemma exec_str_misc_user: "user_frame c (fst (snd (exec_str_misc B d c b)))"
  by (simp add: exec_str_misc_def Let_def case_prod_beta user_frame_stores)

lemma exec_swp_user: "user_frame c (fst (snd (exec_swp B d c b)))"
  by (simp add: exec_swp_def Let_def case_prod_beta user_frame_stores set_reg_def branch_to_def)

lemma exec_mrs_user: "user_frame c (snd (exec_mrs d c))"
  by (simp add: exec_mrs_def Let_def)

lemma exec_branch_imm_user: "user_frame c (snd (exec_branch_imm d c))"
  by (simp add: exec_branch_imm_def Let_def user_frame_def branch_to_def)

lemma exec_bx_user: "user_frame c (snd (exec_bx d c))"
  by (auto simp: exec_bx_def Let_def user_frame_def branch_to_def flag_simps)

lemma exec_thumb_bl_user: "user_frame c (snd (exec_thumb_bl d c))"
  by (simp add: exec_thumb_bl_def Let_def user_frame_def branch_to_def)

lemma exec_decoded_user:
  assumes "user_mode c" and "di_op d \<noteq> Swi"
  shows "user_frame c (fst (snd (exec_decoded B d c b)))"
  using assms
  by (cases "di_op d")
    (simp_all add: exec_decoded_def on_cpu_def ok_cycles_def exec_dp_user exec_mul_user
      exec_mull_user exec_msr_user exec_ldm_user exec_stm_user exec_ldr_user exec_ldr_misc_user
      exec_str_user exec_str_misc_user exec_swp_user exec_mrs_user exec_branch_imm_user
      exec_bx_user exec_thumb_bl_user)

lemma cached_decode_frame:
  "fst (snd (cached_decode B th pc c b)) = c\<lparr>icache := icache (fst (snd (cached_decode B th pc c b)))\<rparr>"
  by (simp add: cached_decode_def Let_def case_prod_beta)

lemma user_frame_same_regs: "a_regs c' = a_regs c'' \<Longrightarrow> user_frame c c' = user_frame c c''"
  by (simp add: user_frame_def)

text \<open>How a step of a user program can end.\<close>

definition user_outcome :: "ArmCpu \<Rightarrow> ArmCpu \<Rightarrow> bool" where
  "user_outcome c c' \<longleftrightarrow>
     user_frame c c' \<or> (\<exists>e c1. user_frame c c1 \<and> a_regs c' = a_regs (arm_raise e c1))"

lemma exec_insn_user:
  assumes "user_mode c"
  shows "user_outcome c (fst (snd (exec_insn B pc d c b)))"
proof -
  let ?c = "set_gpr 15 (pc + ucast (di_len d)) c"
  have u: "user_mode ?c" by (rule user_frame_mode [OF user_frame_set_gpr assms])
  have f: "user_frame ?c x \<Longrightarrow> user_frame c x" for x by (rule user_frame_trans [OF user_frame_set_gpr])
  have eq: "(case exec_decoded B d ?c b of (Inr n, x, y) \<Rightarrow> x | (Inl e, x, y) \<Rightarrow> snd (fault_epilogue e x))
      = fst (snd (exec_insn B pc d c b))"
    by (simp add: exec_insn_def Let_def case_prod_beta split: sum.split)
  show ?thesis
  proof (cases "cond_pass ?c (di_cond d) \<and> (di_op d = Swi \<or> di_op d = Undef)")
    case True
    have o1: "user_outcome c (arm_raise e (set_gpr 15 x c))" for e x
      unfolding user_outcome_def using user_frame_set_gpr by blast
    have o2: "user_outcome c (set_host_trap t (c\<lparr>a_regs := r\<rparr>))" if "user_frame c (c\<lparr>a_regs := r\<rparr>)" for t r
      using that by (simp add: user_outcome_def user_frame_def set_host_trap_def)
    show ?thesis
      unfolding eq [symmetric] using True
      by (auto simp: exec_decoded_def on_cpu_def exec_swi_def fault_epilogue_def o1 o2 user_frame_def)
  next
    case False
    then have "\<exists>n. fst (exec_decoded B d ?c b) = Inr n"
      by (cases "di_op d") (auto simp: exec_decoded_def on_cpu_def ok_cycles_def)
    then have e: "fst (snd (exec_insn B pc d c b)) = fst (snd (exec_decoded B d ?c b))"
      unfolding eq [symmetric] by (auto simp: case_prod_beta)
    have "user_frame ?c (fst (snd (exec_decoded B d ?c b)))"
    proof (cases "di_op d = Swi")
      case True
      then show ?thesis using False by (simp add: exec_decoded_def)
    next
      case False
      then show ?thesis by (rule exec_decoded_user [OF u])
    qed
    then show ?thesis unfolding user_outcome_def e using f by blast
  qed
qed

lemma step_fast_user:
  assumes "user_mode c"
  shows "user_outcome c (fst (snd (step_fast B c b)))"
proof -
  define th pc where "th = psr_t (a_cpsr c)" and "pc = a_gpr c 15 AND (if th then NOT 1 else NOT 3)"
  let ?c = "c\<lparr>thumb := th, start_pc := pc\<rparr>"
  define c1 where "c1 = fst (snd (cached_decode B th pc ?c b))"
  have c1: "a_regs c1 = a_regs c" unfolding c1_def by (subst cached_decode_frame) simp
  have o: "user_outcome c1 x \<Longrightarrow> user_outcome c x" for x
    using c1 by (simp add: user_outcome_def user_frame_def)
  have "user_mode c1" using assms c1 by (simp add: user_mode_def)
  then have "user_outcome c (fst (snd (exec_insn B pc (fst (cached_decode B th pc ?c b)) c1
      (snd (snd (cached_decode B th pc ?c b))))))"
    by (intro o exec_insn_user)
  moreover have "user_outcome c (x\<lparr>a_cycles := y\<rparr>) = user_outcome c x" for x y
    by (simp add: user_outcome_def user_frame_def)
  ultimately show ?thesis
    by (simp add: step_fast_def exec_one_def Let_def case_prod_beta c1_def th_def pc_def)
qed

lemma step_slow_user:
  assumes "user_mode c"
  shows "user_outcome c (fst (snd (step_slow B c b)))"
proof -
  let ?c = "c\<lparr>events := events c AND NOT EVT_HOST_TRAP\<rparr>"
  have u: "user_mode ?c" using assms by (simp add: user_mode_def)
  have o: "user_outcome ?c x = user_outcome c x" for x by (simp add: user_outcome_def user_frame_def)
  have r: "user_outcome c ((arm_raise e (?c\<lparr>a_halted := False\<rparr>))\<lparr>a_cycles := y\<rparr>)" for e y
    unfolding user_outcome_def
    by (intro disjI2 exI [of _ e] exI [of _ "?c\<lparr>a_halted := False\<rparr>"]) (simp add: user_frame_def)
  have h: "user_outcome c (?c\<lparr>a_cycles := y\<rparr>)" for y by (simp add: user_outcome_def user_frame_def)
  show ?thesis
    using r h step_fast_user [OF u, of B b] by (simp add: step_slow_def Let_def o)
qed

text \<open>
  C3. User mode is confined. One step of a User-mode program either leaves the mode and
  interrupt-mask bits, every saved status register and every other mode's banked registers exactly
  as they were, or enters one of the six exceptions from such a state; no instruction, \<open>MSR\<close>, the
  flag-setting writes of PC and the S forms of \<open>LDM\<close> and \<open>STM\<close> included, changes mode otherwise.
\<close>

theorem user_mode_confined:
  assumes "user_mode c"
  shows "(case arm_step B c b of (n, c', b') \<Rightarrow>
     user_frame c c' \<or> (\<exists>e c1. user_frame c c1 \<and> a_regs c' = a_regs (arm_raise e c1)))"
  using step_fast_user [OF assms, of B b] step_slow_user [OF assms, of B b]
  by (auto simp: arm_step_def case_prod_beta user_outcome_def)

text \<open>A user program that tries \<open>MSR CPSR_c, #0x13\<close>.\<close>

theorem user_mode_confined_witness:
  "(case arm_step LinearMemory_bus (upd_regs (set_mode Usr) ArmCpu_new)
       (LinearMemory_load LinearMemory_new 0 [0x13, 0xF0, 0x21, 0xE3]) of (n, c', b') \<Rightarrow>
     user_frame (upd_regs (set_mode Usr) ArmCpu_new) c' \<or>
     (\<exists>e c1. user_frame (upd_regs (set_mode Usr) ArmCpu_new) c1 \<and> a_regs c' = a_regs (arm_raise e c1)))"
proof (rule user_mode_confined)
  show "user_mode (upd_regs (set_mode Usr) ArmCpu_new)"
    by (simp add: user_mode_def psr_mode_bits_def set_mode_cpsr)
qed

end
