(* ===== verification/Arm_Run.thy ===== *)
theory Arm_Run
  imports Arm_Step
begin

text \<open>
  Batches against single steps: \<open>Cpu::run\<close> of \<open>src/arm32/mod.rs\<close> and its boundary bookkeeping
  (the doorbell bit of \<open>events\<close>) refine repeated \<open>Cpu::step\<close>.
\<close>

text \<open>Everything but the registers and the cache: no handler except \<open>SWI\<close> touches it.\<close>

definition host_frame :: "ArmCpu \<Rightarrow> ArmCpu \<Rightarrow> bool" where
  "host_frame c c' \<longleftrightarrow>
     events c' = events c \<and> host_trap c' = host_trap c \<and> a_halted c' = a_halted c \<and>
     trap_swi c' = trap_swi c \<and> trap_faults c' = trap_faults c \<and> a_cycles c' = a_cycles c \<and>
     start_pc c' = start_pc c \<and> thumb c' = thumb c"

lemma host_frame_refl [simp]: "host_frame c c"
  by (simp add: host_frame_def)

lemma host_frame_trans: "host_frame a b \<Longrightarrow> host_frame b c \<Longrightarrow> host_frame a c"
  by (simp add: host_frame_def)

lemma host_frame_upd [simp]:
  "host_frame c (c'\<lparr>a_regs := r\<rparr>) = host_frame c c'" "host_frame c (c'\<lparr>icache := ic\<rparr>) = host_frame c c'"
  by (simp_all add: host_frame_def)

lemma host_frame_regs [simp]:
  "host_frame c (branch_to v c') = host_frame c c'" "host_frame c (set_reg i v c') = host_frame c c'"
  "host_frame c (restore_cpsr c') = host_frame c c'"
  "host_frame c (xfer_writeback rn wb c') = host_frame c c'"
  "host_frame c (blk_writeback ub rn wb c') = host_frame c c'"
  by (simp_all add: branch_to_def set_reg_def restore_cpsr_def xfer_writeback_def blk_writeback_def
      split: option.split)

lemma host_frame_raise [simp]: "host_frame c (arm_raise e c') = host_frame c c'"
  by (cases e) (simp_all add: arm_raise_def Let_def)

lemma ldm_loop_host: "host_frame c0 c \<Longrightarrow> host_frame c0 (fst (snd (ldm_loop B ub regs is addr pv c b)))"
  by (cases ub; induction "is" arbitrary: addr pv c b) (simp_all add: Let_def case_prod_beta)

lemma stm_loop_host: "host_frame c0 c \<Longrightarrow> host_frame c0 (fst (stm_loop B d ub regs low wb is addr c b))"
  by (induction "is" arbitrary: addr c b) (simp_all add: Let_def case_prod_beta arm_write32_def)

lemmas handler_defs = exec_dp_def exec_mul_def exec_mull_def exec_msr_def exec_mrs_def
  exec_branch_imm_def exec_bx_def exec_thumb_bl_def exec_ldr_def exec_str_def exec_ldr_misc_def
  exec_str_misc_def exec_swp_def load_tail_def arm_write8_def arm_write16_def arm_write32_def

lemma exec_ldm_host: "host_frame c (fst (snd (exec_ldm B d c b)))"
  by (simp add: exec_ldm_def Let_def case_prod_beta ldm_loop_host split: option.split)

lemma exec_stm_host: "host_frame c (fst (snd (exec_stm B d c b)))"
  by (simp add: exec_stm_def Let_def case_prod_beta stm_loop_host)

lemma exec_decoded_host:
  "di_op d \<noteq> Swi \<Longrightarrow> host_frame c (fst (snd (exec_decoded B d c b)))"
  by (cases "di_op d")
    (simp_all add: exec_decoded_def on_cpu_def ok_cycles_def exec_ldm_host exec_stm_host,
     simp_all add: handler_defs Let_def case_prod_beta del: msr_mask.simps)

text \<open>A host trap that a step records also rings the doorbell bit of \<open>events\<close>.\<close>

definition doorbell :: "ArmCpu \<Rightarrow> bool" where
  "doorbell c \<longleftrightarrow> (host_trap c \<noteq> None \<longrightarrow> events c AND EVT_HOST_TRAP \<noteq> 0)"

lemma set_host_trap_doorbell: "doorbell (set_host_trap t c)"
proof -
  have "bit (events c OR EVT_HOST_TRAP) 2" by (simp add: EVT_HOST_TRAP_def bit_simps)
  then show ?thesis
    using and_push_bit_one [of "events c OR EVT_HOST_TRAP" 2]
    by (simp add: doorbell_def set_host_trap_def EVT_HOST_TRAP_def)
qed

lemma host_frame_doorbell: "host_frame c c' \<Longrightarrow> host_trap c = None \<Longrightarrow> doorbell c'"
  by (simp add: host_frame_def doorbell_def)

lemma exec_insn_doorbell:
  assumes "host_trap c = None"
  shows "doorbell (fst (snd (exec_insn B pc d c b)))"
proof -
  let ?c = "set_gpr 15 (pc + ucast (di_len d)) c"
  have eq: "fst (snd (exec_insn B pc d c b)) =
      (case exec_decoded B d ?c b of (Inr n, x, y) \<Rightarrow> x | (Inl e, x, y) \<Rightarrow> snd (fault_epilogue e x))"
    by (simp add: exec_insn_def Let_def case_prod_beta split: sum.split)
  have f: "doorbell (snd (fault_epilogue e x))" if "host_frame c x" for e x
    using that host_frame_doorbell [OF that assms] host_frame_doorbell [of c "arm_raise e x"] assms
    by (simp add: fault_epilogue_def set_host_trap_doorbell)
  show ?thesis
  proof (cases "di_op d = Swi")
    case True
    have "doorbell ?c" using assms by (simp add: doorbell_def)
    then show ?thesis
      unfolding eq using True assms host_frame_doorbell [of c "arm_raise Exc_Swi ?c"]
      by (simp add: exec_decoded_def on_cpu_def exec_swi_def set_host_trap_doorbell)
  next
    case False
    have "host_frame c (fst (snd (exec_decoded B d ?c b)))"
      using exec_decoded_host [OF False, of ?c B b] by (simp add: host_frame_def)
    then show ?thesis
      unfolding eq using f host_frame_doorbell [OF _ assms]
      by (simp add: case_prod_beta split: sum.split)
  qed
qed

lemma step_fast_doorbell:
  assumes "host_trap c = None"
  shows "doorbell (fst (snd (step_fast B c b)))"
proof -
  define th pc where "th = psr_t (a_cpsr c)" and "pc = a_gpr c 15 AND (if th then NOT 1 else NOT 3)"
  let ?c = "c\<lparr>thumb := th, start_pc := pc\<rparr>"
  let ?r = "cached_decode B th pc ?c b"
  have "host_trap (fst (snd ?r)) = None"
    using assms by (simp add: cached_decode_def Let_def case_prod_beta)
  from exec_insn_doorbell [OF this, of B pc "fst ?r" "snd (snd ?r)"]
  show ?thesis
    by (simp add: step_fast_def exec_one_def Let_def case_prod_beta doorbell_def th_def pc_def)
qed

lemma step_slow_doorbell:
  assumes "host_trap c = None"
  shows "doorbell (fst (snd (step_slow B c b)))"
proof -
  let ?c = "c\<lparr>events := events c AND NOT EVT_HOST_TRAP\<rparr>"
  have "host_trap (arm_raise e x) = host_trap x" for e x
    using host_frame_raise [of x e x] by (simp add: host_frame_def)
  then show ?thesis
    using assms step_fast_doorbell [of ?c B b]
    by (simp add: step_slow_def Let_def doorbell_def)
qed

lemma arm_step_doorbell: "host_trap c = None \<Longrightarrow> doorbell (fst (snd (arm_step B c b)))"
  by (simp add: arm_step_def step_fast_doorbell step_slow_doorbell)

text \<open>\<open>k\<close> individual steps.\<close>

fun steps :: "'b ArmBus \<Rightarrow> nat \<Rightarrow> ArmCpu \<times> 'b \<Rightarrow> ArmCpu \<times> 'b" where
  "steps B 0 s = s"
| "steps B (Suc k) s = steps B k (snd (arm_step B (fst s) (snd s)))"

definition quiet :: "ArmCpu \<Rightarrow> ArmCpu" where
  "quiet c = c\<lparr>events := events c AND NOT EVT_HOST_TRAP\<rparr>"

text \<open>What a batch that ended with \<open>r\<close> in state \<open>(c', b')\<close> did, after \<open>k\<close> steps from \<open>s\<close>.\<close>

definition batch_ok :: "'b ArmBus \<Rightarrow> nat \<Rightarrow> nat \<Rightarrow> ArmCpu \<times> 'b \<Rightarrow> RunExit \<Rightarrow> ArmCpu \<Rightarrow> 'b \<Rightarrow> bool" where
  "batch_ok B n k s ex c' b' \<longleftrightarrow>
     k \<le> n \<and> quiet c' = quiet (fst (steps B k s)) \<and> b' = snd (steps B k s) \<and>
     (\<forall>j < k. host_trap (fst (steps B j s)) = None) \<and>
     (case ex of
        Run_Completed \<Rightarrow> k = n
      | Run_HostTrap \<Rightarrow> host_trap c' \<noteq> None
      | Run_Halted \<Rightarrow> a_halted c' \<and> \<not> interrupt_pending c')"

lemma batch_ok_Suc:
  assumes "batch_ok B n k (snd (arm_step B c b)) ex c' b'" and "host_trap c = None"
  shows "batch_ok B (Suc n) (Suc k) (c, b) ex c' b'"
proof -
  have "host_trap (fst (steps B j (c, b))) = None" if "j < Suc k" for j
    using that assms by (cases j) (simp_all add: batch_ok_def)
  then show ?thesis using assms by (auto simp: batch_ok_def split: RunExit.splits)
qed

lemma quiet_quiet [simp]: "quiet (c\<lparr>events := events c AND NOT EVT_HOST_TRAP\<rparr>) = quiet c"
  by (simp add: quiet_def and.assoc)

lemma run_loop_batch:
  "doorbell c \<Longrightarrow>
   \<exists>k. batch_ok B n k (c, b) (rr_exit (fst (run_loop B n e c b)))
       (fst (snd (run_loop B n e c b))) (snd (snd (run_loop B n e c b))) \<and>
     rr_executed (fst (run_loop B n e c b)) = e + of_nat k"
proof (induction n arbitrary: e c b)
  case 0
  then show ?case by (intro exI [of _ 0]) (simp add: batch_ok_def)
next
  case (Suc n)
  have step: "\<exists>k. batch_ok B (Suc n) k (c, b) (rr_exit (fst (run_loop B (Suc n) e c b)))
       (fst (snd (run_loop B (Suc n) e c b))) (snd (snd (run_loop B (Suc n) e c b))) \<and>
     rr_executed (fst (run_loop B (Suc n) e c b)) = e + of_nat k"
    if eq: "run_loop B (Suc n) e c b = run_loop B n (e + 1) c2 b2"
      and s: "snd (arm_step B c b) = (c2, b2)" and nt: "host_trap c = None" for c2 b2
  proof -
    have "doorbell c2" using arm_step_doorbell [OF nt, of B b] s by simp
    from Suc.IH [OF this, where e = "e + 1" and b = b2] obtain k where
      k: "batch_ok B n k (c2, b2) (rr_exit (fst (run_loop B n (e + 1) c2 b2)))
        (fst (snd (run_loop B n (e + 1) c2 b2))) (snd (snd (run_loop B n (e + 1) c2 b2)))"
      "rr_executed (fst (run_loop B n (e + 1) c2 b2)) = e + 1 + of_nat k" by auto
    show ?thesis
      unfolding eq using batch_ok_Suc [of B n k c b] k s nt
      by (intro exI [of _ "Suc k"]) (simp add: algebra_simps)
  qed
  show ?case
  proof (cases "boundary_pending c")
    case False
    then have "host_trap c = None"
      using Suc.prems by (auto simp: boundary_pending_def doorbell_def)
    moreover obtain m c2 b2 where "step_fast B c b = (m, c2, b2)" by (cases "step_fast B c b")
    ultimately show ?thesis using False by (intro step) (simp_all add: arm_step_def)
  next
    case True
    show ?thesis
    proof (cases "host_trap c \<noteq> None \<or> (a_halted c \<and> \<not> interrupt_pending c)")
      case stop: True
      then show ?thesis
        using True by (intro exI [of _ 0]) (auto simp: run_boundary_def batch_ok_def)
    next
      case go: False
      obtain m c2 b2 where "step_slow B c b = (m, c2, b2)" by (cases "step_slow B c b")
      with go True show ?thesis by (intro step) (auto simp: arm_step_def run_boundary_def)
    qed
  qed
qed

text \<open>
  C4. A batch is its single steps. \<open>run\<close> from a state without a host trap executes some number
  \<open>k\<close> of step units, reports it, and leaves exactly the processor and memory that \<open>k\<close> calls of
  \<open>step\<close> leave (up to the internal doorbell bit); no unit executes past a recorded host trap; and it
  ends only when all units are done, a trap is pending, or the processor idles with no interrupt.
\<close>

theorem run_is_steps:
  assumes "host_trap c = None"
  shows "case arm_run B n c b of (r, c', b') \<Rightarrow>
    \<exists>k. rr_executed r = of_nat k \<and> batch_ok B (unat n) k (c, b) (rr_exit r) c' b'"
  using run_loop_batch [of c B "unat n" b 0] assms
  by (auto simp: arm_run_def doorbell_def case_prod_beta)

theorem run_is_steps_witness:
  "case arm_run LinearMemory_bus 2 (ArmCpu_new\<lparr>a_halted := True\<rparr>) LinearMemory_new of (r, c', b') \<Rightarrow>
    \<exists>k. rr_executed r = of_nat k \<and>
      batch_ok LinearMemory_bus (unat (2 :: u64)) k (ArmCpu_new\<lparr>a_halted := True\<rparr>, LinearMemory_new)
        (rr_exit r) c' b'"
  by (rule run_is_steps) (simp add: ArmCpu_new_def)

end
