(* ===== verification/Arm_CacheFree.thy ===== *)
theory Arm_CacheFree
  imports Arm_Step
begin

text \<open>
  The handlers of \<open>src/arm32/execute.rs\<close> write the decoded-instruction cache (through the store stamps)
  but never read it: from two processors that differ only in the cache they compute the same results,
  registers and memory.
\<close>

subsection \<open>Handlers do not read the cache\<close>

lemma accessors_icache [simp]:
  "pc_op (c\<lparr>icache := x\<rparr>) = pc_op c" "reg_op (c\<lparr>icache := x\<rparr>) i = reg_op c i"
  "reg_op12 (c\<lparr>icache := x\<rparr>) i = reg_op12 c i" "pc_store (c\<lparr>icache := x\<rparr>) = pc_store c"
  "cond_pass (c\<lparr>icache := x\<rparr>) k = cond_pass c k" "xfer_addr d (c\<lparr>icache := x\<rparr>) = xfer_addr d c"
  "hw_addr d (c\<lparr>icache := x\<rparr>) = hw_addr d c" "blk_addr d (c\<lparr>icache := x\<rparr>) = blk_addr d c"
  "dp_operand2 d (c\<lparr>icache := x\<rparr>) = dp_operand2 d c" "store_value d (c\<lparr>icache := x\<rparr>) = store_value d c"
  by (simp_all add: pc_op_def reg_op_def reg_op12_def pc_store_def cond_pass_def xfer_addr_def
      hw_addr_def blk_addr_def dp_operand2_def store_value_def Let_def split: Op.split)

lemma updates_icache [simp]:
  "branch_to v (c\<lparr>icache := x\<rparr>) = (branch_to v c)\<lparr>icache := x\<rparr>"
  "set_reg i v (c\<lparr>icache := x\<rparr>) = (set_reg i v c)\<lparr>icache := x\<rparr>"
  "restore_cpsr (c\<lparr>icache := x\<rparr>) = (restore_cpsr c)\<lparr>icache := x\<rparr>"
  "xfer_writeback rn wb (c\<lparr>icache := x\<rparr>) = (xfer_writeback rn wb c)\<lparr>icache := x\<rparr>"
  "blk_writeback ub rn wb (c\<lparr>icache := x\<rparr>) = (blk_writeback ub rn wb c)\<lparr>icache := x\<rparr>"
  "set_host_trap t (c\<lparr>icache := x\<rparr>) = (set_host_trap t c)\<lparr>icache := x\<rparr>"
  "arm_raise e (c\<lparr>icache := x\<rparr>) = (arm_raise e c)\<lparr>icache := x\<rparr>"
  by (simp_all add: branch_to_def set_reg_def restore_cpsr_def xfer_writeback_def
      blk_writeback_def set_host_trap_def arm_raise_def Let_def split: option.split Exception.split)

lemma updates_keep_icache [simp]:
  "icache (branch_to v c) = icache c" "icache (set_reg i v c) = icache c"
  "icache (restore_cpsr c) = icache c" "icache (xfer_writeback rn wb c) = icache c"
  "icache (blk_writeback ub rn wb c) = icache c" "icache (set_host_trap t c) = icache c"
  "icache (arm_raise e c) = icache c"
  by (simp_all add: branch_to_def set_reg_def restore_cpsr_def xfer_writeback_def
      blk_writeback_def set_host_trap_def arm_raise_def Let_def split: option.split)

text \<open>The same result up to the cache.\<close>

definition strip :: "ArmCpu \<Rightarrow> ArmCpu" where
  "strip c = c\<lparr>icache := ICache_new\<rparr>"

lemma strip_upd [simp]: "strip (c\<lparr>icache := x\<rparr>) = strip c"
  by (simp add: strip_def)

lemma icache_regs_commute: "c\<lparr>icache := x, a_regs := r\<rparr> = (c\<lparr>a_regs := r\<rparr>)\<lparr>icache := x\<rparr>"
  by simp

lemma updates_icache_regs [simp]:
  "branch_to v (c\<lparr>icache := x, a_regs := r\<rparr>) = (branch_to v (c\<lparr>a_regs := r\<rparr>))\<lparr>icache := x\<rparr>"
  "set_reg i v (c\<lparr>icache := x, a_regs := r\<rparr>) = (set_reg i v (c\<lparr>a_regs := r\<rparr>))\<lparr>icache := x\<rparr>"
  "restore_cpsr (c\<lparr>icache := x, a_regs := r\<rparr>) = (restore_cpsr (c\<lparr>a_regs := r\<rparr>))\<lparr>icache := x\<rparr>"
  by (subst icache_regs_commute, rule updates_icache)+

lemma cpu_handlers_icache:
  "exec_dp d (c\<lparr>icache := x\<rparr>) = (fst (exec_dp d c), (snd (exec_dp d c))\<lparr>icache := x\<rparr>)"
  "exec_mul d (c\<lparr>icache := x\<rparr>) = (fst (exec_mul d c), (snd (exec_mul d c))\<lparr>icache := x\<rparr>)"
  "exec_mull d (c\<lparr>icache := x\<rparr>) = (fst (exec_mull d c), (snd (exec_mull d c))\<lparr>icache := x\<rparr>)"
  "exec_msr v a (c\<lparr>icache := x\<rparr>) = (fst (exec_msr v a c), (snd (exec_msr v a c))\<lparr>icache := x\<rparr>)"
  "exec_mrs d (c\<lparr>icache := x\<rparr>) = (fst (exec_mrs d c), (snd (exec_mrs d c))\<lparr>icache := x\<rparr>)"
  "exec_branch_imm d (c\<lparr>icache := x\<rparr>) =
     (fst (exec_branch_imm d c), (snd (exec_branch_imm d c))\<lparr>icache := x\<rparr>)"
  "exec_bx d (c\<lparr>icache := x\<rparr>) = (fst (exec_bx d c), (snd (exec_bx d c))\<lparr>icache := x\<rparr>)"
  "exec_thumb_bl d (c\<lparr>icache := x\<rparr>) =
     (fst (exec_thumb_bl d c), (snd (exec_thumb_bl d c))\<lparr>icache := x\<rparr>)"
  "exec_swi (c\<lparr>icache := x\<rparr>) = (fst (exec_swi c), (snd (exec_swi c))\<lparr>icache := x\<rparr>)"
  "load_tail d w wb v (c\<lparr>icache := x\<rparr>) =
     (fst (load_tail d w wb v c), (snd (load_tail d w wb v c))\<lparr>icache := x\<rparr>)"
  by (simp_all add: exec_dp_def exec_mul_def exec_mull_def exec_msr_def exec_mrs_def
      exec_branch_imm_def exec_bx_def exec_thumb_bl_def exec_swi_def load_tail_def Let_def
      case_prod_beta del: msr_mask.simps)

lemma cpu_handlers_keep_icache [simp]:
  "icache (snd (exec_dp d c)) = icache c" "icache (snd (exec_mul d c)) = icache c"
  "icache (snd (exec_mull d c)) = icache c" "icache (snd (exec_msr v a c)) = icache c"
  "icache (snd (exec_mrs d c)) = icache c" "icache (snd (exec_branch_imm d c)) = icache c"
  "icache (snd (exec_bx d c)) = icache c" "icache (snd (exec_thumb_bl d c)) = icache c"
  "icache (snd (exec_swi c)) = icache c" "icache (snd (load_tail d w wb v c)) = icache c"
  by (simp_all add: exec_dp_def exec_mul_def exec_mull_def exec_msr_def exec_mrs_def
      exec_branch_imm_def exec_bx_def exec_thumb_bl_def exec_swi_def load_tail_def Let_def
      case_prod_beta del: msr_mask.simps)

lemma ldm_loop_icache:
  "ldm_loop B ub regs is addr pv (c\<lparr>icache := x\<rparr>) b =
     (fst (ldm_loop B ub regs is addr pv c b),
      (fst (snd (ldm_loop B ub regs is addr pv c b)))\<lparr>icache := x\<rparr>,
      snd (snd (ldm_loop B ub regs is addr pv c b)))"
proof (induction "is" arbitrary: addr pv c b)
  case (Cons i "is")
  note ih = Cons.IH
  have "ldm_loop B ub regs is a q (c\<lparr>icache := x, a_regs := r\<rparr>) y =
     (fst (ldm_loop B ub regs is a q (c\<lparr>a_regs := r\<rparr>) y),
      (fst (snd (ldm_loop B ub regs is a q (c\<lparr>a_regs := r\<rparr>) y)))\<lparr>icache := x\<rparr>,
      snd (snd (ldm_loop B ub regs is a q (c\<lparr>a_regs := r\<rparr>) y)))" for a q r y
    by (subst icache_regs_commute) (rule Cons.IH)
  with ih show ?case by (cases ub) (simp_all add: Let_def case_prod_beta)
qed simp

lemma ldm_loop_keep_icache [simp]:
  "icache (fst (snd (ldm_loop B ub regs is addr pv c b))) = icache c"
  by (cases ub; induction "is" arbitrary: addr pv c b) (simp_all add: Let_def case_prod_beta)

text \<open>The handlers that store: the same registers and memory, some cache.\<close>

definition up_to_cache :: "'a \<times> ArmCpu \<times> 'b \<Rightarrow> 'a \<times> ArmCpu \<times> 'b \<Rightarrow> bool" where
  "up_to_cache r s \<longleftrightarrow> fst r = fst s \<and> strip (fst (snd r)) = strip (fst (snd s)) \<and> snd (snd r) = snd (snd s)"

lemma strip_eqI: "strip c = strip c' \<Longrightarrow> \<exists>x. c = c'\<lparr>icache := x\<rparr>"
  by (rule exI [of _ "icache c"], cases c, cases c') (simp add: strip_def)

lemma strip_a_regs: "strip c = strip c' \<Longrightarrow> a_regs c = a_regs c'"
  using strip_eqI by force

lemma strip_regs: "strip c = strip c' \<Longrightarrow> strip (c\<lparr>a_regs := r\<rparr>) = strip (c'\<lparr>a_regs := r\<rparr>)"
  by (cases c, cases c') (simp add: strip_def)

lemma stm_loop_icache:
  "strip c = strip c' \<Longrightarrow>
   strip (fst (stm_loop B d ub regs low wb is addr c b)) = strip (fst (stm_loop B d ub regs low wb is addr c' b)) \<and>
   snd (stm_loop B d ub regs low wb is addr c b) = snd (stm_loop B d ub regs low wb is addr c' b)"
proof (induction "is" arbitrary: addr c c' b)
  case (Cons i "is")
  obtain x where c: "c = c'\<lparr>icache := x\<rparr>" using strip_eqI [OF Cons.prems] by blast
  have ih: "strip (fst (stm_loop B d ub regs low wb is a (c'\<lparr>icache := y\<rparr>) q))
      = strip (fst (stm_loop B d ub regs low wb is a (c'\<lparr>icache := z\<rparr>) q)) \<and>
    snd (stm_loop B d ub regs low wb is a (c'\<lparr>icache := y\<rparr>) q)
      = snd (stm_loop B d ub regs low wb is a (c'\<lparr>icache := z\<rparr>) q)" for a y z q
    by (rule Cons.IH) simp
  have ih': "strip (fst (stm_loop B d ub regs low wb is a (c'\<lparr>icache := y\<rparr>) q))
      = strip (fst (stm_loop B d ub regs low wb is a c' q)) \<and>
    snd (stm_loop B d ub regs low wb is a (c'\<lparr>icache := y\<rparr>) q) = snd (stm_loop B d ub regs low wb is a c' q)" for a y q
    by (rule Cons.IH) simp
  show ?case
    unfolding c
    using ih [of "addr + 4" _ _ _] ih' by (simp add: Let_def case_prod_beta arm_write32_def)
qed simp

lemma store_handlers_icache:
  "up_to_cache (exec_ldr B d (c\<lparr>icache := x\<rparr>) b) (exec_ldr B d c b)"
  "up_to_cache (exec_ldr_misc B d (c\<lparr>icache := x\<rparr>) b) (exec_ldr_misc B d c b)"
  "up_to_cache (exec_str B d (c\<lparr>icache := x\<rparr>) b) (exec_str B d c b)"
  "up_to_cache (exec_str_misc B d (c\<lparr>icache := x\<rparr>) b) (exec_str_misc B d c b)"
  "up_to_cache (exec_swp B d (c\<lparr>icache := x\<rparr>) b) (exec_swp B d c b)"
  by (simp_all add: up_to_cache_def exec_ldr_def exec_ldr_misc_def exec_str_def exec_str_misc_def
      exec_swp_def arm_write8_def arm_write16_def arm_write32_def Let_def case_prod_beta
      cpu_handlers_icache)

lemma exec_ldm_icache: "up_to_cache (exec_ldm B d (c\<lparr>icache := x\<rparr>) b) (exec_ldm B d c b)"
  by (simp add: up_to_cache_def exec_ldm_def Let_def case_prod_beta ldm_loop_icache strip_def
      split: option.split)

lemma blk_writeback_strip: "strip c = strip c' \<Longrightarrow> strip (blk_writeback ub rn wb c) = strip (blk_writeback ub rn wb c')"
  by (auto dest!: strip_eqI)

lemma exec_stm_icache: "up_to_cache (exec_stm B d (c\<lparr>icache := x\<rparr>) b) (exec_stm B d c b)"
proof -
  have e: "strip (c\<lparr>icache := x\<rparr>) = strip c" by simp
  let ?l = "\<lambda>c. stm_loop B d (di_aux d AND blk_S \<noteq> 0) (ucast (di_imm d))
    (trailing_zeros (ucast (di_imm d))) (snd (blk_addr d c)) [0..<16] (fst (blk_addr d c)) c b"
  have l: "strip (fst (?l (c\<lparr>icache := x\<rparr>))) = strip (fst (?l c))"
    "snd (?l (c\<lparr>icache := x\<rparr>)) = snd (?l c)"
    unfolding accessors_icache by (rule stm_loop_icache [OF e, THEN conjunct1] stm_loop_icache [OF e, THEN conjunct2])+
  have "exec_stm B d c b = (of_nat (count_ones (ucast (di_imm d))) + 1,
      (if di_aux d AND blk_WB \<noteq> 0
       then blk_writeback (di_aux d AND blk_S \<noteq> 0) (di_rn d) (snd (blk_addr d c)) (fst (?l c))
       else fst (?l c)), snd (?l c))" for c
    by (simp add: exec_stm_def Let_def case_prod_beta)
  then show ?thesis
    using l(1) blk_writeback_strip [OF l(1)] l(2) by (simp add: up_to_cache_def)
qed

lemma exec_decoded_icache:
  "up_to_cache (exec_decoded B d (c\<lparr>icache := x\<rparr>) b) (exec_decoded B d c b)"
  using store_handlers_icache [where B = B and d = d and c = c and x = x and b = b]
    exec_ldm_icache [where B = B and d = d and c = c and x = x and b = b]
    exec_stm_icache [where B = B and d = d and c = c and x = x and b = b]
  by (cases "di_op d")
    (simp_all add: exec_decoded_def on_cpu_def ok_cycles_def cpu_handlers_icache up_to_cache_def)

lemma exec_insn_icache:
  assumes "strip c = strip c'"
  shows "up_to_cache (exec_insn B pc d c b) (exec_insn B pc d c' b)"
proof -
  let ?e = "\<lambda>c. exec_decoded B d (set_gpr 15 (pc + ucast (di_len d)) c) b"
  obtain x where c: "c = c'\<lparr>icache := x\<rparr>" using strip_eqI [OF assms] by blast
  have "set_gpr 15 (pc + ucast (di_len d)) c = (set_gpr 15 (pc + ucast (di_len d)) c')\<lparr>icache := x\<rparr>"
    by (simp add: c)
  then have u: "up_to_cache (?e c) (?e c')" by (simp only: exec_decoded_icache)
  then obtain y where y: "fst (snd (?e c)) = (fst (snd (?e c')))\<lparr>icache := y\<rparr>"
    using strip_eqI unfolding up_to_cache_def by blast
  have f: "strip (snd (fault_epilogue e (z\<lparr>icache := y\<rparr>))) = strip (snd (fault_epilogue e z))" for e z
    by (simp add: fault_epilogue_def set_host_trap_def strip_def)
  have eq: "exec_insn B pc d c b =
      (case fst (?e c) of Inr n \<Rightarrow> (n, snd (?e c))
       | Inl e \<Rightarrow> (EXCEPTION_CYCLES, snd (fault_epilogue e (fst (snd (?e c)))), snd (snd (?e c))))" for c
    by (simp add: exec_insn_def Let_def case_prod_beta fault_epilogue_def split: sum.split)
  show ?thesis
    unfolding eq using u f y by (auto simp: up_to_cache_def split: sum.split)
qed

end
