(* ===== verification/Arm_Cache.thy ===== *)
theory Arm_Cache
  imports Arm_CacheFree
begin

text \<open>
  The decoded-instruction cache of \<open>src/arm32/icache.rs\<close> is transparent: the machine with the cache and
  the machine that decodes every instruction afresh compute the same, on every memory whose aliases the
  write stamps cannot tell apart. The locale \<open>cached_memory\<close> is the contract of such a memory, on top
  of \<open>arm_memory\<close>; it is interpreted on \<open>LinearMemory\<close> of 64 MiB or more. On the smaller default memory
  the cache is not exact, which the last theorem shows on a concrete run.
\<close>

subsection \<open>Stamps\<close>

lemma stamp_slot_mod: "stamp_slot a = unat a div 4096 mod 16384"
proof -
  have m: "(16383 :: nat) = mask 14" by (simp add: mask_eq_exp_minus_1)
  have "unat (drop_bit 12 a) = drop_bit 12 (unat a)" by (rule unat_drop_bit_eq)
  also have "\<dots> = unat a div 4096" by (simp add: drop_bit_eq_div)
  finally show ?thesis by (simp add: stamp_slot_def STAMP_SLOTS_def m and_mask_mod)
qed

lemma stamp_slot_within:
  assumes "k dvd 4096" and "k dvd unat a" and "j < k"
  shows "stamp_slot (a + of_nat j) = stamp_slot a"
proof -
  obtain q where q: "unat a = k * q" using assms(2) by blast
  obtain p where p: "4096 = k * p" using assms(1) by blast
  have k: "0 < k" using assms(3) by simp
  have "(2 :: nat) ^ 32 = k * (p * 2 ^ 20)" using p by simp
  moreover have "unat a < 2 ^ 32" using unat_u32_less [of a] by simp
  ultimately have "k * q < k * (p * 2 ^ 20)" using q by metis
  then have "q < p * 2 ^ 20" by simp
  then have "k * q + k \<le> k * (p * 2 ^ 20)" by (metis Suc_leI add.commute mult_Suc_right mult_le_mono2)
  then have lt: "unat a + j < 2 ^ 32" using \<open>2 ^ 32 = k * (p * 2 ^ 20)\<close> q assms(3) by linarith
  then have "unat (a + of_nat j) = unat a + j"
    by (simp add: unat_word_ariths unat_of_nat)
  moreover have "(unat a + j) div 4096 = unat a div 4096"
  proof -
    have "(k * q + j) div (k * p) = (k * q + j) div k div p" by (simp add: div_mult2_eq)
    also have "(k * q + j) div k = q" using assms(3) by simp
    finally have "(k * q + j) div (k * p) = k * q div (k * p)" using k by simp
    then show ?thesis unfolding q p .
  qed
  ultimately show ?thesis by (simp add: stamp_slot_mod)
qed

definition aligned4 :: "u32 \<Rightarrow> bool" where "aligned4 a \<longleftrightarrow> 4 dvd unat a"
definition aligned2 :: "u32 \<Rightarrow> bool" where "aligned2 a \<longleftrightarrow> 2 dvd unat a"

lemma stamp_slot_aligned4: "aligned4 a \<Longrightarrow> j < 4 \<Longrightarrow> stamp_slot (a + of_nat j) = stamp_slot a"
  by (rule stamp_slot_within [of 4]) (auto simp: aligned4_def)

lemma stamp_slot_aligned2: "aligned2 a \<Longrightarrow> j < 2 \<Longrightarrow> stamp_slot (a + of_nat j) = stamp_slot a"
  by (rule stamp_slot_within [of 2]) (auto simp: aligned2_def)

lemma dvd_and_not_mask: "2 ^ n dvd unat (a AND NOT (mask n) :: u32)"
proof -
  have "take_bit n (a AND NOT (mask n)) = 0"
    by (rule bit_word_eqI) (auto simp: bit_simps)
  then have "take_bit n (unat (a AND NOT (mask n))) = 0"
    by (metis unsigned_0 unsigned_take_bit_eq)
  then show ?thesis by (simp add: take_bit_eq_mod dvd_eq_mod_eq_0)
qed

lemma aligned4_and [simp]: "aligned4 (a AND NOT 3)"
proof -
  have "(3 :: u32) = mask 2" by (simp add: mask_eq_exp_minus_1)
  then show ?thesis using dvd_and_not_mask [of 2 a] by (simp add: aligned4_def)
qed

lemma aligned2_and [simp]: "aligned2 (a AND NOT 1)"
proof -
  have "(1 :: u32) = mask 1" by (simp add: mask_eq_exp_minus_1)
  then show ?thesis using dvd_and_not_mask [of 1 a] by (simp add: aligned2_def)
qed

lemma aligned_and_neg [simp]: "aligned4 (a AND - 4)" "aligned2 (a AND - 2)"
  using aligned4_and [of a] aligned2_and [of a] by simp_all

lemma aligned4_add [simp]: "aligned4 a \<Longrightarrow> aligned4 (a + 4)"
proof -
  assume "aligned4 a"
  then have "(unat a + 4) mod 4 = 0" by (simp add: aligned4_def dvd_eq_mod_eq_0)
  moreover have "unat (a + 4) mod 4 = (unat a + 4) mod 4"
    using mod_mod_cancel [of 4 "2 ^ 32" "unat a + 4"] by (simp add: unat_word_ariths)
  ultimately show ?thesis by (simp add: aligned4_def dvd_eq_mod_eq_0)
qed

lemma blk_addr_aligned [simp]: "aligned4 (fst (blk_addr d c))"
  by (simp add: blk_addr_def Let_def case_prod_beta)

subsection \<open>The invariant of the cache\<close>

definition clock_ok :: "ICache \<Rightarrow> bool" where
  "clock_ok ic \<longleftrightarrow>
     (\<forall>s. e_version (ic_entries ic s) \<le> ic_clock ic) \<and> (\<forall>s. ic_stamps ic s \<le> ic_clock ic) \<and>
     ic_inval ic \<le> ic_clock ic"

lemma unat_u64_suc: "unat (k :: u64) + 1 < 2 ^ 64 \<Longrightarrow> unat (k + 1) = unat k + 1"
  by (simp add: unat_word_ariths)

lemma stamp_write_fields [simp]:
  "ic_entries (stamp_write w ic) = ic_entries ic" "ic_inval (stamp_write w ic) = ic_inval ic"
  "ic_clock (stamp_write w ic) = ic_clock ic + 1"
  "ic_stamps (stamp_write w ic) = (ic_stamps ic)(stamp_slot w := ic_clock ic + 1)"
  by (simp_all add: stamp_write_def Let_def)

lemma fold_stamp_write:
  "unat (ic_clock ic) + length ws < 2 ^ 64 \<Longrightarrow>
   ic_entries (fold stamp_write ws ic) = ic_entries ic \<and>
   ic_inval (fold stamp_write ws ic) = ic_inval ic \<and>
   unat (ic_clock (fold stamp_write ws ic)) = unat (ic_clock ic) + length ws \<and>
   (\<forall>s. if s \<in> stamp_slot ` set ws
        then unat (ic_clock ic) < unat (ic_stamps (fold stamp_write ws ic) s) \<and>
          unat (ic_stamps (fold stamp_write ws ic) s) \<le> unat (ic_clock ic) + length ws
        else ic_stamps (fold stamp_write ws ic) s = ic_stamps ic s)"
proof (induction ws rule: rev_induct)
  case (snoc w ws)
  let ?i = "fold stamp_write ws ic"
  have ih: "ic_entries ?i = ic_entries ic" "ic_inval ?i = ic_inval ic"
    "unat (ic_clock ?i) = unat (ic_clock ic) + length ws"
    "\<forall>s. if s \<in> stamp_slot ` set ws
      then unat (ic_clock ic) < unat (ic_stamps ?i s) \<and> unat (ic_stamps ?i s) \<le> unat (ic_clock ic) + length ws
      else ic_stamps ?i s = ic_stamps ic s"
    using snoc by simp_all
  have k: "unat (ic_clock ?i + 1) = unat (ic_clock ic) + length ws + 1"
    using snoc.prems ih(3) by (subst unat_u64_suc) simp_all
  show ?case
  proof (intro conjI allI)
    fix s
    show "if s \<in> stamp_slot ` set (ws @ [w])
        then unat (ic_clock ic) < unat (ic_stamps (fold stamp_write (ws @ [w]) ic) s) \<and>
          unat (ic_stamps (fold stamp_write (ws @ [w]) ic) s) \<le> unat (ic_clock ic) + length (ws @ [w])
        else ic_stamps (fold stamp_write (ws @ [w]) ic) s = ic_stamps ic s"
      using spec [OF ih(4), of s] k by (auto split: if_splits)
  qed (use ih k in simp_all)
qed simp

lemma fold_stamp_clock_ok:
  assumes "clock_ok ic" and "unat (ic_clock ic) + length ws < 2 ^ 64"
  shows "clock_ok (fold stamp_write ws ic)"
proof -
  note f = fold_stamp_write [OF assms(2)]
  have "unat (ic_stamps (fold stamp_write ws ic) s) \<le> unat (ic_clock ic) + length ws" for s
  proof (cases "s \<in> stamp_slot ` set ws")
    case True
    then show ?thesis using f by auto
  next
    case False
    then have "ic_stamps (fold stamp_write ws ic) s = ic_stamps ic s" using f by auto
    then show ?thesis using assms(1) by (auto simp: clock_ok_def word_le_nat_alt intro: trans_le_add1)
  qed
  then show ?thesis
    using f assms(1) by (auto simp: clock_ok_def word_le_nat_alt intro: trans_le_add1)
qed

lemma fold_stamp_hit:
  assumes "clock_ok ic" and "unat (ic_clock ic) + length ws < 2 ^ 64"
    and "cache_hit (fold stamp_write ws ic) pc th"
  shows "cache_hit ic pc th" and "stamp_slot pc \<notin> stamp_slot ` set ws"
proof -
  note f = fold_stamp_write [OF assms(2)]
  have v: "unat (e_version (ic_entries ic (cache_slot pc))) \<le> unat (ic_clock ic)"
    using assms(1) by (simp add: clock_ok_def word_le_nat_alt)
  have h: "unat (ic_stamps (fold stamp_write ws ic) (stamp_slot pc))
      \<le> unat (e_version (ic_entries ic (cache_slot pc)))"
    using assms(3) f by (simp add: cache_hit_def Let_def word_le_nat_alt)
  show n: "stamp_slot pc \<notin> stamp_slot ` set ws"
  proof
    assume "stamp_slot pc \<in> stamp_slot ` set ws"
    then have "unat (ic_clock ic) < unat (ic_stamps (fold stamp_write ws ic) (stamp_slot pc))"
      using f by auto
    with v h show False by linarith
  qed
  then have "ic_stamps (fold stamp_write ws ic) (stamp_slot pc) = ic_stamps ic (stamp_slot pc)"
    using f by auto
  then show "cache_hit ic pc th" using assms(3) f by (simp add: cache_hit_def Let_def)
qed

lemma cache_key_inj: "cache_key pc th = cache_key pc' th' \<Longrightarrow> pc = pc' \<and> th = th'"
proof -
  assume e: "cache_key pc th = cache_key pc' th'"
  have b: "bit (cache_key pc th) k \<longleftrightarrow> (k < 32 \<and> bit pc k) \<or> (k = 63 \<and> th)" for pc th k
    by (auto simp: cache_key_def bit_simps dest: bit_imp_le_length)
  have "bit pc k \<longleftrightarrow> bit pc' k" if "k < 32" for k
    using b [of pc th k] b [of pc' th' k] e that by auto
  moreover have "th \<longleftrightarrow> th'"
    using b [of pc th 63] b [of pc' th' 63] e by auto
  ultimately show ?thesis by (auto intro: bit_word_eqI)
qed

definition pc_aligned :: "bool \<Rightarrow> u32 \<Rightarrow> bool" where
  "pc_aligned th pc \<longleftrightarrow> (if th then aligned2 pc else aligned4 pc)"

subsection \<open>The machine without the cache\<close>

text \<open>
  The reference: every instruction fetched and decoded afresh, the \<open>fused_only\<close> switch of the source's
  own differential tests.
\<close>

definition exec_one_uncached :: "'b ArmBus \<Rightarrow> ArmCpu \<Rightarrow> 'b \<Rightarrow> u32 \<times> ArmCpu \<times> 'b" where
  "exec_one_uncached B c b =
     (let th = psr_t (a_cpsr c);
          pc = a_gpr c 15 AND (if th then NOT 1 else NOT 3);
          c = c\<lparr>thumb := th, start_pc := pc\<rparr>;
          (d, b) = fetch_decode B th pc b
      in exec_insn B pc d c b)"

definition step_fast_uncached :: "'b ArmBus \<Rightarrow> ArmCpu \<Rightarrow> 'b \<Rightarrow> u32 \<times> ArmCpu \<times> 'b" where
  "step_fast_uncached B c b =
     (let (n, c, b) = exec_one_uncached B c b in (n, c\<lparr>a_cycles := a_cycles c + ucast n\<rparr>, b))"

definition step_uncached :: "'b ArmBus \<Rightarrow> ArmCpu \<Rightarrow> 'b \<Rightarrow> u32 \<times> ArmCpu \<times> 'b" where
  "step_uncached B c b =
     (if \<not> boundary_pending c then step_fast_uncached B c b
      else let c = c\<lparr>events := events c AND NOT EVT_HOST_TRAP\<rparr> in
        if events c AND EVT_FIQ \<noteq> 0 \<and> \<not> psr_f (a_cpsr c) then
          let c = arm_raise Exc_Fiq (c\<lparr>a_halted := False\<rparr>)
          in (EXCEPTION_CYCLES, c\<lparr>a_cycles := a_cycles c + ucast EXCEPTION_CYCLES\<rparr>, b)
        else if events c AND EVT_IRQ \<noteq> 0 \<and> \<not> psr_i (a_cpsr c) then
          let c = arm_raise Exc_Irq (c\<lparr>a_halted := False\<rparr>)
          in (EXCEPTION_CYCLES, c\<lparr>a_cycles := a_cycles c + ucast EXCEPTION_CYCLES\<rparr>, b)
        else if a_halted c then (1, c\<lparr>a_cycles := a_cycles c + 1\<rparr>, b)
        else step_fast_uncached B c b)"

text \<open>Cycle counts and final state of \<open>n\<close> steps.\<close>

fun trace :: "(ArmCpu \<Rightarrow> 'b \<Rightarrow> u32 \<times> ArmCpu \<times> 'b) \<Rightarrow> nat \<Rightarrow> ArmCpu \<Rightarrow> 'b \<Rightarrow> u32 list \<times> ArmCpu \<times> 'b" where
  "trace st 0 c b = ([], c, b)"
| "trace st (Suc n) c b =
     (case st c b of (k, c, b) \<Rightarrow> case trace st n c b of (ks, c, b) \<Rightarrow> (k # ks, c, b))"

lemma exec_insn_up_to_cache:
  "strip c = strip c' \<Longrightarrow> up_to_cache (exec_insn B pc d c b) (exec_insn B pc d c' b)"
  by (rule exec_insn_icache)

lemma strip_same:
  assumes "strip c = strip c'"
  shows "a_regs c = a_regs c'" "events c = events c'" "a_halted c = a_halted c'" "a_cycles c = a_cycles c'"
    "thumb c = thumb c'" "start_pc c = start_pc c'"
  using strip_eqI [OF assms] by auto

lemma strip_updates:
  assumes "strip c = strip c'"
  shows "strip (c\<lparr>thumb := th, start_pc := pc\<rparr>) = strip (c'\<lparr>thumb := th, start_pc := pc\<rparr>)"
    and "strip (c\<lparr>a_cycles := k\<rparr>) = strip (c'\<lparr>a_cycles := k\<rparr>)"
    and "strip (c\<lparr>events := v\<rparr>) = strip (c'\<lparr>events := v\<rparr>)"
    and "strip (c\<lparr>a_halted := h\<rparr>) = strip (c'\<lparr>a_halted := h\<rparr>)"
    and "strip (arm_raise e c) = strip (arm_raise e c')"
proof -
  obtain x where c: "c = c'\<lparr>icache := x\<rparr>" using strip_eqI [OF assms] by blast
  show "strip (c\<lparr>thumb := th, start_pc := pc\<rparr>) = strip (c'\<lparr>thumb := th, start_pc := pc\<rparr>)"
    and "strip (c\<lparr>a_cycles := k\<rparr>) = strip (c'\<lparr>a_cycles := k\<rparr>)"
    and "strip (c\<lparr>events := v\<rparr>) = strip (c'\<lparr>events := v\<rparr>)"
    and "strip (c\<lparr>a_halted := h\<rparr>) = strip (c'\<lparr>a_halted := h\<rparr>)"
    and "strip (arm_raise e c) = strip (arm_raise e c')"
    by (simp_all add: c) (simp_all add: strip_def)
qed

lemma pc_aligned_fetch: "pc_aligned th (a AND (if th then NOT 1 else NOT 3))"
  by (simp add: pc_aligned_def)

subsection \<open>The contract that makes stamping sound\<close>

text \<open>A memory in which addresses that alias share a stamp slot.\<close>

locale cached_memory = arm_memory +
  assumes stamp_cell: "inv b \<Longrightarrow> cell b a = cell b a' \<Longrightarrow> stamp_slot a = stamp_slot a'"
begin

definition stamped :: "nat \<Rightarrow> ICache \<Rightarrow> 'a \<Rightarrow> ICache \<Rightarrow> 'a \<Rightarrow> bool" where
  "stamped n ic b ic' b' \<longleftrightarrow>
     inv b' \<and> cell b' = cell b \<and>
     (\<exists>ws. length ws \<le> n \<and> ic' = fold stamp_write ws ic \<and>
       (\<forall>a. stamp_slot a \<notin> stamp_slot ` set ws \<longrightarrow> peek b' a = peek b a))"

lemma stamped_refl [simp]: "inv b \<Longrightarrow> stamped n ic b ic b"
  unfolding stamped_def by (auto intro: exI [of _ "[]"])

lemma stamped_inv: "stamped n ic b ic' b' \<Longrightarrow> inv b'"
  by (simp add: stamped_def)

lemma stamped_trans: "stamped n ic b ic1 b1 \<Longrightarrow> stamped m ic1 b1 ic2 b2 \<Longrightarrow> stamped (n + m) ic b ic2 b2"
  unfolding stamped_def
proof (elim conjE exE, intro conjI)
  fix ws vs
  assume a: "length ws \<le> n" "ic1 = fold stamp_write ws ic"
    "\<forall>a. stamp_slot a \<notin> stamp_slot ` set ws \<longrightarrow> peek b1 a = peek b a"
    "length vs \<le> m" "ic2 = fold stamp_write vs ic1"
    "\<forall>a. stamp_slot a \<notin> stamp_slot ` set vs \<longrightarrow> peek b2 a = peek b1 a"
  then show "\<exists>xs. length xs \<le> n + m \<and> ic2 = fold stamp_write xs ic \<and>
      (\<forall>a. stamp_slot a \<notin> stamp_slot ` set xs \<longrightarrow> peek b2 a = peek b a)"
    by (intro exI [of _ "ws @ vs"]) (auto simp: image_Un)
qed simp_all

lemma stamped_mono: "stamped n ic b ic' b' \<Longrightarrow> n \<le> m \<Longrightarrow> stamped m ic b ic' b'"
  unfolding stamped_def by (blast intro: order_trans)

lemma stamped_one:
  assumes "inv b'" and "cell b' = cell b" and "\<And>c. stamp_slot c \<noteq> stamp_slot a \<Longrightarrow> peek b' c = peek b c"
  shows "stamped (Suc n) ic b (stamp_write a ic) b'"
  unfolding stamped_def using assms by (auto intro!: exI [of _ "[a]"])

lemma stamped_write8:
  assumes "inv b"
  shows "stamped (Suc n) ic b (stamp_write a ic) (ab_write B b a v)"
proof (rule stamped_one)
  fix c
  assume "stamp_slot c \<noteq> stamp_slot a"
  then have "cell b c \<noteq> cell b a" using stamp_cell [OF assms] by metis
  then show "peek (ab_write B b a v) c = peek b c" by (simp add: peek_write assms)
qed (simp_all add: inv_write cell_write assms)

lemma stamped_write16:
  assumes "inv b" and "aligned2 a"
  shows "stamped (Suc n) ic b (stamp_write a ic) (ab_write16 B b a v)"
proof (rule stamped_one)
  fix c
  assume c: "stamp_slot c \<noteq> stamp_slot a"
  moreover have "stamp_slot (a + 1) = stamp_slot a" using stamp_slot_aligned2 [OF assms(2), of 1] by simp
  ultimately have "cell b c \<noteq> cell b a" "cell b c \<noteq> cell b (a + 1)"
    using stamp_cell [OF assms(1)] by metis+
  then show "peek (ab_write16 B b a v) c = peek b c" by (simp add: write16_other assms(1))
qed (simp_all add: write16_inv assms)

lemma stamped_write32:
  assumes "inv b" and "aligned4 a"
  shows "stamped (Suc n) ic b (stamp_write a ic) (ab_write32 B b a v)"
proof (rule stamped_one)
  fix c
  assume c: "stamp_slot c \<noteq> stamp_slot a"
  have "\<forall>j < 4. cell b c \<noteq> cell b (a + of_nat j)"
    using c stamp_slot_aligned4 [OF assms(2)] stamp_cell [OF assms(1)] by metis
  then show "peek (ab_write32 B b a v) c = peek b c" by (rule write32_other [OF assms(1)])
qed (simp_all add: write32_inv assms)

lemma read32_rot_inv [simp]: "inv b \<Longrightarrow> snd (read32_rot B b a) = b"
  by (simp add: read32_rot_def read32_peek)

lemma read16_rot_inv [simp]: "inv b \<Longrightarrow> snd (read16_rot B b a) = b"
  by (simp add: read16_rot_def read16_peek Let_def)

lemma ldm_loop_inv: "inv b \<Longrightarrow> snd (snd (ldm_loop B ub regs is addr pv c b)) = b"
  by (cases ub; induction "is" arbitrary: addr pv c) (simp_all add: Let_def case_prod_beta read32_peek)

lemma stm_loop_stamped:
  "inv b \<Longrightarrow> aligned4 addr \<Longrightarrow>
   stamped (length is) (icache c) b (icache (fst (stm_loop B d ub regs low wb is addr c b)))
     (snd (stm_loop B d ub regs low wb is addr c b))"
proof (induction "is" arbitrary: addr c b)
  case (Cons i "is")
  show ?case
  proof (cases "regs AND push_bit i 1 = 0")
    case True
    then show ?thesis using Cons.IH [OF Cons.prems, of c] by (auto intro: stamped_mono)
  next
    case False
    let ?v = "if i = unat (di_rn d) \<and> di_aux d AND blk_WB \<noteq> 0 \<and> i \<noteq> low then wb
             else if i = 15 then pc_store c
             else if ub then user_reg (a_regs c) i
             else a_gpr c i"
    have w: "stamped 1 (icache c) b (stamp_write addr (icache c)) (ab_write32 B b addr ?v)"
      using stamped_write32 [OF Cons.prems, of 0] by simp
    from stamped_trans [OF w] Cons.IH [OF stamped_inv [OF w] aligned4_add [OF Cons.prems(2)],
        of "c\<lparr>icache := stamp_write addr (icache c)\<rparr>"]
    show ?thesis using False by (simp add: Let_def case_prod_beta arm_write32_def)
  qed
qed simp

lemma exec_stm_stamped:
  assumes "inv b"
  shows "stamped 16 (icache c) b (icache (fst (snd (exec_stm B d c b)))) (snd (snd (exec_stm B d c b)))"
  using stm_loop_stamped [OF assms blk_addr_aligned, of "[0..<16]"]
  by (simp add: exec_stm_def Let_def case_prod_beta)

lemma exec_ldm_stamped:
  assumes "inv b"
  shows "stamped 16 (icache c) b (icache (fst (snd (exec_ldm B d c b)))) (snd (snd (exec_ldm B d c b)))"
  using assms by (simp add: exec_ldm_def Let_def case_prod_beta ldm_loop_inv split: option.split)

lemma loads_stamped:
  assumes "inv b"
  shows "stamped n (icache c) b (icache (fst (snd (exec_ldr B d c b)))) (snd (snd (exec_ldr B d c b)))"
    and "stamped n (icache c) b (icache (fst (snd (exec_ldr_misc B d c b)))) (snd (snd (exec_ldr_misc B d c b)))"
  using assms
  by (simp_all add: exec_ldr_def exec_ldr_misc_def Let_def case_prod_beta read read16_peek)

lemma stores_stamped:
  assumes "inv b"
  shows "stamped (Suc n) (icache c) b (icache (fst (snd (exec_str B d c b)))) (snd (snd (exec_str B d c b)))"
    and "stamped (Suc n) (icache c) b (icache (fst (snd (exec_str_misc B d c b)))) (snd (snd (exec_str_misc B d c b)))"
    and "stamped (Suc n) (icache c) b (icache (fst (snd (exec_swp B d c b)))) (snd (snd (exec_swp B d c b)))"
  using assms
  by (simp_all add: exec_str_def exec_str_misc_def exec_swp_def arm_write8_def arm_write16_def
      arm_write32_def Let_def case_prod_beta read stamped_write8 stamped_write16 stamped_write32)

text \<open>Every store of an instruction is stamped, and an instruction stores at most sixteen times.\<close>

lemma exec_decoded_stamped:
  assumes "inv b"
  shows "stamped 16 (icache c) b (icache (fst (snd (exec_decoded B d c b)))) (snd (snd (exec_decoded B d c b)))"
  using assms loads_stamped [OF assms, of 16] stores_stamped [OF assms, of 15]
    exec_stm_stamped [OF assms] exec_ldm_stamped [OF assms]
  by (cases "di_op d") (simp_all add: exec_decoded_def on_cpu_def ok_cycles_def)

lemma exec_insn_stamped:
  assumes "inv b"
  shows "stamped 16 (icache c) b (icache (fst (snd (exec_insn B pc d c b)))) (snd (snd (exec_insn B pc d c b)))"
  using exec_decoded_stamped [OF assms, of "set_gpr 15 (pc + ucast (di_len d)) c" d]
  by (simp add: exec_insn_def Let_def case_prod_beta fault_epilogue_def split: sum.split)

definition coherent :: "ICache \<Rightarrow> 'a \<Rightarrow> bool" where
  "coherent ic b \<longleftrightarrow> clock_ok ic \<and>
     (\<forall>pc th. pc_aligned th pc \<and> cache_hit ic pc th \<longrightarrow>
       e_insn (ic_entries ic (cache_slot pc)) = fst (fetch_decode B th pc b))"

lemma fetch_decode_inv: "inv b \<Longrightarrow> snd (fetch_decode B th pc b) = b"
  by (simp add: fetch_decode_def read16_peek read32_peek)

lemma fetch_decode_cong:
  assumes "inv b" and "inv b'" and "pc_aligned th pc"
    and "\<And>a. stamp_slot a = stamp_slot pc \<Longrightarrow> peek b' a = peek b a"
  shows "fst (fetch_decode B th pc b') = fst (fetch_decode B th pc b)"
proof (cases th)
  case True
  then have "stamp_slot (pc + 1) = stamp_slot pc"
    using assms(3) stamp_slot_aligned2 [of pc 1] by (simp add: pc_aligned_def)
  with True assms show ?thesis by (simp add: fetch_decode_def read16_peek)
next
  case False
  then have "stamp_slot (pc + 1) = stamp_slot pc" "stamp_slot (pc + 2) = stamp_slot pc"
    "stamp_slot (pc + 3) = stamp_slot pc"
    using assms(3) stamp_slot_aligned4 [of pc 1] stamp_slot_aligned4 [of pc 2]
      stamp_slot_aligned4 [of pc 3] by (simp_all add: pc_aligned_def)
  with False assms show ?thesis by (simp add: fetch_decode_def read32_peek)
qed

lemma coherent_stamped:
  assumes "coherent ic b" and "inv b" and "stamped n ic b ic' b'" and "unat (ic_clock ic) + n < 2 ^ 64"
  shows "coherent ic' b'" and "unat (ic_clock ic') \<le> unat (ic_clock ic) + n"
proof -
  obtain ws where ws: "inv b'" "length ws \<le> n" "ic' = fold stamp_write ws ic"
    "\<forall>a. stamp_slot a \<notin> stamp_slot ` set ws \<longrightarrow> peek b' a = peek b a"
    using assms(3) by (auto simp: stamped_def)
  have k: "clock_ok ic" and b: "unat (ic_clock ic) + length ws < 2 ^ 64"
    using assms(1,4) ws(2) by (simp_all add: coherent_def)
  note f = fold_stamp_write [OF b]
  show "unat (ic_clock ic') \<le> unat (ic_clock ic) + n" using f ws(2,3) by simp
  show "coherent ic' b'"
    unfolding coherent_def
  proof (intro conjI allI impI)
    show "clock_ok ic'" unfolding ws(3) by (rule fold_stamp_clock_ok [OF k b])
    fix pc th
    assume h: "pc_aligned th pc \<and> cache_hit ic' pc th"
    note hit = fold_stamp_hit [OF k b h [THEN conjunct2, unfolded ws(3)]]
    have "fst (fetch_decode B th pc b') = fst (fetch_decode B th pc b)"
      using h hit(2) ws(1,4) assms(2) by (intro fetch_decode_cong) auto
    then show "e_insn (ic_entries ic' (cache_slot pc)) = fst (fetch_decode B th pc b')"
      using assms(1) h hit(1) f by (simp add: coherent_def ws(3))
  qed
qed

lemma cached_decode_coherent:
  assumes "coherent (icache c) b" and "inv b" and "pc_aligned th pc"
  shows "\<exists>ic. cached_decode B th pc c b = (fst (fetch_decode B th pc b), c\<lparr>icache := ic\<rparr>, b) \<and>
    coherent ic b \<and> ic_clock ic = ic_clock (icache c)"
proof (cases "cache_hit (icache c) pc th")
  case True
  then show ?thesis
    using assms by (intro exI [of _ "icache c"]) (simp add: cached_decode_def coherent_def)
next
  case False
  let ?d = "fst (fetch_decode B th pc b)"
  let ?ic = "icache_fill (cache_key pc th) (cache_slot pc) ?d (icache c)"
  have "coherent ?ic b"
    unfolding coherent_def
  proof (intro conjI allI impI)
    show "clock_ok ?ic" using assms(1) by (simp add: coherent_def clock_ok_def icache_fill_def)
    fix p t
    assume h: "pc_aligned t p \<and> cache_hit ?ic p t"
    show "e_insn (ic_entries ?ic (cache_slot p)) = fst (fetch_decode B t p b)"
    proof (cases "cache_slot p = cache_slot pc")
      case True
      then have "cache_key pc th = cache_key p t"
        using h by (simp add: cache_hit_def icache_fill_def Let_def)
      then have "p = pc" "t = th" using cache_key_inj by auto
      then show ?thesis by (simp add: icache_fill_def)
    next
      case False
      then have "cache_hit (icache c) p t" using h by (simp add: cache_hit_def icache_fill_def Let_def)
      then show ?thesis using assms(1) h False by (simp add: coherent_def icache_fill_def)
    qed
  qed
  then show ?thesis
    using False fetch_decode_inv [OF assms(2), of th pc]
    by (intro exI [of _ ?ic]) (simp add: cached_decode_def Let_def case_prod_beta icache_fill_def)
qed

text \<open>The two machines in step: same results up to the cache, and the cache stays coherent.\<close>

definition in_step :: "u64 \<Rightarrow> nat \<Rightarrow> u32 \<times> ArmCpu \<times> 'a \<Rightarrow> u32 \<times> ArmCpu \<times> 'a \<Rightarrow> bool" where
  "in_step k n r s \<longleftrightarrow>
     up_to_cache r s \<and> coherent (icache (fst (snd r))) (snd (snd r)) \<and> inv (snd (snd r)) \<and>
     unat (ic_clock (icache (fst (snd r)))) \<le> unat k + n"

lemma step_fast_in_step:
  assumes "coherent (icache c) b" and "inv b" and "strip c = strip c'"
    and "unat (ic_clock (icache c)) + 16 < 2 ^ 64"
  shows "in_step (ic_clock (icache c)) 16 (step_fast B c b) (step_fast_uncached B c' b)"
proof -
  define th pc where "th = psr_t (a_cpsr c)" and "pc = a_gpr c 15 AND (if th then NOT 1 else NOT 3)"
  let ?c = "c\<lparr>thumb := th, start_pc := pc\<rparr>" and ?c' = "c'\<lparr>thumb := th, start_pc := pc\<rparr>"
  let ?d = "fst (fetch_decode B th pc b)"
  have al: "pc_aligned th pc" unfolding pc_def by (rule pc_aligned_fetch)
  have co: "coherent (icache ?c) b" using assms(1) by simp
  obtain ic where ic: "cached_decode B th pc ?c b = (?d, ?c\<lparr>icache := ic\<rparr>, b)" "coherent ic b"
    "ic_clock ic = ic_clock (icache c)"
    using cached_decode_coherent [OF co assms(2) al] by auto
  let ?r = "exec_insn B pc ?d (?c\<lparr>icache := ic\<rparr>) b" and ?s = "exec_insn B pc ?d ?c' b"
  have one: "exec_one B c b = ?r" by (simp add: exec_one_def Let_def ic(1) flip: th_def pc_def)
  have th': "th = psr_t (a_cpsr c')" and pc': "pc = a_gpr c' 15 AND (if th then NOT 1 else NOT 3)"
    using strip_same(1) [OF assms(3)] by (simp_all add: th_def pc_def)
  have two: "exec_one_uncached B c' b = ?s"
    using fetch_decode_inv [OF assms(2), of th pc]
    by (simp add: exec_one_uncached_def Let_def case_prod_beta flip: th' pc')
  have st: "strip (?c\<lparr>icache := ic\<rparr>) = strip ?c'" using strip_updates(1) [OF assms(3)] by simp
  have u: "up_to_cache ?r ?s" by (rule exec_insn_icache [OF st])
  note sm = exec_insn_stamped [OF assms(2), of "?c\<lparr>icache := ic\<rparr>" pc ?d]
  have cs: "coherent (icache (fst (snd ?r))) (snd (snd ?r))"
    "unat (ic_clock (icache (fst (snd ?r)))) \<le> unat (ic_clock (icache c)) + 16"
    using coherent_stamped [OF _ assms(2) sm] ic(2,3) assms(4) by simp_all
  have "strip (fst (snd ?r)) = strip (fst (snd ?s))" using u by (simp add: up_to_cache_def)
  note strip_same(4) [OF this] strip_updates(2) [OF this]
  then show ?thesis
    using u cs stamped_inv [OF sm]
    by (simp add: in_step_def step_fast_def step_fast_uncached_def one two Let_def case_prod_beta
        up_to_cache_def)
qed

lemma arm_step_in_step:
  assumes "coherent (icache c) b" and "inv b" and "strip c = strip c'"
    and "unat (ic_clock (icache c)) + 16 < 2 ^ 64"
  shows "in_step (ic_clock (icache c)) 16 (arm_step B c b) (step_uncached B c' b)"
proof (cases "boundary_pending c")
  case False
  then have "\<not> boundary_pending c'" using strip_same [OF assms(3)] by (simp add: boundary_pending_def)
  with False show ?thesis
    using step_fast_in_step [OF assms] by (simp add: arm_step_def step_uncached_def)
next
  case True
  then have bp: "boundary_pending c'" using strip_same [OF assms(3)] by (simp add: boundary_pending_def)
  let ?q = "\<lambda>c :: ArmCpu. c\<lparr>events := events c AND NOT EVT_HOST_TRAP\<rparr>"
  have q: "strip (?q c) = strip (?q c')"
    using strip_updates(3) [OF assms(3)] strip_same(2) [OF assms(3)] by simp
  note sq = strip_same [OF q]
  have fast: "in_step (ic_clock (icache c)) 16 (step_fast B (?q c) b) (step_fast_uncached B (?q c') b)"
    using step_fast_in_step [OF _ assms(2) q] assms(1,4) by simp
  have h: "strip ((?q c)\<lparr>a_halted := False\<rparr>) = strip ((?q c')\<lparr>a_halted := False\<rparr>)"
    by (rule strip_updates(4) [OF q])
  have r: "strip (arm_raise e ((?q c)\<lparr>a_halted := False\<rparr>)) = strip (arm_raise e ((?q c')\<lparr>a_halted := False\<rparr>))" for e
    by (rule strip_updates(5) [OF h])
  have exc: "in_step (ic_clock (icache c)) 16
      (n, (arm_raise e ((?q c)\<lparr>a_halted := False\<rparr>))\<lparr>a_cycles := a_cycles (arm_raise e ((?q c)\<lparr>a_halted := False\<rparr>)) + k\<rparr>, b)
      (n, (arm_raise e ((?q c')\<lparr>a_halted := False\<rparr>))\<lparr>a_cycles := a_cycles (arm_raise e ((?q c')\<lparr>a_halted := False\<rparr>)) + k\<rparr>, b)" for e k n
    using strip_updates(2) [OF r [of e]] strip_same(4) [OF r [of e]] assms(1,2)
    by (simp add: in_step_def up_to_cache_def)
  have idle: "in_step (ic_clock (icache c)) 16 (1, (?q c)\<lparr>a_cycles := a_cycles (?q c) + 1\<rparr>, b)
      (1, (?q c')\<lparr>a_cycles := a_cycles (?q c') + 1\<rparr>, b)"
    using strip_updates(2) [OF q] sq(4) assms(1,2) by (simp add: in_step_def up_to_cache_def)
  have "step_uncached B c' b =
    (if events (?q c) AND EVT_FIQ \<noteq> 0 \<and> \<not> psr_f (a_cpsr (?q c)) then
       (let x = arm_raise Exc_Fiq ((?q c')\<lparr>a_halted := False\<rparr>)
        in (EXCEPTION_CYCLES, x\<lparr>a_cycles := a_cycles x + ucast EXCEPTION_CYCLES\<rparr>, b))
     else if events (?q c) AND EVT_IRQ \<noteq> 0 \<and> \<not> psr_i (a_cpsr (?q c)) then
       (let x = arm_raise Exc_Irq ((?q c')\<lparr>a_halted := False\<rparr>)
        in (EXCEPTION_CYCLES, x\<lparr>a_cycles := a_cycles x + ucast EXCEPTION_CYCLES\<rparr>, b))
     else if a_halted (?q c) then (1, (?q c')\<lparr>a_cycles := a_cycles (?q c') + 1\<rparr>, b)
     else step_fast_uncached B (?q c') b)"
    unfolding sq(1,2,3) using bp by (simp add: step_uncached_def Let_def)
  then show ?thesis
    using True exc fast idle by (simp add: arm_step_def step_slow_def Let_def)
qed

lemma trace_in_step:
  assumes "coherent (icache c) b" and "inv b" and "strip c = strip c'"
    and "unat (ic_clock (icache c)) + 16 * n < 2 ^ 64"
  shows "up_to_cache (trace (arm_step B) n c b) (trace (step_uncached B) n c' b)"
  using assms
proof (induction n arbitrary: c c' b)
  case 0
  then show ?case by (simp add: up_to_cache_def)
next
  case (Suc n)
  have "in_step (ic_clock (icache c)) 16 (arm_step B c b) (step_uncached B c' b)"
    using Suc.prems by (intro arm_step_in_step) auto
  then have st: "fst (arm_step B c b) = fst (step_uncached B c' b)"
    "strip (fst (snd (arm_step B c b))) = strip (fst (snd (step_uncached B c' b)))"
    "snd (snd (step_uncached B c' b)) = snd (snd (arm_step B c b))"
    "coherent (icache (fst (snd (arm_step B c b)))) (snd (snd (arm_step B c b)))"
    "inv (snd (snd (arm_step B c b)))"
    "unat (ic_clock (icache (fst (snd (arm_step B c b))))) \<le> unat (ic_clock (icache c)) + 16"
    unfolding in_step_def up_to_cache_def by auto
  have "up_to_cache (trace (arm_step B) n (fst (snd (arm_step B c b))) (snd (snd (arm_step B c b))))
      (trace (step_uncached B) n (fst (snd (step_uncached B c' b))) (snd (snd (arm_step B c b))))"
    using st Suc.prems(4) by (intro Suc.IH) auto
  then show ?case using st(1,3) by (simp add: case_prod_beta up_to_cache_def)
qed

end

text \<open>\<open>LinearMemory\<close> meets the contract when its size is a multiple of the 64 MiB the stamps cover.\<close>

definition lm_stampable :: "LinearMemory \<Rightarrow> bool" where
  "lm_stampable m \<longleftrightarrow> (\<exists>k. 26 \<le> k \<and> k \<le> 32 \<and> lm_size_log k m)"

lemma lm_stampable_ok: "lm_stampable m \<Longrightarrow> lm_ok m"
  by (auto simp: lm_stampable_def lm_ok_def)

lemma lm_cell_stamp:
  assumes "lm_stampable m" and "lm_cell m a = lm_cell m a'"
  shows "stamp_slot a = stamp_slot a'"
proof -
  obtain k where k: "26 \<le> k" "lm_mask m = mask k"
    using assms(1) by (auto simp: lm_stampable_def lm_size_log_def)
  have e: "unat a mod 2 ^ k = unat a' mod 2 ^ k"
    using assms(2) by (simp only: lm_cell_def k(2) and_mask_mod)
  have d: "(2 :: nat) ^ 26 dvd 2 ^ k" using k(1) by (rule le_imp_power_dvd)
  have "unat x mod 2 ^ 26 = unat x mod 2 ^ k mod 2 ^ 26" for x :: u32
    using mod_mod_cancel [OF d] by simp
  then have "unat a mod 2 ^ 26 = unat a' mod 2 ^ 26" using e by metis
  moreover have "n mod 2 ^ 26 div 4096 = n div 4096 mod 16384" for n :: nat
    using mod_mult2_eq [of n 4096 16384] by simp
  ultimately show ?thesis unfolding stamp_slot_mod by metis
qed

interpretation lmc: cached_memory LinearMemory_bus lm_stampable lm_peek lm_cell
proof (unfold_locales, goal_cases)
  case (1 b a v)
  then show ?case
    by (simp add: lm_stampable_def lm_size_log_def LinearMemory_bus_def lm_write_cell)
next
  case (9 b a a')
  then show ?case by (rule lm_cell_stamp)
qed (simp_all add: lm.cell_write lm.peek_write lm.read lm.read16 lm.read32 lm.write16 lm.write32
    lm_stampable_ok)

lemma coherent_after_invalidate:
  assumes "clock_ok ic" and "unat (ic_clock ic) + 1 < 2 ^ 64"
  shows "lmc.coherent (invalidate_all ic) m"
proof -
  have k: "unat (ic_clock ic + 1) = unat (ic_clock ic) + 1" by (rule unat_u64_suc [OF assms(2)])
  have "\<not> cache_hit (invalidate_all ic) pc th" for pc th
  proof -
    have "unat (e_version (ic_entries ic (cache_slot pc))) \<le> unat (ic_clock ic)"
      using assms(1) by (simp add: clock_ok_def word_le_nat_alt)
    then show ?thesis using k by (simp add: cache_hit_def invalidate_all_def Let_def word_le_nat_alt)
  qed
  moreover have "clock_ok (invalidate_all ic)"
    using assms(1) k by (auto simp: clock_ok_def invalidate_all_def Let_def word_le_nat_alt intro: le_SucI)
  ultimately show ?thesis by (simp add: lmc.coherent_def)
qed

text \<open>
  C1. The decoded-instruction cache is transparent. From any processor whose cache has just been
  invalidated, on a linear memory of 64 MiB or more, \<open>n\<close> steps return the same cycle counts, registers,
  traps and memory as the machine that fetches and decodes every instruction afresh, self-modifying
  code, mode changes and interrupts included, as long as the 64-bit store clock cannot overflow in them.
\<close>

theorem icache_transparent:
  assumes "lm_stampable m" and "clock_ok (icache c)"
    and "unat (ic_clock (icache c)) + 16 * n + 1 < 2 ^ 64"
  shows "case trace (arm_step LinearMemory_bus) n (invalidate_icache c) m of (ks, c', m') \<Rightarrow>
    case trace (step_uncached LinearMemory_bus) n c m of (ks', c'', m'') \<Rightarrow>
      ks = ks' \<and> strip c' = strip c'' \<and> m' = m''"
proof -
  have b: "unat (ic_clock (icache c)) + 1 < 2 ^ 64" using assms(3) by simp
  have "up_to_cache (trace (arm_step LinearMemory_bus) n (invalidate_icache c) m)
      (trace (step_uncached LinearMemory_bus) n c m)"
  proof (rule lmc.trace_in_step)
    show "lmc.coherent (icache (invalidate_icache c)) m"
      using coherent_after_invalidate [OF assms(2) b] by (simp add: invalidate_icache_def)
    show "strip (invalidate_icache c) = strip c" by (simp add: invalidate_icache_def)
    show "unat (ic_clock (icache (invalidate_icache c))) + 16 * n < 2 ^ 64"
      using unat_u64_suc [OF b] assms(3) by (simp add: invalidate_icache_def invalidate_all_def Let_def)
  qed (rule assms(1))
  then show ?thesis by (simp add: up_to_cache_def case_prod_beta)
qed

theorem icache_transparent_witness:
  "strip (fst (snd (trace (arm_step LinearMemory_bus) 5 (invalidate_icache ArmCpu_new)
       (LinearMemory_with_size (2 ^ 26))))) =
   strip (fst (snd (trace (step_uncached LinearMemory_bus) 5 ArmCpu_new
       (LinearMemory_with_size (2 ^ 26)))))"
proof -
  have "lm_size_log 26 (LinearMemory_with_size (2 ^ 26))"
    using next_power_of_two_pow [of 26 "2 ^ 26"]
    by (simp add: lm_size_log_def LinearMemory_with_size_def push_bit_eq_mult mask_eq_exp_minus_1 Let_def)
  then have "lm_stampable (LinearMemory_with_size (2 ^ 26))"
    unfolding lm_stampable_def by (intro exI [of _ 26]) simp
  moreover have "clock_ok (icache ArmCpu_new)"
    by (simp add: ArmCpu_new_def ICache_new_def clock_ok_def zero_entry_def)
  moreover have "unat (ic_clock (icache ArmCpu_new)) + 16 * 5 + 1 < 2 ^ 64"
    by (simp add: ArmCpu_new_def ICache_new_def)
  ultimately show ?thesis
    using icache_transparent [of "LinearMemory_with_size (2 ^ 26)" ArmCpu_new 5]
    by (simp add: case_prod_beta)
qed

subsection \<open>Aliased stores on smaller memories\<close>

text \<open>
  C8. The cache is not exact on the default memory. \<open>LinearMemory::new()\<close> is 16 MiB and folds the
  address space, while the stamps tell pages apart up to 64 MiB: after the instruction at address 0 has
  been cached, a guest store to its alias at \<open>0x01000000\<close> changes the instruction in memory but stamps
  another slot, and the next fetch at 0 still returns the old instruction.
\<close>

theorem icache_stale_alias:
  "(let m = LinearMemory_load LinearMemory_new 0 [0x01, 0x00, 0xA0, 0xE3];
        (d, c1, m1) = cached_decode LinearMemory_bus False 0 ArmCpu_new m;
        (c2, m2) = arm_write32 LinearMemory_bus c1 m1 0x01000000 0xE3A00002
    in fst (cached_decode LinearMemory_bus False 0 c2 m2) = decode_arm 0xE3A00001 \<and>
       fst (fetch_decode LinearMemory_bus False 0 m2) = decode_arm 0xE3A00002 \<and>
       decode_arm 0xE3A00001 \<noteq> decode_arm 0xE3A00002)"
proof -
  have mk: "lm_mask LinearMemory_new = 0xFFFFFF"
    using LinearMemory_new_size by (simp add: lm_size_log_def mask_eq_exp_minus_1)
  have idx: "k AND 16777215 = k mod 16777216" for k :: nat
    using and_mask_mod [of k 24] by (simp add: mask_eq_exp_minus_1)
  define m0 where "m0 = LinearMemory_load LinearMemory_new 0 [0x01, 0x00, 0xA0, 0xE3]"
  define m2 where "m2 = lm_write32 m0 0x01000000 0xE3A00002"
  have m0: "lm_mask m0 = 0xFFFFFF" "lm_ram m0 0 = 0x01" "lm_ram m0 1 = 0x00" "lm_ram m0 2 = 0xA0"
    "lm_ram m0 3 = 0xE3"
    by (simp_all add: m0_def LinearMemory_load_def mk idx)
  have m0z: "lm_ram m0 (Suc 0) = 0x00" "lm_ram m0 (Suc (Suc 0)) = 0xA0"
    "lm_ram m0 (Suc (Suc (Suc 0))) = 0xE3"
    using m0(3) m0(4) [unfolded numeral_2_eq_2] m0(5) [unfolded numeral_3_eq_3] by simp_all
  have m2: "lm_mask m2 = 0xFFFFFF" "lm_ram m2 0 = 0x02" "lm_ram m2 1 = 0x00" "lm_ram m2 2 = 0xA0"
    "lm_ram m2 3 = 0xE3"
    by (simp_all add: m2_def lm_write32_def m0 Let_def)
  have m2z: "lm_ram m2 (Suc 0) = 0x00" "lm_ram m2 (Suc (Suc 0)) = 0xA0"
    "lm_ram m2 (Suc (Suc (Suc 0))) = 0xE3"
    using m2(3) m2(4) [unfolded numeral_2_eq_2] m2(5) [unfolded numeral_3_eq_3] by simp_all
  have r0: "lm_read32 m0 0 = (0xE3A00001, m0)"
    by (simp add: lm_read32_def m0 m0z Let_def u32_from_le_bytes_def)
  have r2: "lm_read32 m2 0 = (0xE3A00002, m2)"
    by (simp add: lm_read32_def m2 m2z Let_def u32_from_le_bytes_def)
  let ?d = "decode_arm 0xE3A00001"
  let ?ic = "icache_fill (cache_key 0 False) (cache_slot 0) ?d ICache_new"
  have key: "cache_key 0 False = 0" by (simp add: cache_key_def)
  have slot: "cache_slot 0 = 0" "stamp_slot 0 = 0" "stamp_slot 0x01000000 = 4096"
    by (simp_all add: cache_slot_def stamp_slot_mod)
  have miss: "\<not> cache_hit ICache_new 0 False"
    by (simp add: cache_hit_def ICache_new_def zero_entry_def Let_def)
  have cd: "cached_decode LinearMemory_bus False 0 ArmCpu_new m0 = (?d, ArmCpu_new\<lparr>icache := ?ic\<rparr>, m0)"
    using miss by (simp add: cached_decode_def fetch_decode_def LinearMemory_bus_def r0 ArmCpu_new_def)
  have hit: "cache_hit (stamp_write 0x01000000 ?ic) 0 False"
    by (simp add: cache_hit_def icache_fill_def ICache_new_def slot key Let_def)
  have ent: "e_insn (ic_entries (stamp_write 0x01000000 ?ic) (cache_slot 0)) = ?d"
    by (simp add: icache_fill_def)
  have ne: "di_imm ?d = 1" "di_imm (decode_arm 0xE3A00002) = 2"
    by (simp_all add: decode_arm_def decode_arm_defs Let_def)
  have f: "fst (fetch_decode LinearMemory_bus False 0 m2) = decode_arm 0xE3A00002"
    by (simp add: fetch_decode_def LinearMemory_bus_def r2)
  have w: "arm_write32 LinearMemory_bus c m0 0x01000000 0xE3A00002 =
      (c\<lparr>icache := stamp_write 0x01000000 (icache c)\<rparr>, m2)" for c
    by (simp add: arm_write32_def LinearMemory_bus_def m2_def)
  have "?d \<noteq> decode_arm 0xE3A00002" using ne by auto
  then show ?thesis
    using hit ent by (simp add: m0_def [symmetric] cd w f Let_def) (simp add: cached_decode_def)
qed

end
