(* ===== verification/User_AddrSpace.thy ===== *)
theory User_AddrSpace
  imports Remu_Bytes
begin

text \<open>
  The sparse guest address space of user-mode emulation, \<open>src/usermode/addr_space.rs\<close>: a table of
  64 KiB chunks allocated on \<open>map\<close>, the latching processor accessors, the mapping calls behind
  \<open>brk\<close>, \<open>mmap\<close> and \<open>munmap\<close>, and the host-side bulk copies. A chunk is a function on the offsets below
  65536; the table is a partial function on the indices below 65536, which every index is. The
  \<open>u64\<close> and \<open>usize\<close> intermediates of the code never overflow and are natural numbers here.

  \<open>mem_at\<close> is the sparse byte map the structure stands for; the locale \<open>byte_memory\<close> is what the
  loader, the stack builder and the system calls rely on, and the address space provides it.
\<close>

definition CHUNK_SHIFT :: nat where "CHUNK_SHIFT = 16"
definition CHUNK_SIZE :: nat where "CHUNK_SIZE = push_bit CHUNK_SHIFT 1"
definition CHUNK_COUNT :: nat where "CHUNK_COUNT = push_bit (32 - CHUNK_SHIFT) 1"
definition CHUNK_MASK :: u32 where "CHUNK_MASK = of_nat CHUNK_SIZE - 1"
definition PAGE_SIZE :: u32 where "PAGE_SIZE = 4096"
definition STACK_TOP :: u32 where "STACK_TOP = 0xC0000000"
definition STACK_SIZE :: u32 where "STACK_SIZE = 8 * 1024 * 1024"
definition MMAP_BASE :: u32 where "MMAP_BASE = 0x40000000"

record Segv =
  sv_addr :: u32
  sv_write :: bool

type_synonym chunk = "nat \<Rightarrow> u8"

record AddressSpace =
  chunks :: "nat \<Rightarrow> chunk option"
  as_brk :: u32
  as_brk_base :: u32
  as_mmap_next :: u32
  as_segv :: "Segv option"

definition new_chunk :: chunk where "new_chunk = (\<lambda>_. 0)"

text \<open>\<open>v.checked_add(align - 1).map(|x| x & !(align - 1))\<close>\<close>

definition align_up :: "u32 \<Rightarrow> u32 \<Rightarrow> u32 option" where
  "align_up v align =
     (if unat v + unat (align - 1) < 2 ^ 32 then Some ((v + (align - 1)) AND NOT (align - 1)) else None)"

definition AddressSpace_new :: AddressSpace where
  "AddressSpace_new =
     \<lparr>chunks = (\<lambda>_. None), as_brk = 0, as_brk_base = 0, as_mmap_next = MMAP_BASE, as_segv = None\<rparr>"

definition chunk_idx :: "u32 \<Rightarrow> nat" where "chunk_idx a = unat (drop_bit CHUNK_SHIFT a)"
definition chunk_off :: "u32 \<Rightarrow> nat" where "chunk_off a = unat (a AND CHUNK_MASK)"

lemma chunk_size [simp]: "CHUNK_SIZE = 65536"
  by (simp add: CHUNK_SIZE_def CHUNK_SHIFT_def)

lemma chunk_idx_div: "chunk_idx a = unat a div 65536"
  unfolding chunk_idx_def CHUNK_SHIFT_def unat_drop_bit_eq by (simp add: drop_bit_eq_div)

lemma chunk_off_mod: "chunk_off a = unat a mod 65536"
proof -
  have "CHUNK_MASK = mask 16" by (simp add: CHUNK_MASK_def mask_eq_exp_minus_1)
  then have "chunk_off a = unat (take_bit 16 a)" by (simp add: chunk_off_def take_bit_eq_mask)
  then show ?thesis unfolding unsigned_take_bit_eq by (simp add: take_bit_eq_mod)
qed

lemma chunk_off_less: "chunk_off a < 65536"
  by (simp add: chunk_off_mod)

subsection \<open>Processor accessors\<close>

definition note_segv :: "u32 \<Rightarrow> bool \<Rightarrow> AddressSpace \<Rightarrow> AddressSpace" where
  "note_segv addr w m =
     (if as_segv m = None then m\<lparr>as_segv := Some \<lparr>sv_addr = addr, sv_write = w\<rparr>\<rparr> else m)"

definition read8 :: "AddressSpace \<Rightarrow> u32 \<Rightarrow> u8 \<times> AddressSpace" where
  "read8 m addr =
     (case chunks m (chunk_idx addr) of
        Some c \<Rightarrow> (c (chunk_off addr), m)
      | None \<Rightarrow> (0, note_segv addr False m))"

definition write8 :: "AddressSpace \<Rightarrow> u32 \<Rightarrow> u8 \<Rightarrow> AddressSpace" where
  "write8 m addr value =
     (case chunks m (chunk_idx addr) of
        Some c \<Rightarrow> m\<lparr>chunks := (chunks m)(chunk_idx addr \<mapsto> c(chunk_off addr := value))\<rparr>
      | None \<Rightarrow> note_segv addr True m)"

definition read16 :: "AddressSpace \<Rightarrow> u32 \<Rightarrow> u16 \<times> AddressSpace" where
  "read16 m addr =
     (let off = chunk_off addr in
      if off \<le> CHUNK_SIZE - 2 then
        case chunks m (chunk_idx addr) of
          Some c \<Rightarrow> (le16 (c off) (c (off + 1)), m)
        | None \<Rightarrow> (0, note_segv addr False m)
      else let (lo, m) = read8 m addr; (hi, m) = read8 m (addr + 1) in (le16 lo hi, m))"

definition read32 :: "AddressSpace \<Rightarrow> u32 \<Rightarrow> u32 \<times> AddressSpace" where
  "read32 m addr =
     (let off = chunk_off addr in
      if off \<le> CHUNK_SIZE - 4 then
        case chunks m (chunk_idx addr) of
          Some c \<Rightarrow> (u32_from_le_bytes (c off) (c (off + 1)) (c (off + 2)) (c (off + 3)), m)
        | None \<Rightarrow> (0, note_segv addr False m)
      else let (lo, m) = read16 m addr; (hi, m) = read16 m (addr + 2) in (join16 lo hi, m))"

text \<open>\<open>c[off..off + n].copy_from_slice(data)\<close> with \<open>n\<close> the length of \<open>data\<close>.\<close>

definition copy_in :: "chunk \<Rightarrow> nat \<Rightarrow> u8 list \<Rightarrow> chunk" where
  "copy_in c off data = (\<lambda>j. if off \<le> j \<and> j < off + length data then data ! (j - off) else c j)"

definition write16 :: "AddressSpace \<Rightarrow> u32 \<Rightarrow> u16 \<Rightarrow> AddressSpace" where
  "write16 m addr value =
     (let off = chunk_off addr in
      if off \<le> CHUNK_SIZE - 2 then
        case chunks m (chunk_idx addr) of
          Some c \<Rightarrow> m\<lparr>chunks := (chunks m)(chunk_idx addr \<mapsto> copy_in c off (le_bytes 2 value))\<rparr>
        | None \<Rightarrow> note_segv addr True m
      else let m = write8 m addr (lo8 value) in write8 m (addr + 1) (hi8 value))"

definition write32 :: "AddressSpace \<Rightarrow> u32 \<Rightarrow> u32 \<Rightarrow> AddressSpace" where
  "write32 m addr value =
     (let off = chunk_off addr in
      if off \<le> CHUNK_SIZE - 4 then
        case chunks m (chunk_idx addr) of
          Some c \<Rightarrow> m\<lparr>chunks := (chunks m)(chunk_idx addr \<mapsto> copy_in c off (le_bytes 4 value))\<rparr>
        | None \<Rightarrow> note_segv addr True m
      else let m = write16 m addr (low16 value) in write16 m (addr + 2) (high16 value))"

definition take_segv :: "AddressSpace \<Rightarrow> Segv option \<times> AddressSpace" where
  "take_segv m = (as_segv m, m\<lparr>as_segv := None\<rparr>)"

subsection \<open>Mapping\<close>

definition as_map :: "AddressSpace \<Rightarrow> u32 \<Rightarrow> u32 \<Rightarrow> AddressSpace" where
  "as_map m addr len =
     (if len = 0 then m
      else
        let first = chunk_idx addr;
            last = min (unat addr + unat len - 1) (2 ^ 32 - 1) div CHUNK_SIZE
        in m\<lparr>chunks := (\<lambda>i. if first \<le> i \<and> i \<le> last \<and> chunks m i = None then Some new_chunk
                           else chunks m i)\<rparr>)"

definition unmap :: "AddressSpace \<Rightarrow> u32 \<Rightarrow> u32 \<Rightarrow> AddressSpace" where
  "unmap m addr len =
     (let start = unat addr;
          stop = start + unat len;
          first = (start + (CHUNK_SIZE - 1)) div CHUNK_SIZE;
          last = min stop (2 ^ 32) div CHUNK_SIZE
      in m\<lparr>chunks := (\<lambda>i. if first \<le> i \<and> i < last then None else chunks m i)\<rparr>)"

definition is_mapped :: "AddressSpace \<Rightarrow> u32 \<Rightarrow> bool" where
  "is_mapped m addr = (chunks m (chunk_idx addr) \<noteq> None)"

definition set_brk :: "AddressSpace \<Rightarrow> u32 \<Rightarrow> u32 \<times> AddressSpace" where
  "set_brk m new =
     (if new < as_brk_base m \<or> new > MMAP_BASE then (as_brk m, m)
      else
        let m = (if new > as_brk m then as_map m (as_brk m) (new - as_brk m) else m);
            m = m\<lparr>as_brk := new\<rparr>
        in (as_brk m, m))"

text \<open>\<open>None\<close> is \<open>Err(())\<close>.\<close>

definition mmap :: "AddressSpace \<Rightarrow> u32 \<Rightarrow> u32 \<Rightarrow> bool \<Rightarrow> u32 option \<times> AddressSpace" where
  "mmap m addr len fixed =
     (if len = 0 then (None, m)
      else case align_up len PAGE_SIZE of
        None \<Rightarrow> (None, m)
      | Some len \<Rightarrow>
          if fixed then
            if addr AND (PAGE_SIZE - 1) \<noteq> 0 \<or> 2 ^ 32 \<le> unat addr + unat (len - 1) then (None, m)
            else (Some addr, as_map m addr len)
          else
            let base = as_mmap_next m;
                stop = unat base + unat len
            in if unat (STACK_TOP - STACK_SIZE) < stop then (None, m)
               else (Some base, (as_map m base len)\<lparr>as_mmap_next := of_nat stop\<rparr>))"

subsection \<open>Host-side copies\<close>

text \<open>The loop of \<open>write_bytes\<close>; \<open>Some ()\<close> is \<open>Ok(())\<close>.\<close>

function write_loop :: "AddressSpace \<Rightarrow> nat \<Rightarrow> u8 list \<Rightarrow> unit option \<times> AddressSpace" where
  "write_loop m addr data =
     (if data = [] then (Some (), m)
      else if 2 ^ 32 \<le> addr then (None, m)
      else
        let off = chunk_off (of_nat addr);
            n = min (length data) (CHUNK_SIZE - off)
        in case chunks m (chunk_idx (of_nat addr)) of
             None \<Rightarrow> (None, m)
           | Some c \<Rightarrow>
               write_loop
                 (m\<lparr>chunks := (chunks m)(chunk_idx (of_nat addr) \<mapsto> copy_in c off (take n data))\<rparr>)
                 (addr + n) (drop n data))"
  by auto
termination
  by (relation "measure (\<lambda>(m, addr, data). length data)") (auto simp: chunk_off_less)

definition write_bytes :: "AddressSpace \<Rightarrow> u32 \<Rightarrow> u8 list \<Rightarrow> unit option \<times> AddressSpace" where
  "write_bytes m addr data = write_loop m (unat addr) data"

text \<open>
  \<open>read_bytes\<close> fills a buffer the caller owns and leaves a prefix of it overwritten on \<open>Err\<close>, so the
  model takes the buffer and returns it. The bus state is not changed.
\<close>

function read_loop :: "AddressSpace \<Rightarrow> nat \<Rightarrow> u8 list \<Rightarrow> unit option \<times> u8 list" where
  "read_loop m addr buf =
     (if buf = [] then (Some (), [])
      else if 2 ^ 32 \<le> addr then (None, buf)
      else
        let off = chunk_off (of_nat addr);
            n = min (length buf) (CHUNK_SIZE - off)
        in case chunks m (chunk_idx (of_nat addr)) of
             None \<Rightarrow> (None, buf)
           | Some c \<Rightarrow>
               let (r, rest) = read_loop m (addr + n) (drop n buf)
               in (r, map c [off..<off + n] @ rest))"
  by auto
termination
  by (relation "measure (\<lambda>(m, addr, data). length data)") (auto simp: chunk_off_less)

definition read_bytes :: "AddressSpace \<Rightarrow> u32 \<Rightarrow> u8 list \<Rightarrow> unit option \<times> u8 list" where
  "read_bytes m addr buf = read_loop m (unat addr) buf"

definition read_u32 :: "AddressSpace \<Rightarrow> u32 \<Rightarrow> u32" where
  "read_u32 m addr = from_le (snd (read_bytes m addr [0, 0, 0, 0]))"

definition write_u32 :: "AddressSpace \<Rightarrow> u32 \<Rightarrow> u32 \<Rightarrow> AddressSpace" where
  "write_u32 m addr value = snd (write_bytes m addr (le_bytes 4 value))"

definition CSTR_MAX :: nat where "CSTR_MAX = 4096"

function cstr_loop :: "AddressSpace \<Rightarrow> u8 list \<Rightarrow> nat \<Rightarrow> u8 list option" where
  "cstr_loop m out a =
     (if 2 ^ 32 \<le> a \<or> CSTR_MAX \<le> length out then None
      else case chunks m (chunk_idx (of_nat a)) of
             None \<Rightarrow> None
           | Some c \<Rightarrow>
               let b = c (chunk_off (of_nat a)) in
               if b = 0 then Some out else cstr_loop m (out @ [b]) (a + 1))"
  by auto
termination
  by (relation "measure (\<lambda>(m, out, a). CSTR_MAX - length out)") auto

definition read_cstr :: "AddressSpace \<Rightarrow> u32 \<Rightarrow> u8 list option" where
  "read_cstr m addr = cstr_loop m [] (unat addr)"

declare write_loop.simps [simp del] read_loop.simps [simp del] cstr_loop.simps [simp del]

subsection \<open>The sparse byte map\<close>

definition mem_at :: "AddressSpace \<Rightarrow> nat \<Rightarrow> u8 option" where
  "mem_at m a = (if a < 2 ^ 32 then map_option (\<lambda>c. c (a mod 65536)) (chunks m (a div 65536)) else None)"

text \<open>The map after bytes have been stored at consecutive addresses.\<close>

definition overlay :: "(nat \<Rightarrow> u8 option) \<Rightarrow> nat \<Rightarrow> u8 list \<Rightarrow> nat \<Rightarrow> u8 option" where
  "overlay f a data x = (if a \<le> x \<and> x < a + length data then Some (data ! (x - a)) else f x)"

text \<open>The number of mapped bytes from an address on, up to a length.\<close>

fun span :: "(nat \<Rightarrow> u8 option) \<Rightarrow> nat \<Rightarrow> nat \<Rightarrow> nat" where
  "span f a 0 = 0"
| "span f a (Suc n) = (if f a = None then 0 else Suc (span f (a + 1) n))"

lemma overlay_nil [simp]: "overlay f a [] = f"
  by (rule ext) (auto simp: overlay_def)

lemma overlay_overlay_append:
  "overlay (overlay f a xs) (a + length xs) ys = overlay f a (xs @ ys)"
  by (auto simp: overlay_def fun_eq_iff nth_append)

lemma span_le: "span f a n \<le> n"
  by (induction f a n rule: span.induct) auto

lemma span_span: "span f a (span f a n) = span f a n"
  by (induction f a n rule: span.induct) auto

lemma span_add:
  assumes "\<forall>i < k. f (a + i) \<noteq> None"
  shows "span f a (k + n) = k + span f (a + k) n"
  using assms
proof (induction k arbitrary: a)
  case (Suc k)
  have "f a \<noteq> None" using Suc.prems [THEN spec, of 0] by simp
  moreover have "\<forall>i < k. f (a + 1 + i) \<noteq> None" using Suc.prems by (metis Suc_less_eq add.assoc plus_1_eq_Suc)
  ultimately show ?case using Suc.IH [of "a + 1"] by auto
qed simp

lemma span_full_iff: "span f a n = n \<longleftrightarrow> (\<forall>i < n. f (a + i) \<noteq> None)"
proof
  show "\<forall>i < n. f (a + i) \<noteq> None \<Longrightarrow> span f a n = n" using span_add [of n f a 0] by simp
next
  show "span f a n = n \<Longrightarrow> \<forall>i < n. f (a + i) \<noteq> None"
  proof (induction n arbitrary: a)
    case (Suc n)
    then have a: "f a \<noteq> None" and "span f (a + 1) n = n" by (auto split: if_splits)
    then have "\<forall>i < n. f (a + 1 + i) \<noteq> None" using Suc.IH by blast
    with a show ?case by (auto simp: less_Suc_eq_0_disj)
  qed simp
qed

lemma mem_at_limit: "2 ^ 32 \<le> a \<Longrightarrow> mem_at m a = None"
  by (simp add: mem_at_def)

lemma idx_of_nat: "a < 2 ^ 32 \<Longrightarrow> chunk_idx (of_nat a) = a div 65536"
  by (simp add: chunk_idx_div unat_of_nat)

lemma off_of_nat: "a < 2 ^ 32 \<Longrightarrow> chunk_off (of_nat a) = a mod 65536"
  by (simp add: chunk_off_mod unat_of_nat)

text \<open>Addresses inside one chunk.\<close>

lemma same_chunk:
  fixes a i :: nat
  assumes "a mod 65536 + i < 65536"
  shows "(a + i) div 65536 = a div 65536" "(a + i) mod 65536 = a mod 65536 + i"
proof -
  have "a + i = (a mod 65536 + i) + a div 65536 * 65536" using div_mult_mod_eq [of a 65536] by linarith
  then show "(a + i) div 65536 = a div 65536" "(a + i) mod 65536 = a mod 65536 + i"
    using assms by (metis div_less div_mult_self1 add_0_right add.left_neutral zero_neq_numeral)
      (use \<open>a + i = _\<close> assms in \<open>metis mod_less mod_mult_self1\<close>)
qed

lemma same_chunk_limit:
  fixes a i :: nat
  assumes "a < 2 ^ 32" "a mod 65536 + i < 65536"
  shows "a + i < 2 ^ 32"
proof -
  have "a div 65536 < 65536" using assms(1) by (simp add: less_mult_imp_div_less)
  moreover have "a = a div 65536 * 65536 + a mod 65536" by simp
  ultimately have "a + i < 65535 * 65536 + 65536" using assms(2) by linarith
  then show ?thesis by simp
qed

text \<open>A store of bytes inside one mapped chunk overlays the map.\<close>

lemma mem_at_copy_in:
  assumes "a < 2 ^ 32" and "chunks m (a div 65536) = Some c" and "a mod 65536 + length data \<le> 65536"
  shows "mem_at (m\<lparr>chunks := (chunks m)(a div 65536 \<mapsto> copy_in c (a mod 65536) data)\<rparr>) =
    overlay (mem_at m) a data"
proof
  fix x
  show "mem_at (m\<lparr>chunks := (chunks m)(a div 65536 \<mapsto> copy_in c (a mod 65536) data)\<rparr>) x =
    overlay (mem_at m) a data x"
  proof (cases "a \<le> x \<and> x < a + length data")
    case True
    then obtain i where i: "x = a + i" "i < length data" by (metis le_iff_add nat_add_left_cancel_less)
    then have "a mod 65536 + i < 65536" using assms(3) by linarith
    with i assms show ?thesis
      using same_chunk [of a i] same_chunk_limit [of a i]
      by (simp add: mem_at_def overlay_def copy_in_def)
  next
    case False
    have "x mod 65536 \<notin> {a mod 65536..<a mod 65536 + length data}" if "x div 65536 = a div 65536"
    proof -
      have "a = a div 65536 * 65536 + a mod 65536" "x = a div 65536 * 65536 + x mod 65536"
        using that by (metis div_mult_mod_eq)+
      with False show ?thesis unfolding atLeastLessThan_iff by linarith
    qed
    with False assms show ?thesis by (auto simp: mem_at_def overlay_def copy_in_def)
  qed
qed

lemma mem_at_chunk:
  assumes "a < 2 ^ 32" and "a mod 65536 + i < 65536"
  shows "mem_at m (a + i) = map_option (\<lambda>c. c (a mod 65536 + i)) (chunks m (a div 65536))"
  using assms same_chunk [of a i] same_chunk_limit [of a i] by (simp add: mem_at_def)

definition same_layout :: "AddressSpace \<Rightarrow> AddressSpace \<Rightarrow> bool" where
  "same_layout m m' \<longleftrightarrow> as_brk m' = as_brk m \<and> as_brk_base m' = as_brk_base m \<and>
     as_mmap_next m' = as_mmap_next m \<and> as_segv m' = as_segv m"

lemma span_cong: "(\<And>x. f x = None \<longleftrightarrow> g x = None) \<Longrightarrow> span f a n = span g a n"
  by (induction f a n rule: span.induct) auto

lemma overlay_None_iff:
  assumes "\<forall>i < length data. f (a + i) \<noteq> None"
  shows "overlay f a data x = None \<longleftrightarrow> f x = None"
  using assms [THEN spec, of "x - a"] by (auto simp: overlay_def)

lemma loop_base:
  assumes "data = [] \<or> 2 ^ 32 \<le> a"
  shows "write_loop m a data = (if data = [] then Some () else None, m)"
    "read_loop m a data = (if data = [] then Some () else None, data)"
    "span (mem_at m) a (length data) = 0"
proof -
  show "write_loop m a data = (if data = [] then Some () else None, m)"
    using assms by (subst write_loop.simps) auto
  show "read_loop m a data = (if data = [] then Some () else None, data)"
    using assms by (subst read_loop.simps) auto
  show "span (mem_at m) a (length data) = 0"
    using assms mem_at_limit [of a m] by (cases data) auto
qed

lemma write_loop_spec:
  "write_loop m a data = (r, m') \<Longrightarrow>
   r = (if span (mem_at m) a (length data) = length data then Some () else None) \<and>
   mem_at m' = overlay (mem_at m) a (take (span (mem_at m) a (length data)) data) \<and>
   same_layout m m'"
proof (induction m a data arbitrary: r m' rule: write_loop.induct)
  case (1 m a data)
  show ?case
  proof (cases "data = [] \<or> 2 ^ 32 \<le> a")
    case True
    then show ?thesis using "1.prems" loop_base [OF True] by (auto simp: same_layout_def)
  next
    case False
    then have a: "a < 2 ^ 32" "data \<noteq> []" and na: "\<not> 2 ^ 32 \<le> a" by auto
    define off where "off = chunk_off (of_nat a :: u32)"
    define n where "n = min (length data) (CHUNK_SIZE - off)"
    have off: "off = a mod 65536" using a by (simp add: off_def off_of_nat)
    then have n: "n \<le> length data" "off + n \<le> 65536" using mod_less_divisor [of 65536 a] unfolding n_def by auto
    show ?thesis
    proof (cases "chunks m (chunk_idx (of_nat a))")
      case None
      then have "mem_at m a = None" using a by (simp add: mem_at_def idx_of_nat)
      then have "span (mem_at m) a (length data) = 0" by (cases data) auto
      then show ?thesis using "1.prems" a None
        by (simp add: write_loop.simps [of m a data] same_layout_def)
    next
      case (Some c)
      then have c: "chunks m (a div 65536) = Some c" using a by (simp add: idx_of_nat)
      define m1 where "m1 = m\<lparr>chunks := (chunks m)(chunk_idx (of_nat a) \<mapsto> copy_in c off (take n data))\<rparr>"
      have rec: "write_loop m1 (a + n) (drop n data) = (r, m')"
        using "1.prems" a Some
        by (simp add: write_loop.simps [of m a data] Let_def m1_def flip: off_def) (simp add: n_def)
      note IH = "1.IH" [OF a(2) na off_def n_def Some, folded m1_def, OF rec]
      have m1: "mem_at m1 = overlay (mem_at m) a (take n data)"
        using mem_at_copy_in [OF a(1) c, of "take n data"] a n by (simp add: m1_def idx_of_nat off)
      have mapped: "\<forall>i < n. mem_at m (a + i) \<noteq> None"
        using c mem_at_chunk [OF a(1), of _ m] n by (auto simp: off)
      let ?k = "span (mem_at m) (a + n) (length data - n)"
      have k: "span (mem_at m1) (a + n) (length (drop n data)) = ?k"
        unfolding m1 length_drop using mapped n by (intro span_cong overlay_None_iff) auto
      have split: "span (mem_at m) a (length data) = n + ?k"
        using span_add [OF mapped, of "length data - n"] n by simp
      have len: "length (take n data) = n" using n by simp
      have "mem_at m' = overlay (mem_at m) a (take (span (mem_at m) a (length data)) data)"
        using IH overlay_overlay_append [of "mem_at m" a "take n data"]
        unfolding k len unfolding m1 split take_add by simp
      moreover have "r = (if span (mem_at m) a (length data) = length data then Some () else None)"
        using IH n unfolding k split by auto
      moreover have "same_layout m m'" using IH by (simp add: same_layout_def m1_def)
      ultimately show ?thesis by blast
    qed
  qed
qed

lemma read_loop_spec:
  "read_loop m a buf =
   (if span (mem_at m) a (length buf) = length buf then Some () else None,
    map (\<lambda>i. the (mem_at m (a + i))) [0..<span (mem_at m) a (length buf)] @
      drop (span (mem_at m) a (length buf)) buf)"
proof (induction m a buf rule: read_loop.induct)
  case (1 m a buf)
  show ?case
  proof (cases "buf = [] \<or> 2 ^ 32 \<le> a")
    case True
    then show ?thesis using loop_base [OF True] by auto
  next
    case False
    then have a: "a < 2 ^ 32" "buf \<noteq> []" and na: "\<not> 2 ^ 32 \<le> a" by auto
    define off where "off = chunk_off (of_nat a :: u32)"
    define n where "n = min (length buf) (CHUNK_SIZE - off)"
    have off: "off = a mod 65536" using a by (simp add: off_def off_of_nat)
    then have n: "n \<le> length buf" "off + n \<le> 65536" using mod_less_divisor [of 65536 a] unfolding n_def by auto
    show ?thesis
    proof (cases "chunks m (chunk_idx (of_nat a))")
      case None
      then have "mem_at m a = None" using a by (simp add: mem_at_def idx_of_nat)
      then have "span (mem_at m) a (length buf) = 0" by (cases buf) auto
      then show ?thesis using a None by (simp add: read_loop.simps [of m a buf])
    next
      case (Some c)
      then have c: "chunks m (a div 65536) = Some c" using a by (simp add: idx_of_nat)
      note IH = "1.IH" [OF a(2) na off_def n_def Some]
      let ?k = "span (mem_at m) (a + n) (length buf - n)"
      let ?g = "\<lambda>i. the (mem_at m (a + i))"
      have here: "mem_at m (a + i) = Some (c (off + i))" if "i < n" for i
        using c mem_at_chunk [OF a(1), of i m] n that by (auto simp: off)
      have split: "span (mem_at m) a (length buf) = n + ?k"
        using span_add [of n "mem_at m" a "length buf - n"] here n by simp
      have bytes: "map c [off..<off + n] = map ?g [0..<n]"
        using here by (intro nth_equalityI) auto
      have app: "map ?g [0..<n + ?k] = map ?g [0..<n] @ map (\<lambda>i. the (mem_at m (a + n + i))) [0..<?k]"
        by (rule nth_equalityI) (auto simp: nth_append)
      have "read_loop m a buf = (let (r, rest) = read_loop m (a + n) (drop n buf) in (r, map c [off..<off + n] @ rest))"
        using a Some by (simp add: read_loop.simps [of m a buf] Let_def flip: off_def) (simp add: n_def)
      then show ?thesis
        using n unfolding IH split app bytes by (auto simp: add.commute)
    qed
  qed
qed

subsection \<open>Wide accesses are byte accesses\<close>

definition peek8 :: "AddressSpace \<Rightarrow> u32 \<Rightarrow> u8" where
  "peek8 m a = (case mem_at m (unat a) of None \<Rightarrow> 0 | Some b \<Rightarrow> b)"

text \<open>The latch after touching addresses in order: the first unmapped one, if none was latched.\<close>

definition touch :: "bool \<Rightarrow> u32 list \<Rightarrow> AddressSpace \<Rightarrow> AddressSpace" where
  "touch w addrs m = fold (\<lambda>a m. if mem_at m (unat a) = None then note_segv a w m else m) addrs m"

lemma mem_at_unat: "mem_at m (unat a) = map_option (\<lambda>c. c (chunk_off a)) (chunks m (chunk_idx a))"
  using unat_u32_less [of a] by (simp add: mem_at_def chunk_idx_div chunk_off_mod)

lemma chunk_add:
  assumes "chunk_off a + k < 65536"
  shows "chunk_idx (a + of_nat k) = chunk_idx a" "chunk_off (a + of_nat k) = chunk_off a + k"
proof -
  have k: "unat a mod 65536 + k < 65536" using assms by (simp add: chunk_off_mod)
  have lim: "unat a + k < 2 ^ 32" using same_chunk_limit [OF _ k] unat_u32_less [of a] by simp
  then have "unat (a + of_nat k) = unat a + k" by (simp add: unat_word_ariths unat_of_nat)
  with same_chunk [OF k] show "chunk_idx (a + of_nat k) = chunk_idx a"
    "chunk_off (a + of_nat k) = chunk_off a + k"
    by (simp_all add: chunk_idx_div chunk_off_mod)
qed

lemma chunk_add':
  "chunk_off a + 1 < 65536 \<Longrightarrow> chunk_idx (a + 1) = chunk_idx a \<and> chunk_off (a + 1) = chunk_off a + 1"
  "chunk_off a + 2 < 65536 \<Longrightarrow> chunk_idx (a + 2) = chunk_idx a \<and> chunk_off (a + 2) = chunk_off a + 2"
  "chunk_off a + 3 < 65536 \<Longrightarrow> chunk_idx (a + 3) = chunk_idx a \<and> chunk_off (a + 3) = chunk_off a + 3"
  using chunk_add [of a 1] chunk_add [of a 2] chunk_add [of a 3] by simp_all

lemma chunks_note_segv [simp]: "chunks (note_segv a w m) = chunks m"
  by (simp add: note_segv_def)

lemma mem_at_note_segv [simp]: "mem_at (note_segv a w m) = mem_at m"
  by (simp add: mem_at_def fun_eq_iff)

lemma note_segv_twice [simp]: "note_segv b v (note_segv a w m) = note_segv a w m"
  by (simp add: note_segv_def)

lemma read8_exact: "read8 m a = (peek8 m a, touch False [a] m)"
  by (simp add: read8_def peek8_def touch_def mem_at_unat split: option.split)

lemma peek8_touch [simp]: "peek8 (touch w addrs m) a = peek8 m a"
proof -
  have "mem_at (touch w addrs m) = mem_at m"
    unfolding touch_def by (induction addrs arbitrary: m) simp_all
  then show ?thesis by (simp add: peek8_def)
qed

lemma touch_append: "touch w ys (touch w xs m) = touch w (xs @ ys) m"
  by (simp add: touch_def)

lemma read16_exact: "read16 m a = (le16 (peek8 m a) (peek8 m (a + 1)), touch False [a, a + 1] m)"
proof (cases "chunk_off a + 1 < 65536")
  case True
  then show ?thesis using chunk_add'(1) [OF True]
    by (simp add: read16_def Let_def peek8_def touch_def mem_at_unat le16_def split: option.split)
next
  case False
  then have "\<not> chunk_off a \<le> 65534" by simp
  then show ?thesis by (simp add: read16_def Let_def read8_exact touch_append)
qed

lemma read32_exact:
  "read32 m a =
   (u32_from_le_bytes (peek8 m a) (peek8 m (a + 1)) (peek8 m (a + 2)) (peek8 m (a + 3)),
    touch False [a, a + 1, a + 2, a + 3] m)"
proof (cases "chunk_off a + 3 < 65536")
  case True
  then have o: "chunk_off a + 1 < 65536" "chunk_off a + 2 < 65536" by linarith+
  have z: "u32_from_le_bytes 0 0 0 0 = 0" by (simp add: u32_from_le_bytes_def)
  show ?thesis using True chunk_add'(1) [OF o(1)] chunk_add'(2) [OF o(2)] chunk_add'(3) [OF True]
    by (simp add: read32_def Let_def peek8_def touch_def mem_at_unat z split: option.split)
next
  case False
  then have "\<not> chunk_off a \<le> 65532" by simp
  then show ?thesis
    by (simp add: read32_def Let_def read16_exact touch_append u32_from_le_bytes_join add.assoc)
qed

lemma copy_in_two: "copy_in c off [x, y] = c(off := x, off + 1 := y)"
  by (auto simp: copy_in_def fun_eq_iff nth_Cons split: nat.split)

lemma copy_in_append:
  "copy_in c off (xs @ ys) = copy_in (copy_in c off xs) (off + length xs) ys"
  by (auto simp: copy_in_def fun_eq_iff nth_append)

lemma le_bytes_2: "le_bytes 2 v = [lo8 v, hi8 v]"
  by (simp add: le_bytes_def upt_rec lo8_def hi8_def)

lemma le_bytes_4_halves: "le_bytes 4 v = le_bytes 2 (low16 v) @ le_bytes 2 (high16 v)"
  by (simp add: le_bytes_2 le_bytes_4 byte_parts)

lemma write16_bytes: "write16 m a v = write8 (write8 m a (lo8 v)) (a + 1) (hi8 v)"
proof (cases "chunk_off a + 1 < 65536")
  case True
  then show ?thesis using chunk_add'(1) [OF True]
    by (simp add: write16_def Let_def write8_def le_bytes_2 copy_in_two split: option.split)
next
  case False
  then have "\<not> chunk_off a \<le> 65534" by simp
  then show ?thesis by (simp add: write16_def Let_def)
qed

lemma write32_halves: "write32 m a v = write16 (write16 m a (low16 v)) (a + 2) (high16 v)"
proof (cases "chunk_off a + 3 < 65536")
  case True
  then have "chunk_off a + 2 < 65536" by linarith
  with True chunk_add'(2) [OF this] show ?thesis
    by (simp add: write32_def write16_def Let_def le_bytes_4_halves copy_in_append split: option.split)
next
  case False
  then have "\<not> chunk_off a \<le> 65532" by simp
  then show ?thesis by (simp add: write32_def Let_def)
qed

text \<open>
  C18. Wide guest accesses are exactly their byte accesses, at every alignment, across chunk boundaries
  and at the top of the address space: a 16- or 32-bit load returns the little-endian composition of
  the bytes of the sparse memory, zero where unmapped, and latches the first unmapped byte address (if
  none is latched yet) without changing anything else; a store is the byte stores in address order.
\<close>

theorem wide_access_is_bytewise:
  "read16 m a = (le16 (peek8 m a) (peek8 m (a + 1)), touch False [a, a + 1] m) \<and>
   read32 m a =
     (u32_from_le_bytes (peek8 m a) (peek8 m (a + 1)) (peek8 m (a + 2)) (peek8 m (a + 3)),
      touch False [a, a + 1, a + 2, a + 3] m) \<and>
   write16 m a w = write8 (write8 m a (lo8 w)) (a + 1) (hi8 w) \<and>
   write32 m a v =
     fold (\<lambda>i m. write8 m (a + of_nat i) (ucast (drop_bit (8 * i) v))) [0..<4] m"
  by (simp add: read16_exact read32_exact write16_bytes write32_halves upt_rec byte_parts add.assoc)

subsection \<open>The interface of the host-side copies\<close>

text \<open>
  What the loader, the stack builder and the system calls rely on: a write stores the longest mapped
  prefix and succeeds exactly when that is everything; a read fills the buffer likewise.
\<close>

locale byte_memory =
  fixes peek :: "'m \<Rightarrow> nat \<Rightarrow> u8 option"
    and wr :: "'m \<Rightarrow> u32 \<Rightarrow> u8 list \<Rightarrow> unit option \<times> 'm"
    and rd :: "'m \<Rightarrow> u32 \<Rightarrow> u8 list \<Rightarrow> unit option \<times> u8 list"
  assumes wr_law: "wr m a data = (r, m') \<Longrightarrow>
      r = (if span (peek m) (unat a) (length data) = length data then Some () else None) \<and>
      peek m' = overlay (peek m) (unat a) (take (span (peek m) (unat a) (length data)) data)"
    and rd_law: "rd m a buf =
      (if span (peek m) (unat a) (length buf) = length buf then Some () else None,
       map (\<lambda>i. the (peek m (unat a + i))) [0..<span (peek m) (unat a) (length buf)] @
         drop (span (peek m) (unat a) (length buf)) buf)"
begin

definition mapped :: "'m \<Rightarrow> nat \<Rightarrow> nat \<Rightarrow> bool" where
  "mapped m a n \<longleftrightarrow> (\<forall>i < n. peek m (a + i) \<noteq> None)"

definition holds :: "'m \<Rightarrow> nat \<Rightarrow> u8 list \<Rightarrow> bool" where
  "holds m a data \<longleftrightarrow> (\<forall>i < length data. peek m (a + i) = Some (data ! i))"

lemma span_mapped: "mapped m a n \<longleftrightarrow> span (peek m) a n = n"
  by (simp add: mapped_def span_full_iff)

lemma write_ok_iff: "fst (wr m a data) = Some () \<longleftrightarrow> mapped m (unat a) (length data)"
  using wr_law [of m a data] by (cases "wr m a data") (auto simp: span_mapped)

lemma write_all:
  "mapped m (unat a) (length data) \<Longrightarrow> peek (snd (wr m a data)) = overlay (peek m) (unat a) data"
  using wr_law [of m a data] by (cases "wr m a data") (auto simp: span_mapped)

lemma write_domain: "peek (snd (wr m a data)) x = None \<longleftrightarrow> peek m x = None"
proof -
  let ?k = "span (peek m) (unat a) (length data)"
  have "span (peek m) (unat a) ?k = ?k" by (rule span_span)
  then have "\<forall>i < length (take ?k data). peek m (unat a + i) \<noteq> None"
    unfolding span_full_iff by simp
  then show ?thesis
    using wr_law [of m a data] overlay_None_iff [of "take ?k data" "peek m" "unat a" x]
    by (cases "wr m a data") simp
qed

lemma write_holds: "mapped m (unat a) (length data) \<Longrightarrow> holds (snd (wr m a data)) (unat a) data"
  by (simp add: write_all holds_def overlay_def)

lemma read_holds: "holds m (unat a) data \<Longrightarrow> length buf = length data \<Longrightarrow> rd m a buf = (Some (), data)"
proof -
  assume h: "holds m (unat a) data" and l: "length buf = length data"
  then have "mapped m (unat a) (length buf)" by (auto simp: holds_def mapped_def)
  then have "span (peek m) (unat a) (length buf) = length buf" by (simp add: span_mapped)
  moreover have "map (\<lambda>i. the (peek m (unat a + i))) [0..<length data] = data"
    using h by (intro nth_equalityI) (simp_all add: holds_def)
  ultimately show ?thesis using l by (simp add: rd_law)
qed

lemma read_ok_holds: "rd m a buf = (Some (), data) \<Longrightarrow> length data = length buf \<and> holds m (unat a) data"
proof -
  assume r: "rd m a buf = (Some (), data)"
  then have s: "span (peek m) (unat a) (length buf) = length buf" by (auto simp: rd_law split: if_splits)
  then have d: "data = map (\<lambda>i. the (peek m (unat a + i))) [0..<length buf]" using r by (simp add: rd_law)
  have "mapped m (unat a) (length buf)" using s by (simp add: span_mapped)
  then show ?thesis unfolding d by (auto simp: holds_def mapped_def)
qed

lemma read_err_iff: "fst (rd m a buf) = None \<longleftrightarrow> \<not> mapped m (unat a) (length buf)"
  by (simp add: rd_law span_mapped)

end

interpretation mem: byte_memory mem_at write_bytes read_bytes
proof
  fix m m' a data r
  assume "write_bytes m a data = (r, m')"
  then show "r = (if span (mem_at m) (unat a) (length data) = length data then Some () else None) \<and>
      mem_at m' = overlay (mem_at m) (unat a) (take (span (mem_at m) (unat a) (length data)) data)"
    using write_loop_spec [of m "unat a" data r m'] by (simp add: write_bytes_def)
next
  fix m a buf
  show "read_bytes m a buf =
      (if span (mem_at m) (unat a) (length buf) = length buf then Some () else None,
       map (\<lambda>i. the (mem_at m (unat a + i))) [0..<span (mem_at m) (unat a) (length buf)] @
         drop (span (mem_at m) (unat a) (length buf)) buf)"
    unfolding read_bytes_def by (rule read_loop_spec)
qed

lemma write_bytes_layout [simp]: "same_layout m (snd (write_bytes m a data))"
  using write_loop_spec [of m "unat a" data] unfolding write_bytes_def
  by (cases "write_loop m (unat a) data") auto

lemma span_all: "span f a n = n \<longleftrightarrow> {a..<a + n} \<subseteq> dom f"
proof -
  have "{a..<a + n} = (\<lambda>i. a + i) ` {..<n}"
    by (simp add: image_add_atLeastLessThan [of a 0, simplified] lessThan_atLeast0 add.commute)
  then show ?thesis unfolding span_full_iff by (auto simp: subset_iff domIff)
qed

text \<open>
  C19. The bulk copies are exact on every range, mapped or not. Each succeeds exactly when every byte of its range is
  mapped (a range past 4 GiB is not) and otherwise transfers the longest mapped prefix. \<open>write_bytes\<close> stores that prefix
  and nothing else, never latches a fault, and leaves the break and the mmap cursor alone; \<open>read_bytes\<close> puts the bytes
  of that prefix at the start of the caller's buffer and keeps the rest of it, and of what \<open>write_bytes\<close> stored it
  returns the same bytes.
\<close>

theorem bulk_copy_exact:
  "(case write_bytes m a data of (r, m') \<Rightarrow>
     let k = span (mem_at m) (unat a) (length data) in
     r = (if {unat a..<unat a + length data} \<subseteq> dom (mem_at m) then Some () else None) \<and>
     mem_at m' = overlay (mem_at m) (unat a) (take k data) \<and> same_layout m m' \<and>
     read_bytes m' a (replicate k 0) = (Some (), take k data)) \<and>
   (case read_bytes m a buf of (r, buf') \<Rightarrow>
     let k = span (mem_at m) (unat a) (length buf) in
     r = (if {unat a..<unat a + length buf} \<subseteq> dom (mem_at m) then Some () else None) \<and>
     buf' = map (\<lambda>i. the (mem_at m (unat a + i))) [0..<k] @ drop k buf)"
proof (cases "write_bytes m a data")
  case (Pair r m')
  let ?k = "span (mem_at m) (unat a) (length data)"
  have at: "mem_at m' = overlay (mem_at m) (unat a) (take ?k data)"
    and r: "r = (if ?k = length data then Some () else None)" using mem.wr_law [OF Pair] by auto
  have lay: "same_layout m m'" using write_bytes_layout [of m a data] Pair by simp
  have "mem.holds m' (unat a) (take ?k data)" unfolding mem.holds_def at by (simp add: overlay_def)
  then have "read_bytes m' a (replicate ?k 0) = (Some (), take ?k data)"
    by (rule mem.read_holds) (simp add: span_le min_absorb2)
  then show ?thesis using Pair at r lay by (simp add: mem.rd_law span_all)
qed

subsection \<open>Strings\<close>

lemma cstr_loop_iff:
  assumes "length out \<le> CSTR_MAX"
  shows "cstr_loop m out a = Some s \<longleftrightarrow>
   (\<exists>t. s = out @ t \<and> length s < CSTR_MAX \<and> 0 \<notin> set t \<and>
      (\<forall>i < length t. mem_at m (a + i) = Some (t ! i)) \<and> mem_at m (a + length t) = Some 0)"
  using assms
proof (induction m out a rule: cstr_loop.induct)
  case (1 m out a)
  show ?case
  proof (cases "2 ^ 32 \<le> a \<or> CSTR_MAX \<le> length out \<or> chunks m (chunk_idx (of_nat a)) = None")
    case True
    have "mem_at m a = None" if "\<not> CSTR_MAX \<le> length out"
      using True that by (auto simp: mem_at_def idx_of_nat)
    moreover have "cstr_loop m out a = None" using True by (subst cstr_loop.simps) auto
    ultimately show ?thesis
      by (cases "CSTR_MAX \<le> length out") (force simp: neq_Nil_conv nth_Cons')+
  next
    case False
    then obtain c where c: "chunks m (chunk_idx (of_nat a)) = Some c" by auto
    define b where "b = c (chunk_off (of_nat a))"
    have at: "mem_at m a = Some b" using False c by (simp add: mem_at_def idx_of_nat off_of_nat b_def)
    have eq: "cstr_loop m out a = (if b = 0 then Some out else cstr_loop m (out @ [b]) (a + 1))"
      using False c by (subst cstr_loop.simps) (simp add: b_def Let_def)
    show ?thesis
    proof (cases "b = 0")
      case True
      have "t = []" if "\<forall>i < length t. mem_at m (a + i) = Some (t ! i)" "0 \<notin> set t" for t
        using that at True by (cases t) auto
      then show ?thesis using True False at by (auto simp: eq)
    next
      case nz: False
      have IH: "cstr_loop m (out @ [b]) (a + 1) = Some s \<longleftrightarrow>
         (\<exists>t. s = (out @ [b]) @ t \<and> length s < CSTR_MAX \<and> 0 \<notin> set t \<and>
           (\<forall>i < length t. mem_at m (a + 1 + i) = Some (t ! i)) \<and> mem_at m (a + 1 + length t) = Some 0)"
        using "1.IH" [OF _ c b_def nz] False by simp
      show ?thesis
      proof
        assume "cstr_loop m out a = Some s"
        then obtain t where t: "s = (out @ [b]) @ t" "length s < CSTR_MAX" "0 \<notin> set t"
          "\<forall>i < length t. mem_at m (a + 1 + i) = Some (t ! i)" "mem_at m (a + 1 + length t) = Some 0"
          using IH nz by (auto simp: eq)
        then show "\<exists>t. s = out @ t \<and> length s < CSTR_MAX \<and> 0 \<notin> set t \<and>
          (\<forall>i < length t. mem_at m (a + i) = Some (t ! i)) \<and> mem_at m (a + length t) = Some 0"
          using nz at by (intro exI [of _ "b # t"]) (auto simp: nth_Cons split: nat.split)
      next
        assume "\<exists>t. s = out @ t \<and> length s < CSTR_MAX \<and> 0 \<notin> set t \<and>
          (\<forall>i < length t. mem_at m (a + i) = Some (t ! i)) \<and> mem_at m (a + length t) = Some 0"
        then obtain t where t: "s = out @ t" "length s < CSTR_MAX" "0 \<notin> set t"
          "\<forall>i < length t. mem_at m (a + i) = Some (t ! i)" "mem_at m (a + length t) = Some 0" by blast
        obtain u where u: "t = b # u" using t at nz by (cases t) auto
        have "\<forall>i < length u. mem_at m (a + 1 + i) = Some (u ! i)" using t(4) u by fastforce
        then show "cstr_loop m out a = Some s" using t u nz IH by (auto simp: eq)
      qed
    qed
  qed
qed

text \<open>
  Reading a guest string succeeds exactly when the guest memory holds one: \<open>read_cstr\<close> returns
  \<open>s\<close> if and only if the bytes of \<open>s\<close>, none of them NUL and fewer than 4096, stand at the address in
  mapped memory, followed by a NUL; unmapped memory, an unterminated string and the end of the address
  space are errors, and the loop always ends.
\<close>

lemma read_cstr_exact:
  "read_cstr m a = Some s \<longleftrightarrow>
   length s < 4096 \<and> 0 \<notin> set s \<and> map (\<lambda>i. mem_at m (unat a + i)) [0..<length s] = map Some s \<and>
   mem_at m (unat a + length s) = Some 0"
proof -
  have "map (\<lambda>i. mem_at m (unat a + i)) [0..<length s] = map Some s \<longleftrightarrow>
      (\<forall>i < length s. mem_at m (unat a + i) = Some (s ! i))"
    unfolding list_eq_iff_nth_eq by simp
  then show ?thesis using cstr_loop_iff [of "[]" m "unat a" s] by (simp add: read_cstr_def CSTR_MAX_def)
qed

end
