(* ===== verification/User_Layout.thy ===== *)
theory User_Layout
  imports User_AddrSpace
begin

text \<open>
  Mapping calls on the sparse address space: what \<open>map\<close>, \<open>unmap\<close>, \<open>set_brk\<close> and \<open>mmap\<close> do to the
  byte map, and the layout every sequence of them keeps.
\<close>

subsection \<open>What mapping does to the byte map\<close>

definition in_chunks :: "u32 \<Rightarrow> u32 \<Rightarrow> nat \<Rightarrow> bool" where
  "in_chunks a len x \<longleftrightarrow> len \<noteq> 0 \<and> x < 2 ^ 32 \<and> unat a div 65536 \<le> x div 65536 \<and>
     x div 65536 \<le> (unat a + unat len - 1) div 65536"

lemma mem_at_map:
  "mem_at (as_map m a len) x =
   (if in_chunks a len x \<and> mem_at m x = None then Some 0 else mem_at m x)"
proof -
  have "x div 65536 \<le> min (unat a + unat len - 1) (2 ^ 32 - 1) div 65536 \<longleftrightarrow>
      x div 65536 \<le> (unat a + unat len - 1) div 65536" if "x < 2 ^ 32"
  proof -
    have "x div 65536 \<le> (2 ^ 32 - 1) div 65536" using that by (intro div_le_mono) simp
    then show ?thesis
      using div_le_mono [of "2 ^ 32 - 1" "unat a + unat len - 1" 65536] by (auto simp: min_def)
  qed
  then show ?thesis
    by (auto simp: as_map_def mem_at_def in_chunks_def chunk_idx_div new_chunk_def Let_def)
qed

lemma in_chunks_range:
  assumes "unat a \<le> x" and "x < unat a + unat len" and "x < 2 ^ 32"
  shows "in_chunks a len x"
proof -
  have "x \<le> unat a + unat len - 1" "len \<noteq> 0" using assms by auto
  with assms show ?thesis by (auto simp: in_chunks_def intro!: div_le_mono)
qed

lemma as_map_maps:
  assumes "unat a \<le> x" and "x < unat a + unat len" and "x < 2 ^ 32"
  shows "mem_at (as_map m a len) x \<noteq> None"
  using in_chunks_range [OF assms] by (auto simp: mem_at_map)

lemma as_map_keeps: "mem_at m x = Some b \<Longrightarrow> mem_at (as_map m a len) x = Some b"
  by (simp add: mem_at_map)

lemma as_map_layout [simp]: "same_layout m (as_map m a len)"
  by (simp add: as_map_def same_layout_def Let_def)

lemma mem_at_unmap_outside:
  assumes "x < unat a \<or> unat a + unat len \<le> x"
  shows "mem_at (unmap m a len) x = mem_at m x"
proof -
  have "\<not> ((unat a + 65535) div 65536 \<le> x div 65536 \<and>
      x div 65536 < min (unat a + unat len) (2 ^ 32) div 65536)"
  proof
    assume h: "(unat a + 65535) div 65536 \<le> x div 65536 \<and>
      x div 65536 < min (unat a + unat len) (2 ^ 32) div 65536"
    have "unat a \<le> (unat a + 65535) div 65536 * 65536"
      using div_mult_mod_eq [of "unat a + 65535" 65536] mod_less_divisor [of 65536 "unat a + 65535"] by linarith
    also have "\<dots> \<le> x div 65536 * 65536" using h by (intro mult_le_mono1) simp
    also have "\<dots> \<le> x" by simp
    finally have 1: "unat a \<le> x" .
    have "x mod 65536 < 65536" by simp
    then have "x < x div 65536 * 65536 + 65536" using div_mult_mod_eq [of x 65536] by linarith
    then have "x < (x div 65536 + 1) * 65536" by (simp add: add_mult_distrib)
    also have "(x div 65536 + 1) * 65536 \<le> min (unat a + unat len) (2 ^ 32) div 65536 * 65536"
      using h by (intro mult_le_mono1) simp
    also have "\<dots> \<le> min (unat a + unat len) (2 ^ 32)" by (rule div_times_less_eq_dividend)
    finally have "x < unat a + unat len" by simp
    with 1 assms show False by simp
  qed
  then show ?thesis by (auto simp: unmap_def mem_at_def Let_def)
qed

lemma unmap_layout [simp]: "same_layout m (unmap m a len)"
  by (simp add: unmap_def same_layout_def Let_def)

subsection \<open>Sequences of memory calls\<close>

text \<open>
  The calls a running guest makes on its address space: its own stores, the host's stores on its
  behalf, and the mapping system calls. \<open>run_calls\<close> collects the ranges that \<open>mmap\<close> handed out
  at addresses of its own choice.
\<close>

datatype mem_call =
    Call_store u32 u8
  | Call_write u32 "u8 list"
  | Call_brk u32
  | Call_mmap u32 u32 bool
  | Call_munmap u32 u32

fun do_call :: "mem_call \<Rightarrow> AddressSpace \<Rightarrow> (nat \<times> nat) list \<times> AddressSpace" where
  "do_call (Call_store a v) m = ([], write8 m a v)"
| "do_call (Call_write a data) m = ([], snd (write_bytes m a data))"
| "do_call (Call_brk new) m = ([], snd (set_brk m new))"
| "do_call (Call_mmap a len fixed) m =
     (case mmap m a len fixed of
        (Some base, m) \<Rightarrow> (if fixed then [] else [(unat base, unat len)], m)
      | (None, m) \<Rightarrow> ([], m))"
| "do_call (Call_munmap a len) m = ([], unmap m a len)"

fun run_calls :: "mem_call list \<Rightarrow> AddressSpace \<Rightarrow> (nat \<times> nat) list \<times> AddressSpace" where
  "run_calls [] m = ([], m)"
| "run_calls (c # cs) m =
     (let (xs, m) = do_call c m; (ys, m) = run_calls cs m in (xs @ ys, m))"

text \<open>The regions never run into each other: image, heap, mmap area, stack.\<close>

definition layout_ok :: "AddressSpace \<Rightarrow> bool" where
  "layout_ok m \<longleftrightarrow> as_brk_base m \<le> as_brk m \<and> as_brk m \<le> MMAP_BASE \<and>
     MMAP_BASE \<le> as_mmap_next m \<and> as_mmap_next m \<le> STACK_TOP - STACK_SIZE \<and>
     as_mmap_next m AND (PAGE_SIZE - 1) = 0"

lemma layout_consts:
  "unat (STACK_TOP - STACK_SIZE) = 0xBF800000" "unat MMAP_BASE = 0x40000000" "PAGE_SIZE - 1 = mask 12"
  by (simp_all add: STACK_TOP_def STACK_SIZE_def MMAP_BASE_def PAGE_SIZE_def mask_eq_exp_minus_1)

lemma layout_ok_cong: "same_layout m m' \<Longrightarrow> layout_ok m' \<longleftrightarrow> layout_ok m"
  by (simp add: layout_ok_def same_layout_def)

lemma write8_layout: "layout_ok (write8 m a v) \<longleftrightarrow> layout_ok m" "as_mmap_next (write8 m a v) = as_mmap_next m"
  by (auto simp: write8_def note_segv_def layout_ok_def split: option.split)

lemma page_aligned: "(a :: u32) AND mask 12 = 0 \<longleftrightarrow> unat a mod 4096 = 0"
  using unat_and_mask [of a 12] unat_eq_zero [of "a AND mask 12"] by simp

lemma align_up_some:
  assumes "align_up v PAGE_SIZE = Some w"
  shows "unat v \<le> unat w" "unat w mod 4096 = 0" "unat w < unat v + 4096"
proof -
  have p: "PAGE_SIZE - 1 = mask 12" "unat (mask 12 :: u32) = 4095"
    by (simp_all add: PAGE_SIZE_def mask_eq_exp_minus_1)
  have lim: "unat v + 4095 < 2 ^ 32" and w: "w = (v + mask 12) AND NOT (mask 12)"
    using assms by (simp_all add: align_up_def p split: if_splits)
  have u: "unat (v + mask 12) = unat v + 4095"
    using lim p by (simp add: unat_word_ariths)
  have "unat w = (unat v + 4095) - (unat v + 4095) mod 4096"
    using unat_align_down [of "v + mask 12" 12] by (simp add: w u)
  moreover have "(unat v + 4095) mod 4096 < 4096" by simp
  moreover have "((unat v + 4095) - (unat v + 4095) mod 4096) mod 4096 = 0"
    by (rule align_down_dvd)
  ultimately show "unat v \<le> unat w" "unat w mod 4096 = 0" "unat w < unat v + 4096" by (linarith | simp)+
qed

lemma set_brk_layout:
  assumes "layout_ok m"
  shows "layout_ok (snd (set_brk m new))" "as_mmap_next (snd (set_brk m new)) = as_mmap_next m"
  using assms as_map_layout [of m "as_brk m" "new - as_brk m"]
  by (auto simp: set_brk_def layout_ok_def Let_def same_layout_def not_less)

lemma no_alloc:
  "same_layout m m' \<Longrightarrow> layout_ok m \<Longrightarrow> layout_ok m' \<and> as_mmap_next m \<le> as_mmap_next m'"
  using layout_ok_cong [of m m'] by (auto simp: same_layout_def)

lemma mmap_cases:
  assumes "mmap m a len fixed = (r, m')"
  obtains (err) "r = None" "m' = m"
  | (fixed) l where "fixed" "r = Some a" "m' = as_map m a l"
  | (fresh) l where "\<not> fixed" "align_up len PAGE_SIZE = Some l"
      "unat (as_mmap_next m) + unat l \<le> unat (STACK_TOP - STACK_SIZE)" "r = Some (as_mmap_next m)"
      "m' = (as_map m (as_mmap_next m) l)\<lparr>as_mmap_next := of_nat (unat (as_mmap_next m) + unat l)\<rparr>"
proof (cases "len = 0 \<or> align_up len PAGE_SIZE = None")
  case True
  then show ?thesis using assms err by (auto simp: mmap_def split: if_splits)
next
  case False
  then obtain l where l: "len \<noteq> 0" "align_up len PAGE_SIZE = Some l" by auto
  show ?thesis
  proof (cases fixed)
    case True
    then show ?thesis using assms l err that(2) [of l] unfolding mmap_def Let_def
      by (cases "a AND (PAGE_SIZE - 1) \<noteq> 0 \<or> 2 ^ 32 \<le> unat a + unat (l - 1)") (simp_all del: power_numeral)
  next
    case False
    define lim where "lim = unat (STACK_TOP - STACK_SIZE)"
    define m2 where
      "m2 = (as_map m (as_mmap_next m) l)\<lparr>as_mmap_next := of_nat (unat (as_mmap_next m) + unat l)\<rparr>"
    have eq: "(r, m') = (if lim < unat (as_mmap_next m) + unat l then (None, m) else (Some (as_mmap_next m), m2))"
      using assms l False by (simp only: mmap_def Let_def option.case if_False lim_def m2_def)
    show ?thesis
    proof (cases "lim < unat (as_mmap_next m) + unat l")
      case True
      with eq show ?thesis by (intro err) simp_all
    next
      case below: False
      then have "r = Some (as_mmap_next m)" "m' = m2" using eq by simp_all
      moreover have "unat (as_mmap_next m) + unat l \<le> unat (STACK_TOP - STACK_SIZE)"
        using below by (simp only: lim_def not_less)
      ultimately show ?thesis using False l(2) unfolding m2_def by (intro fresh)
    qed
  qed
qed

lemma mmap_step:
  assumes "layout_ok m" and "mmap m a len fixed = (r, m')"
  shows "layout_ok m' \<and> as_mmap_next m \<le> as_mmap_next m' \<and>
    (r \<noteq> None \<longrightarrow> \<not> fixed \<longrightarrow> r = Some (as_mmap_next m) \<and>
       unat (as_mmap_next m) + unat len \<le> unat (as_mmap_next m'))"
  using assms(2)
proof (cases rule: mmap_cases)
  case err
  with assms(1) show ?thesis by simp
next
  case (fixed l)
  with no_alloc [OF as_map_layout assms(1), of a l] show ?thesis by simp
next
  case (fresh l)
  let ?next = "as_mmap_next m"
  note m' = fresh(5) fresh(4) and l = fresh(2)
  have lim: "unat ?next + unat l \<le> 0xBF800000" using fresh(3) by (simp add: layout_consts)
  have n: "unat (as_mmap_next m') = unat ?next + unat l" using lim m' by (simp add: unat_word_ariths)
  have pg: "unat ?next mod 4096 = 0"
    using assms(1) by (simp add: layout_ok_def layout_consts(3) page_aligned)
  have pg': "as_mmap_next m' AND (PAGE_SIZE - 1) = 0"
    unfolding layout_consts(3) page_aligned n using pg align_up_some(2) [OF l] by (simp add: mod_add_eq [symmetric])
  have frame: "as_brk m' = as_brk m" "as_brk_base m' = as_brk_base m"
    using as_map_layout [of m ?next l] by (simp_all add: m' same_layout_def)
  have le: "?next \<le> as_mmap_next m'" "as_mmap_next m' \<le> STACK_TOP - STACK_SIZE"
    using n lim by (simp_all add: word_le_nat_alt layout_consts)
  have "layout_ok m'" using assms(1) pg' frame le unfolding layout_ok_def by (metis order_trans)
  then show ?thesis using le m' n align_up_some(1) [OF l] by auto
qed

lemma do_call_step:
  assumes "layout_ok m" and "do_call c m = (xs, m')"
  shows "layout_ok m' \<and> as_mmap_next m \<le> as_mmap_next m' \<and>
    (xs = [] \<or> (\<exists>b l. xs = [(b, l)] \<and> unat (as_mmap_next m) \<le> b \<and> b + l \<le> unat (as_mmap_next m')))"
proof (cases c)
  case (Call_store a v)
  then show ?thesis using assms by (auto simp: write8_layout)
next
  case (Call_write a data)
  then show ?thesis using assms no_alloc [OF write_bytes_layout, of m a data] by auto
next
  case (Call_brk new)
  then show ?thesis using assms set_brk_layout by auto
next
  case (Call_mmap a len fixed)
  then show ?thesis using assms mmap_step [OF assms(1), of a len fixed]
    by (cases "mmap m a len fixed") (auto split: option.splits if_splits)
next
  case (Call_munmap a len)
  then show ?thesis using assms no_alloc [OF unmap_layout, of m a len] by auto
qed

lemma run_calls_mono:
  assumes "layout_ok m" and "run_calls cs m = (xs, m')"
  shows "unat (as_mmap_next m) \<le> unat (as_mmap_next m')"
  using assms
proof (induction cs arbitrary: m xs)
  case Nil
  then show ?case by simp
next
  case (Cons c cs)
  obtain zs m1 where d: "do_call c m = (zs, m1)" by fastforce
  with Cons.prems(2) obtain ys where r: "run_calls cs m1 = (ys, m')" by (cases "run_calls cs m1") auto
  have "layout_ok m1" "unat (as_mmap_next m) \<le> unat (as_mmap_next m1)"
    using do_call_step [OF Cons.prems(1) d] by (simp_all add: word_le_nat_alt)
  with Cons.IH [OF _ r] show ?case by simp
qed

text \<open>
  C20. The process layout is kept by every sequence of guest stores, host stores, \<open>brk\<close>, \<open>mmap\<close> and
  \<open>munmap\<close> calls: the break stays between the end of the image and the mmap area, the mmap cursor stays
  page-aligned between the mmap area's base and the stack, and the ranges \<open>mmap\<close> chose are handed out
  in increasing order without overlap, all of them between the mmap base and the stack region.
\<close>

theorem memory_calls_keep_layout:
  assumes "layout_ok m" and "run_calls cs m = (allocs, m')"
  shows "layout_ok m' \<and>
    sorted_wrt (\<lambda>(b, l) (b', l'). b + l \<le> b') allocs \<and>
    (\<forall>(b, l) \<in> set allocs. unat (as_mmap_next m) \<le> b \<and> b + l \<le> unat (as_mmap_next m'))"
  using assms
proof (induction cs arbitrary: m allocs)
  case Nil
  then show ?case by simp
next
  case (Cons c cs)
  obtain xs m1 where c: "do_call c m = (xs, m1)" by fastforce
  obtain ys where r: "run_calls cs m1 = (ys, m')" and al: "allocs = xs @ ys"
    using Cons.prems(2) c by (cases "run_calls cs m1") auto
  note step = do_call_step [OF Cons.prems(1) c]
  have IH: "layout_ok m'" "sorted_wrt (\<lambda>(b, l) (b', l'). b + l \<le> b') ys"
    "\<forall>(b, l) \<in> set ys. unat (as_mmap_next m1) \<le> b \<and> b + l \<le> unat (as_mmap_next m')"
    using Cons.IH [OF _ r] step by blast+
  have mono: "unat (as_mmap_next m) \<le> unat (as_mmap_next m1)" using step by (simp add: word_le_nat_alt)
  have mono': "unat (as_mmap_next m1) \<le> unat (as_mmap_next m')"
    using run_calls_mono [OF _ r] step by blast
  show ?case
  proof (cases "xs = []")
    case True
    with IH al mono show ?thesis by fastforce
  next
    case False
    then obtain b l where "xs = [(b, l)]" "unat (as_mmap_next m) \<le> b" "b + l \<le> unat (as_mmap_next m1)"
      using step by blast
    with IH al mono mono' show ?thesis by fastforce
  qed
qed

theorem memory_calls_keep_layout_witness:
  "let m = AddressSpace_new\<lparr>as_brk := 0x08050000, as_brk_base := 0x08050000\<rparr>;
       (allocs, m') = run_calls [Call_brk 0x08060000, Call_mmap 0 100 False, Call_mmap 0 5000 False] m
   in layout_ok m' \<and> allocs = [(0x40000000, 100), (0x40001000, 5000)]"
proof -
  let ?m = "AddressSpace_new\<lparr>as_brk := 0x08050000, as_brk_base := 0x08050000\<rparr>"
  let ?cs = "[Call_brk 0x08060000, Call_mmap 0 100 False, Call_mmap 0 5000 False]"
  have ok: "layout_ok ?m"
    by (simp add: layout_ok_def AddressSpace_new_def MMAP_BASE_def STACK_TOP_def STACK_SIZE_def PAGE_SIZE_def)
  have eval: "fst (run_calls ?cs ?m) = [(0x40000000, 100), (0x40001000, 5000)]"
    by (simp add: set_brk_def mmap_def align_up_def AddressSpace_new_def MMAP_BASE_def STACK_TOP_def
        STACK_SIZE_def PAGE_SIZE_def as_map_def Let_def)
  obtain allocs m' where r: "run_calls ?cs ?m = (allocs, m')" by fastforce
  show ?thesis using memory_calls_keep_layout [OF ok r] eval unfolding Let_def r by simp
qed

end
