(* ===== verification/User_Elf.thy ===== *)
theory User_Elf
  imports User_Layout "HOL-Library.Monad_Syntax"
begin

text \<open>
  ELF32 images, \<open>src/usermode/elf.rs\<close>: parsing and validating a static executable, and mapping its
  loadable segments. A result is \<open>None\<close> where the Rust code panics: an index or a slice out of range,
  the \<open>expect\<close> on a copy into memory just mapped, and, in builds with overflow checks (the parameter
  \<open>chk\<close>; the release profile wraps), an addition past \<open>u32\<close>. \<open>Inl\<close> is \<open>Err\<close>, \<open>Inr\<close> is \<open>Ok\<close>.
\<close>

definition EM_386 :: u16 where "EM_386 = 3"
definition PT_LOAD :: u32 where "PT_LOAD = 1"

record Phdr =
  ph_type :: u32
  ph_offset :: u32
  ph_vaddr :: u32
  ph_filesz :: u32
  ph_memsz :: u32
  ph_flags :: u32

record Elf32 =
  el_entry :: u32
  el_phoff :: u32
  el_phnum :: u16
  el_machine :: u16
  el_phdrs :: "Phdr list"

datatype LoadError =
    NotElf
  | Not32Bit
  | NotLittleEndian
  | NotExec
  | WrongMachine u16
  | Truncated
  | NoLoadSegments

text \<open>\<open>b[i]\<close>\<close>

definition index :: "u8 list \<Rightarrow> nat \<Rightarrow> u8 option" where
  "index b i = (if i < length b then Some (b ! i) else None)"

definition u16le :: "u8 list \<Rightarrow> nat \<Rightarrow> u16 option" where
  "u16le b off = map_option from_le (slice b off (off + 2))"

definition u32le :: "u8 list \<Rightarrow> nat \<Rightarrow> u32 option" where
  "u32le b off = map_option from_le (slice b off (off + 4))"

definition ELF_MAGIC :: "u8 list" where "ELF_MAGIC = [0x7F, 0x45, 0x4C, 0x46]"

definition parse_phdr :: "u8 list \<Rightarrow> nat \<Rightarrow> Phdr option" where
  "parse_phdr b p = do {
     ty \<leftarrow> u32le b p;
     offset \<leftarrow> u32le b (p + 4);
     vaddr \<leftarrow> u32le b (p + 8);
     filesz \<leftarrow> u32le b (p + 16);
     memsz \<leftarrow> u32le b (p + 20);
     flags \<leftarrow> u32le b (p + 24);
     Some \<lparr>ph_type = ty, ph_offset = offset, ph_vaddr = vaddr, ph_filesz = filesz,
           ph_memsz = memsz, ph_flags = flags\<rparr>
   }"

definition phdr_bad :: "u8 list \<Rightarrow> Phdr \<Rightarrow> bool" where
  "phdr_bad b ph =
     (let file_end = unat (ph_offset ph) + unat (ph_filesz ph);
          mem_end = unat (ph_vaddr ph) + unat (ph_memsz ph)
      in file_end > length b \<or> ph_filesz ph > ph_memsz ph \<or> mem_end > 2 ^ 32)"

text \<open>The loop \<open>for i in 0..phnum\<close>.\<close>

fun parse_phdrs :: "u8 list \<Rightarrow> nat \<Rightarrow> nat list \<Rightarrow> (LoadError + Phdr list) option" where
  "parse_phdrs b phoff [] = Some (Inr [])"
| "parse_phdrs b phoff (i # is) = do {
     ph \<leftarrow> parse_phdr b (phoff + i * 32);
     if ph_type ph = PT_LOAD \<and> phdr_bad b ph then Some (Inl Truncated)
     else do {
       r \<leftarrow> parse_phdrs b phoff is;
       Some (case r of Inl e \<Rightarrow> Inl e | Inr phs \<Rightarrow> Inr (ph # phs))
     }
   }"

definition parse :: "u8 list \<Rightarrow> (LoadError + Elf32) option" where
  "parse b =
     (if length b < 4 \<or> take 4 b \<noteq> ELF_MAGIC then Some (Inl NotElf)
      else if length b < 52 then Some (Inl Truncated)
      else do {
        cls \<leftarrow> index b 4;
        if cls \<noteq> 1 then Some (Inl Not32Bit) else do {
        enc \<leftarrow> index b 5;
        if enc \<noteq> 1 then Some (Inl NotLittleEndian) else do {
        ty \<leftarrow> u16le b 16;
        if ty \<noteq> 2 then Some (Inl NotExec) else do {
        machine \<leftarrow> u16le b 18;
        entry \<leftarrow> u32le b 24;
        phoff \<leftarrow> u32le b 28;
        phentsize \<leftarrow> u16le b 42;
        phnum \<leftarrow> u16le b 44;
        if phentsize \<noteq> 32 then Some (Inl Truncated)
        else if unat phoff + unat phnum * 32 > length b then Some (Inl Truncated)
        else do {
          r \<leftarrow> parse_phdrs b (unat phoff) [0..<unat phnum];
          Some (case r of
            Inl e \<Rightarrow> Inl e
          | Inr phdrs \<Rightarrow>
              if \<not> list_ex (\<lambda>p. ph_type p = PT_LOAD) phdrs then Inl NoLoadSegments
              else Inr \<lparr>el_entry = entry, el_phoff = phoff, el_phnum = phnum, el_machine = machine,
                        el_phdrs = phdrs\<rparr>)
        }}}}})"

text \<open>The break so far, the header table address so far, and the memory.\<close>

type_synonym load_state = "u32 \<times> u32 option \<times> AddressSpace"

text \<open>One round of the loop over the \<open>PT_LOAD\<close> headers.\<close>

definition load_segment :: "bool \<Rightarrow> Elf32 \<Rightarrow> u8 list \<Rightarrow> Phdr \<Rightarrow> load_state \<Rightarrow> load_state option" where
  "load_segment chk elf bytes ph st =
     (case st of (image_end, phdr_vaddr, mem) \<Rightarrow>
      let table_end = unat (el_phoff elf) + unat (el_phnum elf) * 32;
          page_base = ph_vaddr ph AND NOT (PAGE_SIZE - 1)
      in do {
        len \<leftarrow> add_u32 chk (ph_vaddr ph - page_base) (ph_memsz ph);
        let mem = as_map mem page_base len;
        file_end \<leftarrow> add_u32 chk (ph_offset ph) (ph_filesz ph);
        data \<leftarrow> slice bytes (unat (ph_offset ph)) (unat file_end);
        let (ok, mem) = write_bytes mem (ph_vaddr ph) data;
        _ \<leftarrow> ok;
        mem_end \<leftarrow> add_u32 chk (ph_vaddr ph) (ph_memsz ph);
        let image_end = max image_end mem_end;
        if unat (ph_offset ph) \<le> unat (el_phoff elf) \<and>
           table_end \<le> unat (ph_offset ph) + unat (ph_filesz ph)
        then do {
          v \<leftarrow> add_u32 chk (ph_vaddr ph) (el_phoff elf - ph_offset ph);
          Some (image_end, Some v, mem)
        }
        else Some (image_end, phdr_vaddr, mem)
      })"

fun load_segments :: "bool \<Rightarrow> Elf32 \<Rightarrow> u8 list \<Rightarrow> Phdr list \<Rightarrow> load_state \<Rightarrow> load_state option" where
  "load_segments chk elf bytes [] st = Some st"
| "load_segments chk elf bytes (ph # phs) st =
     do { st \<leftarrow> load_segment chk elf bytes ph st; load_segments chk elf bytes phs st }"

definition elf_load :: "bool \<Rightarrow> Elf32 \<Rightarrow> u8 list \<Rightarrow> AddressSpace \<Rightarrow> ((u32 \<times> u32 \<times> u32 option) \<times> AddressSpace) option" where
  "elf_load chk elf bytes mem = do {
     (image_end, phdr_vaddr, mem) \<leftarrow>
       load_segments chk elf bytes (filter (\<lambda>p. ph_type p = PT_LOAD) (el_phdrs elf)) (0, None, mem);
     let brk_start = (case align_up image_end PAGE_SIZE of Some v \<Rightarrow> v | None \<Rightarrow> NOT (PAGE_SIZE - 1));
     Some ((el_entry elf, brk_start, phdr_vaddr), mem)
   }"

subsection \<open>Parsing\<close>

text \<open>The header fields of an image, for bytes long enough to hold them.\<close>

definition field :: "u8 list \<Rightarrow> nat \<Rightarrow> nat \<Rightarrow> 'a::len word" where
  "field b k n = from_le (take n (drop k b))"

definition phdr_at :: "u8 list \<Rightarrow> nat \<Rightarrow> Phdr" where
  "phdr_at b p = \<lparr>ph_type = field b p 4, ph_offset = field b (p + 4) 4, ph_vaddr = field b (p + 8) 4,
     ph_filesz = field b (p + 16) 4, ph_memsz = field b (p + 20) 4, ph_flags = field b (p + 24) 4\<rparr>"

definition loadable :: "Phdr \<Rightarrow> bool" where "loadable p \<longleftrightarrow> ph_type p = PT_LOAD"

definition segment_ok :: "u8 list \<Rightarrow> Phdr \<Rightarrow> bool" where
  "segment_ok b p \<longleftrightarrow> unat (ph_offset p) + unat (ph_filesz p) \<le> length b \<and>
     ph_filesz p \<le> ph_memsz p \<and> unat (ph_vaddr p) + unat (ph_memsz p) \<le> 2 ^ 32"

definition is_image :: "u8 list \<Rightarrow> Elf32 \<Rightarrow> bool" where
  "is_image b e \<longleftrightarrow>
     52 \<le> length b \<and> take 4 b = ELF_MAGIC \<and> b ! 4 = 1 \<and> b ! 5 = 1 \<and>
     (field b 16 2 :: u16) = 2 \<and> (field b 42 2 :: u16) = 32 \<and>
     el_machine e = field b 18 2 \<and> el_entry e = field b 24 4 \<and>
     el_phoff e = field b 28 4 \<and> el_phnum e = field b 44 2 \<and>
     unat (el_phoff e) + unat (el_phnum e) * 32 \<le> length b \<and>
     el_phdrs e = map (\<lambda>i. phdr_at b (unat (el_phoff e) + i * 32)) [0..<unat (el_phnum e)] \<and>
     (\<forall>p \<in> set (el_phdrs e). loadable p \<longrightarrow> segment_ok b p) \<and> (\<exists>p \<in> set (el_phdrs e). loadable p)"

lemma u16le_field: "k + 2 \<le> length b \<Longrightarrow> u16le b k = Some (field b k 2)"
  by (simp add: u16le_def slice_def field_def)

lemma u32le_field: "k + 4 \<le> length b \<Longrightarrow> u32le b k = Some (field b k 4)"
  by (simp add: u32le_def slice_def field_def)

lemma parse_phdr_at: "p + 32 \<le> length b \<Longrightarrow> parse_phdr b p = Some (phdr_at b p)"
  by (simp add: parse_phdr_def u32le_field phdr_at_def)

lemma phdr_bad_iff: "phdr_bad b p \<longleftrightarrow> \<not> segment_ok b p"
  by (auto simp: phdr_bad_def segment_ok_def Let_def not_less)

lemma parse_phdrs_exact:
  assumes "\<forall>i \<in> set is. phoff + i * 32 + 32 \<le> length b"
  shows "parse_phdrs b phoff is =
    (let ps = map (\<lambda>i. phdr_at b (phoff + i * 32)) is in
     Some (if \<forall>p \<in> set ps. loadable p \<longrightarrow> segment_ok b p then Inr ps else Inl Truncated))"
  using assms
proof (induction "is")
  case (Cons i "is")
  then have "parse_phdr b (phoff + i * 32) = Some (phdr_at b (phoff + i * 32))"
    by (intro parse_phdr_at) simp
  with Cons show ?case by (auto simp: loadable_def phdr_bad_iff Let_def)
qed simp

lemma parse_accepts:
  "parse b \<noteq> None \<and> (parse b = Some (Inr e) \<longleftrightarrow> is_image b e)"
proof (cases "52 \<le> length b \<and> take 4 b = ELF_MAGIC \<and> b ! 4 = 1 \<and> b ! 5 = 1 \<and>
    (field b 16 2 :: u16) = 2 \<and> (field b 42 2 :: u16) = 32 \<and>
    unat (field b 28 4 :: u32) + unat (field b 44 2 :: u16) * 32 \<le> length b")
  case False
  have "u16le b k = Some (field b k 2)" "u32le b k = Some (field b k 4)" if "52 \<le> length b" "k \<le> 48" for k
    using that by (simp_all add: u16le_field u32le_field)
  then have "parse b \<in> (\<lambda>e. Some (Inl e)) ` UNIV"
    using False by (auto simp: parse_def index_def not_less)
  moreover have "\<not> is_image b e" using False by (auto simp: is_image_def)
  ultimately show ?thesis by auto
next
  case True
  let ?off = "unat (field b 28 4 :: u32)" and ?n = "unat (field b 44 2 :: u16)"
  let ?ps = "map (\<lambda>i. phdr_at b (?off + i * 32)) [0..<?n]"
  have len: "\<not> length b < 4" "\<not> length b < 52" using True by linarith+
  have ranges: "\<forall>i \<in> set [0..<?n]. ?off + i * 32 + 32 \<le> length b"
  proof
    fix i assume "i \<in> set [0..<?n]"
    then have "(i + 1) * 32 \<le> ?n * 32" by (intro mult_le_mono1) simp
    then show "?off + i * 32 + 32 \<le> length b" using True by simp
  qed
  have "parse b = Some (if \<forall>p \<in> set ?ps. loadable p \<longrightarrow> segment_ok b p
      then if \<exists>p \<in> set ?ps. loadable p
           then Inr \<lparr>el_entry = field b 24 4, el_phoff = field b 28 4, el_phnum = field b 44 2,
                     el_machine = field b 18 2, el_phdrs = ?ps\<rparr>
           else Inl NoLoadSegments
      else Inl Truncated)"
    unfolding parse_def
    using True len parse_phdrs_exact [OF ranges]
    by (simp add: index_def u16le_field u32le_field Let_def list_ex_iff loadable_def [symmetric] not_less)
  then show ?thesis using True by (auto simp: is_image_def)
qed

text \<open>
  C21. The ELF parser is total and exact. On no file does it index or slice out of range; it accepts a
  file exactly when the file is a little-endian 32-bit executable whose program header table and whose
  every loadable segment lie inside the file, with no segment larger in the file than in memory or
  reaching past 4 GiB, and at least one loadable segment; and the accepted headers are those of the file.
\<close>

theorem parse_exact:
  "parse b \<noteq> None \<and> (parse b = Some (Inr e) \<longleftrightarrow> is_image b e)"
  by (rule parse_accepts)

subsection \<open>Loading\<close>

text \<open>The byte the segments, in file order, put at an address; later segments win.\<close>

definition image_byte :: "u8 list \<Rightarrow> Phdr list \<Rightarrow> nat \<Rightarrow> u8" where
  "image_byte b ps x = fold (\<lambda>p v.
     if unat (ph_vaddr p) \<le> x \<and> x < unat (ph_vaddr p) + unat (ph_filesz p)
     then b ! (unat (ph_offset p) + (x - unat (ph_vaddr p))) else v) ps 0"

definition in_segment :: "Phdr \<Rightarrow> nat \<Rightarrow> bool" where
  "in_segment p x \<longleftrightarrow> unat (ph_vaddr p) \<le> x \<and> x < unat (ph_vaddr p) + unat (ph_memsz p)"

definition segment_end :: "Phdr \<Rightarrow> nat" where
  "segment_end p = unat (ph_vaddr p) + unat (ph_memsz p)"

text \<open>The segment's file range holds the program header table, which then has this address.\<close>

definition holds_table :: "Elf32 \<Rightarrow> Phdr \<Rightarrow> bool" where
  "holds_table e p \<longleftrightarrow> unat (ph_offset p) \<le> unat (el_phoff e) \<and>
     unat (el_phoff e) + unat (el_phnum e) * 32 \<le> unat (ph_offset p) + unat (ph_filesz p)"

definition table_addr :: "Elf32 \<Rightarrow> Phdr \<Rightarrow> nat" where
  "table_addr e p = unat (ph_vaddr p) + (unat (el_phoff e) - unat (ph_offset p))"

definition loaded :: "u8 list \<Rightarrow> Phdr list \<Rightarrow> AddressSpace \<Rightarrow> bool" where
  "loaded b ps m \<longleftrightarrow> (\<forall>x. case mem_at m x of
     None \<Rightarrow> \<forall>p \<in> set ps. \<not> in_segment p x | Some v \<Rightarrow> v = image_byte b ps x)"

lemma loadedD:
  assumes "loaded b ps m"
  shows "mem_at m x = Some v \<Longrightarrow> v = image_byte b ps x"
    "p \<in> set ps \<Longrightarrow> in_segment p x \<Longrightarrow> mem_at m x = Some (image_byte b ps x)"
  using assms [unfolded loaded_def, THEN spec, of x] by (auto split: option.splits)

lemma image_byte_zero:
  "(\<And>p. p \<in> set ps \<Longrightarrow> ph_filesz p \<le> ph_memsz p) \<Longrightarrow> (\<And>p. p \<in> set ps \<Longrightarrow> \<not> in_segment p x) \<Longrightarrow>
   image_byte b ps x = 0"
proof (induction ps rule: rev_induct)
  case (snoc p ps)
  have "ph_filesz p \<le> ph_memsz p" "\<not> in_segment p x" using snoc.prems by auto
  then have "\<not> (unat (ph_vaddr p) \<le> x \<and> x < unat (ph_vaddr p) + unat (ph_filesz p))"
    unfolding in_segment_def word_le_nat_alt by linarith
  moreover have "image_byte b ps x = 0" using snoc by simp
  ultimately show ?case by (auto simp: image_byte_def)
qed (simp add: image_byte_def)

lemma page_base:
  "unat (a AND NOT (PAGE_SIZE - 1) :: u32) = unat a - unat a mod 4096"
  "unat (a - (a AND NOT (PAGE_SIZE - 1)) :: u32) = unat a mod 4096"
proof -
  have m: "PAGE_SIZE - 1 = mask 12" by (simp add: PAGE_SIZE_def mask_eq_exp_minus_1)
  show "unat (a AND NOT (PAGE_SIZE - 1)) = unat a - unat a mod 4096"
    unfolding m unat_align_down by simp
  have "a - (a AND NOT (mask 12)) = a AND mask 12"
    by (subst (1) and_not_mask_plus [of a 12, symmetric]) simp
  then show "unat (a - (a AND NOT (PAGE_SIZE - 1))) = unat a mod 4096"
    unfolding m using unat_and_mask [of a 12] by simp
qed

lemma load_segment_exact:
  assumes ok: "segment_ok b p" and fits: "segment_end p \<le> 0xFFFFF000" and len: "length b < 2 ^ 32"
    and ld: "loaded b ps m" and sz: "\<And>q. q \<in> set ps \<Longrightarrow> ph_filesz q \<le> ph_memsz q"
  shows "\<exists>m'. load_segment chk e b p (fin, pv, m) =
      Some (max fin (ph_vaddr p + ph_memsz p),
            if holds_table e p then Some (of_nat (table_addr e p)) else pv, m') \<and>
    loaded b (ps @ [p]) m'"
proof -
  let ?v = "ph_vaddr p" and ?base = "ph_vaddr p AND NOT (PAGE_SIZE - 1)"
  define l where "l = ?v - ?base + ph_memsz p"
  define d where "d = take (unat (ph_filesz p)) (drop (unat (ph_offset p)) b)"
  have fe: "unat (ph_offset p) + unat (ph_filesz p) \<le> length b"
    and fm: "unat (ph_filesz p) \<le> unat (ph_memsz p)"
    using ok by (simp_all add: segment_ok_def word_le_nat_alt)
  have me: "unat ?v + unat (ph_memsz p) \<le> 0xFFFFF000" using fits by (simp add: segment_end_def)
  have r: "unat ?v mod 4096 \<le> unat ?v" "unat ?v mod 4096 < 4096" by simp_all
  have base: "unat (?v - ?base) + unat (ph_memsz p) < 2 ^ 32" using me r by (simp add: page_base)
  then have l: "unat l = unat ?v mod 4096 + unat (ph_memsz p)" by (simp add: l_def unat_add_no_wrap page_base)
  let ?m1 = "as_map m ?base l"
  have range: "in_chunks ?base l x" if "in_segment p x" for x
  proof (rule in_chunks_range)
    show "unat ?base \<le> x" "x < unat ?base + unat l"
      using that r unfolding in_segment_def page_base l by linarith+
    show "x < 2 ^ 32" using that me by (simp add: in_segment_def)
  qed
  have m1: "mem_at ?m1 x = Some (image_byte b ps x)" if "in_segment p x \<or> mem_at ?m1 x \<noteq> None" for x
  proof (cases "mem_at m x")
    case None
    then have "image_byte b ps x = 0"
      using ld [unfolded loaded_def, THEN spec, of x] sz by (intro image_byte_zero) auto
    then show ?thesis using that None range [of x] by (auto simp: mem_at_map split: if_splits)
  next
    case (Some v)
    with loadedD(1) [OF ld Some] show ?thesis by (simp add: mem_at_map)
  qed
  have data: "slice b (unat (ph_offset p)) (unat (ph_offset p + ph_filesz p)) = Some d"
    "length d = unat (ph_filesz p)" "\<And>i. i < unat (ph_filesz p) \<Longrightarrow> d ! i = b ! (unat (ph_offset p) + i)"
    using fe len by (auto simp: slice_def d_def unat_add_no_wrap)
  have mp: "mem.mapped ?m1 (unat ?v) (length d)"
    unfolding mem.mapped_def
  proof (intro allI impI)
    fix i assume "i < length d"
    then have "in_segment p (unat ?v + i)" using fm data(2) by (simp add: in_segment_def)
    then show "mem_at ?m1 (unat ?v + i) \<noteq> None" using m1 [of "unat ?v + i"] by simp
  qed
  obtain m' where w: "write_bytes ?m1 ?v d = (Some (), m')"
    using mem.write_ok_iff [of ?m1 ?v d] mp by (cases "write_bytes ?m1 ?v d") auto
  have m': "mem_at m' = overlay (mem_at ?m1) (unat ?v) d" using mem.write_all [OF mp] w by simp
  have ib: "image_byte b (ps @ [p]) x = (if unat ?v \<le> x \<and> x < unat ?v + length d then d ! (x - unat ?v)
      else image_byte b ps x)" for x
  proof (cases "unat ?v \<le> x \<and> x < unat ?v + length d")
    case True
    then have "x - unat ?v < unat (ph_filesz p)" using data(2) by linarith
    from data(3) [OF this] True data(2) show ?thesis by (simp add: image_byte_def)
  next
    case False
    then show ?thesis using data(2) by (auto simp: image_byte_def)
  qed
  have "loaded b (ps @ [p]) m'"
    unfolding loaded_def
  proof
    fix x
    have seg: "mem_at ?m1 x \<noteq> None" if "q \<in> set ps" "in_segment q x" for q
      using loadedD(2) [OF ld that] by (simp add: as_map_keeps)
    show "case mem_at m' x of None \<Rightarrow> \<forall>q \<in> set (ps @ [p]). \<not> in_segment q x
        | Some v \<Rightarrow> v = image_byte b (ps @ [p]) x"
      using m1 [of x] seg by (cases "mem_at ?m1 x") (auto simp: m' overlay_def ib)
  qed
  moreover have "load_segment chk e b p (fin, pv, m) =
      Some (max fin (?v + ph_memsz p), if holds_table e p then Some (of_nat (table_addr e p)) else pv, m')"
  proof -
    have tab: "add_u32 chk ?v (el_phoff e - ph_offset p) = Some (of_nat (table_addr e p))" if "holds_table e p"
    proof -
      have u: "unat (el_phoff e - ph_offset p) = unat (el_phoff e) - unat (ph_offset p)"
        using that by (simp add: holds_table_def unat_sub word_le_nat_alt)
      have "unat ?v + unat (el_phoff e - ph_offset p) \<le> 0xFFFFF000"
        using that me fm unfolding u holds_table_def by linarith
      then have "unat ?v + unat (el_phoff e - ph_offset p) < 2 ^ 32" by simp
      then have "add_u32 chk ?v (el_phoff e - ph_offset p) = Some (?v + (el_phoff e - ph_offset p))"
        by (rule add_u32_some)
      also have "?v + (el_phoff e - ph_offset p) = of_nat (table_addr e p)"
        unfolding table_addr_def u [symmetric] by simp
      finally show ?thesis .
    qed
    have "add_u32 chk (?v - ?base) (ph_memsz p) = Some l" "add_u32 chk ?v (ph_memsz p) = Some (?v + ph_memsz p)"
      "add_u32 chk (ph_offset p) (ph_filesz p) = Some (ph_offset p + ph_filesz p)"
      using base me fe len by (simp_all add: add_u32_some l_def)
    then show ?thesis
      by (simp add: load_segment_def Let_def data(1) w tab holds_table_def [symmetric])
  qed
  ultimately show ?thesis by blast
qed

lemma load_segments_exact:
  assumes "\<And>p. p \<in> set qs \<Longrightarrow> segment_ok b p" and "\<And>p. p \<in> set qs \<Longrightarrow> segment_end p \<le> 0xFFFFF000"
    and "length b < 2 ^ 32" and "loaded b ps m" and "\<And>p. p \<in> set ps \<Longrightarrow> ph_filesz p \<le> ph_memsz p"
  shows "\<exists>m'. load_segments chk e b qs (fin, pv, m) =
      Some (fold (\<lambda>p fin. max fin (ph_vaddr p + ph_memsz p)) qs fin,
            fold (\<lambda>p pv. if holds_table e p then Some (of_nat (table_addr e p)) else pv) qs pv, m') \<and>
    loaded b (ps @ qs) m'"
  using assms
proof (induction qs arbitrary: fin pv m ps)
  case Nil
  then show ?case by simp
next
  case (Cons q qs)
  have q: "segment_ok b q" "segment_end q \<le> 0xFFFFF000" using Cons.prems by auto
  then have sz: "\<And>p. p \<in> set (ps @ [q]) \<Longrightarrow> ph_filesz p \<le> ph_memsz p"
    using Cons.prems(5) by (auto simp: segment_ok_def)
  obtain m1 where m1: "load_segment chk e b q (fin, pv, m) =
      Some (max fin (ph_vaddr q + ph_memsz q),
            if holds_table e q then Some (of_nat (table_addr e q)) else pv, m1)"
    "loaded b (ps @ [q]) m1"
    using load_segment_exact [OF q Cons.prems(3-5), of chk e fin pv] by blast
  show ?case using Cons.IH [OF _ _ Cons.prems(3) m1(2) sz] Cons.prems(1,2) m1(1) by simp
qed

text \<open>The largest segment end, as a word.\<close>

lemma fold_max_end:
  assumes "\<And>p. p \<in> set ps \<Longrightarrow> segment_end p \<le> 0xFFFFF000" and "unat fin \<le> 0xFFFFF000"
  shows "unat (fold (\<lambda>p fin. max fin (ph_vaddr p + ph_memsz p)) ps fin) =
    fold (\<lambda>p n. max n (segment_end p)) ps (unat fin)"
  using assms
proof (induction ps arbitrary: fin)
  case (Cons p ps)
  have p: "unat (ph_vaddr p + ph_memsz p) = segment_end p"
    using Cons.prems(1) [of p] by (simp add: segment_end_def unat_add_no_wrap)
  then have mx: "unat (max fin (ph_vaddr p + ph_memsz p)) = max (unat fin) (segment_end p)"
    by (simp add: max_def word_le_nat_alt)
  have "unat (max fin (ph_vaddr p + ph_memsz p)) \<le> 0xFFFFF000"
    unfolding mx using Cons.prems by simp
  then show ?case using Cons.IH Cons.prems(1) mx by simp
qed simp

lemma fold_max_bounds:
  fixes n :: nat
  shows "n \<le> fold (\<lambda>p n. max n (f p)) ps n" "p \<in> set ps \<Longrightarrow> f p \<le> fold (\<lambda>p n. max n (f p)) ps n"
    "n \<le> k \<Longrightarrow> (\<And>p. p \<in> set ps \<Longrightarrow> f p \<le> k) \<Longrightarrow> fold (\<lambda>p n. max n (f p)) ps n \<le> k"
proof (induction ps arbitrary: n)
  case (Cons q ps)
  { case 1 then show ?case using Cons.IH(1) [of "max n (f q)"] by simp }
  { case 2 then show ?case using Cons.IH(1,2) [of "max n (f q)"] by auto }
  { case 3 then show ?case using Cons.IH(3) [of "max n (f q)"] by simp }
qed simp_all

lemma fold_last:
  "fold (\<lambda>p v. if P p then Some (f p) else v) ps v =
   (if \<exists>p \<in> set ps. P p then Some (f (last (filter P ps))) else v)"
  by (induction ps arbitrary: v) (auto simp: filter_empty_conv)

lemma load_exact_image:
  assumes "parse b = Some (Inr e)" and "length b < 2 ^ 32"
    and "\<forall>p \<in> set (el_phdrs e). loadable p \<longrightarrow> segment_end p \<le> 0xFFFFF000"
  shows "case elf_load chk e b AddressSpace_new of None \<Rightarrow> False
    | Some ((entry, brk, table), m) \<Rightarrow>
       (let ps = filter loadable (el_phdrs e);
            fin = fold (\<lambda>p n. max n (segment_end p)) ps 0;
            hs = filter (holds_table e) ps in
        entry = el_entry e \<and>
        (\<forall>p \<in> set ps. \<forall>x. in_segment p x \<longrightarrow> mem_at m x = Some (image_byte b ps x)) \<and>
        (\<forall>x v. mem_at m x = Some v \<longrightarrow> v = image_byte b ps x) \<and>
        fin \<le> unat brk \<and> unat brk < fin + 4096 \<and> unat brk mod 4096 = 0 \<and>
        table = (if hs = [] then None else Some (of_nat (table_addr e (last hs)))))"
proof -
  let ?ps = "filter loadable (el_phdrs e)"
  have "is_image b e" using assms(1) parse_accepts by blast
  then have ok: "\<And>p. p \<in> set ?ps \<Longrightarrow> segment_ok b p" by (auto simp: is_image_def)
  have fits: "\<And>p. p \<in> set ?ps \<Longrightarrow> segment_end p \<le> 0xFFFFF000" using assms(3) by auto
  have fresh: "loaded b [] AddressSpace_new"
    by (simp add: loaded_def mem_at_def AddressSpace_new_def)
  obtain m fin table where l: "load_segments chk e b ?ps (0, None, AddressSpace_new) = Some (fin, table, m)"
    and fin: "fin = fold (\<lambda>p fin. max fin (ph_vaddr p + ph_memsz p)) ?ps 0"
    and tab: "table = fold (\<lambda>p pv. if holds_table e p then Some (of_nat (table_addr e p)) else pv) ?ps None"
    and m: "loaded b ?ps m"
    using load_segments_exact [where qs = ?ps and ps = "[]" and chk = chk and e = e and fin = 0 and pv = None,
        OF ok fits assms(2) fresh] by auto
  have f: "unat fin = fold (\<lambda>p n. max n (segment_end p)) ?ps 0"
    using fold_max_end [where ps = ?ps and fin = 0, OF fits] by (simp add: fin)
  have "unat fin \<le> 0xFFFFF000" unfolding f by (rule fold_max_bounds(3)) (use fits in auto)
  then obtain brk where brk: "align_up fin PAGE_SIZE = Some brk"
    by (simp add: align_up_def PAGE_SIZE_def)
  have tab': "table = (if filter (holds_table e) ?ps = [] then None
      else Some (of_nat (table_addr e (last (filter (holds_table e) ?ps)))))"
    unfolding tab fold_last by (auto simp: filter_empty_conv)
  have lp: "(\<lambda>p. ph_type p = PT_LOAD) = loadable" by (simp add: loadable_def fun_eq_iff)
  have "elf_load chk e b AddressSpace_new = Some ((el_entry e, brk, table), m)"
    by (simp add: elf_load_def lp l brk)
  moreover have "\<forall>p \<in> set ?ps. \<forall>x. in_segment p x \<longrightarrow> mem_at m x = Some (image_byte b ?ps x)"
    using loadedD(2) [OF m] by blast
  moreover have "\<forall>x v. mem_at m x = Some v \<longrightarrow> v = image_byte b ?ps x" using loadedD(1) [OF m] by blast
  moreover note align_up_some [OF brk, unfolded f] tab'
  ultimately show ?thesis by (simp only: option.case prod.case Let_def simp_thms)
qed

text \<open>
  C23. Loading is exact on images below the last page. For an accepted image of less than 4 GiB, all of whose loadable
  segments end at or below FFFFF000, loading into a fresh address space does not panic, in builds with or without
  overflow checks; every byte of every segment is mapped and holds the file's byte or, past the file
  part, zero (the last segment wins where segments overlap), and nothing else is non-zero; the initial
  break is the page after the last segment end; and the program header address is that of the last
  segment whose file part holds the table. An accepted image with a segment that ends above FFFFF000 is not covered:
  \<open>load_end_of_memory\<close> exhibits one on which loading panics or wraps.
\<close>

theorem load_exact:
  assumes "parse b = Some (Inr e)" and "length b < 2 ^ 32"
    and "\<forall>p \<in> set (el_phdrs e). loadable p \<longrightarrow> segment_end p \<le> 0xFFFFF000"
  shows "case elf_load chk e b AddressSpace_new of None \<Rightarrow> False
    | Some ((entry, brk, table), m) \<Rightarrow>
       (let ps = filter loadable (el_phdrs e);
            fin = fold (\<lambda>p n. max n (segment_end p)) ps 0;
            hs = filter (holds_table e) ps in
        entry = el_entry e \<and>
        (\<forall>p \<in> set ps. \<forall>x. in_segment p x \<longrightarrow> mem_at m x = Some (image_byte b ps x)) \<and>
        (\<forall>x v. mem_at m x = Some v \<longrightarrow> v = image_byte b ps x) \<and>
        fin \<le> unat brk \<and> unat brk < fin + 4096 \<and> unat brk mod 4096 = 0 \<and>
        table = (if hs = [] then None else Some (of_nat (table_addr e (last hs)))))"
  using assms by (rule load_exact_image)

text \<open>A minimal image: one segment of five file bytes and eleven zero bytes at \<open>0x08048000\<close>.\<close>

definition sample_image :: "u8 list" where
  "sample_image =
     [0x7F, 0x45, 0x4C, 0x46, 1, 1, 1, 0, 0, 0, 0, 0, 0, 0, 0, 0,
      2, 0, 3, 0, 1, 0, 0, 0, 0, 0x80, 0x04, 0x08, 52, 0, 0, 0,
      0, 0, 0, 0, 0, 0, 0, 0, 52, 0, 32, 0, 1, 0, 0, 0, 0, 0, 0, 0,
      1, 0, 0, 0, 84, 0, 0, 0, 0, 0x80, 0x04, 0x08, 0, 0x80, 0x04, 0x08,
      5, 0, 0, 0, 16, 0, 0, 0, 5, 0, 0, 0, 0, 0x10, 0, 0,
      0x90, 0x90, 0xCD, 0x80, 0xF4]"

definition sample_phdr :: Phdr where
  "sample_phdr = \<lparr>ph_type = 1, ph_offset = 84, ph_vaddr = 0x08048000, ph_filesz = 5, ph_memsz = 16, ph_flags = 5\<rparr>"

definition sample_elf :: Elf32 where
  "sample_elf = \<lparr>el_entry = 0x08048000, el_phoff = 52, el_phnum = 1, el_machine = 3, el_phdrs = [sample_phdr]\<rparr>"

lemma sample_parses: "parse sample_image = Some (Inr sample_elf)"
  by (simp add: parse_def sample_image_def ELF_MAGIC_def index_def u16le_def u32le_def slice_def
      parse_phdr_def phdr_bad_def PT_LOAD_def sample_elf_def sample_phdr_def Let_def)

theorem load_exact_witness:
  "\<exists>table m. elf_load True sample_elf sample_image AddressSpace_new = Some ((0x08048000, 0x08049000, table), m) \<and>
     mem_at m 0x08048002 = Some 0xCD \<and> mem_at m 0x0804800F = Some 0"
proof -
  have len: "length sample_image < 2 ^ 32" by (simp add: sample_image_def)
  have fits: "\<forall>p \<in> set (el_phdrs sample_elf). loadable p \<longrightarrow> segment_end p \<le> 0xFFFFF000"
    by (simp add: sample_elf_def sample_phdr_def segment_end_def)
  note H = load_exact [OF sample_parses len fits, of True]
  have ps: "filter loadable (el_phdrs sample_elf) = [sample_phdr]"
    by (simp add: sample_elf_def loadable_def PT_LOAD_def sample_phdr_def)
  have "elf_load True sample_elf sample_image AddressSpace_new \<noteq> None"
  proof
    assume none: "elf_load True sample_elf sample_image AddressSpace_new = None"
    from H [unfolded none option.case] show False .
  qed
  then obtain r where r: "elf_load True sample_elf sample_image AddressSpace_new = Some r" by blast
  define entry brk table m where "entry = fst (fst r)" and "brk = fst (snd (fst r))"
    and "table = snd (snd (fst r))" and "m = snd r"
  then have rr: "r = ((entry, brk, table), m)" by simp
  note l = r [unfolded rr]
  note K = H [unfolded l option.case prod.case Let_def ps]
  have e: "entry = 0x08048000" using K [THEN conjunct1] by (simp add: sample_elf_def)
  have at: "mem_at m x = Some (image_byte sample_image [sample_phdr] x)" if "in_segment sample_phdr x" for x
    using K [THEN conjunct2, THEN conjunct1] that by simp
  have b: "segment_end sample_phdr \<le> unat brk" "unat brk < segment_end sample_phdr + 4096" "unat brk mod 4096 = 0"
    using K [THEN conjunct2, THEN conjunct2, THEN conjunct2] by simp_all
  obtain k where k: "unat brk = 4096 * k" using b(3) by (metis mod_0_imp_dvd dvdE)
  then have "0x08048010 \<le> 4096 * k" "4096 * k < 0x08049010"
    using b(1,2) by (simp_all add: segment_end_def sample_phdr_def)
  then have "k = 0x8049" by linarith
  with k have "unat brk = 0x08049000" by simp
  then have "brk = 0x08049000" by (simp add: word_unat_eq_iff)
  moreover have "mem_at m 0x08048002 = Some 0xCD" "mem_at m 0x0804800F = Some 0"
    by (subst at; simp add: in_segment_def image_byte_def sample_phdr_def sample_image_def)+
  ultimately show ?thesis using l unfolding e by blast
qed

text \<open>
  The bound on segment ends matters: a segment ending at 4 GiB passes the parser's check, and loading
  it overflows a \<open>u32\<close> sum; a build with overflow checks panics and one without returns a break of 0.
\<close>

lemma load_end_of_memory:
  "let p = \<lparr>ph_type = PT_LOAD, ph_offset = 0, ph_vaddr = 0xFFFFF000, ph_filesz = 0, ph_memsz = 0x1000, ph_flags = 6\<rparr>;
       e = \<lparr>el_entry = 0, el_phoff = 0, el_phnum = 1, el_machine = 3, el_phdrs = [p]\<rparr>
   in \<not> phdr_bad [] p \<and> elf_load True e [] AddressSpace_new = None \<and>
      map_option (fst \<circ> snd \<circ> fst) (elf_load False e [] AddressSpace_new) = Some 0"
  by (simp add: phdr_bad_def elf_load_def load_segment_def add_u32_def PT_LOAD_def PAGE_SIZE_def slice_def
      write_bytes_def write_loop.simps align_up_def Let_def)

end
