(* ===== verification/User_Fs.thy ===== *)
theory User_Fs
  imports User_Elf
begin

text \<open>
  File descriptors and the file system calls, \<open>src/usermode/linux/fs.rs\<close>, with the constants of
  \<open>src/usermode/linux/abi.rs\<close> they use. The host side (standard streams, files, \<open>open\<close>) is a record
  \<open>Host\<close> of operations over an arbitrary host state \<open>'h\<close> and file handles \<open>'f\<close>; only a \<open>Sink\<close> keeps
  its data in the model. \<open>Err\<close> is \<open>Inl\<close> with an errno. Paths are byte strings: the lossy conversion
  to UTF-8 keeps a leading \<open>/\<close> and is otherwise the host's \<open>open\<close>.
\<close>

definition EPERM :: u32 where "EPERM = 1"
definition ENOENT :: u32 where "ENOENT = 2"
definition ESRCH :: u32 where "ESRCH = 3"
definition EINTR :: u32 where "EINTR = 4"
definition EIO :: u32 where "EIO = 5"
definition EBADF :: u32 where "EBADF = 9"
definition EAGAIN :: u32 where "EAGAIN = 11"
definition ENOMEM :: u32 where "ENOMEM = 12"
definition EACCES :: u32 where "EACCES = 13"
definition EFAULT :: u32 where "EFAULT = 14"
definition EEXIST :: u32 where "EEXIST = 17"
definition ENODEV :: u32 where "ENODEV = 19"
definition EINVAL :: u32 where "EINVAL = 22"
definition ENOTTY :: u32 where "ENOTTY = 25"
definition ESPIPE :: u32 where "ESPIPE = 29"
definition ENOSYS :: u32 where "ENOSYS = 38"

definition err :: "u32 \<Rightarrow> u32" where "err errno = - errno"

definition AT_FDCWD :: u32 where "AT_FDCWD = of_int (- 100)"
definition SEEK_SET :: u32 where "SEEK_SET = 0"
definition SEEK_CUR :: u32 where "SEEK_CUR = 1"
definition SEEK_END :: u32 where "SEEK_END = 2"
definition GUEST_ID :: u32 where "GUEST_ID = 1000"

definition IO_CHUNK :: nat where "IO_CHUNK = 64 * 1024"
definition MAX_IOV :: u32 where "MAX_IOV = 1024"

datatype open_error = NotFound | PermissionDenied | OtherError
datatype seek_from = Seek_Start nat | Seek_Current int | Seek_End int

text \<open>\<open>None\<close> is an I/O error; a read returns the bytes it put in the buffer.\<close>

record ('h, 'f) Host =
  ho_stdin_read :: "'h \<Rightarrow> nat \<Rightarrow> u8 list option \<times> 'h"
  ho_stdout_write :: "'h \<Rightarrow> u8 list \<Rightarrow> nat option \<times> 'h"
  ho_stderr_write :: "'h \<Rightarrow> u8 list \<Rightarrow> nat option \<times> 'h"
  ho_file_read :: "'h \<Rightarrow> 'f \<Rightarrow> nat \<Rightarrow> u8 list option \<times> 'h"
  ho_file_write :: "'h \<Rightarrow> 'f \<Rightarrow> u8 list \<Rightarrow> nat option \<times> 'h"
  ho_file_seek :: "'h \<Rightarrow> 'f \<Rightarrow> seek_from \<Rightarrow> nat option \<times> 'h"
  ho_file_len :: "'h \<Rightarrow> 'f \<Rightarrow> u64 option"
  ho_open :: "'h \<Rightarrow> u8 list \<Rightarrow> (open_error + 'f) \<times> 'h"

datatype 'f Fd = Stdin | Stdout | Stderr | File 'f | Sink "u8 list"

subsection \<open>Descriptors\<close>

definition io_result :: "nat option \<times> 'h \<Rightarrow> 'f Fd \<Rightarrow> (u32 + nat) \<times> 'f Fd \<times> 'h" where
  "io_result r f = (case fst r of None \<Rightarrow> Inl EIO | Some n \<Rightarrow> Inr n, f, snd r)"

fun fd_write :: "('h, 'f) Host \<Rightarrow> 'h \<Rightarrow> 'f Fd \<Rightarrow> u8 list \<Rightarrow> (u32 + nat) \<times> 'f Fd \<times> 'h" where
  "fd_write H h Stdin buf = (Inl EBADF, Stdin, h)"
| "fd_write H h Stdout buf = io_result (ho_stdout_write H h buf) Stdout"
| "fd_write H h Stderr buf = io_result (ho_stderr_write H h buf) Stderr"
| "fd_write H h (File f) buf = io_result (ho_file_write H h f buf) (File f)"
| "fd_write H h (Sink v) buf = (Inr (length buf), Sink (v @ buf), h)"

definition io_bytes :: "u8 list option \<times> 'h \<Rightarrow> (u32 + u8 list) \<times> 'h" where
  "io_bytes r = (case fst r of None \<Rightarrow> Inl EIO | Some bs \<Rightarrow> Inr bs, snd r)"

fun fd_read :: "('h, 'f) Host \<Rightarrow> 'h \<Rightarrow> 'f Fd \<Rightarrow> nat \<Rightarrow> (u32 + u8 list) \<times> 'h" where
  "fd_read H h Stdin n = io_bytes (ho_stdin_read H h n)"
| "fd_read H h Stdout n = (Inl EBADF, h)"
| "fd_read H h Stderr n = (Inl EBADF, h)"
| "fd_read H h (File f) n = io_bytes (ho_file_read H h f n)"
| "fd_read H h (Sink v) n = (Inr [], h)"

type_synonym 'f FdTable = "'f Fd option list"

definition FdTable_new :: "'f FdTable" where
  "FdTable_new = [Some Stdin, Some Stdout, Some Stderr]"

definition fds_get :: "'f FdTable \<Rightarrow> u32 \<Rightarrow> 'f Fd option" where
  "fds_get fds fd = (if unat fd < length fds then fds ! unat fd else None)"

text \<open>What a caller stores through the reference \<open>get\<close> returned.\<close>

definition fds_put :: "u32 \<Rightarrow> 'f Fd \<Rightarrow> 'f FdTable \<Rightarrow> 'f FdTable" where
  "fds_put fd f fds = fds[unat fd := Some f]"

text \<open>The loop of \<open>insert\<close> over the slots, the first of which has number \<open>i\<close>.\<close>

fun insert_loop :: "'f Fd \<Rightarrow> nat \<Rightarrow> 'f FdTable \<Rightarrow> (nat \<times> 'f FdTable) option" where
  "insert_loop f i [] = None"
| "insert_loop f i (None # slots) = Some (i, Some f # slots)"
| "insert_loop f i (Some g # slots) =
     map_option (\<lambda>(n, slots). (n, Some g # slots)) (insert_loop f (i + 1) slots)"

definition fds_insert :: "'f Fd \<Rightarrow> 'f FdTable \<Rightarrow> u32 \<times> 'f FdTable" where
  "fds_insert f fds =
     (case insert_loop f 0 fds of
        Some (i, fds) \<Rightarrow> (of_nat i, fds)
      | None \<Rightarrow> let fds = fds @ [Some f] in (of_nat (length fds - 1), fds))"

definition fds_install :: "u32 \<Rightarrow> 'f Fd \<Rightarrow> 'f FdTable \<Rightarrow> 'f FdTable" where
  "fds_install fd f fds =
     (let i = unat fd;
          fds = (if length fds \<le> i then fds @ replicate (i + 1 - length fds) None else fds)
      in fds[i := Some f])"

definition fds_close :: "u32 \<Rightarrow> 'f FdTable \<Rightarrow> bool \<times> 'f FdTable" where
  "fds_close fd fds =
     (if unat fd < length fds \<and> fds ! unat fd \<noteq> None then (True, fds[unat fd := None]) else (False, fds))"

definition sink_data :: "'f FdTable \<Rightarrow> u32 \<Rightarrow> u8 list option" where
  "sink_data fds fd = (case fds_get fds fd of Some (Sink v) \<Rightarrow> Some v | _ \<Rightarrow> None)"

subsection \<open>Reading and writing\<close>

text \<open>
  The loop of \<open>write_from_guest\<close>; \<open>total\<close> is a \<open>u32\<close> in the code and never exceeds \<open>count\<close> as long as
  a host write reports at most the bytes it was given.
\<close>

function write_from_loop ::
  "('h, 'f) Host \<Rightarrow> AddressSpace \<Rightarrow> u32 \<Rightarrow> nat \<Rightarrow> nat \<Rightarrow> 'f Fd \<Rightarrow> 'h \<Rightarrow> (u32 + nat) \<times> 'f Fd \<times> 'h" where
  "write_from_loop H mem buf count tot f h =
     (if tot < count then
        let n = min (count - tot) IO_CHUNK in
        case read_bytes mem (buf + of_nat tot) (replicate n 0) of
          (None, _) \<Rightarrow> (if tot > 0 then Inr tot else Inl EFAULT, f, h)
        | (Some u, tmp) \<Rightarrow>
            (case fd_write H h f tmp of
               (Inr w, f, h) \<Rightarrow>
                 let tot = tot + w in
                 if w < n then (Inr tot, f, h) else write_from_loop H mem buf count tot f h
             | (Inl e, f, h) \<Rightarrow> (if tot > 0 then Inr tot else Inl e, f, h))
      else (Inr tot, f, h))"
  by auto
termination
  by (relation "measure (\<lambda>(H, mem, buf, count, tot, f, h). count - tot)")
    (auto simp: IO_CHUNK_def)

declare write_from_loop.simps [simp del]

definition write_from_guest ::
  "('h, 'f) Host \<Rightarrow> AddressSpace \<Rightarrow> 'f Fd \<Rightarrow> u32 \<Rightarrow> u32 \<Rightarrow> 'h \<Rightarrow> (u32 + u32) \<times> 'f Fd \<times> 'h" where
  "write_from_guest H mem f buf count h =
     (case write_from_loop H mem buf (unat count) 0 f h of
        (r, f, h) \<Rightarrow> (map_sum id of_nat r, f, h))"

definition sys_write ::
  "('h, 'f) Host \<Rightarrow> AddressSpace \<Rightarrow> 'f FdTable \<Rightarrow> 'h \<Rightarrow> u32 \<Rightarrow> u32 \<Rightarrow> u32 \<Rightarrow> u32 \<times> 'f FdTable \<times> 'h" where
  "sys_write H mem fds h fd buf count =
     (case fds_get fds fd of
        None \<Rightarrow> (err EBADF, fds, h)
      | Some f \<Rightarrow>
          (case write_from_guest H mem f buf count h of
             (Inr n, f, h) \<Rightarrow> (n, fds_put fd f fds, h)
           | (Inl e, f, h) \<Rightarrow> (err e, fds_put fd f fds, h)))"

definition sys_read ::
  "('h, 'f) Host \<Rightarrow> AddressSpace \<Rightarrow> 'f FdTable \<Rightarrow> 'h \<Rightarrow> u32 \<Rightarrow> u32 \<Rightarrow> u32 \<Rightarrow> u32 \<times> AddressSpace \<times> 'h" where
  "sys_read H mem fds h fd buf count =
     (case fds_get fds fd of
        None \<Rightarrow> (err EBADF, mem, h)
      | Some f \<Rightarrow>
          let n = min (unat count) IO_CHUNK in
          case fd_read H h f n of
            (Inr bs, h) \<Rightarrow>
              (case write_bytes mem buf bs of
                 (None, mem) \<Rightarrow> (err EFAULT, mem, h)
               | (Some u, mem) \<Rightarrow> (of_nat (length bs), mem, h))
          | (Inl e, h) \<Rightarrow> (err e, mem, h))"

text \<open>\<open>None\<close> is a panic: an overflowing \<open>u32\<close> sum in a build with overflow checks.\<close>

fun writev_loop ::
  "bool \<Rightarrow> ('h, 'f) Host \<Rightarrow> AddressSpace \<Rightarrow> u32 \<Rightarrow> u32 \<Rightarrow> nat list \<Rightarrow> u32 \<Rightarrow> 'f FdTable \<Rightarrow> 'h
     \<Rightarrow> (u32 \<times> 'f FdTable \<times> 'h) option" where
  "writev_loop chk H mem fd iov [] tot fds h = Some (tot, fds, h)"
| "writev_loop chk H mem fd iov (i # is) tot fds h = do {
     a \<leftarrow> add_u32 chk iov (of_nat i * 8);
     let base = read_u32 mem a;
     a \<leftarrow> add_u32 chk a 4;
     let len = read_u32 mem a;
     f \<leftarrow> fds_get fds fd;
     case write_from_guest H mem f base len h of
       (Inr n, f, h) \<Rightarrow> do {
         tot \<leftarrow> add_u32 chk tot n;
         if n < len then Some (tot, fds_put fd f fds, h)
         else writev_loop chk H mem fd iov is tot (fds_put fd f fds) h
       }
     | (Inl e, f, h) \<Rightarrow> Some (if tot > 0 then tot else err e, fds_put fd f fds, h)
   }"

definition sys_writev ::
  "bool \<Rightarrow> ('h, 'f) Host \<Rightarrow> AddressSpace \<Rightarrow> 'f FdTable \<Rightarrow> 'h \<Rightarrow> u32 \<Rightarrow> u32 \<Rightarrow> u32
     \<Rightarrow> (u32 \<times> 'f FdTable \<times> 'h) option" where
  "sys_writev chk H mem fds h fd iov cnt =
     (if cnt > MAX_IOV then Some (err EINVAL, fds, h)
      else if fds_get fds fd = None then Some (err EBADF, fds, h)
      else writev_loop chk H mem fd iov [0..<unat cnt] 0 fds h)"

fun readv_loop ::
  "bool \<Rightarrow> ('h, 'f) Host \<Rightarrow> 'f FdTable \<Rightarrow> u32 \<Rightarrow> u32 \<Rightarrow> nat list \<Rightarrow> u32 \<Rightarrow> AddressSpace \<Rightarrow> 'h
     \<Rightarrow> (u32 \<times> AddressSpace \<times> 'h) option" where
  "readv_loop chk H fds fd iov [] tot mem h = Some (tot, mem, h)"
| "readv_loop chk H fds fd iov (i # is) tot mem h = do {
     a \<leftarrow> add_u32 chk iov (of_nat i * 8);
     let base = read_u32 mem a;
     a \<leftarrow> add_u32 chk a 4;
     let len = read_u32 mem a;
     let (r, mem, h) = sys_read H mem fds h fd base len;
     if sint r < 0 then Some (if tot > 0 then tot else r, mem, h)
     else do {
       tot \<leftarrow> add_u32 chk tot r;
       if r < len then Some (tot, mem, h) else readv_loop chk H fds fd iov is tot mem h
     }
   }"

definition sys_readv ::
  "bool \<Rightarrow> ('h, 'f) Host \<Rightarrow> AddressSpace \<Rightarrow> 'f FdTable \<Rightarrow> 'h \<Rightarrow> u32 \<Rightarrow> u32 \<Rightarrow> u32
     \<Rightarrow> (u32 \<times> AddressSpace \<times> 'h) option" where
  "sys_readv chk H mem fds h fd iov cnt =
     (if cnt > MAX_IOV then Some (err EINVAL, mem, h)
      else readv_loop chk H fds fd iov [0..<unat cnt] 0 mem h)"

subsection \<open>Opening, closing, seeking\<close>

definition sys_open ::
  "('h, 'f) Host \<Rightarrow> AddressSpace \<Rightarrow> 'f FdTable \<Rightarrow> 'h \<Rightarrow> u32 \<Rightarrow> u32 \<Rightarrow> u32 \<times> 'f FdTable \<times> 'h" where
  "sys_open H mem fds h path flags =
     (case read_cstr mem path of
        None \<Rightarrow> (err EFAULT, fds, h)
      | Some name \<Rightarrow>
          if flags AND 0x3 \<noteq> 0 then (err EACCES, fds, h)
          else if name \<noteq> [] \<and> hd name = 0x2F then (err ENOENT, fds, h)
          else case ho_open H h name of
            (Inr f, h) \<Rightarrow> let (n, fds) = fds_insert (File f) fds in (n, fds, h)
          | (Inl NotFound, h) \<Rightarrow> (err ENOENT, fds, h)
          | (Inl PermissionDenied, h) \<Rightarrow> (err EACCES, fds, h)
          | (Inl OtherError, h) \<Rightarrow> (err EIO, fds, h))"

definition sys_openat ::
  "('h, 'f) Host \<Rightarrow> AddressSpace \<Rightarrow> 'f FdTable \<Rightarrow> 'h \<Rightarrow> u32 \<Rightarrow> u32 \<Rightarrow> u32 \<Rightarrow> u32 \<times> 'f FdTable \<times> 'h" where
  "sys_openat H mem fds h dirfd path flags =
     (if dirfd \<noteq> AT_FDCWD then (err ENOSYS, fds, h) else sys_open H mem fds h path flags)"

definition sys_close :: "'f FdTable \<Rightarrow> u32 \<Rightarrow> u32 \<times> 'f FdTable" where
  "sys_close fds fd = (case fds_close fd fds of (b, fds) \<Rightarrow> (if b then 0 else err EBADF, fds))"

definition sys_lseek :: "('h, 'f) Host \<Rightarrow> 'f FdTable \<Rightarrow> 'h \<Rightarrow> u32 \<Rightarrow> u32 \<Rightarrow> u32 \<Rightarrow> u32 \<times> 'h" where
  "sys_lseek H fds h fd offset whence =
     (case fds_get fds fd of
        None \<Rightarrow> (err EBADF, h)
      | Some (File file) \<Rightarrow>
          (let go = (\<lambda>pos. case ho_file_seek H h file pos of
                 (Some p, h) \<Rightarrow> (if p \<le> 2 ^ 32 - 1 then of_nat p else err EINVAL, h)
               | (None, h) \<Rightarrow> (err EINVAL, h))
           in if whence = SEEK_SET then go (Seek_Start (unat offset))
              else if whence = SEEK_CUR then go (Seek_Current (sint offset))
              else if whence = SEEK_END then go (Seek_End (sint offset))
              else (err EINVAL, h))
      | Some _ \<Rightarrow> (err ESPIPE, h))"

text \<open>\<open>st[off..off + n].copy_from_slice(data)\<close>\<close>

definition copy_at :: "nat \<Rightarrow> u8 list \<Rightarrow> u8 list \<Rightarrow> u8 list" where
  "copy_at off data b = take off b @ data @ drop (off + length data) b"

definition S_IFCHR :: u32 where "S_IFCHR = 0x2000"
definition S_IFREG :: u32 where "S_IFREG = 0x8000"

definition stat_image :: "u32 \<Rightarrow> u32 \<Rightarrow> u64 \<Rightarrow> u8 list" where
  "stat_image fd mode sz =
     (let st = replicate 96 0;
          st = copy_at 16 (le_bytes 4 mode) st;
          st = copy_at 20 (le_bytes 4 (1 :: u32)) st;
          st = copy_at 24 (le_bytes 4 GUEST_ID) st;
          st = copy_at 28 (le_bytes 4 GUEST_ID) st;
          st = copy_at 44 (le_bytes 8 sz) st;
          st = copy_at 52 (le_bytes 4 (1024 :: u32)) st;
          st = copy_at 88 (le_bytes 8 (ucast fd + 1 :: u64)) st
      in st)"

definition sys_fstat64 :: "('h, 'f) Host \<Rightarrow> AddressSpace \<Rightarrow> 'f FdTable \<Rightarrow> 'h \<Rightarrow> u32 \<Rightarrow> u32 \<Rightarrow> u32 \<times> AddressSpace" where
  "sys_fstat64 H mem fds h fd statbuf =
     (case fds_get fds fd of
        None \<Rightarrow> (err EBADF, mem)
      | Some f \<Rightarrow>
          let (mode, sz) = (case f of
                 File file \<Rightarrow> (S_IFREG OR 0x124, case ho_file_len H h file of Some n \<Rightarrow> n | None \<Rightarrow> 0)
               | _ \<Rightarrow> (S_IFCHR OR 0x190, 0))
          in case write_bytes mem statbuf (stat_image fd mode sz) of
               (None, mem) \<Rightarrow> (err EFAULT, mem)
             | (Some u, mem) \<Rightarrow> (0, mem))"

subsection \<open>The descriptor table\<close>

lemma insert_loop_some:
  "insert_loop f i slots = Some (n, slots') \<Longrightarrow>
   i \<le> n \<and> n - i < length slots \<and> slots ! (n - i) = None \<and> (\<forall>j < n - i. slots ! j \<noteq> None) \<and>
   slots' = slots[n - i := Some f]"
proof (induction f i slots arbitrary: n slots' rule: insert_loop.induct)
  case (3 f i g slots)
  then obtain s where s: "insert_loop f (i + 1) slots = Some (n, s)" "slots' = Some g # s" by auto
  with "3.IH" [of n s] have h: "i + 1 \<le> n" "n - (i + 1) < length slots" "slots ! (n - (i + 1)) = None"
    "\<forall>j < n - (i + 1). slots ! j \<noteq> None" "s = slots[n - (i + 1) := Some f]" by auto
  then have n: "n - i = Suc (n - (i + 1))" by linarith
  show ?case unfolding n using h s(2) by (auto simp: nth_Cons split: nat.split)
qed auto

lemma insert_loop_none: "insert_loop f i slots = None \<longleftrightarrow> None \<notin> set slots"
  by (induction f i slots rule: insert_loop.induct) auto

text \<open>
  Descriptors are allocated lowest-first and do not alias. In a table that is not full, the number
  \<open>insert\<close> returns was closed, every smaller number is open, it then reads back the inserted
  description, and every other number is unchanged; closing it again succeeds once, and restores what
  every number meant before.
\<close>

lemma fd_insert_lowest:
  assumes "length fds < 2 ^ 32"
  shows "case fds_insert f fds of (n, fds') \<Rightarrow>
    fds_get fds n = None \<and> (\<forall>k < n. fds_get fds k \<noteq> None) \<and>
    (\<forall>k. fds_get fds' k = (if k = n then Some f else fds_get fds k)) \<and>
    (case fds_close n fds' of (b, fds'') \<Rightarrow>
       b \<and> (\<forall>k. fds_get fds'' k = fds_get fds k) \<and> \<not> fst (fds_close n fds''))"
proof -
  obtain n fds' where i: "fds_insert f fds = (n, fds')" by fastforce
  have h: "unat n \<le> length fds \<and> (unat n < length fds \<longrightarrow> fds ! unat n = None \<and> fds' = fds[unat n := Some f]) \<and>
      (unat n = length fds \<longrightarrow> fds' = fds @ [Some f]) \<and> (\<forall>j < unat n. fds ! j \<noteq> None)"
  proof (cases "insert_loop f 0 fds")
    case None
    then have "None \<notin> set fds" by (simp add: insert_loop_none)
    with None i assms show ?thesis
      by (auto simp: fds_insert_def unat_of_nat Let_def) (metis nth_mem not_None_eq)
  next
    case (Some r)
    then obtain j s where "insert_loop f 0 fds = Some (j, s)" by (cases r) auto
    with insert_loop_some [OF this] i assms show ?thesis
      by (auto simp: fds_insert_def unat_of_nat)
  qed
  let ?n = "unat n"
  have get: "fds_get fds' k = (if k = n then Some f else fds_get fds k)" for k
  proof (cases "?n < length fds")
    case True
    then show ?thesis using h by (auto simp: fds_get_def nth_list_update word_unat_eq_iff)
  next
    case False
    then have "fds' = fds @ [Some f]" "?n = length fds" using h by auto
    then show ?thesis by (auto simp: fds_get_def nth_append word_unat_eq_iff)
  qed
  have closed: "fds_get fds n = None" using h by (auto simp: fds_get_def)
  have low: "\<forall>k < n. fds_get fds k \<noteq> None" using h by (auto simp: fds_get_def word_less_nat_alt)
  have "?n < length fds'" "fds' ! ?n \<noteq> None" using get [of n] by (auto simp: fds_get_def split: if_splits)
  then have close: "fds_close n fds' = (True, fds'[?n := None])" by (simp add: fds_close_def)
  have "fds_get (fds'[?n := None]) k = fds_get fds k" for k
    using get [of k] closed by (cases "k = n") (auto simp: fds_get_def nth_list_update word_unat_eq_iff split: if_splits)
  moreover have "\<not> fst (fds_close n (fds'[?n := None]))" by (simp add: fds_close_def nth_list_update)
  ultimately show ?thesis using i closed low get close by simp
qed

subsection \<open>Writing guest memory\<close>

text \<open>
  What \<open>std::io::Write::write\<close> promises of the host's streams and files: a write that returns \<open>n\<close> has taken the first
  \<open>n\<close> bytes it was given, one that fails has taken none. \<open>taken f h\<close> is all that the stream or file behind \<open>f\<close> has taken.
\<close>

definition write_contract :: "('h \<Rightarrow> u8 list) \<Rightarrow> ('h \<Rightarrow> u8 list \<Rightarrow> nat option \<times> 'h) \<Rightarrow> bool" where
  "write_contract log wr \<longleftrightarrow>
     (\<forall>h bs. case wr h bs of
        (Some n, h') \<Rightarrow> n \<le> length bs \<and> log h' = log h @ take n bs
      | (None, h') \<Rightarrow> log h' = log h)"

definition host_writes :: "('f Fd \<Rightarrow> 'h \<Rightarrow> u8 list) \<Rightarrow> ('h, 'f) Host \<Rightarrow> bool" where
  "host_writes taken H \<longleftrightarrow>
     write_contract (taken Stdout) (ho_stdout_write H) \<and> write_contract (taken Stderr) (ho_stderr_write H) \<and>
     (\<forall>f. write_contract (taken (File f)) (\<lambda>h. ho_file_write H h f))"

fun fd_taken :: "('f Fd \<Rightarrow> 'h \<Rightarrow> u8 list) \<Rightarrow> 'f Fd \<Rightarrow> 'h \<Rightarrow> u8 list" where
  "fd_taken taken Stdin h = []"
| "fd_taken taken (Sink v) h = v"
| "fd_taken taken f h = taken f h"

lemma fd_write_contract:
  assumes "host_writes taken H" "fd_write H h f bs = (r, f', h')"
  shows "case r of
      Inr n \<Rightarrow> n \<le> length bs \<and> fd_taken taken f' h' = fd_taken taken f h @ take n bs
    | Inl e \<Rightarrow> fd_taken taken f' h' = fd_taken taken f h"
proof -
  have io: "case r of
      Inr n \<Rightarrow> f' = g \<and> n \<le> length bs \<and> taken g h' = taken g h @ take n bs
    | Inl e \<Rightarrow> f' = g \<and> taken g h' = taken g h"
    if "write_contract (taken g) wr" "io_result (wr h bs) g = (r, f', h')" for g wr
    using that(1) [unfolded write_contract_def, rule_format, of h bs] that(2)
    by (auto simp: io_result_def split: prod.split_asm option.split_asm)
  have all: "write_contract (taken Stdout) (ho_stdout_write H)" "write_contract (taken Stderr) (ho_stderr_write H)"
    "write_contract (taken (File g)) (\<lambda>h. ho_file_write H h g)" for g
    using assms(1) by (simp_all add: host_writes_def)
  show ?thesis
  proof (cases f)
    case Stdout
    then show ?thesis using assms(2) io [OF all(1)] by (auto split: sum.splits)
  next
    case Stderr
    then show ?thesis using assms(2) io [OF all(2)] by (auto split: sum.splits)
  next
    case (File g)
    then show ?thesis using assms(2) io [OF all(3) [of g]] by (auto split: sum.splits)
  qed (use assms(2) in auto)
qed

text \<open>\<open>n\<close> bytes of the guest from \<open>a\<close> on; addresses wrap at 4 GiB, as in the code.\<close>

definition guest_bytes :: "AddressSpace \<Rightarrow> u32 \<Rightarrow> nat \<Rightarrow> u8 list" where
  "guest_bytes m a n = map (\<lambda>i. the (mem_at m (unat (a + of_nat i)))) [0..<n]"

definition guest_mapped :: "AddressSpace \<Rightarrow> u32 \<Rightarrow> nat \<Rightarrow> bool" where
  "guest_mapped m a n \<longleftrightarrow> (\<forall>i < n. mem_at m (unat (a + of_nat i)) \<noteq> None)"

lemma guest_bytes_add: "guest_bytes m a (t + n) = guest_bytes m a t @ guest_bytes m (a + of_nat t) n"
  unfolding guest_bytes_def by (rule nth_equalityI) (auto simp: nth_append add.assoc simp flip: of_nat_add)

lemma guest_bytes_take: "k \<le> n \<Longrightarrow> take k (guest_bytes m a n) = guest_bytes m a k"
  by (simp add: guest_bytes_def take_map)

lemma length_guest_bytes [simp]: "length (guest_bytes m a n) = n"
  by (simp add: guest_bytes_def)

lemma guest_mapped_add:
  assumes "guest_mapped m a t" "guest_mapped m (a + of_nat t) n"
  shows "guest_mapped m a (t + n)"
  unfolding guest_mapped_def
proof (intro allI impI)
  fix i assume i: "i < t + n"
  show "mem_at m (unat (a + of_nat i)) \<noteq> None"
  proof (cases "i < t")
    case True
    then show ?thesis using assms(1) by (simp add: guest_mapped_def)
  next
    case False
    then obtain j where j: "i = t + j" by (metis le_iff_add not_less)
    then have "mem_at m (unat (a + of_nat t + of_nat j)) \<noteq> None" using i assms(2) unfolding guest_mapped_def by simp
    then show ?thesis unfolding j by (simp add: add.assoc)
  qed
qed

lemma guest_mapped_less: "guest_mapped m a n \<Longrightarrow> k \<le> n \<Longrightarrow> guest_mapped m a k"
  by (simp add: guest_mapped_def)

text \<open>A range that is mapped, and so lies below 4 GiB, reads as its bytes; any other fails.\<close>

lemma mapped_address:
  assumes "mem.mapped m (unat a) n" "i < n"
  shows "unat (a + of_nat i :: u32) = unat a + i"
proof -
  have "mem_at m (unat a + i) \<noteq> None" using assms by (simp add: mem.mapped_def)
  then have "\<not> 2 ^ 32 \<le> unat a + i" using mem_at_limit by metis
  then have "unat a + i < 2 ^ 32" by simp
  then show ?thesis by (simp add: unat_word_ariths unat_of_nat)
qed

lemma mapped_guest: "mem.mapped m (unat a) n \<Longrightarrow> guest_mapped m a n"
  using mapped_address [of m a n] by (simp add: guest_mapped_def mem.mapped_def)

lemma read_guest:
  "read_bytes m a (replicate n 0) =
     (if mem.mapped m (unat a) n then (Some (), guest_bytes m a n) else (None, snd (read_bytes m a (replicate n 0))))"
proof (cases "mem.mapped m (unat a) n")
  case True
  then have "map (\<lambda>i. the (mem_at m (unat a + i))) [0..<n] = guest_bytes m a n"
    using mapped_address [OF True] by (simp add: guest_bytes_def)
  then show ?thesis using True mem.rd_law [of m a "replicate n 0"] by (simp add: mem.span_mapped)
next
  case False
  then show ?thesis using mem.read_err_iff [of m a "replicate n 0"]
    by (cases "read_bytes m a (replicate n 0)") simp
qed

text \<open>
  Where a transfer of \<open>count\<close> bytes ends: at its end; before a chunk that is not mapped; in a chunk of which the host takes
  only a part; or at a chunk that the host refuses. \<open>t\<close> bytes have gone before in whole chunks, \<open>w\<close> in all.
\<close>

definition write_ends ::
  "('h, 'f) Host \<Rightarrow> AddressSpace \<Rightarrow> u32 \<Rightarrow> nat \<Rightarrow> nat \<Rightarrow> 'f Fd \<Rightarrow> 'h \<Rightarrow> nat \<Rightarrow> (u32 + nat) \<times> 'f Fd \<times> 'h \<Rightarrow> bool" where
  "write_ends H m buf count t f h w res \<longleftrightarrow>
     (let a = buf + of_nat t; n = min (count - t) IO_CHUNK; sofar = (\<lambda>e. if t = 0 then Inl e else Inr t) in
      if t = count then w = t \<and> res = (Inr t, f, h)
      else if \<not> mem.mapped m (unat a) n then w = t \<and> res = (sofar EFAULT, f, h)
      else case fd_write H h f (guest_bytes m a n) of
          (Inr k, f', h') \<Rightarrow> k < n \<and> w = t + k \<and> res = (Inr w, f', h')
        | (Inl e, f', h') \<Rightarrow> w = t \<and> res = (sofar e, f', h'))"

lemma write_loop_ends:
  assumes H: "host_writes taken H"
  shows "t \<le> count \<Longrightarrow> IO_CHUNK dvd t \<or> t = count \<Longrightarrow> guest_mapped m buf t \<Longrightarrow>
    fd_taken taken f h = L @ guest_bytes m buf t \<Longrightarrow>
    \<exists>t' w f1 h1 r f2 h2. write_from_loop H m buf count t f h = (r, f2, h2) \<and> t' \<le> w \<and> w \<le> count \<and>
      (IO_CHUNK dvd t' \<or> t' = count) \<and> guest_mapped m buf w \<and>
      fd_taken taken f1 h1 = L @ guest_bytes m buf t' \<and> fd_taken taken f2 h2 = L @ guest_bytes m buf w \<and>
      write_ends H m buf count t' f1 h1 w (r, f2, h2)"
proof (induction "count - t" arbitrary: t f h rule: less_induct)
  case less
  define n where "n = min (count - t) IO_CHUNK"
  let ?a = "buf + of_nat t" and ?run = "write_from_loop H m buf count t f h"
  note unfold_run = write_from_loop.simps [of H m buf count t f h]
  show ?case
  proof (cases "t < count \<and> mem.mapped m (unat ?a) n")
    case False
    have rd: "\<not> mem.mapped m (unat ?a) n \<Longrightarrow> \<exists>tmp. read_bytes m ?a (replicate n 0) = (None, tmp)"
      using read_guest [of m ?a n] by auto
    define r where "r = (if t = count \<or> 0 < t then Inr t else Inl EFAULT)"
    have "?run = (r, f, h)"
      using False less.prems(1) rd unfold_run by (auto simp: r_def Let_def n_def [symmetric])
    moreover have "write_ends H m buf count t f h t (r, f, h)"
      using False less.prems(1) by (auto simp: r_def write_ends_def Let_def n_def [symmetric])
    ultimately show ?thesis using less.prems by blast
  next
    case True
    then have t: "t < count" and rd: "read_bytes m ?a (replicate n 0) = (Some (), guest_bytes m ?a n)"
      using read_guest [of m ?a n] by simp_all
    have n: "0 < n" "t + n \<le> count" "IO_CHUNK dvd t" "IO_CHUNK dvd t + n \<or> t + n = count"
      using t less.prems(2) by (auto simp: n_def min_def IO_CHUNK_def)
    have mapped: "guest_mapped m buf (t + n)"
      using guest_mapped_add [OF less.prems(3) mapped_guest] True by blast
    obtain r f2 h2 where wr: "fd_write H h f (guest_bytes m ?a n) = (r, f2, h2)" by (metis prod.exhaust)
    note took = fd_write_contract [OF H wr]
    show ?thesis
    proof (cases r)
      case (Inl e)
      have "?run = (if t > 0 then Inr t else Inl e, f2, h2)"
        using t rd wr Inl by (subst unfold_run) (simp add: Let_def n_def [symmetric])
      then show ?thesis
        using less.prems True took wr t Inl
        by (intro exI [of _ t] exI [of _ f] exI [of _ h]) (auto simp: write_ends_def Let_def n_def [symmetric])
    next
      case (Inr k)
      then have k: "k \<le> n" "fd_taken taken f2 h2 = L @ guest_bytes m buf (t + k)"
        using took less.prems(4) by (simp_all add: guest_bytes_take guest_bytes_add)
      show ?thesis
      proof (cases "k < n")
        case True
        have "?run = (Inr (t + k), f2, h2)"
          using t rd wr Inr True by (subst unfold_run) (simp add: Let_def n_def [symmetric])
        moreover have "guest_mapped m buf (t + k)" using guest_mapped_less [OF mapped] k(1) by simp
        ultimately show ?thesis
          using less.prems True \<open>t < count \<and> mem.mapped m (unat ?a) n\<close> wr n k Inr
          by (intro exI [of _ t] exI [of _ "t + k"] exI [of _ f] exI [of _ h]) (auto simp: write_ends_def Let_def n_def [symmetric])
      next
        case False
        then have kn: "k = n" using k(1) by simp
        have "?run = write_from_loop H m buf count (t + n) f2 h2"
          using t rd wr Inr False kn by (subst unfold_run) (simp add: Let_def n_def [symmetric])
        then show ?thesis using less.hyps [of "t + n" f2 h2] t n mapped k(2) kn by simp
      qed
    qed
  qed
qed

text \<open>
  C26. A guest \<open>write\<close>, to any descriptor. If the host's streams and files keep the contract of \<open>write\<close>, what the
  descriptor takes is exactly the first \<open>w\<close> bytes of the guest's buffer, in order and all of them mapped, and the call
  returns \<open>w\<close>, or an error when \<open>w\<close> is 0 and the first 64 KiB chunk is not mapped (\<open>EFAULT\<close>) or refused by the
  descriptor (its error). The transfer ends at \<open>count\<close>, before the first chunk that is not mapped, at a
  chunk the descriptor refuses, or in the first of which it takes only a part; no other descriptor changes.
\<close>

theorem sys_write_exact:
  assumes "fds_get fds fd = Some f" and "host_writes taken H"
  shows "\<exists>t w f1 h1 r f2 h2. sys_write H m fds h fd buf count =
      (case r of Inr n \<Rightarrow> of_nat n | Inl e \<Rightarrow> err e, fds_put fd f2 fds, h2) \<and>
    t \<le> w \<and> w \<le> unat count \<and> (IO_CHUNK dvd t \<or> t = unat count) \<and> guest_mapped m buf w \<and>
    fd_taken taken f1 h1 = fd_taken taken f h @ guest_bytes m buf t \<and>
    fd_taken taken f2 h2 = fd_taken taken f h @ guest_bytes m buf w \<and>
    write_ends H m buf (unat count) t f1 h1 w (r, f2, h2)"
proof -
  have start: "guest_mapped m buf 0" "fd_taken taken f h = fd_taken taken f h @ guest_bytes m buf 0"
    by (simp_all add: guest_mapped_def guest_bytes_def)
  obtain t w f1 h1 r f2 h2 where run: "write_from_loop H m buf (unat count) 0 f h = (r, f2, h2)"
    and rest: "t \<le> w \<and> w \<le> unat count \<and> (IO_CHUNK dvd t \<or> t = unat count) \<and> guest_mapped m buf w \<and>
      fd_taken taken f1 h1 = fd_taken taken f h @ guest_bytes m buf t \<and>
      fd_taken taken f2 h2 = fd_taken taken f h @ guest_bytes m buf w \<and>
      write_ends H m buf (unat count) t f1 h1 w (r, f2, h2)"
    using write_loop_ends [OF assms(2) _ _ start, of "unat count"] by simp blast
  have "sys_write H m fds h fd buf count = (case r of Inr n \<Rightarrow> of_nat n | Inl e \<Rightarrow> err e, fds_put fd f2 fds, h2)"
    using assms(1) run by (cases r) (simp_all add: sys_write_def write_from_guest_def)
  then show ?thesis using rest by blast
qed

text \<open>A host whose standard output takes at most three bytes of each write, and five bytes of guest memory.\<close>

definition short_host :: "(u8 list, unit) Host" where
  "short_host =
     \<lparr>ho_stdin_read = (\<lambda>h n. (Some [], h)), ho_stdout_write = (\<lambda>h bs. (Some (min 3 (length bs)), h @ take 3 bs)),
      ho_stderr_write = (\<lambda>h bs. (None, h)), ho_file_read = (\<lambda>h f n. (None, h)),
      ho_file_write = (\<lambda>h f bs. (None, h)), ho_file_seek = (\<lambda>h f p. (None, h)),
      ho_file_len = (\<lambda>h f. None), ho_open = (\<lambda>h name. (Inl NotFound, h))\<rparr>"

definition five_bytes :: AddressSpace where
  "five_bytes = snd (write_bytes (as_map AddressSpace_new 0x08048000 0x10000) 0x08048000 [1, 2, 3, 4, 5])"

lemma five_bytes_read: "read_bytes five_bytes 0x08048000 (replicate 5 0) = (Some (), [1, 2, 3, 4, 5])"
proof -
  have "mem.mapped (as_map AddressSpace_new 0x08048000 0x10000) (unat (0x08048000 :: u32)) (length [1, 2, 3, 4, 5 :: u8])"
    unfolding mem.mapped_def by (intro allI impI as_map_maps) simp_all
  then have "mem.holds five_bytes (unat (0x08048000 :: u32)) [1, 2, 3, 4, 5]"
    unfolding five_bytes_def by (rule mem.write_holds)
  then show ?thesis by (rule mem.read_holds) simp
qed

theorem sys_write_exact_witness:
  "\<exists>t w f1 h1 r f2.
     sys_write short_host five_bytes FdTable_new [] 1 0x08048000 5 = (3, fds_put 1 f2 FdTable_new, [1, 2, 3]) \<and>
     write_ends short_host five_bytes 0x08048000 5 t f1 h1 w (r, f2, [1, 2, 3])"
proof -
  have g: "fds_get (FdTable_new :: unit FdTable) 1 = Some Stdout"
    by (simp add: fds_get_def FdTable_new_def)
  have host: "host_writes (\<lambda>f h. if f = Stdout then h else []) short_host"
    by (simp add: host_writes_def write_contract_def short_host_def min_def)
  have "sys_write short_host five_bytes FdTable_new [] 1 0x08048000 5 = (3, fds_put 1 Stdout FdTable_new, [1, 2, 3])"
    using five_bytes_read
    by (simp add: sys_write_def g write_from_guest_def write_from_loop.simps [of _ _ _ 5] IO_CHUNK_def Let_def short_host_def
        io_result_def)
  then show ?thesis
    using sys_write_exact [OF g host, of five_bytes "[]" "0x08048000" 5] by simp metis
qed

end
