(* ===== verification/User_Linux.thy ===== *)
theory User_Linux
  imports User_Fs
begin

text \<open>
  The emulated Linux process, \<open>src/usermode/linux/mod.rs\<close>: process state, the initial stack, and the
  system call table. The processor is the record \<open>UserArch\<close> (the trait of \<open>src/usermode/mod.rs\<close>) over an
  arbitrary state \<open>'c\<close>, the clocks are the record \<open>Clock\<close> over the host state. The \<open>strace\<close> log line of
  \<open>dispatch\<close> and the names it prints are left out, and with them the flag that switches it on.
\<close>

subsection \<open>ABI constants\<close>

definition NR_EXIT :: u32 where "NR_EXIT = 1"
definition NR_READ :: u32 where "NR_READ = 3"
definition NR_WRITE :: u32 where "NR_WRITE = 4"
definition NR_OPEN :: u32 where "NR_OPEN = 5"
definition NR_CLOSE :: u32 where "NR_CLOSE = 6"
definition NR_TIME :: u32 where "NR_TIME = 13"
definition NR_LSEEK :: u32 where "NR_LSEEK = 19"
definition NR_GETPID :: u32 where "NR_GETPID = 20"
definition NR_BRK :: u32 where "NR_BRK = 45"
definition NR_IOCTL :: u32 where "NR_IOCTL = 54"
definition NR_GETTIMEOFDAY :: u32 where "NR_GETTIMEOFDAY = 78"
definition NR_MUNMAP :: u32 where "NR_MUNMAP = 91"
definition NR_UNAME :: u32 where "NR_UNAME = 122"
definition NR_MPROTECT :: u32 where "NR_MPROTECT = 125"
definition NR_READV :: u32 where "NR_READV = 145"
definition NR_WRITEV :: u32 where "NR_WRITEV = 146"
definition NR_RT_SIGACTION :: u32 where "NR_RT_SIGACTION = 174"
definition NR_RT_SIGPROCMASK :: u32 where "NR_RT_SIGPROCMASK = 175"
definition NR_UGETRLIMIT :: u32 where "NR_UGETRLIMIT = 191"
definition NR_MMAP2 :: u32 where "NR_MMAP2 = 192"
definition NR_FSTAT64 :: u32 where "NR_FSTAT64 = 197"
definition NR_GETUID32 :: u32 where "NR_GETUID32 = 199"
definition NR_GETGID32 :: u32 where "NR_GETGID32 = 200"
definition NR_GETEUID32 :: u32 where "NR_GETEUID32 = 201"
definition NR_GETEGID32 :: u32 where "NR_GETEGID32 = 202"
definition NR_MADVISE :: u32 where "NR_MADVISE = 219"
definition NR_GETTID :: u32 where "NR_GETTID = 224"
definition NR_FUTEX :: u32 where "NR_FUTEX = 240"
definition NR_SET_THREAD_AREA :: u32 where "NR_SET_THREAD_AREA = 243"
definition NR_EXIT_GROUP :: u32 where "NR_EXIT_GROUP = 252"
definition NR_SET_TID_ADDRESS :: u32 where "NR_SET_TID_ADDRESS = 258"
definition NR_CLOCK_GETTIME :: u32 where "NR_CLOCK_GETTIME = 265"
definition NR_OPENAT :: u32 where "NR_OPENAT = 295"
definition NR_GETRANDOM :: u32 where "NR_GETRANDOM = 355"
definition AT_NULL :: u32 where "AT_NULL = 0"
definition AT_PHDR :: u32 where "AT_PHDR = 3"
definition AT_PHENT :: u32 where "AT_PHENT = 4"
definition AT_PHNUM :: u32 where "AT_PHNUM = 5"
definition AT_PAGESZ :: u32 where "AT_PAGESZ = 6"
definition AT_BASE :: u32 where "AT_BASE = 7"
definition AT_FLAGS :: u32 where "AT_FLAGS = 8"
definition AT_ENTRY :: u32 where "AT_ENTRY = 9"
definition AT_UID :: u32 where "AT_UID = 11"
definition AT_EUID :: u32 where "AT_EUID = 12"
definition AT_GID :: u32 where "AT_GID = 13"
definition AT_EGID :: u32 where "AT_EGID = 14"
definition AT_HWCAP :: u32 where "AT_HWCAP = 16"
definition AT_CLKTCK :: u32 where "AT_CLKTCK = 17"
definition AT_SECURE :: u32 where "AT_SECURE = 23"
definition AT_RANDOM :: u32 where "AT_RANDOM = 25"
definition MAP_FIXED :: u32 where "MAP_FIXED = 0x10"
definition MAP_ANONYMOUS :: u32 where "MAP_ANONYMOUS = 0x20"
definition FUTEX_WAIT :: u32 where "FUTEX_WAIT = 0"
definition FUTEX_WAKE :: u32 where "FUTEX_WAKE = 1"

subsection \<open>The processor behind a process\<close>

type_synonym sys_args = "nat \<Rightarrow> u32"

record 'c UserArch =
  ua_machine :: u16
  ua_new :: 'c
  ua_setup :: "'c \<Rightarrow> AddressSpace \<Rightarrow> u32 \<Rightarrow> u32 \<Rightarrow> ('c \<times> AddressSpace) option"
  ua_step :: "'c \<Rightarrow> AddressSpace \<Rightarrow> (u32 \<times> 'c \<times> AddressSpace) option"
  ua_take_syscall :: "'c \<Rightarrow> bool \<times> 'c"
  ua_syscall_number :: "'c \<Rightarrow> u32"
  ua_syscall_args :: "'c \<Rightarrow> sys_args"
  ua_set_syscall_ret :: "'c \<Rightarrow> u32 \<Rightarrow> 'c"
  ua_arch_syscall :: "'c \<Rightarrow> AddressSpace \<Rightarrow> u32 \<Rightarrow> sys_args \<Rightarrow> u32 option \<times> 'c \<times> AddressSpace"
  ua_invalidate_code :: "'c \<Rightarrow> 'c"
  ua_take_fault :: "'c \<Rightarrow> string option \<times> 'c"
  ua_pc :: "'c \<Rightarrow> u32"
  ua_dead :: "'c \<Rightarrow> bool"
  ua_dump :: "'c \<Rightarrow> string"

text \<open>\<open>SystemTime::now()\<close> since the epoch (\<open>None\<close> before it) and \<open>start.elapsed()\<close>, as seconds and nanoseconds.\<close>

record 'h Clock =
  ck_now :: "'h \<Rightarrow> (nat \<times> u32) option"
  ck_elapsed :: "'h \<Rightarrow> nat \<times> u32"

subsection \<open>Process state\<close>

record 'f Process =
  pr_fds :: "'f FdTable"
  pr_prng :: u64

text \<open>The argument is the time since the epoch in nanoseconds, \<open>None\<close> when the clock is before it.\<close>

definition Process_new :: "nat option \<Rightarrow> 'f Process" where
  "Process_new since =
     (let seed = (case since of Some ns \<Rightarrow> of_nat ns | None \<Rightarrow> 0x9E3779B97F4A7C15)
      in \<lparr>pr_fds = FdTable_new, pr_prng = seed OR 1\<rparr>)"

text \<open>The loop over \<open>chunks_mut(8)\<close>, for a buffer of \<open>n\<close> bytes.\<close>

function rand_loop :: "u64 \<Rightarrow> nat \<Rightarrow> u8 list \<times> u64" where
  "rand_loop x n =
     (if n = 0 then ([], x)
      else
        let x = x XOR push_bit 13 x;
            x = x XOR drop_bit 7 x;
            x = x XOR push_bit 17 x;
            v = le_bytes 8 (x * 0x2545F4914F6CDD1D);
            (rest, y) = rand_loop x (n - min n 8)
        in (take (min n 8) v @ rest, y))"
  by auto
termination by (relation "measure snd") auto

declare rand_loop.simps [simp del]

definition rand_bytes :: "nat \<Rightarrow> 'f Process \<Rightarrow> u8 list \<times> 'f Process" where
  "rand_bytes n p = (let (bytes, x) = rand_loop (pr_prng p) n in (bytes, p\<lparr>pr_prng := x\<rparr>))"

subsection \<open>The initial stack\<close>

definition sub_u32 :: "bool \<Rightarrow> u32 \<Rightarrow> u32 \<Rightarrow> u32 option" where
  "sub_u32 chk a b = (if chk \<and> a < b then None else Some (a - b))"

definition mul_u32 :: "bool \<Rightarrow> u32 \<Rightarrow> u32 \<Rightarrow> u32 option" where
  "mul_u32 chk a b = (if chk \<and> 2 ^ 32 \<le> unat a * unat b then None else Some (a * b))"

definition stack_push :: "bool \<Rightarrow> u8 list \<Rightarrow> AddressSpace \<times> u32 \<Rightarrow> (u32 \<times> AddressSpace \<times> u32) option" where
  "stack_push chk data st =
     (case st of (mem, tp) \<Rightarrow> do {
        tp \<leftarrow> sub_u32 chk tp (of_nat (length data));
        let (ok, mem) = write_bytes mem tp data;
        _ \<leftarrow> ok;
        Some (tp, mem, tp)
      })"

definition push_cstr :: "bool \<Rightarrow> u8 list \<Rightarrow> AddressSpace \<times> u32 \<Rightarrow> (u32 \<times> AddressSpace \<times> u32) option" where
  "push_cstr chk s st = do {
     (_, st) \<leftarrow> stack_push chk [0] st;
     stack_push chk s st
   }"

text \<open>\<open>argv.iter().map(|s| push_cstr(...)).collect()\<close>\<close>

fun push_strings :: "bool \<Rightarrow> u8 list list \<Rightarrow> AddressSpace \<times> u32 \<Rightarrow> (u32 list \<times> AddressSpace \<times> u32) option" where
  "push_strings chk [] st = Some ([], st)"
| "push_strings chk (s # ss) st = do {
     (p, st) \<leftarrow> push_cstr chk s st;
     (ps, st) \<leftarrow> push_strings chk ss st;
     Some (p # ps, st)
   }"

definition auxv :: "u32 option \<Rightarrow> u16 \<Rightarrow> u32 \<Rightarrow> u32 \<Rightarrow> (u32 \<times> u32) list" where
  "auxv phdr_ptr phnum entry rand_ptr =
     (case phdr_ptr of
        Some p \<Rightarrow> [(AT_PHDR, p), (AT_PHENT, 32), (AT_PHNUM, ucast phnum)]
      | None \<Rightarrow> []) @
     [(AT_PAGESZ, PAGE_SIZE), (AT_BASE, 0), (AT_FLAGS, 0), (AT_ENTRY, entry),
      (AT_UID, GUEST_ID), (AT_EUID, GUEST_ID), (AT_GID, GUEST_ID), (AT_EGID, GUEST_ID),
      (AT_HWCAP, 0), (AT_CLKTCK, 100), (AT_SECURE, 0), (AT_RANDOM, rand_ptr), (AT_NULL, 0)]"

text \<open>The closure \<open>put\<close>, called on a list of words.\<close>

fun put_words :: "bool \<Rightarrow> u32 list \<Rightarrow> u32 \<Rightarrow> AddressSpace \<Rightarrow> AddressSpace option" where
  "put_words chk [] p mem = Some mem"
| "put_words chk (v # vs) p mem = do {
     let mem = write_u32 mem p v;
     p \<leftarrow> add_u32 chk p 4;
     put_words chk vs p mem
   }"

definition stack_words :: "u32 list \<Rightarrow> u32 list \<Rightarrow> (u32 \<times> u32) list \<Rightarrow> u32 list" where
  "stack_words argv_ptrs envp_ptrs aux =
     of_nat (length argv_ptrs) # argv_ptrs @ [0] @ envp_ptrs @ [0] @ concat (map (\<lambda>(tag, val). [tag, val]) aux)"

definition build_stack ::
  "bool \<Rightarrow> AddressSpace \<Rightarrow> 'f Process \<Rightarrow> u8 list list \<Rightarrow> u8 list list \<Rightarrow> u32 \<Rightarrow> u32 option \<Rightarrow> u8 list \<Rightarrow> u16
     \<Rightarrow> (u32 \<times> AddressSpace \<times> 'f Process) option" where
  "build_stack chk mem process argv envp entry phdr_vaddr phdr_bytes phnum = do {
     let mem = as_map mem (STACK_TOP - STACK_SIZE) STACK_SIZE;
     let tp = STACK_TOP;
     (argv_ptrs, mem, tp) \<leftarrow> push_strings chk argv (mem, tp);
     (envp_ptrs, mem, tp) \<leftarrow> push_strings chk envp (mem, tp);
     let (rand, process) = rand_bytes 16 process;
     (rand_ptr, mem, tp) \<leftarrow> stack_push chk rand (mem, tp);
     (phdr_ptr, mem, tp) \<leftarrow>
       (case phdr_vaddr of
          Some v \<Rightarrow> Some (Some v, mem, tp)
        | None \<Rightarrow>
            if phdr_bytes \<noteq> [] then do {
              (p, mem, tp) \<leftarrow> stack_push chk phdr_bytes (mem, tp AND NOT 3);
              Some (Some p, mem, tp)
            }
            else Some (None, mem, tp));
     let aux = auxv phdr_ptr phnum entry rand_ptr;
     let words = 1 + length argv_ptrs + 1 + length envp_ptrs + 1 + 2 * length aux;
     bytes \<leftarrow> mul_u32 chk (of_nat words) 4;
     below \<leftarrow> sub_u32 chk tp bytes;
     let esp = below AND NOT 15;
     mem \<leftarrow> put_words chk (stack_words argv_ptrs envp_ptrs aux) esp mem;
     Some (esp, mem, process)
   }"

subsection \<open>System calls\<close>

datatype Control = Ret u32 | Exit int

definition sys_mmap2 :: "AddressSpace \<Rightarrow> sys_args \<Rightarrow> u32 \<times> AddressSpace" where
  "sys_mmap2 mem args =
     (if args 3 AND MAP_ANONYMOUS = 0 \<or> args 4 \<noteq> - 1 then (err ENODEV, mem)
      else case mmap mem (args 0) (args 1) (args 3 AND MAP_FIXED \<noteq> 0) of
        (Some a, mem) \<Rightarrow> (a, mem)
      | (None, mem) \<Rightarrow> (err ENOMEM, mem))"

definition str_bytes :: "string \<Rightarrow> u8 list" where "str_bytes = map of_char"

definition utsname :: "u8 list" where
  "utsname =
     fold (\<lambda>(i, f) out. copy_at (i * 65) (str_bytes f) out)
       (enumerate 0 [''Linux'', ''remu'', ''5.10.0'', ''#1'', ''i386'', ''''])
       (replicate (6 * 65) 0)"

definition sys_uname :: "AddressSpace \<Rightarrow> u32 \<Rightarrow> u32 \<times> AddressSpace" where
  "sys_uname mem buf =
     (case write_bytes mem buf utsname of
        (None, mem) \<Rightarrow> (err EFAULT, mem)
      | (Some u, mem) \<Rightarrow> (0, mem))"

definition unix_now :: "'h Clock \<Rightarrow> 'h \<Rightarrow> u32 \<times> u32" where
  "unix_now C h = (case ck_now C h of Some (secs, nanos) \<Rightarrow> (of_nat secs, nanos) | None \<Rightarrow> (0, 0))"

definition sys_time :: "'h Clock \<Rightarrow> 'h \<Rightarrow> AddressSpace \<Rightarrow> u32 \<Rightarrow> u32 \<times> AddressSpace" where
  "sys_time C h mem tloc =
     (let (secs, _) = unix_now C h in (secs, if tloc \<noteq> 0 then write_u32 mem tloc secs else mem))"

text \<open>Two consecutive words at an address; \<open>None\<close> is the overflow panic of \<open>a + 4\<close>.\<close>

definition write_pair :: "bool \<Rightarrow> AddressSpace \<Rightarrow> u32 \<Rightarrow> u32 \<Rightarrow> u32 \<Rightarrow> AddressSpace option" where
  "write_pair chk mem a v w = do {
     let mem = write_u32 mem a v;
     b \<leftarrow> add_u32 chk a 4;
     Some (write_u32 mem b w)
   }"

definition sys_gettimeofday :: "bool \<Rightarrow> 'h Clock \<Rightarrow> 'h \<Rightarrow> AddressSpace \<Rightarrow> u32 \<Rightarrow> (u32 \<times> AddressSpace) option" where
  "sys_gettimeofday chk C h mem tv =
     (if tv \<noteq> 0 then
        let (secs, nanos) = unix_now C h
        in map_option (Pair 0) (write_pair chk mem tv secs (nanos div 1000))
      else Some (0, mem))"

definition CLOCK_MONOTONIC :: u32 where "CLOCK_MONOTONIC = 1"

definition sys_clock_gettime ::
  "bool \<Rightarrow> 'h Clock \<Rightarrow> 'h \<Rightarrow> AddressSpace \<Rightarrow> u32 \<Rightarrow> u32 \<Rightarrow> (u32 \<times> AddressSpace) option" where
  "sys_clock_gettime chk C h mem clock ts =
     (let (secs, nanos) =
            (if clock = CLOCK_MONOTONIC then let (s, n) = ck_elapsed C h in (of_nat s, n) else unix_now C h)
      in map_option (Pair 0) (write_pair chk mem ts secs nanos))"

definition sys_getrandom :: "AddressSpace \<Rightarrow> 'f Process \<Rightarrow> u32 \<Rightarrow> u32 \<Rightarrow> u32 \<times> AddressSpace \<times> 'f Process" where
  "sys_getrandom mem process buf count =
     (let n = min count 256;
          (bytes, process) = rand_bytes (unat n) process
      in case write_bytes mem buf bytes of
           (None, mem) \<Rightarrow> (err EFAULT, mem, process)
         | (Some u, mem) \<Rightarrow> (n, mem, process))"

definition sys_ugetrlimit :: "bool \<Rightarrow> AddressSpace \<Rightarrow> u32 \<Rightarrow> (u32 \<times> AddressSpace) option" where
  "sys_ugetrlimit chk mem rlim = map_option (Pair 0) (write_pair chk mem rlim (- 1) (- 1))"

definition sys_futex :: "u32 \<Rightarrow> u32" where
  "sys_futex op =
     (let op = op AND 0x7F
      in if op = FUTEX_WAKE then 0 else if op = FUTEX_WAIT then err EAGAIN else err ENOSYS)"

text \<open>What a call leaves: the returned value, the memory, the process and the host.\<close>

type_synonym ('h, 'f) served = "u32 \<times> AddressSpace \<times> 'f Process \<times> 'h"

text \<open>The file and I/O calls of the table.\<close>

definition serve_io ::
  "bool \<Rightarrow> ('h, 'f) Host \<Rightarrow> AddressSpace \<Rightarrow> 'f Process \<Rightarrow> 'h \<Rightarrow> u32 \<Rightarrow> sys_args \<Rightarrow> ('h, 'f) served option option" where
  "serve_io chk H mem p h nr args =
     (let fds = pr_fds p;
          with_mem = (\<lambda>(r, mem, h). (r, mem, p, h));
          with_fds = (\<lambda>(r, fds, h). (r, mem, p\<lparr>pr_fds := fds\<rparr>, h))
      in if nr = NR_READ then Some (Some (with_mem (sys_read H mem fds h (args 0) (args 1) (args 2))))
         else if nr = NR_WRITE then Some (Some (with_fds (sys_write H mem fds h (args 0) (args 1) (args 2))))
         else if nr = NR_READV then Some (map_option with_mem (sys_readv chk H mem fds h (args 0) (args 1) (args 2)))
         else if nr = NR_WRITEV then Some (map_option with_fds (sys_writev chk H mem fds h (args 0) (args 1) (args 2)))
         else if nr = NR_OPEN then Some (Some (with_fds (sys_open H mem fds h (args 0) (args 1))))
         else if nr = NR_OPENAT then Some (Some (with_fds (sys_openat H mem fds h (args 0) (args 1) (args 2))))
         else if nr = NR_CLOSE then let (r, fds) = sys_close fds (args 0) in Some (Some (r, mem, p\<lparr>pr_fds := fds\<rparr>, h))
         else if nr = NR_LSEEK then let (r, h) = sys_lseek H fds h (args 0) (args 1) (args 2) in Some (Some (r, mem, p, h))
         else if nr = NR_FSTAT64 then let (r, mem) = sys_fstat64 H mem fds h (args 0) (args 1) in Some (Some (r, mem, p, h))
         else if nr = NR_IOCTL then Some (Some (err ENOTTY, mem, p, h))
         else None)"

text \<open>The memory, identity and time calls, and the rest.\<close>

definition serve_rest ::
  "bool \<Rightarrow> 'h Clock \<Rightarrow> AddressSpace \<Rightarrow> 'f Process \<Rightarrow> 'h \<Rightarrow> u32 \<Rightarrow> sys_args \<Rightarrow> ('h, 'f) served option" where
  "serve_rest chk C mem p h nr args =
     (let value = (\<lambda>v. Some (v, mem, p, h));
          memory = (\<lambda>(r, mem). (r, mem, p, h))
      in if nr = NR_BRK then Some (memory (set_brk mem (args 0)))
         else if nr = NR_MMAP2 then Some (memory (sys_mmap2 mem args))
         else if nr = NR_MUNMAP then Some (0, unmap mem (args 0) (args 1), p, h)
         else if nr = NR_MPROTECT \<or> nr = NR_MADVISE then value 0
         else if nr = NR_GETPID \<or> nr = NR_GETTID then value GUEST_ID
         else if nr = NR_GETUID32 \<or> nr = NR_GETEUID32 \<or> nr = NR_GETGID32 \<or> nr = NR_GETEGID32 then value GUEST_ID
         else if nr = NR_SET_TID_ADDRESS then value GUEST_ID
         else if nr = NR_UNAME then Some (memory (sys_uname mem (args 0)))
         else if nr = NR_TIME then Some (memory (sys_time C h mem (args 0)))
         else if nr = NR_GETTIMEOFDAY then map_option memory (sys_gettimeofday chk C h mem (args 0))
         else if nr = NR_CLOCK_GETTIME then map_option memory (sys_clock_gettime chk C h mem (args 0) (args 1))
         else if nr = NR_GETRANDOM then
           let (r, mem, p) = sys_getrandom mem p (args 0) (args 1) in Some (r, mem, p, h)
         else if nr = NR_RT_SIGACTION \<or> nr = NR_RT_SIGPROCMASK then value 0
         else if nr = NR_FUTEX then value (sys_futex (args 1))
         else if nr = NR_UGETRLIMIT then map_option memory (sys_ugetrlimit chk mem (args 1))
         else value (err ENOSYS))"

definition linux_dispatch ::
  "bool \<Rightarrow> 'c UserArch \<Rightarrow> ('h, 'f) Host \<Rightarrow> 'h Clock \<Rightarrow> 'c \<Rightarrow> AddressSpace \<Rightarrow> 'f Process \<Rightarrow> 'h \<Rightarrow> u32 \<Rightarrow> sys_args
     \<Rightarrow> (Control \<times> 'c \<times> AddressSpace \<times> 'f Process \<times> 'h) option" where
  "linux_dispatch chk U H C cpu mem p h nr args =
     (case ua_arch_syscall U cpu mem nr args of
        (Some ret, cpu, mem) \<Rightarrow> Some (Ret ret, cpu, mem, p, h)
      | (None, cpu, mem) \<Rightarrow>
          if nr = NR_EXIT \<or> nr = NR_EXIT_GROUP then Some (Exit (sint (args 0)), cpu, mem, p, h)
          else
            map_option (\<lambda>(ret, mem, p, h). (Ret ret, cpu, mem, p, h))
              (case serve_io chk H mem p h nr args of
                 Some r \<Rightarrow> r
               | None \<Rightarrow> serve_rest chk C mem p h nr args))"

end
