(* ===== verification/User_Stack.thy ===== *)
theory User_Stack
  imports User_Linux
begin

text \<open>
  What a guest finds on its initial stack: the pushes of \<open>build_stack\<close> as overlays of the byte map, and
  the process-entry image read back through the guest's own accesses.
\<close>

subsection \<open>Pushes\<close>

definition stack_mapped :: "AddressSpace \<Rightarrow> bool" where
  "stack_mapped m \<longleftrightarrow> {0xBF800000..<0xC0000000} \<subseteq> dom (mem_at m)"

definition bytes_at :: "AddressSpace \<Rightarrow> nat \<Rightarrow> u8 list \<Rightarrow> bool" where
  "bytes_at m a data \<longleftrightarrow> (\<forall>i < length data. mem_at m (a + i) = Some (data ! i))"

lemma bytes_at_read: "bytes_at m (unat p) data \<Longrightarrow> read_bytes m p (replicate (length data) 0) = (Some (), data)"
  by (rule mem.read_holds) (simp_all add: bytes_at_def mem.holds_def)

lemma bytes_at_overlay: "mem_at m = overlay f a data \<Longrightarrow> bytes_at m a data"
  by (simp add: bytes_at_def overlay_def)

lemma bytes_at_mono:
  assumes "bytes_at m a data" and "\<And>x. a \<le> x \<Longrightarrow> mem_at m' x = mem_at m x"
  shows "bytes_at m' a data"
  using assms by (simp add: bytes_at_def)

lemma overlay_out: "x < a \<or> a + length data \<le> x \<Longrightarrow> overlay f a data x = f x"
  by (auto simp: overlay_def)

lemma overlay_below:
  "overlay (overlay f (a + length xs) ys) a xs = overlay f a (xs @ ys)"
  by (auto simp: overlay_def fun_eq_iff nth_append)

lemma overlay_dom:
  "{a..<a + length data} \<subseteq> dom f \<Longrightarrow> dom (overlay f a data) = dom f"
  by (auto simp: overlay_def dom_def subset_iff)

lemma stack_push_exact:
  assumes "stack_mapped m" and "0xBF800000 + length data \<le> unat tp" and "unat tp \<le> 0xC0000000"
  obtains m' where "stack_push chk data (m, tp) = Some (tp - of_nat (length data), m', tp - of_nat (length data))"
    and "unat (tp - of_nat (length data)) = unat tp - length data"
    and "mem_at m' = overlay (mem_at m) (unat tp - length data) data" and "stack_mapped m'"
proof -
  let ?n = "length data" let ?p = "tp - of_nat (length data)"
  have l: "unat (of_nat ?n :: u32) = ?n" using assms(2,3) by (simp add: unat_of_nat)
  then have le: "of_nat ?n \<le> tp" using assms(2) by (simp add: word_le_nat_alt)
  then have p: "unat ?p = unat tp - ?n" by (simp add: unat_sub l)
  have "mem.mapped m (unat ?p) ?n"
    unfolding mem.mapped_def p
  proof (intro allI impI)
    fix i assume "i < ?n"
    then have "unat tp - ?n + i \<in> {0xBF800000..<0xC0000000}"
      using assms(2,3) unfolding atLeastLessThan_iff by linarith
    then show "mem_at m (unat tp - ?n + i) \<noteq> None" using assms(1) unfolding stack_mapped_def by blast
  qed
  moreover obtain r m' where w: "write_bytes m ?p data = (r, m')" by fastforce
  ultimately have "r = Some ()" and m': "mem_at m' = overlay (mem_at m) (unat tp - ?n) data"
    using mem.write_ok_iff [of m ?p data] mem.write_all [of m ?p data] p by auto
  then have eq: "stack_push chk data (m, tp) = Some (?p, m', ?p)"
    using w le by (simp add: stack_push_def sub_u32_def not_less)
  have "{unat tp - ?n..<unat tp - ?n + ?n} \<subseteq> {0xBF800000..<0xC0000000}" using assms(2,3) by auto
  then have "{unat tp - ?n..<unat tp - ?n + ?n} \<subseteq> dom (mem_at m)"
    using assms(1) unfolding stack_mapped_def by (rule order_trans)
  from overlay_dom [OF this] have "stack_mapped m'" using assms(1) unfolding stack_mapped_def m' by simp
  from that [OF eq p m' this] show thesis .
qed

lemma push_cstr_exact:
  assumes "stack_mapped m" and "0xBF800000 + (length s + 1) \<le> unat tp" and "unat tp \<le> 0xC0000000"
  obtains p m' where "push_cstr chk s (m, tp) = Some (p, m', p)" and "unat p = unat tp - (length s + 1)"
    and "mem_at m' = overlay (mem_at m) (unat tp - (length s + 1)) (s @ [0])" and "stack_mapped m'"
proof -
  obtain m1 where m1: "stack_push chk [0] (m, tp) = Some (tp - 1, m1, tp - 1)" "unat (tp - 1) = unat tp - 1"
    "mem_at m1 = overlay (mem_at m) (unat tp - 1) [0]" "stack_mapped m1"
    using stack_push_exact [of m "[0]" tp chk] assms by auto
  have b: "0xBF800000 + length s \<le> unat (tp - 1)" "unat (tp - 1) \<le> 0xC0000000"
    using assms m1(2) by linarith+
  obtain m2 where m2: "stack_push chk s (m1, tp - 1) = Some (tp - 1 - of_nat (length s), m2, tp - 1 - of_nat (length s))"
    "unat (tp - 1 - of_nat (length s)) = unat (tp - 1) - length s"
    "mem_at m2 = overlay (mem_at m1) (unat (tp - 1) - length s) s" "stack_mapped m2"
    by (rule stack_push_exact [OF m1(4) b])
  let ?a = "unat tp - (length s + 1)"
  have a: "unat (tp - 1) - length s = ?a" "unat tp - 1 = ?a + length s" using m1(2) assms by linarith+
  have "mem_at m2 = overlay (mem_at m) ?a (s @ [0])"
    unfolding m2(3) m1(3) a by (rule overlay_below)
  then show thesis
    using that [of "tp - 1 - of_nat (length s)" m2] m1(1) m2 a by (simp add: push_cstr_def)
qed

definition strings_size :: "u8 list list \<Rightarrow> nat" where
  "strings_size ss = sum_list (map (\<lambda>s. length s + 1) ss)"

lemma push_strings_exact:
  assumes "stack_mapped m" and "0xBF800000 + strings_size ss \<le> unat tp" and "unat tp \<le> 0xC0000000"
  shows "\<exists>ps m' tp'. push_strings chk ss (m, tp) = Some (ps, m', tp') \<and>
    unat tp' = unat tp - strings_size ss \<and> stack_mapped m' \<and>
    (\<forall>x. x < unat tp' \<or> unat tp \<le> x \<longrightarrow> mem_at m' x = mem_at m x) \<and>
    list_all2 (\<lambda>p s. unat tp' \<le> unat p \<and> bytes_at m' (unat p) (s @ [0])) ps ss"
  using assms
proof (induction ss arbitrary: m tp)
  case Nil
  then show ?case by (simp add: strings_size_def)
next
  case (Cons s ss)
  have z: "strings_size (s # ss) = length s + 1 + strings_size ss" by (simp add: strings_size_def)
  have le: "0xBF800000 + (length s + 1) \<le> unat tp" using Cons.prems(2) z by linarith
  obtain p m1 where p: "push_cstr chk s (m, tp) = Some (p, m1, p)" "unat p = unat tp - (length s + 1)"
    "mem_at m1 = overlay (mem_at m) (unat tp - (length s + 1)) (s @ [0])" "stack_mapped m1"
    by (rule push_cstr_exact [OF Cons.prems(1) le Cons.prems(3)])
  have tp: "0xBF800000 + strings_size ss \<le> unat p" "unat p \<le> 0xC0000000" "unat p + (length s + 1) = unat tp"
    using p(2) Cons.prems z by linarith+
  obtain ps m2 tp' where r: "push_strings chk ss (m1, p) = Some (ps, m2, tp')"
    "unat tp' = unat p - strings_size ss" "stack_mapped m2"
    "\<And>x. x < unat tp' \<or> unat p \<le> x \<Longrightarrow> mem_at m2 x = mem_at m1 x"
    "list_all2 (\<lambda>p s. unat tp' \<le> unat p \<and> bytes_at m2 (unat p) (s @ [0])) ps ss"
    using Cons.IH [OF p(4) tp(1,2)] by blast
  have "push_strings chk (s # ss) (m, tp) = Some (p # ps, m2, tp')" using p(1) r(1) by simp
  moreover have "unat tp' = unat tp - strings_size (s # ss)" using r(2) p(2) z by simp
  moreover have "mem_at m2 x = mem_at m x" if "x < unat tp' \<or> unat tp \<le> x" for x
  proof -
    have "mem_at m2 x = mem_at m1 x" using that p(2) by (intro r(4)) linarith
    moreover have "x < unat tp - (length s + 1) \<or> unat tp - (length s + 1) + length (s @ [0]) \<le> x"
      using that r(2) p(2) tp unfolding length_append list.size by linarith
    ultimately show ?thesis unfolding p(3) by (simp only: overlay_out)
  qed
  moreover have "bytes_at m1 (unat p) (s @ [0])" using p(2,3) by (intro bytes_at_overlay) simp
  then have "bytes_at m2 (unat p) (s @ [0])" using r(4) by (rule bytes_at_mono) simp
  moreover have "unat tp' \<le> unat p" using r(2) by simp
  ultimately show ?case using r(3,5) by blast
qed

subsection \<open>Words\<close>

lemma write_u32_exact:
  assumes "{unat p..<unat p + 4} \<subseteq> dom (mem_at m)"
  shows "mem_at (write_u32 m p v) = overlay (mem_at m) (unat p) (le_bytes 4 v)"
proof -
  have "mem.mapped m (unat p) (length (le_bytes 4 v))"
    using assms by (auto simp: mem.mapped_def subset_iff domIff)
  then show ?thesis unfolding write_u32_def by (rule mem.write_all)
qed

lemma put_words_exact:
  assumes "{unat p..<unat p + 4 * length ws} \<subseteq> dom (mem_at m)" and "unat p + 4 * length ws < 2 ^ 32"
  obtains m' where "put_words chk ws p m = Some m'"
    and "mem_at m' = overlay (mem_at m) (unat p) (concat (map (le_bytes 4) ws))"
  using assms
proof (induction ws arbitrary: p m thesis)
  case Nil
  then show ?case by simp
next
  case (Cons w ws)
  let ?m1 = "write_u32 m p w"
  have sub: "{unat p..<unat p + 4} \<subseteq> dom (mem_at m)" using Cons.prems(2) by (auto simp: subset_iff)
  have m1: "mem_at ?m1 = overlay (mem_at m) (unat p) (le_bytes 4 w)" by (rule write_u32_exact [OF sub])
  have dom: "dom (mem_at ?m1) = dom (mem_at m)" unfolding m1 using sub by (intro overlay_dom) simp
  have n: "unat p + unat (4 :: u32) < 2 ^ 32" using Cons.prems(3) by simp
  then have p4: "unat (p + 4) = unat p + 4" by (simp add: unat_add_no_wrap)
  have "{unat (p + 4)..<unat (p + 4) + 4 * length ws} \<subseteq> dom (mem_at ?m1)"
    "unat (p + 4) + 4 * length ws < 2 ^ 32"
    using Cons.prems(2,3) unfolding dom p4 by (auto simp: subset_iff)
  then obtain m2 where m2: "put_words chk ws (p + 4) ?m1 = Some m2"
    "mem_at m2 = overlay (mem_at ?m1) (unat (p + 4)) (concat (map (le_bytes 4) ws))"
    using Cons.IH by blast
  have "mem_at m2 = overlay (mem_at m) (unat p) (concat (map (le_bytes 4) (w # ws)))"
    unfolding m2(2) m1 p4 using overlay_overlay_append [of "mem_at m" "unat p" "le_bytes 4 w"] by simp
  moreover have "put_words chk (w # ws) p m = Some m2" using m2(1) add_u32_some [OF n] by simp
  ultimately show ?case using Cons.prems(1) by blast
qed

lemma concat_words:
  "length (concat (map (le_bytes 4) ws)) = 4 * length ws"
  "i < length ws \<Longrightarrow> take 4 (drop (4 * i) (concat (map (le_bytes 4) ws))) = le_bytes 4 (ws ! i)"
proof -
  show "length (concat (map (le_bytes 4) ws)) = 4 * length ws" by (induction ws) simp_all
  show "i < length ws \<Longrightarrow> take 4 (drop (4 * i) (concat (map (le_bytes 4) ws))) = le_bytes 4 (ws ! i)"
    by (induction ws arbitrary: i) (auto simp: nth_Cons drop_append split: nat.split)
qed

definition words_at :: "AddressSpace \<Rightarrow> u32 \<Rightarrow> u32 list \<Rightarrow> bool" where
  "words_at m a ws \<longleftrightarrow> map (\<lambda>i. read_u32 m (a + of_nat (4 * i))) [0..<length ws] = ws"

lemma words_atI:
  assumes "mem_at m = overlay f (unat a) (concat (map (le_bytes 4) ws))" and "unat a + 4 * length ws < 2 ^ 32"
  shows "words_at m a ws"
  unfolding words_at_def
proof (rule nth_equalityI)
  fix i assume "i < length (map (\<lambda>i. read_u32 m (a + of_nat (4 * i))) [0..<length ws])"
  then have i: "i < length ws" by simp
  let ?b = "concat (map (le_bytes 4) ws)"
  have u: "unat (a + of_nat (4 * i) :: u32) = unat a + 4 * i"
    using assms(2) i by (simp add: unat_word_ariths unat_of_nat)
  have "bytes_at m (unat a + 4 * i) (le_bytes 4 (ws ! i))"
    unfolding bytes_at_def
  proof (intro allI impI)
    fix j assume "j < length (le_bytes 4 (ws ! i))"
    then have j: "j < 4" by simp
    then have "?b ! (4 * i + j) = take 4 (drop (4 * i) ?b) ! j" using i concat_words(1) [of ws] by simp
    then show "mem_at m (unat a + 4 * i + j) = Some (le_bytes 4 (ws ! i) ! j)"
      using i j concat_words(1) [of ws] concat_words(2) [OF i]
      by (simp add: assms(1) overlay_def add.assoc)
  qed
  then have "read_bytes m (a + of_nat (4 * i)) (replicate (length (le_bytes 4 (ws ! i))) 0) = (Some (), le_bytes 4 (ws ! i))"
    unfolding u [symmetric] by (rule bytes_at_read)
  then have "read_u32 m (a + of_nat (4 * i)) = ws ! i"
    by (simp add: read_u32_def numeral_eq_Suc from_le_le_bytes)
  then show "map (\<lambda>i. read_u32 m (a + of_nat (4 * i))) [0..<length ws] ! i = ws ! i" using i by simp
qed simp

subsection \<open>The process-entry image\<close>

text \<open>The bytes an initial stack takes, at most.\<close>

definition stack_need :: "u8 list list \<Rightarrow> u8 list list \<Rightarrow> u8 list \<Rightarrow> nat" where
  "stack_need argv envp phdrs =
     strings_size argv + strings_size envp + 16 + (length phdrs + 3) +
     4 * (length argv + length envp + 35) + 15"

definition strings_at :: "AddressSpace \<Rightarrow> u32 list \<Rightarrow> u8 list list \<Rightarrow> bool" where
  "strings_at m ps ss \<longleftrightarrow>
     list_all2 (\<lambda>p s. read_bytes m p (replicate (length s + 1) 0) = (Some (), s @ [0])) ps ss"

lemma strings_atI:
  assumes "list_all2 (\<lambda>p s. a \<le> unat p \<and> bytes_at m (unat p) (s @ [0])) ps ss"
    and "\<And>x. a \<le> x \<Longrightarrow> mem_at m' x = mem_at m x"
  shows "strings_at m' ps ss"
  unfolding strings_at_def using assms(1)
proof (rule list_all2_mono)
  fix p :: u32 and s :: "u8 list" assume ps: "a \<le> unat p \<and> bytes_at m (unat p) (s @ [0])"
  have n: "length (s @ [0 :: u8]) = length s + 1" by simp
  have "bytes_at m' (unat p) (s @ [0])"
    by (rule bytes_at_mono [of m]) (use ps assms(2) in auto)
  from bytes_at_read [OF this, unfolded n]
  show "read_bytes m' p (replicate (length s + 1) 0) = (Some (), s @ [0])" .
qed

lemma length_auxv: "length (auxv q phnum entry r) \<le> 16"
  by (simp add: auxv_def split: option.split)

lemma length_stack_words:
  "length (stack_words as es aux) = 1 + length as + 1 + length es + 1 + 2 * length aux"
proof -
  have "length (concat (map (\<lambda>(tag, val). [tag, val]) aux)) = 2 * length aux"
    by (induction aux) auto
  then show ?thesis unfolding stack_words_def length_append list.size by linarith
qed

lemma rand_loop_length: "length (fst (rand_loop x n)) = n"
proof (induction x n rule: rand_loop.induct)
  case (1 x n)
  then show ?case by (subst rand_loop.simps) (auto simp: Let_def case_prod_beta)
qed

lemma length_rand_bytes: "length (fst (rand_bytes n p)) = n"
  using rand_loop_length [of "pr_prng p" n] by (simp add: rand_bytes_def case_prod_beta)

text \<open>The program header copy, when no segment maps the table.\<close>

definition push_phdrs :: "bool \<Rightarrow> u32 option \<Rightarrow> u8 list \<Rightarrow> AddressSpace \<Rightarrow> u32 \<Rightarrow> (u32 option \<times> AddressSpace \<times> u32) option" where
  "push_phdrs chk phdr_vaddr phdrs mem tp =
     (case phdr_vaddr of
        Some v \<Rightarrow> Some (Some v, mem, tp)
      | None \<Rightarrow>
          if phdrs \<noteq> [] then do {
            (p, mem, tp) \<leftarrow> stack_push chk phdrs (mem, tp AND NOT 3);
            Some (Some p, mem, tp)
          }
          else Some (None, mem, tp))"

lemma push_phdrs_exact:
  assumes "stack_mapped m" and "0xBF800000 + (length phdrs + 3) \<le> unat tp" and "unat tp \<le> 0xC0000000"
  shows "\<exists>q m' tp'. push_phdrs chk v phdrs m tp = Some (q, m', tp') \<and> stack_mapped m' \<and>
    unat tp - (length phdrs + 3) \<le> unat tp' \<and> unat tp' \<le> unat tp \<and>
    (\<forall>x. x < unat tp' \<or> unat tp \<le> x \<longrightarrow> mem_at m' x = mem_at m x) \<and>
    (case v of Some w \<Rightarrow> q = Some w
     | None \<Rightarrow> if phdrs = [] then q = None
         else \<exists>p. q = Some p \<and> unat tp' \<le> unat p \<and> bytes_at m' (unat p) phdrs)"
proof (cases "v = None \<and> phdrs \<noteq> []")
  case False
  then show ?thesis using assms(1) by (cases v) (auto simp: push_phdrs_def)
next
  case True
  let ?t = "tp AND NOT 3"
  have "unat ?t = unat tp - unat tp mod 4"
    using unat_align_down [of tp 2] by (simp add: mask_eq_exp_minus_1)
  moreover have "unat tp mod 4 < 4" by simp
  ultimately have t: "unat tp - 3 \<le> unat ?t" "unat ?t \<le> unat tp" by linarith+
  then have b: "0xBF800000 + length phdrs \<le> unat ?t" "unat ?t \<le> 0xC0000000" using assms by linarith+
  let ?p = "?t - of_nat (length phdrs)"
  obtain m' where m': "stack_push chk phdrs (m, ?t) = Some (?p, m', ?p)" "unat ?p = unat ?t - length phdrs"
    "mem_at m' = overlay (mem_at m) (unat ?t - length phdrs) phdrs" "stack_mapped m'"
    by (rule stack_push_exact [OF assms(1) b])
  have eq: "push_phdrs chk v phdrs m tp = Some (Some ?p, m', ?p)" using True m'(1) by (simp add: push_phdrs_def)
  have at: "bytes_at m' (unat ?p) phdrs" using m'(2,3) by (intro bytes_at_overlay) simp
  have frame: "mem_at m' x = mem_at m x" if "x < unat ?p \<or> unat tp \<le> x" for x
  proof -
    have "x < unat ?t - length phdrs \<or> unat ?t - length phdrs + length phdrs \<le> x"
      using that m'(2) t b by linarith
    then show ?thesis unfolding m'(3) by (rule overlay_out)
  qed
  have "unat tp - (length phdrs + 3) \<le> unat ?p" "unat ?p \<le> unat tp" using m'(2) t by linarith+
  then show ?thesis using eq at frame m'(4) True by auto
qed

text \<open>The stack region before anything is pushed.\<close>

lemma stack_region:
  "stack_mapped (as_map m (STACK_TOP - STACK_SIZE) STACK_SIZE)"
  "x < 0xBF800000 \<or> 0xC0000000 \<le> x \<Longrightarrow> mem_at (as_map m (STACK_TOP - STACK_SIZE) STACK_SIZE) x = mem_at m x"
proof -
  let ?a = "STACK_TOP - STACK_SIZE"
  have u: "unat ?a = 0xBF800000" "unat STACK_SIZE = 0x800000" by (simp_all add: STACK_TOP_def STACK_SIZE_def)
  have "mem_at (as_map m ?a STACK_SIZE) y \<noteq> None" if "y \<in> {0xBF800000..<0xC0000000}" for y
    using that by (intro as_map_maps) (simp_all add: u)
  then show "stack_mapped (as_map m ?a STACK_SIZE)" unfolding stack_mapped_def by blast
  show "mem_at (as_map m ?a STACK_SIZE) x = mem_at m x" if "x < 0xBF800000 \<or> 0xC0000000 \<le> x"
  proof -
    have "\<not> in_chunks ?a STACK_SIZE x"
    proof
      assume "in_chunks ?a STACK_SIZE x"
      then have "49024 \<le> x div 65536" "x div 65536 \<le> 49151" by (simp_all add: in_chunks_def u)
      then show False using that by linarith
    qed
    then show ?thesis by (simp add: mem_at_map)
  qed
qed

text \<open>The words under the strings: where \<open>esp\<close> ends up and what \<open>put\<close> leaves there.\<close>

lemma stack_words_exact:
  assumes "stack_mapped m" and "0xBF800000 + (4 * length ws + 15) \<le> unat tp" and "unat tp \<le> 0xC0000000"
  obtains esp m' where "mul_u32 chk (of_nat (length ws)) 4 = Some (of_nat (length ws) * 4)"
    and "sub_u32 chk tp (of_nat (length ws) * 4) = Some (tp - of_nat (length ws) * 4)"
    and "esp = (tp - of_nat (length ws) * 4) AND NOT 15"
    and "put_words chk ws esp m = Some m'" and "unat esp mod 16 = 0" and "0xBF800000 \<le> unat esp"
    and "words_at m' esp ws"
    and "\<And>x. x < unat esp \<or> unat tp \<le> x \<Longrightarrow> mem_at m' x = mem_at m x"
proof -
  let ?n = "length ws" let ?b = "of_nat ?n * 4 :: u32"
  let ?esp = "(tp - ?b) AND NOT 15"
  have n: "4 * ?n \<le> 0x800000" using assms(2,3) by linarith
  have un: "unat (of_nat ?n :: u32) = ?n" using n by (simp add: unat_of_nat)
  have ub: "unat ?b = 4 * ?n" using n un by (simp add: unat_mult_lem [THEN iffD1])
  have le: "?b \<le> tp" using assms(2) ub by (simp add: word_le_nat_alt)
  have ut: "unat (tp - ?b) = unat tp - 4 * ?n" using le ub by (simp add: unat_sub)
  have mul: "mul_u32 chk (of_nat ?n) 4 = Some ?b" using n un by (simp add: mul_u32_def)
  have sub: "sub_u32 chk tp ?b = Some (tp - ?b)" using le by (simp add: sub_u32_def not_less)
  have ue: "unat ?esp = unat (tp - ?b) - unat (tp - ?b) mod 16"
    using unat_align_down [of "tp - ?b" 4] by (simp add: mask_eq_exp_minus_1)
  have al: "unat ?esp mod 16 = 0" unfolding ue by (simp add: minus_mod_eq_mult_div)
  have "unat (tp - ?b) mod 16 < 16" by simp
  then have lo: "0xBF800000 \<le> unat ?esp" and hi: "unat ?esp + 4 * ?n \<le> unat tp"
    using ue ut assms(2) by linarith+
  have "{unat ?esp..<unat ?esp + 4 * ?n} \<subseteq> {0xBF800000..<0xC0000000}"
    using lo hi assms(3) by auto
  then have mapped: "{unat ?esp..<unat ?esp + 4 * ?n} \<subseteq> dom (mem_at m)"
    using assms(1) unfolding stack_mapped_def by (rule order_trans)
  have small: "unat ?esp + 4 * ?n < 2 ^ 32" by (rule le_less_trans [OF order_trans [OF hi assms(3)]]) simp
  obtain m' where m': "put_words chk ws ?esp m = Some m'"
    "mem_at m' = overlay (mem_at m) (unat ?esp) (concat (map (le_bytes 4) ws))"
    by (rule put_words_exact [OF mapped small])
  have at: "words_at m' ?esp ws" by (rule words_atI [OF m'(2) small])
  have frame: "mem_at m' x = mem_at m x" if "x < unat ?esp \<or> unat tp \<le> x" for x
    unfolding m'(2) using that hi by (intro overlay_out) (simp add: concat_words(1), linarith)
  show thesis by (rule that [OF mul sub refl m'(1) al lo at frame])
qed

text \<open>The image of the psABI: \<open>argc\<close>, the pointer tables and the auxiliary vector at \<open>esp\<close>, and what they point to.\<close>

definition process_image ::
  "AddressSpace \<Rightarrow> u32 \<Rightarrow> u8 list list \<Rightarrow> u8 list list \<Rightarrow> u32 \<Rightarrow> u32 option \<Rightarrow> u8 list \<Rightarrow> u16 \<Rightarrow> u8 list \<Rightarrow> bool" where
  "process_image m esp argv envp entry phdr_vaddr phdrs phnum rand \<longleftrightarrow>
     (\<exists>as es q r. words_at m esp (stack_words as es (auxv q phnum entry r)) \<and>
        strings_at m as argv \<and> strings_at m es envp \<and>
        read_bytes m r (replicate (length rand) 0) = (Some (), rand) \<and>
        (case phdr_vaddr of Some v \<Rightarrow> q = Some v
         | None \<Rightarrow> if phdrs = [] then q = None
             else \<exists>p. q = Some p \<and> read_bytes m p (replicate (length phdrs) 0) = (Some (), phdrs)))"

lemma build_stack_image:
  assumes "stack_need argv envp phdrs \<le> 0x800000"
  obtains esp m' where
    "build_stack chk m process argv envp entry v phdrs phnum = Some (esp, m', snd (rand_bytes 16 process))"
    and "unat esp mod 16 = 0"
    and "process_image m' esp argv envp entry v phdrs phnum (fst (rand_bytes 16 process))"
    and "\<And>x. x < 0xBF800000 \<or> 0xC0000000 \<le> x \<Longrightarrow> mem_at m' x = mem_at m x"
proof -
  obtain rand process' where rand: "rand_bytes 16 process = (rand, process')" by fastforce
  have lr: "length rand = 16" using length_rand_bytes [of 16 process] rand by simp
  note need = assms [unfolded stack_need_def]
  let ?m0 = "as_map m (STACK_TOP - STACK_SIZE) STACK_SIZE"
  have top: "unat STACK_TOP = 0xC0000000" by (simp add: STACK_TOP_def)
  have "0xBF800000 + strings_size argv \<le> unat STACK_TOP" "unat STACK_TOP \<le> 0xC0000000"
    using need top by linarith+
  from push_strings_exact [where chk = chk, OF stack_region(1) [of m] this]
  obtain as m1 t1 where A: "push_strings chk argv (?m0, STACK_TOP) = Some (as, m1, t1)"
    "unat t1 = unat STACK_TOP - strings_size argv" "stack_mapped m1"
    "\<And>x. x < unat t1 \<or> unat STACK_TOP \<le> x \<Longrightarrow> mem_at m1 x = mem_at ?m0 x"
    "list_all2 (\<lambda>p s. unat t1 \<le> unat p \<and> bytes_at m1 (unat p) (s @ [0])) as argv" by blast
  have s1: "unat t1 + strings_size argv = 0xC0000000" using need top A(2) by linarith
  then have "0xBF800000 + strings_size envp \<le> unat t1" "unat t1 \<le> 0xC0000000" using need by linarith+
  from push_strings_exact [where chk = chk, OF A(3) this]
  obtain es m2 t2 where E: "push_strings chk envp (m1, t1) = Some (es, m2, t2)"
    "unat t2 = unat t1 - strings_size envp" "stack_mapped m2"
    "\<And>x. x < unat t2 \<or> unat t1 \<le> x \<Longrightarrow> mem_at m2 x = mem_at m1 x"
    "list_all2 (\<lambda>p s. unat t2 \<le> unat p \<and> bytes_at m2 (unat p) (s @ [0])) es envp" by blast
  have s2: "unat t2 + strings_size envp = unat t1" using need s1 E(2) by linarith
  then have "0xBF800000 + length rand \<le> unat t2" "unat t2 \<le> 0xC0000000" using need s1 lr by linarith+
  from stack_push_exact [where chk = chk, OF E(3) this]
  obtain r m3 where R: "stack_push chk rand (m2, t2) = Some (r, m3, r)" "unat r = unat t2 - length rand"
    "mem_at m3 = overlay (mem_at m2) (unat r) rand" "stack_mapped m3" by metis
  have s3: "unat r + 16 = unat t2" using need s1 s2 R(2) lr by linarith
  then have "0xBF800000 + (length phdrs + 3) \<le> unat r" "unat r \<le> 0xC0000000" using need s1 s2 by linarith+
  from push_phdrs_exact [where chk = chk and v = v, OF R(4) this]
  obtain q m4 t4 where P: "push_phdrs chk v phdrs m3 r = Some (q, m4, t4)" "stack_mapped m4"
    "unat r - (length phdrs + 3) \<le> unat t4" "unat t4 \<le> unat r"
    "\<And>x. x < unat t4 \<or> unat r \<le> x \<Longrightarrow> mem_at m4 x = mem_at m3 x"
    "case v of Some w \<Rightarrow> q = Some w
     | None \<Rightarrow> if phdrs = [] then q = None
         else \<exists>p. q = Some p \<and> unat t4 \<le> unat p \<and> bytes_at m4 (unat p) phdrs" by blast
  let ?ws = "stack_words as es (auxv q phnum entry r)"
  have lens: "length as = length argv" "length es = length envp"
    using A(5) E(5) by (simp_all add: list_all2_lengthD)
  have lw: "1 + length as + 1 + length es + 1 + 2 * length (auxv q phnum entry r) = length ?ws"
    by (simp only: length_stack_words)
  have "length ?ws \<le> length argv + length envp + 35"
    unfolding length_stack_words lens using length_auxv [of q phnum entry r] by linarith
  then have "4 * length ?ws + 15 \<le> 4 * (length argv + length envp + 35) + 15" by (intro add_mono mult_le_mono) simp_all
  moreover have s4: "unat r \<le> unat t4 + (length phdrs + 3)" using P(3) by linarith
  moreover have "0xBF800000 + (4 * (length argv + length envp + 35) + 15) \<le> unat t4"
    using need s1 s2 s3 s4 by linarith
  ultimately have "0xBF800000 + (4 * length ?ws + 15) \<le> unat t4" by linarith
  moreover have "unat t4 \<le> 0xC0000000" using s1 s2 s3 P(4) by linarith
  ultimately have t4: "0xBF800000 + (4 * length ?ws + 15) \<le> unat t4" "unat t4 \<le> 0xC0000000" by -
  from stack_words_exact [where chk = chk, OF P(2) t4]
  obtain esp m5 where W: "mul_u32 chk (of_nat (length ?ws)) 4 = Some (of_nat (length ?ws) * 4)"
    "sub_u32 chk t4 (of_nat (length ?ws) * 4) = Some (t4 - of_nat (length ?ws) * 4)"
    "esp = (t4 - of_nat (length ?ws) * 4) AND NOT 15"
    "put_words chk ?ws esp m4 = Some m5" "unat esp mod 16 = 0" "0xBF800000 \<le> unat esp"
    "words_at m5 esp ?ws" "\<And>x. x < unat esp \<or> unat t4 \<le> x \<Longrightarrow> mem_at m5 x = mem_at m4 x"
    by blast
  have build: "build_stack chk m process argv envp entry v phdrs phnum = Some (esp, m5, process')"
    unfolding build_stack_def push_phdrs_def [symmetric] Let_def A(1) rand
    by (simp only: Option.bind.bind_lunit prod.case E(1) R(1) P(1) lw W(1,2,4) W(3) [symmetric])
  have le: "unat t4 \<le> unat r" "unat r \<le> unat t2" "unat t2 \<le> unat t1" using P(4) s2 s3 by linarith+
  have o3: "mem_at m3 x = mem_at m2 x" if "x < unat r \<or> unat t2 \<le> x" for x
    unfolding R(3) using that s3 lr by (intro overlay_out) linarith
  have k4: "mem_at m5 x = mem_at m4 x" if "unat t4 \<le> x" for x using that by (simp add: W(8))
  have k3: "mem_at m5 x = mem_at m3 x" if "unat r \<le> x" for x using that le by (simp add: k4 P(5))
  have k2: "mem_at m5 x = mem_at m2 x" if "unat t2 \<le> x" for x using that le by (simp add: k3 o3)
  have k1: "mem_at m5 x = mem_at m1 x" if "unat t1 \<le> x" for x using that le by (simp add: k2 E(4))
  have "strings_at m5 as argv" by (rule strings_atI [OF A(5) k1])
  moreover have "strings_at m5 es envp" by (rule strings_atI [OF E(5) k2])
  moreover have "bytes_at m5 (unat r) rand" using R(3) k3 by (intro bytes_at_mono [OF bytes_at_overlay])
  then have "read_bytes m5 r (replicate (length rand) 0) = (Some (), rand)" by (rule bytes_at_read)
  moreover have "bytes_at m5 (unat p) phdrs" if "unat t4 \<le> unat p" "bytes_at m4 (unat p) phdrs" for p :: u32
    using that(2) by (rule bytes_at_mono) (use that(1) k4 in auto)
  then have "case v of Some w \<Rightarrow> q = Some w
     | None \<Rightarrow> if phdrs = [] then q = None
         else \<exists>p. q = Some p \<and> read_bytes m5 p (replicate (length phdrs) 0) = (Some (), phdrs)"
    using P(6) bytes_at_read by (fastforce split: option.splits if_splits)
  ultimately have image: "process_image m5 esp argv envp entry v phdrs phnum rand"
    unfolding process_image_def using W(7) by blast
  have "mem_at m5 x = mem_at m x" if x: "x < 0xBF800000 \<or> 0xC0000000 \<le> x" for x
  proof -
    have ts: "unat t4 \<le> unat r" "unat r \<le> unat t2" "unat t2 \<le> unat t1" "unat t1 \<le> unat STACK_TOP"
      using le s1 top by linarith+
    have b: "x < unat esp \<or> unat t4 \<le> x" "x < unat t4 \<or> unat r \<le> x" "x < unat r \<or> unat t2 \<le> x"
      "x < unat t2 \<or> unat t1 \<le> x" "x < unat t1 \<or> unat STACK_TOP \<le> x"
      using x W(6) t4 ts top by auto
    have "mem_at m5 x = mem_at ?m0 x"
      by (simp only: W(8) [OF b(1)] P(5) [OF b(2)] o3 [OF b(3)] E(4) [OF b(4)] A(4) [OF b(5)])
    then show ?thesis using stack_region(2) [OF x] by simp
  qed
  with build W(5) image show thesis using rand that by simp
qed

text \<open>
  C22. The initial stack of a process. Whenever the strings, the header copy and the pointer tables fit the
  8 MiB stack region, \<open>build_stack\<close> does not panic, in either build; \<open>esp\<close> is 16-byte aligned; and what the
  guest reads back through its own accesses is the i386 entry image: \<open>argc\<close>, the two pointer tables and the
  auxiliary vector at \<open>esp\<close>, every pointer leading to its NUL-terminated string, \<open>AT_RANDOM\<close> to the 16
  bytes of the generator and \<open>AT_PHDR\<close> to the program headers. No byte outside the region changes.
\<close>

theorem build_stack_readable:
  assumes "stack_need argv envp phdrs \<le> unat STACK_SIZE"
  shows "\<exists>esp m'.
    build_stack chk m process argv envp entry v phdrs phnum = Some (esp, m', snd (rand_bytes 16 process)) \<and>
    unat esp mod 16 = 0 \<and>
    process_image m' esp argv envp entry v phdrs phnum (fst (rand_bytes 16 process)) \<and>
    mem_at m' |` (- {0xBF800000..<0xC0000000}) = mem_at m |` (- {0xBF800000..<0xC0000000})"
proof -
  have "stack_need argv envp phdrs \<le> 0x800000" using assms by (simp add: STACK_SIZE_def)
  from build_stack_image [where chk = chk and m = m and process = process and entry = entry and v = v
      and phnum = phnum, OF this]
  obtain esp m' where b:
    "build_stack chk m process argv envp entry v phdrs phnum = Some (esp, m', snd (rand_bytes 16 process))"
    "unat esp mod 16 = 0"
    "process_image m' esp argv envp entry v phdrs phnum (fst (rand_bytes 16 process))"
    "\<And>x. x < 0xBF800000 \<or> 0xC0000000 \<le> x \<Longrightarrow> mem_at m' x = mem_at m x"
    by blast
  have "mem_at m' |` (- {0xBF800000..<0xC0000000}) = mem_at m |` (- {0xBF800000..<0xC0000000})"
    using b(4) by (auto simp: restrict_map_def fun_eq_iff not_le not_less)
  from b(1-3) this show ?thesis by (intro exI conjI)
qed

lemma words_at_Cons: "words_at m a (w # ws) \<Longrightarrow> read_u32 m a = w"
  unfolding words_at_def by (drule arg_cong [where f = hd]) (simp add: upt_rec)

theorem build_stack_readable_witness:
  "\<exists>esp m' p'. build_stack True AddressSpace_new (Process_new (Some 7) :: unit Process) [[0x61, 0x62], [0x63]] []
     0x08048000 (Some 0x08048034) [] 1 = Some (esp, m', p') \<and> read_u32 m' esp = 2"
proof -
  have "stack_need [[0x61, 0x62], [0x63]] [] [] \<le> unat STACK_SIZE"
    by (simp add: stack_need_def strings_size_def STACK_SIZE_def)
  from build_stack_readable [OF this, of True AddressSpace_new "Process_new (Some 7) :: unit Process" "0x08048000" "Some 0x08048034" 1]
  obtain esp m' where b: "build_stack True AddressSpace_new (Process_new (Some 7) :: unit Process) [[0x61, 0x62], [0x63]] []
      0x08048000 (Some 0x08048034) [] 1 = Some (esp, m', snd (rand_bytes 16 (Process_new (Some 7) :: unit Process)))"
    "process_image m' esp [[0x61, 0x62], [0x63]] [] 0x08048000 (Some 0x08048034) [] 1
      (fst (rand_bytes 16 (Process_new (Some 7) :: unit Process)))" by blast
  then obtain as es q r where w: "words_at m' esp (stack_words as es (auxv q 1 0x08048000 r))"
    "strings_at m' as [[0x61, 0x62], [0x63]]" unfolding process_image_def by blast
  have "length as = 2" using w(2) unfolding strings_at_def by (auto dest: list_all2_lengthD)
  with w(1) have "read_u32 m' esp = 2" by (auto simp: stack_words_def dest: words_at_Cons)
  with b(1) show ?thesis by blast
qed

end
