(* ===== verification/User_Run.thy ===== *)
theory User_Run
  imports User_Stack
begin

text \<open>
  The user-mode runner, \<open>src/usermode/mod.rs\<close>: loading a program into a process and running it to its end,
  over any processor \<open>UserArch\<close>. A panic is \<open>None\<close> in \<open>step_one\<close>; in \<open>run\<close>, which loops without a
  bound, \<open>None\<close> is a panic or no return.
\<close>

record ('c, 'f) Usermode =
  um_cpu :: 'c
  um_mem :: AddressSpace
  um_process :: "'f Process"

datatype Exit = Exited int | Fault string

subsection \<open>Loading\<close>

definition usermode_load ::
  "bool \<Rightarrow> 'c UserArch \<Rightarrow> nat option \<Rightarrow> u8 list \<Rightarrow> u8 list list \<Rightarrow> u8 list list \<Rightarrow> (LoadError + ('c, 'f) Usermode) option" where
  "usermode_load chk U since prog argv envp =
     Option.bind (parse prog) (\<lambda>r. case r of
       Inl e \<Rightarrow> Some (Inl e)
     | Inr elf \<Rightarrow>
         if el_machine elf \<noteq> ua_machine U then Some (Inl (WrongMachine (el_machine elf)))
         else do {
           let mem = AddressSpace_new;
           ((entry, brk_start, phdr_vaddr), mem) \<leftarrow> elf_load chk elf prog mem;
           let mem = mem\<lparr>as_brk_base := brk_start\<rparr>;
           let mem = mem\<lparr>as_brk := brk_start\<rparr>;
           let process = Process_new since;
           table \<leftarrow> slice prog (unat (el_phoff elf)) (unat (el_phoff elf) + unat (el_phnum elf) * 32);
           (sp, mem, process) \<leftarrow> build_stack chk mem process argv envp entry phdr_vaddr table (el_phnum elf);
           let cpu = ua_new U;
           (cpu, mem) \<leftarrow> ua_setup U cpu mem entry sp;
           Some (Inr \<lparr>um_cpu = cpu, um_mem = mem, um_process = process\<rparr>)
         })"

text \<open>The raw header table, its address in the guest, and the segments of an accepted file.\<close>

definition table_bytes :: "Elf32 \<Rightarrow> u8 list \<Rightarrow> u8 list" where
  "table_bytes elf prog = take (unat (el_phnum elf) * 32) (drop (unat (el_phoff elf)) prog)"

definition elf_segments :: "Elf32 \<Rightarrow> Phdr list" where
  "elf_segments elf = filter loadable (el_phdrs elf)"

definition elf_table :: "Elf32 \<Rightarrow> u32 option" where
  "elf_table elf =
     (let hs = filter (holds_table elf) (elf_segments elf)
      in if hs = [] then None else Some (of_nat (table_addr elf (last hs))))"

lemma elf_load_image:
  assumes "parse prog = Some (Inr elf)" and "length prog < 2 ^ 32"
    and "\<forall>p \<in> set (el_phdrs elf). loadable p \<longrightarrow> segment_end p \<le> 0xFFFFF000"
  obtains brk m where "elf_load chk elf prog AddressSpace_new = Some ((el_entry elf, brk, elf_table elf), m)"
    and "\<And>p x. p \<in> set (elf_segments elf) \<Longrightarrow> in_segment p x \<Longrightarrow>
           mem_at m x = Some (image_byte prog (elf_segments elf) x)"
proof -
  note L = load_exact_image [OF assms, where chk = chk]
  have "elf_load chk elf prog AddressSpace_new \<noteq> None"
  proof
    assume none: "elf_load chk elf prog AddressSpace_new = None"
    from L [unfolded none option.case] show False .
  qed
  then obtain entry brk table m where l: "elf_load chk elf prog AddressSpace_new = Some ((entry, brk, table), m)"
    by auto
  note K = L [unfolded l option.case prod.case Let_def]
  show thesis
  proof (rule that [of brk m])
    show "elf_load chk elf prog AddressSpace_new = Some ((el_entry elf, brk, elf_table elf), m)"
      using K l by (simp add: elf_table_def elf_segments_def)
    show "mem_at m x = Some (image_byte prog (elf_segments elf) x)"
      if "p \<in> set (elf_segments elf)" "in_segment p x" for p x
      using K [THEN conjunct2, THEN conjunct1] that unfolding elf_segments_def by blast
  qed
qed

text \<open>
  C24. Loading a program. A well-formed executable for this machine, smaller than 4 GiB, whose segments end
  below the stack region and whose arguments fit the stack, is loaded without a panic, in either build:
  before the processor is set up at the file's entry point, the memory holds every segment byte of the file
  (the last segment wins where they overlap) and, at a 16-byte aligned \<open>esp\<close>, the readable process-entry
  image of its arguments. The stack never overwrites the program.
\<close>

theorem usermode_load_exact:
  assumes "parse prog = Some (Inr elf)" and "el_machine elf = ua_machine U" and "length prog < 2 ^ 32"
    and "\<forall>p \<in> set (el_phdrs elf). loadable p \<longrightarrow> segment_end p \<le> 0xBF800000"
    and "stack_need argv envp (table_bytes elf prog) \<le> unat STACK_SIZE"
  shows "\<exists>esp m process.
    usermode_load chk U since prog argv envp =
      map_option (\<lambda>(cpu, m). Inr \<lparr>um_cpu = cpu, um_mem = m, um_process = process :: 'f Process\<rparr>)
        (ua_setup U (ua_new U) m (el_entry elf) esp) \<and>
    (\<forall>p \<in> set (elf_segments elf). \<forall>x. in_segment p x \<longrightarrow>
       mem_at m x = Some (image_byte prog (elf_segments elf) x)) \<and>
    unat esp mod 16 = 0 \<and>
    process_image m esp argv envp (el_entry elf) (elf_table elf) (table_bytes elf prog) (el_phnum elf)
      (fst (rand_bytes 16 (Process_new since :: 'f Process)))"
proof -
  have low: "segment_end p \<le> 0xBF800000" if "p \<in> set (elf_segments elf)" for p
    using that assms(4) by (auto simp: elf_segments_def)
  have "\<forall>p \<in> set (el_phdrs elf). loadable p \<longrightarrow> segment_end p \<le> 0xFFFFF000"
    using assms(4) by fastforce
  then obtain brk m where l: "elf_load chk elf prog AddressSpace_new = Some ((el_entry elf, brk, elf_table elf), m)"
    and seg: "\<And>p x. p \<in> set (elf_segments elf) \<Longrightarrow> in_segment p x \<Longrightarrow>
           mem_at m x = Some (image_byte prog (elf_segments elf) x)"
    using elf_load_image [OF assms(1,3), of chk] by blast
  let ?m = "m\<lparr>as_brk_base := brk, as_brk := brk\<rparr>" and ?p = "Process_new since :: 'f Process"
  have "is_image prog elf" using assms(1) parse_accepts by blast
  then have "unat (el_phoff elf) + unat (el_phnum elf) * 32 \<le> length prog" unfolding is_image_def by blast
  then have t: "slice prog (unat (el_phoff elf)) (unat (el_phoff elf) + unat (el_phnum elf) * 32) =
      Some (table_bytes elf prog)" by (simp add: slice_def table_bytes_def)
  have "stack_need argv envp (table_bytes elf prog) \<le> 0x800000" using assms(5) by (simp add: STACK_SIZE_def)
  from build_stack_image [where chk = chk and m = ?m and process = ?p and entry = "el_entry elf"
      and v = "elf_table elf" and phnum = "el_phnum elf", OF this]
  obtain esp m' where b: "build_stack chk ?m ?p argv envp (el_entry elf) (elf_table elf) (table_bytes elf prog)
      (el_phnum elf) = Some (esp, m', snd (rand_bytes 16 ?p))"
    "unat esp mod 16 = 0"
    "process_image m' esp argv envp (el_entry elf) (elf_table elf) (table_bytes elf prog) (el_phnum elf)
      (fst (rand_bytes 16 ?p))"
    "\<And>x. x < 0xBF800000 \<or> 0xC0000000 \<le> x \<Longrightarrow> mem_at m' x = mem_at ?m x" by blast
  have "usermode_load chk U since prog argv envp =
      map_option (\<lambda>(cpu, m). Inr \<lparr>um_cpu = cpu, um_mem = m, um_process = snd (rand_bytes 16 ?p)\<rparr>)
        (ua_setup U (ua_new U) m' (el_entry elf) esp)"
    by (cases "ua_setup U (ua_new U) m' (el_entry elf) esp")
      (simp_all add: usermode_load_def assms(1,2) l t b(1) case_prod_beta)
  moreover have "mem_at m' x = Some (image_byte prog (elf_segments elf) x)"
    if "p \<in> set (elf_segments elf)" "in_segment p x" for p x
  proof -
    have "x < 0xBF800000" using low [OF that(1)] that(2) by (simp add: in_segment_def segment_end_def)
    then have "mem_at m' x = mem_at ?m x" by (intro b(4)) simp
    also have "\<dots> = mem_at m x" by (simp add: mem_at_def)
    finally show ?thesis using seg [OF that] by simp
  qed
  ultimately show ?thesis using b(2,3) by (intro exI conjI ballI allI impI)
qed

text \<open>A processor that idles, for the witnesses.\<close>

definition idle_arch :: "unit UserArch" where
  "idle_arch = \<lparr>ua_machine = EM_386, ua_new = (), ua_setup = (\<lambda>c m _ _. Some (c, m)), ua_step = (\<lambda>c m. Some (1, c, m)),
     ua_take_syscall = (\<lambda>c. (False, c)), ua_syscall_number = (\<lambda>_. 0), ua_syscall_args = (\<lambda>_ _. 0),
     ua_set_syscall_ret = (\<lambda>c _. c), ua_arch_syscall = (\<lambda>c m _ _. (None, c, m)), ua_invalidate_code = (\<lambda>c. c),
     ua_take_fault = (\<lambda>c. (None, c)), ua_pc = (\<lambda>_. 0), ua_dead = (\<lambda>_. False), ua_dump = (\<lambda>_. [])\<rparr>"

theorem usermode_load_exact_witness:
  "\<exists>m process. usermode_load True idle_arch (Some 7) sample_image [[0x61]] [] =
     Some (Inr \<lparr>um_cpu = (), um_mem = m, um_process = process :: unit Process\<rparr>) \<and> mem_at m 0x08048002 = Some 0xCD"
proof -
  have mach: "el_machine sample_elf = ua_machine idle_arch" by (simp add: sample_elf_def idle_arch_def EM_386_def)
  have len: "length sample_image < 2 ^ 32" by (simp add: sample_image_def)
  have fits: "\<forall>p \<in> set (el_phdrs sample_elf). loadable p \<longrightarrow> segment_end p \<le> 0xBF800000"
    by (simp add: sample_elf_def sample_phdr_def segment_end_def)
  have need: "stack_need [[0x61]] [] (table_bytes sample_elf sample_image) \<le> unat STACK_SIZE"
    by (simp add: stack_need_def strings_size_def STACK_SIZE_def table_bytes_def sample_elf_def sample_image_def)
  have ps: "elf_segments sample_elf = [sample_phdr]"
    by (simp add: elf_segments_def sample_elf_def loadable_def PT_LOAD_def sample_phdr_def)
  have x: "in_segment sample_phdr 0x08048002" by (simp add: in_segment_def sample_phdr_def)
  have byte: "image_byte sample_image [sample_phdr] 0x08048002 = 0xCD"
    by (simp add: image_byte_def sample_phdr_def sample_image_def)
  from usermode_load_exact [OF sample_parses mach len fits need, of True "Some 7"]
  obtain esp m and process :: "unit Process" where
    l: "usermode_load True idle_arch (Some 7) sample_image [[0x61]] [] =
      map_option (\<lambda>(cpu, m). Inr \<lparr>um_cpu = cpu, um_mem = m, um_process = process\<rparr>)
        (ua_setup idle_arch (ua_new idle_arch) m (el_entry sample_elf) esp)"
    and s: "\<forall>p \<in> set (elf_segments sample_elf). \<forall>x. in_segment p x \<longrightarrow>
      mem_at m x = Some (image_byte sample_image (elf_segments sample_elf) x)" by blast
  have "usermode_load True idle_arch (Some 7) sample_image [[0x61]] [] =
      Some (Inr \<lparr>um_cpu = (), um_mem = m, um_process = process\<rparr>)"
    unfolding l by (simp add: idle_arch_def)
  moreover have "mem_at m 0x08048002 = Some 0xCD" using s x byte unfolding ps by simp
  ultimately show ?thesis by blast
qed

subsection \<open>Running\<close>

text \<open>\<open>{:#010x}\<close>\<close>

definition lower_hex :: "nat \<Rightarrow> char" where "lower_hex n = ''0123456789abcdef'' ! (n mod 16)"

definition hex010 :: "u32 \<Rightarrow> string" where
  "hex010 v = ''0x'' @ map (\<lambda>i. lower_hex (unat v div 16 ^ (7 - i))) [0..<8]"

definition newline :: string where "newline = [CHR 0x0A]"

definition segv_message :: "Segv \<Rightarrow> string \<Rightarrow> string" where
  "segv_message s dump =
     ''segmentation fault: '' @ (if sv_write s then ''write to'' else ''read of'') @ '' unmapped address '' @
     hex010 (sv_addr s) @ newline @ dump"

text \<open>The three polls at the end of a step.\<close>

definition step_faults :: "'c UserArch \<Rightarrow> 'c \<Rightarrow> AddressSpace \<Rightarrow> Exit option \<times> 'c \<times> AddressSpace" where
  "step_faults U cpu mem =
     (case ua_take_fault U cpu of
        (Some f, cpu) \<Rightarrow> (Some (Fault (f @ newline @ ua_dump U cpu)), cpu, mem)
      | (None, cpu) \<Rightarrow>
          (case take_segv mem of
             (Some s, mem) \<Rightarrow> (Some (Fault (segv_message s (ua_dump U cpu))), cpu, mem)
           | (None, mem) \<Rightarrow>
               if ua_dead U cpu
               then (Some (Fault (''unhandled CPU exception (triple fault)'' @ newline @ ua_dump U cpu)), cpu, mem)
               else (None, cpu, mem)))"

definition step_one ::
  "bool \<Rightarrow> 'c UserArch \<Rightarrow> ('h, 'f) Host \<Rightarrow> 'h Clock \<Rightarrow> ('c, 'f) Usermode \<times> 'h
     \<Rightarrow> (Exit option \<times> ('c, 'f) Usermode \<times> 'h) option" where
  "step_one chk U H C st =
     (case st of (um, h) \<Rightarrow>
        Option.bind (ua_step U (um_cpu um) (um_mem um)) (\<lambda>(_, cpu, mem).
        let (trapped, cpu) = ua_take_syscall U cpu;
            finish = (\<lambda>cpu mem p h.
              let (exit, cpu, mem) = step_faults U cpu mem
              in (exit, \<lparr>um_cpu = cpu, um_mem = mem, um_process = p\<rparr>, h))
        in if trapped then
             let nr = ua_syscall_number U cpu;
                 args = ua_syscall_args U cpu
             in map_option (\<lambda>(ctl, cpu, mem, p, h).
                  case ctl of
                    Ret v \<Rightarrow> finish (ua_invalidate_code U (ua_set_syscall_ret U cpu v)) mem p h
                  | Control.Exit code \<Rightarrow> (Some (Exited code), \<lparr>um_cpu = cpu, um_mem = mem, um_process = p\<rparr>, h))
                (linux_dispatch chk U H C cpu mem (um_process um) h nr args)
           else Some (finish cpu mem (um_process um) h)))"

partial_function (option) run ::
  "bool \<Rightarrow> 'c UserArch \<Rightarrow> ('h, 'f) Host \<Rightarrow> 'h Clock \<Rightarrow> ('c, 'f) Usermode \<times> 'h
     \<Rightarrow> (Exit \<times> ('c, 'f) Usermode \<times> 'h) option" where
  "run chk U H C st =
     Option.bind (step_one chk U H C st) (\<lambda>(exit, st).
       case exit of Some e \<Rightarrow> Some (e, st) | None \<Rightarrow> run chk U H C st)"

subsection \<open>A run is a path of the process\<close>

text \<open>
  The life of a process as a step relation. \<open>acts\<close> is one instruction and the system call it may make, other than an exit;
  a process goes on if nothing is wrong afterwards, and ends with an exit call or with the first of three faults: one the
  processor reports, the first access to unmapped memory, a processor that is dead.
\<close>

inductive acts ::
  "bool \<Rightarrow> 'c UserArch \<Rightarrow> ('h, 'f) Host \<Rightarrow> 'h Clock \<Rightarrow> ('c, 'f) Usermode \<times> 'h \<Rightarrow> ('c, 'f) Usermode \<times> 'h \<Rightarrow> bool"
  for chk U H C where
  plain: "ua_step U (um_cpu um) (um_mem um) = Some (n, cpu, mem) \<Longrightarrow> ua_take_syscall U cpu = (False, cpu') \<Longrightarrow>
     acts chk U H C (um, h) (\<lparr>um_cpu = cpu', um_mem = mem, um_process = um_process um\<rparr>, h)"
| call: "ua_step U (um_cpu um) (um_mem um) = Some (n, cpu, mem) \<Longrightarrow> ua_take_syscall U cpu = (True, cpu1) \<Longrightarrow>
     linux_dispatch chk U H C cpu1 mem (um_process um) h (ua_syscall_number U cpu1) (ua_syscall_args U cpu1) =
       Some (Ret v, cpu2, mem', p, h') \<Longrightarrow>
     acts chk U H C (um, h)
       (\<lparr>um_cpu = ua_invalidate_code U (ua_set_syscall_ret U cpu2 v), um_mem = mem', um_process = p\<rparr>, h')"

inductive goes_on ::
  "bool \<Rightarrow> 'c UserArch \<Rightarrow> ('h, 'f) Host \<Rightarrow> 'h Clock \<Rightarrow> ('c, 'f) Usermode \<times> 'h \<Rightarrow> ('c, 'f) Usermode \<times> 'h \<Rightarrow> bool"
  for chk U H C where
  "acts chk U H C s (um, h) \<Longrightarrow> ua_take_fault U (um_cpu um) = (None, cpu) \<Longrightarrow> as_segv (um_mem um) = None \<Longrightarrow>
     \<not> ua_dead U cpu \<Longrightarrow> goes_on chk U H C s (um\<lparr>um_cpu := cpu\<rparr>, h)"

inductive ends_with ::
  "bool \<Rightarrow> 'c UserArch \<Rightarrow> ('h, 'f) Host \<Rightarrow> 'h Clock \<Rightarrow> ('c, 'f) Usermode \<times> 'h \<Rightarrow> Exit \<Rightarrow> ('c, 'f) Usermode \<times> 'h \<Rightarrow> bool"
  for chk U H C where
  exit_call: "ua_step U (um_cpu um) (um_mem um) = Some (n, cpu, mem) \<Longrightarrow> ua_take_syscall U cpu = (True, cpu1) \<Longrightarrow>
     ua_arch_syscall U cpu1 mem (ua_syscall_number U cpu1) (ua_syscall_args U cpu1) = (None, cpu2, mem') \<Longrightarrow>
     ua_syscall_number U cpu1 \<in> {NR_EXIT, NR_EXIT_GROUP} \<Longrightarrow>
     ends_with chk U H C (um, h) (Exited (sint (ua_syscall_args U cpu1 0)))
       (\<lparr>um_cpu = cpu2, um_mem = mem', um_process = um_process um\<rparr>, h)"
| cpu_fault: "acts chk U H C s (um, h) \<Longrightarrow> ua_take_fault U (um_cpu um) = (Some f, cpu) \<Longrightarrow>
     ends_with chk U H C s (Fault (f @ newline @ ua_dump U cpu)) (um\<lparr>um_cpu := cpu\<rparr>, h)"
| segv: "acts chk U H C s (um, h) \<Longrightarrow> ua_take_fault U (um_cpu um) = (None, cpu) \<Longrightarrow> as_segv (um_mem um) = Some v \<Longrightarrow>
     ends_with chk U H C s (Fault (segv_message v (ua_dump U cpu)))
       (um\<lparr>um_cpu := cpu, um_mem := (um_mem um)\<lparr>as_segv := None\<rparr>\<rparr>, h)"
| dead: "acts chk U H C s (um, h) \<Longrightarrow> ua_take_fault U (um_cpu um) = (None, cpu) \<Longrightarrow> as_segv (um_mem um) = None \<Longrightarrow>
     ua_dead U cpu \<Longrightarrow>
     ends_with chk U H C s (Fault (''unhandled CPU exception (triple fault)'' @ newline @ ua_dump U cpu))
       (um\<lparr>um_cpu := cpu\<rparr>, h)"

text \<open>Only an exit call ends a system call.\<close>

lemma dispatch_exit:
  "linux_dispatch chk U H C cpu mem p h nr args = Some (Control.Exit code, cpu', mem', p', h') \<longleftrightarrow>
     ua_arch_syscall U cpu mem nr args = (None, cpu', mem') \<and> nr \<in> {NR_EXIT, NR_EXIT_GROUP} \<and> code = sint (args 0) \<and>
     p' = p \<and> h' = h"
  by (auto simp: linux_dispatch_def split: prod.splits option.splits)

text \<open>What \<open>step_one\<close> does with a state in which the instruction and its call are done.\<close>

definition polled :: "'c UserArch \<Rightarrow> ('c, 'f) Usermode \<times> 'h \<Rightarrow> Exit option \<times> ('c, 'f) Usermode \<times> 'h" where
  "polled U s =
     (case s of (um, h) \<Rightarrow>
        case step_faults U (um_cpu um) (um_mem um) of
          (e, cpu, mem) \<Rightarrow> (e, \<lparr>um_cpu = cpu, um_mem = mem, um_process = um_process um\<rparr>, h))"

lemma step_acts: "acts chk U H C s t \<Longrightarrow> step_one chk U H C s = Some (polled U t)"
  by (induction rule: acts.induct) (simp_all add: step_one_def polled_def case_prod_beta Let_def)

lemma step_cases:
  assumes "step_one chk U H C s = Some (x, u)"
  shows "(\<exists>t. acts chk U H C s t \<and> polled U t = (x, u)) \<or>
    (\<exists>code. x = Some (Exited code) \<and> ends_with chk U H C s (Exited code) u)"
proof -
  obtain um h where s: "s = (um, h)" by (cases s)
  obtain n cpu mem where run: "ua_step U (um_cpu um) (um_mem um) = Some (n, cpu, mem)"
    using assms by (auto simp: s step_one_def bind_eq_Some_conv)
  obtain trapped cpu1 where trap: "ua_take_syscall U cpu = (trapped, cpu1)" by (metis prod.exhaust)
  show ?thesis
  proof (cases trapped)
    case False
    then have a: "acts chk U H C s (\<lparr>um_cpu = cpu1, um_mem = mem, um_process = um_process um\<rparr>, h)"
      unfolding s using trap by (intro acts.plain [OF run]) simp
    then show ?thesis using step_acts [OF a] assms by auto
  next
    case True
    then obtain ctl cpu2 mem' p h' where call: "linux_dispatch chk U H C cpu1 mem (um_process um) h (ua_syscall_number U cpu1)
        (ua_syscall_args U cpu1) = Some (ctl, cpu2, mem', p, h')"
      using assms run trap by (auto simp: s step_one_def)
    show ?thesis
    proof (cases ctl)
      case (Ret v)
      have a: "acts chk U H C s
          (\<lparr>um_cpu = ua_invalidate_code U (ua_set_syscall_ret U cpu2 v), um_mem = mem', um_process = p\<rparr>, h')"
        unfolding s using trap True call Ret by (intro acts.call [OF run]) simp_all
      then show ?thesis using step_acts [OF a] assms by auto
    next
      case (Exit code)
      have "x = Some (Exited code)" "u = (\<lparr>um_cpu = cpu2, um_mem = mem', um_process = p\<rparr>, h')"
        using assms run trap True call Exit by (simp_all add: s step_one_def)
      moreover have "ends_with chk U H C s (Exited code) (\<lparr>um_cpu = cpu2, um_mem = mem', um_process = p\<rparr>, h')"
        using call [unfolded Exit dispatch_exit] trap True unfolding s by (auto intro!: ends_with.exit_call [OF run])
      ultimately show ?thesis by blast
    qed
  qed
qed

lemma clear_segv: "as_segv m = None \<Longrightarrow> m\<lparr>as_segv := None\<rparr> = m"
  by (cases m) simp

lemma polled_cases:
  assumes a: "acts chk U H C s t" and p: "polled U t = (x, u)"
  shows "case x of None \<Rightarrow> goes_on chk U H C s u | Some e \<Rightarrow> ends_with chk U H C s e u"
proof -
  obtain um h where t: "t = (um, h)" by (cases t)
  obtain f cpu where f: "ua_take_fault U (um_cpu um) = (f, cpu)" by (metis prod.exhaust)
  note act = a [unfolded t]
  note poll = p [symmetric, unfolded t polled_def step_faults_def f take_segv_def prod.case]
  show ?thesis
  proof (cases f)
    case (Some msg)
    then show ?thesis using ends_with.cpu_fault [OF act f [unfolded Some]] poll by (cases um) simp
  next
    case fault: None
    show ?thesis
    proof (cases "as_segv (um_mem um)")
      case (Some v)
      then show ?thesis using ends_with.segv [OF act f [unfolded fault] Some] poll fault by (cases um) simp
    next
      case None
      then show ?thesis
        using ends_with.dead [OF act f [unfolded fault] None] goes_on.intros [OF act f [unfolded fault] None] poll fault
        by (cases um, cases "ua_dead U cpu") (simp_all add: clear_segv)
    qed
  qed
qed

lemma step_going: "step_one chk U H C s = Some (None, u) \<longleftrightarrow> goes_on chk U H C s u"
proof
  show "goes_on chk U H C s u" if "step_one chk U H C s = Some (None, u)"
    using step_cases [OF that] polled_cases [of chk U H C s _ None u] by auto
  show "step_one chk U H C s = Some (None, u)" if "goes_on chk U H C s u"
    using that by cases (auto simp: step_acts polled_def step_faults_def take_segv_def)
qed

lemma step_ending: "step_one chk U H C s = Some (Some e, u) \<longleftrightarrow> ends_with chk U H C s e u"
proof
  show "ends_with chk U H C s e u" if "step_one chk U H C s = Some (Some e, u)"
    using step_cases [OF that] polled_cases [of chk U H C s _ "Some e" u] by auto
  show "step_one chk U H C s = Some (Some e, u)" if "ends_with chk U H C s e u"
    using that
  proof cases
    case (exit_call um n cpu mem cpu1 cpu2 mem' h)
    then show ?thesis by (simp add: step_one_def linux_dispatch_def)
  qed (auto simp: step_acts polled_def step_faults_def take_segv_def)
qed

lemma run_ends:
  assumes "(goes_on chk U H C)\<^sup>*\<^sup>* s t" "ends_with chk U H C t e u"
  shows "run chk U H C s = Some (e, u)"
  using assms
proof (induction rule: converse_rtranclp_induct)
  case base
  then show ?case by (simp add: run.simps [of _ _ _ _ t] flip: step_ending)
next
  case (step s s')
  then show ?case by (simp add: run.simps [of _ _ _ _ s] flip: step_going)
qed

lemma run_path:
  fixes U :: "'c UserArch" and H :: "('h, 'f) Host"
  assumes "run chk U H C st = Some r"
  shows "\<exists>t. (goes_on chk U H C)\<^sup>*\<^sup>* st t \<and> ends_with chk U H C t (fst r) (snd r)"
proof (rule run.raw_induct [where P = "\<lambda>chk U H C st r. \<exists>t. (goes_on chk U H C)\<^sup>*\<^sup>* st t \<and>
    ends_with chk U H C t (fst r) (snd r)", OF _ assms])
  fix run chk and U :: "'c UserArch" and H :: "('h, 'f) Host" and C :: "'h Clock" and st r
  assume IH: "\<And>chk U H C st r. run chk U H C st = Some r \<Longrightarrow>
      \<exists>t. (goes_on chk U H C)\<^sup>*\<^sup>* st t \<and> ends_with chk U H C t (fst r) (snd r)"
    and r: "Option.bind (step_one chk U H C st) (\<lambda>(exit, st).
      case exit of Some e \<Rightarrow> Some (e, st) | None \<Rightarrow> run chk U H C st) = Some r"
  then obtain x s where s: "step_one chk U H C st = Some (x, s)"
    and x: "(case x of Some e \<Rightarrow> Some (e, s) | None \<Rightarrow> run chk U H C s) = Some r"
    by (auto simp: bind_eq_Some_conv)
  show "\<exists>t. (goes_on chk U H C)\<^sup>*\<^sup>* st t \<and> ends_with chk U H C t (fst r) (snd r)"
  proof (cases x)
    case (Some e)
    then have "ends_with chk U H C st (fst r) (snd r)" using s x step_ending [of chk U H C st e s] by auto
    then show ?thesis by blast
  next
    case None
    with x have "run chk U H C s = Some r" by simp
    from IH [OF this] obtain t where "(goes_on chk U H C)\<^sup>*\<^sup>* s t" "ends_with chk U H C t (fst r) (snd r)" by blast
    moreover have "goes_on chk U H C st s" using s None by (simp add: step_going)
    ultimately show ?thesis using converse_rtranclp_into_rtranclp [of "goes_on chk U H C" st s t] by blast
  qed
qed

text \<open>
  C27. How a process ends. \<open>run\<close> returns an exit and a state exactly when the process has a path of steps that go on to
  a step that ends with them: an \<open>exit\<close> or \<open>exit_group\<close> call, with the signed first argument as status and before any
  fault is looked at; else the fault the processor reports; else the latched access to unmapped memory, with its address
  and direction, which is then cleared; else a dead processor. A step goes on only if none of these holds after it, so that
  no fault is passed over.
\<close>

theorem run_is_the_process:
  "run chk U H C st = Some (e, u) \<longleftrightarrow> (\<exists>t. (goes_on chk U H C)\<^sup>*\<^sup>* st t \<and> ends_with chk U H C t e u)"
  using run_ends [of chk U H C st _ e u] run_path [of chk U H C st "(e, u)"] by auto

end
