(* ===== verification/X86_Registers.thy ===== *)
theory X86_Registers
  imports Remu_Bitflags
begin

text \<open>
  \<open>src/x86/registers.rs\<close>: the FLAGS register of the 8086 and its register file. \<open>Flags\<close> is a
  \<open>bitflags\<close> type, so the crate's operations are the parameter \<open>F\<close>; this core also uses \<open>toggle\<close> and
  \<open>from_bits_truncate\<close>, which extend the record of \<open>Remu_Bitflags\<close>, together with their laws. What
  \<open>from_bits_truncate\<close> keeps depends on the declared flags, the word \<open>Flags_all\<close>.
\<close>

record 'p bitflags_all = "'p bitflags" +
  fl_toggle :: "'p \<Rightarrow> 'p \<Rightarrow> 'p"
  fl_truncate :: "'p \<Rightarrow> 'p"

definition bitflags_all_laws :: "('a::len) word \<Rightarrow> 'a word bitflags_all \<Rightarrow> bool" where
  "bitflags_all_laws known F \<longleftrightarrow>
     bitflags_laws (bitflags.truncate F) \<and>
     (\<forall>p f. fl_toggle F p f = p XOR f) \<and>
     (\<forall>p. fl_truncate F p = p AND known)"

definition bitflags_all_std :: "('a::len) word \<Rightarrow> 'a word bitflags_all" where
  "bitflags_all_std known =
     \<lparr>fl_contains = fl_contains bitflags_std, fl_insert = fl_insert bitflags_std,
      fl_remove = fl_remove bitflags_std, fl_set = fl_set bitflags_std, fl_union = fl_union bitflags_std,
      fl_toggle = (\<lambda>p f. p XOR f), fl_truncate = (\<lambda>p. p AND known)\<rparr>"

lemma bitflags_all_std_laws [simp]: "bitflags_all_laws known (bitflags_all_std known)"
  by (simp add: bitflags_all_laws_def bitflags_all_std_def bitflags_laws_def bitflags_std_def bitflags.truncate_def)

lemma bitflags_all_laws_std: "bitflags_all_laws known F \<Longrightarrow> F = bitflags_all_std known"
  by (cases F) (auto simp: bitflags_all_laws_def bitflags_all_std_def bitflags_laws_def bitflags_std_def
      bitflags.truncate_def fun_eq_iff)

subsection \<open>FLAGS\<close>

type_synonym Flags = u16
type_synonym flag_ops = "u16 bitflags_all"

definition Flags_CF :: Flags where "Flags_CF = 0x0001"
definition Flags_PF :: Flags where "Flags_PF = 0x0004"
definition Flags_AF :: Flags where "Flags_AF = 0x0010"
definition Flags_ZF :: Flags where "Flags_ZF = 0x0040"
definition Flags_SF :: Flags where "Flags_SF = 0x0080"
definition Flags_TF :: Flags where "Flags_TF = 0x0100"
definition Flags_IF :: Flags where "Flags_IF = 0x0200"
definition Flags_DF :: Flags where "Flags_DF = 0x0400"
definition Flags_OF :: Flags where "Flags_OF = 0x0800"

text \<open>The union of the nine declared flags.\<close>

definition Flags_all :: Flags where "Flags_all = 0x0FD5"

lemma Flags_all_union:
  "Flags_all = Flags_CF OR Flags_PF OR Flags_AF OR Flags_ZF OR Flags_SF OR Flags_TF OR Flags_IF OR Flags_DF OR Flags_OF"
  by (simp add: Flags_all_def Flags_CF_def Flags_PF_def Flags_AF_def Flags_ZF_def Flags_SF_def Flags_TF_def
      Flags_IF_def Flags_DF_def Flags_OF_def)

definition to_word :: "Flags \<Rightarrow> u16" where "to_word f = f OR 0xF002"
definition from_word :: "flag_ops \<Rightarrow> u16 \<Rightarrow> Flags" where "from_word F w = fl_truncate F w"

definition ones :: "'a::len word \<Rightarrow> nat" where
  "ones v = length (filter (bit v) [0..<LENGTH('a)])"

definition set_szp8 :: "flag_ops \<Rightarrow> Flags \<Rightarrow> u8 \<Rightarrow> Flags" where
  "set_szp8 F f v =
     (let f = fl_set F f Flags_SF (v AND 0x80 \<noteq> 0);
          f = fl_set F f Flags_ZF (v = 0)
      in fl_set F f Flags_PF (ones v mod 2 = 0))"

definition set_szp16 :: "flag_ops \<Rightarrow> Flags \<Rightarrow> u16 \<Rightarrow> Flags" where
  "set_szp16 F f v =
     (let f = fl_set F f Flags_SF (v AND 0x8000 \<noteq> 0);
          f = fl_set F f Flags_ZF (v = 0)
      in fl_set F f Flags_PF (ones (ucast v :: u8) mod 2 = 0))"

subsection \<open>The register file\<close>

record X86Registers =
  rx_ax :: u16
  rx_bx :: u16
  rx_cx :: u16
  rx_dx :: u16
  rx_sp :: u16
  rx_bp :: u16
  rx_si :: u16
  rx_di :: u16
  rx_es :: u16
  rx_cs :: u16
  rx_ss :: u16
  rx_ds :: u16
  rx_ip :: u16
  rx_flags :: Flags

definition X86Registers_new :: X86Registers where
  "X86Registers_new =
     \<lparr>rx_ax = 0, rx_bx = 0, rx_cx = 0, rx_dx = 0, rx_sp = 0, rx_bp = 0, rx_si = 0, rx_di = 0,
      rx_es = 0, rx_cs = 0xFFFF, rx_ss = 0, rx_ds = 0, rx_ip = 0, rx_flags = 0\<rparr>"

definition x86_AX :: u8 where "x86_AX = 0"
definition x86_SP :: u8 where "x86_SP = 4"
definition x86_ES :: u8 where "x86_ES = 0"
definition x86_CS :: u8 where "x86_CS = 1"
definition x86_SS :: u8 where "x86_SS = 2"
definition x86_DS :: u8 where "x86_DS = 3"

definition reg16 :: "X86Registers \<Rightarrow> u8 \<Rightarrow> u16" where
  "reg16 r i =
     (let i = i AND 7
      in if i = 0 then rx_ax r else if i = 1 then rx_cx r else if i = 2 then rx_dx r
         else if i = 3 then rx_bx r else if i = 4 then rx_sp r else if i = 5 then rx_bp r
         else if i = 6 then rx_si r else rx_di r)"

definition set_reg16 :: "u8 \<Rightarrow> u16 \<Rightarrow> X86Registers \<Rightarrow> X86Registers" where
  "set_reg16 i v r =
     (let i = i AND 7
      in if i = 0 then r\<lparr>rx_ax := v\<rparr> else if i = 1 then r\<lparr>rx_cx := v\<rparr> else if i = 2 then r\<lparr>rx_dx := v\<rparr>
         else if i = 3 then r\<lparr>rx_bx := v\<rparr> else if i = 4 then r\<lparr>rx_sp := v\<rparr> else if i = 5 then r\<lparr>rx_bp := v\<rparr>
         else if i = 6 then r\<lparr>rx_si := v\<rparr> else r\<lparr>rx_di := v\<rparr>)"

definition reg8 :: "X86Registers \<Rightarrow> u8 \<Rightarrow> u8" where
  "reg8 r i =
     (let w = reg16 r (i AND 3)
      in if i AND 4 \<noteq> 0 then ucast (drop_bit 8 w) else ucast w)"

definition set_reg8 :: "u8 \<Rightarrow> u8 \<Rightarrow> X86Registers \<Rightarrow> X86Registers" where
  "set_reg8 i v r =
     (let k = i AND 3;
          w = reg16 r k;
          w = (if i AND 4 \<noteq> 0 then (w AND 0x00FF) OR push_bit 8 (ucast v) else (w AND 0xFF00) OR ucast v)
      in set_reg16 k w r)"

definition seg :: "X86Registers \<Rightarrow> u8 \<Rightarrow> u16" where
  "seg r i =
     (let i = i AND 3
      in if i = 0 then rx_es r else if i = 1 then rx_cs r else if i = 2 then rx_ss r else rx_ds r)"

definition set_seg :: "u8 \<Rightarrow> u16 \<Rightarrow> X86Registers \<Rightarrow> X86Registers" where
  "set_seg i v r =
     (let i = i AND 3
      in if i = 0 then r\<lparr>rx_es := v\<rparr> else if i = 1 then r\<lparr>rx_cs := v\<rparr> else if i = 2 then r\<lparr>rx_ss := v\<rparr>
         else r\<lparr>rx_ds := v\<rparr>)"

subsection \<open>Flags as bit positions\<close>

lemma Flags_exp:
  "Flags_CF = 2 ^ 0" "Flags_PF = 2 ^ 2" "Flags_AF = 2 ^ 4" "Flags_ZF = 2 ^ 6" "Flags_SF = 2 ^ 7"
  "Flags_TF = 2 ^ 8" "Flags_IF = 2 ^ 9" "Flags_DF = 2 ^ 10" "Flags_OF = 2 ^ 11"
  by (simp_all add: Flags_CF_def Flags_PF_def Flags_AF_def Flags_ZF_def Flags_SF_def Flags_TF_def
      Flags_IF_def Flags_DF_def Flags_OF_def)

abbreviation fstd :: flag_ops where "fstd \<equiv> bitflags_all_std Flags_all"

lemma fstd_ops [simp]:
  "fl_contains (bitflags_all_std k) = fl_contains bitflags_std" "fl_insert (bitflags_all_std k) = fl_insert bitflags_std"
  "fl_remove (bitflags_all_std k) = fl_remove bitflags_std" "fl_set (bitflags_all_std k) = fl_set bitflags_std"
  "fl_union (bitflags_all_std k) = fl_union bitflags_std" "fl_toggle (bitflags_all_std k) = (\<lambda>p f. p XOR f)"
  "fl_truncate (bitflags_all_std k) = (\<lambda>p. p AND k)"
  by (simp_all add: bitflags_all_std_def)

lemma contains_Flags [flag_simps]:
  "fl_contains bitflags_std p Flags_CF \<longleftrightarrow> bit p 0" "fl_contains bitflags_std p Flags_PF \<longleftrightarrow> bit p 2"
  "fl_contains bitflags_std p Flags_AF \<longleftrightarrow> bit p 4" "fl_contains bitflags_std p Flags_ZF \<longleftrightarrow> bit p 6"
  "fl_contains bitflags_std p Flags_SF \<longleftrightarrow> bit p 7" "fl_contains bitflags_std p Flags_TF \<longleftrightarrow> bit p 8"
  "fl_contains bitflags_std p Flags_IF \<longleftrightarrow> bit p 9" "fl_contains bitflags_std p Flags_DF \<longleftrightarrow> bit p 10"
  "fl_contains bitflags_std p Flags_OF \<longleftrightarrow> bit p 11"
  by (simp_all only: Flags_exp, (rule contains_single, simp)+)

lemma bit_set_Flags [flag_simps]:
  "bit (fl_set bitflags_std p Flags_CF v) k \<longleftrightarrow> (if k = 0 then v else bit p k)"
  "bit (fl_set bitflags_std p Flags_PF v) k \<longleftrightarrow> (if k = 2 then v else bit p k)"
  "bit (fl_set bitflags_std p Flags_AF v) k \<longleftrightarrow> (if k = 4 then v else bit p k)"
  "bit (fl_set bitflags_std p Flags_ZF v) k \<longleftrightarrow> (if k = 6 then v else bit p k)"
  "bit (fl_set bitflags_std p Flags_SF v) k \<longleftrightarrow> (if k = 7 then v else bit p k)"
  "bit (fl_set bitflags_std p Flags_OF v) k \<longleftrightarrow> (if k = 11 then v else bit p k)"
  by (simp_all only: Flags_exp, (rule bit_set_single, simp)+)

lemma bit_insert_Flags [flag_simps]:
  "bit (fl_insert bitflags_std p Flags_CF) k \<longleftrightarrow> k = 0 \<or> bit p k"
  "bit (fl_insert bitflags_std p Flags_AF) k \<longleftrightarrow> k = 4 \<or> bit p k"
  "bit (fl_insert bitflags_std p Flags_IF) k \<longleftrightarrow> k = 9 \<or> bit p k"
  "bit (fl_insert bitflags_std p Flags_DF) k \<longleftrightarrow> k = 10 \<or> bit p k"
  by (simp_all only: Flags_exp, (rule bit_insert_single, simp)+)

lemma bit_insert_Flags_union [flag_simps]:
  "bit (fl_insert bitflags_std p (fl_union bitflags_std f g)) k \<longleftrightarrow> bit p k \<or> bit f k \<or> bit g k"
  by (auto simp: bitflags_std_def bit_simps)

lemma bit_remove_Flags [flag_simps]:
  "bit (fl_remove bitflags_std p Flags_CF) k \<longleftrightarrow> k \<noteq> 0 \<and> bit p k"
  "bit (fl_remove bitflags_std p Flags_AF) k \<longleftrightarrow> k \<noteq> 4 \<and> bit p k"
  "bit (fl_remove bitflags_std p Flags_IF) k \<longleftrightarrow> k \<noteq> 9 \<and> bit p k"
  "bit (fl_remove bitflags_std p Flags_DF) k \<longleftrightarrow> k \<noteq> 10 \<and> bit p k"
  by (simp_all only: Flags_exp, (rule bit_remove_single, simp)+)

lemma bit_remove_Flags_union [flag_simps]:
  "bit (fl_remove bitflags_std p (fl_union bitflags_std f g)) k \<longleftrightarrow> bit p k \<and> \<not> bit f k \<and> \<not> bit g k"
  by (auto simp: bitflags_std_def bit_simps dest: bit_imp_le_length)

lemma bit_Flags [flag_simps]:
  "bit Flags_CF k \<longleftrightarrow> k = 0" "bit Flags_AF k \<longleftrightarrow> k = 4" "bit Flags_IF k \<longleftrightarrow> k = 9"
  "bit Flags_TF k \<longleftrightarrow> k = 8" "bit Flags_OF k \<longleftrightarrow> k = 11" "bit Flags_PF k \<longleftrightarrow> k = 2" "bit Flags_ZF k \<longleftrightarrow> k = 6"
  "bit Flags_SF k \<longleftrightarrow> k = 7" "bit Flags_DF k \<longleftrightarrow> k = 10"
  by (simp_all only: Flags_exp, auto simp: bit_exp_iff bit_1_iff simp del: power_numeral)

lemma bit_szp8 [flag_simps]:
  "bit (set_szp8 fstd f v) k \<longleftrightarrow>
     (if k = 2 then even (ones v) else if k = 6 then v = 0 else if k = 7 then bit v 7 else bit f k)"
  by (simp add: set_szp8_def Let_def flag_simps u8_mask_bit7 even_iff_mod_2_eq_zero)

lemma bit_szp16 [flag_simps]:
  "bit (set_szp16 fstd f v) k \<longleftrightarrow>
     (if k = 2 then even (ones (ucast v :: u8)) else if k = 6 then v = 0 else if k = 7 then bit v 15 else bit f k)"
proof -
  have "v AND 0x8000 \<noteq> 0 \<longleftrightarrow> bit v 15" using and_single_bit_nonzero [of v 15] by simp
  then show ?thesis by (simp add: set_szp16_def Let_def flag_simps even_iff_mod_2_eq_zero)
qed

text \<open>A FLAGS value survives the stack: the reserved bits it gains are dropped again.\<close>

definition flags_ok :: "Flags \<Rightarrow> bool" where "flags_ok f \<longleftrightarrow> f AND Flags_all = f"

lemma to_word_from_word: "flags_ok f \<Longrightarrow> from_word fstd (to_word f) = f"
proof -
  assume "flags_ok f"
  moreover have "(0xF002 :: u16) AND Flags_all = 0" by (simp add: Flags_all_def)
  ultimately show ?thesis
    by (simp add: from_word_def to_word_def flags_ok_def bit.conj_disj_distrib2)
qed

end
