(* ===== verification/X86_Alu.thy ===== *)
theory X86_Alu
  imports X86_Registers
begin

text \<open>
  \<open>src/x86/alu.rs\<close>: the arithmetic and logic primitives of the 8086. The macro \<open>alu_width!\<close> generates
  one set of functions per width; here each is one definition over the word length, with the macro's
  sign literal and \<open>SZP\<close> function as a record \<open>alu_width\<close>, and its two instances \<open>w8\<close> and \<open>w16\<close>. The
  primitives take and return the FLAGS; those that also use the accumulator take the register file.
\<close>

record 'w alu_width =
  aw_sign :: 'w
  aw_szp :: "flag_ops \<Rightarrow> Flags \<Rightarrow> 'w \<Rightarrow> Flags"

definition w8 :: "u8 alu_width" where "w8 = \<lparr>aw_sign = 0x80, aw_szp = set_szp8\<rparr>"
definition w16 :: "u16 alu_width" where "w16 = \<lparr>aw_sign = 0x8000, aw_szp = set_szp16\<rparr>"

subsection \<open>Addition, subtraction, logic\<close>

definition alu_add :: "flag_ops \<Rightarrow> 'a::len word alu_width \<Rightarrow> Flags \<Rightarrow> 'a word \<Rightarrow> 'a word \<Rightarrow> 'a word \<times> Flags" where
  "alu_add F w f a b =
     (let r = a + b;
          f = fl_set F f Flags_CF (unat a + unat b > unat (- 1 :: 'a word));
          f = fl_set F f Flags_AF ((a XOR b XOR r) AND 0x10 \<noteq> 0);
          f = fl_set F f Flags_OF ((a XOR r) AND (b XOR r) AND aw_sign w \<noteq> 0)
      in (r, aw_szp w F f r))"

definition alu_adc :: "flag_ops \<Rightarrow> 'a::len word alu_width \<Rightarrow> Flags \<Rightarrow> 'a word \<Rightarrow> 'a word \<Rightarrow> 'a word \<times> Flags" where
  "alu_adc F w f a b =
     (let c = (if fl_contains F f Flags_CF then 1 else 0);
          r = a + b + c;
          f = fl_set F f Flags_CF (unat a + unat b + unat c > unat (- 1 :: 'a word));
          f = fl_set F f Flags_AF ((a XOR b XOR r) AND 0x10 \<noteq> 0);
          f = fl_set F f Flags_OF ((a XOR r) AND (b XOR r) AND aw_sign w \<noteq> 0)
      in (r, aw_szp w F f r))"

definition alu_sub :: "flag_ops \<Rightarrow> 'a::len word alu_width \<Rightarrow> Flags \<Rightarrow> 'a word \<Rightarrow> 'a word \<Rightarrow> 'a word \<times> Flags" where
  "alu_sub F w f a b =
     (let r = a - b;
          f = fl_set F f Flags_CF (b > a);
          f = fl_set F f Flags_AF ((a XOR b XOR r) AND 0x10 \<noteq> 0);
          f = fl_set F f Flags_OF ((a XOR b) AND (a XOR r) AND aw_sign w \<noteq> 0)
      in (r, aw_szp w F f r))"

definition alu_sbb :: "flag_ops \<Rightarrow> 'a::len word alu_width \<Rightarrow> Flags \<Rightarrow> 'a word \<Rightarrow> 'a word \<Rightarrow> 'a word \<times> Flags" where
  "alu_sbb F w f a b =
     (let c = (if fl_contains F f Flags_CF then 1 else 0);
          r = a - b - c;
          f = fl_set F f Flags_CF (unat b + unat c > unat a);
          f = fl_set F f Flags_AF ((a XOR b XOR r) AND 0x10 \<noteq> 0);
          f = fl_set F f Flags_OF ((a XOR b) AND (a XOR r) AND aw_sign w \<noteq> 0)
      in (r, aw_szp w F f r))"

text \<open>\<open>Flags::CF | Flags::OF | Flags::AF\<close>\<close>

definition cf_of_af :: "flag_ops \<Rightarrow> Flags" where
  "cf_of_af F = fl_union F (fl_union F Flags_CF Flags_OF) Flags_AF"

definition alu_and :: "flag_ops \<Rightarrow> 'a::len word alu_width \<Rightarrow> Flags \<Rightarrow> 'a word \<Rightarrow> 'a word \<Rightarrow> 'a word \<times> Flags" where
  "alu_and F w f a b =
     (let r = a AND b; f = fl_remove F f (cf_of_af F) in (r, aw_szp w F f r))"

definition alu_or :: "flag_ops \<Rightarrow> 'a::len word alu_width \<Rightarrow> Flags \<Rightarrow> 'a word \<Rightarrow> 'a word \<Rightarrow> 'a word \<times> Flags" where
  "alu_or F w f a b =
     (let r = a OR b; f = fl_remove F f (cf_of_af F) in (r, aw_szp w F f r))"

definition alu_xor :: "flag_ops \<Rightarrow> 'a::len word alu_width \<Rightarrow> Flags \<Rightarrow> 'a word \<Rightarrow> 'a word \<Rightarrow> 'a word \<times> Flags" where
  "alu_xor F w f a b =
     (let r = a XOR b; f = fl_remove F f (cf_of_af F) in (r, aw_szp w F f r))"

definition alu_inc :: "flag_ops \<Rightarrow> 'a::len word alu_width \<Rightarrow> Flags \<Rightarrow> 'a word \<Rightarrow> 'a word \<times> Flags" where
  "alu_inc F w f a =
     (let r = a + 1;
          f = fl_set F f Flags_AF (a AND 0xF = 0xF);
          f = fl_set F f Flags_OF (r AND aw_sign w \<noteq> 0 \<and> a AND aw_sign w = 0)
      in (r, aw_szp w F f r))"

definition alu_dec :: "flag_ops \<Rightarrow> 'a::len word alu_width \<Rightarrow> Flags \<Rightarrow> 'a word \<Rightarrow> 'a word \<times> Flags" where
  "alu_dec F w f a =
     (let r = a - 1;
          f = fl_set F f Flags_AF (a AND 0xF = 0);
          f = fl_set F f Flags_OF (a AND aw_sign w \<noteq> 0 \<and> r AND aw_sign w = 0)
      in (r, aw_szp w F f r))"

definition alu_neg :: "flag_ops \<Rightarrow> 'a::len word alu_width \<Rightarrow> Flags \<Rightarrow> 'a word \<Rightarrow> 'a word \<times> Flags" where
  "alu_neg F w f a =
     (let r = 0 - a;
          f = fl_set F f Flags_CF (a \<noteq> 0);
          f = fl_set F f Flags_AF (a AND 0xF \<noteq> 0);
          f = fl_set F f Flags_OF (a = aw_sign w)
      in (r, aw_szp w F f r))"

subsection \<open>Shifts and rotates\<close>

text \<open>Each \<open>_loop\<close> is the body of \<open>for _ in 0..count\<close>, run \<open>count\<close> times.\<close>

fun shl_loop :: "flag_ops \<Rightarrow> 'a::len word alu_width \<Rightarrow> nat \<Rightarrow> Flags \<times> 'a word \<Rightarrow> Flags \<times> 'a word" where
  "shl_loop F w 0 s = s"
| "shl_loop F w (Suc n) (f, v) =
     shl_loop F w n (fl_set F f Flags_CF (v AND aw_sign w \<noteq> 0), push_bit 1 v)"

definition alu_shl :: "flag_ops \<Rightarrow> 'a::len word alu_width \<Rightarrow> Flags \<Rightarrow> 'a word \<Rightarrow> u32 \<Rightarrow> 'a word \<times> Flags" where
  "alu_shl F w f v count =
     (if count = 0 then (v, f)
      else
        let (f, v) = shl_loop F w (unat count) (f, v);
            cf = fl_contains F f Flags_CF;
            f = fl_set F f Flags_OF ((v AND aw_sign w \<noteq> 0) \<noteq> cf);
            f = fl_remove F f Flags_AF
        in (v, aw_szp w F f v))"

fun shr_loop :: "flag_ops \<Rightarrow> 'a::len word alu_width \<Rightarrow> nat \<Rightarrow> Flags \<times> 'a word \<Rightarrow> Flags \<times> 'a word" where
  "shr_loop F w 0 s = s"
| "shr_loop F w (Suc n) (f, v) =
     (let f = fl_set F f Flags_OF (v AND aw_sign w \<noteq> 0);
          f = fl_set F f Flags_CF (v AND 1 \<noteq> 0)
      in shr_loop F w n (f, drop_bit 1 v))"

definition alu_shr :: "flag_ops \<Rightarrow> 'a::len word alu_width \<Rightarrow> Flags \<Rightarrow> 'a word \<Rightarrow> u32 \<Rightarrow> 'a word \<times> Flags" where
  "alu_shr F w f v count =
     (if count = 0 then (v, f)
      else
        let (f, v) = shr_loop F w (unat count) (f, v);
            f = fl_remove F f Flags_AF
        in (v, aw_szp w F f v))"

fun sar_loop :: "flag_ops \<Rightarrow> nat \<Rightarrow> Flags \<times> 'a::len word \<Rightarrow> Flags \<times> 'a word" where
  "sar_loop F 0 s = s"
| "sar_loop F (Suc n) (f, v) =
     sar_loop F n (fl_set F f Flags_CF (v AND 1 \<noteq> 0), signed_drop_bit 1 v)"

definition alu_sar :: "flag_ops \<Rightarrow> 'a::len word alu_width \<Rightarrow> Flags \<Rightarrow> 'a word \<Rightarrow> u32 \<Rightarrow> 'a word \<times> Flags" where
  "alu_sar F w f v count =
     (if count = 0 then (v, f)
      else
        let (f, v) = sar_loop F (unat count) (f, v);
            f = fl_remove F f (fl_union F Flags_OF Flags_AF)
        in (v, aw_szp w F f v))"

fun rol_loop :: "flag_ops \<Rightarrow> nat \<Rightarrow> Flags \<times> 'a::len word \<Rightarrow> Flags \<times> 'a word" where
  "rol_loop F 0 s = s"
| "rol_loop F (Suc n) (f, v) =
     (let v = word_rotl 1 v in rol_loop F n (fl_set F f Flags_CF (v AND 1 \<noteq> 0), v))"

definition alu_rol :: "flag_ops \<Rightarrow> 'a::len word alu_width \<Rightarrow> Flags \<Rightarrow> 'a word \<Rightarrow> u32 \<Rightarrow> 'a word \<times> Flags" where
  "alu_rol F w f v count =
     (if count = 0 then (v, f)
      else
        let (f, v) = rol_loop F (unat count) (f, v);
            cf = fl_contains F f Flags_CF
        in (v, fl_set F f Flags_OF ((v AND aw_sign w \<noteq> 0) \<noteq> cf)))"

fun ror_loop :: "flag_ops \<Rightarrow> nat \<Rightarrow> Flags \<times> 'a::len word \<Rightarrow> Flags \<times> 'a word" where
  "ror_loop F 0 s = s"
| "ror_loop F (Suc n) (f, v) =
     ror_loop F n (fl_set F f Flags_CF (v AND 1 \<noteq> 0), word_rotr 1 v)"

definition alu_ror :: "flag_ops \<Rightarrow> 'a::len word alu_width \<Rightarrow> Flags \<Rightarrow> 'a word \<Rightarrow> u32 \<Rightarrow> 'a word \<times> Flags" where
  "alu_ror F w f v count =
     (if count = 0 then (v, f)
      else
        let (f, v) = ror_loop F (unat count) (f, v)
        in (v, fl_set F f Flags_OF ((v XOR push_bit 1 v) AND aw_sign w \<noteq> 0)))"

fun rcl_loop :: "flag_ops \<Rightarrow> 'a::len word alu_width \<Rightarrow> nat \<Rightarrow> Flags \<times> 'a word \<Rightarrow> Flags \<times> 'a word" where
  "rcl_loop F w 0 s = s"
| "rcl_loop F w (Suc n) (f, v) =
     (let c = v AND aw_sign w \<noteq> 0;
          v = push_bit 1 v OR (if fl_contains F f Flags_CF then 1 else 0)
      in rcl_loop F w n (fl_set F f Flags_CF c, v))"

definition alu_rcl :: "flag_ops \<Rightarrow> 'a::len word alu_width \<Rightarrow> Flags \<Rightarrow> 'a word \<Rightarrow> u32 \<Rightarrow> 'a word \<times> Flags" where
  "alu_rcl F w f v count =
     (if count = 0 then (v, f)
      else
        let (f, v) = rcl_loop F w (unat count) (f, v);
            cf = fl_contains F f Flags_CF
        in (v, fl_set F f Flags_OF ((v AND aw_sign w \<noteq> 0) \<noteq> cf)))"

fun rcr_loop :: "flag_ops \<Rightarrow> 'a::len word alu_width \<Rightarrow> nat \<Rightarrow> Flags \<times> 'a word \<Rightarrow> Flags \<times> 'a word" where
  "rcr_loop F w 0 s = s"
| "rcr_loop F w (Suc n) (f, v) =
     (let cf = fl_contains F f Flags_CF;
          f = fl_set F f Flags_OF ((v AND aw_sign w \<noteq> 0) \<noteq> cf);
          c = v AND 1 \<noteq> 0;
          v = drop_bit 1 v OR push_bit (LENGTH('a) - 1) (if cf then 1 else 0)
      in rcr_loop F w n (fl_set F f Flags_CF c, v))"

definition alu_rcr :: "flag_ops \<Rightarrow> 'a::len word alu_width \<Rightarrow> Flags \<Rightarrow> 'a word \<Rightarrow> u32 \<Rightarrow> 'a word \<times> Flags" where
  "alu_rcr F w f v count =
     (if count = 0 then (v, f)
      else let (f, v) = rcr_loop F w (unat count) (f, v) in (v, f))"

subsection \<open>Multiplication\<close>

definition mul8 :: "flag_ops \<Rightarrow> u8 \<Rightarrow> X86Registers \<Rightarrow> X86Registers" where
  "mul8 F v r =
     (let x = ucast (ucast (rx_ax r) :: u8) * ucast v :: u16;
          hi = x AND 0xFF00 \<noteq> 0;
          f = fl_set F (rx_flags r) Flags_CF hi;
          f = fl_set F f Flags_OF hi
      in r\<lparr>rx_ax := x, rx_flags := set_szp8 F f (ucast x)\<rparr>)"

definition mul16 :: "flag_ops \<Rightarrow> u16 \<Rightarrow> X86Registers \<Rightarrow> X86Registers" where
  "mul16 F v r =
     (let x = ucast (rx_ax r) * ucast v :: u32;
          dx = ucast (drop_bit 16 x);
          hi = dx \<noteq> 0;
          f = fl_set F (rx_flags r) Flags_CF hi;
          f = fl_set F f Flags_OF hi
      in r\<lparr>rx_ax := ucast x, rx_dx := dx, rx_flags := set_szp16 F f (ucast x)\<rparr>)"

definition imul8 :: "flag_ops \<Rightarrow> u8 \<Rightarrow> X86Registers \<Rightarrow> X86Registers" where
  "imul8 F v r =
     (let x = scast (ucast (rx_ax r) :: u8) * scast v :: u16;
          over = x \<noteq> scast (ucast x :: u8);
          f = fl_set F (rx_flags r) Flags_CF over;
          f = fl_set F f Flags_OF over
      in r\<lparr>rx_ax := x, rx_flags := set_szp8 F f (ucast x)\<rparr>)"

definition imul16 :: "flag_ops \<Rightarrow> u16 \<Rightarrow> X86Registers \<Rightarrow> X86Registers" where
  "imul16 F v r =
     (let x = scast (rx_ax r) * scast v :: u32;
          over = x \<noteq> scast (ucast x :: u16);
          f = fl_set F (rx_flags r) Flags_CF over;
          f = fl_set F f Flags_OF over
      in r\<lparr>rx_ax := ucast x, rx_dx := ucast (drop_bit 16 x), rx_flags := set_szp16 F f (ucast x)\<rparr>)"

subsection \<open>BCD adjustments\<close>

text \<open>\<open>self.regs.ax & 0xFF00 | al as u16\<close>\<close>

definition with_al :: "u16 \<Rightarrow> u8 \<Rightarrow> u16" where "with_al ax al = (ax AND 0xFF00) OR ucast al"

definition daa :: "flag_ops \<Rightarrow> X86Registers \<Rightarrow> X86Registers" where
  "daa F r =
     (let old_al = ucast (rx_ax r) :: u8;
          f = rx_flags r;
          old_cf = fl_contains F f Flags_CF;
          old_af = fl_contains F f Flags_AF;
          al_check = (if old_af then 0x9F else 0x99);
          ov = (if old_cf then 0x1A \<le> old_al \<and> old_al \<le> 0x7F else 0x7A \<le> old_al \<and> old_al \<le> 0x7F);
          f = fl_set F f Flags_OF ov;
          al = old_al;
          (al, f) = (if al AND 0xF > 9 \<or> old_af then (al + 6, fl_insert F f Flags_AF) else (al, fl_remove F f Flags_AF));
          (al, f) = (if old_al > al_check \<or> old_cf then (al + 0x60, fl_insert F f Flags_CF) else (al, fl_remove F f Flags_CF))
      in r\<lparr>rx_ax := with_al (rx_ax r) al, rx_flags := set_szp8 F f al\<rparr>)"

definition das :: "flag_ops \<Rightarrow> X86Registers \<Rightarrow> X86Registers" where
  "das F r =
     (let old_al = ucast (rx_ax r) :: u8;
          f = rx_flags r;
          old_cf = fl_contains F f Flags_CF;
          old_af = fl_contains F f Flags_AF;
          al_check = (if old_af then 0x9F else 0x99);
          ov = (case (old_af, old_cf) of
                  (False, False) \<Rightarrow> 0x9A \<le> old_al \<and> old_al \<le> 0xDF
                | (True, False) \<Rightarrow> 0x80 \<le> old_al \<and> old_al \<le> 0x85 \<or> 0xA0 \<le> old_al \<and> old_al \<le> 0xE5
                | (False, True) \<Rightarrow> 0x80 \<le> old_al \<and> old_al \<le> 0xDF
                | (True, True) \<Rightarrow> 0x80 \<le> old_al \<and> old_al \<le> 0xE5);
          f = fl_set F f Flags_OF ov;
          al = old_al;
          (al, f) = (if al AND 0xF > 9 \<or> old_af then (al - 6, fl_insert F f Flags_AF) else (al, fl_remove F f Flags_AF));
          (al, f) = (if old_al > al_check \<or> old_cf then (al - 0x60, fl_insert F f Flags_CF) else (al, fl_remove F f Flags_CF))
      in r\<lparr>rx_ax := with_al (rx_ax r) al, rx_flags := set_szp8 F f al\<rparr>)"

definition aaa :: "flag_ops \<Rightarrow> X86Registers \<Rightarrow> X86Registers" where
  "aaa F r =
     (let old_al = ucast (rx_ax r) :: u8;
          f = rx_flags r;
          old_af = fl_contains F f Flags_AF;
          (new_al, ax, f) =
            (if old_al AND 0xF > 9 \<or> old_af
             then let new_al = old_al + 6
                  in (new_al, ((rx_ax r AND 0xFF00) + 0x100) OR ucast (new_al AND 0x0F),
                      fl_insert F f (fl_union F Flags_AF Flags_CF))
             else (old_al, (rx_ax r AND 0xFF00) OR ucast (old_al AND 0x0F),
                   fl_remove F f (fl_union F Flags_AF Flags_CF)));
          f = set_szp8 F f new_al;
          f = fl_set F f Flags_SF (0x7A \<le> old_al \<and> old_al \<le> 0xF9);
          f = fl_set F f Flags_OF (0x7A \<le> old_al \<and> old_al \<le> 0x7F)
      in r\<lparr>rx_ax := ax, rx_flags := f\<rparr>)"

definition aas :: "flag_ops \<Rightarrow> X86Registers \<Rightarrow> X86Registers" where
  "aas F r =
     (let old_al = ucast (rx_ax r) :: u8;
          f = rx_flags r;
          old_af = fl_contains F f Flags_AF;
          (new_al, ax, f) =
            (if old_al AND 0xF > 9 \<or> old_af
             then let new_al = old_al - 6
                  in (new_al, (((rx_ax r AND 0xFF00) - 0x100) AND 0xFF00) OR ucast (new_al AND 0x0F),
                      fl_insert F f (fl_union F Flags_AF Flags_CF))
             else (old_al, (rx_ax r AND 0xFF00) OR ucast (old_al AND 0x0F),
                   fl_remove F f (fl_union F Flags_AF Flags_CF)));
          f = set_szp8 F f new_al;
          sf = \<not> old_af \<and> old_al \<ge> 0x80 \<or> old_af \<and> (old_al \<le> 0x05 \<or> old_al \<ge> 0x86);
          f = fl_set F f Flags_SF sf;
          f = fl_set F f Flags_OF (old_af \<and> 0x80 \<le> old_al \<and> old_al \<le> 0x85)
      in r\<lparr>rx_ax := ax, rx_flags := f\<rparr>)"

definition aad :: "flag_ops \<Rightarrow> u8 \<Rightarrow> X86Registers \<Rightarrow> X86Registers" where
  "aad F base r =
     (let al = ucast (rx_ax r) + ucast (drop_bit 8 (rx_ax r)) * base :: u8;
          f = fl_remove F (rx_flags r) (cf_of_af F)
      in r\<lparr>rx_ax := ucast al, rx_flags := set_szp8 F f al\<rparr>)"

subsection \<open>What a width promises\<close>

lemma uint_ucast_up: "uint (ucast (v :: u8) :: u16) = uint v" "uint (ucast (u :: u16) :: u32) = uint u"
  by (simp_all add: unsigned_ucast_eq take_bit_int_eq_self uint_lt2p [of v, THEN order_less_trans] uint_lt2p [of u, THEN order_less_trans])

lemma sint_top: "sint (v :: 'a::len word) = uint v - (if bit v (LENGTH('a) - 1) then 2 ^ LENGTH('a) else 0)"
proof -
  have "take_bit LENGTH('a) (uint v) = uint v" by (rule take_bit_int_eq_self) (simp_all add: uint_lt2p)
  moreover have "Suc (LENGTH('a) - 1) = LENGTH('a)" using len_gt_0 [where 'a = 'a] by linarith
  ultimately show ?thesis
    by (simp add: sint_uint signed_take_bit_eq_take_bit_minus bit_unsigned_iff)
qed

text \<open>The contract of the macro's parameters: the sign literal selects the top bit, \<open>SZP\<close> sets its three flags.\<close>

locale alu_size =
  fixes w :: "'a::len word alu_width"
  assumes sign_bit: "v AND aw_sign w \<noteq> 0 \<longleftrightarrow> bit v (LENGTH('a) - 1)"
    and szp_bits: "bit (aw_szp w fstd f v) k \<longleftrightarrow>
      (if k = 2 then even (ones (ucast v :: u8)) else if k = 6 then v = 0
       else if k = 7 then bit v (LENGTH('a) - 1) else bit f k)"
    and wide: "8 \<le> LENGTH('a)"
begin

lemma top_bit: "bit (v :: 'a word) (LENGTH('a) - 1) \<longleftrightarrow> 2 ^ (LENGTH('a) - 1) \<le> unat v"
proof -
  have e: "2 * 2 ^ (LENGTH('a) - 1) = (2 :: nat) ^ LENGTH('a)" using wide by (simp flip: power_Suc)
  have "unat v mod (2 * 2 ^ (LENGTH('a) - 1)) = unat v" unfolding e by (simp add: unsigned_less)
  then show ?thesis by (simp add: bit_nat_div odd_div_iff)
qed

end

interpretation byte: alu_size w8
  using and_single_bit_nonzero [where 'a = 8 and n = 7]
  by unfold_locales (simp_all add: w8_def bit_szp8)

interpretation word: alu_size w16
  using and_single_bit_nonzero [where 'a = 16 and n = 15]
  by unfold_locales (simp_all add: w16_def bit_szp16)

end
