(* ===== verification/X86_Arith.thy ===== *)
theory X86_Arith
  imports X86_Alu
begin

text \<open>
  The arithmetic of \<open>X86_Alu\<close> against integers: sums, differences and their six flags, shifts and rotates
  against single shifts, products, and the decimal adjustments. The lemmas hold for every width that meets
  the contract \<open>alu_size\<close>; the properties state them for the two widths of the code.
\<close>

subsection \<open>What the flags of an addition and a subtraction say\<close>

text \<open>\<open>f\<close> before and \<open>g\<close> after; \<open>0x8D5\<close> are the six arithmetic flags, \<open>c\<close> is the carry or borrow in.\<close>

definition result_flags :: "Flags \<Rightarrow> Flags \<Rightarrow> 'a::len word \<Rightarrow> bool" where
  "result_flags f g r \<longleftrightarrow> (bit g 6 \<longleftrightarrow> r = 0) \<and> (bit g 7 \<longleftrightarrow> sint r < 0) \<and> (bit g 2 \<longleftrightarrow> even (ones (ucast r :: u8))) \<and>
     g AND NOT 0x8D5 = f AND NOT 0x8D5"

definition sum_flags :: "int \<Rightarrow> 'a::len word \<Rightarrow> 'a word \<Rightarrow> Flags \<Rightarrow> 'a word \<times> Flags \<Rightarrow> bool" where
  "sum_flags c a b f res \<longleftrightarrow>
     (let (r, g) = res in
      uint r + 2 ^ LENGTH('a) * of_bool (bit g 0) = uint a + uint b + c \<and>
      (bit g 4 \<longleftrightarrow> 16 \<le> uint a mod 16 + uint b mod 16 + c) \<and>
      (bit g 11 \<longleftrightarrow> sint a + sint b + c \<notin> {- (2 ^ (LENGTH('a) - 1))..<2 ^ (LENGTH('a) - 1)}) \<and>
      result_flags f g r)"

definition difference_flags :: "int \<Rightarrow> 'a::len word \<Rightarrow> 'a word \<Rightarrow> Flags \<Rightarrow> 'a word \<times> Flags \<Rightarrow> bool" where
  "difference_flags c a b f res \<longleftrightarrow>
     (let (r, g) = res in
      uint r + uint b + c = uint a + 2 ^ LENGTH('a) * of_bool (bit g 0) \<and>
      (bit g 4 \<longleftrightarrow> uint a mod 16 < uint b mod 16 + c) \<and>
      (bit g 11 \<longleftrightarrow> sint a - sint b - c \<notin> {- (2 ^ (LENGTH('a) - 1))..<2 ^ (LENGTH('a) - 1)}) \<and>
      result_flags f g r)"

text \<open>Ranges of signed sums and differences, for values and results below \<open>2 * h\<close>.\<close>

lemma signed_sum_range:
  fixes A B R c k h :: int
  assumes "0 \<le> A" "A < 2 * h" "0 \<le> B" "B < 2 * h" "0 \<le> R" "R < 2 * h"
    and "R = A + B + c - 2 * h * k" and "0 \<le> c" "c \<le> 1" and "k = 0 \<or> k = 1"
  shows "((h \<le> A) \<noteq> (h \<le> R) \<and> (h \<le> B) \<noteq> (h \<le> R)) \<longleftrightarrow>
    (A - (if h \<le> A then 2 * h else 0)) + (B - (if h \<le> B then 2 * h else 0)) + c \<notin> {- h..<h}"
proof -
  have "R = A + B + c \<or> R = A + B + c - 2 * h" using assms(7,10) by auto
  then show ?thesis
    by (cases "h \<le> A"; cases "h \<le> B"; cases "h \<le> R";
        simp only: simp_thms if_True if_False atLeastLessThan_iff; use assms(1-6,8,9) in linarith)
qed

lemma signed_difference_range:
  fixes A B R c k h :: int
  assumes "0 \<le> A" "A < 2 * h" "0 \<le> B" "B < 2 * h" "0 \<le> R" "R < 2 * h"
    and "R = A - B - c + 2 * h * k" and "0 \<le> c" "c \<le> 1" and "k = 0 \<or> k = 1"
  shows "((h \<le> A) \<noteq> (h \<le> B) \<and> (h \<le> A) \<noteq> (h \<le> R)) \<longleftrightarrow>
    (A - (if h \<le> A then 2 * h else 0)) - (B - (if h \<le> B then 2 * h else 0)) - c \<notin> {- h..<h}"
proof -
  have "R = A - B - c \<or> R = A - B - c + 2 * h" using assms(7,10) by auto
  then show ?thesis
    by (cases "h \<le> A"; cases "h \<le> B"; cases "h \<le> R";
        simp only: simp_thms if_True if_False atLeastLessThan_iff; use assms(1-6,8,9) in linarith)
qed

lemma arith_mask: "bit (0x8D5 :: u16) k \<longleftrightarrow> k \<in> {0, 2, 4, 6, 7, 11}"
proof -
  have "(0x8D5 :: u16) = 2 ^ 0 OR 2 ^ 2 OR 2 ^ 4 OR 2 ^ 6 OR 2 ^ 7 OR 2 ^ 11" by simp
  then show ?thesis by (simp only: bit_or_iff bit_exp_iff) auto
qed

lemma result_flags_cf: "result_flags (fl_remove bitflags_std f Flags_CF) g r \<longleftrightarrow> result_flags f g r"
proof -
  have "fl_remove bitflags_std f Flags_CF AND NOT 0x8D5 = f AND NOT 0x8D5"
  proof (rule bit_word_eqI)
    fix k assume "k < LENGTH(16)"
    then show "bit (fl_remove bitflags_std f Flags_CF AND NOT 0x8D5) k \<longleftrightarrow> bit (f AND NOT 0x8D5) k"
      unfolding bit_and_iff bit_not_iff bit_remove_Flags arith_mask by auto
  qed
  then show ?thesis by (simp only: result_flags_def)
qed

context alu_size
begin

lemma pow_top: "(2 :: int) ^ LENGTH('a) = 2 * 2 ^ (LENGTH('a) - 1)"
  using wide by (simp flip: power_Suc)

lemma uint_top: "bit (v :: 'a word) (LENGTH('a) - 1) \<longleftrightarrow> 2 ^ (LENGTH('a) - 1) \<le> uint v"
proof -
  have "2 ^ (LENGTH('a) - 1) \<le> unat v \<longleftrightarrow> (2 :: int) ^ (LENGTH('a) - 1) \<le> int (unat v)"
    by (metis of_nat_le_iff of_nat_numeral of_nat_power)
  then show ?thesis unfolding top_bit by simp
qed

lemma sint_neg: "sint (v :: 'a word) < 0 \<longleftrightarrow> bit v (LENGTH('a) - 1)"
  using uint_lt2p [of v] by (simp add: sint_top)

text \<open>Overflow is a sum that the sign bits contradict.\<close>

lemma sum_overflow:
  fixes a b r :: "'a word" and c k :: int
  assumes "uint r = uint a + uint b + c - 2 ^ LENGTH('a) * k" and "0 \<le> c" and "c \<le> 1" and "k = 0 \<or> k = 1"
  shows "(bit a (LENGTH('a) - 1) \<noteq> bit r (LENGTH('a) - 1) \<and> bit b (LENGTH('a) - 1) \<noteq> bit r (LENGTH('a) - 1)) \<longleftrightarrow>
    sint a + sint b + c \<notin> {- (2 ^ (LENGTH('a) - 1))..<2 ^ (LENGTH('a) - 1)}"
proof -
  define h :: int where "h = 2 ^ (LENGTH('a) - 1)"
  have h: "2 ^ LENGTH('a) = 2 * h" unfolding h_def by (rule pow_top)
  have "uint x < 2 * h" "0 \<le> uint x" for x :: "'a word" using uint_lt2p [of x] h by simp_all
  note b = this [of a] this [of b] this [of r]
  show ?thesis
    unfolding uint_top sint_top h h_def [symmetric]
    by (rule signed_sum_range) (use assms b h in simp_all)
qed

lemma difference_overflow:
  fixes a b r :: "'a word" and c k :: int
  assumes "uint r = uint a - uint b - c + 2 ^ LENGTH('a) * k" and "0 \<le> c" and "c \<le> 1" and "k = 0 \<or> k = 1"
  shows "(bit a (LENGTH('a) - 1) \<noteq> bit b (LENGTH('a) - 1) \<and> bit a (LENGTH('a) - 1) \<noteq> bit r (LENGTH('a) - 1)) \<longleftrightarrow>
    sint a - sint b - c \<notin> {- (2 ^ (LENGTH('a) - 1))..<2 ^ (LENGTH('a) - 1)}"
proof -
  define h :: int where "h = 2 ^ (LENGTH('a) - 1)"
  have h: "2 ^ LENGTH('a) = 2 * h" unfolding h_def by (rule pow_top)
  have "uint x < 2 * h" "0 \<le> uint x" for x :: "'a word" using uint_lt2p [of x] h by simp_all
  note b = this [of a] this [of b] this [of r]
  show ?thesis
    unfolding uint_top sint_top h h_def [symmetric]
    by (rule signed_difference_range) (use assms b h in simp_all)
qed

text \<open>The half carry.\<close>

lemma half_carry:
  fixes a b r :: "'a word" and c k :: int
  assumes "uint r = uint a + uint b + c - 2 ^ LENGTH('a) * k" and "0 \<le> c" and "c \<le> 1"
  shows "(a XOR b XOR r) AND 0x10 \<noteq> 0 \<longleftrightarrow> 16 \<le> uint a mod 16 + uint b mod 16 + c"
proof -
  have w: "bit (x :: 'a word) 4 \<longleftrightarrow> odd (uint x div 16)" for x
    using wide bit_uint_iff [of x 4] by (simp add: bit_iff_odd [of "uint x"])
  obtain j where j: "(2 :: int) ^ LENGTH('a) = 32 * j"
  proof
    have "(32 :: int) * 2 ^ (LENGTH('a) - 5) = 2 ^ (5 + (LENGTH('a) - 5))" by (simp only: power_add) simp
    then show "2 ^ LENGTH('a) = (32 :: int) * 2 ^ (LENGTH('a) - 5)" using wide by simp
  qed
  have "(a XOR b XOR r) AND 0x10 \<noteq> 0 \<longleftrightarrow> bit (a XOR b XOR r) 4"
    using and_single_bit_nonzero [of "a XOR b XOR r" 4] by simp
  also have "\<dots> \<longleftrightarrow> odd (uint a div 16 + uint b div 16 + uint r div 16)"
    unfolding bit_xor_iff unfolding w by auto
  also have "uint r div 16 = uint a div 16 + uint b div 16 + (uint a mod 16 + uint b mod 16 + c) div 16 - 2 * (j * k)"
  proof -
    have "uint r = (uint a mod 16 + uint b mod 16 + c) + 16 * (uint a div 16 + uint b div 16 - 2 * (j * k))"
      using assms(1) j by (simp add: algebra_simps)
    moreover have "(x + 16 * t) div 16 = t + x div 16" for x t :: int by simp
    ultimately show ?thesis by (simp only:)
  qed
  finally have "(a XOR b XOR r) AND 0x10 \<noteq> 0 \<longleftrightarrow>
    odd (uint a div 16 + uint b div 16 +
      (uint a div 16 + uint b div 16 + (uint a mod 16 + uint b mod 16 + c) div 16 - 2 * (j * k)))" .
  moreover have "odd (x + y + (x + y + z - 2 * t)) \<longleftrightarrow> odd z" for x y z t :: int by presburger
  ultimately have "(a XOR b XOR r) AND 0x10 \<noteq> 0 \<longleftrightarrow> odd ((uint a mod 16 + uint b mod 16 + c) div 16)"
    by (simp only:)
  moreover have "(uint a mod 16 + uint b mod 16 + c) div 16 \<in> {0, 1}"
  proof -
    have "0 \<le> uint a mod 16" "uint a mod 16 < 16" "0 \<le> uint b mod 16" "uint b mod 16 < 16" by simp_all
    then have "0 \<le> uint a mod 16 + uint b mod 16 + c" "uint a mod 16 + uint b mod 16 + c < 32" using assms by linarith+
    then show ?thesis by auto
  qed
  ultimately show ?thesis by auto
qed

lemma half_borrow:
  fixes a b r :: "'a word" and c k :: int
  assumes "uint r = uint a - uint b - c + 2 ^ LENGTH('a) * k" and "0 \<le> c" and "c \<le> 1"
  shows "(a XOR b XOR r) AND 0x10 \<noteq> 0 \<longleftrightarrow> uint a mod 16 < uint b mod 16 + c"
proof -
  have "uint a = uint r + uint b + c - 2 ^ LENGTH('a) * k" using assms(1) by simp
  note carry = half_carry [OF this assms(2,3)]
  have "a XOR b XOR r = r XOR b XOR a" by (simp only: xor.assoc xor.commute xor.left_commute)
  with carry have "(a XOR b XOR r) AND 0x10 \<noteq> 0 \<longleftrightarrow> 16 \<le> uint r mod 16 + uint b mod 16 + c" by (simp only:)
  moreover have "uint r mod 16 = (uint a mod 16 - uint b mod 16 - c) mod 16"
  proof -
    have "(2 :: int) ^ LENGTH('a) = 16 * 2 ^ (LENGTH('a) - 4)"
    proof -
      have "(16 :: int) * 2 ^ (LENGTH('a) - 4) = 2 ^ (4 + (LENGTH('a) - 4))" by (simp only: power_add) simp
      then show ?thesis using wide by simp
    qed
    then have "uint r = uint a - uint b - c + 16 * (2 ^ (LENGTH('a) - 4) * k)" using assms(1) by simp
    then have "uint r mod 16 = (uint a - uint b - c) mod 16" by (simp only: mod_mult_self2)
    also have "\<dots> = (uint a mod 16 - uint b mod 16 - c) mod 16" by (metis mod_diff_eq mod_diff_left_eq)
    finally show ?thesis .
  qed
  moreover have "16 \<le> (x - y - c) mod 16 + y + c \<longleftrightarrow> x < y + c"
    if "0 \<le> x" "x < 16" "0 \<le> y" "y < 16" for x y :: int
  proof (cases "x < y + c")
    case True
    then have "(x - y - c) mod 16 = x - y - c + 16" using that assms(2,3) by (intro int_mod_neg) linarith+
    then show ?thesis using True that by linarith
  next
    case False
    then have "(x - y - c) mod 16 = x - y - c" using that assms(2,3) by (intro mod_pos_pos_trivial) linarith+
    then show ?thesis using False that by linarith
  qed
  then have "16 \<le> (uint a mod 16 - uint b mod 16 - c) mod 16 + uint b mod 16 + c \<longleftrightarrow> uint a mod 16 < uint b mod 16 + c"
    by simp
  ultimately show ?thesis by (simp only:)
qed

lemma szp_flags:
  assumes "\<And>k. k \<notin> {0, 4, 11} \<Longrightarrow> bit g k \<longleftrightarrow> bit f k"
  shows "result_flags f (aw_szp w fstd g r) r"
proof -
  have "aw_szp w fstd g r AND NOT 0x8D5 = f AND NOT 0x8D5"
  proof (rule bit_word_eqI)
    fix k assume "k < LENGTH(16)"
    show "bit (aw_szp w fstd g r AND NOT 0x8D5) k \<longleftrightarrow> bit (f AND NOT 0x8D5) k"
      using assms [of k] arith_mask [of k] by (auto simp: bit_and_iff bit_not_iff szp_bits)
  qed
  then show ?thesis by (simp add: result_flags_def szp_bits sint_neg)
qed

lemma adc_flags:
  fixes a b :: "'a word"
  shows "sum_flags (of_bool (bit f 0)) a b f (alu_adc fstd w f a b)"
proof -
  let ?N = "LENGTH('a)"
  define c :: int where "c = of_bool (bit f 0)"
  define cw :: "'a word" where "cw = (if bit f 0 then 1 else 0)"
  define r where "r = a + b + cw"
  have c: "0 \<le> c" "c \<le> 1" "uint cw = c" by (simp_all add: c_def cw_def)
  have b: "0 \<le> uint x" "uint x < 2 ^ ?N" for x :: "'a word" using uint_lt2p [of x] by simp_all
  have max: "unat a + unat b + unat cw > unat (- 1 :: 'a word) \<longleftrightarrow> 2 ^ ?N \<le> uint a + uint b + c"
  proof -
    have "unat (- 1 :: 'a word) = 2 ^ ?N - 1" by (simp add: unsigned_minus_1_eq_mask mask_eq_exp_minus_1)
    then have "unat a + unat b + unat cw > unat (- 1 :: 'a word) \<longleftrightarrow> 2 ^ ?N \<le> unat a + unat b + unat cw"
      using zero_less_power [of "2 :: nat" ?N] by linarith
    also have "\<dots> \<longleftrightarrow> int (2 ^ ?N) \<le> int (unat a + unat b + unat cw)" by (simp only: of_nat_le_iff)
    finally show ?thesis using c by simp
  qed
  define k :: int where "k = of_bool (2 ^ ?N \<le> uint a + uint b + c)"
  have "uint r = (uint a + uint b + c) mod 2 ^ ?N"
    unfolding r_def by (simp add: uint_word_ariths mod_simps c(3))
  also have "\<dots> = uint a + uint b + c - 2 ^ ?N * k"
  proof (cases "2 ^ ?N \<le> uint a + uint b + c")
    case True
    have "uint a + uint b + c < 2 * 2 ^ ?N" using b [of a] b [of b] c by linarith
    then have "(uint a + uint b + c - 2 ^ ?N) mod 2 ^ ?N = uint a + uint b + c - 2 ^ ?N"
      using True by (intro mod_pos_pos_trivial) linarith+
    then show ?thesis using True by (simp add: k_def)
  next
    case False
    moreover have "0 \<le> uint a + uint b + c" using b [of a] b [of b] c by linarith
    ultimately show ?thesis by (simp add: k_def)
  qed
  finally have r: "uint r = uint a + uint b + c - 2 ^ ?N * k" .
  have k: "k = 0 \<or> k = 1" by (simp add: k_def)
  note facts = half_carry [OF r c(1,2)] sum_overflow [OF r c(1,2) k]
  define g where "g = fl_set bitflags_std (fl_set bitflags_std (fl_set bitflags_std f Flags_CF
      (2 ^ ?N \<le> uint a + uint b + c)) Flags_AF ((a XOR b XOR r) AND 0x10 \<noteq> 0)) Flags_OF
      ((a XOR r) AND (b XOR r) AND aw_sign w \<noteq> 0)"
  have g: "alu_adc fstd w f a b = (r, aw_szp w fstd g r)"
    unfolding alu_adc_def Let_def fstd_ops contains_Flags cw_def [symmetric] r_def [symmetric] max g_def ..
  have bits: "bit g 0 \<longleftrightarrow> 2 ^ ?N \<le> uint a + uint b + c" "bit g 4 \<longleftrightarrow> (a XOR b XOR r) AND 0x10 \<noteq> 0"
    "bit g 11 \<longleftrightarrow> (a XOR r) AND (b XOR r) AND aw_sign w \<noteq> 0"
    "\<And>n. n \<notin> {0, 4, 11} \<Longrightarrow> bit g n \<longleftrightarrow> bit f n"
    unfolding g_def by (simp_all add: flag_simps)
  have sign: "(a XOR r) AND (b XOR r) AND aw_sign w \<noteq> 0 \<longleftrightarrow>
      bit a (?N - 1) \<noteq> bit r (?N - 1) \<and> bit b (?N - 1) \<noteq> bit r (?N - 1)"
    using sign_bit [of "(a XOR r) AND (b XOR r)"] by (simp add: bit_and_iff bit_xor_iff and.assoc)
  have "of_bool (bit g 0) = k" using bits(1) by (simp add: k_def)
  then show ?thesis
    using szp_flags [OF bits(4), of r] facts r bits(2,3) sign
    unfolding sum_flags_def g prod.case Let_def c_def [symmetric] by (simp add: szp_bits)
qed

lemma sbb_flags:
  fixes a b :: "'a word"
  shows "difference_flags (of_bool (bit f 0)) a b f (alu_sbb fstd w f a b)"
proof -
  let ?N = "LENGTH('a)"
  define c :: int where "c = of_bool (bit f 0)"
  define cw :: "'a word" where "cw = (if bit f 0 then 1 else 0)"
  define r where "r = a - b - cw"
  have c: "0 \<le> c" "c \<le> 1" "uint cw = c" by (simp_all add: c_def cw_def)
  have b: "0 \<le> uint x" "uint x < 2 ^ ?N" for x :: "'a word" using uint_lt2p [of x] by simp_all
  have borrow: "unat b + unat cw > unat a \<longleftrightarrow> uint a < uint b + c"
  proof -
    have "unat b + unat cw > unat a \<longleftrightarrow> int (unat b + unat cw) > int (unat a)" by (simp only: of_nat_less_iff)
    then show ?thesis using c by simp
  qed
  define k :: int where "k = of_bool (uint a < uint b + c)"
  have "uint r = (uint a - uint b - c) mod 2 ^ ?N"
    unfolding r_def by (simp add: uint_word_ariths mod_simps c(3))
  also have "\<dots> = uint a - uint b - c + 2 ^ ?N * k"
  proof (cases "uint a < uint b + c")
    case True
    then have "(uint a - uint b - c) mod 2 ^ ?N = uint a - uint b - c + 2 ^ ?N"
      using b [of a] b [of b] c by (intro int_mod_neg) linarith+
    then show ?thesis using True by (simp add: k_def)
  next
    case False
    then have "(uint a - uint b - c) mod 2 ^ ?N = uint a - uint b - c"
      using b [of a] b [of b] c by (intro mod_pos_pos_trivial) linarith+
    then show ?thesis using False by (simp add: k_def)
  qed
  finally have r: "uint r = uint a - uint b - c + 2 ^ ?N * k" .
  have k: "k = 0 \<or> k = 1" by (simp add: k_def)
  note facts = half_borrow [OF r c(1,2)] difference_overflow [OF r c(1,2) k]
  define g where "g = fl_set bitflags_std (fl_set bitflags_std (fl_set bitflags_std f Flags_CF
      (uint a < uint b + c)) Flags_AF ((a XOR b XOR r) AND 0x10 \<noteq> 0)) Flags_OF
      ((a XOR b) AND (a XOR r) AND aw_sign w \<noteq> 0)"
  have g: "alu_sbb fstd w f a b = (r, aw_szp w fstd g r)"
    unfolding alu_sbb_def Let_def fstd_ops contains_Flags cw_def [symmetric] r_def [symmetric] borrow g_def ..
  have bits: "bit g 0 \<longleftrightarrow> uint a < uint b + c" "bit g 4 \<longleftrightarrow> (a XOR b XOR r) AND 0x10 \<noteq> 0"
    "bit g 11 \<longleftrightarrow> (a XOR b) AND (a XOR r) AND aw_sign w \<noteq> 0"
    "\<And>n. n \<notin> {0, 4, 11} \<Longrightarrow> bit g n \<longleftrightarrow> bit f n"
    unfolding g_def by (simp_all add: flag_simps)
  have sign: "(a XOR b) AND (a XOR r) AND aw_sign w \<noteq> 0 \<longleftrightarrow>
      bit a (?N - 1) \<noteq> bit b (?N - 1) \<and> bit a (?N - 1) \<noteq> bit r (?N - 1)"
    using sign_bit [of "(a XOR b) AND (a XOR r)"] by (simp add: bit_and_iff bit_xor_iff and.assoc)
  have "of_bool (bit g 0) = k" using bits(1) by (simp add: k_def)
  then show ?thesis
    using szp_flags [OF bits(4), of r] facts r bits(2,3) sign
    unfolding difference_flags_def g prod.case Let_def c_def [symmetric] by (simp add: szp_bits)
qed

text \<open>\<open>ADD\<close> and \<open>SUB\<close> are the carry forms with the carry flag clear.\<close>

lemma add_is_adc:
  fixes a b :: "'a word"
  shows "alu_add fstd w f a b = alu_adc fstd w (fl_remove bitflags_std f Flags_CF) a b"
proof -
  have "fl_set bitflags_std (fl_remove bitflags_std f Flags_CF) Flags_CF v = fl_set bitflags_std f Flags_CF v" for v
    by (rule bit_word_eqI) (simp add: flag_simps)
  then show ?thesis unfolding alu_add_def alu_adc_def by (simp add: Let_def flag_simps)
qed

lemma sub_is_sbb:
  fixes a b :: "'a word"
  shows "alu_sub fstd w f a b = alu_sbb fstd w (fl_remove bitflags_std f Flags_CF) a b"
proof -
  have "fl_set bitflags_std (fl_remove bitflags_std f Flags_CF) Flags_CF v = fl_set bitflags_std f Flags_CF v" for v
    by (rule bit_word_eqI) (simp add: flag_simps)
  moreover have "b > a \<longleftrightarrow> unat b > unat a" by (simp add: word_less_nat_alt)
  ultimately show ?thesis unfolding alu_sub_def alu_sbb_def by (simp add: Let_def flag_simps)
qed

lemma add_flag_bits: "sum_flags 0 a b f (alu_add fstd w f a b)"
  using adc_flags [of "fl_remove bitflags_std f Flags_CF" a b]
  by (simp add: add_is_adc sum_flags_def flag_simps result_flags_cf)

lemma sub_flag_bits: "difference_flags 0 a b f (alu_sub fstd w f a b)"
  using sbb_flags [of "fl_remove bitflags_std f Flags_CF" a b]
  by (simp add: sub_is_sbb difference_flags_def flag_simps result_flags_cf)

end

text \<open>
  The adder. At both widths \<open>ADD\<close>, \<open>ADC\<close>, \<open>SUB\<close> and \<open>SBB\<close> compute the exact sum or difference: the
  carry flag is the carry or borrow out, the overflow flag says that the signed result does not fit, the
  auxiliary carry is the carry or borrow out of the low digit, zero, sign and parity describe the result, and
  no other flag changes.
\<close>

lemma x86_adder_exact:
  assumes "bitflags_all_laws Flags_all F"
  shows "let c = of_bool (bit f 0) in
    sum_flags 0 a b f (alu_add F w8 f a b) \<and> sum_flags c a b f (alu_adc F w8 f a b) \<and>
    difference_flags 0 a b f (alu_sub F w8 f a b) \<and> difference_flags c a b f (alu_sbb F w8 f a b) \<and>
    sum_flags 0 x y f (alu_add F w16 f x y) \<and> sum_flags c x y f (alu_adc F w16 f x y) \<and>
    difference_flags 0 x y f (alu_sub F w16 f x y) \<and> difference_flags c x y f (alu_sbb F w16 f x y)"
proof -
  have F: "F = fstd" using assms by (rule bitflags_all_laws_std)
  show ?thesis
    unfolding F Let_def
    by (intro conjI byte.add_flag_bits byte.adc_flags byte.sub_flag_bits byte.sbb_flags
        word.add_flag_bits word.adc_flags word.sub_flag_bits word.sbb_flags)
qed


end
