(* ===== verification/X86_Div.thy ===== *)
theory X86_Div
  imports X86_Alu "HOL-Library.Signed_Division"
begin

text \<open>
  \<open>src/x86/div.rs\<close>: division as the 8086 microcode does it. \<open>cord\<close> is the unsigned core loop, the other
  routines are the signed fix-ups around it. A divide fault is \<open>None\<close> together with the FLAGS it leaves.
\<close>

definition sub_fl :: "'a::len word alu_width \<Rightarrow> 'a word \<Rightarrow> 'a word \<Rightarrow> 'a word \<times> bool \<times> bool \<times> bool" where
  "sub_fl w a b =
     (let r = a - b
      in (r, b > a, (a XOR b) AND (a XOR r) AND aw_sign w \<noteq> 0, (a XOR b XOR r) AND 0x10 \<noteq> 0))"

definition neg_v :: "'a::len word \<Rightarrow> 'a word \<times> bool" where
  "neg_v v = (0 - v, v \<noteq> 0)"

definition rcl_v :: "'a::len word alu_width \<Rightarrow> 'a word \<Rightarrow> bool \<Rightarrow> 'a word \<times> bool" where
  "rcl_v w v carry = (push_bit 1 v OR (if carry then 1 else 0), v AND aw_sign w \<noteq> 0)"

text \<open>The flags of a trial subtraction.\<close>

definition sub_flags ::
  "flag_ops \<Rightarrow> 'a::len word alu_width \<Rightarrow> Flags \<Rightarrow> 'a word \<times> bool \<times> bool \<times> bool \<Rightarrow> Flags" where
  "sub_flags F w f res =
     (case res of (sigma, carry, ov, af) \<Rightarrow>
        let f = fl_set F f Flags_AF af;
            f = fl_set F f Flags_OF ov;
            f = fl_set F f Flags_CF carry
        in aw_szp w F f sigma)"

fun cord_loop :: "flag_ops \<Rightarrow> 'a::len word alu_width \<Rightarrow> 'a word \<Rightarrow> nat
    \<Rightarrow> Flags \<times> 'a word \<times> 'a word \<times> bool \<Rightarrow> Flags \<times> 'a word \<times> 'a word \<times> bool" where
  "cord_loop F w tmpb 0 s = s"
| "cord_loop F w tmpb (Suc n) (f, tmpa, tmpc, carry) =
     (let (tmpc, carry) = rcl_v w tmpc carry;
          (tmpa, carry) = rcl_v w tmpa carry
      in if carry then cord_loop F w tmpb n (f, tmpa - tmpb, tmpc, False)
         else
           let (sigma, cy, ov, af) = sub_fl w tmpa tmpb;
               f = sub_flags F w f (sigma, cy, ov, af)
           in cord_loop F w tmpb n (f, if \<not> cy then sigma else tmpa, tmpc, cy))"

definition cord :: "flag_ops \<Rightarrow> 'a::len word alu_width \<Rightarrow> Flags \<Rightarrow> 'a word \<Rightarrow> 'a word \<Rightarrow> 'a word
    \<Rightarrow> ('a word \<times> 'a word \<times> bool) option \<times> Flags" where
  "cord F w f tmpa tmpb tmpc =
     (let (sigma, carry, ov, af) = sub_fl w tmpa tmpb;
          f = sub_flags F w f (sigma, carry, ov, af)
      in if \<not> carry then (None, f)
         else
           let (f, tmpa, tmpc, carry) = cord_loop F w tmpb LENGTH('a) (f, tmpa, tmpc, carry);
               (tmpc, carry) = rcl_v w tmpc carry;
               (_, cy) = rcl_v w tmpc carry
           in (Some (tmpc, tmpa, cy), fl_set F f Flags_CF cy))"

definition negate :: "flag_ops \<Rightarrow> 'a::len word alu_width \<Rightarrow> Flags \<Rightarrow> 'a word \<Rightarrow> 'a word \<Rightarrow> 'a word \<Rightarrow> bool \<Rightarrow> bool
    \<Rightarrow> ('a word \<times> 'a word \<times> 'a word \<times> bool) \<times> Flags" where
  "negate F w f tmpa tmpb tmpc neg skip =
     (let (tmpa, tmpc, neg) =
            (if \<not> skip then
               let (c, cy) = neg_v tmpc
               in (if cy then NOT tmpa else fst (neg_v tmpa), c, \<not> neg)
             else (tmpa, tmpc, neg));
          carry = tmpb AND aw_sign w \<noteq> 0;
          f = fl_set F f Flags_CF carry
      in if carry then ((tmpa, fst (neg_v tmpb), tmpc, \<not> neg), f) else ((tmpa, tmpb, tmpc, neg), f))"

definition prediv :: "flag_ops \<Rightarrow> 'a::len word alu_width \<Rightarrow> Flags \<Rightarrow> 'a word \<Rightarrow> 'a word \<Rightarrow> 'a word \<Rightarrow> bool
    \<Rightarrow> ('a word \<times> 'a word \<times> 'a word \<times> bool) \<times> Flags" where
  "prediv F w f tmpa tmpb tmpc neg =
     (let negative = tmpa AND aw_sign w \<noteq> 0
      in negate F w f tmpa tmpb tmpc neg (\<not> negative))"

definition postdiv :: "flag_ops \<Rightarrow> 'a::len word alu_width \<Rightarrow> Flags \<Rightarrow> 'a word \<Rightarrow> 'a word \<Rightarrow> 'a word \<Rightarrow> bool \<Rightarrow> bool
    \<Rightarrow> ('a word \<times> 'a word) option \<times> Flags" where
  "postdiv F w f tmpa tmpb tmpc carry neg =
     (if \<not> carry then (None, f)
      else
        let tmpa = (if tmpb AND aw_sign w \<noteq> 0 then fst (neg_v tmpa) else tmpa);
            sigma = (if neg then tmpc + 1 else NOT tmpc)
        in (Some (tmpa, sigma), fl_remove F f (fl_union F Flags_CF Flags_OF)))"

text \<open>
  The part \<open>div8\<close> and \<open>div16\<close> share: the dividend in two halves, \<open>rep\<close> whether a repeat prefix is
  active. The result is the remainder and the quotient.
\<close>

definition div_core :: "flag_ops \<Rightarrow> 'a::len word alu_width \<Rightarrow> bool \<Rightarrow> Flags \<Rightarrow> 'a word \<Rightarrow> 'a word \<Rightarrow> 'a word \<Rightarrow> bool
    \<Rightarrow> ('a word \<times> 'a word) option \<times> Flags" where
  "div_core F w rep f dividend_hi dividend_lo divisor sgnd =
     (let neg = sgnd \<and> rep;
          ((tmpa, tmpb, tmpc, neg), f) =
            (if sgnd then prediv F w f dividend_hi divisor dividend_lo neg
             else ((dividend_hi, divisor, dividend_lo, neg), f))
      in case cord F w f tmpa tmpb tmpc of
           (None, f) \<Rightarrow> (None, f)
         | (Some (c, a, carry), f) \<Rightarrow>
             if sgnd then postdiv F w f a dividend_hi c carry neg
             else (Some (a, NOT c), f))"

definition div8 :: "flag_ops \<Rightarrow> bool option \<Rightarrow> u8 \<Rightarrow> bool \<Rightarrow> X86Registers \<Rightarrow> bool \<times> X86Registers" where
  "div8 F rep divisor sgnd r =
     (let dividend = rx_ax r
      in case div_core F w8 (rep \<noteq> None) (rx_flags r) (ucast (drop_bit 8 dividend)) (ucast dividend) divisor sgnd of
           (None, f) \<Rightarrow> (False, r\<lparr>rx_flags := f\<rparr>)
         | (Some (rem, quot), f) \<Rightarrow>
             (True, r\<lparr>rx_ax := push_bit 8 (ucast rem) OR ucast quot, rx_flags := f\<rparr>))"

definition div16 :: "flag_ops \<Rightarrow> bool option \<Rightarrow> u16 \<Rightarrow> bool \<Rightarrow> X86Registers \<Rightarrow> bool \<times> X86Registers" where
  "div16 F rep divisor sgnd r =
     (case div_core F w16 (rep \<noteq> None) (rx_flags r) (rx_dx r) (rx_ax r) divisor sgnd of
        (None, f) \<Rightarrow> (False, r\<lparr>rx_flags := f\<rparr>)
      | (Some (rem, quot), f) \<Rightarrow> (True, r\<lparr>rx_ax := quot, rx_dx := rem, rx_flags := f\<rparr>))"

definition aam :: "flag_ops \<Rightarrow> u8 \<Rightarrow> X86Registers \<Rightarrow> bool \<times> X86Registers" where
  "aam F base r =
     (let al = ucast (rx_ax r) :: u8;
          clear = fl_union F (fl_union F Flags_CF Flags_AF) Flags_OF
      in case cord F w8 (rx_flags r) 0 base al of
           (Some (quot, rem, _), f) \<Rightarrow>
             (True, r\<lparr>rx_ax := push_bit 8 (ucast (NOT quot)) OR ucast rem,
                      rx_flags := fl_remove F (set_szp8 F f rem) clear\<rparr>)
         | (None, f) \<Rightarrow> (False, r\<lparr>rx_flags := fl_remove F (set_szp8 F f 0) clear\<rparr>))"

subsection \<open>The core loop divides\<close>

lemma unat_not: "unat (NOT x :: 'a::len word) = 2 ^ LENGTH('a) - 1 - unat x"
proof -
  have "NOT x = - 1 - x" by (simp add: not_eq_complement)
  then have "unat (NOT x) = unat (- 1 :: 'a word) - unat x" by (simp only: unat_sub word_n1_ge)
  then show ?thesis by (simp add: unsigned_minus_1_eq_mask mask_eq_exp_minus_1)
qed

lemma rcl_v_value:
  fixes v :: "'a::len word"
  shows "unat (push_bit 1 v OR (if carry then 1 else 0)) = (2 * unat v + of_bool carry) mod 2 ^ LENGTH('a)"
proof -
  have "push_bit 1 v OR (if carry then 1 else 0) = push_bit 1 v + (if carry then 1 else 0)"
    by (simp add: or_one_eq push_bit_eq_mult)
  also have "\<dots> = of_nat (2 * unat v + of_bool carry)"
    by (simp add: push_bit_eq_mult mult.commute)
  finally show ?thesis by (simp only: unat_of_nat take_bit_eq_mod)
qed

text \<open>One bit of long division: the partial remainder \<open>a\<close> takes the next dividend bit \<open>d\<close>.\<close>

lemma long_division_step:
  fixes a b d m rest :: nat
  assumes "a < b" and "d \<le> 1"
  defines "e \<equiv> of_bool (b \<le> 2 * a + d)"
  shows "2 * a + d - b * e < b"
    and "((2 * a + d) * 2 ^ m + rest) mod b = ((2 * a + d - b * e) * 2 ^ m + rest) mod b"
    and "((2 * a + d) * 2 ^ m + rest) div b = ((2 * a + d - b * e) * 2 ^ m + rest) div b + e * 2 ^ m"
proof -
  show "2 * a + d - b * e < b" using assms by (auto simp: e_def)
  define c where "c = 2 * a + d - b * e"
  have "b * e \<le> 2 * a + d" by (simp add: e_def)
  then have c: "2 * a + d = c + b * e" by (simp add: c_def)
  have "(2 * a + d) * 2 ^ m + rest = (c * 2 ^ m + rest) + b * (e * 2 ^ m)"
    unfolding c by (simp add: algebra_simps)
  then have sum: "(2 * a + d) * 2 ^ m + rest = (c * 2 ^ m + rest) + (e * 2 ^ m) * b" by simp
  have "b \<noteq> 0" using assms(1) by simp
  then show "((2 * a + d) * 2 ^ m + rest) mod b = ((2 * a + d - b * e) * 2 ^ m + rest) mod b"
    "((2 * a + d) * 2 ^ m + rest) div b = ((2 * a + d - b * e) * 2 ^ m + rest) div b + e * 2 ^ m"
    unfolding c_def [symmetric] sum by simp_all
qed

lemma shifted_mod:
  fixes V P K M e :: nat
  assumes "P = M * K" and "e \<le> 1" and "0 < M"
  shows "((2 * (V mod P) + e) * M) mod (2 * P) = (V * (2 * M)) mod (2 * P) + e * M"
proof -
  have eM: "e * M < 2 * M" using assms(2,3) by (cases e) auto
  have P: "2 * P = (2 * M) * K" using assms(1) by simp
  have "(2 * (V mod P) + e) * M = e * M + (2 * M) * (V mod P)" by (simp add: algebra_simps)
  then have "((2 * (V mod P) + e) * M) div (2 * M) = V mod P" "((2 * (V mod P) + e) * M) mod (2 * M) = e * M"
    using eM by simp_all
  then have "((2 * (V mod P) + e) * M) mod (2 * P) = (2 * M) * (V mod P mod K) + e * M"
    unfolding P mod_mult2_eq by simp
  also have "V mod P mod K = V mod K" using assms(1) by (intro mod_mod_cancel) simp
  also have "(2 * M) * (V mod K) = (V * (2 * M)) mod (2 * P)"
    unfolding P mult_mod_right by (simp only: mult.commute [of V])
  finally show ?thesis .
qed

context alu_size
begin

text \<open>One iteration of \<open>cord\<close>: \<open>d\<close> is the dividend bit shifted in, \<open>e\<close> the quotient bit, the carry its complement.\<close>

lemma cord_step:
  fixes a b c :: "'a word"
  defines "d \<equiv> of_bool (bit c (LENGTH('a) - 1))"
  defines "e \<equiv> of_bool (unat b \<le> 2 * unat a + d)"
  assumes "unat a < unat b"
  obtains f1 a1 c1 where "cord_loop F w b (Suc m) (f, a, c, carry) = cord_loop F w b m (f1, a1, c1, e = 0)"
    and "unat a1 = 2 * unat a + d - unat b * e"
    and "unat c1 = (2 * unat c + of_bool carry) mod 2 ^ LENGTH('a)"
proof -
  let ?N = "LENGTH('a)"
  let ?c = "push_bit 1 c OR (if carry then 1 else 0)"
  let ?a = "push_bit 1 a OR (if bit c (?N - 1) then 1 else 0)"
  have c: "unat ?c = (2 * unat c + of_bool carry) mod 2 ^ ?N" by (rule rcl_v_value)
  have a: "unat ?a = (2 * unat a + d) mod 2 ^ ?N" unfolding d_def by (rule rcl_v_value)
  have d: "d \<le> 1" by (simp add: d_def)
  have b: "unat b < 2 ^ ?N" by (rule unsigned_less)
  have pow: "(2 :: nat) ^ ?N = 2 * 2 ^ (?N - 1)" using wide by (simp flip: power_Suc)
  have step: "cord_loop F w b (Suc m) (f, a, c, carry) =
      (if bit a (?N - 1) then cord_loop F w b m (f, ?a - b, ?c, False)
       else cord_loop F w b m (sub_flags F w f (sub_fl w ?a b), if \<not> b > ?a then ?a - b else ?a, ?c, b > ?a))"
    by (simp add: rcl_v_def sign_bit sub_fl_def Let_def)
  show thesis
  proof (cases "bit a (?N - 1)")
    case True
    then have big: "2 ^ ?N \<le> 2 * unat a" using top_bit [of a] pow by simp
    have small: "2 * unat a + d < 2 * 2 ^ ?N" using assms(3) b d by linarith
    then have ua: "unat ?a = 2 * unat a + d - 2 ^ ?N"
      unfolding a using big by (simp add: mod_if)
    have "unat ?a < unat b" unfolding ua using assms(3) b d by linarith
    then have "unat (?a - b) = 2 ^ ?N + unat ?a - unat b"
      unfolding unat_sub_if' by (simp add: word_le_nat_alt)
    moreover have "unat b \<le> 2 * unat a + d" using big b by linarith
    then have e1: "e = 1" by (simp add: e_def)
    ultimately have "unat (?a - b) = 2 * unat a + d - unat b * e" using ua big by simp
    moreover have "cord_loop F w b (Suc m) (f, a, c, carry) = cord_loop F w b m (f, ?a - b, ?c, e = 0)"
      unfolding step using True e1 by simp
    ultimately show thesis using that c by blast
  next
    case False
    then have "2 * unat a + d < 2 ^ ?N" using top_bit [of a] pow d by linarith
    then have ua: "unat ?a = 2 * unat a + d" unfolding a by simp
    have cy: "b > ?a \<longleftrightarrow> e = 0" unfolding word_less_nat_alt ua e_def by (simp add: not_le)
    have "unat (if \<not> b > ?a then ?a - b else ?a) = 2 * unat a + d - unat b * e"
    proof (cases "b > ?a")
      case True
      then show ?thesis using cy ua by simp
    next
      case False
      then have "b \<le> ?a" "e = 1" using cy by (auto simp: e_def)
      then show ?thesis using False ua by (simp add: unat_sub)
    qed
    moreover have "cord_loop F w b (Suc m) (f, a, c, carry) = cord_loop F w b m
        (sub_flags F w f (sub_fl w ?a b), if \<not> b > ?a then ?a - b else ?a, ?c, e = 0)"
      unfolding step cy using False by simp
    ultimately show thesis using that c by blast
  qed
qed

lemma cord_loop_exact:
  fixes a b c :: "'a word"
  assumes "unat a < unat b" and "m \<le> LENGTH('a)"
    and "cord_loop F w b m (f, a, c, carry) = (f', a', c', carry')"
  defines "x \<equiv> unat a * 2 ^ m + unat c div 2 ^ (LENGTH('a) - m)"
  shows "unat a' = x mod unat b \<and>
    2 * unat c' + of_bool carry' + x div unat b + 1 =
      ((2 * unat c + of_bool carry) * 2 ^ m) mod (2 * 2 ^ LENGTH('a)) + 2 ^ m"
  using assms(1-3) unfolding x_def
proof (induction m arbitrary: f a c carry)
  case 0
  have "unat c < 2 ^ LENGTH('a)" by (rule unsigned_less)
  moreover have "of_bool carry \<le> (1 :: nat)" by simp
  ultimately have "2 * unat c + of_bool carry < 2 * 2 ^ LENGTH('a)" by linarith
  with 0 show ?case by (simp add: unsigned_less)
next
  case (Suc m)
  let ?N = "LENGTH('a)"
  define d :: nat where "d = of_bool (bit c (?N - 1))"
  define e :: nat where "e = of_bool (unat b \<le> 2 * unat a + d)"
  obtain f1 a1 c1 where r: "cord_loop F w b (Suc m) (f, a, c, carry) = cord_loop F w b m (f1, a1, c1, e = 0)"
    and a1: "unat a1 = 2 * unat a + d - unat b * e"
    and c1: "unat c1 = (2 * unat c + of_bool carry) mod 2 ^ ?N"
    using cord_step [OF Suc.prems(1), where F = F and m = m and f = f and c = c and carry = carry]
    unfolding e_def d_def by blast
  have d: "d \<le> 1" by (simp add: d_def)
  define rest where "rest = unat c1 div 2 ^ (?N - m)"
  note less = long_division_step(1) [OF Suc.prems(1) d, folded e_def, folded a1]
  note step = long_division_step(2,3) [OF Suc.prems(1) d, of m rest, folded e_def, folded a1]
  have m: "m < ?N" using Suc.prems(2) by simp
  have pow: "(2 :: nat) ^ ?N = 2 * 2 ^ (?N - 1)" using wide by (simp flip: power_Suc)
  have "unat c div 2 ^ (?N - Suc m) = d * 2 ^ m + rest"
  proof -
    have p: "(2 :: nat) ^ (?N - 1) = 2 ^ (?N - Suc m) * 2 ^ m"
      using m by (simp flip: power_add)
    have pm: "(2 :: nat) ^ (?N - m) = 2 * 2 ^ (?N - Suc m)" using m by (simp add: Suc_diff_Suc flip: power_Suc)
    have cd: "unat c = d * 2 ^ (?N - 1) + unat c mod 2 ^ (?N - 1)"
    proof -
      have "unat c < 2 ^ ?N" by (rule unsigned_less)
      then have "unat c < 2 * 2 ^ (?N - 1)" unfolding pow .
      then have "unat c div 2 ^ (?N - 1) < 2" by (rule less_mult_imp_div_less)
      then have "of_bool (odd (unat c div 2 ^ (?N - 1))) = unat c div 2 ^ (?N - 1)"
        by (auto dest: less_2_cases)
      then have "unat c div 2 ^ (?N - 1) = d" unfolding d_def bit_nat_div by (rule sym)
      then show ?thesis by (metis div_mult_mod_eq)
    qed
    define l where "l = unat c mod 2 ^ (?N - 1)"
    have l: "l < 2 ^ (?N - 1)" by (simp add: l_def)
    have k: "of_bool carry \<le> (1 :: nat)" by simp
    have "2 * unat c + of_bool carry = (2 * l + of_bool carry) + d * 2 ^ ?N"
      using cd unfolding pow l_def by simp
    moreover have "2 * l + of_bool carry < 2 ^ ?N" using l pow k by linarith
    ultimately have "unat c1 = 2 * l + of_bool carry" unfolding c1 by (simp only: mod_mult_self1 mod_less)
    then have "rest = (2 * l + of_bool carry) div 2 div 2 ^ (?N - Suc m)"
      unfolding rest_def pm by (simp only: div_mult2_eq)
    also have "(2 * l + of_bool carry) div 2 = l" by simp
    finally have "rest = l div 2 ^ (?N - Suc m)" .
    moreover have "unat c = l + d * 2 ^ m * 2 ^ (?N - Suc m)"
      using cd unfolding l_def [symmetric] unfolding p by (simp add: mult_ac)
    then have "unat c div 2 ^ (?N - Suc m) = d * 2 ^ m + l div 2 ^ (?N - Suc m)" by simp
    ultimately show ?thesis by simp
  qed
  then have x: "unat a * 2 ^ Suc m + unat c div 2 ^ (?N - Suc m) = (2 * unat a + d) * 2 ^ m + rest"
    by (simp add: algebra_simps)
  have IH: "unat a' = (unat a1 * 2 ^ m + rest) mod unat b"
    "2 * unat c' + of_bool carry' + (unat a1 * 2 ^ m + rest) div unat b + 1 =
      ((2 * unat c1 + of_bool (e = 0)) * 2 ^ m) mod (2 * 2 ^ ?N) + 2 ^ m"
    using Suc.IH [of a1 f1 c1 "e = 0"] less m Suc.prems(3) r unfolding rest_def by simp_all
  have "2 ^ ?N = 2 ^ m * (2 :: nat) ^ (?N - m)" using m by (simp flip: power_add)
  from shifted_mod [OF this, of "of_bool (e = 0)" "2 * unat c + of_bool carry", folded c1]
  have "((2 * unat c1 + of_bool (e = 0)) * 2 ^ m) mod (2 * 2 ^ ?N) =
      ((2 * unat c + of_bool carry) * 2 ^ Suc m) mod (2 * 2 ^ ?N) + of_bool (e = 0) * 2 ^ m" by simp
  moreover have "of_bool (e = 0) * 2 ^ m + e * 2 ^ m = (2 :: nat) ^ m" by (simp add: e_def)
  ultimately show ?case
    unfolding x step using IH by simp
qed

text \<open>The whole core: it faults unless the quotient fits, and else divides exactly.\<close>

lemma cord_exact:
  fixes a b c :: "'a word"
  defines "D \<equiv> unat a * 2 ^ LENGTH('a) + unat c"
  shows "fst (cord F w f a b c) =
    (if unat b \<le> unat a then None
     else Some (NOT (of_nat (D div unat b)), of_nat (D mod unat b), D div unat b < 2 ^ (LENGTH('a) - 1)))"
proof (cases "unat b \<le> unat a")
  case True
  then show ?thesis by (simp add: cord_def sub_fl_def Let_def word_less_nat_alt)
next
  case False
  let ?N = "LENGTH('a)" and ?q = "D div unat b"
  let ?f = "sub_flags F w f (sub_fl w a b)"
  obtain f1 a1 c1 k1 where loop: "cord_loop F w b ?N (?f, a, c, True) = (f1, a1, c1, k1)" by (metis prod.exhaust)
  have "(2 * unat c + 1) * 2 ^ ?N = 2 ^ ?N + unat c * (2 * 2 ^ ?N)" by (simp add: algebra_simps)
  then have "((2 * unat c + 1) * 2 ^ ?N) mod (2 * 2 ^ ?N) = 2 ^ ?N mod (2 * 2 ^ ?N)"
    by (simp only: mod_mult_self1)
  also have "\<dots> = 2 ^ ?N" by simp
  finally have "((2 * unat c + 1) * 2 ^ ?N) mod (2 * 2 ^ ?N) = 2 ^ ?N" .
  then have r: "unat a1 = D mod unat b" and q: "2 * unat c1 + of_bool k1 + ?q + 1 = 2 * 2 ^ ?N"
    using cord_loop_exact [OF _ order_refl loop] False unfolding D_def by simp_all
  have "unat c < 2 ^ ?N" by (rule unsigned_less)
  then have "D < (unat a + 1) * 2 ^ ?N" unfolding D_def by simp
  also have "\<dots> \<le> unat b * 2 ^ ?N" using False by (intro mult_le_mono) simp_all
  finally have "?q < 2 ^ ?N" using False by (simp add: less_mult_imp_div_less mult.commute)
  let ?c = "push_bit 1 c1 OR (if k1 then 1 else 0)"
  have "2 * unat c1 + of_bool k1 = (2 ^ ?N - 1 - ?q) + 2 ^ ?N" using q \<open>?q < 2 ^ ?N\<close> by linarith
  then have "unat ?c = (2 ^ ?N - 1 - ?q) mod 2 ^ ?N" unfolding rcl_v_value by (simp only: mod_add_self2)
  moreover have "2 ^ ?N - 1 - ?q < 2 ^ ?N" using \<open>?q < 2 ^ ?N\<close> by linarith
  ultimately have c: "unat ?c = 2 ^ ?N - 1 - ?q" by (simp only: mod_less)
  moreover have "unat (NOT (of_nat ?q) :: 'a word) = 2 ^ ?N - 1 - ?q"
    using \<open>?q < 2 ^ ?N\<close> by (simp add: unat_not unat_of_nat)
  ultimately have quot: "?c = NOT (of_nat ?q)" by (simp only: word_unat_eq_iff)
  have pow: "(2 :: nat) ^ ?N = 2 * 2 ^ (?N - 1)" using wide by (simp flip: power_Suc)
  have top: "bit ?c (?N - 1) \<longleftrightarrow> ?q < 2 ^ (?N - 1)"
    unfolding top_bit c using pow \<open>?q < 2 ^ ?N\<close> by linarith
  have rem: "a1 = of_nat (D mod unat b)" using r [symmetric] by simp
  have "fst (cord F w f a b c) = Some (?c, a1, bit ?c (?N - 1))"
    using False loop by (simp add: cord_def sub_fl_def rcl_v_def sign_bit word_less_nat_alt Let_def del: push_bit_Suc)
  then show ?thesis using False by (simp only: quot [symmetric] top rem if_False)
qed

lemma div_core_unsigned:
  fixes hi lo b :: "'a word"
  defines "D \<equiv> unat hi * 2 ^ LENGTH('a) + unat lo"
  shows "fst (div_core F w rep f hi lo b False) =
    (if unat b \<le> unat hi then None else Some (of_nat (D mod unat b), of_nat (D div unat b)))"
  using cord_exact [of F f hi b lo] unfolding D_def
  by (auto simp: div_core_def split: prod.splits option.splits if_splits)

lemma uint_minus: "x \<noteq> 0 \<Longrightarrow> uint (- x :: 'a word) = 2 ^ LENGTH('a) - uint x"
  by (simp add: uint_word_ariths zmod_zminus1_eq_if uint_0_iff)

lemma uint_not: "uint (NOT x :: 'a word) = 2 ^ LENGTH('a) - 1 - uint x"
proof -
  have "unat x < 2 ^ LENGTH('a)" by (rule unsigned_less)
  then have "unat (NOT x) + unat x + 1 = 2 ^ LENGTH('a)" unfolding unat_not by linarith
  then have "int (unat (NOT x) + unat x + 1) = 2 ^ LENGTH('a)" by (simp only: of_nat_power of_nat_numeral)
  then show ?thesis by simp
qed

text \<open>\<open>negate\<close> turns the double-width dividend and the divisor into their magnitudes.\<close>

lemma prediv_exact:
  fixes hi lo b :: "'a word"
  defines "D \<equiv> sint hi * 2 ^ LENGTH('a) + uint lo"
  obtains a b' c neg f' where "prediv F w f hi b lo rep = ((a, b', c, neg), f')"
    and "uint a * 2 ^ LENGTH('a) + uint c = \<bar>D\<bar>" and "uint b' = \<bar>sint b\<bar>"
    and "neg = (rep \<noteq> ((D < 0) \<noteq> (sint b < 0)))" and "D < 0 \<longleftrightarrow> bit hi (LENGTH('a) - 1)"
proof -
  let ?N = "LENGTH('a)"
  let ?nb = "bit b (?N - 1)" and ?nh = "bit hi (?N - 1)"
  have ul: "0 \<le> uint x" "uint x < 2 ^ ?N" for x :: "'a word" by (simp_all add: uint_lt2p)
  have sb: "sint b < 0 \<longleftrightarrow> ?nb" using ul [of b] by (simp add: sint_top)
  have b': "uint (if ?nb then - b else b) = \<bar>sint b\<bar>"
  proof (cases ?nb)
    case True
    then have "b \<noteq> 0" by auto
    then have "uint (- b) = 2 ^ ?N - uint b" by (rule uint_minus)
    moreover have "sint b = uint b - 2 ^ ?N" using True by (simp add: sint_top)
    moreover have "\<bar>sint b\<bar> = - sint b" using True sb by simp
    ultimately show ?thesis using True by simp
  qed (simp add: sint_top)
  have D: "D = uint hi * 2 ^ ?N + uint lo - (if ?nh then 2 ^ ?N * 2 ^ ?N else 0)"
    by (simp add: D_def sint_top algebra_simps)
  have "uint hi * 2 ^ ?N + uint lo < (uint hi + 1) * 2 ^ ?N" using ul [of lo] by (simp add: distrib_right)
  also have "\<dots> \<le> 2 ^ ?N * 2 ^ ?N" using ul(2) [of hi] by (intro mult_right_mono; linarith?) simp_all
  finally have lt: "uint hi * 2 ^ ?N + uint lo < 2 ^ ?N * 2 ^ ?N" .
  have "0 \<le> uint hi * 2 ^ ?N + uint lo" by (intro add_nonneg_nonneg mult_nonneg_nonneg) simp_all
  moreover have "x - (if c then y else 0) < 0 \<longleftrightarrow> c" if "x < y" "0 \<le> x" for x y :: int and c
    using that by simp
  ultimately have sD: "D < 0 \<longleftrightarrow> ?nh" using lt unfolding D by blast
  let ?a = "if ?nh then if lo \<noteq> 0 then NOT hi else - hi else hi"
  let ?c = "if ?nh then - lo else lo"
  have mag: "uint ?a * 2 ^ ?N + uint ?c = \<bar>D\<bar>"
  proof (cases ?nh)
    case True
    then have "hi \<noteq> 0" by auto
    moreover have "\<bar>D\<bar> = 2 ^ ?N * 2 ^ ?N - uint hi * 2 ^ ?N - uint lo" using True sD D by simp
    ultimately show ?thesis
      using True by (cases "lo = 0") (simp_all add: uint_minus uint_not algebra_simps)
  next
    case False
    then show ?thesis using sD D by simp
  qed
  have eq: "prediv F w f hi b lo rep =
      ((?a, if ?nb then - b else b, ?c, rep \<noteq> (?nh \<noteq> ?nb)), fl_set F f Flags_CF ?nb)"
    unfolding prediv_def negate_def Let_def sign_bit neg_v_def
    by (cases ?nh; cases ?nb) auto
  show thesis by (rule that [OF eq mag b' _ sD]) (simp add: sD sb)
qed

lemma div_core_signed:
  fixes hi lo b :: "'a word"
  defines "D \<equiv> sint hi * 2 ^ LENGTH('a) + uint lo"
  shows "fst (div_core F w rep f hi lo b True) =
    (if b = 0 \<or> 2 ^ (LENGTH('a) - 1) \<le> \<bar>D sdiv sint b\<bar> then None
     else Some (of_int (D smod sint b), of_int (if rep then - (D sdiv sint b) else D sdiv sint b)))"
proof -
  let ?N = "LENGTH('a)" and ?v = "sint b"
  obtain a b' c neg f' where p: "prediv F w f hi b lo rep = ((a, b', c, neg), f')"
    and D': "uint a * 2 ^ ?N + uint c = \<bar>D\<bar>" and B: "uint b' = \<bar>?v\<bar>"
    and neg: "neg = (rep \<noteq> ((D < 0) \<noteq> (?v < 0)))" and sD: "D < 0 \<longleftrightarrow> bit hi (?N - 1)"
    using prediv_exact [of F f hi b lo rep] unfolding D_def by blast
  define q where "q = (unat a * 2 ^ ?N + unat c) div unat b'"
  define r where "r = (unat a * 2 ^ ?N + unat c) mod unat b'"
  have mag: "int (unat a * 2 ^ ?N + unat c) = \<bar>D\<bar>" "int (unat b') = \<bar>?v\<bar>" using D' B by simp_all
  have q: "int q = \<bar>D\<bar> div \<bar>?v\<bar>" and r: "int r = \<bar>D\<bar> mod \<bar>?v\<bar>"
    unfolding q_def r_def zdiv_int zmod_int mag by simp_all
  have cord: "fst (cord F w f' a b' c) =
      (if unat b' \<le> unat a then None else Some (NOT (of_nat q), of_nat r, q < 2 ^ (?N - 1)))"
    unfolding q_def r_def by (rule cord_exact)
  have core: "fst (div_core F w rep f hi lo b True) =
      (if unat b' \<le> unat a \<or> 2 ^ (?N - 1) \<le> q then None
       else Some (if D < 0 then - of_nat r else of_nat r, if neg then - of_nat q else of_nat q))"
    using cord p unfolding sD
    by (auto simp: div_core_def postdiv_def sign_bit neg_v_def not_eq_complement split: prod.splits option.splits if_splits)
  have z: "b = 0 \<longleftrightarrow> ?v = 0" by (metis signed_0 signed_word_eqI)
  have fault: "unat b' \<le> unat a \<or> 2 ^ (?N - 1) \<le> q \<longleftrightarrow> b = 0 \<or> 2 ^ (?N - 1) \<le> \<bar>D sdiv ?v\<bar>"
  proof (cases "?v = 0")
    case True
    then have "int (unat b') = 0" unfolding mag(2) by simp
    then have "unat b' = 0" by (simp only: of_nat_eq_0_iff)
    then show ?thesis using True z by simp
  next
    case False
    then have "\<bar>D sdiv ?v\<bar> = int q" unfolding q signed_divide_int_def
      by (cases "D = 0") (simp_all add: abs_mult abs_sgn_eq pos_imp_zdiv_nonneg_iff)
    moreover have "2 ^ (?N - 1) \<le> q" if "unat b' \<le> unat a"
    proof -
      have "0 < int (unat b')" unfolding mag(2) using False by simp
      then have "0 < unat b'" by (simp only: of_nat_0_less_iff)
      moreover have "unat b' * 2 ^ ?N \<le> unat a * 2 ^ ?N + unat c" using that by (simp add: trans_le_add1)
      ultimately have "2 ^ ?N \<le> q" unfolding q_def by (simp add: less_eq_div_iff_mult_less_eq mult.commute)
      moreover have "(2 :: nat) ^ (?N - 1) \<le> 2 ^ ?N" by simp
      ultimately show ?thesis by linarith
    qed
    moreover have "2 ^ (?N - 1) \<le> int q \<longleftrightarrow> 2 ^ (?N - 1) \<le> q"
      by (metis of_nat_le_iff of_nat_numeral of_nat_power)
    ultimately show ?thesis using False z by auto
  qed
  have "(if D < 0 then - of_nat r else of_nat r) = (of_int (D smod ?v) :: 'a word)"
  proof -
    have "D smod ?v = (if D < 0 then - int r else int r)"
      unfolding r signed_modulo_int_def by (cases "D = 0") (simp_all add: sgn_if)
    then show ?thesis by simp
  qed
  moreover have "(if neg then - of_nat q else of_nat q) =
      (of_int (if rep then - (D sdiv ?v) else D sdiv ?v) :: 'a word)" if "b \<noteq> 0"
  proof -
    have "?v \<noteq> 0" using that z by simp
    then have "D sdiv ?v = (if (D < 0) \<noteq> (?v < 0) then - int q else int q)"
      unfolding q signed_divide_int_def by (cases "D = 0") (auto simp: sgn_if)
    then show ?thesis unfolding neg by auto
  qed
  ultimately show ?thesis unfolding core fault by auto
qed

end

subsection \<open>The instructions\<close>

lemma quotient_fits:
  fixes lo hi d P :: nat
  assumes "lo < P"
  shows "d \<noteq> 0 \<and> (hi * P + lo) div d < P \<longleftrightarrow> \<not> d \<le> hi"
proof (cases "d \<le> hi")
  case True
  then have "d * P \<le> hi * P + lo" by (simp add: trans_le_add1)
  then show ?thesis using True by (cases "d = 0") (simp_all add: less_eq_div_iff_mult_less_eq mult.commute not_less)
next
  case False
  have "hi * P + lo < (hi + 1) * P" using assms by simp
  also have "\<dots> \<le> d * P" using False by (intro mult_le_mono) simp_all
  finally show ?thesis using False by (simp add: less_mult_imp_div_less mult.commute)
qed

lemma uint_le16: "uint (le16 lo hi) = uint hi * 256 + uint lo"
proof -
  have "int (unat (le16 lo hi)) = int (unat lo + 256 * unat hi)" by (simp only: unat_le16)
  then show ?thesis by simp
qed

lemma sint_le16: "sint (le16 lo hi) = sint hi * 256 + uint lo"
proof -
  have "bit (le16 lo hi) 15 \<longleftrightarrow> bit hi 7" by (auto simp: le16_def bit_simps dest: bit_imp_le_length)
  then show ?thesis using sint_top [of "le16 lo hi"] sint_top [of hi] by (simp add: uint_le16)
qed

lemma div8_core: "div8 F rep d sgnd r =
  (case div_core F w8 (rep \<noteq> None) (rx_flags r) (hi8 (rx_ax r)) (lo8 (rx_ax r)) d sgnd of
     (None, f) \<Rightarrow> (False, r\<lparr>rx_flags := f\<rparr>)
   | (Some (rem, quot), f) \<Rightarrow> (True, r\<lparr>rx_ax := le16 quot rem, rx_flags := f\<rparr>))"
  by (simp add: div8_def lo8_def hi8_def le16_def or.commute Let_def split: option.split prod.split)

text \<open>
  Unsigned division. The microcode loop is exact: \<open>DIV\<close> faults exactly when the divisor is zero or the
  quotient does not fit the quotient register, and otherwise leaves quotient and remainder of the dividend
  (\<open>AX\<close>, or \<open>DX:AX\<close>) in their registers. Nothing but these registers and the flags changes, a repeat prefix
  has no effect, and a fault changes only flags.
\<close>

lemma div_exact:
  "(let x = unat (rx_ax r); (ok, s) = div8 F rep d False r
    in ok = (unat d \<noteq> 0 \<and> x div unat d < 2 ^ 8) \<and>
       s = (if ok then r\<lparr>rx_ax := le16 (of_nat (x div unat d)) (of_nat (x mod unat d))\<rparr> else r)
             \<lparr>rx_flags := rx_flags s\<rparr>) \<and>
   (let x = 65536 * unat (rx_dx r) + unat (rx_ax r); (ok, s) = div16 F rep e False r
    in ok = (unat e \<noteq> 0 \<and> x div unat e < 2 ^ 16) \<and>
       s = (if ok then r\<lparr>rx_ax := of_nat (x div unat e), rx_dx := of_nat (x mod unat e)\<rparr> else r)
             \<lparr>rx_flags := rx_flags s\<rparr>)"
proof (rule conjI, goal_cases)
  case 1
  have x: "unat (rx_ax r) = unat (hi8 (rx_ax r)) * 2 ^ LENGTH(8) + unat (lo8 (rx_ax r))"
    using unat_le16 [of "lo8 (rx_ax r)" "hi8 (rx_ax r)"] by simp
  have ok: "(unat d \<noteq> 0 \<and> unat (rx_ax r) div unat d < 2 ^ 8) \<longleftrightarrow> \<not> unat d \<le> unat (hi8 (rx_ax r))"
    using quotient_fits [of "unat (lo8 (rx_ax r))" "2 ^ 8" "unat d" "unat (hi8 (rx_ax r))"] unat_u8_less [of "lo8 (rx_ax r)"]
    unfolding x by simp
  show ?case
    using byte.div_core_unsigned [of F "rep \<noteq> None" "rx_flags r" "hi8 (rx_ax r)" "lo8 (rx_ax r)" d, folded x]
    unfolding div8_core Let_def ok
    by (auto split: prod.splits option.splits if_splits)
next
  case 2
  let ?x = "65536 * unat (rx_dx r) + unat (rx_ax r)"
  have x: "?x = unat (rx_dx r) * 2 ^ LENGTH(16) + unat (rx_ax r)" by simp
  have ok: "(unat e \<noteq> 0 \<and> ?x div unat e < 2 ^ 16) \<longleftrightarrow> \<not> unat e \<le> unat (rx_dx r)"
    using quotient_fits [of "unat (rx_ax r)" "2 ^ 16" "unat e" "unat (rx_dx r)"] unat_u16_less [of "rx_ax r"]
    unfolding x by simp
  show ?case
    using word.div_core_unsigned [of F "rep \<noteq> None" "rx_flags r" "rx_dx r" "rx_ax r" e, folded x]
    unfolding div16_def Let_def ok
    by (auto split: prod.splits option.splits if_splits)
qed

text \<open>
  C32. Signed division. \<open>IDIV\<close> truncates toward zero, the remainder takes the sign of the dividend, and a
  repeat prefix negates the quotient. It faults exactly when the divisor is zero or the magnitude of the
  quotient exceeds the largest positive value of the register, so the most negative quotient faults too,
  as on the 8086. Nothing but the result registers and the flags changes.
\<close>

theorem idiv_exact:
  "(let x = sint (rx_ax r); v = sint d; q = (if rep \<noteq> None then - (x sdiv v) else x sdiv v);
        (ok, s) = div8 F rep d True r
    in ok = (v \<noteq> 0 \<and> \<bar>q\<bar> < 2 ^ 7) \<and>
       s = (if ok then r\<lparr>rx_ax := le16 (of_int q) (of_int (x smod v))\<rparr> else r)\<lparr>rx_flags := rx_flags s\<rparr>) \<and>
   (let x = 65536 * sint (rx_dx r) + uint (rx_ax r); v = sint e;
        q = (if rep \<noteq> None then - (x sdiv v) else x sdiv v);
        (ok, s) = div16 F rep e True r
    in ok = (v \<noteq> 0 \<and> \<bar>q\<bar> < 2 ^ 15) \<and>
       s = (if ok then r\<lparr>rx_ax := of_int q, rx_dx := of_int (x smod v)\<rparr> else r)\<lparr>rx_flags := rx_flags s\<rparr>)"
proof (rule conjI, goal_cases)
  case 1
  have x: "sint (rx_ax r) = sint (hi8 (rx_ax r)) * 2 ^ LENGTH(8) + uint (lo8 (rx_ax r))"
    using sint_le16 [of "lo8 (rx_ax r)" "hi8 (rx_ax r)"] by simp
  have z: "d = 0 \<longleftrightarrow> sint d = 0" by (metis signed_0 signed_word_eqI)
  show ?case
    using byte.div_core_signed [of F "rep \<noteq> None" "rx_flags r" "hi8 (rx_ax r)" "lo8 (rx_ax r)" d, folded x]
    unfolding div8_core Let_def z
    by (auto split: prod.splits option.splits if_splits)
next
  case 2
  let ?x = "65536 * sint (rx_dx r) + uint (rx_ax r)"
  have x: "?x = sint (rx_dx r) * 2 ^ LENGTH(16) + uint (rx_ax r)" by simp
  have z: "e = 0 \<longleftrightarrow> sint e = 0" by (metis signed_0 signed_word_eqI)
  show ?case
    using word.div_core_signed [of F "rep \<noteq> None" "rx_flags r" "rx_dx r" "rx_ax r" e, folded x]
    unfolding div16_def Let_def z
    by (auto split: prod.splits option.splits if_splits)
qed

end
