(* ===== verification/X86_Cpu.thy ===== *)
theory X86_Cpu
  imports X86_Div "HOL-Library.State_Monad"
begin

text \<open>
  \<open>src/x86/mod.rs\<close> and \<open>modrm.rs\<close>: the bus, the flat memory, the processor state, memory access, the
  stack, interrupts, and operand decoding of the 8086. Methods on \<open>&mut self\<close> and \<open>&mut B\<close> are actions of
  the state monad over processor and bus, in the order of the code.
\<close>

subsection \<open>Bus and memory\<close>

record 'b X86Bus =
  xb_read :: "'b \<Rightarrow> u32 \<Rightarrow> u8 \<times> 'b"
  xb_write :: "'b \<Rightarrow> u32 \<Rightarrow> u8 \<Rightarrow> 'b"
  xb_io_read :: "'b \<Rightarrow> u16 \<Rightarrow> u8 \<times> 'b"
  xb_io_write :: "'b \<Rightarrow> u16 \<Rightarrow> u8 \<Rightarrow> 'b"

definition default_io_read :: "'b \<Rightarrow> u16 \<Rightarrow> u8 \<times> 'b" where "default_io_read b port = (0xFF, b)"
definition default_io_write :: "'b \<Rightarrow> u16 \<Rightarrow> u8 \<Rightarrow> 'b" where "default_io_write b port value = b"

text \<open>The array of \<open>0x10_0000\<close> bytes, always indexed with \<open>& 0xF_FFFF\<close>.\<close>

record X86Memory =
  xm_ram :: "nat \<Rightarrow> u8"

definition X86Memory_new :: X86Memory where "X86Memory_new = \<lparr>xm_ram = (\<lambda>_. 0)\<rparr>"

fun xm_load_from :: "X86Memory \<Rightarrow> u32 \<Rightarrow> nat \<Rightarrow> u8 list \<Rightarrow> X86Memory" where
  "xm_load_from m addr i [] = m"
| "xm_load_from m addr i (byte # data) =
     xm_load_from (m\<lparr>xm_ram := (xm_ram m)((unat addr + i) AND 0xFFFFF := byte)\<rparr>) addr (i + 1) data"

definition X86Memory_load :: "X86Memory \<Rightarrow> u32 \<Rightarrow> u8 list \<Rightarrow> X86Memory" where
  "X86Memory_load m addr data = xm_load_from m addr 0 data"

definition X86Memory_read :: "X86Memory \<Rightarrow> u32 \<Rightarrow> u8 \<times> X86Memory" where
  "X86Memory_read m addr = (xm_ram m (unat addr AND 0xFFFFF), m)"

definition X86Memory_write :: "X86Memory \<Rightarrow> u32 \<Rightarrow> u8 \<Rightarrow> X86Memory" where
  "X86Memory_write m addr value = m\<lparr>xm_ram := (xm_ram m)(unat addr AND 0xFFFFF := value)\<rparr>"

definition X86Memory_bus :: "X86Memory X86Bus" where
  "X86Memory_bus = \<lparr>xb_read = X86Memory_read, xb_write = X86Memory_write,
     xb_io_read = default_io_read, xb_io_write = default_io_write\<rparr>"

subsection \<open>The processor\<close>

definition X86_INTERRUPT_CYCLES :: u32 where "X86_INTERRUPT_CYCLES = 61"

record X86Cpu =
  xc_regs :: X86Registers
  xc_cycles :: u64
  xc_halted :: bool
  xc_nmi_pending :: bool
  xc_intr :: "u8 option"
  xc_inhibit :: bool
  xc_seg_override :: "u8 option"
  xc_rep :: "bool option"
  xc_ea_cycles :: u32

definition X86Cpu_new :: X86Cpu where
  "X86Cpu_new =
     \<lparr>xc_regs = X86Registers_new, xc_cycles = 0, xc_halted = False, xc_nmi_pending = False,
      xc_intr = None, xc_inhibit = False, xc_seg_override = None, xc_rep = None, xc_ea_cycles = 0\<rparr>"

definition x86_reset :: "X86Cpu \<Rightarrow> X86Cpu" where
  "x86_reset c = c\<lparr>xc_regs := X86Registers_new, xc_halted := False, xc_nmi_pending := False,
     xc_intr := None, xc_inhibit := False\<rparr>"

definition x86_trigger_nmi :: "X86Cpu \<Rightarrow> X86Cpu" where "x86_trigger_nmi c = c\<lparr>xc_nmi_pending := True\<rparr>"
definition x86_assert_intr :: "u8 \<Rightarrow> X86Cpu \<Rightarrow> X86Cpu" where "x86_assert_intr v c = c\<lparr>xc_intr := Some v\<rparr>"
definition x86_clear_intr :: "X86Cpu \<Rightarrow> X86Cpu" where "x86_clear_intr c = c\<lparr>xc_intr := None\<rparr>"

subsection \<open>Actions\<close>

type_synonym ('b, 'a) x86 = "(X86Cpu \<times> 'b, 'a) state"

abbreviation ret :: "'a \<Rightarrow> ('b, 'a) x86" where "ret \<equiv> State_Monad.return"

definition getc :: "(X86Cpu \<Rightarrow> 'a) \<Rightarrow> ('b, 'a) x86" where "getc f = State (\<lambda>(c, b). (f c, c, b))"
definition modc :: "(X86Cpu \<Rightarrow> X86Cpu) \<Rightarrow> ('b, unit) x86" where "modc f = State (\<lambda>(c, b). ((), f c, b))"

definition getr :: "(X86Registers \<Rightarrow> 'a) \<Rightarrow> ('b, 'a) x86" where "getr f = getc (\<lambda>c. f (xc_regs c))"
definition modr :: "(X86Registers \<Rightarrow> X86Registers) \<Rightarrow> ('b, unit) x86" where
  "modr f = modc (\<lambda>c. c\<lparr>xc_regs := f (xc_regs c)\<rparr>)"

text \<open>An operation on the registers that returns a value, and one on the flags.\<close>

definition runr :: "(X86Registers \<Rightarrow> 'a \<times> X86Registers) \<Rightarrow> ('b, 'a) x86" where
  "runr f = do { r \<leftarrow> getr id; let (a, r) = f r; modr (\<lambda>_. r); ret a }"

definition runf :: "(Flags \<Rightarrow> 'a \<times> Flags) \<Rightarrow> ('b, 'a) x86" where
  "runf g = runr (\<lambda>r. let (a, f) = g (rx_flags r) in (a, r\<lparr>rx_flags := f\<rparr>))"

definition bus_in :: "('b \<Rightarrow> 'a \<times> 'b) \<Rightarrow> ('b, 'a) x86" where
  "bus_in f = State (\<lambda>(c, b). let (v, b) = f b in (v, c, b))"
definition bus_out :: "('b \<Rightarrow> 'b) \<Rightarrow> ('b, unit) x86" where
  "bus_out f = State (\<lambda>(c, b). ((), c, f b))"

subsection \<open>Memory, fetch and stack\<close>

definition x86_phys :: "u16 \<Rightarrow> u16 \<Rightarrow> u32" where
  "x86_phys sg off = (push_bit 4 (ucast sg) + ucast off) AND 0xFFFFF"

definition x86_read8 :: "'b X86Bus \<Rightarrow> u16 \<Rightarrow> u16 \<Rightarrow> ('b, u8) x86" where
  "x86_read8 B sg off = bus_in (\<lambda>b. xb_read B b (x86_phys sg off))"

definition x86_write8 :: "'b X86Bus \<Rightarrow> u16 \<Rightarrow> u16 \<Rightarrow> u8 \<Rightarrow> ('b, unit) x86" where
  "x86_write8 B sg off value = bus_out (\<lambda>b. xb_write B b (x86_phys sg off) value)"

definition x86_read16 :: "'b X86Bus \<Rightarrow> u16 \<Rightarrow> u16 \<Rightarrow> ('b, u16) x86" where
  "x86_read16 B sg off = do {
     lo \<leftarrow> x86_read8 B sg off;
     hi \<leftarrow> x86_read8 B sg (off + 1);
     ret (le16 lo hi)
   }"

definition x86_write16 :: "'b X86Bus \<Rightarrow> u16 \<Rightarrow> u16 \<Rightarrow> u16 \<Rightarrow> ('b, unit) x86" where
  "x86_write16 B sg off value = do {
     x86_write8 B sg off (lo8 value);
     x86_write8 B sg (off + 1) (hi8 value)
   }"

definition x86_fetch_byte :: "'b X86Bus \<Rightarrow> ('b, u8) x86" where
  "x86_fetch_byte B = do {
     cs \<leftarrow> getr rx_cs;
     ip \<leftarrow> getr rx_ip;
     b \<leftarrow> x86_read8 B cs ip;
     modr (\<lambda>r. r\<lparr>rx_ip := rx_ip r + 1\<rparr>);
     ret b
   }"

definition x86_fetch_word :: "'b X86Bus \<Rightarrow> ('b, u16) x86" where
  "x86_fetch_word B = do {
     lo \<leftarrow> x86_fetch_byte B;
     hi \<leftarrow> x86_fetch_byte B;
     ret (le16 lo hi)
   }"

definition seg_or :: "X86Cpu \<Rightarrow> u8 \<Rightarrow> u16" where
  "seg_or c dflt = seg (xc_regs c) (case xc_seg_override c of Some s \<Rightarrow> s | None \<Rightarrow> dflt)"

definition push16 :: "'b X86Bus \<Rightarrow> u16 \<Rightarrow> ('b, unit) x86" where
  "push16 B value = do {
     modr (\<lambda>r. r\<lparr>rx_sp := rx_sp r - 2\<rparr>);
     ss \<leftarrow> getr rx_ss;
     sp \<leftarrow> getr rx_sp;
     x86_write16 B ss sp value
   }"

definition pop16 :: "'b X86Bus \<Rightarrow> ('b, u16) x86" where
  "pop16 B = do {
     ss \<leftarrow> getr rx_ss;
     sp \<leftarrow> getr rx_sp;
     v \<leftarrow> x86_read16 B ss sp;
     modr (\<lambda>r. r\<lparr>rx_sp := rx_sp r + 2\<rparr>);
     ret v
   }"

definition interrupt :: "flag_ops \<Rightarrow> 'b X86Bus \<Rightarrow> u8 \<Rightarrow> ('b, unit) x86" where
  "interrupt F B vector = do {
     f \<leftarrow> getr rx_flags;
     push16 B (to_word f);
     modr (\<lambda>r. r\<lparr>rx_flags := fl_remove F (rx_flags r) (fl_union F Flags_IF Flags_TF)\<rparr>);
     cs \<leftarrow> getr rx_cs;
     push16 B cs;
     ip \<leftarrow> getr rx_ip;
     push16 B ip;
     let base = ucast vector * 4;
     ip \<leftarrow> x86_read16 B 0 base;
     modr (\<lambda>r. r\<lparr>rx_ip := ip\<rparr>);
     cs \<leftarrow> x86_read16 B 0 (base + 2);
     modr (\<lambda>r. r\<lparr>rx_cs := cs\<rparr>)
   }"

subsection \<open>ModRM operands\<close>

type_synonym ModRm = u8

definition md :: "ModRm \<Rightarrow> u8" where "md m = drop_bit 6 m"
definition mreg :: "ModRm \<Rightarrow> u8" where "mreg m = drop_bit 3 m AND 7"
definition rm :: "ModRm \<Rightarrow> u8" where "rm m = m AND 7"

datatype X86Operand = OpReg u8 | OpMem u16 u16

fun is_mem :: "X86Operand \<Rightarrow> bool" where
  "is_mem (OpMem sg off) = True"
| "is_mem (OpReg i) = False"

text \<open>Base and index of the memory forms: value, default segment, cycles without displacement.\<close>

definition ea_base :: "X86Registers \<Rightarrow> u8 \<Rightarrow> u16 \<times> u8 \<times> u32" where
  "ea_base r i =
     (if i = 0 then (rx_bx r + rx_si r, x86_DS, 7) else if i = 1 then (rx_bx r + rx_di r, x86_DS, 8)
      else if i = 2 then (rx_bp r + rx_si r, x86_SS, 8) else if i = 3 then (rx_bp r + rx_di r, x86_SS, 7)
      else if i = 4 then (rx_si r, x86_DS, 5) else if i = 5 then (rx_di r, x86_DS, 5)
      else if i = 6 then (rx_bp r, x86_SS, 5) else (rx_bx r, x86_DS, 5))"

definition set_ea :: "u32 \<Rightarrow> ('b, unit) x86" where
  "set_ea n = modc (\<lambda>c. c\<lparr>xc_ea_cycles := n\<rparr>)"

definition modrm :: "'b X86Bus \<Rightarrow> ('b, ModRm \<times> X86Operand) x86" where
  "modrm B = do {
     m \<leftarrow> x86_fetch_byte B;
     if md m = 3 then do { set_ea 0; ret (m, OpReg (rm m)) }
     else if md m = 0 \<and> rm m = 6 then do {
       off \<leftarrow> x86_fetch_word B;
       set_ea 6;
       sg \<leftarrow> getc (\<lambda>c. seg_or c x86_DS);
       ret (m, OpMem sg off)
     }
     else do {
       disp \<leftarrow>
         (if md m = 0 then ret 0
          else if md m = 1 then do { b \<leftarrow> x86_fetch_byte B; ret (scast b) }
          else x86_fetch_word B);
       (base, sg, ea) \<leftarrow> getr (\<lambda>r. ea_base r (rm m));
       set_ea (if md m = 0 then ea else ea + 4);
       sg \<leftarrow> getc (\<lambda>c. seg_or c sg);
       ret (m, OpMem sg (base + disp))
     }
   }"

fun read_op8 :: "'b X86Bus \<Rightarrow> X86Operand \<Rightarrow> ('b, u8) x86" where
  "read_op8 B (OpReg i) = getr (\<lambda>r. reg8 r i)"
| "read_op8 B (OpMem sg off) = x86_read8 B sg off"

fun write_op8 :: "'b X86Bus \<Rightarrow> X86Operand \<Rightarrow> u8 \<Rightarrow> ('b, unit) x86" where
  "write_op8 B (OpReg i) v = modr (set_reg8 i v)"
| "write_op8 B (OpMem sg off) v = x86_write8 B sg off v"

fun read_op16 :: "'b X86Bus \<Rightarrow> X86Operand \<Rightarrow> ('b, u16) x86" where
  "read_op16 B (OpReg i) = getr (\<lambda>r. reg16 r i)"
| "read_op16 B (OpMem sg off) = x86_read16 B sg off"

fun write_op16 :: "'b X86Bus \<Rightarrow> X86Operand \<Rightarrow> u16 \<Rightarrow> ('b, unit) x86" where
  "write_op16 B (OpReg i) v = modr (set_reg16 i v)"
| "write_op16 B (OpMem sg off) v = x86_write16 B sg off v"

end
