(* ===== verification/X86_Execute.thy ===== *)
theory X86_Execute
  imports X86_Cpu
begin

text \<open>
  \<open>src/x86/execute.rs\<close>: one definition per helper and per section of the opcode \<open>match\<close>. A section is a
  partial function from opcodes to actions; \<open>x86_dispatch\<close> tries the sections in order. A prefix byte is in
  no section: reaching \<open>x86_dispatch\<close> with one is the \<open>unreachable!\<close> panic, \<open>None\<close>.
\<close>

definition ALU8 :: "flag_ops \<Rightarrow> (Flags \<Rightarrow> u8 \<Rightarrow> u8 \<Rightarrow> u8 \<times> Flags) list" where
  "ALU8 F = [alu_add F w8, alu_or F w8, alu_adc F w8, alu_sbb F w8, alu_and F w8, alu_sub F w8, alu_xor F w8, alu_sub F w8]"

definition ALU16 :: "flag_ops \<Rightarrow> (Flags \<Rightarrow> u16 \<Rightarrow> u16 \<Rightarrow> u16 \<times> Flags) list" where
  "ALU16 F =
     [alu_add F w16, alu_or F w16, alu_adc F w16, alu_sbb F w16, alu_and F w16, alu_sub F w16, alu_xor F w16, alu_sub F w16]"

subsection \<open>Helpers\<close>

definition do_if :: "bool \<Rightarrow> ('b, unit) x86 \<Rightarrow> ('b, unit) x86" where
  "do_if p a = (if p then a else ret ())"

text \<open>\<open>if op.is_mem() { n + self.ea_cycles } else { k }\<close>\<close>

definition mem_cycles :: "X86Operand \<Rightarrow> u32 \<Rightarrow> u32 \<Rightarrow> ('b, u32) x86" where
  "mem_cycles op n k = do { ea \<leftarrow> getc xc_ea_cycles; ret (if is_mem op then n + ea else k) }"

definition cond :: "flag_ops \<Rightarrow> Flags \<Rightarrow> u8 \<Rightarrow> bool" where
  "cond F f n =
     (let k = drop_bit 1 n;
          r = (if k = 0 then fl_contains F f Flags_OF
               else if k = 1 then fl_contains F f Flags_CF
               else if k = 2 then fl_contains F f Flags_ZF
               else if k = 3 then fl_contains F f Flags_CF \<or> fl_contains F f Flags_ZF
               else if k = 4 then fl_contains F f Flags_SF
               else if k = 5 then fl_contains F f Flags_PF
               else if k = 6 then fl_contains F f Flags_SF \<noteq> fl_contains F f Flags_OF
               else fl_contains F f Flags_ZF \<or> (fl_contains F f Flags_SF \<noteq> fl_contains F f Flags_OF))
      in r \<noteq> (n AND 1 \<noteq> 0))"

definition op_rm_r8 :: "'b X86Bus \<Rightarrow> (Flags \<Rightarrow> u8 \<Rightarrow> u8 \<Rightarrow> u8 \<times> Flags) \<Rightarrow> bool \<Rightarrow> ('b, u32) x86" where
  "op_rm_r8 B f wb = do {
     (m, op) \<leftarrow> modrm B;
     a \<leftarrow> read_op8 B op;
     b \<leftarrow> getr (\<lambda>r. reg8 r (mreg m));
     r \<leftarrow> runf (\<lambda>fl. f fl a b);
     do_if wb (write_op8 B op r);
     mem_cycles op (if wb then 16 else 9) 3
   }"

definition op_rm_r16 :: "'b X86Bus \<Rightarrow> (Flags \<Rightarrow> u16 \<Rightarrow> u16 \<Rightarrow> u16 \<times> Flags) \<Rightarrow> bool \<Rightarrow> ('b, u32) x86" where
  "op_rm_r16 B f wb = do {
     (m, op) \<leftarrow> modrm B;
     a \<leftarrow> read_op16 B op;
     b \<leftarrow> getr (\<lambda>r. reg16 r (mreg m));
     r \<leftarrow> runf (\<lambda>fl. f fl a b);
     do_if wb (write_op16 B op r);
     mem_cycles op (if wb then 16 else 9) 3
   }"

definition op_r_rm8 :: "'b X86Bus \<Rightarrow> (Flags \<Rightarrow> u8 \<Rightarrow> u8 \<Rightarrow> u8 \<times> Flags) \<Rightarrow> bool \<Rightarrow> ('b, u32) x86" where
  "op_r_rm8 B f wb = do {
     (m, op) \<leftarrow> modrm B;
     a \<leftarrow> getr (\<lambda>r. reg8 r (mreg m));
     b \<leftarrow> read_op8 B op;
     r \<leftarrow> runf (\<lambda>fl. f fl a b);
     do_if wb (modr (set_reg8 (mreg m) r));
     mem_cycles op 9 3
   }"

definition op_r_rm16 :: "'b X86Bus \<Rightarrow> (Flags \<Rightarrow> u16 \<Rightarrow> u16 \<Rightarrow> u16 \<times> Flags) \<Rightarrow> bool \<Rightarrow> ('b, u32) x86" where
  "op_r_rm16 B f wb = do {
     (m, op) \<leftarrow> modrm B;
     a \<leftarrow> getr (\<lambda>r. reg16 r (mreg m));
     b \<leftarrow> read_op16 B op;
     r \<leftarrow> runf (\<lambda>fl. f fl a b);
     do_if wb (modr (set_reg16 (mreg m) r));
     mem_cycles op 9 3
   }"

fun far_operand :: "'b X86Bus \<Rightarrow> X86Operand \<Rightarrow> ('b, u16 \<times> u16) x86" where
  "far_operand B (OpMem sg off) = do {
     o1 \<leftarrow> x86_read16 B sg off;
     s1 \<leftarrow> x86_read16 B sg (off + 2);
     ret (o1, s1)
   }"
| "far_operand B (OpReg i) = getr (\<lambda>r. (reg16 r i, rx_cs r))"

text \<open>Undocumented \<open>SETMO\<close>, for both widths.\<close>

definition setmo :: "flag_ops \<Rightarrow> 'a::len word alu_width \<Rightarrow> Flags \<Rightarrow> 'a word \<Rightarrow> u32 \<Rightarrow> 'a word \<times> Flags" where
  "setmo F w f v count = (if count = 0 then (v, f) else alu_or F w f (- 1) (- 1))"

definition shift_cycles :: "bool \<Rightarrow> u32 option \<Rightarrow> ('b, u32) x86" where
  "shift_cycles mem count = do {
     ea \<leftarrow> getc xc_ea_cycles;
     ret (case (count, mem) of
            (None, False) \<Rightarrow> 2
          | (None, True) \<Rightarrow> 15 + ea
          | (Some n, False) \<Rightarrow> 8 + 4 * n
          | (Some n, True) \<Rightarrow> 20 + ea + 4 * n)
   }"

text \<open>The operation a shift-group sub-opcode selects.\<close>

definition shift_op :: "flag_ops \<Rightarrow> 'a::len word alu_width \<Rightarrow> u8 \<Rightarrow> Flags \<Rightarrow> 'a word \<Rightarrow> u32 \<Rightarrow> 'a word \<times> Flags" where
  "shift_op F w k =
     (if k = 0 then alu_rol F w else if k = 1 then alu_ror F w else if k = 2 then alu_rcl F w
      else if k = 3 then alu_rcr F w else if k = 4 then alu_shl F w else if k = 5 then alu_shr F w
      else if k = 6 then setmo F w else alu_sar F w)"

definition shift_grp8 :: "flag_ops \<Rightarrow> 'b X86Bus \<Rightarrow> u32 option \<Rightarrow> ('b, u32) x86" where
  "shift_grp8 F B count = do {
     (m, op) \<leftarrow> modrm B;
     let n = (case count of Some n \<Rightarrow> n | None \<Rightarrow> 1);
     v \<leftarrow> read_op8 B op;
     r \<leftarrow> runf (\<lambda>f. shift_op F w8 (mreg m) f v n);
     write_op8 B op r;
     shift_cycles (is_mem op) count
   }"

definition shift_grp16 :: "flag_ops \<Rightarrow> 'b X86Bus \<Rightarrow> u32 option \<Rightarrow> ('b, u32) x86" where
  "shift_grp16 F B count = do {
     (m, op) \<leftarrow> modrm B;
     let n = (case count of Some n \<Rightarrow> n | None \<Rightarrow> 1);
     v \<leftarrow> read_op16 B op;
     r \<leftarrow> runf (\<lambda>f. shift_op F w16 (mreg m) f v n);
     write_op16 B op r;
     shift_cycles (is_mem op) count
   }"

definition io_read8 :: "'b X86Bus \<Rightarrow> u16 \<Rightarrow> ('b, u8) x86" where
  "io_read8 B port = bus_in (\<lambda>b. xb_io_read B b port)"
definition io_write8 :: "'b X86Bus \<Rightarrow> u16 \<Rightarrow> u8 \<Rightarrow> ('b, unit) x86" where
  "io_write8 B port v = bus_out (\<lambda>b. xb_io_write B b port v)"

definition io_read16 :: "'b X86Bus \<Rightarrow> u16 \<Rightarrow> ('b, u16) x86" where
  "io_read16 B port = do {
     lo \<leftarrow> io_read8 B port;
     hi \<leftarrow> io_read8 B (port + 1);
     ret (le16 lo hi)
   }"

definition io_write16 :: "'b X86Bus \<Rightarrow> u16 \<Rightarrow> u16 \<Rightarrow> ('b, unit) x86" where
  "io_write16 B port v = do {
     io_write8 B port (lo8 v);
     io_write8 B (port + 1) (hi8 v)
   }"

subsection \<open>String primitives\<close>

definition delta :: "flag_ops \<Rightarrow> u16 \<Rightarrow> ('b, u16) x86" where
  "delta F n = getr (\<lambda>r. if fl_contains F (rx_flags r) Flags_DF then - n else n)"

definition step_si :: "u16 \<Rightarrow> ('b, unit) x86" where "step_si d = modr (\<lambda>r. r\<lparr>rx_si := rx_si r + d\<rparr>)"
definition step_di :: "u16 \<Rightarrow> ('b, unit) x86" where "step_di d = modr (\<lambda>r. r\<lparr>rx_di := rx_di r + d\<rparr>)"

definition movs8 :: "flag_ops \<Rightarrow> 'b X86Bus \<Rightarrow> ('b, unit) x86" where
  "movs8 F B = do {
     d \<leftarrow> delta F 1;
     sg \<leftarrow> getc (\<lambda>c. seg_or c x86_DS);
     si \<leftarrow> getr rx_si;
     v \<leftarrow> x86_read8 B sg si;
     (es, di) \<leftarrow> getr (\<lambda>r. (rx_es r, rx_di r));
     x86_write8 B es di v;
     step_si d;
     step_di d
   }"

definition movs16 :: "flag_ops \<Rightarrow> 'b X86Bus \<Rightarrow> ('b, unit) x86" where
  "movs16 F B = do {
     d \<leftarrow> delta F 2;
     sg \<leftarrow> getc (\<lambda>c. seg_or c x86_DS);
     si \<leftarrow> getr rx_si;
     v \<leftarrow> x86_read16 B sg si;
     (es, di) \<leftarrow> getr (\<lambda>r. (rx_es r, rx_di r));
     x86_write16 B es di v;
     step_si d;
     step_di d
   }"

definition cmps8 :: "flag_ops \<Rightarrow> 'b X86Bus \<Rightarrow> ('b, unit) x86" where
  "cmps8 F B = do {
     d \<leftarrow> delta F 1;
     sg \<leftarrow> getc (\<lambda>c. seg_or c x86_DS);
     si \<leftarrow> getr rx_si;
     a \<leftarrow> x86_read8 B sg si;
     (es, di) \<leftarrow> getr (\<lambda>r. (rx_es r, rx_di r));
     b \<leftarrow> x86_read8 B es di;
     _ \<leftarrow> runf (\<lambda>f. alu_sub F w8 f a b);
     step_si d;
     step_di d
   }"

definition cmps16 :: "flag_ops \<Rightarrow> 'b X86Bus \<Rightarrow> ('b, unit) x86" where
  "cmps16 F B = do {
     d \<leftarrow> delta F 2;
     sg \<leftarrow> getc (\<lambda>c. seg_or c x86_DS);
     si \<leftarrow> getr rx_si;
     a \<leftarrow> x86_read16 B sg si;
     (es, di) \<leftarrow> getr (\<lambda>r. (rx_es r, rx_di r));
     b \<leftarrow> x86_read16 B es di;
     _ \<leftarrow> runf (\<lambda>f. alu_sub F w16 f a b);
     step_si d;
     step_di d
   }"

definition stos8 :: "flag_ops \<Rightarrow> 'b X86Bus \<Rightarrow> ('b, unit) x86" where
  "stos8 F B = do {
     d \<leftarrow> delta F 1;
     (es, di, v) \<leftarrow> getr (\<lambda>r. (rx_es r, rx_di r, reg8 r 0));
     x86_write8 B es di v;
     step_di d
   }"

definition stos16 :: "flag_ops \<Rightarrow> 'b X86Bus \<Rightarrow> ('b, unit) x86" where
  "stos16 F B = do {
     d \<leftarrow> delta F 2;
     (es, di, v) \<leftarrow> getr (\<lambda>r. (rx_es r, rx_di r, rx_ax r));
     x86_write16 B es di v;
     step_di d
   }"

definition lods8 :: "flag_ops \<Rightarrow> 'b X86Bus \<Rightarrow> ('b, unit) x86" where
  "lods8 F B = do {
     d \<leftarrow> delta F 1;
     sg \<leftarrow> getc (\<lambda>c. seg_or c x86_DS);
     si \<leftarrow> getr rx_si;
     v \<leftarrow> x86_read8 B sg si;
     modr (set_reg8 0 v);
     step_si d
   }"

definition lods16 :: "flag_ops \<Rightarrow> 'b X86Bus \<Rightarrow> ('b, unit) x86" where
  "lods16 F B = do {
     d \<leftarrow> delta F 2;
     sg \<leftarrow> getc (\<lambda>c. seg_or c x86_DS);
     si \<leftarrow> getr rx_si;
     v \<leftarrow> x86_read16 B sg si;
     modr (\<lambda>r. r\<lparr>rx_ax := v\<rparr>);
     step_si d
   }"

definition scas8 :: "flag_ops \<Rightarrow> 'b X86Bus \<Rightarrow> ('b, unit) x86" where
  "scas8 F B = do {
     d \<leftarrow> delta F 1;
     (es, di) \<leftarrow> getr (\<lambda>r. (rx_es r, rx_di r));
     b \<leftarrow> x86_read8 B es di;
     a \<leftarrow> getr (\<lambda>r. reg8 r 0);
     _ \<leftarrow> runf (\<lambda>f. alu_sub F w8 f a b);
     step_di d
   }"

definition scas16 :: "flag_ops \<Rightarrow> 'b X86Bus \<Rightarrow> ('b, unit) x86" where
  "scas16 F B = do {
     d \<leftarrow> delta F 2;
     (es, di) \<leftarrow> getr (\<lambda>r. (rx_es r, rx_di r));
     b \<leftarrow> x86_read16 B es di;
     a \<leftarrow> getr rx_ax;
     _ \<leftarrow> runf (\<lambda>f. alu_sub F w16 f a b);
     step_di d
   }"

text \<open>
  The \<open>while\<close> loop of \<open>rep_str\<close> with the initial \<open>CX\<close> as its fuel: the primitives leave \<open>CX\<close> alone and each
  round decrements it, so it reaches zero before the fuel does.
\<close>

fun rep_loop :: "flag_ops \<Rightarrow> ('b, unit) x86 \<Rightarrow> bool \<Rightarrow> bool \<Rightarrow> u32 \<Rightarrow> nat \<Rightarrow> u32 \<Rightarrow> ('b, u32) x86" where
  "rep_loop F one cmp cont per 0 cycles = ret cycles"
| "rep_loop F one cmp cont per (Suc n) cycles = do {
     cx \<leftarrow> getr rx_cx;
     if cx = 0 then ret cycles
     else do {
       one;
       modr (\<lambda>r. r\<lparr>rx_cx := rx_cx r - 1\<rparr>);
       f \<leftarrow> getr rx_flags;
       if cmp \<and> fl_contains F f Flags_ZF \<noteq> cont then ret (cycles + per)
       else rep_loop F one cmp cont per n (cycles + per)
     }
   }"

definition rep_str :: "flag_ops \<Rightarrow> ('b, unit) x86 \<Rightarrow> bool \<Rightarrow> u32 \<Rightarrow> u32 \<Rightarrow> ('b, u32) x86" where
  "rep_str F one cmp base per = do {
     rep \<leftarrow> getc xc_rep;
     case rep of
       None \<Rightarrow> do { one; ret base }
     | Some cont \<Rightarrow> do {
         cx \<leftarrow> getr rx_cx;
         rep_loop F one cmp cont per (unat cx) 9
       }
   }"

subsection \<open>Opcode sections\<close>

type_synonym 'b opcodes = "u8 \<Rightarrow> ('b, u32) x86 option"

text \<open>\<open>fetch_byte(bus) as i8 as u16\<close>\<close>

definition fetch_rel8 :: "'b X86Bus \<Rightarrow> ('b, u16) x86" where
  "fetch_rel8 B = do { b \<leftarrow> x86_fetch_byte B; ret (scast b) }"

definition set_ip :: "(X86Registers \<Rightarrow> u16) \<Rightarrow> ('b, unit) x86" where
  "set_ip f = modr (\<lambda>r. r\<lparr>rx_ip := f r\<rparr>)"

definition exec_alu :: "flag_ops \<Rightarrow> 'b X86Bus \<Rightarrow> 'b opcodes" where
  "exec_alu F B op =
     (let f8 = ALU8 F ! unat (drop_bit 3 op); f16 = ALU16 F ! unat (drop_bit 3 op)
      in if op \<in> {0x00, 0x08, 0x10, 0x18, 0x20, 0x28, 0x30, 0x38} then Some (op_rm_r8 B f8 (op \<noteq> 0x38))
         else if op \<in> {0x01, 0x09, 0x11, 0x19, 0x21, 0x29, 0x31, 0x39} then Some (op_rm_r16 B f16 (op \<noteq> 0x39))
         else if op \<in> {0x02, 0x0A, 0x12, 0x1A, 0x22, 0x2A, 0x32, 0x3A} then Some (op_r_rm8 B f8 (op \<noteq> 0x3A))
         else if op \<in> {0x03, 0x0B, 0x13, 0x1B, 0x23, 0x2B, 0x33, 0x3B} then Some (op_r_rm16 B f16 (op \<noteq> 0x3B))
         else if op \<in> {0x04, 0x0C, 0x14, 0x1C, 0x24, 0x2C, 0x34, 0x3C} then Some (do {
           b \<leftarrow> x86_fetch_byte B;
           a \<leftarrow> getr (\<lambda>r. reg8 r 0);
           r \<leftarrow> runf (\<lambda>fl. f8 fl a b);
           do_if (op \<noteq> 0x3C) (modr (set_reg8 0 r));
           ret 4
         })
         else if op \<in> {0x05, 0x0D, 0x15, 0x1D, 0x25, 0x2D, 0x35, 0x3D} then Some (do {
           b \<leftarrow> x86_fetch_word B;
           a \<leftarrow> getr rx_ax;
           r \<leftarrow> runf (\<lambda>fl. f16 fl a b);
           do_if (op \<noteq> 0x3D) (modr (\<lambda>s. s\<lparr>rx_ax := r\<rparr>));
           ret 4
         })
         else if op \<in> {0x80, 0x82} then Some (do {
           (m, opd) \<leftarrow> modrm B;
           a \<leftarrow> read_op8 B opd;
           b \<leftarrow> x86_fetch_byte B;
           r \<leftarrow> runf (\<lambda>fl. (ALU8 F ! unat (mreg m)) fl a b);
           let wb = mreg m \<noteq> 7;
           do_if wb (write_op8 B opd r);
           mem_cycles opd (if wb then 17 else 10) 4
         })
         else if op \<in> {0x81, 0x83} then Some (do {
           (m, opd) \<leftarrow> modrm B;
           a \<leftarrow> read_op16 B opd;
           b \<leftarrow> (if op = 0x81 then x86_fetch_word B else fetch_rel8 B);
           r \<leftarrow> runf (\<lambda>fl. (ALU16 F ! unat (mreg m)) fl a b);
           let wb = mreg m \<noteq> 7;
           do_if wb (write_op16 B opd r);
           mem_cycles opd (if wb then 17 else 10) 4
         })
         else None)"

definition exec_stack :: "flag_ops \<Rightarrow> 'b X86Bus \<Rightarrow> 'b opcodes" where
  "exec_stack F B op =
     (if op \<in> {0x06, 0x0E, 0x16, 0x1E} then Some (do {
        v \<leftarrow> getr (\<lambda>r. seg r (drop_bit 3 op));
        push16 B v;
        ret 10
      })
      else if op \<in> {0x07, 0x17, 0x1F} then Some (do {
        v \<leftarrow> pop16 B;
        modr (set_seg (drop_bit 3 op) v);
        (if op = 0x17 then modc (\<lambda>c. c\<lparr>xc_inhibit := True\<rparr>) else ret ());
        ret 8
      })
      else if op = 0x0F then Some (do { v \<leftarrow> pop16 B; modr (\<lambda>r. r\<lparr>rx_cs := v\<rparr>); ret 8 })
      else if 0x50 \<le> op \<and> op \<le> 0x57 then Some (do {
        let k = op AND 7;
        v \<leftarrow> getr (\<lambda>r. if k = 4 then rx_sp r - 2 else reg16 r k);
        push16 B v;
        ret 11
      })
      else if 0x58 \<le> op \<and> op \<le> 0x5F then Some (do { v \<leftarrow> pop16 B; modr (set_reg16 (op AND 7) v); ret 8 })
      else if op = 0x8F then Some (do {
        (_, opd) \<leftarrow> modrm B;
        v \<leftarrow> pop16 B;
        write_op16 B opd v;
        mem_cycles opd 17 8
      })
      else if op = 0x9C then Some (do { f \<leftarrow> getr rx_flags; push16 B (to_word f); ret 10 })
      else if op = 0x9D then Some (do { v \<leftarrow> pop16 B; modr (\<lambda>r. r\<lparr>rx_flags := from_word F v\<rparr>); ret 8 })
      else None)"

definition exec_inc_jcc :: "flag_ops \<Rightarrow> 'b X86Bus \<Rightarrow> 'b opcodes" where
  "exec_inc_jcc F B op =
     (if 0x40 \<le> op \<and> op \<le> 0x47 then Some (do {
        v \<leftarrow> getr (\<lambda>r. reg16 r (op AND 7));
        r \<leftarrow> runf (\<lambda>f. alu_inc F w16 f v);
        modr (set_reg16 (op AND 7) r);
        ret 2
      })
      else if 0x48 \<le> op \<and> op \<le> 0x4F then Some (do {
        v \<leftarrow> getr (\<lambda>r. reg16 r (op AND 7));
        r \<leftarrow> runf (\<lambda>f. alu_dec F w16 f v);
        modr (set_reg16 (op AND 7) r);
        ret 2
      })
      else if 0x60 \<le> op \<and> op \<le> 0x7F then Some (do {
        rel \<leftarrow> fetch_rel8 B;
        f \<leftarrow> getr rx_flags;
        if cond F f (op AND 0xF) then do { set_ip (\<lambda>r. rx_ip r + rel); ret 16 } else ret 4
      })
      else None)"

definition exec_xchg :: "flag_ops \<Rightarrow> 'b X86Bus \<Rightarrow> 'b opcodes" where
  "exec_xchg F B op =
     (if op = 0x84 then Some (op_rm_r8 B (alu_and F w8) False)
      else if op = 0x85 then Some (op_rm_r16 B (alu_and F w16) False)
      else if op = 0x86 then Some (do {
        (m, opd) \<leftarrow> modrm B;
        a \<leftarrow> read_op8 B opd;
        b \<leftarrow> getr (\<lambda>r. reg8 r (mreg m));
        write_op8 B opd b;
        modr (set_reg8 (mreg m) a);
        mem_cycles opd 17 4
      })
      else if op = 0x87 then Some (do {
        (m, opd) \<leftarrow> modrm B;
        a \<leftarrow> read_op16 B opd;
        b \<leftarrow> getr (\<lambda>r. reg16 r (mreg m));
        write_op16 B opd b;
        modr (set_reg16 (mreg m) a);
        mem_cycles opd 17 4
      })
      else if 0x90 \<le> op \<and> op \<le> 0x97 then Some (do {
        let k = op AND 7;
        t \<leftarrow> getr rx_ax;
        modr (\<lambda>r. r\<lparr>rx_ax := reg16 r k\<rparr>);
        modr (set_reg16 k t);
        ret 3
      })
      else if op = 0xA8 then Some (do {
        b \<leftarrow> x86_fetch_byte B;
        a \<leftarrow> getr (\<lambda>r. reg8 r 0);
        _ \<leftarrow> runf (\<lambda>f. alu_and F w8 f a b);
        ret 4
      })
      else if op = 0xA9 then Some (do {
        b \<leftarrow> x86_fetch_word B;
        a \<leftarrow> getr rx_ax;
        _ \<leftarrow> runf (\<lambda>f. alu_and F w16 f a b);
        ret 4
      })
      else None)"

definition exec_mov :: "'b X86Bus \<Rightarrow> 'b opcodes" where
  "exec_mov B op =
     (if op = 0x88 then Some (do {
        (m, opd) \<leftarrow> modrm B;
        v \<leftarrow> getr (\<lambda>r. reg8 r (mreg m));
        write_op8 B opd v;
        mem_cycles opd 9 2
      })
      else if op = 0x89 then Some (do {
        (m, opd) \<leftarrow> modrm B;
        v \<leftarrow> getr (\<lambda>r. reg16 r (mreg m));
        write_op16 B opd v;
        mem_cycles opd 9 2
      })
      else if op = 0x8A then Some (do {
        (m, opd) \<leftarrow> modrm B;
        v \<leftarrow> read_op8 B opd;
        modr (set_reg8 (mreg m) v);
        mem_cycles opd 8 2
      })
      else if op = 0x8B then Some (do {
        (m, opd) \<leftarrow> modrm B;
        v \<leftarrow> read_op16 B opd;
        modr (set_reg16 (mreg m) v);
        mem_cycles opd 8 2
      })
      else if op = 0x8C then Some (do {
        (m, opd) \<leftarrow> modrm B;
        v \<leftarrow> getr (\<lambda>r. seg r (mreg m));
        write_op16 B opd v;
        mem_cycles opd 9 2
      })
      else if op = 0x8E then Some (do {
        (m, opd) \<leftarrow> modrm B;
        v \<leftarrow> read_op16 B opd;
        modr (set_seg (mreg m) v);
        (if mreg m AND 3 = x86_SS then modc (\<lambda>c. c\<lparr>xc_inhibit := True\<rparr>) else ret ());
        mem_cycles opd 8 2
      })
      else if op = 0x8D then Some (do {
        (m, opd) \<leftarrow> modrm B;
        (case opd of OpMem _ off \<Rightarrow> modr (set_reg16 (mreg m) off) | OpReg _ \<Rightarrow> ret ());
        ea \<leftarrow> getc xc_ea_cycles;
        ret (2 + ea)
      })
      else None)"

definition exec_mov_direct :: "'b X86Bus \<Rightarrow> 'b opcodes" where
  "exec_mov_direct B op =
     (if op = 0xA0 then Some (do {
        off \<leftarrow> x86_fetch_word B;
        sg \<leftarrow> getc (\<lambda>c. seg_or c x86_DS);
        v \<leftarrow> x86_read8 B sg off;
        modr (set_reg8 0 v);
        ret 10
      })
      else if op = 0xA1 then Some (do {
        off \<leftarrow> x86_fetch_word B;
        sg \<leftarrow> getc (\<lambda>c. seg_or c x86_DS);
        v \<leftarrow> x86_read16 B sg off;
        modr (\<lambda>r. r\<lparr>rx_ax := v\<rparr>);
        ret 10
      })
      else if op = 0xA2 then Some (do {
        off \<leftarrow> x86_fetch_word B;
        sg \<leftarrow> getc (\<lambda>c. seg_or c x86_DS);
        v \<leftarrow> getr (\<lambda>r. reg8 r 0);
        x86_write8 B sg off v;
        ret 10
      })
      else if op = 0xA3 then Some (do {
        off \<leftarrow> x86_fetch_word B;
        sg \<leftarrow> getc (\<lambda>c. seg_or c x86_DS);
        v \<leftarrow> getr rx_ax;
        x86_write16 B sg off v;
        ret 10
      })
      else None)"

definition exec_mov_imm :: "'b X86Bus \<Rightarrow> 'b opcodes" where
  "exec_mov_imm B op =
     (if 0xB0 \<le> op \<and> op \<le> 0xB7 then Some (do {
        v \<leftarrow> x86_fetch_byte B;
        modr (set_reg8 (op AND 7) v);
        ret 4
      })
      else if 0xB8 \<le> op \<and> op \<le> 0xBF then Some (do {
        v \<leftarrow> x86_fetch_word B;
        modr (set_reg16 (op AND 7) v);
        ret 4
      })
      else if op = 0xC6 then Some (do {
        (_, opd) \<leftarrow> modrm B;
        v \<leftarrow> x86_fetch_byte B;
        write_op8 B opd v;
        mem_cycles opd 10 4
      })
      else if op = 0xC7 then Some (do {
        (_, opd) \<leftarrow> modrm B;
        v \<leftarrow> x86_fetch_word B;
        write_op16 B opd v;
        mem_cycles opd 10 4
      })
      else None)"

definition exec_load_far :: "'b X86Bus \<Rightarrow> 'b opcodes" where
  "exec_load_far B op =
     (if op \<in> {0xC4, 0xC5} then Some (do {
        (m, opd) \<leftarrow> modrm B;
        (case opd of
           OpMem sg off \<Rightarrow> do {
             v \<leftarrow> x86_read16 B sg off;
             s \<leftarrow> x86_read16 B sg (off + 2);
             modr (set_reg16 (mreg m) v);
             modr (\<lambda>r. if op = 0xC4 then r\<lparr>rx_es := s\<rparr> else r\<lparr>rx_ds := s\<rparr>)
           }
         | OpReg _ \<Rightarrow> ret ());
        ea \<leftarrow> getc xc_ea_cycles;
        ret (16 + ea)
      })
      else None)"

definition set_flags :: "(Flags \<Rightarrow> Flags) \<Rightarrow> ('b, unit) x86" where
  "set_flags f = modr (\<lambda>r. r\<lparr>rx_flags := f (rx_flags r)\<rparr>)"

definition exec_convert :: "flag_ops \<Rightarrow> 'b opcodes" where
  "exec_convert F op =
     (if op = 0x98 then Some (do { modr (\<lambda>r. r\<lparr>rx_ax := scast (ucast (rx_ax r) :: u8)\<rparr>); ret 2 })
      else if op = 0x99 then Some (do {
        modr (\<lambda>r. r\<lparr>rx_dx := (if rx_ax r AND 0x8000 \<noteq> 0 then 0xFFFF else 0)\<rparr>);
        ret 5
      })
      else if op = 0x9E then Some (do {
        modr (\<lambda>r. let ah = drop_bit 8 (rx_ax r); keep = rx_flags r AND 0xFF00
                   in r\<lparr>rx_flags := fl_truncate F (keep OR ah)\<rparr>);
        ret 4
      })
      else if op = 0x9F then Some (do {
        modr (\<lambda>r. let lo = (ucast (rx_flags r) AND 0xD5) OR 0x02 :: u8
                   in r\<lparr>rx_ax := (rx_ax r AND 0x00FF) OR push_bit 8 (ucast lo)\<rparr>);
        ret 4
      })
      else None)"

definition exec_bcd :: "flag_ops \<Rightarrow> 'b X86Bus \<Rightarrow> 'b opcodes" where
  "exec_bcd F B op =
     (if op = 0x27 then Some (do { modr (daa F); ret 4 })
      else if op = 0x2F then Some (do { modr (das F); ret 4 })
      else if op = 0x37 then Some (do { modr (aaa F); ret 8 })
      else if op = 0x3F then Some (do { modr (aas F); ret 8 })
      else if op = 0xD4 then Some (do {
        base \<leftarrow> x86_fetch_byte B;
        ok \<leftarrow> runr (aam F base);
        do_if (\<not> ok) (interrupt F B 0);
        ret 83
      })
      else if op = 0xD5 then Some (do { base \<leftarrow> x86_fetch_byte B; modr (aad F base); ret 60 })
      else None)"

definition exec_string :: "flag_ops \<Rightarrow> 'b X86Bus \<Rightarrow> 'b opcodes" where
  "exec_string F B op =
     (if op = 0xA4 then Some (rep_str F (movs8 F B) False 18 17)
      else if op = 0xA5 then Some (rep_str F (movs16 F B) False 18 17)
      else if op = 0xA6 then Some (rep_str F (cmps8 F B) True 22 22)
      else if op = 0xA7 then Some (rep_str F (cmps16 F B) True 22 22)
      else if op = 0xAA then Some (rep_str F (stos8 F B) False 11 10)
      else if op = 0xAB then Some (rep_str F (stos16 F B) False 11 10)
      else if op = 0xAC then Some (rep_str F (lods8 F B) False 12 13)
      else if op = 0xAD then Some (rep_str F (lods16 F B) False 12 13)
      else if op = 0xAE then Some (rep_str F (scas8 F B) True 15 15)
      else if op = 0xAF then Some (rep_str F (scas16 F B) True 15 15)
      else None)"

definition exec_shift :: "flag_ops \<Rightarrow> 'b X86Bus \<Rightarrow> 'b opcodes" where
  "exec_shift F B op =
     (if op = 0xD0 then Some (shift_grp8 F B None)
      else if op = 0xD1 then Some (shift_grp16 F B None)
      else if op = 0xD2 then Some (do {
        c \<leftarrow> getr (\<lambda>r. ucast (ucast (rx_cx r) :: u8));
        shift_grp8 F B (Some c)
      })
      else if op = 0xD3 then Some (do {
        c \<leftarrow> getr (\<lambda>r. ucast (ucast (rx_cx r) :: u8));
        shift_grp16 F B (Some c)
      })
      else None)"

definition pop_ip :: "'b X86Bus \<Rightarrow> ('b, unit) x86" where
  "pop_ip B = do { v \<leftarrow> pop16 B; set_ip (\<lambda>_. v) }"
definition pop_cs :: "'b X86Bus \<Rightarrow> ('b, unit) x86" where
  "pop_cs B = do { v \<leftarrow> pop16 B; modr (\<lambda>r. r\<lparr>rx_cs := v\<rparr>) }"
definition add_sp :: "u16 \<Rightarrow> ('b, unit) x86" where
  "add_sp n = modr (\<lambda>r. r\<lparr>rx_sp := rx_sp r + n\<rparr>)"

definition exec_ret :: "flag_ops \<Rightarrow> 'b X86Bus \<Rightarrow> 'b opcodes" where
  "exec_ret F B op =
     (if op \<in> {0xC3, 0xC1} then Some (do { pop_ip B; ret 16 })
      else if op \<in> {0xC2, 0xC0} then Some (do { n \<leftarrow> x86_fetch_word B; pop_ip B; add_sp n; ret 20 })
      else if op \<in> {0xCB, 0xC9} then Some (do { pop_ip B; pop_cs B; ret 26 })
      else if op \<in> {0xCA, 0xC8} then Some (do {
        n \<leftarrow> x86_fetch_word B;
        pop_ip B;
        pop_cs B;
        add_sp n;
        ret 25
      })
      else if op = 0xCC then Some (do { interrupt F B 3; ret 52 })
      else if op = 0xCD then Some (do { v \<leftarrow> x86_fetch_byte B; interrupt F B v; ret 51 })
      else if op = 0xCE then Some (do {
        f \<leftarrow> getr rx_flags;
        if fl_contains F f Flags_OF then do { interrupt F B 4; ret 53 } else ret 4
      })
      else if op = 0xCF then Some (do {
        pop_ip B;
        pop_cs B;
        f \<leftarrow> pop16 B;
        set_flags (\<lambda>_. from_word F f);
        ret 24
      })
      else None)"

definition exec_xlat_esc :: "flag_ops \<Rightarrow> 'b X86Bus \<Rightarrow> 'b opcodes" where
  "exec_xlat_esc F B op =
     (if op = 0xD6 then Some (do {
        v \<leftarrow> getr (\<lambda>r. if fl_contains F (rx_flags r) Flags_CF then 0xFF else 0);
        modr (set_reg8 0 v);
        ret 3
      })
      else if op = 0xD7 then Some (do {
        sg \<leftarrow> getc (\<lambda>c. seg_or c x86_DS);
        off \<leftarrow> getr (\<lambda>r. rx_bx r + (rx_ax r AND 0xFF));
        v \<leftarrow> x86_read8 B sg off;
        modr (set_reg8 0 v);
        ret 11
      })
      else if 0xD8 \<le> op \<and> op \<le> 0xDF then Some (do {
        (_, opd) \<leftarrow> modrm B;
        (case opd of
           OpMem sg off \<Rightarrow> do { _ \<leftarrow> x86_read8 B sg off; ret () }
         | OpReg _ \<Rightarrow> ret ());
        mem_cycles opd 8 2
      })
      else None)"

definition exec_loop :: "flag_ops \<Rightarrow> 'b X86Bus \<Rightarrow> 'b opcodes" where
  "exec_loop F B op =
     (let dec_cx = modr (\<lambda>r. r\<lparr>rx_cx := rx_cx r - 1\<rparr>);
          branch = (\<lambda>rel p taken other.
            if p then do { set_ip (\<lambda>r. rx_ip r + rel); ret taken } else ret other)
      in if op = 0xE0 then Some (do {
           rel \<leftarrow> fetch_rel8 B;
           dec_cx;
           p \<leftarrow> getr (\<lambda>r. rx_cx r \<noteq> 0 \<and> \<not> fl_contains F (rx_flags r) Flags_ZF);
           branch rel p 19 5
         })
         else if op = 0xE1 then Some (do {
           rel \<leftarrow> fetch_rel8 B;
           dec_cx;
           p \<leftarrow> getr (\<lambda>r. rx_cx r \<noteq> 0 \<and> fl_contains F (rx_flags r) Flags_ZF);
           branch rel p 18 6
         })
         else if op = 0xE2 then Some (do {
           rel \<leftarrow> fetch_rel8 B;
           dec_cx;
           p \<leftarrow> getr (\<lambda>r. rx_cx r \<noteq> 0);
           branch rel p 17 5
         })
         else if op = 0xE3 then Some (do {
           rel \<leftarrow> fetch_rel8 B;
           p \<leftarrow> getr (\<lambda>r. rx_cx r = 0);
           branch rel p 18 6
         })
         else None)"

definition exec_io :: "'b X86Bus \<Rightarrow> 'b opcodes" where
  "exec_io B op =
     (let imm_port = do { p \<leftarrow> x86_fetch_byte B; ret (ucast p :: u16) }
      in if op = 0xE4 then Some (do { p \<leftarrow> imm_port; v \<leftarrow> io_read8 B p; modr (set_reg8 0 v); ret 10 })
         else if op = 0xE5 then Some (do { p \<leftarrow> imm_port; v \<leftarrow> io_read16 B p; modr (\<lambda>r. r\<lparr>rx_ax := v\<rparr>); ret 10 })
         else if op = 0xE6 then Some (do { p \<leftarrow> imm_port; v \<leftarrow> getr (\<lambda>r. reg8 r 0); io_write8 B p v; ret 10 })
         else if op = 0xE7 then Some (do { p \<leftarrow> imm_port; v \<leftarrow> getr rx_ax; io_write16 B p v; ret 10 })
         else if op = 0xEC then Some (do { p \<leftarrow> getr rx_dx; v \<leftarrow> io_read8 B p; modr (set_reg8 0 v); ret 8 })
         else if op = 0xED then Some (do { p \<leftarrow> getr rx_dx; v \<leftarrow> io_read16 B p; modr (\<lambda>r. r\<lparr>rx_ax := v\<rparr>); ret 8 })
         else if op = 0xEE then Some (do { p \<leftarrow> getr rx_dx; v \<leftarrow> getr (\<lambda>r. reg8 r 0); io_write8 B p v; ret 8 })
         else if op = 0xEF then Some (do { (p, v) \<leftarrow> getr (\<lambda>r. (rx_dx r, rx_ax r)); io_write16 B p v; ret 8 })
         else None)"

definition set_cs_ip :: "u16 \<Rightarrow> u16 \<Rightarrow> ('b, unit) x86" where
  "set_cs_ip sg off = modr (\<lambda>r. r\<lparr>rx_cs := sg, rx_ip := off\<rparr>)"

definition exec_jump :: "'b X86Bus \<Rightarrow> 'b opcodes" where
  "exec_jump B op =
     (if op = 0x9A then Some (do {
        off \<leftarrow> x86_fetch_word B;
        sg \<leftarrow> x86_fetch_word B;
        (cs, ip) \<leftarrow> getr (\<lambda>r. (rx_cs r, rx_ip r));
        push16 B cs;
        push16 B ip;
        set_cs_ip sg off;
        ret 28
      })
      else if op = 0xE8 then Some (do {
        rel \<leftarrow> x86_fetch_word B;
        ip \<leftarrow> getr rx_ip;
        push16 B ip;
        set_ip (\<lambda>_. ip + rel);
        ret 19
      })
      else if op = 0xE9 then Some (do { rel \<leftarrow> x86_fetch_word B; set_ip (\<lambda>r. rx_ip r + rel); ret 15 })
      else if op = 0xEA then Some (do {
        off \<leftarrow> x86_fetch_word B;
        sg \<leftarrow> x86_fetch_word B;
        set_cs_ip sg off;
        ret 15
      })
      else if op = 0xEB then Some (do { rel \<leftarrow> fetch_rel8 B; set_ip (\<lambda>r. rx_ip r + rel); ret 15 })
      else None)"

definition exec_control :: "flag_ops \<Rightarrow> 'b opcodes" where
  "exec_control F op =
     (if op = 0x9B then Some (ret 3)
      else if op = 0xF4 then Some (do { modc (\<lambda>c. c\<lparr>xc_halted := True\<rparr>); ret 2 })
      else if op = 0xF5 then Some (do { set_flags (\<lambda>f. fl_toggle F f Flags_CF); ret 2 })
      else if op = 0xF8 then Some (do { set_flags (\<lambda>f. fl_remove F f Flags_CF); ret 2 })
      else if op = 0xF9 then Some (do { set_flags (\<lambda>f. fl_insert F f Flags_CF); ret 2 })
      else if op = 0xFA then Some (do { set_flags (\<lambda>f. fl_remove F f Flags_IF); ret 2 })
      else if op = 0xFB then Some (do {
        set_flags (\<lambda>f. fl_insert F f Flags_IF);
        modc (\<lambda>c. c\<lparr>xc_inhibit := True\<rparr>);
        ret 2
      })
      else if op = 0xFC then Some (do { set_flags (\<lambda>f. fl_remove F f Flags_DF); ret 2 })
      else if op = 0xFD then Some (do { set_flags (\<lambda>f. fl_insert F f Flags_DF); ret 2 })
      else None)"

text \<open>The groups \<open>F6\<close> and \<open>F7\<close>; \<open>mem\<close> and \<open>ea\<close> are those of the operand.\<close>

definition group_f6 :: "flag_ops \<Rightarrow> 'b X86Bus \<Rightarrow> ('b, u32) x86" where
  "group_f6 F B = do {
     (m, op) \<leftarrow> modrm B;
     v \<leftarrow> read_op8 B op;
     ea \<leftarrow> getc xc_ea_cycles;
     let mem = is_mem op;
     let extra = (if mem then 6 + ea else 0);
     if mreg m \<in> {0, 1} then do {
       b \<leftarrow> x86_fetch_byte B;
       _ \<leftarrow> runf (\<lambda>f. alu_and F w8 f v b);
       ret (if mem then 11 + ea else 5)
     }
     else if mreg m = 2 then do { write_op8 B op (NOT v); ret (if mem then 16 + ea else 3) }
     else if mreg m = 3 then do {
       r \<leftarrow> runf (\<lambda>f. alu_neg F w8 f v);
       write_op8 B op r;
       ret (if mem then 16 + ea else 3)
     }
     else if mreg m = 4 then do { modr (mul8 F v); ret (70 + extra) }
     else if mreg m = 5 then do { modr (imul8 F v); ret (90 + extra) }
     else do {
       rep \<leftarrow> getc xc_rep;
       let sgnd = mreg m \<noteq> 6;
       ok \<leftarrow> runr (div8 F rep v sgnd);
       do_if (\<not> ok) (interrupt F B 0);
       ret ((if sgnd then 110 else 85) + extra)
     }
   }"

definition group_f7 :: "flag_ops \<Rightarrow> 'b X86Bus \<Rightarrow> ('b, u32) x86" where
  "group_f7 F B = do {
     (m, op) \<leftarrow> modrm B;
     v \<leftarrow> read_op16 B op;
     ea \<leftarrow> getc xc_ea_cycles;
     let mem = is_mem op;
     let extra = (if mem then 6 + ea else 0);
     if mreg m \<in> {0, 1} then do {
       b \<leftarrow> x86_fetch_word B;
       _ \<leftarrow> runf (\<lambda>f. alu_and F w16 f v b);
       ret (if mem then 11 + ea else 5)
     }
     else if mreg m = 2 then do { write_op16 B op (NOT v); ret (if mem then 16 + ea else 3) }
     else if mreg m = 3 then do {
       r \<leftarrow> runf (\<lambda>f. alu_neg F w16 f v);
       write_op16 B op r;
       ret (if mem then 16 + ea else 3)
     }
     else if mreg m = 4 then do { modr (mul16 F v); ret (118 + extra) }
     else if mreg m = 5 then do { modr (imul16 F v); ret (144 + extra) }
     else do {
       rep \<leftarrow> getc xc_rep;
       let sgnd = mreg m \<noteq> 6;
       ok \<leftarrow> runr (div16 F rep v sgnd);
       do_if (\<not> ok) (interrupt F B 0);
       ret ((if sgnd then 176 else 155) + extra)
     }
   }"

definition group_fe :: "flag_ops \<Rightarrow> 'b X86Bus \<Rightarrow> ('b, u32) x86" where
  "group_fe F B = do {
     (m, op) \<leftarrow> modrm B;
     v \<leftarrow> read_op8 B op;
     r \<leftarrow> runf (\<lambda>f. if mreg m AND 1 = 0 then alu_inc F w8 f v else alu_dec F w8 f v);
     write_op8 B op r;
     mem_cycles op 15 3
   }"

definition group_ff :: "flag_ops \<Rightarrow> 'b X86Bus \<Rightarrow> ('b, u32) x86" where
  "group_ff F B = do {
     (m, op) \<leftarrow> modrm B;
     ea \<leftarrow> getc xc_ea_cycles;
     let mem = is_mem op;
     if mreg m = 0 then do {
       v \<leftarrow> read_op16 B op;
       r \<leftarrow> runf (\<lambda>f. alu_inc F w16 f v);
       write_op16 B op r;
       ret (if mem then 15 + ea else 3)
     }
     else if mreg m = 1 then do {
       v \<leftarrow> read_op16 B op;
       r \<leftarrow> runf (\<lambda>f. alu_dec F w16 f v);
       write_op16 B op r;
       ret (if mem then 15 + ea else 3)
     }
     else if mreg m = 2 then do {
       v \<leftarrow> read_op16 B op;
       ip \<leftarrow> getr rx_ip;
       push16 B ip;
       set_ip (\<lambda>_. v);
       ret (if mem then 21 + ea else 16)
     }
     else if mreg m = 3 then do {
       (off, sg) \<leftarrow> far_operand B op;
       (cs, ip) \<leftarrow> getr (\<lambda>r. (rx_cs r, rx_ip r));
       push16 B cs;
       push16 B ip;
       set_cs_ip sg off;
       ret (37 + ea)
     }
     else if mreg m = 4 then do {
       v \<leftarrow> read_op16 B op;
       set_ip (\<lambda>_. v);
       ret (if mem then 18 + ea else 11)
     }
     else if mreg m = 5 then do {
       (off, sg) \<leftarrow> far_operand B op;
       set_cs_ip sg off;
       ret (24 + ea)
     }
     else do {
       v \<leftarrow> (if op = OpReg 4 then getr (\<lambda>r. rx_sp r - 2) else read_op16 B op);
       push16 B v;
       ret (if mem then 16 + ea else 11)
     }
   }"

definition exec_group :: "flag_ops \<Rightarrow> 'b X86Bus \<Rightarrow> 'b opcodes" where
  "exec_group F B op =
     (if op = 0xF6 then Some (group_f6 F B)
      else if op = 0xF7 then Some (group_f7 F B)
      else if op = 0xFE then Some (group_fe F B)
      else if op = 0xFF then Some (group_ff F B)
      else None)"

text \<open>The first section that has the opcode.\<close>

fun first_of :: "('b opcodes) list \<Rightarrow> 'b opcodes" where
  "first_of [] op = None"
| "first_of (e # es) op = (case e op of Some a \<Rightarrow> Some a | None \<Rightarrow> first_of es op)"

definition x86_dispatch :: "flag_ops \<Rightarrow> 'b X86Bus \<Rightarrow> 'b opcodes" where
  "x86_dispatch F B =
     first_of [exec_alu F B, exec_stack F B, exec_inc_jcc F B, exec_xchg F B, exec_mov B, exec_mov_direct B,
       exec_mov_imm B, exec_load_far B, exec_convert F, exec_bcd F B, exec_string F B, exec_shift F B, exec_ret F B, exec_xlat_esc F B,
       exec_loop F B, exec_io B, exec_jump B, exec_control F, exec_group F B]"

end
