(* ===== verification/X86_Shift.thy ===== *)
theory X86_Shift
  imports X86_Arith X86_Execute
begin

text \<open>
  What the condition codes, the shifts and rotates, and the products compute. The shift loops of the code
  move one bit per round; their closed forms are the shifts of the word library.
\<close>

subsection \<open>Conditions after a comparison\<close>

text \<open>The sixteen relations between the operands of a comparison that the even and odd codes test.\<close>

definition relation_of_code :: "u8 \<Rightarrow> 'a::len word \<Rightarrow> 'a word \<Rightarrow> bool" where
  "relation_of_code n a b =
     ((if drop_bit 1 n = 0 then sint a - sint b \<notin> {- (2 ^ (LENGTH('a) - 1))..<2 ^ (LENGTH('a) - 1)}
       else if drop_bit 1 n = 1 then a < b
       else if drop_bit 1 n = 2 then a = b
       else if drop_bit 1 n = 3 then a \<le> b
       else if drop_bit 1 n = 4 then sint (a - b) < 0
       else if drop_bit 1 n = 5 then even (ones (ucast (a - b) :: u8))
       else if drop_bit 1 n = 6 then sint a < sint b
       else sint a \<le> sint b) \<noteq> (n AND 1 \<noteq> 0))"

context alu_size
begin

lemma sub_result: "fst (alu_sub fstd w f a b) = a - b"
  by (simp add: alu_sub_def Let_def)

lemma compare_flags:
  fixes a b :: "'a word"
  assumes "alu_sub fstd w f a b = (r, g)"
  shows "bit g 0 \<longleftrightarrow> a < b" and "bit g 6 \<longleftrightarrow> a = b" and "(bit g 7 \<noteq> bit g 11) \<longleftrightarrow> sint a < sint b"
    and "bit g 7 \<longleftrightarrow> sint (a - b) < 0" and "bit g 2 \<longleftrightarrow> even (ones (ucast (a - b) :: u8))"
    and "bit g 11 \<longleftrightarrow> sint a - sint b \<notin> {- (2 ^ (LENGTH('a) - 1))..<2 ^ (LENGTH('a) - 1)}"
proof -
  let ?H = "2 ^ (LENGTH('a) - 1) :: int"
  have r: "r = a - b" using sub_result [of f a b] assms by simp
  have d: "difference_flags 0 a b f (r, g)" using sub_flag_bits [of a b f] assms by simp
  have e: "uint r + uint b = uint a + 2 ^ LENGTH('a) * of_bool (bit g 0)"
    and ov: "bit g 11 \<longleftrightarrow> sint a - sint b \<notin> {- ?H..<?H}" and res: "result_flags f g r"
    using d by (simp_all add: difference_flags_def)
  have bounds: "0 \<le> uint x" "uint x < 2 ^ LENGTH('a)" for x :: "'a word" by (simp_all add: uint_lt2p)
  show cf: "bit g 0 \<longleftrightarrow> a < b"
  proof (cases "bit g 0")
    case True
    then have "uint r + uint b = uint a + 2 ^ LENGTH('a)" using e by simp
    then have "uint a < uint b" using bounds [of r] by linarith
    then show ?thesis using True by (simp add: word_less_def)
  next
    case False
    then have "uint r + uint b = uint a" using e by simp
    then have "\<not> uint a < uint b" using bounds [of r] by linarith
    then show ?thesis using False by (simp add: word_less_def)
  qed
  show "bit g 6 \<longleftrightarrow> a = b" using res r by (simp add: result_flags_def)
  show sf: "bit g 7 \<longleftrightarrow> sint (a - b) < 0" using res r by (simp add: result_flags_def)
  show "bit g 2 \<longleftrightarrow> even (ones (ucast (a - b) :: u8))" using res r by (simp add: result_flags_def)
  show "bit g 11 \<longleftrightarrow> sint a - sint b \<notin> {- ?H..<?H}" by (rule ov)
  have s: "- ?H \<le> sint x" "sint x < ?H" for x :: "'a word" using sint_ge [of x] sint_lt [of x] by simp_all
  obtain k where k: "sint r = sint a - sint b + 2 * ?H * k"
  proof -
    have "sint r = uint r - 2 * ?H * of_bool (bit r (LENGTH('a) - 1))"
      "sint a = uint a - 2 * ?H * of_bool (bit a (LENGTH('a) - 1))"
      "sint b = uint b - 2 * ?H * of_bool (bit b (LENGTH('a) - 1))"
      by (simp_all add: sint_top pow_top)
    then have "sint r = sint a - sint b + 2 * ?H * (of_bool (bit g 0) + of_bool (bit a (LENGTH('a) - 1))
        - of_bool (bit b (LENGTH('a) - 1)) - of_bool (bit r (LENGTH('a) - 1)))"
      using e unfolding pow_top by (simp add: algebra_simps)
    then show thesis by (rule that)
  qed
  have "(sint r < 0) = ((sint a < sint b) \<noteq> (sint a - sint b \<notin> {- ?H..<?H}))"
  proof -
    have "- ?H \<le> sint a - sint b + 2 * ?H * k" "sint a - sint b + 2 * ?H * k < ?H" using s [of r] k by simp_all
    moreover have "- (2 * ?H) < sint a - sint b" "sint a - sint b < 2 * ?H"
      using s [of a] s [of b] by linarith+
    ultimately have "k = 0 \<or> k = 1 \<and> sint a - sint b < 0 \<or> k = - 1 \<and> 0 \<le> sint a - sint b"
    proof -
      assume h: "- ?H \<le> sint a - sint b + 2 * ?H * k" "sint a - sint b + 2 * ?H * k < ?H"
        "- (2 * ?H) < sint a - sint b" "sint a - sint b < 2 * ?H"
      have "- 2 < k" "k < 2"
      proof -
        have "2 * ?H * k < 2 * ?H * 2" "2 * ?H * (- 2) < 2 * ?H * k" using h by linarith+
        moreover have "0 < 2 * ?H" by simp
        ultimately show "- 2 < k" "k < 2" by (metis mult_less_cancel_left_pos)+
      qed
      then have "k = 0 \<or> k = 1 \<or> k = - 1" by linarith
      then show ?thesis using h by auto
    qed
    then show ?thesis
      using k s [of r] s [of a] s [of b] by (elim disjE conjE; simp only: atLeastLessThan_iff; simp; linarith)
  qed
  then show "(bit g 7 \<noteq> bit g 11) \<longleftrightarrow> sint a < sint b" using sf ov r by auto
qed

end

text \<open>
  Compare and branch. After a comparison (\<open>CMP\<close>, the subtraction whose result is dropped) each of the
  sixteen condition codes of \<open>Jcc\<close> is the relation between the two operands it is named for, unsigned and
  signed, at both widths.
\<close>

lemma x86_compare_condition:
  assumes "bitflags_all_laws Flags_all F"
  shows "(cond F (snd (alu_sub F w8 f a b)) n \<longleftrightarrow> relation_of_code n a b) \<and>
    (cond F (snd (alu_sub F w16 f x y)) n \<longleftrightarrow> relation_of_code n x y)"
proof -
  have F: "F = fstd" using assms by (rule bitflags_all_laws_std)
  obtain r g where b: "alu_sub fstd w8 f a b = (r, g)" by fastforce
  obtain s h where w: "alu_sub fstd w16 f x y = (s, h)" by fastforce
  note bc = byte.compare_flags [OF b] note wc = word.compare_flags [OF w]
  have le: "a \<le> b \<longleftrightarrow> a < b \<or> a = b" "x \<le> y \<longleftrightarrow> x < y \<or> x = y" by auto
  have sle: "sint a \<le> sint b \<longleftrightarrow> a = b \<or> sint a < sint b" "sint x \<le> sint y \<longleftrightarrow> x = y \<or> sint x < sint y"
    by (auto simp: less_le intro: signed_word_eqI)
  show ?thesis
    unfolding F b w snd_conv cond_def relation_of_code_def Let_def fstd_ops contains_Flags le sle bc(3) wc(3)
    unfolding bc wc by auto
qed


subsection \<open>Shifts and rotates\<close>

text \<open>
  What a shift or rotate by \<open>n > 0\<close> yields, by its place in the group: the result, the last bit shifted out,
  and the overflow flag. The rotates through the carry are treated below.
\<close>

definition shift_result :: "u8 \<Rightarrow> nat \<Rightarrow> 'a::len word \<Rightarrow> 'a word" where
  "shift_result k n v =
     (if k = 0 then word_rotl n v else if k = 1 then word_rotr n v else if k = 4 then push_bit n v
      else if k = 5 then drop_bit n v else signed_drop_bit n v)"

definition shift_carry :: "u8 \<Rightarrow> nat \<Rightarrow> 'a::len word \<Rightarrow> bool" where
  "shift_carry k n v =
     (if k = 0 then bit (word_rotl n v) 0 else if k = 1 then bit (word_rotr n v) (LENGTH('a) - 1)
      else if k = 4 then n \<le> LENGTH('a) \<and> bit v (LENGTH('a) - n)
      else if k = 5 then bit v (n - 1) else bit v (min (n - 1) (LENGTH('a) - 1)))"

definition shift_overflow :: "u8 \<Rightarrow> nat \<Rightarrow> 'a::len word \<Rightarrow> bool" where
  "shift_overflow k n v =
     (if k \<in> {0, 4} then bit (shift_result k n v) (LENGTH('a) - 1) \<noteq> shift_carry k n v
      else if k = 1 then bit (shift_result k n v) (LENGTH('a) - 1) \<noteq> bit (shift_result k n v) (LENGTH('a) - 2)
      else if k = 5 then n = 1 \<and> bit v (LENGTH('a) - 1) else False)"

lemma set_set_CF: "fl_set bitflags_std (fl_set bitflags_std f Flags_CF a) Flags_CF b = fl_set bitflags_std f Flags_CF b"
  by (rule bit_word_eqI) (simp add: flag_simps)

lemma and_one_odd: "(v :: 'a::len word) AND 1 \<noteq> 0 \<longleftrightarrow> bit v 0"
  using and_single_bit_nonzero [of v 0] by simp

lemma rotl_add: "word_rotl m (word_rotl n (v :: 'a::len word)) = word_rotl (n + m) v"
proof -
  have "word_rotr (n + m) (word_rotl m (word_rotl n v)) = v"
    by (simp flip: word_rotr_word_rotr_eq)
  then show ?thesis by (simp only: word_rot_gal)
qed

context alu_size
begin

lemma bit_shl_one: "bit (push_bit 1 (v :: 'a word)) k \<longleftrightarrow> 0 < k \<and> k < LENGTH('a) \<and> bit v (k - 1)"
  unfolding bit_push_bit_iff by (auto dest: bit_imp_le_length)

lemma shl_loop_closed:
  "shl_loop fstd w n (f, v) =
     (if n = 0 then f else fl_set bitflags_std f Flags_CF (n \<le> LENGTH('a) \<and> bit v (LENGTH('a) - n)), push_bit n v)"
proof (induction n arbitrary: f v)
  case (Suc n)
  have e: "n \<le> LENGTH('a) \<and> bit (push_bit 1 v) (LENGTH('a) - n) \<longleftrightarrow>
      Suc n \<le> LENGTH('a) \<and> bit v (LENGTH('a) - Suc n)" if "n \<noteq> 0"
    using that unfolding bit_shl_one by auto
  have p: "push_bit n (push_bit 1 v) = push_bit (Suc n) v" by (simp only: push_bit_push_bit) simp
  have l: "Suc 0 \<le> LENGTH('a)" using wide by simp
  show ?case
    unfolding shl_loop.simps Suc.IH fstd_ops sign_bit p
    using l by (cases "n = 0") (simp_all only: e [unfolded One_nat_def] set_set_CF if_True if_False simp_thms One_nat_def diff_Suc_1 refl nat.simps)
qed simp

lemma shr_loop_closed:
  "shr_loop fstd w n (f, v) =
     (if n = 0 then f
      else fl_set bitflags_std (fl_set bitflags_std f Flags_OF (n = 1 \<and> bit v (LENGTH('a) - 1))) Flags_CF (bit v (n - 1)),
      drop_bit n v)"
proof (induction n arbitrary: f v)
  case (Suc n)
  have t: "\<not> bit (drop_bit 1 v) (LENGTH('a) - 1)" using wide by (simp add: bit_drop_bit_eq bit_imp_le_length)
  show ?case
  proof (cases "n = 0")
    case True
    then show ?thesis unfolding shr_loop.simps Let_def fstd_ops sign_bit and_one_odd True by simp
  next
    case False
    have c: "bit (drop_bit 1 v) (n - 1) \<longleftrightarrow> bit v n" using False by (simp add: bit_drop_bit_eq)
    have "fl_set bitflags_std (fl_set bitflags_std (fl_set bitflags_std (fl_set bitflags_std f Flags_OF x) Flags_CF y)
        Flags_OF False) Flags_CF z = fl_set bitflags_std (fl_set bitflags_std f Flags_OF False) Flags_CF z" for x y z
      by (rule bit_word_eqI) (simp add: flag_simps)
    then show ?thesis
      using False t c unfolding shr_loop.simps Let_def fstd_ops sign_bit and_one_odd Suc.IH by (simp add: drop_bit_Suc)
  qed
qed simp

lemma sar_loop_closed:
  "sar_loop fstd n (f, v) =
     (if n = 0 then f else fl_set bitflags_std f Flags_CF (bit v (min (n - 1) (LENGTH('a) - 1))),
      signed_drop_bit n (v :: 'a word))"
proof (induction n arbitrary: f v)
  case (Suc n)
  have e: "bit (signed_drop_bit 1 v) (min (n - 1) (LENGTH('a) - 1)) \<longleftrightarrow> bit v (min n (LENGTH('a) - 1))" if "n \<noteq> 0"
    using that wide by (auto simp: bit_signed_drop_bit_iff min_def not_le)
  have p: "signed_drop_bit n (signed_drop_bit 1 v) = signed_drop_bit (Suc n) v"
    by (rule bit_word_eqI) (auto simp: bit_signed_drop_bit_iff)
  show ?case
    unfolding sar_loop.simps Suc.IH fstd_ops p and_one_odd
    by (cases "n = 0") (simp_all only: e set_set_CF if_True if_False simp_thms diff_Suc_1 refl nat.simps min_0L)
qed simp

lemma rol_loop_closed:
  "rol_loop fstd n (f, v) =
     (if n = 0 then f else fl_set bitflags_std f Flags_CF (bit (word_rotl n v) 0), word_rotl n (v :: 'a word))"
proof (induction n arbitrary: f v)
  case 0
  show ?case by (simp add: word_rotl_eq_word_rotr bit_eq_iff bit_word_rotr_iff bit_imp_le_length) 
next
  case (Suc n)
  have p: "word_rotl n (word_rotl 1 v) = word_rotl (Suc n) v" by (simp add: rotl_add)
  show ?case
    unfolding rol_loop.simps Let_def Suc.IH fstd_ops p and_one_odd
    by (cases "n = 0") (simp_all only: set_set_CF if_True if_False simp_thms refl nat.simps One_nat_def)
qed

lemma ror_loop_closed:
  "ror_loop fstd n (f, v) =
     (if n = 0 then f else fl_set bitflags_std f Flags_CF (bit (word_rotr n v) (LENGTH('a) - 1)), word_rotr n (v :: 'a word))"
proof (induction n arbitrary: f v)
  case 0
  show ?case by (auto simp add: bit_eq_iff bit_word_rotr_iff bit_imp_le_length) 
next
  case (Suc n)
  have p: "word_rotr n (word_rotr 1 v) = word_rotr (Suc n) v" by (simp add: word_rotr_word_rotr_eq)
  have c: "bit v 0 \<longleftrightarrow> bit (word_rotr (Suc 0) v) (LENGTH('a) - 1)" by (simp add: bit_word_rotr_iff)
  show ?case
    unfolding ror_loop.simps Let_def Suc.IH fstd_ops p and_one_odd
    by (cases "n = 0") (simp_all only: set_set_CF if_True if_False simp_thms refl nat.simps c)
qed

lemma shift_op_exact:
  assumes "k \<in> {0, 1, 4, 5, 7}" and "n \<noteq> 0"
  shows "case shift_op fstd w k f (v :: 'a word) n of (r, g) \<Rightarrow>
    r = shift_result k (unat n) v \<and> bit g 0 = shift_carry k (unat n) v \<and> bit g 11 = shift_overflow k (unat n) v"
proof -
  have n: "unat n \<noteq> 0" using assms(2) by (simp add: unat_eq_0)
  have ror: "(r XOR push_bit 1 r) AND aw_sign w \<noteq> 0 \<longleftrightarrow> bit r (LENGTH('a) - 1) \<noteq> bit r (LENGTH('a) - 2)" for r
    unfolding sign_bit bit_xor_iff bit_shl_one using wide by (auto simp: numeral_2_eq_2)
  consider "k = 0" | "k = 1" | "k = 4" | "k = 5" | "k = 7" using assms(1) by blast
  then show ?thesis
  proof cases
    case 1
    then show ?thesis
      using n by (simp add: shift_op_def alu_rol_def assms(2) rol_loop_closed flag_simps sign_bit
          shift_result_def shift_carry_def shift_overflow_def)
  next
    case 2
    then show ?thesis
      using n by (simp add: shift_op_def alu_ror_def assms(2) ror_loop_closed flag_simps ror [simplified]
          shift_result_def shift_carry_def shift_overflow_def)
  next
    case 3
    then show ?thesis
      using n by (simp add: shift_op_def alu_shl_def assms(2) shl_loop_closed flag_simps sign_bit szp_bits
          shift_result_def shift_carry_def shift_overflow_def)
  next
    case 4
    then show ?thesis
      using n by (simp add: shift_op_def alu_shr_def assms(2) shr_loop_closed flag_simps szp_bits
          shift_result_def shift_carry_def shift_overflow_def)
  next
    case 5
    then show ?thesis
      using n by (simp add: shift_op_def alu_sar_def assms(2) sar_loop_closed flag_simps szp_bits
          shift_result_def shift_carry_def shift_overflow_def)
  qed
qed

text \<open>One round of the rotates through the carry, on the carry and the value.\<close>

abbreviation (input) rcl_round :: "bool \<times> 'a word \<Rightarrow> bool \<times> 'a word" where
  "rcl_round \<equiv> \<lambda>(c, v). (bit v (LENGTH('a) - 1), push_bit 1 v OR (if c then 1 else 0))"

abbreviation (input) rcr_round :: "bool \<times> 'a word \<Rightarrow> bool \<times> 'a word" where
  "rcr_round \<equiv> \<lambda>(c, v). (bit v 0, drop_bit 1 v OR push_bit (LENGTH('a) - 1) (if c then 1 else 0))"

lemma rcr_rcl_round: "rcr_round (rcl_round s) = s"
proof (cases s)
  case (Pair c v)
  have l: "0 < LENGTH('a)" by simp
  have "bit (push_bit 1 v OR (if c then 1 else 0)) 0 = c"
    unfolding bit_or_iff bit_shl_one by (simp add: bit_0)
  moreover have "drop_bit 1 (push_bit 1 v OR (if c then 1 else 0)) OR
      push_bit (LENGTH('a) - 1) (if bit v (LENGTH('a) - 1) then 1 else 0) = v"
  proof (rule bit_word_eqI)
    fix k assume k: "k < LENGTH('a)"
    show "bit (drop_bit 1 (push_bit 1 v OR (if c then 1 else 0)) OR
        push_bit (LENGTH('a) - 1) (if bit v (LENGTH('a) - 1) then 1 else 0)) k \<longleftrightarrow> bit v k"
      unfolding bit_or_iff bit_drop_bit_eq comp_def bit_shl_one bit_push_bit_iff
      using k by (cases "k = LENGTH('a) - 1") (auto simp: bit_1_iff)
  qed
  ultimately show ?thesis using Pair by simp
qed

lemma rcr_rcl_rounds: "(rcr_round ^^ n) ((rcl_round ^^ n) s) = s"
proof (induction n arbitrary: s)
  case (Suc n)
  have "(rcr_round ^^ Suc n) ((rcl_round ^^ Suc n) s) = (rcr_round ^^ n) (rcr_round (rcl_round ((rcl_round ^^ n) s)))"
    by (simp only: funpow.simps funpow_swap1 comp_apply)
  then show ?case by (simp only: rcr_rcl_round Suc.IH)
qed simp

lemma rcl_loop_rounds:
  "rcl_loop fstd w n (f, v) = (g, r) \<Longrightarrow> (bit g 0, r) = (rcl_round ^^ n) (bit f 0, v)"
proof (induction n arbitrary: f v)
  case (Suc n)
  have "rcl_loop fstd w n (fl_set bitflags_std f Flags_CF (bit v (LENGTH('a) - 1)),
      push_bit 1 v OR (if bit f 0 then 1 else 0)) = (g, r)"
    using Suc.prems unfolding rcl_loop.simps Let_def fstd_ops sign_bit contains_Flags .
  from Suc.IH [OF this] show ?case by (simp add: funpow_swap1 flag_simps)
qed simp

lemma rcr_loop_rounds:
  "rcr_loop fstd w n (f, v) = (g, r) \<Longrightarrow> (bit g 0, r) = (rcr_round ^^ n) (bit f 0, v)"
proof (induction n arbitrary: f v)
  case (Suc n)
  have "rcr_loop fstd w n (fl_set bitflags_std (fl_set bitflags_std f Flags_OF (bit v (LENGTH('a) - 1) \<noteq> bit f 0)) Flags_CF (bit v 0),
      drop_bit 1 v OR push_bit (LENGTH('a) - 1) (if bit f 0 then 1 else 0)) = (g, r)"
    using Suc.prems unfolding rcr_loop.simps Let_def fstd_ops sign_bit contains_Flags and_one_odd .
  from Suc.IH [OF this] show ?case by (simp add: funpow_swap1 flag_simps)
qed simp

lemma rcr_undoes_rcl:
  "case alu_rcl fstd w f v n of (r, g) \<Rightarrow> case alu_rcr fstd w g r n of (u, h) \<Rightarrow> u = v \<and> bit h 0 = bit f 0"
proof (cases "n = 0")
  case False
  obtain g r where l: "rcl_loop fstd w (unat n) (f, v) = (g, r)" by fastforce
  obtain g' where rcl: "alu_rcl fstd w f v n = (r, g')" and g': "bit g' 0 = bit g 0"
    using False by (simp add: alu_rcl_def l flag_simps)
  obtain h u where h: "rcr_loop fstd w (unat n) (g', r) = (h, u)" by fastforce
  have "(bit h 0, u) = (rcr_round ^^ unat n) (bit g' 0, r)" by (rule rcr_loop_rounds [OF h])
  also have "(bit g' 0, r) = (rcl_round ^^ unat n) (bit f 0, v)" unfolding g' by (rule rcl_loop_rounds [OF l])
  finally have "(bit h 0, u) = (bit f 0, v)" unfolding rcr_rcl_rounds .
  then show ?thesis using False by (simp add: rcl alu_rcr_def h)
qed (simp add: alu_rcl_def alu_rcr_def)

end

text \<open>
  C33. Shifts. \<open>ROL\<close>, \<open>ROR\<close>, \<open>SHL\<close>, \<open>SHR\<close> and \<open>SAR\<close> by any count but zero, at both widths, are the rotation,
  the logical or the arithmetic shift by the whole count, although the code moves one bit per round: the
  result, the carry flag (the last bit out, also for counts beyond the width) and the overflow flag.
\<close>

theorem x86_shift_exact:
  assumes "bitflags_all_laws Flags_all F" and "k \<in> {0, 1, 4, 5, 7}" and "n \<noteq> 0"
  shows "(case shift_op F w8 k f v n of (r, g) \<Rightarrow>
      r = shift_result k (unat n) v \<and> bit g 0 = shift_carry k (unat n) v \<and> bit g 11 = shift_overflow k (unat n) v) \<and>
    (case shift_op F w16 k f u n of (r, g) \<Rightarrow>
      r = shift_result k (unat n) u \<and> bit g 0 = shift_carry k (unat n) u \<and> bit g 11 = shift_overflow k (unat n) u)"
proof -
  have F: "F = fstd" using assms(1) by (rule bitflags_all_laws_std)
  show ?thesis unfolding F by (intro conjI byte.shift_op_exact word.shift_op_exact assms(2,3))
qed

theorem x86_shift_exact_witness:
  "case shift_op (bitflags_all_std Flags_all) w8 4 0 (0xC1 :: u8) 2 of (r, g) \<Rightarrow>
     r = shift_result 4 (unat (2 :: u32)) 0xC1 \<and> bit g 0 = shift_carry 4 (unat (2 :: u32)) (0xC1 :: u8) \<and>
     bit g 11 = shift_overflow 4 (unat (2 :: u32)) (0xC1 :: u8)"
  by (rule conjunct1 [OF x86_shift_exact [OF bitflags_all_std_laws, where k = 4 and n = 2]]) simp_all

text \<open>
  Rotation through the carry. At both widths \<open>RCR\<close> by \<open>n\<close> after \<open>RCL\<close> by \<open>n\<close> restores the operand and
  the carry flag, for every count.
\<close>

lemma x86_rcr_undoes_rcl:
  assumes "bitflags_all_laws Flags_all F"
  shows "(case alu_rcl F w8 f v n of (r, g) \<Rightarrow> case alu_rcr F w8 g r n of (v', h) \<Rightarrow> v' = v \<and> bit h 0 = bit f 0) \<and>
    (case alu_rcl F w16 f u n of (r, g) \<Rightarrow> case alu_rcr F w16 g r n of (u', h) \<Rightarrow> u' = u \<and> bit h 0 = bit f 0)"
proof -
  have F: "F = fstd" using assms by (rule bitflags_all_laws_std)
  show ?thesis unfolding F by (intro conjI byte.rcr_undoes_rcl word.rcr_undoes_rcl)
qed

end
