(* ===== verification/X86_Decimal.thy ===== *)
theory X86_Decimal
  imports X86_Arith X86_Div
begin

text \<open>
  Products, and the decimal adjustments \<open>DAA\<close>, \<open>DAS\<close>, \<open>AAM\<close> and \<open>AAD\<close> against decimal arithmetic.
\<close>

subsection \<open>Products\<close>

lemma hi_and_lo: "uint (x :: u32) = uint (ucast (drop_bit 16 x) :: u16) * 2 ^ 16 + uint (ucast x :: u16)"
proof -
  have "uint (ucast (drop_bit 16 x) :: u16) = uint x div 2 ^ 16"
  proof -
    have "uint x < 65536 * 65536" using uint_lt2p [of x] by simp
    then have "uint x div 65536 < 65536" by presburger
    moreover have "0 \<le> uint x div 65536" by (simp add: pos_imp_zdiv_nonneg_iff)
    ultimately have "uint x div 65536 mod 65536 = uint x div 65536" by (intro mod_pos_pos_trivial)
    then show ?thesis by (simp add: unsigned_ucast_eq unsigned_drop_bit_eq drop_bit_eq_div take_bit_eq_mod uint_div)
  qed
  moreover have "uint (ucast x :: u16) = uint x mod 2 ^ 16" by (simp add: unsigned_ucast_eq take_bit_eq_mod)
  ultimately show ?thesis by simp
qed

lemma signed_hi_and_lo: "sint (x :: u32) = sint (ucast (drop_bit 16 x) :: u16) * 2 ^ 16 + uint (ucast x :: u16)"
proof -
  have "bit (ucast (drop_bit 16 x) :: u16) 15 \<longleftrightarrow> bit x 31" by (simp add: bit_ucast_iff bit_drop_bit_eq)
  then show ?thesis using hi_and_lo [of x] sint_top [of x] sint_top [of "ucast (drop_bit 16 x) :: u16"] by simp
qed

lemma high_byte_nonzero: "(x :: u16) AND 0xFF00 \<noteq> 0 \<longleftrightarrow> 2 ^ 8 \<le> uint x"
proof -
  have m: "(0xFF00 :: u16) = NOT (mask 8)" by (simp add: mask_eq_exp_minus_1)
  have "(x AND NOT (mask 8) = 0) = (drop_bit 8 x = 0)"
  proof -
    have "x AND NOT (mask 8) = push_bit 8 (drop_bit 8 x)" by (rule bit_word_eqI) (auto simp: bit_simps not_less)
    moreover have "drop_bit 8 (push_bit 8 (drop_bit 8 x)) = drop_bit 8 x"
      by (rule bit_word_eqI) (auto simp: bit_simps dest: bit_imp_le_length)
    ultimately show ?thesis by (metis push_bit_of_0 drop_bit_of_0)
  qed
  also have "\<dots> \<longleftrightarrow> uint x div 2 ^ 8 = 0"
    by (simp add: word_uint_eq_iff unsigned_drop_bit_eq drop_bit_eq_div uint_div)
  also have "\<dots> \<longleftrightarrow> \<not> 2 ^ 8 \<le> uint x" using uint_ge_0 [of x] by (auto simp: div_eq_0_iff)
  finally show ?thesis unfolding m by simp
qed

lemma mult_bounds:
  fixes a b m n :: int
  assumes "0 \<le> a" "a < m" "0 \<le> b" "b < n"
  shows "0 \<le> a * b" and "a * b < m * n"
  using assms by (simp_all add: mult_strict_mono')

lemma high_half:
  fixes x d l m :: int
  assumes "x = d * m + l" and "0 \<le> d" and "0 \<le> l" and "l < m"
  shows "d \<noteq> 0 \<longleftrightarrow> m \<le> x"
proof (cases "d = 0")
  case False
  then have "1 * m \<le> d * m" using assms by (intro mult_right_mono) linarith+
  then have "m \<le> d * m + l" using assms(3) by linarith
  then show ?thesis using False assms(1) by simp
qed (use assms in simp)

lemma smult_bounds:
  fixes a b h :: int
  assumes "- h \<le> a" "a < h" "- h \<le> b" "b < h"
  shows "\<bar>a * b\<bar> \<le> h * h"
  unfolding abs_mult using assms by (intro mult_mono) linarith+

lemma uint_mul8: "uint (ucast (a :: u8) * ucast (b :: u8) :: u16) = uint a * uint b"
proof -
  have "uint v < 256" for v :: u8 using uint_lt2p [of v] by simp
  from mult_bounds [OF uint_ge_0 this uint_ge_0 this, of a b]
  have "0 \<le> uint a * uint b" "uint a * uint b < 256 * 256" by simp_all
  then show ?thesis by (simp add: uint_word_ariths uint_ucast_up)
qed

lemma uint_mul16: "uint (ucast (a :: u16) * ucast (b :: u16) :: u32) = uint a * uint b"
proof -
  have "uint v < 65536" for v :: u16 using uint_lt2p [of v] by simp
  from mult_bounds [OF uint_ge_0 this uint_ge_0 this, of a b]
  have "0 \<le> uint a * uint b" "uint a * uint b < 65536 * 65536" by simp_all
  then show ?thesis by (simp add: uint_word_ariths uint_ucast_up)
qed

lemma sint_mul_wide:
  fixes a b :: "'a::len word"
  assumes "2 * LENGTH('a) \<le> LENGTH('b)"
  shows "sint (scast a * scast b :: 'b::len word) = sint a * sint b"
proof -
  let ?h = "2 ^ (LENGTH('a) - 1) :: int"
  have "\<bar>sint a * sint b\<bar> \<le> ?h * ?h"
    by (intro smult_bounds sint_ge sint_lt)
  moreover have "?h * ?h < 2 ^ (LENGTH('b) - 1)"
  proof -
    have "?h * ?h = 2 ^ (LENGTH('a) - 1 + (LENGTH('a) - 1))" by (simp only: power_add)
    also have "\<dots> < 2 ^ (LENGTH('b) - 1)" using assms len_gt_0 [where 'a = 'a] by (intro power_strict_increasing) linarith+
    finally show ?thesis .
  qed
  ultimately have "signed_take_bit (LENGTH('b) - 1) (sint a * sint b) = sint a * sint b"
    by (intro signed_take_bit_int_eq_self) linarith+
  moreover have "(scast a * scast b :: 'b word) = of_int (sint a * sint b)" by simp
  ultimately show ?thesis by (simp only: sint_sbintrunc')
qed

lemma sign_extends_iff:
  fixes x :: "'b::len word"
  assumes "LENGTH('a::len) \<le> LENGTH('b)"
  shows "x = scast (ucast x :: 'a word) \<longleftrightarrow> sint x \<in> {- (2 ^ (LENGTH('a) - 1))..<2 ^ (LENGTH('a) - 1)}"
proof -
  have up: "sint (scast (ucast x :: 'a word) :: 'b word) = sint (ucast x :: 'a word)"
  proof -
    have "(2 :: int) ^ (LENGTH('a) - 1) \<le> 2 ^ (LENGTH('b) - 1)" using assms by (intro power_increasing) simp_all
    then have "signed_take_bit (LENGTH('b) - 1) (sint (ucast x :: 'a word)) = sint (ucast x :: 'a word)"
      using sint_ge [of "ucast x :: 'a word"] sint_lt [of "ucast x :: 'a word"]
      by (intro signed_take_bit_int_eq_self) linarith+
    then show ?thesis by (simp only: scast_eq sint_sbintrunc')
  qed
  show ?thesis
  proof
    assume e: "x = scast (ucast x :: 'a word)"
    then show "sint x \<in> {- (2 ^ (LENGTH('a) - 1))..<2 ^ (LENGTH('a) - 1)}"
      using up sint_ge [of "ucast x :: 'a word"] sint_lt [of "ucast x :: 'a word"] by simp
  next
    assume r: "sint x \<in> {- (2 ^ (LENGTH('a) - 1))..<2 ^ (LENGTH('a) - 1)}"
    have "sint (ucast x :: 'a word) = signed_take_bit (LENGTH('a) - 1) (sint x)"
      using assms by (simp add: sint_uint unsigned_ucast_eq signed_take_bit_take_bit min_def)
    also have "\<dots> = sint x" using r by (simp add: signed_take_bit_int_eq_self)
    finally show "x = scast (ucast x :: 'a word)" using up by (metis signed_word_eqI)
  qed
qed

text \<open>
  Multiplication. \<open>MUL\<close> and \<open>IMUL\<close> leave the exact product in \<open>AX\<close> or \<open>DX:AX\<close>; carry and overflow flag
  say that it does not fit the lower half.
\<close>

lemma x86_multiply_exact:
  assumes "bitflags_all_laws Flags_all F"
  shows "(let s = mul8 F v r; p = uint (lo8 (rx_ax r)) * uint v; over = 2 ^ 8 \<le> p
      in uint (rx_ax s) = p \<and> bit (rx_flags s) 0 = over \<and> bit (rx_flags s) 11 = over) \<and>
    (let s = imul8 F v r; p = sint (lo8 (rx_ax r)) * sint v; over = p \<notin> {- (2 ^ 7)..<2 ^ 7}
      in sint (rx_ax s) = p \<and> bit (rx_flags s) 0 = over \<and> bit (rx_flags s) 11 = over) \<and>
    (let s = mul16 F u r; p = uint (rx_ax r) * uint u; over = 2 ^ 16 \<le> p
      in uint (rx_dx s) * 2 ^ 16 + uint (rx_ax s) = p \<and> bit (rx_flags s) 0 = over \<and> bit (rx_flags s) 11 = over) \<and>
    (let s = imul16 F u r; p = sint (rx_ax r) * sint u; over = p \<notin> {- (2 ^ 15)..<2 ^ 15}
      in sint (rx_dx s) * 2 ^ 16 + uint (rx_ax s) = p \<and> bit (rx_flags s) 0 = over \<and> bit (rx_flags s) 11 = over)"
  (is "?mul8 \<and> ?imul8 \<and> ?mul16 \<and> ?imul16")
proof (intro conjI)
  have F: "F = fstd" using assms by (rule bitflags_all_laws_std)
  show ?mul8
  proof -
    define x :: u16 where "x = ucast (ucast (rx_ax r) :: u8) * ucast v"
    have p: "uint x = uint (lo8 (rx_ax r)) * uint v" unfolding x_def uint_mul8 lo8_def ..
    have "x AND 0xFF00 \<noteq> 0 \<longleftrightarrow> 2 ^ 8 \<le> uint x" by (rule high_byte_nonzero)
    then show ?thesis unfolding F mul8_def Let_def x_def [symmetric] p [symmetric] by (simp add: flag_simps)
  qed
  show ?imul8
  proof -
    define x :: u16 where "x = scast (ucast (rx_ax r) :: u8) * scast v"
    have p: "sint x = sint (lo8 (rx_ax r)) * sint v" unfolding x_def lo8_def by (rule sint_mul_wide) simp
    have "x = scast (ucast x :: u8) \<longleftrightarrow> sint x \<in> {- (2 ^ 7)..<2 ^ 7}"
      using sign_extends_iff [of x, where 'a = 8] by simp
    then show ?thesis unfolding F imul8_def Let_def x_def [symmetric] p [symmetric] by (simp add: flag_simps)
  qed
  show ?mul16
  proof -
    define x :: u32 where "x = ucast (rx_ax r) * ucast u"
    have p: "uint x = uint (rx_ax r) * uint u" unfolding x_def uint_mul16 ..
    define d :: u16 where "d = ucast (drop_bit 16 x)"
    have x: "uint x = uint d * 2 ^ 16 + uint (ucast x :: u16)" unfolding d_def by (rule hi_and_lo)
    have "d \<noteq> 0 \<longleftrightarrow> 2 ^ 16 \<le> uint x"
    proof -
      have "d \<noteq> 0 \<longleftrightarrow> uint d \<noteq> 0" by (metis unsigned_eq_0_iff)
      moreover have "0 \<le> uint d" "0 \<le> uint (ucast x :: u16)" "uint (ucast x :: u16) < 2 ^ 16"
        using uint_lt2p [of "ucast x :: u16"] by simp_all
      ultimately show ?thesis using high_half [OF x] by simp
    qed
    then show ?thesis
      unfolding F mul16_def Let_def x_def [symmetric] d_def [symmetric] p [symmetric] by (simp add: flag_simps x)
  qed
  show ?imul16
  proof -
    define x :: u32 where "x = scast (rx_ax r) * scast u"
    have p: "sint x = sint (rx_ax r) * sint u" unfolding x_def by (rule sint_mul_wide) simp
    define d :: u16 where "d = ucast (drop_bit 16 x)"
    have x: "sint x = sint d * 2 ^ 16 + uint (ucast x :: u16)" unfolding d_def by (rule signed_hi_and_lo)
    have "x = scast (ucast x :: u16) \<longleftrightarrow> sint x \<in> {- (2 ^ 15)..<2 ^ 15}"
      using sign_extends_iff [of x, where 'a = 16] by simp
    then show ?thesis
      unfolding F imul16_def Let_def x_def [symmetric] d_def [symmetric] p [symmetric] by (simp add: flag_simps) (use x in simp)
  qed
qed

subsection \<open>Packed decimal\<close>

definition is_bcd :: "u8 \<Rightarrow> bool" where "is_bcd b \<longleftrightarrow> uint b div 16 \<le> 9 \<and> uint b mod 16 \<le> 9"
definition packed_value :: "u8 \<Rightarrow> int" where "packed_value b = 10 * (uint b div 16) + uint b mod 16"

text \<open>The adjustments on integers, for a low digit sum \<open>s\<close> and a high digit sum \<open>t\<close>; checked for all of them.\<close>

definition daa_ok :: "int \<Rightarrow> int \<Rightarrow> bool" where
  "daa_ok s t \<longleftrightarrow>
     (let x = (16 * t + s) mod 256; af = 16 \<le> s; cf = 256 \<le> 16 * t + s;
          lo = 9 < x mod 16 \<or> af; hi = (if af then 0x9F else 0x99) < x \<or> cf;
          y = (x + (if lo then 6 else 0) + (if hi then 0x60 else 0)) mod 256
      in y div 16 \<le> 9 \<and> y mod 16 \<le> 9 \<and> 10 * (y div 16) + y mod 16 + 100 * of_bool hi = 10 * t + s)"

definition das_ok :: "int \<Rightarrow> int \<Rightarrow> bool" where
  "das_ok s t \<longleftrightarrow>
     (let x = (16 * t + s) mod 256; af = s < 0; cf = 16 * t + s < 0;
          lo = 9 < x mod 16 \<or> af; hi = (if af then 0x9F else 0x99) < x \<or> cf;
          y = (x - (if lo then 6 else 0) - (if hi then 0x60 else 0)) mod 256
      in y div 16 \<le> 9 \<and> y mod 16 \<le> 9 \<and> 10 * (y div 16) + y mod 16 = 10 * t + s + 100 * of_bool hi)"

lemma daa_all: "list_all (\<lambda>s. list_all (daa_ok s) [0..18]) [0..19]"
  by code_simp

lemma das_all: "list_all (\<lambda>s. list_all (das_ok s) [- 9..9]) [- 10..9]"
  by code_simp

lemma and_0F: "uint (v AND 0xF :: u8) = uint v mod 16"
proof -
  have "v AND 0xF = take_bit 4 v" by (simp add: take_bit_eq_mask mask_eq_exp_minus_1)
  then show ?thesis by (simp only: unsigned_take_bit_eq) (simp add: take_bit_eq_mod)
qed

lemma lo8_with_al [simp]: "lo8 (with_al ax al) = al"
proof -
  have m: "(0xFF00 :: u16) = NOT (mask 8)" by (simp add: mask_eq_exp_minus_1)
  show ?thesis unfolding with_al_def m lo8_def by (rule bit_word_eqI) (auto simp: bit_simps)
qed

lemma lo8_set_al [simp]: "lo8 (rx_ax (set_reg8 0 v r)) = v" "rx_flags (set_reg8 0 v r) = rx_flags r"
  using lo8_with_al [of "rx_ax r" v] by (simp_all add: set_reg8_def set_reg16_def reg16_def with_al_def Let_def)

text \<open>Both adjustments on the integer value of \<open>AL\<close>.\<close>

lemma daa_value:
  fixes r :: X86Registers
  defines "x \<equiv> uint (lo8 (rx_ax r))" and "cf \<equiv> bit (rx_flags r) 0" and "af \<equiv> bit (rx_flags r) 4"
  defines "lo \<equiv> 9 < x mod 16 \<or> af" and "hi \<equiv> (if af then 0x9F else 0x99) < x \<or> cf"
  shows "uint (lo8 (rx_ax (daa fstd r))) = (x + (if lo then 6 else 0) + (if hi then 0x60 else 0)) mod 256"
    and "bit (rx_flags (daa fstd r)) 0 = hi"
proof -
  define al where "al = lo8 (rx_ax r)"
  have w: "al AND 0xF > 9 \<longleftrightarrow> 9 < x mod 16" "al > 0x9F \<longleftrightarrow> 0x9F < x" "al > 0x99 \<longleftrightarrow> 0x99 < x"
    and x: "uint al = x" "x < 256" "0 \<le> x"
    using uint_lt2p [of al] by (simp_all add: word_less_def and_0F x_def al_def)
  show "uint (lo8 (rx_ax (daa fstd r))) = (x + (if lo then 6 else 0) + (if hi then 0x60 else 0)) mod 256"
    "bit (rx_flags (daa fstd r)) 0 = hi"
    unfolding daa_def Let_def lo8_def [symmetric] al_def [symmetric] fstd_ops contains_Flags w cf_def [symmetric] af_def [symmetric]
    using x(2,3) by (simp_all add: lo_def hi_def w flag_simps uint_word_ariths mod_simps x(1))
qed

lemma das_value:
  fixes r :: X86Registers
  defines "x \<equiv> uint (lo8 (rx_ax r))" and "cf \<equiv> bit (rx_flags r) 0" and "af \<equiv> bit (rx_flags r) 4"
  defines "lo \<equiv> 9 < x mod 16 \<or> af" and "hi \<equiv> (if af then 0x9F else 0x99) < x \<or> cf"
  shows "uint (lo8 (rx_ax (das fstd r))) = (x - (if lo then 6 else 0) - (if hi then 0x60 else 0)) mod 256"
    and "bit (rx_flags (das fstd r)) 0 = hi"
proof -
  define al where "al = lo8 (rx_ax r)"
  have w: "al AND 0xF > 9 \<longleftrightarrow> 9 < x mod 16" "al > 0x9F \<longleftrightarrow> 0x9F < x" "al > 0x99 \<longleftrightarrow> 0x99 < x"
    and x: "uint al = x" "x < 256" "0 \<le> x"
    using uint_lt2p [of al] by (simp_all add: word_less_def and_0F x_def al_def)
  show "uint (lo8 (rx_ax (das fstd r))) = (x - (if lo then 6 else 0) - (if hi then 0x60 else 0)) mod 256"
    "bit (rx_flags (das fstd r)) 0 = hi"
    unfolding das_def Let_def lo8_def [symmetric] al_def [symmetric] fstd_ops contains_Flags w cf_def [symmetric] af_def [symmetric]
    using x(2,3) by (simp_all add: lo_def hi_def w flag_simps uint_word_ariths mod_simps x(1))
qed

lemma carry_iff:
  fixes v x m :: int
  assumes "v + m * of_bool p = x" and "0 \<le> v" and "v < m"
  shows "p \<longleftrightarrow> m \<le> x"
proof (cases p)
  case True
  then have "v + m = x" using assms(1) by simp
  then show ?thesis using True assms(2) by simp
next
  case False
  then have "v = x" using assms(1) by simp
  then show ?thesis using False assms(3) by simp
qed

lemma borrow_iff:
  fixes v x m :: int
  assumes "v = x + m * of_bool p" and "0 \<le> v" and "v < m"
  shows "p \<longleftrightarrow> x < 0"
proof (cases p)
  case True
  then have "v = x + m" using assms(1) by simp
  then show ?thesis using True assms(3) by simp
next
  case False
  then have "v = x" using assms(1) by simp
  then show ?thesis using False assms(2) by simp
qed

lemma mod_of_sum: "0 \<le> x \<Longrightarrow> x < 256 \<Longrightarrow> x = y + 256 * (k :: int) \<Longrightarrow> x = y mod 256"
  by (metis mod_mult_self2 mod_pos_pos_trivial)

lemma daa_okD:
  assumes "0 \<le> s" "s \<le> 19" "0 \<le> t" "t \<le> 18"
  shows "daa_ok s t"
proof -
  have "s \<in> set [0..19]" "t \<in> set [0..18]" using assms by simp_all
  then show ?thesis using daa_all unfolding list_all_iff by blast
qed

lemma das_okD:
  assumes "- 10 \<le> s" "s \<le> 9" "- 9 \<le> t" "t \<le> 9"
  shows "das_ok s t"
proof -
  have "s \<in> set [- 10..9]" "t \<in> set [- 9..9]" unfolding set_upto using assms by simp_all
  then show ?thesis using das_all unfolding list_all_iff by blast
qed

lemma daa_after_adc:
  assumes "is_bcd a" and "is_bcd b" and "alu_adc fstd w8 f a b = (v, g)"
    and "lo8 (rx_ax r) = v" and "rx_flags r = g"
  shows "is_bcd (lo8 (rx_ax (daa fstd r))) \<and>
    packed_value (lo8 (rx_ax (daa fstd r))) + 100 * of_bool (bit (rx_flags (daa fstd r)) 0) = packed_value a + packed_value b + of_bool (bit f 0)"
proof -
  define s where "s = uint a mod 16 + uint b mod 16 + of_bool (bit f 0)"
  define t where "t = uint a div 16 + uint b div 16"
  have "sum_flags (of_bool (bit f 0)) a b f (v, g)" using byte.adc_flags [of f a b] assms(3) by simp
  then have v: "uint v + 256 * of_bool (bit g 0) = uint a + uint b + of_bool (bit f 0)" and af: "bit g 4 \<longleftrightarrow> 16 \<le> s"
    by (simp_all add: sum_flags_def s_def)
  have "uint a + uint b + of_bool (bit f 0) = 16 * t + s" unfolding s_def t_def by simp
  with v have v: "uint v + 256 * of_bool (bit g 0) = 16 * t + s" by simp
  have lt: "0 \<le> uint v" "uint v < 256" using uint_lt2p [of v] by simp_all
  have "uint v = (16 * t + s) mod 256" by (rule mod_of_sum [of _ _ "- of_bool (bit g 0)", OF lt]) (use v in simp)
  moreover have "bit g 0 \<longleftrightarrow> 256 \<le> 16 * t + s" by (rule carry_iff [OF v lt])
  moreover have "daa_ok s t"
  proof (rule daa_okD)
    have "0 \<le> uint a div 16" "0 \<le> uint b div 16" by (simp_all add: pos_imp_zdiv_nonneg_iff)
    then show "0 \<le> t" by (simp add: t_def)
  qed (use assms(1,2) in \<open>auto simp: s_def t_def is_bcd_def\<close>)
  moreover note af
  ultimately have ok: "daa_ok s t" and x: "(16 * t + s) mod 256 = uint v" and cf: "256 \<le> 16 * t + s \<longleftrightarrow> bit g 0"
    and af: "16 \<le> s \<longleftrightarrow> bit g 4" by simp_all
  have "10 * t + s = packed_value a + packed_value b + of_bool (bit f 0)" by (simp add: s_def t_def packed_value_def)
  note sum_value = this
  note val = daa_value [of r, unfolded assms(4,5)]
  have "is_bcd (lo8 (rx_ax (daa fstd r))) \<and>
      packed_value (lo8 (rx_ax (daa fstd r))) + 100 * of_bool (bit (rx_flags (daa fstd r)) 0) = 10 * t + s"
    using ok unfolding daa_ok_def Let_def x cf af val(1) [symmetric] unfolding val(2) [symmetric] is_bcd_def packed_value_def
    by (simp only:)
  then show ?thesis using sum_value by linarith
qed

lemma das_after_sbb:
  assumes "is_bcd a" and "is_bcd b" and "alu_sbb fstd w8 f a b = (v, g)"
    and "lo8 (rx_ax r) = v" and "rx_flags r = g"
  shows "is_bcd (lo8 (rx_ax (das fstd r))) \<and>
    packed_value (lo8 (rx_ax (das fstd r))) + packed_value b + of_bool (bit f 0) = packed_value a + 100 * of_bool (bit (rx_flags (das fstd r)) 0)"
proof -
  define s where "s = uint a mod 16 - uint b mod 16 - of_bool (bit f 0)"
  define t where "t = uint a div 16 - uint b div 16"
  have "difference_flags (of_bool (bit f 0)) a b f (v, g)" using byte.sbb_flags [of f a b] assms(3) by simp
  then have v: "uint v + uint b + of_bool (bit f 0) = uint a + 256 * of_bool (bit g 0)" and af: "bit g 4 \<longleftrightarrow> s < 0"
    by (auto simp: difference_flags_def s_def)
  have "uint x = 16 * (uint x div 16) + uint x mod 16" for x :: u8 by simp
  from this [of a] this [of b] have "uint a - uint b - of_bool (bit f 0) = 16 * t + s"
    unfolding s_def t_def right_diff_distrib by linarith
  with v have v: "uint v = 16 * t + s + 256 * of_bool (bit g 0)" by simp
  have lt: "0 \<le> uint v" "uint v < 256" using uint_lt2p [of v] by simp_all
  have "uint v = (16 * t + s) mod 256" by (rule mod_of_sum [of _ _ "of_bool (bit g 0)", OF lt]) (use v in simp)
  moreover have "bit g 0 \<longleftrightarrow> 16 * t + s < 0" by (rule borrow_iff [OF v lt])
  moreover have "das_ok s t"
  proof (rule das_okD)
    have "0 \<le> uint a div 16" "0 \<le> uint b div 16" by (simp_all add: pos_imp_zdiv_nonneg_iff)
    then show "- 9 \<le> t" "t \<le> 9" using assms(1,2) by (simp_all add: t_def is_bcd_def)
    have "0 \<le> uint a mod 16" "0 \<le> uint b mod 16" by simp_all
    then show "- 10 \<le> s" "s \<le> 9" using assms(1,2) by (auto simp: s_def is_bcd_def)
  qed
  moreover note af
  ultimately have ok: "das_ok s t" and x: "(16 * t + s) mod 256 = uint v" and cf: "16 * t + s < 0 \<longleftrightarrow> bit g 0"
    and af: "s < 0 \<longleftrightarrow> bit g 4" by simp_all
  have "10 * t + s = packed_value a - packed_value b - of_bool (bit f 0)" by (simp add: s_def t_def packed_value_def)
  note sum_value = this
  note val = das_value [of r, unfolded assms(4,5)]
  have "is_bcd (lo8 (rx_ax (das fstd r))) \<and>
      packed_value (lo8 (rx_ax (das fstd r))) = 10 * t + s + 100 * of_bool (bit (rx_flags (das fstd r)) 0)"
    using ok unfolding das_ok_def Let_def x cf af val(1) [symmetric] unfolding val(2) [symmetric] is_bcd_def packed_value_def
    by (simp only:)
  then show ?thesis using sum_value by linarith
qed

text \<open>
  C34. Decimal arithmetic. On packed decimal operands \<open>ADC\<close> into \<open>AL\<close> and \<open>DAA\<close> is decimal addition with
  carry, \<open>SBB\<close> and \<open>DAS\<close> decimal subtraction with borrow: \<open>AL\<close> is again packed decimal, and the carry
  flag is the decimal carry or borrow.
\<close>

theorem x86_decimal_exact:
  assumes "bitflags_all_laws Flags_all F" and "is_bcd a" and "is_bcd b"
  shows "(case alu_adc F w8 f a b of (v, g) \<Rightarrow>
      let s = daa F (set_reg8 0 v (r\<lparr>rx_flags := g\<rparr>)); d = lo8 (rx_ax s)
      in is_bcd d \<and> packed_value d + 100 * of_bool (bit (rx_flags s) 0) = packed_value a + packed_value b + of_bool (bit f 0)) \<and>
    (case alu_sbb F w8 f a b of (v, g) \<Rightarrow>
      let s = das F (set_reg8 0 v (r\<lparr>rx_flags := g\<rparr>)); d = lo8 (rx_ax s)
      in is_bcd d \<and> packed_value d + packed_value b + of_bool (bit f 0) = packed_value a + 100 * of_bool (bit (rx_flags s) 0))"
proof -
  have F: "F = fstd" using assms(1) by (rule bitflags_all_laws_std)
  obtain v g v' g' where "alu_adc fstd w8 f a b = (v, g)" and "alu_sbb fstd w8 f a b = (v', g')" by fastforce
  then show ?thesis
    using daa_after_adc [of a b f v g "set_reg8 0 v (r\<lparr>rx_flags := g\<rparr>)"]
      das_after_sbb [of a b f v' g' "set_reg8 0 v' (r\<lparr>rx_flags := g'\<rparr>)"] assms(2,3)
    unfolding F Let_def by simp
qed

theorem x86_decimal_exact_witness:
  "case alu_adc (bitflags_all_std Flags_all) w8 0 0x58 0x67 of (v, g) \<Rightarrow>
     let s = daa (bitflags_all_std Flags_all) (set_reg8 0 v (X86Registers_new\<lparr>rx_flags := g\<rparr>)); d = lo8 (rx_ax s)
     in is_bcd d \<and> packed_value d + 100 * of_bool (bit (rx_flags s) 0) = packed_value 0x58 + packed_value 0x67 + of_bool (bit (0 :: u16) 0)"
  by (rule conjunct1 [OF x86_decimal_exact [OF bitflags_all_std_laws]]) (simp_all add: is_bcd_def)

text \<open>
  Unpacked decimal. \<open>AAM\<close> faults exactly on base zero and else splits \<open>AL\<close> into quotient and remainder
  by the base; \<open>AAD\<close> with the same base joins them again.
\<close>

lemma x86_aam_aad:
  "case aam F b r of (ok, s) \<Rightarrow> ok = (b \<noteq> 0) \<and>
     (rx_ax s = (if b = 0 then rx_ax r else le16 (lo8 (rx_ax r) mod b) (lo8 (rx_ax r) div b))) \<and>
     (b = 0 \<or> rx_ax (aad F b s) = ucast (lo8 (rx_ax r)))"
proof -
  define al where "al = lo8 (rx_ax r)"
  obtain q f where c: "cord F w8 (rx_flags r) 0 b al = (q, f)" by fastforce
  have q: "q = (if b = 0 then None else Some (NOT (al div b), al mod b, unat al div unat b < 2 ^ 7))"
    using byte.cord_exact [of F "rx_flags r" 0 b al] c
    by (simp add: unat_eq_0 word_arith_nat_div word_arith_nat_mod)
  have join: "push_bit 8 (ucast (al div b)) OR ucast (al mod b) = le16 (al mod b) (al div b)"
    unfolding le16_def by (simp add: or.commute)
  have "al mod b + al div b * b = al" by (subst add.commute) (rule word_mod_div_equality)
  moreover have hi: "lo8 (drop_bit 8 x) = hi8 x" for x by (simp add: lo8_def hi8_def)
  ultimately have rejoin: "lo8 (le16 (al mod b) (al div b)) + hi8 (le16 (al mod b) (al div b)) * b = al" by simp
  show ?thesis
    using rejoin unfolding aam_def Let_def lo8_def [symmetric] al_def [symmetric] c prod.case q aad_def
    by (simp add: join hi)
qed

end
