(* ===== verification/X86_Step.thy ===== *)
theory X86_Step
  imports X86_Execute Remu_Bytes
begin

text \<open>
  \<open>Cpu::step\<close> of \<open>src/x86/mod.rs\<close>. The prefix loop has no bound in the code: a code segment that holds
  nothing but prefix bytes keeps it running, so it is a \<open>partial_function\<close> and a step that does not return
  is \<open>None\<close>, as is the overflow panic of its cycle counter in builds that check overflow (\<open>chk\<close>).
\<close>

text \<open>What a prefix byte sets; \<open>None\<close> for an opcode.\<close>

definition x86_prefix :: "u8 \<Rightarrow> (X86Cpu \<Rightarrow> X86Cpu) option" where
  "x86_prefix b =
     (if b = 0x26 then Some (\<lambda>c. c\<lparr>xc_seg_override := Some x86_ES\<rparr>)
      else if b = 0x2E then Some (\<lambda>c. c\<lparr>xc_seg_override := Some x86_CS\<rparr>)
      else if b = 0x36 then Some (\<lambda>c. c\<lparr>xc_seg_override := Some x86_SS\<rparr>)
      else if b = 0x3E then Some (\<lambda>c. c\<lparr>xc_seg_override := Some x86_DS\<rparr>)
      else if b = 0xF0 \<or> b = 0xF1 then Some (\<lambda>c. c)
      else if b = 0xF2 then Some (\<lambda>c. c\<lparr>xc_rep := Some False\<rparr>)
      else if b = 0xF3 then Some (\<lambda>c. c\<lparr>xc_rep := Some True\<rparr>)
      else None)"

partial_function (option) prefix_loop ::
  "bool \<Rightarrow> 'b X86Bus \<Rightarrow> X86Cpu \<times> 'b \<Rightarrow> u32 \<Rightarrow> ((u8 \<times> u32) \<times> X86Cpu \<times> 'b) option" where
  "prefix_loop chk B s cycles =
     (case run_state (x86_fetch_byte B) s of (byte, c, b) \<Rightarrow>
        case x86_prefix byte of
          None \<Rightarrow> Some ((byte, cycles), c, b)
        | Some f \<Rightarrow> Option.bind (add_u32 chk cycles 2) (\<lambda>cycles. prefix_loop chk B (f c, b) cycles))"

definition add_cycles :: "u32 \<Rightarrow> X86Cpu \<Rightarrow> X86Cpu" where
  "add_cycles n c = c\<lparr>xc_cycles := xc_cycles c + ucast n\<rparr>"

text \<open>The interrupt a boundary takes: NMI before INTR, INTR only with \<open>IF\<close> set.\<close>

definition x86_pending :: "flag_ops \<Rightarrow> X86Cpu \<Rightarrow> (u8 \<times> X86Cpu) option" where
  "x86_pending F c =
     (if xc_nmi_pending c then Some (2, c\<lparr>xc_nmi_pending := False, xc_halted := False\<rparr>)
      else case xc_intr c of
        Some vector \<Rightarrow>
          if fl_contains F (rx_flags (xc_regs c)) Flags_IF
          then Some (vector, c\<lparr>xc_intr := None, xc_halted := False\<rparr>) else None
      | None \<Rightarrow> None)"

definition x86_service :: "flag_ops \<Rightarrow> 'b X86Bus \<Rightarrow> u8 \<Rightarrow> ('b, u32) x86" where
  "x86_service F B vector = do {
     interrupt F B vector;
     modc (add_cycles X86_INTERRUPT_CYCLES);
     ret X86_INTERRUPT_CYCLES
   }"

definition x86_instruction :: "bool \<Rightarrow> flag_ops \<Rightarrow> 'b X86Bus \<Rightarrow> X86Cpu \<times> 'b \<Rightarrow> (u32 \<times> X86Cpu \<times> 'b) option" where
  "x86_instruction chk F B s =
     (case s of (c, b) \<Rightarrow>
        let trap = fl_contains F (rx_flags (xc_regs c)) Flags_TF;
            c = c\<lparr>xc_seg_override := None, xc_rep := None\<rparr>
        in do {
          ((opcode, cycles), s) \<leftarrow> prefix_loop chk B (c, b) 0;
          action \<leftarrow> x86_dispatch F B opcode;
          let (n, c, b) = run_state action s;
          cycles \<leftarrow> add_u32 chk cycles n;
          (cycles, c, b) \<leftarrow>
            (if trap \<and> fl_contains F (rx_flags (xc_regs c)) Flags_TF \<and> \<not> xc_inhibit c then do {
               let (_, c, b) = run_state (interrupt F B 1) (c, b);
               cycles \<leftarrow> add_u32 chk cycles X86_INTERRUPT_CYCLES;
               Some (cycles, c, b)
             }
             else Some (cycles, c, b));
          Some (cycles, add_cycles cycles c, b)
        })"

definition x86_step :: "bool \<Rightarrow> flag_ops \<Rightarrow> 'b X86Bus \<Rightarrow> X86Cpu \<times> 'b \<Rightarrow> (u32 \<times> X86Cpu \<times> 'b) option" where
  "x86_step chk F B s =
     (case s of (c, b) \<Rightarrow>
        let inhibited = xc_inhibit c;
            c = c\<lparr>xc_inhibit := False\<rparr>
        in case (if inhibited then None else x86_pending F c) of
             Some (vector, c) \<Rightarrow> Some (run_state (x86_service F B vector) (c, b))
           | None \<Rightarrow>
               if xc_halted c then Some (1, c\<lparr>xc_cycles := xc_cycles c + 1\<rparr>, b)
               else x86_instruction chk F B (c, b))"

end
