(* ===== verification/X86_Bounds.thy ===== *)
theory X86_Bounds
  imports X86_Step
begin

text \<open>
  The opcode sections cover every byte but the prefixes, and a step depends on its bus only through the
  20-bit addresses and the ports.
\<close>

subsection \<open>Every byte is a prefix or an opcode\<close>

lemma first_of_None: "first_of es op = None \<longleftrightarrow> list_all (\<lambda>e. e op = None) es"
  by (induction es) (simp_all split: option.split)

definition is_prefix :: "u8 \<Rightarrow> bool" where
  "is_prefix b \<longleftrightarrow> b \<in> {0x26, 0x2E, 0x36, 0x3E, 0xF0, 0xF1, 0xF2, 0xF3}"

lemma prefix_iff: "x86_prefix b \<noteq> None \<longleftrightarrow> is_prefix b"
  by (auto simp: x86_prefix_def is_prefix_def)

text \<open>The bytes the sections leave, as one condition on the byte.\<close>

lemma dispatch_None:
  "x86_dispatch F B op = None \<longleftrightarrow> is_prefix op"
proof -
  show ?thesis
    unfolding x86_dispatch_def first_of_None list.pred_inject exec_alu_def exec_stack_def exec_inc_jcc_def exec_xchg_def
      exec_mov_def exec_mov_direct_def exec_mov_imm_def exec_load_far_def exec_convert_def exec_bcd_def exec_string_def exec_shift_def exec_ret_def
      exec_xlat_esc_def exec_loop_def exec_io_def exec_jump_def exec_control_def exec_group_def Let_def if_Some_None
      is_prefix_def insert_iff empty_iff byte_eq word_le_def
    by (simp, rule byte_cases [of _ op], code_simp)
qed

text \<open>
  The opcode table is complete: the \<open>match\<close> handles every byte except the prefix bytes, which the
  loop before it has consumed, so its \<open>unreachable!\<close> arm is unreachable.
\<close>

lemma x86_dispatch_complete: "x86_dispatch F B op = None \<longleftrightarrow> x86_prefix op \<noteq> None"
  unfolding dispatch_None prefix_iff ..

subsection \<open>What a step sees of its bus\<close>

text \<open>Two buses that agree on the 20-bit addresses and on the ports.\<close>

definition same_bus :: "'b X86Bus \<Rightarrow> 'b X86Bus \<Rightarrow> bool" where
  "same_bus B C \<longleftrightarrow>
     (\<forall>b a. xb_read B b (a AND 0xFFFFF) = xb_read C b (a AND 0xFFFFF)) \<and>
     (\<forall>b a v. xb_write B b (a AND 0xFFFFF) v = xb_write C b (a AND 0xFFFFF) v) \<and>
     xb_io_read B = xb_io_read C \<and> xb_io_write B = xb_io_write C"

lemma same_sym: "same_bus B C \<Longrightarrow> same_bus C B"
  by (simp add: same_bus_def)

lemma same_memory:
  assumes "same_bus B C"
  shows "x86_read8 B = x86_read8 C" "x86_write8 B = x86_write8 C" "io_read8 B = io_read8 C" "io_write8 B = io_write8 C"
  using assms by (simp_all add: fun_eq_iff same_bus_def x86_read8_def x86_write8_def x86_phys_def io_read8_def io_write8_def)

lemma same_access:
  assumes "same_bus B C"
  shows "x86_read16 B = x86_read16 C" "x86_write16 B = x86_write16 C" "io_read16 B = io_read16 C" "io_write16 B = io_write16 C"
    "x86_fetch_byte B = x86_fetch_byte C" "x86_fetch_word B = x86_fetch_word C" "fetch_rel8 B = fetch_rel8 C"
    "push16 B = push16 C" "pop16 B = pop16 C" "pop_ip B = pop_ip C" "pop_cs B = pop_cs C"
    "interrupt F B = interrupt F C" "modrm B = modrm C"
  by (simp_all only: fun_eq_iff x86_read16_def x86_write16_def io_read16_def io_write16_def fetch_rel8_def
      x86_fetch_word_def x86_fetch_byte_def pop_ip_def pop_cs_def push16_def pop16_def interrupt_def modrm_def
      same_memory [OF assms] simp_thms)

lemma same_operand:
  assumes "same_bus B C"
  shows "read_op8 B = read_op8 C" "write_op8 B = write_op8 C" "read_op16 B = read_op16 C" "write_op16 B = write_op16 C"
    "far_operand B = far_operand C"
proof -
  have "read_op8 B opd = read_op8 C opd" "write_op8 B opd v = write_op8 C opd v" "read_op16 B opd = read_op16 C opd"
    "write_op16 B opd u = write_op16 C opd u" "far_operand B opd = far_operand C opd" for opd v u
    by (cases opd; simp add: same_memory [OF assms] same_access [OF assms])+
  then show "read_op8 B = read_op8 C" "write_op8 B = write_op8 C" "read_op16 B = read_op16 C" "write_op16 B = write_op16 C"
    "far_operand B = far_operand C" by (simp_all add: fun_eq_iff)
qed

lemmas same_operations = same_memory same_access same_operand

lemma same_helpers:
  assumes "same_bus B C"
  shows "op_rm_r8 B = op_rm_r8 C" "op_rm_r16 B = op_rm_r16 C" "op_r_rm8 B = op_r_rm8 C" "op_r_rm16 B = op_r_rm16 C"
    "shift_grp8 F B = shift_grp8 F C" "shift_grp16 F B = shift_grp16 F C"
    "movs8 F B = movs8 F C" "movs16 F B = movs16 F C" "cmps8 F B = cmps8 F C" "cmps16 F B = cmps16 F C"
    "stos8 F B = stos8 F C" "stos16 F B = stos16 F C" "lods8 F B = lods8 F C" "lods16 F B = lods16 F C"
    "scas8 F B = scas8 F C" "scas16 F B = scas16 F C"
    "group_f6 F B = group_f6 F C" "group_f7 F B = group_f7 F C" "group_fe F B = group_fe F C" "group_ff F B = group_ff F C"
  by (simp_all only: fun_eq_iff op_rm_r8_def op_rm_r16_def op_r_rm8_def op_r_rm16_def shift_grp8_def shift_grp16_def
      movs8_def movs16_def cmps8_def cmps16_def stos8_def stos16_def lods8_def lods16_def scas8_def scas16_def
      group_f6_def group_f7_def group_fe_def group_ff_def same_operations [OF assms] simp_thms)

lemma same_dispatch:
  assumes "same_bus B C"
  shows "x86_dispatch F B = x86_dispatch F C"
  by (simp only: x86_dispatch_def exec_alu_def [abs_def] exec_stack_def [abs_def] exec_inc_jcc_def [abs_def]
      exec_xchg_def [abs_def] exec_mov_def [abs_def] exec_mov_direct_def [abs_def] exec_mov_imm_def [abs_def] exec_load_far_def [abs_def] exec_bcd_def [abs_def]
      exec_string_def [abs_def] exec_shift_def [abs_def] exec_ret_def [abs_def] exec_xlat_esc_def [abs_def]
      exec_loop_def [abs_def] exec_io_def [abs_def] exec_jump_def [abs_def] exec_group_def [abs_def]
      same_operations [OF assms] same_helpers [OF assms])

lemma prefix_loop_mono:
  assumes "same_bus B C" and "prefix_loop chk B s k = Some r"
  shows "prefix_loop chk C s k = Some r"
proof -
  have "same_bus B C \<longrightarrow> prefix_loop chk C s k = Some r"
  proof (rule prefix_loop.raw_induct [where P = "\<lambda>chk B s k r. same_bus B C \<longrightarrow> prefix_loop chk C s k = Some r", OF _ assms(2)],
      goal_cases)
    case (1 loop chk B s k r)
    show ?case
    proof
      assume B: "same_bus B C"
      show "prefix_loop chk C s k = Some r"
        using 1(2) by (subst prefix_loop.simps)
          (auto simp: same_access(5) [OF B] bind_eq_Some_conv split: prod.splits option.splits
            intro: 1(1) [THEN mp, OF _ B])
    qed
  qed
  then show ?thesis using assms(1) by blast
qed

lemma same_prefix_loop: "same_bus B C \<Longrightarrow> prefix_loop chk B s k = prefix_loop chk C s k"
  using prefix_loop_mono [of B C chk s k] prefix_loop_mono [of C B chk s k] same_sym [of B C]
  by (cases "prefix_loop chk B s k"; cases "prefix_loop chk C s k") auto

text \<open>
  Address bounds. A step never puts an address of more than 20 bits on the bus: two buses that
  differ only beyond \<open>0xFFFFF\<close> give the same step.
\<close>

lemma x86_step_addresses:
  assumes "same_bus B C"
  shows "x86_step chk F B s = x86_step chk F C s"
  by (simp only: x86_step_def x86_service_def x86_instruction_def same_access [OF assms] same_dispatch [OF assms]
      same_prefix_loop [OF assms])

definition high_noise :: "X86Memory X86Bus" where
  "high_noise = X86Memory_bus\<lparr>xb_read := (\<lambda>m a. if a > 0xFFFFF then (0xAA, m) else X86Memory_read m a)\<rparr>"


end
