(* ===== verification/X86_Frame.thy ===== *)
theory X86_Frame
  imports X86_Step
begin

text \<open>
  What no instruction of the 8086 changes. The FLAGS only ever hold declared bits; opcodes leave the cycle
  counter, the pending interrupts and the prefix state alone. The contract \<open>cpu_invariant\<close> says which parts
  of the processor an invariant may not depend on, and every opcode keeps every such invariant.
\<close>

subsection \<open>FLAGS hold declared bits only\<close>

lemma bit_Flags_all: "bit Flags_all k \<longleftrightarrow> k \<in> {0, 2, 4, 6, 7, 8, 9, 10, 11}"
  by (simp only: Flags_all_union bit_or_iff bit_Flags insert_iff empty_iff simp_thms disj_assoc)

lemma flags_ok_bits: "flags_ok f \<longleftrightarrow> (\<forall>k. bit f k \<longrightarrow> k \<in> {0, 2, 4, 6, 7, 8, 9, 10, 11})"
proof
  assume "flags_ok f"
  then have e: "f AND Flags_all = f" by (simp add: flags_ok_def)
  show "\<forall>k. bit f k \<longrightarrow> k \<in> {0, 2, 4, 6, 7, 8, 9, 10, 11}"
  proof (intro allI impI)
    fix k assume "bit f k"
    then have "bit (f AND Flags_all) k" unfolding e .
    then show "k \<in> {0, 2, 4, 6, 7, 8, 9, 10, 11}" unfolding bit_and_iff bit_Flags_all by blast
  qed
next
  assume "\<forall>k. bit f k \<longrightarrow> k \<in> {0, 2, 4, 6, 7, 8, 9, 10, 11}"
  then have "f AND Flags_all = f" by (intro bit_word_eqI) (auto simp only: bit_and_iff bit_Flags_all)
  then show "flags_ok f" by (simp add: flags_ok_def)
qed

named_theorems flags_kept

lemma flags_ok_set [flags_kept]:
  assumes "flags_ok f" and "flags_ok g"
  shows "flags_ok (fl_set bitflags_std f g v)" "flags_ok (fl_insert bitflags_std f g)"
    "flags_ok (fl_union bitflags_std f g)" "flags_ok (f XOR g)"
  using assms unfolding flags_ok_bits
  by (auto simp: bitflags_std_def bit_or_iff bit_and_iff bit_xor_iff bit_not_iff)

lemma flags_ok_remove [flags_kept]: "flags_ok f \<Longrightarrow> flags_ok (fl_remove bitflags_std f g)"
  unfolding flags_ok_bits by (auto simp: bitflags_std_def bit_and_iff)

lemma flags_ok_truncate [flags_kept]: "flags_ok (w AND Flags_all)" "flags_ok (from_word fstd w)"
  by (simp_all add: flags_ok_def from_word_def and.assoc)

lemma flags_ok_const [flags_kept]:
  "flags_ok 0" "flags_ok Flags_CF" "flags_ok Flags_PF" "flags_ok Flags_AF" "flags_ok Flags_ZF" "flags_ok Flags_SF"
  "flags_ok Flags_TF" "flags_ok Flags_IF" "flags_ok Flags_DF" "flags_ok Flags_OF"
  unfolding flags_ok_def Flags_all_def Flags_CF_def Flags_PF_def Flags_AF_def Flags_ZF_def Flags_SF_def
    Flags_TF_def Flags_IF_def Flags_DF_def Flags_OF_def by simp_all

lemma flags_ok_szp [flags_kept]: "flags_ok f \<Longrightarrow> flags_ok (set_szp8 fstd f v)" "flags_ok f \<Longrightarrow> flags_ok (set_szp16 fstd f u)"
  by (simp_all add: set_szp8_def set_szp16_def Let_def flags_kept)

lemma flags_ok_cf_of_af [flags_kept]: "flags_ok (cf_of_af fstd)" by (simp add: cf_of_af_def flags_kept)

text \<open>The arithmetic, at every width whose \<open>SZP\<close> function keeps them.\<close>

definition szp_keeps :: "'a::len word alu_width \<Rightarrow> bool" where
  "szp_keeps w \<longleftrightarrow> (\<forall>f v. flags_ok f \<longrightarrow> flags_ok (aw_szp w fstd f v))"

lemma szp_keepsD [flags_kept]: "szp_keeps w \<Longrightarrow> flags_ok f \<Longrightarrow> flags_ok (aw_szp w fstd f v)"
  by (simp add: szp_keeps_def)

lemma szp_keeps_widths [flags_kept]: "szp_keeps w8" "szp_keeps w16"
  by (simp_all add: szp_keeps_def w8_def w16_def flags_kept)

lemma flags_ok_alu [flags_kept]:
  assumes "szp_keeps w" and "flags_ok f"
  shows "flags_ok (snd (alu_add fstd w f a b))" "flags_ok (snd (alu_adc fstd w f a b))"
    "flags_ok (snd (alu_sub fstd w f a b))" "flags_ok (snd (alu_sbb fstd w f a b))"
    "flags_ok (snd (alu_and fstd w f a b))" "flags_ok (snd (alu_or fstd w f a b))"
    "flags_ok (snd (alu_xor fstd w f a b))" "flags_ok (snd (alu_inc fstd w f a))"
    "flags_ok (snd (alu_dec fstd w f a))" "flags_ok (snd (alu_neg fstd w f a))"
  unfolding alu_add_def alu_adc_def alu_sub_def alu_sbb_def alu_and_def alu_or_def alu_xor_def alu_inc_def
    alu_dec_def alu_neg_def Let_def fstd_ops snd_conv
  by (intro flags_kept assms)+

lemma flags_ok_loops:
  "flags_ok (fst s) \<Longrightarrow> flags_ok (fst (shl_loop fstd w n s))" "flags_ok (fst s) \<Longrightarrow> flags_ok (fst (shr_loop fstd w n s))"
  "flags_ok (fst s) \<Longrightarrow> flags_ok (fst (rcl_loop fstd w n s))" "flags_ok (fst s) \<Longrightarrow> flags_ok (fst (rcr_loop fstd w n s))"
  by (induction n arbitrary: s; case_tac s; simp add: Let_def flags_kept)+

lemma flags_ok_width_free_loops:
  "flags_ok (fst s) \<Longrightarrow> flags_ok (fst (sar_loop fstd n s))" "flags_ok (fst s) \<Longrightarrow> flags_ok (fst (rol_loop fstd n s))"
  "flags_ok (fst s) \<Longrightarrow> flags_ok (fst (ror_loop fstd n s))"
  by (induction n arbitrary: s; case_tac s; simp add: Let_def flags_kept)+

lemma flags_ok_shift [flags_kept]:
  fixes v :: "'a::len word"
  assumes "szp_keeps w" and "flags_ok f"
  shows "flags_ok (snd (shift_op fstd w k f v n))"
proof -
  obtain g1 v1 g2 v2 g3 v3 g4 v4 where l1: "shl_loop fstd w (unat n) (f, v) = (g1, v1)" "shr_loop fstd w (unat n) (f, v) = (g2, v2)"
    "rcl_loop fstd w (unat n) (f, v) = (g3, v3)" "rcr_loop fstd w (unat n) (f, v) = (g4, v4)" by (metis prod.exhaust)
  obtain g5 v5 g6 v6 g7 v7 where l2: "sar_loop fstd (unat n) (f, v) = (g5, v5)" "rol_loop fstd (unat n) (f, v) = (g6, v6)"
    "ror_loop fstd (unat n) (f, v) = (g7, v7)" by (metis prod.exhaust)
  have "flags_ok g1" "flags_ok g2" "flags_ok g3" "flags_ok g4"
    using flags_ok_loops [of "(f, v)" w "unat n"] assms(2) unfolding l1 by simp_all
  moreover have "flags_ok g5" "flags_ok g6" "flags_ok g7"
    using flags_ok_width_free_loops [of "(f, v)" "unat n"] assms(2) unfolding l2 by simp_all
  ultimately show ?thesis
    unfolding shift_op_def alu_shl_def alu_shr_def alu_sar_def alu_rol_def alu_ror_def alu_rcl_def alu_rcr_def setmo_def
    using assms by (simp add: l1 l2 Let_def flags_kept)
qed

lemma flags_ok_accumulator [flags_kept]:
  assumes "flags_ok (rx_flags r)"
  shows "flags_ok (rx_flags (mul8 fstd v r))" "flags_ok (rx_flags (mul16 fstd u r))"
    "flags_ok (rx_flags (imul8 fstd v r))" "flags_ok (rx_flags (imul16 fstd u r))"
    "flags_ok (rx_flags (daa fstd r))" "flags_ok (rx_flags (das fstd r))"
    "flags_ok (rx_flags (aaa fstd r))" "flags_ok (rx_flags (aas fstd r))" "flags_ok (rx_flags (aad fstd v r))"
  unfolding mul8_def mul16_def imul8_def imul16_def daa_def das_def aaa_def aas_def aad_def
  using assms by (simp_all add: Let_def flags_kept)

lemma flags_ok_sub_flags [flags_kept]: "szp_keeps w \<Longrightarrow> flags_ok f \<Longrightarrow> flags_ok (sub_flags fstd w f res)"
  by (simp add: sub_flags_def Let_def flags_kept split: prod.split)

lemma flags_ok_cord_loop: "szp_keeps w \<Longrightarrow> flags_ok (fst s) \<Longrightarrow> flags_ok (fst (cord_loop fstd w d n s))"
  by (induction n arbitrary: s; case_tac s) (simp_all add: Let_def flags_kept split: prod.split)

lemma flags_ok_cord:
  assumes "szp_keeps w" and "flags_ok f" and "cord fstd w f a b c = (res, g)"
  shows "flags_ok g"
proof -
  obtain g1 a1 c1 k1 where l: "cord_loop fstd w b LENGTH('a)
      (sub_flags fstd w f (sub_fl w a b), a, c, fst (snd (sub_fl w a b))) = (g1, a1, c1, k1)" by (metis prod.exhaust)
  then have "flags_ok g1"
    using flags_ok_cord_loop [of w "(sub_flags fstd w f (sub_fl w a b), a, c, fst (snd (sub_fl w a b)))" b "LENGTH('a)"]
      assms(1,2) by (simp add: flags_kept)
  then show ?thesis
    using assms l by (auto simp: cord_def Let_def flags_kept split: prod.splits if_splits)
qed

lemma flags_ok_div_core:
  assumes "szp_keeps w" and "flags_ok f" and "div_core fstd w rep f hi lo d sgnd = (res, g)"
  shows "flags_ok g"
proof -
  obtain a b c neg f1 where p: "(if sgnd then prediv fstd w f hi d lo (sgnd \<and> rep) else ((hi, d, lo, sgnd \<and> rep), f)) =
      ((a, b, c, neg), f1)" by (metis prod.exhaust)
  have "flags_ok f1"
  proof (cases sgnd)
    case True
    then show ?thesis
      using p assms(2) unfolding prediv_def negate_def Let_def by (auto simp: flags_kept split: prod.splits if_splits)
  qed (use p assms(2) in simp)
  obtain r2 f2 where c: "cord fstd w f1 a b c = (r2, f2)" by fastforce
  have "flags_ok f2" by (rule flags_ok_cord [OF assms(1) \<open>flags_ok f1\<close> c])
  then show ?thesis
    using assms(3) unfolding div_core_def Let_def p prod.case c postdiv_def
    by (auto simp: flags_kept split: prod.splits if_splits option.splits)
qed

lemma flags_ok_divide [flags_kept]:
  assumes "flags_ok (rx_flags r)"
  shows "flags_ok (rx_flags (snd (div8 fstd rep v sgnd r)))" "flags_ok (rx_flags (snd (div16 fstd rep u sgnd r)))"
    "flags_ok (rx_flags (snd (aam fstd v r)))"
  using assms flags_ok_div_core [OF szp_keeps_widths(1) assms] flags_ok_div_core [OF szp_keeps_widths(2) assms]
    flags_ok_cord [OF szp_keeps_widths(1) assms]
  unfolding div8_def div16_def aam_def Let_def
  by (auto simp: flags_kept split: prod.splits option.splits)

lemma flags_unchanged [simp]:
  "rx_flags (set_reg16 i v r) = rx_flags r" "rx_flags (set_reg8 i u r) = rx_flags r" "rx_flags (set_seg i v r) = rx_flags r"
  by (simp_all add: set_reg16_def set_reg8_def set_seg_def Let_def)

subsection \<open>Invariants of the processor\<close>

definition keeps :: "(X86Cpu \<Rightarrow> bool) \<Rightarrow> ('b, 'a) x86 \<Rightarrow> bool" where
  "keeps J a \<longleftrightarrow> (\<forall>c b. J c \<longrightarrow> J (fst (snd (run_state a (c, b)))))"

named_theorems keeps_rules

lemma keepsD: "keeps J a \<Longrightarrow> J c \<Longrightarrow> run_state a (c, b) = (x, c', b') \<Longrightarrow> J c'"
  unfolding keeps_def by (metis fst_conv snd_conv)

lemma keeps_bind [keeps_rules]:
  assumes "keeps J a" and "\<And>x. keeps J (f x)"
  shows "keeps J (State_Monad.bind a f)"
  using assms unfolding keeps_def by (simp split: prod.split) (metis fst_conv snd_conv)

lemma keeps_basic [keeps_rules]:
  "keeps J (ret x)" "keeps J (getc g)" "keeps J (getr h)" "keeps J (bus_in i)" "keeps J (bus_out j)"
  by (simp_all add: keeps_def getc_def getr_def bus_in_def bus_out_def split: prod.split)

lemma keeps_modc [keeps_rules]: "(\<And>c. J c \<Longrightarrow> J (f c)) \<Longrightarrow> keeps J (modc f)"
  by (simp add: keeps_def modc_def)

lemma keeps_if [keeps_rules]: "(p \<Longrightarrow> keeps J a) \<Longrightarrow> (\<not> p \<Longrightarrow> keeps J b) \<Longrightarrow> keeps J (if p then a else b)"
  by simp

lemma keeps_case [keeps_rules]:
  "(\<And>x y. keeps J (f x y)) \<Longrightarrow> keeps J (case p of (x, y) \<Rightarrow> f x y)"
  "keeps J a \<Longrightarrow> (\<And>x. keeps J (g x)) \<Longrightarrow> keeps J (case q of None \<Rightarrow> a | Some x \<Rightarrow> g x)"
  "(\<And>i. keeps J (h i)) \<Longrightarrow> (\<And>sg off. keeps J (k sg off)) \<Longrightarrow> keeps J (case d of OpReg i \<Rightarrow> h i | OpMem sg off \<Rightarrow> k sg off)"
  by (simp_all split: prod.split option.split X86Operand.split)

text \<open>What an opcode may write: registers with declared FLAGS, the address cycles, \<open>halted\<close> and \<open>inhibit\<close>.\<close>

locale cpu_invariant =
  fixes J :: "X86Cpu \<Rightarrow> bool"
  assumes flags: "J c \<Longrightarrow> flags_ok (rx_flags (xc_regs c))"
    and regs: "J c \<Longrightarrow> flags_ok (rx_flags r) \<Longrightarrow> J (c\<lparr>xc_regs := r\<rparr>)"
    and ea: "J c \<Longrightarrow> J (c\<lparr>xc_ea_cycles := n\<rparr>)"
    and control: "J c \<Longrightarrow> J (c\<lparr>xc_halted := True\<rparr>)" "J c \<Longrightarrow> J (c\<lparr>xc_inhibit := True\<rparr>)"
begin

lemma keeps_modr [keeps_rules]:
  "(\<And>r. flags_ok (rx_flags r) \<Longrightarrow> flags_ok (rx_flags (f r))) \<Longrightarrow> keeps J (modr f)"
  unfolding modr_def by (intro keeps_modc regs) (simp_all add: flags)

lemma keeps_runr [keeps_rules]:
  assumes "\<And>r. flags_ok (rx_flags r) \<Longrightarrow> flags_ok (rx_flags (snd (f r)))"
  shows "keeps J (runr f)"
  using assms regs flags
  by (auto simp: keeps_def runr_def getr_def getc_def modr_def modc_def split: prod.splits) (metis snd_conv)

lemma keeps_runf [keeps_rules]:
  assumes "\<And>f. flags_ok f \<Longrightarrow> flags_ok (snd (g f))"
  shows "keeps J (runf g)"
  unfolding runf_def by (rule keeps_runr) (use assms in \<open>auto split: prod.split\<close>, metis snd_conv)

lemma memory [keeps_rules]:
  "keeps J (x86_read8 B sg off)" "keeps J (x86_write8 B sg off v)"
  "keeps J (x86_read16 B sg off)" "keeps J (x86_write16 B sg off u)"
  unfolding x86_read16_def x86_write16_def x86_read8_def x86_write8_def by (intro keeps_rules)+

lemma fetch [keeps_rules]: "keeps J (x86_fetch_byte B)" "keeps J (x86_fetch_word B)" "keeps J (fetch_rel8 B)"
  unfolding fetch_rel8_def x86_fetch_word_def x86_fetch_byte_def by (intro keeps_rules; simp)+

lemma stack [keeps_rules]: "keeps J (push16 B v)" "keeps J (pop16 B)" "keeps J (pop_ip B)" "keeps J (pop_cs B)" "keeps J (add_sp n)"
  unfolding pop_ip_def pop_cs_def push16_def pop16_def set_ip_def add_sp_def by (intro keeps_rules; simp)+

lemma keeps_interrupt [keeps_rules]: "keeps J (interrupt fstd B v)"
  unfolding interrupt_def Let_def by (intro keeps_rules; simp add: flags_kept)+

lemma keeps_do_if [keeps_rules]: "(p \<Longrightarrow> keeps J a) \<Longrightarrow> keeps J (do_if p a)"
  unfolding do_if_def by (intro keeps_rules)

lemma small [keeps_rules]:
  "keeps J (set_ea n)" "keeps J (mem_cycles op i k)" "keeps J (shift_cycles mm cnt)" "keeps J (set_ip g)"
  "keeps J (set_cs_ip sg off)" "keeps J (step_si d)" "keeps J (step_di d)" "keeps J (delta fstd m)"
  unfolding set_ea_def mem_cycles_def shift_cycles_def set_ip_def set_cs_ip_def step_si_def step_di_def delta_def
  by (intro keeps_rules; simp add: ea)+

lemma keeps_set_flags [keeps_rules]:
  "(\<And>f. flags_ok f \<Longrightarrow> flags_ok (g f)) \<Longrightarrow> keeps J (set_flags g)"
  unfolding set_flags_def by (intro keeps_rules) simp

lemma operand [keeps_rules]:
  "keeps J (modrm B)" "keeps J (read_op8 B op)" "keeps J (write_op8 B op v)" "keeps J (read_op16 B op)"
  "keeps J (write_op16 B op u)" "keeps J (far_operand B op)"
proof -
  show "keeps J (modrm B)" unfolding modrm_def Let_def by (intro keeps_rules)
qed (cases op; simp; intro keeps_rules; simp)+

lemma port [keeps_rules]:
  "keeps J (io_read8 B p)" "keeps J (io_write8 B p v)" "keeps J (io_read16 B p)" "keeps J (io_write16 B p u)"
  unfolding io_read16_def io_write16_def io_read8_def io_write8_def by (intro keeps_rules)+

lemma binary [keeps_rules]:
  "(\<And>f a b. flags_ok f \<Longrightarrow> flags_ok (snd (g f a b))) \<Longrightarrow> keeps J (op_rm_r8 B g wb)"
  "(\<And>f a b. flags_ok f \<Longrightarrow> flags_ok (snd (g f a b))) \<Longrightarrow> keeps J (op_r_rm8 B g wb)"
  "(\<And>f a b. flags_ok f \<Longrightarrow> flags_ok (snd (h f a b))) \<Longrightarrow> keeps J (op_rm_r16 B h wb)"
  "(\<And>f a b. flags_ok f \<Longrightarrow> flags_ok (snd (h f a b))) \<Longrightarrow> keeps J (op_r_rm16 B h wb)"
  unfolding op_rm_r8_def op_r_rm8_def op_rm_r16_def op_r_rm16_def by (intro keeps_rules; simp)+

lemma shift_grp [keeps_rules]: "keeps J (shift_grp8 fstd B cnt)" "keeps J (shift_grp16 fstd B cnt)"
  unfolding shift_grp8_def shift_grp16_def Let_def by (intro keeps_rules; simp add: flags_kept)+

lemma strings [keeps_rules]:
  "keeps J (movs8 fstd B)" "keeps J (movs16 fstd B)" "keeps J (cmps8 fstd B)" "keeps J (cmps16 fstd B)"
  "keeps J (stos8 fstd B)" "keeps J (stos16 fstd B)" "keeps J (lods8 fstd B)" "keeps J (lods16 fstd B)"
  "keeps J (scas8 fstd B)" "keeps J (scas16 fstd B)"
  unfolding movs8_def movs16_def cmps8_def cmps16_def stos8_def stos16_def lods8_def lods16_def scas8_def scas16_def
  by (intro keeps_rules; simp add: flags_kept)+

lemma keeps_rep_loop: "keeps J one \<Longrightarrow> keeps J (rep_loop fstd one cmp cont per n cycles)"
  by (induction n arbitrary: cycles) (simp_all, (intro keeps_rules; simp)+)

lemma keeps_rep_str [keeps_rules]: "keeps J one \<Longrightarrow> keeps J (rep_str fstd one cmp base per)"
  unfolding rep_str_def by (intro keeps_rules keeps_rep_loop)

end

subsection \<open>Every opcode\<close>

lemma ALU_keeps:
  assumes "k < 8" and "flags_ok f"
  shows "flags_ok (snd ((ALU8 fstd ! k) f a b))" and "flags_ok (snd ((ALU16 fstd ! k) f u v))"
proof -
  have "k \<in> {0, 1, 2, 3, 4, 5, 6, 7}" using assms(1) by auto
  then show "flags_ok (snd ((ALU8 fstd ! k) f a b))" "flags_ok (snd ((ALU16 fstd ! k) f u v))"
    using assms(2) unfolding ALU8_def ALU16_def by (auto simp: flags_kept)
qed

lemma if_Some_E:
  "(if p then Some x else r) = Some a \<Longrightarrow> (p \<Longrightarrow> x = a \<Longrightarrow> R) \<Longrightarrow> (\<not> p \<Longrightarrow> r = Some a \<Longrightarrow> R) \<Longrightarrow> R"
  by (simp split: if_split_asm)

lemma mreg_less: "unat (mreg m) < 8"
proof -
  have "mreg m = take_bit 3 (drop_bit 3 m)" by (simp add: mreg_def take_bit_eq_mask mask_eq_exp_minus_1)
  then show ?thesis by (simp only: unsigned_take_bit_eq) (simp add: take_bit_eq_mod)
qed

context cpu_invariant
begin

lemma keeps_exec_alu: "exec_alu fstd B op = Some a \<Longrightarrow> keeps J a"
proof -
  have k: "unat (drop_bit 3 op) < 8" if "op < 0x40"
  proof -
    have "unat op < 64" using that by (simp add: word_less_nat_alt)
    then have "unat op div 8 < 8" by presburger
    then show ?thesis by (simp only: unat_drop_bit_eq drop_bit_eq_div unat_div) simp
  qed
  have "exec_alu fstd B op = Some a \<Longrightarrow> keeps J a"
    unfolding exec_alu_def Let_def
    by (elim if_Some_E option.distinct(1) [THEN notE]; hypsubst?; intro keeps_rules ALU_keeps mreg_less k; (assumption | simp; fail | auto))
  then show "exec_alu fstd B op = Some a \<Longrightarrow> keeps J a" .
qed

lemma keeps_exec_stack: "exec_stack fstd B op = Some a \<Longrightarrow> keeps J a"
  unfolding exec_stack_def Let_def
  by (simp split: if_split_asm; hypsubst?; intro keeps_rules; simp add: flags_kept control)

lemma keeps_exec_inc_jcc: "exec_inc_jcc fstd B op = Some a \<Longrightarrow> keeps J a"
  unfolding exec_inc_jcc_def Let_def
  by (simp split: if_split_asm; hypsubst?; intro keeps_rules; simp add: flags_kept control)

lemma keeps_exec_xchg: "exec_xchg fstd B op = Some a \<Longrightarrow> keeps J a"
  unfolding exec_xchg_def Let_def
  by (simp split: if_split_asm; hypsubst?; intro keeps_rules; simp add: flags_kept control)

lemma keeps_exec_mov: "exec_mov B op = Some a \<Longrightarrow> keeps J a"
  unfolding exec_mov_def Let_def
  by (simp split: if_split_asm; hypsubst?; intro keeps_rules; simp add: flags_kept control)

lemma keeps_exec_mov_direct: "exec_mov_direct B op = Some a \<Longrightarrow> keeps J a"
  unfolding exec_mov_direct_def Let_def
  by (simp split: if_split_asm; hypsubst?; intro keeps_rules; simp add: flags_kept control)

lemma keeps_exec_mov_imm: "exec_mov_imm B op = Some a \<Longrightarrow> keeps J a"
  unfolding exec_mov_imm_def Let_def
  by (simp split: if_split_asm; hypsubst?; intro keeps_rules; simp add: flags_kept control)

lemma keeps_exec_load_far: "exec_load_far B op = Some a \<Longrightarrow> keeps J a"
  unfolding exec_load_far_def Let_def
  by (simp split: if_split_asm; hypsubst?; intro keeps_rules; simp add: flags_kept control)

lemma keeps_exec_convert: "exec_convert fstd op = Some a \<Longrightarrow> keeps J a"
  unfolding exec_convert_def Let_def
  by (simp split: if_split_asm; hypsubst?; intro keeps_rules; simp add: flags_kept control)

lemma keeps_exec_bcd: "exec_bcd fstd B op = Some a \<Longrightarrow> keeps J a"
  unfolding exec_bcd_def Let_def
  by (simp split: if_split_asm; hypsubst?; intro keeps_rules; simp add: flags_kept control)

lemma keeps_exec_string: "exec_string fstd B op = Some a \<Longrightarrow> keeps J a"
  unfolding exec_string_def Let_def
  by (simp split: if_split_asm; hypsubst?; intro keeps_rules; simp add: flags_kept control)

lemma keeps_exec_shift: "exec_shift fstd B op = Some a \<Longrightarrow> keeps J a"
  unfolding exec_shift_def Let_def
  by (simp split: if_split_asm; hypsubst?; intro keeps_rules; simp add: flags_kept control)

lemma keeps_exec_ret: "exec_ret fstd B op = Some a \<Longrightarrow> keeps J a"
  unfolding exec_ret_def Let_def
  by (simp split: if_split_asm; hypsubst?; intro keeps_rules; simp add: flags_kept control)

lemma keeps_exec_xlat_esc: "exec_xlat_esc fstd B op = Some a \<Longrightarrow> keeps J a"
  unfolding exec_xlat_esc_def Let_def
  by (simp split: if_split_asm; hypsubst?; intro keeps_rules; simp add: flags_kept control)

lemma keeps_exec_loop: "exec_loop fstd B op = Some a \<Longrightarrow> keeps J a"
  unfolding exec_loop_def Let_def
  by (simp split: if_split_asm; hypsubst?; intro keeps_rules; simp add: flags_kept control)

lemma keeps_exec_io: "exec_io B op = Some a \<Longrightarrow> keeps J a"
  unfolding exec_io_def Let_def
  by (simp split: if_split_asm; hypsubst?; intro keeps_rules; simp add: flags_kept control)

lemma keeps_exec_jump: "exec_jump B op = Some a \<Longrightarrow> keeps J a"
  unfolding exec_jump_def Let_def
  by (simp split: if_split_asm; hypsubst?; intro keeps_rules; simp add: flags_kept control)

lemma keeps_exec_control: "exec_control fstd op = Some a \<Longrightarrow> keeps J a"
  unfolding exec_control_def Let_def
  by (simp split: if_split_asm; hypsubst?; intro keeps_rules; simp add: flags_kept control)

lemma keeps_exec_group: "exec_group fstd B op = Some a \<Longrightarrow> keeps J a"
  unfolding exec_group_def group_f6_def group_f7_def group_fe_def group_ff_def Let_def
  by (simp split: if_split_asm; hypsubst?; intro keeps_rules; simp add: flags_kept)

lemma keeps_dispatch: "x86_dispatch fstd B op = Some a \<Longrightarrow> keeps J a"
  unfolding x86_dispatch_def
  by (auto split: option.splits intro: keeps_exec_alu keeps_exec_stack keeps_exec_inc_jcc keeps_exec_xchg keeps_exec_mov
      keeps_exec_mov_direct keeps_exec_mov_imm keeps_exec_load_far keeps_exec_convert keeps_exec_bcd keeps_exec_string keeps_exec_shift keeps_exec_ret
      keeps_exec_xlat_esc keeps_exec_loop keeps_exec_io keeps_exec_jump keeps_exec_control keeps_exec_group)

lemma keeps_prefix_loop:
  assumes "prefix_loop chk B (c, b) n = Some ((op, m), c', b')" and "J c"
    and prefix: "\<And>byte f c. x86_prefix byte = Some f \<Longrightarrow> J c \<Longrightarrow> J (f c)"
  shows "J c'"
proof -
  have "J (fst s) \<longrightarrow> J (fst (snd r))" if "prefix_loop chk B s k = Some r" for s k r
  proof (rule prefix_loop.raw_induct [where P = "\<lambda>chk B s k r. J (fst s) \<longrightarrow> J (fst (snd r))", OF _ that], goal_cases)
    case (1 loop chk B s k r)
    obtain byte c1 b1 where f: "run_state (x86_fetch_byte B) (fst s, snd s) = (byte, c1, b1)" by (metis prod.exhaust)
    show ?case
    proof
      assume J: "J (fst s)"
      have J1: "J c1" by (rule keepsD [OF fetch(1) J f])
      show "J (fst (snd r))"
      proof (cases "x86_prefix byte")
        case None
        then have "r = ((byte, k), c1, b1)" using 1(2) f by simp
        then show ?thesis using J1 by simp
      next
        case (Some g)
        then obtain k' where "loop chk B (g c1, b1) k' = Some r"
          using 1(2) f by (auto simp: bind_eq_Some_conv)
        then have "J (g c1) \<longrightarrow> J (fst (snd r))" using 1(1) by fastforce
        then show ?thesis using prefix [OF Some J1] by simp
      qed
    qed
  qed
  from this [OF assms(1)] show ?thesis using assms(2) by simp
qed

end

text \<open>The frame: the FLAGS are declared bits, the cycle counter and the pending interrupts are those given.\<close>

definition x86_frame :: "u64 \<Rightarrow> bool \<Rightarrow> u8 option \<Rightarrow> X86Cpu \<Rightarrow> bool" where
  "x86_frame n nmi intr c \<longleftrightarrow>
     flags_ok (rx_flags (xc_regs c)) \<and> xc_cycles c = n \<and> xc_nmi_pending c = nmi \<and> xc_intr c = intr"

interpretation frame: cpu_invariant "x86_frame n nmi intr"
  by unfold_locales (simp_all add: x86_frame_def)

lemma frame_prefix: "x86_prefix byte = Some f \<Longrightarrow> x86_frame n nmi intr c \<Longrightarrow> x86_frame n nmi intr (f c)"
  by (auto simp: x86_prefix_def x86_frame_def split: if_splits)

lemma x86_instruction_frame:
  assumes "x86_instruction chk fstd B (c, b) = Some (n, c', b')" and "x86_frame k nmi intr c"
  shows "x86_frame (k + ucast n) nmi intr c'"
proof -
  let ?c = "c\<lparr>xc_seg_override := None, xc_rep := None\<rparr>"
  obtain op m c1 b1 where p: "prefix_loop chk B (?c, b) 0 = Some ((op, m), c1, b1)"
    using assms(1) unfolding x86_instruction_def Let_def
    by (cases "prefix_loop chk B (?c, b) 0") (simp_all, metis prod.exhaust)
  then obtain a where d: "x86_dispatch fstd B op = Some a"
    using assms(1) unfolding x86_instruction_def Let_def by (cases "x86_dispatch fstd B op") simp_all
  obtain j c2 b2 where r: "run_state a (c1, b1) = (j, c2, b2)" by (metis prod.exhaust)
  have "x86_frame k nmi intr ?c" using assms(2) by (simp add: x86_frame_def)
  then have "x86_frame k nmi intr c1" by (rule frame.keeps_prefix_loop [OF p]) (rule frame_prefix)
  from keepsD [OF frame.keeps_dispatch [OF d] this r] have f2: "x86_frame k nmi intr c2" .
  obtain c3 where "c' = add_cycles n c3" "x86_frame k nmi intr c3"
  proof (cases "fl_contains fstd (rx_flags (xc_regs c)) Flags_TF \<and> fl_contains fstd (rx_flags (xc_regs c2)) Flags_TF \<and> \<not> xc_inhibit c2")
    case True
    obtain u c3 b3 where i: "run_state (interrupt fstd B 1) (c2, b2) = (u, c3, b3)" by (metis prod.exhaust)
    have "c' = add_cycles n c3"
      using assms(1) True unfolding x86_instruction_def Let_def by (auto simp: p d r i bind_eq_Some_conv)
    then show thesis using that keepsD [OF frame.keeps_interrupt f2 i] by blast
  next
    case False
    have "c' = add_cycles n c2"
      using assms(1) False unfolding x86_instruction_def Let_def by (auto simp: p d r bind_eq_Some_conv)
    then show thesis using that f2 by blast
  qed
  then show ?thesis by (simp add: x86_frame_def add_cycles_def)
qed

text \<open>The interrupt that the next step takes, by the priority and masking rules of the 8086.\<close>

definition x86_taken :: "X86Cpu \<Rightarrow> u8 option" where
  "x86_taken c =
     (if xc_inhibit c then None
      else if xc_nmi_pending c then Some 2
      else if bit (rx_flags (xc_regs c)) 9 then xc_intr c else None)"

text \<open>The latches once it is taken: an NMI leaves a pending INTR for later.\<close>

definition x86_latches_after :: "X86Cpu \<Rightarrow> X86Cpu" where
  "x86_latches_after c =
     c\<lparr>xc_halted := False, xc_nmi_pending := False, xc_intr := (if xc_nmi_pending c then xc_intr c else None), xc_inhibit := False\<rparr>"

definition x86_interrupted :: "flag_ops \<Rightarrow> 'b X86Bus \<Rightarrow> u8 \<Rightarrow> X86Cpu \<times> 'b \<Rightarrow> u32 \<Rightarrow> X86Cpu \<times> 'b \<Rightarrow> bool" where
  "x86_interrupted F B v s n t \<longleftrightarrow>
     n = X86_INTERRUPT_CYCLES \<and>
     (\<exists>u c2. run_state (interrupt F B v) (x86_latches_after (fst s), snd s) = (u, c2, snd t) \<and>
        fst t = add_cycles X86_INTERRUPT_CYCLES c2) \<and>
     \<not> xc_halted (fst t) \<and> rx_sp (xc_regs (fst t)) = rx_sp (xc_regs (fst s)) - 6 \<and>
     \<not> bit (rx_flags (xc_regs (fst t))) 9 \<and> \<not> bit (rx_flags (xc_regs (fst t))) 8"

lemma interrupt_enters:
  assumes "run_state (interrupt fstd B v) (c, b) = (u, c2, b2)"
  shows "xc_halted c2 = xc_halted c" "rx_sp (xc_regs c2) = rx_sp (xc_regs c) - 6"
    "\<not> bit (rx_flags (xc_regs c2)) 9" "\<not> bit (rx_flags (xc_regs c2)) 8"
  using assms
  by (auto simp: interrupt_def push16_def x86_write16_def x86_read16_def x86_read8_def x86_write8_def bus_in_def bus_out_def
      getr_def modr_def getc_def modc_def Let_def flag_simps split: prod.split_asm)

lemma pending_taken:
  "(if xc_inhibit c then None else x86_pending fstd (c\<lparr>xc_inhibit := False\<rparr>)) =
     map_option (\<lambda>v. (v, x86_latches_after c)) (x86_taken c)"
  by (cases c) (simp add: x86_pending_def x86_taken_def x86_latches_after_def flag_simps split: option.split)

lemma step_frame:
  assumes "flags_ok (rx_flags (xc_regs c))"
    and "x86_step chk fstd B (c, b) = Some (n, c', b')"
  shows "flags_ok (rx_flags (xc_regs c')) \<and> xc_cycles c' = xc_cycles c + ucast n \<and>
    (case x86_taken c of
       None \<Rightarrow> xc_nmi_pending c' = xc_nmi_pending c \<and> xc_intr c' = xc_intr c
     | Some v \<Rightarrow> \<not> xc_nmi_pending c' \<and> xc_intr c' = (if xc_nmi_pending c then xc_intr c else None) \<and>
         x86_interrupted fstd B v (c, b) n (c', b'))"
proof (cases "x86_taken c")
  case None
  note step = assms(2) [unfolded x86_step_def prod.case Let_def pending_taken None option.map option.case]
  have start: "x86_frame (xc_cycles c) (xc_nmi_pending c) (xc_intr c) (c\<lparr>xc_inhibit := False\<rparr>)"
    using assms(1) by (simp add: x86_frame_def)
  show ?thesis
  proof (cases "xc_halted c")
    case True
    then show ?thesis using step None assms(1) by auto
  next
    case False
    then have "x86_instruction chk fstd B (c\<lparr>xc_inhibit := False\<rparr>, b) = Some (n, c', b')" using step by simp
    from x86_instruction_frame [OF this start] show ?thesis using None by (simp add: x86_frame_def)
  qed
next
  case (Some v)
  note step = assms(2) [unfolded x86_step_def prod.case Let_def pending_taken Some option.map option.case]
  let ?c1 = "x86_latches_after c"
  obtain u c2 b2 where i: "run_state (interrupt fstd B v) (?c1, b) = (u, c2, b2)" by (metis prod.exhaust)
  have result: "n = X86_INTERRUPT_CYCLES" "c' = add_cycles X86_INTERRUPT_CYCLES c2" "b' = b2"
    using step i by (simp_all add: x86_service_def modc_def)
  have "x86_frame (xc_cycles c) False (if xc_nmi_pending c then xc_intr c else None) ?c1"
    using assms(1) by (simp add: x86_frame_def x86_latches_after_def)
  from keepsD [OF frame.keeps_interrupt this i]
  have "x86_frame (xc_cycles c) False (if xc_nmi_pending c then xc_intr c else None) c2" .
  moreover have "x86_interrupted fstd B v (c, b) n (c', b')"
    using i interrupt_enters [OF i] by (simp add: x86_interrupted_def result add_cycles_def x86_latches_after_def)
  ultimately show ?thesis using Some by (simp add: x86_frame_def result add_cycles_def)
qed

text \<open>
  C30. The frame of a step, and the interrupts. When the FLAGS hold declared bits only, they do so after every step, and the
  cycle counter grows by exactly the number returned. If the boundary takes an interrupt (a pending NMI, else a pending INTR
  with \<open>IF\<close> set, unless the instruction before inhibits it), the step is that interrupt and nothing else: the
  \<open>interrupt\<close> sequence with its vector runs, the processor is no longer halted, three words are on the stack, \<open>IF\<close> and
  \<open>TF\<close> are clear, and only the latch of the interrupt taken is cleared. If it takes none, both latches are kept.
\<close>

theorem x86_step_frame:
  assumes "bitflags_all_laws Flags_all F" and "flags_ok (rx_flags (xc_regs c))"
    and "x86_step chk F B (c, b) = Some (n, c', b')"
  shows "flags_ok (rx_flags (xc_regs c')) \<and> xc_cycles c' = xc_cycles c + ucast n \<and>
    (case x86_taken c of
       None \<Rightarrow> xc_nmi_pending c' = xc_nmi_pending c \<and> xc_intr c' = xc_intr c
     | Some v \<Rightarrow> \<not> xc_nmi_pending c' \<and> xc_intr c' = (if xc_nmi_pending c then xc_intr c else None) \<and>
         x86_interrupted F B v (c, b) n (c', b'))"
proof -
  have F: "F = fstd" using assms(1) by (rule bitflags_all_laws_std)
  show ?thesis using assms(2,3) unfolding F by (rule step_frame)
qed

text \<open>A halted processor with both interrupts pending takes the NMI and keeps the other one.\<close>

definition waiting_cpu :: X86Cpu where
  "waiting_cpu = X86Cpu_new\<lparr>xc_halted := True, xc_nmi_pending := True, xc_intr := Some 8\<rparr>"

theorem x86_step_frame_witness:
  "case x86_step True (bitflags_all_std Flags_all) X86Memory_bus (waiting_cpu, X86Memory_new) of
     Some (n, c', b') \<Rightarrow> n = 61 \<and> \<not> xc_halted c' \<and> \<not> xc_nmi_pending c' \<and> xc_intr c' = Some 8 \<and> rx_sp (xc_regs c') = 0xFFFA
   | None \<Rightarrow> False"
proof -
  obtain n c' b' where s: "x86_step True fstd X86Memory_bus (waiting_cpu, X86Memory_new) = Some (n, c', b')"
    by (cases "x86_step True fstd X86Memory_bus (waiting_cpu, X86Memory_new)")
      (auto simp: x86_step_def x86_pending_def waiting_cpu_def X86Cpu_new_def)
  have ok: "flags_ok (rx_flags (xc_regs waiting_cpu))"
    by (simp add: waiting_cpu_def X86Cpu_new_def X86Registers_new_def flags_kept)
  have "x86_taken waiting_cpu = Some 2" by (simp add: x86_taken_def waiting_cpu_def X86Cpu_new_def)
  then show ?thesis
    using x86_step_frame [OF bitflags_all_std_laws ok s] unfolding s
    by (simp add: x86_interrupted_def X86_INTERRUPT_CYCLES_def waiting_cpu_def X86Cpu_new_def X86Registers_new_def)
qed

subsection \<open>Reachable states\<close>

text \<open>A host that owns a processor: it steps it, raises and withdraws interrupts, and resets it.\<close>

inductive x86_reachable :: "bool \<Rightarrow> flag_ops \<Rightarrow> 'b X86Bus \<Rightarrow> X86Cpu \<Rightarrow> bool" for chk F B where
  reach_new: "x86_reachable chk F B X86Cpu_new"
| reach_step: "x86_reachable chk F B c \<Longrightarrow> x86_step chk F B (c, b) = Some (n, c', b') \<Longrightarrow> x86_reachable chk F B c'"
| reach_nmi: "x86_reachable chk F B c \<Longrightarrow> x86_reachable chk F B (x86_trigger_nmi c)"
| reach_assert: "x86_reachable chk F B c \<Longrightarrow> x86_reachable chk F B (x86_assert_intr v c)"
| reach_clear: "x86_reachable chk F B c \<Longrightarrow> x86_reachable chk F B (x86_clear_intr c)"
| reach_reset: "x86_reachable chk F B c \<Longrightarrow> x86_reachable chk F B (x86_reset c)"

lemma reachable_flags: "x86_reachable chk fstd B c \<Longrightarrow> flags_ok (rx_flags (xc_regs c))"
  by (induction rule: x86_reachable.induct)
    (simp_all add: step_frame X86Cpu_new_def X86Registers_new_def x86_trigger_nmi_def x86_assert_intr_def
      x86_clear_intr_def x86_reset_def flags_kept)

text \<open>
  In every state a host can reach, on any bus, the FLAGS hold declared bits only, so a value pushed and
  popped again is the same FLAGS.
\<close>

lemma x86_reachable_flags:
  assumes "bitflags_all_laws Flags_all F" and "x86_reachable chk F B c"
  shows "from_word F (to_word (rx_flags (xc_regs c))) = rx_flags (xc_regs c)"
proof -
  have F: "F = fstd" using assms(1) by (rule bitflags_all_laws_std)
  show ?thesis using assms(2) unfolding F by (intro to_word_from_word reachable_flags)
qed

end
