(* ===== verification/X86_Flow.thy ===== *)
theory X86_Flow
  imports X86_Bounds X86_Frame
begin

text \<open>
  Whole instructions on the flat memory: when a step returns, that \<open>IRET\<close> undoes an interrupt, and that
  a repeated string move copies a block.
\<close>

named_theorems x86_run

lemma run_actions [x86_run]:
  "run_state (getc f) (c, b) = (f c, c, b)" "run_state (modc g) (c, b) = ((), g c, b)"
  "run_state (getr h) (c, b) = (h (xc_regs c), c, b)"
  "run_state (modr i) (c, b) = ((), c\<lparr>xc_regs := i (xc_regs c)\<rparr>, b)"
  "run_state (bus_out k) (c, b) = ((), c, k b)"
  "run_state (bus_in l) (c, b) = (fst (l b), c, snd (l b))"
  by (simp_all add: getc_def modc_def getr_def modr_def bus_out_def bus_in_def split: prod.split)

definition byte_at :: "X86Memory \<Rightarrow> u16 \<Rightarrow> u16 \<Rightarrow> u8" where
  "byte_at m sg off = xm_ram m (unat (x86_phys sg off))"

definition put_at :: "u16 \<Rightarrow> u16 \<Rightarrow> u8 \<Rightarrow> X86Memory \<Rightarrow> X86Memory" where
  "put_at sg off v m = m\<lparr>xm_ram := (xm_ram m)(unat (x86_phys sg off) := v)\<rparr>"

lemma phys_bound: "unat (x86_phys sg off) AND 0xFFFFF = unat (x86_phys sg off)"
proof -
  have "x86_phys sg off AND 0xFFFFF = x86_phys sg off" by (simp add: x86_phys_def and.assoc)
  then have "unat (x86_phys sg off AND 0xFFFFF) = unat (x86_phys sg off)" by simp
  then show ?thesis by (simp add: unsigned_and_eq)
qed

lemma run_memory [x86_run]:
  "run_state (x86_read8 X86Memory_bus sg off) (c, m) = (byte_at m sg off, c, m)"
  "run_state (x86_write8 X86Memory_bus sg off v) (c, m) = ((), c, put_at sg off v m)"
  by (simp_all add: x86_read8_def x86_write8_def x86_run X86Memory_bus_def X86Memory_read_def X86Memory_write_def
      byte_at_def put_at_def phys_bound)

lemma phys_value: "uint (x86_phys sg off) = (16 * uint sg + uint off) mod 2 ^ 20"
proof -
  have m: "(0xFFFFF :: u32) = mask 20" by (simp add: mask_eq_exp_minus_1)
  have b: "uint sg < 65536" "uint off < 65536" "0 \<le> uint sg" "0 \<le> uint off" 
    using uint_lt2p [of sg] uint_lt2p [of off] by simp_all
  have "uint (push_bit 4 (ucast sg :: u32)) = 16 * uint sg"
  proof -
    have "uint (ucast sg * 16 :: u32) = (uint sg * 16) mod 2 ^ 32"
      by (simp add: uint_word_ariths uint_ucast_up)
    also have "\<dots> = uint sg * 16" using b by (intro mod_pos_pos_trivial) simp_all
    finally show ?thesis by (simp add: push_bit_eq_mult)
  qed
  then have "uint (push_bit 4 (ucast sg) + ucast off :: u32) = (16 * uint sg + uint off) mod 2 ^ 32"
    by (simp add: uint_word_ariths uint_ucast_up)
  also have "\<dots> = 16 * uint sg + uint off" using b by (intro mod_pos_pos_trivial) simp_all
  finally have "uint (push_bit 4 (ucast sg) + ucast off :: u32) = 16 * uint sg + uint off" .
  then show ?thesis
    unfolding x86_phys_def m by (simp only: take_bit_eq_mask [symmetric] unsigned_take_bit_eq) (simp add: take_bit_eq_mod)
qed

lemma small_multiple: "1048576 dvd (z :: int) \<Longrightarrow> - 65536 < z \<Longrightarrow> z < 65536 \<Longrightarrow> z = 0"
proof (elim dvdE)
  fix k assume "- 65536 < z" "z < 65536" "z = 1048576 * k"
  then have "- 1 < k" "k < 1" by linarith+
  then show "z = 0" using \<open>z = 1048576 * k\<close> by simp
qed

text \<open>Two offsets of one segment never share an address.\<close>

lemma phys_inject [simp]: "x86_phys sg a = x86_phys sg b \<longleftrightarrow> a = b"
proof
  assume "x86_phys sg a = x86_phys sg b"
  then have "uint (x86_phys sg a) = uint (x86_phys sg b)" by simp
  then have "(16 * uint sg + uint a) mod 1048576 = (16 * uint sg + uint b) mod 1048576"
    unfolding phys_value by simp
  then have "1048576 dvd (16 * uint sg + uint a) - (16 * uint sg + uint b)" by (simp only: mod_eq_dvd_iff)
  then have "1048576 dvd uint a - uint b" by (simp only: add_diff_cancel_left)
  moreover have "- 65536 < uint a - uint b" "uint a - uint b < 65536"
    using uint_lt2p [of a] uint_lt2p [of b] uint_ge_0 [of a] uint_ge_0 [of b] by (simp_all, linarith+)
  ultimately have "uint a - uint b = 0" by (rule small_multiple)
  then show "a = b" by (simp add: word_uint_eq_iff)
qed simp

lemma byte_put [simp]:
  "byte_at (put_at sg a v m) sg b = (if a = b then v else byte_at m sg b)"
  by (auto simp: byte_at_def put_at_def word_unat_eq_iff [symmetric])

lemma run_more [x86_run]:
  "run_state (do_if p a) s = (if p then run_state a s else ((), s))"
  "run_state (x86_read16 X86Memory_bus sg off) (c, m) = (le16 (byte_at m sg off) (byte_at m sg (off + 1)), c, m)"
  "run_state (x86_write16 X86Memory_bus sg off u) (c, m) =
     ((), c, put_at sg (off + 1) (hi8 u) (put_at sg off (lo8 u) m))"
  "run_state (runr g) (c, m) = (fst (g (xc_regs c)), c\<lparr>xc_regs := snd (g (xc_regs c))\<rparr>, m)"
  by (simp_all add: do_if_def x86_read16_def x86_write16_def runr_def x86_run split: prod.split)

lemma run_fetch [x86_run]:
  "run_state (x86_fetch_byte X86Memory_bus) (c, m) =
     (byte_at m (rx_cs (xc_regs c)) (rx_ip (xc_regs c)), c\<lparr>xc_regs := (xc_regs c)\<lparr>rx_ip := rx_ip (xc_regs c) + 1\<rparr>\<rparr>, m)"
  by (simp add: x86_fetch_byte_def x86_run)

lemma run_stack [x86_run]:
  "run_state (push16 X86Memory_bus u) (c, m) =
     (let r = xc_regs c; sp = rx_sp r - 2
      in ((), c\<lparr>xc_regs := r\<lparr>rx_sp := sp\<rparr>\<rparr>, put_at (rx_ss r) (sp + 1) (hi8 u) (put_at (rx_ss r) sp (lo8 u) m)))"
  "run_state (pop16 X86Memory_bus) (c, m) =
     (let r = xc_regs c; sp = rx_sp r
      in (le16 (byte_at m (rx_ss r) sp) (byte_at m (rx_ss r) (sp + 1)), c\<lparr>xc_regs := r\<lparr>rx_sp := sp + 2\<rparr>\<rparr>, m))"
  by (simp_all add: push16_def pop16_def x86_run Let_def)

subsection \<open>When a step returns\<close>

text \<open>Without overflow checks the prefix loop stops exactly at the first byte that is no prefix.\<close>

lemma prefix_cs: "x86_prefix b = Some f \<Longrightarrow> xc_regs (f c) = xc_regs c"
  by (auto simp: x86_prefix_def split: if_splits)

lemma prefix_loop_stops:
  assumes "\<not> is_prefix (byte_at m (rx_cs (xc_regs c)) (rx_ip (xc_regs c) + of_nat d))"
  shows "\<exists>op n c'. prefix_loop False X86Memory_bus (c, m) k = Some ((op, n), c', m) \<and> \<not> is_prefix op"
  using assms
proof (induction d arbitrary: c k)
  case 0
  then have "x86_prefix (byte_at m (rx_cs (xc_regs c)) (rx_ip (xc_regs c))) = None"
    using prefix_iff [of "byte_at m (rx_cs (xc_regs c)) (rx_ip (xc_regs c))"] by (simp flip: not_None_eq)
  then show ?case using 0 by (subst prefix_loop.simps) (simp add: x86_run)
next
  case (Suc d)
  show ?case
  proof (cases "x86_prefix (byte_at m (rx_cs (xc_regs c)) (rx_ip (xc_regs c)))")
    case None
    then have "\<not> is_prefix (byte_at m (rx_cs (xc_regs c)) (rx_ip (xc_regs c)))" using prefix_iff by blast
    then show ?thesis using None by (subst prefix_loop.simps) (simp add: x86_run)
  next
    case (Some f)
    let ?c = "f (c\<lparr>xc_regs := (xc_regs c)\<lparr>rx_ip := rx_ip (xc_regs c) + 1\<rparr>\<rparr>)"
    have "\<not> is_prefix (byte_at m (rx_cs (xc_regs ?c)) (rx_ip (xc_regs ?c) + of_nat d))"
      using Suc.prems by (simp add: prefix_cs [OF Some] ac_simps)
    from Suc.IH [OF this] show ?thesis
      using Some by (subst prefix_loop.simps) (simp add: x86_run add_u32_def)
  qed
qed

lemma prefix_loop_runs_on:
  assumes "\<And>off. is_prefix (byte_at m cs off)"
  shows "rx_cs (xc_regs c) = cs \<Longrightarrow> prefix_loop chk X86Memory_bus (c, m) k = None"
proof (rule ccontr)
  assume "rx_cs (xc_regs c) = cs" and "prefix_loop chk X86Memory_bus (c, m) k \<noteq> None"
  then obtain r where r: "prefix_loop chk X86Memory_bus (c, m) k = Some r" by blast
  have "B = X86Memory_bus \<longrightarrow> snd s = m \<longrightarrow> rx_cs (xc_regs (fst s)) \<noteq> cs" if "prefix_loop chk B s k = Some r"
    for chk and B :: "X86Memory X86Bus" and s k r
  proof (rule prefix_loop.raw_induct [where P = "\<lambda>chk B s k r. B = X86Memory_bus \<longrightarrow> snd s = m \<longrightarrow> rx_cs (xc_regs (fst s)) \<noteq> cs",
        OF _ that], goal_cases)
    case (1 loop chk B s k r)
    show ?case
    proof (intro impI notI)
      assume B: "B = X86Memory_bus" and s: "snd s = m" and cs: "rx_cs (xc_regs (fst s)) = cs"
      obtain f where f: "x86_prefix (byte_at m cs (rx_ip (xc_regs (fst s)))) = Some f" using assms prefix_iff by blast
      have e: "s = (fst s, m)" using s by (metis prod.collapse)
      obtain k' where "loop chk X86Memory_bus (f ((fst s)\<lparr>xc_regs := (xc_regs (fst s))\<lparr>rx_ip := rx_ip (xc_regs (fst s)) + 1\<rparr>\<rparr>), m) k' = Some r"
        using 1(2) f cs unfolding B by (subst (asm) e) (auto simp: x86_run bind_eq_Some_conv)
      from 1(1) [OF this] show False using cs by (simp add: prefix_cs [OF f])
    qed
  qed
  from this [OF r] show False using \<open>rx_cs (xc_regs c) = cs\<close> by simp
qed

text \<open>
  C29. Progress. With wrapping cycle arithmetic a step on the flat memory fails to return exactly when it
  has to execute (no interrupt is due and the processor is not halted) and all 65536 bytes of the code
  segment are prefix bytes; otherwise it returns, whatever the instruction and its repeat count.
\<close>

theorem x86_step_returns:
  "x86_step False F X86Memory_bus (c, m) = None \<longleftrightarrow>
     (xc_inhibit c \<or> x86_pending F c = None) \<and> \<not> xc_halted c \<and>
     (\<forall>off. x86_prefix (fst (X86Memory_read m (x86_phys (rx_cs (xc_regs c)) off))) \<noteq> None)"
proof -
  let ?c = "c\<lparr>xc_inhibit := False\<rparr>"
  let ?d = "?c\<lparr>xc_seg_override := None, xc_rep := None\<rparr>"
  have byte: "fst (X86Memory_read m (x86_phys sg off)) = byte_at m sg off" for sg off
    by (simp add: X86Memory_read_def byte_at_def phys_bound)
  have instr: "x86_instruction False F X86Memory_bus (?c, m) = None \<longleftrightarrow> (\<forall>off. is_prefix (byte_at m (rx_cs (xc_regs c)) off))"
  proof (cases "\<forall>off. is_prefix (byte_at m (rx_cs (xc_regs c)) off)")
    case True
    then have "prefix_loop False X86Memory_bus (?d, m) 0 = None" by (intro prefix_loop_runs_on) auto
    then show ?thesis using True by (simp add: x86_instruction_def Let_def)
  next
    case False
    then obtain off where "\<not> is_prefix (byte_at m (rx_cs (xc_regs c)) off)" by blast
    moreover have "off = rx_ip (xc_regs c) + of_nat (unat (off - rx_ip (xc_regs c)))" by simp
    ultimately have "\<not> is_prefix (byte_at m (rx_cs (xc_regs ?d)) (rx_ip (xc_regs ?d) + of_nat (unat (off - rx_ip (xc_regs c)))))"
      by simp
    from prefix_loop_stops [OF this] obtain op n c' where
      p: "prefix_loop False X86Memory_bus (?d, m) 0 = Some ((op, n), c', m)" and "\<not> is_prefix op" by blast
    then obtain a where d: "x86_dispatch F X86Memory_bus op = Some a" using dispatch_None by blast
    show ?thesis
      using False by (simp add: x86_instruction_def Let_def p d add_u32_def split: prod.split)
  qed
  have pend: "x86_pending F ?c = None \<longleftrightarrow> x86_pending F c = None"
    by (simp add: x86_pending_def split: option.split)
  show ?thesis
    unfolding byte prefix_iff x86_step_def prod.case Let_def
    using instr pend by (auto split: option.split prod.split) (metis prod_cases3)+
qed

subsection \<open>Interrupt and return\<close>

lemma sp_offsets:
  "(sp :: u16) - 2 + 1 = sp - 1" "sp - 2 - 2 = sp - 4" "sp - 2 - 2 + 1 = sp - 3" "sp - 2 - 2 - 2 = sp - 6"
  "sp - 2 - 2 - 2 + 1 = sp - 5" "sp - 6 + 2 = sp - 4" "sp - 4 + 2 = sp - 2" "sp - 2 + 2 = sp"
  "sp - 6 + 1 = sp - 5" "sp - 4 + 1 = sp - 3"
  by simp_all

text \<open>The six bytes an interrupt leaves on the stack.\<close>

definition stack_frame :: "X86Memory \<Rightarrow> X86Registers \<Rightarrow> u8 list" where
  "stack_frame m r = map (\<lambda>k. byte_at m (rx_ss r) (rx_sp r + of_nat k)) [0..<6]"

lemma stack_frame_words:
  "stack_frame m r = map (\<lambda>k. byte_at m (rx_ss r) (rx_sp r + k)) [0, 1, 2, 3, 4, 5]"
  by (simp add: stack_frame_def upt_rec)

lemma interrupt_frame:
  assumes "run_state (interrupt F X86Memory_bus v) (c, m) = (u, c1, m1)"
  shows "rx_ss (xc_regs c1) = rx_ss (xc_regs c)" and "rx_sp (xc_regs c1) = rx_sp (xc_regs c) - 6"
    and "stack_frame m1 (xc_regs c1) =
      [lo8 (rx_ip (xc_regs c)), hi8 (rx_ip (xc_regs c)), lo8 (rx_cs (xc_regs c)), hi8 (rx_cs (xc_regs c)),
       lo8 (to_word (rx_flags (xc_regs c))), hi8 (to_word (rx_flags (xc_regs c)))]"
  using assms unfolding interrupt_def
  by (auto simp: x86_run Let_def stack_frame_words)

lemma iret_pops:
  assumes "stack_frame m r = [lo8 ip, hi8 ip, lo8 cs, hi8 cs, lo8 f, hi8 f]" and "xc_regs c = r"
    and "x86_dispatch F X86Memory_bus 0xCF = Some iret" and "run_state iret (c, m) = (n, c', m')"
  shows "c' = c\<lparr>xc_regs := r\<lparr>rx_ip := ip, rx_cs := cs, rx_sp := rx_sp r + 6, rx_flags := from_word F f\<rparr>\<rparr> \<and> m' = m"
proof -
  have "iret = do {
      pop_ip X86Memory_bus;
      pop_cs X86Memory_bus;
      f \<leftarrow> pop16 X86Memory_bus;
      set_flags (\<lambda>_. from_word F f);
      ret 24
    }"
    using assms(3) by (simp add: x86_dispatch_def exec_alu_def exec_stack_def exec_inc_jcc_def exec_xchg_def exec_mov_def
        exec_mov_direct_def exec_mov_imm_def exec_load_far_def exec_convert_def exec_bcd_def exec_string_def exec_shift_def exec_ret_def)
  then show ?thesis
    using assms(1,2,4) unfolding stack_frame_words
    by (auto simp: pop_ip_def pop_cs_def set_ip_def set_flags_def x86_run Let_def add.assoc)
qed

text \<open>
  C31. Interrupt and return. In a state whose FLAGS are declared bits, an interrupt followed by any handler that
  leaves \<open>SS:SP\<close> and the six bytes of its frame as it found them and ends in \<open>IRET\<close> resumes at the
  interrupted instruction with the interrupted stack and FLAGS, \<open>IF\<close> and \<open>TF\<close> included.
\<close>

theorem x86_iret_resumes:
  assumes "bitflags_all_laws Flags_all F" and "flags_ok (rx_flags (xc_regs c))"
    and "run_state (interrupt F X86Memory_bus v) (c, m) = (u, c1, m1)"
    and "rx_ss (xc_regs c2) = rx_ss (xc_regs c1)" and "rx_sp (xc_regs c2) = rx_sp (xc_regs c1)"
    and "stack_frame m2 (xc_regs c2) = stack_frame m1 (xc_regs c1)"
    and "x86_dispatch F X86Memory_bus 0xCF = Some iret" and "run_state iret (c2, m2) = (n, c3, m3)"
  shows "xc_regs c3 = (xc_regs c2)\<lparr>rx_ip := rx_ip (xc_regs c), rx_cs := rx_cs (xc_regs c),
      rx_sp := rx_sp (xc_regs c), rx_flags := rx_flags (xc_regs c)\<rparr> \<and> m3 = m2"
proof -
  have F: "F = fstd" using assms(1) by (rule bitflags_all_laws_std)
  note frame = interrupt_frame [OF assms(3)]
  have "rx_sp (xc_regs c2) + 6 = rx_sp (xc_regs c)" using assms(5) frame(2) by simp
  then show ?thesis
    using iret_pops [OF assms(6) [unfolded frame(3)] refl assms(7,8)] to_word_from_word [OF assms(2)] unfolding F by simp
qed

theorem x86_iret_resumes_witness:
  "case run_state (interrupt (bitflags_all_std Flags_all) X86Memory_bus 8) (X86Cpu_new, X86Memory_new) of (u, c1, m1) \<Rightarrow>
     case x86_dispatch (bitflags_all_std Flags_all) X86Memory_bus 0xCF of Some iret \<Rightarrow>
       (case run_state iret (c1, m1) of (n, c3, m3) \<Rightarrow> rx_cs (xc_regs c3) = 0xFFFF)
     | None \<Rightarrow> False"
proof -
  obtain u c1 m1 where i: "run_state (interrupt fstd X86Memory_bus 8) (X86Cpu_new, X86Memory_new) = (u, c1, m1)"
    by (metis prod.exhaust)
  have "\<not> is_prefix 0xCF" by (simp add: is_prefix_def)
  then obtain iret where d: "x86_dispatch fstd X86Memory_bus 0xCF = Some iret" using dispatch_None by blast
  obtain n c3 m3 where r: "run_state iret (c1, m1) = (n, c3, m3)" by (metis prod.exhaust)
  have "flags_ok (rx_flags (xc_regs X86Cpu_new))" by (simp add: X86Cpu_new_def X86Registers_new_def flags_kept)
  from x86_iret_resumes [OF bitflags_all_std_laws this i refl refl refl d r]
  show ?thesis using i d r by (simp add: X86Cpu_new_def X86Registers_new_def)
qed

subsection \<open>Block moves\<close>

lemma byte_put_other: "x86_phys s a \<noteq> x86_phys t b \<Longrightarrow> byte_at (put_at s a v m) t b = byte_at m t b"
  by (auto simp: byte_at_def put_at_def word_unat_eq_iff)

lemma ram_put: "a \<noteq> unat (x86_phys s off) \<Longrightarrow> xm_ram (put_at s off v m) a = xm_ram m a"
  by (simp add: put_at_def)

text \<open>What the loop leaves, one byte after the other.\<close>

fun block_copy :: "u16 \<Rightarrow> u16 \<Rightarrow> u16 \<Rightarrow> u16 \<Rightarrow> nat \<Rightarrow> X86Memory \<Rightarrow> X86Memory" where
  "block_copy sg si es di 0 m = m"
| "block_copy sg si es di (Suc n) m = block_copy sg (si + 1) es (di + 1) n (put_at es di (byte_at m sg si) m)"

lemma run_movs8:
  assumes "\<not> bit (rx_flags (xc_regs c)) 10"
  shows "run_state (movs8 fstd X86Memory_bus) (c, m) =
    ((), c\<lparr>xc_regs := (xc_regs c)\<lparr>rx_si := rx_si (xc_regs c) + 1, rx_di := rx_di (xc_regs c) + 1\<rparr>\<rparr>,
     put_at (rx_es (xc_regs c)) (rx_di (xc_regs c)) (byte_at m (seg_or c x86_DS) (rx_si (xc_regs c))) m)"
  using assms by (simp add: movs8_def delta_def step_si_def step_di_def x86_run flag_simps)

lemma seg_or_moves [simp]:
  "seg_or (c\<lparr>xc_regs := (xc_regs c)\<lparr>rx_cx := z, rx_si := x, rx_di := y\<rparr>\<rparr>) d = seg_or c d"
  by (simp_all add: seg_or_def seg_def Let_def)

lemma rep_movs8:
  assumes "\<not> bit (rx_flags (xc_regs c)) 10" and "rx_cx (xc_regs c) = of_nat n" and "n < 65536"
  shows "run_state (rep_loop fstd (movs8 fstd X86Memory_bus) False z per n k) (c, m) =
    (k + of_nat n * per,
     c\<lparr>xc_regs := (xc_regs c)\<lparr>rx_cx := 0, rx_si := rx_si (xc_regs c) + of_nat n, rx_di := rx_di (xc_regs c) + of_nat n\<rparr>\<rparr>,
     block_copy (seg_or c x86_DS) (rx_si (xc_regs c)) (rx_es (xc_regs c)) (rx_di (xc_regs c)) n m)"
  using assms
proof (induction n arbitrary: c k m)
  case 0
  then show ?case by simp
next
  case (Suc n)
  let ?r = "xc_regs c"
  let ?c = "c\<lparr>xc_regs := ?r\<lparr>rx_cx := rx_cx ?r - 1, rx_si := rx_si ?r + 1, rx_di := rx_di ?r + 1\<rparr>\<rparr>"
  have nz: "rx_cx ?r \<noteq> 0"
  proof
    assume "rx_cx ?r = 0"
    then have "unat (of_nat (Suc n) :: u16) = 0" using Suc.prems(2) by simp
    then show False using Suc.prems(3) by (simp add: unat_of_nat del: of_nat_Suc)
  qed
  have cx: "rx_cx (xc_regs ?c) = of_nat n" using Suc.prems(2) by simp
  have "run_state (rep_loop fstd (movs8 fstd X86Memory_bus) False z per (Suc n) k) (c, m) =
      run_state (rep_loop fstd (movs8 fstd X86Memory_bus) False z per n (k + per))
        (?c, put_at (rx_es ?r) (rx_di ?r) (byte_at m (seg_or c x86_DS) (rx_si ?r)) m)"
  proof -
    have order: "r\<lparr>rx_si := x, rx_di := y, rx_cx := w\<rparr> = r\<lparr>rx_cx := w, rx_si := x, rx_di := y\<rparr>" for r :: X86Registers and x y w
      by (cases r) simp
    show ?thesis using nz run_movs8 [OF Suc.prems(1), of m] by (simp add: x86_run order)
  qed
  also have "\<dots> = (k + per + of_nat n * per,
     ?c\<lparr>xc_regs := (xc_regs ?c)\<lparr>rx_cx := 0, rx_si := rx_si (xc_regs ?c) + of_nat n, rx_di := rx_di (xc_regs ?c) + of_nat n\<rparr>\<rparr>,
     block_copy (seg_or ?c x86_DS) (rx_si (xc_regs ?c)) (rx_es (xc_regs ?c)) (rx_di (xc_regs ?c)) n
       (put_at (rx_es ?r) (rx_di ?r) (byte_at m (seg_or c x86_DS) (rx_si ?r)) m))"
    using Suc.prems(1,3) cx by (intro Suc.IH) simp_all
  finally show ?case by (simp add: algebra_simps)
qed

lemma shifted_images:
  "(\<lambda>i. f (x + 1 + of_nat i)) ` {..<n} \<subseteq> (\<lambda>i. f (x + of_nat i :: u16)) ` {..<Suc n}"
proof
  fix y assume "y \<in> (\<lambda>i. f (x + 1 + of_nat i)) ` {..<n}"
  then obtain i where "i < n" "y = f (x + 1 + of_nat i)" by blast
  then show "y \<in> (\<lambda>i. f (x + of_nat i)) ` {..<Suc n}"
    by (intro image_eqI [where x = "Suc i"]) (simp_all add: ac_simps)
qed

lemma block_copy_rest:
  "a \<notin> (\<lambda>i. unat (x86_phys es (di + of_nat i))) ` {..<n} \<Longrightarrow> xm_ram (block_copy sg si es di n m) a = xm_ram m a"
proof (induction n arbitrary: si di m)
  case (Suc n)
  have "a \<notin> (\<lambda>i. unat (x86_phys es (di + 1 + of_nat i))) ` {..<n}"
    using Suc.prems shifted_images [of "\<lambda>x. unat (x86_phys es x)" di n] by blast
  moreover have "unat (x86_phys es di) \<in> (\<lambda>i. unat (x86_phys es (di + of_nat i))) ` {..<Suc n}"
    by (intro image_eqI [where x = 0]) simp_all
  then have "a \<noteq> unat (x86_phys es di)" using Suc.prems by blast
  ultimately show ?case by (simp add: Suc.IH ram_put)
qed simp

lemma block_copy_bytes:
  assumes "(\<lambda>i. x86_phys es (di + of_nat i)) ` {..<n} \<inter> (\<lambda>i. x86_phys sg (si + of_nat i)) ` {..<n} = {}"
    and "n < 65536" and "i < n"
  shows "byte_at (block_copy sg si es di n m) es (di + of_nat i) = byte_at m sg (si + of_nat i)"
  using assms
proof (induction n arbitrary: si di m i)
  case (Suc n)
  let ?m = "put_at es di (byte_at m sg si) m"
  have disj: "(\<lambda>i. x86_phys es (di + 1 + of_nat i)) ` {..<n} \<inter> (\<lambda>i. x86_phys sg (si + 1 + of_nat i)) ` {..<n} = {}"
    using Suc.prems(1) shifted_images [of "x86_phys es" di n] shifted_images [of "x86_phys sg" si n] by blast
  show ?case
  proof (cases i)
    case 0
    have "unat (x86_phys es di) \<notin> (\<lambda>i. unat (x86_phys es (di + 1 + of_nat i))) ` {..<n}"
    proof
      assume "unat (x86_phys es di) \<in> (\<lambda>i. unat (x86_phys es (di + 1 + of_nat i))) ` {..<n}"
      then obtain j where "j < n" "di = di + 1 + of_nat j" by (auto simp: word_unat_eq_iff [symmetric])
      then have "of_nat (Suc j) = (0 :: u16)" by (simp add: add.assoc)
      then have "unat (of_nat (Suc j) :: u16) = 0" by simp
      then show False using \<open>j < n\<close> Suc.prems(2) by (simp add: unat_of_nat del: of_nat_Suc)
    qed
    then show ?thesis using 0 by (simp add: byte_at_def block_copy_rest) (simp add: put_at_def)
  next
    case (Suc j)
    have "x86_phys es di \<noteq> x86_phys sg (si + of_nat (Suc j))"
    proof -
      have "x86_phys es di \<in> (\<lambda>i. x86_phys es (di + of_nat i)) ` {..<Suc n}"
        by (intro image_eqI [where x = 0]) simp_all
      moreover have "x86_phys sg (si + of_nat (Suc j)) \<in> (\<lambda>i. x86_phys sg (si + of_nat i)) ` {..<Suc n}"
        using Suc.prems(3) Suc by (intro imageI) simp
      ultimately show ?thesis using Suc.prems(1) by (metis disjoint_iff)
    qed
    then have "byte_at ?m sg (si + 1 + of_nat j) = byte_at m sg (si + of_nat (Suc j))"
      by (simp add: byte_put_other ac_simps)
    moreover have "byte_at (block_copy sg (si + 1) es (di + 1) n ?m) es (di + 1 + of_nat j) = byte_at ?m sg (si + 1 + of_nat j)"
      using Suc.prems(2,3) Suc by (intro Suc.IH [OF disj]) simp_all
    ultimately show ?thesis using Suc by (simp add: ac_simps)
  qed
qed simp

lemma movsb_action:
  assumes "x86_dispatch F B 0xA4 = Some a"
  shows "a = rep_str F (movs8 F B) False 18 17"
  using assms by (simp add: x86_dispatch_def exec_alu_def exec_stack_def exec_inc_jcc_def exec_xchg_def exec_mov_def
      exec_mov_direct_def exec_mov_imm_def exec_load_far_def exec_convert_def exec_bcd_def exec_string_def)

text \<open>
  C28. Block move. With \<open>DF\<close> clear, \<open>REP MOVSB\<close> copies the \<open>CX\<close> bytes at the source segment (a prefix may
  override it) and \<open>SI\<close> to \<open>ES:DI\<close>, for ranges that do not overlap but may wrap around their segments, and
  writes no other byte; \<open>CX\<close> ends at zero, \<open>SI\<close> and \<open>DI\<close> past the ranges, at seventeen cycles a byte.
\<close>

theorem x86_rep_movsb:
  fixes c :: X86Cpu
  defines "r \<equiv> xc_regs c" and "n \<equiv> unat (rx_cx (xc_regs c))" and "sg \<equiv> seg_or c x86_DS"
  assumes "bitflags_all_laws Flags_all F" and "\<not> fl_contains F (rx_flags r) Flags_DF" and "xc_rep c = Some z"
    and "(\<lambda>i. x86_phys (rx_es r) (rx_di r + of_nat i)) ` {..<n} \<inter> (\<lambda>i. x86_phys sg (rx_si r + of_nat i)) ` {..<n} = {}"
    and "x86_dispatch F X86Memory_bus 0xA4 = Some a" and "run_state a (c, m) = (k, c', m')"
  shows "k = 9 + of_nat n * 17 \<and>
    c' = c\<lparr>xc_regs := r\<lparr>rx_cx := 0, rx_si := rx_si r + of_nat n, rx_di := rx_di r + of_nat n\<rparr>\<rparr> \<and>
    (\<forall>i<n. byte_at m' (rx_es r) (rx_di r + of_nat i) = byte_at m sg (rx_si r + of_nat i)) \<and>
    (\<forall>i. i \<notin> (\<lambda>i. unat (x86_phys (rx_es r) (rx_di r + of_nat i))) ` {..<n} \<longrightarrow> xm_ram m' i = xm_ram m i)"
proof -
  have F: "F = fstd" using assms(4) by (rule bitflags_all_laws_std)
  have n: "n < 65536" unfolding n_def by (rule unat_u16_less)
  have "\<not> bit (rx_flags (xc_regs c)) 10" using assms(5) unfolding F r_def by (simp add: flag_simps)
  note loop = rep_movs8 [OF this _ n, of z 17 9 m]
  have "run_state a (c, m) = run_state (rep_loop fstd (movs8 fstd X86Memory_bus) False z 17 n 9) (c, m)"
    using movsb_action [OF assms(8)] assms(6) unfolding F n_def by (simp add: rep_str_def x86_run)
  also have "\<dots> = (9 + of_nat n * 17,
     c\<lparr>xc_regs := r\<lparr>rx_cx := 0, rx_si := rx_si r + of_nat n, rx_di := rx_di r + of_nat n\<rparr>\<rparr>,
     block_copy sg (rx_si r) (rx_es r) (rx_di r) n m)"
    unfolding r_def sg_def by (rule loop) (simp add: n_def)
  finally show ?thesis
    using assms(9) block_copy_bytes [OF assms(7) n] block_copy_rest [of _ "rx_es r" "rx_di r" n sg "rx_si r" m] by auto
qed

theorem x86_rep_movsb_witness:
  "let c = X86Cpu_new\<lparr>xc_rep := Some True, xc_regs := X86Registers_new\<lparr>rx_cx := 2, rx_si := 16, rx_di := 32\<rparr>\<rparr>
   in case x86_dispatch (bitflags_all_std Flags_all) X86Memory_bus 0xA4 of
        Some a \<Rightarrow> (case run_state a (c, X86Memory_new) of (k, c', m') \<Rightarrow> k = 43 \<and> rx_di (xc_regs c') = 34)
      | None \<Rightarrow> False"
proof -
  let ?c = "X86Cpu_new\<lparr>xc_rep := Some True, xc_regs := X86Registers_new\<lparr>rx_cx := 2, rx_si := 16, rx_di := 32\<rparr>\<rparr>"
  have "\<not> is_prefix 0xA4" by (simp add: is_prefix_def)
  then obtain a where d: "x86_dispatch fstd X86Memory_bus 0xA4 = Some a" using dispatch_None by blast
  obtain k c' m' where r: "run_state a (?c, X86Memory_new) = (k, c', m')" by (metis prod.exhaust)
  have df: "\<not> fl_contains fstd (rx_flags (xc_regs ?c)) Flags_DF" by (simp add: flag_simps X86Registers_new_def)
  have disj: "(\<lambda>i. x86_phys (rx_es (xc_regs ?c)) (rx_di (xc_regs ?c) + of_nat i)) ` {..<unat (rx_cx (xc_regs ?c))} \<inter>
      (\<lambda>i. x86_phys (seg_or ?c x86_DS) (rx_si (xc_regs ?c) + of_nat i)) ` {..<unat (rx_cx (xc_regs ?c))} = {}"
    by (simp add: X86Registers_new_def X86Cpu_new_def seg_or_def seg_def x86_DS_def lessThan_nat_numeral lessThan_Suc)
  from x86_rep_movsb [where c = ?c, OF bitflags_all_std_laws df _ disj d r, of True] show ?thesis
    using d r by (simp add: Let_def X86Registers_new_def)
qed

end
