(* ===== verification/X386_Registers.thy ===== *)
theory X386_Registers
  imports X86_Registers
begin

text \<open>
  \<open>src/x86_32/registers.rs\<close>: EFLAGS, the segment registers with their descriptor caches, and the register
  file of the 80386. \<open>EFlags\<close> is a \<open>bitflags\<close> type over \<open>u32\<close>: the crate's operations are the parameter
  \<open>F\<close>. Arrays of registers are functions on the instruction encodings; an index is masked or one of
  the register constants. Names that the 8086 model also has carry the prefix \<open>i386_\<close>.
\<close>

subsection \<open>EFLAGS\<close>

type_synonym EFlags = u32
type_synonym eflag_ops = "u32 bitflags_all"

definition EFlags_CF :: EFlags where "EFlags_CF = push_bit 0 1"
definition EFlags_PF :: EFlags where "EFlags_PF = push_bit 2 1"
definition EFlags_AF :: EFlags where "EFlags_AF = push_bit 4 1"
definition EFlags_ZF :: EFlags where "EFlags_ZF = push_bit 6 1"
definition EFlags_SF :: EFlags where "EFlags_SF = push_bit 7 1"
definition EFlags_TF :: EFlags where "EFlags_TF = push_bit 8 1"
definition EFlags_IF :: EFlags where "EFlags_IF = push_bit 9 1"
definition EFlags_DF :: EFlags where "EFlags_DF = push_bit 10 1"
definition EFlags_OF :: EFlags where "EFlags_OF = push_bit 11 1"
definition EFlags_IOPL :: EFlags where "EFlags_IOPL = push_bit 12 3"
definition EFlags_NT :: EFlags where "EFlags_NT = push_bit 14 1"
definition EFlags_RF :: EFlags where "EFlags_RF = push_bit 16 1"
definition EFlags_VM :: EFlags where "EFlags_VM = push_bit 17 1"

definition EFlags_DEFINED :: u32 where "EFlags_DEFINED = 0x00037FD5"
definition EFlags_STATUS :: u32 where "EFlags_STATUS = 0x000008D5"

text \<open>The union of the declared flags, which is what \<open>from_bits_truncate\<close> keeps.\<close>

lemma EFlags_DEFINED_union:
  "EFlags_DEFINED = EFlags_CF OR EFlags_PF OR EFlags_AF OR EFlags_ZF OR EFlags_SF OR EFlags_TF OR EFlags_IF OR
     EFlags_DF OR EFlags_OF OR EFlags_IOPL OR EFlags_NT OR EFlags_RF OR EFlags_VM"
  by (simp add: EFlags_DEFINED_def EFlags_CF_def EFlags_PF_def EFlags_AF_def EFlags_ZF_def EFlags_SF_def EFlags_TF_def
      EFlags_IF_def EFlags_DF_def EFlags_OF_def EFlags_IOPL_def EFlags_NT_def EFlags_RF_def EFlags_VM_def)

definition image16 :: "EFlags \<Rightarrow> u16" where "image16 f = ucast f OR 0x0002"

definition image32 :: "eflag_ops \<Rightarrow> EFlags \<Rightarrow> u32" where
  "image32 F f = (f OR 0x0002) AND NOT (fl_union F EFlags_VM EFlags_RF)"

definition eflags_load :: "eflag_ops \<Rightarrow> EFlags \<Rightarrow> u32 \<Rightarrow> u32 \<Rightarrow> EFlags" where
  "eflags_load F f value mask' =
     (let keep = f AND NOT mask' in fl_truncate F (keep OR (value AND mask')))"

definition iopl :: "EFlags \<Rightarrow> u8" where "iopl f = ucast (drop_bit 12 f AND 3)"

definition i386_szp8 :: "eflag_ops \<Rightarrow> EFlags \<Rightarrow> u8 \<Rightarrow> EFlags" where
  "i386_szp8 F f v =
     (let f = fl_set F f EFlags_SF (v AND 0x80 \<noteq> 0);
          f = fl_set F f EFlags_ZF (v = 0)
      in fl_set F f EFlags_PF (ones v mod 2 = 0))"

definition i386_szp16 :: "eflag_ops \<Rightarrow> EFlags \<Rightarrow> u16 \<Rightarrow> EFlags" where
  "i386_szp16 F f v =
     (let f = fl_set F f EFlags_SF (v AND 0x8000 \<noteq> 0);
          f = fl_set F f EFlags_ZF (v = 0)
      in fl_set F f EFlags_PF (ones (ucast v :: u8) mod 2 = 0))"

definition i386_szp32 :: "eflag_ops \<Rightarrow> EFlags \<Rightarrow> u32 \<Rightarrow> EFlags" where
  "i386_szp32 F f v =
     (let f = fl_set F f EFlags_SF (v AND 0x80000000 \<noteq> 0);
          f = fl_set F f EFlags_ZF (v = 0)
      in fl_set F f EFlags_PF (ones (ucast v :: u8) mod 2 = 0))"

subsection \<open>Register indices\<close>

definition EAX :: u8 where "EAX = 0"
definition ECX :: u8 where "ECX = 1"
definition EDX :: u8 where "EDX = 2"
definition EBX :: u8 where "EBX = 3"
definition ESP :: u8 where "ESP = 4"
definition EBP :: u8 where "EBP = 5"
definition ESI :: u8 where "ESI = 6"
definition EDI :: u8 where "EDI = 7"
definition ES :: u8 where "ES = 0"
definition CS :: u8 where "CS = 1"
definition SS :: u8 where "SS = 2"
definition DS :: u8 where "DS = 3"
definition FS :: u8 where "FS = 4"
definition GS :: u8 where "GS = 5"

lemmas reg_index_defs = EAX_def ECX_def EDX_def EBX_def ESP_def EBP_def ESI_def EDI_def
  ES_def CS_def SS_def DS_def FS_def GS_def

subsection \<open>Segment registers\<close>

record SegReg =
  sr_sel :: u16
  sr_base :: u32
  sr_limit :: u32
  sr_attrs :: u16

definition REAL_MODE_ATTRS :: u16 where "REAL_MODE_ATTRS = 0x0093"

definition SegReg_real :: "u16 \<Rightarrow> SegReg" where
  "SegReg_real sel =
     \<lparr>sr_sel = sel, sr_base = push_bit 4 (ucast sel), sr_limit = 0xFFFF, sr_attrs = REAL_MODE_ATTRS\<rparr>"

definition sr_db :: "SegReg \<Rightarrow> bool" where "sr_db s \<longleftrightarrow> sr_attrs s AND 0x0400 \<noteq> 0"

definition sr_dpl :: "SegReg \<Rightarrow> u8" where "sr_dpl s = ucast (drop_bit 5 (sr_attrs s) AND 3)"

definition sr_expand_down :: "SegReg \<Rightarrow> bool" where
  "sr_expand_down s \<longleftrightarrow> sr_attrs s AND 0x0018 = 0x0010 \<and> sr_attrs s AND 0x0004 \<noteq> 0"

record DescTable =
  dt_base :: u32
  dt_limit :: u16

subsection \<open>The register file\<close>

record X386Registers =
  r3_gpr :: "u8 \<Rightarrow> u32"
  r3_seg :: "u8 \<Rightarrow> SegReg"
  r3_eip :: u32
  r3_eflags :: EFlags
  r3_cr0 :: u32
  r3_cr2 :: u32
  r3_cr3 :: u32
  r3_dr :: "u8 \<Rightarrow> u32"
  r3_tr6 :: u32
  r3_tr7 :: u32
  r3_gdtr :: DescTable
  r3_idtr :: DescTable
  r3_ldtr :: SegReg
  r3_tr :: SegReg

definition cr0_PE :: u32 where "cr0_PE = push_bit 0 1"
definition cr0_MP :: u32 where "cr0_MP = push_bit 1 1"
definition cr0_EM :: u32 where "cr0_EM = push_bit 2 1"
definition cr0_TS :: u32 where "cr0_TS = push_bit 3 1"
definition cr0_ET :: u32 where "cr0_ET = push_bit 4 1"
definition cr0_PG :: u32 where "cr0_PG = push_bit 31 1"

definition X386Registers_new :: X386Registers where
  "X386Registers_new =
     (let sg = (\<lambda>_. SegReg_real 0)(CS := \<lparr>sr_sel = 0xF000, sr_base = 0xFFFF0000, sr_limit = 0xFFFF,
            sr_attrs = REAL_MODE_ATTRS\<rparr>)
      in \<lparr>r3_gpr = (\<lambda>_. 0), r3_seg = sg, r3_eip = 0x0000FFF0, r3_eflags = 0, r3_cr0 = cr0_ET, r3_cr2 = 0,
          r3_cr3 = 0, r3_dr = (\<lambda>_. 0), r3_tr6 = 0, r3_tr7 = 0, r3_gdtr = \<lparr>dt_base = 0, dt_limit = 0xFFFF\<rparr>,
          r3_idtr = \<lparr>dt_base = 0, dt_limit = 0x03FF\<rparr>,
          r3_ldtr = \<lparr>sr_sel = 0, sr_base = 0, sr_limit = 0xFFFF, sr_attrs = 0x0082\<rparr>,
          r3_tr = \<lparr>sr_sel = 0, sr_base = 0, sr_limit = 0xFFFF, sr_attrs = 0x0083\<rparr>\<rparr>)"

definition reg32 :: "X386Registers \<Rightarrow> u8 \<Rightarrow> u32" where "reg32 r i = r3_gpr r (i AND 7)"

definition set_reg32 :: "u8 \<Rightarrow> u32 \<Rightarrow> X386Registers \<Rightarrow> X386Registers" where
  "set_reg32 i v r = r\<lparr>r3_gpr := (r3_gpr r)(i AND 7 := v)\<rparr>"

definition i386_reg16 :: "X386Registers \<Rightarrow> u8 \<Rightarrow> u16" where "i386_reg16 r i = ucast (r3_gpr r (i AND 7))"

definition i386_set_reg16 :: "u8 \<Rightarrow> u16 \<Rightarrow> X386Registers \<Rightarrow> X386Registers" where
  "i386_set_reg16 i v r =
     r\<lparr>r3_gpr := (r3_gpr r)(i AND 7 := (r3_gpr r (i AND 7) AND 0xFFFF0000) OR ucast v)\<rparr>"

definition i386_reg8 :: "X386Registers \<Rightarrow> u8 \<Rightarrow> u8" where
  "i386_reg8 r i =
     (let i = i AND 7; w = r3_gpr r (i AND 3)
      in if i AND 4 \<noteq> 0 then ucast (drop_bit 8 w) else ucast w)"

definition i386_set_reg8 :: "u8 \<Rightarrow> u8 \<Rightarrow> X386Registers \<Rightarrow> X386Registers" where
  "i386_set_reg8 i v r =
     (let i = i AND 7; w = r3_gpr r (i AND 3);
          w = (if i AND 4 \<noteq> 0 then (w AND NOT 0xFF00) OR push_bit 8 (ucast v) else (w AND NOT 0xFF) OR ucast v)
      in r\<lparr>r3_gpr := (r3_gpr r)(i AND 3 := w)\<rparr>)"

definition seg_sel :: "X386Registers \<Rightarrow> u8 \<Rightarrow> u16" where "seg_sel r i = sr_sel (r3_seg r (i mod 6))"

end
