(* ===== verification/X386_Alu.thy ===== *)
theory X386_Alu
  imports X386_Registers
begin

text \<open>
  \<open>src/x86_32/alu.rs\<close>: arithmetic, logic, shifts, multiplication, division and decimal adjustment of the
  80386. As for the 8086 the macro \<open>alu_width!\<close> is one definition over the word length with its
  parameters in a record, here with the three instances \<open>i386_w8\<close>, \<open>i386_w16\<close> and \<open>i386_w32\<close>. Unlike
  the 8086 the shifts are closed forms over 64-bit values with the count masked to five bits.
\<close>

record 'w i386_width =
  iw_sign :: 'w
  iw_szp :: "eflag_ops \<Rightarrow> EFlags \<Rightarrow> 'w \<Rightarrow> EFlags"

definition i386_w8 :: "u8 i386_width" where "i386_w8 = \<lparr>iw_sign = 0x80, iw_szp = i386_szp8\<rparr>"
definition i386_w16 :: "u16 i386_width" where "i386_w16 = \<lparr>iw_sign = 0x8000, iw_szp = i386_szp16\<rparr>"
definition i386_w32 :: "u32 i386_width" where "i386_w32 = \<lparr>iw_sign = 0x80000000, iw_szp = i386_szp32\<rparr>"

type_synonym 'w unop = "eflag_ops \<Rightarrow> 'w i386_width \<Rightarrow> EFlags \<Rightarrow> 'w \<Rightarrow> 'w \<times> EFlags"
type_synonym 'w binop = "eflag_ops \<Rightarrow> 'w i386_width \<Rightarrow> EFlags \<Rightarrow> 'w \<Rightarrow> 'w \<Rightarrow> 'w \<times> EFlags"
type_synonym 'w shiftop = "eflag_ops \<Rightarrow> 'w i386_width \<Rightarrow> EFlags \<Rightarrow> 'w \<Rightarrow> u32 \<Rightarrow> 'w \<times> EFlags"

subsection \<open>Addition, subtraction, logic\<close>

definition i386_add :: "'a::len word binop" where
  "i386_add F w f a b =
     (let r = a + b;
          f = fl_set F f EFlags_CF (r < a);
          f = fl_set F f EFlags_AF ((a XOR b XOR r) AND 0x10 \<noteq> 0);
          f = fl_set F f EFlags_OF ((a XOR r) AND (b XOR r) AND iw_sign w \<noteq> 0)
      in (r, iw_szp w F f r))"

text \<open>The wide sum \<open>(a as $wide) + (b as $wide) + (c as $wide)\<close> does not overflow: it is a sum of numbers.\<close>

definition i386_adc :: "'a::len word binop" where
  "i386_adc F w f a b =
     (let c = (if fl_contains F f EFlags_CF then 1 else 0);
          r = a + b + c;
          f = fl_set F f EFlags_CF (unat a + unat b + unat c > unat (- 1 :: 'a word));
          f = fl_set F f EFlags_AF ((a XOR b XOR r) AND 0x10 \<noteq> 0);
          f = fl_set F f EFlags_OF ((a XOR r) AND (b XOR r) AND iw_sign w \<noteq> 0)
      in (r, iw_szp w F f r))"

definition i386_sub :: "'a::len word binop" where
  "i386_sub F w f a b =
     (let r = a - b;
          f = fl_set F f EFlags_CF (b > a);
          f = fl_set F f EFlags_AF ((a XOR b XOR r) AND 0x10 \<noteq> 0);
          f = fl_set F f EFlags_OF ((a XOR b) AND (a XOR r) AND iw_sign w \<noteq> 0)
      in (r, iw_szp w F f r))"

definition i386_sbb :: "'a::len word binop" where
  "i386_sbb F w f a b =
     (let c = (if fl_contains F f EFlags_CF then 1 else 0);
          r = a - b - c;
          f = fl_set F f EFlags_CF (unat b + unat c > unat a);
          f = fl_set F f EFlags_AF ((a XOR b XOR r) AND 0x10 \<noteq> 0);
          f = fl_set F f EFlags_OF ((a XOR b) AND (a XOR r) AND iw_sign w \<noteq> 0)
      in (r, iw_szp w F f r))"

definition i386_and :: "'a::len word binop" where
  "i386_and F w f a b =
     (let r = a AND b;
          f = fl_remove F f (fl_union F (fl_union F EFlags_CF EFlags_OF) EFlags_AF)
      in (r, iw_szp w F f r))"

definition i386_or :: "'a::len word binop" where
  "i386_or F w f a b =
     (let r = a OR b;
          f = fl_remove F f (fl_union F (fl_union F EFlags_CF EFlags_OF) EFlags_AF)
      in (r, iw_szp w F f r))"

definition i386_xor :: "'a::len word binop" where
  "i386_xor F w f a b =
     (let r = a XOR b;
          f = fl_remove F f (fl_union F (fl_union F EFlags_CF EFlags_OF) EFlags_AF)
      in (r, iw_szp w F f r))"

definition i386_inc :: "'a::len word unop" where
  "i386_inc F w f a =
     (let r = a + 1;
          f = fl_set F f EFlags_AF (a AND 0xF = 0xF);
          f = fl_set F f EFlags_OF (r = iw_sign w)
      in (r, iw_szp w F f r))"

definition i386_dec :: "'a::len word unop" where
  "i386_dec F w f a =
     (let r = a - 1;
          f = fl_set F f EFlags_AF (a AND 0xF = 0);
          f = fl_set F f EFlags_OF (a = iw_sign w)
      in (r, iw_szp w F f r))"

definition i386_neg :: "'a::len word unop" where
  "i386_neg F w f a =
     (let r = 0 - a;
          f = fl_set F f EFlags_CF (a \<noteq> 0);
          f = fl_set F f EFlags_AF (a AND 0xF \<noteq> 0);
          f = fl_set F f EFlags_OF (a = iw_sign w)
      in (r, iw_szp w F f r))"

subsection \<open>Shifts and rotates\<close>

text \<open>\<open>n\<close> is \<open>count & 31\<close>; \<open>$bits\<close> is the length of the word.\<close>

definition i386_shl :: "'a::len word shiftop" where
  "i386_shl F w f v count =
     (let n = unat (count AND 31)
      in if n = 0 then (v, f)
         else
           let wide = push_bit n (ucast v) :: u64;
               r = ucast wide;
               cf = (if n mod LENGTH('a) = 0 then v AND 1 \<noteq> 0 else drop_bit LENGTH('a) wide AND 1 \<noteq> 0);
               f = fl_set F f EFlags_CF cf;
               f = fl_set F f EFlags_OF ((r AND iw_sign w \<noteq> 0) \<noteq> cf);
               f = fl_remove F f EFlags_AF
           in (r, iw_szp w F f r))"

definition i386_shr :: "'a::len word shiftop" where
  "i386_shr F w f v count =
     (let n = unat (count AND 31)
      in if n = 0 then (v, f)
         else
           let r = ucast (drop_bit n (ucast v :: u64));
               cf = (if n mod LENGTH('a) = 0 then v AND iw_sign w \<noteq> 0
                     else drop_bit (n - 1) (ucast v :: u64) AND 1 \<noteq> 0);
               f = fl_set F f EFlags_CF cf;
               f = fl_set F f EFlags_OF (drop_bit (n - 1) (ucast v :: u64) AND ucast (iw_sign w) \<noteq> 0);
               f = fl_remove F f EFlags_AF
           in (r, iw_szp w F f r))"

definition i386_sar :: "'a::len word shiftop" where
  "i386_sar F w f v count =
     (let n = unat (count AND 31)
      in if n = 0 then (v, f)
         else
           let sx = scast v :: u64;
               r = ucast (signed_drop_bit n sx);
               f = fl_set F f EFlags_CF (signed_drop_bit (n - 1) sx AND 1 \<noteq> 0);
               f = fl_remove F f (fl_union F EFlags_OF EFlags_AF)
           in (r, iw_szp w F f r))"

definition i386_rol :: "'a::len word shiftop" where
  "i386_rol F w f v count =
     (let n = unat (count AND 31)
      in if n = 0 then (v, f)
         else
           let r = word_rotl (n mod LENGTH('a)) v;
               cf = r AND 1 \<noteq> 0;
               f = fl_set F f EFlags_CF cf
           in (r, fl_set F f EFlags_OF ((r AND iw_sign w \<noteq> 0) \<noteq> cf)))"

definition i386_ror :: "'a::len word shiftop" where
  "i386_ror F w f v count =
     (let n = unat (count AND 31)
      in if n = 0 then (v, f)
         else
           let r = word_rotr (n mod LENGTH('a)) v;
               f = fl_set F f EFlags_CF (r AND iw_sign w \<noteq> 0)
           in (r, fl_set F f EFlags_OF ((r XOR push_bit 1 r) AND iw_sign w \<noteq> 0)))"

text \<open>The loops run once per unit of the masked count.\<close>

fun i386_rcl_loop :: "eflag_ops \<Rightarrow> 'a::len word i386_width \<Rightarrow> nat \<Rightarrow> EFlags \<times> 'a word \<Rightarrow> EFlags \<times> 'a word" where
  "i386_rcl_loop F w 0 s = s"
| "i386_rcl_loop F w (Suc n) (f, r) =
     (let c = r AND iw_sign w \<noteq> 0;
          r = push_bit 1 r OR (if fl_contains F f EFlags_CF then 1 else 0)
      in i386_rcl_loop F w n (fl_set F f EFlags_CF c, r))"

definition i386_rcl :: "'a::len word shiftop" where
  "i386_rcl F w f v count =
     (let n = unat (count AND 31)
      in if n = 0 then (v, f)
         else
           let (f, r) = i386_rcl_loop F w n (f, v);
               cf = fl_contains F f EFlags_CF
           in (r, fl_set F f EFlags_OF ((r AND iw_sign w \<noteq> 0) \<noteq> cf)))"

fun i386_rcr_loop :: "eflag_ops \<Rightarrow> 'a::len word i386_width \<Rightarrow> nat \<Rightarrow> EFlags \<times> 'a word \<Rightarrow> EFlags \<times> 'a word" where
  "i386_rcr_loop F w 0 s = s"
| "i386_rcr_loop F w (Suc n) (f, r) =
     (let cf = fl_contains F f EFlags_CF;
          f = fl_set F f EFlags_OF ((r AND iw_sign w \<noteq> 0) \<noteq> cf);
          c = r AND 1 \<noteq> 0;
          r = drop_bit 1 r OR push_bit (LENGTH('a) - 1) (if cf then 1 else 0)
      in i386_rcr_loop F w n (fl_set F f EFlags_CF c, r))"

definition i386_rcr :: "'a::len word shiftop" where
  "i386_rcr F w f v count =
     (let n = unat (count AND 31)
      in if n = 0 then (v, f)
         else let (f, r) = i386_rcr_loop F w n (f, v) in (r, f))"

subsection \<open>Multiplication\<close>

definition i386_mul8 :: "eflag_ops \<Rightarrow> u8 \<Rightarrow> X386Registers \<Rightarrow> X386Registers" where
  "i386_mul8 F v g =
     (let r = ucast (i386_reg8 g 0) * ucast v :: u16;
          g = i386_set_reg16 0 r g;
          hi = r AND 0xFF00 \<noteq> 0;
          f = fl_set F (r3_eflags g) EFlags_CF hi;
          f = fl_set F f EFlags_OF hi;
          f = fl_remove F f EFlags_AF
      in g\<lparr>r3_eflags := i386_szp8 F f (ucast r)\<rparr>)"

definition i386_mul16 :: "eflag_ops \<Rightarrow> u16 \<Rightarrow> X386Registers \<Rightarrow> X386Registers" where
  "i386_mul16 F v g =
     (let r = ucast (i386_reg16 g 0) * ucast v :: u32;
          g = i386_set_reg16 0 (ucast r) g;
          g = i386_set_reg16 2 (ucast (drop_bit 16 r)) g;
          hi = r AND 0xFFFF0000 \<noteq> 0;
          f = fl_set F (r3_eflags g) EFlags_CF hi;
          f = fl_set F f EFlags_OF hi;
          f = fl_remove F f EFlags_AF
      in g\<lparr>r3_eflags := i386_szp16 F f (ucast r)\<rparr>)"

definition i386_mul32 :: "eflag_ops \<Rightarrow> u32 \<Rightarrow> X386Registers \<Rightarrow> X386Registers" where
  "i386_mul32 F v g =
     (let r = ucast (r3_gpr g 0) * ucast v :: u64;
          g = g\<lparr>r3_gpr := (r3_gpr g)(0 := ucast r, 2 := ucast (drop_bit 32 r))\<rparr>;
          hi = drop_bit 32 r \<noteq> 0;
          f = fl_set F (r3_eflags g) EFlags_CF hi;
          f = fl_set F f EFlags_OF hi;
          f = fl_remove F f EFlags_AF
      in g\<lparr>r3_eflags := i386_szp32 F f (ucast r)\<rparr>)"

definition i386_imul8 :: "eflag_ops \<Rightarrow> u8 \<Rightarrow> X386Registers \<Rightarrow> X386Registers" where
  "i386_imul8 F v g =
     (let r = scast (i386_reg8 g 0) * scast v :: u16;
          g = i386_set_reg16 0 r g;
          over = r \<noteq> scast (ucast r :: u8);
          f = fl_set F (r3_eflags g) EFlags_CF over;
          f = fl_set F f EFlags_OF over;
          f = fl_remove F f EFlags_AF
      in g\<lparr>r3_eflags := i386_szp8 F f (ucast r)\<rparr>)"

definition i386_imul16 :: "eflag_ops \<Rightarrow> u16 \<Rightarrow> X386Registers \<Rightarrow> X386Registers" where
  "i386_imul16 F v g =
     (let r = scast (i386_reg16 g 0) * scast v :: u32;
          g = i386_set_reg16 0 (ucast r) g;
          g = i386_set_reg16 2 (ucast (drop_bit 16 r)) g;
          over = r \<noteq> scast (ucast r :: u16);
          f = fl_set F (r3_eflags g) EFlags_CF over;
          f = fl_set F f EFlags_OF over;
          f = fl_remove F f EFlags_AF
      in g\<lparr>r3_eflags := i386_szp16 F f (ucast r)\<rparr>)"

definition i386_imul32 :: "eflag_ops \<Rightarrow> u32 \<Rightarrow> X386Registers \<Rightarrow> X386Registers" where
  "i386_imul32 F v g =
     (let r = scast (r3_gpr g 0) * scast v :: u64;
          g = g\<lparr>r3_gpr := (r3_gpr g)(0 := ucast r, 2 := ucast (drop_bit 32 r))\<rparr>;
          over = r \<noteq> scast (ucast r :: u32);
          f = fl_set F (r3_eflags g) EFlags_CF over;
          f = fl_set F f EFlags_OF over;
          f = fl_remove F f EFlags_AF
      in g\<lparr>r3_eflags := i386_szp32 F f (ucast r)\<rparr>)"

definition imul_trunc16 :: "eflag_ops \<Rightarrow> EFlags \<Rightarrow> u16 \<Rightarrow> u16 \<Rightarrow> u16 \<times> EFlags" where
  "imul_trunc16 F f a b =
     (let r = scast a * scast b :: u32;
          over = r \<noteq> scast (ucast r :: u16);
          f = fl_set F f EFlags_CF over;
          f = fl_set F f EFlags_OF over;
          f = fl_remove F f EFlags_AF
      in (ucast r, i386_szp16 F f (ucast r)))"

definition imul_trunc32 :: "eflag_ops \<Rightarrow> EFlags \<Rightarrow> u32 \<Rightarrow> u32 \<Rightarrow> u32 \<times> EFlags" where
  "imul_trunc32 F f a b =
     (let r = scast a * scast b :: u64;
          over = r \<noteq> scast (ucast r :: u32);
          f = fl_set F f EFlags_CF over;
          f = fl_set F f EFlags_OF over;
          f = fl_remove F f EFlags_AF
      in (ucast r, i386_szp32 F f (ucast r)))"

subsection \<open>Division\<close>

text \<open>The macro \<open>idiv_lossy!\<close>: dividend and divisor are \<open>$wide\<close>, the results \<open>$t\<close>; \<open>i\<close> runs downwards.\<close>

fun idiv_lossy_loop :: "nat \<Rightarrow> 'a::len word \<Rightarrow> 'b::len word \<Rightarrow> 'a word \<times> 'a word \<Rightarrow> 'a word \<times> 'a word" where
  "idiv_lossy_loop 0 lo divisor s = s"
| "idiv_lossy_loop (Suc i) lo divisor (q, r) =
     (let r = push_bit 1 r OR (drop_bit i lo AND 1)
      in idiv_lossy_loop i lo divisor
           (if ucast r \<ge> divisor then (q OR push_bit i 1, r - ucast divisor) else (q, r)))"

definition idiv_lossy :: "'b::len word \<Rightarrow> 'b word \<Rightarrow> 'a::len word \<times> 'a word" where
  "idiv_lossy dividend divisor =
     (let r = ucast (drop_bit LENGTH('a) dividend);
          lo = ucast dividend
      in idiv_lossy_loop LENGTH('a) lo divisor (0, r))"

text \<open>\<open>unsigned_abs\<close> of a signed integer.\<close>

definition unsigned_abs :: "'a::len word \<Rightarrow> 'a word" where
  "unsigned_abs v = (if sint v < 0 then - v else v)"

text \<open>\<open>None\<close> is the result \<open>false\<close>: a divide fault, with the registers as they were.\<close>

definition i386_div8 :: "u8 \<Rightarrow> X386Registers \<Rightarrow> X386Registers option" where
  "i386_div8 v g =
     (if v = 0 then None
      else
        let dividend = i386_reg16 g 0;
            q = dividend div ucast v
        in if q > 0xFF then None
           else Some (i386_set_reg8 4 (ucast (dividend mod ucast v)) (i386_set_reg8 0 (ucast q) g)))"

definition i386_idiv8 :: "u8 \<Rightarrow> X386Registers \<Rightarrow> X386Registers option" where
  "i386_idiv8 v g =
     (if v = 0 then None
      else
        let dividend = i386_reg16 g 0
        in if dividend = 0x8000 then None
           else
             let (q, r) = idiv_lossy (unsigned_abs dividend) (ucast (unsigned_abs v));
                 neg = ((sint dividend < 0) \<noteq> (sint v < 0));
                 rem = (if sint dividend < 0 then - r else r)
             in if (if neg then q > 0x80 else q \<ge> 0x80) then None
                else Some (i386_set_reg8 4 rem (i386_set_reg8 0 (if neg then - q else q) g)))"

definition i386_div16 :: "u16 \<Rightarrow> X386Registers \<Rightarrow> X386Registers option" where
  "i386_div16 v g =
     (if v = 0 then None
      else
        let dividend = push_bit 16 (ucast (i386_reg16 g 2)) OR ucast (i386_reg16 g 0) :: u32;
            q = dividend div ucast v
        in if q > 0xFFFF then None
           else Some (i386_set_reg16 2 (ucast (dividend mod ucast v)) (i386_set_reg16 0 (ucast q) g)))"

definition i386_idiv16 :: "u16 \<Rightarrow> X386Registers \<Rightarrow> X386Registers option" where
  "i386_idiv16 v g =
     (if v = 0 then None
      else
        let dividend = push_bit 16 (ucast (i386_reg16 g 2)) OR ucast (i386_reg16 g 0) :: u32
        in if dividend = 0x80000000 then None
           else
             let (q, r) = idiv_lossy (unsigned_abs dividend) (ucast (unsigned_abs v));
                 neg = ((sint dividend < 0) \<noteq> (sint v < 0));
                 rem = (if sint dividend < 0 then - r else r)
             in if (if neg then q > 0x8000 else q \<ge> 0x8000) then None
                else Some (i386_set_reg16 2 rem (i386_set_reg16 0 (if neg then - q else q) g)))"

definition i386_div32 :: "u32 \<Rightarrow> X386Registers \<Rightarrow> X386Registers option" where
  "i386_div32 v g =
     (if v = 0 then None
      else
        let dividend = push_bit 32 (ucast (r3_gpr g 2)) OR ucast (r3_gpr g 0) :: u64;
            q = dividend div ucast v
        in if q > 0xFFFFFFFF then None
           else Some (g\<lparr>r3_gpr := (r3_gpr g)(0 := ucast q, 2 := ucast (dividend mod ucast v))\<rparr>))"

definition i386_idiv32 :: "u32 \<Rightarrow> X386Registers \<Rightarrow> X386Registers option" where
  "i386_idiv32 v g =
     (if v = 0 then None
      else
        let dividend = push_bit 32 (ucast (r3_gpr g 2)) OR ucast (r3_gpr g 0) :: u64
        in if dividend = 0x8000000000000000 then None
           else
             let (q, r) = idiv_lossy (unsigned_abs dividend) (ucast (unsigned_abs v));
                 neg = ((sint dividend < 0) \<noteq> (sint v < 0));
                 rem = (if sint dividend < 0 then - r else r)
             in if (if neg then q > 0x80000000 else q \<ge> 0x80000000) then None
                else Some (g\<lparr>r3_gpr := (r3_gpr g)(0 := (if neg then - q else q), 2 := rem)\<rparr>))"

subsection \<open>Decimal adjustment\<close>

definition i386_daa :: "eflag_ops \<Rightarrow> X386Registers \<Rightarrow> X386Registers" where
  "i386_daa F g =
     (let old_al = i386_reg8 g 0;
          f = r3_eflags g;
          old_cf = fl_contains F f EFlags_CF;
          al = old_al;
          (al, f) = (if old_al AND 0xF > 9 \<or> fl_contains F f EFlags_AF
                     then (al + 6, fl_insert F f EFlags_AF) else (al, fl_remove F f EFlags_AF));
          (al, f) = (if old_al > 0x99 \<or> old_cf
                     then (al + 0x60, fl_insert F f EFlags_CF) else (al, fl_remove F f EFlags_CF));
          f = fl_remove F f EFlags_OF
      in i386_set_reg8 0 al (g\<lparr>r3_eflags := i386_szp8 F f al\<rparr>))"

definition i386_das :: "eflag_ops \<Rightarrow> X386Registers \<Rightarrow> X386Registers" where
  "i386_das F g =
     (let old_al = i386_reg8 g 0;
          f = r3_eflags g;
          old_cf = fl_contains F f EFlags_CF;
          al = old_al;
          cf = False;
          (cf, al, f) = (if old_al AND 0xF > 9 \<or> fl_contains F f EFlags_AF
                         then (old_cf \<or> old_al < 6, al - 6, fl_insert F f EFlags_AF)
                         else (cf, al, fl_remove F f EFlags_AF));
          (al, cf) = (if old_al > 0x99 \<or> old_cf then (al - 0x60, True) else (al, cf));
          f = fl_set F f EFlags_CF cf;
          f = fl_remove F f EFlags_OF
      in i386_set_reg8 0 al (g\<lparr>r3_eflags := i386_szp8 F f al\<rparr>))"

definition i386_aaa :: "eflag_ops \<Rightarrow> X386Registers \<Rightarrow> X386Registers" where
  "i386_aaa F g =
     (let al = i386_reg8 g 0;
          g = (if al AND 0xF > 9 \<or> fl_contains F (r3_eflags g) EFlags_AF
               then (i386_set_reg16 0 (i386_reg16 g 0 + 0x106) g)
                      \<lparr>r3_eflags := fl_insert F (r3_eflags g) (fl_union F EFlags_AF EFlags_CF)\<rparr>
               else g\<lparr>r3_eflags := fl_remove F (r3_eflags g) (fl_union F EFlags_AF EFlags_CF)\<rparr>);
          masked = i386_reg8 g 0 AND 0x0F;
          g = i386_set_reg8 0 masked g;
          f = fl_remove F (r3_eflags g) EFlags_OF
      in g\<lparr>r3_eflags := i386_szp8 F f masked\<rparr>)"

definition i386_aas :: "eflag_ops \<Rightarrow> X386Registers \<Rightarrow> X386Registers" where
  "i386_aas F g =
     (let al = i386_reg8 g 0;
          g = (if al AND 0xF > 9 \<or> fl_contains F (r3_eflags g) EFlags_AF
               then (i386_set_reg16 0 (i386_reg16 g 0 - 0x106) g)
                      \<lparr>r3_eflags := fl_insert F (r3_eflags g) (fl_union F EFlags_AF EFlags_CF)\<rparr>
               else g\<lparr>r3_eflags := fl_remove F (r3_eflags g) (fl_union F EFlags_AF EFlags_CF)\<rparr>);
          masked = i386_reg8 g 0 AND 0x0F;
          g = i386_set_reg8 0 masked g;
          f = fl_remove F (r3_eflags g) EFlags_OF
      in g\<lparr>r3_eflags := i386_szp8 F f masked\<rparr>)"

text \<open>The first component is the result, \<open>False\<close> for a divide fault.\<close>

definition i386_aam :: "eflag_ops \<Rightarrow> u8 \<Rightarrow> X386Registers \<Rightarrow> bool \<times> X386Registers" where
  "i386_aam F base g =
     (if base = 0 then
        let pf = ones (i386_reg8 g 0 * 0x81) mod 2 = 0;
            f = fl_remove F (r3_eflags g)
                  (fl_union F (fl_union F (fl_union F (fl_union F EFlags_CF EFlags_OF) EFlags_AF) EFlags_SF) EFlags_ZF);
            f = fl_set F f EFlags_PF pf
        in (False, g\<lparr>r3_eflags := f\<rparr>)
      else
        let al = i386_reg8 g 0;
            g = i386_set_reg8 4 (al div base) g;
            g = i386_set_reg8 0 (al mod base) g;
            f = fl_remove F (r3_eflags g) (fl_union F (fl_union F EFlags_CF EFlags_OF) EFlags_AF)
        in (True, g\<lparr>r3_eflags := i386_szp8 F f (al mod base)\<rparr>))"

definition i386_aad :: "eflag_ops \<Rightarrow> u8 \<Rightarrow> X386Registers \<Rightarrow> X386Registers" where
  "i386_aad F base g =
     (let al = i386_reg8 g 0 + i386_reg8 g 4 * base;
          g = i386_set_reg16 0 (ucast al) g;
          f = fl_remove F (r3_eflags g) (fl_union F (fl_union F EFlags_CF EFlags_OF) EFlags_AF)
      in g\<lparr>r3_eflags := i386_szp8 F f al\<rparr>)"

end
