(* ===== verification/X386_Bus.thy ===== *)
theory X386_Bus
  imports Remu_Bytes
begin

text \<open>
  The \<open>Bus\<close> trait of \<open>src/x86_32/mod.rs\<close> with its default methods, and \<open>LinearMemory\<close>, the flat 16 MiB
  memory, with its wide fast paths. The locale \<open>table_memory\<close> is what the paging unit needs of a memory: it
  is an array of double words at the aligned addresses, of which several may name the same one.
\<close>

record 'b I386Bus =
  ib_read :: "'b \<Rightarrow> u32 \<Rightarrow> u8 \<times> 'b"
  ib_write :: "'b \<Rightarrow> u32 \<Rightarrow> u8 \<Rightarrow> 'b"
  ib_read16 :: "'b \<Rightarrow> u32 \<Rightarrow> u16 \<times> 'b"
  ib_read32 :: "'b \<Rightarrow> u32 \<Rightarrow> u32 \<times> 'b"
  ib_write16 :: "'b \<Rightarrow> u32 \<Rightarrow> u16 \<Rightarrow> 'b"
  ib_write32 :: "'b \<Rightarrow> u32 \<Rightarrow> u32 \<Rightarrow> 'b"
  ib_io_read :: "'b \<Rightarrow> u16 \<Rightarrow> u8 \<times> 'b"
  ib_io_write :: "'b \<Rightarrow> u16 \<Rightarrow> u8 \<Rightarrow> 'b"

definition bus_read16 :: "('b \<Rightarrow> u32 \<Rightarrow> u8 \<times> 'b) \<Rightarrow> 'b \<Rightarrow> u32 \<Rightarrow> u16 \<times> 'b" where
  "bus_read16 rd b addr = (let (lo, b) = rd b addr; (hi, b) = rd b (addr + 1) in (le16 lo hi, b))"

definition bus_read32 :: "('b \<Rightarrow> u32 \<Rightarrow> u16 \<times> 'b) \<Rightarrow> 'b \<Rightarrow> u32 \<Rightarrow> u32 \<times> 'b" where
  "bus_read32 rd16 b addr = (let (lo, b) = rd16 b addr; (hi, b) = rd16 b (addr + 2) in (join16 lo hi, b))"

definition bus_write16 :: "('b \<Rightarrow> u32 \<Rightarrow> u8 \<Rightarrow> 'b) \<Rightarrow> 'b \<Rightarrow> u32 \<Rightarrow> u16 \<Rightarrow> 'b" where
  "bus_write16 wr b addr value = wr (wr b addr (lo8 value)) (addr + 1) (hi8 value)"

definition bus_write32 :: "('b \<Rightarrow> u32 \<Rightarrow> u16 \<Rightarrow> 'b) \<Rightarrow> 'b \<Rightarrow> u32 \<Rightarrow> u32 \<Rightarrow> 'b" where
  "bus_write32 wr16 b addr value = wr16 (wr16 b addr (low16 value)) (addr + 2) (high16 value)"

definition bus_io_read :: "'b \<Rightarrow> u16 \<Rightarrow> u8 \<times> 'b" where "bus_io_read b port = (0xFF, b)"
definition bus_io_write :: "'b \<Rightarrow> u16 \<Rightarrow> u8 \<Rightarrow> 'b" where "bus_io_write b port value = b"

subsection \<open>Linear memory\<close>

definition LINEAR_MASK :: nat where "LINEAR_MASK = 0xFFFFFF"

record I386Memory =
  im_ram :: "nat \<Rightarrow> u8"

definition I386Memory_new :: I386Memory where "I386Memory_new = \<lparr>im_ram = (\<lambda>_. 0)\<rparr>"

fun im_load_from :: "I386Memory \<Rightarrow> u32 \<Rightarrow> nat \<Rightarrow> u8 list \<Rightarrow> I386Memory" where
  "im_load_from m addr i [] = m"
| "im_load_from m addr i (byte # data) =
     im_load_from (m\<lparr>im_ram := (im_ram m)((unat addr + i) AND LINEAR_MASK := byte)\<rparr>) addr (i + 1) data"

definition I386Memory_load :: "I386Memory \<Rightarrow> u32 \<Rightarrow> u8 list \<Rightarrow> I386Memory" where
  "I386Memory_load m addr data = im_load_from m addr 0 data"

definition im_read :: "I386Memory \<Rightarrow> u32 \<Rightarrow> u8 \<times> I386Memory" where
  "im_read m addr = (im_ram m (unat addr AND LINEAR_MASK), m)"

definition im_write :: "I386Memory \<Rightarrow> u32 \<Rightarrow> u8 \<Rightarrow> I386Memory" where
  "im_write m addr value = m\<lparr>im_ram := (im_ram m)(unat addr AND LINEAR_MASK := value)\<rparr>"

definition im_read16 :: "I386Memory \<Rightarrow> u32 \<Rightarrow> u16 \<times> I386Memory" where
  "im_read16 m addr =
     (let a = unat addr AND LINEAR_MASK
      in if a < LINEAR_MASK then (le16 (im_ram m a) (im_ram m (a + 1)), m)
         else let (lo, m) = im_read m addr; (hi, m) = im_read m (addr + 1) in (le16 lo hi, m))"

definition im_read32 :: "I386Memory \<Rightarrow> u32 \<Rightarrow> u32 \<times> I386Memory" where
  "im_read32 m addr =
     (let a = unat addr AND LINEAR_MASK
      in if a + 3 \<le> LINEAR_MASK
         then (u32_from_le_bytes (im_ram m a) (im_ram m (a + 1)) (im_ram m (a + 2)) (im_ram m (a + 3)), m)
         else let (lo, m) = im_read16 m addr; (hi, m) = im_read16 m (addr + 2) in (join16 lo hi, m))"

definition im_write16 :: "I386Memory \<Rightarrow> u32 \<Rightarrow> u16 \<Rightarrow> I386Memory" where
  "im_write16 m addr value =
     (let a = unat addr AND LINEAR_MASK
      in if a < LINEAR_MASK then m\<lparr>im_ram := (im_ram m)(a := lo8 value, a + 1 := hi8 value)\<rparr>
         else let m = im_write m addr (lo8 value) in im_write m (addr + 1) (hi8 value))"

definition im_write32 :: "I386Memory \<Rightarrow> u32 \<Rightarrow> u32 \<Rightarrow> I386Memory" where
  "im_write32 m addr value =
     (let a = unat addr AND LINEAR_MASK
      in if a + 3 \<le> LINEAR_MASK
         then m\<lparr>im_ram := (im_ram m)(a := ucast value, a + 1 := ucast (drop_bit 8 value),
                a + 2 := ucast (drop_bit 16 value), a + 3 := ucast (drop_bit 24 value))\<rparr>
         else let m = im_write16 m addr (low16 value) in im_write16 m (addr + 2) (high16 value))"

definition I386Memory_bus :: "I386Memory I386Bus" where
  "I386Memory_bus =
     \<lparr>ib_read = im_read, ib_write = im_write, ib_read16 = im_read16, ib_read32 = im_read32,
      ib_write16 = im_write16, ib_write32 = im_write32, ib_io_read = bus_io_read, ib_io_write = bus_io_write\<rparr>"

subsection \<open>Double words\<close>

text \<open>
  \<open>dword b d\<close> is the double word of \<open>b\<close> in cell \<open>d\<close>; \<open>dcell a\<close> is the cell of the aligned address \<open>a\<close>.
\<close>

locale table_memory =
  fixes B :: "'b I386Bus"
    and dword :: "'b \<Rightarrow> 'c \<Rightarrow> u32"
    and dcell :: "u32 \<Rightarrow> 'c"
  assumes read_dword: "a AND 3 = 0 \<Longrightarrow> ib_read32 B b a = (dword b (dcell a), b)"
    and write_dword: "a AND 3 = 0 \<Longrightarrow> dword (ib_write32 B b a v) = (dword b)(dcell a := v)"

definition im_dword :: "I386Memory \<Rightarrow> nat \<Rightarrow> u32" where
  "im_dword m d = u32_from_le_bytes (im_ram m (4 * d)) (im_ram m (4 * d + 1)) (im_ram m (4 * d + 2)) (im_ram m (4 * d + 3))"

definition im_dcell :: "u32 \<Rightarrow> nat" where "im_dcell a = (unat a AND LINEAR_MASK) div 4"

lemma linear_mask_mod: "n AND LINEAR_MASK = n mod 2 ^ 24"
proof -
  have "LINEAR_MASK = mask 24" by (simp add: LINEAR_MASK_def mask_eq_exp_minus_1)
  then have "n AND LINEAR_MASK = take_bit 24 n" by (simp only: take_bit_eq_mask)
  then show ?thesis by (simp only: take_bit_eq_mod)
qed

lemma aligned_cell:
  assumes "a AND 3 = (0 :: u32)"
  shows "unat a AND LINEAR_MASK = 4 * im_dcell a" and "4 * im_dcell a + 3 \<le> LINEAR_MASK"
proof -
  have "unat (a AND mask 2) = 0" using assms by (simp add: mask_eq_exp_minus_1)
  then have a: "unat a mod 4 = 0" unfolding unat_and_mask by simp
  then have "unat a mod 2 ^ 24 mod 4 = 0" by (simp add: mod_mod_cancel)
  then show e: "unat a AND LINEAR_MASK = 4 * im_dcell a"
    unfolding im_dcell_def linear_mask_mod using mult_div_mod_eq [of 4 "unat a mod 2 ^ 24"] by linarith
  have "unat a mod 2 ^ 24 < 2 ^ 24" by simp
  then have "4 * im_dcell a < 2 ^ 24" using e by (simp add: linear_mask_mod)
  then have "im_dcell a < 2 ^ 22" by simp
  then have "4 * im_dcell a + 3 < 2 ^ 24" by simp
  then show "4 * im_dcell a + 3 \<le> LINEAR_MASK" by (simp add: LINEAR_MASK_def)
qed

lemma bytes_of_dword:
  "u32_from_le_bytes (ucast v) (ucast (drop_bit 8 v)) (ucast (drop_bit 16 v)) (ucast (drop_bit 24 v)) = v"
  using from_le_le_bytes [of 4 v] by (simp add: le_bytes_4 from_le_4 del: from_le.simps)

interpretation linear: table_memory I386Memory_bus im_dword im_dcell
proof
  fix a :: u32 and b :: I386Memory and v :: u32
  assume a: "a AND 3 = 0"
  note c = aligned_cell [OF a]
  show "ib_read32 I386Memory_bus b a = (im_dword b (im_dcell a), b)"
    using c(2) by (simp add: I386Memory_bus_def im_read32_def c(1) im_dword_def Let_def)
  show "im_dword (ib_write32 I386Memory_bus b a v) = (im_dword b)(im_dcell a := v)"
  proof
    fix d
    have ne: "4 * d + i \<noteq> 4 * im_dcell a + j" if "d \<noteq> im_dcell a" "i < 4" "j < 4" for i j
      using that by presburger
    show "im_dword (ib_write32 I386Memory_bus b a v) d = ((im_dword b)(im_dcell a := v)) d"
    proof (cases "d = im_dcell a")
      case True
      then show ?thesis
        using c(2) by (simp add: I386Memory_bus_def im_write32_def c(1) im_dword_def bytes_of_dword Let_def)
    next
      case False
      note n = ne [OF False]
      show ?thesis
        using c(2) False n [of 0 0] n [of 0 1] n [of 0 2] n [of 0 3] n [of 1 0] n [of 1 1] n [of 1 2] n [of 1 3]
          n [of 2 0] n [of 2 1] n [of 2 2] n [of 2 3] n [of 3 0] n [of 3 1] n [of 3 2] n [of 3 3]
        by (simp add: I386Memory_bus_def im_write32_def c(1) im_dword_def Let_def)
    qed
  qed
qed

end
