(* ===== verification/X386_Insn.thy ===== *)
theory X386_Insn
  imports Remu_Prelude
begin

text \<open>
  The decode product of \<open>src/x86_32/decode.rs\<close>: \<open>DecodedInsn\<close>, here \<open>X386Insn\<close>, with its packed flag and
  segment bytes and their accessors. The decoded-instruction cache stores these.
\<close>

datatype X386Op =
    AluRmR8 | AluRmRW | AluRRm8 | AluRRmW | AluAccImm8 | AluAccImmW | AluGrpImm8 | AluGrpImmW
  | MovRmR8 | MovRmRW | MovRRm8 | MovRRmW | MovRegImm8 | MovRegImmW | MovRmImm8 | MovRmImmW
  | Lea | IncReg | DecReg | PushReg | PopReg | IncDecRm8 | IncDecRmW | CallRm | JmpRm | PushRm
  | ShiftRm8 | ShiftRmW | Jcc | JmpRel | CallRel | RetNear | RetNearImm | ImulRRmW | PushImm | ImulRmImm
  | XchgRm8 | XchgRmW | XchgAcc | MovzxB | MovzxW | MovsxB | MovsxW | Setcc | CmovW

datatype OpKind = OpKind_None | OpKind_Reg | OpKind_Mem

fun opkind_u8 :: "OpKind \<Rightarrow> u8" where
  "opkind_u8 OpKind_None = 0"
| "opkind_u8 OpKind_Reg = 1"
| "opkind_u8 OpKind_Mem = 2"

record X386Insn =
  di_op :: X386Op
  di_len :: u8
  di_flags :: u8
  di_reg :: u8
  di_aux :: u8
  di_base :: u8
  di_index :: u8
  di_segscale :: u8
  di_disp :: u32
  di_imm :: u32

definition reg_NONE :: u8 where "reg_NONE = 0xFF"
definition F_OSIZE32 :: u8 where "F_OSIZE32 = push_bit 0 1"
definition F_ASIZE32 :: u8 where "F_ASIZE32 = push_bit 1 1"
definition F_WB :: u8 where "F_WB = push_bit 2 1"
definition KIND_SHIFT :: nat where "KIND_SHIFT = 3"
definition NPFX_SHIFT :: nat where "NPFX_SHIFT = 5"
definition OVR_NONE :: u8 where "OVR_NONE = 6"

definition X386Insn_new :: "bool \<Rightarrow> bool \<Rightarrow> u8 option \<Rightarrow> X386Insn" where
  "X386Insn_new osize32 asize32 seg_override =
     \<lparr>di_op = RetNear, di_len = 0, di_flags = of_bool osize32 OR push_bit 1 (of_bool asize32), di_reg = 0,
      di_aux = 0, di_base = reg_NONE, di_index = reg_NONE,
      di_segscale = push_bit 5 (case seg_override of Some s \<Rightarrow> s | None \<Rightarrow> OVR_NONE), di_disp = 0, di_imm = 0\<rparr>"

definition X386Insn_default :: X386Insn where "X386Insn_default = X386Insn_new False False None"

definition di_osize32 :: "X386Insn \<Rightarrow> bool" where "di_osize32 d \<longleftrightarrow> di_flags d AND F_OSIZE32 \<noteq> 0"
definition di_asize32 :: "X386Insn \<Rightarrow> bool" where "di_asize32 d \<longleftrightarrow> di_flags d AND F_ASIZE32 \<noteq> 0"
definition di_wb :: "X386Insn \<Rightarrow> bool" where "di_wb d \<longleftrightarrow> di_flags d AND F_WB \<noteq> 0"

definition set_wb :: "bool \<Rightarrow> X386Insn \<Rightarrow> X386Insn" where
  "set_wb wb d = d\<lparr>di_flags := di_flags d OR push_bit 2 (of_bool wb)\<rparr>"

definition di_kind :: "X386Insn \<Rightarrow> OpKind" where
  "di_kind d =
     (let k = drop_bit KIND_SHIFT (di_flags d) AND 3
      in if k = 0 then OpKind_None else if k = 1 then OpKind_Reg else OpKind_Mem)"

definition set_kind :: "OpKind \<Rightarrow> X386Insn \<Rightarrow> X386Insn" where
  "set_kind k d =
     d\<lparr>di_flags := (di_flags d AND NOT (push_bit KIND_SHIFT 3)) OR push_bit KIND_SHIFT (opkind_u8 k)\<rparr>"

definition di_npfx :: "X386Insn \<Rightarrow> u8" where "di_npfx d = drop_bit NPFX_SHIFT (di_flags d)"

definition set_npfx :: "u8 \<Rightarrow> X386Insn \<Rightarrow> X386Insn" where
  "set_npfx n d = d\<lparr>di_flags := di_flags d OR push_bit NPFX_SHIFT n\<rparr>"

definition di_seg :: "X386Insn \<Rightarrow> u8" where "di_seg d = di_segscale d AND 7"

definition di_set_seg :: "u8 \<Rightarrow> X386Insn \<Rightarrow> X386Insn" where
  "di_set_seg sg d = d\<lparr>di_segscale := (di_segscale d AND NOT 7) OR sg\<rparr>"

definition di_scale :: "X386Insn \<Rightarrow> u8" where "di_scale d = drop_bit 3 (di_segscale d) AND 3"

definition set_scale :: "u8 \<Rightarrow> X386Insn \<Rightarrow> X386Insn" where
  "set_scale s d = d\<lparr>di_segscale := (di_segscale d AND NOT (push_bit 3 3)) OR push_bit 3 s\<rparr>"

definition di_seg_override :: "X386Insn \<Rightarrow> u8 option" where
  "di_seg_override d = (let v = drop_bit 5 (di_segscale d) in if v = OVR_NONE then None else Some v)"

end
