(* ===== verification/X386_Cpu.thy ===== *)
theory X386_Cpu
  imports X386_Alu X386_Bus X386_Insn
begin

text \<open>
  The processor state of \<open>src/x86_32/mod.rs\<close> with the exceptions, the decoded-instruction cache of
  \<open>icache.rs\<close>, the TLB of \<open>paging.rs\<close>, and the actions that the rest of the 80386 model is written in.
  Left out are the profile and probe counters of test, debug and \<open>perf-stats\<close> builds and the state of the
  optional JIT. Counters of 64 bits wrap, as in a release build.
\<close>

subsection \<open>Exceptions and exits\<close>

record I386Exception =
  ex_vector :: u8
  ex_error :: "u16 option"

definition exc_de :: I386Exception where "exc_de = \<lparr>ex_vector = 0, ex_error = None\<rparr>"
definition exc_br :: I386Exception where "exc_br = \<lparr>ex_vector = 5, ex_error = None\<rparr>"
definition exc_ud :: I386Exception where "exc_ud = \<lparr>ex_vector = 6, ex_error = None\<rparr>"
definition exc_nm :: I386Exception where "exc_nm = \<lparr>ex_vector = 7, ex_error = None\<rparr>"
definition exc_ts :: "u16 \<Rightarrow> I386Exception" where "exc_ts sel = \<lparr>ex_vector = 10, ex_error = Some sel\<rparr>"
definition exc_np :: "u16 \<Rightarrow> I386Exception" where "exc_np sel = \<lparr>ex_vector = 11, ex_error = Some sel\<rparr>"
definition exc_ss :: "u16 \<Rightarrow> I386Exception" where "exc_ss sel = \<lparr>ex_vector = 12, ex_error = Some sel\<rparr>"
definition exc_gp :: "u16 \<Rightarrow> I386Exception" where "exc_gp sel = \<lparr>ex_vector = 13, ex_error = Some sel\<rparr>"
definition exc_pf :: "u16 \<Rightarrow> I386Exception" where "exc_pf code = \<lparr>ex_vector = 14, ex_error = Some code\<rparr>"

lemmas exc_defs = exc_de_def exc_br_def exc_ud_def exc_nm_def exc_ts_def exc_np_def exc_ss_def exc_gp_def exc_pf_def

datatype I386Event = Ev_Fault | Ev_SoftInt | Ev_External

datatype I386HostTrap = I386_Syscall | I386_Exception I386Exception

definition I386_INTERRUPT_CYCLES :: u32 where "I386_INTERRUPT_CYCLES = 37"

text \<open>The \<open>while\<close> loop marks \<open>op\<close> and \<open>op + 1\<close> for \<open>op = 0x00, 0x08, \<dots>, 0x30\<close>.\<close>

definition LOCK_CANDIDATE :: "u8 \<Rightarrow> bool" where
  "LOCK_CANDIDATE op \<longleftrightarrow>
     (op \<le> 0x31 \<and> op AND 7 \<le> 1) \<or>
     op = 0x80 \<or> op = 0x81 \<or> op = 0x82 \<or> op = 0x83 \<or> op = 0x86 \<or> op = 0x87 \<or> op = 0xF6 \<or> op = 0xF7 \<or>
     op = 0xFE \<or> op = 0xFF"

definition I386_EVT_NMI :: u8 where "I386_EVT_NMI = push_bit 0 1"
definition I386_EVT_INTR :: u8 where "I386_EVT_INTR = push_bit 1 1"
definition I386_EVT_INHIBIT :: u8 where "I386_EVT_INHIBIT = push_bit 2 1"
definition I386_EVT_HOST_TRAP :: u8 where "I386_EVT_HOST_TRAP = push_bit 3 1"

subsection \<open>The decoded-instruction cache\<close>

definition I386_ICACHE_ENTRIES :: u32 where "I386_ICACHE_ENTRIES = 16384"
definition I386_STAMP_SLOTS :: u32 where "I386_STAMP_SLOTS = 16384"

record I386Entry =
  i3_key :: u64
  i3_version :: u64
  i3_insn :: X386Insn

record I386ICache =
  i3_entries :: "u32 \<Rightarrow> I386Entry"
  i3_stamps :: "u32 \<Rightarrow> u64"
  i3_clock :: u64
  i3_inval :: u64

text \<open>The all-zero bit pattern; discriminant 0 is \<open>AluRmR8\<close>.\<close>

definition i386_zero_entry :: I386Entry where
  "i386_zero_entry =
     \<lparr>i3_key = 0, i3_version = 0,
      i3_insn = \<lparr>di_op = AluRmR8, di_len = 0, di_flags = 0, di_reg = 0, di_aux = 0, di_base = 0, di_index = 0,
        di_segscale = 0, di_disp = 0, di_imm = 0\<rparr>\<rparr>"

definition I386ICache_new :: I386ICache where
  "I386ICache_new = \<lparr>i3_entries = (\<lambda>_. i386_zero_entry), i3_stamps = (\<lambda>_. 0), i3_clock = 1, i3_inval = 1\<rparr>"

definition i386_stamp_write :: "u32 \<Rightarrow> I386ICache \<Rightarrow> I386ICache" where
  "i386_stamp_write phys ic =
     (let ic = ic\<lparr>i3_clock := i3_clock ic + 1\<rparr>
      in ic\<lparr>i3_stamps := (i3_stamps ic)(drop_bit 12 phys AND (I386_STAMP_SLOTS - 1) := i3_clock ic)\<rparr>)"

definition stamp_write_span :: "u32 \<Rightarrow> u32 \<Rightarrow> I386ICache \<Rightarrow> I386ICache" where
  "stamp_write_span fst' lst ic =
     (let ic = i386_stamp_write fst' ic
      in if drop_bit 12 fst' \<noteq> drop_bit 12 lst then i386_stamp_write lst ic else ic)"

definition i386_invalidate_all :: "I386ICache \<Rightarrow> I386ICache" where
  "i386_invalidate_all ic =
     (let ic = ic\<lparr>i3_clock := i3_clock ic + 1\<rparr> in ic\<lparr>i3_inval := i3_clock ic\<rparr>)"

subsection \<open>The TLB\<close>

definition TLB_SIZE :: u32 where "TLB_SIZE = 256"
definition TLB_EMPTY :: u32 where "TLB_EMPTY = - 1"

record TlbEntry =
  te_tag :: u32
  te_phys :: u32
  te_user :: bool
  te_writable :: bool
  te_dirty :: bool

type_synonym Tlb = "u32 \<Rightarrow> TlbEntry"

definition Tlb_new :: Tlb where
  "Tlb_new = (\<lambda>_. \<lparr>te_tag = TLB_EMPTY, te_phys = 0, te_user = False, te_writable = False, te_dirty = False\<rparr>)"

definition Tlb_flush :: "Tlb \<Rightarrow> Tlb" where "Tlb_flush t = (\<lambda>i. (t i)\<lparr>te_tag := TLB_EMPTY\<rparr>)"

definition Tlb_peek :: "Tlb \<Rightarrow> u32 \<Rightarrow> bool \<Rightarrow> u32 option" where
  "Tlb_peek t lin user =
     (let page = drop_bit 12 lin;
          e = t (page AND (TLB_SIZE - 1))
      in if te_tag e = page \<and> (\<not> user \<or> te_user e) then Some (te_phys e OR (lin AND 0xFFF)) else None)"

subsection \<open>The processor\<close>

record I386Cpu =
  c3_regs :: X386Registers
  c3_cycles :: u64
  c3_halted :: bool
  c3_shutdown :: bool
  c3_events :: u8
  c3_intr :: "u8 option"
  c3_seg_override :: "u8 option"
  c3_rep :: "bool option"
  c3_lock :: bool
  c3_lock_ok :: bool
  c3_osize32 :: bool
  c3_asize32 :: bool
  c3_start_eip :: u32
  c3_commit_on_fault :: bool
  c3_ilen :: u8
  c3_fault_regs :: X386Registers
  c3_cold_saved :: bool
  c3_supervisor :: bool
  c3_tlb :: Tlb
  c3_icache :: I386ICache
  c3_syscall_int :: "u8 option"
  c3_trap_faults :: bool
  c3_extensions :: bool
  c3_host_trap :: "I386HostTrap option"

definition I386Cpu_new :: I386Cpu where
  "I386Cpu_new =
     \<lparr>c3_regs = X386Registers_new, c3_cycles = 0, c3_halted = False, c3_shutdown = False, c3_events = 0,
      c3_intr = None, c3_seg_override = None, c3_rep = None, c3_lock = False, c3_lock_ok = False,
      c3_osize32 = False, c3_asize32 = False, c3_start_eip = 0, c3_commit_on_fault = False, c3_ilen = 0,
      c3_fault_regs = X386Registers_new, c3_cold_saved = False, c3_supervisor = False, c3_tlb = Tlb_new,
      c3_icache = I386ICache_new, c3_syscall_int = None, c3_trap_faults = False, c3_extensions = False,
      c3_host_trap = None\<rparr>"

definition i386_reset :: "I386Cpu \<Rightarrow> I386Cpu" where
  "i386_reset c =
     c\<lparr>c3_regs := X386Registers_new, c3_halted := False, c3_shutdown := False, c3_events := 0, c3_intr := None,
       c3_supervisor := False, c3_tlb := Tlb_flush (c3_tlb c), c3_icache := i386_invalidate_all (c3_icache c),
       c3_host_trap := None\<rparr>"

text \<open>Updates of the nested register file.\<close>

abbreviation c3_reg :: "(X386Registers \<Rightarrow> X386Registers) \<Rightarrow> I386Cpu \<Rightarrow> I386Cpu" where
  "c3_reg f c \<equiv> c\<lparr>c3_regs := f (c3_regs c)\<rparr>"
abbreviation c3_seg :: "I386Cpu \<Rightarrow> u8 \<Rightarrow> SegReg" where "c3_seg c \<equiv> r3_seg (c3_regs c)"
abbreviation c3_eflags :: "I386Cpu \<Rightarrow> EFlags" where "c3_eflags c \<equiv> r3_eflags (c3_regs c)"

definition i386_set_cs_ip :: "u16 \<Rightarrow> u32 \<Rightarrow> I386Cpu \<Rightarrow> I386Cpu" where
  "i386_set_cs_ip sel eip = c3_reg (\<lambda>r. r\<lparr>r3_seg := (r3_seg r)(CS := SegReg_real sel), r3_eip := eip\<rparr>)"

definition protected_mode :: "eflag_ops \<Rightarrow> I386Cpu \<Rightarrow> bool" where
  "protected_mode F c \<longleftrightarrow> r3_cr0 (c3_regs c) AND cr0_PE \<noteq> 0 \<and> \<not> fl_contains F (c3_eflags c) EFlags_VM"

definition cpl :: "eflag_ops \<Rightarrow> I386Cpu \<Rightarrow> u8" where
  "cpl F c =
     (if fl_contains F (c3_eflags c) EFlags_VM then 3
      else if protected_mode F c then sr_dpl (c3_seg c CS)
      else 0)"

definition i386_boundary_pending :: "I386Cpu \<Rightarrow> bool" where
  "i386_boundary_pending c \<longleftrightarrow>
     c3_events c \<noteq> 0 \<or> c3_halted c \<or> c3_shutdown c \<or> c3_eflags c AND EFlags_TF \<noteq> 0"

definition prepare_cold_write :: "I386Cpu \<Rightarrow> I386Cpu" where
  "prepare_cold_write c =
     (if \<not> c3_cold_saved c then c\<lparr>c3_cold_saved := True, c3_fault_regs := c3_regs c\<rparr> else c)"

subsection \<open>Interrupt lines\<close>

definition i386_trigger_nmi :: "I386Cpu \<Rightarrow> I386Cpu" where
  "i386_trigger_nmi c = c\<lparr>c3_events := c3_events c OR I386_EVT_NMI\<rparr>"

definition i386_assert_intr :: "u8 \<Rightarrow> I386Cpu \<Rightarrow> I386Cpu" where
  "i386_assert_intr vector c = c\<lparr>c3_intr := Some vector, c3_events := c3_events c OR I386_EVT_INTR\<rparr>"

definition i386_clear_intr :: "I386Cpu \<Rightarrow> I386Cpu" where
  "i386_clear_intr c = c\<lparr>c3_intr := None, c3_events := c3_events c AND NOT I386_EVT_INTR\<rparr>"

definition i386_interrupt_pending :: "eflag_ops \<Rightarrow> I386Cpu \<Rightarrow> bool" where
  "i386_interrupt_pending F c \<longleftrightarrow>
     c3_events c AND I386_EVT_NMI \<noteq> 0 \<or>
     (c3_events c AND I386_EVT_INTR \<noteq> 0 \<and> fl_contains F (c3_eflags c) EFlags_IF)"

definition i386_set_host_trap :: "I386HostTrap \<Rightarrow> I386Cpu \<Rightarrow> I386Cpu" where
  "i386_set_host_trap t c = c\<lparr>c3_host_trap := Some t, c3_events := c3_events c OR I386_EVT_HOST_TRAP\<rparr>"

definition i386_invalidate_icache :: "I386Cpu \<Rightarrow> I386Cpu" where
  "i386_invalidate_icache c = c\<lparr>c3_icache := i386_invalidate_all (c3_icache c)\<rparr>"

subsection \<open>Actions\<close>

text \<open>
  A method on processor and bus that returns \<open>Exec<T>\<close> is a function on the pair of both; after an error
  the state is the one the failing call left behind. \<open>bindE\<close> is \<open>let x = m?\<close> and \<open>thenE\<close> is \<open>m?;\<close>.
\<close>

type_synonym ('b, 'a) exec = "I386Cpu \<times> 'b \<Rightarrow> (I386Exception + 'a) \<times> I386Cpu \<times> 'b"

definition okE :: "'a \<Rightarrow> ('b, 'a) exec" where "okE a s = (Inr a, s)"
definition raiseE :: "I386Exception \<Rightarrow> ('b, 'a) exec" where "raiseE e s = (Inl e, s)"

definition bindE :: "('b, 'a) exec \<Rightarrow> ('a \<Rightarrow> ('b, 'c) exec) \<Rightarrow> ('b, 'c) exec" where
  "bindE m f s = (case m s of (Inl e, s) \<Rightarrow> (Inl e, s) | (Inr a, s) \<Rightarrow> f a s)"

definition thenE :: "('b, 'a) exec \<Rightarrow> ('b, 'c) exec \<Rightarrow> ('b, 'c) exec" where
  "thenE m n = bindE m (\<lambda>_. n)"

definition getE :: "(I386Cpu \<Rightarrow> 'a) \<Rightarrow> ('b, 'a) exec" where "getE f = (\<lambda>(c, b). (Inr (f c), c, b))"
definition modE :: "(I386Cpu \<Rightarrow> I386Cpu) \<Rightarrow> ('b, unit) exec" where "modE f = (\<lambda>(c, b). (Inr (), f c, b))"
definition regE :: "(X386Registers \<Rightarrow> X386Registers) \<Rightarrow> ('b, unit) exec" where "regE f = modE (c3_reg f)"
definition inE :: "('b \<Rightarrow> 'a \<times> 'b) \<Rightarrow> ('b, 'a) exec" where
  "inE f = (\<lambda>(c, b). let (v, b) = f b in (Inr v, c, b))"
definition outE :: "('b \<Rightarrow> 'b) \<Rightarrow> ('b, unit) exec" where "outE f = (\<lambda>(c, b). (Inr (), c, f b))"

text \<open>An early return of an error when the condition holds.\<close>

definition guardE :: "bool \<Rightarrow> I386Exception \<Rightarrow> ('b, unit) exec" where
  "guardE bad e = (if bad then raiseE e else okE ())"

lemma bindE_assoc: "bindE (bindE m f) g = bindE m (\<lambda>a. bindE (f a) g)"
  by (rule ext) (auto simp: bindE_def split: prod.split sum.split)

lemma bindE_ok [simp]: "bindE (okE a) f = f a" "bindE m okE = m"
  by (auto simp: bindE_def okE_def fun_eq_iff split: prod.split sum.split)

lemma bindE_Inr: "bindE m f s = (Inr a, t) \<longleftrightarrow> (\<exists>x u. m s = (Inr x, u) \<and> f x u = (Inr a, t))"
  by (auto simp: bindE_def split: prod.split sum.split)

lemma bindE_Inl: "bindE m f s = (Inl e, t) \<longleftrightarrow> m s = (Inl e, t) \<or> (\<exists>x u. m s = (Inr x, u) \<and> f x u = (Inl e, t))"
  by (auto simp: bindE_def split: prod.split sum.split)

lemma run_simps:
  "okE a s = (Inr a, s)" "raiseE e s = (Inl e, s)"
  "getE g (c, b) = (Inr (g c), c, b)" "modE h (c, b) = (Inr (), h c, b)"
  "outE k (c, b) = (Inr (), c, k b)" "guardE bad e s = (if bad then Inl e else Inr (), s)"
  by (simp_all add: okE_def raiseE_def getE_def modE_def outE_def guardE_def)

end
