(* ===== verification/X386_Paging.thy ===== *)
theory X386_Paging
  imports X386_Cpu
begin

text \<open>
  \<open>src/x86_32/paging.rs\<close>: address translation by TLB and two-level walk, the linear-address accessors on
  top of it, and the probes of \<open>icache.rs\<close> that depend on it.
\<close>

definition pte_P :: u32 where "pte_P = push_bit 0 1"
definition pte_RW :: u32 where "pte_RW = push_bit 1 1"
definition pte_US :: u32 where "pte_US = push_bit 2 1"
definition pte_A :: u32 where "pte_A = push_bit 5 1"
definition pte_D :: u32 where "pte_D = push_bit 6 1"

definition flush_tlb :: "I386Cpu \<Rightarrow> I386Cpu" where "flush_tlb c = c\<lparr>c3_tlb := Tlb_flush (c3_tlb c)\<rparr>"

definition user_access :: "eflag_ops \<Rightarrow> I386Cpu \<Rightarrow> bool" where
  "user_access F c \<longleftrightarrow> cpl F c = 3 \<and> \<not> c3_supervisor c"

definition paging :: "I386Cpu \<Rightarrow> bool" where "paging c \<longleftrightarrow> r3_cr0 (c3_regs c) AND cr0_PG \<noteq> 0"

subsection \<open>The walk\<close>

text \<open>The closure \<open>fault\<close>: its error code, and the early return that sets \<open>CR2\<close>.\<close>

definition pf_code :: "bool \<Rightarrow> bool \<Rightarrow> bool \<Rightarrow> u16" where
  "pf_code present write user = of_bool present OR push_bit 1 (of_bool write) OR push_bit 2 (of_bool user)"

definition page_fault :: "u32 \<Rightarrow> u16 \<Rightarrow> ('b, 'a) exec" where
  "page_fault lin code = thenE (regE (\<lambda>r. r\<lparr>r3_cr2 := lin\<rparr>)) (raiseE (exc_pf code))"

text \<open>A page-table write: \<open>icache.stamp_write\<close> and \<open>bus.write32\<close>.\<close>

definition write_entry :: "'b I386Bus \<Rightarrow> u32 \<Rightarrow> u32 \<Rightarrow> ('b, unit) exec" where
  "write_entry B addr v =
     thenE (modE (\<lambda>c. c\<lparr>c3_icache := i386_stamp_write addr (c3_icache c)\<rparr>))
       (outE (\<lambda>b. ib_write32 B b addr v))"

definition tlb_insert :: "u32 \<Rightarrow> TlbEntry \<Rightarrow> I386Cpu \<Rightarrow> I386Cpu" where
  "tlb_insert lin e c =
     c\<lparr>c3_tlb := (c3_tlb c)(drop_bit 12 lin AND (TLB_SIZE - 1) := e)\<rparr>"

definition walk :: "eflag_ops \<Rightarrow> 'b I386Bus \<Rightarrow> u32 \<Rightarrow> bool \<Rightarrow> ('b, u32) exec" where
  "walk F B lin write =
     bindE (getE (user_access F)) (\<lambda>user.
     bindE (getE (\<lambda>c. (r3_cr3 (c3_regs c) AND 0xFFFFF000) + push_bit 2 (drop_bit 22 lin))) (\<lambda>pde_addr.
     bindE (inE (\<lambda>b. ib_read32 B b pde_addr)) (\<lambda>pde.
     if pde AND pte_P = 0 then page_fault lin (pf_code False write user)
     else
     let pte_addr = (pde AND 0xFFFFF000) + push_bit 2 (drop_bit 12 lin AND 0x3FF) in
     bindE (inE (\<lambda>b. ib_read32 B b pte_addr)) (\<lambda>pt.
     if pt AND pte_P = 0 then page_fault lin (pf_code False write user)
     else
     let comb_user = pde AND pt AND pte_US \<noteq> 0; comb_rw = pde AND pt AND pte_RW \<noteq> 0 in
     if user \<and> (\<not> comb_user \<or> (write \<and> \<not> comb_rw)) then page_fault lin (pf_code True write user)
     else
     thenE (if pde AND pte_A = 0 then write_entry B pde_addr (pde OR pte_A) else okE ()) (
     let need_dirty = write \<and> pt AND pte_D = 0;
         update = pt AND pte_A = 0 \<or> need_dirty;
         pt = (if update then (let pt = pt OR pte_A in if write then pt OR pte_D else pt) else pt) in
     thenE (if update then write_entry B pte_addr pt else okE ())
     (thenE (modE (tlb_insert lin
         \<lparr>te_tag = drop_bit 12 lin, te_phys = pt AND 0xFFFFF000, te_user = comb_user, te_writable = comb_rw,
          te_dirty = (pt AND pte_D \<noteq> 0)\<rparr>))
     (okE ((pt AND 0xFFFFF000) OR (lin AND 0xFFF)))))))))"

definition translate :: "eflag_ops \<Rightarrow> 'b I386Bus \<Rightarrow> u32 \<Rightarrow> bool \<Rightarrow> ('b, u32) exec" where
  "translate F B lin write =
     bindE (getE (\<lambda>c. (c3_tlb c (drop_bit 12 lin AND (TLB_SIZE - 1)), user_access F c))) (\<lambda>(e, user).
     if te_tag e = drop_bit 12 lin \<and>
        (\<not> user \<or> (te_user e \<and> (\<not> write \<or> te_writable e))) \<and> (\<not> write \<or> te_dirty e)
     then okE (te_phys e OR (lin AND 0xFFF))
     else walk F B lin write)"

subsection \<open>Linear-address access\<close>

definition if_paging :: "('b, 'a) exec \<Rightarrow> ('b, 'a) exec \<Rightarrow> ('b, 'a) exec" where
  "if_paging on off = bindE (getE paging) (\<lambda>p. if p then on else off)"

definition stampE :: "(I386ICache \<Rightarrow> I386ICache) \<Rightarrow> ('b, unit) exec" where
  "stampE f = modE (\<lambda>c. c\<lparr>c3_icache := f (c3_icache c)\<rparr>)"

definition lin_read8 :: "eflag_ops \<Rightarrow> 'b I386Bus \<Rightarrow> u32 \<Rightarrow> ('b, u8) exec" where
  "lin_read8 F B lin =
     if_paging
       (bindE (translate F B lin False) (\<lambda>phys. inE (\<lambda>b. ib_read B b phys)))
       (inE (\<lambda>b. ib_read B b lin))"

definition lin_read16 :: "eflag_ops \<Rightarrow> 'b I386Bus \<Rightarrow> u32 \<Rightarrow> ('b, u16) exec" where
  "lin_read16 F B lin =
     if_paging
       (if lin AND 0xFFF < 0xFFF then
          bindE (translate F B lin False) (\<lambda>phys. inE (\<lambda>b. ib_read16 B b phys))
        else
          bindE (lin_read8 F B lin) (\<lambda>lo.
          bindE (lin_read8 F B (lin + 1)) (\<lambda>hi.
          okE (le16 lo hi))))
       (inE (\<lambda>b. ib_read16 B b lin))"

definition lin_read32 :: "eflag_ops \<Rightarrow> 'b I386Bus \<Rightarrow> u32 \<Rightarrow> ('b, u32) exec" where
  "lin_read32 F B lin =
     if_paging
       (if lin AND 0xFFF < 0xFFD then
          bindE (translate F B lin False) (\<lambda>phys. inE (\<lambda>b. ib_read32 B b phys))
        else
          bindE (lin_read16 F B lin) (\<lambda>lo.
          bindE (lin_read16 F B (lin + 2)) (\<lambda>hi.
          okE (join16 lo hi))))
       (inE (\<lambda>b. ib_read32 B b lin))"

definition lin_write8 :: "eflag_ops \<Rightarrow> 'b I386Bus \<Rightarrow> u32 \<Rightarrow> u8 \<Rightarrow> ('b, unit) exec" where
  "lin_write8 F B lin v =
     if_paging
       (bindE (translate F B lin True) (\<lambda>phys.
        thenE (stampE (i386_stamp_write phys)) (outE (\<lambda>b. ib_write B b phys v))))
       (thenE (stampE (i386_stamp_write lin)) (outE (\<lambda>b. ib_write B b lin v)))"

definition lin_write16 :: "eflag_ops \<Rightarrow> 'b I386Bus \<Rightarrow> u32 \<Rightarrow> u16 \<Rightarrow> ('b, unit) exec" where
  "lin_write16 F B lin v =
     if_paging
       (if lin AND 0xFFF < 0xFFF then
          bindE (translate F B lin True) (\<lambda>phys.
          thenE (stampE (i386_stamp_write phys)) (outE (\<lambda>b. ib_write16 B b phys v)))
        else
          bindE (translate F B lin True) (\<lambda>p0.
          bindE (translate F B (lin + 1) True) (\<lambda>p1.
          thenE (stampE (stamp_write_span p0 p1))
          (outE (\<lambda>b. ib_write B (ib_write B b p0 (lo8 v)) p1 (hi8 v))))))
       (thenE (stampE (stamp_write_span lin (lin + 1))) (outE (\<lambda>b. ib_write16 B b lin v)))"

definition lin_write32 :: "eflag_ops \<Rightarrow> 'b I386Bus \<Rightarrow> u32 \<Rightarrow> u32 \<Rightarrow> ('b, unit) exec" where
  "lin_write32 F B lin v =
     if_paging
       (if lin AND 0xFFF < 0xFFD then
          bindE (translate F B lin True) (\<lambda>phys.
          thenE (stampE (i386_stamp_write phys)) (outE (\<lambda>b. ib_write32 B b phys v)))
        else
          bindE (translate F B lin True) (\<lambda>p0.
          bindE (translate F B (lin + 1) True) (\<lambda>p1.
          bindE (translate F B (lin + 2) True) (\<lambda>p2.
          bindE (translate F B (lin + 3) True) (\<lambda>p3.
          thenE (stampE (stamp_write_span p0 p3))
          (outE (\<lambda>b.
             let b = ib_write B b p0 (ucast v);
                 b = ib_write B b p1 (ucast (drop_bit 8 v));
                 b = ib_write B b p2 (ucast (drop_bit 16 v))
             in ib_write B b p3 (ucast (drop_bit 24 v)))))))))
       (thenE (stampE (stamp_write_span lin (lin + 3))) (outE (\<lambda>b. ib_write32 B b lin v)))"

text \<open>Implicit accesses run with \<open>supervisor_override\<close> set, and restore it also after a fault.\<close>

definition as_supervisor :: "('b, 'a) exec \<Rightarrow> ('b, 'a) exec" where
  "as_supervisor m = (\<lambda>(c, b).
     let sup = c3_supervisor c;
         (r, c, b) = m (c\<lparr>c3_supervisor := True\<rparr>, b)
     in (r, c\<lparr>c3_supervisor := sup\<rparr>, b))"

definition sys_read8 :: "eflag_ops \<Rightarrow> 'b I386Bus \<Rightarrow> u32 \<Rightarrow> ('b, u8) exec" where
  "sys_read8 F B lin = as_supervisor (lin_read8 F B lin)"
definition sys_read16 :: "eflag_ops \<Rightarrow> 'b I386Bus \<Rightarrow> u32 \<Rightarrow> ('b, u16) exec" where
  "sys_read16 F B lin = as_supervisor (lin_read16 F B lin)"
definition sys_read32 :: "eflag_ops \<Rightarrow> 'b I386Bus \<Rightarrow> u32 \<Rightarrow> ('b, u32) exec" where
  "sys_read32 F B lin = as_supervisor (lin_read32 F B lin)"
definition sys_write8 :: "eflag_ops \<Rightarrow> 'b I386Bus \<Rightarrow> u32 \<Rightarrow> u8 \<Rightarrow> ('b, unit) exec" where
  "sys_write8 F B lin v = as_supervisor (lin_write8 F B lin v)"

text \<open>The public accessors of a host layer.\<close>

definition read_linear8 :: "eflag_ops \<Rightarrow> 'b I386Bus \<Rightarrow> u32 \<Rightarrow> ('b, u8) exec" where
  "read_linear8 F B lin = lin_read8 F B lin"
definition read_linear16 :: "eflag_ops \<Rightarrow> 'b I386Bus \<Rightarrow> u32 \<Rightarrow> ('b, u16) exec" where
  "read_linear16 F B lin = lin_read16 F B lin"
definition read_linear32 :: "eflag_ops \<Rightarrow> 'b I386Bus \<Rightarrow> u32 \<Rightarrow> ('b, u32) exec" where
  "read_linear32 F B lin = lin_read32 F B lin"
definition write_linear8 :: "eflag_ops \<Rightarrow> 'b I386Bus \<Rightarrow> u32 \<Rightarrow> u8 \<Rightarrow> ('b, unit) exec" where
  "write_linear8 F B lin v = lin_write8 F B lin v"
definition write_linear16 :: "eflag_ops \<Rightarrow> 'b I386Bus \<Rightarrow> u32 \<Rightarrow> u16 \<Rightarrow> ('b, unit) exec" where
  "write_linear16 F B lin v = lin_write16 F B lin v"
definition write_linear32 :: "eflag_ops \<Rightarrow> 'b I386Bus \<Rightarrow> u32 \<Rightarrow> u32 \<Rightarrow> ('b, unit) exec" where
  "write_linear32 F B lin v = lin_write32 F B lin v"

definition invalidate_tlb :: "I386Cpu \<Rightarrow> I386Cpu" where "invalidate_tlb c = flush_tlb c"

definition translate_linear :: "eflag_ops \<Rightarrow> 'b I386Bus \<Rightarrow> u32 \<Rightarrow> bool \<Rightarrow> ('b, u32) exec" where
  "translate_linear F B lin write = if_paging (translate F B lin write) (okE lin)"

subsection \<open>Cache probes\<close>

definition icache_ctx :: "I386Cpu \<Rightarrow> u64" where
  "icache_ctx c =
     (push_bit 22 (ucast (sr_attrs (c3_seg c CS)) AND 0x400) OR
      push_bit 33 (ucast (r3_cr0 (c3_regs c)) AND ucast cr0_PE) OR
      push_bit 17 (ucast (c3_eflags c) AND ucast EFlags_VM) OR
      push_bit 35 (of_bool (c3_extensions c)))"

definition icache_phys :: "eflag_ops \<Rightarrow> I386Cpu \<Rightarrow> u32 option" where
  "icache_phys F c =
     (let lin = sr_base (c3_seg c CS) + r3_eip (c3_regs c)
      in if \<not> paging c then Some lin else Tlb_peek (c3_tlb c) lin (cpl F c = 3))"

definition i386_icache_fill :: "u32 \<Rightarrow> X386Insn \<Rightarrow> I386Cpu \<Rightarrow> I386Cpu" where
  "i386_icache_fill phys d c =
     (if (phys AND 0xFFF) + ucast (di_len d) > 0x1000 then c
      else
        let ic = c3_icache c;
            slot = phys AND (I386_ICACHE_ENTRIES - 1)
        in c\<lparr>c3_icache := ic\<lparr>i3_entries := (i3_entries ic)(slot :=
               \<lparr>i3_key = ucast phys OR icache_ctx c, i3_version = i3_clock ic, i3_insn = d\<rparr>)\<rparr>\<rparr>)"

end
