(* ===== verification/X386_Tlb.thy ===== *)
theory X386_Tlb
  imports X386_Paging
begin

text \<open>
  Address translation against a specification that knows no TLB: \<open>pt_lookup\<close> reads the two table entries of
  a page from memory, \<open>page_result\<close> applies the protection rules of the 386. \<open>tlb_coherent\<close> says that each
  entry of the TLB is what the tables say, with the accessed and dirty bits that let a hit skip the walk.
\<close>

subsection \<open>Specification\<close>

definition pde_address :: "u32 \<Rightarrow> u32 \<Rightarrow> u32" where
  "pde_address cr3 lin = (cr3 AND 0xFFFFF000) + push_bit 2 (drop_bit 22 lin)"

definition pte_address :: "u32 \<Rightarrow> u32 \<Rightarrow> u32" where
  "pte_address pde lin = (pde AND 0xFFFFF000) + push_bit 2 (drop_bit 12 lin AND 0x3FF)"

text \<open>\<open>m\<close> maps cells to double words, \<open>dc\<close> addresses to cells.\<close>

definition pt_lookup :: "('c \<Rightarrow> u32) \<Rightarrow> (u32 \<Rightarrow> 'c) \<Rightarrow> u32 \<Rightarrow> u32 \<Rightarrow> (u32 \<times> u32) option" where
  "pt_lookup m dc cr3 lin =
     (let pde = m (dc (pde_address cr3 lin)); pte = m (dc (pte_address pde lin))
      in if bit pde 0 \<and> bit pte 0 then Some (pde, pte) else None)"

definition page_result :: "('c \<Rightarrow> u32) \<Rightarrow> (u32 \<Rightarrow> 'c) \<Rightarrow> u32 \<Rightarrow> u32 \<Rightarrow> bool \<Rightarrow> bool \<Rightarrow> u16 + u32" where
  "page_result m dc cr3 lin write user =
     (case pt_lookup m dc cr3 lin of
        None \<Rightarrow> Inl (pf_code False write user)
      | Some (pde, pte) \<Rightarrow>
          if user \<and> \<not> (bit pde 2 \<and> bit pte 2 \<and> (write \<longrightarrow> bit pde 1 \<and> bit pte 1))
          then Inl (pf_code True write user)
          else Inr ((pte AND 0xFFFFF000) OR (lin AND 0xFFF)))"

definition entry_coherent :: "('c \<Rightarrow> u32) \<Rightarrow> (u32 \<Rightarrow> 'c) \<Rightarrow> u32 \<Rightarrow> u32 \<Rightarrow> TlbEntry \<Rightarrow> bool" where
  "entry_coherent m dc cr3 lin e \<longleftrightarrow>
     (case pt_lookup m dc cr3 lin of
        None \<Rightarrow> False
      | Some (pde, pte) \<Rightarrow>
          bit pde 5 \<and> bit pte 5 \<and> te_phys e = pte AND 0xFFFFF000 \<and>
          te_user e = (bit pde 2 \<and> bit pte 2) \<and> te_writable e = (bit pde 1 \<and> bit pte 1) \<and>
          (te_dirty e \<longrightarrow> bit pte 6))"

definition tlb_coherent :: "('c \<Rightarrow> u32) \<Rightarrow> (u32 \<Rightarrow> 'c) \<Rightarrow> I386Cpu \<Rightarrow> bool" where
  "tlb_coherent m dc c \<longleftrightarrow>
     (\<forall>lin. te_tag (c3_tlb c (drop_bit 12 lin AND 255)) = drop_bit 12 lin \<longrightarrow>
        entry_coherent m dc (r3_cr3 (c3_regs c)) lin (c3_tlb c (drop_bit 12 lin AND 255)))"

text \<open>Memories that differ by accessed and dirty bits which are set in the second.\<close>

definition marks_added :: "('c \<Rightarrow> u32) \<Rightarrow> ('c \<Rightarrow> u32) \<Rightarrow> bool" where
  "marks_added m m' \<longleftrightarrow> (\<forall>d. m' d OR 0x60 = m d OR 0x60 \<and> m d OR m' d = m' d)"

subsection \<open>Table entries\<close>

lemma pte_bits:
  "pte_P = 1" "pte_RW = 2" "pte_US = 4" "pte_A = 32" "pte_D = 64"
  by (simp_all add: pte_P_def pte_RW_def pte_US_def pte_A_def pte_D_def)

lemma entry_masks:
  "v AND pte_P = 0 \<longleftrightarrow> \<not> bit v 0" "v AND pte_RW \<noteq> 0 \<longleftrightarrow> bit v 1" "v AND pte_US \<noteq> 0 \<longleftrightarrow> bit v 2"
  "v AND pte_A = 0 \<longleftrightarrow> \<not> bit v 5" "v AND pte_D = 0 \<longleftrightarrow> \<not> bit v 6"
  for v :: u32
  using and_single_bit_nonzero [of v 0] and_single_bit_nonzero [of v 1] and_single_bit_nonzero [of v 2]
    and_single_bit_nonzero [of v 5] and_single_bit_nonzero [of v 6]
  by (auto simp: pte_bits)

lemma marks_added_refl [simp]: "marks_added m m" by (simp add: marks_added_def)

lemma marks_added_trans: "marks_added m m' \<Longrightarrow> marks_added m' m'' \<Longrightarrow> marks_added m m''"
  unfolding marks_added_def by (metis or.assoc)

lemma mark_bits: "bit (0x60 :: u32) k \<longleftrightarrow> k = 5 \<or> k = 6"
proof -
  have "(0x60 :: u32) = 2 ^ 5 OR 2 ^ 6" by simp
  then show ?thesis by (simp only: bit_or_iff bit_exp_iff) auto
qed

lemma marks_added_bits:
  assumes "marks_added m m'"
  shows "k \<noteq> 5 \<Longrightarrow> k \<noteq> 6 \<Longrightarrow> bit (m' d) k = bit (m d) k" and "bit (m d) k \<Longrightarrow> bit (m' d) k"
proof -
  have e: "m' d OR 0x60 = m d OR 0x60" "m d OR m' d = m' d" using assms by (simp_all add: marks_added_def)
  show "bit (m' d) k = bit (m d) k" if "k \<noteq> 5" "k \<noteq> 6"
    using arg_cong [OF e(1), of "\<lambda>x. bit x k"] that unfolding bit_or_iff mark_bits by simp
  show "bit (m' d) k" if "bit (m d) k"
    using arg_cong [OF e(2), of "\<lambda>x. bit x k"] that by (simp add: bit_or_iff)
qed

lemma frame_bits: "bit (v AND 0xFFFFF000 :: u32) k \<longleftrightarrow> 12 \<le> k \<and> bit v k"
proof -
  have "(0xFFFFF000 :: u32) = NOT (mask 12)" by (simp add: mask_eq_exp_minus_1)
  then show ?thesis
    unfolding bit_and_iff \<open>0xFFFFF000 = NOT (mask 12)\<close> by (auto simp: bit_not_iff bit_mask_iff dest: bit_imp_le_length)
qed

lemma marks_added_frame: "marks_added m m' \<Longrightarrow> m' d AND 0xFFFFF000 = m d AND 0xFFFFF000"
  by (rule bit_word_eqI) (auto simp: frame_bits marks_added_bits(1))

lemma marks_added_update:
  assumes "v OR 0x60 = m d OR 0x60" and "m d OR v = v"
  shows "marks_added m (m(d := v))"
  using assms by (simp add: marks_added_def)

lemma marks_added_lookup:
  assumes "marks_added m m'"
  shows "pt_lookup m' dc cr3 lin =
    (case pt_lookup m dc cr3 lin of None \<Rightarrow> None
     | Some (pde, pte) \<Rightarrow>
         Some (m' (dc (pde_address cr3 lin)), m' (dc (pte_address (m (dc (pde_address cr3 lin))) lin))))"
proof -
  have "pte_address (m' d) lin = pte_address (m d) lin" for d
    by (simp only: pte_address_def marks_added_frame [OF assms])
  then show ?thesis
    using marks_added_bits(1) [OF assms, of 0] by (simp add: pt_lookup_def Let_def)
qed

lemma marks_added_result:
  assumes "marks_added m m'"
  shows "page_result m' dc cr3 lin write user = page_result m dc cr3 lin write user"
proof (cases "pt_lookup m dc cr3 lin")
  case None
  then show ?thesis by (simp add: page_result_def marks_added_lookup [OF assms])
next
  case (Some p)
  then have "p = (m (dc (pde_address cr3 lin)), m (dc (pte_address (m (dc (pde_address cr3 lin))) lin)))"
    by (simp add: pt_lookup_def Let_def split: if_splits)
  then show ?thesis using Some
    by (simp add: page_result_def marks_added_lookup [OF assms] marks_added_bits(1) [OF assms] marks_added_frame [OF assms])
qed

lemma marks_added_coherent:
  assumes "marks_added m m'" and "entry_coherent m dc cr3 lin e"
  shows "entry_coherent m' dc cr3 lin e"
proof -
  from assms(2) obtain pde pte where l: "pt_lookup m dc cr3 lin = Some (pde, pte)"
    by (auto simp: entry_coherent_def split: option.splits)
  then have "pde = m (dc (pde_address cr3 lin))" "pte = m (dc (pte_address (m (dc (pde_address cr3 lin))) lin))"
    by (auto simp: pt_lookup_def Let_def split: if_splits)
  then show ?thesis
    using assms(2) l marks_added_bits(2) [OF assms(1)]
    by (simp add: entry_coherent_def marks_added_lookup [OF assms(1)] marks_added_bits(1) [OF assms(1)]
        marks_added_frame [OF assms(1)])
qed

subsection \<open>The walk\<close>

lemma and_FFF: "x AND 0xFFF = take_bit 12 (x :: u32)"
  by (simp add: take_bit_eq_mask mask_eq_exp_minus_1)

text \<open>Table addresses are aligned.\<close>

lemma aligned_sum: "((x AND 0xFFFFF000) + push_bit 2 y) AND 3 = (0 :: u32)"
proof -
  let ?a = "x AND 0xFFFFF000" and ?b = "push_bit 2 y"
  have "?a AND mask 2 = 0"
    by (rule bit_word_eqI, unfold bit_and_iff [of "x AND 0xFFFFF000"] frame_bits bit_mask_iff) auto
  moreover have "?b AND mask 2 = 0"
    by (rule bit_word_eqI, unfold bit_and_iff bit_mask_iff bit_push_bit_iff) auto
  ultimately have "unat ?a mod 4 = 0" "unat ?b mod 4 = 0"
    using unat_and_mask [of ?a 2] unat_and_mask [of ?b 2] by simp_all
  then have "(unat ?a + unat ?b) mod 4 = 0" by presburger
  then have "unat (?a + ?b) mod 4 = 0" by (simp add: unat_word_ariths mod_mod_cancel)
  then have "unat ((?a + ?b) AND mask 2) = 0" unfolding unat_and_mask by simp
  then have "(?a + ?b) AND mask 2 = 0" by (simp only: unsigned_eq_0_iff)
  then show ?thesis by (simp add: mask_eq_exp_minus_1)
qed

lemma tlb_slot: "x AND (TLB_SIZE - 1) = x AND 255" by (simp add: TLB_SIZE_def)

text \<open>Two addresses of one page.\<close>

lemma same_page:
  assumes "drop_bit 12 lin = drop_bit 12 lin'"
  shows "pt_lookup m dc cr3 lin = pt_lookup m dc cr3 lin'"
proof -
  have "drop_bit 10 (drop_bit 12 lin) = drop_bit 10 (drop_bit 12 lin')" using assms by (simp only:)
  then have "drop_bit 22 lin = drop_bit 22 lin'" by (simp add: drop_bit_drop_bit)
  then show ?thesis using assms by (simp add: pt_lookup_def pde_address_def pte_address_def)
qed

subsection \<open>Entries\<close>

text \<open>What the walk writes back: the entry with its accessed bit, and its dirty bit on a write.\<close>

definition marked_pte :: "bool \<Rightarrow> u32 \<Rightarrow> u32" where
  "marked_pte write pt =
     (if \<not> bit pt 5 \<or> write \<and> \<not> bit pt 6 then (if write then pt OR 0x20 OR 0x40 else pt OR 0x20) else pt)"

lemma bit_20: "bit (0x20 :: u32) k \<longleftrightarrow> k = 5"
proof -
  have "(0x20 :: u32) = 2 ^ 5" by simp
  then show ?thesis by (simp only: bit_exp_iff) auto
qed

lemma bit_40: "bit (0x40 :: u32) k \<longleftrightarrow> k = 6"
proof -
  have "(0x40 :: u32) = 2 ^ 6" by simp
  then show ?thesis by (simp only: bit_exp_iff) auto
qed

lemma bit_marked:
  "bit (marked_pte write pt) k \<longleftrightarrow> bit pt k \<or> k = 5 \<or> (write \<and> k = 6)"
proof -
  have "bit (pt OR 0x20 OR 0x40) k \<longleftrightarrow> bit pt k \<or> k = 5 \<or> k = 6" unfolding bit_or_iff bit_20 bit_40 by auto
  moreover have "bit (pt OR 0x20) k \<longleftrightarrow> bit pt k \<or> k = 5" unfolding bit_or_iff bit_20 ..
  ultimately show ?thesis unfolding marked_pte_def by (auto split: if_split)
qed

lemma bit_or_20: "bit (v OR 0x20 :: u32) k \<longleftrightarrow> bit v k \<or> k = 5"
  unfolding bit_or_iff bit_20 ..

text \<open>A write-back of marked entries only adds marks, also when both entries share a cell.\<close>

lemma marks_added_by_bits:
  assumes "\<And>d k. bit (m' d) k \<longleftrightarrow> bit (m d) k \<or> mk d k" and "\<And>d k. mk d k \<Longrightarrow> k = 5 \<or> k = 6"
  shows "marks_added m m'"
proof -
  have "m' d OR 0x60 = m d OR 0x60" for d
    by (rule bit_word_eqI, unfold bit_or_iff mark_bits) (use assms in blast)
  moreover have "m d OR m' d = m' d" for d
    by (rule bit_word_eqI) (use assms in \<open>auto simp: bit_or_iff\<close>)
  ultimately show ?thesis by (simp add: marks_added_def)
qed

lemma walk_marks:
  assumes "m1 = (if bit (m dp) 5 then m else m(dp := m dp OR 0x20))"
    and "m2 = (if marked_pte write (m dt) = m dt then m1 else m1(dt := marked_pte write (m dt)))"
  shows "marks_added m m2" and "m2 dt = marked_pte write (m dt)" and "bit (m2 dp) 5"
proof -
  have m1: "bit (m1 d) k \<longleftrightarrow> bit (m d) k \<or> d = dp \<and> k = 5" for d k
    by (auto simp: assms(1) bit_or_20)
  have t: "bit (marked_pte write (m dt)) 5" by (simp add: bit_marked)
  show dt: "m2 dt = marked_pte write (m dt)"
  proof (cases "marked_pte write (m dt) = m dt")
    case True
    have "bit (m dt) 5" using t unfolding True .
    then show ?thesis using True by (auto simp: assms)
  qed (simp add: assms(2))
  have m2: "bit (m2 d) k \<longleftrightarrow> bit (m d) k \<or> (d = dp \<and> k = 5 \<or> d = dt \<and> (k = 5 \<or> write \<and> k = 6))" for d k
  proof (cases "d = dt")
    case True
    then show ?thesis using dt by (auto simp: bit_marked)
  next
    case False
    then show ?thesis using m1 [of d k] by (auto simp: assms(2))
  qed
  show "marks_added m m2" using m2 by (rule marks_added_by_bits) auto
  show "bit (m2 dp) 5" by (simp add: m2)
qed

subsection \<open>Walk and translation\<close>

text \<open>The TLB entry of a walk.\<close>

definition walk_entry :: "u32 \<Rightarrow> bool \<Rightarrow> u32 \<Rightarrow> u32 \<Rightarrow> TlbEntry" where
  "walk_entry lin write pde pt =
     \<lparr>te_tag = drop_bit 12 lin, te_phys = marked_pte write pt AND 0xFFFFF000, te_user = (bit pde 2 \<and> bit pt 2),
      te_writable = (bit pde 1 \<and> bit pt 1), te_dirty = bit (marked_pte write pt) 6\<rparr>"

lemma both_bits: "x AND y AND pte_US \<noteq> 0 \<longleftrightarrow> bit x 2 \<and> bit y 2" "x AND y AND pte_RW \<noteq> 0 \<longleftrightarrow> bit x 1 \<and> bit y 1"
  for x y :: u32
  using entry_masks(2,3) [of "x AND y"] by (simp_all add: and.assoc bit_and_iff)

context table_memory
begin

lemma read_table: "ib_read32 B b (pde_address cr3 lin) = (dword b (dcell (pde_address cr3 lin)), b)"
  "ib_read32 B b (pte_address pde lin) = (dword b (dcell (pte_address pde lin)), b)"
  by (simp_all only: read_dword pde_address_def pte_address_def aligned_sum)

lemma write_table: "dword (ib_write32 B b (pde_address cr3 lin) v) = (dword b)(dcell (pde_address cr3 lin) := v)"
  "dword (ib_write32 B b (pte_address pde lin) v) = (dword b)(dcell (pte_address pde lin) := v)"
  by (simp_all only: write_dword pde_address_def pte_address_def aligned_sum)

lemma walk_fault:
  assumes "page_result (dword b) dcell (r3_cr3 (c3_regs c)) lin write (user_access F c) = Inl code"
  shows "walk F B lin write (c, b) = (Inl (exc_pf code), c3_reg (\<lambda>r. r\<lparr>r3_cr2 := lin\<rparr>) c, b)"
proof -
  have f: "page_fault lin k (c, b) = (Inl (exc_pf k), c3_reg (\<lambda>r. r\<lparr>r3_cr2 := lin\<rparr>) c, b)" for k
    by (simp add: page_fault_def thenE_def bindE_def regE_def run_simps)
  show ?thesis
    using assms
    unfolding walk_def bindE_def inE_def getE_def prod.case sum.case pde_address_def [symmetric] read_table Let_def
      pte_address_def [symmetric] entry_masks both_bits page_result_def pt_lookup_def
    by (auto simp: f split: if_splits)
qed

lemma update_marked: "(\<not> bit pt 5 \<or> write \<and> \<not> bit pt 6) \<longleftrightarrow> marked_pte write pt \<noteq> pt"
proof
  assume "\<not> bit pt 5 \<or> write \<and> \<not> bit pt 6"
  then show "marked_pte write pt \<noteq> pt"
    using bit_marked [of "write" pt 5] bit_marked [of "write" pt 6] by auto
next
  assume "marked_pte write pt \<noteq> pt"
  then show "\<not> bit pt 5 \<or> write \<and> \<not> bit pt 6" by (auto simp: marked_pte_def split: if_splits)
qed

lemma update_let:
  "(let need_dirty = write \<and> \<not> bit pt 6; update = \<not> bit pt 5 \<or> need_dirty;
        pt' = (if update then let q = pt OR pte_A in if write then q OR pte_D else q else pt)
    in f update pt') = f (marked_pte write pt \<noteq> pt) (marked_pte write pt)"
proof -
  have "(if \<not> bit pt 5 \<or> write \<and> \<not> bit pt 6 then let q = pt OR pte_A in if write then q OR pte_D else q else pt) =
      marked_pte write pt"
    by (simp add: marked_pte_def pte_bits or.assoc)
  then show ?thesis by (simp only: Let_def update_marked)
qed

lemma marked_frame: "marked_pte write pt AND 0xFFFFF000 = pt AND 0xFFFFF000"
  by (rule bit_word_eqI) (auto simp: frame_bits bit_marked)

lemma walk_ok:
  fixes c :: I386Cpu
  defines "cr3 \<equiv> r3_cr3 (c3_regs c)"
  assumes "page_result (dword b) dcell cr3 lin write (user_access F c) = Inr p"
  obtains pde pt ic b' where "pt_lookup (dword b) dcell cr3 lin = Some (pde, pt)"
    and "walk F B lin write (c, b) = (Inr p, tlb_insert lin (walk_entry lin write pde pt) (c\<lparr>c3_icache := ic\<rparr>), b')"
    and "marks_added (dword b) (dword b')"
    and "dword b' (dcell (pte_address pde lin)) = marked_pte write pt"
    and "bit (dword b' (dcell (pde_address cr3 lin))) 5"
proof -
  let ?dp = "dcell (pde_address cr3 lin)"
  define pde where "pde = dword b ?dp"
  define dt where "dt = dcell (pte_address pde lin)"
  define pt where "pt = dword b dt"
  have l: "pt_lookup (dword b) dcell cr3 lin = Some (pde, pt)" and pres: "bit pde 0" "bit pt 0"
    and prot: "\<not> (user_access F c \<and> \<not> (bit pde 2 \<and> bit pt 2 \<and> (write \<longrightarrow> bit pde 1 \<and> bit pt 1)))"
    and p: "p = (pt AND 0xFFFFF000) OR (lin AND 0xFFF)"
    using assms(2) by (auto simp: page_result_def pt_lookup_def Let_def pde_def dt_def pt_def split: if_splits)
  define b1 where "b1 = (if bit pde 5 then b else ib_write32 B b (pde_address cr3 lin) (pde OR pte_A))"
  define b2 where "b2 = (if marked_pte write pt = pt then b1 else ib_write32 B b1 (pte_address pde lin) (marked_pte write pt))"
  define i1 where "i1 = (if bit pde 5 then c3_icache c else i386_stamp_write (pde_address cr3 lin) (c3_icache c))"
  define i2 where "i2 = (if marked_pte write pt = pt then i1 else i386_stamp_write (pte_address pde lin) i1)"
  have d1: "dword b1 = (if bit (dword b ?dp) 5 then dword b else (dword b)(?dp := dword b ?dp OR 0x20))"
    by (simp add: b1_def pde_def write_table pte_bits)
  have d2: "dword b2 = (if marked_pte write (dword b dt) = dword b dt then dword b1 else (dword b1)(dt := marked_pte write (dword b dt)))"
    by (simp add: b2_def pt_def dt_def write_table)
  note marks = walk_marks [OF d1 d2]
  have w: "write_entry B a v (d, b) = (Inr (), d\<lparr>c3_icache := i386_stamp_write a (c3_icache d)\<rparr>, ib_write32 B b a v)" for a v d b
    by (simp add: write_entry_def thenE_def bindE_def run_simps)
  have prot': "(user_access F c \<and> (\<not> (bit pde 2 \<and> bit pt 2) \<or> write \<and> \<not> (bit pde 1 \<and> bit pt 1))) = False"
    "(\<not> bit pde 0) = False" "(\<not> bit pt 0) = False"
    using prot pres by blast+
  have run: "walk F B lin write (c, b) = (Inr p, tlb_insert lin (walk_entry lin write pde pt) (c\<lparr>c3_icache := i2\<rparr>), b2)"
    unfolding walk_def bindE_def inE_def getE_def thenE_def prod.case sum.case pde_address_def [symmetric] read_table
      cr3_def [symmetric] pde_def [symmetric] pte_address_def [symmetric] entry_masks both_bits update_let
    unfolding Let_def read_table dt_def [symmetric] pt_def [symmetric] prod.case sum.case prot' if_False
    by (simp add: run_simps w b1_def b2_def i1_def i2_def walk_entry_def p marked_frame flip: pt_def)
  show thesis
    by (rule that [OF l run marks(1)]) (use marks in \<open>simp_all add: pt_def dt_def pde_def\<close>)
qed

text \<open>The two marks of a walk make its entry coherent, and keep the others.\<close>

lemma walk_entry_coherent:
  assumes "pt_lookup m dcell cr3 lin = Some (pde, pt)" and "marks_added m m'"
    and "m' (dcell (pte_address pde lin)) = marked_pte write pt" and "bit (m' (dcell (pde_address cr3 lin))) 5"
  shows "entry_coherent m' dcell cr3 lin (walk_entry lin write pde pt)"
proof -
  have e: "pde = m (dcell (pde_address cr3 lin))" "pt = m (dcell (pte_address pde lin))"
    using assms(1) by (auto simp: pt_lookup_def Let_def split: if_splits)
  have "pt_lookup m' dcell cr3 lin = Some (m' (dcell (pde_address cr3 lin)), m' (dcell (pte_address pde lin)))"
    using marks_added_lookup [OF assms(2), of dcell cr3 lin] assms(1) by (simp flip: e(1))
  then show ?thesis
    using marks_added_bits(1) [OF assms(2)] assms(4)
    by (simp add: entry_coherent_def walk_entry_def assms(3) bit_marked) (simp flip: e(1))
qed

lemma translate_refines:
  fixes c :: I386Cpu
  defines "cr3 \<equiv> r3_cr3 (c3_regs c)"
  assumes coh: "tlb_coherent (dword b) dcell c"
    and run: "translate F B lin write (c, b) = (r, c', b')"
  shows "tlb_coherent (dword b') dcell c' \<and> marks_added (dword b) (dword b') \<and>
    (case page_result (dword b) dcell cr3 lin write (user_access F c) of
       Inl code \<Rightarrow> r = Inl (exc_pf code) \<and> c' = c3_reg (\<lambda>r. r\<lparr>r3_cr2 := lin\<rparr>) c \<and> b' = b
     | Inr p \<Rightarrow> r = Inr p \<and> (\<exists>t ic. c' = c\<lparr>c3_tlb := t, c3_icache := ic\<rparr>) \<and>
         (write \<longrightarrow> (\<exists>pde pt. pt_lookup (dword b') dcell cr3 lin = Some (pde, pt) \<and> bit pt 6)))"
proof -
  let ?slot = "drop_bit 12 lin AND 255"
  let ?e = "c3_tlb c ?slot"
  let ?hit = "te_tag ?e = drop_bit 12 lin \<and>
    (\<not> user_access F c \<or> (te_user ?e \<and> (\<not> write \<or> te_writable ?e))) \<and> (\<not> write \<or> te_dirty ?e)"
  have tr: "translate F B lin write (c, b) = (if ?hit then (Inr (te_phys ?e OR (lin AND 0xFFF)), c, b) else walk F B lin write (c, b))"
    by (simp only: translate_def bindE_def run_simps tlb_slot prod.case sum.case if_distribR)
  show ?thesis
  proof (cases ?hit)
    case True
    then have "entry_coherent (dword b) dcell cr3 lin ?e"
      using coh by (simp add: tlb_coherent_def cr3_def)
    then obtain pde pt where l: "pt_lookup (dword b) dcell cr3 lin = Some (pde, pt)"
      and e: "te_phys ?e = pt AND 0xFFFFF000" "te_user ?e = (bit pde 2 \<and> bit pt 2)"
        "te_writable ?e = (bit pde 1 \<and> bit pt 1)" "te_dirty ?e \<longrightarrow> bit pt 6"
      by (auto simp: entry_coherent_def split: option.splits)
    have "r = Inr (te_phys ?e OR (lin AND 0xFFF))" "c' = c" "b' = b" using run True by (auto simp: tr)
    moreover have "\<exists>t ic. c = c\<lparr>c3_tlb := t, c3_icache := ic\<rparr>"
      by (intro exI [of _ "c3_tlb c"] exI [of _ "c3_icache c"]) simp
    moreover have "page_result (dword b) dcell cr3 lin write (user_access F c) = Inr (te_phys ?e OR (lin AND 0xFFF))"
      using True unfolding page_result_def l e(2,3) by (auto simp: e(1))
    moreover have "write \<longrightarrow> bit pt 6" using True e(4) by blast
    ultimately show ?thesis using coh l by simp
  next
    case False
    then have w: "walk F B lin write (c, b) = (r, c', b')" using run by (simp only: tr if_False)
    show ?thesis
    proof (cases "page_result (dword b) dcell cr3 lin write (user_access F c)")
      case (Inl code)
      then show ?thesis
        using w coh walk_fault [of b c lin "write" F code] by (auto simp: cr3_def tlb_coherent_def)
    next
      case (Inr p)
      obtain pde pt ic b2 where l: "pt_lookup (dword b) dcell cr3 lin = Some (pde, pt)"
        and run2: "walk F B lin write (c, b) = (Inr p, tlb_insert lin (walk_entry lin write pde pt) (c\<lparr>c3_icache := ic\<rparr>), b2)"
        and marks: "marks_added (dword b) (dword b2)"
        and m: "dword b2 (dcell (pte_address pde lin)) = marked_pte write pt" "bit (dword b2 (dcell (pde_address cr3 lin))) 5"
        by (rule walk_ok [OF Inr [unfolded cr3_def]]) (simp only: cr3_def)
      have eq: "r = Inr p" "c' = tlb_insert lin (walk_entry lin write pde pt) (c\<lparr>c3_icache := ic\<rparr>)" "b' = b2"
        using w run2 by auto
      note coh2 = walk_entry_coherent [OF l marks m]
      have cr: "r3_cr3 (c3_regs c') = cr3" by (simp add: eq(2) tlb_insert_def cr3_def)
      have "tlb_coherent (dword b2) dcell c'"
        unfolding tlb_coherent_def
      proof (intro allI impI)
        fix lin'
        assume tag: "te_tag (c3_tlb c' (drop_bit 12 lin' AND 255)) = drop_bit 12 lin'"
        show "entry_coherent (dword b2) dcell (r3_cr3 (c3_regs c')) lin' (c3_tlb c' (drop_bit 12 lin' AND 255))"
        proof (cases "drop_bit 12 lin' AND 255 = ?slot")
          case True
          then have new: "c3_tlb c' (drop_bit 12 lin' AND 255) = walk_entry lin write pde pt"
            by (simp add: eq(2) tlb_insert_def tlb_slot)
          have "drop_bit 12 lin' = drop_bit 12 lin" using tag unfolding new by (simp add: walk_entry_def)
          then have page: "pt_lookup (dword b2) dcell cr3 lin' = pt_lookup (dword b2) dcell cr3 lin" by (rule same_page)
          show ?thesis using coh2 unfolding new cr by (simp only: entry_coherent_def page)
        next
          case False
          then have old: "c3_tlb c' (drop_bit 12 lin' AND 255) = c3_tlb c (drop_bit 12 lin' AND 255)"
            by (simp add: eq(2) tlb_insert_def tlb_slot)
          have "entry_coherent (dword b) dcell cr3 lin' (c3_tlb c (drop_bit 12 lin' AND 255))"
            using coh tag by (simp add: tlb_coherent_def old cr3_def)
          from marks_added_coherent [OF marks this] show ?thesis unfolding old cr .
        qed
      qed
      moreover have "write \<longrightarrow> (\<exists>pde pt. pt_lookup (dword b2) dcell cr3 lin = Some (pde, pt) \<and> bit pt 6)"
        using coh2 by (auto simp: entry_coherent_def walk_entry_def bit_marked split: option.splits)
      moreover have "\<exists>t i. c' = c\<lparr>c3_tlb := t, c3_icache := i\<rparr>"
        by (rule exI [of _ "c3_tlb c'"], rule exI [of _ ic]) (simp add: eq(2) tlb_insert_def)
      ultimately show ?thesis using marks Inr eq(1,3) by simp
    qed
  qed
qed

subsection \<open>Stores\<close>

text \<open>What a chain of translations keeps, and what the state is when one of them faults.\<close>

lemma translate_chain:
  assumes coh: "tlb_coherent (dword b) dcell c" and run: "translate F B lin write (c, b) = (r, c', b')"
  shows "tlb_coherent (dword b') dcell c'" and "marks_added (dword b) (dword b')"
    and "r = Inr p \<Longrightarrow> c3_regs c' = c3_regs c"
    and "r = Inl e \<Longrightarrow> ex_vector e = 14 \<and> c3_regs c' = (c3_regs c)\<lparr>r3_cr2 := lin\<rparr>"
  using translate_refines [OF coh run] by (auto simp: exc_pf_def split: sum.splits)

end

text \<open>What the tables say for a store to byte \<open>k\<close> from \<open>lin\<close> on, and the first byte of a store that faults.\<close>

definition byte_page ::
  "('b \<Rightarrow> 'c \<Rightarrow> u32) \<Rightarrow> (u32 \<Rightarrow> 'c) \<Rightarrow> eflag_ops \<Rightarrow> u32 \<Rightarrow> I386Cpu \<Rightarrow> 'b \<Rightarrow> nat \<Rightarrow> u16 + u32" where
  "byte_page dw dc F lin c b k = page_result (dw b) dc (r3_cr3 (c3_regs c)) (lin + of_nat k) True (user_access F c)"

definition faults_first ::
  "('b \<Rightarrow> 'c \<Rightarrow> u32) \<Rightarrow> (u32 \<Rightarrow> 'c) \<Rightarrow> eflag_ops \<Rightarrow> u32 \<Rightarrow> I386Cpu \<Rightarrow> 'b \<Rightarrow> nat \<Rightarrow> u16 \<Rightarrow> bool" where
  "faults_first dw dc F lin c b k code \<longleftrightarrow>
     byte_page dw dc F lin c b k = Inl code \<and> (\<forall>j < k. \<exists>p. byte_page dw dc F lin c b j = Inr p)"

text \<open>
  The outcome of a store of \<open>n\<close> bytes: all of them translate, or the first that does not faults, with its address in
  \<open>CR2\<close>, no other register changed and nothing stored.
\<close>

definition store_outcome ::
  "('b \<Rightarrow> 'c \<Rightarrow> u32) \<Rightarrow> (u32 \<Rightarrow> 'c) \<Rightarrow> eflag_ops \<Rightarrow> nat \<Rightarrow> u32 \<Rightarrow> I386Cpu \<Rightarrow> 'b \<Rightarrow>
     (I386Exception + unit) \<times> I386Cpu \<times> 'b \<Rightarrow> bool" where
  "store_outcome dw dc F n lin c b res \<longleftrightarrow>
     (case res of
        (Inr _, c', b') \<Rightarrow>
          c3_regs c' = c3_regs c \<and> (paging c \<longrightarrow> (\<forall>k < n. \<exists>p. byte_page dw dc F lin c b k = Inr p))
      | (Inl e, c', b') \<Rightarrow>
          paging c \<and> marks_added (dw b) (dw b') \<and>
          (\<exists>k < n. \<exists>code. faults_first dw dc F lin c b k code \<and> e = exc_pf code \<and>
             c3_regs c' = (c3_regs c)\<lparr>r3_cr2 := lin + of_nat k\<rparr>))"

text \<open>A state in which the first \<open>k\<close> bytes have been translated.\<close>

definition translating ::
  "('b \<Rightarrow> 'c \<Rightarrow> u32) \<Rightarrow> (u32 \<Rightarrow> 'c) \<Rightarrow> eflag_ops \<Rightarrow> u32 \<Rightarrow> I386Cpu \<Rightarrow> 'b \<Rightarrow> nat \<Rightarrow> I386Cpu \<times> 'b \<Rightarrow> bool" where
  "translating dw dc F lin c b k s \<longleftrightarrow>
     tlb_coherent (dw (snd s)) dc (fst s) \<and> marks_added (dw b) (dw (snd s)) \<and> c3_regs (fst s) = c3_regs c \<and>
     user_access F (fst s) = user_access F c \<and> (\<forall>j < k. \<exists>p. byte_page dw dc F lin c b j = Inr p)"

text \<open>The bytes of one page translate alike.\<close>

lemma page_offset:
  assumes "unat (lin AND 0xFFF) + j < 4096"
  shows "drop_bit 12 (lin + of_nat j) = drop_bit 12 (lin :: u32)"
proof -
  have off: "unat (lin AND 0xFFF) = unat lin mod 4096" using unat_and_mask [of lin 12] by (simp add: mask_eq_exp_minus_1)
  have lt: "unat lin < 1048576 * 4096" using unsigned_less [of lin] by simp
  have split: "unat lin = 4096 * (unat lin div 4096) + unat lin mod 4096" by simp
  have "unat lin div 4096 < 1048576" using less_mult_imp_div_less [OF lt] .
  then have "unat lin + j < 4294967296" using assms split unfolding off by linarith
  then have sum: "unat (lin + of_nat j) = unat lin + j" by (simp add: unat_word_ariths unat_of_nat)
  have "unat lin + j = 4096 * (unat lin div 4096) + (unat lin mod 4096 + j)" using split by linarith
  then have "(unat lin + j) div 4096 = unat lin div 4096"
    using assms unfolding off by (metis add.right_neutral div_less div_mult_self4 zero_neq_numeral)
  then show ?thesis using sum by (simp add: word_unat_eq_iff drop_bit_eq_div unat_div_distrib)
qed

lemma page_alike:
  assumes "unat (lin AND 0xFFF) + j < 4096" "byte_page dw dc F lin c b 0 = Inr p"
  shows "\<exists>q. byte_page dw dc F lin c b j = Inr q"
  using assms(2)
  by (auto simp: byte_page_def page_result_def same_page [OF page_offset [OF assms(1)]] split: option.splits if_split_asm)

lemma translating_page:
  assumes "translating dw dc F lin c b 1 s" "unat (lin AND 0xFFF) + n \<le> 4096"
  shows "translating dw dc F lin c b n s"
proof -
  obtain p where "byte_page dw dc F lin c b 0 = Inr p" using assms(1) by (auto simp: translating_def)
  then show ?thesis using assms page_alike [of lin _ dw dc F c b p] by (auto simp: translating_def)
qed

context table_memory
begin

lemma translate_next:
  assumes s: "translating dword dcell F lin c b k s"
    and run: "translate F B (lin + of_nat k) True s = (r, t)"
  shows "case r of
      Inr _ \<Rightarrow> translating dword dcell F lin c b (Suc k) t
    | Inl e \<Rightarrow> marks_added (dword b) (dword (snd t)) \<and> c3_regs (fst t) = (c3_regs c)\<lparr>r3_cr2 := lin + of_nat k\<rparr> \<and>
        (\<exists>code. faults_first dword dcell F lin c b k code \<and> e = exc_pf code)"
proof -
  note st = s [unfolded translating_def]
  obtain e2 b2 where t: "t = (e2, b2)" by (cases t)
  have run': "translate F B (lin + of_nat k) True (fst s, snd s) = (r, e2, b2)" using run t by simp
  have page: "page_result (dword (snd s)) dcell (r3_cr3 (c3_regs (fst s))) (lin + of_nat k) True (user_access F (fst s)) =
      byte_page dword dcell F lin c b k"
    using st by (simp add: byte_page_def marks_added_result)
  note out = translate_refines [OF conjunct1 [OF st] run', unfolded page]
  show ?thesis
  proof (cases "byte_page dword dcell F lin c b k")
    case (Inl code)
    then show ?thesis using out st by (auto simp: t faults_first_def)
  next
    case (Inr p)
    then have "\<forall>j < Suc k. \<exists>p. byte_page dword dcell F lin c b j = Inr p" using st less_Suc_eq by auto
    then show ?thesis
      using Inr out st marks_added_trans [of "dword b"] by (auto simp: t translating_def user_access_def protected_mode_def cpl_def)
  qed
qed

text \<open>A store is a chain of translations followed by actions that cannot fail.\<close>

lemma store_chain:
  assumes "paging c" and s: "translating dword dcell F lin c b k s" and k: "k < n"
    and rest: "\<And>p t. translating dword dcell F lin c b (Suc k) t \<Longrightarrow> store_outcome dword dcell F n lin c b (g p t)"
  shows "store_outcome dword dcell F n lin c b (bindE (translate F B (lin + of_nat k) True) g s)"
proof -
  obtain r t where run: "translate F B (lin + of_nat k) True s = (r, t)" by (rule that [OF surjective_pairing])
  show ?thesis
  proof (cases r)
    case (Inl e)
    then show ?thesis
      using translate_next [OF s run] k assms(1) by (cases t) (auto simp: bindE_def run store_outcome_def)
  next
    case (Inr p)
    then show ?thesis using translate_next [OF s run] rest by (simp add: bindE_def run)
  qed
qed

lemma store_done:
  "translating dword dcell F lin c b n s \<Longrightarrow> store_outcome dword dcell F n lin c b (thenE (stampE f) (outE g) s)"
  by (cases s) (auto simp: store_outcome_def translating_def thenE_def bindE_def stampE_def run_simps)

lemma store_flat:
  "\<not> paging c \<Longrightarrow> store_outcome dword dcell F n lin c b (thenE (stampE f) (outE g) (c, b))"
  by (auto simp: store_outcome_def thenE_def bindE_def stampE_def run_simps)

lemma if_paging_run: "if_paging m m' (c, b) = (if paging c then m (c, b) else m' (c, b))"
  by (simp add: if_paging_def bindE_def run_simps)

lemma store_atomic:
  assumes "tlb_coherent (dword b) dcell c"
  shows "store_outcome dword dcell F 1 lin c b (lin_write8 F B lin v8 (c, b))"
    and "store_outcome dword dcell F 2 lin c b (lin_write16 F B lin v16 (c, b))"
    and "store_outcome dword dcell F 4 lin c b (lin_write32 F B lin v32 (c, b))"
proof -
  have start: "translating dword dcell F lin c b 0 (c, b)" using assms by (simp add: translating_def)
  note first = store_chain [OF _ start, simplified]
  note at1 = store_chain [where k = 1, simplified] and at2 = store_chain [where k = 2, simplified]
    and at3 = store_chain [where k = 3, simplified]
  have whole: "store_outcome dword dcell F n lin c b (thenE (stampE f) (outE g) t)"
    if "translating dword dcell F lin c b (Suc 0) t" "unat (lin AND 0xFFF) + n \<le> 4096" for n f g t
    using translating_page [of dword dcell F lin c b t n] that by (intro store_done) simp
  have room: "unat (lin AND 0xFFF) + 2 \<le> 4096" if "lin AND 0xFFF < 0xFFF" using that by (simp add: word_less_nat_alt)
  have room4: "unat (lin AND 0xFFF) + 4 \<le> 4096" if "lin AND 0xFFF < 0xFFD" using that by (simp add: word_less_nat_alt)
  show "store_outcome dword dcell F 1 lin c b (lin_write8 F B lin v8 (c, b))"
    unfolding lin_write8_def if_paging_run by (auto intro!: first store_done store_flat)
  show "store_outcome dword dcell F 2 lin c b (lin_write16 F B lin v16 (c, b))"
    unfolding lin_write16_def if_paging_run
    apply (auto intro!: first store_flat split: if_split)
     apply (rule whole, assumption, erule room)
    apply (rule at1, assumption, assumption, simp)
    apply (rule store_done, simp add: numeral_2_eq_2)
    done
  show "store_outcome dword dcell F 4 lin c b (lin_write32 F B lin v32 (c, b))"
    unfolding lin_write32_def if_paging_run
    apply (auto intro!: first store_flat split: if_split)
     apply (rule whole, assumption, erule room4)
    apply (rule at1, assumption, assumption, simp)
    apply (rule at2, assumption, simp add: numeral_2_eq_2, simp)
    apply (rule at3, assumption, simp add: numeral_2_eq_2 numeral_3_eq_3, simp)
    apply (rule store_done, simp add: eval_nat_numeral)
    done
qed

end

text \<open>A flushed TLB is coherent with any tables.\<close>

lemma page_not_empty: "drop_bit 12 lin \<noteq> TLB_EMPTY"
proof
  assume "drop_bit 12 lin = TLB_EMPTY"
  then have "bit (drop_bit 12 lin) 31 = bit (- 1 :: u32) 31" by (simp only: TLB_EMPTY_def)
  then show False by (auto simp: bit_drop_bit_eq dest: bit_imp_le_length)
qed

lemma tlb_coherent_empty:
  assumes "\<And>i. te_tag (c3_tlb c i) = TLB_EMPTY"
  shows "tlb_coherent m dc c"
  using assms page_not_empty by (simp add: tlb_coherent_def) metis

lemma tlb_coherent_flush: "tlb_coherent m dc (flush_tlb c)"
  by (rule tlb_coherent_empty) (simp add: flush_tlb_def Tlb_flush_def)

text \<open>
  C9. Address translation. On the flat memory, with a TLB that agrees with the page tables, \<open>translate\<close> returns what
  the two-level tables and the protection rules of the 386 say, whether it hits the TLB or walks: the
  physical address, or a page fault with the right error code and \<open>CR2\<close> and nothing else changed. The
  TLB agrees with the tables afterwards, memory changes only by accessed and dirty bits that become set,
  and a write leaves its page marked dirty.
\<close>

theorem i386_translate_refines:
  fixes write' :: bool
  assumes "tlb_coherent (im_dword b) im_dcell c"
  shows "case translate F I386Memory_bus lin write' (c, b) of (r, c', b') \<Rightarrow>
    tlb_coherent (im_dword b') im_dcell c' \<and> marks_added (im_dword b) (im_dword b') \<and>
    (case page_result (im_dword b) im_dcell (r3_cr3 (c3_regs c)) lin write' (user_access F c) of
       Inl code \<Rightarrow> r = Inl (exc_pf code) \<and> c' = c3_reg (\<lambda>r. r\<lparr>r3_cr2 := lin\<rparr>) c \<and> b' = b
     | Inr p \<Rightarrow> r = Inr p \<and> (\<exists>t ic. c' = c\<lparr>c3_tlb := t, c3_icache := ic\<rparr>) \<and>
         (\<not> write' \<or> (\<exists>pde pt. pt_lookup (im_dword b') im_dcell (r3_cr3 (c3_regs c)) lin = Some (pde, pt) \<and> bit pt 6)))"
proof -
  obtain r c' b' where run: "translate F I386Memory_bus lin write' (c, b) = (r, c', b')" by (metis prod.exhaust)
  show ?thesis unfolding run prod.case by (rule linear.translate_refines [OF assms run, unfolded imp_conv_disj])
qed

definition example_tables :: I386Memory where
  "example_tables = \<lparr>im_ram = (\<lambda>_. 0)(0 := 3, 4 := 3, 5 := 0x50)\<rparr>"

theorem i386_translate_refines_witness:
  "tlb_coherent (im_dword example_tables) im_dcell (flush_tlb I386Cpu_new) \<and>
   fst (translate (bitflags_all_std EFlags_DEFINED) I386Memory_bus 0x1234 True (flush_tlb I386Cpu_new, example_tables)) =
     Inr 0x5234"
proof
  show coh: "tlb_coherent (im_dword example_tables) im_dcell (flush_tlb I386Cpu_new)" by (rule tlb_coherent_flush)
  have u: "user_access (bitflags_all_std EFlags_DEFINED) (flush_tlb I386Cpu_new) = False" by code_simp
  have cr3: "r3_cr3 (c3_regs (flush_tlb I386Cpu_new)) = 0" by code_simp
  have a: "pde_address 0 0x1234 = 0" "pte_address 3 0x1234 = 4" by code_simp+
  have d: "im_dcell 0 = 0" "im_dcell 4 = 1" by (simp_all add: im_dcell_def linear_mask_mod)
  have m: "im_dword example_tables 0 = 3" "im_dword example_tables 1 = 0x5003"
    by (simp_all add: im_dword_def example_tables_def u32_from_le_bytes_def)
  have "page_result (im_dword example_tables) im_dcell 0 0x1234 True False = Inr 0x5234"
    by (simp add: page_result_def pt_lookup_def Let_def a d m m(2) [unfolded One_nat_def])
  then show "fst (translate (bitflags_all_std EFlags_DEFINED) I386Memory_bus 0x1234 True (flush_tlb I386Cpu_new, example_tables)) =
     Inr 0x5234"
    using i386_translate_refines [OF coh, where F = "bitflags_all_std EFlags_DEFINED" and lin = "0x1234" and write' = True] unfolding u cr3
    by (auto split: prod.splits)
qed

text \<open>
  C17. Stores are atomic with respect to page faults. With paging off a store of one, two or four bytes succeeds. With
  paging on, and a TLB that agrees with the page tables, it succeeds exactly when the tables and the protection rules allow
  each of its bytes to be written. If not, it is the page fault of the first byte they do not allow, with that byte's
  error code and its address in \<open>CR2\<close>; no other register and nothing in memory but accessed and dirty bits has changed,
  so the instruction can be restarted.
\<close>

theorem i386_store_atomic:
  assumes "tlb_coherent (im_dword b) im_dcell c"
  shows "store_outcome im_dword im_dcell F 1 lin c b (lin_write8 F I386Memory_bus lin v8 (c, b)) \<and>
    store_outcome im_dword im_dcell F 2 lin c b (lin_write16 F I386Memory_bus lin v16 (c, b)) \<and>
    store_outcome im_dword im_dcell F 4 lin c b (lin_write32 F I386Memory_bus lin v32 (c, b))"
  by (intro conjI linear.store_atomic assms)

text \<open>A store of four bytes that begins in a mapped page and ends in one that is not present.\<close>

definition paging_cpu :: I386Cpu where
  "paging_cpu = flush_tlb (c3_reg (\<lambda>r. r\<lparr>r3_cr0 := cr0_PG OR cr0_PE\<rparr>) I386Cpu_new)"

lemma straddling_pages:
  "k \<le> 2 \<Longrightarrow> byte_page im_dword im_dcell (bitflags_all_std EFlags_DEFINED) 0x1FFE paging_cpu example_tables k =
     (if k < 2 then Inr (0x5FFE + of_nat k) else Inl 2)"
proof -
  let ?F = "bitflags_all_std EFlags_DEFINED"
  assume "k \<le> 2"
  then have k: "k = 0 \<or> k = 1 \<or> k = 2" by arith
  have u: "user_access ?F paging_cpu = False" by code_simp
  have cr3: "r3_cr3 (c3_regs paging_cpu) = 0" by code_simp
  have a: "pde_address 0 0x1FFE = 0" "pde_address 0 0x1FFF = 0" "pde_address 0 0x2000 = 0"
    "pte_address 3 0x1FFE = 4" "pte_address 3 0x1FFF = 4" "pte_address 3 0x2000 = 8" by code_simp+
  have d: "im_dcell 0 = 0" "im_dcell 4 = 1" "im_dcell 8 = 2" by (simp_all add: im_dcell_def linear_mask_mod)
  have m: "im_dword example_tables 0 = 3" "im_dword example_tables 1 = 0x5003" "im_dword example_tables 2 = 0"
    by (simp_all add: im_dword_def example_tables_def u32_from_le_bytes_def)
  show ?thesis
    using k by (auto simp: byte_page_def u cr3 page_result_def pt_lookup_def Let_def a d m m(2) [unfolded One_nat_def] pf_code_def)
qed

theorem i386_store_atomic_witness:
  "\<exists>c' b'. paging paging_cpu \<and>
     lin_write32 (bitflags_all_std EFlags_DEFINED) I386Memory_bus 0x1FFE 0xDEADBEEF (paging_cpu, example_tables) =
       (Inl (exc_pf 2), c', b') \<and>
     r3_cr2 (c3_regs c') = 0x2000 \<and> marks_added (im_dword example_tables) (im_dword b')"
proof -
  let ?F = "bitflags_all_std EFlags_DEFINED"
  let ?run = "lin_write32 ?F I386Memory_bus 0x1FFE 0xDEADBEEF (paging_cpu, example_tables)"
  have pg: "paging paging_cpu" by code_simp
  have "tlb_coherent (im_dword example_tables) im_dcell paging_cpu"
    unfolding paging_cpu_def by (rule tlb_coherent_flush)
  then have out: "store_outcome im_dword im_dcell ?F 4 0x1FFE paging_cpu example_tables ?run"
    by (rule conjunct2 [OF conjunct2 [OF i386_store_atomic]])
  have not2: "\<nexists>p. byte_page im_dword im_dcell ?F 0x1FFE paging_cpu example_tables 2 = Inr p"
    using straddling_pages [of 2] by simp
  obtain r c' b' where run: "?run = (r, c', b')" by (metis prod.exhaust)
  obtain e where e: "r = Inl e" using out pg not2 unfolding run store_outcome_def
    by (cases r) (auto dest: spec [of _ 2])
  then obtain k code where k: "faults_first im_dword im_dcell ?F 0x1FFE paging_cpu example_tables k code" "e = exc_pf code"
      "c3_regs c' = (c3_regs paging_cpu)\<lparr>r3_cr2 := 0x1FFE + of_nat k\<rparr>"
    and marks: "marks_added (im_dword example_tables) (im_dword b')"
    using out unfolding run store_outcome_def by auto
  have "k \<le> 2" using k(1) not2 by (metis faults_first_def not_le)
  then have "k = 2" "code = 2" using k(1) straddling_pages [of k] by (auto simp: faults_first_def split: if_split_asm)
  then show ?thesis using pg run e k marks by simp
qed

end
