(* ===== verification/X386_Access.thy ===== *)
theory X386_Access
  imports X386_Paging
begin

text \<open>
  Segment-relative memory access, instruction fetch, the stack and the prefix scan of
  \<open>src/x86_32/mod.rs\<close>, and the operands of \<open>src/x86_32/modrm.rs\<close>.
\<close>

subsection \<open>Segment checks\<close>

definition ea_check :: "I386Cpu \<Rightarrow> u8 \<Rightarrow> u32 \<Rightarrow> u32 \<Rightarrow> bool \<Rightarrow> I386Exception + unit" where
  "ea_check c sg off size' write =
     (let s = c3_seg c sg;
          fault = Inl (if sg = SS then exc_ss 0 else exc_gp 0);
          last' = ucast off + ucast (size' - 1) :: u64;
          ok = (if sr_expand_down s then
                  let top' = (if sr_db s then 0xFFFFFFFF else 0xFFFF)
                  in (ucast off :: u64) > ucast (sr_limit s) \<and> last' \<le> top'
                else last' \<le> ucast (sr_limit s))
      in if sr_attrs s AND 0x80 = 0 then fault
         else if write \<and> sr_attrs s AND 0x1A \<noteq> 0x12 then fault
         else if \<not> write \<and> sr_attrs s AND 0x0A = 0x08 then fault
         else if ok then Inr () else fault)"

definition fetch_check :: "I386Cpu \<Rightarrow> u32 \<Rightarrow> I386Exception + unit" where
  "fetch_check c off =
     (if (ucast off :: u64) \<le> ucast (sr_limit (c3_seg c CS)) then Inr () else Inl (exc_gp 0))"

text \<open>A check of the processor as an action.\<close>

definition checkE :: "(I386Cpu \<Rightarrow> I386Exception + 'a) \<Rightarrow> ('b, 'a) exec" where
  "checkE f = (\<lambda>(c, b). (f c, c, b))"

definition data_wrap :: "I386Cpu \<Rightarrow> u32" where "data_wrap c = (if c3_asize32 c then 0xFFFFFFFF else 0xFFFF)"
definition stack_wrap :: "I386Cpu \<Rightarrow> u32" where
  "stack_wrap c = (if sr_db (c3_seg c SS) then 0xFFFFFFFF else 0xFFFF)"

definition seg_linear :: "u8 \<Rightarrow> u32 \<Rightarrow> I386Cpu \<Rightarrow> u32" where
  "seg_linear sg off c = sr_base (c3_seg c sg) + off"

definition i386_read8 :: "eflag_ops \<Rightarrow> 'b I386Bus \<Rightarrow> u8 \<Rightarrow> u32 \<Rightarrow> ('b, u8) exec" where
  "i386_read8 F B sg off =
     thenE (checkE (\<lambda>c. ea_check c sg off 1 False)) (bindE (getE (seg_linear sg off)) (lin_read8 F B))"

definition read16w :: "eflag_ops \<Rightarrow> 'b I386Bus \<Rightarrow> u8 \<Rightarrow> u32 \<Rightarrow> u32 \<Rightarrow> ('b, u16) exec" where
  "read16w F B sg off wrap =
     thenE (checkE (\<lambda>c. ea_check c sg off 2 False)) (bindE (getE (seg_linear sg off)) (lin_read16 F B))"

definition read32w :: "eflag_ops \<Rightarrow> 'b I386Bus \<Rightarrow> u8 \<Rightarrow> u32 \<Rightarrow> u32 \<Rightarrow> ('b, u32) exec" where
  "read32w F B sg off wrap =
     thenE (checkE (\<lambda>c. ea_check c sg off 4 False)) (bindE (getE (seg_linear sg off)) (lin_read32 F B))"

definition i386_read16 :: "eflag_ops \<Rightarrow> 'b I386Bus \<Rightarrow> u8 \<Rightarrow> u32 \<Rightarrow> ('b, u16) exec" where
  "i386_read16 F B sg off = bindE (getE data_wrap) (read16w F B sg off)"

definition i386_read32 :: "eflag_ops \<Rightarrow> 'b I386Bus \<Rightarrow> u8 \<Rightarrow> u32 \<Rightarrow> ('b, u32) exec" where
  "i386_read32 F B sg off = bindE (getE data_wrap) (read32w F B sg off)"

definition i386_write8 :: "eflag_ops \<Rightarrow> 'b I386Bus \<Rightarrow> u8 \<Rightarrow> u32 \<Rightarrow> u8 \<Rightarrow> ('b, unit) exec" where
  "i386_write8 F B sg off v =
     thenE (checkE (\<lambda>c. ea_check c sg off 1 True)) (bindE (getE (seg_linear sg off)) (\<lambda>lin. lin_write8 F B lin v))"

definition write16w :: "eflag_ops \<Rightarrow> 'b I386Bus \<Rightarrow> u8 \<Rightarrow> u32 \<Rightarrow> u16 \<Rightarrow> u32 \<Rightarrow> ('b, unit) exec" where
  "write16w F B sg off v wrap =
     thenE (checkE (\<lambda>c. ea_check c sg off 2 True)) (bindE (getE (seg_linear sg off)) (\<lambda>lin. lin_write16 F B lin v))"

definition write32w :: "eflag_ops \<Rightarrow> 'b I386Bus \<Rightarrow> u8 \<Rightarrow> u32 \<Rightarrow> u32 \<Rightarrow> u32 \<Rightarrow> ('b, unit) exec" where
  "write32w F B sg off v wrap =
     thenE (checkE (\<lambda>c. ea_check c sg off 4 True)) (bindE (getE (seg_linear sg off)) (\<lambda>lin. lin_write32 F B lin v))"

definition i386_write16 :: "eflag_ops \<Rightarrow> 'b I386Bus \<Rightarrow> u8 \<Rightarrow> u32 \<Rightarrow> u16 \<Rightarrow> ('b, unit) exec" where
  "i386_write16 F B sg off v = bindE (getE data_wrap) (write16w F B sg off v)"

definition i386_write32 :: "eflag_ops \<Rightarrow> 'b I386Bus \<Rightarrow> u8 \<Rightarrow> u32 \<Rightarrow> u32 \<Rightarrow> ('b, unit) exec" where
  "i386_write32 F B sg off v = bindE (getE data_wrap) (write32w F B sg off v)"

definition i386_seg_or :: "I386Cpu \<Rightarrow> u8 \<Rightarrow> u8" where
  "i386_seg_or c dflt = (case c3_seg_override c of Some s \<Rightarrow> s | None \<Rightarrow> dflt)"

subsection \<open>Instruction fetch\<close>

definition fetch8 :: "eflag_ops \<Rightarrow> 'b I386Bus \<Rightarrow> ('b, u8) exec" where
  "fetch8 F B =
     thenE (checkE (\<lambda>c. if c3_ilen c \<ge> 15 then Inl exc_ud else Inr ()))
    (thenE (modE (\<lambda>c. c\<lparr>c3_ilen := c3_ilen c + 1\<rparr>))
    (thenE (checkE (\<lambda>c. fetch_check c (r3_eip (c3_regs c))))
    (bindE (getE (\<lambda>c. sr_base (c3_seg c CS) + r3_eip (c3_regs c))) (\<lambda>lin.
     bindE (lin_read8 F B lin) (\<lambda>v.
     thenE (regE (\<lambda>r. r\<lparr>r3_eip := r3_eip r + 1\<rparr>))
     (okE v))))))"

definition fetch16 :: "eflag_ops \<Rightarrow> 'b I386Bus \<Rightarrow> ('b, u16) exec" where
  "fetch16 F B = bindE (fetch8 F B) (\<lambda>lo. bindE (fetch8 F B) (\<lambda>hi. okE (le16 lo hi)))"

definition fetch32 :: "eflag_ops \<Rightarrow> 'b I386Bus \<Rightarrow> ('b, u32) exec" where
  "fetch32 F B = bindE (fetch16 F B) (\<lambda>lo. bindE (fetch16 F B) (\<lambda>hi. okE (join16 lo hi)))"

definition i386_fetch_imm :: "eflag_ops \<Rightarrow> 'b I386Bus \<Rightarrow> ('b, u32) exec" where
  "i386_fetch_imm F B =
     bindE (getE c3_osize32) (\<lambda>wide.
     if wide then fetch32 F B else bindE (fetch16 F B) (\<lambda>v. okE (ucast v)))"

subsection \<open>The stack\<close>

definition i386_stack_ptr :: "I386Cpu \<Rightarrow> u32" where
  "i386_stack_ptr c =
     (let sp = r3_gpr (c3_regs c) ESP in if sr_db (c3_seg c SS) then sp else sp AND 0xFFFF)"

text \<open>\<open>delta\<close> is the two's complement of the signed argument.\<close>

definition adjust_sp :: "u32 \<Rightarrow> I386Cpu \<Rightarrow> I386Cpu" where
  "adjust_sp delta c =
     c3_reg (\<lambda>r. r\<lparr>r3_gpr := (r3_gpr r)(ESP :=
       (let v = r3_gpr r ESP
        in if sr_db (r3_seg r SS) then v + delta
           else (v AND 0xFFFF0000) OR ucast (ucast v + ucast delta :: u16)))\<rparr>) c"

definition i386_push16 :: "eflag_ops \<Rightarrow> 'b I386Bus \<Rightarrow> u16 \<Rightarrow> ('b, unit) exec" where
  "i386_push16 F B v =
     bindE (getE stack_wrap) (\<lambda>wrap.
     bindE (getE (\<lambda>c. (i386_stack_ptr c - 2) AND wrap)) (\<lambda>sp.
     thenE (write16w F B SS sp v wrap)
     (modE (adjust_sp (- 2)))))"

definition push32 :: "eflag_ops \<Rightarrow> 'b I386Bus \<Rightarrow> u32 \<Rightarrow> ('b, unit) exec" where
  "push32 F B v =
     bindE (getE stack_wrap) (\<lambda>wrap.
     bindE (getE (\<lambda>c. (i386_stack_ptr c - 4) AND wrap)) (\<lambda>sp.
     thenE (write32w F B SS sp v wrap)
     (modE (adjust_sp (- 4)))))"

definition i386_push :: "eflag_ops \<Rightarrow> 'b I386Bus \<Rightarrow> u32 \<Rightarrow> ('b, unit) exec" where
  "i386_push F B v = bindE (getE c3_osize32) (\<lambda>wide. if wide then push32 F B v else i386_push16 F B (ucast v))"

definition i386_pop16 :: "eflag_ops \<Rightarrow> 'b I386Bus \<Rightarrow> ('b, u16) exec" where
  "i386_pop16 F B =
     bindE (getE stack_wrap) (\<lambda>wrap.
     bindE (getE i386_stack_ptr) (\<lambda>sp.
     bindE (read16w F B SS sp wrap) (\<lambda>v.
     thenE (modE (adjust_sp 2)) (okE v))))"

definition pop32 :: "eflag_ops \<Rightarrow> 'b I386Bus \<Rightarrow> ('b, u32) exec" where
  "pop32 F B =
     bindE (getE stack_wrap) (\<lambda>wrap.
     bindE (getE i386_stack_ptr) (\<lambda>sp.
     bindE (read32w F B SS sp wrap) (\<lambda>v.
     thenE (modE (adjust_sp 4)) (okE v))))"

definition i386_pop :: "eflag_ops \<Rightarrow> 'b I386Bus \<Rightarrow> ('b, u32) exec" where
  "i386_pop F B =
     bindE (getE c3_osize32) (\<lambda>wide. if wide then pop32 F B else bindE (i386_pop16 F B) (\<lambda>v. okE (ucast v)))"

definition pop_sreg :: "eflag_ops \<Rightarrow> 'b I386Bus \<Rightarrow> ('b, u16) exec" where
  "pop_sreg F B =
     bindE (getE stack_wrap) (\<lambda>wrap.
     bindE (getE i386_stack_ptr) (\<lambda>sp.
     bindE (read16w F B SS sp wrap) (\<lambda>v.
     thenE (modE (\<lambda>c. adjust_sp (if c3_osize32 c then 4 else 2) c)) (okE v))))"

subsection \<open>Prefixes\<close>

text \<open>
  One round of the \<open>loop\<close> of \<open>scan_prefixes\<close> per unit of fuel. A round consumes a byte of an instruction of
  at most fifteen, so sixteen rounds suffice: \<open>X386_Live\<close> shows that the fuel is never used up.
\<close>

definition prefix_effect :: "bool \<Rightarrow> u8 \<Rightarrow> (I386Cpu \<Rightarrow> I386Cpu) option" where
  "prefix_effect db b =
     (if b = 0x26 then Some (\<lambda>c. c\<lparr>c3_seg_override := Some ES\<rparr>)
      else if b = 0x2E then Some (\<lambda>c. c\<lparr>c3_seg_override := Some CS\<rparr>)
      else if b = 0x36 then Some (\<lambda>c. c\<lparr>c3_seg_override := Some SS\<rparr>)
      else if b = 0x3E then Some (\<lambda>c. c\<lparr>c3_seg_override := Some DS\<rparr>)
      else if b = 0x64 then Some (\<lambda>c. c\<lparr>c3_seg_override := Some FS\<rparr>)
      else if b = 0x65 then Some (\<lambda>c. c\<lparr>c3_seg_override := Some GS\<rparr>)
      else if b = 0x66 then Some (\<lambda>c. c\<lparr>c3_osize32 := (\<not> db)\<rparr>)
      else if b = 0x67 then Some (\<lambda>c. c\<lparr>c3_asize32 := (\<not> db)\<rparr>)
      else if b = 0xF0 then Some (\<lambda>c. c\<lparr>c3_lock := True\<rparr>)
      else if b = 0xF2 then Some (\<lambda>c. c\<lparr>c3_rep := Some False\<rparr>)
      else if b = 0xF3 then Some (\<lambda>c. c\<lparr>c3_rep := Some True\<rparr>)
      else None)"

fun prefix_rounds :: "nat \<Rightarrow> eflag_ops \<Rightarrow> 'b I386Bus \<Rightarrow> bool \<Rightarrow> u32 \<Rightarrow> ('b, (u8 \<times> u32) option) exec" where
  "prefix_rounds 0 F B db npfx = okE None"
| "prefix_rounds (Suc n) F B db npfx =
     bindE (fetch8 F B) (\<lambda>b.
     case prefix_effect db b of
       None \<Rightarrow> okE (Some (b, npfx))
     | Some f \<Rightarrow> thenE (modE f) (prefix_rounds n F B db (npfx + 1)))"

definition scan_prefixes :: "eflag_ops \<Rightarrow> 'b I386Bus \<Rightarrow> ('b, (u8 \<times> u32) option) exec" where
  "scan_prefixes F B =
     bindE (getE (\<lambda>c. sr_db (c3_seg c CS))) (\<lambda>db.
     thenE (modE (\<lambda>c. c\<lparr>c3_osize32 := db, c3_asize32 := db\<rparr>))
     (prefix_rounds 16 F B db 0))"

definition lock_check :: "bool \<Rightarrow> ('b, unit) exec" where
  "lock_check ok =
     bindE (getE c3_lock) (\<lambda>lock.
     if lock then thenE (guardE (\<not> ok) exc_ud) (modE (\<lambda>c. c\<lparr>c3_lock_ok := True\<rparr>)) else okE ())"

subsection \<open>ModRM operands\<close>

type_synonym I386ModRm = u8

definition i386_md :: "I386ModRm \<Rightarrow> u8" where "i386_md m = drop_bit 6 m"
definition i386_mreg :: "I386ModRm \<Rightarrow> u8" where "i386_mreg m = drop_bit 3 m AND 7"
definition i386_rm :: "I386ModRm \<Rightarrow> u8" where "i386_rm m = m AND 7"

datatype I386Operand = Operand_Reg u8 | Operand_Mem u8 u32

fun operand_is_mem :: "I386Operand \<Rightarrow> bool" where
  "operand_is_mem (Operand_Mem sg off) = True"
| "operand_is_mem (Operand_Reg i) = False"

definition ea16_base :: "X386Registers \<Rightarrow> u8 \<Rightarrow> u16 \<times> u8" where
  "ea16_base r i =
     (if i = 0 then (i386_reg16 r EBX + i386_reg16 r ESI, DS)
      else if i = 1 then (i386_reg16 r EBX + i386_reg16 r EDI, DS)
      else if i = 2 then (i386_reg16 r EBP + i386_reg16 r ESI, SS)
      else if i = 3 then (i386_reg16 r EBP + i386_reg16 r EDI, SS)
      else if i = 4 then (i386_reg16 r ESI, DS)
      else if i = 5 then (i386_reg16 r EDI, DS)
      else if i = 6 then (i386_reg16 r EBP, SS)
      else (i386_reg16 r EBX, DS))"

definition ea16 :: "eflag_ops \<Rightarrow> 'b I386Bus \<Rightarrow> I386ModRm \<Rightarrow> ('b, I386Operand) exec" where
  "ea16 F B m =
     (if i386_md m = 0 \<and> i386_rm m = 6 then
        bindE (fetch16 F B) (\<lambda>off.
        bindE (getE (\<lambda>c. i386_seg_or c DS)) (\<lambda>sg.
        okE (Operand_Mem sg (ucast off))))
      else
        bindE (if i386_md m = 0 then okE 0
               else if i386_md m = 1 then bindE (fetch8 F B) (\<lambda>d. okE (scast d))
               else fetch16 F B) (\<lambda>disp.
        bindE (getE (\<lambda>c. ea16_base (c3_regs c) (i386_rm m))) (\<lambda>(base, sg).
        bindE (getE (\<lambda>c. i386_seg_or c sg)) (\<lambda>sg.
        okE (Operand_Mem sg (ucast (base + disp)))))))"

definition sib :: "eflag_ops \<Rightarrow> 'b I386Bus \<Rightarrow> I386ModRm \<Rightarrow> ('b, u32 \<times> u8) exec" where
  "sib F B m =
     bindE (fetch8 F B) (\<lambda>s.
     let scale = unat (drop_bit 6 s); index = drop_bit 3 s AND 7; base_reg = s AND 7 in
     bindE (if base_reg = 5 \<and> i386_md m = 0
            then bindE (fetch32 F B) (\<lambda>d. okE (d, DS, False))
            else getE (\<lambda>c. (reg32 (c3_regs c) base_reg,
                            if base_reg = ESP \<or> base_reg = EBP then SS else DS, True))) (\<lambda>(base, sg, scalable).
     bindE (getE (\<lambda>c. if index \<noteq> 4 then base + push_bit scale (reg32 (c3_regs c) index)
                      else if scalable then push_bit scale base else base)) (\<lambda>base.
     okE (base, sg))))"

definition ea32 :: "eflag_ops \<Rightarrow> 'b I386Bus \<Rightarrow> I386ModRm \<Rightarrow> ('b, I386Operand) exec" where
  "ea32 F B m =
     (if i386_md m = 0 \<and> i386_rm m = 5 then
        bindE (fetch32 F B) (\<lambda>off.
        bindE (getE (\<lambda>c. i386_seg_or c DS)) (\<lambda>sg.
        okE (Operand_Mem sg off)))
      else
        bindE (if i386_rm m = 4 then sib F B m
               else getE (\<lambda>c. (reg32 (c3_regs c) (i386_rm m), if i386_rm m = EBP then SS else DS))) (\<lambda>(base, sg).
        bindE (if i386_md m = 0 then okE 0
               else if i386_md m = 1 then bindE (fetch8 F B) (\<lambda>d. okE (scast d))
               else fetch32 F B) (\<lambda>disp.
        bindE (getE (\<lambda>c. i386_seg_or c sg)) (\<lambda>sg.
        okE (Operand_Mem sg (base + disp))))))"

definition i386_modrm :: "eflag_ops \<Rightarrow> 'b I386Bus \<Rightarrow> ('b, I386ModRm \<times> I386Operand) exec" where
  "i386_modrm F B =
     bindE (fetch8 F B) (\<lambda>m.
     if i386_md m = 3 then okE (m, Operand_Reg (i386_rm m))
     else
       bindE (getE c3_asize32) (\<lambda>wide.
       bindE (if wide then ea32 F B m else ea16 F B m) (\<lambda>op.
       okE (m, op))))"

subsection \<open>Operand access\<close>

fun i386_read_op8 :: "eflag_ops \<Rightarrow> 'b I386Bus \<Rightarrow> I386Operand \<Rightarrow> ('b, u8) exec" where
  "i386_read_op8 F B (Operand_Reg i) = getE (\<lambda>c. i386_reg8 (c3_regs c) i)"
| "i386_read_op8 F B (Operand_Mem sg off) = i386_read8 F B sg off"

fun i386_write_op8 :: "eflag_ops \<Rightarrow> 'b I386Bus \<Rightarrow> I386Operand \<Rightarrow> u8 \<Rightarrow> ('b, unit) exec" where
  "i386_write_op8 F B (Operand_Reg i) v = regE (i386_set_reg8 i v)"
| "i386_write_op8 F B (Operand_Mem sg off) v = i386_write8 F B sg off v"

fun i386_read_op16 :: "eflag_ops \<Rightarrow> 'b I386Bus \<Rightarrow> I386Operand \<Rightarrow> ('b, u16) exec" where
  "i386_read_op16 F B (Operand_Reg i) = getE (\<lambda>c. i386_reg16 (c3_regs c) i)"
| "i386_read_op16 F B (Operand_Mem sg off) = i386_read16 F B sg off"

fun i386_write_op16 :: "eflag_ops \<Rightarrow> 'b I386Bus \<Rightarrow> I386Operand \<Rightarrow> u16 \<Rightarrow> ('b, unit) exec" where
  "i386_write_op16 F B (Operand_Reg i) v = regE (i386_set_reg16 i v)"
| "i386_write_op16 F B (Operand_Mem sg off) v = i386_write16 F B sg off v"

fun read_op32 :: "eflag_ops \<Rightarrow> 'b I386Bus \<Rightarrow> I386Operand \<Rightarrow> ('b, u32) exec" where
  "read_op32 F B (Operand_Reg i) = getE (\<lambda>c. reg32 (c3_regs c) i)"
| "read_op32 F B (Operand_Mem sg off) = i386_read32 F B sg off"

fun write_op32 :: "eflag_ops \<Rightarrow> 'b I386Bus \<Rightarrow> I386Operand \<Rightarrow> u32 \<Rightarrow> ('b, unit) exec" where
  "write_op32 F B (Operand_Reg i) v = regE (set_reg32 i v)"
| "write_op32 F B (Operand_Mem sg off) v = i386_write32 F B sg off v"

definition read_op :: "eflag_ops \<Rightarrow> 'b I386Bus \<Rightarrow> I386Operand \<Rightarrow> ('b, u32) exec" where
  "read_op F B op =
     bindE (getE c3_osize32) (\<lambda>wide. if wide then read_op32 F B op else bindE (i386_read_op16 F B op) (\<lambda>v. okE (ucast v)))"

definition write_op :: "eflag_ops \<Rightarrow> 'b I386Bus \<Rightarrow> I386Operand \<Rightarrow> u32 \<Rightarrow> ('b, unit) exec" where
  "write_op F B op v =
     bindE (getE c3_osize32) (\<lambda>wide. if wide then write_op32 F B op v else i386_write_op16 F B op (ucast v))"

end
