(* ===== verification/X386_Segments.thy ===== *)
theory X386_Segments
  imports X386_Access
begin

text \<open>
  Descriptors, segment-register loads and far transfers of \<open>src/x86_32/protected.rs\<close>.
\<close>

subsection \<open>Descriptors\<close>

record I386Descriptor =
  ds_addr :: u32
  ds_base :: u32
  ds_limit :: u32
  ds_attrs :: u16
  ds_lo :: u32
  ds_hi :: u32

definition sys_type :: "I386Descriptor \<Rightarrow> u8" where "sys_type d = ucast (ds_attrs d AND 0x0F)"
definition is_code_data :: "I386Descriptor \<Rightarrow> bool" where "is_code_data d \<longleftrightarrow> ds_attrs d AND 0x10 \<noteq> 0"
definition is_code :: "I386Descriptor \<Rightarrow> bool" where "is_code d \<longleftrightarrow> ds_attrs d AND 0x18 = 0x18"
definition is_writable_data :: "I386Descriptor \<Rightarrow> bool" where "is_writable_data d \<longleftrightarrow> ds_attrs d AND 0x1A = 0x12"
definition is_readable :: "I386Descriptor \<Rightarrow> bool" where
  "is_readable d \<longleftrightarrow> ds_attrs d AND 0x08 = 0 \<or> ds_attrs d AND 0x02 \<noteq> 0"
definition is_conforming :: "I386Descriptor \<Rightarrow> bool" where "is_conforming d \<longleftrightarrow> ds_attrs d AND 0x1C = 0x1C"
definition ds_present :: "I386Descriptor \<Rightarrow> bool" where "ds_present d \<longleftrightarrow> ds_attrs d AND 0x80 \<noteq> 0"
definition ds_db :: "I386Descriptor \<Rightarrow> bool" where "ds_db d \<longleftrightarrow> ds_attrs d AND 0x0400 \<noteq> 0"
definition ds_dpl :: "I386Descriptor \<Rightarrow> u8" where "ds_dpl d = ucast (drop_bit 5 (ds_attrs d) AND 3)"
definition gate_sel :: "I386Descriptor \<Rightarrow> u16" where "gate_sel d = ucast (drop_bit 16 (ds_lo d))"

definition gate_off :: "I386Descriptor \<Rightarrow> bool \<Rightarrow> u32" where
  "gate_off d wide = (let lo = ds_lo d AND 0xFFFF in if wide then (ds_hi d AND 0xFFFF0000) OR lo else lo)"

definition gate_params :: "I386Descriptor \<Rightarrow> u32" where "gate_params d = ds_hi d AND 0x1F"

definition desc_table :: "I386Cpu \<Rightarrow> u16 \<Rightarrow> u32 \<times> u32" where
  "desc_table c sel =
     (let r = c3_regs c
      in if sel AND 4 \<noteq> 0 then (sr_base (r3_ldtr r), sr_limit (r3_ldtr r))
         else (dt_base (r3_gdtr r), ucast (dt_limit (r3_gdtr r))))"

definition parse_descriptor :: "u32 \<Rightarrow> u32 \<Rightarrow> u32 \<Rightarrow> I386Descriptor" where
  "parse_descriptor addr lo hi =
     (let base = drop_bit 16 lo OR push_bit 16 (hi AND 0xFF) OR (hi AND 0xFF000000);
          limit = (lo AND 0xFFFF) OR (hi AND 0x000F0000);
          limit = (if hi AND 0x00800000 \<noteq> 0 then push_bit 12 limit OR 0xFFF else limit);
          attrs = ucast ((drop_bit 8 hi AND 0x0F00) OR (drop_bit 8 hi AND 0xFF))
      in \<lparr>ds_addr = addr, ds_base = base, ds_limit = limit, ds_attrs = attrs, ds_lo = lo, ds_hi = hi\<rparr>)"

definition read_descriptor_err ::
  "eflag_ops \<Rightarrow> 'b I386Bus \<Rightarrow> u16 \<Rightarrow> (u16 \<Rightarrow> I386Exception) \<Rightarrow> ('b, I386Descriptor) exec" where
  "read_descriptor_err F B sel err =
     bindE (getE (\<lambda>c. desc_table c sel)) (\<lambda>(base, limit).
     let index = ucast (sel AND 0xFFF8) in
     if index + 7 > limit then raiseE (err (sel AND 0xFFFC))
     else
     let addr = base + index in
     bindE (sys_read32 F B addr) (\<lambda>lo.
     bindE (sys_read32 F B (addr + 4)) (\<lambda>hi.
     okE (parse_descriptor addr lo hi))))"

definition read_descriptor :: "eflag_ops \<Rightarrow> 'b I386Bus \<Rightarrow> u16 \<Rightarrow> ('b, I386Descriptor) exec" where
  "read_descriptor F B sel = read_descriptor_err F B sel exc_gp"

definition mark_accessed :: "eflag_ops \<Rightarrow> 'b I386Bus \<Rightarrow> I386Descriptor \<Rightarrow> ('b, unit) exec" where
  "mark_accessed F B d =
     (if is_code_data d \<and> ds_attrs d AND 1 = 0 then
        sys_write8 F B (ds_addr d + 5) (ucast (drop_bit 8 (ds_hi d) AND 0xFF) OR 1)
      else okE ())"

text \<open>\<open>self.regs.seg[idx] = SegReg { \<dots> }\<close>\<close>

definition put_seg :: "u8 \<Rightarrow> SegReg \<Rightarrow> I386Cpu \<Rightarrow> I386Cpu" where
  "put_seg idx s = c3_reg (\<lambda>r. r\<lparr>r3_seg := (r3_seg r)(idx := s)\<rparr>)"

definition commit_seg :: "u8 \<Rightarrow> u16 \<Rightarrow> I386Descriptor \<Rightarrow> I386Cpu \<Rightarrow> I386Cpu" where
  "commit_seg idx sel d c =
     put_seg idx \<lparr>sr_sel = sel, sr_base = ds_base d, sr_limit = ds_limit d, sr_attrs = ds_attrs d OR 0x80\<rparr>
       (prepare_cold_write c)"

definition null_seg :: "u16 \<Rightarrow> SegReg" where
  "null_seg sel = \<lparr>sr_sel = sel, sr_base = 0, sr_limit = 0, sr_attrs = 0\<rparr>"

definition v86_seg :: "u16 \<Rightarrow> SegReg" where
  "v86_seg sel = \<lparr>sr_sel = sel, sr_base = push_bit 4 (ucast sel), sr_limit = 0xFFFF, sr_attrs = 0x00F3\<rparr>"

subsection \<open>Segment register loads\<close>

definition load_ss :: "eflag_ops \<Rightarrow> 'b I386Bus \<Rightarrow> u16 \<Rightarrow> ('b, unit) exec" where
  "load_ss F B sel =
     thenE (guardE (sel AND 0xFFFC = 0) (exc_gp 0))
    (bindE (getE (cpl F)) (\<lambda>cpl'.
     thenE (guardE (ucast (sel AND 3) \<noteq> cpl') (exc_gp (sel AND 0xFFFC)))
    (bindE (read_descriptor F B sel) (\<lambda>d.
     thenE (guardE (\<not> is_writable_data d \<or> ds_dpl d \<noteq> cpl') (exc_gp (sel AND 0xFFFC)))
    (thenE (guardE (\<not> ds_present d) (exc_ss (sel AND 0xFFFC)))
    (thenE (mark_accessed F B d)
     (modE (commit_seg SS sel d))))))))"

definition load_seg_protected :: "eflag_ops \<Rightarrow> 'b I386Bus \<Rightarrow> u8 \<Rightarrow> u16 \<Rightarrow> ('b, unit) exec" where
  "load_seg_protected F B idx sel =
     (if idx = SS then load_ss F B sel
      else if sel AND 0xFFFC = 0 then modE (put_seg idx (null_seg sel))
      else
        bindE (read_descriptor F B sel) (\<lambda>d.
        thenE (guardE (\<not> is_code_data d \<or> (is_code d \<and> \<not> is_readable d)) (exc_gp (sel AND 0xFFFC)))
       (bindE (getE (cpl F)) (\<lambda>cpl'.
        thenE (guardE (\<not> is_conforming d \<and> (ds_dpl d < cpl' \<or> ds_dpl d < ucast (sel AND 3))) (exc_gp (sel AND 0xFFFC)))
       (thenE (guardE (\<not> ds_present d) (exc_np (sel AND 0xFFFC)))
       (thenE (mark_accessed F B d)
        (modE (commit_seg idx sel d))))))))"

definition i386_load_seg :: "eflag_ops \<Rightarrow> 'b I386Bus \<Rightarrow> u8 \<Rightarrow> u16 \<Rightarrow> ('b, unit) exec" where
  "i386_load_seg F B idx sel =
     thenE (modE prepare_cold_write)
    (bindE (getE id) (\<lambda>c.
     if r3_cr0 (c3_regs c) AND cr0_PE = 0 then
       modE (put_seg idx ((c3_seg c idx)\<lparr>sr_sel := sel, sr_base := push_bit 4 (ucast sel)\<rparr>))
     else if fl_contains F (c3_eflags c) EFlags_VM then modE (put_seg idx (v86_seg sel))
     else load_seg_protected F B idx sel))"

definition load_cs :: "eflag_ops \<Rightarrow> 'b I386Bus \<Rightarrow> u16 \<Rightarrow> I386Descriptor \<Rightarrow> u8 \<Rightarrow> ('b, unit) exec" where
  "load_cs F B sel d cpl' =
     thenE (mark_accessed F B d) (modE (commit_seg CS ((sel AND 0xFFFC) OR ucast cpl') d))"

subsection \<open>Gates and far transfers\<close>

definition set_eip :: "u32 \<Rightarrow> ('b, unit) exec" where "set_eip v = regE (\<lambda>r. r\<lparr>r3_eip := v\<rparr>)"

definition far_real :: "u16 \<Rightarrow> u32 \<Rightarrow> ('b, unit) exec" where
  "far_real sel off =
     thenE (modE prepare_cold_write)
    (bindE (getE (\<lambda>c. c3_seg c CS)) (\<lambda>cs.
     thenE (guardE (off > sr_limit cs) (exc_gp 0))
    (thenE (modE (put_seg CS (cs\<lparr>sr_sel := sel, sr_base := push_bit 4 (ucast sel)\<rparr>)))
     (set_eip off))))"

definition check_code_reachable :: "eflag_ops \<Rightarrow> u16 \<Rightarrow> I386Descriptor \<Rightarrow> I386Cpu \<Rightarrow> I386Exception + unit" where
  "check_code_reachable F sel d c =
     (let cpl' = cpl F c; rpl = ucast (sel AND 3)
      in if is_conforming d then
           (if ds_dpl d > cpl' then Inl (exc_gp (sel AND 0xFFFC)) else Inr ())
         else if rpl > cpl' \<or> ds_dpl d \<noteq> cpl' then Inl (exc_gp (sel AND 0xFFFC))
         else Inr ())"

definition check_gate :: "eflag_ops \<Rightarrow> u16 \<Rightarrow> I386Descriptor \<Rightarrow> I386Cpu \<Rightarrow> I386Exception + u16 \<times> u32 \<times> u32 \<times> bool" where
  "check_gate F sel d c =
     (let cpl' = cpl F c; rpl = ucast (sel AND 3)
      in if ds_dpl d < cpl' \<or> ds_dpl d < rpl then Inl (exc_gp (sel AND 0xFFFC))
         else if \<not> ds_present d then Inl (exc_np (sel AND 0xFFFC))
         else let wide = sys_type d = 12 in Inr (gate_sel d, gate_off d wide, gate_params d, wide))"

definition check_gate_target :: "eflag_ops \<Rightarrow> u16 \<Rightarrow> I386Descriptor \<Rightarrow> I386Cpu \<Rightarrow> I386Exception + unit" where
  "check_gate_target F gsel gd c =
     (if gsel AND 0xFFFC = 0 then Inl (exc_gp 0)
      else if \<not> is_code gd then Inl (exc_gp (gsel AND 0xFFFC))
      else if ds_dpl gd > cpl F c then Inl (exc_gp (gsel AND 0xFFFC))
      else if \<not> ds_present gd then Inl (exc_np (gsel AND 0xFFFC))
      else Inr ())"

definition jump_far :: "eflag_ops \<Rightarrow> 'b I386Bus \<Rightarrow> u16 \<Rightarrow> u32 \<Rightarrow> ('b, unit) exec" where
  "jump_far F B sel off =
     bindE (getE (protected_mode F)) (\<lambda>prot.
     if \<not> prot then far_real sel off
     else
     thenE (guardE (sel AND 0xFFFC = 0) (exc_gp 0))
    (bindE (read_descriptor F B sel) (\<lambda>d.
     if is_code_data d then
       thenE (guardE (\<not> is_code d) (exc_gp (sel AND 0xFFFC)))
      (thenE (checkE (check_code_reachable F sel d))
      (thenE (guardE (\<not> ds_present d) (exc_np (sel AND 0xFFFC)))
      (thenE (guardE (off > ds_limit d) (exc_gp 0))
      (bindE (getE (cpl F)) (\<lambda>cpl'.
       thenE (load_cs F B sel d cpl')
       (set_eip off))))))
     else if sys_type d = 4 \<or> sys_type d = 12 then
       bindE (checkE (check_gate F sel d)) (\<lambda>(gsel, goff, _, wide).
       bindE (read_descriptor F B gsel) (\<lambda>gd.
       thenE (checkE (check_gate_target F gsel gd))
      (bindE (getE (cpl F)) (\<lambda>cpl'.
       thenE (guardE (\<not> is_conforming gd \<and> ds_dpl gd \<noteq> cpl') (exc_gp (gsel AND 0xFFFC)))
      (let off = (if wide then goff else goff AND 0xFFFF) in
       thenE (guardE (off > ds_limit gd) (exc_gp 0))
      (thenE (load_cs F B gsel gd cpl')
       (set_eip off)))))))
     else raiseE (exc_gp (sel AND 0xFFFC)))))"

subsection \<open>The inner stack\<close>

definition tss_stack :: "eflag_ops \<Rightarrow> 'b I386Bus \<Rightarrow> u8 \<Rightarrow> ('b, u16 \<times> u32) exec" where
  "tss_stack F B level =
     bindE (getE (\<lambda>c. r3_tr (c3_regs c))) (\<lambda>tr.
     let tss_err = exc_ts (sr_sel tr AND 0xFFFC); wide = sr_attrs tr AND 0x08 \<noteq> 0 in
     if wide then
       let off = 4 + ucast level * 8 in
       thenE (guardE (off + 5 > sr_limit tr) tss_err)
      (bindE (sys_read32 F B (sr_base tr + off)) (\<lambda>sp.
       bindE (sys_read16 F B (sr_base tr + (off + 4))) (\<lambda>ss.
       okE (ss, sp))))
     else
       let off = 2 + ucast level * 4 in
       thenE (guardE (off + 3 > sr_limit tr) tss_err)
      (bindE (sys_read16 F B (sr_base tr + off)) (\<lambda>sp.
       bindE (sys_read16 F B (sr_base tr + (off + 2))) (\<lambda>ss.
       okE (ss, ucast sp)))))"

text \<open>\<open>if d.db() { gpr[ESP] = sp } else { set_reg16(ESP, sp as u16) }\<close>\<close>

definition load_sp :: "I386Descriptor \<Rightarrow> u32 \<Rightarrow> ('b, unit) exec" where
  "load_sp d sp =
     regE (\<lambda>r. if ds_db d then r\<lparr>r3_gpr := (r3_gpr r)(ESP := sp)\<rparr> else i386_set_reg16 ESP (ucast sp) r)"

definition switch_stack :: "eflag_ops \<Rightarrow> 'b I386Bus \<Rightarrow> u16 \<Rightarrow> u32 \<Rightarrow> u8 \<Rightarrow> ('b, unit) exec" where
  "switch_stack F B ss sp new_cpl =
     thenE (guardE (ss AND 0xFFFC = 0) (exc_ts 0))
    (thenE (guardE (ucast (ss AND 3) \<noteq> new_cpl) (exc_ts (ss AND 0xFFFC)))
    (bindE (read_descriptor_err F B ss exc_ts) (\<lambda>d.
     thenE (guardE (\<not> is_writable_data d \<or> ds_dpl d \<noteq> new_cpl) (exc_ts (ss AND 0xFFFC)))
    (thenE (guardE (\<not> ds_present d) (exc_ss (ss AND 0xFFFC)))
    (thenE (mark_accessed F B d)
    (thenE (modE (commit_seg SS ss d))
     (load_sp d sp)))))))"

subsection \<open>Calls\<close>

text \<open>\<open>for i in 0..params\<close>: the parameters on the old stack.\<close>

fun gate_args :: "eflag_ops \<Rightarrow> 'b I386Bus \<Rightarrow> bool \<Rightarrow> u32 \<Rightarrow> nat \<Rightarrow> nat \<Rightarrow> ('b, u32 list) exec" where
  "gate_args F B wide old_sp i 0 = okE []"
| "gate_args F B wide old_sp i (Suc n) =
     (let off = old_sp + of_nat i * (if wide then 4 else 2) in
      bindE (if wide then i386_read32 F B SS off else bindE (i386_read16 F B SS off) (\<lambda>v. okE (ucast v))) (\<lambda>v.
      bindE (gate_args F B wide old_sp (i + 1) n) (\<lambda>vs.
      okE (v # vs))))"

fun push_all :: "('v \<Rightarrow> ('b, unit) exec) \<Rightarrow> 'v list \<Rightarrow> ('b, unit) exec" where
  "push_all push' [] = okE ()"
| "push_all push' (v # vs) = thenE (push' v) (push_all push' vs)"

definition push_gate_frame ::
  "eflag_ops \<Rightarrow> 'b I386Bus \<Rightarrow> bool \<Rightarrow> u16 \<Rightarrow> u32 \<Rightarrow> u32 list \<Rightarrow> ('b, unit) exec" where
  "push_gate_frame F B wide old_ss old_sp args =
     bindE (getE (\<lambda>c. (sr_sel (c3_seg c CS), r3_eip (c3_regs c)))) (\<lambda>(cs, ip).
     if wide then
       thenE (push32 F B (ucast old_ss)) (thenE (push32 F B old_sp)
      (thenE (push_all (push32 F B) (rev args))
      (thenE (push32 F B (ucast cs)) (push32 F B ip))))
     else
       thenE (i386_push16 F B old_ss) (thenE (i386_push16 F B (ucast old_sp))
      (thenE (push_all (\<lambda>v. i386_push16 F B (ucast v)) (rev args))
      (thenE (i386_push16 F B cs) (i386_push16 F B (ucast ip))))))"

definition call_gate :: "eflag_ops \<Rightarrow> 'b I386Bus \<Rightarrow> u16 \<Rightarrow> I386Descriptor \<Rightarrow> ('b, unit) exec" where
  "call_gate F B sel gate =
     bindE (checkE (check_gate F sel gate)) (\<lambda>(gsel, goff, params, wide).
     bindE (read_descriptor F B gsel) (\<lambda>gd.
     thenE (checkE (check_gate_target F gsel gd))
    (bindE (getE (cpl F)) (\<lambda>cpl'.
     if \<not> is_conforming gd \<and> ds_dpl gd < cpl' then
       let new_cpl = ds_dpl gd in
       bindE (tss_stack F B new_cpl) (\<lambda>(new_ss, new_sp).
       bindE (getE (\<lambda>c. (sr_sel (c3_seg c SS), i386_stack_ptr c))) (\<lambda>(old_ss, old_sp).
       bindE (gate_args F B wide old_sp 0 (unat params)) (\<lambda>args.
       thenE (switch_stack F B new_ss new_sp new_cpl)
      (thenE (as_supervisor (push_gate_frame F B wide old_ss old_sp args))
      (thenE (load_cs F B gsel gd new_cpl)
       (set_eip (if wide then goff else goff AND 0xFFFF)))))))
     else
       bindE (getE (\<lambda>c. (sr_sel (c3_seg c CS), r3_eip (c3_regs c)))) (\<lambda>(cs, ip).
       thenE (if wide then thenE (push32 F B (ucast cs)) (push32 F B ip)
              else thenE (i386_push16 F B cs) (i386_push16 F B (ucast ip)))
      (thenE (load_cs F B gsel gd cpl')
       (set_eip (if wide then goff else goff AND 0xFFFF))))))))"

definition call_far :: "eflag_ops \<Rightarrow> 'b I386Bus \<Rightarrow> u16 \<Rightarrow> u32 \<Rightarrow> ('b, unit) exec" where
  "call_far F B sel off =
     bindE (getE (protected_mode F)) (\<lambda>prot.
     bindE (getE (\<lambda>c. (sr_sel (c3_seg c CS), r3_eip (c3_regs c)))) (\<lambda>(cs, ip).
     if \<not> prot then
       thenE (i386_push F B (ucast cs)) (thenE (i386_push F B ip) (far_real sel off))
     else
     thenE (guardE (sel AND 0xFFFC = 0) (exc_gp 0))
    (bindE (read_descriptor F B sel) (\<lambda>d.
     if is_code_data d then
       thenE (guardE (\<not> is_code d) (exc_gp (sel AND 0xFFFC)))
      (thenE (checkE (check_code_reachable F sel d))
      (thenE (guardE (\<not> ds_present d) (exc_np (sel AND 0xFFFC)))
      (thenE (guardE (off > ds_limit d) (exc_gp 0))
      (thenE (i386_push F B (ucast cs))
      (thenE (i386_push F B ip)
      (bindE (getE (cpl F)) (\<lambda>cpl'.
       thenE (load_cs F B sel d cpl')
       (set_eip off))))))))
     else if sys_type d = 4 \<or> sys_type d = 12 then call_gate F B sel d
     else raiseE (exc_gp (sel AND 0xFFFC))))))"

end
