(* ===== verification/X386_Protected.thy ===== *)
theory X386_Protected
  imports X386_Segments
begin

text \<open>
  Returns, interrupt delivery and the I/O permission check: the rest of \<open>src/x86_32/protected.rs\<close> with
  \<open>raise\<close> and \<open>deliver\<close> of \<open>src/x86_32/mod.rs\<close>. Methods that return the cycles consumed are actions with
  a result in \<open>u32\<close>.
\<close>

subsection \<open>Writable flags\<close>

definition popf_mask :: "eflag_ops \<Rightarrow> I386Cpu \<Rightarrow> u32" where
  "popf_mask F c =
     (let mask' = 0x00007FD5;
          mask' = (if c3_osize32 c then mask' OR EFlags_RF else mask');
          cpl' = cpl F c
      in if protected_mode F c then
           (if cpl' > 0 then
              let mask' = mask' AND NOT EFlags_IOPL
              in if ucast cpl' > drop_bit 12 (c3_eflags c) AND 3 then mask' AND NOT EFlags_IF else mask'
            else mask')
         else if fl_contains F (c3_eflags c) EFlags_VM then mask' AND NOT EFlags_IOPL
         else mask')"

definition iret_flag_mask :: "I386Cpu \<Rightarrow> u8 \<Rightarrow> u32" where
  "iret_flag_mask c cpl' =
     (let mask' = 0x00007FD5;
          mask' = (if c3_osize32 c then mask' OR EFlags_RF else mask')
      in if cpl' > 0 then
           let mask' = mask' AND NOT EFlags_IOPL
           in if cpl' > iopl (c3_eflags c) then mask' AND NOT EFlags_IF else mask'
         else mask')"

definition load_flags :: "eflag_ops \<Rightarrow> u32 \<Rightarrow> u32 \<Rightarrow> ('b, unit) exec" where
  "load_flags F value mask' = regE (\<lambda>r. r\<lparr>r3_eflags := eflags_load F (r3_eflags r) value mask'\<rparr>)"

definition remove_flags :: "eflag_ops \<Rightarrow> u32 \<Rightarrow> ('b, unit) exec" where
  "remove_flags F fs = regE (\<lambda>r. r\<lparr>r3_eflags := fl_remove F (r3_eflags r) fs\<rparr>)"

subsection \<open>RETF\<close>

definition load_outer_ss :: "eflag_ops \<Rightarrow> 'b I386Bus \<Rightarrow> u16 \<Rightarrow> u32 \<Rightarrow> u8 \<Rightarrow> ('b, unit) exec" where
  "load_outer_ss F B ss sp rpl =
     thenE (guardE (ss AND 0xFFFC = 0) (exc_gp 0))
    (thenE (guardE (ucast (ss AND 3) \<noteq> rpl) (exc_gp (ss AND 0xFFFC)))
    (bindE (read_descriptor F B ss) (\<lambda>d.
     thenE (guardE (\<not> is_writable_data d \<or> ds_dpl d \<noteq> rpl) (exc_gp (ss AND 0xFFFC)))
    (thenE (guardE (\<not> ds_present d) (exc_ss (ss AND 0xFFFC)))
    (thenE (mark_accessed F B d)
    (thenE (modE (commit_seg SS ss d))
     (load_sp d sp)))))))"

definition validate_seg :: "u8 \<Rightarrow> SegReg \<Rightarrow> SegReg" where
  "validate_seg cpl' s =
     (let present = (sr_attrs s AND 0x80 \<noteq> 0);
          conforming_code = (sr_attrs s AND 0x1C = 0x1C);
          dpl = ucast (drop_bit 5 (sr_attrs s) AND 3)
      in if present \<and> \<not> conforming_code \<and> dpl < cpl' then null_seg 0 else s)"

definition validate_data_segs :: "u8 \<Rightarrow> I386Cpu \<Rightarrow> I386Cpu" where
  "validate_data_segs cpl' c =
     fold (\<lambda>idx c. put_seg idx (validate_seg cpl' (c3_seg c idx)) c) [ES, DS, FS, GS] (prepare_cold_write c)"

text \<open>The checks that \<open>retf\<close> and \<open>iret\<close> make of the code segment they return to.\<close>

definition return_target :: "eflag_ops \<Rightarrow> 'b I386Bus \<Rightarrow> u16 \<Rightarrow> u32 \<Rightarrow> u8 \<Rightarrow> ('b, I386Descriptor) exec" where
  "return_target F B sel ip cpl' =
     (let rpl = ucast (sel AND 3) in
      thenE (guardE (rpl < cpl') (exc_gp (sel AND 0xFFFC)))
     (bindE (read_descriptor F B sel) (\<lambda>d.
      thenE (guardE (\<not> is_code d) (exc_gp (sel AND 0xFFFC)))
     (thenE (if is_conforming d then guardE (ds_dpl d > rpl) (exc_gp (sel AND 0xFFFC))
             else guardE (ds_dpl d \<noteq> rpl) (exc_gp (sel AND 0xFFFC)))
     (thenE (guardE (\<not> ds_present d) (exc_np (sel AND 0xFFFC)))
     (thenE (guardE (ip > ds_limit d) (exc_gp 0))
      (okE d)))))))"

definition i386_retf :: "eflag_ops \<Rightarrow> 'b I386Bus \<Rightarrow> u32 \<Rightarrow> ('b, u32) exec" where
  "i386_retf F B n =
     bindE (getE (protected_mode F)) (\<lambda>prot.
     if \<not> prot then
       bindE (i386_pop F B) (\<lambda>ip.
       bindE (i386_pop F B) (\<lambda>cs.
       thenE (modE (adjust_sp n))
      (bindE (getE c3_osize32) (\<lambda>wide.
       thenE (far_real (ucast cs) (if wide then ip else ip AND 0xFFFF))
       (okE 10)))))
     else
       bindE (i386_pop F B) (\<lambda>ip.
       bindE (i386_pop F B) (\<lambda>v.
       let sel = ucast v; rpl = ucast (sel AND 3) in
       thenE (guardE (sel AND 0xFFFC = 0) (exc_gp 0))
      (bindE (getE (cpl F)) (\<lambda>cpl'.
       bindE (return_target F B sel ip cpl') (\<lambda>d.
       thenE (modE (adjust_sp n))
      (if rpl > cpl' then
         bindE (i386_pop F B) (\<lambda>sp.
         bindE (i386_pop F B) (\<lambda>ss.
         thenE (load_cs F B sel d rpl)
        (thenE (set_eip ip)
        (thenE (load_outer_ss F B (ucast ss) sp rpl)
        (thenE (modE (adjust_sp n))
        (thenE (modE (validate_data_segs rpl))
         (okE 18)))))))
       else
         thenE (load_cs F B sel d rpl) (thenE (set_eip ip) (okE 18)))))))))"

subsection \<open>IRET\<close>

definition iret_to_v86 :: "eflag_ops \<Rightarrow> 'b I386Bus \<Rightarrow> u32 \<Rightarrow> u16 \<Rightarrow> u32 \<Rightarrow> ('b, u32) exec" where
  "iret_to_v86 F B ip cs fl =
     thenE (modE prepare_cold_write)
    (bindE (pop32 F B) (\<lambda>sp.
     bindE (pop32 F B) (\<lambda>ss.
     bindE (pop32 F B) (\<lambda>es.
     bindE (pop32 F B) (\<lambda>ds.
     bindE (pop32 F B) (\<lambda>fs.
     bindE (pop32 F B) (\<lambda>gs.
     thenE (regE (\<lambda>r. r\<lparr>r3_eflags := fl_truncate F fl\<rparr>))
    (thenE (modE (fold (\<lambda>(idx, sel) c. put_seg idx (v86_seg sel) c)
       [(CS, cs), (SS, ucast ss), (ES, ucast es), (DS, ucast ds), (FS, ucast fs), (GS, ucast gs)]))
    (thenE (set_eip (ip AND 0xFFFF))
    (thenE (regE (\<lambda>r. r\<lparr>r3_gpr := (r3_gpr r)(ESP := sp)\<rparr>))
     (okE 60)))))))))))"

text \<open>The real-mode and the V86 return; \<open>keep\<close> is what the V86 branch removes from the mask.\<close>

definition iret_flat :: "eflag_ops \<Rightarrow> 'b I386Bus \<Rightarrow> u32 \<Rightarrow> ('b, u32) exec" where
  "iret_flat F B keep =
     bindE (i386_pop F B) (\<lambda>ip.
     bindE (i386_pop F B) (\<lambda>cs.
     bindE (i386_pop F B) (\<lambda>fl.
     bindE (getE c3_osize32) (\<lambda>wide.
     thenE (far_real (ucast cs) (if wide then ip else ip AND 0xFFFF))
    (bindE (getE (popf_mask F)) (\<lambda>mask'.
     thenE (load_flags F fl (mask' AND NOT keep))
     (okE 22)))))))"

definition i386_iret :: "eflag_ops \<Rightarrow> 'b I386Bus \<Rightarrow> ('b, u32) exec" where
  "i386_iret F B =
     bindE (getE id) (\<lambda>c.
     if r3_cr0 (c3_regs c) AND cr0_PE = 0 then iret_flat F B 0
     else if fl_contains F (c3_eflags c) EFlags_VM then
       thenE (guardE (iopl (c3_eflags c) < 3) (exc_gp 0))
       (iret_flat F B (fl_union F EFlags_IOPL EFlags_VM))
     else
     thenE (guardE (fl_contains F (c3_eflags c) EFlags_NT) (exc_gp 0))
    (bindE (i386_pop F B) (\<lambda>ip.
     bindE (i386_pop F B) (\<lambda>v.
     bindE (i386_pop F B) (\<lambda>fl.
     bindE (getE (\<lambda>c. (c3_osize32 c, cpl F c))) (\<lambda>(wide, cpl').
     let sel = ucast v; rpl = ucast (sel AND 3) in
     if wide \<and> fl AND EFlags_VM \<noteq> 0 \<and> cpl' = 0 then iret_to_v86 F B ip sel fl
     else
     thenE (guardE (sel AND 0xFFFC = 0) (exc_gp 0))
    (bindE (return_target F B sel ip cpl') (\<lambda>d.
     bindE (getE (\<lambda>c. iret_flag_mask c cpl')) (\<lambda>flag_mask.
     if rpl > cpl' then
       bindE (i386_pop F B) (\<lambda>sp.
       bindE (i386_pop F B) (\<lambda>ss.
       thenE (load_cs F B sel d rpl)
      (thenE (load_outer_ss F B (ucast ss) sp rpl)
      (thenE (set_eip ip)
      (thenE (load_flags F fl flag_mask)
      (thenE (modE (validate_data_segs rpl))
       (okE 22)))))))
     else
       thenE (load_cs F B sel d rpl)
      (thenE (set_eip ip)
      (thenE (load_flags F fl flag_mask)
       (okE 22))))))))))))"

subsection \<open>Delivery through the IDT\<close>

definition push_error :: "eflag_ops \<Rightarrow> 'b I386Bus \<Rightarrow> bool \<Rightarrow> u16 option \<Rightarrow> ('b, unit) exec" where
  "push_error F B wide err =
     (case err of None \<Rightarrow> okE ()
      | Some e \<Rightarrow> if wide then push32 F B (ucast e) else i386_push16 F B e)"

definition push_int_frame ::
  "eflag_ops \<Rightarrow> 'b I386Bus \<Rightarrow> bool \<Rightarrow> (u16 \<times> u32) option \<Rightarrow> u16 option \<Rightarrow> ('b, unit) exec" where
  "push_int_frame F B wide outer err =
     bindE (getE (\<lambda>c. (sr_sel (c3_seg c CS), r3_eip (c3_regs c)))) (\<lambda>(cs, ip).
     thenE (case outer of None \<Rightarrow> okE ()
            | Some (ss, sp) \<Rightarrow>
                if wide then thenE (push32 F B (ucast ss)) (push32 F B sp)
                else thenE (i386_push16 F B ss) (i386_push16 F B (ucast sp)))
    (bindE (getE c3_eflags) (\<lambda>f.
     thenE (if wide then
              thenE (push32 F B (f OR 2)) (thenE (push32 F B (ucast cs)) (push32 F B ip))
            else
              thenE (i386_push16 F B (image16 f)) (thenE (i386_push16 F B cs) (i386_push16 F B (ucast ip))))
     (push_error F B wide err))))"

definition push_v86_frame ::
  "eflag_ops \<Rightarrow> 'b I386Bus \<Rightarrow> bool \<Rightarrow> X386Registers \<Rightarrow> u32 \<Rightarrow> u16 option \<Rightarrow> ('b, unit) exec" where
  "push_v86_frame F B wide old osp err =
     (let sels = map (\<lambda>idx. sr_sel (r3_seg old idx)) [GS, FS, DS, ES];
          ss = sr_sel (r3_seg old SS);
          cs = sr_sel (r3_seg old CS)
      in thenE
           (if wide then
              thenE (push_all (\<lambda>s. push32 F B (ucast s)) sels)
                (push_all (push32 F B) [ucast ss, osp, r3_eflags old OR 2, ucast cs, r3_eip old])
            else
              thenE (push_all (i386_push16 F B) sels)
                (push_all (i386_push16 F B) [ss, ucast osp, image16 (r3_eflags old), cs, ucast (r3_eip old)]))
           (push_error F B wide err))"

definition v86_interrupt ::
  "eflag_ops \<Rightarrow> 'b I386Bus \<Rightarrow> I386Exception \<Rightarrow> I386Descriptor \<Rightarrow> u16 \<Rightarrow> u32 \<Rightarrow> bool \<Rightarrow> bool \<Rightarrow> u16 \<Rightarrow> ('b, unit) exec" where
  "v86_interrupt F B e gd gsel goff trap wide ext =
     thenE (guardE (ds_dpl gd \<noteq> 0 \<or> is_conforming gd) (exc_gp ((gsel AND 0xFFFC) OR ext)))
    (thenE (modE prepare_cold_write)
    (bindE (tss_stack F B 0) (\<lambda>(nss, nsp).
     bindE (getE (\<lambda>c. (c3_regs c, i386_stack_ptr c))) (\<lambda>(old, osp).
     thenE (remove_flags F (fl_union F (fl_union F (fl_union F EFlags_VM EFlags_TF) EFlags_RF) EFlags_NT))
    (thenE (if \<not> trap then remove_flags F EFlags_IF else okE ())
    (thenE (switch_stack F B nss nsp 0)
    (thenE (as_supervisor (push_v86_frame F B wide old osp (ex_error e)))
    (thenE (modE (fold (\<lambda>idx. put_seg idx (null_seg 0)) [ES, DS, FS, GS]))
    (thenE (mark_accessed F B gd)
    (thenE (modE (commit_seg CS (gsel AND 0xFFFC) gd))
     (set_eip (if wide then goff else goff AND 0xFFFF))))))))))))"

text \<open>The gate types the code accepts: whether it is a trap gate and whether it is a 32-bit gate.\<close>

definition int_gate :: "u8 \<Rightarrow> (bool \<times> bool) option" where
  "int_gate t =
     (if t = 6 then Some (False, False) else if t = 7 then Some (True, False)
      else if t = 14 then Some (False, True) else if t = 15 then Some (True, True) else None)"

text \<open>From the push of the frame on, outside V86 mode.\<close>

definition enter_handler ::
  "eflag_ops \<Rightarrow> 'b I386Bus \<Rightarrow> I386Exception \<Rightarrow> I386Descriptor \<Rightarrow> u16 \<Rightarrow> u32 \<Rightarrow> bool \<Rightarrow> bool \<Rightarrow> u16 \<Rightarrow> ('b, unit) exec" where
  "enter_handler F B e gd gsel goff trap wide ext =
     bindE (getE (cpl F)) (\<lambda>cpl'.
     thenE
       (if \<not> is_conforming gd \<and> ds_dpl gd < cpl' then
          let new_cpl = ds_dpl gd in
          bindE (tss_stack F B new_cpl) (\<lambda>(nss, nsp).
          bindE (getE (\<lambda>c. (sr_sel (c3_seg c SS), i386_stack_ptr c))) (\<lambda>(oss, osp).
          thenE (switch_stack F B nss nsp new_cpl)
         (thenE (as_supervisor (push_int_frame F B wide (Some (oss, osp)) (ex_error e)))
          (load_cs F B gsel gd new_cpl))))
        else if is_conforming gd \<or> ds_dpl gd = cpl' then
          thenE (push_int_frame F B wide None (ex_error e))
          (load_cs F B gsel gd cpl')
        else raiseE (exc_gp ((gsel AND 0xFFFC) OR ext)))
    (thenE (set_eip (if wide then goff else goff AND 0xFFFF))
    (thenE (remove_flags F (fl_union F (fl_union F EFlags_TF EFlags_NT) EFlags_RF))
     (if \<not> trap then remove_flags F EFlags_IF else okE ()))))"

definition interrupt_protected ::
  "eflag_ops \<Rightarrow> 'b I386Bus \<Rightarrow> I386Exception \<Rightarrow> I386Event \<Rightarrow> ('b, unit) exec" where
  "interrupt_protected F B e class' =
     (let sw = (class' = Ev_SoftInt);
          ext = of_bool (class' = Ev_External) :: u16;
          sel_err = (\<lambda>sel. (sel AND 0xFFFC) OR ext);
          idt_err = ucast (ex_vector e) * 8 + 2 + ext;
          entry = ucast (ex_vector e) * 8 :: u32
      in
      bindE (getE (\<lambda>c. r3_idtr (c3_regs c))) (\<lambda>idtr.
      thenE (guardE (entry + 7 > ucast (dt_limit idtr)) (exc_gp idt_err))
     (let addr = dt_base idtr + entry in
      bindE (sys_read32 F B addr) (\<lambda>lo.
      bindE (sys_read32 F B (addr + 4)) (\<lambda>hi.
      let gate = parse_descriptor addr lo hi in
      case int_gate (sys_type gate) of
        None \<Rightarrow> raiseE (exc_gp idt_err)
      | Some (trap, wide) \<Rightarrow>
          bindE (getE (cpl F)) (\<lambda>cpl'.
          thenE (guardE (sw \<and> ds_dpl gate < cpl') (exc_gp idt_err))
         (thenE (guardE (\<not> ds_present gate) (exc_np idt_err))
         (let gsel = gate_sel gate; goff = gate_off gate wide in
          thenE (guardE (gsel AND 0xFFFC = 0) (exc_gp ext))
         (bindE (read_descriptor F B gsel) (\<lambda>gd.
          thenE (guardE (\<not> is_code gd \<or> ds_dpl gd > cpl') (exc_gp (sel_err gsel)))
         (thenE (guardE (\<not> ds_present gd) (exc_np (sel_err gsel)))
         (thenE (guardE (goff > ds_limit gd) (exc_gp ext))
         (bindE (getE (\<lambda>c. fl_contains F (c3_eflags c) EFlags_VM)) (\<lambda>vm.
          if vm then v86_interrupt F B e gd gsel goff trap wide ext
          else enter_handler F B e gd gsel goff trap wide ext))))))))))))))"

definition interrupt_real :: "eflag_ops \<Rightarrow> 'b I386Bus \<Rightarrow> u8 \<Rightarrow> I386Event \<Rightarrow> ('b, unit) exec" where
  "interrupt_real F B vector class' =
     thenE (modE prepare_cold_write)
    (let entry = ucast vector * 4 :: u32 in
     bindE (getE (\<lambda>c. r3_idtr (c3_regs c))) (\<lambda>idtr.
     thenE (guardE (entry + 3 > ucast (dt_limit idtr))
              (exc_gp (ucast vector * 8 + 2 + of_bool (class' = Ev_External))))
    (bindE (sys_read16 F B (dt_base idtr + entry)) (\<lambda>ip.
     bindE (sys_read16 F B (dt_base idtr + (entry + 2))) (\<lambda>cs.
     bindE (getE (\<lambda>c. image16 (c3_eflags c))) (\<lambda>flags.
     thenE (i386_push16 F B flags)
    (bindE (getE (\<lambda>c. (sr_sel (c3_seg c CS), r3_eip (c3_regs c)))) (\<lambda>(old_cs, old_ip).
     thenE (i386_push16 F B old_cs)
    (thenE (i386_push16 F B (ucast old_ip))
    (thenE (remove_flags F (fl_union F EFlags_IF EFlags_TF))
    (thenE (modE (\<lambda>c. put_seg CS ((c3_seg c CS)\<lparr>sr_sel := cs, sr_base := push_bit 4 (ucast cs)\<rparr>) c))
     (set_eip (ucast ip)))))))))))))"

subsection \<open>Raising and delivering\<close>

definition contributory :: "u8 \<Rightarrow> bool" where
  "contributory vector \<longleftrightarrow> vector = 0 \<or> vector = 10 \<or> vector = 11 \<or> vector = 12 \<or> vector = 13"

definition is_double_fault :: "I386Exception \<Rightarrow> I386Event \<Rightarrow> u8 \<Rightarrow> bool" where
  "is_double_fault fst' class' snd' =
     (if class' \<noteq> Ev_Fault then False
      else
        let first_contributory = contributory (ex_vector fst');
            first_page_fault = (ex_vector fst' = 14)
        in if snd' = 14 then first_page_fault
           else if contributory snd' then first_contributory \<or> first_page_fault
           else False)"

definition i386_raise :: "eflag_ops \<Rightarrow> 'b I386Bus \<Rightarrow> I386Exception \<Rightarrow> I386Event \<Rightarrow> ('b, unit) exec" where
  "i386_raise F B e class' = (\<lambda>(c, b).
     let snapshot = c3_regs c;
         sup = c3_supervisor c;
         (r, c, b) = (if r3_cr0 (c3_regs c) AND cr0_PE \<noteq> 0 then interrupt_protected F B e class'
                      else interrupt_real F B (ex_vector e) class') (c, b);
         c = c\<lparr>c3_supervisor := sup\<rparr>
     in case r of
          Inl err \<Rightarrow> (r, c\<lparr>c3_regs := snapshot\<lparr>r3_cr2 := r3_cr2 (c3_regs c)\<rparr>\<rparr>, b)
        | Inr _ \<Rightarrow> (r, c, b))"

definition shut_down :: "I386Cpu \<Rightarrow> I386Cpu" where
  "shut_down c = c\<lparr>c3_shutdown := True, c3_halted := True\<rparr>"

text \<open>The rounds of \<open>for _ in 0..4\<close>.\<close>

fun deliver_rounds ::
  "nat \<Rightarrow> eflag_ops \<Rightarrow> 'b I386Bus \<Rightarrow> I386Exception \<Rightarrow> I386Event \<Rightarrow> bool \<Rightarrow> I386Cpu \<times> 'b \<Rightarrow> I386Cpu \<times> 'b" where
  "deliver_rounds 0 F B current class' in_double_fault (c, b) = (shut_down c, b)"
| "deliver_rounds (Suc n) F B current class' in_double_fault (c, b) =
     (case i386_raise F B current class' (c, b) of
        (Inr _, c, b) \<Rightarrow> (c, b)
      | (Inl nested, c, b) \<Rightarrow>
          if in_double_fault then (shut_down c, b)
          else if is_double_fault current class' (ex_vector nested) then
            deliver_rounds n F B \<lparr>ex_vector = 8, ex_error = Some 0\<rparr> Ev_Fault True (c, b)
          else deliver_rounds n F B nested Ev_Fault in_double_fault (c, b))"

definition deliver :: "eflag_ops \<Rightarrow> 'b I386Bus \<Rightarrow> I386Exception \<Rightarrow> I386Event \<Rightarrow> I386Cpu \<times> 'b \<Rightarrow> I386Cpu \<times> 'b" where
  "deliver F B e class' s = deliver_rounds 4 F B e class' False s"

definition software_int :: "eflag_ops \<Rightarrow> 'b I386Bus \<Rightarrow> u8 \<Rightarrow> ('b, unit) exec" where
  "software_int F B vector =
     bindE (getE c3_syscall_int) (\<lambda>hook.
     if hook = Some vector then modE (i386_set_host_trap I386_Syscall)
     else i386_raise F B \<lparr>ex_vector = vector, ex_error = None\<rparr> Ev_SoftInt)"

subsection \<open>I/O permission\<close>

text \<open>\<open>for (i, a) in (first..=last).enumerate()\<close>, with the number of bytes left; \<open>size\<close> is 1, 2 or 4, so there are
  at most two.\<close>

fun io_map_bits :: "eflag_ops \<Rightarrow> 'b I386Bus \<Rightarrow> u32 \<Rightarrow> u32 \<Rightarrow> nat \<Rightarrow> nat \<Rightarrow> u32 \<Rightarrow> ('b, u32) exec" where
  "io_map_bits F B base a i 0 bits = okE bits"
| "io_map_bits F B base a i (Suc n) bits =
     bindE (sys_read8 F B (base + a)) (\<lambda>v.
     io_map_bits F B base (a + 1) (i + 1) n (bits OR push_bit (8 * i) (ucast v)))"

definition io_check :: "eflag_ops \<Rightarrow> 'b I386Bus \<Rightarrow> u16 \<Rightarrow> u8 \<Rightarrow> ('b, unit) exec" where
  "io_check F B port size' =
     bindE (getE id) (\<lambda>c.
     if r3_cr0 (c3_regs c) AND cr0_PE = 0 then okE ()
     else if \<not> fl_contains F (c3_eflags c) EFlags_VM \<and> cpl F c \<le> iopl (c3_eflags c) then okE ()
     else
       let tr = r3_tr (c3_regs c) in
       thenE (guardE (sr_attrs tr AND 0x08 = 0) (exc_gp 0))
      (thenE (guardE (0x67 > sr_limit tr) (exc_gp 0))
      (bindE (sys_read16 F B (sr_base tr + 0x66)) (\<lambda>io.
       let fst' = ucast io + drop_bit 3 (ucast port);
           lst = ucast io + drop_bit 3 (ucast port + ucast size' - 1)
       in thenE (guardE (lst > sr_limit tr) (exc_gp 0))
         (bindE (io_map_bits F B (sr_base tr) fst' 0 (unat (lst - fst') + 1) 0) (\<lambda>bits.
          let shift = unat (port AND 7);
              mask' = push_bit shift (push_bit (unat size') 1 - 1)
          in guardE (bits AND mask' \<noteq> 0) (exc_gp 0)))))))"

end
