(* ===== verification/X386_Execute.thy ===== *)
theory X386_Execute
  imports X386_Protected
begin

text \<open>
  The one-byte opcodes of \<open>src/x86_32/execute.rs\<close> but for the string operations and the groups: helpers,
  then one definition per section of the opcode \<open>match\<close>. A section is a partial function from opcodes to
  actions that return the cycles; \<open>X386_Groups\<close> composes them.
\<close>

type_synonym 'b i386_opcodes = "u8 \<Rightarrow> ('b, u32) exec option"

subsection \<open>Actions\<close>

definition getR :: "(X386Registers \<Rightarrow> 'a) \<Rightarrow> ('b, 'a) exec" where "getR f = getE (\<lambda>c. f (c3_regs c))"

text \<open>A function of the arithmetic unit: it reads and writes the flags.\<close>

definition flagsE :: "(EFlags \<Rightarrow> 'a \<times> EFlags) \<Rightarrow> ('b, 'a) exec" where
  "flagsE f = (\<lambda>(c, b). let (v, fl) = f (c3_eflags c) in (Inr v, c3_reg (\<lambda>r. r\<lparr>r3_eflags := fl\<rparr>) c, b))"

definition by_osize :: "('b, 'a) exec \<Rightarrow> ('b, 'a) exec \<Rightarrow> ('b, 'a) exec" where
  "by_osize wide narrow = bindE (getE c3_osize32) (\<lambda>w. if w then wide else narrow)"

definition whenE :: "bool \<Rightarrow> ('b, unit) exec \<Rightarrow> ('b, unit) exec" where
  "whenE p a = (if p then a else okE ())"

definition mem_or :: "I386Operand \<Rightarrow> u32 \<Rightarrow> u32 \<Rightarrow> ('b, u32) exec" where
  "mem_or op n k = okE (if operand_is_mem op then n else k)"

definition inhibit :: "('b, unit) exec" where
  "inhibit = modE (\<lambda>c. c\<lparr>c3_events := c3_events c OR I386_EVT_INHIBIT\<rparr>)"

definition i386_ALU8 :: "eflag_ops \<Rightarrow> (EFlags \<Rightarrow> u8 \<Rightarrow> u8 \<Rightarrow> u8 \<times> EFlags) list" where
  "i386_ALU8 F =
     [i386_add F i386_w8, i386_or F i386_w8, i386_adc F i386_w8, i386_sbb F i386_w8,
      i386_and F i386_w8, i386_sub F i386_w8, i386_xor F i386_w8, i386_sub F i386_w8]"

definition i386_ALU16 :: "eflag_ops \<Rightarrow> (EFlags \<Rightarrow> u16 \<Rightarrow> u16 \<Rightarrow> u16 \<times> EFlags) list" where
  "i386_ALU16 F =
     [i386_add F i386_w16, i386_or F i386_w16, i386_adc F i386_w16, i386_sbb F i386_w16,
      i386_and F i386_w16, i386_sub F i386_w16, i386_xor F i386_w16, i386_sub F i386_w16]"

definition ALU32 :: "eflag_ops \<Rightarrow> (EFlags \<Rightarrow> u32 \<Rightarrow> u32 \<Rightarrow> u32 \<times> EFlags) list" where
  "ALU32 F =
     [i386_add F i386_w32, i386_or F i386_w32, i386_adc F i386_w32, i386_sbb F i386_w32,
      i386_and F i386_w32, i386_sub F i386_w32, i386_xor F i386_w32, i386_sub F i386_w32]"

subsection \<open>Helpers\<close>

definition i386_cond :: "eflag_ops \<Rightarrow> EFlags \<Rightarrow> u8 \<Rightarrow> bool" where
  "i386_cond F f n =
     (let k = drop_bit 1 n;
          r = (if k = 0 then fl_contains F f EFlags_OF
               else if k = 1 then fl_contains F f EFlags_CF
               else if k = 2 then fl_contains F f EFlags_ZF
               else if k = 3 then fl_contains F f EFlags_CF \<or> fl_contains F f EFlags_ZF
               else if k = 4 then fl_contains F f EFlags_SF
               else if k = 5 then fl_contains F f EFlags_PF
               else if k = 6 then fl_contains F f EFlags_SF \<noteq> fl_contains F f EFlags_OF
               else fl_contains F f EFlags_ZF \<or> (fl_contains F f EFlags_SF \<noteq> fl_contains F f EFlags_OF))
      in r \<noteq> (n AND 1 \<noteq> 0))"

definition i386_set_ip :: "u32 \<Rightarrow> ('b, unit) exec" where
  "i386_set_ip ip =
     bindE (getE c3_osize32) (\<lambda>wide.
     let ip = (if wide then ip else ip AND 0xFFFF) in
     bindE (getE (\<lambda>c. sr_limit (c3_seg c CS))) (\<lambda>limit.
     thenE (guardE (ip > limit) (exc_gp 0)) (set_eip ip)))"

definition i386_jump_rel :: "u32 \<Rightarrow> ('b, unit) exec" where
  "i386_jump_rel rel = bindE (getR r3_eip) (\<lambda>eip. i386_set_ip (eip + rel))"

definition fetch_moffs :: "eflag_ops \<Rightarrow> 'b I386Bus \<Rightarrow> ('b, u32) exec" where
  "fetch_moffs F B =
     bindE (getE c3_asize32) (\<lambda>wide. if wide then fetch32 F B else bindE (fetch16 F B) (\<lambda>v. okE (ucast v)))"

definition fetch_s8 :: "eflag_ops \<Rightarrow> 'b I386Bus \<Rightarrow> ('b, u32) exec" where
  "fetch_s8 F B = bindE (fetch8 F B) (\<lambda>v. okE (scast v))"

definition iopl_sensitive_blocked :: "eflag_ops \<Rightarrow> I386Cpu \<Rightarrow> bool" where
  "iopl_sensitive_blocked F c =
     (if r3_cr0 (c3_regs c) AND cr0_PE = 0 then False else cpl F c > iopl (c3_eflags c))"

definition i386_op_rm_r8 ::
  "eflag_ops \<Rightarrow> 'b I386Bus \<Rightarrow> (EFlags \<Rightarrow> u8 \<Rightarrow> u8 \<Rightarrow> u8 \<times> EFlags) \<Rightarrow> bool \<Rightarrow> ('b, u32) exec" where
  "i386_op_rm_r8 F B f wb =
     bindE (i386_modrm F B) (\<lambda>(m, op).
     thenE (lock_check (wb \<and> operand_is_mem op))
    (bindE (i386_read_op8 F B op) (\<lambda>a.
     bindE (getR (\<lambda>r. i386_reg8 r (i386_mreg m))) (\<lambda>b.
     bindE (flagsE (\<lambda>fl. f fl a b)) (\<lambda>r.
     thenE (whenE wb (i386_write_op8 F B op r))
     (mem_or op 7 2))))))"

definition i386_op_rm_r16 ::
  "eflag_ops \<Rightarrow> 'b I386Bus \<Rightarrow> (EFlags \<Rightarrow> u16 \<Rightarrow> u16 \<Rightarrow> u16 \<times> EFlags) \<Rightarrow> bool \<Rightarrow> ('b, u32) exec" where
  "i386_op_rm_r16 F B f wb =
     bindE (i386_modrm F B) (\<lambda>(m, op).
     thenE (lock_check (wb \<and> operand_is_mem op))
    (bindE (i386_read_op16 F B op) (\<lambda>a.
     bindE (getR (\<lambda>r. i386_reg16 r (i386_mreg m))) (\<lambda>b.
     bindE (flagsE (\<lambda>fl. f fl a b)) (\<lambda>r.
     thenE (whenE wb (i386_write_op16 F B op r))
     (mem_or op 7 2))))))"

definition op_rm_r32 ::
  "eflag_ops \<Rightarrow> 'b I386Bus \<Rightarrow> (EFlags \<Rightarrow> u32 \<Rightarrow> u32 \<Rightarrow> u32 \<times> EFlags) \<Rightarrow> bool \<Rightarrow> ('b, u32) exec" where
  "op_rm_r32 F B f wb =
     bindE (i386_modrm F B) (\<lambda>(m, op).
     thenE (lock_check (wb \<and> operand_is_mem op))
    (bindE (read_op32 F B op) (\<lambda>a.
     bindE (getR (\<lambda>r. reg32 r (i386_mreg m))) (\<lambda>b.
     bindE (flagsE (\<lambda>fl. f fl a b)) (\<lambda>r.
     thenE (whenE wb (write_op32 F B op r))
     (mem_or op 7 2))))))"

definition i386_op_r_rm8 ::
  "eflag_ops \<Rightarrow> 'b I386Bus \<Rightarrow> (EFlags \<Rightarrow> u8 \<Rightarrow> u8 \<Rightarrow> u8 \<times> EFlags) \<Rightarrow> bool \<Rightarrow> ('b, u32) exec" where
  "i386_op_r_rm8 F B f wb =
     bindE (i386_modrm F B) (\<lambda>(m, op).
     bindE (getR (\<lambda>r. i386_reg8 r (i386_mreg m))) (\<lambda>a.
     bindE (i386_read_op8 F B op) (\<lambda>b.
     bindE (flagsE (\<lambda>fl. f fl a b)) (\<lambda>r.
     thenE (whenE wb (regE (i386_set_reg8 (i386_mreg m) r)))
     (mem_or op 6 2)))))"

definition i386_op_r_rm16 ::
  "eflag_ops \<Rightarrow> 'b I386Bus \<Rightarrow> (EFlags \<Rightarrow> u16 \<Rightarrow> u16 \<Rightarrow> u16 \<times> EFlags) \<Rightarrow> bool \<Rightarrow> ('b, u32) exec" where
  "i386_op_r_rm16 F B f wb =
     bindE (i386_modrm F B) (\<lambda>(m, op).
     bindE (getR (\<lambda>r. i386_reg16 r (i386_mreg m))) (\<lambda>a.
     bindE (i386_read_op16 F B op) (\<lambda>b.
     bindE (flagsE (\<lambda>fl. f fl a b)) (\<lambda>r.
     thenE (whenE wb (regE (i386_set_reg16 (i386_mreg m) r)))
     (mem_or op 6 2)))))"

definition op_r_rm32 ::
  "eflag_ops \<Rightarrow> 'b I386Bus \<Rightarrow> (EFlags \<Rightarrow> u32 \<Rightarrow> u32 \<Rightarrow> u32 \<times> EFlags) \<Rightarrow> bool \<Rightarrow> ('b, u32) exec" where
  "op_r_rm32 F B f wb =
     bindE (i386_modrm F B) (\<lambda>(m, op).
     bindE (getR (\<lambda>r. reg32 r (i386_mreg m))) (\<lambda>a.
     bindE (read_op32 F B op) (\<lambda>b.
     bindE (flagsE (\<lambda>fl. f fl a b)) (\<lambda>r.
     thenE (whenE wb (regE (set_reg32 (i386_mreg m) r)))
     (mem_or op 6 2)))))"

subsection \<open>Shifts\<close>

definition i386_shift_dispatch8 :: "eflag_ops \<Rightarrow> u8 \<Rightarrow> EFlags \<Rightarrow> u8 \<Rightarrow> u32 \<Rightarrow> u8 \<times> EFlags" where
  "i386_shift_dispatch8 F k =
     (if k = 0 then i386_rol F i386_w8 else if k = 1 then i386_ror F i386_w8
      else if k = 2 then i386_rcl F i386_w8 else if k = 3 then i386_rcr F i386_w8
      else if k = 4 then i386_shl F i386_w8 else if k = 5 then i386_shr F i386_w8
      else if k = 6 then i386_shl F i386_w8 else i386_sar F i386_w8)"

definition i386_shift16 :: "eflag_ops \<Rightarrow> u8 \<Rightarrow> EFlags \<Rightarrow> u16 \<Rightarrow> u32 \<Rightarrow> u16 \<times> EFlags" where
  "i386_shift16 F k =
     (if k = 0 then i386_rol F i386_w16 else if k = 1 then i386_ror F i386_w16
      else if k = 2 then i386_rcl F i386_w16 else if k = 3 then i386_rcr F i386_w16
      else if k = 4 then i386_shl F i386_w16 else if k = 5 then i386_shr F i386_w16
      else if k = 6 then i386_shl F i386_w16 else i386_sar F i386_w16)"

definition i386_shift32 :: "eflag_ops \<Rightarrow> u8 \<Rightarrow> EFlags \<Rightarrow> u32 \<Rightarrow> u32 \<Rightarrow> u32 \<times> EFlags" where
  "i386_shift32 F k =
     (if k = 0 then i386_rol F i386_w32 else if k = 1 then i386_ror F i386_w32
      else if k = 2 then i386_rcl F i386_w32 else if k = 3 then i386_rcr F i386_w32
      else if k = 4 then i386_shl F i386_w32 else if k = 5 then i386_shr F i386_w32
      else if k = 6 then i386_shl F i386_w32 else i386_sar F i386_w32)"

definition i386_shift_dispatch :: "eflag_ops \<Rightarrow> u8 \<Rightarrow> u32 \<Rightarrow> u32 \<Rightarrow> ('b, u32) exec" where
  "i386_shift_dispatch F k v n =
     by_osize (flagsE (\<lambda>fl. i386_shift32 F k fl v n))
       (bindE (flagsE (\<lambda>fl. i386_shift16 F k fl (ucast v) n)) (\<lambda>r. okE (ucast r)))"

definition i386_shift_grp8 :: "eflag_ops \<Rightarrow> 'b I386Bus \<Rightarrow> u32 option \<Rightarrow> ('b, u32) exec" where
  "i386_shift_grp8 F B count =
     bindE (i386_modrm F B) (\<lambda>(m, op).
     bindE (i386_read_op8 F B op) (\<lambda>v.
     bindE (case count of Some n \<Rightarrow> okE n | None \<Rightarrow> bindE (fetch8 F B) (\<lambda>n. okE (ucast n))) (\<lambda>n.
     bindE (flagsE (\<lambda>fl. i386_shift_dispatch8 F (i386_mreg m) fl v n)) (\<lambda>r.
     thenE (i386_write_op8 F B op r)
     (mem_or op 7 3)))))"

definition i386_shift_grp :: "eflag_ops \<Rightarrow> 'b I386Bus \<Rightarrow> u32 option \<Rightarrow> ('b, u32) exec" where
  "i386_shift_grp F B count =
     bindE (i386_modrm F B) (\<lambda>(m, op).
     bindE (read_op F B op) (\<lambda>v.
     bindE (case count of Some n \<Rightarrow> okE n | None \<Rightarrow> bindE (fetch8 F B) (\<lambda>n. okE (ucast n))) (\<lambda>n.
     bindE (i386_shift_dispatch F (i386_mreg m) v n) (\<lambda>r.
     thenE (write_op F B op r)
     (mem_or op 7 3)))))"

definition i386_exec_shift :: "eflag_ops \<Rightarrow> 'b I386Bus \<Rightarrow> 'b i386_opcodes" where
  "i386_exec_shift F B op =
     (if op = 0xC0 then Some (i386_shift_grp8 F B None)
      else if op = 0xC1 then Some (i386_shift_grp F B None)
      else if op = 0xD0 then Some (i386_shift_grp8 F B (Some 1))
      else if op = 0xD1 then Some (i386_shift_grp F B (Some 1))
      else if op = 0xD2 then
        Some (bindE (getR (\<lambda>r. i386_reg8 r 1)) (\<lambda>c. i386_shift_grp8 F B (Some (ucast c))))
      else if op = 0xD3 then
        Some (bindE (getR (\<lambda>r. i386_reg8 r 1)) (\<lambda>c. i386_shift_grp F B (Some (ucast c))))
      else None)"

subsection \<open>Far pointers and stack frames\<close>

definition read_far_pointer :: "eflag_ops \<Rightarrow> 'b I386Bus \<Rightarrow> u8 \<Rightarrow> u32 \<Rightarrow> ('b, u16 \<times> u32) exec" where
  "read_far_pointer F B sg off =
     bindE (getE data_wrap) (\<lambda>wrap.
     by_osize
       (bindE (i386_read32 F B sg off) (\<lambda>dst.
        bindE (i386_read16 F B sg ((off + 4) AND wrap)) (\<lambda>sel.
        okE (sel, dst))))
       (bindE (i386_read16 F B sg off) (\<lambda>dst.
        bindE (i386_read16 F B sg ((off + 2) AND wrap)) (\<lambda>sel.
        okE (sel, ucast dst)))))"

definition load_far_pointer :: "eflag_ops \<Rightarrow> 'b I386Bus \<Rightarrow> u8 \<Rightarrow> u8 \<Rightarrow> u8 \<Rightarrow> u32 \<Rightarrow> ('b, unit) exec" where
  "load_far_pointer F B sreg r sg off =
     bindE (read_far_pointer F B sg off) (\<lambda>(sel, dst).
     thenE (i386_load_seg F B sreg sel)
    (thenE (by_osize (regE (set_reg32 r dst)) (regE (i386_set_reg16 r (ucast dst))))
     (whenE (sreg = SS) inhibit)))"

text \<open>\<open>for _ in 1..level\<close>\<close>

fun enter_levels :: "eflag_ops \<Rightarrow> 'b I386Bus \<Rightarrow> nat \<Rightarrow> ('b, unit) exec" where
  "enter_levels F B 0 = okE ()"
| "enter_levels F B (Suc n) =
     bindE (getE stack_wrap) (\<lambda>wrap.
     thenE
       (by_osize
         (bindE (getR (\<lambda>r. r3_gpr r EBP - 4)) (\<lambda>nbp.
          thenE (regE (\<lambda>r. r\<lparr>r3_gpr := (r3_gpr r)(EBP := nbp)\<rparr>))
         (bindE (read32w F B SS (nbp AND wrap) wrap) (push32 F B))))
         (bindE (getR (\<lambda>r. i386_reg16 r EBP - 2)) (\<lambda>nbp.
          thenE (regE (i386_set_reg16 EBP nbp))
         (bindE (read16w F B SS (ucast nbp) wrap) (i386_push16 F B)))))
       (enter_levels F B n))"

definition i386_enter :: "eflag_ops \<Rightarrow> 'b I386Bus \<Rightarrow> u32 \<Rightarrow> u32 \<Rightarrow> ('b, unit) exec" where
  "i386_enter F B alloc level =
     bindE (getR (\<lambda>r. r3_gpr r EBP)) (\<lambda>bp.
     thenE (i386_push F B bp)
    (bindE (getE i386_stack_ptr) (\<lambda>frame.
     thenE (whenE (level > 0) (thenE (enter_levels F B (unat level - 1)) (i386_push F B frame)))
    (thenE (by_osize (regE (\<lambda>r. r\<lparr>r3_gpr := (r3_gpr r)(EBP := frame)\<rparr>))
              (regE (i386_set_reg16 EBP (ucast frame))))
     (modE (adjust_sp (- alloc)))))))"

subsection \<open>Ports\<close>

definition io_in :: "'b I386Bus \<Rightarrow> u16 \<Rightarrow> ('b, u8) exec" where "io_in B p = inE (\<lambda>b. ib_io_read B b p)"
definition io_out :: "'b I386Bus \<Rightarrow> u16 \<Rightarrow> u8 \<Rightarrow> ('b, unit) exec" where
  "io_out B p v = outE (\<lambda>b. ib_io_write B b p v)"

definition i386_io_read16 :: "'b I386Bus \<Rightarrow> u16 \<Rightarrow> ('b, u16) exec" where
  "i386_io_read16 B port = bindE (io_in B port) (\<lambda>lo. bindE (io_in B (port + 1)) (\<lambda>hi. okE (le16 lo hi)))"

definition i386_io_write16 :: "'b I386Bus \<Rightarrow> u16 \<Rightarrow> u16 \<Rightarrow> ('b, unit) exec" where
  "i386_io_write16 B port v =
     thenE (io_out B port (ucast v)) (io_out B (port + 1) (ucast (drop_bit 8 v)))"

definition io_read32 :: "'b I386Bus \<Rightarrow> u16 \<Rightarrow> ('b, u32) exec" where
  "io_read32 B port =
     bindE (i386_io_read16 B port) (\<lambda>lo. bindE (i386_io_read16 B (port + 2)) (\<lambda>hi. okE (join16 lo hi)))"

definition io_write32 :: "'b I386Bus \<Rightarrow> u16 \<Rightarrow> u32 \<Rightarrow> ('b, unit) exec" where
  "io_write32 B port v =
     thenE (i386_io_write16 B port (ucast v)) (i386_io_write16 B (port + 2) (ucast (drop_bit 16 v)))"

end
