(* ===== verification/X386_Opcodes.thy ===== *)
theory X386_Opcodes
  imports X386_Execute
begin

text \<open>
  The sections of the opcode \<open>match\<close> in \<open>src/x86_32/execute.rs\<close>, but for the string operations, the groups
  \<open>F6\<close> to \<open>FF\<close> and the shifts: arithmetic, stack, moves, control transfers, ports and processor control.
\<close>

subsection \<open>Arithmetic\<close>

definition i386_exec_alu :: "eflag_ops \<Rightarrow> 'b I386Bus \<Rightarrow> 'b i386_opcodes" where
  "i386_exec_alu F B op =
     (let i = unat (drop_bit 3 op) in
      if op AND 0xC7 = 0 then Some (i386_op_rm_r8 F B (i386_ALU8 F ! i) (op \<noteq> 0x38))
      else if op AND 0xC7 = 1 then
        Some (by_osize (op_rm_r32 F B (ALU32 F ! i) (op \<noteq> 0x39))
               (i386_op_rm_r16 F B (i386_ALU16 F ! i) (op \<noteq> 0x39)))
      else if op AND 0xC7 = 2 then Some (i386_op_r_rm8 F B (i386_ALU8 F ! i) (op \<noteq> 0x3A))
      else if op AND 0xC7 = 3 then
        Some (by_osize (op_r_rm32 F B (ALU32 F ! i) (op \<noteq> 0x3B))
               (i386_op_r_rm16 F B (i386_ALU16 F ! i) (op \<noteq> 0x3B)))
      else if op AND 0xC7 = 4 then
        Some (bindE (fetch8 F B) (\<lambda>b.
              bindE (getR (\<lambda>r. i386_reg8 r 0)) (\<lambda>a.
              bindE (flagsE (\<lambda>fl. (i386_ALU8 F ! i) fl a b)) (\<lambda>r.
              thenE (whenE (op \<noteq> 0x3C) (regE (i386_set_reg8 0 r)))
              (okE 2)))))
      else if op AND 0xC7 = 5 then
        Some (thenE
               (by_osize
                 (bindE (fetch32 F B) (\<lambda>b.
                  bindE (getR (\<lambda>r. r3_gpr r 0)) (\<lambda>a.
                  bindE (flagsE (\<lambda>fl. (ALU32 F ! i) fl a b)) (\<lambda>r.
                  whenE (op \<noteq> 0x3D) (regE (\<lambda>g. g\<lparr>r3_gpr := (r3_gpr g)(0 := r)\<rparr>))))))
                 (bindE (fetch16 F B) (\<lambda>b.
                  bindE (getR (\<lambda>r. i386_reg16 r 0)) (\<lambda>a.
                  bindE (flagsE (\<lambda>fl. (i386_ALU16 F ! i) fl a b)) (\<lambda>r.
                  whenE (op \<noteq> 0x3D) (regE (i386_set_reg16 0 r)))))))
               (okE 2))
      else None)"

definition i386_group1_8 :: "eflag_ops \<Rightarrow> 'b I386Bus \<Rightarrow> ('b, u32) exec" where
  "i386_group1_8 F B =
     bindE (i386_modrm F B) (\<lambda>(m, op).
     thenE (lock_check (operand_is_mem op \<and> i386_mreg m \<noteq> 7))
    (bindE (i386_read_op8 F B op) (\<lambda>a.
     bindE (fetch8 F B) (\<lambda>b.
     bindE (flagsE (\<lambda>fl. (i386_ALU8 F ! unat (i386_mreg m)) fl a b)) (\<lambda>r.
     thenE (whenE (i386_mreg m \<noteq> 7) (i386_write_op8 F B op r))
     (mem_or op 7 2))))))"

definition alu_at_osize :: "eflag_ops \<Rightarrow> u8 \<Rightarrow> u32 \<Rightarrow> u32 \<Rightarrow> ('b, u32) exec" where
  "alu_at_osize F i a b =
     by_osize (flagsE (\<lambda>fl. (ALU32 F ! unat i) fl a b))
       (bindE (flagsE (\<lambda>fl. (i386_ALU16 F ! unat i) fl (ucast a) (ucast b))) (\<lambda>r. okE (ucast r)))"

definition i386_group1 :: "eflag_ops \<Rightarrow> 'b I386Bus \<Rightarrow> bool \<Rightarrow> ('b, u32) exec" where
  "i386_group1 F B wide_imm =
     bindE (i386_modrm F B) (\<lambda>(m, op).
     thenE (lock_check (operand_is_mem op \<and> i386_mreg m \<noteq> 7))
    (bindE (read_op F B op) (\<lambda>a.
     bindE (if wide_imm then i386_fetch_imm F B else fetch_s8 F B) (\<lambda>b.
     bindE (alu_at_osize F (i386_mreg m) a b) (\<lambda>r.
     thenE (whenE (i386_mreg m \<noteq> 7) (write_op F B op r))
     (mem_or op 7 2))))))"

definition accumulatorE :: "(X386Registers \<Rightarrow> X386Registers) \<Rightarrow> u32 \<Rightarrow> ('b, u32) exec" where
  "accumulatorE f n = thenE (regE f) (okE n)"

definition i386_exec_group1 :: "eflag_ops \<Rightarrow> 'b I386Bus \<Rightarrow> 'b i386_opcodes" where
  "i386_exec_group1 F B op =
     (if op = 0x80 \<or> op = 0x82 then Some (i386_group1_8 F B)
      else if op = 0x81 \<or> op = 0x83 then Some (i386_group1 F B (op = 0x81))
      else None)"

definition i386_exec_bcd :: "eflag_ops \<Rightarrow> 'b i386_opcodes" where
  "i386_exec_bcd F op =
     (if op = 0x27 then Some (accumulatorE (i386_daa F) 4)
      else if op = 0x2F then Some (accumulatorE (i386_das F) 4)
      else if op = 0x37 then Some (accumulatorE (i386_aaa F) 4)
      else if op = 0x3F then Some (accumulatorE (i386_aas F) 4)
      else None)"

definition inc_dec_reg ::
  "(EFlags \<Rightarrow> u32 \<Rightarrow> u32 \<times> EFlags) \<Rightarrow> (EFlags \<Rightarrow> u16 \<Rightarrow> u16 \<times> EFlags) \<Rightarrow> u8 \<Rightarrow> ('b, u32) exec" where
  "inc_dec_reg f32 f16 i =
     thenE
       (by_osize
         (bindE (getR (\<lambda>r. reg32 r i)) (\<lambda>v. bindE (flagsE (\<lambda>fl. f32 fl v)) (\<lambda>r. regE (set_reg32 i r))))
         (bindE (getR (\<lambda>r. i386_reg16 r i)) (\<lambda>v. bindE (flagsE (\<lambda>fl. f16 fl v)) (\<lambda>r. regE (i386_set_reg16 i r)))))
       (okE 2)"

definition imul_imm :: "eflag_ops \<Rightarrow> 'b I386Bus \<Rightarrow> bool \<Rightarrow> ('b, u32) exec" where
  "imul_imm F B wide_imm =
     bindE (i386_modrm F B) (\<lambda>(m, op).
     bindE (read_op F B op) (\<lambda>a.
     bindE (if wide_imm then i386_fetch_imm F B else fetch_s8 F B) (\<lambda>b.
     thenE
       (by_osize
         (bindE (flagsE (\<lambda>fl. imul_trunc32 F fl a b)) (\<lambda>r. regE (set_reg32 (i386_mreg m) r)))
         (bindE (flagsE (\<lambda>fl. imul_trunc16 F fl (ucast a) (ucast b))) (\<lambda>r. regE (i386_set_reg16 (i386_mreg m) r))))
       (mem_or op 22 20))))"

definition i386_exec_inc_dec :: "eflag_ops \<Rightarrow> 'b i386_opcodes" where
  "i386_exec_inc_dec F op =
     (if 0x40 \<le> op \<and> op \<le> 0x47 then Some (inc_dec_reg (i386_inc F i386_w32) (i386_inc F i386_w16) (op AND 7))
      else if 0x48 \<le> op \<and> op \<le> 0x4F then Some (inc_dec_reg (i386_dec F i386_w32) (i386_dec F i386_w16) (op AND 7))
      else None)"

definition i386_exec_imm :: "eflag_ops \<Rightarrow> 'b I386Bus \<Rightarrow> 'b i386_opcodes" where
  "i386_exec_imm F B op =
     (if op = 0x68 then Some (bindE (i386_fetch_imm F B) (\<lambda>v. thenE (i386_push F B v) (okE 2)))
      else if op = 0x6A then Some (bindE (fetch_s8 F B) (\<lambda>v. thenE (i386_push F B v) (okE 2)))
      else if op = 0x69 \<or> op = 0x6B then Some (imul_imm F B (op = 0x69))
      else None)"

subsection \<open>The stack\<close>

text \<open>\<open>for i in (0..8u8).rev()\<close>\<close>

fun pusha_writes :: "eflag_ops \<Rightarrow> 'b I386Bus \<Rightarrow> u32 \<Rightarrow> u32 \<Rightarrow> u32 \<Rightarrow> u32 \<Rightarrow> u8 list \<Rightarrow> ('b, unit) exec" where
  "pusha_writes F B esp0 wrap width bottom [] = okE ()"
| "pusha_writes F B esp0 wrap width bottom (i # is) =
     bindE (getR (\<lambda>r. if i = ESP then esp0 else reg32 r i)) (\<lambda>v.
     let slot = (bottom + ucast (7 - i) * width) AND wrap in
     thenE (by_osize (write32w F B SS slot v wrap) (write16w F B SS slot (ucast v) wrap))
     (pusha_writes F B esp0 wrap width bottom is))"

text \<open>\<open>if SS.db() { gpr[ESP] = v } else { set_reg16(ESP, v as u16) }\<close>\<close>

definition store_sp :: "u32 \<Rightarrow> ('b, unit) exec" where
  "store_sp v =
     bindE (getE (\<lambda>c. sr_db (c3_seg c SS))) (\<lambda>db.
     if db then regE (\<lambda>r. r\<lparr>r3_gpr := (r3_gpr r)(ESP := v)\<rparr>) else regE (i386_set_reg16 ESP (ucast v)))"

definition commit_progress :: "('b, unit) exec" where
  "commit_progress = modE (\<lambda>c. c\<lparr>c3_commit_on_fault := True\<rparr>)"

definition i386_pusha :: "eflag_ops \<Rightarrow> 'b I386Bus \<Rightarrow> ('b, u32) exec" where
  "i386_pusha F B =
     thenE commit_progress
    (bindE (getR (\<lambda>r. r3_gpr r ESP)) (\<lambda>esp0.
     bindE (getE stack_wrap) (\<lambda>wrap.
     bindE (getE (\<lambda>c. if c3_osize32 c then 4 else 2)) (\<lambda>width.
     bindE (getE (\<lambda>c. (i386_stack_ptr c - 8 * width) AND wrap)) (\<lambda>bottom.
     thenE (pusha_writes F B esp0 wrap width bottom [7, 6, 5, 4, 3, 2, 1, 0])
    (thenE (store_sp bottom) (okE 18)))))))"

fun popa_reads :: "eflag_ops \<Rightarrow> 'b I386Bus \<Rightarrow> u32 \<Rightarrow> u32 \<Rightarrow> u8 list \<Rightarrow> ('b, u32) exec" where
  "popa_reads F B wrap sp [] = okE sp"
| "popa_reads F B wrap sp (i # is) =
     bindE
       (by_osize
         (bindE (read32w F B SS sp wrap) (\<lambda>v. okE (v, (sp + 4) AND wrap)))
         (bindE (read16w F B SS sp wrap) (\<lambda>v. okE (ucast v, (sp + 2) AND wrap)))) (\<lambda>(v, sp).
     thenE (by_osize (regE (set_reg32 i v)) (whenE (i \<noteq> ESP) (regE (i386_set_reg16 i (ucast v)))))
     (popa_reads F B wrap sp is))"

definition i386_popa :: "eflag_ops \<Rightarrow> 'b I386Bus \<Rightarrow> ('b, u32) exec" where
  "i386_popa F B =
     thenE commit_progress
    (bindE (getE stack_wrap) (\<lambda>wrap.
     bindE (getE i386_stack_ptr) (\<lambda>sp.
     bindE (popa_reads F B wrap sp [7, 6, 5, 4, 3, 2, 1, 0]) (\<lambda>sp.
     thenE (store_sp sp) (okE 24)))))"

definition vm_sensitive :: "eflag_ops \<Rightarrow> ('b, unit) exec" where
  "vm_sensitive F =
     checkE (\<lambda>c. if fl_contains F (c3_eflags c) EFlags_VM \<and> iopl (c3_eflags c) < 3
                 then Inl (exc_gp 0) else Inr ())"

definition pop_to_reg :: "eflag_ops \<Rightarrow> 'b I386Bus \<Rightarrow> u8 \<Rightarrow> ('b, unit) exec" where
  "pop_to_reg F B i =
     bindE (i386_pop F B) (\<lambda>v. by_osize (regE (set_reg32 i v)) (regE (i386_set_reg16 i (ucast v))))"

definition i386_leave :: "eflag_ops \<Rightarrow> 'b I386Bus \<Rightarrow> ('b, u32) exec" where
  "i386_leave F B =
     bindE (getE (\<lambda>c. sr_db (c3_seg c SS))) (\<lambda>db.
     thenE (if db then regE (\<lambda>r. r\<lparr>r3_gpr := (r3_gpr r)(ESP := r3_gpr r EBP)\<rparr>)
            else bindE (getR (\<lambda>r. i386_reg16 r EBP)) (\<lambda>bp. regE (i386_set_reg16 ESP bp)))
    (bindE (i386_pop F B) (\<lambda>v.
     thenE (by_osize (regE (\<lambda>r. r\<lparr>r3_gpr := (r3_gpr r)(EBP := v)\<rparr>)) (regE (i386_set_reg16 EBP (ucast v))))
     (okE 4))))"

definition i386_exec_push_seg :: "eflag_ops \<Rightarrow> 'b I386Bus \<Rightarrow> 'b i386_opcodes" where
  "i386_exec_push_seg F B op =
     (if op = 0x06 \<or> op = 0x0E \<or> op = 0x16 \<or> op = 0x1E then
        Some (bindE (getR (\<lambda>r. seg_sel r (drop_bit 3 op))) (\<lambda>v. thenE (i386_push F B (ucast v)) (okE 2)))
      else if op = 0x07 \<or> op = 0x17 \<or> op = 0x1F then
        Some (bindE (pop_sreg F B) (\<lambda>v.
              let idx = drop_bit 3 op in
              thenE (i386_load_seg F B idx v)
             (thenE (whenE (idx = SS) inhibit) (okE 7))))
      else None)"

definition i386_exec_push_pop :: "eflag_ops \<Rightarrow> 'b I386Bus \<Rightarrow> 'b i386_opcodes" where
  "i386_exec_push_pop F B op =
     (if 0x50 \<le> op \<and> op \<le> 0x57 then
        Some (bindE (getR (\<lambda>r. reg32 r (op AND 7))) (\<lambda>v. thenE (i386_push F B v) (okE 2)))
      else if 0x58 \<le> op \<and> op \<le> 0x5F then Some (thenE (pop_to_reg F B (op AND 7)) (okE 4))
      else if op = 0x60 then Some (i386_pusha F B)
      else if op = 0x61 then Some (i386_popa F B)
      else None)"

definition i386_exec_pushf :: "eflag_ops \<Rightarrow> 'b I386Bus \<Rightarrow> 'b i386_opcodes" where
  "i386_exec_pushf F B op =
     (if op = 0x9C then
        Some (thenE (vm_sensitive F)
             (thenE (by_osize (bindE (getE (\<lambda>c. image32 F (c3_eflags c))) (push32 F B))
                              (bindE (getE (\<lambda>c. image16 (c3_eflags c))) (i386_push16 F B)))
              (okE 4)))
      else if op = 0x9D then
        Some (thenE (vm_sensitive F)
             (bindE (i386_pop F B) (\<lambda>v.
              bindE (getE (popf_mask F)) (\<lambda>mask'.
              thenE (load_flags F v mask') (okE 5)))))
      else None)"

definition i386_exec_frame :: "eflag_ops \<Rightarrow> 'b I386Bus \<Rightarrow> 'b i386_opcodes" where
  "i386_exec_frame F B op =
     (if op = 0xC8 then
        Some (bindE (fetch16 F B) (\<lambda>alloc.
              bindE (fetch8 F B) (\<lambda>level.
              let level = ucast (level AND 0x1F) in
              thenE (i386_enter F B (ucast alloc) level)
              (okE (10 + 4 * level)))))
      else if op = 0xC9 then Some (i386_leave F B)
      else None)"

subsection \<open>BOUND and ARPL\<close>

definition i386_bound :: "eflag_ops \<Rightarrow> 'b I386Bus \<Rightarrow> ('b, u32) exec" where
  "i386_bound F B =
     bindE (i386_modrm F B) (\<lambda>(m, op).
     case op of
       Operand_Reg _ \<Rightarrow> raiseE exc_ud
     | Operand_Mem sg off \<Rightarrow>
         thenE
           (by_osize
             (bindE (getR (\<lambda>r. reg32 r (i386_mreg m))) (\<lambda>idx.
              bindE (i386_read32 F B sg off) (\<lambda>lo.
              bindE (getE data_wrap) (\<lambda>wrap.
              bindE (i386_read32 F B sg ((off + 4) AND wrap)) (\<lambda>hi.
              guardE (sint idx < sint lo \<or> sint idx > sint hi) exc_br)))))
             (bindE (getR (\<lambda>r. i386_reg16 r (i386_mreg m))) (\<lambda>idx.
              bindE (i386_read16 F B sg off) (\<lambda>lo.
              bindE (getE data_wrap) (\<lambda>wrap.
              bindE (i386_read16 F B sg ((off + 2) AND wrap)) (\<lambda>hi.
              guardE (sint idx < sint lo \<or> sint idx > sint hi) exc_br))))))
           (okE 10))"

definition i386_arpl :: "eflag_ops \<Rightarrow> 'b I386Bus \<Rightarrow> ('b, u32) exec" where
  "i386_arpl F B =
     bindE (getE (protected_mode F)) (\<lambda>prot.
     thenE (guardE (\<not> prot) exc_ud)
    (bindE (i386_modrm F B) (\<lambda>(m, op).
     bindE (i386_read_op16 F B op) (\<lambda>dst.
     bindE (getR (\<lambda>r. i386_reg16 r (i386_mreg m))) (\<lambda>src.
     thenE
       (if dst AND 3 < src AND 3 then
          thenE (regE (\<lambda>r. r\<lparr>r3_eflags := fl_insert F (r3_eflags r) EFlags_ZF\<rparr>))
          (i386_write_op16 F B op ((dst AND NOT 3) OR (src AND 3)))
        else remove_flags F EFlags_ZF)
       (okE 20))))))"

definition i386_exec_bound_arpl :: "eflag_ops \<Rightarrow> 'b I386Bus \<Rightarrow> 'b i386_opcodes" where
  "i386_exec_bound_arpl F B op =
     (if op = 0x62 then Some (i386_bound F B)
      else if op = 0x63 then Some (i386_arpl F B)
      else None)"

end
