(* ===== verification/X386_Transfers.thy ===== *)
theory X386_Transfers
  imports X386_Opcodes
begin

text \<open>
  The sections of the opcode \<open>match\<close> in \<open>src/x86_32/execute.rs\<close> for moves and exchanges, conversions, flag
  transfers, ports, near and far control transfers and processor control.
\<close>

subsection \<open>Moves\<close>

definition set_eax :: "u32 \<Rightarrow> ('b, unit) exec" where
  "set_eax v = regE (\<lambda>r. r\<lparr>r3_gpr := (r3_gpr r)(0 := v)\<rparr>)"

definition test_acc :: "eflag_ops \<Rightarrow> 'b I386Bus \<Rightarrow> ('b, u32) exec" where
  "test_acc F B =
     thenE
       (by_osize
         (bindE (fetch32 F B) (\<lambda>b. bindE (getR (\<lambda>r. r3_gpr r 0)) (\<lambda>a.
          bindE (flagsE (\<lambda>fl. i386_and F i386_w32 fl a b)) (\<lambda>_. okE ()))))
         (bindE (fetch16 F B) (\<lambda>b. bindE (getR (\<lambda>r. i386_reg16 r 0)) (\<lambda>a.
          bindE (flagsE (\<lambda>fl. i386_and F i386_w16 fl a b)) (\<lambda>_. okE ())))))
       (okE 2)"

definition xchg_rm :: "eflag_ops \<Rightarrow> 'b I386Bus \<Rightarrow> ('b, u32) exec" where
  "xchg_rm F B =
     bindE (i386_modrm F B) (\<lambda>(m, op).
     thenE (lock_check (operand_is_mem op))
    (bindE (read_op F B op) (\<lambda>a.
     bindE (getR (\<lambda>r. reg32 r (i386_mreg m))) (\<lambda>b.
     thenE
       (by_osize
         (thenE (write_op32 F B op b) (regE (set_reg32 (i386_mreg m) a)))
         (thenE (i386_write_op16 F B op (ucast b)) (regE (i386_set_reg16 (i386_mreg m) (ucast a)))))
       (mem_or op 5 3)))))"

definition xchg_acc :: "u8 \<Rightarrow> ('b, u32) exec" where
  "xchg_acc i =
     thenE
       (by_osize
         (bindE (getR (\<lambda>r. r3_gpr r 0)) (\<lambda>t.
          thenE (regE (\<lambda>r. r\<lparr>r3_gpr := (r3_gpr r)(0 := reg32 r i)\<rparr>)) (regE (set_reg32 i t))))
         (bindE (getR (\<lambda>r. i386_reg16 r 0)) (\<lambda>t.
          thenE (regE (\<lambda>r. i386_set_reg16 0 (i386_reg16 r i) r)) (regE (i386_set_reg16 i t)))))
       (okE 3)"

definition i386_exec_test_xchg :: "eflag_ops \<Rightarrow> 'b I386Bus \<Rightarrow> 'b i386_opcodes" where
  "i386_exec_test_xchg F B op =
     (if op = 0x84 then Some (i386_op_rm_r8 F B (i386_and F i386_w8) False)
      else if op = 0x85 then
        Some (by_osize (op_rm_r32 F B (i386_and F i386_w32) False) (i386_op_rm_r16 F B (i386_and F i386_w16) False))
      else if op = 0x86 then
        Some (bindE (i386_modrm F B) (\<lambda>(m, opd).
              thenE (lock_check (operand_is_mem opd))
             (bindE (i386_read_op8 F B opd) (\<lambda>a.
              bindE (getR (\<lambda>r. i386_reg8 r (i386_mreg m))) (\<lambda>b.
              thenE (i386_write_op8 F B opd b)
             (thenE (regE (i386_set_reg8 (i386_mreg m) a))
              (mem_or opd 5 3)))))))
      else if op = 0x87 then Some (xchg_rm F B)
      else if 0x90 \<le> op \<and> op \<le> 0x97 then Some (xchg_acc (op AND 7))
      else if op = 0xA8 then
        Some (bindE (fetch8 F B) (\<lambda>b. bindE (getR (\<lambda>r. i386_reg8 r 0)) (\<lambda>a.
              bindE (flagsE (\<lambda>fl. i386_and F i386_w8 fl a b)) (\<lambda>_. okE 2))))
      else if op = 0xA9 then Some (test_acc F B)
      else None)"

definition mov_from_seg :: "eflag_ops \<Rightarrow> 'b I386Bus \<Rightarrow> ('b, u32) exec" where
  "mov_from_seg F B =
     bindE (i386_modrm F B) (\<lambda>(m, op).
     thenE (guardE (i386_mreg m > 5) exc_ud)
    (bindE (getR (\<lambda>r. seg_sel r (i386_mreg m))) (\<lambda>v.
     thenE
       (case op of
          Operand_Reg i \<Rightarrow> by_osize (regE (set_reg32 i (ucast v))) (regE (i386_set_reg16 i v))
        | Operand_Mem sg off \<Rightarrow> i386_write16 F B sg off v)
       (okE 2))))"

definition mov_to_seg :: "eflag_ops \<Rightarrow> 'b I386Bus \<Rightarrow> ('b, u32) exec" where
  "mov_to_seg F B =
     bindE (i386_modrm F B) (\<lambda>(m, op).
     thenE (guardE (i386_mreg m = CS \<or> i386_mreg m > 5) exc_ud)
    (bindE (i386_read_op16 F B op) (\<lambda>v.
     thenE (i386_load_seg F B (i386_mreg m) v)
    (thenE (whenE (i386_mreg m = SS) inhibit)
     (mem_or op 5 2)))))"

definition i386_lea :: "eflag_ops \<Rightarrow> 'b I386Bus \<Rightarrow> ('b, u32) exec" where
  "i386_lea F B =
     bindE (i386_modrm F B) (\<lambda>(m, op).
     case op of
       Operand_Reg _ \<Rightarrow> raiseE exc_ud
     | Operand_Mem _ off \<Rightarrow>
         thenE (by_osize (regE (set_reg32 (i386_mreg m) off)) (regE (i386_set_reg16 (i386_mreg m) (ucast off))))
         (okE 2))"

definition i386_pop_rm :: "eflag_ops \<Rightarrow> 'b I386Bus \<Rightarrow> ('b, u32) exec" where
  "i386_pop_rm F B =
     bindE (i386_pop F B) (\<lambda>v.
     bindE (i386_modrm F B) (\<lambda>(m, op).
     thenE (guardE (i386_mreg m \<noteq> 0) exc_ud)
    (thenE (write_op F B op v)
     (mem_or op 5 4))))"

definition i386_exec_mov :: "eflag_ops \<Rightarrow> 'b I386Bus \<Rightarrow> 'b i386_opcodes" where
  "i386_exec_mov F B op =
     (if op = 0x88 then
        Some (bindE (i386_modrm F B) (\<lambda>(m, opd).
              bindE (getR (\<lambda>r. i386_reg8 r (i386_mreg m))) (\<lambda>v.
              thenE (i386_write_op8 F B opd v) (okE 2))))
      else if op = 0x89 then
        Some (bindE (i386_modrm F B) (\<lambda>(m, opd).
              thenE
                (by_osize (bindE (getR (\<lambda>r. reg32 r (i386_mreg m))) (write_op32 F B opd))
                   (bindE (getR (\<lambda>r. i386_reg16 r (i386_mreg m))) (i386_write_op16 F B opd)))
                (okE 2)))
      else if op = 0x8A then
        Some (bindE (i386_modrm F B) (\<lambda>(m, opd).
              bindE (i386_read_op8 F B opd) (\<lambda>v.
              thenE (regE (i386_set_reg8 (i386_mreg m) v)) (mem_or opd 4 2))))
      else if op = 0x8B then
        Some (bindE (i386_modrm F B) (\<lambda>(m, opd).
              thenE
                (by_osize (bindE (read_op32 F B opd) (\<lambda>v. regE (set_reg32 (i386_mreg m) v)))
                   (bindE (i386_read_op16 F B opd) (\<lambda>v. regE (i386_set_reg16 (i386_mreg m) v))))
                (mem_or opd 4 2)))
      else if op = 0x8C then Some (mov_from_seg F B)
      else if op = 0x8D then Some (i386_lea F B)
      else if op = 0x8E then Some (mov_to_seg F B)
      else if op = 0x8F then Some (i386_pop_rm F B)
      else None)"

text \<open>\<open>let off = self.fetch_moffs(bus)?; let seg = self.seg_or(reg::DS);\<close>\<close>

definition moffs :: "eflag_ops \<Rightarrow> 'b I386Bus \<Rightarrow> ('b, u8 \<times> u32) exec" where
  "moffs F B = bindE (fetch_moffs F B) (\<lambda>off. bindE (getE (\<lambda>c. i386_seg_or c DS)) (\<lambda>sg. okE (sg, off)))"

definition i386_exec_mov_direct :: "eflag_ops \<Rightarrow> 'b I386Bus \<Rightarrow> 'b i386_opcodes" where
  "i386_exec_mov_direct F B op =
     (if op = 0xA0 then
        Some (bindE (moffs F B) (\<lambda>(sg, off).
              bindE (i386_read8 F B sg off) (\<lambda>v. thenE (regE (i386_set_reg8 0 v)) (okE 4))))
      else if op = 0xA1 then
        Some (bindE (moffs F B) (\<lambda>(sg, off).
              thenE
                (by_osize (bindE (i386_read32 F B sg off) set_eax)
                   (bindE (i386_read16 F B sg off) (\<lambda>v. regE (i386_set_reg16 0 v))))
                (okE 4)))
      else if op = 0xA2 then
        Some (bindE (moffs F B) (\<lambda>(sg, off).
              bindE (getR (\<lambda>r. i386_reg8 r 0)) (\<lambda>v. thenE (i386_write8 F B sg off v) (okE 2))))
      else if op = 0xA3 then
        Some (bindE (moffs F B) (\<lambda>(sg, off).
              thenE
                (by_osize (bindE (getR (\<lambda>r. r3_gpr r 0)) (i386_write32 F B sg off))
                   (bindE (getR (\<lambda>r. i386_reg16 r 0)) (i386_write16 F B sg off)))
                (okE 2)))
      else None)"

definition les_lds :: "eflag_ops \<Rightarrow> 'b I386Bus \<Rightarrow> u8 \<Rightarrow> ('b, u32) exec" where
  "les_lds F B sreg =
     bindE (i386_modrm F B) (\<lambda>(m, op).
     case op of
       Operand_Reg _ \<Rightarrow> raiseE exc_ud
     | Operand_Mem sg off \<Rightarrow> thenE (load_far_pointer F B sreg (i386_mreg m) sg off) (okE 7))"

definition i386_exec_mov_imm :: "eflag_ops \<Rightarrow> 'b I386Bus \<Rightarrow> 'b i386_opcodes" where
  "i386_exec_mov_imm F B op =
     (if 0xB0 \<le> op \<and> op \<le> 0xB7 then
        Some (bindE (fetch8 F B) (\<lambda>v. thenE (regE (i386_set_reg8 (op AND 7) v)) (okE 2)))
      else if 0xB8 \<le> op \<and> op \<le> 0xBF then
        Some (thenE
               (by_osize (bindE (fetch32 F B) (\<lambda>v. regE (set_reg32 (op AND 7) v)))
                  (bindE (fetch16 F B) (\<lambda>v. regE (i386_set_reg16 (op AND 7) v))))
               (okE 2))
      else if op = 0xC6 then
        Some (bindE (i386_modrm F B) (\<lambda>(m, opd).
              thenE (guardE (i386_mreg m \<noteq> 0) exc_ud)
             (bindE (fetch8 F B) (\<lambda>v. thenE (i386_write_op8 F B opd v) (okE 2)))))
      else if op = 0xC7 then
        Some (bindE (i386_modrm F B) (\<lambda>(m, opd).
              thenE (guardE (i386_mreg m \<noteq> 0) exc_ud)
             (bindE (i386_fetch_imm F B) (\<lambda>v. thenE (write_op F B opd v) (okE 2)))))
      else if op = 0xC4 then Some (les_lds F B ES)
      else if op = 0xC5 then Some (les_lds F B DS)
      else None)"

subsection \<open>Conversions and flags\<close>

definition i386_exec_convert :: "eflag_ops \<Rightarrow> 'b i386_opcodes" where
  "i386_exec_convert F op =
     (if op = 0x98 then
        Some (thenE
               (by_osize (regE (\<lambda>r. r\<lparr>r3_gpr := (r3_gpr r)(0 := scast (i386_reg16 r 0))\<rparr>))
                  (regE (\<lambda>r. i386_set_reg16 0 (scast (i386_reg8 r 0)) r)))
               (okE 3))
      else if op = 0x99 then
        Some (thenE
               (by_osize
                  (regE (\<lambda>r. r\<lparr>r3_gpr := (r3_gpr r)(2 := (if r3_gpr r 0 AND 0x80000000 \<noteq> 0 then - 1 else 0))\<rparr>))
                  (regE (\<lambda>r. i386_set_reg16 2 (if i386_reg16 r 0 AND 0x8000 \<noteq> 0 then 0xFFFF else 0) r)))
               (okE 2))
      else if op = 0x9E then
        Some (accumulatorE (\<lambda>r.
               let ah = ucast (i386_reg8 r 4) AND EFlags_STATUS AND 0xFF;
                   keep = r3_eflags r AND NOT (EFlags_STATUS AND 0xFF)
               in r\<lparr>r3_eflags := fl_truncate F (keep OR ah)\<rparr>) 3)
      else if op = 0x9F then
        Some (accumulatorE (\<lambda>r. i386_set_reg8 4 ((ucast (r3_eflags r) AND 0xD5) OR 0x02) r) 2)
      else None)"

definition i386_xlat :: "eflag_ops \<Rightarrow> 'b I386Bus \<Rightarrow> ('b, u32) exec" where
  "i386_xlat F B =
     bindE (getE (\<lambda>c. i386_seg_or c DS)) (\<lambda>sg.
     bindE (getE (\<lambda>c.
       let bx = (if c3_asize32 c then r3_gpr (c3_regs c) 3 else ucast (i386_reg16 (c3_regs c) 3));
           off = bx + ucast (i386_reg8 (c3_regs c) 0)
       in if c3_asize32 c then off else off AND 0xFFFF)) (\<lambda>off.
     bindE (i386_read8 F B sg off) (\<lambda>v.
     thenE (regE (i386_set_reg8 0 v)) (okE 5))))"

definition i386_exec_ascii :: "eflag_ops \<Rightarrow> 'b I386Bus \<Rightarrow> 'b i386_opcodes" where
  "i386_exec_ascii F B op =
     (if op = 0xD4 then
        Some (bindE (fetch8 F B) (\<lambda>base.
              bindE (getR (i386_aam F base)) (\<lambda>(ok, g).
              thenE (regE (\<lambda>_. g))
             (thenE (guardE (\<not> ok) exc_de) (okE 17)))))
      else if op = 0xD5 then Some (bindE (fetch8 F B) (\<lambda>base. accumulatorE (i386_aad F base) 19))
      else if op = 0xD6 then
        Some (accumulatorE (\<lambda>r. i386_set_reg8 0 (if fl_contains F (r3_eflags r) EFlags_CF then 0xFF else 0) r) 3)
      else if op = 0xD7 then Some (i386_xlat F B)
      else None)"

definition i386_exec_esc :: "eflag_ops \<Rightarrow> 'b I386Bus \<Rightarrow> 'b i386_opcodes" where
  "i386_exec_esc F B op =
     (if 0xD8 \<le> op \<and> op \<le> 0xDF then
        Some (bindE (getR r3_cr0) (\<lambda>cr0.
              thenE (guardE (cr0 AND (cr0_EM OR cr0_TS) \<noteq> 0) exc_nm)
             (bindE (i386_modrm F B) (\<lambda>_. okE 2))))
      else None)"

subsection \<open>Ports\<close>

text \<open>\<open>IN\<close> and \<open>OUT\<close> of the accumulator at the operand size, on port \<open>p\<close>.\<close>

definition port_in8 :: "eflag_ops \<Rightarrow> 'b I386Bus \<Rightarrow> u16 \<Rightarrow> u32 \<Rightarrow> ('b, u32) exec" where
  "port_in8 F B p n =
     thenE (io_check F B p 1) (bindE (io_in B p) (\<lambda>v. thenE (regE (i386_set_reg8 0 v)) (okE n)))"

definition port_in :: "eflag_ops \<Rightarrow> 'b I386Bus \<Rightarrow> u16 \<Rightarrow> u32 \<Rightarrow> ('b, u32) exec" where
  "port_in F B p n =
     thenE
       (by_osize (thenE (io_check F B p 4) (bindE (io_read32 B p) set_eax))
          (thenE (io_check F B p 2) (bindE (i386_io_read16 B p) (\<lambda>v. regE (i386_set_reg16 0 v)))))
       (okE n)"

definition port_out8 :: "eflag_ops \<Rightarrow> 'b I386Bus \<Rightarrow> u16 \<Rightarrow> u32 \<Rightarrow> ('b, u32) exec" where
  "port_out8 F B p n =
     thenE (io_check F B p 1) (bindE (getR (\<lambda>r. i386_reg8 r 0)) (\<lambda>v. thenE (io_out B p v) (okE n)))"

definition port_out :: "eflag_ops \<Rightarrow> 'b I386Bus \<Rightarrow> u16 \<Rightarrow> u32 \<Rightarrow> ('b, u32) exec" where
  "port_out F B p n =
     thenE
       (by_osize (thenE (io_check F B p 4) (bindE (getR (\<lambda>r. r3_gpr r 0)) (io_write32 B p)))
          (thenE (io_check F B p 2) (bindE (getR (\<lambda>r. i386_reg16 r 0)) (i386_io_write16 B p))))
       (okE n)"

definition port_imm :: "eflag_ops \<Rightarrow> 'b I386Bus \<Rightarrow> (u16 \<Rightarrow> ('b, u32) exec) \<Rightarrow> ('b, u32) exec" where
  "port_imm F B f = bindE (fetch8 F B) (\<lambda>p. f (ucast p))"

definition port_dx :: "(u16 \<Rightarrow> ('b, u32) exec) \<Rightarrow> ('b, u32) exec" where
  "port_dx f = bindE (getR (\<lambda>r. i386_reg16 r 2)) f"

definition i386_exec_io :: "eflag_ops \<Rightarrow> 'b I386Bus \<Rightarrow> 'b i386_opcodes" where
  "i386_exec_io F B op =
     (if op = 0xE4 then Some (port_imm F B (\<lambda>p. port_in8 F B p 12))
      else if op = 0xE5 then Some (port_imm F B (\<lambda>p. port_in F B p 12))
      else if op = 0xE6 then Some (port_imm F B (\<lambda>p. port_out8 F B p 10))
      else if op = 0xE7 then Some (port_imm F B (\<lambda>p. port_out F B p 10))
      else if op = 0xEC then Some (port_dx (\<lambda>p. port_in8 F B p 13))
      else if op = 0xED then Some (port_dx (\<lambda>p. port_in F B p 13))
      else if op = 0xEE then Some (port_dx (\<lambda>p. port_out8 F B p 11))
      else if op = 0xEF then Some (port_dx (\<lambda>p. port_out F B p 11))
      else None)"

subsection \<open>Control transfers\<close>

text \<open>(E)CX per address size.\<close>

definition count_reg :: "I386Cpu \<Rightarrow> u32" where
  "count_reg c = (let v = r3_gpr (c3_regs c) 1 in if c3_asize32 c then v else v AND 0xFFFF)"

definition set_count_reg :: "u32 \<Rightarrow> I386Cpu \<Rightarrow> I386Cpu" where
  "set_count_reg v c =
     c3_reg (\<lambda>r. if c3_asize32 c then r\<lparr>r3_gpr := (r3_gpr r)(1 := v)\<rparr> else i386_set_reg16 1 (ucast v) r) c"

definition i386_loop :: "eflag_ops \<Rightarrow> 'b I386Bus \<Rightarrow> u8 \<Rightarrow> ('b, u32) exec" where
  "i386_loop F B op =
     bindE (fetch_s8 F B) (\<lambda>rel.
     bindE (getE (\<lambda>c. count_reg c - 1)) (\<lambda>n.
     thenE (modE (set_count_reg n))
    (bindE (getE (\<lambda>c. fl_contains F (c3_eflags c) EFlags_ZF)) (\<lambda>zf.
     let go = n \<noteq> 0 \<and> (if op = 0xE0 then \<not> zf else if op = 0xE1 then zf else True)
     in thenE (whenE go (i386_jump_rel rel)) (okE 11)))))"

definition rel_imm :: "eflag_ops \<Rightarrow> 'b I386Bus \<Rightarrow> ('b, u32) exec" where
  "rel_imm F B = by_osize (fetch32 F B) (bindE (fetch16 F B) (\<lambda>v. okE (scast v)))"

definition i386_exec_jcc :: "eflag_ops \<Rightarrow> 'b I386Bus \<Rightarrow> 'b i386_opcodes" where
  "i386_exec_jcc F B op =
     (if 0x70 \<le> op \<and> op \<le> 0x7F then
        Some (bindE (fetch_s8 F B) (\<lambda>rel.
              bindE (getE (\<lambda>c. i386_cond F (c3_eflags c) (op AND 0xF))) (\<lambda>go.
              if go then thenE (i386_jump_rel rel) (okE 7) else okE 3)))
      else None)"

definition i386_exec_loop :: "eflag_ops \<Rightarrow> 'b I386Bus \<Rightarrow> 'b i386_opcodes" where
  "i386_exec_loop F B op =
     (if 0xE0 \<le> op \<and> op \<le> 0xE2 then Some (i386_loop F B op)
      else if op = 0xE3 then
        Some (bindE (fetch_s8 F B) (\<lambda>rel.
              bindE (getE count_reg) (\<lambda>n.
              if n = 0 then thenE (i386_jump_rel rel) (okE 9) else okE 5)))
      else None)"

definition i386_exec_jump :: "eflag_ops \<Rightarrow> 'b I386Bus \<Rightarrow> 'b i386_opcodes" where
  "i386_exec_jump F B op =
     (if op = 0x9A then
        Some (bindE (i386_fetch_imm F B) (\<lambda>off. bindE (fetch16 F B) (\<lambda>sel. thenE (call_far F B sel off) (okE 17))))
      else if op = 0xE8 then
        Some (bindE (rel_imm F B) (\<lambda>rel.
              bindE (getR r3_eip) (\<lambda>ret'.
              thenE (i386_push F B ret') (thenE (i386_jump_rel rel) (okE 7)))))
      else if op = 0xE9 then Some (bindE (rel_imm F B) (\<lambda>rel. thenE (i386_jump_rel rel) (okE 7)))
      else if op = 0xEA then
        Some (bindE (i386_fetch_imm F B) (\<lambda>off. bindE (fetch16 F B) (\<lambda>sel. thenE (jump_far F B sel off) (okE 12))))
      else if op = 0xEB then Some (bindE (fetch_s8 F B) (\<lambda>rel. thenE (i386_jump_rel rel) (okE 7)))
      else None)"

definition i386_exec_ret_near :: "eflag_ops \<Rightarrow> 'b I386Bus \<Rightarrow> 'b i386_opcodes" where
  "i386_exec_ret_near F B op =
     (if op = 0xC3 then Some (bindE (i386_pop F B) (\<lambda>ip. thenE (i386_set_ip ip) (okE 10)))
      else if op = 0xC2 then
        Some (bindE (fetch16 F B) (\<lambda>n. bindE (i386_pop F B) (\<lambda>ip.
              thenE (i386_set_ip ip) (thenE (modE (adjust_sp (ucast n))) (okE 10)))))
      else None)"

definition i386_exec_ret_int :: "eflag_ops \<Rightarrow> 'b I386Bus \<Rightarrow> 'b i386_opcodes" where
  "i386_exec_ret_int F B op =
     (if op = 0xCB then Some (i386_retf F B 0)
      else if op = 0xCA then Some (bindE (fetch16 F B) (\<lambda>n. i386_retf F B (ucast n)))
      else if op = 0xCC then Some (thenE (software_int F B 3) (okE 33))
      else if op = 0xCD then
        Some (bindE (fetch8 F B) (\<lambda>v. thenE (vm_sensitive F) (thenE (software_int F B v) (okE 37))))
      else if op = 0xCE then
        Some (bindE (getE (\<lambda>c. fl_contains F (c3_eflags c) EFlags_OF)) (\<lambda>over.
              if over then thenE (software_int F B 4) (okE 35) else okE 3))
      else if op = 0xF1 then Some (thenE (software_int F B 1) (okE 33))
      else if op = 0xCF then Some (i386_iret F B)
      else None)"

subsection \<open>Processor control\<close>

definition flag_update :: "(EFlags \<Rightarrow> EFlags) \<Rightarrow> ('b, u32) exec" where
  "flag_update f = thenE (regE (\<lambda>r. r\<lparr>r3_eflags := f (r3_eflags r)\<rparr>)) (okE 2)"

definition iopl_checked :: "eflag_ops \<Rightarrow> ('b, unit) exec \<Rightarrow> ('b, u32) exec" where
  "iopl_checked F a =
     bindE (getE (iopl_sensitive_blocked F)) (\<lambda>blocked. thenE (guardE blocked (exc_gp 0)) (thenE a (okE 3)))"

definition i386_exec_control :: "eflag_ops \<Rightarrow> 'b i386_opcodes" where
  "i386_exec_control F op =
     (if op = 0x9B then
        Some (bindE (getR r3_cr0) (\<lambda>cr0.
              thenE (guardE (cr0 AND cr0_TS \<noteq> 0 \<and> cr0 AND cr0_MP \<noteq> 0) exc_nm) (okE 6)))
      else if op = 0xF4 then
        Some (bindE (getE (cpl F)) (\<lambda>cpl'.
              thenE (guardE (cpl' \<noteq> 0) (exc_gp 0))
             (thenE (modE (\<lambda>c. c\<lparr>c3_halted := True\<rparr>)) (okE 5))))
      else if op = 0xF5 then Some (flag_update (\<lambda>f. fl_toggle F f EFlags_CF))
      else if op = 0xF8 then Some (flag_update (\<lambda>f. fl_remove F f EFlags_CF))
      else if op = 0xF9 then Some (flag_update (\<lambda>f. fl_insert F f EFlags_CF))
      else if op = 0xFA then Some (iopl_checked F (remove_flags F EFlags_IF))
      else if op = 0xFB then
        Some (iopl_checked F
               (thenE (regE (\<lambda>r. r\<lparr>r3_eflags := fl_insert F (r3_eflags r) EFlags_IF\<rparr>)) inhibit))
      else if op = 0xFC then Some (flag_update (\<lambda>f. fl_remove F f EFlags_DF))
      else if op = 0xFD then Some (flag_update (\<lambda>f. fl_insert F f EFlags_DF))
      else None)"

end
