(* ===== verification/X386_Strings.thy ===== *)
theory X386_Strings
  imports X386_Transfers
begin

text \<open>
  The string operations of \<open>src/x86_32/execute.rs\<close>: the macro \<open>string_ops!\<close> as definitions over a record of
  its parameters with the three instances, and the \<open>REP\<close> loop of \<open>string_op\<close>.
\<close>

subsection \<open>Index registers\<close>

definition index_reg :: "u8 \<Rightarrow> I386Cpu \<Rightarrow> u32" where
  "index_reg i c = (let v = r3_gpr (c3_regs c) i in if c3_asize32 c then v else v AND 0xFFFF)"

definition set_index_reg :: "u8 \<Rightarrow> u32 \<Rightarrow> I386Cpu \<Rightarrow> I386Cpu" where
  "set_index_reg i v c =
     c3_reg (\<lambda>r. if c3_asize32 c then r\<lparr>r3_gpr := (r3_gpr r)(i := v)\<rparr> else i386_set_reg16 i (ucast v) r) c"

definition string_delta :: "eflag_ops \<Rightarrow> u32 \<Rightarrow> I386Cpu \<Rightarrow> u32" where
  "string_delta F n c = (if fl_contains F (c3_eflags c) EFlags_DF then - n else n)"

definition i386_step_si :: "eflag_ops \<Rightarrow> u32 \<Rightarrow> I386Cpu \<Rightarrow> I386Cpu" where
  "i386_step_si F n c = set_index_reg ESI (index_reg ESI c + string_delta F n c) c"

definition i386_step_di :: "eflag_ops \<Rightarrow> u32 \<Rightarrow> I386Cpu \<Rightarrow> I386Cpu" where
  "i386_step_di F n c = set_index_reg EDI (index_reg EDI c + string_delta F n c) c"

subsection \<open>One iteration\<close>

record ('w, 'b) string_width =
  sw_n :: u32
  sw_read :: "u8 \<Rightarrow> u32 \<Rightarrow> ('b, 'w) exec"
  sw_write :: "u8 \<Rightarrow> u32 \<Rightarrow> 'w \<Rightarrow> ('b, unit) exec"
  sw_sub :: "EFlags \<Rightarrow> 'w \<Rightarrow> 'w \<Rightarrow> 'w \<times> EFlags"
  sw_acc :: "u32 \<Rightarrow> 'w"
  sw_set_acc :: "'w \<Rightarrow> X386Registers \<Rightarrow> X386Registers"
  sw_io_read :: "u16 \<Rightarrow> ('b, 'w) exec"
  sw_io_write :: "u16 \<Rightarrow> 'w \<Rightarrow> ('b, unit) exec"

definition string8 :: "eflag_ops \<Rightarrow> 'b I386Bus \<Rightarrow> (u8, 'b) string_width" where
  "string8 F B =
     \<lparr>sw_n = 1, sw_read = i386_read8 F B, sw_write = i386_write8 F B, sw_sub = i386_sub F i386_w8,
      sw_acc = ucast, sw_set_acc = i386_set_reg8 0, sw_io_read = io_in B, sw_io_write = io_out B\<rparr>"

definition string16 :: "eflag_ops \<Rightarrow> 'b I386Bus \<Rightarrow> (u16, 'b) string_width" where
  "string16 F B =
     \<lparr>sw_n = 2, sw_read = i386_read16 F B, sw_write = i386_write16 F B, sw_sub = i386_sub F i386_w16,
      sw_acc = ucast, sw_set_acc = i386_set_reg16 0, sw_io_read = i386_io_read16 B, sw_io_write = i386_io_write16 B\<rparr>"

definition string32 :: "eflag_ops \<Rightarrow> 'b I386Bus \<Rightarrow> (u32, 'b) string_width" where
  "string32 F B =
     \<lparr>sw_n = 4, sw_read = i386_read32 F B, sw_write = i386_write32 F B, sw_sub = i386_sub F i386_w32,
      sw_acc = id, sw_set_acc = set_reg32 0, sw_io_read = io_read32 B, sw_io_write = io_write32 B\<rparr>"

definition str_movs :: "eflag_ops \<Rightarrow> ('w, 'b) string_width \<Rightarrow> ('b, unit) exec" where
  "str_movs F W =
     bindE (getE (\<lambda>c. i386_seg_or c DS)) (\<lambda>sg.
     bindE (getE (index_reg ESI)) (\<lambda>si.
     bindE (sw_read W sg si) (\<lambda>v.
     bindE (getE (index_reg EDI)) (\<lambda>di.
     thenE (sw_write W ES di v)
    (thenE (modE (i386_step_si F (sw_n W)))
     (modE (i386_step_di F (sw_n W))))))))"

definition str_cmps :: "eflag_ops \<Rightarrow> ('w, 'b) string_width \<Rightarrow> ('b, unit) exec" where
  "str_cmps F W =
     bindE (getE (\<lambda>c. i386_seg_or c DS)) (\<lambda>sg.
     bindE (getE (index_reg ESI)) (\<lambda>si.
     bindE (sw_read W sg si) (\<lambda>a.
     bindE (getE (index_reg EDI)) (\<lambda>di.
     bindE (sw_read W ES di) (\<lambda>b.
     bindE (flagsE (\<lambda>fl. sw_sub W fl a b)) (\<lambda>_.
     thenE (modE (i386_step_si F (sw_n W)))
     (modE (i386_step_di F (sw_n W)))))))))"

definition str_stos :: "eflag_ops \<Rightarrow> ('w, 'b) string_width \<Rightarrow> ('b, unit) exec" where
  "str_stos F W =
     bindE (getR (\<lambda>r. sw_acc W (r3_gpr r 0))) (\<lambda>v.
     bindE (getE (index_reg EDI)) (\<lambda>di.
     thenE (sw_write W ES di v)
     (modE (i386_step_di F (sw_n W)))))"

definition str_lods :: "eflag_ops \<Rightarrow> ('w, 'b) string_width \<Rightarrow> ('b, unit) exec" where
  "str_lods F W =
     bindE (getE (\<lambda>c. i386_seg_or c DS)) (\<lambda>sg.
     bindE (getE (index_reg ESI)) (\<lambda>si.
     bindE (sw_read W sg si) (\<lambda>v.
     thenE (regE (sw_set_acc W v))
     (modE (i386_step_si F (sw_n W))))))"

definition str_scas :: "eflag_ops \<Rightarrow> ('w, 'b) string_width \<Rightarrow> ('b, unit) exec" where
  "str_scas F W =
     bindE (getE (index_reg EDI)) (\<lambda>di.
     bindE (sw_read W ES di) (\<lambda>b.
     bindE (getR (\<lambda>r. sw_acc W (r3_gpr r 0))) (\<lambda>a.
     bindE (flagsE (\<lambda>fl. sw_sub W fl a b)) (\<lambda>_.
     modE (i386_step_di F (sw_n W))))))"

definition str_ins :: "eflag_ops \<Rightarrow> 'b I386Bus \<Rightarrow> ('w, 'b) string_width \<Rightarrow> ('b, unit) exec" where
  "str_ins F B W =
     bindE (getR (\<lambda>r. i386_reg16 r 2)) (\<lambda>port.
     thenE (io_check F B port (ucast (sw_n W)))
    (bindE (sw_io_read W port) (\<lambda>v.
     bindE (getE (index_reg EDI)) (\<lambda>di.
     thenE (sw_write W ES di v)
     (modE (i386_step_di F (sw_n W)))))))"

definition str_outs :: "eflag_ops \<Rightarrow> 'b I386Bus \<Rightarrow> ('w, 'b) string_width \<Rightarrow> ('b, unit) exec" where
  "str_outs F B W =
     bindE (getR (\<lambda>r. i386_reg16 r 2)) (\<lambda>port.
     thenE (io_check F B port (ucast (sw_n W)))
    (bindE (getE (\<lambda>c. i386_seg_or c DS)) (\<lambda>sg.
     bindE (getE (index_reg ESI)) (\<lambda>si.
     bindE (sw_read W sg si) (\<lambda>v.
     thenE (sw_io_write W port v)
     (modE (i386_step_si F (sw_n W))))))))"

subsection \<open>Repetition\<close>

text \<open>An action that may panic or not return: the result \<open>None\<close>.\<close>

type_synonym ('b, 'a) panic_exec = "I386Cpu \<times> 'b \<Rightarrow> ((I386Exception + 'a) \<times> I386Cpu \<times> 'b) option"

text \<open>
  The \<open>while\<close> loop, as it is written: it ends when (E)CX is zero, on the flag, or with an interrupt pending.
  \<open>chk\<close> says whether the build checks integer overflow: \<open>cycles += 4\<close> then panics after 2^30 rounds.
\<close>

partial_function (option) rep_rounds ::
  "bool \<Rightarrow> eflag_ops \<Rightarrow> ('b, unit) exec \<Rightarrow> bool \<Rightarrow> bool \<Rightarrow> u32 \<Rightarrow> ('b, u32) panic_exec" where
  "rep_rounds chk F one cmp cont_on_zf cycles s =
     (if count_reg (fst s) = 0 then Some (Inr cycles, s)
      else case one s of
        (Inl e, s) \<Rightarrow> Some (Inl e, s)
      | (Inr _, c, b) \<Rightarrow>
          let c = set_count_reg (count_reg c - 1) c
          in if chk \<and> unat cycles + 4 \<ge> 2 ^ 32 then None
             else
               let cycles = cycles + 4
               in if cmp \<and> fl_contains F (c3_eflags c) EFlags_ZF \<noteq> cont_on_zf then Some (Inr cycles, c, b)
                  else if count_reg c \<noteq> 0 \<and> i386_interrupt_pending F c then
                    Some (Inr cycles, c3_reg (\<lambda>r. r\<lparr>r3_eip := c3_start_eip c\<rparr>) c, b)
                  else rep_rounds chk F one cmp cont_on_zf cycles (c, b))"

definition i386_string_op :: "bool \<Rightarrow> eflag_ops \<Rightarrow> ('b, unit) exec \<Rightarrow> bool \<Rightarrow> ('b, u32) panic_exec" where
  "i386_string_op chk F one cmp = (\<lambda>(c, b).
     let c = c\<lparr>c3_commit_on_fault := True\<rparr>
     in case c3_rep c of
          None \<Rightarrow> Some (thenE one (okE 7) (c, b))
        | Some cont_on_zf \<Rightarrow> rep_rounds chk F one cmp cont_on_zf 5 (c, b))"

definition string_at_osize ::
  "bool \<Rightarrow> eflag_ops \<Rightarrow> ('b, unit) exec \<Rightarrow> ('b, unit) exec \<Rightarrow> bool \<Rightarrow> ('b, u32) panic_exec" where
  "string_at_osize chk F one32 one16 cmp = (\<lambda>(c, b).
     if c3_osize32 c then i386_string_op chk F one32 cmp (c, b) else i386_string_op chk F one16 cmp (c, b))"

definition i386_exec_string :: "bool \<Rightarrow> eflag_ops \<Rightarrow> 'b I386Bus \<Rightarrow> u8 \<Rightarrow> ('b, u32) panic_exec option" where
  "i386_exec_string chk F B op =
     (let w8 = string8 F B; w16 = string16 F B; w32 = string32 F B in
      if op = 0x6C then Some (i386_string_op chk F (str_ins F B w8) False)
      else if op = 0x6D then Some (string_at_osize chk F (str_ins F B w32) (str_ins F B w16) False)
      else if op = 0x6E then Some (i386_string_op chk F (str_outs F B w8) False)
      else if op = 0x6F then Some (string_at_osize chk F (str_outs F B w32) (str_outs F B w16) False)
      else if op = 0xA4 then Some (i386_string_op chk F (str_movs F w8) False)
      else if op = 0xA5 then Some (string_at_osize chk F (str_movs F w32) (str_movs F w16) False)
      else if op = 0xA6 then Some (i386_string_op chk F (str_cmps F w8) True)
      else if op = 0xA7 then Some (string_at_osize chk F (str_cmps F w32) (str_cmps F w16) True)
      else if op = 0xAA then Some (i386_string_op chk F (str_stos F w8) False)
      else if op = 0xAB then Some (string_at_osize chk F (str_stos F w32) (str_stos F w16) False)
      else if op = 0xAC then Some (i386_string_op chk F (str_lods F w8) False)
      else if op = 0xAD then Some (string_at_osize chk F (str_lods F w32) (str_lods F w16) False)
      else if op = 0xAE then Some (i386_string_op chk F (str_scas F w8) True)
      else if op = 0xAF then Some (string_at_osize chk F (str_scas F w32) (str_scas F w16) True)
      else None)"

end
