(* ===== verification/X386_Groups.thy ===== *)
theory X386_Groups
  imports X386_Strings
begin

text \<open>
  The opcode groups \<open>F6\<close>, \<open>F7\<close>, \<open>FE\<close> and \<open>FF\<close> of \<open>src/x86_32/execute.rs\<close>.
\<close>

text \<open>A division: \<open>None\<close> is the result \<open>false\<close>, which the caller turns into \<open>#DE\<close>.\<close>

definition divideE :: "(X386Registers \<Rightarrow> X386Registers option) \<Rightarrow> ('b, unit) exec" where
  "divideE f = bindE (getR f) (\<lambda>r. case r of None \<Rightarrow> raiseE exc_de | Some g \<Rightarrow> regE (\<lambda>_. g))"

definition i386_group_f6 :: "eflag_ops \<Rightarrow> 'b I386Bus \<Rightarrow> ('b, u32) exec" where
  "i386_group_f6 F B =
     bindE (i386_modrm F B) (\<lambda>(m, op).
     thenE (lock_check (operand_is_mem op \<and> (i386_mreg m = 2 \<or> i386_mreg m = 3)))
    (bindE (i386_read_op8 F B op) (\<lambda>v.
     if i386_mreg m = 0 \<or> i386_mreg m = 1 then
       bindE (fetch8 F B) (\<lambda>b. bindE (flagsE (\<lambda>fl. i386_and F i386_w8 fl v b)) (\<lambda>_. mem_or op 5 2))
     else if i386_mreg m = 2 then thenE (i386_write_op8 F B op (NOT v)) (mem_or op 6 2)
     else if i386_mreg m = 3 then
       bindE (flagsE (\<lambda>fl. i386_neg F i386_w8 fl v)) (\<lambda>r. thenE (i386_write_op8 F B op r) (mem_or op 6 2))
     else if i386_mreg m = 4 then accumulatorE (i386_mul8 F v) 12
     else if i386_mreg m = 5 then accumulatorE (i386_imul8 F v) 12
     else if i386_mreg m = 6 then thenE (divideE (i386_div8 v)) (okE 17)
     else thenE (divideE (i386_idiv8 v)) (okE 22))))"

definition i386_group_f7 :: "eflag_ops \<Rightarrow> 'b I386Bus \<Rightarrow> ('b, u32) exec" where
  "i386_group_f7 F B =
     bindE (i386_modrm F B) (\<lambda>(m, op).
     thenE (lock_check (operand_is_mem op \<and> (i386_mreg m = 2 \<or> i386_mreg m = 3)))
    (bindE (read_op F B op) (\<lambda>v.
     if i386_mreg m = 0 \<or> i386_mreg m = 1 then
       bindE (i386_fetch_imm F B) (\<lambda>b.
       thenE
         (by_osize (bindE (flagsE (\<lambda>fl. i386_and F i386_w32 fl v b)) (\<lambda>_. okE ()))
            (bindE (flagsE (\<lambda>fl. i386_and F i386_w16 fl (ucast v) (ucast b))) (\<lambda>_. okE ())))
         (mem_or op 5 2))
     else if i386_mreg m = 2 then thenE (write_op F B op (NOT v)) (mem_or op 6 2)
     else if i386_mreg m = 3 then
       bindE (by_osize (flagsE (\<lambda>fl. i386_neg F i386_w32 fl v))
               (bindE (flagsE (\<lambda>fl. i386_neg F i386_w16 fl (ucast v))) (\<lambda>r. okE (ucast r)))) (\<lambda>r.
       thenE (write_op F B op r) (mem_or op 6 2))
     else if i386_mreg m = 4 then
       by_osize (accumulatorE (i386_mul32 F v) 38) (accumulatorE (i386_mul16 F (ucast v)) 25)
     else if i386_mreg m = 5 then
       by_osize (accumulatorE (i386_imul32 F v) 38) (accumulatorE (i386_imul16 F (ucast v)) 25)
     else if i386_mreg m = 6 then
       by_osize (thenE (divideE (i386_div32 v)) (okE 38)) (thenE (divideE (i386_div16 (ucast v))) (okE 27))
     else by_osize (thenE (divideE (i386_idiv32 v)) (okE 43)) (thenE (divideE (i386_idiv16 (ucast v))) (okE 30)))))"

definition i386_group_fe :: "eflag_ops \<Rightarrow> 'b I386Bus \<Rightarrow> ('b, u32) exec" where
  "i386_group_fe F B =
     bindE (i386_modrm F B) (\<lambda>(m, op).
     thenE (lock_check (operand_is_mem op \<and> i386_mreg m < 2))
    (if i386_mreg m = 0 \<or> i386_mreg m = 1 then
       bindE (i386_read_op8 F B op) (\<lambda>v.
       bindE (flagsE (\<lambda>fl. if i386_mreg m = 0 then i386_inc F i386_w8 fl v else i386_dec F i386_w8 fl v)) (\<lambda>r.
       thenE (i386_write_op8 F B op r) (mem_or op 6 2)))
     else raiseE exc_ud))"

definition inc_dec_at_osize :: "eflag_ops \<Rightarrow> bool \<Rightarrow> u32 \<Rightarrow> ('b, u32) exec" where
  "inc_dec_at_osize F inc v =
     by_osize (flagsE (\<lambda>fl. if inc then i386_inc F i386_w32 fl v else i386_dec F i386_w32 fl v))
       (bindE (flagsE (\<lambda>fl. if inc then i386_inc F i386_w16 fl (ucast v) else i386_dec F i386_w16 fl (ucast v)))
         (\<lambda>r. okE (ucast r)))"

definition i386_group_ff :: "eflag_ops \<Rightarrow> 'b I386Bus \<Rightarrow> ('b, u32) exec" where
  "i386_group_ff F B =
     bindE (i386_modrm F B) (\<lambda>(m, op).
     thenE (lock_check (operand_is_mem op \<and> i386_mreg m < 2))
    (if i386_mreg m = 0 \<or> i386_mreg m = 1 then
       bindE (read_op F B op) (\<lambda>v.
       bindE (inc_dec_at_osize F (i386_mreg m = 0) v) (\<lambda>r.
       thenE (write_op F B op r) (mem_or op 6 2)))
     else if i386_mreg m = 2 then
       bindE (read_op F B op) (\<lambda>v.
       bindE (getR r3_eip) (\<lambda>ret'.
       thenE (i386_push F B ret') (thenE (i386_set_ip v) (mem_or op 10 7))))
     else if i386_mreg m = 3 then
       (case op of
          Operand_Reg _ \<Rightarrow> raiseE exc_ud
        | Operand_Mem sg off \<Rightarrow>
            bindE (read_far_pointer F B sg off) (\<lambda>(sel, dst). thenE (call_far F B sel dst) (okE 22)))
     else if i386_mreg m = 4 then
       bindE (read_op F B op) (\<lambda>v. thenE (i386_set_ip v) (mem_or op 10 7))
     else if i386_mreg m = 5 then
       (case op of
          Operand_Reg _ \<Rightarrow> raiseE exc_ud
        | Operand_Mem sg off \<Rightarrow>
            bindE (read_far_pointer F B sg off) (\<lambda>(sel, dst). thenE (jump_far F B sel dst) (okE 17)))
     else if i386_mreg m = 6 then
       bindE (read_op F B op) (\<lambda>v. thenE (i386_push F B v) (mem_or op 5 2))
     else raiseE exc_ud))"

definition i386_exec_group :: "eflag_ops \<Rightarrow> 'b I386Bus \<Rightarrow> 'b i386_opcodes" where
  "i386_exec_group F B op =
     (if op = 0xF6 then Some (i386_group_f6 F B)
      else if op = 0xF7 then Some (i386_group_f7 F B)
      else if op = 0xFE then Some (i386_group_fe F B)
      else if op = 0xFF then Some (i386_group_ff F B)
      else None)"

end
