(* ===== verification/X386_Execute0F.thy ===== *)
theory X386_Execute0F
  imports X386_Groups
begin

text \<open>
  The two-byte opcodes of \<open>src/x86_32/execute_0f.rs\<close>: descriptor-table and system instructions, control and
  debug register moves, bit operations, double shifts, widening moves and the gated newer instructions.
  \<open>dispatch_0f\<close> tries the sections in order; an opcode in no section is \<open>#UD\<close>.
\<close>

subsection \<open>System registers\<close>

definition require_ring0 :: "eflag_ops \<Rightarrow> ('b, unit) exec" where
  "require_ring0 F =
     checkE (\<lambda>c. if r3_cr0 (c3_regs c) AND cr0_PE \<noteq> 0 \<and> cpl F c \<noteq> 0 then Inl (exc_gp 0) else Inr ())"

definition i386_flush_tlb :: "('b, unit) exec" where "i386_flush_tlb = modE flush_tlb"

definition mov_from_cr :: "eflag_ops \<Rightarrow> 'b I386Bus \<Rightarrow> ('b, u32) exec" where
  "mov_from_cr F B =
     thenE (require_ring0 F)
    (bindE (fetch8 F B) (\<lambda>m.
     bindE (getR id) (\<lambda>r.
     bindE (if i386_mreg m = 0 then okE (r3_cr0 r) else if i386_mreg m = 2 then okE (r3_cr2 r)
            else if i386_mreg m = 3 then okE (r3_cr3 r) else raiseE exc_ud) (\<lambda>v.
     thenE (regE (set_reg32 (i386_rm m) v)) (okE 6)))))"

definition mov_to_cr :: "eflag_ops \<Rightarrow> 'b I386Bus \<Rightarrow> ('b, u32) exec" where
  "mov_to_cr F B =
     thenE (require_ring0 F)
    (thenE (modE prepare_cold_write)
    (bindE (fetch8 F B) (\<lambda>m.
     bindE (getR (\<lambda>r. reg32 r (i386_rm m))) (\<lambda>v.
     thenE
       (if i386_mreg m = 0 then
          thenE (guardE (v AND cr0_PG \<noteq> 0 \<and> v AND cr0_PE = 0) (exc_gp 0))
         (thenE (regE (\<lambda>r. r\<lparr>r3_cr0 := v\<rparr>)) i386_flush_tlb)
        else if i386_mreg m = 2 then regE (\<lambda>r. r\<lparr>r3_cr2 := v\<rparr>)
        else if i386_mreg m = 3 then thenE (regE (\<lambda>r. r\<lparr>r3_cr3 := v\<rparr>)) i386_flush_tlb
        else raiseE exc_ud)
       (okE 10)))))"

definition dr_index :: "u8 \<Rightarrow> u8" where "dr_index n = (if n = 4 then 6 else if n = 5 then 7 else n)"

definition mov_from_dr :: "eflag_ops \<Rightarrow> 'b I386Bus \<Rightarrow> ('b, u32) exec" where
  "mov_from_dr F B =
     thenE (require_ring0 F)
    (bindE (fetch8 F B) (\<lambda>m.
     accumulatorE (\<lambda>r. set_reg32 (i386_rm m) (r3_dr r (dr_index (i386_mreg m))) r) 14))"

definition mov_to_dr :: "eflag_ops \<Rightarrow> 'b I386Bus \<Rightarrow> ('b, u32) exec" where
  "mov_to_dr F B =
     thenE (require_ring0 F)
    (thenE (modE prepare_cold_write)
    (bindE (fetch8 F B) (\<lambda>m.
     accumulatorE (\<lambda>r. r\<lparr>r3_dr := (r3_dr r)(dr_index (i386_mreg m) := reg32 r (i386_rm m))\<rparr>) 16)))"

definition mov_from_tr :: "eflag_ops \<Rightarrow> 'b I386Bus \<Rightarrow> ('b, u32) exec" where
  "mov_from_tr F B =
     thenE (require_ring0 F)
    (bindE (fetch8 F B) (\<lambda>m.
     bindE (getR id) (\<lambda>r.
     bindE (if i386_mreg m = 6 then okE (r3_tr6 r) else if i386_mreg m = 7 then okE (r3_tr7 r)
            else raiseE exc_ud) (\<lambda>v.
     thenE (regE (set_reg32 (i386_rm m) v)) (okE 12)))))"

definition mov_to_tr :: "eflag_ops \<Rightarrow> 'b I386Bus \<Rightarrow> ('b, u32) exec" where
  "mov_to_tr F B =
     thenE (require_ring0 F)
    (thenE (modE prepare_cold_write)
    (bindE (fetch8 F B) (\<lambda>m.
     bindE (getR (\<lambda>r. reg32 r (i386_rm m))) (\<lambda>v.
     thenE (if i386_mreg m = 6 then regE (\<lambda>r. r\<lparr>r3_tr6 := v\<rparr>)
            else if i386_mreg m = 7 then regE (\<lambda>r. r\<lparr>r3_tr7 := v\<rparr>)
            else raiseE exc_ud)
       (okE 12)))))"

definition clts :: "eflag_ops \<Rightarrow> ('b, u32) exec" where
  "clts F =
     thenE (require_ring0 F)
    (thenE (modE prepare_cold_write)
     (accumulatorE (\<lambda>r. r\<lparr>r3_cr0 := r3_cr0 r AND NOT cr0_TS\<rparr>) 5))"

subsection \<open>LDTR, TR and descriptor checks\<close>

definition lldt :: "eflag_ops \<Rightarrow> 'b I386Bus \<Rightarrow> u16 \<Rightarrow> ('b, unit) exec" where
  "lldt F B sel =
     thenE (modE prepare_cold_write)
    (if sel AND 0xFFFC = 0 then regE (\<lambda>r. r\<lparr>r3_ldtr := null_seg sel\<rparr>)
     else
       thenE (guardE (sel AND 4 \<noteq> 0) (exc_gp (sel AND 0xFFFC)))
      (bindE (read_descriptor F B sel) (\<lambda>d.
       thenE (guardE (ds_attrs d AND 0x1F \<noteq> 0x02) (exc_gp (sel AND 0xFFFC)))
      (thenE (guardE (ds_attrs d AND 0x80 = 0) (exc_np (sel AND 0xFFFC)))
       (regE (\<lambda>r. r\<lparr>r3_ldtr :=
          \<lparr>sr_sel = sel, sr_base = ds_base d, sr_limit = ds_limit d, sr_attrs = ds_attrs d\<rparr>\<rparr>))))))"

definition mark_tss_busy :: "eflag_ops \<Rightarrow> 'b I386Bus \<Rightarrow> u16 \<Rightarrow> ('b, unit) exec" where
  "mark_tss_busy F B sel =
     bindE (getR (\<lambda>r. dt_base (r3_gdtr r) + ucast (sel AND 0xFFF8))) (\<lambda>addr.
     bindE (sys_read8 F B (addr + 5)) (\<lambda>v. sys_write8 F B (addr + 5) (v OR 0x02)))"

definition ltr :: "eflag_ops \<Rightarrow> 'b I386Bus \<Rightarrow> u16 \<Rightarrow> ('b, unit) exec" where
  "ltr F B sel =
     thenE (modE prepare_cold_write)
    (thenE (guardE (sel AND 0xFFFC = 0 \<or> sel AND 4 \<noteq> 0) (exc_gp (sel AND 0xFFFC)))
    (bindE (read_descriptor F B sel) (\<lambda>d.
     thenE (guardE (ds_attrs d AND 0x1F \<noteq> 0x01 \<and> ds_attrs d AND 0x1F \<noteq> 0x09) (exc_gp (sel AND 0xFFFC)))
    (thenE (guardE (ds_attrs d AND 0x80 = 0) (exc_np (sel AND 0xFFFC)))
    (thenE (mark_tss_busy F B sel)
     (regE (\<lambda>r. r\<lparr>r3_tr :=
        \<lparr>sr_sel = sel, sr_base = ds_base d, sr_limit = ds_limit d, sr_attrs = ds_attrs d OR 0x02\<rparr>\<rparr>)))))))"

text \<open>\<open>let Ok(d) = self.read_descriptor(bus, sel) else { \<dots> }\<close>: the error is dropped, its effects stay.\<close>

definition try_descriptor :: "eflag_ops \<Rightarrow> 'b I386Bus \<Rightarrow> u16 \<Rightarrow> ('b, I386Descriptor option) exec" where
  "try_descriptor F B sel s =
     (case read_descriptor F B sel s of (Inl _, s) \<Rightarrow> (Inr None, s) | (Inr d, s) \<Rightarrow> (Inr (Some d), s))"

definition verify_ok :: "eflag_ops \<Rightarrow> u16 \<Rightarrow> bool \<Rightarrow> I386Descriptor \<Rightarrow> I386Cpu \<Rightarrow> bool" where
  "verify_ok F sel write d c =
     (if \<not> ds_present d then False
      else
        let attrs = ds_attrs d;
            code = (attrs AND 0x18 = 0x18);
            conforming = (attrs AND 0x1C = 0x1C);
            rpl = ucast (sel AND 3)
        in if attrs AND 0x10 = 0 then False
           else if \<not> conforming \<and> (ds_dpl d < cpl F c \<or> ds_dpl d < rpl) then False
           else if write then \<not> code \<and> attrs AND 0x02 \<noteq> 0
           else \<not> code \<or> attrs AND 0x02 \<noteq> 0)"

definition verify_seg :: "eflag_ops \<Rightarrow> 'b I386Bus \<Rightarrow> u16 \<Rightarrow> bool \<Rightarrow> ('b, bool) exec" where
  "verify_seg F B sel write =
     (if sel AND 0xFFFC = 0 then okE False
      else
        bindE (try_descriptor F B sel) (\<lambda>d.
        case d of None \<Rightarrow> okE False | Some d \<Rightarrow> getE (verify_ok F sel write d)))"

text \<open>\<open>SLDT\<close>, \<open>STR\<close> and \<open>SMSW\<close>: a register destination takes the operand size, memory sixteen bits.\<close>

definition store_sel :: "eflag_ops \<Rightarrow> 'b I386Bus \<Rightarrow> I386Operand \<Rightarrow> u32 \<Rightarrow> ('b, u32) exec" where
  "store_sel F B op v =
     thenE
       (case op of
          Operand_Reg i \<Rightarrow> by_osize (regE (set_reg32 i v)) (regE (i386_set_reg16 i (ucast v)))
        | Operand_Mem sg off \<Rightarrow> i386_write16 F B sg off (ucast v))
       (okE 2)"

definition group6 :: "eflag_ops \<Rightarrow> 'b I386Bus \<Rightarrow> ('b, u32) exec" where
  "group6 F B =
     bindE (getE (protected_mode F)) (\<lambda>prot.
     thenE (guardE (\<not> prot) exc_ud)
    (bindE (i386_modrm F B) (\<lambda>(m, op).
     if i386_mreg m = 0 then bindE (getR (\<lambda>r. ucast (sr_sel (r3_ldtr r)))) (store_sel F B op)
     else if i386_mreg m = 1 then bindE (getR (\<lambda>r. ucast (sr_sel (r3_tr r)))) (store_sel F B op)
     else if i386_mreg m = 2 then
       thenE (require_ring0 F) (bindE (i386_read_op16 F B op) (\<lambda>sel. thenE (lldt F B sel) (okE 20)))
     else if i386_mreg m = 3 then
       thenE (require_ring0 F) (bindE (i386_read_op16 F B op) (\<lambda>sel. thenE (ltr F B sel) (okE 23)))
     else if i386_mreg m = 4 \<or> i386_mreg m = 5 then
       bindE (i386_read_op16 F B op) (\<lambda>sel.
       bindE (verify_seg F B sel (i386_mreg m = 5)) (\<lambda>ok.
       accumulatorE (\<lambda>r. r\<lparr>r3_eflags := fl_set F (r3_eflags r) EFlags_ZF ok\<rparr>) 10))
     else raiseE exc_ud)))"

definition load_table :: "eflag_ops \<Rightarrow> 'b I386Bus \<Rightarrow> bool \<Rightarrow> I386Operand \<Rightarrow> ('b, u32) exec" where
  "load_table F B gdt op =
     thenE (require_ring0 F)
    (case op of
       Operand_Reg _ \<Rightarrow> raiseE exc_ud
     | Operand_Mem sg off \<Rightarrow>
         bindE (i386_read16 F B sg off) (\<lambda>limit.
         bindE (i386_read32 F B sg (off + 2)) (\<lambda>base.
         bindE (getE c3_osize32) (\<lambda>wide.
         let t = \<lparr>dt_base = (if wide then base else base AND 0x00FFFFFF), dt_limit = limit\<rparr> in
         thenE (modE prepare_cold_write)
         (accumulatorE (\<lambda>r. if gdt then r\<lparr>r3_gdtr := t\<rparr> else r\<lparr>r3_idtr := t\<rparr>) 11)))))"

definition lmsw :: "eflag_ops \<Rightarrow> 'b I386Bus \<Rightarrow> I386Operand \<Rightarrow> ('b, u32) exec" where
  "lmsw F B op =
     thenE (require_ring0 F)
    (bindE (i386_read_op16 F B op) (\<lambda>v16.
     let v = ucast v16 :: u32 in
     thenE (modE prepare_cold_write)
    (thenE (regE (\<lambda>r.
       let pe = (r3_cr0 r OR v) AND cr0_PE
       in r\<lparr>r3_cr0 := (r3_cr0 r AND NOT (cr0_MP OR cr0_EM OR cr0_TS OR cr0_PE)) OR
                       (v AND (cr0_MP OR cr0_EM OR cr0_TS)) OR pe\<rparr>))
    (thenE i386_flush_tlb (okE 10)))))"

definition group7 :: "eflag_ops \<Rightarrow> 'b I386Bus \<Rightarrow> ('b, u32) exec" where
  "group7 F B =
     bindE (i386_modrm F B) (\<lambda>(m, op).
     if i386_mreg m = 0 \<or> i386_mreg m = 1 then
       (case op of
          Operand_Reg _ \<Rightarrow> raiseE exc_ud
        | Operand_Mem sg off \<Rightarrow>
            bindE (getR (\<lambda>r. if i386_mreg m = 0 then r3_gdtr r else r3_idtr r)) (\<lambda>t.
            thenE (i386_write16 F B sg off (dt_limit t))
           (thenE (i386_write32 F B sg (off + 2) (dt_base t)) (okE 9))))
     else if i386_mreg m = 2 \<or> i386_mreg m = 3 then load_table F B (i386_mreg m = 2) op
     else if i386_mreg m = 4 then bindE (getR r3_cr0) (store_sel F B op)
     else if i386_mreg m = 6 then lmsw F B op
     else raiseE exc_ud)"

definition lar_lsl_ok :: "eflag_ops \<Rightarrow> bool \<Rightarrow> u16 \<Rightarrow> I386Descriptor \<Rightarrow> I386Cpu \<Rightarrow> bool" where
  "lar_lsl_ok F lsl' sel d c =
     (if \<not> ds_present d then False
      else
        let code_data = (ds_attrs d AND 0x10 \<noteq> 0);
            styp = ucast (ds_attrs d AND 0x0F) :: u8;
            type_ok = (if code_data then True
                       else if lsl' then styp = 1 \<or> styp = 2 \<or> styp = 3 \<or> styp = 9 \<or> styp = 11
                       else styp = 1 \<or> styp = 2 \<or> styp = 3 \<or> styp = 4 \<or> styp = 5 \<or> styp = 9 \<or>
                            styp = 11 \<or> styp = 12);
            conforming = (ds_attrs d AND 0x1C = 0x1C);
            rpl = ucast (sel AND 3)
        in if \<not> type_ok then False
           else if \<not> (code_data \<and> conforming) \<and> (ds_dpl d < cpl F c \<or> ds_dpl d < rpl) then False
           else True)"

definition set_reg_osize :: "u8 \<Rightarrow> u32 \<Rightarrow> ('b, unit) exec" where
  "set_reg_osize i v = by_osize (regE (set_reg32 i v)) (regE (i386_set_reg16 i (ucast v)))"

definition lar_lsl :: "eflag_ops \<Rightarrow> 'b I386Bus \<Rightarrow> bool \<Rightarrow> ('b, u32) exec" where
  "lar_lsl F B lsl' =
     bindE (getE (protected_mode F)) (\<lambda>prot.
     thenE (guardE (\<not> prot) exc_ud)
    (bindE (i386_modrm F B) (\<lambda>(m, op).
     bindE (i386_read_op16 F B op) (\<lambda>sel.
     bindE (if sel AND 0xFFFC = 0 then okE None
            else
              bindE (try_descriptor F B sel) (\<lambda>d.
              case d of
                None \<Rightarrow> okE None
              | Some d \<Rightarrow> bindE (getE (lar_lsl_ok F lsl' sel d)) (\<lambda>ok. okE (if ok then Some d else None)))) (\<lambda>result.
     thenE
       (case result of
          None \<Rightarrow> remove_flags F EFlags_ZF
        | Some d \<Rightarrow>
            thenE (regE (\<lambda>r. r\<lparr>r3_eflags := fl_insert F (r3_eflags r) EFlags_ZF\<rparr>))
            (set_reg_osize (i386_mreg m)
              (if lsl' then ds_limit d
               else push_bit 8 (ucast (ds_attrs d) AND 0xFF) OR push_bit 12 (ucast (ds_attrs d) AND 0x0F00))))
       (okE 11))))))"

subsection \<open>Bit operations\<close>

definition bt_apply :: "eflag_ops \<Rightarrow> 'b I386Bus \<Rightarrow> I386Operand \<Rightarrow> u8 \<Rightarrow> u32 \<Rightarrow> ('b, u32) exec" where
  "bt_apply F B op sub bit' =
     thenE (lock_check (operand_is_mem op \<and> sub \<noteq> 0))
    (bindE (read_op F B op) (\<lambda>v.
     bindE (getE c3_osize32) (\<lambda>wide.
     let t = (if wide then word_rotr (unat bit') v else ucast (word_rotr (unat bit') (ucast v :: u16)));
         sgn' = (if wide then 0x80000000 else 0x8000)
     in thenE (regE (\<lambda>r.
          let f = fl_set F (r3_eflags r) EFlags_CF (t AND 1 \<noteq> 0);
              f = fl_set F f EFlags_OF ((t XOR push_bit 1 t) AND sgn' \<noteq> 0)
          in r\<lparr>r3_eflags := f\<rparr>))
       (thenE
          (whenE (sub \<noteq> 0)
            (let m = push_bit (unat bit') 1
             in write_op F B op (if sub = 1 then v OR m else if sub = 2 then v AND NOT m else v XOR m)))
          (mem_or op 8 4)))))"

definition bt_reg_index :: "eflag_ops \<Rightarrow> 'b I386Bus \<Rightarrow> u8 \<Rightarrow> ('b, u32) exec" where
  "bt_reg_index F B sub =
     bindE (i386_modrm F B) (\<lambda>(m, op).
     bindE (getE c3_osize32) (\<lambda>wide.
     bindE (getR (\<lambda>r. if wide then reg32 r (i386_mreg m) else scast (i386_reg16 r (i386_mreg m)))) (\<lambda>idx.
     case op of
       Operand_Reg _ \<Rightarrow> bt_apply F B op sub (idx AND (if wide then 31 else 15))
     | Operand_Mem sg off \<Rightarrow>
         let (disp, bit') = (if wide then (signed_drop_bit 5 idx * 4, idx AND 31)
                             else (signed_drop_bit 4 idx * 2, idx AND 15)) in
         bindE (getE data_wrap) (\<lambda>wrap.
         bt_apply F B (Operand_Mem sg ((off + disp) AND wrap)) sub bit'))))"

definition bt_imm :: "eflag_ops \<Rightarrow> 'b I386Bus \<Rightarrow> ('b, u32) exec" where
  "bt_imm F B =
     bindE (i386_modrm F B) (\<lambda>(m, op).
     thenE (guardE (i386_mreg m < 4) exc_ud)
    (bindE (fetch8 F B) (\<lambda>imm.
     bindE (getE c3_osize32) (\<lambda>wide.
     bt_apply F B op (i386_mreg m - 4) (ucast imm AND (if wide then 31 else 15))))))"

text \<open>Trailing and leading zeros of a nonzero word of 32 bits.\<close>

fun zeros_from :: "nat \<Rightarrow> u32 \<Rightarrow> nat \<Rightarrow> nat" where
  "zeros_from 0 v i = i"
| "zeros_from (Suc n) v i = (if bit v i then i else zeros_from n v (i + 1))"

definition i386_trailing_zeros :: "u32 \<Rightarrow> u32" where "i386_trailing_zeros v = of_nat (zeros_from 32 v 0)"

fun highest_below :: "nat \<Rightarrow> u32 \<Rightarrow> nat" where
  "highest_below 0 v = 0"
| "highest_below (Suc n) v = (if bit v n then n else highest_below n v)"

definition bsf_flags :: "eflag_ops \<Rightarrow> EFlags \<Rightarrow> u32 \<Rightarrow> u32 \<Rightarrow> u32 \<Rightarrow> bool \<Rightarrow> EFlags" where
  "bsf_flags F f src idx sgn' pf_neg =
     (let f = fl_remove F f EFlags_ZF
      in if idx = 0 then
           let f = fl_set F f EFlags_AF True;
               f = fl_set F f EFlags_CF (drop_bit 1 src AND 1 \<noteq> 0);
               f = fl_set F f EFlags_OF (src AND sgn' \<noteq> 0);
               f = fl_set F f EFlags_SF (src AND sgn' = 0)
           in fl_set F f EFlags_PF pf_neg
         else
           let f = fl_remove F f (fl_union F (fl_union F (fl_union F EFlags_CF EFlags_OF) EFlags_AF) EFlags_SF)
           in fl_set F f EFlags_PF (ones idx mod 2 = 0))"

definition bsr_flags :: "eflag_ops \<Rightarrow> EFlags \<Rightarrow> nat \<Rightarrow> u32 \<Rightarrow> nat \<Rightarrow> u32 \<Rightarrow> u32 \<Rightarrow> bool \<Rightarrow> EFlags" where
  "bsr_flags F f w src idx sgn' neg pf_neg =
     (let sh = w - 1 - idx;
          a = push_bit sh src;
          f = fl_remove F f EFlags_ZF;
          f = fl_set F f EFlags_SF (neg AND sgn' \<noteq> 0);
          f = fl_set F f EFlags_CF (a AND drop_bit 1 sgn' \<noteq> 0);
          f = fl_set F f EFlags_OF (idx = 0 \<or> (drop_bit (w - 2) a XOR drop_bit (w - 3) a) AND 1 \<noteq> 0);
          f = fl_set F f EFlags_PF pf_neg
      in fl_set F f EFlags_AF (src AND 0xF \<noteq> 0))"

definition bit_scan :: "eflag_ops \<Rightarrow> 'b I386Bus \<Rightarrow> bool \<Rightarrow> ('b, u32) exec" where
  "bit_scan F B forward =
     bindE (i386_modrm F B) (\<lambda>(m, op).
     bindE (read_op F B op) (\<lambda>src.
     bindE (getE c3_osize32) (\<lambda>wide.
     let src = (if wide then src else src AND 0xFFFF);
         w = (if wide then 32 else 16);
         sgn' = push_bit (w - 1) 1
     in if src = 0 then
          accumulatorE (\<lambda>r.
            let f = fl_remove F (r3_eflags r)
                      (fl_union F (fl_union F (fl_union F EFlags_CF EFlags_OF) EFlags_AF) EFlags_SF)
            in r\<lparr>r3_eflags := fl_insert F f (fl_union F EFlags_ZF EFlags_PF)\<rparr>) 11
        else
          let neg = - src AND (sgn' OR (sgn' - 1));
              pf_neg = (ones (ucast neg :: u8) mod 2 = 0)
          in if forward then
               let idx = i386_trailing_zeros src in
               thenE (regE (\<lambda>r. r\<lparr>r3_eflags := bsf_flags F (r3_eflags r) src idx sgn' pf_neg\<rparr>))
              (thenE (set_reg_osize (i386_mreg m) idx) (okE 11))
             else
               let idx = highest_below 32 src in
               thenE (regE (\<lambda>r. r\<lparr>r3_eflags := bsr_flags F (r3_eflags r) w src idx sgn' neg pf_neg\<rparr>))
              (thenE (set_reg_osize (i386_mreg m) (of_nat idx)) (okE 11)))))"

subsection \<open>Double shifts\<close>

definition shrd_step32 :: "u32 \<Rightarrow> u32 \<Rightarrow> nat \<Rightarrow> u32" where
  "shrd_step32 dst src k = (if k = 0 then dst else drop_bit k dst OR push_bit (32 - k) src)"

definition shrd_step16 :: "u16 \<Rightarrow> u16 \<Rightarrow> nat \<Rightarrow> u16" where
  "shrd_step16 dst src k =
     (if k = 0 then dst
      else if k \<le> 16 then ucast (drop_bit k (ucast dst :: u32)) OR ucast (push_bit (16 - k) (ucast src :: u32))
      else drop_bit (k - 16) src OR ucast (push_bit (32 - k) (ucast src :: u32)))"

definition shld_step16 :: "u16 \<Rightarrow> u16 \<Rightarrow> nat \<Rightarrow> u16 \<times> bool" where
  "shld_step16 dst src k =
     (if k \<le> 16 then
        let r = ucast (push_bit k (ucast dst :: u32) OR drop_bit (min (16 - k) 31) (ucast src :: u32));
            r = (if k = 16 then src else r)
        in (r, drop_bit (16 - k) (ucast dst :: u32) AND 1 \<noteq> 0)
      else
        (ucast (push_bit (k - 16) (ucast src :: u32) OR drop_bit (32 - k) (ucast src :: u32)),
         drop_bit (32 - k) src AND 1 \<noteq> 0))"

definition shxd32 :: "eflag_ops \<Rightarrow> bool \<Rightarrow> EFlags \<Rightarrow> u32 \<Rightarrow> u32 \<Rightarrow> nat \<Rightarrow> u32 \<times> EFlags" where
  "shxd32 F right' f dst src n =
     (let (r, cf) = (if right' then (shrd_step32 dst src n, drop_bit (n - 1) dst AND 1 \<noteq> 0)
                     else (push_bit n dst OR drop_bit (32 - n) src, drop_bit (32 - n) dst AND 1 \<noteq> 0));
          f = fl_set F f EFlags_CF cf;
          f = (if right' then
                 let prev = (if n = 1 then dst else drop_bit (n - 1) dst OR push_bit (33 - n) src)
                 in fl_set F f EFlags_OF ((r XOR prev) AND 0x80000000 \<noteq> 0)
               else fl_set F f EFlags_OF ((r AND 0x80000000 \<noteq> 0) \<noteq> cf));
          f = fl_insert F f EFlags_AF
      in (r, i386_szp32 F f r))"

definition shxd16 :: "eflag_ops \<Rightarrow> bool \<Rightarrow> EFlags \<Rightarrow> u16 \<Rightarrow> u16 \<Rightarrow> nat \<Rightarrow> u16 \<times> EFlags" where
  "shxd16 F right' f dst src n =
     (let (r, cf) = (if right' then
                       (shrd_step16 dst src n,
                        if n \<le> 16 then drop_bit (n - 1) dst AND 1 \<noteq> 0 else drop_bit (n - 17) src AND 1 \<noteq> 0)
                     else shld_step16 dst src n);
          f = fl_set F f EFlags_CF cf;
          f = (if right' then fl_set F f EFlags_OF ((r XOR shrd_step16 dst src (n - 1)) AND 0x8000 \<noteq> 0)
               else fl_set F f EFlags_OF ((r AND 0x8000 \<noteq> 0) \<noteq> cf));
          f = fl_insert F f EFlags_AF
      in (r, i386_szp16 F f r))"

definition shxd :: "eflag_ops \<Rightarrow> 'b I386Bus \<Rightarrow> bool \<Rightarrow> u32 option \<Rightarrow> ('b, u32) exec" where
  "shxd F B right' count =
     bindE (i386_modrm F B) (\<lambda>(m, op).
     bindE (read_op F B op) (\<lambda>dst.
     bindE (getE (\<lambda>c. if c3_osize32 c then reg32 (c3_regs c) (i386_mreg m)
                      else ucast (i386_reg16 (c3_regs c) (i386_mreg m)))) (\<lambda>src.
     bindE (case count of Some k \<Rightarrow> okE k | None \<Rightarrow> bindE (fetch8 F B) (\<lambda>v. okE (ucast v))) (\<lambda>k.
     let n = unat (k AND 31) in
     if n = 0 then mem_or op 7 3
     else
       bindE (by_osize (flagsE (\<lambda>fl. shxd32 F right' fl dst src n))
               (bindE (flagsE (\<lambda>fl. shxd16 F right' fl (ucast dst) (ucast src) n)) (\<lambda>r. okE (ucast r)))) (\<lambda>r.
       thenE (write_op F B op r) (mem_or op 7 3))))))"

end
