(* ===== verification/X386_Dispatch.thy ===== *)
theory X386_Dispatch
  imports X386_Execute0F
begin

text \<open>
  The instructions newer than the 80386 that \<open>src/x86_32/execute_0f.rs\<close> runs when the host enables them, the
  dispatch of two-byte opcodes, and the dispatch of \<open>src/x86_32/execute.rs\<close> over all sections.
\<close>

subsection \<open>Gated instructions\<close>

definition cmovcc :: "eflag_ops \<Rightarrow> 'b I386Bus \<Rightarrow> u8 \<Rightarrow> ('b, u32) exec" where
  "cmovcc F B cc =
     bindE (i386_modrm F B) (\<lambda>(m, op).
     bindE (read_op F B op) (\<lambda>v.
     bindE (getE (\<lambda>c. i386_cond F (c3_eflags c) cc)) (\<lambda>go.
     thenE (whenE go (set_reg_osize (i386_mreg m) v))
     (mem_or op 5 4))))"

definition cmpxchg8 :: "eflag_ops \<Rightarrow> 'b I386Bus \<Rightarrow> u8 \<Rightarrow> I386Operand \<Rightarrow> ('b, unit) exec" where
  "cmpxchg8 F B r op =
     bindE (i386_read_op8 F B op) (\<lambda>dest.
     bindE (getR (\<lambda>g. i386_reg8 g EAX)) (\<lambda>acc.
     bindE (flagsE (\<lambda>fl. i386_sub F i386_w8 fl acc dest)) (\<lambda>_.
     if acc = dest then bindE (getR (\<lambda>g. i386_reg8 g r)) (i386_write_op8 F B op)
     else regE (i386_set_reg8 EAX dest))))"

definition cmpxchg16 :: "eflag_ops \<Rightarrow> 'b I386Bus \<Rightarrow> u8 \<Rightarrow> I386Operand \<Rightarrow> ('b, unit) exec" where
  "cmpxchg16 F B r op =
     bindE (i386_read_op16 F B op) (\<lambda>dest.
     bindE (getR (\<lambda>g. i386_reg16 g EAX)) (\<lambda>acc.
     bindE (flagsE (\<lambda>fl. i386_sub F i386_w16 fl acc dest)) (\<lambda>_.
     if acc = dest then bindE (getR (\<lambda>g. i386_reg16 g r)) (i386_write_op16 F B op)
     else regE (i386_set_reg16 EAX dest))))"

definition cmpxchg32 :: "eflag_ops \<Rightarrow> 'b I386Bus \<Rightarrow> u8 \<Rightarrow> I386Operand \<Rightarrow> ('b, unit) exec" where
  "cmpxchg32 F B r op =
     bindE (read_op32 F B op) (\<lambda>dest.
     bindE (getR (\<lambda>g. reg32 g EAX)) (\<lambda>acc.
     bindE (flagsE (\<lambda>fl. i386_sub F i386_w32 fl acc dest)) (\<lambda>_.
     if acc = dest then bindE (getR (\<lambda>g. reg32 g r)) (write_op32 F B op)
     else regE (set_reg32 EAX dest))))"

definition cmpxchg :: "eflag_ops \<Rightarrow> 'b I386Bus \<Rightarrow> bool \<Rightarrow> ('b, u32) exec" where
  "cmpxchg F B is_byte =
     bindE (i386_modrm F B) (\<lambda>(m, op).
     thenE (lock_check (operand_is_mem op))
    (thenE
       (if is_byte then cmpxchg8 F B (i386_mreg m) op
        else by_osize (cmpxchg32 F B (i386_mreg m) op) (cmpxchg16 F B (i386_mreg m) op))
       (mem_or op 7 6)))"

definition xadd :: "eflag_ops \<Rightarrow> 'b I386Bus \<Rightarrow> bool \<Rightarrow> ('b, u32) exec" where
  "xadd F B is_byte =
     bindE (i386_modrm F B) (\<lambda>(m, op).
     let r = i386_mreg m in
     thenE (lock_check (operand_is_mem op))
    (thenE
       (if is_byte then
          bindE (i386_read_op8 F B op) (\<lambda>dest.
          bindE (getR (\<lambda>g. i386_reg8 g r)) (\<lambda>src.
          bindE (flagsE (\<lambda>fl. i386_add F i386_w8 fl dest src)) (\<lambda>s.
          thenE (regE (i386_set_reg8 r dest)) (i386_write_op8 F B op s))))
        else
          by_osize
            (bindE (read_op32 F B op) (\<lambda>dest.
             bindE (getR (\<lambda>g. reg32 g r)) (\<lambda>src.
             bindE (flagsE (\<lambda>fl. i386_add F i386_w32 fl dest src)) (\<lambda>s.
             thenE (regE (set_reg32 r dest)) (write_op32 F B op s)))))
            (bindE (i386_read_op16 F B op) (\<lambda>dest.
             bindE (getR (\<lambda>g. i386_reg16 g r)) (\<lambda>src.
             bindE (flagsE (\<lambda>fl. i386_add F i386_w16 fl dest src)) (\<lambda>s.
             thenE (regE (i386_set_reg16 r dest)) (i386_write_op16 F B op s))))))
       (mem_or op 7 6)))"

definition cpuid_leaf :: "u32 \<Rightarrow> u32 \<times> u32 \<times> u32 \<times> u32" where
  "cpuid_leaf leaf =
     (if leaf = 0 then (1, 0x756e6547, 0x6c65746e, 0x49656e69)
      else if leaf = 1 then (0x00000511, 0, 0, 0x00008011)
      else (0, 0, 0, 0))"

definition cpuid :: "X386Registers \<Rightarrow> X386Registers" where
  "cpuid r =
     (let (a, b, c, d) = cpuid_leaf (reg32 r EAX)
      in set_reg32 EDX d (set_reg32 ECX c (set_reg32 EBX b (set_reg32 EAX a r))))"

definition rdtsc :: "('b, u32) exec" where
  "rdtsc =
     bindE (getE c3_cycles) (\<lambda>t.
     thenE (regE (set_reg32 EAX (ucast t)))
     (accumulatorE (set_reg32 EDX (ucast (drop_bit 32 t))) 5))"

text \<open>\<open>swap_bytes\<close>\<close>

definition swap_bytes :: "u32 \<Rightarrow> u32" where
  "swap_bytes v =
     push_bit 24 (v AND 0xFF) OR push_bit 8 (v AND 0xFF00) OR (drop_bit 8 v AND 0xFF00) OR drop_bit 24 v"

definition exec_extensions :: "eflag_ops \<Rightarrow> 'b I386Bus \<Rightarrow> 'b i386_opcodes" where
  "exec_extensions F B op =
     (if 0x18 \<le> op \<and> op \<le> 0x1F then Some (bindE (i386_modrm F B) (\<lambda>_. okE 3))
      else if op = 0x31 then Some rdtsc
      else if 0x40 \<le> op \<and> op \<le> 0x4F then Some (cmovcc F B (op AND 0x0F))
      else if op = 0xA2 then Some (accumulatorE cpuid 14)
      else if op = 0xB0 \<or> op = 0xB1 then Some (cmpxchg F B (op = 0xB0))
      else if op = 0xC0 \<or> op = 0xC1 then Some (xadd F B (op = 0xC0))
      else if 0xC8 \<le> op \<and> op \<le> 0xCF then
        Some (let i = op AND 0x07 in accumulatorE (\<lambda>r. set_reg32 i (swap_bytes (reg32 r i)) r) 6)
      else None)"

subsection \<open>Two-byte opcodes\<close>

definition exec_system :: "eflag_ops \<Rightarrow> 'b I386Bus \<Rightarrow> 'b i386_opcodes" where
  "exec_system F B op =
     (if op = 0x00 then Some (group6 F B)
      else if op = 0x01 then Some (group7 F B)
      else if op = 0x02 then Some (lar_lsl F B False)
      else if op = 0x03 then Some (lar_lsl F B True)
      else if op = 0x06 then Some (clts F)
      else if op = 0x20 then Some (mov_from_cr F B)
      else if op = 0x22 then Some (mov_to_cr F B)
      else if op = 0x21 then Some (mov_from_dr F B)
      else if op = 0x23 then Some (mov_to_dr F B)
      else if op = 0x24 then Some (mov_from_tr F B)
      else if op = 0x26 then Some (mov_to_tr F B)
      else None)"

definition exec_jcc_setcc :: "eflag_ops \<Rightarrow> 'b I386Bus \<Rightarrow> 'b i386_opcodes" where
  "exec_jcc_setcc F B op =
     (if 0x80 \<le> op \<and> op \<le> 0x8F then
        Some (bindE (rel_imm F B) (\<lambda>rel.
              bindE (getE (\<lambda>c. i386_cond F (c3_eflags c) (op AND 0xF))) (\<lambda>go.
              if go then thenE (i386_jump_rel rel) (okE 7) else okE 3)))
      else if 0x90 \<le> op \<and> op \<le> 0x9F then
        Some (bindE (i386_modrm F B) (\<lambda>(_, opd).
              bindE (getE (\<lambda>c. of_bool (i386_cond F (c3_eflags c) (op AND 0xF)))) (\<lambda>v.
              thenE (i386_write_op8 F B opd v) (okE 4))))
      else if op = 0xA0 \<or> op = 0xA8 then
        Some (bindE (getR (\<lambda>r. ucast (seg_sel r (if op = 0xA0 then FS else GS)))) (\<lambda>v.
              thenE (i386_push F B v) (okE 2)))
      else if op = 0xA1 \<or> op = 0xA9 then
        Some (bindE (pop_sreg F B) (\<lambda>v.
              thenE (i386_load_seg F B (if op = 0xA1 then FS else GS) v) (okE 7)))
      else None)"

definition exec_bits :: "eflag_ops \<Rightarrow> 'b I386Bus \<Rightarrow> 'b i386_opcodes" where
  "exec_bits F B op =
     (if op = 0xA3 then Some (bt_reg_index F B 0)
      else if op = 0xAB then Some (bt_reg_index F B 1)
      else if op = 0xB3 then Some (bt_reg_index F B 2)
      else if op = 0xBB then Some (bt_reg_index F B 3)
      else if op = 0xBA then Some (bt_imm F B)
      else if op = 0xA4 then Some (shxd F B False None)
      else if op = 0xA5 then Some (bindE (getR (\<lambda>r. i386_reg8 r 1)) (\<lambda>c. shxd F B False (Some (ucast c))))
      else if op = 0xAC then Some (shxd F B True None)
      else if op = 0xAD then Some (bindE (getR (\<lambda>r. i386_reg8 r 1)) (\<lambda>c. shxd F B True (Some (ucast c))))
      else if op = 0xBC \<or> op = 0xBD then Some (bit_scan F B (op = 0xBC))
      else None)"

text \<open>\<open>MOVZX\<close> and \<open>MOVSX\<close>: \<open>ext\<close> widens the value read.\<close>

definition mov_widened ::
  "eflag_ops \<Rightarrow> 'b I386Bus \<Rightarrow> (I386Operand \<Rightarrow> ('b, 'w) exec) \<Rightarrow> ('w \<Rightarrow> u32) \<Rightarrow> ('b, u32) exec" where
  "mov_widened F B rd widen =
     bindE (i386_modrm F B) (\<lambda>(m, opd).
     bindE (rd opd) (\<lambda>v.
     thenE (set_reg_osize (i386_mreg m) (widen v)) (mem_or opd 6 3)))"

definition imul_rm :: "eflag_ops \<Rightarrow> 'b I386Bus \<Rightarrow> ('b, u32) exec" where
  "imul_rm F B =
     bindE (i386_modrm F B) (\<lambda>(m, op).
     bindE (read_op F B op) (\<lambda>src.
     thenE
       (by_osize
         (bindE (getR (\<lambda>r. reg32 r (i386_mreg m))) (\<lambda>a.
          bindE (flagsE (\<lambda>fl. imul_trunc32 F fl a src)) (\<lambda>r. regE (set_reg32 (i386_mreg m) r))))
         (bindE (getR (\<lambda>r. i386_reg16 r (i386_mreg m))) (\<lambda>a.
          bindE (flagsE (\<lambda>fl. imul_trunc16 F fl a (ucast src))) (\<lambda>r. regE (i386_set_reg16 (i386_mreg m) r)))))
       (mem_or op 22 20)))"

definition exec_widen :: "eflag_ops \<Rightarrow> 'b I386Bus \<Rightarrow> 'b i386_opcodes" where
  "exec_widen F B op =
     (if op = 0xAF then Some (imul_rm F B)
      else if op = 0xB2 \<or> op = 0xB4 \<or> op = 0xB5 then
        Some (les_lds F B (if op = 0xB2 then SS else if op = 0xB4 then FS else GS))
      else if op = 0xB6 then Some (mov_widened F B (i386_read_op8 F B) ucast)
      else if op = 0xB7 then Some (mov_widened F B (i386_read_op16 F B) ucast)
      else if op = 0xBE then Some (mov_widened F B (i386_read_op8 F B) scast)
      else if op = 0xBF then Some (mov_widened F B (i386_read_op16 F B) scast)
      else None)"

text \<open>The first section that has the opcode.\<close>

fun first_section :: "('b i386_opcodes) list \<Rightarrow> 'b i386_opcodes" where
  "first_section [] op = None"
| "first_section (e # es) op = (case e op of Some a \<Rightarrow> Some a | None \<Rightarrow> first_section es op)"

definition lockable_0f :: "bool \<Rightarrow> u8 \<Rightarrow> bool" where
  "lockable_0f ext op \<longleftrightarrow>
     (ext \<and> (op = 0xB0 \<or> op = 0xB1 \<or> op = 0xC0 \<or> op = 0xC1)) \<or>
     op = 0xAB \<or> op = 0xB3 \<or> op = 0xBB \<or> op = 0xBA"

definition dispatch_0f :: "eflag_ops \<Rightarrow> 'b I386Bus \<Rightarrow> u8 \<Rightarrow> ('b, u32) exec" where
  "dispatch_0f F B op =
     bindE (getE (\<lambda>c. (c3_lock c, c3_extensions c))) (\<lambda>(lock, ext).
     thenE (guardE (lock \<and> \<not> lockable_0f ext op) exc_ud)
     (case first_section ([exec_system F B, exec_jcc_setcc F B, exec_bits F B, exec_widen F B] @
             (if ext then [exec_extensions F B] else [])) op of
        Some a \<Rightarrow> a
      | None \<Rightarrow> raiseE exc_ud))"

subsection \<open>One-byte opcodes\<close>

definition i386_exec_escape :: "eflag_ops \<Rightarrow> 'b I386Bus \<Rightarrow> 'b i386_opcodes" where
  "i386_exec_escape F B op = (if op = 0x0F then Some (bindE (fetch8 F B) (dispatch_0f F B)) else None)"

text \<open>The sections of the \<open>match\<close> other than the string operations, which alone can panic or run long.\<close>

definition i386_dispatch :: "eflag_ops \<Rightarrow> 'b I386Bus \<Rightarrow> 'b i386_opcodes" where
  "i386_dispatch F B =
     first_section [i386_exec_alu F B, i386_exec_group1 F B, i386_exec_push_seg F B, i386_exec_escape F B,
       i386_exec_bcd F, i386_exec_inc_dec F, i386_exec_push_pop F B, i386_exec_bound_arpl F B, i386_exec_imm F B,
       i386_exec_jcc F B, i386_exec_test_xchg F B, i386_exec_mov F B, i386_exec_mov_direct F B,
       i386_exec_mov_imm F B, i386_exec_convert F, i386_exec_pushf F B, i386_exec_shift F B, i386_exec_ret_near F B,
       i386_exec_frame F B, i386_exec_ret_int F B, i386_exec_ascii F B, i386_exec_esc F B, i386_exec_loop F B,
       i386_exec_io F B, i386_exec_jump F B, i386_exec_control F, i386_exec_group F B]"

text \<open>The whole \<open>match\<close>. \<open>None\<close> is the \<open>unreachable!\<close> panic: the byte is a prefix.\<close>

definition i386_arm :: "bool \<Rightarrow> eflag_ops \<Rightarrow> 'b I386Bus \<Rightarrow> u8 \<Rightarrow> ('b, u32) panic_exec option" where
  "i386_arm chk F B op =
     (case i386_exec_string chk F B op of
        Some a \<Rightarrow> Some a
      | None \<Rightarrow> map_option (\<lambda>a s. Some (a s)) (i386_dispatch F B op))"

end
