(* ===== verification/X386_Decode.thy ===== *)
theory X386_Decode
  imports X386_Dispatch
begin

text \<open>
  The decoder of \<open>src/x86_32/decode.rs\<close>: \<open>try_decode\<close> turns the bytes of a frequent instruction into the
  register-independent record of \<open>X386_Insn\<close>. The out-parameter \<open>d\<close> is returned with the outcome; after an
  error or \<open>Cold\<close> the caller does not look at it. The re-decode that debug builds compare with is left out.
\<close>

datatype Decoded = Decoded_Hot | Decoded_Cold | Decoded_Cold0F u8

subsection \<open>Effective-address formulas\<close>

definition fetch_rel :: "eflag_ops \<Rightarrow> 'b I386Bus \<Rightarrow> ('b, u32) exec" where
  "fetch_rel F B = by_osize (fetch32 F B) (bindE (fetch16 F B) (\<lambda>v. okE (scast v)))"

definition set_seg_or :: "u8 \<Rightarrow> X386Insn \<Rightarrow> ('b, X386Insn) exec" where
  "set_seg_or dflt d = bindE (getE (\<lambda>c. i386_seg_or c dflt)) (\<lambda>sg. okE (di_set_seg sg d))"

definition ea16_regs :: "u8 \<Rightarrow> u8 \<times> u8 \<times> u8" where
  "ea16_regs i =
     (if i = 0 then (EBX, ESI, DS)
      else if i = 1 then (EBX, EDI, DS)
      else if i = 2 then (EBP, ESI, SS)
      else if i = 3 then (EBP, EDI, SS)
      else if i = 4 then (ESI, reg_NONE, DS)
      else if i = 5 then (EDI, reg_NONE, DS)
      else if i = 6 then (EBP, reg_NONE, SS)
      else (EBX, reg_NONE, DS))"

definition ea16_formula :: "eflag_ops \<Rightarrow> 'b I386Bus \<Rightarrow> I386ModRm \<Rightarrow> X386Insn \<Rightarrow> ('b, X386Insn) exec" where
  "ea16_formula F B m d =
     (if i386_md m = 0 \<and> i386_rm m = 6 then
        bindE (fetch16 F B) (\<lambda>v. set_seg_or DS (d\<lparr>di_disp := ucast v\<rparr>))
      else
        let (base, index, sg) = ea16_regs (i386_rm m) in
        bindE (if i386_md m = 0 then okE 0
               else if i386_md m = 1 then bindE (fetch8 F B) (\<lambda>v. okE (ucast (scast v :: u16)))
               else bindE (fetch16 F B) (\<lambda>v. okE (ucast v))) (\<lambda>disp.
        set_seg_or sg (d\<lparr>di_base := base, di_index := index, di_disp := disp\<rparr>)))"

definition sib_formula :: "eflag_ops \<Rightarrow> 'b I386Bus \<Rightarrow> I386ModRm \<Rightarrow> X386Insn \<Rightarrow> ('b, u8 \<times> X386Insn) exec" where
  "sib_formula F B m d =
     bindE (fetch8 F B) (\<lambda>s.
     let scale = drop_bit 6 s; index = drop_bit 3 s AND 7; base_reg = s AND 7 in
     bindE (if base_reg = 5 \<and> i386_md m = 0
            then bindE (fetch32 F B) (\<lambda>v. okE (DS, False, d\<lparr>di_disp := v\<rparr>))
            else okE (if base_reg = ESP \<or> base_reg = EBP then SS else DS, True, d\<lparr>di_base := base_reg\<rparr>))
       (\<lambda>(sg, scalable, d).
     let d = (if index \<noteq> 4 then set_scale scale (d\<lparr>di_index := index\<rparr>)
              else if scalable then set_scale scale (d\<lparr>di_index := di_base d, di_base := reg_NONE\<rparr>)
              else d)
     in okE (sg, d)))"

definition ea32_formula :: "eflag_ops \<Rightarrow> 'b I386Bus \<Rightarrow> I386ModRm \<Rightarrow> X386Insn \<Rightarrow> ('b, X386Insn) exec" where
  "ea32_formula F B m d =
     (if i386_md m = 0 \<and> i386_rm m = 5 then
        bindE (fetch32 F B) (\<lambda>v. set_seg_or DS (d\<lparr>di_disp := v\<rparr>))
      else
        bindE (if i386_rm m = 4 then sib_formula F B m d
               else okE (if i386_rm m = EBP then SS else DS, d\<lparr>di_base := i386_rm m\<rparr>)) (\<lambda>(sg, d).
        bindE (if i386_md m = 0 then okE 0
               else if i386_md m = 1 then bindE (fetch8 F B) (\<lambda>v. okE (scast v))
               else fetch32 F B) (\<lambda>disp.
        set_seg_or sg (d\<lparr>di_disp := di_disp d + disp\<rparr>))))"

definition decode_modrm :: "eflag_ops \<Rightarrow> 'b I386Bus \<Rightarrow> X386Insn \<Rightarrow> ('b, u8 \<times> X386Insn) exec" where
  "decode_modrm F B d =
     bindE (fetch8 F B) (\<lambda>m.
     let d = d\<lparr>di_reg := i386_mreg m\<rparr> in
     if i386_md m = 3 then okE (i386_mreg m, (set_kind OpKind_Reg d)\<lparr>di_base := i386_rm m\<rparr>)
     else
       let d = set_kind OpKind_Mem d in
       bindE (getE c3_asize32) (\<lambda>wide.
       bindE (if wide then ea32_formula F B m d else ea16_formula F B m d) (\<lambda>d.
       okE (i386_mreg m, d))))"

definition ea_operand :: "X386Insn \<Rightarrow> I386Cpu \<Rightarrow> I386Operand" where
  "ea_operand d c =
     (if di_kind d = OpKind_Reg then Operand_Reg (di_base d)
      else
        let off = di_disp d;
            off = (if di_base d \<noteq> reg_NONE then off + r3_gpr (c3_regs c) (di_base d AND 7) else off);
            off = (if di_index d \<noteq> reg_NONE
                   then off + push_bit (unat (di_scale d)) (r3_gpr (c3_regs c) (di_index d AND 7)) else off);
            off = (if \<not> di_asize32 d then off AND 0xFFFF else off)
        in Operand_Mem (di_seg d) off)"

subsection \<open>Decoding an opcode\<close>

type_synonym 'b decode_arms = "u8 \<Rightarrow> X386Insn \<Rightarrow> ('b, Decoded \<times> X386Insn) exec option"

definition hotE :: "X386Insn \<Rightarrow> ('b, Decoded \<times> X386Insn) exec" where "hotE d = okE (Decoded_Hot, d)"

definition hot_modrm :: "eflag_ops \<Rightarrow> 'b I386Bus \<Rightarrow> X386Insn \<Rightarrow> ('b, Decoded \<times> X386Insn) exec" where
  "hot_modrm F B d = bindE (decode_modrm F B d) (\<lambda>(_, d). hotE d)"

definition hot_imm :: "('b, u32) exec \<Rightarrow> X386Insn \<Rightarrow> ('b, Decoded \<times> X386Insn) exec" where
  "hot_imm imm d = bindE imm (\<lambda>v. hotE (d\<lparr>di_imm := v\<rparr>))"

definition fetch_u8 :: "eflag_ops \<Rightarrow> 'b I386Bus \<Rightarrow> ('b, u32) exec" where
  "fetch_u8 F B = bindE (fetch8 F B) (\<lambda>v. okE (ucast v))"

text \<open>ModRM with the sub-opcode, the operation and then an immediate.\<close>

definition hot_group_imm ::
  "eflag_ops \<Rightarrow> 'b I386Bus \<Rightarrow> ('b, u32) exec \<Rightarrow> X386Insn \<Rightarrow> ('b, Decoded \<times> X386Insn) exec" where
  "hot_group_imm F B imm d =
     bindE (decode_modrm F B d) (\<lambda>(sub, d). hot_imm imm (set_wb (sub \<noteq> 7) (d\<lparr>di_aux := sub\<rparr>)))"

definition decode_alu :: "eflag_ops \<Rightarrow> 'b I386Bus \<Rightarrow> 'b decode_arms" where
  "decode_alu F B op d =
     (let i = drop_bit 3 op in
      if op AND 0xC7 = 0 then Some (hot_modrm F B (set_wb (op \<noteq> 0x38) (d\<lparr>di_op := AluRmR8, di_aux := i\<rparr>)))
      else if op AND 0xC7 = 1 then Some (hot_modrm F B (set_wb (op \<noteq> 0x39) (d\<lparr>di_op := AluRmRW, di_aux := i\<rparr>)))
      else if op AND 0xC7 = 2 then Some (hot_modrm F B (set_wb (op \<noteq> 0x3A) (d\<lparr>di_op := AluRRm8, di_aux := i\<rparr>)))
      else if op AND 0xC7 = 3 then Some (hot_modrm F B (set_wb (op \<noteq> 0x3B) (d\<lparr>di_op := AluRRmW, di_aux := i\<rparr>)))
      else if op AND 0xC7 = 4 then
        Some (hot_imm (fetch_u8 F B) (set_wb (op \<noteq> 0x3C) (d\<lparr>di_op := AluAccImm8, di_aux := i\<rparr>)))
      else if op AND 0xC7 = 5 then
        Some (hot_imm (i386_fetch_imm F B) (set_wb (op \<noteq> 0x3D) (d\<lparr>di_op := AluAccImmW, di_aux := i\<rparr>)))
      else if op = 0x80 \<or> op = 0x82 then Some (hot_group_imm F B (fetch_u8 F B) (d\<lparr>di_op := AluGrpImm8\<rparr>))
      else if op = 0x81 \<or> op = 0x83 then
        Some (hot_group_imm F B (if op = 0x81 then i386_fetch_imm F B else fetch_s8 F B) (d\<lparr>di_op := AluGrpImmW\<rparr>))
      else if op = 0x84 then Some (hot_modrm F B (d\<lparr>di_op := AluRmR8, di_aux := 4\<rparr>))
      else if op = 0x85 then Some (hot_modrm F B (d\<lparr>di_op := AluRmRW, di_aux := 4\<rparr>))
      else if op = 0xA8 then Some (hot_imm (fetch_u8 F B) (d\<lparr>di_op := AluAccImm8, di_aux := 4\<rparr>))
      else if op = 0xA9 then Some (hot_imm (i386_fetch_imm F B) (d\<lparr>di_op := AluAccImmW, di_aux := 4\<rparr>))
      else None)"

definition hot_mov_imm ::
  "eflag_ops \<Rightarrow> 'b I386Bus \<Rightarrow> ('b, u32) exec \<Rightarrow> X386Insn \<Rightarrow> ('b, Decoded \<times> X386Insn) exec" where
  "hot_mov_imm F B imm d =
     bindE (decode_modrm F B d) (\<lambda>(sub, d). thenE (guardE (sub \<noteq> 0) exc_ud) (hot_imm imm d))"

definition decode_mov :: "eflag_ops \<Rightarrow> 'b I386Bus \<Rightarrow> 'b decode_arms" where
  "decode_mov F B op d =
     (if op = 0x88 then Some (hot_modrm F B (d\<lparr>di_op := MovRmR8\<rparr>))
      else if op = 0x89 then Some (hot_modrm F B (d\<lparr>di_op := MovRmRW\<rparr>))
      else if op = 0x8A then Some (hot_modrm F B (d\<lparr>di_op := MovRRm8\<rparr>))
      else if op = 0x8B then Some (hot_modrm F B (d\<lparr>di_op := MovRRmW\<rparr>))
      else if op = 0x8D then
        Some (bindE (decode_modrm F B (d\<lparr>di_op := Lea\<rparr>)) (\<lambda>(_, d).
              thenE (guardE (di_kind d \<noteq> OpKind_Mem) exc_ud) (hotE d)))
      else if 0xB0 \<le> op \<and> op \<le> 0xB7 then
        Some (hot_imm (fetch_u8 F B) (d\<lparr>di_op := MovRegImm8, di_reg := op AND 7\<rparr>))
      else if 0xB8 \<le> op \<and> op \<le> 0xBF then
        Some (hot_imm (i386_fetch_imm F B) (d\<lparr>di_op := MovRegImmW, di_reg := op AND 7\<rparr>))
      else if op = 0xC6 then Some (hot_mov_imm F B (fetch_u8 F B) (d\<lparr>di_op := MovRmImm8\<rparr>))
      else if op = 0xC7 then Some (hot_mov_imm F B (i386_fetch_imm F B) (d\<lparr>di_op := MovRmImmW\<rparr>))
      else if op = 0x68 then Some (hot_imm (i386_fetch_imm F B) (d\<lparr>di_op := PushImm\<rparr>))
      else if op = 0x6A then Some (hot_imm (fetch_s8 F B) (d\<lparr>di_op := PushImm\<rparr>))
      else if op = 0x69 \<or> op = 0x6B then
        Some (bindE (decode_modrm F B (d\<lparr>di_op := ImulRmImm\<rparr>)) (\<lambda>(_, d).
              hot_imm (if op = 0x69 then i386_fetch_imm F B else fetch_s8 F B) d))
      else if op = 0x86 then Some (hot_modrm F B (d\<lparr>di_op := XchgRm8\<rparr>))
      else if op = 0x87 then Some (hot_modrm F B (d\<lparr>di_op := XchgRmW\<rparr>))
      else if 0x90 \<le> op \<and> op \<le> 0x97 then Some (hotE (d\<lparr>di_op := XchgAcc, di_reg := op AND 7\<rparr>))
      else None)"

definition decode_reg :: "'b decode_arms" where
  "decode_reg op d =
     (if 0x40 \<le> op \<and> op \<le> 0x47 then Some (hotE (d\<lparr>di_op := IncReg, di_reg := op AND 7\<rparr>))
      else if 0x48 \<le> op \<and> op \<le> 0x4F then Some (hotE (d\<lparr>di_op := DecReg, di_reg := op AND 7\<rparr>))
      else if 0x50 \<le> op \<and> op \<le> 0x57 then Some (hotE (d\<lparr>di_op := PushReg, di_reg := op AND 7\<rparr>))
      else if 0x58 \<le> op \<and> op \<le> 0x5F then Some (hotE (d\<lparr>di_op := PopReg, di_reg := op AND 7\<rparr>))
      else None)"

definition decode_shift ::
  "eflag_ops \<Rightarrow> 'b I386Bus \<Rightarrow> X386Op \<Rightarrow> u8 \<Rightarrow> ('b, u32) exec \<Rightarrow> X386Insn \<Rightarrow> ('b, Decoded \<times> X386Insn) exec" where
  "decode_shift F B sop cl imm d =
     bindE (decode_modrm F B (d\<lparr>di_op := sop\<rparr>)) (\<lambda>(sub, d). hot_imm imm (d\<lparr>di_aux := sub OR cl\<rparr>))"

definition decode_group :: "eflag_ops \<Rightarrow> 'b I386Bus \<Rightarrow> 'b decode_arms" where
  "decode_group F B op d =
     (if op = 0xFE then
        Some (bindE (decode_modrm F B (d\<lparr>di_op := IncDecRm8\<rparr>)) (\<lambda>(sub, d).
              thenE (guardE (sub > 1) exc_ud) (hotE (d\<lparr>di_aux := sub\<rparr>))))
      else if op = 0xFF then
        Some (bindE (decode_modrm F B d) (\<lambda>(sub, d).
              let d = d\<lparr>di_aux := sub\<rparr> in
              if sub = 0 \<or> sub = 1 then hotE (d\<lparr>di_op := IncDecRmW\<rparr>)
              else if sub = 2 then hotE (d\<lparr>di_op := CallRm\<rparr>)
              else if sub = 4 then hotE (d\<lparr>di_op := JmpRm\<rparr>)
              else if sub = 6 then hotE (d\<lparr>di_op := PushRm\<rparr>)
              else okE (Decoded_Cold, d)))
      else if op = 0xC0 then Some (decode_shift F B ShiftRm8 0 (fetch_u8 F B) d)
      else if op = 0xC1 then Some (decode_shift F B ShiftRmW 0 (fetch_u8 F B) d)
      else if op = 0xD0 then Some (decode_shift F B ShiftRm8 0 (okE 1) d)
      else if op = 0xD1 then Some (decode_shift F B ShiftRmW 0 (okE 1) d)
      else if op = 0xD2 then Some (decode_shift F B ShiftRm8 0x80 (okE (di_imm d)) d)
      else if op = 0xD3 then Some (decode_shift F B ShiftRmW 0x80 (okE (di_imm d)) d)
      else None)"

definition decode_flow :: "eflag_ops \<Rightarrow> 'b I386Bus \<Rightarrow> 'b decode_arms" where
  "decode_flow F B op d =
     (if 0x70 \<le> op \<and> op \<le> 0x7F then Some (hot_imm (fetch_s8 F B) (d\<lparr>di_op := Jcc, di_aux := op AND 0xF\<rparr>))
      else if op = 0xE8 then Some (hot_imm (fetch_rel F B) (d\<lparr>di_op := CallRel\<rparr>))
      else if op = 0xE9 then Some (hot_imm (fetch_rel F B) (d\<lparr>di_op := JmpRel\<rparr>))
      else if op = 0xEB then Some (hot_imm (fetch_s8 F B) (d\<lparr>di_op := JmpRel\<rparr>))
      else if op = 0xC3 then Some (hotE (d\<lparr>di_op := RetNear\<rparr>))
      else if op = 0xC2 then
        Some (hot_imm (bindE (fetch16 F B) (\<lambda>v. okE (ucast v))) (d\<lparr>di_op := RetNearImm\<rparr>))
      else None)"

definition decode_escape :: "eflag_ops \<Rightarrow> 'b I386Bus \<Rightarrow> bool \<Rightarrow> u8 \<Rightarrow> X386Insn \<Rightarrow> ('b, Decoded \<times> X386Insn) exec" where
  "decode_escape F B ext op2 d =
     (if 0x80 \<le> op2 \<and> op2 \<le> 0x8F then hot_imm (fetch_rel F B) (d\<lparr>di_op := Jcc, di_aux := op2 AND 0xF\<rparr>)
      else if op2 = 0xAF then hot_modrm F B (d\<lparr>di_op := ImulRRmW\<rparr>)
      else if op2 = 0xB6 then hot_modrm F B (d\<lparr>di_op := MovzxB\<rparr>)
      else if op2 = 0xB7 then hot_modrm F B (d\<lparr>di_op := MovzxW\<rparr>)
      else if op2 = 0xBE then hot_modrm F B (d\<lparr>di_op := MovsxB\<rparr>)
      else if op2 = 0xBF then hot_modrm F B (d\<lparr>di_op := MovsxW\<rparr>)
      else if 0x90 \<le> op2 \<and> op2 \<le> 0x9F then hot_modrm F B (d\<lparr>di_op := Setcc, di_aux := op2 AND 0xF\<rparr>)
      else if 0x40 \<le> op2 \<and> op2 \<le> 0x4F \<and> ext then hot_modrm F B (d\<lparr>di_op := CmovW, di_aux := op2 AND 0xF\<rparr>)
      else okE (Decoded_Cold0F op2, d))"

fun first_arm :: "('b decode_arms) list \<Rightarrow> 'b decode_arms" where
  "first_arm [] op d = None"
| "first_arm (e # es) op d = (case e op d of Some a \<Rightarrow> Some a | None \<Rightarrow> first_arm es op d)"

definition decode_op :: "eflag_ops \<Rightarrow> 'b I386Bus \<Rightarrow> u8 \<Rightarrow> ('b, Decoded \<times> X386Insn) exec" where
  "decode_op F B op =
     bindE (getE (\<lambda>c. X386Insn_new (c3_osize32 c) (c3_asize32 c) (c3_seg_override c))) (\<lambda>d.
     if op = 0x0F then
       bindE (fetch8 F B) (\<lambda>op2. bindE (getE c3_extensions) (\<lambda>ext. decode_escape F B ext op2 d))
     else
       case first_arm [decode_alu F B, decode_mov F B, decode_reg, decode_group F B, decode_flow F B] op d of
         Some a \<Rightarrow> a
       | None \<Rightarrow> okE (Decoded_Cold, d))"

text \<open>An error and \<open>Cold\<close> rewind EIP and the length counter; other effects of the attempt stay.\<close>

definition try_decode :: "eflag_ops \<Rightarrow> 'b I386Bus \<Rightarrow> u8 \<Rightarrow> u32 \<Rightarrow> ('b, Decoded \<times> X386Insn) exec" where
  "try_decode F B op npfx = (\<lambda>(c, b).
     if npfx > 7 then (Inr (Decoded_Cold, X386Insn_default), c, b)
     else
       let eip0 = r3_eip (c3_regs c);
           ilen0 = c3_ilen c;
           rewind = (\<lambda>c. (c3_reg (\<lambda>r. r\<lparr>r3_eip := eip0\<rparr>) c)\<lparr>c3_ilen := ilen0\<rparr>)
       in case decode_op F B op (c, b) of
            (Inr (Decoded_Hot, d), c, b) \<Rightarrow>
              (Inr (Decoded_Hot, set_npfx (ucast npfx) (d\<lparr>di_len := c3_ilen c\<rparr>)), c, b)
          | (Inr (Decoded_Cold0F op2, d), c, b) \<Rightarrow> (Inr (Decoded_Cold0F op2, d), c, b)
          | (Inr (Decoded_Cold, d), c, b) \<Rightarrow> (Inr (Decoded_Cold, d), rewind c, b)
          | (Inl _, c, b) \<Rightarrow> (Inr (Decoded_Cold, X386Insn_default), rewind c, b))"

text \<open>What a cache hit restores before it executes.\<close>

definition begin_decoded :: "X386Insn \<Rightarrow> I386Cpu \<Rightarrow> I386Cpu" where
  "begin_decoded d c =
     (c3_reg (\<lambda>r. r\<lparr>r3_eip := c3_start_eip c + ucast (di_len d)\<rparr>) c)
       \<lparr>c3_seg_override := di_seg_override d, c3_commit_on_fault := False, c3_cold_saved := False,
        c3_supervisor := False, c3_osize32 := di_osize32 d, c3_asize32 := di_asize32 d\<rparr>"

end
