(* ===== verification/X386_ExecDecoded.thy ===== *)
theory X386_ExecDecoded
  imports X386_Decode
begin

text \<open>
  \<open>i386_exec_decoded\<close> of \<open>src/x86_32/decode.rs\<close>: one definition per arm of its \<open>match\<close>, or per group of arms that
  are a line each. EIP already points past the instruction.
\<close>

definition operandE :: "X386Insn \<Rightarrow> ('b, I386Operand) exec" where "operandE d = getE (ea_operand d)"

subsection \<open>Arithmetic\<close>

definition hot_AluRmR8 :: "eflag_ops \<Rightarrow> 'b I386Bus \<Rightarrow> X386Insn \<Rightarrow> ('b, u32) exec" where
  "hot_AluRmR8 F B d =
     bindE (operandE d) (\<lambda>op.
     bindE (i386_read_op8 F B op) (\<lambda>a.
     bindE (getR (\<lambda>r. i386_reg8 r (di_reg d))) (\<lambda>b.
     bindE (flagsE (\<lambda>fl. (i386_ALU8 F ! unat (di_aux d)) fl a b)) (\<lambda>r.
     thenE (whenE (di_wb d) (i386_write_op8 F B op r))
     (mem_or op 7 2)))))"

definition hot_AluRmRW :: "eflag_ops \<Rightarrow> 'b I386Bus \<Rightarrow> X386Insn \<Rightarrow> ('b, u32) exec" where
  "hot_AluRmRW F B d =
     bindE (operandE d) (\<lambda>op.
     thenE
       (by_osize
         (bindE (read_op32 F B op) (\<lambda>a.
          bindE (getR (\<lambda>r. reg32 r (di_reg d))) (\<lambda>b.
          bindE (flagsE (\<lambda>fl. (ALU32 F ! unat (di_aux d)) fl a b)) (\<lambda>r.
          whenE (di_wb d) (write_op32 F B op r)))))
         (bindE (i386_read_op16 F B op) (\<lambda>a.
          bindE (getR (\<lambda>r. i386_reg16 r (di_reg d))) (\<lambda>b.
          bindE (flagsE (\<lambda>fl. (i386_ALU16 F ! unat (di_aux d)) fl a b)) (\<lambda>r.
          whenE (di_wb d) (i386_write_op16 F B op r))))))
       (mem_or op 7 2))"

definition hot_AluRRm8 :: "eflag_ops \<Rightarrow> 'b I386Bus \<Rightarrow> X386Insn \<Rightarrow> ('b, u32) exec" where
  "hot_AluRRm8 F B d =
     bindE (operandE d) (\<lambda>op.
     bindE (getR (\<lambda>r. i386_reg8 r (di_reg d))) (\<lambda>a.
     bindE (i386_read_op8 F B op) (\<lambda>b.
     bindE (flagsE (\<lambda>fl. (i386_ALU8 F ! unat (di_aux d)) fl a b)) (\<lambda>r.
     thenE (whenE (di_wb d) (regE (i386_set_reg8 (di_reg d) r)))
     (mem_or op 6 2)))))"

definition hot_AluRRmW :: "eflag_ops \<Rightarrow> 'b I386Bus \<Rightarrow> X386Insn \<Rightarrow> ('b, u32) exec" where
  "hot_AluRRmW F B d =
     bindE (operandE d) (\<lambda>op.
     thenE
       (by_osize
         (bindE (getR (\<lambda>r. reg32 r (di_reg d))) (\<lambda>a.
          bindE (read_op32 F B op) (\<lambda>b.
          bindE (flagsE (\<lambda>fl. (ALU32 F ! unat (di_aux d)) fl a b)) (\<lambda>r.
          whenE (di_wb d) (regE (set_reg32 (di_reg d) r))))))
         (bindE (getR (\<lambda>r. i386_reg16 r (di_reg d))) (\<lambda>a.
          bindE (i386_read_op16 F B op) (\<lambda>b.
          bindE (flagsE (\<lambda>fl. (i386_ALU16 F ! unat (di_aux d)) fl a b)) (\<lambda>r.
          whenE (di_wb d) (regE (i386_set_reg16 (di_reg d) r)))))))
       (mem_or op 6 2))"

definition hot_AluAccImm8 :: "eflag_ops \<Rightarrow> X386Insn \<Rightarrow> ('b, u32) exec" where
  "hot_AluAccImm8 F d =
     bindE (getR (\<lambda>r. i386_reg8 r 0)) (\<lambda>a.
     bindE (flagsE (\<lambda>fl. (i386_ALU8 F ! unat (di_aux d)) fl a (ucast (di_imm d)))) (\<lambda>r.
     thenE (whenE (di_wb d) (regE (i386_set_reg8 0 r))) (okE 2)))"

definition hot_AluAccImmW :: "eflag_ops \<Rightarrow> X386Insn \<Rightarrow> ('b, u32) exec" where
  "hot_AluAccImmW F d =
     thenE
       (by_osize
         (bindE (getR (\<lambda>r. r3_gpr r 0)) (\<lambda>a.
          bindE (flagsE (\<lambda>fl. (ALU32 F ! unat (di_aux d)) fl a (di_imm d))) (\<lambda>r.
          whenE (di_wb d) (set_eax r))))
         (bindE (getR (\<lambda>r. i386_reg16 r 0)) (\<lambda>a.
          bindE (flagsE (\<lambda>fl. (i386_ALU16 F ! unat (di_aux d)) fl a (ucast (di_imm d)))) (\<lambda>r.
          whenE (di_wb d) (regE (i386_set_reg16 0 r))))))
       (okE 2)"

definition hot_AluGrpImm8 :: "eflag_ops \<Rightarrow> 'b I386Bus \<Rightarrow> X386Insn \<Rightarrow> ('b, u32) exec" where
  "hot_AluGrpImm8 F B d =
     bindE (operandE d) (\<lambda>op.
     bindE (i386_read_op8 F B op) (\<lambda>a.
     bindE (flagsE (\<lambda>fl. (i386_ALU8 F ! unat (di_aux d)) fl a (ucast (di_imm d)))) (\<lambda>r.
     thenE (whenE (di_wb d) (i386_write_op8 F B op r))
     (mem_or op 7 2))))"

definition hot_AluGrpImmW :: "eflag_ops \<Rightarrow> 'b I386Bus \<Rightarrow> X386Insn \<Rightarrow> ('b, u32) exec" where
  "hot_AluGrpImmW F B d =
     bindE (operandE d) (\<lambda>op.
     bindE (read_op F B op) (\<lambda>a.
     bindE (alu_at_osize F (di_aux d) a (di_imm d)) (\<lambda>r.
     thenE (whenE (di_wb d) (write_op F B op r))
     (mem_or op 7 2))))"

definition hot_IncDecRm8 :: "eflag_ops \<Rightarrow> 'b I386Bus \<Rightarrow> X386Insn \<Rightarrow> ('b, u32) exec" where
  "hot_IncDecRm8 F B d =
     bindE (operandE d) (\<lambda>op.
     bindE (i386_read_op8 F B op) (\<lambda>v.
     bindE (flagsE (\<lambda>fl. if di_aux d = 0 then i386_inc F i386_w8 fl v else i386_dec F i386_w8 fl v)) (\<lambda>r.
     thenE (i386_write_op8 F B op r) (mem_or op 6 2))))"

definition hot_IncDecRmW :: "eflag_ops \<Rightarrow> 'b I386Bus \<Rightarrow> X386Insn \<Rightarrow> ('b, u32) exec" where
  "hot_IncDecRmW F B d =
     bindE (operandE d) (\<lambda>op.
     bindE (read_op F B op) (\<lambda>v.
     bindE (inc_dec_at_osize F (di_aux d = 0) v) (\<lambda>r.
     thenE (write_op F B op r) (mem_or op 6 2))))"

definition hot_shift_count :: "X386Insn \<Rightarrow> ('b, u32) exec" where
  "hot_shift_count d =
     (if di_aux d AND 0x80 \<noteq> 0 then getR (\<lambda>r. ucast (i386_reg8 r 1)) else okE (di_imm d))"

definition hot_ShiftRm8 :: "eflag_ops \<Rightarrow> 'b I386Bus \<Rightarrow> X386Insn \<Rightarrow> ('b, u32) exec" where
  "hot_ShiftRm8 F B d =
     bindE (operandE d) (\<lambda>op.
     bindE (i386_read_op8 F B op) (\<lambda>v.
     bindE (hot_shift_count d) (\<lambda>n.
     bindE (flagsE (\<lambda>fl. i386_shift_dispatch8 F (di_aux d AND 7) fl v n)) (\<lambda>r.
     thenE (i386_write_op8 F B op r) (mem_or op 7 3)))))"

definition hot_ShiftRmW :: "eflag_ops \<Rightarrow> 'b I386Bus \<Rightarrow> X386Insn \<Rightarrow> ('b, u32) exec" where
  "hot_ShiftRmW F B d =
     bindE (operandE d) (\<lambda>op.
     bindE (read_op F B op) (\<lambda>v.
     bindE (hot_shift_count d) (\<lambda>n.
     bindE (i386_shift_dispatch F (di_aux d AND 7) v n) (\<lambda>r.
     thenE (write_op F B op r) (mem_or op 7 3)))))"

definition hot_ImulRRmW :: "eflag_ops \<Rightarrow> 'b I386Bus \<Rightarrow> X386Insn \<Rightarrow> ('b, u32) exec" where
  "hot_ImulRRmW F B d =
     bindE (operandE d) (\<lambda>op.
     bindE (read_op F B op) (\<lambda>src.
     thenE
       (by_osize
         (bindE (getR (\<lambda>r. reg32 r (di_reg d))) (\<lambda>a.
          bindE (flagsE (\<lambda>fl. imul_trunc32 F fl a src)) (\<lambda>r. regE (set_reg32 (di_reg d) r))))
         (bindE (getR (\<lambda>r. i386_reg16 r (di_reg d))) (\<lambda>a.
          bindE (flagsE (\<lambda>fl. imul_trunc16 F fl a (ucast src))) (\<lambda>r. regE (i386_set_reg16 (di_reg d) r)))))
       (mem_or op 22 20)))"

definition hot_ImulRmImm :: "eflag_ops \<Rightarrow> 'b I386Bus \<Rightarrow> X386Insn \<Rightarrow> ('b, u32) exec" where
  "hot_ImulRmImm F B d =
     bindE (operandE d) (\<lambda>op.
     bindE (read_op F B op) (\<lambda>a.
     thenE
       (by_osize
         (bindE (flagsE (\<lambda>fl. imul_trunc32 F fl a (di_imm d))) (\<lambda>r. regE (set_reg32 (di_reg d) r)))
         (bindE (flagsE (\<lambda>fl. imul_trunc16 F fl (ucast a) (ucast (di_imm d)))) (\<lambda>r.
          regE (i386_set_reg16 (di_reg d) r))))
       (mem_or op 22 20)))"

subsection \<open>Moves\<close>

definition hot_MovRm8 :: "eflag_ops \<Rightarrow> 'b I386Bus \<Rightarrow> X386Insn \<Rightarrow> ('b, u32) exec" where
  "hot_MovRm8 F B d =
     bindE (operandE d) (\<lambda>op.
     bindE (getR (\<lambda>r. i386_reg8 r (di_reg d))) (\<lambda>v.
     thenE (i386_write_op8 F B op v) (okE 2)))"

definition hot_MovRmRW :: "eflag_ops \<Rightarrow> 'b I386Bus \<Rightarrow> X386Insn \<Rightarrow> ('b, u32) exec" where
  "hot_MovRmRW F B d =
     bindE (operandE d) (\<lambda>op.
     thenE
       (by_osize (bindE (getR (\<lambda>r. reg32 r (di_reg d))) (write_op32 F B op))
          (bindE (getR (\<lambda>r. i386_reg16 r (di_reg d))) (i386_write_op16 F B op)))
       (okE 2))"

definition hot_MovRRm8 :: "eflag_ops \<Rightarrow> 'b I386Bus \<Rightarrow> X386Insn \<Rightarrow> ('b, u32) exec" where
  "hot_MovRRm8 F B d =
     bindE (operandE d) (\<lambda>op.
     bindE (i386_read_op8 F B op) (\<lambda>v.
     thenE (regE (i386_set_reg8 (di_reg d) v)) (mem_or op 4 2)))"

definition hot_MovRRmW :: "eflag_ops \<Rightarrow> 'b I386Bus \<Rightarrow> X386Insn \<Rightarrow> ('b, u32) exec" where
  "hot_MovRRmW F B d =
     bindE (operandE d) (\<lambda>op.
     thenE
       (by_osize (bindE (read_op32 F B op) (\<lambda>v. regE (set_reg32 (di_reg d) v)))
          (bindE (i386_read_op16 F B op) (\<lambda>v. regE (i386_set_reg16 (di_reg d) v))))
       (mem_or op 4 2))"

definition hot_Lea :: "X386Insn \<Rightarrow> ('b, u32) exec" where
  "hot_Lea d =
     bindE (operandE d) (\<lambda>op.
     case op of
       Operand_Reg _ \<Rightarrow> raiseE exc_ud
     | Operand_Mem _ off \<Rightarrow> thenE (set_reg_osize (di_reg d) off) (okE 2))"

definition hot_XchgRm8 :: "eflag_ops \<Rightarrow> 'b I386Bus \<Rightarrow> X386Insn \<Rightarrow> ('b, u32) exec" where
  "hot_XchgRm8 F B d =
     bindE (operandE d) (\<lambda>op.
     bindE (i386_read_op8 F B op) (\<lambda>a.
     bindE (getR (\<lambda>r. i386_reg8 r (di_reg d))) (\<lambda>b.
     thenE (i386_write_op8 F B op b)
    (thenE (regE (i386_set_reg8 (di_reg d) a))
     (mem_or op 5 3)))))"

definition hot_XchgRmW :: "eflag_ops \<Rightarrow> 'b I386Bus \<Rightarrow> X386Insn \<Rightarrow> ('b, u32) exec" where
  "hot_XchgRmW F B d =
     bindE (operandE d) (\<lambda>op.
     bindE (read_op F B op) (\<lambda>a.
     bindE (getR (\<lambda>r. reg32 r (di_reg d))) (\<lambda>b.
     thenE
       (by_osize
         (thenE (write_op32 F B op b) (regE (set_reg32 (di_reg d) a)))
         (thenE (i386_write_op16 F B op (ucast b)) (regE (i386_set_reg16 (di_reg d) (ucast a)))))
       (mem_or op 5 3))))"

definition hot_widened ::
  "(I386Operand \<Rightarrow> ('b, 'w) exec) \<Rightarrow> ('w \<Rightarrow> u32) \<Rightarrow> X386Insn \<Rightarrow> ('b, u32) exec" where
  "hot_widened rd widen d =
     bindE (operandE d) (\<lambda>op.
     bindE (rd op) (\<lambda>v.
     thenE (set_reg_osize (di_reg d) (widen v)) (mem_or op 6 3)))"

definition hot_Setcc :: "eflag_ops \<Rightarrow> 'b I386Bus \<Rightarrow> X386Insn \<Rightarrow> ('b, u32) exec" where
  "hot_Setcc F B d =
     bindE (operandE d) (\<lambda>op.
     bindE (getE (\<lambda>c. of_bool (i386_cond F (c3_eflags c) (di_aux d)))) (\<lambda>v.
     thenE (i386_write_op8 F B op v) (okE 4)))"

definition hot_CmovW :: "eflag_ops \<Rightarrow> 'b I386Bus \<Rightarrow> X386Insn \<Rightarrow> ('b, u32) exec" where
  "hot_CmovW F B d =
     bindE (operandE d) (\<lambda>op.
     bindE (read_op F B op) (\<lambda>v.
     bindE (getE (\<lambda>c. i386_cond F (c3_eflags c) (di_aux d))) (\<lambda>go.
     thenE (whenE go (set_reg_osize (di_reg d) v))
     (mem_or op 5 4))))"

subsection \<open>Control flow\<close>

definition hot_CallRm :: "eflag_ops \<Rightarrow> 'b I386Bus \<Rightarrow> X386Insn \<Rightarrow> ('b, u32) exec" where
  "hot_CallRm F B d =
     bindE (operandE d) (\<lambda>op.
     bindE (read_op F B op) (\<lambda>v.
     bindE (getR r3_eip) (\<lambda>ret'.
     thenE (i386_push F B ret') (thenE (i386_set_ip v) (mem_or op 10 7)))))"

definition hot_JmpRm :: "eflag_ops \<Rightarrow> 'b I386Bus \<Rightarrow> X386Insn \<Rightarrow> ('b, u32) exec" where
  "hot_JmpRm F B d =
     bindE (operandE d) (\<lambda>op. bindE (read_op F B op) (\<lambda>v. thenE (i386_set_ip v) (mem_or op 10 7)))"

definition hot_PushRm :: "eflag_ops \<Rightarrow> 'b I386Bus \<Rightarrow> X386Insn \<Rightarrow> ('b, u32) exec" where
  "hot_PushRm F B d =
     bindE (operandE d) (\<lambda>op. bindE (read_op F B op) (\<lambda>v. thenE (i386_push F B v) (mem_or op 5 2)))"

definition hot_Jcc :: "eflag_ops \<Rightarrow> X386Insn \<Rightarrow> ('b, u32) exec" where
  "hot_Jcc F d =
     bindE (getE (\<lambda>c. i386_cond F (c3_eflags c) (di_aux d))) (\<lambda>go.
     if go then thenE (i386_jump_rel (di_imm d)) (okE 7) else okE 3)"

subsection \<open>One-line arms\<close>

definition hot_MovRegImm8 :: "X386Insn \<Rightarrow> ('b, u32) exec" where
  "hot_MovRegImm8 d =
     thenE (regE (i386_set_reg8 (di_reg d) (ucast (di_imm d)))) (okE 2)"

definition hot_MovRegImmW :: "X386Insn \<Rightarrow> ('b, u32) exec" where
  "hot_MovRegImmW d =
     thenE (set_reg_osize (di_reg d) (di_imm d)) (okE 2)"

definition hot_MovRmImm8 :: "eflag_ops \<Rightarrow> 'b I386Bus \<Rightarrow> X386Insn \<Rightarrow> ('b, u32) exec" where
  "hot_MovRmImm8 F B d =
     bindE (operandE d) (\<lambda>op. thenE (i386_write_op8 F B op (ucast (di_imm d))) (okE 2))"

definition hot_MovRmImmW :: "eflag_ops \<Rightarrow> 'b I386Bus \<Rightarrow> X386Insn \<Rightarrow> ('b, u32) exec" where
  "hot_MovRmImmW F B d =
     bindE (operandE d) (\<lambda>op. thenE (write_op F B op (di_imm d)) (okE 2))"

definition hot_IncReg :: "eflag_ops \<Rightarrow> X386Insn \<Rightarrow> ('b, u32) exec" where
  "hot_IncReg F d =
     inc_dec_reg (i386_inc F i386_w32) (i386_inc F i386_w16) (di_reg d)"

definition hot_DecReg :: "eflag_ops \<Rightarrow> X386Insn \<Rightarrow> ('b, u32) exec" where
  "hot_DecReg F d =
     inc_dec_reg (i386_dec F i386_w32) (i386_dec F i386_w16) (di_reg d)"

definition hot_PushReg :: "eflag_ops \<Rightarrow> 'b I386Bus \<Rightarrow> X386Insn \<Rightarrow> ('b, u32) exec" where
  "hot_PushReg F B d =
     bindE (getR (\<lambda>r. reg32 r (di_reg d))) (\<lambda>v. thenE (i386_push F B v) (okE 2))"

definition hot_PopReg :: "eflag_ops \<Rightarrow> 'b I386Bus \<Rightarrow> X386Insn \<Rightarrow> ('b, u32) exec" where
  "hot_PopReg F B d =
     thenE (pop_to_reg F B (di_reg d)) (okE 4)"

definition hot_JmpRel :: "X386Insn \<Rightarrow> ('b, u32) exec" where
  "hot_JmpRel d =
     thenE (i386_jump_rel (di_imm d)) (okE 7)"

definition hot_CallRel :: "eflag_ops \<Rightarrow> 'b I386Bus \<Rightarrow> X386Insn \<Rightarrow> ('b, u32) exec" where
  "hot_CallRel F B d =
     bindE (getR r3_eip) (\<lambda>ret'. thenE (i386_push F B ret') (thenE (i386_jump_rel (di_imm d)) (okE 7)))"

definition hot_RetNear :: "eflag_ops \<Rightarrow> 'b I386Bus \<Rightarrow> X386Insn \<Rightarrow> ('b, u32) exec" where
  "hot_RetNear F B d =
     bindE (i386_pop F B) (\<lambda>ip. thenE (i386_set_ip ip) (okE 10))"

definition hot_RetNearImm :: "eflag_ops \<Rightarrow> 'b I386Bus \<Rightarrow> X386Insn \<Rightarrow> ('b, u32) exec" where
  "hot_RetNearImm F B d =
     bindE (i386_pop F B) (\<lambda>ip. thenE (i386_set_ip ip) (thenE (modE (adjust_sp (di_imm d))) (okE 10)))"

definition hot_PushImm :: "eflag_ops \<Rightarrow> 'b I386Bus \<Rightarrow> X386Insn \<Rightarrow> ('b, u32) exec" where
  "hot_PushImm F B d =
     thenE (i386_push F B (di_imm d)) (okE 2)"

definition hot_XchgAcc :: "X386Insn \<Rightarrow> ('b, u32) exec" where
  "hot_XchgAcc d =
     xchg_acc (di_reg d)"

definition hot_MovzxB :: "eflag_ops \<Rightarrow> 'b I386Bus \<Rightarrow> X386Insn \<Rightarrow> ('b, u32) exec" where
  "hot_MovzxB F B d =
     hot_widened (i386_read_op8 F B) ucast d"

definition hot_MovzxW :: "eflag_ops \<Rightarrow> 'b I386Bus \<Rightarrow> X386Insn \<Rightarrow> ('b, u32) exec" where
  "hot_MovzxW F B d =
     hot_widened (i386_read_op16 F B) ucast d"

definition hot_MovsxB :: "eflag_ops \<Rightarrow> 'b I386Bus \<Rightarrow> X386Insn \<Rightarrow> ('b, u32) exec" where
  "hot_MovsxB F B d =
     hot_widened (i386_read_op8 F B) scast d"

definition hot_MovsxW :: "eflag_ops \<Rightarrow> 'b I386Bus \<Rightarrow> X386Insn \<Rightarrow> ('b, u32) exec" where
  "hot_MovsxW F B d =
     hot_widened (i386_read_op16 F B) scast d"

subsection \<open>The match\<close>

definition i386_exec_decoded :: "eflag_ops \<Rightarrow> 'b I386Bus \<Rightarrow> X386Insn \<Rightarrow> ('b, u32) exec" where
  "i386_exec_decoded F B d =
     (case di_op d of
        AluRmR8 \<Rightarrow> hot_AluRmR8 F B d
      | AluRmRW \<Rightarrow> hot_AluRmRW F B d
      | AluRRm8 \<Rightarrow> hot_AluRRm8 F B d
      | AluRRmW \<Rightarrow> hot_AluRRmW F B d
      | AluAccImm8 \<Rightarrow> hot_AluAccImm8 F d
      | AluAccImmW \<Rightarrow> hot_AluAccImmW F d
      | AluGrpImm8 \<Rightarrow> hot_AluGrpImm8 F B d
      | AluGrpImmW \<Rightarrow> hot_AluGrpImmW F B d
      | MovRmR8 \<Rightarrow> hot_MovRm8 F B d
      | MovRmRW \<Rightarrow> hot_MovRmRW F B d
      | MovRRm8 \<Rightarrow> hot_MovRRm8 F B d
      | MovRRmW \<Rightarrow> hot_MovRRmW F B d
      | MovRegImm8 \<Rightarrow> hot_MovRegImm8 d
      | MovRegImmW \<Rightarrow> hot_MovRegImmW d
      | MovRmImm8 \<Rightarrow> hot_MovRmImm8 F B d
      | MovRmImmW \<Rightarrow> hot_MovRmImmW F B d
      | Lea \<Rightarrow> hot_Lea d
      | IncReg \<Rightarrow> hot_IncReg F d
      | DecReg \<Rightarrow> hot_DecReg F d
      | PushReg \<Rightarrow> hot_PushReg F B d
      | PopReg \<Rightarrow> hot_PopReg F B d
      | IncDecRm8 \<Rightarrow> hot_IncDecRm8 F B d
      | IncDecRmW \<Rightarrow> hot_IncDecRmW F B d
      | CallRm \<Rightarrow> hot_CallRm F B d
      | JmpRm \<Rightarrow> hot_JmpRm F B d
      | PushRm \<Rightarrow> hot_PushRm F B d
      | ShiftRm8 \<Rightarrow> hot_ShiftRm8 F B d
      | ShiftRmW \<Rightarrow> hot_ShiftRmW F B d
      | Jcc \<Rightarrow> hot_Jcc F d
      | JmpRel \<Rightarrow> hot_JmpRel d
      | CallRel \<Rightarrow> hot_CallRel F B d
      | RetNear \<Rightarrow> hot_RetNear F B d
      | RetNearImm \<Rightarrow> hot_RetNearImm F B d
      | ImulRRmW \<Rightarrow> hot_ImulRRmW F B d
      | PushImm \<Rightarrow> hot_PushImm F B d
      | ImulRmImm \<Rightarrow> hot_ImulRmImm F B d
      | XchgRm8 \<Rightarrow> hot_XchgRm8 F B d
      | XchgRmW \<Rightarrow> hot_XchgRmW F B d
      | XchgAcc \<Rightarrow> hot_XchgAcc d
      | MovzxB \<Rightarrow> hot_MovzxB F B d
      | MovzxW \<Rightarrow> hot_MovzxW F B d
      | MovsxB \<Rightarrow> hot_MovsxB F B d
      | MovsxW \<Rightarrow> hot_MovsxW F B d
      | Setcc \<Rightarrow> hot_Setcc F B d
      | CmovW \<Rightarrow> hot_CmovW F B d)"

end
