(* ===== verification/X386_Step.thy ===== *)
theory X386_Step
  imports X386_ExecDecoded
begin

text \<open>
  Instruction boundaries of \<open>src/x86_32/mod.rs\<close>: \<open>exec_one\<close> with the decoded-instruction cache, the fault
  epilogue, \<open>step\<close> and the interpreter's run loop. \<open>None\<close> is a panic, or a loop that does not end;
  \<open>chk\<close> says whether the build checks integer overflow. The build without the optional JIT is
  modelled, where \<open>run\<close> is \<open>run_interp\<close>; the rewind check and the cache check of debug builds are left out.
\<close>

subsection \<open>One instruction\<close>

definition icache_hit :: "I386Cpu \<Rightarrow> u32 \<Rightarrow> X386Insn option" where
  "icache_hit c phys =
     (let ic = c3_icache c;
          e = i3_entries ic (phys AND (I386_ICACHE_ENTRIES - 1))
      in if i3_key e = ucast phys OR icache_ctx c \<and>
            i3_version e \<ge> i3_stamps ic (drop_bit 12 phys AND (I386_STAMP_SLOTS - 1)) \<and>
            i3_version e \<ge> i3_inval ic \<and>
            (ucast (c3_start_eip c) :: u64) + ucast (di_len (i3_insn e) - 1) \<le> ucast (sr_limit (c3_seg c CS))
         then Some (i3_insn e) else None)"

text \<open>The decode state an instruction starts with.\<close>

definition clear_decode :: "I386Cpu \<Rightarrow> I386Cpu" where
  "clear_decode c =
     c\<lparr>c3_ilen := 0, c3_seg_override := None, c3_rep := None, c3_lock := False, c3_lock_ok := False,
       c3_commit_on_fault := False, c3_cold_saved := False, c3_supervisor := False\<rparr>"

text \<open>\<open>cycles + n\<close>: the sum panics on overflow in a build with overflow checks.\<close>

definition count_cycles ::
  "bool \<Rightarrow> u32 \<Rightarrow> (I386Exception + u32) \<times> I386Cpu \<times> 'b \<Rightarrow> ((I386Exception + u32) \<times> I386Cpu \<times> 'b) option" where
  "count_cycles chk cycles = (\<lambda>(r, s).
     case r of
       Inl e \<Rightarrow> Some (Inl e, s)
     | Inr n \<Rightarrow> if chk \<and> unat cycles + unat n \<ge> 2 ^ 32 then None else Some (Inr (cycles + n), s))"

definition after_prefixes :: "bool \<Rightarrow> eflag_ops \<Rightarrow> 'b I386Bus \<Rightarrow> u8 \<Rightarrow> u32 \<Rightarrow> ('b, u32) panic_exec" where
  "after_prefixes chk F B opcode npfx s =
     Option.bind (i386_arm chk F B opcode) (\<lambda>action.
     Option.bind (action s) (\<lambda>t.
     map_option (\<lambda>(r, c, b). case r of
         Inl e \<Rightarrow> (Inl e, c, b)
       | Inr n \<Rightarrow> if c3_lock c \<and> \<not> c3_lock_ok c then (Inl exc_ud, c, b) else (Inr n, c, b))
       (count_cycles chk npfx t)))"

definition exec_opcode :: "bool \<Rightarrow> eflag_ops \<Rightarrow> 'b I386Bus \<Rightarrow> u32 option \<Rightarrow> u8 \<Rightarrow> u32 \<Rightarrow> ('b, u32) panic_exec" where
  "exec_opcode chk F B probe opcode npfx = (\<lambda>(c, b).
     if c3_lock c \<and> opcode \<noteq> 0x0F \<and> \<not> LOCK_CANDIDATE opcode then Some (Inl exc_ud, c, b)
     else if \<not> c3_lock c \<and> c3_rep c = None then
       (case try_decode F B opcode npfx (c, b) of
          (Inr (Decoded_Hot, d), c, b) \<Rightarrow>
            let c = (case probe of Some phys \<Rightarrow> i386_icache_fill phys d c | None \<Rightarrow> c)
            in count_cycles chk npfx (i386_exec_decoded F B d (c, b))
        | (Inr (Decoded_Cold0F op2, d), c, b) \<Rightarrow> count_cycles chk npfx (dispatch_0f F B op2 (c, b))
        | (Inr (Decoded_Cold, d), c, b) \<Rightarrow> after_prefixes chk F B opcode npfx (c, b)
        | (Inl e, c, b) \<Rightarrow> Some (Inl e, c, b))
     else after_prefixes chk F B opcode npfx (c, b))"

definition i386_exec_fused :: "bool \<Rightarrow> eflag_ops \<Rightarrow> 'b I386Bus \<Rightarrow> u32 option \<Rightarrow> ('b, u32) panic_exec" where
  "i386_exec_fused chk F B probe = (\<lambda>(c, b).
     case scan_prefixes F B (clear_decode c, b) of
       (Inl e, c, b) \<Rightarrow> Some (Inl e, c, b)
     | (Inr None, c, b) \<Rightarrow> None
     | (Inr (Some (opcode, npfx)), c, b) \<Rightarrow> exec_opcode chk F B probe opcode npfx (c, b))"

definition i386_exec_one :: "bool \<Rightarrow> eflag_ops \<Rightarrow> 'b I386Bus \<Rightarrow> ('b, u32) panic_exec" where
  "i386_exec_one chk F B = (\<lambda>(c, b).
     let c = c\<lparr>c3_start_eip := r3_eip (c3_regs c)\<rparr>;
         probe = icache_phys F c
     in case Option.bind probe (icache_hit c) of
          Some d \<Rightarrow> count_cycles chk (ucast (di_npfx d)) (i386_exec_decoded F B d (begin_decoded d c, b))
        | None \<Rightarrow> i386_exec_fused chk F B probe (c, b))"

subsection \<open>Faults\<close>

text \<open>The rewind: progress of string instructions stays, anything else goes back to the saved registers.\<close>

definition fault_rewind :: "(u8 \<Rightarrow> u32) \<Rightarrow> I386Cpu \<Rightarrow> I386Cpu" where
  "fault_rewind saved_gpr c =
     (if c3_commit_on_fault c then c3_reg (\<lambda>r. r\<lparr>r3_eip := c3_start_eip c\<rparr>) c
      else
        let r = c3_regs c;
            r = (if c3_cold_saved c then (c3_fault_regs c)\<lparr>r3_eflags := r3_eflags r, r3_cr2 := r3_cr2 r\<rparr> else r)
        in c\<lparr>c3_regs := r\<lparr>r3_gpr := saved_gpr, r3_eip := c3_start_eip c\<rparr>\<rparr>)"

definition i386_add_cycles :: "u32 \<Rightarrow> I386Cpu \<Rightarrow> I386Cpu" where
  "i386_add_cycles n c = c\<lparr>c3_cycles := c3_cycles c + ucast n\<rparr>"

text \<open>The first component is the result: \<open>None\<close> when the host takes the fault.\<close>

definition i386_fault_epilogue ::
  "eflag_ops \<Rightarrow> 'b I386Bus \<Rightarrow> I386Exception \<Rightarrow> (u8 \<Rightarrow> u32) \<Rightarrow> I386Cpu \<times> 'b \<Rightarrow> u32 option \<times> I386Cpu \<times> 'b" where
  "i386_fault_epilogue F B e saved_gpr = (\<lambda>(c, b).
     let c = fault_rewind saved_gpr c
     in if c3_trap_faults c then
          (None, i386_add_cycles I386_INTERRUPT_CYCLES (i386_set_host_trap (I386_Exception e) c), b)
        else (Some I386_INTERRUPT_CYCLES, deliver F B e Ev_Fault (c, b)))"

subsection \<open>Steps\<close>

definition i386_step_fast :: "bool \<Rightarrow> eflag_ops \<Rightarrow> 'b I386Bus \<Rightarrow> I386Cpu \<times> 'b \<Rightarrow> (u32 \<times> I386Cpu \<times> 'b) option" where
  "i386_step_fast chk F B = (\<lambda>(c, b).
     let saved_gpr = r3_gpr (c3_regs c)
     in case i386_exec_one chk F B (c, b) of
          None \<Rightarrow> None
        | Some (Inr n, c, b) \<Rightarrow> Some (n, i386_add_cycles n c, b)
        | Some (Inl e, s) \<Rightarrow>
            (case i386_fault_epilogue F B e saved_gpr s of
               (None, c, b) \<Rightarrow> Some (I386_INTERRUPT_CYCLES, c, b)
             | (Some n, c, b) \<Rightarrow> Some (n, i386_add_cycles n c, b)))"

text \<open>The single-step trap after an instruction that started with \<open>TF\<close>.\<close>

definition single_step ::
  "bool \<Rightarrow> eflag_ops \<Rightarrow> 'b I386Bus \<Rightarrow> bool \<Rightarrow> u32 \<Rightarrow> I386Cpu \<times> 'b \<Rightarrow> (u32 \<times> I386Cpu \<times> 'b) option" where
  "single_step chk F B trap n = (\<lambda>(c, b).
     if trap \<and> fl_contains F (c3_eflags c) EFlags_TF \<and> c3_events c AND I386_EVT_INHIBIT = 0 then
       let (c, b) = deliver F B \<lparr>ex_vector = 1, ex_error = None\<rparr> Ev_Fault (c, b)
       in if chk \<and> unat n + unat I386_INTERRUPT_CYCLES \<ge> 2 ^ 32 then None
          else let n = n + I386_INTERRUPT_CYCLES in Some (n, i386_add_cycles n c, b)
     else Some (n, i386_add_cycles n c, b))"

text \<open>The interrupt a boundary takes: NMI before INTR, INTR only with \<open>IF\<close> set.\<close>

definition i386_pending :: "eflag_ops \<Rightarrow> I386Cpu \<Rightarrow> (u8 \<times> I386Cpu) option" where
  "i386_pending F c =
     (if c3_events c AND I386_EVT_NMI \<noteq> 0 then
        Some (2, c\<lparr>c3_events := c3_events c AND NOT I386_EVT_NMI, c3_halted := False\<rparr>)
      else case c3_intr c of
        Some vector \<Rightarrow>
          if fl_contains F (c3_eflags c) EFlags_IF then
            Some (vector, c\<lparr>c3_intr := None, c3_events := c3_events c AND NOT I386_EVT_INTR, c3_halted := False\<rparr>)
          else None
      | None \<Rightarrow> None)"

definition i386_step_slow :: "bool \<Rightarrow> eflag_ops \<Rightarrow> 'b I386Bus \<Rightarrow> I386Cpu \<times> 'b \<Rightarrow> (u32 \<times> I386Cpu \<times> 'b) option" where
  "i386_step_slow chk F B = (\<lambda>(c, b).
     let c = c\<lparr>c3_events := c3_events c AND NOT I386_EVT_HOST_TRAP\<rparr>
     in if c3_shutdown c then Some (1, i386_add_cycles 1 c, b)
        else
          let inhibited = (c3_events c AND I386_EVT_INHIBIT \<noteq> 0);
              c = c\<lparr>c3_events := c3_events c AND NOT I386_EVT_INHIBIT\<rparr>
          in case (if inhibited then None else i386_pending F c) of
               Some (vector, c) \<Rightarrow>
                 let (c, b) = deliver F B \<lparr>ex_vector = vector, ex_error = None\<rparr> Ev_External (c, b)
                 in Some (I386_INTERRUPT_CYCLES, i386_add_cycles I386_INTERRUPT_CYCLES c, b)
             | None \<Rightarrow>
                 if c3_halted c then Some (1, i386_add_cycles 1 c, b)
                 else
                   let trap = fl_contains F (c3_eflags c) EFlags_TF;
                       saved_gpr = r3_gpr (c3_regs c)
                   in case i386_exec_one chk F B (c, b) of
                        None \<Rightarrow> None
                      | Some (Inr n, s) \<Rightarrow> single_step chk F B trap n s
                      | Some (Inl e, s) \<Rightarrow>
                          (case i386_fault_epilogue F B e saved_gpr s of
                             (None, c, b) \<Rightarrow> Some (I386_INTERRUPT_CYCLES, c, b)
                           | (Some n, s) \<Rightarrow> single_step chk F B trap n s))"

definition i386_step :: "bool \<Rightarrow> eflag_ops \<Rightarrow> 'b I386Bus \<Rightarrow> I386Cpu \<times> 'b \<Rightarrow> (u32 \<times> I386Cpu \<times> 'b) option" where
  "i386_step chk F B = (\<lambda>(c, b).
     if i386_boundary_pending c then i386_step_slow chk F B (c, b) else i386_step_fast chk F B (c, b))"

subsection \<open>Batches\<close>

datatype I386RunExit = I386_Completed | I386_Halted | I386_Shutdown | I386_HostTrap

text \<open>The first component is the result: an exit, or \<open>None\<close> after a step.\<close>

definition i386_run_boundary ::
  "bool \<Rightarrow> eflag_ops \<Rightarrow> 'b I386Bus \<Rightarrow> I386Cpu \<times> 'b \<Rightarrow> (I386RunExit option \<times> I386Cpu \<times> 'b) option" where
  "i386_run_boundary chk F B = (\<lambda>(c, b).
     if c3_host_trap c \<noteq> None then
       Some (Some I386_HostTrap, c\<lparr>c3_events := c3_events c AND NOT I386_EVT_HOST_TRAP\<rparr>, b)
     else if c3_shutdown c then Some (Some I386_Shutdown, c, b)
     else if c3_halted c \<and> \<not> i386_interrupt_pending F c then Some (Some I386_Halted, c, b)
     else map_option (\<lambda>(_, c, b). (None, c, b)) (i386_step_slow chk F B (c, b)))"

text \<open>The \<open>while\<close> loop: \<open>n\<close> instructions are left, \<open>executed\<close> are done.\<close>

fun i386_run_loop ::
  "bool \<Rightarrow> eflag_ops \<Rightarrow> 'b I386Bus \<Rightarrow> nat \<Rightarrow> u64 \<Rightarrow> I386Cpu \<times> 'b \<Rightarrow> (u64 \<times> I386RunExit \<times> I386Cpu \<times> 'b) option" where
  "i386_run_loop chk F B 0 executed (c, b) = Some (executed, I386_Completed, c, b)"
| "i386_run_loop chk F B (Suc n) executed (c, b) =
     (if i386_boundary_pending c then
        (case i386_run_boundary chk F B (c, b) of
           None \<Rightarrow> None
         | Some (Some exit, c, b) \<Rightarrow> Some (executed, exit, c, b)
         | Some (None, c, b) \<Rightarrow> i386_run_loop chk F B n (executed + 1) (c, b))
      else
        (case i386_step_fast chk F B (c, b) of
           None \<Rightarrow> None
         | Some (_, c, b) \<Rightarrow> i386_run_loop chk F B n (executed + 1) (c, b)))"

definition run_interp ::
  "bool \<Rightarrow> eflag_ops \<Rightarrow> 'b I386Bus \<Rightarrow> u64 \<Rightarrow> I386Cpu \<times> 'b \<Rightarrow> (u64 \<times> I386RunExit \<times> I386Cpu \<times> 'b) option" where
  "run_interp chk F B n = (\<lambda>(c, b).
     if c3_host_trap c \<noteq> None then Some (0, I386_HostTrap, c, b)
     else i386_run_loop chk F B (unat n) 0 (c, b))"

definition i386_run ::
  "bool \<Rightarrow> eflag_ops \<Rightarrow> 'b I386Bus \<Rightarrow> u64 \<Rightarrow> I386Cpu \<times> 'b \<Rightarrow> (u64 \<times> I386RunExit \<times> I386Cpu \<times> 'b) option" where
  "i386_run chk F B n = run_interp chk F B n"

end
