(* ===== verification/X386_Orders.thy ===== *)
theory X386_Orders
  imports X386_Step
begin

text \<open>
  Frame reasoning for the 80386 model: which part of the processor an action may change, as a preorder
  on processor states that the action stays within. Three interfaces say what an order lets an action do,
  each adding to the one before: memory access, instruction fetch, and the registers and flags of ordinary
  instructions. The actions of the model are shown once to stay within every order of the interface they
  need; the theories that follow instantiate the orders.
\<close>

named_theorems order_rules

definition within :: "(I386Cpu \<Rightarrow> I386Cpu \<Rightarrow> bool) \<Rightarrow> ('b, 'a) exec \<Rightarrow> bool" where
  "within R m \<longleftrightarrow> (\<forall>c b. R c (fst (snd (m (c, b)))))"

lemma withinI: "(\<And>c b r c' b'. m (c, b) = (r, c', b') \<Longrightarrow> R c c') \<Longrightarrow> within R m"
  unfolding within_def by (metis prod.collapse)

lemma withinD: "within R m \<Longrightarrow> m (c, b) = (r, c', b') \<Longrightarrow> R c c'"
  unfolding within_def by (metis fst_conv snd_conv)

lemma within_mono: "within R m \<Longrightarrow> (\<And>c c'. R c c' \<Longrightarrow> S c c') \<Longrightarrow> within S m"
  unfolding within_def by blast

lemma within_if: "(p \<Longrightarrow> within R a) \<Longrightarrow> (\<not> p \<Longrightarrow> within R b) \<Longrightarrow> within R (if p then a else b)"
  by simp

lemma within_cases:
  "(x = None \<Longrightarrow> within R a) \<Longrightarrow> (\<And>v. x = Some v \<Longrightarrow> within R (g v)) \<Longrightarrow>
     within R (case x of None \<Rightarrow> a | Some v \<Rightarrow> g v)"
  "(\<And>i. opd = Operand_Reg i \<Longrightarrow> within R (h i)) \<Longrightarrow> (\<And>sg off. opd = Operand_Mem sg off \<Longrightarrow> within R (k sg off)) \<Longrightarrow>
     within R (case opd of Operand_Reg i \<Rightarrow> h i | Operand_Mem sg off \<Rightarrow> k sg off)"
  "(\<And>u v. within R (f u v)) \<Longrightarrow> within R (case q of (u, v) \<Rightarrow> f u v)"
  by (simp_all split: option.split I386Operand.split prod.split)

lemma within_primitive:
  "within R (modE f) \<longleftrightarrow> (\<forall>c. R c (f c))"
  "within R (regE g) \<longleftrightarrow> (\<forall>c. R c (c\<lparr>c3_regs := g (c3_regs c)\<rparr>))"
  by (auto simp: within_def modE_def regE_def)

text \<open>The same of an action that may panic, wherever it returns, and of a section of such actions.\<close>

definition panic_within :: "(I386Cpu \<Rightarrow> I386Cpu \<Rightarrow> bool) \<Rightarrow> ('b, 'a) panic_exec \<Rightarrow> bool" where
  "panic_within R m \<longleftrightarrow> (\<forall>s t. m s = Some t \<longrightarrow> R (fst s) (fst (snd t)))"

definition panic_arm_within :: "(I386Cpu \<Rightarrow> I386Cpu \<Rightarrow> bool) \<Rightarrow> ('b, 'a) panic_exec option \<Rightarrow> bool" where
  "panic_arm_within R x \<longleftrightarrow> (\<forall>m. x = Some m \<longrightarrow> panic_within R m)"

lemma panic_withinD: "panic_within R m \<Longrightarrow> m (c, b) = Some (r, c', b') \<Longrightarrow> R c c'"
  unfolding panic_within_def by (metis fst_conv snd_conv)

lemma panic_arm_mono: "panic_arm_within R x \<Longrightarrow> (\<And>c c'. R c c' \<Longrightarrow> U c c') \<Longrightarrow> panic_arm_within U x"
  unfolding panic_arm_within_def panic_within_def by blast

lemma panic_arm_withinD: "panic_arm_within R x \<Longrightarrow> x = Some m \<Longrightarrow> m (c, b) = Some (r, c', b') \<Longrightarrow> R c c'"
  unfolding panic_arm_within_def by (blast dest: panic_withinD)

text \<open>The same of a section of the opcode \<open>match\<close> at one opcode.\<close>

definition arm_within :: "(I386Cpu \<Rightarrow> I386Cpu \<Rightarrow> bool) \<Rightarrow> ('b, 'a) exec option \<Rightarrow> bool" where
  "arm_within R x \<longleftrightarrow> (\<forall>a. x = Some a \<longrightarrow> within R a)"

lemma arm_withinD: "arm_within R x \<Longrightarrow> x = Some a \<Longrightarrow> within R a"
  unfolding arm_within_def by blast

lemma arm_within_rules [order_rules]:
  "arm_within R None" "within R a \<Longrightarrow> arm_within R (Some a)"
  "(p \<Longrightarrow> arm_within R x) \<Longrightarrow> (\<not> p \<Longrightarrow> arm_within R y) \<Longrightarrow> arm_within R (if p then x else y)"
  by (auto simp: arm_within_def)

lemma arm_case: "arm_within R x \<Longrightarrow> within R a \<Longrightarrow> within R (case x of None \<Rightarrow> a | Some v \<Rightarrow> v)"
  by (auto simp: arm_within_def split: option.split)

lemma first_section_within [order_rules]:
  "arm_within R (first_section [] op)"
  "arm_within R (e op) \<Longrightarrow> arm_within R (first_section es op) \<Longrightarrow> arm_within R (first_section (e # es) op)"
  by (auto simp: arm_within_def split: option.splits)

lemma first_arm_within [order_rules]:
  "arm_within R (first_arm [] op d)"
  "arm_within R (e op d) \<Longrightarrow> arm_within R (first_arm es op d) \<Longrightarrow> arm_within R (first_arm (e # es) op d)"
  by (auto simp: arm_within_def split: option.splits)

subsection \<open>Orders\<close>

locale cpu_order =
  fixes R :: "I386Cpu \<Rightarrow> I386Cpu \<Rightarrow> bool"
  assumes refl: "R c c"
    and trans: "R c d \<Longrightarrow> R d e \<Longrightarrow> R c e"
begin

lemma bind [order_rules]:
  assumes m: "within R m" and f: "\<And>a. within R (f a)"
  shows "within R (bindE m f)"
proof (rule withinI)
  fix c b r c' b' assume "bindE m f (c, b) = (r, c', b')"
  then show "R c c'"
    using m f trans unfolding within_def bindE_def
    by (auto split: prod.split_asm sum.split_asm) (metis fst_conv snd_conv)+
qed

lemma follow [order_rules]: "within R m \<Longrightarrow> within R n \<Longrightarrow> within R (thenE m n)"
  unfolding thenE_def by (rule bind)

lemma pure [order_rules]:
  "within R (okE a)" "within R (raiseE e)" "within R (getE g)" "within R (checkE k)" "within R (guardE p e)"
  "within R (inE i)" "within R (outE j)" "within R (getR h)" "within R (mem_or opd n1 n2)"
  by (simp_all add: within_def okE_def raiseE_def getE_def checkE_def guardE_def inE_def outE_def getR_def mem_or_def
      refl split: prod.split)

lemma control [order_rules]:
  "within R a \<Longrightarrow> within R b \<Longrightarrow> within R (by_osize a b)"
  "(p \<Longrightarrow> within R m) \<Longrightarrow> within R (whenE p m)"
  "within R a \<Longrightarrow> within R b \<Longrightarrow> within R (if_paging a b)"
  unfolding by_osize_def whenE_def if_paging_def by (auto intro!: bind pure)

lemmas branch [order_rules] = within_if within_cases

lemma push_all [order_rules]: "(\<And>v. within R (g v)) \<Longrightarrow> within R (push_all g vs)"
  by (induction vs) (simp_all add: order_rules)

end

text \<open>Memory access moves the TLB, the decoded-instruction cache, CR2 and the supervisor override.\<close>

locale memory_order = cpu_order +
  assumes tlb: "R c (c\<lparr>c3_tlb := t\<rparr>)"
    and icache: "R c (c\<lparr>c3_icache := i\<rparr>)"
    and cr2: "R c (c\<lparr>c3_regs := (c3_regs c)\<lparr>r3_cr2 := v\<rparr>\<rparr>)"
    and supervisor: "R c (c\<lparr>c3_supervisor := s\<rparr>)"
begin

lemma walk [order_rules]: "within R (walk F B lin w)"
  unfolding walk_def page_fault_def write_entry_def Let_def
  by (intro order_rules; simp add: within_primitive tlb_insert_def tlb icache cr2)

lemma translate [order_rules]: "within R (translate F B lin w)"
  unfolding translate_def by (intro order_rules)

lemma stamp [order_rules]: "within R (stampE f)"
  unfolding stampE_def by (simp add: within_primitive icache)

lemma lin_read [order_rules]:
  "within R (lin_read8 F B lin)" "within R (lin_read16 F B lin)" "within R (lin_read32 F B lin)"
  unfolding lin_read32_def lin_read16_def lin_read8_def by (intro order_rules)+

lemma lin_write [order_rules]:
  "within R (lin_write8 F B lin v8)" "within R (lin_write16 F B lin v16)" "within R (lin_write32 F B lin v32)"
  unfolding lin_write32_def lin_write16_def lin_write8_def by (intro order_rules)+

lemma supervised [order_rules]:
  assumes "within R m" shows "within R (as_supervisor m)"
proof (rule withinI)
  fix c b r c' b' assume run: "as_supervisor m (c, b) = (r, c', b')"
  obtain q d e where m: "m (c\<lparr>c3_supervisor := True\<rparr>, b) = (q, d, e)" by (metis prod.exhaust)
  have "R c (c\<lparr>c3_supervisor := True\<rparr>)" "R (c\<lparr>c3_supervisor := True\<rparr>) d" using supervisor withinD [OF assms m] by auto
  moreover have "c' = d\<lparr>c3_supervisor := c3_supervisor c\<rparr>" using run m by (simp add: as_supervisor_def)
  ultimately show "R c c'" using trans supervisor by metis
qed

lemma sys [order_rules]:
  "within R (sys_read8 F B lin)" "within R (sys_read16 F B lin)" "within R (sys_read32 F B lin)"
  "within R (sys_write8 F B lin v)"
  unfolding sys_read8_def sys_read16_def sys_read32_def sys_write8_def by (intro order_rules)+

lemma segment_access [order_rules]:
  "within R (i386_read8 F B sg off)" "within R (read16w F B sg off wr)" "within R (read32w F B sg off wr)"
  "within R (i386_read16 F B sg off)" "within R (i386_read32 F B sg off)"
  "within R (i386_write8 F B sg off v8)" "within R (write16w F B sg off v16 wr)" "within R (write32w F B sg off v32 wr)"
  "within R (i386_write16 F B sg off v16)" "within R (i386_write32 F B sg off v32)"
  unfolding i386_read16_def i386_read32_def i386_write16_def i386_write32_def i386_read8_def read16w_def read32w_def
    i386_write8_def write16w_def write32w_def by (intro order_rules)+

lemma descriptor_read [order_rules]:
  "within R (read_descriptor F B sel)" "within R (read_descriptor_err F B sel err)" "within R (mark_accessed F B d)"
  "within R (tss_stack F B level)" "within R (gate_args F B wide sp i n)"
proof -
  show d: "within R (read_descriptor_err F B sel err)" for err
    unfolding read_descriptor_err_def Let_def by (intro order_rules)
  show "within R (read_descriptor F B sel)" unfolding read_descriptor_def by (rule d)
  show "within R (mark_accessed F B d)" unfolding mark_accessed_def by (intro order_rules)
  show "within R (tss_stack F B level)" unfolding tss_stack_def Let_def by (intro order_rules)
  show "within R (gate_args F B wide sp i n)"
    by (induction n arbitrary: i) (simp_all only: gate_args.simps Let_def, (intro order_rules; assumption?)+)
qed

lemma io_permission [order_rules]: "within R (io_check F B port n)"
proof -
  have bits: "within R (io_map_bits F B base a i n bits)" for base a i n bits
    by (induction n arbitrary: a i bits) (simp_all only: io_map_bits.simps Let_def, (intro order_rules; assumption?)+)
  show ?thesis unfolding io_check_def Let_def by (intro order_rules bits)
qed

lemma ports [order_rules]:
  "within R (io_in B p)" "within R (io_out B p v8)" "within R (i386_io_read16 B p)" "within R (i386_io_write16 B p v16)"
  "within R (io_read32 B p)" "within R (io_write32 B p v32)"
  unfolding io_read32_def io_write32_def i386_io_read16_def i386_io_write16_def io_in_def io_out_def
  by (intro order_rules)+

lemma operand_read [order_rules]:
  "within R (i386_read_op8 F B opd)" "within R (i386_read_op16 F B opd)" "within R (read_op32 F B opd)"
  "within R (read_op F B opd)"
proof -
  show a: "within R (i386_read_op8 F B opd)" "within R (i386_read_op16 F B opd)" "within R (read_op32 F B opd)"
    by (cases opd; simp add: order_rules)+
  show "within R (read_op F B opd)" unfolding read_op_def by (intro order_rules a)
qed

lemma far_pointer [order_rules]: "within R (read_far_pointer F B sg off)"
  unfolding read_far_pointer_def by (intro order_rules)

lemma try_descriptor [order_rules]: "within R (try_descriptor F B sel)"
  using withinD [OF descriptor_read(1)]
  by (intro withinI) (auto simp: try_descriptor_def split: prod.split_asm sum.split_asm)

lemma verify [order_rules]: "within R (verify_seg F B sel w)"
  unfolding verify_seg_def by (intro order_rules)

end

text \<open>Instruction fetch moves EIP and the length counter too.\<close>

locale fetch_order = memory_order +
  assumes eip: "R c (c\<lparr>c3_regs := (c3_regs c)\<lparr>r3_eip := v\<rparr>\<rparr>)"
    and ilen: "R c (c\<lparr>c3_ilen := n\<rparr>)"
begin

lemma fetch [order_rules]:
  "within R (fetch8 F B)" "within R (fetch16 F B)" "within R (fetch32 F B)" "within R (i386_fetch_imm F B)"
  "within R (fetch_s8 F B)" "within R (fetch_moffs F B)" "within R (rel_imm F B)" "within R (moffs F B)"
proof -
  show a: "within R (fetch8 F B)" unfolding fetch8_def by (intro order_rules; simp add: within_primitive eip ilen)
  show b: "within R (fetch16 F B)" unfolding fetch16_def by (intro order_rules a)
  show c: "within R (fetch32 F B)" unfolding fetch32_def by (intro order_rules b)
  show "within R (i386_fetch_imm F B)" unfolding i386_fetch_imm_def by (intro order_rules b c)
  show "within R (fetch_s8 F B)" unfolding fetch_s8_def by (intro order_rules a)
  show d: "within R (fetch_moffs F B)" unfolding fetch_moffs_def by (intro order_rules b c)
  show "within R (rel_imm F B)" unfolding rel_imm_def by (intro order_rules b c)
  show "within R (moffs F B)" unfolding moffs_def by (intro order_rules d)
qed

lemma modrm [order_rules]: "within R (i386_modrm F B)"
  unfolding i386_modrm_def ea16_def ea32_def sib_def Let_def by (intro order_rules)

lemma set_eip [order_rules]: "within R (set_eip v)"
  unfolding set_eip_def by (simp add: within_primitive eip)

lemma near_jump [order_rules]: "within R (i386_set_ip v)" "within R (i386_jump_rel v)"
  unfolding i386_jump_rel_def i386_set_ip_def Let_def by (intro order_rules)+

end

text \<open>The decoder sets the decode state as well.\<close>

locale decode_order = fetch_order +
  assumes decode_state:
    "R c (c\<lparr>c3_seg_override := sg\<rparr>)" "R c (c\<lparr>c3_rep := rp\<rparr>)" "R c (c\<lparr>c3_lock := lk\<rparr>)"
    "R c (c\<lparr>c3_osize32 := os\<rparr>)" "R c (c\<lparr>c3_asize32 := as\<rparr>)"
begin

lemma decode_fetch [order_rules]: "within R (fetch_rel F B)" "within R (fetch_u8 F B)" "within R (set_seg_or dflt d)"
  unfolding fetch_rel_def fetch_u8_def set_seg_or_def by (intro order_rules)+

lemma decode_operand [order_rules]: "within R (decode_modrm F B d)"
  unfolding decode_modrm_def ea32_formula_def ea16_formula_def sib_formula_def Let_def by (intro order_rules)

lemma decode_hot [order_rules]:
  "within R (hotE d)" "within R (hot_modrm F B d)" "within R imm \<Longrightarrow> within R (hot_imm imm d)"
  "within R imm \<Longrightarrow> within R (hot_group_imm F B imm d)" "within R imm \<Longrightarrow> within R (hot_mov_imm F B imm d)"
  "within R imm \<Longrightarrow> within R (decode_shift F B sop cl imm d)"
  unfolding hotE_def hot_modrm_def hot_imm_def hot_group_imm_def hot_mov_imm_def decode_shift_def
  by (intro order_rules; simp)+

lemma decode_arms [order_rules]:
  "arm_within R (decode_alu F B op d)" "arm_within R (decode_mov F B op d)" "arm_within R (decode_reg op d)"
  "arm_within R (decode_group F B op d)" "arm_within R (decode_flow F B op d)" "within R (decode_escape F B ext op d)"
  unfolding decode_alu_def decode_mov_def decode_reg_def decode_group_def decode_flow_def decode_escape_def Let_def
  by (intro order_rules)+

lemma decode [order_rules]: "within R (decode_op F B op)"
  unfolding decode_op_def by (rule arm_case order_rules)+

lemma prefixes [order_rules]: "within R (scan_prefixes F B)"
proof -
  have rounds: "within R (prefix_rounds n F B db npfx)" for n db npfx
  proof (induction n arbitrary: npfx)
    case (Suc n)
    have "within R (modE f)" if "prefix_effect db b = Some f" for b f
      using that unfolding prefix_effect_def within_primitive by (auto simp: decode_state split: if_split_asm)
    then show ?case by (simp only: prefix_rounds.simps) (intro order_rules Suc.IH)
  qed (simp add: pure)
  have widths: "R c (c\<lparr>c3_osize32 := db, c3_asize32 := db\<rparr>)" for c db
    using decode_state(4) decode_state(5) trans by blast
  show ?thesis unfolding scan_prefixes_def by (intro order_rules rounds; simp add: within_primitive widths)
qed

text \<open>An attempt at decoding that fails puts EIP and the length back.\<close>

lemma decode_attempt [order_rules]: "within R (try_decode F B op npfx)"
proof (rule withinI)
  fix c b r c' b' assume run: "try_decode F B op npfx (c, b) = (r, c', b')"
  obtain q d e where dec: "decode_op F B op (c, b) = (q, d, e)" by (metis prod.exhaust)
  have to_d: "R c d" using withinD [OF decode dec] .
  have put: "R d ((c3_reg (\<lambda>r. r\<lparr>r3_eip := v\<rparr>) d)\<lparr>c3_ilen := n\<rparr>)" for v n
    using eip ilen trans by blast
  have "c' = c \<or> c' = d \<or> (\<exists>v n. c' = (c3_reg (\<lambda>r. r\<lparr>r3_eip := v\<rparr>) d)\<lparr>c3_ilen := n\<rparr>)"
    using run dec by (auto simp: try_decode_def Let_def split: if_split_asm sum.split_asm prod.split_asm Decoded.split_asm)
  then show "R c c'" using to_d put refl trans by blast
qed

end

text \<open>
  An instruction: fetching and decoding stay within \<open>R\<close>, and what is executed then stays within a relation \<open>U\<close>
  that need not be an order, but that \<open>R\<close> composes with.
\<close>

locale instruction_order = decode_order +
  fixes U :: "I386Cpu \<Rightarrow> I386Cpu \<Rightarrow> bool" and F :: eflag_ops and B :: "'b I386Bus"
  assumes into: "R c d \<Longrightarrow> U d e \<Longrightarrow> U c e" and part: "R c d \<Longrightarrow> U c d"
    and decoded: "within U (i386_exec_decoded F B i)"
    and dispatched: "arm_within U (i386_dispatch F B op)"
    and strings: "panic_arm_within U (i386_exec_string chk F B op)"
    and escaped: "within U (dispatch_0f F B op)"
begin

lemma counted: "count_cycles chk n (m (c, b)) = Some (r, c', b') \<Longrightarrow> within U m \<Longrightarrow> U c c'"
  by (cases "m (c, b)") (auto simp: count_cycles_def dest: withinD split: sum.split_asm if_split_asm)

lemma fill: "U (i386_icache_fill phys d c) e \<Longrightarrow> U c e"
  unfolding i386_icache_fill_def Let_def by (rule into [rotated], assumption) (simp add: icache refl)

lemma arm: "panic_arm_within U (i386_arm chk F B op)"
  using strings [of chk op] dispatched [of op]
  by (auto simp: i386_arm_def panic_arm_within_def panic_within_def arm_within_def dest: withinD split: option.split)

lemma prefixed:
  assumes "after_prefixes chk F B op n (c, b) = Some (r, c', b')" shows "U c c'"
proof -
  obtain a q d e where a: "i386_arm chk F B op = Some a" and run: "a (c, b) = Some (q, d, e)"
    and rest: "map_option (\<lambda>(r, c, b). case r of Inl e \<Rightarrow> (Inl e, c, b)
        | Inr n \<Rightarrow> if c3_lock c \<and> \<not> c3_lock_ok c then (Inl exc_ud, c, b) else (Inr n, c, b))
      (count_cycles chk n (q, d, e)) = Some (r, c', b')"
    using assms by (auto simp: after_prefixes_def bind_eq_Some_conv)
  have "U c d" by (rule panic_arm_withinD [OF arm a run])
  moreover have "c' = d"
    using rest by (cases q) (auto simp: count_cycles_def split: if_split_asm)
  ultimately show ?thesis by simp
qed

lemma opcode:
  assumes run: "exec_opcode chk F B probe op n (c, b) = Some (r, c', b')" shows "U c c'"
proof (cases "c3_lock c \<and> op \<noteq> 0x0F \<and> \<not> LOCK_CANDIDATE op")
  case True
  then show ?thesis using run part refl by (auto simp: exec_opcode_def)
next
  case nolock: False
  show ?thesis
  proof (cases "\<not> c3_lock c \<and> c3_rep c = None")
    case True
    obtain q d e where dec: "try_decode F B op n (c, b) = (q, d, e)" by (metis prod.exhaust)
    have to_d: "R c d" using withinD [OF decode_attempt dec] .
    have "U d c'"
    proof (cases q)
      case (Inl x)
      then show ?thesis using run nolock True dec part refl by (auto simp: exec_opcode_def)
    next
      case (Inr p)
      obtain k i where p: "p = (k, i)" by force
      show ?thesis
      proof (cases k)
        case Decoded_Hot
        let ?d = "case probe of None \<Rightarrow> d | Some phys \<Rightarrow> i386_icache_fill phys i d"
        have "count_cycles chk n (i386_exec_decoded F B i (?d, e)) = Some (r, c', b')"
          using run nolock True dec Inr p Decoded_Hot by (auto simp: exec_opcode_def)
        then have "U ?d c'" by (rule counted [OF _ decoded])
        then show ?thesis using fill by (cases probe) auto
      next
        case Decoded_Cold
        then show ?thesis using run nolock True dec Inr p prefixed by (auto simp: exec_opcode_def)
      next
        case (Decoded_Cold0F op2)
        have "count_cycles chk n (dispatch_0f F B op2 (d, e)) = Some (r, c', b')"
          using run nolock True dec Inr p Decoded_Cold0F by (auto simp: exec_opcode_def)
        then show ?thesis by (rule counted [OF _ escaped])
      qed
    qed
    then show ?thesis using to_d into by blast
  next
    case False
    then have "after_prefixes chk F B op n (c, b) = Some (r, c', b')"
      using run nolock by (auto simp: exec_opcode_def split: if_split_asm)
    then show ?thesis by (rule prefixed)
  qed
qed

lemma fused:
  assumes run: "i386_exec_fused chk F B probe (c, b) = Some (r, c', b')" shows "U (clear_decode c) c'"
proof -
  obtain q d e where scan: "scan_prefixes F B (clear_decode c, b) = (q, d, e)" by (metis prod.exhaust)
  have "R (clear_decode c) d" using withinD [OF prefixes scan] .
  moreover have "U d c'"
    using run scan opcode part refl unfolding i386_exec_fused_def
    by (auto split: sum.split_asm option.split_asm prod.split_asm)
  ultimately show ?thesis using into by blast
qed

lemma instruction:
  assumes run: "i386_exec_one chk F B (c, b) = Some (r, c', b')"
  obtains d where "U (begin_decoded d (c\<lparr>c3_start_eip := r3_eip (c3_regs c)\<rparr>)) c'"
  | "U (clear_decode (c\<lparr>c3_start_eip := r3_eip (c3_regs c)\<rparr>)) c'"
proof (cases "Option.bind (icache_phys F (c\<lparr>c3_start_eip := r3_eip (c3_regs c)\<rparr>)) (icache_hit (c\<lparr>c3_start_eip := r3_eip (c3_regs c)\<rparr>))")
  case None
  then show ?thesis using run fused that(2) by (auto simp: i386_exec_one_def Let_def)
next
  case (Some d)
  let ?c = "begin_decoded d (c\<lparr>c3_start_eip := r3_eip (c3_regs c)\<rparr>)"
  have "count_cycles chk (ucast (di_npfx d)) (i386_exec_decoded F B d (?c, b)) = Some (r, c', b')"
    using run Some by (auto simp: i386_exec_one_def Let_def)
  then have "U ?c c'" by (rule counted [OF _ decoded])
  then show ?thesis by (rule that(1))
qed

end

end
