(* ===== verification/X386_PlainOrder.thy ===== *)
theory X386_PlainOrder
  imports X386_Orders
begin

text \<open>
  The orders that ordinary instructions stay within: an instruction that neither loads a segment register
  nor is a system instruction changes, of the register file, the general registers, the flags, EIP and CR2.
  A second interface adds the mark of instructions whose progress survives a fault.
\<close>

named_theorems frame_simps

text \<open>The register file without the general registers and the flags.\<close>

definition r3_frame :: "X386Registers \<Rightarrow> X386Registers" where
  "r3_frame r = r\<lparr>r3_gpr := \<lambda>_. 0, r3_eflags := 0\<rparr>"

lemma r3_frame_updates [frame_simps]:
  "r3_frame (r\<lparr>r3_gpr := g\<rparr>) = r3_frame r" "r3_frame (r\<lparr>r3_eflags := f\<rparr>) = r3_frame r"
  by (simp_all add: r3_frame_def)

lemma r3_frame_registers [frame_simps]:
  "r3_frame (set_reg32 i v32 r) = r3_frame r" "r3_frame (i386_set_reg16 i v16 r) = r3_frame r"
  "r3_frame (i386_set_reg8 i v8 r) = r3_frame r"
  by (simp_all add: set_reg32_def i386_set_reg16_def i386_set_reg8_def Let_def frame_simps)

text \<open>The functions of the arithmetic unit on the register file.\<close>

lemma r3_frame_bcd [frame_simps]:
  "r3_frame (i386_daa F r) = r3_frame r" "r3_frame (i386_das F r) = r3_frame r"
  "r3_frame (i386_aaa F r) = r3_frame r" "r3_frame (i386_aas F r) = r3_frame r"
  "r3_frame (i386_aad F base r) = r3_frame r" "r3_frame (snd (i386_aam F base r)) = r3_frame r"
  unfolding i386_daa_def i386_das_def i386_aaa_def i386_aas_def i386_aad_def i386_aam_def Let_def
  by (simp_all add: frame_simps split: prod.split)


lemma r3_frame_multiply [frame_simps]:
  "r3_frame (i386_mul8 F v8 r) = r3_frame r" "r3_frame (i386_imul8 F v8 r) = r3_frame r"
  "r3_frame (i386_mul16 F v16 r) = r3_frame r" "r3_frame (i386_imul16 F v16 r) = r3_frame r"
  "r3_frame (i386_mul32 F v32 r) = r3_frame r" "r3_frame (i386_imul32 F v32 r) = r3_frame r"
  unfolding i386_mul8_def i386_imul8_def i386_mul16_def i386_imul16_def i386_mul32_def i386_imul32_def Let_def
  by (simp_all add: frame_simps)

lemma r3_frame_divide [frame_simps]:
  "i386_div8 v8 r = Some g \<Longrightarrow> r3_frame g = r3_frame r" "i386_idiv8 v8 r = Some g \<Longrightarrow> r3_frame g = r3_frame r"
  "i386_div16 v16 r = Some g \<Longrightarrow> r3_frame g = r3_frame r" "i386_idiv16 v16 r = Some g \<Longrightarrow> r3_frame g = r3_frame r"
  "i386_div32 v32 r = Some g \<Longrightarrow> r3_frame g = r3_frame r" "i386_idiv32 v32 r = Some g \<Longrightarrow> r3_frame g = r3_frame r"
  unfolding i386_div8_def i386_idiv8_def i386_div16_def i386_idiv16_def i386_div32_def i386_idiv32_def Let_def
  by (auto simp: frame_simps split: if_split_asm prod.split_asm)

lemma r3_frame_cpuid [frame_simps]: "r3_frame (cpuid r) = r3_frame r"
  by (simp add: cpuid_def frame_simps split: prod.split)

lemma adjust_sp_frame: "\<exists>r. adjust_sp n c = c\<lparr>c3_regs := r\<rparr> \<and> r3_frame r = r3_frame (c3_regs c)"
  unfolding adjust_sp_def by (rule exI, rule conjI, rule refl) (simp add: frame_simps)

lemma aam_frame: "i386_aam F base r = (ok, g) \<Longrightarrow> r3_frame g = r3_frame r"
  by (metis r3_frame_bcd(6) snd_conv)

subsection \<open>Ordinary instructions\<close>

locale plain_order = decode_order +
  assumes plain: "r3_frame r = r3_frame (c3_regs c) \<Longrightarrow> R c (c\<lparr>c3_regs := r\<rparr>)"
    and events: "R c (c\<lparr>c3_events := e\<rparr>)"
    and halted: "R c (c\<lparr>c3_halted := h\<rparr>)"
    and lock_ok: "R c (c\<lparr>c3_lock_ok := k\<rparr>)"
    and host_trap: "R c (c\<lparr>c3_host_trap := t\<rparr>)"
begin

lemma registers [order_rules]: "(\<And>r. r3_frame (g r) = r3_frame r) \<Longrightarrow> within R (regE g)"
  by (simp add: within_primitive plain)

lemma flags [order_rules]: "within R (flagsE f)"
  unfolding within_def flagsE_def by (simp add: Let_def plain frame_simps split: prod.split)

lemma stack_pointer [order_rules]: "within R (modE (adjust_sp n))" "within R (modE (\<lambda>c. adjust_sp (m c) c))"
  unfolding within_primitive using adjust_sp_frame plain by metis+

lemma divide [order_rules]: "(\<And>r g. f r = Some g \<Longrightarrow> r3_frame g = r3_frame r) \<Longrightarrow> within R (divideE f)"
  unfolding within_def divideE_def bindE_def getR_def getE_def raiseE_def regE_def modE_def
  by (auto simp: refl plain split: option.split)

lemma inhibit_interrupts [order_rules]: "within R inhibit"
  unfolding inhibit_def by (simp add: within_primitive events)

lemma flag_actions [order_rules]: "within R (load_flags F v m)" "within R (remove_flags F fs)" "within R (flag_update h)"
  unfolding load_flags_def remove_flags_def flag_update_def by (intro order_rules; simp add: frame_simps)+

lemma accumulator [order_rules]: "(\<And>r. r3_frame (g r) = r3_frame r) \<Longrightarrow> within R (accumulatorE g n)"
  unfolding accumulatorE_def by (intro order_rules)

lemma lock_checks [order_rules]: "within R (lock_check ok)"
  unfolding lock_check_def by (intro order_rules; simp add: within_primitive lock_ok)

lemma push [order_rules]:
  "within R (i386_push16 F B v16)" "within R (push32 F B v32)" "within R (i386_push F B v32)"
  unfolding i386_push_def i386_push16_def push32_def by (intro order_rules)+

lemma pop [order_rules]:
  "within R (i386_pop16 F B)" "within R (pop32 F B)" "within R (i386_pop F B)" "within R (pop_sreg F B)"
  unfolding i386_pop_def i386_pop16_def pop32_def pop_sreg_def by (intro order_rules)+

lemma operand_write [order_rules]:
  "within R (i386_write_op8 F B opd v8)" "within R (i386_write_op16 F B opd v16)" "within R (write_op32 F B opd v32)"
  "within R (write_op F B opd v32)"
proof -
  show a: "within R (i386_write_op8 F B opd v8)" "within R (i386_write_op16 F B opd v16)" "within R (write_op32 F B opd v32)"
    for v8 v16 v32
    by (cases opd; simp only: i386_write_op8.simps i386_write_op16.simps write_op32.simps;
        intro order_rules; simp add: frame_simps)+
  show "within R (write_op F B opd v32)" unfolding write_op_def by (intro order_rules a)
qed

lemma set_register [order_rules]: "within R (set_reg_osize i v)" "within R (set_eax v)"
  unfolding set_reg_osize_def set_eax_def by (intro order_rules; simp add: frame_simps)+

text \<open>The sections of the opcode \<open>match\<close>.\<close>

lemma arithmetic [order_rules]:
  "within R (i386_op_rm_r8 F B f8 wb)" "within R (i386_op_rm_r16 F B f16 wb)" "within R (op_rm_r32 F B f32 wb)"
  "within R (i386_op_r_rm8 F B f8 wb)" "within R (i386_op_r_rm16 F B f16 wb)" "within R (op_r_rm32 F B f32 wb)"
  "within R (alu_at_osize F i a b)" "within R (i386_shift_dispatch F k v n)" "within R (inc_dec_at_osize F inc v)"
  "within R (inc_dec_reg g32 g16 r)"
  unfolding i386_op_rm_r8_def i386_op_rm_r16_def op_rm_r32_def i386_op_r_rm8_def i386_op_r_rm16_def op_r_rm32_def
    alu_at_osize_def i386_shift_dispatch_def inc_dec_at_osize_def inc_dec_reg_def
  by (intro order_rules; simp add: frame_simps)+

lemma exec_alu [order_rules]: "arm_within R (i386_exec_alu F B op)" "arm_within R (i386_exec_group1 F B op)"
  unfolding i386_exec_alu_def i386_exec_group1_def i386_group1_8_def i386_group1_def Let_def
  by (intro order_rules; simp add: frame_simps)+

lemma exec_bcd [order_rules]: "arm_within R (i386_exec_bcd F op)" "arm_within R (i386_exec_inc_dec F op)"
  unfolding i386_exec_bcd_def i386_exec_inc_dec_def by (intro order_rules; simp add: frame_simps)+

lemma exec_imm [order_rules]: "arm_within R (i386_exec_imm F B op)" "arm_within R (i386_exec_bound_arpl F B op)"
  unfolding i386_exec_imm_def imul_imm_def i386_exec_bound_arpl_def i386_bound_def i386_arpl_def
  by (intro order_rules; simp add: frame_simps)+

lemma exec_shift [order_rules]: "arm_within R (i386_exec_shift F B op)"
  unfolding i386_exec_shift_def i386_shift_grp8_def i386_shift_grp_def by (intro order_rules)+

lemma exec_jcc [order_rules]: "arm_within R (i386_exec_jcc F B op)" "arm_within R (i386_exec_loop F B op)"
proof -
  have count: "within R (modE (set_count_reg n))" for n
    unfolding set_count_reg_def within_primitive by (simp add: plain frame_simps)
  show "arm_within R (i386_exec_jcc F B op)" unfolding i386_exec_jcc_def by (intro order_rules)
  show "arm_within R (i386_exec_loop F B op)"
    unfolding i386_exec_loop_def i386_loop_def Let_def by (intro order_rules count)
qed

lemma exec_moves [order_rules]:
  "arm_within R (i386_exec_test_xchg F B op)" "arm_within R (i386_exec_mov_direct F B op)"
  "arm_within R (i386_exec_convert F op)" "within R (xchg_acc i)"
  unfolding i386_exec_test_xchg_def test_acc_def xchg_rm_def xchg_acc_def i386_exec_mov_direct_def i386_exec_convert_def Let_def
  by (intro order_rules; simp add: frame_simps)+

lemma pop_register [order_rules]: "within R (pop_to_reg F B i)"
  unfolding pop_to_reg_def by (intro order_rules; simp add: frame_simps)

lemma vm_check [order_rules]: "within R (vm_sensitive F)"
  unfolding vm_sensitive_def by (intro order_rules)

lemma exec_stack [order_rules]: "arm_within R (i386_exec_pushf F B op)" "arm_within R (i386_exec_ret_near F B op)"
  unfolding i386_exec_pushf_def i386_exec_ret_near_def by (intro order_rules)+

lemma exec_frame [order_rules]: "arm_within R (i386_exec_frame F B op)"
proof -
  have "within R (enter_levels F B n)" for n
    by (induction n; simp only: enter_levels.simps; intro order_rules; simp add: frame_simps)
  then show ?thesis
    unfolding i386_exec_frame_def i386_enter_def i386_leave_def Let_def
    by (intro order_rules; simp add: frame_simps)
qed

lemma exec_ascii [order_rules]: "arm_within R (i386_exec_ascii F B op)"
proof -
  have aam: "within R (bindE (getR (i386_aam F base)) (\<lambda>(ok, g). thenE (regE (\<lambda>_. g)) (thenE (guardE (\<not> ok) exc_de) (okE n))))"
    for base n
    unfolding within_def getR_def getE_def bindE_def thenE_def regE_def modE_def guardE_def okE_def raiseE_def
    by (auto intro!: plain dest: aam_frame split: prod.split)
  show ?thesis
    unfolding i386_exec_ascii_def i386_xlat_def by (rule aam order_rules | simp only: frame_simps)+
qed

lemma exec_esc [order_rules]: "arm_within R (i386_exec_esc F B op)"
  unfolding i386_exec_esc_def by (intro order_rules)

lemma exec_io [order_rules]: "arm_within R (i386_exec_io F B op)"
  unfolding i386_exec_io_def port_imm_def port_dx_def port_in8_def port_in_def port_out8_def port_out_def
  by (intro order_rules; simp add: frame_simps)

lemma exec_control [order_rules]: "arm_within R (i386_exec_control F op)"
  unfolding i386_exec_control_def iopl_checked_def
  by (intro order_rules; simp add: frame_simps within_primitive halted)

lemma exec_push_pop:
  assumes "op \<noteq> 0x60" "op \<noteq> 0x61" shows "arm_within R (i386_exec_push_pop F B op)"
  unfolding i386_exec_push_pop_def using assms by simp (intro impI conjI order_rules)

text \<open>The two-byte opcodes.\<close>

lemma bit_tests [order_rules]: "within R (bt_apply F B opd sub i)"
  unfolding bt_apply_def Let_def by (intro order_rules; simp add: frame_simps)

lemma exec_bits [order_rules]: "arm_within R (exec_bits F B op)"
  unfolding exec_bits_def bt_reg_index_def bt_imm_def shxd_def bit_scan_def Let_def
  by (intro order_rules; simp add: frame_simps)

lemma selectors [order_rules]: "within R (store_sel F B opd v)" "within R (lar_lsl F B lsl')"
  unfolding store_sel_def lar_lsl_def by (intro order_rules; simp add: frame_simps)+

lemma moves_widened [order_rules]:
  "(\<And>opd. within R (rd opd)) \<Longrightarrow> within R (mov_widened F B rd widen)" "within R (imul_rm F B)"
  unfolding mov_widened_def imul_rm_def by (intro order_rules; simp add: frame_simps)+

lemma extensions [order_rules]: "arm_within R (exec_extensions F B op)"
  unfolding exec_extensions_def rdtsc_def cmovcc_def cmpxchg_def cmpxchg8_def cmpxchg16_def cmpxchg32_def xadd_def Let_def
  by (intro order_rules; simp add: frame_simps)

text \<open>The execution of decoded instructions.\<close>

lemma operand_address [order_rules]: "within R (operandE d)" "within R (hot_shift_count d)"
  unfolding operandE_def hot_shift_count_def by (intro order_rules)+

lemma hot_arithmetic [order_rules]:
  "within R (hot_AluRmR8 F B d)" "within R (hot_AluRmRW F B d)" "within R (hot_AluRRm8 F B d)" "within R (hot_AluRRmW F B d)"
  "within R (hot_AluAccImm8 F d)" "within R (hot_AluAccImmW F d)" "within R (hot_AluGrpImm8 F B d)"
  "within R (hot_AluGrpImmW F B d)" "within R (hot_IncDecRm8 F B d)" "within R (hot_IncDecRmW F B d)"
  "within R (hot_ShiftRm8 F B d)" "within R (hot_ShiftRmW F B d)" "within R (hot_ImulRRmW F B d)"
  "within R (hot_ImulRmImm F B d)" "within R (hot_IncReg F d)" "within R (hot_DecReg F d)"
  unfolding hot_AluRmR8_def hot_AluRmRW_def hot_AluRRm8_def hot_AluRRmW_def hot_AluAccImm8_def hot_AluAccImmW_def
    hot_AluGrpImm8_def hot_AluGrpImmW_def hot_IncDecRm8_def hot_IncDecRmW_def hot_ShiftRm8_def hot_ShiftRmW_def
    hot_ImulRRmW_def hot_ImulRmImm_def hot_IncReg_def hot_DecReg_def
  by (intro order_rules; simp add: frame_simps)+

lemma hot_moves [order_rules]:
  "within R (hot_MovRm8 F B d)" "within R (hot_MovRmRW F B d)" "within R (hot_MovRRm8 F B d)" "within R (hot_MovRRmW F B d)"
  "within R (hot_Lea d)" "within R (hot_XchgRm8 F B d)" "within R (hot_XchgRmW F B d)" "within R (hot_Setcc F B d)"
  "within R (hot_CmovW F B d)" "within R (hot_MovRegImm8 d)" "within R (hot_MovRegImmW d)" "within R (hot_MovRmImm8 F B d)"
  "within R (hot_MovRmImmW F B d)" "within R (hot_XchgAcc d)" "within R (hot_MovzxB F B d)" "within R (hot_MovzxW F B d)"
  "within R (hot_MovsxB F B d)" "within R (hot_MovsxW F B d)"
  unfolding hot_MovRm8_def hot_MovRmRW_def hot_MovRRm8_def hot_MovRRmW_def hot_Lea_def hot_XchgRm8_def hot_XchgRmW_def
    hot_Setcc_def hot_CmovW_def hot_MovRegImm8_def hot_MovRegImmW_def hot_MovRmImm8_def hot_MovRmImmW_def hot_XchgAcc_def
    hot_MovzxB_def hot_MovzxW_def hot_MovsxB_def hot_MovsxW_def hot_widened_def
  by (intro order_rules; simp add: frame_simps)+

lemma hot_flow [order_rules]:
  "within R (hot_CallRm F B d)" "within R (hot_JmpRm F B d)" "within R (hot_PushRm F B d)" "within R (hot_Jcc F d)"
  "within R (hot_PushReg F B d)" "within R (hot_PopReg F B d)" "within R (hot_JmpRel d)" "within R (hot_CallRel F B d)"
  "within R (hot_RetNear F B d)" "within R (hot_RetNearImm F B d)" "within R (hot_PushImm F B d)"
  unfolding hot_CallRm_def hot_JmpRm_def hot_PushRm_def hot_Jcc_def hot_PushReg_def hot_PopReg_def hot_JmpRel_def
    hot_CallRel_def hot_RetNear_def hot_RetNearImm_def hot_PushImm_def
  by (intro order_rules)+

lemma execute_decoded [order_rules]: "within R (i386_exec_decoded F B d)"
  unfolding i386_exec_decoded_def by (cases "di_op d"; simp only: X386Op.case; rule order_rules)

end

text \<open>String operations, \<open>PUSHA\<close> and \<open>POPA\<close> keep their progress over a fault.\<close>

locale commit_order = plain_order +
  assumes commit: "R c (c\<lparr>c3_commit_on_fault := m\<rparr>)"
begin

lemma progress [order_rules]: "within R commit_progress"
  unfolding commit_progress_def by (simp add: within_primitive commit)

lemma index_steps [order_rules]: "within R (modE (i386_step_si F n))" "within R (modE (i386_step_di F n))"
  "within R (modE (\<lambda>c. set_count_reg (f c) c))"
  unfolding i386_step_si_def i386_step_di_def set_index_reg_def set_count_reg_def within_primitive
  by (simp_all add: plain frame_simps)

lemma store_stack_pointer [order_rules]: "within R (store_sp v)"
  unfolding store_sp_def by (intro order_rules; simp add: frame_simps)

lemma exec_all_registers [order_rules]: "within R (i386_pusha F B)" "within R (i386_popa F B)"
proof -
  have w: "within R (pusha_writes F B e wr wd bt xs)" for e wr wd bt xs
    by (induction xs) (simp_all only: pusha_writes.simps Let_def, (intro order_rules; assumption?)+)
  show "within R (i386_pusha F B)" unfolding i386_pusha_def by (intro order_rules w)
  have r: "within R (popa_reads F B wr sp xs)" for wr sp xs
    by (induction xs arbitrary: sp)
      (simp_all only: popa_reads.simps, (rule order_rules | assumption | simp only: frame_simps)+)
  show "within R (i386_popa F B)" unfolding i386_popa_def by (intro order_rules r)
qed

lemma rounds:
  assumes "rep_rounds chk F one cmp z n s = Some t" "within R one"
  shows "R (fst s) (fst (snd t))"
proof (rule rep_rounds.raw_induct [where P = "\<lambda>chk F one cmp z n s t. within R one \<longrightarrow> R (fst s) (fst (snd t))",
      OF _ assms(1), THEN mp, OF _ assms(2)], rule impI)
  fix rounds :: "bool \<Rightarrow> eflag_ops \<Rightarrow> ('b, unit) exec \<Rightarrow> bool \<Rightarrow> bool \<Rightarrow> u32 \<Rightarrow> ('b, u32) panic_exec"
  fix chk F cmp z n t and one :: "('b, unit) exec" and s
  assume IH: "\<And>chk F one cmp z n s t. rounds chk F one cmp z n s = Some t \<Longrightarrow> within R one \<longrightarrow> R (fst s) (fst (snd t))"
    and one: "within R one"
    and run: "(if count_reg (fst s) = 0 then Some (Inr n, s)
      else case one s of
        (Inl e, s) \<Rightarrow> Some (Inl e, s)
      | (Inr _, c, b) \<Rightarrow>
          let c = set_count_reg (count_reg c - 1) c
          in if chk \<and> unat n + 4 \<ge> 2 ^ 32 then None
             else
               let n = n + 4
               in if cmp \<and> fl_contains F (c3_eflags c) EFlags_ZF \<noteq> z then Some (Inr n, c, b)
                  else if count_reg c \<noteq> 0 \<and> i386_interrupt_pending F c then
                    Some (Inr n, c3_reg (\<lambda>r. r\<lparr>r3_eip := c3_start_eip c\<rparr>) c, b)
                  else rounds chk F one cmp z n (c, b)) = Some t"
  obtain q d e where q: "one s = (q, d, e)" by (metis prod.exhaust)
  let ?d = "set_count_reg (count_reg d - 1) d"
  have to_d: "R (fst s) d" using withinD [OF one, of "fst s" "snd s"] q by simp
  have count: "R d ?d" using index_steps(3) [of "\<lambda>c. count_reg c - 1"] by (simp add: within_primitive)
  then have to: "R (fst s) ?d" using to_d trans by blast
  have "R ?d (c3_reg (\<lambda>r. r\<lparr>r3_eip := c3_start_eip ?d\<rparr>) ?d)" by (rule eip)
  then have resumed: "R (fst s) (c3_reg (\<lambda>r. r\<lparr>r3_eip := c3_start_eip ?d\<rparr>) ?d)" using to trans by blast
  have again: "R (fst s) (fst (snd t))" if "rounds chk F one cmp z (n + 4) (?d, e) = Some t"
    using IH [OF that] one to trans by fastforce
  have "fst (snd t) = fst s \<or> fst (snd t) = d \<or> fst (snd t) = ?d \<or>
      fst (snd t) = c3_reg (\<lambda>r. r\<lparr>r3_eip := c3_start_eip ?d\<rparr>) ?d \<or> rounds chk F one cmp z (n + 4) (?d, e) = Some t"
    using run q by (auto simp: Let_def split: if_split_asm sum.split_asm)
  then show "R (fst s) (fst (snd t))" using refl [of "fst s"] to_d to resumed again by (elim disjE) simp_all
qed

lemma repeat: "within R one \<Longrightarrow> panic_within R (i386_string_op chk F one cmp)"
proof -
  assume one: "within R one"
  show ?thesis
    unfolding panic_within_def
  proof (intro allI impI)
    fix s t assume run: "i386_string_op chk F one cmp s = Some t"
    let ?c = "(fst s)\<lparr>c3_commit_on_fault := True\<rparr>"
    have once: "within R (thenE one (okE (7 :: u32)))" by (intro order_rules one)
    have "R ?c (fst (snd t))"
    proof (cases "c3_rep ?c")
      case None
      then have "t = thenE one (okE 7) (?c, snd s)" using run by (cases s) (simp add: i386_string_op_def)
      then show ?thesis using once by (simp add: within_def)
    next
      case (Some z)
      then have "rep_rounds chk F one cmp z 5 (?c, snd s) = Some t" using run by (cases s) (simp add: i386_string_op_def)
      then show ?thesis using rounds [OF _ one] by fastforce
    qed
    then show "R (fst s) (fst (snd t))" using commit trans by blast
  qed
qed

lemma string_iterations [order_rules]:
  "within R (str_movs F (string8 F B))" "within R (str_movs F (string16 F B))" "within R (str_movs F (string32 F B))"
  "within R (str_cmps F (string8 F B))" "within R (str_cmps F (string16 F B))" "within R (str_cmps F (string32 F B))"
  "within R (str_stos F (string8 F B))" "within R (str_stos F (string16 F B))" "within R (str_stos F (string32 F B))"
  "within R (str_lods F (string8 F B))" "within R (str_lods F (string16 F B))" "within R (str_lods F (string32 F B))"
  "within R (str_scas F (string8 F B))" "within R (str_scas F (string16 F B))" "within R (str_scas F (string32 F B))"
  "within R (str_ins F B (string8 F B))" "within R (str_ins F B (string16 F B))" "within R (str_ins F B (string32 F B))"
  "within R (str_outs F B (string8 F B))" "within R (str_outs F B (string16 F B))" "within R (str_outs F B (string32 F B))"
  unfolding str_movs_def str_cmps_def str_stos_def str_lods_def str_scas_def str_ins_def str_outs_def
    string8_def string16_def string32_def string_width.simps
  by (intro order_rules; simp add: frame_simps)+

lemma exec_progress [order_rules]: "arm_within R (i386_exec_push_pop F B op)"
  unfolding i386_exec_push_pop_def Let_def by (intro order_rules)+

lemma exec_strings: "panic_arm_within R (i386_exec_string chk F B op)"
proof -
  have op: "panic_within R (i386_string_op chk F m z)" if "within R m" for m z using repeat [OF that] .
  have wide: "panic_within R (string_at_osize chk F m n z)" if "within R m" "within R n" for m n z
    using op [OF that(1)] op [OF that(2)] by (auto simp: panic_within_def string_at_osize_def split: if_split_asm)
  show ?thesis
    unfolding i386_exec_string_def Let_def panic_arm_within_def
    by (auto intro!: op wide string_iterations split: if_split_asm)
qed

end

end
