(* ===== verification/X386_SystemOrder.thy ===== *)
theory X386_SystemOrder
  imports X386_PlainOrder
begin

text \<open>
  The orders for segment loads, far transfers and interrupts, and for system instructions. The code saves the
  register file before it first writes anything but general registers, flags, EIP and CR2
  (\<open>prepare_cold_write\<close>); an order may allow such a write once the file is saved.
\<close>

definition when_saved :: "(I386Cpu \<Rightarrow> I386Cpu \<Rightarrow> bool) \<Rightarrow> I386Cpu \<Rightarrow> I386Cpu \<Rightarrow> bool" where
  "when_saved R c c' \<longleftrightarrow> (c3_cold_saved c \<longrightarrow> R c c' \<and> c3_cold_saved c')"

lemma saved_after_prepare: "c3_cold_saved (prepare_cold_write c)"
  by (simp add: prepare_cold_write_def)

lemma prepare_saved [simp]: "c3_cold_saved c \<Longrightarrow> prepare_cold_write c = c"
  by (simp add: prepare_cold_write_def)

locale segment_order = plain_order +
  assumes prepare: "R c (prepare_cold_write c)"
    and segments: "c3_cold_saved c \<Longrightarrow> R c (c3_reg (\<lambda>r. r\<lparr>r3_seg := s\<rparr>) c)"
    and rollback: "R c c' \<Longrightarrow> R c (c'\<lparr>c3_regs := (c3_regs c)\<lparr>r3_cr2 := x\<rparr>\<rparr>)"
    and saved_mono: "R c c' \<Longrightarrow> c3_cold_saved c \<Longrightarrow> c3_cold_saved c'"

sublocale segment_order \<subseteq> saved: plain_order "when_saved R"
proof
  show "when_saved R c c" for c by (simp add: when_saved_def refl)
  show "when_saved R c d \<Longrightarrow> when_saved R d e \<Longrightarrow> when_saved R c e" for c d e
    unfolding when_saved_def using trans by blast
qed (auto simp: when_saved_def tlb icache cr2 supervisor eip ilen plain events halted lock_ok host_trap decode_state)

context segment_order begin

lemma after_prepare [order_rules]:
  assumes "within (when_saved R) n" shows "within R (thenE (modE prepare_cold_write) n)"
proof (rule withinI)
  fix c b r c' b' assume "thenE (modE prepare_cold_write) n (c, b) = (r, c', b')"
  then have "n (prepare_cold_write c, b) = (r, c', b')" by (simp add: thenE_def bindE_def modE_def)
  then have "R (prepare_cold_write c) c'"
    using withinD [OF assms] saved_after_prepare unfolding when_saved_def by blast
  then show "R c c'" using prepare trans by blast
qed

lemma already_saved: "within R m \<Longrightarrow> within (when_saved R) m"
  by (rule within_mono, assumption) (simp add: when_saved_def saved_mono)

lemma put_segment [order_rules]: "within (when_saved R) (modE (put_seg i s))"
  "within (when_saved R) (modE (\<lambda>c. put_seg (f c) (g c) c))"
  by (simp_all add: within_primitive when_saved_def put_seg_def segments)

lemma put_segments:
  "R c (fold (\<lambda>x d. put_seg (i x) (s x d) d) xs c) \<and> c3_cold_saved (fold (\<lambda>x d. put_seg (i x) (s x d) d) xs c)"
  if "c3_cold_saved c"
  using that
proof (induction xs arbitrary: c)
  case (Cons x xs)
  let ?d = "put_seg (i x) (s x c) c"
  have "R c ?d" "c3_cold_saved ?d" using segments Cons.prems by (simp_all add: put_seg_def)
  then show ?case using Cons.IH [of ?d] trans by auto
qed (simp add: refl)

lemma commit_segment [order_rules]: "within R (modE (commit_seg i sel d))"
  unfolding within_primitive commit_seg_def put_seg_def using segments prepare saved_after_prepare trans by blast

lemma validate [order_rules]: "within R (modE (validate_data_segs n))"
  unfolding within_primitive validate_data_segs_def
  using put_segments [OF saved_after_prepare, where i = "\<lambda>i. i" and s = "\<lambda>i c. validate_seg n (c3_seg c i)"] prepare trans by blast

lemma load_ss [order_rules]: "within R (load_ss F B sel)"
  unfolding load_ss_def by (intro order_rules)

lemma load_segment [order_rules]: "within R (i386_load_seg F B idx sel)"
proof -
  have ld: "within (when_saved R) (load_seg_protected F B idx sel)"
    unfolding load_seg_protected_def
    by (rule within_if already_saved [OF load_ss] already_saved [OF commit_segment] order_rules)+
  show ?thesis unfolding i386_load_seg_def by (intro order_rules ld)
qed

lemma load_code [order_rules]: "within R (load_cs F B sel d n)" "within R (load_sp d sp)"
  unfolding load_cs_def load_sp_def by (intro order_rules; simp add: frame_simps)+

lemma far_flat [order_rules]: "within R (far_real sel off)"
  unfolding far_real_def by (intro order_rules)

lemma jump [order_rules]: "within R (jump_far F B sel off)"
  unfolding jump_far_def Let_def by (intro order_rules)

lemma inner_stack [order_rules]:
  "within R (switch_stack F B ss sp n)" "within R (load_outer_ss F B ss sp n)" "within R (push_error F B wide err)"
  "within R (push_gate_frame F B wide oss osp args)" "within R (push_int_frame F B wide outer err)"
  "within R (push_v86_frame F B wide old osp err)"
  unfolding switch_stack_def load_outer_ss_def push_error_def push_gate_frame_def push_int_frame_def push_v86_frame_def Let_def
  by (intro order_rules)+

lemma call [order_rules]: "within R (call_gate F B sel g)" "within R (call_far F B sel off)"
  unfolding call_gate_def call_far_def Let_def by (intro order_rules)+

lemma far_return [order_rules]: "within R (return_target F B sel ip n)" "within R (i386_retf F B m)"
  unfolding return_target_def i386_retf_def Let_def by (intro order_rules)+

lemma interrupt_return [order_rules]: "within R (i386_iret F B)"
proof -
  have v86: "within R (iret_to_v86 F B ip cs fl)" for ip cs fl
  proof -
    have segs: "within (when_saved R) (modE (fold (\<lambda>(idx, sel) c. put_seg idx (v86_seg sel) c) xs))" for xs
      using put_segments [where i = fst and s = "\<lambda>x c. v86_seg (snd x)" and xs = xs]
      by (simp add: within_primitive when_saved_def case_prod_beta')
    show ?thesis
      unfolding iret_to_v86_def by (rule order_rules segs | simp only: frame_simps)+
  qed
  show ?thesis unfolding i386_iret_def iret_flat_def Let_def by (intro order_rules v86)
qed

lemma interrupt_entry [order_rules]: "within R (interrupt_real F B v class')" "within R (interrupt_protected F B e class')"
proof -
  have clear: "within (when_saved R) (modE (fold (\<lambda>idx. put_seg idx (null_seg 0)) xs))" for xs
    using put_segments [where i = "\<lambda>x. x" and s = "\<lambda>x c. null_seg 0" and xs = xs]
    by (simp add: within_primitive when_saved_def)
  have v86: "within R (v86_interrupt F B e gd gsel goff trap wide ext)" for gd gsel goff trap wide ext
    unfolding v86_interrupt_def
    by (rule order_rules clear already_saved [OF commit_segment] already_saved [OF inner_stack(1)]
        already_saved [OF supervised [OF inner_stack(6)]])+
  have handler: "within R (enter_handler F B e gd gsel goff trap wide ext)" for gd gsel goff trap wide ext
    unfolding enter_handler_def Let_def by (intro order_rules)
  show "within R (interrupt_protected F B e class')"
    unfolding interrupt_protected_def Let_def by (intro order_rules v86 handler)
  show "within R (interrupt_real F B v class')"
    unfolding interrupt_real_def Let_def by (intro order_rules)
qed

lemma raised [order_rules]: "within R (i386_raise F B e class')"
proof (rule withinI)
  fix c b r c' b' assume run: "i386_raise F B e class' (c, b) = (r, c', b')"
  let ?m = "if r3_cr0 (c3_regs c) AND cr0_PE \<noteq> 0 then interrupt_protected F B e class'
            else interrupt_real F B (ex_vector e) class'"
  obtain q d b2 where m: "?m (c, b) = (q, d, b2)" by (metis prod.exhaust)
  let ?d = "d\<lparr>c3_supervisor := c3_supervisor c\<rparr>"
  have "within R ?m" by (intro order_rules)
  then have "R c ?d" using withinD m supervisor trans by metis
  moreover have "c' = ?d \<or> c' = ?d\<lparr>c3_regs := (c3_regs c)\<lparr>r3_cr2 := r3_cr2 (c3_regs ?d)\<rparr>\<rparr>"
    using run m by (auto simp: i386_raise_def Let_def split: sum.split_asm)
  ultimately show "R c c'" using rollback by blast
qed

lemma software [order_rules]: "within R (software_int F B v)"
  unfolding software_int_def i386_set_host_trap_def
  by (intro order_rules; simp add: within_primitive) (metis host_trap events trans)

text \<open>The sections of the opcode \<open>match\<close> that load segments, and all of it but for system instructions.\<close>

lemma load_pointer [order_rules]: "within R (load_far_pointer F B sg r m off)"
  unfolding load_far_pointer_def by (intro order_rules; simp add: frame_simps)

lemma exec_segments [order_rules]:
  "arm_within R (i386_exec_push_seg F B op)" "arm_within R (i386_exec_mov F B op)" "arm_within R (i386_exec_mov_imm F B op)"
  "arm_within R (i386_exec_ret_int F B op)" "arm_within R (i386_exec_jump F B op)"
  unfolding i386_exec_push_seg_def i386_exec_mov_def mov_from_seg_def mov_to_seg_def i386_lea_def i386_pop_rm_def
    i386_exec_mov_imm_def les_lds_def i386_exec_ret_int_def i386_exec_jump_def Let_def
  by (intro order_rules; simp add: frame_simps)+

lemma exec_group [order_rules]: "arm_within R (i386_exec_group F B op)"
  unfolding i386_exec_group_def i386_group_f6_def i386_group_f7_def i386_group_fe_def i386_group_ff_def
  by (intro order_rules; simp add: frame_simps)

lemma exec_0f [order_rules]: "arm_within R (exec_jcc_setcc F B op)" "arm_within R (exec_widen F B op)"
  unfolding exec_jcc_setcc_def exec_widen_def les_lds_def by (intro order_rules)+

lemma two_byte:
  assumes "arm_within R (exec_system F B op)" shows "within R (dispatch_0f F B op)"
proof -
  have gated: "arm_within R (first_section (if ext then [exec_extensions F B] else []) op)" for ext
    by (cases ext) (simp_all only: if_True if_False, (rule order_rules)+)
  show ?thesis
    unfolding dispatch_0f_def append.simps by (rule gated assms arm_case order_rules)+
qed

end

text \<open>\<open>PUSHA\<close> and \<open>POPA\<close>.\<close>

definition commit_opcodes :: "u8 set" where "commit_opcodes = {0x60, 0x61}"

lemma commit_sections: "op \<in> commit_opcodes \<Longrightarrow> i386_dispatch F B op = first_section [i386_exec_push_pop F B] op"
  unfolding commit_opcodes_def insert_iff empty_iff
  by (elim disjE; simp add: i386_dispatch_def i386_exec_alu_def i386_exec_group1_def i386_exec_push_seg_def
      i386_exec_escape_def i386_exec_bcd_def i386_exec_inc_dec_def i386_exec_push_pop_def Let_def)

context commit_order begin

lemma commit_dispatch: "op \<in> commit_opcodes \<Longrightarrow> arm_within R (i386_dispatch F B op)"
  by (simp only: commit_sections) (intro order_rules)

end

context segment_order begin

text \<open>An opcode that is not escaped.\<close>

lemma one_byte:
  assumes "op \<notin> commit_opcodes" "op \<noteq> 0x0F" shows "arm_within R (i386_dispatch F B op)"
proof -
  have pp: "arm_within R (i386_exec_push_pop F B op)"
    by (rule exec_push_pop) (use assms in \<open>auto simp: commit_opcodes_def\<close>)
  have es: "arm_within R (i386_exec_escape F B op)"
    using assms arm_within_rules(1) by (simp add: i386_exec_escape_def)
  show ?thesis unfolding i386_dispatch_def by (intro order_rules pp es)
qed

end

lemma escape_dispatch: "i386_dispatch F B 0x0F = Some (bindE (fetch8 F B) (dispatch_0f F B))"
  by (simp add: i386_dispatch_def i386_exec_alu_def i386_exec_group1_def i386_exec_push_seg_def i386_exec_escape_def Let_def)

text \<open>System instructions write the rest of the register file.\<close>

locale system_order = segment_order +
  assumes system: "c3_cold_saved c \<Longrightarrow> R c (c\<lparr>c3_regs := r\<rparr>)"
begin

lemma system_write [order_rules]: "within (when_saved R) (regE g)" "within (when_saved R) (accumulatorE g n)"
proof -
  show "within (when_saved R) (regE g)" by (simp add: within_primitive when_saved_def system)
  then show "within (when_saved R) (accumulatorE g n)" unfolding accumulatorE_def by (intro saved.follow saved.pure)
qed

lemma flush [order_rules]: "within R i386_flush_tlb"
  unfolding i386_flush_tlb_def flush_tlb_def by (simp add: within_primitive tlb)

lemma ring0 [order_rules]: "within R (require_ring0 F)"
  unfolding require_ring0_def by (intro order_rules)

lemma moves_from [order_rules]:
  "within R (mov_from_cr F B)" "within R (mov_from_dr F B)" "within R (mov_from_tr F B)"
  unfolding mov_from_cr_def mov_from_dr_def mov_from_tr_def by (intro order_rules; simp add: frame_simps)+

lemma moves_to [order_rules]: "within R (mov_to_cr F B)" "within R (mov_to_dr F B)" "within R (mov_to_tr F B)" "within R (clts F)"
  unfolding mov_to_cr_def mov_to_dr_def mov_to_tr_def clts_def
  by (rule system_write already_saved [OF flush] order_rules)+

lemma tables [order_rules]: "within R (lldt F B sel)" "within R (ltr F B sel)" "within R (load_table F B gdt opd)" "within R (lmsw F B opd)"
  unfolding lldt_def ltr_def mark_tss_busy_def load_table_def lmsw_def Let_def
  by (rule system_write already_saved [OF flush] order_rules)+

lemma exec_system [order_rules]: "arm_within R (exec_system F B op)"
  unfolding exec_system_def group6_def group7_def
  by (intro order_rules; simp add: frame_simps)

lemma dispatch:
  assumes "op \<notin> commit_opcodes" shows "arm_within R (i386_dispatch F B op)"
proof (cases "op = 0x0F")
  case True
  have "arm_within R (Some (bindE (fetch8 F B) (dispatch_0f F B)))" by (intro order_rules two_byte)
  then show ?thesis unfolding True escape_dispatch .
qed (rule one_byte [OF assms])

end

end
