(* ===== verification/X386_Precise.thy ===== *)
theory X386_Precise
  imports X386_SystemOrder
begin

text \<open>
  Faults are precise: an instruction of the 80386 that faults can be restarted. \<open>exec_one\<close> saves the register
  file only before the writes that need it; the order \<open>rewindable\<close> says that what the rewind would restore
  stays what it was, and \<open>in_place\<close> that nothing needs restoring.
\<close>

text \<open>The registers that a fault puts back from the saved file: all but the general registers, EFLAGS, EIP and CR2.\<close>

definition cold_part :: "X386Registers \<Rightarrow> X386Registers" where
  "cold_part r = (r3_frame r)\<lparr>r3_eip := 0, r3_cr2 := 0\<rparr>"

lemma cold_part_updates [simp]:
  "cold_part (r\<lparr>r3_gpr := g\<rparr>) = cold_part r" "cold_part (r\<lparr>r3_eflags := f\<rparr>) = cold_part r"
  "cold_part (r\<lparr>r3_eip := i\<rparr>) = cold_part r" "cold_part (r\<lparr>r3_cr2 := x\<rparr>) = cold_part r"
  by (simp_all add: cold_part_def r3_frame_def)

lemma cold_part_frame: "r3_frame r = r3_frame r' \<Longrightarrow> cold_part r = cold_part r'"
  by (simp add: cold_part_def)

lemma cold_part_eq:
  "cold_part r = cold_part r' \<Longrightarrow> \<exists>g f i x. r = r'\<lparr>r3_gpr := g, r3_eflags := f, r3_eip := i, r3_cr2 := x\<rparr>"
  by (rule exI [of _ "r3_gpr r"], rule exI [of _ "r3_eflags r"], rule exI [of _ "r3_eip r"], rule exI [of _ "r3_cr2 r"])
    (cases r; cases r'; simp add: cold_part_def r3_frame_def)

definition snapshot :: "I386Cpu \<Rightarrow> X386Registers" where
  "snapshot c = (if c3_cold_saved c then c3_fault_regs c else c3_regs c)"

definition rewindable :: "I386Cpu \<Rightarrow> I386Cpu \<Rightarrow> bool" where
  "rewindable c c' \<longleftrightarrow>
     cold_part (snapshot c') = cold_part (snapshot c) \<and> (c3_cold_saved c \<longrightarrow> c3_cold_saved c') \<and>
     c3_commit_on_fault c' = c3_commit_on_fault c \<and> c3_start_eip c' = c3_start_eip c"

definition in_place :: "I386Cpu \<Rightarrow> I386Cpu \<Rightarrow> bool" where
  "in_place c c' \<longleftrightarrow>
     cold_part (c3_regs c') = cold_part (c3_regs c) \<and> c3_cold_saved c' = c3_cold_saved c \<and>
     c3_start_eip c' = c3_start_eip c"

lemma rewindable_regs:
  "cold_part r = cold_part (c3_regs c) \<or> c3_cold_saved c \<Longrightarrow> rewindable c (c\<lparr>c3_regs := r\<rparr>)"
  by (auto simp: rewindable_def snapshot_def)

interpretation rewindable: system_order rewindable
proof
  show "rewindable c (c'\<lparr>c3_regs := (c3_regs c)\<lparr>r3_cr2 := x\<rparr>\<rparr>)" if "rewindable c c'" for c c' x
    using that by (auto simp: rewindable_def snapshot_def split: if_split_asm)
  show "rewindable c (c\<lparr>c3_regs := r\<rparr>)" if "r3_frame r = r3_frame (c3_regs c)" for c r
    by (rule rewindable_regs) (simp add: cold_part_frame [OF that])
qed (auto simp: rewindable_def snapshot_def prepare_cold_write_def)

interpretation in_place: commit_order in_place
proof
  show "in_place c (c\<lparr>c3_regs := r\<rparr>)" if "r3_frame r = r3_frame (c3_regs c)" for c r
    using cold_part_frame [OF that] by (simp add: in_place_def)
qed (auto simp: in_place_def)

definition restartable :: "I386Cpu \<Rightarrow> I386Cpu \<Rightarrow> bool" where
  "restartable c c' \<longleftrightarrow> rewindable c c' \<or> in_place c c'"

definition fetches :: "I386Cpu \<Rightarrow> I386Cpu \<Rightarrow> bool" where
  "fetches c c' \<longleftrightarrow> rewindable c c' \<and> in_place c c'"

lemma restartable_weaken: "within rewindable m \<Longrightarrow> within restartable m" "within in_place m \<Longrightarrow> within restartable m"
  by (auto elim!: within_mono simp: restartable_def)

interpretation fetches: instruction_order fetches restartable F B for F B
proof
  show "arm_within restartable (i386_dispatch F B op)" for op
    using rewindable.dispatch [of op F B] in_place.commit_dispatch [of op F B] restartable_weaken
    unfolding arm_within_def by blast
  show "panic_arm_within restartable (i386_exec_string chk F B op)" for chk op
    by (rule panic_arm_mono [OF in_place.exec_strings]) (simp add: restartable_def)
  show "within restartable (i386_exec_decoded F B i)" for i
    by (rule restartable_weaken(1)) (rule rewindable.execute_decoded)
  show "within restartable (dispatch_0f F B op)" for op
    by (rule restartable_weaken(1)) (rule rewindable.two_byte, rule rewindable.exec_system)
  show "fetches c e" if "fetches c d" "fetches d e" for c d e
    using that rewindable.trans in_place.trans unfolding fetches_def by blast
  show "restartable c e" if "fetches c d" "restartable d e" for c d e
    using that rewindable.trans in_place.trans unfolding fetches_def restartable_def by blast
qed (simp_all add: fetches_def restartable_def rewindable.refl in_place.refl rewindable.tlb in_place.tlb rewindable.icache
    in_place.icache rewindable.cr2 in_place.cr2 rewindable.supervisor in_place.supervisor rewindable.eip in_place.eip
    rewindable.ilen in_place.ilen rewindable.decode_state in_place.decode_state)

text \<open>The state of an instruction at its start, from the cache or not.\<close>

definition starts :: "I386Cpu \<Rightarrow> I386Cpu \<Rightarrow> bool" where
  "starts c s \<longleftrightarrow>
     cold_part (c3_regs s) = cold_part (c3_regs c) \<and> c3_start_eip s = r3_eip (c3_regs c) \<and>
     \<not> c3_cold_saved s \<and> \<not> c3_commit_on_fault s"

lemma starts_instruction:
  "starts c (begin_decoded d (c\<lparr>c3_start_eip := r3_eip (c3_regs c)\<rparr>))"
  "starts c (clear_decode (c\<lparr>c3_start_eip := r3_eip (c3_regs c)\<rparr>))"
  by (simp_all add: starts_def begin_decoded_def clear_decode_def)

lemma rewind_restores:
  assumes "starts c s" "restartable s c'"
  shows "cold_part (c3_regs (fault_rewind g c')) = cold_part (c3_regs c)"
    and "r3_eip (c3_regs (fault_rewind g c')) = r3_eip (c3_regs c)"
    and "\<not> c3_commit_on_fault c' \<Longrightarrow> r3_gpr (c3_regs (fault_rewind g c')) = g"
  using assms by (auto simp: starts_def restartable_def rewindable_def in_place_def snapshot_def fault_rewind_def Let_def
      split: if_split_asm)

text \<open>
  C12. Faults are precise: whatever instruction faults, at whatever point of its execution and after whatever part of a far
  transfer, segment load or system instruction, the rewind leaves the register file as it was when the instruction
  started, except EFLAGS and CR2; the general registers keep their progress only for the instructions that ask for it.
\<close>

theorem i386_faults_precise:
  assumes "i386_exec_one chk F B (c, b) = Some (Inl e, c', b')"
  shows "\<exists>g f x. c3_regs (fault_rewind (r3_gpr (c3_regs c)) c') =
           (c3_regs c)\<lparr>r3_gpr := g, r3_eflags := f, r3_cr2 := x\<rparr> \<and>
           (\<not> c3_commit_on_fault c' \<longrightarrow> g = r3_gpr (c3_regs c))"
proof -
  obtain s where "starts c s" "restartable s c'"
    using assms fetches.instruction starts_instruction by metis
  note restored = rewind_restores [OF this, of "r3_gpr (c3_regs c)"]
  obtain g f i x where r: "c3_regs (fault_rewind (r3_gpr (c3_regs c)) c') =
      (c3_regs c)\<lparr>r3_gpr := g, r3_eflags := f, r3_eip := i, r3_cr2 := x\<rparr>"
    using cold_part_eq [OF restored(1)] by blast
  have "i = r3_eip (c3_regs c)" using restored(2) r by simp
  then show ?thesis using r restored(3) by auto
qed

text \<open>A far call from real mode to \<open>0000:10000\<close>: both pushes succeed, then the offset is beyond the limit.\<close>

definition far_call_rom :: "unit I386Bus" where
  "far_call_rom =
     (let byte = (\<lambda>(b :: unit) a. (if a = 0xFFFFFFF0 then 0x66 else if a = 0xFFFFFFF1 then 0x9A
                   else if a = 0xFFFFFFF4 then 1 else (0 :: u8), b))
      in \<lparr>ib_read = byte, ib_write = (\<lambda>b a v. b), ib_read16 = bus_read16 byte, ib_read32 = bus_read32 (bus_read16 byte),
          ib_write16 = (\<lambda>b a v. b), ib_write32 = (\<lambda>b a v. b), ib_io_read = bus_io_read, ib_io_write = bus_io_write\<rparr>)"

lemma far_call_faults:
  "map_option fst (i386_exec_one True (bitflags_all_std EFlags_DEFINED) far_call_rom (I386Cpu_new, ())) = Some (Inl (exc_gp 0))"
  by code_simp

theorem i386_faults_precise_witness:
  "\<exists>c'. i386_exec_one True (bitflags_all_std EFlags_DEFINED) far_call_rom (I386Cpu_new, ()) = Some (Inl (exc_gp 0), c', ()) \<and>
     (\<exists>g f x. c3_regs (fault_rewind (r3_gpr (c3_regs I386Cpu_new)) c') =
        (c3_regs I386Cpu_new)\<lparr>r3_gpr := g, r3_eflags := f, r3_cr2 := x\<rparr>)"
proof -
  obtain c' where run: "i386_exec_one True (bitflags_all_std EFlags_DEFINED) far_call_rom (I386Cpu_new, ()) = Some (Inl (exc_gp 0), c', ())"
    using far_call_faults by auto
  then show ?thesis using i386_faults_precise [OF run] by blast
qed

end
