(* ===== verification/X386_Rings.thy ===== *)
theory X386_Rings
  imports X386_Precise
begin

text \<open>
  Protection of the system registers of the 80386: a step at a privilege level other than 0 changes neither
  the control, debug and test registers nor the descriptor tables, whatever the program does.
\<close>

definition kernel_regs where
  "kernel_regs r =
     (r3_cr0 r, r3_cr3 r, r3_dr r, r3_tr6 r, r3_tr7 r, r3_gdtr r, r3_idtr r, r3_ldtr r, r3_tr r)"

definition user_mode :: "eflag_ops \<Rightarrow> I386Cpu \<Rightarrow> bool" where
  "user_mode F c \<longleftrightarrow> r3_cr0 (c3_regs c) AND cr0_PE \<noteq> 0 \<and> cpl F c \<noteq> 0"

text \<open>The order of everything but system instructions, the one of fetching, and the relation of an instruction.\<close>

definition same_kernel :: "I386Cpu \<Rightarrow> I386Cpu \<Rightarrow> bool" where
  "same_kernel c c' \<longleftrightarrow> kernel_regs (c3_regs c') = kernel_regs (c3_regs c) \<and> (c3_cold_saved c \<longrightarrow> c3_cold_saved c')"

definition same_mode :: "I386Cpu \<Rightarrow> I386Cpu \<Rightarrow> bool" where
  "same_mode c c' \<longleftrightarrow>
     same_kernel c c' \<and> r3_seg (c3_regs c') = r3_seg (c3_regs c) \<and> c3_eflags c' = c3_eflags c"

definition guarded :: "eflag_ops \<Rightarrow> I386Cpu \<Rightarrow> I386Cpu \<Rightarrow> bool" where
  "guarded F c c' \<longleftrightarrow> (user_mode F c \<longrightarrow> kernel_regs (c3_regs c') = kernel_regs (c3_regs c))"

lemma kernel_regs_cold: "cold_part r = cold_part r' \<Longrightarrow> kernel_regs r = kernel_regs r'"
  using cold_part_eq [of r r'] by (auto simp: kernel_regs_def)

lemma kernel_regs_updates [simp]:
  "kernel_regs (r\<lparr>r3_seg := s\<rparr>) = kernel_regs r" "kernel_regs (r\<lparr>r3_cr2 := x\<rparr>) = kernel_regs r"
  "kernel_regs (r\<lparr>r3_eip := i\<rparr>) = kernel_regs r"
  by (simp_all add: kernel_regs_def)

interpretation kernel: segment_order same_kernel
proof
  show "same_kernel c (c\<lparr>c3_regs := r\<rparr>)" if "r3_frame r = r3_frame (c3_regs c)" for c r
    using kernel_regs_cold [OF cold_part_frame [OF that]] by (simp add: same_kernel_def)
qed (auto simp: same_kernel_def prepare_cold_write_def)

interpretation kernel: commit_order same_kernel
  by unfold_locales (simp add: same_kernel_def)

interpretation mode: decode_order same_mode
  by unfold_locales (auto simp: same_mode_def same_kernel_def)

lemma mode_user: "same_mode c d \<Longrightarrow> user_mode F d = user_mode F c"
  by (simp add: same_mode_def same_kernel_def user_mode_def kernel_regs_def cpl_def protected_mode_def)

lemma guarded_kernel: "within same_kernel m \<Longrightarrow> within (guarded F) m"
  by (elim within_mono) (simp add: same_kernel_def guarded_def)

lemma guarded_arm: "arm_within same_kernel x \<Longrightarrow> arm_within (guarded F) x"
  using guarded_kernel by (auto simp: arm_within_def)

lemma guarded_bind:
  assumes m: "within same_mode m" and f: "\<And>a. within (guarded F) (f a)"
  shows "within (guarded F) (bindE m f)"
proof (rule withinI)
  fix c b r c' b' assume run: "bindE m f (c, b) = (r, c', b')"
  obtain q d e where q: "m (c, b) = (q, d, e)" by (metis prod.exhaust)
  have s: "same_mode c d" using withinD [OF m q] .
  have "guarded F d c'"
    using run q withinD [OF f] by (auto simp: bindE_def guarded_def split: sum.split_asm)
  then show "guarded F c c'"
    using s mode_user [OF s, of F] by (simp add: guarded_def same_mode_def same_kernel_def)
qed

lemma guarded_then: "within same_mode m \<Longrightarrow> within (guarded F) n \<Longrightarrow> within (guarded F) (thenE m n)"
  unfolding thenE_def by (rule guarded_bind)

text \<open>Behind \<open>require_ring0\<close> anything goes.\<close>

lemma guarded_ring0: "within (guarded F) (thenE (require_ring0 F) m)"
  by (rule withinI) (auto simp: thenE_def bindE_def require_ring0_def checkE_def guarded_def user_mode_def split: if_split_asm)

lemma system_guarded: "arm_within (guarded F) (exec_system F B op)"
  unfolding exec_system_def mov_from_cr_def mov_from_dr_def mov_from_tr_def mov_to_cr_def mov_to_dr_def mov_to_tr_def
    clts_def group6_def group7_def load_table_def lmsw_def
  by (rule arm_within_rules guarded_ring0 | rule guarded_bind guarded_then, rule mode.modrm mode.pure
      | rule within_if within_cases
      | rule guarded_kernel, (rule order_rules | simp only: frame_simps)+)+

lemma escape_guarded: "within (guarded F) (dispatch_0f F B op)"
proof -
  have gated: "arm_within (guarded F) (first_section (if ext then [exec_extensions F B] else []) op)" for ext
    by (cases ext) (simp_all only: if_True if_False, (rule first_section_within | rule guarded_arm, rule kernel.extensions)+)
  have rest: "arm_within (guarded F) (exec_jcc_setcc F B op)" "arm_within (guarded F) (exec_bits F B op)"
    "arm_within (guarded F) (exec_widen F B op)"
    by (rule guarded_arm, rule kernel.exec_0f kernel.exec_bits)+
  show ?thesis
    unfolding dispatch_0f_def append.simps
    by (rule guarded_bind guarded_then, rule mode.pure | rule within_cases(3)
        | rule arm_case gated rest system_guarded first_section_within | rule guarded_kernel, rule kernel.pure)+
qed

interpretation mode: instruction_order same_mode "guarded F" F B for F B
proof
  show "guarded F c e" if "same_mode c d" "guarded F d e" for c d e
    using that mode_user [OF that(1), of F] by (simp add: guarded_def same_mode_def same_kernel_def)
  show "guarded F c d" if "same_mode c d" for c d
    using that by (simp add: guarded_def same_mode_def same_kernel_def)
  show "within (guarded F) (i386_exec_decoded F B i)" for i
    by (rule guarded_kernel) (rule kernel.execute_decoded)
  show "within (guarded F) (dispatch_0f F B op)" for op by (rule escape_guarded)
  show "panic_arm_within (guarded F) (i386_exec_string chk F B op)" for chk op
    by (rule panic_arm_mono [OF kernel.exec_strings]) (simp add: same_kernel_def guarded_def)
  show "arm_within (guarded F) (i386_dispatch F B op)" for op
  proof (cases "op = 0x0F")
    case True
    show ?thesis
      unfolding True escape_dispatch by (rule arm_within_rules) (rule guarded_bind, rule mode.fetch, rule escape_guarded)
  next
    case False
    then show ?thesis
      using kernel.one_byte [of op F B] kernel.commit_dispatch [of op F B] guarded_arm by blast
  qed
qed

text \<open>Interrupt delivery and the fault path.\<close>

lemma kernel_shut_down: "kernel_regs (c3_regs (shut_down c)) = kernel_regs (c3_regs c)"
  by (simp add: shut_down_def)

lemma deliver_kernel:
  "deliver_rounds n F B e k dbl (c, b) = (c', b') \<Longrightarrow> kernel_regs (c3_regs c') = kernel_regs (c3_regs c)"
proof (induction n arbitrary: e k dbl c b)
  case (Suc n)
  obtain q d b2 where r: "i386_raise F B e k (c, b) = (q, d, b2)" by (metis prod.exhaust)
  have "kernel_regs (c3_regs d) = kernel_regs (c3_regs c)"
    using withinD [OF kernel.raised r] by (simp add: same_kernel_def)
  then show ?case
    using Suc r kernel_shut_down by (auto split: sum.split_asm if_split_asm)
qed (auto simp: kernel_shut_down)

lemma instruction_kernel:
  assumes "i386_exec_one chk F B (c, b) = Some (r, c', b')" "user_mode F c"
  shows "kernel_regs (c3_regs c') = kernel_regs (c3_regs c)"
proof -
  let ?c = "c\<lparr>c3_start_eip := r3_eip (c3_regs c)\<rparr>"
  have "user_mode F (begin_decoded d ?c)" "user_mode F (clear_decode ?c)" for d
    using assms(2) by (simp_all add: user_mode_def begin_decoded_def clear_decode_def cpl_def protected_mode_def split: if_splits)
  moreover have "kernel_regs (c3_regs (begin_decoded d ?c)) = kernel_regs (c3_regs c)"
    "kernel_regs (c3_regs (clear_decode ?c)) = kernel_regs (c3_regs c)" for d
    by (simp_all add: begin_decoded_def clear_decode_def)
  ultimately show ?thesis
    using assms(1) by (auto elim!: mode.instruction simp: guarded_def)
qed

lemma rewind_kernel:
  assumes "i386_exec_one chk F B (c, b) = Some (r, c', b')"
  shows "kernel_regs (c3_regs (fault_rewind g c')) = kernel_regs (c3_regs c)"
proof -
  obtain s where "starts c s" "restartable s c'"
    using assms fetches.instruction starts_instruction by metis
  then show ?thesis using rewind_restores(1) kernel_regs_cold by blast
qed

lemma epilogue_kernel:
  assumes "i386_exec_one chk F B (c, b) = Some (r, d, b2)" "i386_fault_epilogue F B e g (d, b2) = (q, c', b')"
  shows "kernel_regs (c3_regs c') = kernel_regs (c3_regs c)"
  using assms(2) rewind_kernel [OF assms(1), of g]
  by (auto simp: i386_fault_epilogue_def Let_def i386_add_cycles_def i386_set_host_trap_def deliver_def
      dest!: deliver_kernel split: if_split_asm)

lemma single_step_kernel:
  "single_step chk F B trap n (c, b) = Some (m, c', b') \<Longrightarrow> kernel_regs (c3_regs c') = kernel_regs (c3_regs c)"
  using deliver_kernel
  by (auto simp: single_step_def Let_def i386_add_cycles_def deliver_def split: if_split_asm prod.split_asm)

lemma fast_kernel:
  assumes "i386_step_fast chk F B (c, b) = Some (n, c', b')" "user_mode F c"
  shows "kernel_regs (c3_regs c') = kernel_regs (c3_regs c)"
  using assms
  by (auto simp: i386_step_fast_def Let_def i386_add_cycles_def dest: instruction_kernel epilogue_kernel
      split: option.split_asm sum.split_asm prod.split_asm)

lemma pending_kernel: "i386_pending F c = Some (v, d) \<Longrightarrow> c3_regs d = c3_regs c"
  by (auto simp: i386_pending_def split: if_split_asm option.split_asm)

lemma user_mode_events [simp]: "user_mode F (c\<lparr>c3_events := e\<rparr>) = user_mode F c"
  by (simp add: user_mode_def cpl_def protected_mode_def)

text \<open>The three ways through a step at a boundary.\<close>

lemma slow_paths:
  "i386_exec_one chk F B (c, b) = Some (r, d, b2) \<Longrightarrow> user_mode F c \<Longrightarrow> single_step chk F B trap n (d, b2) = Some (k, c', b') \<Longrightarrow>
     kernel_regs (c3_regs c') = kernel_regs (c3_regs c)"
  "i386_exec_one chk F B (c, b) = Some (r, d, b2) \<Longrightarrow> i386_fault_epilogue F B e g (d, b2) = (q, d2, b3) \<Longrightarrow>
     single_step chk F B trap n (d2, b3) = Some (k, c', b') \<Longrightarrow> kernel_regs (c3_regs c') = kernel_regs (c3_regs c)"
  "i386_pending F c = Some (v, d) \<Longrightarrow> deliver_rounds m F B x z dbl (d, b) = (c', b') \<Longrightarrow>
     kernel_regs (c3_regs c') = kernel_regs (c3_regs c)"
  using instruction_kernel single_step_kernel epilogue_kernel pending_kernel deliver_kernel by metis+

lemma slow_kernel:
  assumes "i386_step_slow chk F B (c, b) = Some (n, c', b')" "user_mode F c"
  shows "kernel_regs (c3_regs c') = kernel_regs (c3_regs c)"
  using assms
  by (auto simp: i386_step_slow_def Let_def i386_add_cycles_def deliver_def dest: slow_paths epilogue_kernel
      split: option.split_asm sum.split_asm prod.split_asm if_split_asm)

text \<open>
  C11. Protection. In protected mode at a privilege level other than 0, no step changes the control registers CR0 and CR3,
  the debug and test registers, the descriptor-table registers or the task register, whatever instruction it executes,
  whether it faults, and whatever interrupts and exceptions it delivers.
\<close>

theorem i386_user_step_keeps_kernel:
  assumes "i386_step chk F B (c, b) = Some (n, c', b')" "user_mode F c"
  shows "kernel_regs (c3_regs c') = kernel_regs (c3_regs c)"
  using assms unfolding i386_step_def by (auto intro: slow_kernel fast_kernel split: if_split_asm)

text \<open>\<open>MOV CR0, EAX\<close> at level 3, with faults reported to the host.\<close>

definition mov_cr0_rom :: "unit I386Bus" where
  "mov_cr0_rom =
     (let byte = (\<lambda>(b :: unit) a. (if a = 0xFFFFFFF0 then 0x0F else if a = 0xFFFFFFF1 then 0x22 else (0xC0 :: u8), b))
      in far_call_rom\<lparr>ib_read := byte\<rparr>)"

definition user_cpu :: I386Cpu where
  "user_cpu =
     c3_reg (\<lambda>r. r\<lparr>r3_cr0 := cr0_PE, r3_seg := (r3_seg r)(CS := (r3_seg r CS)\<lparr>sr_attrs := 0x00FB\<rparr>)\<rparr>)
       (I386Cpu_new\<lparr>c3_trap_faults := True\<rparr>)"

lemma mov_cr0_faults:
  "map_option (\<lambda>(n, c, b). c3_host_trap c) (i386_step True (bitflags_all_std EFlags_DEFINED) mov_cr0_rom (user_cpu, ())) =
     Some (Some (I386_Exception (exc_gp 0)))"
  by code_simp

theorem i386_user_step_keeps_kernel_witness:
  "\<exists>n c'. i386_step True (bitflags_all_std EFlags_DEFINED) mov_cr0_rom (user_cpu, ()) = Some (n, c', ()) \<and>
     c3_host_trap c' = Some (I386_Exception (exc_gp 0)) \<and> kernel_regs (c3_regs c') = kernel_regs (c3_regs user_cpu)"
proof -
  obtain n c' where run: "i386_step True (bitflags_all_std EFlags_DEFINED) mov_cr0_rom (user_cpu, ()) = Some (n, c', ())"
    and "c3_host_trap c' = Some (I386_Exception (exc_gp 0))"
    using mov_cr0_faults by auto
  moreover have "user_mode (bitflags_all_std EFlags_DEFINED) user_cpu" by code_simp
  ultimately show ?thesis using i386_user_step_keeps_kernel [OF run] by blast
qed

end
