(* ===== verification/X386_DecodeSame.thy ===== *)
theory X386_DecodeSame
  imports X386_Rings
begin

unbundle bit_operations_syntax

text \<open>
  The decoder against the direct reading of operands: evaluating the address formula of a decoded instruction
  gives the operand that \<open>modrm\<close> computes, from the same bytes and with the same faults.
\<close>

subsection \<open>The packed bytes\<close>

lemma kind_after_set [simp]: "di_kind (set_kind k d) = k"
proof -
  have "drop_bit 3 ((f AND NOT (push_bit 3 3)) OR push_bit 3 (opkind_u8 k)) AND 3 = opkind_u8 k" for f :: u8
    by (rule byte_eqI; cases k; simp add: bit_simps)
  then show ?thesis by (cases k) (simp_all add: di_kind_def set_kind_def KIND_SHIFT_def)
qed

lemma asize_after_set [simp]: "di_asize32 (set_kind k d) = di_asize32 d"
proof -
  have "((f AND NOT (push_bit 3 3)) OR push_bit 3 (opkind_u8 k)) AND 2 = f AND 2" for f :: u8
    by (rule byte_eqI; cases k; simp add: bit_simps)
  then show ?thesis by (simp add: di_asize32_def set_kind_def KIND_SHIFT_def F_ASIZE32_def)
qed

lemma seg_byte: "sg < 8 \<Longrightarrow> sg = sg AND (7 :: u8)"
proof -
  assume "sg < 8"
  then have "take_bit 3 sg = sg" by (simp add: take_bit_eq_mod unat_arith_simps word_less_nat_alt word_unat_eq_iff)
  then show "sg = sg AND 7" by (simp add: take_bit_eq_mask mask_eq_exp_minus_1)
qed

lemma seg_after_set: "sg < 8 \<Longrightarrow> di_seg (di_set_seg sg d) = sg"
proof -
  assume "sg < 8"
  have "((f AND NOT 7) OR s) AND 7 = s AND 7" for f s :: u8
    by (rule byte_eqI; simp add: bit_simps)
  then show ?thesis using seg_byte [OF \<open>sg < 8\<close>] by (simp add: di_seg_def di_set_seg_def)
qed

lemma scale_after_set [simp]: "di_scale (set_scale s d) = s AND 3"
  unfolding di_scale_def set_scale_def by (simp, rule byte_eqI; simp add: bit_simps)

lemma scale_after_seg: "sg < 8 \<Longrightarrow> di_scale (di_set_seg sg d) = di_scale d"
  unfolding di_scale_def di_set_seg_def by (subst seg_byte, assumption) (simp, rule byte_eqI; simp add: bit_simps)

lemma set_fields [simp]:
  "di_base (di_set_seg sg d) = di_base d" "di_index (di_set_seg sg d) = di_index d" "di_disp (di_set_seg sg d) = di_disp d"
  "di_flags (di_set_seg sg d) = di_flags d" "di_base (set_scale s d) = di_base d" "di_index (set_scale s d) = di_index d"
  "di_disp (set_scale s d) = di_disp d" "di_flags (set_scale s d) = di_flags d" "di_base (set_kind k d) = di_base d"
  "di_index (set_kind k d) = di_index d" "di_disp (set_kind k d) = di_disp d" "di_segscale (set_kind k d) = di_segscale d"
  "di_asize32 (d\<lparr>di_reg := i\<rparr>) = di_asize32 d"
  by (simp_all add: di_set_seg_def set_scale_def set_kind_def di_asize32_def)

subsection \<open>What fetching leaves alone\<close>

definition same_operands :: "I386Cpu \<Rightarrow> I386Cpu \<Rightarrow> bool" where
  "same_operands c c' \<longleftrightarrow>
     r3_gpr (c3_regs c') = r3_gpr (c3_regs c) \<and> c3_asize32 c' = c3_asize32 c \<and> c3_seg_override c' = c3_seg_override c \<and>
     c3_osize32 c' = c3_osize32 c \<and> c3_lock c' = c3_lock c"

interpretation operands: fetch_order same_operands
  by unfold_locales (auto simp: same_operands_def)

text \<open>Two continuations that agree on the states a fetch can leave.\<close>

lemma bind_same:
  assumes "within same_operands m" and "\<And>a c' b'. same_operands c c' \<Longrightarrow> f a (c', b') = g a (c', b')"
  shows "bindE m f (c, b) = bindE m g (c, b)"
  using withinD [OF assms(1)] assms(2) by (auto simp: bindE_def split: prod.split sum.split)

lemma operands_trans: "same_operands c d \<Longrightarrow> same_operands d e \<Longrightarrow> same_operands c e"
  by (simp add: same_operands_def)

subsection \<open>The address formulas\<close>

text \<open>A decoded instruction before its operand is decoded, in a state with its address size.\<close>

definition blank :: "X386Insn \<Rightarrow> I386Cpu \<Rightarrow> bool" where
  "blank d c \<longleftrightarrow>
     di_base d = reg_NONE \<and> di_index d = reg_NONE \<and> di_disp d = 0 \<and> di_scale d = 0 \<and> di_asize32 d = c3_asize32 c \<and>
     (case c3_seg_override c of None \<Rightarrow> True | Some sg \<Rightarrow> sg < 8)"

lemma seg_or_small: "(case c3_seg_override c of None \<Rightarrow> True | Some sg \<Rightarrow> sg < 8) \<Longrightarrow> dflt < 8 \<Longrightarrow> i386_seg_or c dflt < 8"
  by (auto simp: i386_seg_or_def split: option.splits)

lemma ea_operand_mem:
  "di_kind d = OpKind_Mem \<Longrightarrow> ea_operand d c =
     Operand_Mem (di_seg d)
       (let off = di_disp d + (if di_base d = reg_NONE then 0 else r3_gpr (c3_regs c) (di_base d AND 7)) +
              (if di_index d = reg_NONE then 0 else push_bit (unat (di_scale d)) (r3_gpr (c3_regs c) (di_index d AND 7)))
        in if di_asize32 d then off else off AND 0xFFFF)"
  by (simp add: ea_operand_def Let_def)

text \<open>Sixteen-bit address arithmetic in thirty-two bits.\<close>

lemma addr16:
  fixes a b :: u32 and v :: u16
  shows "(ucast v + a + b) AND 0xFFFF = ucast (ucast a + ucast b + v)" "(ucast v + a) AND 0xFFFF = ucast (ucast a + v)"
    "(ucast v :: u32) AND 0xFFFF = ucast v"
proof -
  have m: "x AND 0xFFFF = take_bit 16 x" for x :: u32 by (simp add: take_bit_eq_mask mask_eq_exp_minus_1)
  have t: "take_bit 16 x = ucast (ucast x :: u16)" for x :: u32
    by (rule bit_word_eqI) (auto simp: bit_simps)
  have s: "ucast (x + y) = (ucast x + ucast y :: u16)" for x y :: u32
    by (simp add: unsigned_ucast_eq word_unat_eq_iff unat_word_ariths mod_simps take_bit_eq_mod mod_mod_cancel)
  have u: "ucast (ucast v :: u32) = v" by (rule bit_word_eqI) (auto simp: bit_simps)
  show "(ucast v + a + b) AND 0xFFFF = ucast (ucast a + ucast b + v)" "(ucast v + a) AND 0xFFFF = ucast (ucast a + v)"
    unfolding m t s u by (simp_all add: ac_simps)
  show "(ucast v :: u32) AND 0xFFFF = ucast v" unfolding m t u ..
qed

lemma set_seg_operand:
  assumes "di_kind d = OpKind_Mem" "i386_seg_or c dflt < 8"
  shows "bindE (set_seg_or dflt d) (\<lambda>d. getE (ea_operand d)) (c, b) =
    (Inr (case ea_operand d c of Operand_Mem _ off \<Rightarrow> Operand_Mem (i386_seg_or c dflt) off | Operand_Reg i \<Rightarrow> Operand_Reg i), c, b)"
  using assms seg_after_set [OF assms(2), of d] scale_after_seg [OF assms(2), of d]
  by (simp add: set_seg_or_def bindE_def getE_def okE_def ea_operand_def di_kind_def di_asize32_def Let_def split: if_split_asm)

lemma regs_not_NONE: "EBX \<noteq> reg_NONE" "EBP \<noteq> reg_NONE" "ESI \<noteq> reg_NONE" "EDI \<noteq> reg_NONE" "DS < 8" "SS < 8"
  by (simp_all add: reg_index_defs reg_NONE_def)

text \<open>The displacement after a ModRM byte, as both sides fetch it.\<close>

definition disp16 :: "eflag_ops \<Rightarrow> 'b I386Bus \<Rightarrow> I386ModRm \<Rightarrow> ('b, u16) exec" where
  "disp16 F B m =
     (if i386_md m = 0 then okE 0 else if i386_md m = 1 then bindE (fetch8 F B) (\<lambda>d. okE (scast d)) else fetch16 F B)"

lemma disp16_ucast:
  "(if i386_md m = 0 then okE 0
    else if i386_md m = 1 then bindE (fetch8 F B) (\<lambda>v. okE (ucast (scast v :: u16)))
    else bindE (fetch16 F B) (\<lambda>v. okE (ucast v))) = bindE (disp16 F B m) (\<lambda>v. okE (ucast v))"
  by (simp add: disp16_def bindE_assoc)

lemma disp16_within: "within same_operands (disp16 F B m)"
  unfolding disp16_def by (intro order_rules)

lemma ea16_same:
  assumes "blank d c" "di_kind d = OpKind_Mem" "\<not> c3_asize32 c"
  shows "bindE (ea16_formula F B m d) (\<lambda>d. getE (ea_operand d)) (c, b) = ea16 F B m (c, b)"
proof -
  have seg: "i386_seg_or c' dflt < 8" if "same_operands c c'" "dflt < 8" for c' dflt
    using assms(1) that seg_or_small [of c' dflt] by (simp add: blank_def same_operands_def)
  show ?thesis
  proof (cases "i386_md m = 0 \<and> i386_rm m = 6")
    case True
    show ?thesis
      unfolding ea16_formula_def ea16_def if_P [OF True] bindE_assoc
    proof (rule bind_same, rule operands.fetch)
      fix v :: u16 and c' b' assume s: "same_operands c c'"
      show "bindE (set_seg_or DS (d\<lparr>di_disp := ucast v\<rparr>)) (\<lambda>d. getE (ea_operand d)) (c', b') =
          bindE (getE (\<lambda>c. i386_seg_or c DS)) (\<lambda>sg. okE (Operand_Mem sg (ucast v))) (c', b')"
        using assms s
        by (subst set_seg_operand)
          (simp_all add: seg regs_not_NONE blank_def ea_operand_def Let_def addr16 bindE_def getE_def okE_def di_kind_def di_asize32_def)
    qed
  next
    case False
    obtain base index sg where e: "ea16_regs (i386_rm m) = (base, index, sg)" by (metis prod.exhaust)
    have sg: "sg < 8" using e by (auto simp: ea16_regs_def regs_not_NONE split: if_split_asm)
    show ?thesis
      unfolding ea16_formula_def ea16_def if_not_P [OF False] Let_def e prod.case disp16_ucast bindE_assoc bindE_ok
        disp16_def [symmetric]
    proof (rule bind_same, rule disp16_within)
      fix v :: u16 and c' b' assume s: "same_operands c c'"
      show "bindE (set_seg_or sg (d\<lparr>di_base := base, di_index := index, di_disp := ucast v\<rparr>)) (\<lambda>d. getE (ea_operand d)) (c', b') =
         bindE (getE (\<lambda>c. ea16_base (c3_regs c) (i386_rm m))) (\<lambda>(base, sg).
           bindE (getE (\<lambda>c. i386_seg_or c sg)) (\<lambda>sg. okE (Operand_Mem sg (ucast (base + v))))) (c', b')"
        using assms s seg [OF s sg] e
        by (subst set_seg_operand)
          (auto simp: regs_not_NONE blank_def ea_operand_def Let_def addr16 bindE_def getE_def okE_def di_kind_def
            di_asize32_def di_scale_def ea16_regs_def ea16_base_def i386_reg16_def split: if_split_asm)
    qed
  qed
qed

text \<open>The same for thirty-two bits, where a SIB byte may follow.\<close>

definition disp32 :: "eflag_ops \<Rightarrow> 'b I386Bus \<Rightarrow> I386ModRm \<Rightarrow> ('b, u32) exec" where
  "disp32 F B m =
     (if i386_md m = 0 then okE 0 else if i386_md m = 1 then bindE (fetch8 F B) (\<lambda>d. okE (scast d)) else fetch32 F B)"

lemma disp32_within: "within same_operands (disp32 F B m)"
  unfolding disp32_def by (intro order_rules)

definition address :: "X386Insn \<Rightarrow> I386Cpu \<Rightarrow> u32" where
  "address d c =
     di_disp d + (if di_base d = reg_NONE then 0 else reg32 (c3_regs c) (di_base d)) +
       (if di_index d = reg_NONE then 0 else push_bit (unat (di_scale d)) (reg32 (c3_regs c) (di_index d)))"

lemma get_run: "bindE (getE f) g (c, b) = g (f c) (c, b)"
  by (simp add: bindE_def getE_def)

text \<open>From the displacement on.\<close>

definition formula_tail :: "eflag_ops \<Rightarrow> 'b I386Bus \<Rightarrow> I386ModRm \<Rightarrow> u8 \<Rightarrow> X386Insn \<Rightarrow> ('b, I386Operand) exec" where
  "formula_tail F B m dflt d =
     bindE (disp32 F B m) (\<lambda>v. bindE (set_seg_or dflt (d\<lparr>di_disp := di_disp d + v\<rparr>)) (\<lambda>d. getE (ea_operand d)))"

definition direct_tail :: "eflag_ops \<Rightarrow> 'b I386Bus \<Rightarrow> I386ModRm \<Rightarrow> u32 \<Rightarrow> u8 \<Rightarrow> ('b, I386Operand) exec" where
  "direct_tail F B m base dflt =
     bindE (disp32 F B m) (\<lambda>v. bindE (getE (\<lambda>c. i386_seg_or c dflt)) (\<lambda>sg. okE (Operand_Mem sg (base + v))))"

definition override_ok :: "I386Cpu \<Rightarrow> bool" where
  "override_ok c \<longleftrightarrow> (case c3_seg_override c of None \<Rightarrow> True | Some sg \<Rightarrow> sg < 8)"

lemma tail32:
  assumes "di_kind d = OpKind_Mem" "di_asize32 d" "dflt < 8" "override_ok c"
  shows "formula_tail F B m dflt d (c, b) = direct_tail F B m (address d c) dflt (c, b)"
  unfolding formula_tail_def direct_tail_def
proof (rule bind_same, rule disp32_within)
  fix v c' b' assume s: "same_operands c c'"
  have seg: "i386_seg_or c' dflt < 8"
    using seg_or_small [of c' dflt] assms s by (simp add: same_operands_def override_ok_def)
  have kind: "di_kind (d\<lparr>di_disp := di_disp d + v\<rparr>) = OpKind_Mem" using assms(1) by (simp add: di_kind_def)
  show "bindE (set_seg_or dflt (d\<lparr>di_disp := di_disp d + v\<rparr>)) (\<lambda>d. getE (ea_operand d)) (c', b') =
      bindE (getE (\<lambda>c. i386_seg_or c dflt)) (\<lambda>sg. okE (Operand_Mem sg (address d c + v))) (c', b')"
    unfolding set_seg_operand [OF kind seg] ea_operand_mem [OF kind] get_run
    using assms(2) s by (simp add: okE_def address_def reg32_def Let_def di_asize32_def di_scale_def same_operands_def)
qed

lemma sib_bytes:
  fixes s :: u8
  shows "s AND 7 \<noteq> reg_NONE" "drop_bit 3 s AND 7 \<noteq> reg_NONE" "drop_bit 6 s AND 3 = drop_bit 6 s"
proof -
  have small: "x AND 7 \<noteq> reg_NONE" for x :: u8
  proof
    assume "x AND 7 = reg_NONE"
    then have "bit (x AND 7) 7" by (simp add: reg_NONE_def)
    then show False by (simp add: bit_simps)
  qed
  show "s AND 7 \<noteq> reg_NONE" "drop_bit 3 s AND 7 \<noteq> reg_NONE" by (rule small)+
  show "drop_bit 6 s AND 3 = drop_bit 6 s"
    by (rule byte_eqI; auto simp: bit_simps dest: bit_imp_le_length)
qed

lemma sib_same:
  assumes "blank d c" "di_kind d = OpKind_Mem" "c3_asize32 c"
  shows "bindE (sib_formula F B m d) (\<lambda>(sg, d). formula_tail F B m sg d) (c, b) =
    bindE (sib F B m) (\<lambda>(base, sg). direct_tail F B m base sg) (c, b)"
  unfolding sib_formula_def sib_def bindE_assoc Let_def
proof (rule bind_same, rule operands.fetch)
  fix s :: u8 and c' b' assume s: "same_operands c c'"
  have d: "di_asize32 d" "di_disp d = 0" "di_base d = reg_NONE" "di_index d = reg_NONE" "di_scale d = 0"
    using assms by (auto simp: blank_def)
  have ok: "same_operands c e \<Longrightarrow> override_ok e" for e
    using assms(1) by (simp add: blank_def same_operands_def override_ok_def)
  let ?scale = "drop_bit 6 s" and ?index = "drop_bit 3 s AND 7" and ?base = "s AND 7"
  note facts = d assms(2) sib_bytes [of s] regs_not_NONE
  note defs = address_def di_kind_def di_asize32_def get_run tail32 ok
  show "bindE (if ?base = 5 \<and> i386_md m = 0 then bindE (fetch32 F B) (\<lambda>v. okE (DS, False, d\<lparr>di_disp := v\<rparr>))
          else okE (if ?base = ESP \<or> ?base = EBP then SS else DS, True, d\<lparr>di_base := ?base\<rparr>))
       (\<lambda>a. bindE (case a of (sg, scalable, d) \<Rightarrow>
              okE (sg, if ?index \<noteq> 4 then set_scale ?scale (d\<lparr>di_index := ?index\<rparr>)
                       else if scalable then set_scale ?scale (d\<lparr>di_index := di_base d, di_base := reg_NONE\<rparr>) else d))
          (\<lambda>(sg, d). formula_tail F B m sg d)) (c', b') =
     bindE (if ?base = 5 \<and> i386_md m = 0 then bindE (fetch32 F B) (\<lambda>d. okE (d, DS, False))
            else getE (\<lambda>c. (reg32 (c3_regs c) ?base, if ?base = ESP \<or> ?base = EBP then SS else DS, True)))
       (\<lambda>a. bindE (case a of (base, sg, scalable) \<Rightarrow>
              bindE (getE (\<lambda>c. if ?index \<noteq> 4 then base + push_bit (unat ?scale) (reg32 (c3_regs c) ?index)
                               else if scalable then push_bit (unat ?scale) base else base)) (\<lambda>base. okE (base, sg)))
          (\<lambda>(base, sg). direct_tail F B m base sg)) (c', b')"
  proof (cases "?base = 5 \<and> i386_md m = 0")
    case True
    show ?thesis
      unfolding if_P [OF True] bindE_assoc bindE_ok prod.case
    proof (rule bind_same, rule operands.fetch)
      fix v :: u32 and c2 b2 assume t: "same_operands c' c2"
      show "formula_tail F B m DS (if ?index \<noteq> 4 then set_scale ?scale (d\<lparr>di_disp := v, di_index := ?index\<rparr>)
              else if False then set_scale ?scale (d\<lparr>di_disp := v, di_index := di_base (d\<lparr>di_disp := v\<rparr>), di_base := reg_NONE\<rparr>)
              else d\<lparr>di_disp := v\<rparr>) (c2, b2) =
          bindE (getE (\<lambda>c. if ?index \<noteq> 4 then v + push_bit (unat ?scale) (reg32 (c3_regs c) ?index)
                           else if False then push_bit (unat ?scale) v else v)) (\<lambda>base. direct_tail F B m base DS) (c2, b2)"
        using facts by (auto simp: defs operands_trans [OF s t])
    qed
  next
    case False
    show ?thesis
      unfolding if_not_P [OF False] bindE_assoc bindE_ok prod.case get_run
      using facts by (auto simp: defs s)
  qed
qed

lemma ea32_same:
  assumes "blank d c" "di_kind d = OpKind_Mem" "c3_asize32 c"
  shows "bindE (ea32_formula F B m d) (\<lambda>d. getE (ea_operand d)) (c, b) = ea32 F B m (c, b)"
proof (cases "i386_md m = 0 \<and> i386_rm m = 5")
  case True
  show ?thesis
    unfolding ea32_formula_def ea32_def if_P [OF True] bindE_assoc
  proof (rule bind_same, rule operands.fetch)
    fix v :: u32 and c' b' assume s: "same_operands c c'"
    have "i386_seg_or c' DS < 8"
      using assms(1) s seg_or_small [of c' DS] by (simp add: blank_def same_operands_def regs_not_NONE)
    then show "bindE (set_seg_or DS (d\<lparr>di_disp := v\<rparr>)) (\<lambda>d. getE (ea_operand d)) (c', b') =
        bindE (getE (\<lambda>c. i386_seg_or c DS)) (\<lambda>sg. okE (Operand_Mem sg v)) (c', b')"
      using assms s
      by (subst set_seg_operand)
        (simp_all add: blank_def ea_operand_def Let_def get_run okE_def di_kind_def di_asize32_def)
  qed
next
  case False
  have tails: "bindE (ea32_formula F B m d) (\<lambda>d. getE (ea_operand d)) =
      bindE (if i386_rm m = 4 then sib_formula F B m d
             else okE (if i386_rm m = EBP then SS else DS, d\<lparr>di_base := i386_rm m\<rparr>)) (\<lambda>(sg, d). formula_tail F B m sg d)"
    "ea32 F B m =
      bindE (if i386_rm m = 4 then sib F B m
             else getE (\<lambda>c. (reg32 (c3_regs c) (i386_rm m), if i386_rm m = EBP then SS else DS))) (\<lambda>(base, sg).
        direct_tail F B m base sg)"
    unfolding ea32_formula_def ea32_def if_not_P [OF False] disp32_def direct_tail_def formula_tail_def
    by (simp_all add: bindE_assoc case_prod_beta')
  have d: "di_asize32 d" "di_disp d = 0" "di_base d = reg_NONE" "di_index d = reg_NONE" "override_ok c"
    using assms by (auto simp: blank_def override_ok_def)
  have rm: "i386_rm m \<noteq> reg_NONE" unfolding i386_rm_def by (rule sib_bytes)
  show ?thesis
  proof (cases "i386_rm m = 4")
    case True
    show ?thesis unfolding tails if_P [OF True] by (rule sib_same [OF assms])
  next
    case False
    show ?thesis
      unfolding tails if_not_P [OF False] bindE_ok prod.case get_run
      using d rm assms(2) by (simp add: tail32 address_def di_kind_def di_asize32_def regs_not_NONE)
  qed
qed

text \<open>
  For every ModRM and SIB byte, address size, displacement and segment override, decoding the operand into a
  register-independent formula and evaluating the formula is the same as computing the operand directly: the same
  operand, register field, fetched bytes, faults and states.
\<close>

lemma decoded_operand_same:
  assumes "blank d c"
  shows "bindE (decode_modrm F B d) (\<lambda>(n, d). bindE (getE (ea_operand d)) (\<lambda>opd. okE (n, opd))) (c, b) =
    bindE (i386_modrm F B) (\<lambda>(m, opd). okE (i386_mreg m, opd)) (c, b)"
  unfolding decode_modrm_def i386_modrm_def bindE_assoc Let_def
proof (rule bind_same, rule operands.fetch)
  fix m :: u8 and c' b' assume s: "same_operands c c'"
  let ?d = "set_kind OpKind_Mem (d\<lparr>di_reg := i386_mreg m\<rparr>)"
  have blank: "blank ?d c'"
    using assms s by (simp add: blank_def same_operands_def di_scale_def)
  show "bindE (if i386_md m = 3 then okE (i386_mreg m, (set_kind OpKind_Reg (d\<lparr>di_reg := i386_mreg m\<rparr>))\<lparr>di_base := i386_rm m\<rparr>)
           else bindE (getE c3_asize32) (\<lambda>wide.
             bindE (if wide then ea32_formula F B m ?d else ea16_formula F B m ?d) (\<lambda>d. okE (i386_mreg m, d))))
         (\<lambda>(n, d). bindE (getE (ea_operand d)) (\<lambda>opd. okE (n, opd))) (c', b') =
       bindE (if i386_md m = 3 then okE (m, Operand_Reg (i386_rm m))
           else bindE (getE c3_asize32) (\<lambda>wide. bindE (if wide then ea32 F B m else ea16 F B m) (\<lambda>op. okE (m, op))))
         (\<lambda>(m, opd). okE (i386_mreg m, opd)) (c', b')"
  proof (cases "i386_md m = 3")
    case True
    have "ea_operand ((set_kind OpKind_Reg (d\<lparr>di_reg := i386_mreg m\<rparr>))\<lparr>di_base := i386_rm m\<rparr>) c' = Operand_Reg (i386_rm m)"
      using kind_after_set [of OpKind_Reg "d\<lparr>di_reg := i386_mreg m\<rparr>"] by (simp add: ea_operand_def di_kind_def)
    then show ?thesis using True by (simp add: get_run okE_def)
  next
    case False
    have "bindE (if c3_asize32 c' then ea32_formula F B m ?d else ea16_formula F B m ?d) (\<lambda>d. getE (ea_operand d)) (c', b') =
        (if c3_asize32 c' then ea32 F B m else ea16 F B m) (c', b')"
      by (simp add: ea32_same [OF blank kind_after_set] ea16_same [OF blank kind_after_set])
    then have "bindE (bindE (if c3_asize32 c' then ea32_formula F B m ?d else ea16_formula F B m ?d) (\<lambda>d. getE (ea_operand d)))
          (\<lambda>opd. okE (i386_mreg m, opd)) (c', b') =
        bindE (if c3_asize32 c' then ea32 F B m else ea16 F B m) (\<lambda>opd. okE (i386_mreg m, opd)) (c', b')"
      by (simp only: bindE_def)
    then show ?thesis using False by (simp add: get_run bindE_assoc)
  qed
qed

subsection \<open>Instructions\<close>

text \<open>The other fields of the record that the decoder of an operand is given, and the register field.\<close>

definition operand_decoded :: "X386Insn \<Rightarrow> u8 \<times> X386Insn \<Rightarrow> bool" where
  "operand_decoded d = (\<lambda>(n, d').
     di_reg d' = n \<and> di_op d' = di_op d \<and> di_aux d' = di_aux d \<and> di_wb d' = di_wb d \<and> di_imm d' = di_imm d \<and>
     di_kind d' \<noteq> OpKind_None)"

definition returns :: "('a \<Rightarrow> bool) \<Rightarrow> ('b, 'a) exec \<Rightarrow> bool" where
  "returns P m \<longleftrightarrow> (\<forall>s a t. m s = (Inr a, t) \<longrightarrow> P a)"

lemma returns_bind: "returns Q m \<Longrightarrow> (\<And>a. Q a \<Longrightarrow> returns P (f a)) \<Longrightarrow> returns P (bindE m f)"
  unfolding returns_def bindE_Inr by blast

lemma returns_any: "(\<And>a. returns P (f a)) \<Longrightarrow> returns P (bindE m f)"
  unfolding returns_def bindE_Inr by blast

lemma returns_ok: "P a \<Longrightarrow> returns P (okE a)"
  by (simp add: returns_def okE_def)

lemma returns_if: "returns P m \<Longrightarrow> returns P n \<Longrightarrow> returns P (if p then m else n)"
  by simp

lemma wb_after_set [simp]: "di_wb (set_kind k d) = di_wb d"
proof -
  have "((f AND NOT (push_bit 3 3)) OR push_bit 3 (opkind_u8 k)) AND 4 = f AND 4" for f :: u8
    by (rule byte_eqI; cases k; simp add: bit_simps)
  then show ?thesis by (simp add: di_wb_def set_kind_def KIND_SHIFT_def F_WB_def)
qed

definition rest_kept :: "X386Insn \<Rightarrow> X386Insn \<Rightarrow> bool" where
  "rest_kept d d' \<longleftrightarrow> di_reg d' = di_reg d \<and> di_op d' = di_op d \<and> di_aux d' = di_aux d \<and> di_flags d' = di_flags d \<and>
     di_imm d' = di_imm d"

lemma rest_kept_set: "rest_kept d e \<Longrightarrow> rest_kept d (di_set_seg sg e)" "rest_kept d e \<Longrightarrow> rest_kept d (set_scale s e)"
  by (simp_all add: rest_kept_def di_set_seg_def set_scale_def)

lemma seg_returns: "rest_kept d e \<Longrightarrow> returns (rest_kept d) (set_seg_or dflt e)"
  unfolding set_seg_or_def by (intro returns_any returns_ok rest_kept_set)

lemma ea_returns: "returns (rest_kept d) (ea16_formula F B m d)" "returns (rest_kept d) (ea32_formula F B m d)"
proof -
  have up: "rest_kept d (d\<lparr>di_disp := v\<rparr>)" "rest_kept d (d\<lparr>di_base := x, di_index := y, di_disp := v\<rparr>)" for v x y
    by (simp_all add: rest_kept_def)
  have disp: "rest_kept d e \<Longrightarrow> rest_kept d (e\<lparr>di_disp := v\<rparr>)" for e v by (simp add: rest_kept_def)
  have sib: "returns (\<lambda>(sg, e). rest_kept d e) (sib_formula F B m d)"
    unfolding sib_formula_def Let_def
    by (rule returns_any, rule returns_bind [where Q = "\<lambda>(sg, scalable, e). rest_kept d e"])
      (auto intro!: returns_any returns_ok simp: rest_kept_def set_scale_def)
  show "returns (rest_kept d) (ea16_formula F B m d)"
    unfolding ea16_formula_def Let_def
    by (auto intro!: returns_any seg_returns up split: prod.split)
  show "returns (rest_kept d) (ea32_formula F B m d)"
    unfolding ea32_formula_def
    by (rule returns_if, rule returns_any, rule seg_returns, rule up,
        rule returns_bind [where Q = "\<lambda>(sg, e). rest_kept d e"], rule returns_if, rule sib)
      (auto intro!: returns_ok returns_any seg_returns disp simp: rest_kept_def [of d "d\<lparr>di_base := i\<rparr>" for i])
qed

lemma operand_returns: "returns (operand_decoded d) (decode_modrm F B d)"
proof -
  have mem: "rest_kept (set_kind OpKind_Mem (d\<lparr>di_reg := n\<rparr>)) e \<Longrightarrow> operand_decoded d (n, e)" for n e
    using wb_after_set [of OpKind_Mem "d\<lparr>di_reg := n\<rparr>"] kind_after_set [of OpKind_Mem "d\<lparr>di_reg := n\<rparr>"]
    by (simp add: rest_kept_def operand_decoded_def di_wb_def di_kind_def) (simp add: set_kind_def)
  have reg: "operand_decoded d (n, (set_kind OpKind_Reg (d\<lparr>di_reg := n\<rparr>))\<lparr>di_base := x\<rparr>)" for n x
    using wb_after_set [of OpKind_Reg "d\<lparr>di_reg := n\<rparr>"] kind_after_set [of OpKind_Reg "d\<lparr>di_reg := n\<rparr>"]
    by (simp add: operand_decoded_def di_wb_def di_kind_def) (simp add: set_kind_def)
  show ?thesis
    unfolding decode_modrm_def Let_def
    by (rule returns_any, rule returns_if, rule returns_ok, rule reg, rule returns_any, rule returns_bind,
        rule returns_if, rule ea_returns(2), rule ea_returns(1), rule returns_ok, rule mem)
qed

lemma decode_then:
  assumes blank: "blank d c"
    and K: "\<And>m d' c' b'. same_operands c c' \<Longrightarrow> operand_decoded d (i386_mreg m, d') \<Longrightarrow>
              K (i386_mreg m, d') (c', b') = K' (m, ea_operand d' c') (c', b')"
  shows "bindE (decode_modrm F B d) K (c, b) = bindE (i386_modrm F B) K' (c, b)"
proof -
  obtain q c1 b1 where dec: "decode_modrm F B d (c, b) = (q, c1, b1)" by (metis prod.exhaust)
  obtain q' c2 b2 where dir: "i386_modrm F B (c, b) = (q', c2, b2)" by (metis prod.exhaust)
  note same = decoded_operand_same [OF blank, of F B b, unfolded bindE_def dec dir prod.case okE_def getE_def]
  show ?thesis
  proof (cases q)
    case (Inl e)
    then show ?thesis using same dec dir by (cases q') (auto simp: bindE_def)
  next
    case (Inr p)
    obtain n d' where p: "p = (n, d')" by force
    obtain m where q': "q' = Inr (m, ea_operand d' c1)" and n: "n = i386_mreg m" and st: "c2 = c1" "b2 = b1"
      using same Inr p by (cases q') auto
    have kept: "operand_decoded d (i386_mreg m, d')"
      using operand_returns [of d F B] dec Inr p n unfolding returns_def by blast
    have "same_operands c c1" using withinD [OF operands.modrm dir] st by simp
    then show ?thesis using K [OF _ kept] dec dir Inr p q' n st by (simp add: bindE_def)
  qed
qed

lemma no_lock: "\<not> c3_lock c \<Longrightarrow> thenE (lock_check ok) m (c, b) = m (c, b)"
  by (simp add: thenE_def bindE_def lock_check_def getE_def okE_def)

lemma osize_run: "by_osize m n (c, b) = (if c3_osize32 c then m else n) (c, b)"
  by (simp add: by_osize_def bindE_def getE_def)

lemma osize_bind: "bindE (by_osize m n) f = by_osize (bindE m f) (bindE n f)"
  by (rule ext) (simp add: by_osize_def bindE_def getE_def split: prod.split)

lemma thenE_assoc: "thenE (thenE m n) k = thenE m (thenE n k)" "thenE (bindE m f) k = bindE m (\<lambda>a. thenE (f a) k)"
  "bindE (thenE m n) f = thenE m (bindE n f)"
  by (simp_all add: thenE_def bindE_assoc)

lemma osize_then: "thenE (by_osize m n) k = by_osize (thenE m k) (thenE n k)"
  by (simp add: thenE_def osize_bind)

lemmas same_run = operandE_def get_run osize_run osize_then osize_bind thenE_assoc no_lock operand_decoded_def same_operands_def

end
