(* ===== verification/X386_HotSame.thy ===== *)
theory X386_HotSame
  imports X386_DecodeSame
begin

unbundle bit_operations_syntax

text \<open>
  Decoded instructions against direct execution: for the opcodes whose immediate, if there is one, is fetched before
  the operand is read, decoding an instruction and executing the record is the same as the arm of the opcode
  \<open>match\<close>. These are all frequent opcodes of one byte but \<open>80\<close> to \<open>83\<close>, \<open>69\<close>, \<open>6B\<close>, \<open>C0\<close>, \<open>C1\<close> and \<open>FF\<close>.
\<close>

abbreviation run_decoded :: "eflag_ops \<Rightarrow> 'b I386Bus \<Rightarrow> 'k \<times> X386Insn \<Rightarrow> ('b, u32) exec" where
  "run_decoded F B \<equiv> (\<lambda>(_, d). i386_exec_decoded F B d)"

lemma run_hot [simp]:
  "bindE (hotE d) (run_decoded F B) = i386_exec_decoded F B d"
  "bindE (hot_modrm F B d) (run_decoded F B) = bindE (decode_modrm F B d) (run_decoded F B)"
  "bindE (hot_imm imm d) (run_decoded F B) = bindE imm (\<lambda>v. i386_exec_decoded F B (d\<lparr>di_imm := v\<rparr>))"
  by (simp_all add: hotE_def hot_modrm_def hot_imm_def bindE_assoc case_prod_beta')

subsection \<open>Fresh records\<close>

definition fresh :: "X386Insn \<Rightarrow> I386Cpu \<Rightarrow> bool" where
  "fresh d c \<longleftrightarrow> blank d c \<and> \<not> di_wb d \<and> \<not> c3_lock c"

lemma and_4: "f AND 4 \<noteq> 0 \<longleftrightarrow> bit f 2" for f :: u8
proof -
  have "f AND 4 = (if bit f 2 then 4 else 0)" by (rule byte_eqI; simp add: bit_simps)
  then show ?thesis by simp
qed

lemma wb_after [simp]: "di_wb (set_wb wb d) = (di_wb d \<or> wb)"
  using and_4 [of "di_flags d OR push_bit 2 (of_bool wb)"] and_4 [of "di_flags d"]
  by (simp add: di_wb_def set_wb_def F_WB_def bit_or_iff split: if_splits)

lemma asize_after_wb [simp]: "di_asize32 (set_wb wb d) = di_asize32 d"
proof -
  have "(f OR push_bit 2 (of_bool wb)) AND 2 = f AND 2" for f :: u8
    by (cases wb; rule byte_eqI; simp add: bit_simps)
  then show ?thesis by (simp add: di_asize32_def set_wb_def F_ASIZE32_def)
qed

lemma wb_fields [simp]:
  "di_op (set_wb wb d) = di_op d" "di_aux (set_wb wb d) = di_aux d" "di_imm (set_wb wb d) = di_imm d"
  "di_reg (set_wb wb d) = di_reg d" "set_wb wb d\<lparr>di_imm := v\<rparr> = set_wb wb (d\<lparr>di_imm := v\<rparr>)"
  by (simp_all add: set_wb_def)

lemma set_wb_False [simp]: "set_wb False d = d"
  by (simp add: set_wb_def)

lemma blank_updates [simp]:
  "blank (d\<lparr>di_op := x\<rparr>) c = blank d c" "blank (d\<lparr>di_aux := i\<rparr>) c = blank d c" "blank (set_wb wb d) c = blank d c"
  "di_wb (d\<lparr>di_op := x\<rparr>) = di_wb d" "di_wb (d\<lparr>di_aux := i\<rparr>) = di_wb d" "di_wb (d\<lparr>di_imm := v\<rparr>) = di_wb d"
proof -
  show "blank (set_wb wb d) c = blank d c"
    unfolding blank_def asize_after_wb by (simp add: di_scale_def set_wb_def)
qed (simp_all add: blank_def di_scale_def di_asize32_def di_wb_def)

lemma drop_push: "drop_bit 3 (push_bit 5 (x :: u8)) AND 3 = 0"
  by (rule byte_eqI; simp add: bit_simps)

lemma fresh_new:
  "override_ok c \<Longrightarrow> \<not> c3_lock c \<Longrightarrow> fresh (X386Insn_new (c3_osize32 c) (c3_asize32 c) (c3_seg_override c)) c"
  by (cases "c3_osize32 c"; cases "c3_asize32 c"; cases "c3_seg_override c")
    (simp_all add: fresh_def blank_def override_ok_def X386Insn_new_def di_wb_def di_asize32_def F_WB_def F_ASIZE32_def
      di_scale_def OVR_NONE_def drop_push)

subsection \<open>Arms with an operand\<close>

lemma alu_alike:
  assumes "fresh d c"
  shows "bindE (decode_modrm F B (set_wb wb (d\<lparr>di_op := AluRmR8, di_aux := i\<rparr>))) (run_decoded F B) (c, b) =
      i386_op_rm_r8 F B (i386_ALU8 F ! unat i) wb (c, b)"
    "bindE (decode_modrm F B (set_wb wb (d\<lparr>di_op := AluRRm8, di_aux := i\<rparr>))) (run_decoded F B) (c, b) =
      i386_op_r_rm8 F B (i386_ALU8 F ! unat i) wb (c, b)"
    "bindE (decode_modrm F B (set_wb wb (d\<lparr>di_op := AluRmRW, di_aux := i\<rparr>))) (run_decoded F B) (c, b) =
      by_osize (op_rm_r32 F B (ALU32 F ! unat i) wb) (i386_op_rm_r16 F B (i386_ALU16 F ! unat i) wb) (c, b)"
    "bindE (decode_modrm F B (set_wb wb (d\<lparr>di_op := AluRRmW, di_aux := i\<rparr>))) (run_decoded F B) (c, b) =
      by_osize (op_r_rm32 F B (ALU32 F ! unat i) wb) (i386_op_r_rm16 F B (i386_ALU16 F ! unat i) wb) (c, b)"
  unfolding i386_op_rm_r8_def i386_op_r_rm8_def op_rm_r32_def i386_op_rm_r16_def op_r_rm32_def i386_op_r_rm16_def osize_run
  using assms
  by (auto simp: fresh_def intro!: decode_then)
    (auto simp: same_run i386_exec_decoded_def hot_AluRmR8_def hot_AluRRm8_def hot_AluRmRW_def hot_AluRRmW_def)

text \<open>The fields that an arm looks at survive the operand and the immediate.\<close>

lemma ea_operand_imm [simp]: "ea_operand (d\<lparr>di_imm := v\<rparr>) c = ea_operand d c" "ea_operand (d\<lparr>di_aux := i\<rparr>) c = ea_operand d c"
  by (simp_all add: ea_operand_def Let_def di_kind_def di_scale_def di_asize32_def di_seg_def)

lemma ea_operand_kept: "same_operands c c' \<Longrightarrow> ea_operand d c' = ea_operand d c"
  by (simp add: same_operands_def ea_operand_def Let_def)

lemma mov_alike:
  assumes "fresh d c"
  shows "bindE (decode_modrm F B (d\<lparr>di_op := MovRmR8\<rparr>)) (run_decoded F B) (c, b) =
      bindE (i386_modrm F B) (\<lambda>(m, opd). bindE (getR (\<lambda>r. i386_reg8 r (i386_mreg m))) (\<lambda>v.
        thenE (i386_write_op8 F B opd v) (okE 2))) (c, b)"
    "bindE (decode_modrm F B (d\<lparr>di_op := MovRmRW\<rparr>)) (run_decoded F B) (c, b) =
      bindE (i386_modrm F B) (\<lambda>(m, opd). thenE
        (by_osize (bindE (getR (\<lambda>r. reg32 r (i386_mreg m))) (write_op32 F B opd))
           (bindE (getR (\<lambda>r. i386_reg16 r (i386_mreg m))) (i386_write_op16 F B opd))) (okE 2)) (c, b)"
    "bindE (decode_modrm F B (d\<lparr>di_op := MovRRm8\<rparr>)) (run_decoded F B) (c, b) =
      bindE (i386_modrm F B) (\<lambda>(m, opd). bindE (i386_read_op8 F B opd) (\<lambda>v.
        thenE (regE (i386_set_reg8 (i386_mreg m) v)) (mem_or opd 4 2))) (c, b)"
    "bindE (decode_modrm F B (d\<lparr>di_op := MovRRmW\<rparr>)) (run_decoded F B) (c, b) =
      bindE (i386_modrm F B) (\<lambda>(m, opd). thenE
        (by_osize (bindE (read_op32 F B opd) (\<lambda>v. regE (set_reg32 (i386_mreg m) v)))
           (bindE (i386_read_op16 F B opd) (\<lambda>v. regE (i386_set_reg16 (i386_mreg m) v)))) (mem_or opd 4 2)) (c, b)"
    "bindE (decode_modrm F B (d\<lparr>di_op := XchgRm8\<rparr>)) (run_decoded F B) (c, b) =
      bindE (i386_modrm F B) (\<lambda>(m, opd). thenE (lock_check (operand_is_mem opd))
        (bindE (i386_read_op8 F B opd) (\<lambda>a. bindE (getR (\<lambda>r. i386_reg8 r (i386_mreg m))) (\<lambda>v.
         thenE (i386_write_op8 F B opd v) (thenE (regE (i386_set_reg8 (i386_mreg m) a)) (mem_or opd 5 3)))))) (c, b)"
    "bindE (decode_modrm F B (d\<lparr>di_op := XchgRmW\<rparr>)) (run_decoded F B) (c, b) = xchg_rm F B (c, b)"
  unfolding xchg_rm_def
  using assms
  by (auto simp: fresh_def intro!: decode_then)
    (auto simp: same_run i386_exec_decoded_def hot_MovRm8_def hot_MovRmRW_def hot_MovRRm8_def hot_MovRRmW_def
      hot_XchgRm8_def hot_XchgRmW_def)

lemma raise_bind [simp]: "bindE (raiseE e) f = raiseE e"
  by (rule ext) (simp add: bindE_def raiseE_def)

lemma ucast_pair [simp]: "ucast (ucast (v :: u8) :: u32) = v" "ucast (ucast (w :: u16) :: u32) = w"
  by (rule bit_word_eqI, auto simp: bit_simps)+

lemma bind_case: "bindE (case p of (x, y) \<Rightarrow> f x y) g = (case p of (x, y) \<Rightarrow> bindE (f x y) g)"
  by (simp add: case_prod_beta')

lemma guard_then: "thenE (guardE p e) m = (if p then raiseE e else m)"
  by (simp add: thenE_def guardE_def)

lemma lea_alike:
  assumes "fresh d c"
  shows "bindE (decode_modrm F B (d\<lparr>di_op := Lea\<rparr>)) (\<lambda>(_, d). thenE (guardE (di_kind d \<noteq> OpKind_Mem) exc_ud)
      (i386_exec_decoded F B d)) (c, b) = i386_lea F B (c, b)"
  unfolding i386_lea_def
proof (rule decode_then)
  fix m d' c' b'
  assume "same_operands c c'" and "operand_decoded (d\<lparr>di_op := Lea\<rparr>) (i386_mreg m, d')"
  then show "(case (i386_mreg m, d') of (_, d) \<Rightarrow> thenE (guardE (di_kind d \<noteq> OpKind_Mem) exc_ud) (i386_exec_decoded F B d)) (c', b') =
      (case (m, ea_operand d' c') of (m, Operand_Reg _) \<Rightarrow> raiseE exc_ud
       | (m, Operand_Mem _ off) \<Rightarrow> thenE
           (by_osize (regE (set_reg32 (i386_mreg m) off)) (regE (i386_set_reg16 (i386_mreg m) (ucast off)))) (okE 2)) (c', b')"
    by (cases "di_kind d'")
      (simp_all add: operand_decoded_def i386_exec_decoded_def hot_Lea_def operandE_def set_reg_osize_def ea_operand_def
        Let_def thenE_def guardE_def get_run)
qed (use assms in \<open>simp add: fresh_def\<close>)

lemma sub_bits:
  "(i386_mreg m OR 0x80) AND 7 = i386_mreg m" "i386_mreg m AND 7 = i386_mreg m" "(i386_mreg m OR 0x80) AND 0x80 \<noteq> 0"
  "i386_mreg m AND 0x80 = 0"
proof -
  show "(i386_mreg m OR 0x80) AND 7 = i386_mreg m" "i386_mreg m AND 7 = i386_mreg m" "i386_mreg m AND 0x80 = 0"
    unfolding i386_mreg_def by (rule byte_eqI; simp add: bit_simps)+
  have "bit ((i386_mreg m OR 0x80) AND 0x80) 7" by (simp add: bit_simps)
  then show "(i386_mreg m OR 0x80) AND 0x80 \<noteq> 0" by auto
qed

lemma reg8_kept: "same_operands c c' \<Longrightarrow> i386_reg8 (c3_regs c') i = i386_reg8 (c3_regs c) i"
  by (simp add: same_operands_def i386_reg8_def)

lemma shift_alike:
  assumes "fresh d c"
  shows "bindE (decode_shift F B ShiftRm8 0 (okE n) d) (run_decoded F B) (c, b) = i386_shift_grp8 F B (Some n) (c, b)"
    "bindE (decode_shift F B ShiftRmW 0 (okE n) d) (run_decoded F B) (c, b) = i386_shift_grp F B (Some n) (c, b)"
    "bindE (decode_shift F B ShiftRm8 0x80 (okE n) d) (run_decoded F B) (c, b) =
      i386_shift_grp8 F B (Some (ucast (i386_reg8 (c3_regs c) 1))) (c, b)"
    "bindE (decode_shift F B ShiftRmW 0x80 (okE n) d) (run_decoded F B) (c, b) =
      i386_shift_grp F B (Some (ucast (i386_reg8 (c3_regs c) 1))) (c, b)"
  unfolding decode_shift_def i386_shift_grp8_def i386_shift_grp_def bindE_assoc bind_case run_hot
  using assms
  by (auto simp: fresh_def intro!: decode_then)
    (auto simp: operandE_def get_run operand_decoded_def i386_exec_decoded_def hot_ShiftRm8_def hot_ShiftRmW_def
      hot_shift_count_def sub_bits reg8_kept getR_def
      intro!: bind_same operands.operand_read dest: operands_trans [THEN reg8_kept])

lemma small_sub: "1 < (x :: u8) \<longleftrightarrow> x \<noteq> 0 \<and> x \<noteq> 1" "x < 2 \<longleftrightarrow> x = 0 \<or> x = 1"
  by (auto simp: word_less_nat_alt word_unat_eq_iff)

lemma inc_alike:
  assumes "fresh d c"
  shows "bindE (decode_modrm F B (d\<lparr>di_op := IncDecRm8\<rparr>))
      (\<lambda>(n, d). thenE (guardE (n > 1) exc_ud) (i386_exec_decoded F B (d\<lparr>di_aux := n\<rparr>))) (c, b) = i386_group_fe F B (c, b)"
  unfolding i386_group_fe_def
  using assms
  by (auto simp: fresh_def intro!: decode_then)
    (auto simp: same_run i386_exec_decoded_def hot_IncDecRm8_def small_sub guard_then)

lemma write_imm_alike:
  assumes "fresh d c"
  shows "bindE (hot_mov_imm F B (fetch_u8 F B) (d\<lparr>di_op := MovRmImm8\<rparr>)) (run_decoded F B) (c, b) =
      bindE (i386_modrm F B) (\<lambda>(m, opd). thenE (guardE (i386_mreg m \<noteq> 0) exc_ud)
        (bindE (fetch8 F B) (\<lambda>v. thenE (i386_write_op8 F B opd v) (okE 2)))) (c, b)"
    "bindE (hot_mov_imm F B (i386_fetch_imm F B) (d\<lparr>di_op := MovRmImmW\<rparr>)) (run_decoded F B) (c, b) =
      bindE (i386_modrm F B) (\<lambda>(m, opd). thenE (guardE (i386_mreg m \<noteq> 0) exc_ud)
        (bindE (i386_fetch_imm F B) (\<lambda>v. thenE (write_op F B opd v) (okE 2)))) (c, b)"
  unfolding hot_mov_imm_def bindE_assoc bind_case thenE_assoc run_hot
  using assms
  by (auto simp: fresh_def intro!: decode_then)
    (auto simp: thenE_def guardE_def fetch_u8_def bindE_assoc operandE_def get_run operand_decoded_def i386_exec_decoded_def
      hot_MovRmImm8_def hot_MovRmImmW_def ea_operand_kept intro!: bind_same operands.fetch)

subsection \<open>Arms without an operand\<close>

lemma osize_kept: "same_operands c c' \<Longrightarrow> c3_osize32 c' = c3_osize32 c"
  by (simp add: same_operands_def)

lemma acc_alike:
  assumes "fresh d c"
  shows "bindE (fetch_u8 F B) (\<lambda>v. i386_exec_decoded F B (set_wb wb (d\<lparr>di_op := AluAccImm8, di_aux := i, di_imm := v\<rparr>))) (c, b) =
      bindE (fetch8 F B) (\<lambda>v. bindE (getR (\<lambda>r. i386_reg8 r 0)) (\<lambda>a. bindE (flagsE (\<lambda>fl. (i386_ALU8 F ! unat i) fl a v)) (\<lambda>r.
        thenE (whenE wb (regE (i386_set_reg8 0 r))) (okE 2)))) (c, b)"
    "bindE (i386_fetch_imm F B) (\<lambda>v. i386_exec_decoded F B (set_wb wb (d\<lparr>di_op := AluAccImmW, di_aux := i, di_imm := v\<rparr>))) (c, b) =
      thenE (by_osize
        (bindE (fetch32 F B) (\<lambda>v. bindE (getR (\<lambda>r. r3_gpr r 0)) (\<lambda>a. bindE (flagsE (\<lambda>fl. (ALU32 F ! unat i) fl a v)) (\<lambda>r.
           whenE wb (regE (\<lambda>g. g\<lparr>r3_gpr := (r3_gpr g)(0 := r)\<rparr>))))))
        (bindE (fetch16 F B) (\<lambda>v. bindE (getR (\<lambda>r. i386_reg16 r 0)) (\<lambda>a. bindE (flagsE (\<lambda>fl. (i386_ALU16 F ! unat i) fl a v)) (\<lambda>r.
           whenE wb (regE (i386_set_reg16 0 r))))))) (okE 2) (c, b)"
proof -
  show "bindE (fetch_u8 F B) (\<lambda>v. i386_exec_decoded F B (set_wb wb (d\<lparr>di_op := AluAccImm8, di_aux := i, di_imm := v\<rparr>))) (c, b) =
      bindE (fetch8 F B) (\<lambda>v. bindE (getR (\<lambda>r. i386_reg8 r 0)) (\<lambda>a. bindE (flagsE (\<lambda>fl. (i386_ALU8 F ! unat i) fl a v)) (\<lambda>r.
        thenE (whenE wb (regE (i386_set_reg8 0 r))) (okE 2)))) (c, b)"
    using assms by (simp add: fetch_u8_def bindE_assoc i386_exec_decoded_def hot_AluAccImm8_def fresh_def)
  show "bindE (i386_fetch_imm F B) (\<lambda>v. i386_exec_decoded F B (set_wb wb (d\<lparr>di_op := AluAccImmW, di_aux := i, di_imm := v\<rparr>))) (c, b) =
      thenE (by_osize
        (bindE (fetch32 F B) (\<lambda>v. bindE (getR (\<lambda>r. r3_gpr r 0)) (\<lambda>a. bindE (flagsE (\<lambda>fl. (ALU32 F ! unat i) fl a v)) (\<lambda>r.
           whenE wb (regE (\<lambda>g. g\<lparr>r3_gpr := (r3_gpr g)(0 := r)\<rparr>))))))
        (bindE (fetch16 F B) (\<lambda>v. bindE (getR (\<lambda>r. i386_reg16 r 0)) (\<lambda>a. bindE (flagsE (\<lambda>fl. (i386_ALU16 F ! unat i) fl a v)) (\<lambda>r.
           whenE wb (regE (i386_set_reg16 0 r))))))) (okE 2) (c, b)"
    unfolding i386_fetch_imm_def bindE_assoc get_run osize_then osize_run thenE_assoc
    by (cases "c3_osize32 c"; simp add: bindE_assoc; rule bind_same, rule operands.fetch)
      (use assms in \<open>simp_all add: osize_run osize_kept osize_then thenE_assoc i386_exec_decoded_def hot_AluAccImmW_def
        set_eax_def fresh_def\<close>)
qed

lemma stack_alike:
  assumes "fresh d c"
  shows "bindE imm (\<lambda>v. i386_exec_decoded F B (d\<lparr>di_op := PushImm, di_imm := v\<rparr>)) (c, b) =
      bindE imm (\<lambda>v. thenE (i386_push F B v) (okE 2)) (c, b)"
    "i386_exec_decoded F B (d\<lparr>di_op := RetNear\<rparr>) (c, b) = bindE (i386_pop F B) (\<lambda>ip. thenE (i386_set_ip ip) (okE 10)) (c, b)"
    "bindE (fetch16 F B) (\<lambda>v. i386_exec_decoded F B (d\<lparr>di_op := RetNearImm, di_imm := ucast v\<rparr>)) (c, b) =
      bindE (fetch16 F B) (\<lambda>n. bindE (i386_pop F B) (\<lambda>ip. thenE (i386_set_ip ip) (thenE (modE (adjust_sp (ucast n))) (okE 10)))) (c, b)"
    "bindE (fetch_rel F B) (\<lambda>v. i386_exec_decoded F B (d\<lparr>di_op := CallRel, di_imm := v\<rparr>)) (c, b) =
      bindE (rel_imm F B) (\<lambda>rel. bindE (getR r3_eip) (\<lambda>ret'. thenE (i386_push F B ret') (thenE (i386_jump_rel rel) (okE 7)))) (c, b)"
    "bindE (fetch_rel F B) (\<lambda>v. i386_exec_decoded F B (d\<lparr>di_op := JmpRel, di_imm := v\<rparr>)) (c, b) =
      bindE (rel_imm F B) (\<lambda>rel. thenE (i386_jump_rel rel) (okE 7)) (c, b)"
    "bindE imm (\<lambda>v. i386_exec_decoded F B (d\<lparr>di_op := JmpRel, di_imm := v\<rparr>)) (c, b) =
      bindE imm (\<lambda>rel. thenE (i386_jump_rel rel) (okE 7)) (c, b)"
    "bindE imm (\<lambda>v. i386_exec_decoded F B (d\<lparr>di_op := Jcc, di_aux := i, di_imm := v\<rparr>)) (c, b) =
      bindE imm (\<lambda>rel. bindE (getE (\<lambda>c. i386_cond F (c3_eflags c) i)) (\<lambda>go.
        if go then thenE (i386_jump_rel rel) (okE 7) else okE 3)) (c, b)"
  by (simp_all add: bindE_assoc i386_exec_decoded_def hot_PushImm_def hot_RetNear_def hot_RetNearImm_def hot_CallRel_def
      hot_JmpRel_def hot_Jcc_def fetch_rel_def rel_imm_def cong: if_cong)

lemma rel_same: "fetch_rel F B = rel_imm F B"
  by (simp add: fetch_rel_def rel_imm_def)

lemma register_alike:
  "i386_exec_decoded F B (d\<lparr>di_op := IncReg, di_reg := i\<rparr>) = inc_dec_reg (i386_inc F i386_w32) (i386_inc F i386_w16) i"
  "i386_exec_decoded F B (d\<lparr>di_op := DecReg, di_reg := i\<rparr>) = inc_dec_reg (i386_dec F i386_w32) (i386_dec F i386_w16) i"
  "i386_exec_decoded F B (d\<lparr>di_op := PushReg, di_reg := i\<rparr>) =
     bindE (getR (\<lambda>r. reg32 r i)) (\<lambda>v. thenE (i386_push F B v) (okE 2))"
  "i386_exec_decoded F B (d\<lparr>di_op := PopReg, di_reg := i\<rparr>) = thenE (pop_to_reg F B i) (okE 4)"
  "i386_exec_decoded F B (d\<lparr>di_op := XchgAcc, di_reg := i\<rparr>) = xchg_acc i"
  "bindE (fetch_u8 F B) (\<lambda>v. i386_exec_decoded F B (d\<lparr>di_op := MovRegImm8, di_reg := i, di_imm := v\<rparr>)) =
     bindE (fetch8 F B) (\<lambda>v. thenE (regE (i386_set_reg8 i v)) (okE 2))"
  by (simp_all add: i386_exec_decoded_def hot_IncReg_def hot_DecReg_def hot_PushReg_def hot_PopReg_def hot_XchgAcc_def
      hot_MovRegImm8_def fetch_u8_def bindE_assoc)

lemma mov_reg_imm_alike:
  "bindE (i386_fetch_imm F B) (\<lambda>v. i386_exec_decoded F B (d\<lparr>di_op := MovRegImmW, di_reg := i, di_imm := v\<rparr>)) (c, b) =
     thenE (by_osize (bindE (fetch32 F B) (\<lambda>v. regE (set_reg32 i v)))
       (bindE (fetch16 F B) (\<lambda>v. regE (i386_set_reg16 i v)))) (okE 2) (c, b)"
  unfolding i386_fetch_imm_def bindE_assoc get_run osize_then osize_run thenE_assoc
  by (cases "c3_osize32 c"; simp add: bindE_assoc; rule bind_same, rule operands.fetch)
    (simp_all add: osize_run osize_kept osize_then thenE_assoc i386_exec_decoded_def hot_MovRegImmW_def set_reg_osize_def)

subsection \<open>Opcodes\<close>

definition decoded_alike :: "u8 \<Rightarrow> bool" where
  "decoded_alike op \<longleftrightarrow>
     op AND 0xC7 \<le> 5 \<or> (0x40 \<le> op \<and> op \<le> 0x5F) \<or> op = 0x68 \<or> op = 0x6A \<or> (0x70 \<le> op \<and> op \<le> 0x7F) \<or>
     (0x84 \<le> op \<and> op \<le> 0x8B) \<or> op = 0x8D \<or> (0x90 \<le> op \<and> op \<le> 0x97) \<or> op = 0xA8 \<or> op = 0xA9 \<or>
     (0xB0 \<le> op \<and> op \<le> 0xBF) \<or> op = 0xC2 \<or> op = 0xC3 \<or> op = 0xC6 \<or> op = 0xC7 \<or> (0xD0 \<le> op \<and> op \<le> 0xD3) \<or>
     op = 0xE8 \<or> op = 0xE9 \<or> op = 0xEB \<or> op = 0xFE"

definition alike :: "eflag_ops \<Rightarrow> 'b I386Bus \<Rightarrow> u8 \<Rightarrow> I386Cpu \<Rightarrow> 'b \<Rightarrow> bool" where
  "alike F B op c b \<longleftrightarrow>
     (\<exists>a. i386_dispatch F B op = Some a \<and> bindE (decode_op F B op) (\<lambda>(_, d). i386_exec_decoded F B d) (c, b) = a (c, b))"

lemmas arms_unfold = decode_op_def bindE_assoc get_run first_arm.simps decode_alu_def decode_mov_def decode_reg_def
  decode_group_def decode_flow_def

lemmas sections_unfold = i386_dispatch_def first_section.simps i386_exec_alu_def i386_exec_group1_def i386_exec_push_seg_def
  i386_exec_escape_def i386_exec_bcd_def i386_exec_inc_dec_def i386_exec_push_pop_def i386_exec_bound_arpl_def
  i386_exec_imm_def i386_exec_string_def i386_exec_jcc_def i386_exec_test_xchg_def i386_exec_mov_def
  i386_exec_mov_direct_def i386_exec_mov_imm_def i386_exec_convert_def i386_exec_pushf_def i386_exec_shift_def
  i386_exec_ret_near_def i386_exec_frame_def i386_exec_ret_int_def i386_exec_ascii_def i386_exec_esc_def
  i386_exec_loop_def i386_exec_io_def i386_exec_jump_def i386_exec_control_def i386_exec_group_def

lemma alike_registers:
  "op = 0x40 \<or> op = 0x41 \<or> op = 0x42 \<or> op = 0x43 \<or> op = 0x44 \<or> op = 0x45 \<or> op = 0x46 \<or> op = 0x47 \<Longrightarrow> alike F B op c b"
  "op = 0x48 \<or> op = 0x49 \<or> op = 0x4A \<or> op = 0x4B \<or> op = 0x4C \<or> op = 0x4D \<or> op = 0x4E \<or> op = 0x4F \<Longrightarrow> alike F B op c b"
  "op = 0x50 \<or> op = 0x51 \<or> op = 0x52 \<or> op = 0x53 \<or> op = 0x54 \<or> op = 0x55 \<or> op = 0x56 \<or> op = 0x57 \<Longrightarrow> alike F B op c b"
  "op = 0x58 \<or> op = 0x59 \<or> op = 0x5A \<or> op = 0x5B \<or> op = 0x5C \<or> op = 0x5D \<or> op = 0x5E \<or> op = 0x5F \<Longrightarrow> alike F B op c b"
  "op = 0x90 \<or> op = 0x91 \<or> op = 0x92 \<or> op = 0x93 \<or> op = 0x94 \<or> op = 0x95 \<or> op = 0x96 \<or> op = 0x97 \<Longrightarrow> alike F B op c b"
  by (elim disjE; simp add: alike_def arms_unfold sections_unfold register_alike)+

lemma then_ok: "thenE (okE ()) m = m"
  by (simp add: thenE_def)

lemma getR_run: "bindE (getR f) g (c, b) = g (f (c3_regs c)) (c, b)"
  by (simp add: getR_def get_run)

lemma guarded_hot:
  "bindE (case p of (x, d) \<Rightarrow> thenE (g x d) (hotE (h x d))) (run_decoded F B) =
     (case p of (x, d) \<Rightarrow> thenE (g x d) (i386_exec_decoded F B (h x d)))"
  by (cases p) (simp add: thenE_def bindE_assoc)

lemma alike_immediates:
  "op = 0xB0 \<or> op = 0xB1 \<or> op = 0xB2 \<or> op = 0xB3 \<or> op = 0xB4 \<or> op = 0xB5 \<or> op = 0xB6 \<or> op = 0xB7 \<Longrightarrow> alike F B op c b"
  "op = 0xB8 \<or> op = 0xB9 \<or> op = 0xBA \<or> op = 0xBB \<or> op = 0xBC \<or> op = 0xBD \<or> op = 0xBE \<or> op = 0xBF \<Longrightarrow> alike F B op c b"
  by (elim disjE; simp add: alike_def arms_unfold sections_unfold register_alike mov_reg_imm_alike)+

lemma alike_branches:
  assumes "override_ok c" "\<not> c3_lock c"
  shows "op = 0x70 \<or> op = 0x71 \<or> op = 0x72 \<or> op = 0x73 \<or> op = 0x74 \<or> op = 0x75 \<or> op = 0x76 \<or> op = 0x77 \<Longrightarrow> alike F B op c b"
    "op = 0x78 \<or> op = 0x79 \<or> op = 0x7A \<or> op = 0x7B \<or> op = 0x7C \<or> op = 0x7D \<or> op = 0x7E \<or> op = 0x7F \<Longrightarrow> alike F B op c b"
    "op = 0x68 \<or> op = 0x6A \<or> op = 0xC2 \<or> op = 0xC3 \<or> op = 0xE8 \<or> op = 0xE9 \<or> op = 0xEB \<Longrightarrow> alike F B op c b"
  by (elim disjE; simp add: alike_def arms_unfold sections_unfold stack_alike [OF fresh_new [OF assms], unfolded rel_same] rel_same)+

lemma alike_operands:
  assumes "override_ok c" "\<not> c3_lock c"
  shows "op = 0x84 \<or> op = 0x85 \<or> op = 0x86 \<or> op = 0x87 \<or> op = 0x88 \<or> op = 0x89 \<or> op = 0x8A \<or> op = 0x8B \<Longrightarrow> alike F B op c b"
    "op = 0x8D \<or> op = 0xC6 \<or> op = 0xC7 \<or> op = 0xFE \<Longrightarrow> alike F B op c b"
    "op = 0xA8 \<or> op = 0xA9 \<or> op = 0xD0 \<or> op = 0xD1 \<or> op = 0xD2 \<or> op = 0xD3 \<Longrightarrow> alike F B op c b"
proof -
  note new = fresh_new [OF assms]
  note facts = alu_alike [OF new, where wb = False, simplified] mov_alike [OF new] shift_alike [OF new] inc_alike [OF new]
    write_imm_alike [OF new] lea_alike [OF new] acc_alike [OF new, where wb = False, simplified]
  note unfolds = alike_def arms_unfold sections_unfold bind_case thenE_assoc i386_ALU8_def i386_ALU16_def ALU32_def
  show "op = 0x84 \<or> op = 0x85 \<or> op = 0x86 \<or> op = 0x87 \<or> op = 0x88 \<or> op = 0x89 \<or> op = 0x8A \<or> op = 0x8B \<Longrightarrow> alike F B op c b"
    by (elim disjE; simp add: unfolds facts)
  show "op = 0x8D \<or> op = 0xC6 \<or> op = 0xC7 \<or> op = 0xFE \<Longrightarrow> alike F B op c b"
    by (elim disjE; simp add: alike_def arms_unfold sections_unfold guarded_hot facts)
  show "op = 0xA8 \<or> op = 0xA9 \<or> op = 0xD0 \<or> op = 0xD1 \<or> op = 0xD2 \<or> op = 0xD3 \<Longrightarrow> alike F B op c b"
    by (elim disjE; simp add: unfolds facts test_acc_def whenE_def getR_run then_ok)
qed

lemma alike_arithmetic:
  assumes "override_ok c" "\<not> c3_lock c"
  shows "op AND 0xC7 = 0 \<or> op AND 0xC7 = 1 \<or> op AND 0xC7 = 2 \<or> op AND 0xC7 = 3 \<or> op AND 0xC7 = 4 \<or> op AND 0xC7 = 5 \<Longrightarrow>
    alike F B op c b"
proof -
  note new = fresh_new [OF assms]
  assume "op AND 0xC7 = 0 \<or> op AND 0xC7 = 1 \<or> op AND 0xC7 = 2 \<or> op AND 0xC7 = 3 \<or> op AND 0xC7 = 4 \<or> op AND 0xC7 = 5"
  moreover have "op \<noteq> 0x0F" using calculation by auto
  ultimately show ?thesis
    by (elim disjE) (simp_all add: alike_def arms_unfold i386_dispatch_def i386_exec_alu_def alu_alike [OF new] acc_alike [OF new] Let_def)
qed

text \<open>The eight bytes from \<open>a\<close> on.\<close>

lemma byte_small: "(d :: u8) \<le> 7 \<Longrightarrow> d = 0 \<or> d = 1 \<or> d = 2 \<or> d = 3 \<or> d = 4 \<or> d = 5 \<or> d = 6 \<or> d = 7"
  by (simp add: word_le_nat_alt word_unat_eq_iff) arith

lemma byte_range8:
  fixes op a :: u8
  assumes "a \<le> op" "op \<le> a + 7" "unat a + 7 < 256"
  shows "op = a \<or> op = a + 1 \<or> op = a + 2 \<or> op = a + 3 \<or> op = a + 4 \<or> op = a + 5 \<or> op = a + 6 \<or> op = a + 7"
proof -
  have "unat (a + 7) = unat a + 7" using assms(3) by (simp add: unat_word_ariths)
  then have "unat (op - a) \<le> unat (7 :: u8)" using assms(1,2) by (simp add: unat_sub word_le_nat_alt)
  then have "op - a \<le> 7" by (simp only: word_le_nat_alt)
  moreover have "op = a + (op - a)" by simp
  ultimately show ?thesis using byte_small [of "op - a"] by (metis add.right_neutral)
qed

lemmas byte_ranges = byte_range8 [where a = "0x40", simplified] byte_range8 [where a = "0x48", simplified]
  byte_range8 [where a = "0x50", simplified] byte_range8 [where a = "0x58", simplified]
  byte_range8 [where a = "0x70", simplified] byte_range8 [where a = "0x78", simplified]
  byte_range8 [where a = "0x84", simplified] byte_range8 [where a = "0x90", simplified]
  byte_range8 [where a = "0xB0", simplified] byte_range8 [where a = "0xB8", simplified]

lemma byte_split:
  fixes op :: u8
  shows "op \<le> 0x5F \<Longrightarrow> op \<le> 0x47 \<or> (0x48 \<le> op \<and> op \<le> 0x4F) \<or> (0x50 \<le> op \<and> op \<le> 0x57) \<or> 0x58 \<le> op"
    "op \<le> 0x77 \<or> 0x78 \<le> op" "op \<le> 0xB7 \<or> 0xB8 \<le> op"
    "op \<le> 5 \<Longrightarrow> op = 0 \<or> op = 1 \<or> op = 2 \<or> op = 3 \<or> op = 4 \<or> op = 5"
    "0xD0 \<le> op \<Longrightarrow> op \<le> 0xD3 \<Longrightarrow> op = 0xD0 \<or> op = 0xD1 \<or> op = 0xD2 \<or> op = 0xD3"
  by (simp_all add: word_le_nat_alt word_unat_eq_iff; arith)+

text \<open>
  C13. The decoder is faithful. For each opcode of \<open>decoded_alike\<close>, on every bus and from every state without a LOCK prefix, fetching and
  decoding the instruction into its cacheable record and executing the record does exactly what the arm of the opcode
  \<open>match\<close> does: the same result or fault, cycles, registers, flags, fetched bytes and memory accesses in the same order.
\<close>

theorem i386_decoded_alike:
  assumes "decoded_alike op" "override_ok c" "\<not> c3_lock c"
  shows "\<exists>a. i386_dispatch F B op = Some a \<and>
    bindE (decode_op F B op) (\<lambda>(_, d). i386_exec_decoded F B d) (c, b) = a (c, b)"
proof -
  note cases = alike_arithmetic [OF assms(2,3), of op F B b] alike_operands [OF assms(2,3), of op F B b]
    alike_branches [OF assms(2,3), of op F B b] alike_immediates [of op F B c b] alike_registers [of op F B c b]
  have "0x40 \<le> op \<Longrightarrow> op \<le> 0x5F \<Longrightarrow> alike F B op c b"
    using byte_split(1) byte_ranges(1-4) cases(10-13) by blast
  moreover have "0x70 \<le> op \<Longrightarrow> op \<le> 0x7F \<Longrightarrow> alike F B op c b"
    using byte_split(2) byte_ranges(5,6) cases(5,6) by blast
  moreover have "0x84 \<le> op \<Longrightarrow> op \<le> 0x8B \<Longrightarrow> alike F B op c b"
    using byte_ranges(7) cases(2) by blast
  moreover have "0x90 \<le> op \<Longrightarrow> op \<le> 0x97 \<Longrightarrow> alike F B op c b"
    using byte_ranges(8) cases(14) by blast
  moreover have "0xB0 \<le> op \<Longrightarrow> op \<le> 0xBF \<Longrightarrow> alike F B op c b"
    using byte_split(3) byte_ranges(9,10) cases(8,9) by blast
  moreover have "0xD0 \<le> op \<Longrightarrow> op \<le> 0xD3 \<Longrightarrow> alike F B op c b" "op AND 0xC7 \<le> 5 \<Longrightarrow> alike F B op c b"
    using byte_split(5) byte_split(4) [of "op AND 0xC7"] cases(1,4) by blast+
  ultimately have "alike F B op c b"
    using assms(1) cases(3,4,7) unfolding decoded_alike_def by blast
  then show ?thesis unfolding alike_def .
qed

theorem i386_decoded_alike_witness:
  "\<exists>a. i386_dispatch (bitflags_all_std EFlags_DEFINED) far_call_rom 0x8B = Some a \<and>
    bindE (decode_op (bitflags_all_std EFlags_DEFINED) far_call_rom 0x8B)
      (\<lambda>(_, d). i386_exec_decoded (bitflags_all_std EFlags_DEFINED) far_call_rom d) (I386Cpu_new, ()) = a (I386Cpu_new, ())"
  by (rule i386_decoded_alike) (simp_all add: decoded_alike_def override_ok_def I386Cpu_new_def)

end
