(* ===== verification/X386_Levels.thy ===== *)
theory X386_Levels
  imports X386_Rings
begin

text \<open>
  Privilege levels of the 80386 after a far jump.
\<close>

text \<open>Reading a descriptor and marking it accessed keep the mode, the level and the segment registers.\<close>

lemma mode_of:
  "within same_mode m \<Longrightarrow> m (c, b) = (r, c', b') \<Longrightarrow>
     protected_mode F c' = protected_mode F c \<and> cpl F c' = cpl F c \<and> c3_seg c' = c3_seg c"
  using withinD [of same_mode m c b r c' b']
  by (auto simp: same_mode_def same_kernel_def kernel_regs_def cpl_def protected_mode_def)

text \<open>The cache of CS after loading descriptor \<open>d\<close> from selector \<open>sel\<close> at level \<open>n\<close>.\<close>

definition loaded_cs :: "u16 \<Rightarrow> I386Descriptor \<Rightarrow> u8 \<Rightarrow> SegReg" where
  "loaded_cs sel d n =
     \<lparr>sr_sel = (sel AND 0xFFFC) OR ucast n, sr_base = ds_base d, sr_limit = ds_limit d, sr_attrs = ds_attrs d OR 0x80\<rparr>"

lemma dpl_present: "(x OR 4) AND 3 = x AND (3 :: u16)"
  by (simp add: bit.conj_disj_distrib2)

lemma load_cs_level:
  assumes "load_cs F B sel d n (c, b) = (Inr x, c', b')" "protected_mode F c"
  shows "protected_mode F c' \<and> cpl F c' = ds_dpl d \<and> c3_seg c' = (c3_seg c)(CS := loaded_cs sel d n)"
proof -
  obtain e b2 where m: "mark_accessed F B d (c, b) = (Inr (), e, b2)" and c': "c' = commit_seg CS ((sel AND 0xFFFC) OR ucast n) d e"
    using assms(1) by (auto simp: load_cs_def thenE_def bindE_def modE_def split: sum.split_asm prod.split_asm)
  have "protected_mode F e" "c3_seg e = c3_seg c"
    using mode_of [OF mode.descriptor_read(3) m] assms(2) by simp_all
  then show ?thesis
    by (auto simp: c' commit_seg_def put_seg_def prepare_cold_write_def cpl_def protected_mode_def sr_dpl_def ds_dpl_def
        dpl_present loaded_cs_def)
qed

lemma ok_run:
  "thenE (guardE p e) m s = (Inr x, t) \<longleftrightarrow> \<not> p \<and> m s = (Inr x, t)"
  "bindE (checkE f) g (c, b) = (Inr x, t) \<longleftrightarrow> (\<exists>v. f c = Inr v \<and> g v (c, b) = (Inr x, t))"
  "thenE (checkE k) m (c, b) = (Inr x, t) \<longleftrightarrow> (\<exists>u. k c = Inr u \<and> m (c, b) = (Inr x, t))"
  "bindE (getE h) j (c, b) = (Inr x, t) \<longleftrightarrow> j (h c) (c, b) = (Inr x, t)"
  by (auto simp: thenE_def bindE_def guardE_def raiseE_def okE_def checkE_def getE_def split: sum.splits prod.splits)

lemma low_bits: "ucast (x AND 3 :: u16) \<le> (3 :: u8)"
proof -
  have "unat (x AND 3) \<le> 3" using word_and_le1 [of x 3] by (simp add: word_le_nat_alt)
  then show ?thesis by (simp add: word_le_nat_alt unsigned_ucast_eq take_bit_nat_eq_self_iff)
      (metis (no_types) le_trans mod_less_eq_dividend take_bit_eq_mod)
qed

lemma cpl_at_most_3: "cpl F c \<le> 3"
  by (simp add: cpl_def sr_dpl_def low_bits)

lemma selector_level:
  assumes "n \<le> 3"
  shows "((sel AND 0xFFFC) OR ucast n) AND 3 = (ucast (n :: u8) :: u16)"
proof -
  have "unat n \<le> 3" using assms by (simp add: word_le_nat_alt)
  then have "unat n = 0 \<or> unat n = 1 \<or> unat n = 2 \<or> unat n = 3" by arith
  then have "n = 0 \<or> n = 1 \<or> n = 2 \<or> n = 3" by (simp add: word_unat_eq_iff)
  then show ?thesis by (auto simp: bit.conj_disj_distrib2 and.assoc)
qed

text \<open>
  What a far jump to \<open>sel:off\<close> reads in the descriptor tables: a code segment \<open>d\<close>, named by \<open>sel\<close> itself or by the call
  gate that \<open>sel\<close> names, its selector and the offset. A call gate must be present and no more privileged than the level
  and the RPL.
\<close>

definition direct_target :: "eflag_ops \<Rightarrow> 'b I386Bus \<Rightarrow> u16 \<Rightarrow> u32 \<Rightarrow> I386Cpu \<times> 'b \<Rightarrow> I386Descriptor \<Rightarrow> u16 \<Rightarrow> u32 \<Rightarrow> bool" where
  "direct_target F B sel off s d dsel eip \<longleftrightarrow>
     fst (read_descriptor F B sel s) = Inr d \<and> is_code_data d \<and> dsel = sel \<and> eip = off \<and>
     (is_conforming d \<or> ucast (sel AND 3) \<le> cpl F (fst s))"

definition gate_target :: "eflag_ops \<Rightarrow> 'b I386Bus \<Rightarrow> u16 \<Rightarrow> I386Cpu \<times> 'b \<Rightarrow> I386Descriptor \<Rightarrow> u16 \<Rightarrow> u32 \<Rightarrow> bool" where
  "gate_target F B sel s d dsel eip \<longleftrightarrow>
     (\<exists>g t. read_descriptor F B sel s = (Inr g, t) \<and> \<not> is_code_data g \<and> sys_type g \<in> {4, 12} \<and> ds_present g \<and>
        cpl F (fst s) \<le> ds_dpl g \<and> ucast (sel AND 3) \<le> ds_dpl g \<and>
        dsel = gate_sel g \<and> fst (read_descriptor F B dsel t) = Inr d \<and>
        eip = (if sys_type g = 12 then gate_off g True else gate_off g False AND 0xFFFF))"

text \<open>The state after the jump: a reachable target at its level, in the cache of CS, and EIP within its limit.\<close>

definition arrives :: "eflag_ops \<Rightarrow> I386Descriptor \<Rightarrow> u16 \<Rightarrow> u32 \<Rightarrow> I386Cpu \<Rightarrow> I386Cpu \<Rightarrow> bool" where
  "arrives F d dsel eip c c' \<longleftrightarrow>
     dsel AND 0xFFFC \<noteq> 0 \<and> is_code d \<and> ds_present d \<and>
     (if is_conforming d then ds_dpl d \<le> cpl F c else ds_dpl d = cpl F c) \<and> eip \<le> ds_limit d \<and>
     cpl F c' = ds_dpl d \<and> r3_eip (c3_regs c') = eip \<and> c3_seg c' = (c3_seg c)(CS := loaded_cs dsel d (cpl F c))"

lemma jump_arrives:
  assumes "thenE (load_cs F B sel d (cpl F c)) (set_eip off) (e, b) = (Inr x, c', b')" "protected_mode F e" "c3_seg e = c3_seg c"
    "sel AND 0xFFFC \<noteq> 0" "is_code d" "ds_present d" "off \<le> ds_limit d"
    "if is_conforming d then ds_dpl d \<le> cpl F c else ds_dpl d = cpl F c"
  shows "arrives F d sel off c c'"
proof -
  obtain u b2 where l: "load_cs F B sel d (cpl F c) (e, b) = (Inr (), u, b2)" and c': "c' = c3_reg (\<lambda>r. r\<lparr>r3_eip := off\<rparr>) u"
    using assms(1) by (auto simp: thenE_def bindE_def set_eip_def regE_def modE_def split: sum.split_asm prod.split_asm)
  have "cpl F c' = cpl F u" by (simp add: c' cpl_def protected_mode_def)
  then show ?thesis
    using load_cs_level [OF l assms(2)] assms(3-8) unfolding arrives_def by (simp add: c')
qed

lemma reading:
  assumes "bindE (read_descriptor F B sel) f (c, b) = (Inr x, t)"
  obtains d e b2 where "read_descriptor F B sel (c, b) = (Inr d, e, b2)" "f d (e, b2) = (Inr x, t)"
    "protected_mode F e = protected_mode F c" "cpl F e = cpl F c" "c3_seg e = c3_seg c"
proof -
  obtain r e b2 where m: "read_descriptor F B sel (c, b) = (r, e, b2)" by (metis prod.exhaust)
  then obtain d where "r = Inr d" "f d (e, b2) = (Inr x, t)"
    using assms by (auto simp: bindE_def split: sum.split_asm)
  then show ?thesis using that mode_of [OF mode.descriptor_read(1) m, of F] m by auto
qed

lemma reachable_level:
  "check_code_reachable F sel d c = Inr u \<Longrightarrow>
     (if is_conforming d then ds_dpl d \<le> cpl F c else ds_dpl d = cpl F c) \<and> (is_conforming d \<or> ucast (sel AND 3) \<le> cpl F c)"
  "check_gate_target F sel d c = Inr u \<Longrightarrow> sel AND 0xFFFC \<noteq> 0 \<and> is_code d \<and> ds_present d \<and> ds_dpl d \<le> cpl F c"
  "check_gate F sel g c = Inr (gsel, goff, n, wide) \<Longrightarrow>
     ds_present g \<and> cpl F c \<le> ds_dpl g \<and> ucast (sel AND 3) \<le> ds_dpl g \<and> gsel = gate_sel g \<and> wide = (sys_type g = 12) \<and>
     goff = gate_off g wide"
  by (auto simp: check_code_reachable_def check_gate_target_def check_gate_def Let_def split: if_split_asm)

lemma jump_direct:
  assumes "thenE (guardE (\<not> is_code d) k1) (thenE (checkE (check_code_reachable F sel d)) (thenE (guardE (\<not> ds_present d) k2)
     (thenE (guardE (off > ds_limit d) k3) (bindE (getE (cpl F)) (\<lambda>n. thenE (load_cs F B sel d n) (set_eip off))))))
     (e, b) = (Inr x, c', b')" "protected_mode F e" "cpl F e = cpl F c" "c3_seg e = c3_seg c" "sel AND 0xFFFC \<noteq> 0"
  shows "arrives F d sel off c c' \<and> (is_conforming d \<or> ucast (sel AND 3) \<le> cpl F c)"
  using assms reachable_level(1) [of F sel d e]
  by (auto simp: ok_run linorder_not_less intro!: jump_arrives)

lemma jump_gate:
  assumes "thenE (checkE (check_gate_target F sel d)) (bindE (getE (cpl F)) (\<lambda>n.
     thenE (guardE (\<not> is_conforming d \<and> ds_dpl d \<noteq> n) k1) (thenE (guardE (off > ds_limit d) k2)
     (thenE (load_cs F B sel d n) (set_eip off))))) (e, b) = (Inr x, c', b')"
    "protected_mode F e" "cpl F e = cpl F c" "c3_seg e = c3_seg c"
  shows "arrives F d sel off c c'"
  using assms reachable_level(2) [of F sel d e]
  by (auto simp: ok_run linorder_not_less intro!: jump_arrives)

text \<open>The jump behind a call gate.\<close>

definition far_gate :: "eflag_ops \<Rightarrow> 'b I386Bus \<Rightarrow> u16 \<Rightarrow> u32 \<Rightarrow> bool \<Rightarrow> ('b, unit) exec" where
  "far_gate F B gsel goff wide =
     bindE (read_descriptor F B gsel) (\<lambda>gd.
     thenE (checkE (check_gate_target F gsel gd))
    (bindE (getE (cpl F)) (\<lambda>n.
     thenE (guardE (\<not> is_conforming gd \<and> ds_dpl gd \<noteq> n) (exc_gp (gsel AND 0xFFFC)))
    (let off = (if wide then goff else goff AND 0xFFFF) in
     thenE (guardE (off > ds_limit gd) (exc_gp 0))
    (thenE (load_cs F B gsel gd n) (set_eip off))))))"

lemma far_gate_arrives:
  assumes "far_gate F B gsel goff wide (e, b) = (Inr x, c', b')" "protected_mode F e" "cpl F e = cpl F c" "c3_seg e = c3_seg c"
  shows "\<exists>d. fst (read_descriptor F B gsel (e, b)) = Inr d \<and> arrives F d gsel (if wide then goff else goff AND 0xFFFF) c c'"
  using assms(1) unfolding far_gate_def Let_def
proof (rule reading)
  fix d e2 b2
  assume rd: "read_descriptor F B gsel (e, b) = (Inr d, e2, b2)"
    and kept: "protected_mode F e2 = protected_mode F e" "cpl F e2 = cpl F e" "c3_seg e2 = c3_seg e"
    and run: "thenE (checkE (check_gate_target F gsel d)) (bindE (getE (cpl F)) (\<lambda>n.
      thenE (guardE (\<not> is_conforming d \<and> ds_dpl d \<noteq> n) (exc_gp (gsel AND 0xFFFC)))
     (thenE (guardE (ds_limit d < (if wide then goff else goff AND 0xFFFF)) (exc_gp 0))
     (thenE (load_cs F B gsel d n) (set_eip (if wide then goff else goff AND 0xFFFF)))))) (e2, b2) = (Inr x, c', b')"
  show ?thesis
    using jump_gate [OF run] kept assms(2-4) rd by auto
qed

text \<open>
  C15. Privilege after a far jump. When a far jump in protected mode succeeds, its target is the code segment that the
  descriptor tables hold for the selector, or for the call gate the selector names. That segment is present code the old
  level may reach: of the same level if it is nonconforming, of the same or a more privileged one if it is conforming; a
  gate is present and open to the old level and the RPL. CS caches exactly that descriptor, with the old level as RPL, EIP
  is the offset and within the limit, no other segment changes, and the new level is the DPL of the segment, so that a
  conforming segment can raise the privilege.
\<close>

theorem i386_far_jump_level:
  assumes "jump_far F B sel off (c, b) = (Inr x, c', b')" "protected_mode F c"
  shows "\<exists>d dsel eip. (direct_target F B sel off (c, b) d dsel eip \<or> gate_target F B sel (c, b) d dsel eip) \<and>
    arrives F d dsel eip c c'"
proof -
  have nz: "sel AND 0xFFFC \<noteq> 0" using assms unfolding jump_far_def by (auto simp: ok_run)
  have "bindE (read_descriptor F B sel) (\<lambda>d.
    if is_code_data d then
      thenE (guardE (\<not> is_code d) (exc_gp (sel AND 0xFFFC))) (thenE (checkE (check_code_reachable F sel d))
     (thenE (guardE (\<not> ds_present d) (exc_np (sel AND 0xFFFC))) (thenE (guardE (off > ds_limit d) (exc_gp 0))
     (bindE (getE (cpl F)) (\<lambda>n. thenE (load_cs F B sel d n) (set_eip off))))))
    else if sys_type d = 4 \<or> sys_type d = 12 then
      bindE (checkE (check_gate F sel d)) (\<lambda>(gsel, goff, _, wide). far_gate F B gsel goff wide)
    else raiseE (exc_gp (sel AND 0xFFFC))) (c, b) = (Inr x, c', b')"
    using assms nz unfolding jump_far_def far_gate_def by (simp add: ok_run)
  then show ?thesis
  proof (rule reading)
    fix d e b2
    assume rd: "read_descriptor F B sel (c, b) = (Inr d, e, b2)"
      and kept: "protected_mode F e = protected_mode F c" "cpl F e = cpl F c" "c3_seg e = c3_seg c"
      and run: "(if is_code_data d then
          thenE (guardE (\<not> is_code d) (exc_gp (sel AND 0xFFFC))) (thenE (checkE (check_code_reachable F sel d))
         (thenE (guardE (\<not> ds_present d) (exc_np (sel AND 0xFFFC))) (thenE (guardE (off > ds_limit d) (exc_gp 0))
         (bindE (getE (cpl F)) (\<lambda>n. thenE (load_cs F B sel d n) (set_eip off))))))
        else if sys_type d = 4 \<or> sys_type d = 12 then
          bindE (checkE (check_gate F sel d)) (\<lambda>(gsel, goff, _, wide). far_gate F B gsel goff wide)
        else raiseE (exc_gp (sel AND 0xFFFC))) (e, b2) = (Inr x, c', b')"
    have prot: "protected_mode F e" using kept(1) assms(2) by simp
    show ?thesis
    proof (cases "is_code_data d")
      case True
      then have "arrives F d sel off c c' \<and> (is_conforming d \<or> ucast (sel AND 3) \<le> cpl F c)"
        using run by (intro jump_direct [OF _ prot kept(2,3) nz]) simp
      then show ?thesis
        using rd True by (intro exI [of _ d] exI [of _ sel] exI [of _ off]) (simp add: direct_target_def)
    next
      case False
      then have sys: "sys_type d = 4 \<or> sys_type d = 12" using run by (auto simp: raiseE_def split: if_split_asm)
      then obtain gsel goff n wide where g: "check_gate F sel d e = Inr (gsel, goff, n, wide)"
        and target: "far_gate F B gsel goff wide (e, b2) = (Inr x, c', b')"
        using run False by (auto simp: ok_run)
      note gate = reachable_level(3) [OF g, unfolded kept(2)]
      have "\<exists>d2. fst (read_descriptor F B gsel (e, b2)) = Inr d2 \<and>
          arrives F d2 gsel (if wide then goff else goff AND 0xFFFF) c c'"
        using far_gate_arrives [OF target prot kept(2,3)] .
      then show ?thesis
        using rd False sys gate unfolding gate_target_def by (fastforce split: if_split_asm)
    qed
  qed
qed

text \<open>A descriptor table with a conforming code segment of DPL 0 at selector 8, and a program at level 3.\<close>

definition conforming_ram :: "unit I386Bus" where
  "conforming_ram =
     (let byte = (\<lambda>(b :: unit) a. (if a = 8 \<or> a = 9 then 0xFF else if a = 13 then 0x9F else (0 :: u8), b))
      in far_call_rom\<lparr>ib_read := byte, ib_read16 := bus_read16 byte, ib_read32 := bus_read32 (bus_read16 byte)\<rparr>)"

definition level3_cpu :: I386Cpu where
  "level3_cpu = c3_reg (\<lambda>r. r\<lparr>r3_gdtr := \<lparr>dt_base = 0, dt_limit = 15\<rparr>\<rparr>) user_cpu"

lemma conforming_jump:
  "let F = bitflags_all_std EFlags_DEFINED; (r, c', b') = jump_far F conforming_ram 8 0x100 (level3_cpu, ())
   in protected_mode F level3_cpu \<and> cpl F level3_cpu = 3 \<and> r = Inr () \<and> cpl F c' = 0"
  by code_simp

theorem i386_far_jump_level_witness:
  "\<exists>c' d dsel eip. jump_far (bitflags_all_std EFlags_DEFINED) conforming_ram 8 0x100 (level3_cpu, ()) = (Inr (), c', ()) \<and>
     cpl (bitflags_all_std EFlags_DEFINED) level3_cpu = 3 \<and> cpl (bitflags_all_std EFlags_DEFINED) c' = 0 \<and>
     arrives (bitflags_all_std EFlags_DEFINED) d dsel eip level3_cpu c'"
proof -
  obtain c' where run: "jump_far (bitflags_all_std EFlags_DEFINED) conforming_ram 8 0x100 (level3_cpu, ()) = (Inr (), c', ())"
    and level: "protected_mode (bitflags_all_std EFlags_DEFINED) level3_cpu"
      "cpl (bitflags_all_std EFlags_DEFINED) level3_cpu = 3" "cpl (bitflags_all_std EFlags_DEFINED) c' = 0"
    using conforming_jump by (auto simp: Let_def split: prod.split_asm)
  then show ?thesis using i386_far_jump_level [OF run level(1)] by blast
qed

end
