(* ===== verification/X386_Descriptors.thy ===== *)
theory X386_Descriptors
  imports X386_Segments
begin

text \<open>
  Reading segment descriptors: what \<open>parse_descriptor\<close> makes of the two words of a descriptor of the architecture.
\<close>

text \<open>The architecture's encoding: a base, a limit of 20 bits, the access byte and the nibble of flags G, D/B, L and AVL.\<close>

definition desc_lo :: "u32 \<Rightarrow> u32 \<Rightarrow> u32" where
  "desc_lo base limit = (limit AND 0xFFFF) OR push_bit 16 base"

definition desc_hi :: "u32 \<Rightarrow> u32 \<Rightarrow> u8 \<Rightarrow> u8 \<Rightarrow> u32" where
  "desc_hi base limit access flags =
     (drop_bit 16 base AND 0xFF) OR push_bit 8 (ucast access) OR (limit AND 0xF0000) OR
     push_bit 20 (ucast (flags AND 0xF)) OR (base AND 0xFF000000)"

definition desc_limit :: "u32 \<Rightarrow> bool \<Rightarrow> u32" where
  "desc_limit limit pages = (let l = limit AND 0xFFFFF in if pages then push_bit 12 l OR 0xFFF else l)"

lemma descriptor_base: "ds_base (parse_descriptor addr (desc_lo base limit) (desc_hi base limit access flags)) = base"
  unfolding parse_descriptor_def desc_lo_def desc_hi_def Let_def
  by (simp, rule dword_eqI, unfold upto_32) (simp add: bit_simps byte_high_bit)

lemma raw_limit:
  "(desc_lo base limit AND 0xFFFF) OR (desc_hi base limit access flags AND 0x000F0000) = limit AND 0xFFFFF"
  unfolding desc_lo_def desc_hi_def
  by (rule dword_eqI, unfold upto_32) (simp add: bit_simps byte_high_bit)

lemma granularity: "desc_hi base limit access flags AND 0x00800000 \<noteq> 0 \<longleftrightarrow> bit flags 3"
proof -
  have "desc_hi base limit access flags AND 0x00800000 = (if bit flags 3 then 0x00800000 else 0)"
    unfolding desc_hi_def by (rule dword_eqI, unfold upto_32) (simp add: bit_simps byte_high_bit)
  then show ?thesis by simp
qed

text \<open>The access rights of a parsed descriptor: the access byte, and bits 16 to 19 of the high word as the flags.\<close>

lemma descriptor_attrs:
  "ds_attrs (parse_descriptor addr (desc_lo base limit) (desc_hi base limit access flags)) =
     ucast access OR push_bit 8 (ucast (drop_bit 16 limit AND 0xF))"
  unfolding parse_descriptor_def desc_lo_def desc_hi_def Let_def
  by (simp, rule word16_eqI, unfold upto_16) (simp add: bit_simps byte_high_bit)


lemma descriptor_limit:
  "ds_limit (parse_descriptor addr (desc_lo base limit) (desc_hi base limit access flags)) = desc_limit limit (bit flags 3)"
  by (simp add: parse_descriptor_def Let_def raw_limit granularity desc_limit_def)

lemma descriptor_access:
  "ucast (ds_attrs (parse_descriptor addr (desc_lo base limit) (desc_hi base limit access flags))) = access"
  unfolding descriptor_attrs
  by (rule bit_word_eqI) (auto simp: bit_simps)

lemma descriptor_db:
  "ds_db (parse_descriptor addr (desc_lo base limit) (desc_hi base limit access flags)) \<longleftrightarrow> bit limit 18"
proof -
  have "(ucast access OR push_bit 8 (ucast (drop_bit 16 limit AND 0xF))) AND (0x0400 :: u16) = (if bit limit 18 then 0x0400 else 0)"
    by (rule word16_eqI, unfold upto_16) (simp add: bit_simps byte_high_bit)
  then show ?thesis by (simp add: ds_db_def descriptor_attrs)
qed

text \<open>
  C16. Descriptors. Reading the two words of a code or data segment gives back its base, its limit scaled by the
  granularity flag and its access byte, but not its flags: the bit that selects the operand and stack size is bit 18 of
  the limit, whatever the D/B flag of the descriptor says.
\<close>

theorem i386_descriptor_read:
  "let d = parse_descriptor addr (desc_lo base limit) (desc_hi base limit access flags)
   in ds_base d = base \<and> ds_limit d = desc_limit limit (bit flags 3) \<and> ucast (ds_attrs d) = access \<and>
      (ds_db d \<longleftrightarrow> bit limit 18)"
  unfolding Let_def descriptor_base descriptor_limit descriptor_access descriptor_db by (intro conjI refl)

end
