(* ===== verification/X386_Repeat.thy ===== *)
theory X386_Repeat
  imports X386_Orders
begin

text \<open>
  The \<open>REP\<close> loop of the 80386 ends: an iteration leaves (E)CX alone, the loop decrements it. Without overflow
  checks it returns; with them it returns the same or panics, and it does panic once the cycle count overflows.
\<close>

subsection \<open>An iteration leaves the count alone\<close>

definition same_count :: "I386Cpu \<Rightarrow> I386Cpu \<Rightarrow> bool" where
  "same_count c c' \<longleftrightarrow> c3_asize32 c' = c3_asize32 c \<and> r3_gpr (c3_regs c') 1 = r3_gpr (c3_regs c) 1"

interpretation count: memory_order same_count
  by unfold_locales (auto simp: same_count_def)

lemma same_countD: "same_count c c' \<Longrightarrow> count_reg c' = count_reg c"
  by (simp add: same_count_def count_reg_def)

lemma count_updates:
  "within same_count (modE (i386_step_si F n))" "within same_count (modE (i386_step_di F n))"
  "within same_count (flagsE f)" "within same_count (regE (i386_set_reg8 0 v8))"
  "within same_count (regE (i386_set_reg16 0 v16))" "within same_count (regE (set_reg32 0 v32))"
  by (simp_all add: within_primitive same_count_def i386_step_si_def i386_step_di_def set_index_reg_def ESI_def EDI_def
      i386_set_reg16_def i386_set_reg8_def set_reg32_def Let_def)
    (simp add: within_def flagsE_def same_count_def split: prod.split)

lemma iterations_keep_count:
  "within same_count (str_movs F (string8 F B))" "within same_count (str_movs F (string16 F B))"
  "within same_count (str_movs F (string32 F B))" "within same_count (str_cmps F (string8 F B))"
  "within same_count (str_cmps F (string16 F B))" "within same_count (str_cmps F (string32 F B))"
  "within same_count (str_stos F (string8 F B))" "within same_count (str_stos F (string16 F B))"
  "within same_count (str_stos F (string32 F B))" "within same_count (str_lods F (string8 F B))"
  "within same_count (str_lods F (string16 F B))" "within same_count (str_lods F (string32 F B))"
  "within same_count (str_scas F (string8 F B))" "within same_count (str_scas F (string16 F B))"
  "within same_count (str_scas F (string32 F B))" "within same_count (str_ins F B (string8 F B))"
  "within same_count (str_ins F B (string16 F B))" "within same_count (str_ins F B (string32 F B))"
  "within same_count (str_outs F B (string8 F B))" "within same_count (str_outs F B (string16 F B))"
  "within same_count (str_outs F B (string32 F B))"
  unfolding str_movs_def str_cmps_def str_stos_def str_lods_def str_scas_def str_ins_def str_outs_def
    string8_def string16_def string32_def string_width.simps
  by (intro order_rules count_updates)+

subsection \<open>The loop\<close>

lemma low_half: "((x AND 0xFFFF0000) OR ucast (ucast w :: u16)) AND 0xFFFF = take_bit 16 (w :: u32)"
  by (rule dword_eqI, unfold upto_32) (simp add: bit_simps)

lemma count_decrements:
  assumes "count_reg c \<noteq> 0"
  shows "count_reg (set_count_reg (count_reg c - 1) c) = count_reg c - 1"
proof (cases "c3_asize32 c")
  case False
  let ?v = "r3_gpr (c3_regs c) 1 AND 0xFFFF"
  have "?v \<le> 0xFFFF" by (rule word_and_le1)
  then have "unat ?v \<le> 0xFFFF" by (simp add: word_le_nat_alt)
  moreover have "?v \<noteq> 0" using assms False by (simp add: count_reg_def)
  ultimately have "unat (?v - 1) < 2 ^ 16" by (simp add: unat_minus_one)
  then have "take_bit 16 (?v - 1) = ?v - 1" by (simp add: word_unat_eq_iff unsigned_take_bit_eq take_bit_nat_eq_self)
  then have "((r3_gpr (c3_regs c) 1 AND 0xFFFF0000) OR ucast (ucast (?v - 1) :: u16)) AND 0xFFFF = ?v - 1"
    by (simp only: low_half)
  then show ?thesis using False by (simp add: count_reg_def set_count_reg_def i386_set_reg16_def Let_def)
qed (simp add: count_reg_def set_count_reg_def Let_def)

lemma rep_returns:
  assumes "within same_count one"
  shows "rep_rounds False F one cmp z cy s \<noteq> None"
proof (induction "unat (count_reg (fst s))" arbitrary: cy s rule: less_induct)
  case less
  obtain q d e where q: "one s = (q, d, e)" by (metis prod.exhaust)
  show ?case
  proof (cases "count_reg (fst s) = 0")
    case True
    then show ?thesis by (subst rep_rounds.simps) simp
  next
    case False
    let ?d = "set_count_reg (count_reg d - 1) d"
    have "count_reg d = count_reg (fst s)" using withinD [OF assms, of "fst s" "snd s"] q same_countD by simp
    then have "unat (count_reg ?d) < unat (count_reg (fst s))"
      using False count_decrements [of d] by (simp add: unat_minus_one word_neq_0_conv unat_gt_0)
    then have "rep_rounds False F one cmp z (cy + 4) (?d, e) \<noteq> None" by (intro less) simp
    then show ?thesis using False q by (subst rep_rounds.simps) (auto simp: Let_def split: sum.split)
  qed
qed

text \<open>What a checked build returns, an unchecked one returns.\<close>

lemma rep_checked:
  assumes "rep_rounds True F one cmp z cy s = Some t"
  shows "rep_rounds False F one cmp z cy s = Some t"
proof (rule rep_rounds.raw_induct [where P = "\<lambda>chk F one cmp z cy s t. rep_rounds False F one cmp z cy s = Some t", OF _ assms])
  fix rounds :: "bool \<Rightarrow> eflag_ops \<Rightarrow> ('b, unit) exec \<Rightarrow> bool \<Rightarrow> bool \<Rightarrow> u32 \<Rightarrow> ('b, u32) panic_exec"
  fix chk F cmp z n t and one :: "('b, unit) exec" and s
  assume IH: "\<And>chk F one cmp z n s t. rounds chk F one cmp z n s = Some t \<Longrightarrow> rep_rounds False F one cmp z n s = Some t"
    and run: "(if count_reg (fst s) = 0 then Some (Inr n, s)
      else case one s of
        (Inl e, s) \<Rightarrow> Some (Inl e, s)
      | (Inr _, c, b) \<Rightarrow>
          let c = set_count_reg (count_reg c - 1) c
          in if chk \<and> unat n + 4 \<ge> 2 ^ 32 then None
             else
               let n = n + 4
               in if cmp \<and> fl_contains F (c3_eflags c) EFlags_ZF \<noteq> z then Some (Inr n, c, b)
                  else if count_reg c \<noteq> 0 \<and> i386_interrupt_pending F c then
                    Some (Inr n, c3_reg (\<lambda>r. r\<lparr>r3_eip := c3_start_eip c\<rparr>) c, b)
                  else rounds chk F one cmp z n (c, b)) = Some t"
  show "rep_rounds False F one cmp z n s = Some t"
    using run IH by (subst rep_rounds.simps) (auto simp: Let_def split: if_split_asm sum.split_asm prod.split_asm)
qed

text \<open>The count of cycles overflows: a checked build panics in the round that adds to it.\<close>

lemma rep_panics:
  "count_reg (fst s) \<noteq> 0 \<Longrightarrow> one s = (Inr (), t) \<Longrightarrow> 0xFFFFFFFC \<le> cy \<Longrightarrow> rep_rounds True F one cmp z cy s = None"
  by (subst rep_rounds.simps) (cases t, simp add: word_le_nat_alt Let_def)

end
