(* ===== verification/X386_Live.thy ===== *)
theory X386_Live
  imports X386_Rings X386_Repeat
begin

text \<open>
  The 80386 never gets stuck: the prefix scan ends within its sixteen rounds because an instruction has at most
  fifteen bytes, every byte that is not a prefix has an arm in the opcode \<open>match\<close>, the \<open>REP\<close> loop ends, and so
  every step and every batch returns.
\<close>

subsection \<open>Every byte is a prefix or an opcode\<close>

lemma first_section_None: "first_section es op = None \<longleftrightarrow> list_all (\<lambda>e. e op = None) es"
  by (induction es) (auto split: option.split)

definition i386_is_prefix :: "u8 \<Rightarrow> bool" where
  "i386_is_prefix b \<longleftrightarrow> b \<in> {0x26, 0x2E, 0x36, 0x3E, 0x64, 0x65, 0x66, 0x67, 0xF0, 0xF2, 0xF3}"

lemma prefix_effect_None: "prefix_effect db b = None \<longleftrightarrow> \<not> i386_is_prefix b"
  by (simp add: prefix_effect_def i386_is_prefix_def)

lemma i386_arm_None: "i386_arm chk F B op = None \<longleftrightarrow> i386_is_prefix op"
proof -
  have "i386_exec_string chk F B op = None \<and> i386_dispatch F B op = None \<longleftrightarrow> i386_is_prefix op"
  unfolding i386_dispatch_def first_section_None list.pred_inject i386_exec_alu_def i386_exec_group1_def
    i386_exec_push_seg_def i386_exec_escape_def i386_exec_bcd_def i386_exec_inc_dec_def i386_exec_push_pop_def
    i386_exec_bound_arpl_def i386_exec_imm_def i386_exec_string_def i386_exec_jcc_def i386_exec_test_xchg_def
    i386_exec_mov_def i386_exec_mov_direct_def i386_exec_mov_imm_def i386_exec_convert_def i386_exec_pushf_def
    i386_exec_shift_def i386_exec_ret_near_def i386_exec_frame_def i386_exec_ret_int_def i386_exec_ascii_def
    i386_exec_esc_def i386_exec_loop_def i386_exec_io_def i386_exec_jump_def i386_exec_control_def
    i386_exec_group_def Let_def if_Some_None i386_is_prefix_def insert_iff empty_iff byte_eq word_le_def
    by (simp add: unsigned_and_eq, rule byte_cases [of _ op], code_simp)
  then show ?thesis by (auto simp: i386_arm_def split: option.split)
qed

subsection \<open>The prefix scan\<close>

definition same_length :: "I386Cpu \<Rightarrow> I386Cpu \<Rightarrow> bool" where "same_length c c' \<longleftrightarrow> c3_ilen c' = c3_ilen c"

interpretation length: memory_order same_length
  by unfold_locales (auto simp: same_length_def)

lemma fetch8_length:
  assumes "fetch8 F B (c, b) = (Inr v, c', b')"
  shows "c3_ilen c < 15" "c3_ilen c' = c3_ilen c + 1"
proof -
  let ?c = "c\<lparr>c3_ilen := c3_ilen c + 1\<rparr>"
  show short: "c3_ilen c < 15"
    using assms by (auto simp: fetch8_def thenE_def bindE_def checkE_def split: if_split_asm)
  have "fetch_check ?c (r3_eip (c3_regs c)) = Inr ()"
    using assms short by (auto simp: fetch8_def thenE_def bindE_def checkE_def modE_def fetch_check_def not_le split: if_split_asm)
  moreover obtain q d e where rd: "lin_read8 F B (sr_base (c3_seg c CS) + r3_eip (c3_regs c)) (?c, b) = (q, d, e)"
    by (metis prod.exhaust)
  ultimately have "c3_ilen c' = c3_ilen d"
    using assms short by (auto simp: fetch8_def thenE_def bindE_def checkE_def modE_def getE_def regE_def okE_def not_le split: sum.split_asm)
  then show "c3_ilen c' = c3_ilen c + 1"
    using withinD [OF length.lin_read(1) rd] by (simp add: same_length_def)
qed

lemma rounds_suffice:
  assumes "prefix_rounds n F B db k (c, b) = (Inr x, s)" "unat (c3_ilen c) \<le> 15" "unat (c3_ilen c) + n \<ge> 16"
  shows "\<exists>op m. x = Some (op, m) \<and> \<not> i386_is_prefix op"
  using assms
proof (induction n arbitrary: k c b)
  case (Suc n)
  obtain q d e where f: "fetch8 F B (c, b) = (q, d, e)" by (metis prod.exhaust)
  then obtain v where q: "q = Inr v" using Suc.prems(1) by (cases q) (auto simp: bindE_def)
  note len = fetch8_length [OF f [unfolded q]]
  have short: "unat (c3_ilen c) < 15" using len(1) by (simp add: word_less_nat_alt)
  have succ: "unat (c3_ilen c + 1) = unat (c3_ilen c) + 1"
    using short by (simp add: unat_word_ariths)
  show ?case
  proof (cases "prefix_effect db v")
    case None
    then show ?thesis using Suc.prems(1) f q prefix_effect_None [of db v] by (auto simp: bindE_def okE_def)
  next
    case (Some g)
    have g: "c3_ilen (g d) = c3_ilen d" using Some by (auto simp: prefix_effect_def split: if_split_asm)
    have "prefix_rounds n F B db (k + 1) (g d, e) = (Inr x, s)"
      using Suc.prems(1) f q Some by (auto simp: bindE_def thenE_def modE_def)
    then show ?thesis
      by (rule Suc.IH) (use g len(2) short succ Suc.prems(3) in \<open>simp_all\<close>)
  qed
qed simp

subsection \<open>Every instruction, step and batch returns\<close>

definition returns :: "('b, 'a) panic_exec \<Rightarrow> bool" where "returns m \<longleftrightarrow> None \<notin> range m"

lemma string_op_returns: "within same_count m \<Longrightarrow> returns (i386_string_op False F m z)"
  using rep_returns [of m F z] by (auto simp: returns_def i386_string_op_def Let_def split: option.split_asm) (metis option.distinct(1))

lemma string_returns: "i386_exec_string False F B op = Some a \<Longrightarrow> returns a"
proof -
  have wide: "returns (string_at_osize False F m n z)" if "within same_count m" "within same_count n" for m n z
    using string_op_returns [OF that(1)] string_op_returns [OF that(2)]
    by (fastforce simp: returns_def string_at_osize_def split: if_split_asm)
  show "i386_exec_string False F B op = Some a \<Longrightarrow> returns a"
    unfolding i386_exec_string_def Let_def
    by (auto intro!: string_op_returns wide iterations_keep_count split: if_split_asm)
qed

lemma counted_returns: "count_cycles False n t \<noteq> None"
  by (cases t) (simp add: count_cycles_def split: sum.split)

lemma opcode_returns:
  assumes "\<not> i386_is_prefix op" shows "exec_opcode False F B probe op n (c, b) \<noteq> None"
proof -
  obtain a where a: "i386_arm False F B op = Some a" using assms i386_arm_None by blast
  then have "returns a"
    by (cases "i386_exec_string False F B op") (auto simp: i386_arm_def returns_def dest: string_returns [unfolded returns_def])
  then have "a s \<noteq> None" for s by (metis rangeI returns_def)
  then have after: "after_prefixes False F B op n s \<noteq> None" for s
  proof -
    obtain v where "a s = Some v" using \<open>\<And>s. a s \<noteq> None\<close> by blast
    then show ?thesis by (simp add: after_prefixes_def a counted_returns del: not_None_eq)
  qed
  then show ?thesis
    unfolding exec_opcode_def
    by (auto simp: Let_def counted_returns split: prod.split sum.split Decoded.split simp del: not_None_eq)
qed

lemma instruction_returns: "i386_exec_one False F B (c, b) \<noteq> None"
proof -
  have fused: "i386_exec_fused False F B probe (d, b) \<noteq> None" for probe d
  proof -
    let ?d = "(clear_decode d)\<lparr>c3_osize32 := sr_db (c3_seg d CS), c3_asize32 := sr_db (c3_seg d CS)\<rparr>"
    have scan: "scan_prefixes F B (clear_decode d, b) = prefix_rounds 16 F B (sr_db (c3_seg d CS)) 0 (?d, b)"
      by (simp add: scan_prefixes_def bindE_def thenE_def getE_def modE_def clear_decode_def)
    have len: "unat (c3_ilen ?d) \<le> 15" "unat (c3_ilen ?d) + 16 \<ge> 16" by (simp_all add: clear_decode_def)
    show ?thesis
    proof (cases "scan_prefixes F B (clear_decode d, b)")
      case (fields q e b2)
      show ?thesis
      proof (cases q)
        case (Inr x)
        have "prefix_rounds 16 F B (sr_db (c3_seg d CS)) 0 (?d, b) = (Inr x, e, b2)"
          using fields Inr unfolding scan by simp
        from rounds_suffice [OF this len] obtain op m where "x = Some (op, m)" "\<not> i386_is_prefix op" by blast
        then show ?thesis using fields Inr opcode_returns by (simp add: i386_exec_fused_def)
      qed (use fields in \<open>simp add: i386_exec_fused_def\<close>)
    qed
  qed
  show ?thesis
    unfolding i386_exec_one_def using fused
    by (auto simp: Let_def counted_returns split: option.split simp del: not_None_eq)
qed

lemma single_step_returns: "single_step False F B trap n t \<noteq> None"
  by (cases t) (simp add: single_step_def Let_def split: prod.split)

lemma step_returns: "i386_step_fast False F B (c, b) \<noteq> None" "i386_step_slow False F B (c, b) \<noteq> None"
proof -
  have one: "i386_exec_one False F B (d, b) \<noteq> None" for d by (rule instruction_returns)
  show "i386_step_fast False F B (c, b) \<noteq> None"
    unfolding i386_step_fast_def
    by (auto simp: Let_def one split: option.split prod.split sum.split simp del: not_None_eq)
  show "i386_step_slow False F B (c, b) \<noteq> None"
    unfolding i386_step_slow_def
    by (auto simp: Let_def one single_step_returns split: option.split prod.split sum.split simp del: not_None_eq)
qed

subsection \<open>A checked build\<close>

text \<open>\<open>agrees x y\<close>: the first returns what the second does, or not at all.\<close>

definition agrees :: "'a option \<Rightarrow> 'a option \<Rightarrow> bool" where "agrees x y \<longleftrightarrow> x = None \<or> x = y"

lemma agrees_refl [simp]: "agrees x x" "agrees None y"
  by (simp_all add: agrees_def)

lemma agrees_bind: "agrees x y \<Longrightarrow> (\<And>v. agrees (f v) (g v)) \<Longrightarrow> agrees (Option.bind x f) (Option.bind y g)"
  unfolding agrees_def by (cases x) (simp, metis bind.bind_lunit option.distinct(1))

lemma agrees_map: "agrees x y \<Longrightarrow> agrees (map_option f x) (map_option f y)"
  by (auto simp: agrees_def)

lemma counted_agrees: "agrees (count_cycles True n t) (count_cycles False n t)"
  by (cases t) (simp add: count_cycles_def agrees_def split: sum.split)

lemma string_agrees:
  "(i386_exec_string True F B op = None \<and> i386_exec_string False F B op = None) \<or>
   (\<exists>a a'. i386_exec_string True F B op = Some a \<and> i386_exec_string False F B op = Some a' \<and> (\<forall>s. agrees (a s) (a' s)))"
proof -
  have op: "agrees (i386_string_op True F m z t) (i386_string_op False F m z t)" for m :: "('b, unit) exec" and z t
  proof -
    have "agrees (rep_rounds True F m z k cy u) (rep_rounds False F m z k cy u)" for k cy u
      using rep_checked [of F m z k cy u] by (cases "rep_rounds True F m z k cy u") (auto simp: agrees_def)
    then show ?thesis by (cases t) (simp add: i386_string_op_def Let_def split: option.split)
  qed
  have wide: "agrees (string_at_osize True F m n z t) (string_at_osize False F m n z t)" for m n :: "('b, unit) exec" and z t
    by (cases t) (simp add: string_at_osize_def op)
  show ?thesis
    unfolding i386_exec_string_def Let_def by (simp add: op wide)
qed

lemma after_agrees: "agrees (after_prefixes True F B op n s) (after_prefixes False F B op n s)"
proof -
  have "\<forall>a a'. i386_arm True F B op = Some a \<longrightarrow> i386_arm False F B op = Some a' \<longrightarrow> agrees (a s) (a' s)"
    using string_agrees [of F B op] by (cases s) (auto simp: i386_arm_def)
  moreover have "i386_arm True F B op = None \<longleftrightarrow> i386_arm False F B op = None" by (simp add: i386_arm_None)
  ultimately show ?thesis
    unfolding after_prefixes_def
    by (cases "i386_arm True F B op"; cases "i386_arm False F B op")
      (auto intro!: agrees_bind agrees_map counted_agrees)
qed

lemma instruction_agrees: "agrees (i386_exec_one True F B s) (i386_exec_one False F B s)"
proof -
  have opcode: "agrees (exec_opcode True F B probe op n t) (exec_opcode False F B probe op n t)" for probe op n t
    by (cases t) (auto simp: exec_opcode_def Let_def after_agrees counted_agrees split: prod.split sum.split Decoded.split)
  have "agrees (i386_exec_fused True F B probe t) (i386_exec_fused False F B probe t)" for probe t
    by (cases t) (auto simp: i386_exec_fused_def opcode split: prod.split sum.split option.split)
  then show ?thesis
    by (cases s) (auto simp: i386_exec_one_def Let_def counted_agrees split: option.split)
qed

lemma single_step_agrees: "agrees (single_step True F B trap n t) (single_step False F B trap n t)"
  by (cases t) (simp add: single_step_def Let_def split: prod.split)

lemma step_agrees:
  "agrees (i386_step_fast True F B s) (i386_step_fast False F B s)"
  "agrees (i386_step_slow True F B s) (i386_step_slow False F B s)"
proof -
  have one: "i386_exec_one True F B t = None \<or> i386_exec_one True F B t = i386_exec_one False F B t" for t
    using instruction_agrees [of F B t] by (simp add: agrees_def)
  show "agrees (i386_step_fast True F B s) (i386_step_fast False F B s)"
    using one [of s] by (cases s) (auto simp: i386_step_fast_def Let_def)
  have same: "i386_exec_one True F B t = Some v \<Longrightarrow> i386_exec_one False F B t = Some v" for t v
    using one [of t] by auto
  show "agrees (i386_step_slow True F B s) (i386_step_slow False F B s)"
    by (cases s) (auto simp: i386_step_slow_def Let_def same single_step_agrees split: prod.split option.split sum.split)
qed

text \<open>What an exit says of the processor.\<close>

definition exit_true :: "eflag_ops \<Rightarrow> I386RunExit \<Rightarrow> I386Cpu \<Rightarrow> bool" where
  "exit_true F exit c =
     (case exit of
        I386_Completed \<Rightarrow> True
      | I386_Halted \<Rightarrow> c3_halted c \<and> \<not> i386_interrupt_pending F c
      | I386_Shutdown \<Rightarrow> c3_shutdown c
      | I386_HostTrap \<Rightarrow> c3_host_trap c \<noteq> None)"

lemma boundary_returns:
  "(\<exists>e c' b'. i386_run_boundary False F B (c, b) = Some (Some e, c', b') \<and> e \<noteq> I386_Completed \<and> exit_true F e c') \<or>
   (\<exists>c' b'. i386_run_boundary False F B (c, b) = Some (None, c', b'))"
  using step_returns(2) [of F B c b] by (auto simp: i386_run_boundary_def exit_true_def)

lemma loop_returns:
  assumes "unat k + n < 2 ^ 64"
  shows "\<exists>m exit c' b'. i386_run_loop False F B n k (c, b) = Some (m, exit, c', b') \<and> unat m \<le> unat k + n \<and>
           (exit = I386_Completed \<longleftrightarrow> unat m = unat k + n) \<and> exit_true F exit c'"
  using assms
proof (induction n arbitrary: k c b)
  case (Suc n)
  have k: "unat (k + 1) = unat k + 1" using Suc.prems by (simp add: unat_word_ariths)
  then have IH: "\<exists>m exit c' b'. i386_run_loop False F B n (k + 1) (d, e) = Some (m, exit, c', b') \<and> unat m \<le> unat k + Suc n \<and>
      (exit = I386_Completed \<longleftrightarrow> unat m = unat k + Suc n) \<and> exit_true F exit c'" for d e
    using Suc.IH [of "k + 1" d e] Suc.prems by simp
  show ?case
  proof (cases "i386_boundary_pending c")
    case True
    then show ?thesis
      using boundary_returns [of F B c b] IH by (auto; fastforce)
  next
    case False
    obtain n' d e where "i386_step_fast False F B (c, b) = Some (n', d, e)" using step_returns(1) [of F B c b] by auto
    then show ?thesis using False IH by simp
  qed
qed (simp add: exit_true_def)

lemma boundary_agrees: "agrees (i386_run_boundary True F B t) (i386_run_boundary False F B t)"
  by (cases t) (simp add: i386_run_boundary_def agrees_map step_agrees(2))

lemma loop_agrees: "agrees (i386_run_loop True F B n k t) (i386_run_loop False F B n k t)"
proof (induction n arbitrary: k t)
  case 0
  then show ?case by (cases t) simp
next
  case (Suc n)
  have fast: "i386_step_fast True F B t = None \<or> i386_step_fast True F B t = i386_step_fast False F B t"
    and slow: "i386_run_boundary True F B t = None \<or> i386_run_boundary True F B t = i386_run_boundary False F B t"
    using step_agrees(1) [of F B t] boundary_agrees [of F B t] by (simp_all add: agrees_def)
  then show ?case
    by (cases t) (auto simp: Suc.IH split: option.split prod.split)
qed

text \<open>
  C14. Every batch returns. In a build without integer overflow checks, from any state and on any bus, \<open>run\<close> neither
  panics nor loops, not even in a repeated string operation or a run of prefixes: it returns having executed at most the
  number of instructions asked for, that number exactly when the exit is \<open>Completed\<close>, and any other exit is true of the
  processor it leaves. A build with the checks returns the same, or panics.
\<close>

theorem i386_run_returns:
  "(\<exists>k exit c' b'. i386_run False F B n (c, b) = Some (k, exit, c', b') \<and>
      (if exit = I386_Completed then k = n else k \<le> n) \<and> exit_true F exit c') \<and>
   (i386_run True F B n (c, b) = i386_run False F B n (c, b) \<or> i386_run True F B n (c, b) = None)"
proof
  show "\<exists>k exit c' b'. i386_run False F B n (c, b) = Some (k, exit, c', b') \<and>
      (if exit = I386_Completed then k = n else k \<le> n) \<and> exit_true F exit c'"
  proof (cases "c3_host_trap c = None")
    case True
    then show ?thesis
      using loop_returns [of 0 "unat n" F B c b] unsigned_less [of n]
      by (auto simp: i386_run_def run_interp_def word_le_nat_alt word_unat_eq_iff)
  next
    case False
    then show ?thesis by (auto simp: i386_run_def run_interp_def exit_true_def)
  qed
  show "i386_run True F B n (c, b) = i386_run False F B n (c, b) \<or> i386_run True F B n (c, b) = None"
    using loop_agrees [of F B "unat n" 0 "(c, b)"] by (auto simp: i386_run_def run_interp_def agrees_def)
qed

end
