(* ===== verification/User_X386.thy ===== *)
theory User_X386
  imports User_Run X386_Live X386_Descriptors
begin

text \<open>
  The x86-32 adapter of the user-mode layer, \<open>src/usermode/x86_32.rs\<close>: the 80386 core as a \<open>UserArch\<close>, in flat
  ring-3 protected mode without paging over the address space, with a descriptor table in guest memory whose last
  three entries \<open>set_thread_area\<close> fills. The theorems join the adapter to the segment loads of the core.
\<close>

subsection \<open>Constants\<close>

definition GDT_BASE :: u32 where "GDT_BASE = 0xFFFFF000"
definition USER_CS :: u16 where "USER_CS = 0x23"
definition USER_DS :: u16 where "USER_DS = 0x2B"
definition TLS_ENTRY_MIN :: u32 where "TLS_ENTRY_MIN = 6"
definition TLS_ENTRY_MAX :: u32 where "TLS_ENTRY_MAX = 8"
definition GDT_LIMIT :: u16 where "GDT_LIMIT = 9 * 8 - 1"
definition CODE_ATTRS :: u16 where "CODE_ATTRS = 0x0CFA"
definition DATA_ATTRS :: u16 where "DATA_ATTRS = 0x0CF2"
definition CODE_DESC :: "u8 list" where "CODE_DESC = [0xFF, 0xFF, 0x00, 0x00, 0x00, 0xFA, 0xCF, 0x00]"
definition DATA_DESC :: "u8 list" where "DATA_DESC = [0xFF, 0xFF, 0x00, 0x00, 0x00, 0xF2, 0xCF, 0x00]"
definition SYSCALL_VECTOR :: u8 where "SYSCALL_VECTOR = 0x80"

subsection \<open>The bus\<close>

definition AddressSpace_bus :: "AddressSpace I386Bus" where
  "AddressSpace_bus =
     \<lparr>ib_read = read8, ib_write = write8, ib_read16 = read16, ib_read32 = read32, ib_write16 = write16,
      ib_write32 = write32, ib_io_read = bus_io_read, ib_io_write = bus_io_write\<rparr>"

subsection \<open>Processor set-up\<close>

definition flat_seg :: "u16 \<Rightarrow> u16 \<Rightarrow> SegReg" where
  "flat_seg sel attrs = \<lparr>sr_sel = sel, sr_base = 0, sr_limit = 0xFFFFFFFF, sr_attrs = attrs\<rparr>"

text \<open>The descriptor table: null and three unused entries, user code, user data, three empty slots.\<close>

definition user_gdt :: "AddressSpace \<Rightarrow> AddressSpace option" where
  "user_gdt mem =
     (let mem = as_map mem GDT_BASE PAGE_SIZE
      in case write_bytes mem (GDT_BASE + 4 * 8) CODE_DESC of
           (None, _) \<Rightarrow> None
         | (Some _, mem) \<Rightarrow>
             (case write_bytes mem (GDT_BASE + 5 * 8) DATA_DESC of
                (None, _) \<Rightarrow> None
              | (Some _, mem) \<Rightarrow> Some mem))"

definition user_regs :: "eflag_ops \<Rightarrow> u32 \<Rightarrow> u32 \<Rightarrow> X386Registers \<Rightarrow> X386Registers" where
  "user_regs F entry sp r =
     (let code = flat_seg USER_CS CODE_ATTRS; data = flat_seg USER_DS DATA_ATTRS
      in r\<lparr>r3_gdtr := \<lparr>dt_base = GDT_BASE, dt_limit = GDT_LIMIT\<rparr>, r3_idtr := \<lparr>dt_base = 0, dt_limit = 0\<rparr>,
           r3_cr0 := r3_cr0 r OR cr0_PE,
           r3_seg := (r3_seg r)(CS := code, SS := data, DS := data, ES := data, FS := data,
             GS := \<lparr>sr_sel = 0, sr_base = 0, sr_limit = 0, sr_attrs = 0\<rparr>),
           r3_gpr := (\<lambda>_. 0)(ESP := sp), r3_eip := entry, r3_eflags := fl_insert F (r3_eflags r) EFlags_IF\<rparr>)"

definition user_setup :: "eflag_ops \<Rightarrow> I386Cpu \<Rightarrow> AddressSpace \<Rightarrow> u32 \<Rightarrow> u32 \<Rightarrow> (I386Cpu \<times> AddressSpace) option" where
  "user_setup F c mem entry sp =
     map_option (\<lambda>mem.
       ((c3_reg (user_regs F entry sp) c)\<lparr>c3_syscall_int := Some SYSCALL_VECTOR, c3_trap_faults := True,
          c3_extensions := True\<rparr>, mem))
       (user_gdt mem)"

subsection \<open>System calls\<close>

definition take_syscall :: "I386Cpu \<Rightarrow> bool \<times> I386Cpu" where
  "take_syscall c = (if c3_host_trap c = Some I386_Syscall then (True, c\<lparr>c3_host_trap := None\<rparr>) else (False, c))"

definition syscall_number :: "I386Cpu \<Rightarrow> u32" where "syscall_number c = r3_gpr (c3_regs c) EAX"

definition syscall_args :: "I386Cpu \<Rightarrow> sys_args" where
  "syscall_args c = (\<lambda>i. r3_gpr (c3_regs c) ([EBX, ECX, EDX, ESI, EDI, EBP] ! i))"

definition set_syscall_ret :: "I386Cpu \<Rightarrow> u32 \<Rightarrow> I386Cpu" where
  "set_syscall_ret c v = c3_reg (\<lambda>r. r\<lparr>r3_gpr := (r3_gpr r)(EAX := v)\<rparr>) c"

text \<open>The first free slot, \<open>Inr None\<close> when there is none; \<open>Inl\<close> when the guest has unmapped its table.\<close>

fun free_slot :: "AddressSpace \<Rightarrow> u32 list \<Rightarrow> unit + u32 option" where
  "free_slot mem [] = Inr None"
| "free_slot mem (e # es) =
     (case read_bytes mem (GDT_BASE + e * 8) (replicate 8 0) of
        (None, _) \<Rightarrow> Inl ()
      | (Some _, d) \<Rightarrow> if d = replicate 8 0 then Inr (Some e) else free_slot mem es)"

definition tls_entries :: "u32 list" where
  "tls_entries = map of_nat [unat TLS_ENTRY_MIN..<unat TLS_ENTRY_MAX + 1]"

text \<open>\<open>Inl\<close> is the error number.\<close>

definition tls_entry :: "AddressSpace \<Rightarrow> u32 \<Rightarrow> u32 + u32" where
  "tls_entry mem entry_number =
     (if entry_number = - 1 then
        (case free_slot mem tls_entries of
           Inl _ \<Rightarrow> Inl EFAULT
         | Inr (Some e) \<Rightarrow> Inr e
         | Inr None \<Rightarrow> Inl ESRCH)
      else if TLS_ENTRY_MIN \<le> entry_number \<and> entry_number \<le> TLS_ENTRY_MAX then Inr entry_number
      else Inl EINVAL)"

definition tls_access :: "u32 \<Rightarrow> u8" where
  "tls_access flags =
     (let access = 0xF1 OR (if flags AND 0x8 \<noteq> 0 then 0 else 0x02)
      in if flags AND 0x20 \<noteq> 0 then access AND NOT 0x80 else access)"

definition tls_desc :: "u32 \<Rightarrow> u32 \<Rightarrow> u32 \<Rightarrow> u8 list" where
  "tls_desc base limit flags =
     (let flags_nibble = push_bit 3 (of_bool (flags AND 0x10 \<noteq> 0)) OR push_bit 2 (of_bool (flags AND 1 \<noteq> 0))
            OR of_bool (flags AND 0x40 \<noteq> 0)
      in [ucast (limit AND 0xFF), ucast (drop_bit 8 limit AND 0xFF), ucast (base AND 0xFF),
          ucast (drop_bit 8 base AND 0xFF), ucast (drop_bit 16 base AND 0xFF), tls_access flags,
          push_bit 4 flags_nibble OR ucast (drop_bit 16 limit AND 0xF), ucast (drop_bit 24 base)])"

definition set_thread_area :: "AddressSpace \<Rightarrow> u32 \<Rightarrow> u32 \<times> AddressSpace" where
  "set_thread_area mem uinfo =
     (case read_bytes mem uinfo (replicate 16 0) of
        (None, _) \<Rightarrow> (err EFAULT, mem)
      | (Some _, raw) \<Rightarrow>
          let entry_number = from_le (take 4 raw);
              base = from_le (take 4 (drop 4 raw));
              limit = from_le (take 4 (drop 8 raw));
              flags = from_le (take 4 (drop 12 raw))
          in case tls_entry mem entry_number of
               Inl e \<Rightarrow> (err e, mem)
             | Inr entry \<Rightarrow>
                 if limit > 0xFFFFF then (err EINVAL, mem)
                 else
                   (case write_bytes mem (GDT_BASE + entry * 8) (tls_desc base limit flags) of
                      (None, mem) \<Rightarrow> (err EFAULT, mem)
                    | (Some _, mem) \<Rightarrow> (0, write_u32 mem uinfo entry)))"

definition arch_syscall :: "I386Cpu \<Rightarrow> AddressSpace \<Rightarrow> u32 \<Rightarrow> sys_args \<Rightarrow> u32 option \<times> I386Cpu \<times> AddressSpace" where
  "arch_syscall c mem nr args =
     (if nr = NR_SET_THREAD_AREA then
        let (r, mem) = set_thread_area mem (args 0) in (Some r, c, mem)
      else (None, c, mem))"

subsection \<open>Faults\<close>

definition fault_name :: "u8 \<Rightarrow> string" where
  "fault_name vector =
     (if vector = 0 then '' (#DE divide error)''
      else if vector = 1 then '' (#DB debug)''
      else if vector = 4 then '' (#OF overflow)''
      else if vector = 5 then '' (#BR bound range)''
      else if vector = 6 then '' (#UD invalid opcode)''
      else if vector = 7 then '' (#NM no coprocessor)''
      else if vector = 12 then '' (#SS stack fault)''
      else if vector = 13 then '' (#GP general protection)''
      else if vector = 14 then '' (#PF page fault)''
      else [])"

text \<open>\<open>{}\<close> of a byte, and \<open>n\<close> lower-case hexadecimal digits as in \<open>{:08x}\<close>, \<open>{:04x}\<close> and \<open>{:#06x}\<close>.\<close>

definition decimal_u8 :: "u8 \<Rightarrow> string" where
  "decimal_u8 v =
     (let n = unat v; digit = (\<lambda>k. ''0123456789'' ! (k mod 10))
      in if n < 10 then [digit n]
         else if n < 100 then [digit (n div 10), digit n]
         else [digit (n div 100), digit (n div 10), digit n])"

definition hex_digits :: "nat \<Rightarrow> nat \<Rightarrow> string" where
  "hex_digits n v = map (\<lambda>i. lower_hex (v div 16 ^ (n - 1 - i))) [0..<n]"

definition take_fault :: "I386Cpu \<Rightarrow> string option \<times> I386Cpu" where
  "take_fault c =
     (case c3_host_trap c of
        Some (I386_Exception e) \<Rightarrow>
          let c = c\<lparr>c3_host_trap := None\<rparr>;
              msg = ''unhandled CPU exception '' @ decimal_u8 (ex_vector e) @ fault_name (ex_vector e);
              msg = (case ex_error e of
                       Some code \<Rightarrow> msg @ '', error code 0x'' @ hex_digits 4 (unat code)
                     | None \<Rightarrow> msg);
              msg = (if ex_vector e = 14 then msg @ '', CR2='' @ hex010 (r3_cr2 (c3_regs c)) else msg)
          in (Some msg, c)
      | _ \<Rightarrow> (None, c))"

definition user_dump :: "eflag_ops \<Rightarrow> I386Cpu \<Rightarrow> string" where
  "user_dump F c =
     (let r = c3_regs c;
          reg = (\<lambda>name i. name @ ''='' @ hex_digits 8 (unat (r3_gpr r i)));
          sel = (\<lambda>name i. name @ ''='' @ hex_digits 4 (unat (sr_sel (r3_seg r i))))
      in reg ''EAX'' EAX @ '' '' @ reg ''EBX'' EBX @ '' '' @ reg ''ECX'' ECX @ '' '' @ reg ''EDX'' EDX @ newline @
         reg ''ESI'' ESI @ '' '' @ reg ''EDI'' EDI @ '' '' @ reg ''EBP'' EBP @ '' '' @ reg ''ESP'' ESP @ newline @
         ''EIP='' @ hex_digits 8 (unat (r3_eip r)) @ '' EFLAGS='' @ hex_digits 8 (unat (image32 F (r3_eflags r))) @ '' '' @
         sel ''CS'' CS @ '' '' @ sel ''SS'' SS @ '' '' @ sel ''DS'' DS @ '' '' @ sel ''ES'' ES @ '' '' @
         sel ''FS'' FS @ '' '' @ sel ''GS'' GS)"

subsection \<open>The adapter\<close>

definition i386_user_step :: "bool \<Rightarrow> eflag_ops \<Rightarrow> I386Cpu \<Rightarrow> AddressSpace \<Rightarrow> (u32 \<times> I386Cpu \<times> AddressSpace) option" where
  "i386_user_step chk F c mem = i386_step chk F AddressSpace_bus (c, mem)"

definition i386_arch :: "bool \<Rightarrow> eflag_ops \<Rightarrow> I386Cpu UserArch" where
  "i386_arch chk F =
     \<lparr>ua_machine = EM_386, ua_new = I386Cpu_new, ua_setup = user_setup F, ua_step = i386_user_step chk F,
      ua_take_syscall = take_syscall, ua_syscall_number = syscall_number, ua_syscall_args = syscall_args,
      ua_set_syscall_ret = set_syscall_ret, ua_arch_syscall = arch_syscall, ua_invalidate_code = i386_invalidate_icache,
      ua_take_fault = take_fault, ua_pc = (\<lambda>c. r3_eip (c3_regs c)), ua_dead = c3_shutdown, ua_dump = user_dump F\<rparr>"

subsection \<open>Thread-local segments\<close>

text \<open>The flags nibble of a thread area, and its descriptor as two words.\<close>

definition tls_nibble :: "u32 \<Rightarrow> u8" where
  "tls_nibble flags =
     push_bit 3 (of_bool (flags AND 0x10 \<noteq> 0)) OR push_bit 2 (of_bool (flags AND 1 \<noteq> 0)) OR of_bool (flags AND 0x40 \<noteq> 0)"

lemma tls_desc_bytes: "tls_desc base limit flags =
    le_bytes 4 (desc_lo base limit) @ le_bytes 4 (desc_hi base limit (tls_access flags) (tls_nibble flags))"
proof -
  have nibble: "push_bit 4 (tls_nibble flags) OR ucast (drop_bit 16 limit AND 0xF) =
      (ucast (drop_bit 16 (desc_hi base limit (tls_access flags) (tls_nibble flags))) :: u8)"
    unfolding desc_hi_def by (rule byte_eqI) (simp_all add: bit_simps byte_high_bit)
  show ?thesis
    unfolding tls_desc_def tls_nibble_def [symmetric] Let_def nibble
    by (simp add: le_bytes_def upt_rec, intro conjI; (rule byte_eqI; simp add: desc_lo_def desc_hi_def bit_simps byte_high_bit))
qed

lemma tls_pages: "bit (tls_nibble flags) 3 \<longleftrightarrow> flags AND 0x10 \<noteq> 0"
  by (simp add: tls_nibble_def bit_simps)

text \<open>A double word in mapped memory, as the core reads it through its bus.\<close>

lemma mapped_byte:
  fixes a :: u32 and v :: u32
  assumes "mem.holds m (unat a) (le_bytes 4 v)" "k < 4"
  shows "mem_at m (unat (a + of_nat k)) = Some (ucast (drop_bit (8 * k) v))"
proof -
  have at: "mem_at m (unat a + k) = Some (ucast (drop_bit (8 * k) v))"
    using assms by (simp add: mem.holds_def) (simp add: le_bytes_def)
  then have "unat a + k < 2 ^ 32" using mem_at_limit [of "unat a + k" m] by (metis not_le option.distinct(1))
  then show ?thesis using at by (simp add: unat_word_ariths unat_of_nat)
qed

lemma mapped_dword:
  fixes a :: u32 and v :: u32
  assumes "mem.holds m (unat a) (le_bytes 4 v)"
  shows "read32 m a = (v, m)"
proof -
  note at = mapped_byte [OF assms, of 0] mapped_byte [OF assms, of 1] mapped_byte [OF assms, of 2] mapped_byte [OF assms, of 3]
  have v: "u32_from_le_bytes (ucast v) (ucast (drop_bit 8 v)) (ucast (drop_bit 16 v)) (ucast (drop_bit 24 v)) = v"
    using from_le_le_bytes [of 4 v] by (simp only: le_bytes_4 from_le_4) simp
  show ?thesis using at by (simp add: read32_exact peek8_def touch_def v)
qed

lemma system_read:
  assumes "\<not> paging c" "mem.holds m (unat a) (le_bytes 4 v)"
  shows "sys_read32 F AddressSpace_bus a (c, m) = (Inr v, c, m)"
proof -
  have "\<not> paging (c\<lparr>c3_supervisor := True\<rparr>)" using assms(1) by (simp add: paging_def)
  then show ?thesis
    by (simp add: sys_read32_def as_supervisor_def lin_read32_def if_paging_def bindE_def getE_def inE_def
        AddressSpace_bus_def mapped_dword [OF assms(2)])
qed

text \<open>The table entry of a selector, as the core reads it.\<close>

definition entry_holds :: "AddressSpace \<Rightarrow> u32 \<Rightarrow> u32 \<Rightarrow> u32 \<Rightarrow> bool" where
  "entry_holds m e lo hi \<longleftrightarrow>
     mem.holds m (unat (GDT_BASE + e * 8)) (le_bytes 4 lo) \<and> mem.holds m (unat (GDT_BASE + e * 8 + 4)) (le_bytes 4 hi)"

definition user_table :: "I386Cpu \<Rightarrow> bool" where
  "user_table c \<longleftrightarrow> r3_gdtr (c3_regs c) = \<lparr>dt_base = GDT_BASE, dt_limit = GDT_LIMIT\<rparr>"

definition user_selector :: "u32 \<Rightarrow> u16" where "user_selector e = ucast (e * 8 + 3)"

lemma user_entries:
  assumes "e \<in> {4, 5, 6, 7, 8}"
  shows "user_selector e AND 4 = 0" "ucast (user_selector e AND 0xFFF8) = e * 8" "e * 8 + 7 \<le> ucast GDT_LIMIT"
    "user_selector e AND 3 = 3" "user_selector e AND 0xFFFC \<noteq> 0"
  using assms by (auto simp: user_selector_def GDT_LIMIT_def)

lemma user_descriptor:
  assumes "\<not> paging c" "user_table c" "e \<in> {4, 5, 6, 7, 8}" "entry_holds m e lo hi"
  shows "read_descriptor F AddressSpace_bus (user_selector e) (c, m) =
    (Inr (parse_descriptor (GDT_BASE + e * 8) lo hi), c, m)"
proof -
  have e: "r3_gdtr (c3_regs c) = \<lparr>dt_base = GDT_BASE, dt_limit = GDT_LIMIT\<rparr>"
    "mem.holds m (unat (GDT_BASE + e * 8)) (le_bytes 4 lo)" "mem.holds m (unat (GDT_BASE + e * 8 + 4)) (le_bytes 4 hi)"
    using assms(2,4) by (simp_all add: user_table_def entry_holds_def)
  note reads = system_read [OF assms(1) e(2), of F] system_read [OF assms(1) e(3), of F]
  have "\<not> ucast GDT_LIMIT < e * 8 + 7" using user_entries(3) [OF assms(3)] by simp
  then show ?thesis
    using user_entries(1,2) [OF assms(3)]
    by (simp add: read_descriptor_def read_descriptor_err_def desc_table_def e(1) Let_def bindE_def getE_def okE_def reads)
qed

text \<open>Loading a present, accessed data segment of ring 3 from the table into a segment register other than SS.\<close>

definition user_data :: "I386Descriptor \<Rightarrow> bool" where
  "user_data d \<longleftrightarrow> is_code_data d \<and> \<not> is_code d \<and> \<not> is_conforming d \<and> ds_dpl d = 3 \<and> ds_present d \<and> ds_attrs d AND 1 \<noteq> 0"

lemma user_segment_load:
  assumes "\<not> paging c" "user_table c" "protected_mode F c" "cpl F c = 3" "e \<in> {4, 5, 6, 7, 8}" "entry_holds m e lo hi"
    and d: "user_data (parse_descriptor (GDT_BASE + e * 8) lo hi)" and "idx \<noteq> SS"
  shows "i386_load_seg F AddressSpace_bus idx (user_selector e) (c, m) =
    (Inr (), commit_seg idx (user_selector e) (parse_descriptor (GDT_BASE + e * 8) lo hi) (prepare_cold_write c), m)"
proof -
  let ?c = "prepare_cold_write c"
  have kept: "c3_regs ?c = c3_regs c" by (simp add: prepare_cold_write_def)
  have c: "\<not> paging ?c" "user_table ?c" "cpl F ?c = 3" "r3_cr0 (c3_regs c) AND cr0_PE \<noteq> 0"
    "\<not> fl_contains F (c3_eflags c) EFlags_VM"
    using assms(1-4) by (auto simp: paging_def user_table_def cpl_def protected_mode_def kept)
  note desc = user_descriptor [OF c(1,2) assms(5,6), of F]
  show ?thesis
    using d c(4,5) user_entries(4,5) [OF assms(5)] assms(8)
    by (simp add: user_data_def i386_load_seg_def load_seg_protected_def thenE_def bindE_def modE_def getE_def kept desc
        guardE_def okE_def mark_accessed_def c(3))
qed

lemma tls_user_data:
  assumes "flags AND 0x20 = 0"
  shows "user_data (parse_descriptor addr (desc_lo base limit) (desc_hi base limit (tls_access flags) nibble))"
proof -
  let ?d = "parse_descriptor addr (desc_lo base limit) (desc_hi base limit (tls_access flags) nibble)"
  have access: "tls_access flags = 0xF1 \<or> tls_access flags = 0xF3" using assms by (simp add: tls_access_def)
  have low: "(ucast (a :: u8) OR push_bit 8 x) AND k = (ucast a AND k :: u16)" if "push_bit 8 x AND k = 0" for a x k
    using that by (simp add: bit.conj_disj_distrib2)
  have high: "push_bit 8 x AND (1 :: u16) = 0" "push_bit 8 x AND (0x10 :: u16) = 0" "push_bit 8 x AND (0x18 :: u16) = 0"
    "push_bit 8 x AND (0x1C :: u16) = 0" "push_bit 8 x AND (0x80 :: u16) = 0" for x
    by (rule word16_eqI, unfold upto_16, simp add: bit_simps)+
  have "ucast (drop_bit 5 (ucast (a :: u8) OR push_bit 8 x) AND (3 :: u16)) = (drop_bit 5 a AND 3 :: u8)" for a x
    by (rule byte_eqI) (simp_all add: bit_simps)
  then have "ds_dpl ?d = drop_bit 5 (tls_access flags) AND 3" unfolding ds_dpl_def descriptor_attrs .
  then show ?thesis
    unfolding user_data_def is_code_data_def is_code_def is_conforming_def ds_present_def descriptor_attrs high [THEN low]
    using access by auto
qed

lemma tls_slot:
  assumes "tls_entry m num = Inr e"
  shows "e \<in> {6, 7, 8}" "num = - 1 \<or> num = e"
proof -
  have entries: "tls_entries = [6, 7, 8]" by (simp add: tls_entries_def TLS_ENTRY_MIN_def TLS_ENTRY_MAX_def upt_rec)
  have free: "free_slot m es = Inr (Some e) \<Longrightarrow> e \<in> set es" for es
    by (induction es) (auto split: prod.split_asm option.split_asm if_split_asm)
  have range: "6 \<le> e \<and> e \<le> 8 \<Longrightarrow> e \<in> {6, 7, 8}"
  proof -
    assume "6 \<le> e \<and> e \<le> 8"
    then have "unat e = 6 \<or> unat e = 7 \<or> unat e = 8" by (simp add: word_le_nat_alt) arith
    then show ?thesis by (simp add: word_unat_eq_iff)
  qed
  show "e \<in> {6, 7, 8}"
    using assms free [of tls_entries] range
    by (auto simp: tls_entry_def entries TLS_ENTRY_MIN_def TLS_ENTRY_MAX_def split: if_split_asm sum.split_asm option.split_asm)
  show "num = - 1 \<or> num = e"
    using assms by (auto simp: tls_entry_def split: if_split_asm)
qed

text \<open>What a thread area in guest memory asks for, and a successful call on it.\<close>

definition user_desc :: "u32 \<Rightarrow> u32 \<Rightarrow> u32 \<Rightarrow> u32 \<Rightarrow> u8 list" where
  "user_desc num base limit flags = le_bytes 4 num @ le_bytes 4 base @ le_bytes 4 limit @ le_bytes 4 flags"

lemma user_desc_read:
  assumes "mem.holds m (unat u) (user_desc num base limit flags)"
  shows "read_bytes m u (replicate 16 0) = (Some (), user_desc num base limit flags)"
    "from_le (take 4 (user_desc num base limit flags)) = num"
    "from_le (take 4 (drop 4 (user_desc num base limit flags))) = base"
    "from_le (take 4 (drop 8 (user_desc num base limit flags))) = limit"
    "from_le (take 4 (drop 12 (user_desc num base limit flags))) = flags"
  using mem.read_holds [OF assms] by (simp_all add: user_desc_def from_le_le_bytes)

lemma thread_area_call:
  assumes "mem.holds m (unat u) (user_desc num base limit flags)" "set_thread_area m u = (0, m')"
  obtains e m1 where "tls_entry m num = Inr e" "write_bytes m (GDT_BASE + e * 8) (tls_desc base limit flags) = (Some (), m1)"
    "m' = write_u32 m1 u e"
  using assms(2) that unfolding set_thread_area_def user_desc_read(1) [OF assms(1)]
  by (simp add: user_desc_read(2-) [OF assms(1)] err_def EFAULT_def EINVAL_def tls_entry_def ESRCH_def
      split: sum.split_asm if_split_asm prod.split_asm option.split_asm)

lemma write_ok:
  assumes "write_bytes m a data = (Some (), m')"
  shows "mem_at m' = overlay (mem_at m) (unat a) data" "mem.holds m' (unat a) data"
proof -
  have "mem.mapped m (unat a) (length data)" using mem.write_ok_iff [of m a data] assms by simp
  then show "mem_at m' = overlay (mem_at m) (unat a) data" "mem.holds m' (unat a) data"
    using mem.write_all [of m a data] mem.write_holds [of m a data] assms by simp_all
qed

lemma holds_overlay:
  "mem_at m' = overlay (mem_at m) a data \<Longrightarrow> mem.holds m b xs \<Longrightarrow> a + length data \<le> b \<or> b + length xs \<le> a \<Longrightarrow>
     mem.holds m' b xs"
  by (auto simp: mem.holds_def overlay_def)

lemma thread_area_memory:
  assumes "mem.holds m (unat u) (user_desc num base limit flags)" "unat u + 16 \<le> unat GDT_BASE"
    and call: "set_thread_area m u = (0, m')"
  obtains e where "e \<in> {6, 7, 8}" "num = - 1 \<or> num = e"
    "mem_at m' = overlay (overlay (mem_at m) (unat (GDT_BASE + e * 8)) (tls_desc base limit flags)) (unat u) (le_bytes 4 e)"
    "entry_holds m' e (desc_lo base limit) (desc_hi base limit (tls_access flags) (tls_nibble flags))"
proof -
  obtain e m1 where slot: "tls_entry m num = Inr e"
    and w: "write_bytes m (GDT_BASE + e * 8) (tls_desc base limit flags) = (Some (), m1)" and m': "m' = write_u32 m1 u e"
    using thread_area_call [OF assms(1) call] by blast
  note e = tls_slot [OF slot]
  have addr: "unat (GDT_BASE + e * 8) = unat GDT_BASE + unat e * 8"
    "unat (GDT_BASE + e * 8 + 4) = unat GDT_BASE + unat e * 8 + 4"
    using e(1) by (auto simp: GDT_BASE_def)
  have before: "mem.holds m1 (unat u) (user_desc num base limit flags)"
    using holds_overlay [OF write_ok(1) [OF w] assms(1)] assms(2) addr by (simp add: user_desc_def)
  then have "mem.mapped m1 (unat u) 4" by (simp add: mem.holds_def mem.mapped_def user_desc_def)
  then have at: "mem_at m' = overlay (mem_at m1) (unat u) (le_bytes 4 e)"
    using mem.write_all [of m1 u "le_bytes 4 e"] by (simp add: m' write_u32_def)
  have "mem.holds m' (unat (GDT_BASE + e * 8)) (tls_desc base limit flags)"
    by (rule holds_overlay [OF at write_ok(2) [OF w]]) (use assms(2) addr in simp)
  then have "entry_holds m' e (desc_lo base limit) (desc_hi base limit (tls_access flags) (tls_nibble flags))"
    unfolding entry_holds_def addr tls_desc_bytes mem.holds_def
    by (auto simp: nth_append add.assoc dest: spec [of _ "4 + _"])
  then show thesis using that e at write_ok(1) [OF w] by metis
qed

text \<open>The processor as the adapter keeps it, and as \<open>setup\<close> leaves it with the table in memory.\<close>

definition user_ready :: "eflag_ops \<Rightarrow> I386Cpu \<Rightarrow> bool" where
  "user_ready F c \<longleftrightarrow> \<not> paging c \<and> user_table c \<and> protected_mode F c \<and> cpl F c = 3"

lemma gdt_built:
  obtains m' where "user_gdt m = Some m'"
    "mem_at m' = overlay (overlay (mem_at (as_map m GDT_BASE PAGE_SIZE)) (unat GDT_BASE + 32) CODE_DESC)
      (unat GDT_BASE + 40) DATA_DESC"
proof -
  let ?m = "as_map m GDT_BASE PAGE_SIZE"
  have len: "length CODE_DESC = 8" "length DATA_DESC = 8" by (simp_all add: CODE_DESC_def DATA_DESC_def)
  have at: "unat (GDT_BASE + 32) = unat GDT_BASE + 32" "unat (GDT_BASE + 40) = unat GDT_BASE + 40"
    by (simp_all add: GDT_BASE_def)
  have page: "mem_at ?m (unat GDT_BASE + i) \<noteq> None" if "i < 4096" for i
    using that as_map_maps [of GDT_BASE "unat GDT_BASE + i" PAGE_SIZE m] by (simp add: GDT_BASE_def PAGE_SIZE_def)
  obtain r m1 where w: "write_bytes ?m (GDT_BASE + 32) CODE_DESC = (r, m1)" by fastforce
  have "mem.mapped ?m (unat GDT_BASE + 32) 8" using page by (simp add: mem.mapped_def add.assoc)
  then have w1: "write_bytes ?m (GDT_BASE + 32) CODE_DESC = (Some (), m1)"
    using mem.write_ok_iff [of ?m "GDT_BASE + 32" CODE_DESC] w by (simp add: at len)
  obtain q m2 where v: "write_bytes m1 (GDT_BASE + 40) DATA_DESC = (q, m2)" by fastforce
  have "mem.mapped m1 (unat GDT_BASE + 40) 8"
    using page by (simp add: mem.mapped_def write_ok(1) [OF w1] at overlay_def len add.assoc)
  then have w2: "write_bytes m1 (GDT_BASE + 40) DATA_DESC = (Some (), m2)"
    using mem.write_ok_iff [of m1 "GDT_BASE + 40" DATA_DESC] v by (simp add: at len)
  show thesis
    by (rule that [of m2]) (use w1 w2 in \<open>simp_all add: user_gdt_def Let_def write_ok(1) [OF w1] write_ok(1) [OF w2] at\<close>)
qed

lemma setup_ready:
  assumes "user_setup F c m entry sp = Some (c', m')" "\<not> paging c" "\<not> fl_contains F (fl_insert F (c3_eflags c) EFlags_IF) EFlags_VM"
  shows "user_ready F c'"
proof -
  obtain m2 where "user_gdt m = Some m2" using gdt_built by blast
  then have c': "c3_regs c' = user_regs F entry sp (c3_regs c)" using assms(1) by (auto simp: user_setup_def)
  have pe: "(x OR cr0_PE) AND cr0_PE \<noteq> 0" "(x OR cr0_PE) AND cr0_PG = x AND cr0_PG" for x
    by (simp_all add: cr0_PE_def cr0_PG_def bit.conj_disj_distrib2)
  show ?thesis
    using assms(2,3) pe
    by (simp add: user_ready_def paging_def user_table_def cpl_def protected_mode_def c' user_regs_def Let_def flat_seg_def
        sr_dpl_def CODE_ATTRS_def CS_def SS_def DS_def ES_def FS_def GS_def)
qed

text \<open>
  C25. Thread-local storage, from the system call to the segment register. When \<open>set_thread_area\<close> reports success for a
  present area that lies below the descriptor table, it has filled the entry it reports back in the area and changed
  nothing else, and loading that entry's selector into GS in user mode succeeds, gives GS the base of the area and its
  limit, in pages if the area says so, and leaves every other segment register and the memory as they are.
\<close>

theorem thread_area_loads:
  assumes "mem.holds m (unat u) (user_desc num base limit flags)" "unat u + 16 \<le> unat GDT_BASE" "flags AND 0x20 = 0"
    and "set_thread_area m u = (0, m')" and "user_ready F c"
  shows "\<exists>e c'. e \<in> {6, 7, 8} \<and> (num = - 1 \<or> num = e) \<and>
    mem_at m' = overlay (overlay (mem_at m) (unat (GDT_BASE + e * 8)) (tls_desc base limit flags)) (unat u) (le_bytes 4 e) \<and>
    i386_load_seg F AddressSpace_bus GS (user_selector e) (c, m') = (Inr (), c', m') \<and>
    sr_base (c3_seg c' GS) = base \<and> sr_limit (c3_seg c' GS) = desc_limit limit (flags AND 0x10 \<noteq> 0) \<and>
    (\<forall>s. s \<noteq> GS \<longrightarrow> c3_seg c' s = c3_seg c s)"
proof -
  obtain e where e: "e \<in> {6, 7, 8}" "num = - 1 \<or> num = e"
    and at: "mem_at m' = overlay (overlay (mem_at m) (unat (GDT_BASE + e * 8)) (tls_desc base limit flags)) (unat u) (le_bytes 4 e)"
    and entry: "entry_holds m' e (desc_lo base limit) (desc_hi base limit (tls_access flags) (tls_nibble flags))"
    using thread_area_memory [OF assms(1,2,4)] by blast
  let ?d = "parse_descriptor (GDT_BASE + e * 8) (desc_lo base limit) (desc_hi base limit (tls_access flags) (tls_nibble flags))"
  let ?c = "commit_seg GS (user_selector e) ?d (prepare_cold_write c)"
  have "i386_load_seg F AddressSpace_bus GS (user_selector e) (c, m') = (Inr (), ?c, m')"
    using assms(5) e(1) entry tls_user_data [OF assms(3)]
    by (intro user_segment_load) (auto simp: user_ready_def GS_def SS_def)
  moreover have "sr_base (c3_seg ?c GS) = base" "sr_limit (c3_seg ?c GS) = desc_limit limit (flags AND 0x10 \<noteq> 0)"
    "s \<noteq> GS \<Longrightarrow> c3_seg ?c s = c3_seg c s" for s
    by (simp_all add: commit_seg_def put_seg_def prepare_cold_write_def descriptor_base descriptor_limit tls_pages)
  ultimately show ?thesis using e at by blast
qed

text \<open>The areas that \<open>set_thread_area\<close> serves in a table that \<open>setup\<close> built.\<close>

lemma thread_area_served:
  assumes "mem.holds m (unat u) (user_desc num base limit flags)" "num \<in> {6, 7, 8}" "limit \<le> 0xFFFFF"
    "mem.mapped m (unat (GDT_BASE + num * 8)) 8"
  shows "fst (set_thread_area m u) = 0"
proof -
  have slot: "tls_entry m num = Inr num"
    using assms(2) by (auto simp: tls_entry_def TLS_ENTRY_MIN_def TLS_ENTRY_MAX_def)
  obtain m1 where "write_bytes m (GDT_BASE + num * 8) (tls_desc base limit flags) = (Some (), m1)"
    using mem.write_ok_iff [of m "GDT_BASE + num * 8" "tls_desc base limit flags"] assms(4)
    by (cases "write_bytes m (GDT_BASE + num * 8) (tls_desc base limit flags)") (simp add: tls_desc_bytes)
  then show ?thesis
    using assms(3) [unfolded linorder_not_less [symmetric]] unfolding set_thread_area_def user_desc_read(1) [OF assms(1)]
    by (simp add: user_desc_read(2-) [OF assms(1)] slot)
qed

text \<open>A thread area of 4 GiB at \<open>12345000\<close> in the first bytes of a page, before \<open>setup\<close>.\<close>

definition thread_memory :: AddressSpace where
  "thread_memory =
     snd (write_bytes (as_map AddressSpace_new 0x10000 PAGE_SIZE) 0x10000 (user_desc 6 0x12345000 0xFFFFF 0x51))"

lemma thread_memory_holds: "mem.holds thread_memory 0x10000 (user_desc 6 0x12345000 0xFFFFF 0x51)"
proof -
  have "mem.mapped (as_map AddressSpace_new 0x10000 PAGE_SIZE) (unat (0x10000 :: u32)) 16"
    unfolding mem.mapped_def by (intro allI impI as_map_maps) (simp_all add: PAGE_SIZE_def)
  then show ?thesis
    using mem.write_holds [of _ "0x10000 :: u32" "user_desc 6 0x12345000 0xFFFFF 0x51"]
    by (simp add: thread_memory_def user_desc_def)
qed

lemma setup_serves:
  obtains c m where "user_setup (bitflags_all_std EFlags_DEFINED) I386Cpu_new thread_memory 0x08048000 0xBFFFF000 = Some (c, m)"
    "user_ready (bitflags_all_std EFlags_DEFINED) c" "mem.holds m 0x10000 (user_desc 6 0x12345000 0xFFFFF 0x51)"
    "mem.mapped m (unat (GDT_BASE + 6 * 8)) 8"
proof -
  let ?F = "bitflags_all_std EFlags_DEFINED"
  let ?d = "user_desc 6 0x12345000 0xFFFFF 0x51"
  obtain m where g: "user_gdt thread_memory = Some m"
    "mem_at m = overlay (overlay (mem_at (as_map thread_memory GDT_BASE PAGE_SIZE)) (unat GDT_BASE + 32) CODE_DESC)
      (unat GDT_BASE + 40) DATA_DESC"
    using gdt_built by blast
  obtain c where s: "user_setup ?F I386Cpu_new thread_memory 0x08048000 0xBFFFF000 = Some (c, m)"
    using g(1) by (simp add: user_setup_def)
  have "\<not> paging I386Cpu_new" "\<not> fl_contains ?F (fl_insert ?F (c3_eflags I386Cpu_new) EFlags_IF) EFlags_VM"
    by code_simp+
  then have "user_ready ?F c" using setup_ready [OF s] by simp
  moreover have "mem.holds (as_map thread_memory GDT_BASE PAGE_SIZE) 0x10000 ?d"
    using thread_memory_holds as_map_keeps by (auto simp: mem.holds_def)
  then have "mem.holds m 0x10000 ?d"
    by (auto simp: mem.holds_def g(2) overlay_def user_desc_def GDT_BASE_def)
  moreover have "mem.mapped m (unat (GDT_BASE + 6 * 8)) 8"
    using as_map_maps [of GDT_BASE _ PAGE_SIZE thread_memory]
    by (auto simp: mem.mapped_def g(2) overlay_def GDT_BASE_def PAGE_SIZE_def CODE_DESC_def DATA_DESC_def)
  ultimately show thesis using that s by blast
qed

theorem thread_area_loads_witness:
  "\<exists>c m m' e c'. user_setup (bitflags_all_std EFlags_DEFINED) I386Cpu_new thread_memory 0x08048000 0xBFFFF000 = Some (c, m) \<and>
     set_thread_area m 0x10000 = (0, m') \<and>
     i386_load_seg (bitflags_all_std EFlags_DEFINED) AddressSpace_bus GS (user_selector e) (c, m') = (Inr (), c', m') \<and>
     sr_base (c3_seg c' GS) = 0x12345000 \<and> sr_limit (c3_seg c' GS) = 0xFFFFFFFF"
proof -
  obtain c m where s: "user_setup (bitflags_all_std EFlags_DEFINED) I386Cpu_new thread_memory 0x08048000 0xBFFFF000 = Some (c, m)"
    and ready: "user_ready (bitflags_all_std EFlags_DEFINED) c"
    and area: "mem.holds m (unat (0x10000 :: u32)) (user_desc 6 0x12345000 0xFFFFF 0x51)"
    and slot: "mem.mapped m (unat (GDT_BASE + 6 * 8)) 8"
    using setup_serves by auto
  obtain m' where call: "set_thread_area m 0x10000 = (0, m')"
    using thread_area_served [OF area _ _ slot] by (cases "set_thread_area m 0x10000") simp
  then show ?thesis
    using thread_area_loads [OF area _ _ call ready] s by (auto simp: desc_limit_def GDT_BASE_def)
qed

text \<open>The code descriptor that \<open>setup\<close> writes does not decode to the access rights it puts in the cache of CS.\<close>

lemma code_desc_attrs:
  "ds_attrs (parse_descriptor addr (from_le (take 4 CODE_DESC)) (from_le (drop 4 CODE_DESC))) = 0x0FFA"
  "CODE_ATTRS = 0x0CFA"
  by (simp_all add: parse_descriptor_def Let_def CODE_DESC_def CODE_ATTRS_def from_le_4 u32_from_le_bytes_def)

end
