(* ===== verification/Spec2Isabelle.thy ===== *)
theory Spec2Isabelle
  imports M6502_Disasm Arm_Flags Arm_Exceptions Arm_User Arm_Run Arm_Cache User_Run
    X86_Shift X86_Decimal X86_Flow X386_Tlb X386_HotSame X386_Levels
    X386_Descriptors User_X386
begin

text \<open>
  \<^bold>\<open>Remu: a verification development for the emulator framework under \<open>src/\<close>.\<close>

  Remu is a set of processor emulators written in Rust, each a self-contained crate module with its own
  bus trait, register file and step function, and, above them, layers that run guest programs: a
  \<open>qemu-user\<close>-style user-mode layer and two small operating-system layers. A core never owns its
  memory: every step takes the bus as an argument. The development models the MOS 6502 machine with its
  devices, the ARM32 (ARM7TDMI) core, the 8086 core, the 80386 core, and the user-mode layer: address space,
  loader, process and run loop.

  \<^bold>\<open>Conventions.\<close> Machine integers are words of their width, so \<open>+\<close> is the wrapping addition the code
  asks for with \<open>wrapping_add\<close>; where the code uses the checked \<open>+\<close> of Rust and a sum can overflow, the
  model takes the build's overflow checking as the parameter \<open>chk\<close> and returns \<open>None\<close> for the panic.
  \<open>&mut self\<close> methods are functions that return the new state; a bus is a record of functions over an
  arbitrary bus state. \<open>Result\<close> is a sum type (\<open>Inl\<close> the error) or an option, an index or slice that can
  be out of range is an option, a boxed array whose index is masked or bounded by its type is a
  function. Cycle counters are 64-bit words as in the code.

  \<^bold>\<open>Shared theories.\<close> \<open>Remu_Prelude\<close>: word types, little-endian halves, single-bit masks, words as numbers.
  \<open>Remu_Bytes\<close>: integers as byte lists, alignment, slices. \<open>Remu_Bitflags\<close>: the documented interface of
  the \<open>bitflags\<close> crate, which is not under \<open>src/\<close>: a record \<open>F\<close> of its operations that the 6502
  and the 8086 model take as a parameter, the laws it must satisfy, and the instance that computes them.

  \<^bold>\<open>MOS 6502 machine.\<close>
  \<^item> \<open>M6502_Registers\<close> (\<open>src/cpu/registers.rs\<close>), \<open>M6502_Bus\<close> (\<open>src/bus.rs\<close>, \<open>src/interrupt.rs\<close>,
    \<open>src/memory/mod.rs\<close>): status flags, the bus trait, vectors, the flat memory.
  \<^item> \<open>M6502_Device\<close> (\<open>src/device/mod.rs\<close>): the system bus that routes accesses to mapped devices before
    memory; \<open>M6502_Uart\<close> (\<open>src/device/uart.rs\<close>): the 16550 registers, FIFO and interrupt line.
  \<^item> \<open>M6502_Opcodes\<close> (\<open>src/cpu/opcodes.rs\<close>), \<open>M6502_Cpu\<close> (\<open>src/cpu/mod.rs\<close>, \<open>addressing.rs\<close>),
    \<open>M6502_Execute\<close> (\<open>execute.rs\<close>, \<open>dispatch.rs\<close>): the table of 256 opcodes, fetch, addressing modes,
    interrupts, instruction semantics, \<open>step\<close>; \<open>M6502_Disasm\<close> (\<open>disasm.rs\<close>): the disassembler.
  \<^item> \<open>M6502_Arith\<close> and \<open>M6502_Props\<close>: binary and decimal arithmetic against exact integer
    specifications, effective addresses, interrupt and subroutine protocols, memory confinement of a
    step, reachable status registers.

  \<^bold>\<open>ARM32 core.\<close>
  \<^item> \<open>Arm_Alu\<close> (\<open>src/arm32/alu.rs\<close>), \<open>Arm_Registers\<close> (\<open>registers.rs\<close>), \<open>Arm_Bus\<close> (the \<open>Bus\<close> trait
    and \<open>LinearMemory\<close> of \<open>mod.rs\<close>), \<open>Arm_Decode\<close> (\<open>decode.rs\<close>): shifter and adder, status registers
    and the banked file, memory with its wide fast paths, both instruction sets' decoders.
  \<^item> \<open>Arm_Cpu\<close>, \<open>Arm_Execute\<close>, \<open>Arm_Step\<close> (\<open>mod.rs\<close>, \<open>execute.rs\<close>, \<open>icache.rs\<close>): processor state,
    exception entry, the decoded-instruction cache, one definition per instruction handler, the
    instruction boundary, \<open>step\<close> and \<open>run\<close>.
  \<^item> \<open>Arm_Flags\<close>, \<open>Arm_Exceptions\<close>, \<open>Arm_User\<close>, \<open>Arm_Run\<close>: comparison semantics of the condition codes,
    exact exception entry and return, confinement of User mode, batches as single steps.
  \<^item> \<open>Arm_CacheFree\<close> and \<open>Arm_Cache\<close>: no handler reads the cache, and the caching machine simulates a
    machine that decodes every instruction afresh. \<open>trace\<close> runs a bounded number of steps, the bound a
    variable of the theorem; the clock hypothesis says that the 64-bit store clock, which a step
    advances at most sixteen times, does not overflow in them.

  \<^bold>\<open>8086 core.\<close> Methods on processor and bus are actions of the state monad over both, in the order of the code.
  \<^item> \<open>X86_Registers\<close> (\<open>src/x86/registers.rs\<close>), \<open>X86_Alu\<close> (\<open>alu.rs\<close>), \<open>X86_Div\<close> (\<open>div.rs\<close>): FLAGS and
    register file, the arithmetic of both widths as one definition over the word length, and the division
    microcode, which \<open>div_exact\<close> and \<open>idiv_exact\<close> prove to divide.
  \<^item> \<open>X86_Cpu\<close>, \<open>X86_Execute\<close>, \<open>X86_Step\<close> (\<open>mod.rs\<close>, \<open>modrm.rs\<close>, \<open>execute.rs\<close>): bus and memory, stack,
    interrupts, operands, one definition per section of the opcode \<open>match\<close>, prefixes and \<open>step\<close>.
  \<^item> \<open>X86_Arith\<close>, \<open>X86_Shift\<close>, \<open>X86_Decimal\<close>: sums, comparisons, shifts, products and decimal adjustments
    against integers, at every width that meets the contract \<open>alu_size\<close>.
  \<^item> \<open>X86_Frame\<close>: what no instruction changes, and the states a host can reach; \<open>X86_Bounds\<close>: the opcode
    table is complete and addresses have 20 bits; \<open>X86_Flow\<close>: when a step returns, interrupt and \<open>IRET\<close>,
    and the repeated string move as a block copy.

  \<^bold>\<open>80386 core.\<close> Fallible methods on processor and bus are error-state actions: a function from both to an
  exception or a result and the new state, which an exception leaves where it was raised, as \<open>?\<close> does.
  \<^item> \<open>X386_Registers\<close>, \<open>X386_Alu\<close>, \<open>X386_Bus\<close>, \<open>X386_Insn\<close>, \<open>X386_Cpu\<close> (\<open>src/x86_32/registers.rs\<close>, \<open>alu.rs\<close>,
    \<open>mod.rs\<close>, \<open>decode.rs\<close>, \<open>icache.rs\<close>): register file and EFLAGS, arithmetic at three widths, memory, the packed
    decoded instruction, the processor with its instruction cache, TLB and host traps.
  \<^item> \<open>X386_Paging\<close> (\<open>paging.rs\<close>), \<open>X386_Access\<close> (\<open>mod.rs\<close>, \<open>modrm.rs\<close>), \<open>X386_Segments\<close> and \<open>X386_Protected\<close>
    (\<open>protected.rs\<close>): translation, checked accesses, fetch and prefixes, operands, descriptors, segment loads, far
    transfers, gates, returns, interrupt delivery and the I/O permission map.
  \<^item> \<open>X386_Execute\<close>, \<open>X386_Opcodes\<close>, \<open>X386_Transfers\<close>, \<open>X386_Strings\<close>, \<open>X386_Groups\<close>, \<open>X386_Execute0F\<close>,
    \<open>X386_Dispatch\<close> (\<open>execute.rs\<close>, \<open>execute_0f.rs\<close>): one definition per helper and per section of the two opcode
    \<open>match\<close>es. \<open>X386_Decode\<close> and \<open>X386_ExecDecoded\<close> (\<open>decode.rs\<close>): the decoder and the execution of its records.
    \<open>X386_Step\<close> (\<open>mod.rs\<close>): one instruction, the fault path with its rewind, the boundary, \<open>step\<close> and \<open>run\<close>.
  \<^item> \<open>X386_Tlb\<close>: translation with the TLB refines a lookup in the page tables, and a store faults at the
    first byte the tables do not allow and then writes nothing.
  \<^item> \<open>X386_Orders\<close>, \<open>X386_PlainOrder\<close>, \<open>X386_SystemOrder\<close>: each action stays within every preorder on processors
    that satisfies the interface of what it does; the theories below instantiate the preorder.
  \<^item> \<open>X386_Precise\<close>: an instruction that faults is undone; \<open>X386_Rings\<close>: a program outside ring 0 never changes a
    system register; \<open>X386_Levels\<close>: the segment, gate and privilege level of a far jump; \<open>X386_Descriptors\<close>: what a
    descriptor is read as; \<open>X386_Repeat\<close>: when a REP loop returns and when the sum of its cycles panics; \<open>X386_Live\<close>:
    every batch returns in a build without overflow checks;
    \<open>X386_DecodeSame\<close> and \<open>X386_HotSame\<close>: executing a decoded record is executing the instruction.

  \<^bold>\<open>User-mode layer.\<close>
  \<^item> \<open>User_AddrSpace\<close> and \<open>User_Layout\<close> (\<open>src/usermode/addr_space.rs\<close>): the chunk table against the
    sparse byte map \<open>mem_at\<close>, the fault latch, bulk copies, strings, and the layout that sequences of
    mapping calls keep.
  \<^item> \<open>User_Elf\<close> (\<open>elf.rs\<close>): parsing and loading of static executables.
  \<^item> \<open>User_Fs\<close> (\<open>linux/fs.rs\<close>, \<open>linux/abi.rs\<close>): descriptors and the file system calls over an abstract
    host; \<open>write_contract\<close> is what \<open>sys_write_exact\<close> relies on of its streams.
  \<^item> \<open>User_Linux\<close> (\<open>linux/mod.rs\<close>): the process, the initial stack and the system call table;
    \<open>User_Stack\<close>: the entry image as the guest reads it back.
  \<^item> \<open>User_Run\<close> (\<open>src/usermode/mod.rs\<close>): loading a program, a step with its system call and fault polls, and
    the run loop, over any processor \<open>UserArch\<close>; \<open>goes_on\<close> and \<open>ends_with\<close> are the process it runs.
  \<^item> \<open>User_X386\<close> (\<open>src/usermode/x86_32.rs\<close>): the 80386 core as such a processor, with the descriptor table in guest
    memory; thread-local storage from the system call to the segment register.

  \<^bold>\<open>Interfaces.\<close> Each locale states what a component's clients rely on and is interpreted on the code's own
  definitions: \<open>ram_bus\<close> and \<open>full_ram_bus\<close> (what the 6502 stack and fetch need of memory), \<open>banked_file\<close> (a banked register file is a
  flat file of physical cells), \<open>arm_memory\<close> (reads return the last byte written to the same cell, wide
  accesses are byte accesses), \<open>cached_memory\<close> (aliasing addresses share a write stamp),
  \<open>byte_memory\<close> (bulk copies transfer the longest mapped prefix). \<open>alu_size\<close> is what the 8086 arithmetic needs
  of a width, \<open>cpu_invariant\<close> what an invariant of the processor may depend on for every opcode to keep it.
  \<open>table_memory\<close> is what page tables need of memory. \<open>cpu_order\<close> and its extensions \<open>memory_order\<close>,
  \<open>fetch_order\<close>, \<open>decode_order\<close>, \<open>plain_order\<close>, \<open>commit_order\<close>, \<open>segment_order\<close>, \<open>system_order\<close> and
  \<open>instruction_order\<close> say which updates of the processor an order allows, from CR2 on a page fault up to a whole
  instruction; each theory that uses them interprets the ones it needs.

  \<^bold>\<open>Termination.\<close> Loops are structural or have a \<open>termination\<close> proof; the only bounded executions are the
  step counts that the statements quantify over. The user-mode run loop has no bound and is a
  \<open>partial_function\<close>: \<open>run_is_the_process\<close> says exactly when and with what it returns. So is the prefix loop of the
  8086: \<open>x86_step_returns\<close>. Its repeated string loop runs on the initial \<open>CX\<close> as fuel, which each round
  decrements, so the fuel never runs out first. The prefix scan of the 80386 has sixteen rounds of fuel, one more
  than an instruction has bytes. Its string loops are a \<open>partial_function\<close>, \<open>rep_rounds\<close>, which counts (E)CX down
  (\<open>rep_returns\<close>) and is \<open>None\<close> where \<open>chk\<close> is set and the sum of its cycles overflows; \<open>i386_run_returns\<close> says that this
  is the only way a batch can fail. Nested fault delivery has the four rounds of the code, and \<open>ENTER\<close> its level, which is below 32.

  \<^bold>\<open>Findings.\<close> \<open>icache_stale_alias\<close>: on memories below 64 MiB, the default included, a store through an
  alias address leaves a stale decode in the cache, which the cache's comments exclude.
  \<open>load_end_of_memory\<close>: a segment that ends at 4 GiB is accepted by the parser and overflows in the loader, so
  \<open>load_exact\<close> is about images that end below the last page.
  \<open>x86_step_returns\<close>: a code segment of prefix bytes alone keeps one \<open>step\<close> of the 8086 running forever.
  \<open>i386_far_jump_level\<close>: a far jump to a conforming segment raises the privilege of a user program, which the
  comment of \<open>load_cs\<close> excludes. \<open>i386_descriptor_read\<close>: the 80386 takes the operand and stack size of a segment from
  bit 18 of its limit, not from its D/B flag; \<open>code_desc_attrs\<close>: so the access rights that the user-mode adapter puts in
  the segment caches are not those of its descriptors. \<open>rep_panics\<close>: the cycles of a long enough REP overflow 32 bits.

  \<^bold>\<open>Not modelled.\<close> The x86-64 core repeats the 80386 at 64 bits with long mode, and the
  two OS layers run on top of the 80386 and the x86-64 core; they are not modelled, and no theorem here speaks of them.
  The template JIT emits host
  machine code whose meaning is the host's; the Python bindings and the command line front ends are glue
  and I/O. Counters and re-decoding checks that exist only in test, debug or \<open>perf-stats\<close> builds, debug
  formatting and trace output are left out.
\<close>

end
